(* ===== verification/Prelude.thy ===== *)
theory Prelude
  imports Main "HOL-Library.Word"
begin

text \<open>
  Shared vocabulary of the development: the integer widths of the kernel sources, the
  error codes, and the control structure of the drivers. A C function that returns
  \<open>0\<close> or a negative \<open>errno\<close> and hands its result back through a pointer is a
  function from the driver's state to the pair of its outcome (\<open>Inl\<close> the error,
  \<open>Inr\<close> the result) and the new state. \<open>bindE\<close> is the idiom
  \<open>err = f(); if (err) return err;\<close>, \<open>ignoreE\<close> a call whose return value is
  dropped, \<open>forE\<close> a counted loop whose body returns early on an error.
  \<open>BUF_OVERRUN\<close>, \<open>NULL_DEREF\<close> and \<open>DOUBLE_FREE\<close> are no error codes of the
  sources, nor is \<open>KERNEL_BUG\<close>: they mark a run that would write past the end of a buffer, follow a null pointer,
  free a buffer twice, use one that has been freed, use a variable that was never set or stop in
  \<open>BUG_ON\<close>, so that the absence or presence of such runs can be proved.
\<close>

unbundle bit_operations_syntax

type_synonym u8 = "8 word"
type_synonym u16 = "16 word"
type_synonym u32 = "32 word"
type_synonym u64 = "64 word"

datatype errno =
    EPERM | EIO | ENOMEM | EFAULT | EBUSY | ENODEV | EINVAL | ENFILE | ENOSPC
  | EMSGSIZE | EOPNOTSUPP | ETIMEDOUT | EPROBE_DEFER | ENOTSUPP
  | EOTHER int | BUF_OVERRUN | NULL_DEREF | DOUBLE_FREE | USE_AFTER_FREE | KERNEL_BUG | UNINIT

type_synonym ('s, 'a) io = "'s \<Rightarrow> (errno + 'a) \<times> 's"

named_theorems io_simps "equations that run the outcome of an operation"

section \<open>Sequencing\<close>

definition retE :: "'a \<Rightarrow> ('s, 'a) io" where
  "retE x s = (Inr x, s)"

definition failE :: "errno \<Rightarrow> ('s, 'a) io" where
  "failE e s = (Inl e, s)"

definition bindE :: "('s, 'a) io \<Rightarrow> ('a \<Rightarrow> ('s, 'b) io) \<Rightarrow> ('s, 'b) io" where
  "bindE m f s = (case m s of (Inl e, s') \<Rightarrow> (Inl e, s') | (Inr x, s') \<Rightarrow> f x s')"

definition liftE :: "('s \<Rightarrow> 'a \<times> 's) \<Rightarrow> ('s, 'a) io" where
  "liftE f s = (let (x, s') = f s in (Inr x, s'))"

definition ignoreE :: "('s, 'a) io \<Rightarrow> ('s, unit) io" where
  "ignoreE m s = (Inr (), snd (m s))"

definition catchE :: "('s, 'a) io \<Rightarrow> 'a \<Rightarrow> ('s, 'a) io" where
  "catchE m d s = (case m s of (Inl e, s') \<Rightarrow> (Inr d, s') | (Inr x, s') \<Rightarrow> (Inr x, s'))"

primrec forE :: "nat list \<Rightarrow> (nat \<Rightarrow> ('s, unit) io) \<Rightarrow> ('s, unit) io" where
  "forE [] f = retE ()"
| "forE (i # is) f = bindE (f i) (\<lambda>_. forE is f)"

lemma fst_retE [simp, io_simps]: "fst (retE x s) = Inr x"
  by (simp add: retE_def)

lemma snd_retE [simp, io_simps]: "snd (retE x s) = s"
  by (simp add: retE_def)

lemma fst_failE [simp, io_simps]: "fst (failE e s) = Inl e"
  by (simp add: failE_def)

lemma snd_failE [simp, io_simps]: "snd (failE e s) = s"
  by (simp add: failE_def)

lemma fst_bindE [io_simps]:
  "fst (bindE m f s) = (case fst (m s) of Inl e \<Rightarrow> Inl e | Inr x \<Rightarrow> fst (f x (snd (m s))))"
  by (auto simp: bindE_def split: prod.splits sum.splits)

lemma snd_bindE [io_simps]:
  "snd (bindE m f s) = (case fst (m s) of Inl e \<Rightarrow> snd (m s) | Inr x \<Rightarrow> snd (f x (snd (m s))))"
  by (auto simp: bindE_def split: prod.splits sum.splits)

lemma fst_liftE [io_simps]: "fst (liftE f s) = Inr (fst (f s))"
  by (simp add: liftE_def Let_def split_def)

lemma snd_liftE [io_simps]: "snd (liftE f s) = snd (f s)"
  by (simp add: liftE_def Let_def split_def)

lemma fst_ignoreE [simp, io_simps]: "fst (ignoreE m s) = Inr ()"
  by (simp add: ignoreE_def)

lemma snd_ignoreE [simp, io_simps]: "snd (ignoreE m s) = snd (m s)"
  by (simp add: ignoreE_def)

lemma fst_catchE [io_simps]:
  "fst (catchE m d s) = Inr (case fst (m s) of Inl e \<Rightarrow> d | Inr x \<Rightarrow> x)"
  by (auto simp: catchE_def split: prod.splits sum.splits)

lemma snd_catchE [io_simps]: "snd (catchE m d s) = snd (m s)"
  by (auto simp: catchE_def split: prod.splits sum.splits)

lemma bindE_retE [simp]: "bindE (retE x) f = f x"
  by (rule ext) (simp add: bindE_def retE_def)

lemma bindE_failE [simp]: "bindE (failE e) f = failE e"
  by (rule ext) (simp add: bindE_def failE_def)

lemma bindE_assoc: "bindE (bindE m f) g = bindE m (\<lambda>x. bindE (f x) g)"
  by (rule ext) (auto simp: bindE_def split: prod.splits sum.splits)

lemma forE_append: "forE (is @ js) f = bindE (forE is f) (\<lambda>_. forE js f)"
  by (induction "is") (simp_all add: bindE_assoc)

lemma forE_snoc: "forE (is @ [i]) f = bindE (forE is f) (\<lambda>_. f i)"
proof -
  have "bindE (f i) (\<lambda>_. retE ()) = f i"
    by (rule ext) (auto simp: bindE_def retE_def split: prod.splits sum.splits)
  then show ?thesis by (simp add: forE_append)
qed

lemma snd_if: "snd ((if b then f else g) s) = (if b then snd (f s) else snd (g s))"
  by simp

lemma fst_if: "fst ((if b then f else g) s) = (if b then fst (f s) else fst (g s))"
  by simp

section \<open>What sequencing preserves\<close>

text \<open>
  \<open>keeps P m\<close>: running \<open>m\<close> from a state that satisfies \<open>P\<close> ends in one that
  satisfies \<open>P\<close>, whether or not \<open>m\<close> succeeds. Frame and invariant lemmas of the
  drivers are instances of it.
\<close>

definition keeps :: "('s \<Rightarrow> bool) \<Rightarrow> ('s, 'a) io \<Rightarrow> bool" where
  "keeps P m \<longleftrightarrow> (\<forall>s. P s \<longrightarrow> P (snd (m s)))"

named_theorems keeps_intros "preservation rules for the combinators and operations"

lemma keepsD: "keeps P m \<Longrightarrow> P s \<Longrightarrow> P (snd (m s))"
  by (simp add: keeps_def)

lemma keepsI: "(\<And>s. P s \<Longrightarrow> P (snd (m s))) \<Longrightarrow> keeps P m"
  by (simp add: keeps_def)

lemma keeps_retE [keeps_intros]: "keeps P (retE x)"
  by (simp add: keeps_def)

lemma keeps_failE [keeps_intros]: "keeps P (failE e)"
  by (simp add: keeps_def)

lemma keeps_bindE [keeps_intros]:
  "keeps P m \<Longrightarrow> (\<And>x. keeps P (f x)) \<Longrightarrow> keeps P (bindE m f)"
  by (auto simp: keeps_def snd_bindE split: sum.splits)

lemma keeps_ignoreE [keeps_intros]: "keeps P m \<Longrightarrow> keeps P (ignoreE m)"
  by (simp add: keeps_def)

lemma keeps_catchE [keeps_intros]: "keeps P m \<Longrightarrow> keeps P (catchE m d)"
  by (simp add: keeps_def snd_catchE)

lemma keeps_if [keeps_intros]:
  "keeps P m \<Longrightarrow> keeps P m' \<Longrightarrow> keeps P (if b then m else m')"
  by simp

lemma keeps_forE [keeps_intros]:
  "(\<And>i. keeps P (f i)) \<Longrightarrow> keeps P (forE is f)"
  by (induction "is") (auto intro: keeps_intros)

lemma keeps_case_sum [keeps_intros]:
  "(\<And>e. keeps P (f e)) \<Longrightarrow> (\<And>x. keeps P (g x)) \<Longrightarrow> keeps P (case r of Inl e \<Rightarrow> f e | Inr x \<Rightarrow> g x)"
  by (cases r) simp_all

lemma keeps_case_option [keeps_intros]:
  "keeps P f \<Longrightarrow> (\<And>x. keeps P (g x)) \<Longrightarrow> keeps P (case r of None \<Rightarrow> f | Some x \<Rightarrow> g x)"
  by (cases r) simp_all

text \<open>
  \<open>silent v m\<close>: \<open>m\<close> succeeds or fails without changing the observation \<open>v\<close>.
\<close>

definition silent :: "('s \<Rightarrow> 'v) \<Rightarrow> ('s, 'a) io \<Rightarrow> bool" where
  "silent v m \<longleftrightarrow> (\<forall>s. v (snd (m s)) = v s)"

named_theorems silent_intros "frame rules for the combinators and operations"

lemma silentD: "silent v m \<Longrightarrow> v (snd (m s)) = v s"
  by (simp add: silent_def)

lemma silentI: "(\<And>s. v (snd (m s)) = v s) \<Longrightarrow> silent v m"
  by (simp add: silent_def)

lemma silent_retE [silent_intros]: "silent v (retE x)"
  by (simp add: silent_def)

lemma silent_failE [silent_intros]: "silent v (failE e)"
  by (simp add: silent_def)

lemma silent_bindE [silent_intros]:
  "silent v m \<Longrightarrow> (\<And>x. silent v (f x)) \<Longrightarrow> silent v (bindE m f)"
  by (auto simp: silent_def snd_bindE split: sum.splits)

lemma silent_ignoreE [silent_intros]: "silent v m \<Longrightarrow> silent v (ignoreE m)"
  by (simp add: silent_def)

lemma silent_catchE [silent_intros]: "silent v m \<Longrightarrow> silent v (catchE m d)"
  by (simp add: silent_def snd_catchE)

lemma silent_if [silent_intros]:
  "silent v m \<Longrightarrow> silent v m' \<Longrightarrow> silent v (if b then m else m')"
  by simp

lemma silent_forE [silent_intros]:
  "(\<And>i. silent v (f i)) \<Longrightarrow> silent v (forE is f)"
  by (induction "is") (auto intro: silent_intros)

lemma silent_case_option [silent_intros]:
  "silent v f \<Longrightarrow> (\<And>x. silent v (g x)) \<Longrightarrow> silent v (case r of None \<Rightarrow> f | Some x \<Rightarrow> g x)"
  by (cases r) simp_all

text \<open>
  \<open>succeeds P m\<close>: from a state that satisfies \<open>P\<close> the operation \<open>m\<close> succeeds,
  in a state that satisfies \<open>P\<close>.
\<close>

definition succeeds :: "('s \<Rightarrow> bool) \<Rightarrow> ('s, 'a) io \<Rightarrow> bool" where
  "succeeds P m \<longleftrightarrow> (\<forall>s. P s \<longrightarrow> (\<exists>x. fst (m s) = Inr x) \<and> P (snd (m s)))"

named_theorems succeeds_intros "success of the combinators and operations"

lemma succeedsD: "succeeds P m \<Longrightarrow> P s \<Longrightarrow> (\<exists>x. fst (m s) = Inr x) \<and> P (snd (m s))"
  by (simp add: succeeds_def)

lemma succeeds_unit: "succeeds P m \<Longrightarrow> P s \<Longrightarrow> fst (m s) = Inr () \<and> P (snd (m s))"
  by (auto simp: succeeds_def)

lemma succeeds_retE [succeeds_intros]: "succeeds P (retE x)"
  by (simp add: succeeds_def)

lemma succeeds_bindE [succeeds_intros]:
  "succeeds P m \<Longrightarrow> (\<And>x. succeeds P (f x)) \<Longrightarrow> succeeds P (bindE m f)"
  by (fastforce simp: succeeds_def fst_bindE snd_bindE split: sum.splits)

lemma succeeds_if [succeeds_intros]:
  "(b \<Longrightarrow> succeeds P m) \<Longrightarrow> (\<not> b \<Longrightarrow> succeeds P m') \<Longrightarrow> succeeds P (if b then m else m')"
  by simp

lemma succeeds_forE [succeeds_intros]:
  "(\<And>i. i \<in> set is \<Longrightarrow> succeeds P (f i)) \<Longrightarrow> succeeds P (forE is f)"
  by (induction "is") (auto intro: succeeds_intros)

section \<open>First match in a range\<close>

lemma find_upt_Some:
  "find P [0..<n] = Some i \<Longrightarrow> i < n \<and> P i \<and> (\<forall>j < i. \<not> P j)"
  by (auto simp: find_Some_iff)

lemma find_upt_None: "find P [0..<n] = None \<longleftrightarrow> (\<forall>i < n. \<not> P i)"
  by (auto simp: find_None_iff)

lemma find_by_key: "distinct (map f xs) \<Longrightarrow> x \<in> set xs \<Longrightarrow> find (\<lambda>y. f x = f y) xs = Some x"
proof (induction xs)
  case (Cons a xs)
  then show ?case by (cases "x \<in> set xs") (force simp: image_iff)+
qed simp

section \<open>Words\<close>

text \<open>The 16 bits of a 32-bit read-modify-write that reach a 16-bit register.\<close>

lemma ucast_rmw:
  "(ucast ((ucast (r :: u16) AND NOT m) OR (v :: u32)) :: u16) = (r AND NOT (ucast m)) OR ucast v"
  by (rule bit_word_eqI) (auto simp: bit_simps)

lemma ucast_ucast_small:
  "unat (v :: u32) < 65536 \<Longrightarrow> ucast (ucast v :: u16) = v"
  by (simp add: word_unat_eq_iff unsigned_ucast_eq unsigned_take_bit_eq take_bit_nat_eq_self)

lemma ucast_u16_u32 [simp]: "(ucast (ucast (a :: u16) :: u32) :: u16) = a"
  by (rule bit_word_eqI) (auto simp: bit_simps)

lemma unat_u8_less: "unat (b :: u8) < 256"
proof -
  have "unat b < 2 ^ LENGTH(8)" by (rule unsigned_less)
  then show ?thesis by simp
qed

lemma unat_ucast_up [simp]:
  "unat (ucast (a :: u16) :: u32) = unat a" "unat (ucast (b :: u8) :: u32) = unat b"
  "unat (ucast (b :: u8) :: u16) = unat b"
proof -
  have "unat a < 2 ^ 16" "unat b < 2 ^ 8" using unsigned_less [of a] unsigned_less [of b] by simp_all
  then show "unat (ucast a :: u32) = unat a" "unat (ucast b :: u32) = unat b"
    "unat (ucast b :: u16) = unat b"
    by (simp_all add: unsigned_ucast_eq take_bit_nat_eq_self)
qed

lemma less_4096_ucast: "(vid :: u32) < 4096 \<Longrightarrow> ucast (ucast vid :: u16) = vid"
  by (rule ucast_ucast_small) (simp add: word_less_nat_alt)

lemma unat_u16_less: "unat (a :: u16) < 65536"
proof -
  have "unat a < 2 ^ LENGTH(16)" by (rule unsigned_less)
  then show ?thesis by simp
qed

end
