(* ===== verification/Smi_Wire.thy ===== *)
theory Smi_Wire
  imports Prelude
begin

text \<open>
  The two-wire management interface of \<open>rtl8366_smi.c\<close>: the clock and data lines are
  driven through the kernel's GPIO calls. The GPIO layer, the external MDIO bus and the
  reset line are outside the sources and are the fields of a \<open>platform\<close> record over an
  arbitrary type \<open>'h\<close> of hardware states, which every operation takes as its first
  argument.

  \<open>struct rtl8366_smi\<close> is split in two: \<open>rtl8366_smi\<close> holds what probing fixes,
  \<open>smi_state\<close> what the driver changes at run time, together with the hardware. The
  pointer \<open>hw_reset\<close> is \<open>has_hw_reset\<close> (whether it is set), the pointer
  \<open>ext_mbus\<close> is \<open>has_ext_mbus\<close>. Port numbers, GPIO numbers, delays and loop
  counters, which the callers keep non-negative, are natural numbers.
\<close>

section \<open>The platform and the driver's state\<close>

record 'h platform =
  gpio_direction_output :: "nat \<Rightarrow> bool \<Rightarrow> 'h \<Rightarrow> 'h"
  gpio_direction_input :: "nat \<Rightarrow> 'h \<Rightarrow> 'h"
  gpio_set_value :: "nat \<Rightarrow> bool \<Rightarrow> 'h \<Rightarrow> 'h"
  gpio_get_value :: "nat \<Rightarrow> 'h \<Rightarrow> bool \<times> 'h"
  ndelay :: "nat \<Rightarrow> 'h \<Rightarrow> 'h"
  udelay :: "nat \<Rightarrow> 'h \<Rightarrow> 'h"
  msleep :: "nat \<Rightarrow> 'h \<Rightarrow> 'h"
  mbus_read :: "u32 \<Rightarrow> u32 \<Rightarrow> 'h \<Rightarrow> u32 \<times> 'h"
  mbus_write :: "u32 \<Rightarrow> u32 \<Rightarrow> u16 \<Rightarrow> 'h \<Rightarrow> 'h"
  hw_reset :: "bool \<Rightarrow> 'h \<Rightarrow> 'h"

record rtl8366_mib_counter =
  mib_base :: nat
  mib_offset :: u32
  mib_length :: nat
  mib_name :: string

record rtl8366_smi =
  gpio_sda :: nat
  gpio_sck :: nat
  has_hw_reset :: bool
  clk_delay :: nat
  cmd_read :: u8
  cmd_write :: u8
  has_ext_mbus :: bool
  cpu_port :: nat
  num_ports :: nat
  num_vlan_mc :: nat
  num_mib_counters :: nat
  mib_counters :: "rtl8366_mib_counter list"

record 'h smi_state =
  hw :: 'h
  lock :: bool
  vlan_enabled :: u32
  vlan4k_enabled :: u32

definition on_hw :: "('h \<Rightarrow> 'h) \<Rightarrow> 'h smi_state \<Rightarrow> 'h smi_state" where
  "on_hw f st = st\<lparr>hw := f (hw st)\<rparr>"

section \<open>Bits on the wire\<close>

definition rtl8366_smi_clk_delay :: "'h platform \<Rightarrow> rtl8366_smi \<Rightarrow> 'h \<Rightarrow> 'h" where
  "rtl8366_smi_clk_delay H smi h = ndelay H (clk_delay smi) h"

definition rtl8366_smi_start :: "'h platform \<Rightarrow> rtl8366_smi \<Rightarrow> 'h \<Rightarrow> 'h" where
  "rtl8366_smi_start H smi h0 =
    (let sda = gpio_sda smi; sck = gpio_sck smi; delay = rtl8366_smi_clk_delay H smi;
         h = gpio_direction_output H sck False h0;
         h = gpio_direction_output H sda True h;
         h = delay h;
         h = gpio_set_value H sck True h;
         h = delay h;
         h = gpio_set_value H sck False h;
         h = delay h;
         h = gpio_set_value H sck True h;
         h = delay h;
         h = gpio_set_value H sda False h;
         h = delay h;
         h = gpio_set_value H sck False h;
         h = delay h
     in gpio_set_value H sda True h)"

definition rtl8366_smi_stop :: "'h platform \<Rightarrow> rtl8366_smi \<Rightarrow> 'h \<Rightarrow> 'h" where
  "rtl8366_smi_stop H smi h0 =
    (let sda = gpio_sda smi; sck = gpio_sck smi; delay = rtl8366_smi_clk_delay H smi;
         h = delay h0;
         h = gpio_set_value H sda False h;
         h = gpio_set_value H sck True h;
         h = delay h;
         h = gpio_set_value H sda True h;
         h = delay h;
         h = gpio_set_value H sck True h;
         h = delay h;
         h = gpio_set_value H sck False h;
         h = delay h;
         h = gpio_set_value H sck True h;
         h = delay h;
         h = gpio_set_value H sck False h;
         h = delay h;
         h = gpio_set_value H sck True h;
         h = gpio_direction_input H sda h
     in gpio_direction_input H sck h)"

primrec rtl8366_smi_write_bits :: "'h platform \<Rightarrow> rtl8366_smi \<Rightarrow> u32 \<Rightarrow> nat \<Rightarrow> 'h \<Rightarrow> 'h" where
  "rtl8366_smi_write_bits H smi data 0 h = h"
| "rtl8366_smi_write_bits H smi data (Suc len) h =
    (let delay = rtl8366_smi_clk_delay H smi;
         h = delay h;
         h = gpio_set_value H (gpio_sda smi) (data AND push_bit len 1 \<noteq> 0) h;
         h = delay h;
         h = gpio_set_value H (gpio_sck smi) True h;
         h = delay h;
         h = gpio_set_value H (gpio_sck smi) False h
     in rtl8366_smi_write_bits H smi data len h)"

primrec read_bits_loop :: "'h platform \<Rightarrow> rtl8366_smi \<Rightarrow> nat \<Rightarrow> u32 \<Rightarrow> 'h \<Rightarrow> u32 \<times> 'h" where
  "read_bits_loop H smi 0 data h = (data, h)"
| "read_bits_loop H smi (Suc len) data h =
    (let delay = rtl8366_smi_clk_delay H smi;
         h = delay h;
         h = gpio_set_value H (gpio_sck smi) True h;
         h = delay h;
         (u, h) = gpio_get_value H (gpio_sda smi) h;
         h = gpio_set_value H (gpio_sck smi) False h
     in read_bits_loop H smi len (data OR push_bit len (of_bool u)) h)"

definition rtl8366_smi_read_bits :: "'h platform \<Rightarrow> rtl8366_smi \<Rightarrow> nat \<Rightarrow> 'h \<Rightarrow> u32 \<times> 'h" where
  "rtl8366_smi_read_bits H smi len h =
    (let h = gpio_direction_input H (gpio_sda smi) h;
         (data, h) = read_bits_loop H smi len 0 h
     in (data, gpio_direction_output H (gpio_sda smi) False h))"

section \<open>Acknowledge and bytes\<close>

abbreviation (input) RTL8366_SMI_ACK_RETRY_COUNT :: nat where
  "RTL8366_SMI_ACK_RETRY_COUNT \<equiv> 5"

function wait_ack_loop :: "'h platform \<Rightarrow> rtl8366_smi \<Rightarrow> nat \<Rightarrow> ('h, unit) io" where
  "wait_ack_loop H smi retry_cnt h =
    (let (ack, h) = rtl8366_smi_read_bits H smi 1 h
     in if ack = 0 then (Inr (), h)
        else if Suc retry_cnt > RTL8366_SMI_ACK_RETRY_COUNT then (Inl ETIMEDOUT, h)
        else wait_ack_loop H smi (Suc retry_cnt) h)"
  by pat_completeness auto
termination
  by (relation "measure (\<lambda>(H, smi, retry_cnt, h). RTL8366_SMI_ACK_RETRY_COUNT - retry_cnt)") auto

declare wait_ack_loop.simps [simp del]

definition rtl8366_smi_wait_for_ack :: "'h platform \<Rightarrow> rtl8366_smi \<Rightarrow> ('h, unit) io" where
  "rtl8366_smi_wait_for_ack H smi = wait_ack_loop H smi 0"

definition rtl8366_smi_write_byte :: "'h platform \<Rightarrow> rtl8366_smi \<Rightarrow> u8 \<Rightarrow> ('h, unit) io" where
  "rtl8366_smi_write_byte H smi data h =
    rtl8366_smi_wait_for_ack H smi (rtl8366_smi_write_bits H smi (ucast data) 8 h)"

definition rtl8366_smi_write_byte_noack :: "'h platform \<Rightarrow> rtl8366_smi \<Rightarrow> u8 \<Rightarrow> ('h, unit) io" where
  "rtl8366_smi_write_byte_noack H smi data h =
    (Inr (), rtl8366_smi_write_bits H smi (ucast data) 8 h)"

definition rtl8366_smi_read_byte0 :: "'h platform \<Rightarrow> rtl8366_smi \<Rightarrow> ('h, u8) io" where
  "rtl8366_smi_read_byte0 H smi h =
    (let (t, h) = rtl8366_smi_read_bits H smi 8 h
     in (Inr (ucast (t AND 0xff)), rtl8366_smi_write_bits H smi 0x00 1 h))"

definition rtl8366_smi_read_byte1 :: "'h platform \<Rightarrow> rtl8366_smi \<Rightarrow> ('h, u8) io" where
  "rtl8366_smi_read_byte1 H smi h =
    (let (t, h) = rtl8366_smi_read_bits H smi 8 h
     in (Inr (ucast (t AND 0xff)), rtl8366_smi_write_bits H smi 0x01 1 h))"

section \<open>Register frames\<close>

text \<open>
  A transaction takes the spin lock, sends the start condition, runs its bytes up to the
  first missing acknowledge, and always sends the stop condition and releases the lock
  (the label \<open>out\<close> of the C functions).
\<close>

definition spin_lock_irqsave :: "'h smi_state \<Rightarrow> 'h smi_state" where
  "spin_lock_irqsave st = st\<lparr>lock := True\<rparr>"

definition spin_unlock_irqrestore :: "'h smi_state \<Rightarrow> 'h smi_state" where
  "spin_unlock_irqrestore st = st\<lparr>lock := False\<rparr>"

definition smi_transaction ::
  "'h platform \<Rightarrow> rtl8366_smi \<Rightarrow> ('h, 'a) io \<Rightarrow> ('h smi_state, 'a) io" where
  "smi_transaction H smi body st =
    (let st = spin_lock_irqsave st;
         st = on_hw (rtl8366_smi_start H smi) st;
         (ret, h) = body (hw st);
         st = st\<lparr>hw := h\<rparr>;
         st = on_hw (rtl8366_smi_stop H smi) st
     in (ret, spin_unlock_irqrestore st))"

definition smi_read_frame :: "'h platform \<Rightarrow> rtl8366_smi \<Rightarrow> u32 \<Rightarrow> ('h, u32) io" where
  "smi_read_frame H smi addr =
    bindE (rtl8366_smi_write_byte H smi (cmd_read smi)) (\<lambda>_.
    bindE (rtl8366_smi_write_byte H smi (ucast (addr AND 0xff))) (\<lambda>_.
    bindE (rtl8366_smi_write_byte H smi (ucast (drop_bit 8 addr))) (\<lambda>_.
    bindE (rtl8366_smi_read_byte0 H smi) (\<lambda>lo.
    bindE (rtl8366_smi_read_byte1 H smi) (\<lambda>hi.
    retE (ucast lo OR push_bit 8 (ucast hi)))))))"

definition smi_write_frame ::
  "'h platform \<Rightarrow> rtl8366_smi \<Rightarrow> u32 \<Rightarrow> u32 \<Rightarrow> bool \<Rightarrow> ('h, unit) io" where
  "smi_write_frame H smi addr data ack =
    bindE (rtl8366_smi_write_byte H smi (cmd_write smi)) (\<lambda>_.
    bindE (rtl8366_smi_write_byte H smi (ucast (addr AND 0xff))) (\<lambda>_.
    bindE (rtl8366_smi_write_byte H smi (ucast (drop_bit 8 addr))) (\<lambda>_.
    bindE (rtl8366_smi_write_byte H smi (ucast (data AND 0xff))) (\<lambda>_.
    if ack then rtl8366_smi_write_byte H smi (ucast (drop_bit 8 data))
    else rtl8366_smi_write_byte_noack H smi (ucast (drop_bit 8 data))))))"

definition rtl8366_smi_read_reg_gpio ::
  "'h platform \<Rightarrow> rtl8366_smi \<Rightarrow> u32 \<Rightarrow> ('h smi_state, u32) io" where
  "rtl8366_smi_read_reg_gpio H smi addr = smi_transaction H smi (smi_read_frame H smi addr)"

definition rtl8366_smi_write_reg_gpio ::
  "'h platform \<Rightarrow> rtl8366_smi \<Rightarrow> u32 \<Rightarrow> u32 \<Rightarrow> bool \<Rightarrow> ('h smi_state, unit) io" where
  "rtl8366_smi_write_reg_gpio H smi addr data ack =
    smi_transaction H smi (smi_write_frame H smi addr data ack)"

end
