(* ===== verification/Smi_Analyser.thy ===== *)
theory Smi_Analyser
  imports Smi_Wire
begin

text \<open>
  What a logic analyser on the two wires sees. \<open>analyser smi\<close> is a \<open>platform\<close>
  whose hardware state records the level of both lines, who drives the data line, the
  bits the driver puts out (the data level at each rising clock edge while the driver
  drives it), the start and stop conditions (an edge of the driven data line while the
  clock is high), and the bits a slave will answer with when the driver samples. The
  driver's operations run on it unchanged; the lemmas give the frames they produce.
\<close>

record analyser =
  a_sck :: bool
  a_sda :: bool
  a_drv :: bool
  a_bits :: "bool list"
  a_starts :: nat
  a_stops :: nat
  a_inputs :: "bool list"

definition drive_sda :: "bool \<Rightarrow> analyser \<Rightarrow> analyser" where
  "drive_sda v a = a\<lparr>a_sda := v,
     a_starts := a_starts a + of_bool (a_sck a \<and> a_drv a \<and> a_sda a \<and> \<not> v),
     a_stops := a_stops a + of_bool (a_sck a \<and> a_drv a \<and> \<not> a_sda a \<and> v)\<rparr>"

definition drive_sck :: "bool \<Rightarrow> analyser \<Rightarrow> analyser" where
  "drive_sck v a = a\<lparr>a_sck := v,
     a_bits := (if \<not> a_sck a \<and> v \<and> a_drv a then a_bits a @ [a_sda a] else a_bits a)\<rparr>"

definition sample_sda :: "analyser \<Rightarrow> bool \<times> analyser" where
  "sample_sda a = (case a_inputs a of [] \<Rightarrow> (True, a) | b # bs \<Rightarrow> (b, a\<lparr>a_inputs := bs\<rparr>))"

definition analyser :: "rtl8366_smi \<Rightarrow> analyser platform" where
  "analyser smi = \<lparr>
     gpio_direction_output = (\<lambda>p v a.
       if p = gpio_sda smi then (drive_sda v a)\<lparr>a_drv := True\<rparr>
       else if p = gpio_sck smi then drive_sck v a else a),
     gpio_direction_input = (\<lambda>p a. if p = gpio_sda smi then a\<lparr>a_drv := False\<rparr> else a),
     gpio_set_value = (\<lambda>p v a.
       if p = gpio_sda smi then drive_sda v a
       else if p = gpio_sck smi then drive_sck v a else a),
     gpio_get_value = (\<lambda>p a. if p = gpio_sda smi then sample_sda a else (False, a)),
     ndelay = (\<lambda>_ a. a), udelay = (\<lambda>_ a. a), msleep = (\<lambda>_ a. a),
     mbus_read = (\<lambda>_ _ a. (0, a)), mbus_write = (\<lambda>_ _ _ a. a), hw_reset = (\<lambda>_ a. a)\<rparr>"

text \<open>The two wires are different pins, the clock is low and the driver owns the data line.\<close>

definition two_wires :: "rtl8366_smi \<Rightarrow> bool" where
  "two_wires smi \<longleftrightarrow> gpio_sda smi \<noteq> gpio_sck smi"

definition bus_owned :: "analyser \<Rightarrow> bool" where
  "bus_owned a \<longleftrightarrow> \<not> a_sck a \<and> a_drv a"

text \<open>The bits of a value, most significant first, as they go over the wire.\<close>

definition msb_bits :: "nat \<Rightarrow> 'a::len word \<Rightarrow> bool list" where
  "msb_bits n w = map (bit w) (rev [0..<n])"

lemma length_msb_bits [simp]: "length (msb_bits n w) = n"
  by (simp add: msb_bits_def)

lemma msb_bits_0 [simp]: "msb_bits 0 w = []"
  by (simp add: msb_bits_def)

lemma msb_bits_Suc [simp]: "msb_bits (Suc n) w = bit w n # msb_bits n w"
  by (simp add: msb_bits_def)

lemma analyser_fields [simp]:
  "gpio_direction_output (analyser smi) p v a =
     (if p = gpio_sda smi then (drive_sda v a)\<lparr>a_drv := True\<rparr>
      else if p = gpio_sck smi then drive_sck v a else a)"
  "gpio_direction_input (analyser smi) p a = (if p = gpio_sda smi then a\<lparr>a_drv := False\<rparr> else a)"
  "gpio_set_value (analyser smi) p v a =
     (if p = gpio_sda smi then drive_sda v a
      else if p = gpio_sck smi then drive_sck v a else a)"
  "gpio_get_value (analyser smi) p a = (if p = gpio_sda smi then sample_sda a else (False, a))"
  "rtl8366_smi_clk_delay (analyser smi) smi' a = a"
  by (simp_all add: analyser_def rtl8366_smi_clk_delay_def)

lemmas line_defs = drive_sda_def drive_sck_def two_wires_def bus_owned_def

section \<open>Writing bits\<close>

lemma and_exp_bit: "((w :: u32) AND 2 ^ n = 0) = (\<not> bit w n)"
  by (metis and_exp_eq_0_iff_not_bit)

lemma write_bits_analyser:
  assumes "two_wires smi" "bus_owned a"
  shows "rtl8366_smi_write_bits (analyser smi) smi data n a =
    a\<lparr>a_sda := (if n = 0 then a_sda a else bit data 0), a_bits := a_bits a @ msb_bits n data\<rparr>"
  using assms(2)
proof (induction n arbitrary: a)
  case 0
  then show ?case by simp
next
  case (Suc n)
  let ?a = "a\<lparr>a_sda := bit data n, a_bits := a_bits a @ [bit data n]\<rparr>"
  have "rtl8366_smi_write_bits (analyser smi) smi data (Suc n) a =
      rtl8366_smi_write_bits (analyser smi) smi data n ?a"
    using assms(1) Suc.prems
    by (cases a) (simp add: line_defs and_exp_bit)
  also have "\<dots> = ?a\<lparr>a_sda := (if n = 0 then a_sda ?a else bit data 0),
      a_bits := a_bits ?a @ msb_bits n data\<rparr>"
    using Suc.prems by (intro Suc.IH) (simp add: bus_owned_def)
  finally show ?case by simp
qed

section \<open>Reading bits\<close>

text \<open>The samples the next \<open>n\<close> reads return: the slave's bits, then an idle high line.\<close>

definition samples :: "nat \<Rightarrow> analyser \<Rightarrow> bool list" where
  "samples n a = take n (a_inputs a @ replicate n True)"

lemma samples_0 [simp]: "samples 0 a = []"
  by (simp add: samples_def)

lemma samples_Suc: "samples (Suc n) a = fst (sample_sda a) # samples n (snd (sample_sda a))"
proof (cases "a_inputs a")
  case Nil
  then show ?thesis by (simp add: samples_def sample_sda_def)
next
  case (Cons b bs)
  have "take n (bs @ replicate (Suc n) True) = take n (bs @ replicate n True)"
    by (simp add: min_def replicate_append_same [symmetric] del: replicate_append_same)
  with Cons show ?thesis by (simp add: samples_def sample_sda_def)
qed

lemma length_samples [simp]: "length (samples n a) = n"
  by (simp add: samples_def)

lemma samples_enough: "n \<le> length (a_inputs a) \<Longrightarrow> samples n a = take n (a_inputs a)"
  by (simp add: samples_def)

lemma samples_cong: "a_inputs a = a_inputs b \<Longrightarrow> samples n a = samples n b"
  by (simp add: samples_def)

definition bits_value :: "bool list \<Rightarrow> u32" where
  "bits_value bs = horner_sum of_bool 2 (rev bs)"

lemma bits_value_Cons_or:
  "bits_value (b # bs) = push_bit (length bs) (of_bool b) OR bits_value bs"
  by (rule bit_word_eqI)
    (auto simp: bits_value_def bit_horner_sum_bit_word_iff bit_simps nth_append not_less
          less_Suc_eq)

lemma bits_value_msb_bits: "bits_value (msb_bits n w) = ucast (take_bit n w)"
  by (rule bit_word_eqI)
    (auto simp: bits_value_def msb_bits_def rev_map bit_horner_sum_bit_word_iff bit_simps
          dest: bit_imp_le_length)

lemma read_bits_loop_analyser:
  assumes "two_wires smi" "\<not> a_sck a" "\<not> a_drv a"
  shows "read_bits_loop (analyser smi) smi n data a =
    (data OR bits_value (samples n a), a\<lparr>a_inputs := drop n (a_inputs a)\<rparr>)"
  using assms(2,3)
proof (induction n arbitrary: data a)
  case 0
  then show ?case by (simp add: bits_value_def)
next
  case (Suc n)
  obtain u b where ub: "sample_sda a = (u, b)" by (cases "sample_sda a")
  have b: "b = a\<lparr>a_inputs := drop 1 (a_inputs a)\<rparr>"
    using ub by (auto simp: sample_sda_def split: list.splits)
  have s: "sample_sda (a\<lparr>a_sck := True\<rparr>) = (u, b\<lparr>a_sck := True\<rparr>)"
    using ub by (auto simp: sample_sda_def split: list.splits)
  have "read_bits_loop (analyser smi) smi (Suc n) data a =
      read_bits_loop (analyser smi) smi n (data OR push_bit n (of_bool u)) b"
    using assms(1) Suc.prems s b by (cases a) (simp add: line_defs Let_def)
  also have "\<dots> = ((data OR push_bit n (of_bool u)) OR bits_value (samples n b),
      b\<lparr>a_inputs := drop n (a_inputs b)\<rparr>)"
    using Suc.prems b by (intro Suc.IH) simp_all
  also have "(data OR push_bit n (of_bool u)) OR bits_value (samples n b) =
      data OR bits_value (samples (Suc n) a)"
    using ub by (simp add: samples_Suc bits_value_Cons_or or.assoc)
  finally show ?case using b by simp
qed

lemma read_bits_analyser:
  assumes "two_wires smi" "bus_owned a"
  shows "rtl8366_smi_read_bits (analyser smi) smi n a =
    (bits_value (samples n a), a\<lparr>a_sda := False, a_inputs := drop n (a_inputs a)\<rparr>)"
proof -
  let ?b = "a\<lparr>a_drv := False\<rparr>"
  have "read_bits_loop (analyser smi) smi n 0 ?b =
      (0 OR bits_value (samples n ?b), ?b\<lparr>a_inputs := drop n (a_inputs ?b)\<rparr>)"
    using assms by (intro read_bits_loop_analyser) (simp_all add: bus_owned_def)
  then show ?thesis
    using assms samples_cong [of ?b a n]
    by (cases a) (simp add: rtl8366_smi_read_bits_def line_defs Let_def)
qed

section \<open>Acknowledge, bytes\<close>

text \<open>
  How many bits the acknowledge loop samples, and whether it sees a low one: at most six.
\<close>

fun ack_result :: "nat \<Rightarrow> bool list \<Rightarrow> (errno + unit) \<times> nat" where
  "ack_result 0 bs = (Inl ETIMEDOUT, 0)"
| "ack_result (Suc n) [] = (Inl ETIMEDOUT, Suc n)"
| "ack_result (Suc n) (b # bs) =
    (if b then (let (r, k) = ack_result n bs in (r, Suc k)) else (Inr (), 1))"

lemma bits_value_single: "bits_value [b] = of_bool b"
  by (simp add: bits_value_def)

lemma ack_result_Nil: "ack_result n [] = (Inl ETIMEDOUT, n)"
  by (cases n) simp_all

lemma wait_ack_loop_analyser:
  assumes "two_wires smi" "bus_owned a" "r \<le> 5"
  shows "wait_ack_loop (analyser smi) smi r a =
    (fst (ack_result (6 - r) (a_inputs a)),
     a\<lparr>a_sda := False, a_inputs := drop (snd (ack_result (6 - r) (a_inputs a))) (a_inputs a)\<rparr>)"
  using assms(2,3)
proof (induction "5 - r" arbitrary: r a)
  case 0
  then have r: "r = 5" by simp
  have rd: "rtl8366_smi_read_bits (analyser smi) smi (Suc 0) a =
      (bits_value (samples (Suc 0) a), a\<lparr>a_sda := False, a_inputs := drop (Suc 0) (a_inputs a)\<rparr>)"
    using assms(1) 0 by (intro read_bits_analyser)
  show ?case
    by (subst wait_ack_loop.simps, cases "a_inputs a")
      (auto simp: rd r samples_def bits_value_single split_def Let_def)
next
  case (Suc k)
  let ?b = "a\<lparr>a_sda := False, a_inputs := drop (Suc 0) (a_inputs a)\<rparr>"
  have rd: "rtl8366_smi_read_bits (analyser smi) smi (Suc 0) a = (bits_value (samples (Suc 0) a), ?b)"
    using assms(1) Suc.prems by (intro read_bits_analyser)
  have IH: "wait_ack_loop (analyser smi) smi (Suc r) ?b =
    (fst (ack_result (6 - Suc r) (a_inputs ?b)),
     ?b\<lparr>a_sda := False, a_inputs := drop (snd (ack_result (6 - Suc r) (a_inputs ?b))) (a_inputs ?b)\<rparr>)"
    using Suc.hyps(2) Suc.prems by (intro Suc.hyps(1)) (auto simp: bus_owned_def)
  have n: "6 - r = Suc (6 - Suc r)" "Suc r \<le> 5" using Suc.hyps(2) by simp_all
  show ?case
  proof (cases "a_inputs a")
    case Nil
    then show ?thesis
      by (subst wait_ack_loop.simps)
        (use n IH in \<open>auto simp: rd samples_def bits_value_single ack_result_Nil\<close>)
  next
    case (Cons b bs)
    then show ?thesis
      by (subst wait_ack_loop.simps)
        (use n IH in \<open>auto simp: rd samples_def bits_value_single split_def Let_def\<close>)
  qed
qed

lemma wait_for_ack_analyser:
  assumes "two_wires smi" "bus_owned a"
  shows "rtl8366_smi_wait_for_ack (analyser smi) smi a =
    (fst (ack_result 6 (a_inputs a)),
     a\<lparr>a_sda := False, a_inputs := drop (snd (ack_result 6 (a_inputs a))) (a_inputs a)\<rparr>)"
  using wait_ack_loop_analyser [OF assms, of 0] by (simp add: rtl8366_smi_wait_for_ack_def)

lemma ack_result_iff:
  "fst (ack_result n bs) = Inr () \<longleftrightarrow> False \<in> set (take n bs)"
  by (induction n bs rule: ack_result.induct) (auto simp: Let_def split_def)

lemma ack_result_error: "fst (ack_result n bs) = Inl e \<Longrightarrow> e = ETIMEDOUT"
  by (induction n bs rule: ack_result.induct) (auto simp: Let_def split_def split: if_splits)

lemma write_byte_analyser:
  assumes "two_wires smi" "bus_owned a"
  shows "rtl8366_smi_write_byte (analyser smi) smi b a =
    (fst (ack_result 6 (a_inputs a)),
     a\<lparr>a_sda := False, a_bits := a_bits a @ msb_bits 8 b,
       a_inputs := drop (snd (ack_result 6 (a_inputs a))) (a_inputs a)\<rparr>)"
proof -
  have "msb_bits 8 (ucast b :: u32) = msb_bits 8 b"
    by (simp add: msb_bits_def bit_simps)
  then show ?thesis
    using assms wait_for_ack_analyser [OF assms(1),
        of "a\<lparr>a_sda := bit (ucast b :: u32) 0, a_bits := a_bits a @ msb_bits 8 b\<rparr>"]
    by (simp add: rtl8366_smi_write_byte_def write_bits_analyser bus_owned_def)
qed

lemma write_byte_noack_analyser:
  assumes "two_wires smi" "bus_owned a"
  shows "rtl8366_smi_write_byte_noack (analyser smi) smi b a =
    (Inr (), a\<lparr>a_sda := bit b 0, a_bits := a_bits a @ msb_bits 8 b\<rparr>)"
proof -
  have "msb_bits 8 (ucast b :: u32) = msb_bits 8 b"
    by (simp add: msb_bits_def bit_simps)
  then show ?thesis
    using assms by (simp add: rtl8366_smi_write_byte_noack_def write_bits_analyser bit_simps)
qed

lemma ucast_mask_byte: "(ucast ((x :: u32) AND 0xff) :: u8) = ucast x"
  by (rule bit_word_eqI) (auto simp: bit_simps mask_eq_decr_exp [of 8, simplified, symmetric])

lemma read_byte_analyser:
  assumes "two_wires smi" "bus_owned a"
  shows "rtl8366_smi_read_byte0 (analyser smi) smi a =
      (Inr (ucast (bits_value (samples 8 a))),
       a\<lparr>a_sda := False, a_bits := a_bits a @ [False], a_inputs := drop 8 (a_inputs a)\<rparr>)"
    and "rtl8366_smi_read_byte1 (analyser smi) smi a =
      (Inr (ucast (bits_value (samples 8 a))),
       a\<lparr>a_sda := True, a_bits := a_bits a @ [True], a_inputs := drop 8 (a_inputs a)\<rparr>)"
  using assms
  by (simp_all add: rtl8366_smi_read_byte0_def rtl8366_smi_read_byte1_def read_bits_analyser
      line_defs Let_def ucast_mask_byte)

lemma ucast_bits_value_msb: "(ucast (bits_value (msb_bits 8 (b :: u8))) :: u8) = b"
  by (rule bit_word_eqI) (simp add: bits_value_msb_bits bit_simps)

section \<open>Start, stop and whole transactions\<close>

lemma start_analyser:
  assumes "two_wires smi"
  shows "rtl8366_smi_start (analyser smi) smi a =
    a\<lparr>a_sck := False, a_sda := True, a_drv := True, a_bits := a_bits a @ [True, True],
      a_starts := Suc (a_starts a)\<rparr>"
  using assms by (cases a) (simp add: rtl8366_smi_start_def line_defs Let_def)

lemma stop_analyser:
  assumes "two_wires smi" "bus_owned a"
  shows "rtl8366_smi_stop (analyser smi) smi a =
    a\<lparr>a_sck := True, a_sda := True, a_drv := False, a_bits := a_bits a @ [False, True, True],
      a_stops := Suc (a_stops a)\<rparr>"
  using assms by (cases a) (simp add: rtl8366_smi_stop_def line_defs Let_def)

lemmas byte_analyser =
  write_byte_analyser write_byte_noack_analyser read_byte_analyser

text \<open>Between start and stop every byte leaves the bus owned and adds no start or stop.\<close>

definition in_frame :: "nat \<Rightarrow> nat \<Rightarrow> analyser \<Rightarrow> bool" where
  "in_frame p q a \<longleftrightarrow> bus_owned a \<and> a_starts a = p \<and> a_stops a = q"

lemma keeps_in_frame [keeps_intros]:
  assumes "two_wires smi"
  shows "keeps (in_frame p q) (rtl8366_smi_write_byte (analyser smi) smi b)"
    and "keeps (in_frame p q) (rtl8366_smi_write_byte_noack (analyser smi) smi b)"
    and "keeps (in_frame p q) (rtl8366_smi_read_byte0 (analyser smi) smi)"
    and "keeps (in_frame p q) (rtl8366_smi_read_byte1 (analyser smi) smi)"
  using assms by (auto simp: keeps_def in_frame_def byte_analyser bus_owned_def)

lemma keeps_frames:
  assumes "two_wires smi"
  shows "keeps (in_frame p q) (smi_read_frame (analyser smi) smi addr)"
    and "keeps (in_frame p q) (smi_write_frame (analyser smi) smi addr data ack)"
  using assms by (auto simp: smi_read_frame_def smi_write_frame_def intro!: keeps_intros)

lemma transaction_analyser:
  assumes "two_wires smi"
    and body: "keeps (in_frame (Suc (a_starts (hw st))) (a_stops (hw st))) body"
    and run: "body (rtl8366_smi_start (analyser smi) smi (hw st)) = (r, a)"
  shows "smi_transaction (analyser smi) smi body st =
      (r, st\<lparr>lock := False, hw := a\<lparr>a_sck := True, a_sda := True, a_drv := False,
         a_bits := a_bits a @ [False, True, True], a_stops := Suc (a_stops a)\<rparr>\<rparr>)"
    and "a_starts a = Suc (a_starts (hw st))" "a_stops a = a_stops (hw st)"
proof -
  have "in_frame (Suc (a_starts (hw st))) (a_stops (hw st)) a"
    using keepsD [OF body, of "rtl8366_smi_start (analyser smi) smi (hw st)"] run
    by (simp add: start_analyser [OF assms(1)] in_frame_def bus_owned_def)
  then have a: "bus_owned a" "a_starts a = Suc (a_starts (hw st))" "a_stops a = a_stops (hw st)"
    by (simp_all add: in_frame_def)
  show "smi_transaction (analyser smi) smi body st =
      (r, st\<lparr>lock := False, hw := a\<lparr>a_sck := True, a_sda := True, a_drv := False,
         a_bits := a_bits a @ [False, True, True], a_stops := Suc (a_stops a)\<rparr>\<rparr>)"
    using run a(1) stop_analyser [OF assms(1) a(1)]
    by (simp add: smi_transaction_def spin_lock_irqsave_def spin_unlock_irqrestore_def on_hw_def)
  show "a_starts a = Suc (a_starts (hw st))" "a_stops a = a_stops (hw st)"
    using a by simp_all
qed

lemma ack_result_acked: "0 < n \<Longrightarrow> ack_result n (False # bs) = (Inr (), 1)"
  by (cases n) simp_all

lemma write_byte_acked:
  assumes "two_wires smi" "bus_owned a" "a_inputs a = False # rest"
  shows "rtl8366_smi_write_byte (analyser smi) smi b a =
    (Inr (), a\<lparr>a_sda := False, a_bits := a_bits a @ msb_bits 8 b, a_inputs := rest\<rparr>)"
  using write_byte_analyser [OF assms(1,2)] assms(3) by (simp add: ack_result_acked)

text \<open>A board with data on pin 18 and clock on pin 19, an idle bus and a given slave.\<close>

definition sample_smi :: rtl8366_smi where
  "sample_smi = \<lparr>gpio_sda = 18, gpio_sck = 19, has_hw_reset = False, clk_delay = 10,
     cmd_read = 0xa9, cmd_write = 0xa8, has_ext_mbus = False, cpu_port = 5, num_ports = 6,
     num_vlan_mc = 16, num_mib_counters = 0, mib_counters = []\<rparr>"

definition idle_bus :: "bool list \<Rightarrow> analyser smi_state" where
  "idle_bus answers = \<lparr>hw = \<lparr>a_sck = True, a_sda = True, a_drv = False, a_bits = [],
     a_starts = 0, a_stops = 0, a_inputs = answers\<rparr>, lock = False,
     vlan_enabled = 0, vlan4k_enabled = 0\<rparr>"

lemma two_wires_sample: "two_wires sample_smi"
  by (simp add: two_wires_def sample_smi_def)

lemma ack_result_le: "snd (ack_result n bs) \<le> n"
  by (induction n bs rule: ack_result.induct) (auto simp: Let_def split_def)

text \<open>The bytes of a frame, and so the frames, fail with the timeout only.\<close>

definition timeout_only :: "errno + 'a \<Rightarrow> bool" where
  "timeout_only r \<longleftrightarrow> (\<forall>e. r = Inl e \<longrightarrow> e = ETIMEDOUT)"

lemma timeout_only_Inr [simp]: "timeout_only (Inr x)"
  by (simp add: timeout_only_def)

lemma timeout_only_bindE:
  assumes "timeout_only (fst (m a))" "bus_owned a" "keeps bus_owned m"
    and "\<And>x b. bus_owned b \<Longrightarrow> timeout_only (fst (f x b))"
  shows "timeout_only (fst (bindE m f a))"
  using assms keepsD [OF assms(3,2)]
  by (auto simp: fst_bindE timeout_only_def split: sum.splits)

lemma byte_timeout_only:
  assumes "two_wires smi" "bus_owned a"
  shows "timeout_only (fst (rtl8366_smi_write_byte (analyser smi) smi b a))"
    and "timeout_only (fst (rtl8366_smi_write_byte_noack (analyser smi) smi b a))"
    and "timeout_only (fst (rtl8366_smi_read_byte0 (analyser smi) smi a))"
    and "timeout_only (fst (rtl8366_smi_read_byte1 (analyser smi) smi a))"
  using assms ack_result_error by (auto simp: timeout_only_def byte_analyser)

lemma byte_keeps_owned:
  assumes "two_wires smi"
  shows "keeps bus_owned (rtl8366_smi_write_byte (analyser smi) smi b)"
    and "keeps bus_owned (rtl8366_smi_write_byte_noack (analyser smi) smi b)"
    and "keeps bus_owned (rtl8366_smi_read_byte0 (analyser smi) smi)"
    and "keeps bus_owned (rtl8366_smi_read_byte1 (analyser smi) smi)"
  using assms by (auto simp: keeps_def byte_analyser bus_owned_def)

lemma frames_timeout_only:
  assumes "two_wires smi" "bus_owned a"
  shows "timeout_only (fst (smi_read_frame (analyser smi) smi addr a))"
    and "timeout_only (fst (smi_write_frame (analyser smi) smi addr data ack a))"
  unfolding smi_read_frame_def smi_write_frame_def
  by (intro timeout_only_bindE byte_timeout_only byte_keeps_owned assms(1) assms(2);
      (assumption | simp add: byte_timeout_only assms(1)))+

lemma write_reg_unacked:
  assumes "two_wires smi"
  shows "fst (rtl8366_smi_write_reg_gpio (analyser smi) smi addr data ack (idle_bus [])) =
    Inl ETIMEDOUT"
  using assms
  by (simp add: rtl8366_smi_write_reg_gpio_def smi_transaction_def smi_write_frame_def
      spin_lock_irqsave_def on_hw_def start_analyser bindE_def write_byte_analyser bus_owned_def
      idle_bus_def ack_result_Nil)

section \<open>Properties of the wire protocol\<close>

text \<open>
  C6. A register write whose five bytes are acknowledged succeeds, and the wires show one
  start condition, the write command, the low and the high address byte, the low and the
  high data byte, each most significant bit first, and one stop condition; the data line
  is released and the lock is free at the end.
\<close>

theorem write_reg_wire_frame:
  assumes "two_wires smi" "a_inputs (hw st) = replicate 5 False @ rest"
  shows "rtl8366_smi_write_reg_gpio (analyser smi) smi addr data True st =
    (Inr (), st\<lparr>lock := False, hw := (hw st)\<lparr>
      a_sck := True, a_sda := True, a_drv := False,
      a_bits := a_bits (hw st) @ [True, True] @ msb_bits 8 (cmd_write smi)
        @ msb_bits 8 (ucast addr :: u8) @ msb_bits 8 (ucast (drop_bit 8 addr) :: u8)
        @ msb_bits 8 (ucast data :: u8) @ msb_bits 8 (ucast (drop_bit 8 data) :: u8)
        @ [False, True, True],
      a_starts := Suc (a_starts (hw st)), a_stops := Suc (a_stops (hw st)),
      a_inputs := rest\<rparr>\<rparr>)"
proof -
  have in5: "a_inputs (hw st) = False # False # False # False # False # rest"
    using assms(2) by (simp add: numeral_eq_Suc)
  let ?a = "rtl8366_smi_start (analyser smi) smi (hw st)"
  have "smi_write_frame (analyser smi) smi addr data True ?a =
    (Inr (), ?a\<lparr>a_sda := False, a_bits := a_bits ?a @ msb_bits 8 (cmd_write smi)
        @ msb_bits 8 (ucast addr :: u8) @ msb_bits 8 (ucast (drop_bit 8 addr) :: u8)
        @ msb_bits 8 (ucast data :: u8) @ msb_bits 8 (ucast (drop_bit 8 data) :: u8),
        a_inputs := rest\<rparr>)"
    using assms(1) in5
    by (simp add: smi_write_frame_def bindE_def start_analyser write_byte_acked bus_owned_def
        ucast_mask_byte)
  from transaction_analyser(1) [OF assms(1) keeps_frames(2) [OF assms(1)] this] assms(1)
  show ?thesis by (simp add: rtl8366_smi_write_reg_gpio_def start_analyser)
qed

theorem write_reg_wire_frame_witness:
  "fst (rtl8366_smi_write_reg_gpio (analyser sample_smi) sample_smi 0x100 0x8001 True
     (idle_bus (replicate 5 False))) = Inr ()
   \<and> a_bits (hw (snd (rtl8366_smi_write_reg_gpio (analyser sample_smi) sample_smi 0x100 0x8001 True
     (idle_bus (replicate 5 False))))) =
     [True, True] @ msb_bits 8 (0xa8 :: u8) @ msb_bits 8 (0x00 :: u8) @ msb_bits 8 (0x01 :: u8)
     @ msb_bits 8 (0x01 :: u8) @ msb_bits 8 (0x80 :: u8) @ [False, True, True]"
proof -
  have inp: "a_inputs (hw (idle_bus (replicate 5 False))) = replicate 5 False @ []"
    by (simp add: idle_bus_def)
  have bytes: "(256 :: u8) = 0" "(32769 :: u8) = 1" by simp_all
  show ?thesis
    using write_reg_wire_frame [OF two_wires_sample inp, of "0x100" "0x8001"]
    by (simp add: idle_bus_def sample_smi_def bytes)
qed

text \<open>
  C7. A register read against a slave that acknowledges the three command bytes and then
  presents the register's low and high byte, most significant bit first, returns exactly
  that register value.
\<close>

theorem read_reg_returns_slave_value:
  assumes "two_wires smi"
    and "a_inputs (hw st) = replicate 3 False @ msb_bits 8 lo @ msb_bits 8 hi @ rest"
  shows "rtl8366_smi_read_reg_gpio (analyser smi) smi addr st =
    (Inr (ucast (lo :: u8) OR push_bit 8 (ucast (hi :: u8))),
     st\<lparr>lock := False, hw := (hw st)\<lparr>
      a_sck := True, a_sda := True, a_drv := False,
      a_bits := a_bits (hw st) @ [True, True] @ msb_bits 8 (cmd_read smi)
        @ msb_bits 8 (ucast addr :: u8) @ msb_bits 8 (ucast (drop_bit 8 addr) :: u8)
        @ [False, True] @ [False, True, True],
      a_starts := Suc (a_starts (hw st)), a_stops := Suc (a_stops (hw st)),
      a_inputs := rest\<rparr>\<rparr>)"
proof -
  have in3: "a_inputs (hw st) = False # False # False # msb_bits 8 lo @ msb_bits 8 hi @ rest"
    using assms(2) by (simp add: numeral_eq_Suc)
  let ?a = "rtl8366_smi_start (analyser smi) smi (hw st)"
  let ?b = "?a\<lparr>a_sda := True, a_bits := a_bits ?a @ msb_bits 8 (cmd_read smi)
        @ msb_bits 8 (ucast addr :: u8) @ msb_bits 8 (ucast (drop_bit 8 addr) :: u8)
        @ [False, True], a_inputs := rest\<rparr>"
  have "smi_read_frame (analyser smi) smi addr ?a =
      (Inr (ucast lo OR push_bit 8 (ucast hi)), ?b)"
    using assms(1) in3
    by (simp add: smi_read_frame_def bindE_def start_analyser write_byte_acked bus_owned_def
        ucast_mask_byte read_byte_analyser samples_enough retE_def ucast_bits_value_msb)
  from transaction_analyser(1) [OF assms(1) keeps_frames(1) [OF assms(1)] this] assms(1)
  show ?thesis by (simp add: rtl8366_smi_read_reg_gpio_def start_analyser)
qed

theorem read_reg_returns_slave_value_witness:
  "fst (rtl8366_smi_read_reg_gpio (analyser sample_smi) sample_smi 0x5c
     (idle_bus (replicate 3 False @ msb_bits 8 (0x27 :: u8) @ msb_bits 8 (0x60 :: u8) @ []))) =
   Inr 0x6027"
proof -
  have inp: "a_inputs (hw (idle_bus (replicate 3 False @ msb_bits 8 (0x27 :: u8)
      @ msb_bits 8 (0x60 :: u8) @ []))) =
      replicate 3 False @ msb_bits 8 (0x27 :: u8) @ msb_bits 8 (0x60 :: u8) @ []"
    by (simp add: idle_bus_def)
  show ?thesis
    unfolding read_reg_returns_slave_value [OF two_wires_sample inp] by simp
qed

text \<open>
  C8. Whatever the slave answers, so on every path including a missing acknowledge, a
  read and a write transaction produce exactly one start and one stop condition and leave
  the data line released and the lock free; the only error they return is the timeout.
\<close>

theorem transactions_always_closed:
  assumes "two_wires smi"
  shows "let w = rtl8366_smi_write_reg_gpio (analyser smi) smi addr data ack st;
             r = rtl8366_smi_read_reg_gpio (analyser smi) smi addr st
         in fst w \<in> {Inr (), Inl ETIMEDOUT} \<and> (\<forall>e. fst r = Inl e \<longrightarrow> e = ETIMEDOUT)
          \<and> \<not> lock (snd w) \<and> \<not> lock (snd r)
          \<and> \<not> a_drv (hw (snd w)) \<and> \<not> a_drv (hw (snd r))
          \<and> a_starts (hw (snd w)) = Suc (a_starts (hw st))
          \<and> a_stops (hw (snd w)) = Suc (a_stops (hw st))
          \<and> a_starts (hw (snd r)) = Suc (a_starts (hw st))
          \<and> a_stops (hw (snd r)) = Suc (a_stops (hw st))"
proof -
  let ?a = "rtl8366_smi_start (analyser smi) smi (hw st)"
  obtain w a where w: "smi_write_frame (analyser smi) smi addr data ack ?a = (w, a)"
    by (cases "smi_write_frame (analyser smi) smi addr data ack ?a")
  obtain r b where r: "smi_read_frame (analyser smi) smi addr ?a = (r, b)"
    by (cases "smi_read_frame (analyser smi) smi addr ?a")
  have "timeout_only w" and "timeout_only r"
    using frames_timeout_only [OF assms, of ?a] w r
    by (simp_all add: start_analyser [OF assms] bus_owned_def timeout_only_def) (metis fst_conv)+
  then show ?thesis
    using transaction_analyser [OF assms keeps_frames(2) [OF assms] w]
      transaction_analyser [OF assms keeps_frames(1) [OF assms] r]
    by (cases w; simp add: rtl8366_smi_write_reg_gpio_def rtl8366_smi_read_reg_gpio_def
        timeout_only_def)
qed

theorem transactions_always_closed_witness:
  "fst (rtl8366_smi_write_reg_gpio (analyser sample_smi) sample_smi 1 2 True (idle_bus [])) =
     Inl ETIMEDOUT
   \<and> a_stops (hw (snd (rtl8366_smi_write_reg_gpio (analyser sample_smi) sample_smi 1 2 True
       (idle_bus [])))) = 1"
  using transactions_always_closed [OF two_wires_sample, of 1 2 True "idle_bus []"]
    write_reg_unacked [OF two_wires_sample]
  by (simp add: Let_def idle_bus_def)

text \<open>
  C16. The acknowledge loop returns success exactly when one of the next six samples is
  low, never samples more than six bits, and its only error is the timeout.
\<close>

theorem wait_for_ack_six_samples:
  assumes "two_wires smi" "bus_owned a"
  shows "let (r, a') = rtl8366_smi_wait_for_ack (analyser smi) smi a
         in (r = Inr () \<longleftrightarrow> False \<in> set (take 6 (a_inputs a)))
          \<and> (r \<noteq> Inr () \<longleftrightarrow> r = Inl ETIMEDOUT)
          \<and> (\<exists>k \<le> 6. a_inputs a' = drop k (a_inputs a))
          \<and> bus_owned a'"
proof -
  have "snd (ack_result 6 (a_inputs a)) \<le> 6" by (rule ack_result_le)
  moreover have "fst (ack_result 6 (a_inputs a)) \<noteq> Inr ()
      \<longleftrightarrow> fst (ack_result 6 (a_inputs a)) = Inl ETIMEDOUT"
    using ack_result_error [of 6 "a_inputs a"]
    by (cases "fst (ack_result 6 (a_inputs a))") auto
  ultimately show ?thesis
    using assms(2) by (auto simp: wait_for_ack_analyser [OF assms] ack_result_iff bus_owned_def)
qed

theorem wait_for_ack_six_samples_witness:
  "fst (rtl8366_smi_wait_for_ack (analyser sample_smi) sample_smi
     ((hw (idle_bus [True, True, False]))\<lparr>a_sck := False, a_drv := True\<rparr>)) = Inr ()"
proof -
  let ?a = "(hw (idle_bus [True, True, False]))\<lparr>a_sck := False, a_drv := True\<rparr>"
  have "bus_owned ?a" by (simp add: bus_owned_def)
  from wait_for_ack_six_samples [OF two_wires_sample this]
  show ?thesis by (simp add: split_def Let_def idle_bus_def)
qed

end
