(* ===== verification/Smi_Bus.thy ===== *)
theory Smi_Bus
  imports Smi_Wire
begin

text \<open>
  Register access as the chip drivers see it: \<open>rtl8366_smi_read_reg\<close> and
  \<open>rtl8366_smi_write_reg\<close> choose between the two-wire interface and an external MDIO
  bus, \<open>rtl8366_smi_rmwr\<close> builds read-modify-write on them. The locale
  \<open>reg_bus\<close> is the contract the chip drivers rely on: a read returns, and a write
  changes, the 16-bit register the address names. The locale \<open>mdio_slave\<close> states how a
  switch on an MDIO bus answers the indirect access registers, and the sublocale shows
  that the access sequences of the source then meet the contract.
\<close>

section \<open>Access through an external MDIO bus\<close>

abbreviation (input) MDC_MDIO_CTRL0_REG :: u32 where "MDC_MDIO_CTRL0_REG \<equiv> 31"
abbreviation (input) MDC_MDIO_START_REG :: u32 where "MDC_MDIO_START_REG \<equiv> 29"
abbreviation (input) MDC_MDIO_CTRL1_REG :: u32 where "MDC_MDIO_CTRL1_REG \<equiv> 21"
abbreviation (input) MDC_MDIO_ADDRESS_REG :: u32 where "MDC_MDIO_ADDRESS_REG \<equiv> 23"
abbreviation (input) MDC_MDIO_DATA_WRITE_REG :: u32 where "MDC_MDIO_DATA_WRITE_REG \<equiv> 24"
abbreviation (input) MDC_MDIO_DATA_READ_REG :: u32 where "MDC_MDIO_DATA_READ_REG \<equiv> 25"
abbreviation (input) MDC_MDIO_START_OP :: u16 where "MDC_MDIO_START_OP \<equiv> 0xFFFF"
abbreviation (input) MDC_MDIO_ADDR_OP :: u16 where "MDC_MDIO_ADDR_OP \<equiv> 0x000E"
abbreviation (input) MDC_MDIO_READ_OP :: u16 where "MDC_MDIO_READ_OP \<equiv> 0x0001"
abbreviation (input) MDC_MDIO_WRITE_OP :: u16 where "MDC_MDIO_WRITE_OP \<equiv> 0x0003"
abbreviation (input) MDC_REALTEK_PHY_ADDR :: u32 where "MDC_REALTEK_PHY_ADDR \<equiv> 0x0"

definition rtl8366_mdio_read_reg :: "'h platform \<Rightarrow> rtl8366_smi \<Rightarrow> u32 \<Rightarrow> ('h smi_state, u32) io" where
  "rtl8366_mdio_read_reg H smi addr st =
    (let phy_id = MDC_REALTEK_PHY_ADDR; wr = mbus_write H phy_id; h = hw st;
         h = wr MDC_MDIO_START_REG MDC_MDIO_START_OP h;
         h = wr MDC_MDIO_CTRL0_REG MDC_MDIO_ADDR_OP h;
         h = wr MDC_MDIO_START_REG MDC_MDIO_START_OP h;
         h = wr MDC_MDIO_ADDRESS_REG (ucast addr) h;
         h = wr MDC_MDIO_START_REG MDC_MDIO_START_OP h;
         h = wr MDC_MDIO_CTRL1_REG MDC_MDIO_READ_OP h;
         h = wr MDC_MDIO_START_REG MDC_MDIO_START_OP h;
         (data, h) = mbus_read H phy_id MDC_MDIO_DATA_READ_REG h
     in (Inr data, st\<lparr>hw := h\<rparr>))"

definition rtl8366_mdio_write_reg ::
  "'h platform \<Rightarrow> rtl8366_smi \<Rightarrow> u32 \<Rightarrow> u32 \<Rightarrow> ('h smi_state, unit) io" where
  "rtl8366_mdio_write_reg H smi addr data st =
    (let phy_id = MDC_REALTEK_PHY_ADDR; wr = mbus_write H phy_id; h = hw st;
         h = wr MDC_MDIO_START_REG MDC_MDIO_START_OP h;
         h = wr MDC_MDIO_CTRL0_REG MDC_MDIO_ADDR_OP h;
         h = wr MDC_MDIO_START_REG MDC_MDIO_START_OP h;
         h = wr MDC_MDIO_ADDRESS_REG (ucast addr) h;
         h = wr MDC_MDIO_START_REG MDC_MDIO_START_OP h;
         h = wr MDC_MDIO_DATA_WRITE_REG (ucast data) h;
         h = wr MDC_MDIO_START_REG MDC_MDIO_START_OP h;
         h = wr MDC_MDIO_CTRL1_REG MDC_MDIO_WRITE_OP h
     in (Inr (), st\<lparr>hw := h\<rparr>))"

section \<open>Dispatch, read-modify-write, reset\<close>

definition rtl8366_smi_read_reg :: "'h platform \<Rightarrow> rtl8366_smi \<Rightarrow> u32 \<Rightarrow> ('h smi_state, u32) io" where
  "rtl8366_smi_read_reg H smi addr =
    (if has_ext_mbus smi then rtl8366_mdio_read_reg H smi addr
     else rtl8366_smi_read_reg_gpio H smi addr)"

definition rtl8366_smi_write_reg ::
  "'h platform \<Rightarrow> rtl8366_smi \<Rightarrow> u32 \<Rightarrow> u32 \<Rightarrow> ('h smi_state, unit) io" where
  "rtl8366_smi_write_reg H smi addr data =
    (if has_ext_mbus smi then rtl8366_mdio_write_reg H smi addr data
     else rtl8366_smi_write_reg_gpio H smi addr data True)"

definition rtl8366_smi_write_reg_noack ::
  "'h platform \<Rightarrow> rtl8366_smi \<Rightarrow> u32 \<Rightarrow> u32 \<Rightarrow> ('h smi_state, unit) io" where
  "rtl8366_smi_write_reg_noack H smi addr data = rtl8366_smi_write_reg_gpio H smi addr data False"

definition rtl8366_smi_rmwr ::
  "'h platform \<Rightarrow> rtl8366_smi \<Rightarrow> u32 \<Rightarrow> u32 \<Rightarrow> u32 \<Rightarrow> ('h smi_state, unit) io" where
  "rtl8366_smi_rmwr H smi addr msk data =
    bindE (rtl8366_smi_read_reg H smi addr) (\<lambda>t.
    rtl8366_smi_write_reg H smi addr ((t AND NOT msk) OR data))"

abbreviation (input) RTL8366_SMI_HW_STOP_DELAY :: nat where "RTL8366_SMI_HW_STOP_DELAY \<equiv> 25"
abbreviation (input) RTL8366_SMI_HW_START_DELAY :: nat where "RTL8366_SMI_HW_START_DELAY \<equiv> 100"

definition rtl8366_reset ::
  "'h platform \<Rightarrow> rtl8366_smi \<Rightarrow> ('h smi_state, unit) io \<Rightarrow> ('h smi_state, unit) io" where
  "rtl8366_reset H smi reset_chip st =
    (if has_hw_reset smi then
       (Inr (), on_hw (\<lambda>h.
          let h = hw_reset H True h;
              h = msleep H RTL8366_SMI_HW_STOP_DELAY h;
              h = hw_reset H False h
          in msleep H RTL8366_SMI_HW_START_DELAY h) st)
     else reset_chip st)"

section \<open>What register access leaves alone\<close>

definition flags :: "'h smi_state \<Rightarrow> u32 \<times> u32" where
  "flags st = (vlan_enabled st, vlan4k_enabled st)"

lemma flags_upd [simp]: "flags (st\<lparr>hw := h\<rparr>) = flags st" "flags (st\<lparr>lock := l\<rparr>) = flags st"
  by (simp_all add: flags_def)

lemma silent_flags_transaction: "silent flags (smi_transaction H smi body)"
  by (rule silentI)
    (simp add: smi_transaction_def spin_lock_irqsave_def spin_unlock_irqrestore_def on_hw_def
      split_def Let_def)

lemma silent_flags_reg [silent_intros]:
  "silent flags (rtl8366_smi_read_reg H smi addr)"
  "silent flags (rtl8366_smi_write_reg H smi addr data)"
  "silent flags (rtl8366_smi_write_reg_noack H smi addr data)"
proof -
  show "silent flags (rtl8366_smi_read_reg H smi addr)"
    by (simp add: rtl8366_smi_read_reg_def rtl8366_smi_read_reg_gpio_def
        silent_flags_transaction)
      (rule impI, rule silentI, simp add: rtl8366_mdio_read_reg_def split_def Let_def)
  show "silent flags (rtl8366_smi_write_reg H smi addr data)"
    by (simp add: rtl8366_smi_write_reg_def rtl8366_smi_write_reg_gpio_def
        silent_flags_transaction)
      (rule impI, rule silentI, simp add: rtl8366_mdio_write_reg_def split_def Let_def)
  show "silent flags (rtl8366_smi_write_reg_noack H smi addr data)"
    by (simp add: rtl8366_smi_write_reg_noack_def rtl8366_smi_write_reg_gpio_def
        silent_flags_transaction)
qed

lemma silent_flags_rmwr [silent_intros]: "silent flags (rtl8366_smi_rmwr H smi addr msk data)"
  unfolding rtl8366_smi_rmwr_def by (intro silent_intros)

section \<open>The register contract\<close>

text \<open>
  \<open>chip_rd\<close> and \<open>chip_wr\<close> are the switch chip behind the bus, \<open>chip\<close> the chip's
  state inside the driver's state, \<open>ready\<close> the states in which the bus works.
\<close>

locale reg_bus =
  fixes H :: "'h platform"
    and smi :: rtl8366_smi
    and ready :: "'h smi_state \<Rightarrow> bool"
    and chip :: "'h smi_state \<Rightarrow> 'c"
    and chip_rd :: "'c \<Rightarrow> u16 \<Rightarrow> u16"
    and chip_wr :: "'c \<Rightarrow> u16 \<Rightarrow> u16 \<Rightarrow> 'c"
  assumes read_ok: "ready s \<Longrightarrow>
      fst (rtl8366_smi_read_reg H smi a s) = Inr (ucast (chip_rd (chip s) (ucast a)))"
    and read_chip: "ready s \<Longrightarrow> chip (snd (rtl8366_smi_read_reg H smi a s)) = chip s"
    and read_ready: "ready s \<Longrightarrow> ready (snd (rtl8366_smi_read_reg H smi a s))"
    and write_ok: "ready s \<Longrightarrow> fst (rtl8366_smi_write_reg H smi a v s) = Inr ()"
    and write_chip: "ready s \<Longrightarrow>
      chip (snd (rtl8366_smi_write_reg H smi a v s)) = chip_wr (chip s) (ucast a) (ucast v)"
    and write_ready: "ready s \<Longrightarrow> ready (snd (rtl8366_smi_write_reg H smi a v s))"
    and flag_ready: "ready (s\<lparr>vlan_enabled := f\<rparr>) = ready s" "ready (s\<lparr>vlan4k_enabled := f\<rparr>) = ready s"
    and flag_chip: "chip (s\<lparr>vlan_enabled := f\<rparr>) = chip s" "chip (s\<lparr>vlan4k_enabled := f\<rparr>) = chip s"
begin

lemmas bus_simps =
  read_ok read_chip read_ready write_ok write_chip write_ready
  silentD [OF silent_flags_reg(1)] silentD [OF silent_flags_reg(2)]

lemma rmwr_ok: "ready s \<Longrightarrow> fst (rtl8366_smi_rmwr H smi a m v s) = Inr ()"
  by (simp add: rtl8366_smi_rmwr_def fst_bindE bus_simps)

lemma rmwr_chip: "ready s \<Longrightarrow> chip (snd (rtl8366_smi_rmwr H smi a m v s)) =
    chip_wr (chip s) (ucast a) ((chip_rd (chip s) (ucast a) AND NOT (ucast m)) OR ucast v)"
  by (simp add: rtl8366_smi_rmwr_def snd_bindE bus_simps ucast_rmw)

lemma rmwr_ready: "ready s \<Longrightarrow> ready (snd (rtl8366_smi_rmwr H smi a m v s))"
  by (simp add: rtl8366_smi_rmwr_def snd_bindE bus_simps)

lemmas rmwr_simps = rmwr_ok rmwr_chip rmwr_ready silentD [OF silent_flags_rmwr]

lemma bus_succeeds [succeeds_intros]:
  "succeeds ready (rtl8366_smi_read_reg H smi a)" "succeeds ready (rtl8366_smi_write_reg H smi a v)"
  "succeeds ready (rtl8366_smi_rmwr H smi a m v)"
  by (simp_all add: succeeds_def bus_simps rmwr_simps)

text \<open>Clearing the bits below \<open>n\<close> of one register, one at a time.\<close>

lemma clear_bits_loop:
  assumes "\<And>c v. chip_rd (chip_wr c (ucast a) v) (ucast a) = v"
    and "\<And>c v. F (chip_wr c (ucast a) v) = F c" and "ready s" "n \<le> 16"
  defines "m \<equiv> forE [0..<n] (\<lambda>i. rtl8366_smi_rmwr H smi a (push_bit i 1) 0)"
  shows "fst (m s) = Inr () \<and> ready (snd (m s)) \<and> F (chip (snd (m s))) = F (chip s)
    \<and> flags (snd (m s)) = flags s \<and> (\<forall>i < n. \<not> bit (chip_rd (chip (snd (m s))) (ucast a)) i)"
  using assms(4) unfolding m_def
proof (induction n)
  case 0
  then show ?case using assms(3) by simp
next
  case (Suc n)
  let ?s = "snd (forE [0..<n] (\<lambda>i. rtl8366_smi_rmwr H smi a (push_bit i 1) 0) s)"
  have ih: "fst (forE [0..<n] (\<lambda>i. rtl8366_smi_rmwr H smi a (push_bit i 1) 0) s) = Inr ()" "ready ?s"
    "F (chip ?s) = F (chip s)" "flags ?s = flags s" "\<forall>i < n. \<not> bit (chip_rd (chip ?s) (ucast a)) i"
    using Suc by simp_all
  have bits: "bit ((r AND NOT (ucast (push_bit n 1 :: u32))) OR ucast (0 :: u32) :: u16) i \<longleftrightarrow> bit r i \<and> i \<noteq> n"
    if "i \<le> n" for r i using that Suc.prems by (auto simp: bit_simps)
  show ?case
    using ih bits by (auto simp: forE_snoc fst_bindE snd_bindE rmwr_simps assms(1,2) less_Suc_eq)
qed

end

section \<open>A switch on an MDIO bus\<close>

text \<open>
  How the indirect access registers of the switch behave on the bus: register 23 latches
  the address, register 24 the data to write, writing the read code to register 21 fetches
  the addressed register into the read latch, writing the write code stores the latched
  data, register 25 returns the read latch, and the start and control words of registers
  29 and 31 change none of these.
\<close>

locale mdio_slave =
  fixes H :: "'h platform"
    and smi :: rtl8366_smi
    and dev :: "'h \<Rightarrow> 'c"
    and addr_l :: "'h \<Rightarrow> u16"
    and wdata_l :: "'h \<Rightarrow> u16"
    and rdata_l :: "'h \<Rightarrow> u16"
    and chip_rd :: "'c \<Rightarrow> u16 \<Rightarrow> u16"
    and chip_wr :: "'c \<Rightarrow> u16 \<Rightarrow> u16 \<Rightarrow> 'c"
  assumes on_mdio: "has_ext_mbus smi"
    and idle_word: "r = MDC_MDIO_START_REG \<or> r = MDC_MDIO_CTRL0_REG \<Longrightarrow>
      dev (mbus_write H MDC_REALTEK_PHY_ADDR r v h) = dev h
      \<and> addr_l (mbus_write H MDC_REALTEK_PHY_ADDR r v h) = addr_l h
      \<and> wdata_l (mbus_write H MDC_REALTEK_PHY_ADDR r v h) = wdata_l h
      \<and> rdata_l (mbus_write H MDC_REALTEK_PHY_ADDR r v h) = rdata_l h"
    and address_word:
      "dev (mbus_write H MDC_REALTEK_PHY_ADDR MDC_MDIO_ADDRESS_REG v h) = dev h"
      "addr_l (mbus_write H MDC_REALTEK_PHY_ADDR MDC_MDIO_ADDRESS_REG v h) = v"
    and data_word:
      "dev (mbus_write H MDC_REALTEK_PHY_ADDR MDC_MDIO_DATA_WRITE_REG v h) = dev h"
      "addr_l (mbus_write H MDC_REALTEK_PHY_ADDR MDC_MDIO_DATA_WRITE_REG v h) = addr_l h"
      "wdata_l (mbus_write H MDC_REALTEK_PHY_ADDR MDC_MDIO_DATA_WRITE_REG v h) = v"
    and read_word:
      "dev (mbus_write H MDC_REALTEK_PHY_ADDR MDC_MDIO_CTRL1_REG MDC_MDIO_READ_OP h) = dev h"
      "rdata_l (mbus_write H MDC_REALTEK_PHY_ADDR MDC_MDIO_CTRL1_REG MDC_MDIO_READ_OP h) =
         chip_rd (dev h) (addr_l h)"
    and write_word:
      "dev (mbus_write H MDC_REALTEK_PHY_ADDR MDC_MDIO_CTRL1_REG MDC_MDIO_WRITE_OP h) =
         chip_wr (dev h) (addr_l h) (wdata_l h)"
    and fetch_word:
      "fst (mbus_read H MDC_REALTEK_PHY_ADDR MDC_MDIO_DATA_READ_REG h) = ucast (rdata_l h)"
      "dev (snd (mbus_read H MDC_REALTEK_PHY_ADDR MDC_MDIO_DATA_READ_REG h)) = dev h"
begin

lemmas slave_simps =
  idle_word address_word data_word read_word write_word fetch_word

lemma mdio_read:
  "fst (rtl8366_mdio_read_reg H smi a s) = Inr (ucast (chip_rd (dev (hw s)) (ucast a)))"
  "dev (hw (snd (rtl8366_mdio_read_reg H smi a s))) = dev (hw s)"
  by (simp_all add: rtl8366_mdio_read_reg_def split_def Let_def slave_simps)

lemma mdio_write:
  "fst (rtl8366_mdio_write_reg H smi a v s) = Inr ()"
  "dev (hw (snd (rtl8366_mdio_write_reg H smi a v s))) =
     chip_wr (dev (hw s)) (ucast a) (ucast v)"
  by (simp_all add: rtl8366_mdio_write_reg_def Let_def slave_simps)

end

sublocale mdio_slave \<subseteq> reg_bus H smi "\<lambda>s. True" "\<lambda>s. dev (hw s)" chip_rd chip_wr
  by unfold_locales
    (simp_all add: rtl8366_smi_read_reg_def rtl8366_smi_write_reg_def on_mdio mdio_read mdio_write)

end
