(* ===== verification/Smi_Vlan.thy ===== *)
theory Smi_Vlan
  imports Smi_Bus
begin

text \<open>
  The VLAN core of \<open>rtl8366_smi.c\<close>. The chips keep a table of 4096 VLANs and a small
  table of member configurations (MC); a port's PVID is the index of the MC entry it uses.
  The core keeps the two tables in step through the operations of
  \<open>struct rtl8366_smi_ops\<close>, a record of operations over an arbitrary state \<open>'s\<close>.
\<close>

section \<open>Data and the operations a chip provides\<close>

record rtl8366_vlan_mc =
  mc_vid :: u16
  mc_untag :: u16
  mc_member :: u16
  mc_fid :: u8
  mc_priority :: u8

record rtl8366_vlan_4k =
  v4k_vid :: u16
  v4k_untag :: u16
  v4k_member :: u16
  v4k_fid :: u8

record 's rtl8366_smi_ops =
  detect :: "('s, unit) io"
  reset_chip :: "('s, unit) io"
  chip_setup :: "('s, unit) io"
  mii_read :: "u32 \<Rightarrow> u32 \<Rightarrow> 's \<Rightarrow> u32 \<times> 's"
  mii_write :: "u32 \<Rightarrow> u32 \<Rightarrow> u16 \<Rightarrow> ('s, unit) io"
  get_vlan_mc :: "nat \<Rightarrow> ('s, rtl8366_vlan_mc) io"
  set_vlan_mc :: "nat \<Rightarrow> rtl8366_vlan_mc \<Rightarrow> ('s, unit) io"
  get_vlan_4k :: "u32 \<Rightarrow> ('s, rtl8366_vlan_4k) io"
  set_vlan_4k :: "rtl8366_vlan_4k \<Rightarrow> ('s, unit) io"
  get_mc_index :: "nat \<Rightarrow> ('s, nat) io"
  set_mc_index :: "nat \<Rightarrow> nat \<Rightarrow> ('s, unit) io"
  get_mib_counter :: "nat \<Rightarrow> nat \<Rightarrow> ('s, u64) io"
  is_vlan_valid :: "u32 \<Rightarrow> 's \<Rightarrow> bool"
  enable_vlan :: "bool \<Rightarrow> ('s, unit) io"
  enable_vlan4k :: "bool \<Rightarrow> ('s, unit) io"
  enable_port :: "nat \<Rightarrow> bool \<Rightarrow> ('s, unit) io"

section \<open>Member configurations and PVIDs\<close>

primrec mc_is_used_loop :: "'s rtl8366_smi_ops \<Rightarrow> nat \<Rightarrow> nat list \<Rightarrow> ('s, bool) io" where
  "mc_is_used_loop ops mc_index [] = retE False"
| "mc_is_used_loop ops mc_index (i # is) =
    bindE (get_mc_index ops i) (\<lambda>index.
    if mc_index = index then retE True else mc_is_used_loop ops mc_index is)"

definition rtl8366_mc_is_used :: "rtl8366_smi \<Rightarrow> 's rtl8366_smi_ops \<Rightarrow> nat \<Rightarrow> ('s, bool) io" where
  "rtl8366_mc_is_used smi ops mc_index = mc_is_used_loop ops mc_index [0..<num_ports smi]"

primrec set_vlan_loop ::
  "'s rtl8366_smi_ops \<Rightarrow> u32 \<Rightarrow> u32 \<Rightarrow> u32 \<Rightarrow> u32 \<Rightarrow> nat list \<Rightarrow> ('s, unit) io" where
  "set_vlan_loop ops vid member untag fid [] = retE ()"
| "set_vlan_loop ops vid member untag fid (i # is) =
    bindE (get_vlan_mc ops i) (\<lambda>vlanmc.
    if vid = ucast (mc_vid vlanmc)
    then set_vlan_mc ops i (vlanmc\<lparr>mc_member := ucast member, mc_untag := ucast untag,
           mc_fid := ucast fid\<rparr>)
    else set_vlan_loop ops vid member untag fid is)"

definition rtl8366_set_vlan ::
  "rtl8366_smi \<Rightarrow> 's rtl8366_smi_ops \<Rightarrow> u32 \<Rightarrow> u32 \<Rightarrow> u32 \<Rightarrow> u32 \<Rightarrow> ('s, unit) io" where
  "rtl8366_set_vlan smi ops vid member untag fid =
    bindE (get_vlan_4k ops vid) (\<lambda>vlan4k.
    bindE (set_vlan_4k ops (vlan4k\<lparr>v4k_member := ucast member, v4k_untag := ucast untag,
             v4k_fid := ucast fid\<rparr>)) (\<lambda>_.
    set_vlan_loop ops vid member untag fid [0..<num_vlan_mc smi]))"

definition rtl8366_get_pvid :: "'s rtl8366_smi_ops \<Rightarrow> nat \<Rightarrow> ('s, u32) io" where
  "rtl8366_get_pvid ops port =
    bindE (get_mc_index ops port) (\<lambda>index.
    bindE (get_vlan_mc ops index) (\<lambda>vlanmc.
    retE (ucast (mc_vid vlanmc))))"

text \<open>
  The three loops of \<open>rtl8366_set_pvid\<close>. A loop that falls through returns
  \<open>Some vlanmc\<close>, the value its local variable holds afterwards (the next loop uses it);
  one that returns from the function gives \<open>None\<close>.
\<close>

primrec set_pvid_match ::
  "'s rtl8366_smi_ops \<Rightarrow> nat \<Rightarrow> u32 \<Rightarrow> rtl8366_vlan_mc \<Rightarrow> nat list \<Rightarrow> ('s, rtl8366_vlan_mc option) io" where
  "set_pvid_match ops port vid vlanmc [] = retE (Some vlanmc)"
| "set_pvid_match ops port vid vlanmc (i # is) =
    bindE (get_vlan_mc ops i) (\<lambda>vlanmc.
    if vid = ucast (mc_vid vlanmc)
    then bindE (set_vlan_mc ops i vlanmc) (\<lambda>_.
         bindE (set_mc_index ops port i) (\<lambda>_. retE None))
    else set_pvid_match ops port vid vlanmc is)"

definition set_pvid_install ::
  "'s rtl8366_smi_ops \<Rightarrow> nat \<Rightarrow> u32 \<Rightarrow> rtl8366_vlan_mc \<Rightarrow> nat \<Rightarrow> ('s, unit) io" where
  "set_pvid_install ops port vid vlanmc i =
    bindE (get_vlan_4k ops vid) (\<lambda>vlan4k.
    bindE (set_vlan_mc ops i (vlanmc\<lparr>mc_vid := ucast vid, mc_member := v4k_member vlan4k,
             mc_untag := v4k_untag vlan4k, mc_fid := v4k_fid vlan4k\<rparr>)) (\<lambda>_.
    set_mc_index ops port i))"

primrec set_pvid_empty ::
  "'s rtl8366_smi_ops \<Rightarrow> nat \<Rightarrow> u32 \<Rightarrow> rtl8366_vlan_mc \<Rightarrow> nat list \<Rightarrow> ('s, rtl8366_vlan_mc option) io" where
  "set_pvid_empty ops port vid vlanmc [] = retE (Some vlanmc)"
| "set_pvid_empty ops port vid vlanmc (i # is) =
    bindE (get_vlan_mc ops i) (\<lambda>vlanmc.
    if mc_vid vlanmc = 0 \<and> mc_member vlanmc = 0
    then bindE (set_pvid_install ops port vid vlanmc i) (\<lambda>_. retE None)
    else set_pvid_empty ops port vid vlanmc is)"

primrec set_pvid_unused ::
  "rtl8366_smi \<Rightarrow> 's rtl8366_smi_ops \<Rightarrow> nat \<Rightarrow> u32 \<Rightarrow> rtl8366_vlan_mc \<Rightarrow> nat list \<Rightarrow> ('s, unit) io" where
  "set_pvid_unused smi ops port vid vlanmc [] = failE ENOSPC"
| "set_pvid_unused smi ops port vid vlanmc (i # is) =
    bindE (rtl8366_mc_is_used smi ops i) (\<lambda>used.
    if \<not> used then set_pvid_install ops port vid vlanmc i
    else set_pvid_unused smi ops port vid vlanmc is)"

definition zero_mc :: rtl8366_vlan_mc where
  "zero_mc = \<lparr>mc_vid = 0, mc_untag = 0, mc_member = 0, mc_fid = 0, mc_priority = 0\<rparr>"

definition zero_4k :: rtl8366_vlan_4k where
  "zero_4k = \<lparr>v4k_vid = 0, v4k_untag = 0, v4k_member = 0, v4k_fid = 0\<rparr>"

text \<open>
  The local variable is uninitialised before the first loop; every loop iteration assigns
  it before reading it, so the initial value \<open>zero_mc\<close> is never used.
\<close>

definition rtl8366_set_pvid ::
  "rtl8366_smi \<Rightarrow> 's rtl8366_smi_ops \<Rightarrow> nat \<Rightarrow> u32 \<Rightarrow> ('s, unit) io" where
  "rtl8366_set_pvid smi ops port vid =
    bindE (set_pvid_match ops port vid zero_mc [0..<num_vlan_mc smi]) (\<lambda>r.
    case r of None \<Rightarrow> retE () | Some vlanmc \<Rightarrow>
      bindE (set_pvid_empty ops port vid vlanmc [0..<num_vlan_mc smi]) (\<lambda>r.
      case r of None \<Rightarrow> retE () | Some vlanmc \<Rightarrow>
        set_pvid_unused smi ops port vid vlanmc [0..<num_vlan_mc smi]))"

section \<open>Enabling VLANs and ports, reset, initial set-up\<close>

definition set_vlan_enabled :: "u32 \<Rightarrow> ('h smi_state, unit) io" where
  "set_vlan_enabled v st = (Inr (), st\<lparr>vlan_enabled := v\<rparr>)"

definition set_vlan4k_enabled :: "u32 \<Rightarrow> ('h smi_state, unit) io" where
  "set_vlan4k_enabled v st = (Inr (), st\<lparr>vlan4k_enabled := v\<rparr>)"

definition rtl8366_smi_enable_vlan ::
  "('h smi_state) rtl8366_smi_ops \<Rightarrow> u32 \<Rightarrow> ('h smi_state, unit) io" where
  "rtl8366_smi_enable_vlan ops enable =
    bindE (enable_vlan ops (enable \<noteq> 0)) (\<lambda>_.
    bindE (set_vlan_enabled enable) (\<lambda>_.
    if enable = 0
    then bindE (set_vlan4k_enabled 0) (\<lambda>_. enable_vlan4k ops (enable \<noteq> 0))
    else retE ()))"

definition rtl8366_smi_enable_vlan4k ::
  "('h smi_state) rtl8366_smi_ops \<Rightarrow> u32 \<Rightarrow> ('h smi_state, unit) io" where
  "rtl8366_smi_enable_vlan4k ops enable =
    bindE (if enable \<noteq> 0
           then bindE (enable_vlan ops (enable \<noteq> 0)) (\<lambda>_. set_vlan_enabled enable)
           else retE ()) (\<lambda>_.
    bindE (enable_vlan4k ops (enable \<noteq> 0)) (\<lambda>_.
    set_vlan4k_enabled enable))"

definition rtl8366_smi_enable_all_ports ::
  "rtl8366_smi \<Rightarrow> 's rtl8366_smi_ops \<Rightarrow> bool \<Rightarrow> ('s, unit) io" where
  "rtl8366_smi_enable_all_ports smi ops enable =
    forE [0..<num_ports smi] (\<lambda>port. enable_port ops port enable)"

definition rtl8366_smi_reset_vlan ::
  "rtl8366_smi \<Rightarrow> ('h smi_state) rtl8366_smi_ops \<Rightarrow> ('h smi_state, unit) io" where
  "rtl8366_smi_reset_vlan smi ops =
    bindE (ignoreE (rtl8366_smi_enable_vlan ops 0)) (\<lambda>_.
    bindE (ignoreE (rtl8366_smi_enable_vlan4k ops 0)) (\<lambda>_.
    forE [0..<num_vlan_mc smi] (\<lambda>i. set_vlan_mc ops i zero_mc)))"

definition init_vlan_mask :: "rtl8366_smi \<Rightarrow> nat \<Rightarrow> u32" where
  "init_vlan_mask smi port =
    (if port = cpu_port smi then push_bit (num_ports smi) 1 - 1
     else push_bit port 1 OR push_bit (cpu_port smi) 1)"

definition rtl8366_init_vlan ::
  "rtl8366_smi \<Rightarrow> ('h smi_state) rtl8366_smi_ops \<Rightarrow> ('h smi_state, unit) io" where
  "rtl8366_init_vlan smi ops =
    bindE (rtl8366_smi_reset_vlan smi ops) (\<lambda>_.
    bindE (forE [0..<num_ports smi] (\<lambda>port.
      let msk = init_vlan_mask smi port
      in bindE (rtl8366_set_vlan smi ops (of_nat (port + 1)) msk msk 0) (\<lambda>_.
         rtl8366_set_pvid smi ops port (of_nat (port + 1))))) (\<lambda>_.
    rtl8366_smi_enable_vlan ops 1))"

end
