(* ===== verification/Vlan_Spec.thy ===== *)
theory Vlan_Spec
  imports Smi_Vlan
begin

text \<open>
  What the VLAN core promises, stated on the tables alone. A \<open>vlan_view\<close> holds the
  member configurations, the VLAN table and the MC index of each port; \<open>vlan_set_spec\<close>
  and \<open>pvid_set_spec\<close> are the abstract operations. The locale \<open>vlan_ops\<close> is the
  contract of \<open>struct rtl8366_smi_ops\<close>: with a provider that meets it, the operations of
  the core implement the abstract ones (a functional refinement), which is proved once
  here and used for every chip.
\<close>

section \<open>Tables\<close>

record vlan_view =
  mcs :: "nat \<Rightarrow> rtl8366_vlan_mc"
  v4ks :: "u32 \<Rightarrow> rtl8366_vlan_4k"
  pidxs :: "nat \<Rightarrow> nat"

definition mc_fits :: "u16 \<Rightarrow> u8 \<Rightarrow> rtl8366_vlan_mc \<Rightarrow> bool" where
  "mc_fits mmax fmax m \<longleftrightarrow> mc_vid m < 4096 \<and> mc_priority m \<le> 7 \<and> mc_member m \<le> mmax
     \<and> mc_untag m \<le> mmax \<and> mc_fid m \<le> fmax"

definition v4k_fits :: "u16 \<Rightarrow> u8 \<Rightarrow> rtl8366_vlan_4k \<Rightarrow> bool" where
  "v4k_fits mmax fmax e \<longleftrightarrow> v4k_vid e < 4096 \<and> v4k_member e \<le> mmax \<and> v4k_untag e \<le> mmax
     \<and> v4k_fid e \<le> fmax"

definition tables_ok :: "nat \<Rightarrow> nat \<Rightarrow> u16 \<Rightarrow> u8 \<Rightarrow> vlan_view \<Rightarrow> bool" where
  "tables_ok n np mmax fmax V \<longleftrightarrow>
     (\<forall>i < n. mc_fits mmax fmax (mcs V i))
     \<and> (\<forall>vid < 4096. v4k_fits mmax fmax (v4ks V vid) \<and> v4k_vid (v4ks V vid) = ucast vid)
     \<and> (\<forall>p < np. pidxs V p < n)"

section \<open>What a chip stores\<close>

text \<open>
  The member configurations of the RTL8366 chips hold all fields. Those of the RTL8367 chips have
  no untag mask and no priority: what is written there reads back as zero. \<open>stored u m\<close> is
  what the chip holds after \<open>m\<close> was written; \<open>u\<close> tells the two kinds apart.
\<close>

definition stored :: "bool \<Rightarrow> rtl8366_vlan_mc \<Rightarrow> rtl8366_vlan_mc" where
  "stored u m = (if u then m else m\<lparr>mc_untag := 0, mc_priority := 0\<rparr>)"

lemma stored_full [simp]: "stored True m = m"
  by (simp add: stored_def)

lemma stored_simps [simp]:
  "mc_vid (stored u m) = mc_vid m" "mc_member (stored u m) = mc_member m" "mc_fid (stored u m) = mc_fid m"
  by (simp_all add: stored_def)

lemma stored_zero [simp]: "stored u zero_mc = zero_mc"
  by (simp add: stored_def zero_mc_def)

lemma stored_untag: "mc_untag (stored u m) = (if u then mc_untag m else 0)"
  by (simp add: stored_def)

section \<open>Abstract operations\<close>

definition has_vid :: "u32 \<Rightarrow> rtl8366_vlan_mc \<Rightarrow> bool" where
  "has_vid vid m \<longleftrightarrow> vid = ucast (mc_vid m)"

definition is_empty_mc :: "rtl8366_vlan_mc \<Rightarrow> bool" where
  "is_empty_mc m \<longleftrightarrow> mc_vid m = 0 \<and> mc_member m = 0"

definition unused_mc :: "nat \<Rightarrow> vlan_view \<Rightarrow> nat \<Rightarrow> bool" where
  "unused_mc np V i \<longleftrightarrow> (\<forall>p \<in> set [0..<np]. pidxs V p \<noteq> i)"

definition upd_4k :: "u32 \<Rightarrow> u32 \<Rightarrow> u32 \<Rightarrow> rtl8366_vlan_4k \<Rightarrow> rtl8366_vlan_4k" where
  "upd_4k member untag fid e =
     e\<lparr>v4k_member := ucast member, v4k_untag := ucast untag, v4k_fid := ucast fid\<rparr>"

definition upd_mc :: "u32 \<Rightarrow> u32 \<Rightarrow> u32 \<Rightarrow> rtl8366_vlan_mc \<Rightarrow> rtl8366_vlan_mc" where
  "upd_mc member untag fid m =
     m\<lparr>mc_member := ucast member, mc_untag := ucast untag, mc_fid := ucast fid\<rparr>"

definition mc_from_4k :: "u32 \<Rightarrow> rtl8366_vlan_4k \<Rightarrow> rtl8366_vlan_mc \<Rightarrow> rtl8366_vlan_mc" where
  "mc_from_4k vid e m =
     m\<lparr>mc_vid := ucast vid, mc_member := v4k_member e, mc_untag := v4k_untag e,
       mc_fid := v4k_fid e\<rparr>"

definition vlan_set_spec ::
  "bool \<Rightarrow> nat \<Rightarrow> u16 \<Rightarrow> u8 \<Rightarrow> u32 \<Rightarrow> u32 \<Rightarrow> u32 \<Rightarrow> u32 \<Rightarrow> vlan_view \<Rightarrow> (errno + unit) \<times> vlan_view" where
  "vlan_set_spec u n mmax fmax vid member untag fid V =
    (let e = upd_4k member untag fid (v4ks V vid)
     in if vid < 4096 \<and> v4k_fits mmax fmax e
        then (Inr (), V\<lparr>v4ks := (v4ks V)(vid := e),
               mcs := (case find (\<lambda>i. has_vid vid (mcs V i)) [0..<n] of
                 None \<Rightarrow> mcs V | Some i \<Rightarrow> (mcs V)(i := stored u (upd_mc member untag fid (mcs V i))))\<rparr>)
        else (Inl EINVAL, V))"

definition install_spec ::
  "bool \<Rightarrow> nat \<Rightarrow> nat \<Rightarrow> u32 \<Rightarrow> rtl8366_vlan_mc \<Rightarrow> nat \<Rightarrow> vlan_view \<Rightarrow> (errno + unit) \<times> vlan_view" where
  "install_spec u np port vid m i V =
    (if vid < 4096
     then let V' = V\<lparr>mcs := (mcs V)(i := stored u (mc_from_4k vid (v4ks V vid) m))\<rparr>
          in if port < np then (Inr (), V'\<lparr>pidxs := (pidxs V)(port := i)\<rparr>) else (Inl EINVAL, V')
     else (Inl EINVAL, V))"

definition pvid_set_spec ::
  "bool \<Rightarrow> nat \<Rightarrow> nat \<Rightarrow> nat \<Rightarrow> u32 \<Rightarrow> vlan_view \<Rightarrow> (errno + unit) \<times> vlan_view" where
  "pvid_set_spec u n np port vid V =
    (case find (\<lambda>i. has_vid vid (mcs V i)) [0..<n] of
       Some i \<Rightarrow> if port < np then (Inr (), V\<lparr>pidxs := (pidxs V)(port := i)\<rparr>) else (Inl EINVAL, V)
     | None \<Rightarrow>
       (case find (\<lambda>i. is_empty_mc (mcs V i)) [0..<n] of
          Some i \<Rightarrow> install_spec u np port vid (mcs V i) i V
        | None \<Rightarrow>
          (case find (unused_mc np V) [0..<n] of
             Some i \<Rightarrow> install_spec u np port vid (mcs V (n - 1)) i V
           | None \<Rightarrow> (Inl ENOSPC, V))))"

section \<open>The contract\<close>

locale vlan_ops =
  fixes smi :: rtl8366_smi
    and ops :: "'s rtl8366_smi_ops"
    and ready :: "'s \<Rightarrow> bool"
    and view :: "'s \<Rightarrow> vlan_view"
    and mmax :: u16
    and fmax :: u8
    and u :: bool
  assumes tables: "ready s \<Longrightarrow> tables_ok (num_vlan_mc smi) (num_ports smi) mmax fmax (view s)"
    and tables_stored: "ready s \<Longrightarrow> i < num_vlan_mc smi \<Longrightarrow> stored u (mcs (view s) i) = mcs (view s) i"
    and get_mc: "ready s \<Longrightarrow> fst (get_vlan_mc ops i s) =
        (if i < num_vlan_mc smi then Inr (mcs (view s) i) else Inl EINVAL)"
      "ready s \<Longrightarrow> view (snd (get_vlan_mc ops i s)) = view s"
      "ready s \<Longrightarrow> ready (snd (get_vlan_mc ops i s))"
    and set_mc: "ready s \<Longrightarrow> fst (set_vlan_mc ops i m s) =
        (if i < num_vlan_mc smi \<and> mc_fits mmax fmax m then Inr () else Inl EINVAL)"
      "ready s \<Longrightarrow> view (snd (set_vlan_mc ops i m s)) =
        (if i < num_vlan_mc smi \<and> mc_fits mmax fmax m
         then (view s)\<lparr>mcs := (mcs (view s))(i := stored u m)\<rparr> else view s)"
      "ready s \<Longrightarrow> ready (snd (set_vlan_mc ops i m s))"
    and get_4k: "ready s \<Longrightarrow> fst (get_vlan_4k ops vid s) =
        (if vid < 4096 then Inr (v4ks (view s) vid) else Inl EINVAL)"
      "ready s \<Longrightarrow> view (snd (get_vlan_4k ops vid s)) = view s"
      "ready s \<Longrightarrow> ready (snd (get_vlan_4k ops vid s))"
    and set_4k: "ready s \<Longrightarrow> fst (set_vlan_4k ops e s) =
        (if v4k_fits mmax fmax e then Inr () else Inl EINVAL)"
      "ready s \<Longrightarrow> view (snd (set_vlan_4k ops e s)) =
        (if v4k_fits mmax fmax e
         then (view s)\<lparr>v4ks := (v4ks (view s))(ucast (v4k_vid e) := e)\<rparr> else view s)"
      "ready s \<Longrightarrow> ready (snd (set_vlan_4k ops e s))"
    and get_idx: "ready s \<Longrightarrow> fst (get_mc_index ops p s) =
        (if p < num_ports smi then Inr (pidxs (view s) p) else Inl EINVAL)"
      "ready s \<Longrightarrow> view (snd (get_mc_index ops p s)) = view s"
      "ready s \<Longrightarrow> ready (snd (get_mc_index ops p s))"
    and set_idx: "ready s \<Longrightarrow> fst (set_mc_index ops p i s) =
        (if p < num_ports smi \<and> i < num_vlan_mc smi then Inr () else Inl EINVAL)"
      "ready s \<Longrightarrow> view (snd (set_mc_index ops p i s)) =
        (if p < num_ports smi \<and> i < num_vlan_mc smi
         then (view s)\<lparr>pidxs := (pidxs (view s))(p := i)\<rparr> else view s)"
      "ready s \<Longrightarrow> ready (snd (set_mc_index ops p i s))"
begin

lemmas ops_simps = get_mc set_mc get_4k set_4k get_idx set_idx

lemma mc_fits_view: "ready s \<Longrightarrow> i < num_vlan_mc smi \<Longrightarrow> mc_fits mmax fmax (mcs (view s) i)"
  using tables by (auto simp: tables_ok_def)

lemma v4k_fits_view: "ready s \<Longrightarrow> vid < 4096 \<Longrightarrow> v4k_fits mmax fmax (v4ks (view s) vid)"
  using tables by (auto simp: tables_ok_def)

lemma v4k_vid_view: "ready s \<Longrightarrow> vid < 4096 \<Longrightarrow> v4k_vid (v4ks (view s) vid) = ucast vid"
  using tables by (auto simp: tables_ok_def)

lemma pidx_view: "ready s \<Longrightarrow> p < num_ports smi \<Longrightarrow> pidxs (view s) p < num_vlan_mc smi"
  using tables by (auto simp: tables_ok_def)

text \<open>The loops, each against the first-match search of its abstract operation.\<close>

lemma mc_is_used_loop_view:
  assumes "ready s" "\<forall>p \<in> set is. p < num_ports smi"
  shows "fst (mc_is_used_loop ops i is s) = Inr (\<exists>p \<in> set is. pidxs (view s) p = i)
    \<and> view (snd (mc_is_used_loop ops i is s)) = view s \<and> ready (snd (mc_is_used_loop ops i is s))"
  using assms
  by (induction "is" arbitrary: s) (auto simp: fst_bindE snd_bindE ops_simps)

lemma mc_is_used_view:
  assumes "ready s"
  shows "fst (rtl8366_mc_is_used smi ops i s) = Inr (\<not> unused_mc (num_ports smi) (view s) i)"
    "view (snd (rtl8366_mc_is_used smi ops i s)) = view s"
    "ready (snd (rtl8366_mc_is_used smi ops i s))"
  using mc_is_used_loop_view [OF assms, of "[0..<num_ports smi]" i]
  by (auto simp: rtl8366_mc_is_used_def unused_mc_def)

lemma get_pvid_view:
  assumes "ready s"
  shows "fst (rtl8366_get_pvid ops port s) =
      (if port < num_ports smi then Inr (ucast (mc_vid (mcs (view s) (pidxs (view s) port))))
       else Inl EINVAL)"
    "view (snd (rtl8366_get_pvid ops port s)) = view s"
    "ready (snd (rtl8366_get_pvid ops port s))"
  using assms by (auto simp: rtl8366_get_pvid_def fst_bindE snd_bindE ops_simps pidx_view)

lemma set_vlan_loop_view:
  assumes "ready s" "\<forall>i \<in> set is. i < num_vlan_mc smi"
    and "ucast member \<le> mmax" "ucast untag \<le> mmax" "ucast fid \<le> fmax"
  shows "fst (set_vlan_loop ops vid member untag fid is s) = Inr ()
    \<and> view (snd (set_vlan_loop ops vid member untag fid is s)) =
        (case find (\<lambda>i. has_vid vid (mcs (view s) i)) is of
           None \<Rightarrow> view s
         | Some i \<Rightarrow> (view s)\<lparr>mcs := (mcs (view s))(i := stored u (upd_mc member untag fid (mcs (view s) i)))\<rparr>)
    \<and> ready (snd (set_vlan_loop ops vid member untag fid is s))"
  using assms(1,2)
proof (induction "is" arbitrary: s)
  case Nil
  then show ?case by simp
next
  case (Cons i "is")
  have "mc_fits mmax fmax (mcs (view s) i)" using Cons.prems by (simp add: mc_fits_view)
  then have "mc_fits mmax fmax (upd_mc member untag fid (mcs (view s) i))"
    using assms(3-) by (simp add: mc_fits_def upd_mc_def)
  then show ?case
    using Cons.prems Cons.IH [of "snd (get_vlan_mc ops i s)"]
    by (simp add: fst_bindE snd_bindE ops_simps has_vid_def upd_mc_def split: option.splits)
qed

text \<open>Setting a VLAN refines its abstract operation.\<close>

lemma set_vlan_view:
  assumes "ready s"
  shows "(fst (rtl8366_set_vlan smi ops vid member untag fid s),
      view (snd (rtl8366_set_vlan smi ops vid member untag fid s))) =
      vlan_set_spec u (num_vlan_mc smi) mmax fmax vid member untag fid (view s)
    \<and> ready (snd (rtl8366_set_vlan smi ops vid member untag fid s))"
proof -
  let ?e = "upd_4k member untag fid (v4ks (view s) vid)"
  let ?s1 = "snd (get_vlan_4k ops vid s)"
  let ?s2 = "snd (set_vlan_4k ops ?e ?s1)"
  have s1: "ready ?s1" "view ?s1 = view s" using assms by (simp_all add: ops_simps)
  then have s2: "ready ?s2" by (simp add: ops_simps)
  show ?thesis
  proof (cases "vid < 4096 \<and> v4k_fits mmax fmax ?e")
    case False
    then show ?thesis
      using assms s1
      by (auto simp: rtl8366_set_vlan_def fst_bindE snd_bindE ops_simps vlan_set_spec_def Let_def
          upd_4k_def)
  next
    case True
    have vid: "ucast (v4k_vid ?e) = vid"
      using True assms less_4096_ucast [of vid]
      by (simp add: upd_4k_def v4k_vid_view)
    have fit: "ucast member \<le> mmax" "ucast untag \<le> mmax" "ucast fid \<le> fmax"
      using True by (auto simp: v4k_fits_def upd_4k_def)
    have v2: "view ?s2 = (view s)\<lparr>v4ks := (v4ks (view s))(vid := ?e)\<rparr>"
      using True s1 vid by (simp add: ops_simps)
    have run: "rtl8366_set_vlan smi ops vid member untag fid s =
        set_vlan_loop ops vid member untag fid [0..<num_vlan_mc smi] ?s2"
      using True assms s1
      by (intro prod_eqI)
        (simp_all add: rtl8366_set_vlan_def fst_bindE snd_bindE ops_simps upd_4k_def)
    show ?thesis
      using True set_vlan_loop_view [OF s2 _ fit, of "[0..<num_vlan_mc smi]" vid]
      by (auto simp: run v2 vlan_set_spec_def Let_def split: option.splits)
  qed
qed

text \<open>Setting a PVID: the three searches, then the whole operation.\<close>

lemma set_pvid_match_view:
  assumes "ready s" "\<forall>i \<in> set is. i < num_vlan_mc smi"
  shows "fst (set_pvid_match ops port vid m is s) =
      (case find (\<lambda>i. has_vid vid (mcs (view s) i)) is of
         None \<Rightarrow> Inr (Some (if is = [] then m else mcs (view s) (last is)))
       | Some i \<Rightarrow> (if port < num_ports smi then Inr None else Inl EINVAL))
    \<and> view (snd (set_pvid_match ops port vid m is s)) =
      (case find (\<lambda>i. has_vid vid (mcs (view s) i)) is of
         None \<Rightarrow> view s
       | Some i \<Rightarrow> (if port < num_ports smi
                    then (view s)\<lparr>pidxs := (pidxs (view s))(port := i)\<rparr> else view s))
    \<and> ready (snd (set_pvid_match ops port vid m is s))"
  using assms
proof (induction "is" arbitrary: s m)
  case Nil
  then show ?case by simp
next
  case (Cons i "is")
  have "mc_fits mmax fmax (mcs (view s) i)" using Cons.prems by (simp add: mc_fits_view)
  then show ?case
    using Cons.prems Cons.IH [of "snd (get_vlan_mc ops i s)" "mcs (view s) i"] tables_stored [of s i]
    by (auto simp: fst_bindE snd_bindE ops_simps has_vid_def split: option.splits)
qed

lemma set_pvid_install_view:
  assumes "ready s" "i < num_vlan_mc smi" "mc_priority m \<le> 7"
  shows "(fst (set_pvid_install ops port vid m i s), view (snd (set_pvid_install ops port vid m i s))) =
      install_spec u (num_ports smi) port vid m i (view s)
    \<and> ready (snd (set_pvid_install ops port vid m i s))"
proof (cases "vid < 4096")
  case False
  then show ?thesis
    using assms by (simp add: set_pvid_install_def fst_bindE snd_bindE ops_simps install_spec_def)
next
  case True
  have "mc_fits mmax fmax (mc_from_4k vid (v4ks (view s) vid) m)"
    using v4k_fits_view [OF assms(1) True] v4k_vid_view [OF assms(1) True] assms(3)
    by (simp add: mc_fits_def v4k_fits_def mc_from_4k_def)
  then show ?thesis
    using True assms
    by (simp add: set_pvid_install_def fst_bindE snd_bindE ops_simps install_spec_def
        mc_from_4k_def [symmetric] Let_def)
qed

lemma set_pvid_empty_view:
  assumes "ready s" "\<forall>i \<in> set is. i < num_vlan_mc smi"
  shows "(fst (set_pvid_empty ops port vid m is s), view (snd (set_pvid_empty ops port vid m is s))) =
      (case find (\<lambda>i. is_empty_mc (mcs (view s) i)) is of
         None \<Rightarrow> (Inr (Some (if is = [] then m else mcs (view s) (last is))), view s)
       | Some i \<Rightarrow> (let (r, V) = install_spec u (num_ports smi) port vid (mcs (view s) i) i (view s)
                    in (map_sum id (\<lambda>_. None) r, V)))
    \<and> ready (snd (set_pvid_empty ops port vid m is s))"
  using assms
proof (induction "is" arbitrary: s m)
  case Nil
  then show ?case by simp
next
  case (Cons i "is")
  let ?s = "snd (get_vlan_mc ops i s)"
  have s: "ready ?s" "view ?s = view s" "i < num_vlan_mc smi"
    using Cons.prems by (simp_all add: ops_simps)
  have "mc_fits mmax fmax (mcs (view s) i)" using Cons.prems by (simp add: mc_fits_view)
  then have "mc_priority (mcs (view s) i) \<le> 7" by (simp add: mc_fits_def)
  note inst = set_pvid_install_view [OF s(1,3) this, of port vid]
  show ?case
  proof (cases "is_empty_mc (mcs (view s) i)")
    case True
    then show ?thesis
      using Cons.prems inst s
      by (cases "fst (set_pvid_install ops port vid (mcs (view s) i) i ?s)")
        (auto simp: fst_bindE snd_bindE ops_simps is_empty_mc_def split_def Let_def
          dest!: sym [of "(_, _)"])
  next
    case False
    then show ?thesis
      using Cons.prems Cons.IH [OF s(1), of "mcs (view s) i"] s(2)
      by (auto simp: fst_bindE snd_bindE ops_simps is_empty_mc_def split: option.splits)
  qed
qed

lemma set_pvid_unused_view:
  assumes "ready s" "\<forall>i \<in> set is. i < num_vlan_mc smi" "is \<noteq> [] \<Longrightarrow> mc_priority m \<le> 7"
  shows "(fst (set_pvid_unused smi ops port vid m is s),
        view (snd (set_pvid_unused smi ops port vid m is s))) =
      (case find (unused_mc (num_ports smi) (view s)) is of
         None \<Rightarrow> (Inl ENOSPC, view s)
       | Some i \<Rightarrow> install_spec u (num_ports smi) port vid m i (view s))
    \<and> ready (snd (set_pvid_unused smi ops port vid m is s))"
  using assms
proof (induction "is" arbitrary: s)
  case Nil
  then show ?case by simp
next
  case (Cons i "is")
  let ?s = "snd (rtl8366_mc_is_used smi ops i s)"
  have s: "ready ?s" "view ?s = view s" "i < num_vlan_mc smi" "mc_priority m \<le> 7"
    using Cons.prems by (simp_all add: mc_is_used_view)
  show ?case
    using Cons.prems Cons.IH [OF s(1)] s(2) set_pvid_install_view [OF s(1,3,4), of port vid]
    by (simp add: fst_bindE snd_bindE mc_is_used_view split: option.splits)
qed

lemma last_upt: "0 < n \<Longrightarrow> last [0..<n] = n - 1"
  by (cases n) simp_all

lemma set_pvid_view:
  assumes "ready s"
  shows "(fst (rtl8366_set_pvid smi ops port vid s), view (snd (rtl8366_set_pvid smi ops port vid s))) =
      pvid_set_spec u (num_vlan_mc smi) (num_ports smi) port vid (view s)
    \<and> ready (snd (rtl8366_set_pvid smi ops port vid s))"
proof -
  let ?is = "[0..<num_vlan_mc smi]" and ?V = "view s"
  let ?s1 = "snd (set_pvid_match ops port vid zero_mc ?is s)"
  let ?m = "if ?is = [] then zero_mc else mcs ?V (last ?is)"
  let ?s2 = "snd (set_pvid_empty ops port vid ?m ?is ?s1)"
  note match = set_pvid_match_view [OF assms, of ?is port vid zero_mc]
  have s1: "ready ?s1" using match by simp
  show ?thesis
  proof (cases "find (\<lambda>i. has_vid vid (mcs ?V i)) ?is")
    case (Some i)
    then show ?thesis
      using match by (simp add: rtl8366_set_pvid_def fst_bindE snd_bindE pvid_set_spec_def)
  next
    case None
    then have v1: "view ?s1 = ?V"
      and run: "rtl8366_set_pvid smi ops port vid s =
        bindE (set_pvid_empty ops port vid ?m ?is) (\<lambda>r. case r of None \<Rightarrow> retE ()
          | Some m \<Rightarrow> set_pvid_unused smi ops port vid m ?is) ?s1"
      using match by (simp_all add: rtl8366_set_pvid_def bindE_def split_def)
    note empty = set_pvid_empty_view [OF s1, of ?is port vid ?m, unfolded v1]
    have s2: "ready ?s2" using empty by simp
    show ?thesis
    proof (cases "find (\<lambda>i. is_empty_mc (mcs ?V i)) ?is")
      case (Some i)
      then show ?thesis
        using empty None
        by (cases "fst (install_spec u (num_ports smi) port vid (mcs ?V i) i ?V)")
          (auto simp: run fst_bindE snd_bindE pvid_set_spec_def split_def Let_def
            intro: prod_eqI)
    next
      case e: None
      let ?m2 = "if ?is = [] then ?m else mcs ?V (last ?is)"
      have prio: "?is \<noteq> [] \<Longrightarrow> mc_priority ?m2 \<le> 7"
        using mc_fits_view [OF assms, of "num_vlan_mc smi - 1"] by (simp add: last_upt mc_fits_def)
      have v2: "view ?s2 = ?V" and f2: "fst (set_pvid_empty ops port vid ?m ?is ?s1) = Inr (Some ?m2)"
        using empty e by simp_all
      have run2: "rtl8366_set_pvid smi ops port vid s = set_pvid_unused smi ops port vid ?m2 ?is ?s2"
        unfolding run using f2 by (simp add: bindE_def split_def del: upt_conv_Nil)
      have spec: "pvid_set_spec u (num_vlan_mc smi) (num_ports smi) port vid ?V =
          (case find (unused_mc (num_ports smi) ?V) ?is of None \<Rightarrow> (Inl ENOSPC, ?V)
           | Some i \<Rightarrow> install_spec u (num_ports smi) port vid ?m2 i ?V)"
        using None e
        by (cases "num_vlan_mc smi = 0")
          (simp_all add: pvid_set_spec_def last_upt split: option.splits)
      show ?thesis
        unfolding run2 spec using set_pvid_unused_view [OF s2 _ prio, of ?is port vid, unfolded v2]
        by fastforce
    qed
  qed
qed

end

section \<open>What the abstract operations guarantee\<close>

lemma pvid_set_spec_sets:
  assumes "pvid_set_spec u n np port vid V = (Inr (), V')"
  shows "port < np \<and> pidxs V' port < n \<and> has_vid vid (mcs V' (pidxs V' port))"
  using assms
  by (auto simp: pvid_set_spec_def install_spec_def Let_def mc_from_4k_def has_vid_def
      less_4096_ucast split: option.splits if_splits dest!: find_upt_Some)

lemma pvid_set_spec_others:
  assumes "pvid_set_spec u n np port vid V = (r, V')" "p < np" "p \<noteq> port"
    and "\<not> is_empty_mc (mcs V (pidxs V p))"
  shows "pidxs V' p = pidxs V p \<and> mcs V' (pidxs V' p) = mcs V (pidxs V p)"
  using assms
  by (auto simp: pvid_set_spec_def install_spec_def Let_def unused_mc_def
      split: option.splits if_splits dest!: find_upt_Some)

lemma pvid_set_spec_full:
  assumes "vid < 4096" "port < np"
  shows "fst (pvid_set_spec u n np port vid V) = Inl ENOSPC \<longleftrightarrow>
     (\<forall>i < n. \<not> has_vid vid (mcs V i) \<and> \<not> is_empty_mc (mcs V i) \<and> \<not> unused_mc np V i)"
  using assms
  by (auto simp: pvid_set_spec_def install_spec_def Let_def find_upt_None
      split: option.splits dest!: find_upt_Some)

lemma pvid_set_spec_error:
  assumes "fst (pvid_set_spec u n np port vid V) = Inl e" "port < np"
  shows "snd (pvid_set_spec u n np port vid V) = V"
  using assms
  by (auto simp: pvid_set_spec_def install_spec_def Let_def split: option.splits if_splits)

text \<open>
  The two tables are in step: every member configuration with a VLAN carries the members,
  untag mask (where the chip stores one) and filtering database of that VLAN's table entry, and no
  VLAN has two.
\<close>

definition mc_agrees :: "bool \<Rightarrow> rtl8366_vlan_4k \<Rightarrow> rtl8366_vlan_mc \<Rightarrow> bool" where
  "mc_agrees u e m \<longleftrightarrow> mc_member m = v4k_member e \<and> mc_untag m = (if u then v4k_untag e else 0) \<and> mc_fid m = v4k_fid e"

definition in_step :: "bool \<Rightarrow> nat \<Rightarrow> vlan_view \<Rightarrow> bool" where
  "in_step u n V \<longleftrightarrow>
     (\<forall>i < n. mc_vid (mcs V i) \<noteq> 0 \<longrightarrow> mc_agrees u (v4ks V (ucast (mc_vid (mcs V i)))) (mcs V i))
     \<and> (\<forall>i < n. \<forall>j < n. mc_vid (mcs V i) = mc_vid (mcs V j) \<and> mc_vid (mcs V i) \<noteq> 0 \<longrightarrow> i = j)"

lemma ucast_u16_u32_eq: "(ucast (a :: u16) :: u32) = ucast b \<longleftrightarrow> a = b"
  using ucast_u16_u32 [of a] ucast_u16_u32 [of b] by metis

lemma has_vid_ucast: "vid < 4096 \<Longrightarrow> has_vid vid m \<longleftrightarrow> mc_vid m = ucast vid"
  using less_4096_ucast [of vid] by (auto simp: has_vid_def ucast_u16_u32)

lemma in_step_agrees:
  "in_step u n V \<Longrightarrow> i < n \<Longrightarrow> mc_vid (mcs V i) \<noteq> 0 \<Longrightarrow>
    mc_agrees u (v4ks V (ucast (mc_vid (mcs V i)))) (mcs V i)"
  by (simp add: in_step_def)

lemma in_step_unique:
  "in_step u n V \<Longrightarrow> i < n \<Longrightarrow> j < n \<Longrightarrow> mc_vid (mcs V i) = mc_vid (mcs V j) \<Longrightarrow>
    mc_vid (mcs V i) \<noteq> 0 \<Longrightarrow> i = j"
  by (auto simp: in_step_def)

lemma upd_mc_vid [simp]: "mc_vid (upd_mc member untag fid m) = mc_vid m"
  by (simp add: upd_mc_def)

lemma mc_agrees_upd [simp]: "mc_agrees u (upd_4k member untag fid e) (stored u (upd_mc member untag fid m))"
  by (simp add: mc_agrees_def upd_4k_def upd_mc_def stored_untag)

lemma in_step_vlan_set:
  assumes "in_step u n V"
  shows "in_step u n (snd (vlan_set_spec u n mmax fmax vid member untag fid V))"
proof (cases "vid < 4096 \<and> v4k_fits mmax fmax (upd_4k member untag fid (v4ks V vid))")
  case False
  then show ?thesis using assms by (simp only: vlan_set_spec_def Let_def if_False snd_conv)
next
  case True
  let ?V = "snd (vlan_set_spec u n mmax fmax vid member untag fid V)"
  have vids: "mc_vid (mcs ?V i) = mc_vid (mcs V i)" for i
    using True by (auto simp: vlan_set_spec_def Let_def split: option.splits)
  have "mc_agrees u (v4ks ?V (ucast (mc_vid (mcs ?V i)))) (mcs ?V i)"
    if i: "i < n" "mc_vid (mcs V i) \<noteq> 0" for i
  proof (cases "has_vid vid (mcs V i)")
    case hit: True
    have "j = i" if "j < i" "has_vid vid (mcs V j)" for j
      using that hit i in_step_unique [OF assms, of j i] by (auto simp: has_vid_def ucast_u16_u32_eq)
    then have "find (\<lambda>i. has_vid vid (mcs V i)) [0..<n] = Some i"
      using i hit by (auto simp: find_Some_iff intro!: exI [of _ i])
    then show ?thesis using True hit by (simp add: vlan_set_spec_def Let_def has_vid_def [symmetric])
      (simp add: has_vid_def)
  next
    case miss: False
    then have "mcs ?V i = mcs V i" "v4ks ?V (ucast (mc_vid (mcs V i))) = v4ks V (ucast (mc_vid (mcs V i)))"
      using True by (auto simp: vlan_set_spec_def Let_def has_vid_def split: option.splits
          dest!: find_upt_Some)
    then show ?thesis using in_step_agrees [OF assms i] by simp
  qed
  then show ?thesis
    using in_step_unique [OF assms] by (auto simp: in_step_def [of u n ?V] vids)
qed

lemma in_step_install:
  assumes "in_step u n V" "\<forall>j < n. \<not> has_vid vid (mcs V j)" "i < n"
  shows "in_step u n (snd (install_spec u np port vid m i V))"
proof -
  let ?e = "stored u (mc_from_4k vid (v4ks V vid) m)"
  have "in_step u n (V\<lparr>mcs := (mcs V)(i := ?e)\<rparr>)" if v: "vid < 4096"
  proof -
    have "mc_vid ?e = ucast vid" "mc_agrees u (v4ks V (ucast (mc_vid ?e))) ?e"
      using v by (simp_all add: mc_from_4k_def mc_agrees_def less_4096_ucast stored_untag)
    then show ?thesis
      using assms v by (auto simp: in_step_def has_vid_ucast)
  qed
  moreover have "in_step u n (W\<lparr>pidxs := f\<rparr>) = in_step u n W" for W f
    by (simp add: in_step_def)
  ultimately show ?thesis using assms(1) by (simp add: install_spec_def Let_def)
qed

lemma in_step_pvid_set:
  assumes "in_step u n V"
  shows "in_step u n (snd (pvid_set_spec u n np port vid V))"
  using assms
  by (auto simp: pvid_set_spec_def find_upt_None in_step_def [of u n "pidxs_update _ _"]
      intro!: in_step_install in_step_agrees in_step_unique split: option.splits dest!: find_upt_Some)

end
