(* ===== verification/Vlan_Init.thy ===== *)
theory Vlan_Init
  imports Vlan_Spec
begin

text \<open>
  Enabling VLANs, resetting and initialising them. The locale \<open>vlan_switch\<close> extends the
  table contract by the two enable bits of the chip (\<open>modes\<close>) and by what the driver's
  own flags, kept beside the hardware, may not disturb. Proved here: the driver's flags
  mirror the chip's enable bits, and \<open>rtl8366_init_vlan\<close> gives each port its own VLAN.
\<close>

section \<open>The contract of a whole switch\<close>

text \<open>
  The driver's flags mirror the chip, and the 4K table is in use only with VLANs on. The RTL8367
  chips have no enable bit for the 4K table (\<open>k4\<close> is false); the flag is then the driver's
  own.
\<close>

definition flags_mirror :: "bool \<Rightarrow> ('h smi_state \<Rightarrow> bool \<times> bool) \<Rightarrow> 'h smi_state \<Rightarrow> bool" where
  "flags_mirror k4 modes s \<longleftrightarrow> modes s = (vlan_enabled s \<noteq> 0, k4 \<and> vlan4k_enabled s \<noteq> 0)
     \<and> (vlan4k_enabled s \<noteq> 0 \<longrightarrow> vlan_enabled s \<noteq> 0)"

locale vlan_switch = vlan_ops smi ops ready view mmax fmax u
  for smi :: rtl8366_smi
    and ops :: "('h smi_state) rtl8366_smi_ops"
    and ready :: "'h smi_state \<Rightarrow> bool"
    and view :: "'h smi_state \<Rightarrow> vlan_view"
    and mmax :: u16
    and fmax :: u8
    and u :: bool +
  fixes modes :: "'h smi_state \<Rightarrow> bool \<times> bool"
    and k4 :: bool
  assumes en_vlan: "ready s \<Longrightarrow> fst (enable_vlan ops b s) = Inr ()"
      "ready s \<Longrightarrow> view (snd (enable_vlan ops b s)) = view s"
      "ready s \<Longrightarrow> ready (snd (enable_vlan ops b s))"
      "ready s \<Longrightarrow> modes (snd (enable_vlan ops b s)) = (b, snd (modes s))"
      "flags (snd (enable_vlan ops b s)) = flags s"
    and en_4k: "ready s \<Longrightarrow> fst (enable_vlan4k ops b s) = Inr ()"
      "ready s \<Longrightarrow> view (snd (enable_vlan4k ops b s)) = view s"
      "ready s \<Longrightarrow> ready (snd (enable_vlan4k ops b s))"
      "ready s \<Longrightarrow> modes (snd (enable_vlan4k ops b s)) = (fst (modes s), k4 \<and> b)"
      "flags (snd (enable_vlan4k ops b s)) = flags s"
    and table_modes:
      "ready s \<Longrightarrow> modes (snd (get_vlan_mc ops i s)) = modes s"
      "ready s \<Longrightarrow> modes (snd (set_vlan_mc ops i m s)) = modes s"
      "ready s \<Longrightarrow> modes (snd (get_vlan_4k ops vid s)) = modes s"
      "ready s \<Longrightarrow> modes (snd (set_vlan_4k ops e s)) = modes s"
      "ready s \<Longrightarrow> modes (snd (get_mc_index ops p s)) = modes s"
      "ready s \<Longrightarrow> modes (snd (set_mc_index ops p i s)) = modes s"
    and table_flags:
      "silent flags (get_vlan_mc ops i)" "silent flags (set_vlan_mc ops i m)"
      "silent flags (get_vlan_4k ops vid)" "silent flags (set_vlan_4k ops e)"
      "silent flags (get_mc_index ops p)" "silent flags (set_mc_index ops p i)"
    and flag_frame:
      "ready (s\<lparr>vlan_enabled := a\<rparr>) = ready s" "ready (s\<lparr>vlan4k_enabled := a\<rparr>) = ready s"
      "view (s\<lparr>vlan_enabled := a\<rparr>) = view s" "view (s\<lparr>vlan4k_enabled := a\<rparr>) = view s"
      "modes (s\<lparr>vlan_enabled := a\<rparr>) = modes s" "modes (s\<lparr>vlan4k_enabled := a\<rparr>) = modes s"
    and valid_range: "is_vlan_valid ops vid s \<Longrightarrow> vid \<noteq> 0 \<and> vid < 4096"
    and valid_flags: "flags s = flags t \<Longrightarrow> is_vlan_valid ops vid s \<longleftrightarrow> is_vlan_valid ops vid t"
begin

lemmas switch_simps = en_vlan en_4k flag_frame

definition steady :: "'h smi_state \<Rightarrow> bool" where
  "steady s \<longleftrightarrow> ready s \<and> flags_mirror k4 modes s"

lemma flags_cong: "flags s = flags t \<Longrightarrow> vlan_enabled s = vlan_enabled t"
    "flags s = flags t \<Longrightarrow> vlan4k_enabled s = vlan4k_enabled t"
  by (simp_all add: flags_def)

lemmas en_vlan_flags = flags_cong [OF en_vlan(5)]
lemmas en_4k_flags = flags_cong [OF en_4k(5)]
lemmas table_flag = flags_cong [OF table_flags(1) [THEN silentD]]
  flags_cong [OF table_flags(2) [THEN silentD]] flags_cong [OF table_flags(3) [THEN silentD]]
  flags_cong [OF table_flags(4) [THEN silentD]] flags_cong [OF table_flags(5) [THEN silentD]]
  flags_cong [OF table_flags(6) [THEN silentD]]

lemma enable_vlan_run:
  assumes "ready s"
  shows "fst (rtl8366_smi_enable_vlan ops e s) = Inr ()"
    "view (snd (rtl8366_smi_enable_vlan ops e s)) = view s"
    "ready (snd (rtl8366_smi_enable_vlan ops e s))"
    "vlan_enabled (snd (rtl8366_smi_enable_vlan ops e s)) = e"
    "vlan4k_enabled (snd (rtl8366_smi_enable_vlan ops e s)) =
       (if e = 0 then 0 else vlan4k_enabled s)"
    "modes (snd (rtl8366_smi_enable_vlan ops e s)) = (e \<noteq> 0, e \<noteq> 0 \<and> snd (modes s))"
  using assms
  by (auto simp: rtl8366_smi_enable_vlan_def fst_bindE snd_bindE set_vlan_enabled_def
      set_vlan4k_enabled_def switch_simps en_vlan_flags en_4k_flags)

lemma enable_vlan4k_run:
  assumes "ready s"
  shows "fst (rtl8366_smi_enable_vlan4k ops e s) = Inr ()"
    "view (snd (rtl8366_smi_enable_vlan4k ops e s)) = view s"
    "ready (snd (rtl8366_smi_enable_vlan4k ops e s))"
    "vlan_enabled (snd (rtl8366_smi_enable_vlan4k ops e s)) = (if e = 0 then vlan_enabled s else e)"
    "vlan4k_enabled (snd (rtl8366_smi_enable_vlan4k ops e s)) = e"
    "modes (snd (rtl8366_smi_enable_vlan4k ops e s)) = (e \<noteq> 0 \<or> fst (modes s), k4 \<and> e \<noteq> 0)"
  using assms
  by (auto simp: rtl8366_smi_enable_vlan4k_def fst_bindE snd_bindE set_vlan_enabled_def
      set_vlan4k_enabled_def switch_simps en_vlan_flags en_4k_flags)

lemma enable_vlan_steady:
  "steady s \<Longrightarrow> steady (snd (rtl8366_smi_enable_vlan ops e s))"
  by (simp add: steady_def flags_mirror_def enable_vlan_run)

lemma enable_vlan4k_steady: "steady s \<Longrightarrow> steady (snd (rtl8366_smi_enable_vlan4k ops e s))"
  by (simp add: steady_def flags_mirror_def enable_vlan4k_run)

lemma keeps_steady_tables:
  "keeps steady (get_vlan_mc ops i)" "keeps steady (set_vlan_mc ops i m)"
  "keeps steady (get_vlan_4k ops vid)" "keeps steady (set_vlan_4k ops e)"
  "keeps steady (get_mc_index ops p)" "keeps steady (set_mc_index ops p i)"
  by (simp_all add: keeps_def steady_def flags_mirror_def ops_simps table_modes table_flag)

lemma keeps_steady_set_vlan_loop:
  "keeps steady (set_vlan_loop ops vid member untag fid is)"
  by (induction "is") (auto intro!: keeps_intros keeps_steady_tables)

lemma keeps_steady_set_vlan: "keeps steady (rtl8366_set_vlan smi ops vid member untag fid)"
  unfolding rtl8366_set_vlan_def
  by (intro keeps_intros keeps_steady_tables keeps_steady_set_vlan_loop)

lemma keeps_steady_mc_is_used: "keeps steady (rtl8366_mc_is_used smi ops i)"
proof -
  have "keeps steady (mc_is_used_loop ops i is)" for "is"
    by (induction "is") (auto intro!: keeps_intros keeps_steady_tables)
  then show ?thesis by (simp add: rtl8366_mc_is_used_def)
qed

lemma keeps_steady_set_pvid: "keeps steady (rtl8366_set_pvid smi ops port vid)"
proof -
  have install: "keeps steady (set_pvid_install ops port vid m i)" for m i
    unfolding set_pvid_install_def by (intro keeps_intros keeps_steady_tables)
  have "keeps steady (set_pvid_match ops port vid m is)" for m "is"
    by (induction "is" arbitrary: m) (auto intro!: keeps_intros keeps_steady_tables)
  moreover have "keeps steady (set_pvid_empty ops port vid m is)" for m "is"
    by (induction "is" arbitrary: m) (auto intro!: keeps_intros keeps_steady_tables install)
  moreover have "keeps steady (set_pvid_unused smi ops port vid m is)" for m "is"
    by (induction "is") (auto intro!: keeps_intros keeps_steady_mc_is_used install)
  ultimately show ?thesis
    unfolding rtl8366_set_pvid_def by (intro keeps_intros)
qed

text \<open>The table operations of the core leave the driver's flags alone.\<close>

lemma silent_flags_set_vlan: "silent flags (rtl8366_set_vlan smi ops vid member untag fid)"
proof -
  have "silent flags (set_vlan_loop ops vid member untag fid is)" for "is"
    by (induction "is") (auto intro!: silent_intros table_flags)
  then show ?thesis
    unfolding rtl8366_set_vlan_def by (intro silent_intros table_flags)
qed

lemma silent_flags_set_pvid: "silent flags (rtl8366_set_pvid smi ops port vid)"
proof -
  have used: "silent flags (rtl8366_mc_is_used smi ops i)" for i
  proof -
    have "silent flags (mc_is_used_loop ops i is)" for "is"
      by (induction "is") (auto intro!: silent_intros table_flags)
    then show ?thesis by (simp add: rtl8366_mc_is_used_def)
  qed
  have install: "silent flags (set_pvid_install ops port vid m i)" for m i
    unfolding set_pvid_install_def by (intro silent_intros table_flags)
  have "silent flags (set_pvid_match ops port vid m is)" for m "is"
    by (induction "is" arbitrary: m) (auto intro!: silent_intros table_flags)
  moreover have "silent flags (set_pvid_empty ops port vid m is)" for m "is"
    by (induction "is" arbitrary: m) (auto intro!: silent_intros table_flags install)
  moreover have "silent flags (set_pvid_unused smi ops port vid m is)" for m "is"
    by (induction "is") (auto intro!: silent_intros used install)
  ultimately show ?thesis
    unfolding rtl8366_set_pvid_def by (intro silent_intros)
qed

lemma silent_flags_get_pvid: "silent flags (rtl8366_get_pvid ops port)"
  unfolding rtl8366_get_pvid_def by (intro silent_intros table_flags)

section \<open>Reset\<close>

lemma mc_fits_zero [simp]: "mc_fits mm fm zero_mc"
  by (simp add: mc_fits_def zero_mc_def)

lemma clear_mcs:
  assumes "ready s" "k \<le> num_vlan_mc smi"
  shows "fst (forE [0..<k] (\<lambda>i. set_vlan_mc ops i zero_mc) s) = Inr ()
    \<and> view (snd (forE [0..<k] (\<lambda>i. set_vlan_mc ops i zero_mc) s)) =
        (view s)\<lparr>mcs := (\<lambda>i. if i < k then zero_mc else mcs (view s) i)\<rparr>
    \<and> ready (snd (forE [0..<k] (\<lambda>i. set_vlan_mc ops i zero_mc) s))"
  using assms
proof (induction k)
  case 0
  then show ?case by simp
next
  case (Suc k)
  then show ?case
    by (auto simp: forE_snoc fst_bindE snd_bindE ops_simps fun_eq_iff intro!: vlan_view.equality)
qed

lemma reset_vlan_run:
  assumes "ready s"
  shows "fst (rtl8366_smi_reset_vlan smi ops s) = Inr ()"
    "view (snd (rtl8366_smi_reset_vlan smi ops s)) =
       (view s)\<lparr>mcs := (\<lambda>i. if i < num_vlan_mc smi then zero_mc else mcs (view s) i)\<rparr>"
    "ready (snd (rtl8366_smi_reset_vlan smi ops s))"
  using assms clear_mcs [of _ "num_vlan_mc smi"]
  by (simp_all add: rtl8366_smi_reset_vlan_def fst_bindE snd_bindE enable_vlan_run enable_vlan4k_run
      cong: if_cong)

lemma reset_vlan_steady:
  assumes "ready s"
  shows "steady (snd (rtl8366_smi_reset_vlan smi ops s))"
    "vlan_enabled (snd (rtl8366_smi_reset_vlan smi ops s)) = 0"
proof -
  let ?off = "\<lambda>s. steady s \<and> vlan_enabled s = 0"
  let ?s1 = "snd (rtl8366_smi_enable_vlan4k ops 0 (snd (rtl8366_smi_enable_vlan ops 0 s)))"
  have "?off ?s1"
    using assms by (simp add: steady_def flags_mirror_def enable_vlan_run enable_vlan4k_run)
  moreover have "keeps ?off (set_vlan_mc ops i zero_mc)" for i
    using keeps_steady_tables(2) by (simp add: keeps_def table_flag)
  then have "keeps ?off (forE [0..<num_vlan_mc smi] (\<lambda>i. set_vlan_mc ops i zero_mc))"
    by (intro keeps_intros)
  ultimately have "?off (snd (rtl8366_smi_reset_vlan smi ops s))"
    using assms
    by (auto simp: rtl8366_smi_reset_vlan_def fst_bindE snd_bindE enable_vlan_run dest: keepsD)
  then show "steady (snd (rtl8366_smi_reset_vlan smi ops s))"
    "vlan_enabled (snd (rtl8366_smi_reset_vlan smi ops s)) = 0" by simp_all
qed

end

section \<open>Initial set-up\<close>

text \<open>
  \<open>port_vlans u n smi k V\<close>: the first \<open>k\<close> ports have their own VLAN, numbered from
  1, through the MC entry of their own number; the other MC entries are clear.
\<close>

definition port_vid :: "nat \<Rightarrow> u32" where
  "port_vid p = of_nat (p + 1)"

definition init_mc :: "rtl8366_smi \<Rightarrow> nat \<Rightarrow> rtl8366_vlan_mc" where
  "init_mc smi p = \<lparr>mc_vid = ucast (port_vid p), mc_untag = ucast (init_vlan_mask smi p),
     mc_member = ucast (init_vlan_mask smi p), mc_fid = 0, mc_priority = 0\<rparr>"

definition init_4k :: "rtl8366_smi \<Rightarrow> nat \<Rightarrow> rtl8366_vlan_4k" where
  "init_4k smi p = \<lparr>v4k_vid = ucast (port_vid p), v4k_untag = ucast (init_vlan_mask smi p),
     v4k_member = ucast (init_vlan_mask smi p), v4k_fid = 0\<rparr>"

definition port_vlans :: "bool \<Rightarrow> nat \<Rightarrow> rtl8366_smi \<Rightarrow> nat \<Rightarrow> vlan_view \<Rightarrow> bool" where
  "port_vlans u n smi k V \<longleftrightarrow>
     (\<forall>i < n. mcs V i = (if i < k then stored u (init_mc smi i) else zero_mc))
     \<and> (\<forall>i < k. v4ks V (port_vid i) = init_4k smi i \<and> pidxs V i = i)"

lemma unat_port_vid: "p < 4095 \<Longrightarrow> unat (port_vid p) = p + 1"
  unfolding port_vid_def unat_of_nat by (rule mod_less) simp

lemma port_vid_less: "p < 4095 \<Longrightarrow> port_vid p < 4096"
  by (simp add: word_less_nat_alt unat_port_vid)

lemma port_vid_inj: "p < 4095 \<Longrightarrow> q < 4095 \<Longrightarrow> port_vid p = port_vid q \<longleftrightarrow> p = q"
  by (metis unat_port_vid add_right_cancel)

lemma port_vid_neq_0: "p < 4095 \<Longrightarrow> port_vid p \<noteq> 0"
  by (metis unat_port_vid unat_0 add_is_0 zero_neq_one)

lemma port_vid_ucast: "p < 4095 \<Longrightarrow> ucast (ucast (port_vid p) :: u16) = port_vid p"
  by (simp add: less_4096_ucast port_vid_less)

lemma ucast_less_4096: "(v :: u32) < 4096 \<Longrightarrow> (ucast v :: u16) < 4096"
  by (simp add: word_less_nat_alt unsigned_ucast_eq take_bit_nat_eq_self)

lemma port_vlans_has_vid:
  assumes "port_vlans u n smi k V" "p < 4095" "k < 4095" "i < n"
  shows "has_vid (port_vid p) (mcs V i) \<longleftrightarrow> i < k \<and> i = p"
    "is_empty_mc (mcs V i) \<longleftrightarrow> k \<le> i"
proof -
  have m: "mcs V i = (if i < k then stored u (init_mc smi i) else zero_mc)"
    using assms(1,4) by (simp add: port_vlans_def)
  show "has_vid (port_vid p) (mcs V i) \<longleftrightarrow> i < k \<and> i = p"
  proof (cases "i < k")
    case True
    then have "i < 4095" using assms(3) by simp
    then show ?thesis
      using True port_vid_ucast [of i] port_vid_inj [OF assms(2), of i]
      unfolding m has_vid_def by (auto simp: init_mc_def)
  next
    case False
    then show ?thesis
      using port_vid_neq_0 [OF assms(2)] unfolding m has_vid_def by (simp add: zero_mc_def)
  qed
  show "is_empty_mc (mcs V i) \<longleftrightarrow> k \<le> i"
  proof (cases "i < k")
    case True
    then have "i < 4095" using assms(3) by simp
    then have "mc_vid (init_mc smi i) \<noteq> 0"
      using port_vid_ucast [of i] port_vid_neq_0 [of i] by (auto simp: init_mc_def)
    then show ?thesis using True unfolding m is_empty_mc_def by simp
  next
    case False
    then show ?thesis unfolding m is_empty_mc_def by (simp add: zero_mc_def)
  qed
qed

lemma init_vlan_step:
  assumes pv: "port_vlans u n smi k V" and k: "k < np" "np \<le> n" "np \<le> 4095"
    and vid: "v4k_vid (v4ks V (port_vid k)) = ucast (port_vid k)"
    and fit: "ucast (init_vlan_mask smi k) \<le> mmax"
  defines "m \<equiv> init_vlan_mask smi k"
  defines "V1 \<equiv> V\<lparr>v4ks := (v4ks V)(port_vid k := init_4k smi k)\<rparr>"
  shows "vlan_set_spec u n mmax fmax (port_vid k) m m 0 V = (Inr (), V1)"
    "fst (pvid_set_spec u n np k (port_vid k) V1) = Inr ()"
    "port_vlans u n smi (Suc k) (snd (pvid_set_spec u n np k (port_vid k) V1))"
proof -
  have kk: "k < 4095" using k by simp
  have k4: "port_vid k < 4096" by (rule port_vid_less [OF kk])
  note hv = port_vlans_has_vid [OF pv kk kk]
  have none: "find (\<lambda>i. has_vid (port_vid k) (mcs V i)) [0..<n] = None"
    unfolding find_upt_None using hv(1) by simp
  have e: "upd_4k m m 0 (v4ks V (port_vid k)) = init_4k smi k"
    using vid by (simp add: upd_4k_def init_4k_def m_def)
  have f: "v4k_fits mmax fmax (init_4k smi k)"
    using fit ucast_less_4096 [OF k4] by (simp add: v4k_fits_def init_4k_def)
  show "vlan_set_spec u n mmax fmax (port_vid k) m m 0 V = (Inr (), V1)"
    using k4 f unfolding vlan_set_spec_def Let_def e none V1_def
    by simp
  have emp: "find (\<lambda>i. is_empty_mc (mcs V1 i)) [0..<n] = Some k"
    using hv(2) k unfolding V1_def by (auto simp: find_Some_iff intro!: exI [of _ k])
  have none1: "find (\<lambda>i. has_vid (port_vid k) (mcs V1 i)) [0..<n] = None"
    using none by (simp add: V1_def)
  have kn: "k < n" using k by simp
  have mk: "mcs V k = zero_mc" using pv kn by (simp add: port_vlans_def)
  have c: "mc_from_4k (port_vid k) (v4ks V1 (port_vid k)) (mcs V1 k) = init_mc smi k"
    using mk by (simp add: mc_from_4k_def V1_def init_4k_def init_mc_def zero_mc_def)
  have run: "pvid_set_spec u n np k (port_vid k) V1 =
      (Inr (), V1\<lparr>mcs := (mcs V1)(k := stored u (init_mc smi k)), pidxs := (pidxs V1)(k := k)\<rparr>)"
    unfolding pvid_set_spec_def none1 emp install_spec_def Let_def option.case c
    using k(1) k4 by simp
  show "fst (pvid_set_spec u n np k (port_vid k) V1) = Inr ()" by (simp only: run fst_conv)
  have "port_vid i \<noteq> port_vid k" if "i < k" for i
    using port_vid_inj [of i k] that kk by simp
  then show "port_vlans u n smi (Suc k) (snd (pvid_set_spec u n np k (port_vid k) V1))"
    unfolding run using pv by (auto simp: port_vlans_def V1_def less_Suc_eq)
qed

context vlan_switch
begin

lemma init_port_run:
  assumes "ready s" "port_vlans u (num_vlan_mc smi) smi k (view s)" "k < num_ports smi"
    and "num_ports smi \<le> num_vlan_mc smi" "num_ports smi \<le> 4095"
    and "ucast (init_vlan_mask smi k) \<le> mmax"
  defines "step \<equiv> bindE (rtl8366_set_vlan smi ops (port_vid k) (init_vlan_mask smi k)
      (init_vlan_mask smi k) 0) (\<lambda>_. rtl8366_set_pvid smi ops k (port_vid k))"
  shows "fst (step s) = Inr ()" "ready (snd (step s))"
    "port_vlans u (num_vlan_mc smi) smi (Suc k) (view (snd (step s)))"
proof -
  let ?m = "init_vlan_mask smi k"
  let ?s1 = "snd (rtl8366_set_vlan smi ops (port_vid k) ?m ?m 0 s)"
  have vid: "v4k_vid (v4ks (view s) (port_vid k)) = ucast (port_vid k)"
    using assms(1,3,5) by (simp add: v4k_vid_view port_vid_less)
  note st = init_vlan_step [OF assms(2,3,4,5) vid assms(6)]
  note sv = set_vlan_view [OF assms(1), of "port_vid k" ?m ?m 0]
  have r1: "ready ?s1" and f1: "fst (rtl8366_set_vlan smi ops (port_vid k) ?m ?m 0 s) = Inr ()"
    and v1: "view ?s1 = (view s)\<lparr>v4ks := (v4ks (view s))(port_vid k := init_4k smi k)\<rparr>"
    using sv by (simp_all add: st(1))
  note sp = set_pvid_view [OF r1, of k "port_vid k", unfolded v1]
  show "fst (step s) = Inr ()" "ready (snd (step s))"
    "port_vlans u (num_vlan_mc smi) smi (Suc k) (view (snd (step s)))"
    unfolding step_def fst_bindE snd_bindE f1 using sp st(2,3) by (auto simp: prod_eq_iff)
qed

lemma init_ports_run:
  assumes "ready s" "port_vlans u (num_vlan_mc smi) smi 0 (view s)" "k \<le> num_ports smi"
    and "num_ports smi \<le> num_vlan_mc smi" "num_ports smi \<le> 4095"
    and "\<forall>p < num_ports smi. ucast (init_vlan_mask smi p) \<le> mmax"
  defines "loop \<equiv> \<lambda>k. forE [0..<k] (\<lambda>p. bindE (rtl8366_set_vlan smi ops (port_vid p)
      (init_vlan_mask smi p) (init_vlan_mask smi p) 0) (\<lambda>_. rtl8366_set_pvid smi ops p (port_vid p)))"
  shows "fst (loop k s) = Inr () \<and> ready (snd (loop k s))
    \<and> port_vlans u (num_vlan_mc smi) smi k (view (snd (loop k s)))"
  using assms(3)
proof (induction k)
  case 0
  then show ?case using assms by (simp add: loop_def)
next
  case (Suc k)
  then have ih: "fst (loop k s) = Inr ()" "ready (snd (loop k s))"
    "port_vlans u (num_vlan_mc smi) smi k (view (snd (loop k s)))" and k: "k < num_ports smi"
    by simp_all
  have m: "ucast (init_vlan_mask smi k) \<le> mmax" using assms(6) k by simp
  show ?case
    using ih init_port_run [OF ih(2,3) k assms(4,5) m]
    by (simp add: loop_def forE_snoc fst_bindE [of "forE _ _"] snd_bindE [of "forE _ _"])
qed

lemma init_vlan_run:
  assumes "ready s" "num_ports smi \<le> num_vlan_mc smi" "num_ports smi \<le> 4095"
    and "\<forall>p < num_ports smi. ucast (init_vlan_mask smi p) \<le> mmax"
  shows "fst (rtl8366_init_vlan smi ops s) = Inr ()"
    "port_vlans u (num_vlan_mc smi) smi (num_ports smi) (view (snd (rtl8366_init_vlan smi ops s)))"
    "steady (snd (rtl8366_init_vlan smi ops s))"
    "vlan_enabled (snd (rtl8366_init_vlan smi ops s)) = 1"
proof -
  let ?s1 = "snd (rtl8366_smi_reset_vlan smi ops s)"
  let ?loop = "forE [0..<num_ports smi] (\<lambda>p. bindE (rtl8366_set_vlan smi ops (port_vid p)
      (init_vlan_mask smi p) (init_vlan_mask smi p) 0) (\<lambda>_. rtl8366_set_pvid smi ops p (port_vid p)))"
  let ?s2 = "snd (?loop ?s1)"
  have r1: "ready ?s1" and p1: "port_vlans u (num_vlan_mc smi) smi 0 (view ?s1)"
    using assms(1) by (simp_all add: reset_vlan_run port_vlans_def)
  note loop = init_ports_run [OF r1 p1 order_refl assms(2,3,4)]
  have "keeps steady ?loop"
    by (intro keeps_intros keeps_steady_set_vlan keeps_steady_set_pvid)
  then have s2: "steady ?s2" using reset_vlan_steady(1) [OF assms(1)] by (rule keepsD)
  have run: "rtl8366_init_vlan smi ops s = rtl8366_smi_enable_vlan ops 1 ?s2"
    using assms(1) loop
    by (simp add: rtl8366_init_vlan_def bindE_def split_def reset_vlan_run port_vid_def Let_def)
  show "fst (rtl8366_init_vlan smi ops s) = Inr ()"
    "port_vlans u (num_vlan_mc smi) smi (num_ports smi) (view (snd (rtl8366_init_vlan smi ops s)))"
    "steady (snd (rtl8366_init_vlan smi ops s))"
    "vlan_enabled (snd (rtl8366_init_vlan smi ops s)) = 1"
    using loop s2 by (simp_all add: run enable_vlan_run enable_vlan_steady)
qed

end

end
