(* ===== verification/Switch_Types.thy ===== *)
theory Switch_Types
  imports Prelude
begin

text \<open>
  The interface between switch drivers and the configuration layer, from
  \<open>include/linux/switch.h\<close> and \<open>include/uapi/linux/switch.h\<close>. The operations of a
  driver run on its own state \<open>'s\<close>. The members of the union in \<open>struct switch_val\<close>
  are separate fields: every handler touches only the member its attribute type names.
  An attribute's handlers receive the plain data of the attribute (\<open>switch_attr_info\<close>),
  the only part of it that the sources read. The file also holds the text output of the
  drivers: \<open>snprintf\<close> into the tail of a fixed buffer.
\<close>

section \<open>Values, attributes, operations\<close>

datatype switch_val_type =
    SWITCH_TYPE_UNSPEC | SWITCH_TYPE_INT | SWITCH_TYPE_STRING | SWITCH_TYPE_PORTS
  | SWITCH_TYPE_LINK | SWITCH_TYPE_NOVAL

abbreviation (input) SWITCH_PORT_FLAG_TAGGED :: nat where "SWITCH_PORT_FLAG_TAGGED \<equiv> 2"

abbreviation (input) SWITCH_PORT_SPEED_UNKNOWN :: u32 where "SWITCH_PORT_SPEED_UNKNOWN \<equiv> 0"
abbreviation (input) SWITCH_PORT_SPEED_10 :: u32 where "SWITCH_PORT_SPEED_10 \<equiv> 10"
abbreviation (input) SWITCH_PORT_SPEED_100 :: u32 where "SWITCH_PORT_SPEED_100 \<equiv> 100"
abbreviation (input) SWITCH_PORT_SPEED_1000 :: u32 where "SWITCH_PORT_SPEED_1000 \<equiv> 1000"

record switch_port_link =
  link :: bool
  duplex :: bool
  aneg :: bool
  tx_flow :: bool
  rx_flow :: bool
  speed :: u32
  eee :: u32

record switch_port_stats =
  tx_bytes :: u64
  rx_bytes :: u64

record switch_port =
  port_id :: u32
  port_flags :: u32

record switch_portmap =
  pm_virt :: u32
  pm_s :: string

record switch_val =
  port_vlan :: u32
  val_len :: nat
  val_s :: string
  val_i :: u32
  val_ports :: "switch_port list"
  val_link :: switch_port_link

record switch_attr_info =
  attr_type :: switch_val_type
  attr_name :: string
  attr_description :: string
  attr_disabled :: bool
  attr_id :: int
  attr_ofs :: int
  attr_max :: int

record 's switch_attr =
  attr_info :: switch_attr_info
  attr_set :: "(switch_attr_info \<Rightarrow> switch_val \<Rightarrow> ('s, unit) io) option"
  attr_get :: "(switch_attr_info \<Rightarrow> switch_val \<Rightarrow> ('s, switch_val) io) option"

record 's switch_dev_ops =
  attr_global :: "'s switch_attr list"
  attr_port :: "'s switch_attr list"
  attr_vlan :: "'s switch_attr list"
  get_vlan_ports :: "(switch_val \<Rightarrow> ('s, switch_val) io) option"
  set_vlan_ports :: "(switch_val \<Rightarrow> ('s, unit) io) option"
  get_port_pvid :: "(nat \<Rightarrow> ('s, u32) io) option"
  set_port_pvid :: "(nat \<Rightarrow> u32 \<Rightarrow> ('s, unit) io) option"
  apply_config :: "('s, unit) io option"
  reset_switch :: "('s, unit) io option"
  get_port_link :: "(nat \<Rightarrow> switch_port_link \<Rightarrow> ('s, switch_port_link) io) option"
  set_port_link :: "(nat \<Rightarrow> switch_port_link \<Rightarrow> ('s, unit) io) option"
  get_port_stats :: "(nat \<Rightarrow> ('s, switch_port_stats) io) option"
  phy_read16 :: "(nat \<Rightarrow> u8 \<Rightarrow> ('s, u16) io) option"
  phy_write16 :: "(nat \<Rightarrow> u8 \<Rightarrow> u16 \<Rightarrow> ('s, unit) io) option"

definition mk_attr :: "switch_val_type \<Rightarrow> string \<Rightarrow> string \<Rightarrow> int \<Rightarrow> int
    \<Rightarrow> (switch_attr_info \<Rightarrow> switch_val \<Rightarrow> ('s, unit) io) option
    \<Rightarrow> (switch_attr_info \<Rightarrow> switch_val \<Rightarrow> ('s, switch_val) io) option \<Rightarrow> 's switch_attr" where
  "mk_attr ty name desc mx ofs set_h get_h =
    \<lparr>attr_info = \<lparr>attr_type = ty, attr_name = name, attr_description = desc, attr_disabled = False,
       attr_id = 0, attr_ofs = ofs, attr_max = mx\<rparr>,
     attr_set = set_h, attr_get = get_h\<rparr>"

definition BIT :: "nat \<Rightarrow> u32" where
  "BIT n = push_bit n 1"

lemma bit_BIT: "bit (BIT n) i \<longleftrightarrow> i = n \<and> n < 32"
  by (auto simp: BIT_def bit_simps)

lemma and_BIT_eq_0: "n < 32 \<Longrightarrow> (w AND BIT n = 0) \<longleftrightarrow> \<not> bit w n"
  unfolding bit_eq_iff by (auto simp: bit_and_iff bit_BIT)

section \<open>Text output\<close>

definition digit_char :: "nat \<Rightarrow> char" where
  "digit_char d = char_of (if d < 10 then 48 + d else 87 + d)"

fun num_text :: "nat \<Rightarrow> nat \<Rightarrow> string" where
  "num_text b n = (if n < b \<or> b < 2 then [digit_char n] else num_text b (n div b) @ [digit_char (n mod b)])"

declare num_text.simps [simp del]

definition dec :: "nat \<Rightarrow> string" where
  "dec n = num_text 10 n"

definition hex04 :: "nat \<Rightarrow> string" where
  "hex04 n = (let s = num_text 16 n in replicate (4 - length s) (CHR ''0'') @ s)"

definition pad_left :: "nat \<Rightarrow> string \<Rightarrow> string" where
  "pad_left w s = replicate (w - length s) (CHR '' '') @ s"

definition pad_right :: "nat \<Rightarrow> string \<Rightarrow> string" where
  "pad_right w s = s @ replicate (w - length s) (CHR '' '')"

text \<open>
  \<open>len += snprintf(buf + len, cap - len, ...)\<close> on the text in front of the terminating
  zero and the running length. \<open>None\<close>: the length has passed the capacity, so that the
  unsigned size argument has wrapped around.
\<close>

definition buf_printf :: "nat \<Rightarrow> string \<Rightarrow> (string \<times> nat) option \<Rightarrow> (string \<times> nat) option" where
  "buf_printf cap t b = (case b of None \<Rightarrow> None
    | Some (txt, len) \<Rightarrow>
        if len \<le> cap then Some (if len < cap then take (cap - 1) (txt @ t) else txt, len + length t)
        else None)"

definition line_feed :: string where
  "line_feed = [CHR 0x0A]"

text \<open>As long as the text fits, nothing is cut and the length is the length of the text.\<close>

lemma buf_printf_fits:
  assumes "length txt + length t < cap"
  shows "buf_printf cap t (Some (txt, length txt)) = Some (txt @ t, length (txt @ t))"
  using assms by (simp add: buf_printf_def)

lemma length_num_text: "1 < b \<Longrightarrow> n < b ^ k \<Longrightarrow> 0 < k \<Longrightarrow> length (num_text b n) \<le> k"
proof (induction b n arbitrary: k rule: num_text.induct)
  case (1 b n)
  show ?case
  proof (cases "n < b")
    case True
    then show ?thesis using 1 by (subst num_text.simps) simp
  next
    case False
    obtain j where k: "k = Suc j" using 1(4) by (cases k) simp_all
    have j: "0 < j" using 1(3) False k by (cases j) simp_all
    have "n div b < b ^ j"
      using 1 k by (simp add: less_mult_imp_div_less mult.commute)
    then show ?thesis
      using 1 False j k by (subst num_text.simps) simp
  qed
qed

end
