(* ===== verification/Smi_Switch.thy ===== *)
theory Smi_Switch
  imports Vlan_Init Switch_Types
begin

text \<open>
  The operations of \<open>rtl8366_smi.c\<close> behind \<open>struct switch_dev_ops\<close>: reset, PVIDs,
  VLAN port lists, filtering databases, enable flags, MIB reports. The refinement lemmas
  carry the table contracts to the values that the configuration layer passes in and out.
\<close>

section \<open>The operations\<close>

definition rtl8366_sw_reset_switch ::
  "'h platform \<Rightarrow> rtl8366_smi \<Rightarrow> ('h smi_state) rtl8366_smi_ops \<Rightarrow> ('h smi_state, unit) io" where
  "rtl8366_sw_reset_switch H smi ops =
    bindE (rtl8366_reset H smi (reset_chip ops)) (\<lambda>_.
    bindE (chip_setup ops) (\<lambda>_.
    bindE (rtl8366_smi_reset_vlan smi ops) (\<lambda>_.
    bindE (rtl8366_smi_enable_vlan ops 1) (\<lambda>_.
    rtl8366_smi_enable_all_ports smi ops True))))"

definition rtl8366_sw_get_port_pvid :: "'s rtl8366_smi_ops \<Rightarrow> nat \<Rightarrow> ('s, u32) io" where
  "rtl8366_sw_get_port_pvid ops port = rtl8366_get_pvid ops port"

definition rtl8366_sw_set_port_pvid ::
  "rtl8366_smi \<Rightarrow> 's rtl8366_smi_ops \<Rightarrow> nat \<Rightarrow> u32 \<Rightarrow> ('s, unit) io" where
  "rtl8366_sw_set_port_pvid smi ops port v = rtl8366_set_pvid smi ops port v"

abbreviation (input) smi_buf_size :: nat where "smi_buf_size \<equiv> 4096"

definition mib_name_text :: "string \<Rightarrow> string" where
  "mib_name_text name = pad_right 36 name @ '': ''"

definition mib_head_text :: "nat \<Rightarrow> string" where
  "mib_head_text port = ''Port '' @ dec port @ '' MIB counters'' @ line_feed"

primrec port_mib_loop ::
  "rtl8366_smi \<Rightarrow> 's rtl8366_smi_ops \<Rightarrow> nat \<Rightarrow> nat list \<Rightarrow> (string \<times> nat) option
    \<Rightarrow> ('s, (string \<times> nat) option) io" where
  "port_mib_loop smi ops port [] b = retE b"
| "port_mib_loop smi ops port (i # is) b =
    (let b = buf_printf smi_buf_size (mib_name_text (mib_name (mib_counters smi ! i))) b
     in (\<lambda>s. case get_mib_counter ops i port s of
          (Inr counter, s') \<Rightarrow> port_mib_loop smi ops port is
             (buf_printf smi_buf_size (dec (unat counter) @ line_feed) b) s'
        | (Inl e, s') \<Rightarrow> port_mib_loop smi ops port is
             (buf_printf smi_buf_size (''error'' @ line_feed) b) s'))"

definition rtl8366_sw_get_port_mib ::
  "rtl8366_smi \<Rightarrow> 's rtl8366_smi_ops \<Rightarrow> switch_val \<Rightarrow> ('s, switch_val) io" where
  "rtl8366_sw_get_port_mib smi ops v =
    (let port = unat (port_vlan v)
     in if num_ports smi \<le> port then failE EINVAL
        else let b = buf_printf smi_buf_size (mib_head_text port) (Some ([], 0))
             in bindE (port_mib_loop smi ops port [0..<num_mib_counters smi] b) (\<lambda>b.
                case b of None \<Rightarrow> failE BUF_OVERRUN
                | Some (txt, len) \<Rightarrow> retE (v\<lparr>val_s := txt, val_len := len\<rparr>)))"

definition rtl8366_sw_get_port_stats ::
  "rtl8366_smi \<Rightarrow> 's rtl8366_smi_ops \<Rightarrow> nat \<Rightarrow> nat \<Rightarrow> nat \<Rightarrow> ('s, switch_port_stats) io" where
  "rtl8366_sw_get_port_stats smi ops port txb_id rxb_id =
    (if num_ports smi \<le> port then failE EINVAL
     else bindE (get_mib_counter ops txb_id port) (\<lambda>tx.
          bindE (get_mib_counter ops rxb_id port) (\<lambda>rx.
          retE \<lparr>tx_bytes = tx, rx_bytes = rx\<rparr>)))"

definition vlan_port_text :: "rtl8366_vlan_4k \<Rightarrow> nat \<Rightarrow> string" where
  "vlan_port_text vlan4k i = dec i @ (if ucast (v4k_untag vlan4k) AND BIT i \<noteq> 0 then '''' else ''t'')"

primrec vlan_info_loop ::
  "rtl8366_vlan_4k \<Rightarrow> nat list \<Rightarrow> (string \<times> nat) option \<Rightarrow> (string \<times> nat) option" where
  "vlan_info_loop vlan4k [] b = b"
| "vlan_info_loop vlan4k (i # is) b =
    (if ucast (v4k_member vlan4k) AND BIT i = 0 then vlan_info_loop vlan4k is b
     else vlan_info_loop vlan4k is (buf_printf smi_buf_size (vlan_port_text vlan4k i) b))"

definition vlan_info_head :: "rtl8366_vlan_4k \<Rightarrow> string" where
  "vlan_info_head vlan4k = ''VLAN '' @ dec (unat (v4k_vid vlan4k)) @ '': Ports: '' @ [CHR 0x27]"

definition vlan_info_tail :: "rtl8366_vlan_4k \<Rightarrow> string" where
  "vlan_info_tail vlan4k = [CHR 0x27] @ '', members='' @ hex04 (unat (v4k_member vlan4k)) @
     '', untag='' @ hex04 (unat (v4k_untag vlan4k)) @ '', fid='' @ dec (unat (v4k_fid vlan4k))"

definition rtl8366_sw_get_vlan_info ::
  "rtl8366_smi \<Rightarrow> 's rtl8366_smi_ops \<Rightarrow> switch_val \<Rightarrow> ('s, switch_val) io" where
  "rtl8366_sw_get_vlan_info smi ops v = (\<lambda>s.
    if \<not> is_vlan_valid ops (port_vlan v) s then (Inl EINVAL, s)
    else bindE (get_vlan_4k ops (port_vlan v)) (\<lambda>vlan4k.
         let b = buf_printf smi_buf_size (vlan_info_head vlan4k) (Some ([], 0));
             b = vlan_info_loop vlan4k [0..<num_ports smi] b;
             b = buf_printf smi_buf_size (vlan_info_tail vlan4k) b
         in case b of None \<Rightarrow> failE BUF_OVERRUN
            | Some (txt, len) \<Rightarrow> retE (v\<lparr>val_s := txt, val_len := len\<rparr>)) s)"

definition vlan_port :: "rtl8366_vlan_4k \<Rightarrow> nat \<Rightarrow> switch_port" where
  "vlan_port vlan4k i = \<lparr>port_id = of_nat i,
     port_flags = (if ucast (v4k_untag vlan4k) AND BIT i \<noteq> 0 then 0 else BIT SWITCH_PORT_FLAG_TAGGED)\<rparr>"

primrec vlan_ports_loop :: "rtl8366_vlan_4k \<Rightarrow> nat list \<Rightarrow> switch_port list" where
  "vlan_ports_loop vlan4k [] = []"
| "vlan_ports_loop vlan4k (i # is) =
    (if ucast (v4k_member vlan4k) AND BIT i = 0 then vlan_ports_loop vlan4k is
     else vlan_port vlan4k i # vlan_ports_loop vlan4k is)"

definition rtl8366_sw_get_vlan_ports ::
  "rtl8366_smi \<Rightarrow> 's rtl8366_smi_ops \<Rightarrow> switch_val \<Rightarrow> ('s, switch_val) io" where
  "rtl8366_sw_get_vlan_ports smi ops v = (\<lambda>s.
    if \<not> is_vlan_valid ops (port_vlan v) s then (Inl EINVAL, s)
    else bindE (catchE (get_vlan_4k ops (port_vlan v)) zero_4k) (\<lambda>vlan4k.
         let ports = vlan_ports_loop vlan4k [0..<num_ports smi]
         in retE (v\<lparr>val_ports := ports, val_len := length ports\<rparr>)) s)"

primrec set_vlan_ports_loop ::
  "rtl8366_smi \<Rightarrow> 's rtl8366_smi_ops \<Rightarrow> u32 \<Rightarrow> switch_port list \<Rightarrow> u32 \<times> u32 \<Rightarrow> ('s, u32 \<times> u32) io" where
  "set_vlan_ports_loop smi ops vid [] mu = retE mu"
| "set_vlan_ports_loop smi ops vid (p # ps) mu =
    (let id = unat (port_id p);
         member = fst mu OR BIT id;
         untag = (if port_flags p AND BIT SWITCH_PORT_FLAG_TAGGED = 0
                  then snd mu OR BIT id else snd mu)
     in bindE (rtl8366_get_pvid ops id) (\<lambda>pvid.
        bindE (if pvid = 0 then rtl8366_set_pvid smi ops id vid else retE ()) (\<lambda>_.
        set_vlan_ports_loop smi ops vid ps (member, untag))))"

definition rtl8366_sw_set_vlan_ports ::
  "rtl8366_smi \<Rightarrow> 's rtl8366_smi_ops \<Rightarrow> switch_val \<Rightarrow> ('s, unit) io" where
  "rtl8366_sw_set_vlan_ports smi ops v = (\<lambda>s.
    if \<not> is_vlan_valid ops (port_vlan v) s then (Inl EINVAL, s)
    else bindE (set_vlan_ports_loop smi ops (port_vlan v) (take (val_len v) (val_ports v)) (0, 0)) (\<lambda>mu.
         rtl8366_set_vlan smi ops (port_vlan v) (fst mu) (snd mu) 0) s)"

definition rtl8366_sw_get_vlan_fid ::
  "'s rtl8366_smi_ops \<Rightarrow> switch_attr_info \<Rightarrow> switch_val \<Rightarrow> ('s, switch_val) io" where
  "rtl8366_sw_get_vlan_fid ops attr v = (\<lambda>s.
    if \<not> is_vlan_valid ops (port_vlan v) s then (Inl EINVAL, s)
    else bindE (get_vlan_4k ops (port_vlan v)) (\<lambda>vlan4k.
         retE (v\<lparr>val_i := ucast (v4k_fid vlan4k)\<rparr>)) s)"

definition rtl8366_sw_set_vlan_fid ::
  "rtl8366_smi \<Rightarrow> 's rtl8366_smi_ops \<Rightarrow> switch_attr_info \<Rightarrow> switch_val \<Rightarrow> ('s, unit) io" where
  "rtl8366_sw_set_vlan_fid smi ops attr v = (\<lambda>s.
    if \<not> is_vlan_valid ops (port_vlan v) s then (Inl EINVAL, s)
    else if val_i v < 0 \<or> val_i v > of_int (attr_max attr) then (Inl EINVAL, s)
    else bindE (get_vlan_4k ops (port_vlan v)) (\<lambda>vlan4k.
         rtl8366_set_vlan smi ops (port_vlan v) (ucast (v4k_member vlan4k))
           (ucast (v4k_untag vlan4k)) (val_i v)) s)"

definition rtl8366_sw_get_vlan_enable ::
  "switch_attr_info \<Rightarrow> switch_val \<Rightarrow> ('h smi_state, switch_val) io" where
  "rtl8366_sw_get_vlan_enable attr v s =
    (if attr_ofs attr > 2 then (Inl EINVAL, s)
     else if attr_ofs attr = 1 then (Inr (v\<lparr>val_i := vlan_enabled s\<rparr>), s)
     else (Inr (v\<lparr>val_i := vlan4k_enabled s\<rparr>), s))"

definition rtl8366_sw_set_vlan_enable ::
  "('h smi_state) rtl8366_smi_ops \<Rightarrow> switch_attr_info \<Rightarrow> switch_val \<Rightarrow> ('h smi_state, unit) io" where
  "rtl8366_sw_set_vlan_enable ops attr v =
    (if attr_ofs attr > 2 then failE EINVAL
     else if attr_ofs attr = 1 then rtl8366_smi_enable_vlan ops (val_i v)
     else rtl8366_smi_enable_vlan4k ops (val_i v))"

section \<open>Port lists against the tables\<close>

definition pvid_of :: "vlan_view \<Rightarrow> nat \<Rightarrow> u32" where
  "pvid_of V p = ucast (mc_vid (mcs V (pidxs V p)))"

definition tagged :: "switch_port \<Rightarrow> bool" where
  "tagged p \<longleftrightarrow> port_flags p AND BIT SWITCH_PORT_FLAG_TAGGED \<noteq> 0"

primrec port_masks :: "switch_port list \<Rightarrow> u32 \<times> u32 \<Rightarrow> u32 \<times> u32" where
  "port_masks [] mu = mu"
| "port_masks (p # ps) mu = port_masks ps (fst mu OR BIT (unat (port_id p)),
     if tagged p then snd mu else snd mu OR BIT (unat (port_id p)))"

primrec ports_pvid_spec ::
  "bool \<Rightarrow> nat \<Rightarrow> nat \<Rightarrow> u32 \<Rightarrow> switch_port list \<Rightarrow> vlan_view \<Rightarrow> (errno + unit) \<times> vlan_view" where
  "ports_pvid_spec u n np vid [] V = (Inr (), V)"
| "ports_pvid_spec u n np vid (p # ps) V =
    (let id = unat (port_id p)
     in if np \<le> id then (Inl EINVAL, V)
        else if pvid_of V id = 0
        then (case pvid_set_spec u n np id vid V of
                (Inl e, V') \<Rightarrow> (Inl e, V') | (Inr _, V') \<Rightarrow> ports_pvid_spec u n np vid ps V')
        else ports_pvid_spec u n np vid ps V)"

definition vlan_ports_spec ::
  "bool \<Rightarrow> nat \<Rightarrow> nat \<Rightarrow> u16 \<Rightarrow> u8 \<Rightarrow> u32 \<Rightarrow> switch_port list \<Rightarrow> vlan_view \<Rightarrow> (errno + unit) \<times> vlan_view" where
  "vlan_ports_spec u n np mmax fmax vid ps V =
    (case ports_pvid_spec u n np vid ps V of
       (Inl e, V') \<Rightarrow> (Inl e, V')
     | (Inr _, V') \<Rightarrow> vlan_set_spec u n mmax fmax vid (fst (port_masks ps (0, 0)))
         (snd (port_masks ps (0, 0))) 0 V')"

context vlan_ops
begin

lemma set_vlan_ports_loop_view:
  assumes "ready s"
  shows "fst (set_vlan_ports_loop smi ops vid ps mu s) =
      map_sum id (\<lambda>_. port_masks ps mu)
        (fst (ports_pvid_spec u (num_vlan_mc smi) (num_ports smi) vid ps (view s)))
    \<and> view (snd (set_vlan_ports_loop smi ops vid ps mu s)) =
      snd (ports_pvid_spec u (num_vlan_mc smi) (num_ports smi) vid ps (view s))
    \<and> ready (snd (set_vlan_ports_loop smi ops vid ps mu s))"
  using assms
proof (induction ps arbitrary: s mu)
  case Nil
  then show ?case by simp
next
  case (Cons p ps)
  let ?id = "unat (port_id p)"
  let ?s1 = "snd (rtl8366_get_pvid ops ?id s)"
  let ?s2 = "snd (rtl8366_set_pvid smi ops ?id vid ?s1)"
  have s1: "ready ?s1" "view ?s1 = view s" using Cons.prems by (simp_all add: get_pvid_view)
  note set = set_pvid_view [OF s1(1), of ?id vid, unfolded s1(2)]
  then have s2: "ready ?s2" by simp
  show ?case
    using Cons.prems s1 set Cons.IH [OF s1(1)] Cons.IH [OF s2]
    by (cases "pvid_set_spec u (num_vlan_mc smi) (num_ports smi) ?id vid (view s)")
      (auto simp: fst_bindE snd_bindE get_pvid_view Let_def pvid_of_def tagged_def split: sum.splits)
qed

lemma set_vlan_ports_view:
  assumes "ready s" "is_vlan_valid ops (port_vlan v) s"
  shows "(fst (rtl8366_sw_set_vlan_ports smi ops v s),
      view (snd (rtl8366_sw_set_vlan_ports smi ops v s))) =
      vlan_ports_spec u (num_vlan_mc smi) (num_ports smi) mmax fmax (port_vlan v)
        (take (val_len v) (val_ports v)) (view s)
    \<and> ready (snd (rtl8366_sw_set_vlan_ports smi ops v s))"
proof -
  let ?ps = "take (val_len v) (val_ports v)"
  let ?s1 = "snd (set_vlan_ports_loop smi ops (port_vlan v) ?ps (0, 0) s)"
  note loop = set_vlan_ports_loop_view [OF assms(1), of "port_vlan v" ?ps "(0, 0)"]
  then have s1: "ready ?s1" by simp
  note set = set_vlan_view [OF s1, of "port_vlan v" "fst (port_masks ?ps (0, 0))"
      "snd (port_masks ?ps (0, 0))" 0]
  show ?thesis
    using assms(2) loop set
    by (cases "ports_pvid_spec u (num_vlan_mc smi) (num_ports smi) (port_vlan v) ?ps (view s)")
      (auto simp: rtl8366_sw_set_vlan_ports_def vlan_ports_spec_def fst_bindE snd_bindE
        split: sum.splits)
qed

lemma get_vlan_ports_view:
  assumes "ready s" "is_vlan_valid ops (port_vlan v) s" "port_vlan v < 4096"
  shows "fst (rtl8366_sw_get_vlan_ports smi ops v s) =
      (let ps = vlan_ports_loop (v4ks (view s) (port_vlan v)) [0..<num_ports smi]
       in Inr (v\<lparr>val_ports := ps, val_len := length ps\<rparr>))"
  using assms
  by (simp add: rtl8366_sw_get_vlan_ports_def fst_bindE fst_catchE snd_catchE ops_simps Let_def)

end

section \<open>Reading back a port list\<close>

definition lists_port :: "switch_port list \<Rightarrow> nat \<Rightarrow> bool" where
  "lists_port ps i \<longleftrightarrow> (\<exists>p \<in> set ps. unat (port_id p) = i)"

definition lists_untagged :: "switch_port list \<Rightarrow> nat \<Rightarrow> bool" where
  "lists_untagged ps i \<longleftrightarrow> (\<exists>p \<in> set ps. unat (port_id p) = i \<and> \<not> tagged p)"

text \<open>A port list in ascending order without duplicates: what the hardware can hold of it.\<close>

definition canonical_ports :: "nat \<Rightarrow> switch_port list \<Rightarrow> switch_port list" where
  "canonical_ports np ps =
    map (\<lambda>i. \<lparr>port_id = of_nat i,
               port_flags = (if lists_untagged ps i then 0 else BIT SWITCH_PORT_FLAG_TAGGED)\<rparr>)
      (filter (lists_port ps) [0..<np])"

lemma bit_port_masks:
  "bit (fst (port_masks ps mu)) i \<longleftrightarrow> bit (fst mu) i \<or> i < 32 \<and> lists_port ps i"
  "bit (snd (port_masks ps mu)) i \<longleftrightarrow> bit (snd mu) i \<or> i < 32 \<and> lists_untagged ps i"
  by (induction ps arbitrary: mu)
    (auto simp: lists_port_def lists_untagged_def bit_or_iff bit_BIT)

lemma and_BIT_u16: "i < 16 \<Longrightarrow> (ucast (ucast (m :: u32) :: u16) AND BIT i = 0) \<longleftrightarrow> \<not> bit m i"
  by (simp add: and_BIT_eq_0 bit_simps)

lemma vlan_ports_loop_filter:
  "vlan_ports_loop e is = map (vlan_port e) (filter (\<lambda>i. ucast (v4k_member e) AND BIT i \<noteq> 0) is)"
  by (induction "is") simp_all

lemma vlan_ports_loop_masks:
  assumes "v4k_member e = ucast (fst (port_masks ps (0, 0)))"
    "v4k_untag e = ucast (snd (port_masks ps (0, 0)))" "np \<le> 16"
  shows "vlan_ports_loop e [0..<np] = canonical_ports np ps"
proof -
  have i: "ucast (v4k_member e) AND BIT i \<noteq> 0 \<longleftrightarrow> lists_port ps i"
    "ucast (v4k_untag e) AND BIT i \<noteq> 0 \<longleftrightarrow> lists_untagged ps i" if "i < np" for i
    using that assms(3) by (auto simp: assms(1,2) and_BIT_u16 bit_port_masks)
  then have "filter (\<lambda>i. ucast (v4k_member e) AND BIT i \<noteq> 0) [0..<np] = filter (lists_port ps) [0..<np]"
    by (intro filter_cong) auto
  then show ?thesis
    using i(2) by (auto simp: vlan_ports_loop_filter canonical_ports_def vlan_port_def)
qed

lemma ports_pvid_spec_v4ks: "v4ks (snd (ports_pvid_spec u n np vid ps V)) = v4ks V"
proof (induction ps arbitrary: V)
  case (Cons p ps)
  have "v4ks (snd (pvid_set_spec u n np i vid V)) = v4ks V" for i
    by (auto simp: pvid_set_spec_def install_spec_def Let_def split: option.splits)
  then show ?case
    using Cons
    by (auto simp: Let_def split: prod.splits sum.splits) (metis snd_conv)+
qed simp

lemma ports_pvid_spec_range:
  "ports_pvid_spec u n np vid ps V = (Inr (), V') \<Longrightarrow> p \<in> set ps \<Longrightarrow> unat (port_id p) < np"
  by (induction ps arbitrary: V) (auto simp: Let_def split: if_splits prod.splits sum.splits)

text \<open>Once a port has a PVID, later steps leave it one.\<close>

lemma pvid_set_spec_keeps_pvid:
  assumes "pvid_of V q \<noteq> 0" "q < np" "q \<noteq> port"
  shows "pvid_of (snd (pvid_set_spec u n np port vid V)) q = pvid_of V q"
proof -
  have "\<not> is_empty_mc (mcs V (pidxs V q))" using assms(1) by (auto simp: pvid_of_def is_empty_mc_def)
  then show ?thesis
    using pvid_set_spec_others [OF _ assms(2,3), of u n vid V "fst (pvid_set_spec u n np port vid V)"
        "snd (pvid_set_spec u n np port vid V)"]
    by (auto simp: pvid_of_def)
qed

lemma ports_pvid_spec_keeps_pvid:
  assumes "pvid_of V q \<noteq> 0" "q < np"
  shows "pvid_of (snd (ports_pvid_spec u n np vid ps V)) q = pvid_of V q"
  using assms
proof (induction ps arbitrary: V)
  case (Cons p ps)
  show ?case
  proof (cases "pvid_of V (unat (port_id p)) = 0")
    case True
    then have "q \<noteq> unat (port_id p)" using Cons.prems by auto
    then have "pvid_of (snd (pvid_set_spec u n np (unat (port_id p)) vid V)) q = pvid_of V q"
      by (rule pvid_set_spec_keeps_pvid [OF Cons.prems])
    then show ?thesis
      using Cons by (auto simp: Let_def split: prod.splits sum.splits)
  next
    case False
    then show ?thesis using Cons by (simp add: Let_def)
  qed
qed simp

lemma ports_pvid_spec_sets:
  assumes "ports_pvid_spec u n np vid ps V = (Inr (), V')" "vid \<noteq> 0" "p \<in> set ps"
  shows "pvid_of V' (unat (port_id p)) \<noteq> 0"
  using assms
proof (induction ps arbitrary: V)
  case (Cons q ps)
  let ?id = "unat (port_id q)"
  have id: "?id < np" using Cons.prems(1) by (auto simp: Let_def split: if_splits)
  obtain V1 where rest: "ports_pvid_spec u n np vid ps V1 = (Inr (), V')" and V1: "pvid_of V1 ?id \<noteq> 0"
  proof (cases "pvid_of V ?id = 0")
    case True
    then obtain V1 where set: "pvid_set_spec u n np ?id vid V = (Inr (), V1)"
      and "ports_pvid_spec u n np vid ps V1 = (Inr (), V')"
      using Cons.prems(1) id by (auto simp: Let_def split: prod.splits sum.splits)
    moreover have "pvid_of V1 ?id \<noteq> 0"
      using pvid_set_spec_sets [OF set] Cons.prems(2) by (auto simp: pvid_of_def has_vid_def)
    ultimately show ?thesis using that by blast
  next
    case False
    then show ?thesis using that [of V] Cons.prems(1) id by (simp add: Let_def)
  qed
  then show ?case
    using Cons.IH [OF rest Cons.prems(2)] Cons.prems(3) ports_pvid_spec_keeps_pvid [OF V1 id, of u n vid ps]
    by auto
qed simp

lemma vlan_set_spec_pvid: "pvid_of (snd (vlan_set_spec u n mmax fmax vid m ut f V)) q = pvid_of V q"
  by (auto simp: vlan_set_spec_def Let_def pvid_of_def split: option.splits)

text \<open>What a successful assignment of a port list to a VLAN establishes.\<close>

lemma vlan_ports_spec_sets:
  assumes "vlan_ports_spec u n np mmax fmax vid ps V = (Inr (), V')" "np \<le> 16"
  shows "vlan_ports_loop (v4ks V' vid) [0..<np] = canonical_ports np ps
    \<and> (\<forall>w. w \<noteq> vid \<longrightarrow> v4ks V' w = v4ks V w)
    \<and> (vid \<noteq> 0 \<longrightarrow> (\<forall>p \<in> set ps. pvid_of V' (unat (port_id p)) \<noteq> 0))"
proof -
  let ?m = "fst (port_masks ps (0, 0))" and ?u = "snd (port_masks ps (0, 0))"
  obtain V1 where p: "ports_pvid_spec u n np vid ps V = (Inr (), V1)"
    and s: "vlan_set_spec u n mmax fmax vid ?m ?u 0 V1 = (Inr (), V')"
    using assms(1) by (auto simp: vlan_ports_spec_def split: prod.splits sum.splits)
  have v: "v4ks V' = (v4ks V1)(vid := upd_4k ?m ?u 0 (v4ks V1 vid))"
    using s by (auto simp: vlan_set_spec_def Let_def split: if_splits)
  have "vlan_ports_loop (v4ks V' vid) [0..<np] = canonical_ports np ps"
    using assms(2) by (intro vlan_ports_loop_masks) (simp_all add: v upd_4k_def)
  moreover have "v4ks V1 = v4ks V" using ports_pvid_spec_v4ks [of u n np vid ps V] p by simp
  moreover have "pvid_of V' q = pvid_of V1 q" for q
    using vlan_set_spec_pvid [of u n mmax fmax vid ?m ?u 0 V1 q] s by simp
  ultimately show ?thesis using v ports_pvid_spec_sets [OF p] by simp
qed

section \<open>The driver's flags\<close>

context vlan_switch
begin

lemma silent_flags_set_vlan_ports: "silent flags (rtl8366_sw_set_vlan_ports smi ops v)"
proof -
  have loop: "silent flags (set_vlan_ports_loop smi ops vid ps mu)" for vid ps mu
    by (induction ps arbitrary: mu)
      (auto simp: Let_def intro!: silent_intros silent_flags_get_pvid silent_flags_set_pvid)
  have "silent flags (bindE (set_vlan_ports_loop smi ops vid ps mu)
      (\<lambda>mu. rtl8366_set_vlan smi ops vid (fst mu) (snd mu) 0))" for vid ps mu
    by (intro silent_intros loop silent_flags_set_vlan)
  then show ?thesis
    by (auto simp: rtl8366_sw_set_vlan_ports_def silent_def)
qed

lemma set_vlan_fid_view:
  assumes "ready s" "is_vlan_valid ops (port_vlan v) s" "val_i v \<le> of_int (attr_max attr)"
  shows "(fst (rtl8366_sw_set_vlan_fid smi ops attr v s),
      view (snd (rtl8366_sw_set_vlan_fid smi ops attr v s))) =
      vlan_set_spec u (num_vlan_mc smi) mmax fmax (port_vlan v)
        (ucast (v4k_member (v4ks (view s) (port_vlan v))))
        (ucast (v4k_untag (v4ks (view s) (port_vlan v)))) (val_i v) (view s)
    \<and> ready (snd (rtl8366_sw_set_vlan_fid smi ops attr v s))"
proof -
  let ?s1 = "snd (get_vlan_4k ops (port_vlan v) s)"
  have v: "port_vlan v < 4096" using assms(2) valid_range by blast
  have s1: "ready ?s1" "view ?s1 = view s" using assms(1) by (simp_all add: ops_simps)
  have "rtl8366_sw_set_vlan_fid smi ops attr v s =
      rtl8366_set_vlan smi ops (port_vlan v) (ucast (v4k_member (v4ks (view s) (port_vlan v))))
        (ucast (v4k_untag (v4ks (view s) (port_vlan v)))) (val_i v) ?s1"
    using assms v
    by (intro prod_eqI)
      (simp_all add: rtl8366_sw_set_vlan_fid_def fst_bindE snd_bindE ops_simps not_less [symmetric])
  then show ?thesis using set_vlan_view [OF s1(1)] by (simp add: s1(2))
qed

lemma silent_flags_set_vlan_fid: "silent flags (rtl8366_sw_set_vlan_fid smi ops attr v)"
proof -
  have "silent flags (bindE (get_vlan_4k ops vid) (\<lambda>e. rtl8366_set_vlan smi ops vid
      (ucast (v4k_member e)) (ucast (v4k_untag e)) fid))" for vid fid
    by (intro silent_intros table_flags silent_flags_set_vlan)
  then show ?thesis by (auto simp: rtl8366_sw_set_vlan_fid_def silent_def)
qed

end

end
