(* ===== verification/Rtl8366_Common.thy ===== *)
theory Rtl8366_Common
  imports Smi_Switch
begin

text \<open>
  What the two chip drivers have in common: the initial register values that platform data
  or the device tree supply, and reading the 16-bit words of a MIB counter, most significant
  first. The lemmas are on the packing of several fields into a register.
\<close>

text \<open>
  \<open>of_initvals\<close> is the property \<open>realtek,initvals\<close> with its length in bytes, its
  32-bit cells already in the byte order of the CPU; \<open>of_green\<close> is
  \<open>realtek,green-ethernet-features\<close>.
\<close>

record setup_data =
  pdata_initvals :: "(u32 \<times> u32) list"
  of_initvals :: "(nat \<times> u32 list) option"
  of_green :: bool

fun of_pairs :: "u32 list \<Rightarrow> (u32 \<times> u32) list" where
  "of_pairs (reg # v # rest) = (reg, v) # of_pairs rest"
| "of_pairs rest = []"

primrec write_initvals ::
  "'h platform \<Rightarrow> rtl8366_smi \<Rightarrow> (u32 \<times> u32) list \<Rightarrow> ('h smi_state, unit) io" where
  "write_initvals H smi [] = retE ()"
| "write_initvals H smi (rv # rvs) =
    bindE (rtl8366_smi_write_reg H smi (fst rv) (snd rv)) (\<lambda>_. write_initvals H smi rvs)"

primrec read_mib_words ::
  "'h platform \<Rightarrow> rtl8366_smi \<Rightarrow> u32 \<Rightarrow> nat \<Rightarrow> u64 \<Rightarrow> ('h smi_state, u64) io" where
  "read_mib_words H smi addr 0 mibvalue = retE mibvalue"
| "read_mib_words H smi addr (Suc i) mibvalue =
    bindE (rtl8366_smi_read_reg H smi (addr + of_nat i)) (\<lambda>data.
    read_mib_words H smi addr i (push_bit 16 mibvalue OR ucast (data AND 0xFFFF)))"

section \<open>Fields of a register\<close>

lemma num_masks:
  "(0x7 :: 'a::len word) = mask 3" "(0xF :: 'a word) = mask 4" "(0x3F :: 'a word) = mask 6"
  "(0xFF :: 'a word) = mask 8" "(0xFFF :: 'a word) = mask 12" "(0xFFFF :: 'a word) = mask 16"
  by (simp_all add: mask_eq_exp_minus_1)

lemma nibble_rmw:
  assumes "k < 4" "j < 4"
  shows "drop_bit (4 * j) ((r AND NOT (push_bit (4 * k) 0xF)) OR push_bit (4 * k) (v AND 0xF)) AND 0xF =
    (if j = k then v AND 0xF else drop_bit (4 * j) r AND (0xF :: u16))"
  unfolding num_masks using assms by (intro bit_word_eqI) (auto simp: bit_simps)

lemma ucast_nibble:
  assumes "k < 4"
  shows "(ucast (push_bit (4 * k) (0xF :: u32)) :: u16) = push_bit (4 * k) 0xF"
    "(ucast (push_bit (4 * k) (of_nat n AND 0xF :: u32)) :: u16) = push_bit (4 * k) (of_nat n AND 0xF)"
  unfolding num_masks by (rule bit_word_eqI, auto simp: bit_simps)+

lemma ucast_drop_and:
  "(ucast (drop_bit k (ucast (w :: u16) :: u32) AND m) :: u16) = drop_bit k w AND ucast m"
  by (rule bit_word_eqI) (auto simp: bit_simps dest: bit_imp_le_length)

lemma ucast_drop_and_u8:
  "(ucast (drop_bit k (ucast (w :: u16) :: u32) AND m) :: u8) = ucast (drop_bit k w AND ucast m)"
  by (rule bit_word_eqI) (auto simp: bit_simps dest: bit_imp_le_length)

lemma ucast_and_u16: "(ucast ((ucast (w :: u16) :: u32) AND m) :: u16) = w AND ucast m"
  by (rule bit_word_eqI) (auto simp: bit_simps)

lemma ucast_and_u8:
  "(ucast ((ucast (w :: u16) :: u32) AND m) :: u8) = ucast (w AND ucast m)"
  by (rule bit_word_eqI) (auto simp: bit_simps dest: bit_imp_le_length)

lemma unat_drop_and:
  "unat (drop_bit k (ucast (w :: u16) :: u32) AND 0xF) = unat (drop_bit k w AND 0xF)"
proof -
  have "drop_bit k (ucast w :: u32) AND 0xF = ucast (drop_bit k w AND 0xF)"
    unfolding num_masks by (rule bit_word_eqI) (auto simp: bit_simps dest: bit_imp_le_length)
  then show ?thesis by simp
qed

lemma take_bit_small: "unat (m :: 'a::len word) < 2 ^ k \<Longrightarrow> take_bit k m = m"
  by (simp add: word_unat_eq_iff unsigned_take_bit_eq take_bit_nat_eq_self)

lemma unat_and_nibble: "unat (w AND (0xF :: u16)) < 16"
proof -
  have "w AND 0xF \<le> 0xF" by (rule word_and_le1)
  then show ?thesis by (simp add: word_le_nat_alt)
qed

lemma ucast_le_iff: "(ucast (a :: u16) :: u32) \<le> ucast b \<longleftrightarrow> a \<le> b"
  by (simp add: word_le_nat_alt)

text \<open>Register addresses as numbers.\<close>

lemma unat_u16_of_nat: "n < 65536 \<Longrightarrow> unat (of_nat n :: u16) = n"
  unfolding unat_of_nat by (rule mod_less) simp

lemma ucast_of_nat_u16: "(ucast (of_nat n :: u32) :: u16) = of_nat n"
  by (rule bit_word_eqI) (auto simp: bit_simps)

lemma u16_of_nat_inj: "m < 65536 \<Longrightarrow> n < 65536 \<Longrightarrow> (of_nat m :: u16) = of_nat n \<longleftrightarrow> m = n"
  by (metis unat_u16_of_nat)

end
