(* ===== verification/Rtl8366s.thy ===== *)
theory Rtl8366s
  imports Rtl8366_Common
begin

text \<open>
  The RTL8366S driver, \<open>rtl8366s.c\<close>: register layout, chip operations and the attribute
  handlers it offers to the configuration layer. A local variable that a failed register
  read leaves unset is the parameter \<open>uninit\<close>.
\<close>

section \<open>Registers\<close>

abbreviation (input) RTL8366S_PHY_NO_MAX :: nat where "RTL8366S_PHY_NO_MAX \<equiv> 4"
abbreviation (input) RTL8366S_PHY_PAGE_MAX :: u32 where "RTL8366S_PHY_PAGE_MAX \<equiv> 7"
abbreviation (input) RTL8366S_PHY_ADDR_MAX :: u32 where "RTL8366S_PHY_ADDR_MAX \<equiv> 31"
abbreviation (input) RTL8366S_SGCR :: u32 where "RTL8366S_SGCR \<equiv> 0x0000"
abbreviation (input) RTL8366S_SGCR_MAX_LENGTH_MASK :: u32 where "RTL8366S_SGCR_MAX_LENGTH_MASK \<equiv> 0x30"
abbreviation (input) RTL8366S_SGCR_MAX_LENGTH_1522 :: u32 where "RTL8366S_SGCR_MAX_LENGTH_1522 \<equiv> 0x0"
abbreviation (input) RTL8366S_SGCR_MAX_LENGTH_1536 :: u32 where "RTL8366S_SGCR_MAX_LENGTH_1536 \<equiv> 0x10"
abbreviation (input) RTL8366S_SGCR_MAX_LENGTH_1552 :: u32 where "RTL8366S_SGCR_MAX_LENGTH_1552 \<equiv> 0x20"
abbreviation (input) RTL8366S_SGCR_MAX_LENGTH_16000 :: u32 where "RTL8366S_SGCR_MAX_LENGTH_16000 \<equiv> 0x30"
abbreviation (input) RTL8366S_SGCR_EN_VLAN :: u32 where "RTL8366S_SGCR_EN_VLAN \<equiv> 0x2000"
abbreviation (input) RTL8366S_PECR :: u32 where "RTL8366S_PECR \<equiv> 0x0001"
abbreviation (input) RTL8366S_GREEN_ETHERNET_CTRL_REG :: u32 where "RTL8366S_GREEN_ETHERNET_CTRL_REG \<equiv> 0x000A"
abbreviation (input) RTL8366S_GREEN_ETHERNET_CTRL_MASK :: u32 where "RTL8366S_GREEN_ETHERNET_CTRL_MASK \<equiv> 0x0018"
abbreviation (input) RTL8366S_GREEN_ETHERNET_TX_BIT :: u32 where "RTL8366S_GREEN_ETHERNET_TX_BIT \<equiv> 0x8"
abbreviation (input) RTL8366S_GREEN_ETHERNET_RX_BIT :: u32 where "RTL8366S_GREEN_ETHERNET_RX_BIT \<equiv> 0x10"
abbreviation (input) RTL8366S_SSCR0 :: u32 where "RTL8366S_SSCR0 \<equiv> 0x0002"
abbreviation (input) RTL8366S_SSCR1 :: u32 where "RTL8366S_SSCR1 \<equiv> 0x0003"
abbreviation (input) RTL8366S_SSCR2 :: u32 where "RTL8366S_SSCR2 \<equiv> 0x0004"
abbreviation (input) RTL8366S_SSCR2_DROP_UNKNOWN_DA :: u32 where "RTL8366S_SSCR2_DROP_UNKNOWN_DA \<equiv> 0x1"
abbreviation (input) RTL8366S_RESET_CTRL_REG :: u32 where "RTL8366S_RESET_CTRL_REG \<equiv> 0x0100"
abbreviation (input) RTL8366S_CHIP_CTRL_RESET_HW :: u32 where "RTL8366S_CHIP_CTRL_RESET_HW \<equiv> 1"
abbreviation (input) RTL8366S_CHIP_VERSION_CTRL_REG :: u32 where "RTL8366S_CHIP_VERSION_CTRL_REG \<equiv> 0x0104"
abbreviation (input) RTL8366S_CHIP_ID_REG :: u32 where "RTL8366S_CHIP_ID_REG \<equiv> 0x0105"
abbreviation (input) RTL8366S_CHIP_ID_8366 :: u32 where "RTL8366S_CHIP_ID_8366 \<equiv> 0x8366"
abbreviation (input) RTL8366S_PHY_ACCESS_CTRL_REG :: u32 where "RTL8366S_PHY_ACCESS_CTRL_REG \<equiv> 0x8028"
abbreviation (input) RTL8366S_PHY_ACCESS_DATA_REG :: u32 where "RTL8366S_PHY_ACCESS_DATA_REG \<equiv> 0x8029"
abbreviation (input) RTL8366S_PHY_CTRL_READ :: u32 where "RTL8366S_PHY_CTRL_READ \<equiv> 1"
abbreviation (input) RTL8366S_PHY_CTRL_WRITE :: u32 where "RTL8366S_PHY_CTRL_WRITE \<equiv> 0"
abbreviation (input) RTL8366S_PHY_REG_MASK :: u32 where "RTL8366S_PHY_REG_MASK \<equiv> 0x1F"
abbreviation (input) RTL8366S_PHY_PAGE_OFFSET :: nat where "RTL8366S_PHY_PAGE_OFFSET \<equiv> 5"
abbreviation (input) RTL8366S_PHY_PAGE_MASK :: u32 where "RTL8366S_PHY_PAGE_MASK \<equiv> 0xE0"
abbreviation (input) RTL8366S_PHY_NO_OFFSET :: nat where "RTL8366S_PHY_NO_OFFSET \<equiv> 9"
abbreviation (input) RTL8366S_PHY_POWER_SAVING_CTRL_REG :: u32 where "RTL8366S_PHY_POWER_SAVING_CTRL_REG \<equiv> 12"
abbreviation (input) RTL8366S_PHY_POWER_SAVING_MASK :: u32 where "RTL8366S_PHY_POWER_SAVING_MASK \<equiv> 0x1000"
abbreviation (input) RTL8366S_LED_BLINKRATE_REG :: u32 where "RTL8366S_LED_BLINKRATE_REG \<equiv> 0x0420"
abbreviation (input) RTL8366S_LED_BLINKRATE_MASK :: u32 where "RTL8366S_LED_BLINKRATE_MASK \<equiv> 0x0007"
abbreviation (input) RTL8366S_LED_CTRL_REG :: u32 where "RTL8366S_LED_CTRL_REG \<equiv> 0x0421"
abbreviation (input) RTL8366S_MIB_COUNT :: nat where "RTL8366S_MIB_COUNT \<equiv> 33"
abbreviation (input) RTL8366S_MIB_COUNTER_PORT_OFFSET :: u32 where "RTL8366S_MIB_COUNTER_PORT_OFFSET \<equiv> 0x0040"
abbreviation (input) RTL8366S_MIB_COUNTER_BASE :: u32 where "RTL8366S_MIB_COUNTER_BASE \<equiv> 0x1000"
abbreviation (input) RTL8366S_MIB_COUNTER_PORT_OFFSET2 :: u32 where "RTL8366S_MIB_COUNTER_PORT_OFFSET2 \<equiv> 0x0008"
abbreviation (input) RTL8366S_MIB_COUNTER_BASE2 :: u32 where "RTL8366S_MIB_COUNTER_BASE2 \<equiv> 0x1180"
abbreviation (input) RTL8366S_MIB_CTRL_REG :: u32 where "RTL8366S_MIB_CTRL_REG \<equiv> 0x11F0"
abbreviation (input) RTL8366S_MIB_CTRL_BUSY_MASK :: u32 where "RTL8366S_MIB_CTRL_BUSY_MASK \<equiv> 0x0001"
abbreviation (input) RTL8366S_MIB_CTRL_RESET_MASK :: u32 where "RTL8366S_MIB_CTRL_RESET_MASK \<equiv> 0x0002"
abbreviation (input) RTL8366S_PORT_VLAN_CTRL_BASE :: u32 where "RTL8366S_PORT_VLAN_CTRL_BASE \<equiv> 0x0058"
abbreviation (input) RTL8366S_PORT_VLAN_CTRL_MASK :: u32 where "RTL8366S_PORT_VLAN_CTRL_MASK \<equiv> 0xF"
abbreviation (input) RTL8366S_VLAN_TABLE_READ_BASE :: u32 where "RTL8366S_VLAN_TABLE_READ_BASE \<equiv> 0x018B"
abbreviation (input) RTL8366S_VLAN_TABLE_WRITE_BASE :: u32 where "RTL8366S_VLAN_TABLE_WRITE_BASE \<equiv> 0x0185"
abbreviation (input) RTL8366S_VLAN_TB_CTRL_REG :: u32 where "RTL8366S_VLAN_TB_CTRL_REG \<equiv> 0x010F"
abbreviation (input) RTL8366S_TABLE_ACCESS_CTRL_REG :: u32 where "RTL8366S_TABLE_ACCESS_CTRL_REG \<equiv> 0x0180"
abbreviation (input) RTL8366S_TABLE_VLAN_READ_CTRL :: u32 where "RTL8366S_TABLE_VLAN_READ_CTRL \<equiv> 0x0E01"
abbreviation (input) RTL8366S_TABLE_VLAN_WRITE_CTRL :: u32 where "RTL8366S_TABLE_VLAN_WRITE_CTRL \<equiv> 0x0F01"
abbreviation (input) RTL8366S_VLAN_MEMBERINGRESS_REG :: u32 where "RTL8366S_VLAN_MEMBERINGRESS_REG \<equiv> 0x0379"
abbreviation (input) RTL8366S_PORT_LINK_STATUS_BASE :: u32 where "RTL8366S_PORT_LINK_STATUS_BASE \<equiv> 0x0060"
abbreviation (input) RTL8366S_PORT_STATUS_SPEED_MASK :: u32 where "RTL8366S_PORT_STATUS_SPEED_MASK \<equiv> 0x0003"
abbreviation (input) RTL8366S_PORT_STATUS_DUPLEX_MASK :: u32 where "RTL8366S_PORT_STATUS_DUPLEX_MASK \<equiv> 0x0004"
abbreviation (input) RTL8366S_PORT_STATUS_LINK_MASK :: u32 where "RTL8366S_PORT_STATUS_LINK_MASK \<equiv> 0x0010"
abbreviation (input) RTL8366S_PORT_STATUS_TXPAUSE_MASK :: u32 where "RTL8366S_PORT_STATUS_TXPAUSE_MASK \<equiv> 0x0020"
abbreviation (input) RTL8366S_PORT_STATUS_RXPAUSE_MASK :: u32 where "RTL8366S_PORT_STATUS_RXPAUSE_MASK \<equiv> 0x0040"
abbreviation (input) RTL8366S_PORT_STATUS_AN_MASK :: u32 where "RTL8366S_PORT_STATUS_AN_MASK \<equiv> 0x0080"
abbreviation (input) RTL8366S_PORT_NUM_CPU :: nat where "RTL8366S_PORT_NUM_CPU \<equiv> 5"
abbreviation (input) RTL8366S_NUM_PORTS :: nat where "RTL8366S_NUM_PORTS \<equiv> 6"
abbreviation (input) RTL8366S_NUM_VLANS :: nat where "RTL8366S_NUM_VLANS \<equiv> 16"
abbreviation (input) RTL8366S_NUM_LEDGROUPS :: nat where "RTL8366S_NUM_LEDGROUPS \<equiv> 4"
abbreviation (input) RTL8366S_NUM_VIDS :: u32 where "RTL8366S_NUM_VIDS \<equiv> 4096"
abbreviation (input) RTL8366S_PRIORITYMAX :: u32 where "RTL8366S_PRIORITYMAX \<equiv> 7"
abbreviation (input) RTL8366S_FIDMAX :: u32 where "RTL8366S_FIDMAX \<equiv> 7"
abbreviation (input) RTL8366S_PORT_1 :: u32 where "RTL8366S_PORT_1 \<equiv> 0x1"
abbreviation (input) RTL8366S_PORT_2 :: u32 where "RTL8366S_PORT_2 \<equiv> 0x2"
abbreviation (input) RTL8366S_PORT_3 :: u32 where "RTL8366S_PORT_3 \<equiv> 0x4"
abbreviation (input) RTL8366S_PORT_4 :: u32 where "RTL8366S_PORT_4 \<equiv> 0x8"
abbreviation (input) RTL8366S_PORT_UNKNOWN :: u32 where "RTL8366S_PORT_UNKNOWN \<equiv> 0x10"
abbreviation (input) RTL8366S_PORT_CPU :: u32 where "RTL8366S_PORT_CPU \<equiv> 0x20"
abbreviation (input) RTL8366S_VLAN_VID_MASK :: u32 where "RTL8366S_VLAN_VID_MASK \<equiv> 0xFFF"
abbreviation (input) RTL8366S_VLAN_PRIORITY_SHIFT :: nat where "RTL8366S_VLAN_PRIORITY_SHIFT \<equiv> 12"
abbreviation (input) RTL8366S_VLAN_PRIORITY_MASK :: u32 where "RTL8366S_VLAN_PRIORITY_MASK \<equiv> 0x7"
abbreviation (input) RTL8366S_VLAN_MEMBER_MASK :: u32 where "RTL8366S_VLAN_MEMBER_MASK \<equiv> 0x3F"
abbreviation (input) RTL8366S_VLAN_UNTAG_SHIFT :: nat where "RTL8366S_VLAN_UNTAG_SHIFT \<equiv> 6"
abbreviation (input) RTL8366S_VLAN_UNTAG_MASK :: u32 where "RTL8366S_VLAN_UNTAG_MASK \<equiv> 0x3F"
abbreviation (input) RTL8366S_VLAN_FID_SHIFT :: nat where "RTL8366S_VLAN_FID_SHIFT \<equiv> 12"
abbreviation (input) RTL8366S_VLAN_FID_MASK :: u32 where "RTL8366S_VLAN_FID_MASK \<equiv> 0x7"
abbreviation (input) RTL8366S_MIB_RXB_ID :: nat where "RTL8366S_MIB_RXB_ID \<equiv> 0"
abbreviation (input) RTL8366S_MIB_TXB_ID :: nat where "RTL8366S_MIB_TXB_ID \<equiv> 20"
definition RTL8366S_PORT_ALL :: u32 where
  "RTL8366S_PORT_ALL = (RTL8366S_PORT_1 OR (RTL8366S_PORT_2 OR (RTL8366S_PORT_3 OR
     (RTL8366S_PORT_4 OR (RTL8366S_PORT_UNKNOWN OR RTL8366S_PORT_CPU)))))"

definition RTL8366S_PORT_VLAN_CTRL_REG :: "nat \<Rightarrow> u32" where
  "RTL8366S_PORT_VLAN_CTRL_REG p = RTL8366S_PORT_VLAN_CTRL_BASE + of_nat (p div 4)"

definition RTL8366S_PORT_VLAN_CTRL_SHIFT :: "nat \<Rightarrow> nat" where
  "RTL8366S_PORT_VLAN_CTRL_SHIFT p = 4 * (p mod 4)"

definition RTL8366S_VLAN_MC_BASE :: "nat \<Rightarrow> u32" where
  "RTL8366S_VLAN_MC_BASE x = 0x0016 + of_nat x * 2"

definition rtl8366s_mib_counters :: "rtl8366_mib_counter list" where
  "rtl8366s_mib_counters = [
    \<lparr>mib_base = 0, mib_offset = 0, mib_length = 4, mib_name = ''IfInOctets''\<rparr>,
    \<lparr>mib_base = 0, mib_offset = 4, mib_length = 4, mib_name = ''EtherStatsOctets''\<rparr>,
    \<lparr>mib_base = 0, mib_offset = 8, mib_length = 2, mib_name = ''EtherStatsUnderSizePkts''\<rparr>,
    \<lparr>mib_base = 0, mib_offset = 10, mib_length = 2, mib_name = ''EtherFragments''\<rparr>,
    \<lparr>mib_base = 0, mib_offset = 12, mib_length = 2, mib_name = ''EtherStatsPkts64Octets''\<rparr>,
    \<lparr>mib_base = 0, mib_offset = 14, mib_length = 2, mib_name = ''EtherStatsPkts65to127Octets''\<rparr>,
    \<lparr>mib_base = 0, mib_offset = 16, mib_length = 2, mib_name = ''EtherStatsPkts128to255Octets''\<rparr>,
    \<lparr>mib_base = 0, mib_offset = 18, mib_length = 2, mib_name = ''EtherStatsPkts256to511Octets''\<rparr>,
    \<lparr>mib_base = 0, mib_offset = 20, mib_length = 2, mib_name = ''EtherStatsPkts512to1023Octets''\<rparr>,
    \<lparr>mib_base = 0, mib_offset = 22, mib_length = 2, mib_name = ''EtherStatsPkts1024to1518Octets''\<rparr>,
    \<lparr>mib_base = 0, mib_offset = 24, mib_length = 2, mib_name = ''EtherOversizeStats''\<rparr>,
    \<lparr>mib_base = 0, mib_offset = 26, mib_length = 2, mib_name = ''EtherStatsJabbers''\<rparr>,
    \<lparr>mib_base = 0, mib_offset = 28, mib_length = 2, mib_name = ''IfInUcastPkts''\<rparr>,
    \<lparr>mib_base = 0, mib_offset = 30, mib_length = 2, mib_name = ''EtherStatsMulticastPkts''\<rparr>,
    \<lparr>mib_base = 0, mib_offset = 32, mib_length = 2, mib_name = ''EtherStatsBroadcastPkts''\<rparr>,
    \<lparr>mib_base = 0, mib_offset = 34, mib_length = 2, mib_name = ''EtherStatsDropEvents''\<rparr>,
    \<lparr>mib_base = 0, mib_offset = 36, mib_length = 2, mib_name = ''Dot3StatsFCSErrors''\<rparr>,
    \<lparr>mib_base = 0, mib_offset = 38, mib_length = 2, mib_name = ''Dot3StatsSymbolErrors''\<rparr>,
    \<lparr>mib_base = 0, mib_offset = 40, mib_length = 2, mib_name = ''Dot3InPauseFrames''\<rparr>,
    \<lparr>mib_base = 0, mib_offset = 42, mib_length = 2, mib_name = ''Dot3ControlInUnknownOpcodes''\<rparr>,
    \<lparr>mib_base = 0, mib_offset = 44, mib_length = 4, mib_name = ''IfOutOctets''\<rparr>,
    \<lparr>mib_base = 0, mib_offset = 48, mib_length = 2, mib_name = ''Dot3StatsSingleCollisionFrames''\<rparr>,
    \<lparr>mib_base = 0, mib_offset = 50, mib_length = 2, mib_name = ''Dot3StatMultipleCollisionFrames''\<rparr>,
    \<lparr>mib_base = 0, mib_offset = 52, mib_length = 2, mib_name = ''Dot3sDeferredTransmissions''\<rparr>,
    \<lparr>mib_base = 0, mib_offset = 54, mib_length = 2, mib_name = ''Dot3StatsLateCollisions''\<rparr>,
    \<lparr>mib_base = 0, mib_offset = 56, mib_length = 2, mib_name = ''EtherStatsCollisions''\<rparr>,
    \<lparr>mib_base = 0, mib_offset = 58, mib_length = 2, mib_name = ''Dot3StatsExcessiveCollisions''\<rparr>,
    \<lparr>mib_base = 0, mib_offset = 60, mib_length = 2, mib_name = ''Dot3OutPauseFrames''\<rparr>,
    \<lparr>mib_base = 0, mib_offset = 62, mib_length = 2, mib_name = ''Dot1dBasePortDelayExceededDiscards''\<rparr>,
    \<lparr>mib_base = 1, mib_offset = 0, mib_length = 2, mib_name = ''Dot1dTpPortInDiscards''\<rparr>,
    \<lparr>mib_base = 1, mib_offset = 2, mib_length = 2, mib_name = ''IfOutUcastPkts''\<rparr>,
    \<lparr>mib_base = 1, mib_offset = 4, mib_length = 2, mib_name = ''IfOutMulticastPkts''\<rparr>,
    \<lparr>mib_base = 1, mib_offset = 6, mib_length = 2, mib_name = ''IfOutBroadcastPkts''\<rparr>]"

section \<open>Chip reset, PHY access, green features, set-up\<close>

text \<open>The polling loop, on the number of rounds left.\<close>

primrec rtl8366s_reset_poll :: "'h platform \<Rightarrow> rtl8366_smi \<Rightarrow> nat \<Rightarrow> ('h smi_state, unit) io" where
  "rtl8366s_reset_poll H smi 0 = failE EIO"
| "rtl8366s_reset_poll H smi (Suc timeout) = (\<lambda>s.
    case rtl8366_smi_read_reg H smi RTL8366S_RESET_CTRL_REG (on_hw (msleep H 1) s) of
      (Inl e, s') \<Rightarrow> (Inl EIO, s')
    | (Inr data, s') \<Rightarrow>
        if data AND RTL8366S_CHIP_CTRL_RESET_HW = 0 then (Inr (), s')
        else rtl8366s_reset_poll H smi timeout s')"

definition rtl8366s_reset_chip :: "'h platform \<Rightarrow> rtl8366_smi \<Rightarrow> ('h smi_state, unit) io" where
  "rtl8366s_reset_chip H smi =
    bindE (ignoreE (rtl8366_smi_write_reg_noack H smi RTL8366S_RESET_CTRL_REG
             RTL8366S_CHIP_CTRL_RESET_HW)) (\<lambda>_.
    rtl8366s_reset_poll H smi 10)"

definition rtl8366s_phy_reg :: "u32 \<Rightarrow> u32 \<Rightarrow> u32 \<Rightarrow> u32" where
  "rtl8366s_phy_reg phy_no page addr =
    0x8000 OR (push_bit (unat phy_no + RTL8366S_PHY_NO_OFFSET) 1 OR
    ((push_bit RTL8366S_PHY_PAGE_OFFSET page AND RTL8366S_PHY_PAGE_MASK) OR
     (addr AND RTL8366S_PHY_REG_MASK)))"

definition rtl8366s_read_phy_reg ::
  "'h platform \<Rightarrow> rtl8366_smi \<Rightarrow> u32 \<Rightarrow> u32 \<Rightarrow> u32 \<Rightarrow> ('h smi_state, u32) io" where
  "rtl8366s_read_phy_reg H smi phy_no page addr =
    (if phy_no > of_nat RTL8366S_PHY_NO_MAX then failE EINVAL
     else if page > RTL8366S_PHY_PAGE_MAX then failE EINVAL
     else if addr > RTL8366S_PHY_ADDR_MAX then failE EINVAL
     else bindE (rtl8366_smi_write_reg H smi RTL8366S_PHY_ACCESS_CTRL_REG RTL8366S_PHY_CTRL_READ) (\<lambda>_.
          bindE (rtl8366_smi_write_reg H smi (rtl8366s_phy_reg phy_no page addr) 0) (\<lambda>_.
          rtl8366_smi_read_reg H smi RTL8366S_PHY_ACCESS_DATA_REG)))"

definition rtl8366s_write_phy_reg ::
  "'h platform \<Rightarrow> rtl8366_smi \<Rightarrow> u32 \<Rightarrow> u32 \<Rightarrow> u32 \<Rightarrow> u32 \<Rightarrow> ('h smi_state, unit) io" where
  "rtl8366s_write_phy_reg H smi phy_no page addr data =
    (if phy_no > of_nat RTL8366S_PHY_NO_MAX then failE EINVAL
     else if page > RTL8366S_PHY_PAGE_MAX then failE EINVAL
     else if addr > RTL8366S_PHY_ADDR_MAX then failE EINVAL
     else bindE (rtl8366_smi_write_reg H smi RTL8366S_PHY_ACCESS_CTRL_REG RTL8366S_PHY_CTRL_WRITE) (\<lambda>_.
          rtl8366_smi_write_reg H smi (rtl8366s_phy_reg phy_no page addr) data))"

definition rtl8366s_set_green_port ::
  "'h platform \<Rightarrow> rtl8366_smi \<Rightarrow> nat \<Rightarrow> bool \<Rightarrow> ('h smi_state, unit) io" where
  "rtl8366s_set_green_port H smi port enable =
    (if port \<ge> RTL8366S_NUM_PORTS then failE EINVAL
     else bindE (rtl8366s_read_phy_reg H smi (of_nat port) 0 RTL8366S_PHY_POWER_SAVING_CTRL_REG) (\<lambda>phyData.
          rtl8366s_write_phy_reg H smi (of_nat port) 0 RTL8366S_PHY_POWER_SAVING_CTRL_REG
            (if enable then phyData OR RTL8366S_PHY_POWER_SAVING_MASK
             else phyData AND NOT RTL8366S_PHY_POWER_SAVING_MASK)))"

definition rtl8366s_set_green :: "'h platform \<Rightarrow> rtl8366_smi \<Rightarrow> bool \<Rightarrow> ('h smi_state, unit) io" where
  "rtl8366s_set_green H smi enable =
    bindE (if \<not> enable
           then forE [0..<5] (\<lambda>i. ignoreE (rtl8366s_set_green_port H smi i False))
           else retE ()) (\<lambda>_.
    rtl8366_smi_rmwr H smi RTL8366S_GREEN_ETHERNET_CTRL_REG RTL8366S_GREEN_ETHERNET_CTRL_MASK
      (if enable then RTL8366S_GREEN_ETHERNET_TX_BIT OR RTL8366S_GREEN_ETHERNET_RX_BIT else 0))"

definition rtl8366s_setup ::
  "'h platform \<Rightarrow> rtl8366_smi \<Rightarrow> setup_data \<Rightarrow> ('h smi_state, unit) io" where
  "rtl8366s_setup H smi sd =
    bindE (write_initvals H smi (pdata_initvals sd)) (\<lambda>_.
    bindE (case of_initvals sd of None \<Rightarrow> retE ()
           | Some (len, cells) \<Rightarrow>
               if len < 8 then failE EINVAL
               else write_initvals H smi (of_pairs (take (len div 4) cells))) (\<lambda>_.
    bindE (if of_green sd
           then bindE (rtl8366s_set_green H smi True) (\<lambda>_.
                forE [0..<5] (\<lambda>i. rtl8366s_set_green_port H smi i True))
           else retE ()) (\<lambda>_.
    bindE (rtl8366_smi_rmwr H smi RTL8366S_SGCR RTL8366S_SGCR_MAX_LENGTH_MASK
             RTL8366S_SGCR_MAX_LENGTH_1536) (\<lambda>_.
    bindE (rtl8366_smi_write_reg H smi RTL8366S_SSCR0 0) (\<lambda>_.
    bindE (rtl8366_smi_write_reg H smi RTL8366S_SSCR1 0) (\<lambda>_.
    bindE (rtl8366_smi_write_reg H smi RTL8366S_VLAN_MEMBERINGRESS_REG RTL8366S_PORT_ALL) (\<lambda>_.
    rtl8366_smi_rmwr H smi RTL8366S_SSCR2 RTL8366S_SSCR2_DROP_UNKNOWN_DA 0)))))))"

section \<open>MIB counters\<close>

definition rtl8366s_mib_addr :: "nat \<Rightarrow> nat \<Rightarrow> u32 option" where
  "rtl8366s_mib_addr counter port =
    (let c = rtl8366s_mib_counters ! counter
     in if mib_base c = 0
        then Some (RTL8366S_MIB_COUNTER_BASE + RTL8366S_MIB_COUNTER_PORT_OFFSET * of_nat port + mib_offset c)
        else if mib_base c = 1
        then Some (RTL8366S_MIB_COUNTER_BASE2 + RTL8366S_MIB_COUNTER_PORT_OFFSET2 * of_nat port + mib_offset c)
        else None)"

definition rtl8366s_get_mib_counter ::
  "'h platform \<Rightarrow> rtl8366_smi \<Rightarrow> nat \<Rightarrow> nat \<Rightarrow> ('h smi_state, u64) io" where
  "rtl8366s_get_mib_counter H smi counter port =
    (if port > RTL8366S_NUM_PORTS \<or> counter \<ge> RTL8366S_MIB_COUNT then failE EINVAL
     else case rtl8366s_mib_addr counter port of None \<Rightarrow> failE EINVAL
     | Some addr \<Rightarrow>
         bindE (rtl8366_smi_write_reg H smi addr 0) (\<lambda>_.
         bindE (rtl8366_smi_read_reg H smi RTL8366S_MIB_CTRL_REG) (\<lambda>data.
         if data AND RTL8366S_MIB_CTRL_BUSY_MASK \<noteq> 0 then failE EBUSY
         else if data AND RTL8366S_MIB_CTRL_RESET_MASK \<noteq> 0 then failE EIO
         else read_mib_words H smi addr (mib_length (rtl8366s_mib_counters ! counter)) 0)))"

section \<open>VLAN tables\<close>

definition rtl8366s_get_vlan_4k ::
  "'h platform \<Rightarrow> rtl8366_smi \<Rightarrow> u32 \<Rightarrow> ('h smi_state, rtl8366_vlan_4k) io" where
  "rtl8366s_get_vlan_4k H smi vid =
    (if vid \<ge> RTL8366S_NUM_VIDS then failE EINVAL
     else bindE (rtl8366_smi_write_reg H smi RTL8366S_VLAN_TABLE_WRITE_BASE
                   (vid AND RTL8366S_VLAN_VID_MASK)) (\<lambda>_.
          bindE (rtl8366_smi_write_reg H smi RTL8366S_TABLE_ACCESS_CTRL_REG
                   RTL8366S_TABLE_VLAN_READ_CTRL) (\<lambda>_.
          bindE (rtl8366_smi_read_reg H smi RTL8366S_VLAN_TABLE_READ_BASE) (\<lambda>data0.
          bindE (rtl8366_smi_read_reg H smi (RTL8366S_VLAN_TABLE_READ_BASE + 1)) (\<lambda>data1.
          retE \<lparr>v4k_vid = ucast vid,
            v4k_untag = ucast (drop_bit RTL8366S_VLAN_UNTAG_SHIFT data1 AND RTL8366S_VLAN_UNTAG_MASK),
            v4k_member = ucast (data1 AND RTL8366S_VLAN_MEMBER_MASK),
            v4k_fid = ucast (drop_bit RTL8366S_VLAN_FID_SHIFT data1 AND RTL8366S_VLAN_FID_MASK)\<rparr>)))))"

definition rtl8366s_pack_members :: "u16 \<Rightarrow> u16 \<Rightarrow> u8 \<Rightarrow> u32" where
  "rtl8366s_pack_members member untag fid =
    (ucast member AND RTL8366S_VLAN_MEMBER_MASK) OR
    (push_bit RTL8366S_VLAN_UNTAG_SHIFT (ucast untag AND RTL8366S_VLAN_UNTAG_MASK) OR
     push_bit RTL8366S_VLAN_FID_SHIFT (ucast fid AND RTL8366S_VLAN_FID_MASK))"

definition rtl8366s_set_vlan_4k ::
  "'h platform \<Rightarrow> rtl8366_smi \<Rightarrow> rtl8366_vlan_4k \<Rightarrow> ('h smi_state, unit) io" where
  "rtl8366s_set_vlan_4k H smi vlan4k =
    (if ucast (v4k_vid vlan4k) \<ge> RTL8366S_NUM_VIDS \<or>
        ucast (v4k_member vlan4k) > RTL8366S_VLAN_MEMBER_MASK \<or>
        ucast (v4k_untag vlan4k) > RTL8366S_VLAN_UNTAG_MASK \<or>
        ucast (v4k_fid vlan4k) > RTL8366S_FIDMAX
     then failE EINVAL
     else let data0 = ucast (v4k_vid vlan4k) AND RTL8366S_VLAN_VID_MASK;
              data1 = rtl8366s_pack_members (v4k_member vlan4k) (v4k_untag vlan4k) (v4k_fid vlan4k)
          in bindE (rtl8366_smi_write_reg H smi RTL8366S_VLAN_TABLE_WRITE_BASE data0) (\<lambda>_.
             bindE (rtl8366_smi_write_reg H smi (RTL8366S_VLAN_TABLE_WRITE_BASE + 1) data1) (\<lambda>_.
             rtl8366_smi_write_reg H smi RTL8366S_TABLE_ACCESS_CTRL_REG
               RTL8366S_TABLE_VLAN_WRITE_CTRL)))"

definition rtl8366s_get_vlan_mc ::
  "'h platform \<Rightarrow> rtl8366_smi \<Rightarrow> nat \<Rightarrow> ('h smi_state, rtl8366_vlan_mc) io" where
  "rtl8366s_get_vlan_mc H smi index =
    (if index \<ge> RTL8366S_NUM_VLANS then failE EINVAL
     else bindE (rtl8366_smi_read_reg H smi (RTL8366S_VLAN_MC_BASE index)) (\<lambda>data0.
          bindE (rtl8366_smi_read_reg H smi (RTL8366S_VLAN_MC_BASE index + 1)) (\<lambda>data1.
          retE \<lparr>mc_vid = ucast (data0 AND RTL8366S_VLAN_VID_MASK),
            mc_untag = ucast (drop_bit RTL8366S_VLAN_UNTAG_SHIFT data1 AND RTL8366S_VLAN_UNTAG_MASK),
            mc_member = ucast (data1 AND RTL8366S_VLAN_MEMBER_MASK),
            mc_fid = ucast (drop_bit RTL8366S_VLAN_FID_SHIFT data1 AND RTL8366S_VLAN_FID_MASK),
            mc_priority = ucast (drop_bit RTL8366S_VLAN_PRIORITY_SHIFT data0 AND
              RTL8366S_VLAN_PRIORITY_MASK)\<rparr>)))"

definition rtl8366s_pack_vid :: "u16 \<Rightarrow> u8 \<Rightarrow> u32" where
  "rtl8366s_pack_vid vid priority =
    (ucast vid AND RTL8366S_VLAN_VID_MASK) OR
    push_bit RTL8366S_VLAN_PRIORITY_SHIFT (ucast priority AND RTL8366S_VLAN_PRIORITY_MASK)"

definition rtl8366s_set_vlan_mc ::
  "'h platform \<Rightarrow> rtl8366_smi \<Rightarrow> nat \<Rightarrow> rtl8366_vlan_mc \<Rightarrow> ('h smi_state, unit) io" where
  "rtl8366s_set_vlan_mc H smi index vlanmc =
    (if index \<ge> RTL8366S_NUM_VLANS \<or>
        ucast (mc_vid vlanmc) \<ge> RTL8366S_NUM_VIDS \<or>
        ucast (mc_priority vlanmc) > RTL8366S_PRIORITYMAX \<or>
        ucast (mc_member vlanmc) > RTL8366S_VLAN_MEMBER_MASK \<or>
        ucast (mc_untag vlanmc) > RTL8366S_VLAN_UNTAG_MASK \<or>
        ucast (mc_fid vlanmc) > RTL8366S_FIDMAX
     then failE EINVAL
     else let data0 = rtl8366s_pack_vid (mc_vid vlanmc) (mc_priority vlanmc);
              data1 = rtl8366s_pack_members (mc_member vlanmc) (mc_untag vlanmc) (mc_fid vlanmc)
          in bindE (rtl8366_smi_write_reg H smi (RTL8366S_VLAN_MC_BASE index) data0) (\<lambda>_.
             rtl8366_smi_write_reg H smi (RTL8366S_VLAN_MC_BASE index + 1) data1))"

definition rtl8366s_get_mc_index :: "'h platform \<Rightarrow> rtl8366_smi \<Rightarrow> nat \<Rightarrow> ('h smi_state, nat) io" where
  "rtl8366s_get_mc_index H smi port =
    (if port \<ge> RTL8366S_NUM_PORTS then failE EINVAL
     else bindE (rtl8366_smi_read_reg H smi (RTL8366S_PORT_VLAN_CTRL_REG port)) (\<lambda>data.
          retE (unat (drop_bit (RTL8366S_PORT_VLAN_CTRL_SHIFT port) data AND
            RTL8366S_PORT_VLAN_CTRL_MASK))))"

definition rtl8366s_set_mc_index ::
  "'h platform \<Rightarrow> rtl8366_smi \<Rightarrow> nat \<Rightarrow> nat \<Rightarrow> ('h smi_state, unit) io" where
  "rtl8366s_set_mc_index H smi port index =
    (if port \<ge> RTL8366S_NUM_PORTS \<or> index \<ge> RTL8366S_NUM_VLANS then failE EINVAL
     else rtl8366_smi_rmwr H smi (RTL8366S_PORT_VLAN_CTRL_REG port)
            (push_bit (RTL8366S_PORT_VLAN_CTRL_SHIFT port) RTL8366S_PORT_VLAN_CTRL_MASK)
            (push_bit (RTL8366S_PORT_VLAN_CTRL_SHIFT port)
               (of_nat index AND RTL8366S_PORT_VLAN_CTRL_MASK)))"

definition rtl8366s_enable_vlan :: "'h platform \<Rightarrow> rtl8366_smi \<Rightarrow> bool \<Rightarrow> ('h smi_state, unit) io" where
  "rtl8366s_enable_vlan H smi enable =
    rtl8366_smi_rmwr H smi RTL8366S_SGCR RTL8366S_SGCR_EN_VLAN
      (if enable then RTL8366S_SGCR_EN_VLAN else 0)"

definition rtl8366s_enable_vlan4k :: "'h platform \<Rightarrow> rtl8366_smi \<Rightarrow> bool \<Rightarrow> ('h smi_state, unit) io" where
  "rtl8366s_enable_vlan4k H smi enable =
    rtl8366_smi_rmwr H smi RTL8366S_VLAN_TB_CTRL_REG 1 (if enable then 1 else 0)"

definition rtl8366s_is_vlan_valid :: "u32 \<Rightarrow> 'h smi_state \<Rightarrow> bool" where
  "rtl8366s_is_vlan_valid vlan s =
    (let mx = (if vlan4k_enabled s \<noteq> 0 then RTL8366S_NUM_VIDS - 1 else of_nat RTL8366S_NUM_VLANS)
     in \<not> (vlan = 0 \<or> vlan \<ge> mx))"

definition rtl8366s_enable_port ::
  "'h platform \<Rightarrow> rtl8366_smi \<Rightarrow> nat \<Rightarrow> bool \<Rightarrow> ('h smi_state, unit) io" where
  "rtl8366s_enable_port H smi port enable =
    rtl8366_smi_rmwr H smi RTL8366S_PECR (push_bit port 1) (if enable then 0 else push_bit port 1)"

section \<open>Attribute handlers\<close>

definition rtl8366s_sw_reset_mibs ::
  "'h platform \<Rightarrow> rtl8366_smi \<Rightarrow> switch_attr_info \<Rightarrow> switch_val \<Rightarrow> ('h smi_state, unit) io" where
  "rtl8366s_sw_reset_mibs H smi attr v = rtl8366_smi_rmwr H smi RTL8366S_MIB_CTRL_REG 0 (push_bit 2 1)"

definition rtl8366s_sw_get_blinkrate ::
  "'h platform \<Rightarrow> rtl8366_smi \<Rightarrow> u32 \<Rightarrow> switch_attr_info \<Rightarrow> switch_val \<Rightarrow> ('h smi_state, switch_val) io" where
  "rtl8366s_sw_get_blinkrate H smi uninit attr v =
    bindE (catchE (rtl8366_smi_read_reg H smi RTL8366S_LED_BLINKRATE_REG) uninit) (\<lambda>data.
    retE (v\<lparr>val_i := data AND RTL8366S_LED_BLINKRATE_MASK\<rparr>))"

definition rtl8366s_sw_set_blinkrate ::
  "'h platform \<Rightarrow> rtl8366_smi \<Rightarrow> switch_attr_info \<Rightarrow> switch_val \<Rightarrow> ('h smi_state, unit) io" where
  "rtl8366s_sw_set_blinkrate H smi attr v =
    (if val_i v \<ge> 6 then failE EINVAL
     else rtl8366_smi_rmwr H smi RTL8366S_LED_BLINKRATE_REG RTL8366S_LED_BLINKRATE_MASK (val_i v))"

definition rtl8366s_sw_get_max_length ::
  "'h platform \<Rightarrow> rtl8366_smi \<Rightarrow> u32 \<Rightarrow> switch_attr_info \<Rightarrow> switch_val \<Rightarrow> ('h smi_state, switch_val) io" where
  "rtl8366s_sw_get_max_length H smi uninit attr v =
    bindE (catchE (rtl8366_smi_read_reg H smi RTL8366S_SGCR) uninit) (\<lambda>data.
    retE (v\<lparr>val_i := drop_bit 4 (data AND RTL8366S_SGCR_MAX_LENGTH_MASK)\<rparr>))"

definition rtl8366s_sw_set_max_length ::
  "'h platform \<Rightarrow> rtl8366_smi \<Rightarrow> switch_attr_info \<Rightarrow> switch_val \<Rightarrow> ('h smi_state, unit) io" where
  "rtl8366s_sw_set_max_length H smi attr v =
    (if val_i v = 0 then
       rtl8366_smi_rmwr H smi RTL8366S_SGCR RTL8366S_SGCR_MAX_LENGTH_MASK RTL8366S_SGCR_MAX_LENGTH_1522
     else if val_i v = 1 then
       rtl8366_smi_rmwr H smi RTL8366S_SGCR RTL8366S_SGCR_MAX_LENGTH_MASK RTL8366S_SGCR_MAX_LENGTH_1536
     else if val_i v = 2 then
       rtl8366_smi_rmwr H smi RTL8366S_SGCR RTL8366S_SGCR_MAX_LENGTH_MASK RTL8366S_SGCR_MAX_LENGTH_1552
     else if val_i v = 3 then
       rtl8366_smi_rmwr H smi RTL8366S_SGCR RTL8366S_SGCR_MAX_LENGTH_MASK RTL8366S_SGCR_MAX_LENGTH_16000
     else failE EINVAL)"

definition rtl8366s_sw_get_learning_enable ::
  "'h platform \<Rightarrow> rtl8366_smi \<Rightarrow> u32 \<Rightarrow> switch_attr_info \<Rightarrow> switch_val \<Rightarrow> ('h smi_state, switch_val) io" where
  "rtl8366s_sw_get_learning_enable H smi uninit attr v =
    bindE (catchE (rtl8366_smi_read_reg H smi RTL8366S_SSCR0) uninit) (\<lambda>data.
    retE (v\<lparr>val_i := (if data = 0 then 1 else 0)\<rparr>))"

definition rtl8366s_sw_set_learning_enable ::
  "'h platform \<Rightarrow> rtl8366_smi \<Rightarrow> switch_attr_info \<Rightarrow> switch_val \<Rightarrow> ('h smi_state, unit) io" where
  "rtl8366s_sw_set_learning_enable H smi attr v =
    (let portmask = (if val_i v = 0 then RTL8366S_PORT_ALL else 0)
     in bindE (rtl8366_smi_write_reg H smi RTL8366S_SSCR0 portmask) (\<lambda>_.
        rtl8366_smi_write_reg H smi RTL8366S_SSCR1 portmask))"

definition rtl8366s_sw_get_green ::
  "'h platform \<Rightarrow> rtl8366_smi \<Rightarrow> switch_attr_info \<Rightarrow> switch_val \<Rightarrow> ('h smi_state, switch_val) io" where
  "rtl8366s_sw_get_green H smi attr v =
    bindE (rtl8366_smi_read_reg H smi RTL8366S_GREEN_ETHERNET_CTRL_REG) (\<lambda>data.
    retE (v\<lparr>val_i := (if data AND (RTL8366S_GREEN_ETHERNET_TX_BIT OR RTL8366S_GREEN_ETHERNET_RX_BIT) \<noteq> 0
                     then 1 else 0)\<rparr>))"

definition rtl8366s_sw_set_green ::
  "'h platform \<Rightarrow> rtl8366_smi \<Rightarrow> switch_attr_info \<Rightarrow> switch_val \<Rightarrow> ('h smi_state, unit) io" where
  "rtl8366s_sw_set_green H smi attr v = rtl8366s_set_green H smi (val_i v \<noteq> 0)"

definition rtl8366s_link_status :: "u32 \<Rightarrow> switch_port_link \<Rightarrow> switch_port_link" where
  "rtl8366s_link_status data lnk =
    (if data AND RTL8366S_PORT_STATUS_LINK_MASK = 0 then lnk\<lparr>link := False\<rparr>
     else let sp = data AND RTL8366S_PORT_STATUS_SPEED_MASK
       in lnk\<lparr>link := True,
         duplex := data AND RTL8366S_PORT_STATUS_DUPLEX_MASK \<noteq> 0,
         rx_flow := data AND RTL8366S_PORT_STATUS_RXPAUSE_MASK \<noteq> 0,
         tx_flow := data AND RTL8366S_PORT_STATUS_TXPAUSE_MASK \<noteq> 0,
         aneg := data AND RTL8366S_PORT_STATUS_AN_MASK \<noteq> 0,
         speed := (if sp = 0 then SWITCH_PORT_SPEED_10 else if sp = 1 then SWITCH_PORT_SPEED_100
                   else if sp = 2 then SWITCH_PORT_SPEED_1000 else SWITCH_PORT_SPEED_UNKNOWN)\<rparr>)"

definition rtl8366s_sw_get_port_link ::
  "'h platform \<Rightarrow> rtl8366_smi \<Rightarrow> nat \<Rightarrow> switch_port_link \<Rightarrow> ('h smi_state, switch_port_link) io" where
  "rtl8366s_sw_get_port_link H smi port lnk =
    (if port \<ge> RTL8366S_NUM_PORTS then failE EINVAL
     else bindE (catchE (rtl8366_smi_read_reg H smi
              (RTL8366S_PORT_LINK_STATUS_BASE + of_nat (port div 2))) 0) (\<lambda>data.
          retE (rtl8366s_link_status (if port mod 2 \<noteq> 0 then drop_bit 8 data else data) lnk)))"

definition rtl8366s_sw_set_port_led ::
  "'h platform \<Rightarrow> rtl8366_smi \<Rightarrow> switch_attr_info \<Rightarrow> switch_val \<Rightarrow> ('h smi_state, unit) io" where
  "rtl8366s_sw_set_port_led H smi attr v =
    (let port = unat (port_vlan v)
     in if port \<ge> RTL8366S_NUM_PORTS \<or> push_bit port 1 = RTL8366S_PORT_UNKNOWN then failE EINVAL
        else if port = RTL8366S_PORT_NUM_CPU
        then rtl8366_smi_rmwr H smi RTL8366S_LED_BLINKRATE_REG (push_bit 4 0xF) (push_bit 4 (val_i v))
        else rtl8366_smi_rmwr H smi RTL8366S_LED_CTRL_REG (push_bit (port * 4) 0xF)
               (push_bit (port * 4) (val_i v)))"

definition rtl8366s_sw_get_port_led ::
  "'h platform \<Rightarrow> rtl8366_smi \<Rightarrow> switch_attr_info \<Rightarrow> switch_val \<Rightarrow> ('h smi_state, switch_val) io" where
  "rtl8366s_sw_get_port_led H smi attr v =
    (let port = unat (port_vlan v)
     in if port \<ge> RTL8366S_NUM_LEDGROUPS then failE EINVAL
        else bindE (catchE (rtl8366_smi_read_reg H smi RTL8366S_LED_CTRL_REG) 0) (\<lambda>data.
             retE (v\<lparr>val_i := drop_bit (port * 4) data AND 0x000F\<rparr>)))"

definition rtl8366s_sw_get_green_port ::
  "'h platform \<Rightarrow> rtl8366_smi \<Rightarrow> switch_attr_info \<Rightarrow> switch_val \<Rightarrow> ('h smi_state, switch_val) io" where
  "rtl8366s_sw_get_green_port H smi attr v =
    (if port_vlan v \<ge> of_nat RTL8366S_NUM_PORTS then failE EINVAL
     else bindE (rtl8366s_read_phy_reg H smi (port_vlan v) 0 RTL8366S_PHY_POWER_SAVING_CTRL_REG) (\<lambda>phyData.
          retE (v\<lparr>val_i := (if phyData AND RTL8366S_PHY_POWER_SAVING_MASK \<noteq> 0 then 1 else 0)\<rparr>)))"

definition rtl8366s_sw_set_green_port ::
  "'h platform \<Rightarrow> rtl8366_smi \<Rightarrow> switch_attr_info \<Rightarrow> switch_val \<Rightarrow> ('h smi_state, unit) io" where
  "rtl8366s_sw_set_green_port H smi attr v =
    rtl8366s_set_green_port H smi (unat (port_vlan v)) (val_i v \<noteq> 0)"

definition rtl8366s_sw_reset_port_mibs ::
  "'h platform \<Rightarrow> rtl8366_smi \<Rightarrow> switch_attr_info \<Rightarrow> switch_val \<Rightarrow> ('h smi_state, unit) io" where
  "rtl8366s_sw_reset_port_mibs H smi attr v =
    (let port = unat (port_vlan v)
     in if port \<ge> RTL8366S_NUM_PORTS then failE EINVAL
        else rtl8366_smi_rmwr H smi RTL8366S_MIB_CTRL_REG 0 (push_bit (port + 3) 1))"

section \<open>PHY bus, detection, the operations of the chip\<close>

definition rtl8366s_mii_read ::
  "'h platform \<Rightarrow> rtl8366_smi \<Rightarrow> u32 \<Rightarrow> u32 \<Rightarrow> 'h smi_state \<Rightarrow> u32 \<times> 'h smi_state" where
  "rtl8366s_mii_read H smi addr reg s =
    (case rtl8366s_read_phy_reg H smi addr 0 reg s of
       (Inl e, s') \<Rightarrow> (0xFFFF, s') | (Inr v, s') \<Rightarrow> (v, s'))"

definition rtl8366s_mii_write ::
  "'h platform \<Rightarrow> rtl8366_smi \<Rightarrow> u32 \<Rightarrow> u32 \<Rightarrow> u16 \<Rightarrow> ('h smi_state, unit) io" where
  "rtl8366s_mii_write H smi addr reg v s =
    (case rtl8366s_write_phy_reg H smi addr 0 reg (ucast v) s of
       (err, s') \<Rightarrow> (err, snd (rtl8366s_read_phy_reg H smi addr 0 reg s')))"

definition rtl8366s_detect :: "'h platform \<Rightarrow> rtl8366_smi \<Rightarrow> ('h smi_state, unit) io" where
  "rtl8366s_detect H smi =
    bindE (rtl8366_smi_read_reg H smi RTL8366S_CHIP_ID_REG) (\<lambda>chip_id.
    if chip_id = RTL8366S_CHIP_ID_8366
    then bindE (rtl8366_smi_read_reg H smi RTL8366S_CHIP_VERSION_CTRL_REG) (\<lambda>chip_ver. retE ())
    else failE ENODEV)"

definition rtl8366s_smi_ops ::
  "'h platform \<Rightarrow> rtl8366_smi \<Rightarrow> setup_data \<Rightarrow> ('h smi_state) rtl8366_smi_ops" where
  "rtl8366s_smi_ops H smi sd = \<lparr>
    detect = rtl8366s_detect H smi,
    reset_chip = rtl8366s_reset_chip H smi,
    chip_setup = rtl8366s_setup H smi sd,
    mii_read = rtl8366s_mii_read H smi,
    mii_write = rtl8366s_mii_write H smi,
    get_vlan_mc = rtl8366s_get_vlan_mc H smi,
    set_vlan_mc = rtl8366s_set_vlan_mc H smi,
    get_vlan_4k = rtl8366s_get_vlan_4k H smi,
    set_vlan_4k = rtl8366s_set_vlan_4k H smi,
    get_mc_index = rtl8366s_get_mc_index H smi,
    set_mc_index = rtl8366s_set_mc_index H smi,
    get_mib_counter = rtl8366s_get_mib_counter H smi,
    is_vlan_valid = rtl8366s_is_vlan_valid,
    enable_vlan = rtl8366s_enable_vlan H smi,
    enable_vlan4k = rtl8366s_enable_vlan4k H smi,
    enable_port = rtl8366s_enable_port H smi\<rparr>"

definition rtl8366s_sw_get_port_stats ::
  "'h platform \<Rightarrow> rtl8366_smi \<Rightarrow> setup_data \<Rightarrow> nat \<Rightarrow> ('h smi_state, switch_port_stats) io" where
  "rtl8366s_sw_get_port_stats H smi sd port =
    rtl8366_sw_get_port_stats smi (rtl8366s_smi_ops H smi sd) port
      RTL8366S_MIB_TXB_ID RTL8366S_MIB_RXB_ID"

section \<open>Attribute tables\<close>

definition rtl8366s_globals ::
  "'h platform \<Rightarrow> rtl8366_smi \<Rightarrow> setup_data \<Rightarrow> u32 \<Rightarrow> ('h smi_state) switch_attr list" where
  "rtl8366s_globals H smi sd uninit = [
    mk_attr SWITCH_TYPE_INT ''enable_learning'' ''Enable learning, enable aging'' 1 0
      (Some (rtl8366s_sw_set_learning_enable H smi)) (Some (rtl8366s_sw_get_learning_enable H smi uninit)),
    mk_attr SWITCH_TYPE_INT ''enable_vlan'' ''Enable VLAN mode'' 1 1
      (Some (rtl8366_sw_set_vlan_enable (rtl8366s_smi_ops H smi sd))) (Some rtl8366_sw_get_vlan_enable),
    mk_attr SWITCH_TYPE_INT ''enable_vlan4k'' ''Enable VLAN 4K mode'' 1 2
      (Some (rtl8366_sw_set_vlan_enable (rtl8366s_smi_ops H smi sd))) (Some rtl8366_sw_get_vlan_enable),
    mk_attr SWITCH_TYPE_NOVAL ''reset_mibs'' ''Reset all MIB counters'' 0 0
      (Some (rtl8366s_sw_reset_mibs H smi)) None,
    mk_attr SWITCH_TYPE_INT ''blinkrate''
      (''Get/Set LED blinking rate (0 = 43ms, 1 = 84ms,'' @
       '' 2 = 120ms, 3 = 170ms, 4 = 340ms, 5 = 670ms)'') 5 0
      (Some (rtl8366s_sw_set_blinkrate H smi)) (Some (rtl8366s_sw_get_blinkrate H smi uninit)),
    mk_attr SWITCH_TYPE_INT ''max_length''
      (''Get/Set the maximum length of valid packets'' @
       '' (0 = 1522, 1 = 1536, 2 = 1552, 3 = 16000 (9216?))'') 3 0
      (Some (rtl8366s_sw_set_max_length H smi)) (Some (rtl8366s_sw_get_max_length H smi uninit)),
    mk_attr SWITCH_TYPE_INT ''green_mode'' ''Get/Set the router green feature'' 1 0
      (Some (rtl8366s_sw_set_green H smi)) (Some (rtl8366s_sw_get_green H smi))]"

definition rtl8366s_port ::
  "'h platform \<Rightarrow> rtl8366_smi \<Rightarrow> setup_data \<Rightarrow> ('h smi_state) switch_attr list" where
  "rtl8366s_port H smi sd = [
    mk_attr SWITCH_TYPE_NOVAL ''reset_mib'' ''Reset single port MIB counters'' 0 0
      (Some (rtl8366s_sw_reset_port_mibs H smi)) None,
    mk_attr SWITCH_TYPE_STRING ''mib'' ''Get MIB counters for port'' 33 0
      None (Some (\<lambda>_. rtl8366_sw_get_port_mib smi (rtl8366s_smi_ops H smi sd))),
    mk_attr SWITCH_TYPE_INT ''led'' ''Get/Set port group (0 - 3) led mode (0 - 15)'' 15 0
      (Some (rtl8366s_sw_set_port_led H smi)) (Some (rtl8366s_sw_get_port_led H smi)),
    mk_attr SWITCH_TYPE_INT ''green_port'' ''Get/Set port green feature (0 - 1)'' 1 0
      (Some (rtl8366s_sw_set_green_port H smi)) (Some (rtl8366s_sw_get_green_port H smi))]"

definition rtl8366s_vlan ::
  "'h platform \<Rightarrow> rtl8366_smi \<Rightarrow> setup_data \<Rightarrow> ('h smi_state) switch_attr list" where
  "rtl8366s_vlan H smi sd = [
    mk_attr SWITCH_TYPE_STRING ''info'' ''Get vlan information'' 1 0
      None (Some (\<lambda>_. rtl8366_sw_get_vlan_info smi (rtl8366s_smi_ops H smi sd))),
    mk_attr SWITCH_TYPE_INT ''fid'' ''Get/Set vlan FID'' 7 0
      (Some (rtl8366_sw_set_vlan_fid smi (rtl8366s_smi_ops H smi sd)))
      (Some (rtl8366_sw_get_vlan_fid (rtl8366s_smi_ops H smi sd)))]"

definition rtl8366s_ops ::
  "'h platform \<Rightarrow> rtl8366_smi \<Rightarrow> setup_data \<Rightarrow> u32 \<Rightarrow> ('h smi_state) switch_dev_ops" where
  "rtl8366s_ops H smi sd uninit = (let ops = rtl8366s_smi_ops H smi sd in \<lparr>
    attr_global = rtl8366s_globals H smi sd uninit,
    attr_port = rtl8366s_port H smi sd,
    attr_vlan = rtl8366s_vlan H smi sd,
    get_vlan_ports = Some (rtl8366_sw_get_vlan_ports smi ops),
    set_vlan_ports = Some (rtl8366_sw_set_vlan_ports smi ops),
    get_port_pvid = Some (rtl8366_sw_get_port_pvid ops),
    set_port_pvid = Some (rtl8366_sw_set_port_pvid smi ops),
    apply_config = None,
    reset_switch = Some (rtl8366_sw_reset_switch H smi ops),
    get_port_link = Some (rtl8366s_sw_get_port_link H smi),
    set_port_link = None,
    get_port_stats = Some (rtl8366s_sw_get_port_stats H smi sd),
    phy_read16 = None,
    phy_write16 = None\<rparr>)"

text \<open>The fields of \<open>struct rtl8366_smi\<close> that the probe function sets.\<close>

definition rtl8366s_smi :: "rtl8366_smi \<Rightarrow> rtl8366_smi" where
  "rtl8366s_smi smi = smi\<lparr>clk_delay := 10, cmd_read := 0xA9, cmd_write := 0xA8,
     cpu_port := RTL8366S_PORT_NUM_CPU, num_ports := RTL8366S_NUM_PORTS,
     num_vlan_mc := RTL8366S_NUM_VLANS, mib_counters := rtl8366s_mib_counters,
     num_mib_counters := length rtl8366s_mib_counters\<rparr>"

end
