(* ===== verification/Rtl8366s_Chip.thy ===== *)
theory Rtl8366s_Chip
  imports Rtl8366s
begin

text \<open>
  The RTL8366S driver meets the contracts of the VLAN core. The locale \<open>rtl8366s_chip\<close>
  states what the driver relies on in the chip: configuration registers hold what was last
  written to them, and the access control word \<open>0x0E01\<close> fetches, \<open>0x0F01\<close> stores
  the entry of the VLAN table that the write buffer names. The sublocale then discharges
  every law of \<open>vlan_switch\<close> for the operations of \<open>rtl8366s_smi_ops\<close>.
\<close>

section \<open>Table entries as words\<close>

definition rtl8366s_mc_of :: "u16 \<Rightarrow> u16 \<Rightarrow> rtl8366_vlan_mc" where
  "rtl8366s_mc_of w0 w1 = \<lparr>mc_vid = w0 AND 0xFFF, mc_untag = drop_bit 6 w1 AND 0x3F,
     mc_member = w1 AND 0x3F, mc_fid = ucast (drop_bit 12 w1 AND 0x7),
     mc_priority = ucast (drop_bit 12 w0 AND 0x7)\<rparr>"

definition rtl8366s_4k_of :: "u32 \<Rightarrow> u16 \<Rightarrow> rtl8366_vlan_4k" where
  "rtl8366s_4k_of vid w1 = \<lparr>v4k_vid = ucast vid, v4k_untag = drop_bit 6 w1 AND 0x3F,
     v4k_member = w1 AND 0x3F, v4k_fid = ucast (drop_bit 12 w1 AND 0x7)\<rparr>"

lemma pack_members_fields:
  "(ucast (rtl8366s_pack_members m u f) :: u16) AND 0x3F = take_bit 6 m"
  "drop_bit 6 (ucast (rtl8366s_pack_members m u f) :: u16) AND 0x3F = take_bit 6 u"
  "ucast (drop_bit 12 (ucast (rtl8366s_pack_members m u f) :: u16) AND 0x7) = take_bit 3 f"
  unfolding num_masks rtl8366s_pack_members_def
  by (rule bit_word_eqI, auto simp: bit_simps)+

lemma pack_vid_fields:
  "(ucast (rtl8366s_pack_vid v p) :: u16) AND 0xFFF = take_bit 12 v"
  "ucast (drop_bit 12 (ucast (rtl8366s_pack_vid v p) :: u16) AND 0x7) = take_bit 3 p"
  unfolding num_masks rtl8366s_pack_vid_def by (rule bit_word_eqI, auto simp: bit_simps)+

lemma mc_of_pack:
  assumes "mc_fits 0x3F 7 m"
  shows "rtl8366s_mc_of (ucast (rtl8366s_pack_vid (mc_vid m) (mc_priority m)))
      (ucast (rtl8366s_pack_members (mc_member m) (mc_untag m) (mc_fid m))) = m"
  using assms
  by (simp add: rtl8366s_mc_of_def pack_members_fields pack_vid_fields mc_fits_def take_bit_small
      word_le_nat_alt word_less_nat_alt)

lemma v4k_of_pack:
  assumes "v4k_fits 0x3F 7 e"
  shows "rtl8366s_4k_of (ucast (v4k_vid e))
      (ucast (rtl8366s_pack_members (v4k_member e) (v4k_untag e) (v4k_fid e))) = e"
  using assms
  by (simp add: rtl8366s_4k_of_def pack_members_fields v4k_fits_def take_bit_small
      word_le_nat_alt word_less_nat_alt)

lemma and_mask_le: "(w AND 0x3F :: u16) \<le> 0x3F" "(w AND 0xFFF :: u16) < 4096"
  "(ucast (w AND 0x7) :: u8) \<le> 7"
proof -
  have l: "w AND 0xFFF \<le> 0xFFF" "w AND 0x7 \<le> 0x7" by (rule word_and_le1)+
  show "(w AND 0x3F :: u16) \<le> 0x3F" by (rule word_and_le1)
  show "(w AND 0xFFF :: u16) < 4096" using l(1) by (simp add: word_le_nat_alt word_less_nat_alt)
  show "(ucast (w AND 0x7) :: u8) \<le> 7"
    using l(2) by (simp add: word_le_nat_alt unsigned_ucast_eq take_bit_nat_eq_self)
qed

lemma mc_of_fits: "mc_fits 0x3F 7 (rtl8366s_mc_of w0 w1)"
  by (simp add: mc_fits_def rtl8366s_mc_of_def and_mask_le)

section \<open>The registers the driver relies on\<close>

definition rtl8366s_plain :: "u16 \<Rightarrow> bool" where
  "rtl8366s_plain a \<longleftrightarrow> (let n = unat a in
     n \<le> 4 \<or> n = 0xA \<or> (0x16 \<le> n \<and> n \<le> 0x35) \<or> n = 0x58 \<or> n = 0x59 \<or> n = 0x10F
     \<or> n = 0x185 \<or> n = 0x186 \<or> n = 0x379 \<or> (0x420 \<le> n \<and> n \<le> 0x423))"

definition mc_word :: "nat \<Rightarrow> nat \<Rightarrow> u16" where
  "mc_word i w = of_nat (0x16 + 2 * i + w)"

definition idx_word :: "nat \<Rightarrow> u16" where
  "idx_word p = of_nat (0x58 + p div 4)"

lemma mc_base_word:
  "ucast (RTL8366S_VLAN_MC_BASE i) = mc_word i 0" "ucast (RTL8366S_VLAN_MC_BASE i + 1) = mc_word i 1"
proof -
  have b: "RTL8366S_VLAN_MC_BASE i = of_nat (0x16 + 2 * i + 0)"
    "RTL8366S_VLAN_MC_BASE i + 1 = of_nat (0x16 + 2 * i + 1)"
    by (simp_all add: RTL8366S_VLAN_MC_BASE_def)
  show "ucast (RTL8366S_VLAN_MC_BASE i) = mc_word i 0" unfolding b(1) ucast_of_nat_u16 mc_word_def ..
  show "ucast (RTL8366S_VLAN_MC_BASE i + 1) = mc_word i 1"
    unfolding b(2) ucast_of_nat_u16 mc_word_def ..
qed

lemma idx_reg_word: "ucast (RTL8366S_PORT_VLAN_CTRL_REG p) = idx_word p"
proof -
  have "RTL8366S_PORT_VLAN_CTRL_REG p = of_nat (0x58 + p div 4)"
    by (simp add: RTL8366S_PORT_VLAN_CTRL_REG_def)
  then show ?thesis by (simp only: ucast_of_nat_u16 idx_word_def)
qed

lemma unat_mc_word: "i < 16 \<Longrightarrow> w < 2 \<Longrightarrow> unat (mc_word i w) = 0x16 + 2 * i + w"
  unfolding mc_word_def by (rule unat_u16_of_nat) simp

lemma unat_idx_word: "p < 6 \<Longrightarrow> unat (idx_word p) = 0x58 + p div 4"
  unfolding idx_word_def by (rule unat_u16_of_nat) simp

lemma plain_words:
  "i < 16 \<Longrightarrow> w < 2 \<Longrightarrow> rtl8366s_plain (mc_word i w)" "p < 6 \<Longrightarrow> rtl8366s_plain (idx_word p)"
  "rtl8366s_plain 0" "rtl8366s_plain 0x10F" "rtl8366s_plain 0x185" "rtl8366s_plain 0x186"
  by (auto simp: rtl8366s_plain_def unat_mc_word unat_idx_word Let_def)

lemma words_distinct:
  "i < 16 \<Longrightarrow> j < 16 \<Longrightarrow> v < 2 \<Longrightarrow> w < 2 \<Longrightarrow> mc_word i v = mc_word j w \<longleftrightarrow> i = j \<and> v = w"
  "i < 16 \<Longrightarrow> w < 2 \<Longrightarrow> p < 6 \<Longrightarrow> mc_word i w \<noteq> idx_word p"
  "p < 6 \<Longrightarrow> q < 6 \<Longrightarrow> idx_word p = idx_word q \<longleftrightarrow> p div 4 = q div 4"
  "i < 16 \<Longrightarrow> w < 2 \<Longrightarrow> mc_word i w \<noteq> 0" "p < 6 \<Longrightarrow> idx_word p \<noteq> 0"
  "i < 16 \<Longrightarrow> w < 2 \<Longrightarrow> mc_word i w \<noteq> 0x10F" "p < 6 \<Longrightarrow> idx_word p \<noteq> 0x10F"
  "i < 16 \<Longrightarrow> w < 2 \<Longrightarrow> mc_word i w \<noteq> 0x185" "p < 6 \<Longrightarrow> idx_word p \<noteq> 0x185"
  "i < 16 \<Longrightarrow> w < 2 \<Longrightarrow> mc_word i w \<noteq> 0x186" "p < 6 \<Longrightarrow> idx_word p \<noteq> 0x186"
  by (auto simp: word_unat_eq_iff unat_mc_word unat_idx_word) presburger+

lemmas words_neq = words_distinct(2,4,5,6,7,8,9,10,11) [THEN not_sym]

section \<open>The chip\<close>

locale rtl8366s_chip = reg_bus H smi ready chip chip_rd chip_wr
  for H :: "'h platform"
    and smi :: rtl8366_smi
    and ready :: "'h smi_state \<Rightarrow> bool"
    and chip :: "'h smi_state \<Rightarrow> 'c"
    and chip_rd :: "'c \<Rightarrow> u16 \<Rightarrow> u16"
    and chip_wr :: "'c \<Rightarrow> u16 \<Rightarrow> u16 \<Rightarrow> 'c" +
  fixes vtable :: "'c \<Rightarrow> u16 \<Rightarrow> u16"
    and sd :: setup_data
  assumes ports: "num_ports smi = RTL8366S_NUM_PORTS"
    and vlan_mcs: "num_vlan_mc smi = RTL8366S_NUM_VLANS"
    and holds: "rtl8366s_plain a \<Longrightarrow> rtl8366s_plain b \<Longrightarrow>
      chip_rd (chip_wr c a v) b = (if b = a then v else chip_rd c b)"
    and holds_table: "rtl8366s_plain a \<Longrightarrow> vtable (chip_wr c a v) = vtable c"
    and fetch: "chip_rd (chip_wr c 0x180 0xE01) 0x18C = vtable c (chip_rd c 0x185)"
      "rtl8366s_plain a \<Longrightarrow> chip_rd (chip_wr c 0x180 0xE01) a = chip_rd c a"
      "vtable (chip_wr c 0x180 0xE01) = vtable c"
    and store: "rtl8366s_plain a \<Longrightarrow> chip_rd (chip_wr c 0x180 0xF01) a = chip_rd c a"
      "vtable (chip_wr c 0x180 0xF01) = (vtable c)(chip_rd c 0x185 := chip_rd c 0x186)"
begin

definition chip_view :: "'c \<Rightarrow> vlan_view" where
  "chip_view c = \<lparr>
     mcs = (\<lambda>i. if i < 16 then rtl8366s_mc_of (chip_rd c (mc_word i 0)) (chip_rd c (mc_word i 1))
                else zero_mc),
     v4ks = (\<lambda>vid. if vid < 4096 then rtl8366s_4k_of vid (vtable c (ucast vid)) else zero_4k),
     pidxs = (\<lambda>p. if p < 6 then unat (drop_bit (4 * (p mod 4)) (chip_rd c (idx_word p)) AND 0xF)
                 else 0)\<rparr>"

definition chip_modes :: "'c \<Rightarrow> bool \<times> bool" where
  "chip_modes c = (bit (chip_rd c 0) 13, bit (chip_rd c 0x10F) 0)"

lemmas chip_laws = holds holds_table fetch store plain_words words_distinct words_neq

text \<open>The effect of each operation on the chip, then on the view.\<close>

lemma get_vlan_mc_chip:
  assumes "ready s"
  shows "fst (rtl8366s_get_vlan_mc H smi i s) =
      (if i < 16 then Inr (mcs (chip_view (chip s)) i) else Inl EINVAL)"
    "chip (snd (rtl8366s_get_vlan_mc H smi i s)) = chip s"
    "ready (snd (rtl8366s_get_vlan_mc H smi i s))"
  using assms
  by (auto simp: rtl8366s_get_vlan_mc_def fst_bindE snd_bindE bus_simps mc_base_word chip_view_def
      rtl8366s_mc_of_def ucast_drop_and ucast_drop_and_u8 ucast_and_u16)

lemma set_vlan_mc_chip:
  assumes "ready s"
  shows "rtl8366s_set_vlan_mc H smi i m s =
      (if i < 16 \<and> mc_fits 0x3F 7 m
       then (Inr (), snd (rtl8366s_set_vlan_mc H smi i m s)) else (Inl EINVAL, s))"
    "i < 16 \<Longrightarrow> mc_fits 0x3F 7 m \<Longrightarrow> chip (snd (rtl8366s_set_vlan_mc H smi i m s)) =
      chip_wr (chip_wr (chip s) (mc_word i 0) (ucast (rtl8366s_pack_vid (mc_vid m) (mc_priority m))))
        (mc_word i 1) (ucast (rtl8366s_pack_members (mc_member m) (mc_untag m) (mc_fid m)))"
    "ready (snd (rtl8366s_set_vlan_mc H smi i m s))"
  using assms
  by (auto simp: rtl8366s_set_vlan_mc_def fst_bindE snd_bindE bus_simps mc_base_word mc_fits_def
      word_le_nat_alt word_less_nat_alt Let_def failE_def intro!: prod_eqI)

lemma set_vlan_mc_view:
  assumes "ready s"
  shows "chip_view (chip (snd (rtl8366s_set_vlan_mc H smi i m s))) =
      (if i < 16 \<and> mc_fits 0x3F 7 m
       then (chip_view (chip s))\<lparr>mcs := (mcs (chip_view (chip s)))(i := m)\<rparr>
       else chip_view (chip s))"
    "chip_modes (chip (snd (rtl8366s_set_vlan_mc H smi i m s))) = chip_modes (chip s)"
proof -
  show "chip_view (chip (snd (rtl8366s_set_vlan_mc H smi i m s))) =
      (if i < 16 \<and> mc_fits 0x3F 7 m
       then (chip_view (chip s))\<lparr>mcs := (mcs (chip_view (chip s)))(i := m)\<rparr>
       else chip_view (chip s))"
  proof (cases "i < 16 \<and> mc_fits 0x3F 7 m")
    case True
    then show ?thesis
      using assms
      by (auto simp: set_vlan_mc_chip(2) chip_view_def chip_laws mc_of_pack fun_eq_iff
          intro!: vlan_view.equality)
  next
    case False
    then have "snd (rtl8366s_set_vlan_mc H smi i m s) = s"
      using set_vlan_mc_chip(1) [OF assms, of i m] by (metis snd_conv)
    then show ?thesis using False by auto
  qed
  show "chip_modes (chip (snd (rtl8366s_set_vlan_mc H smi i m s))) = chip_modes (chip s)"
  proof (cases "i < 16 \<and> mc_fits 0x3F 7 m")
    case True
    then show ?thesis
      using assms
      by (auto simp: set_vlan_mc_chip(2) chip_modes_def chip_laws)
  next
    case False
    then have "snd (rtl8366s_set_vlan_mc H smi i m s) = s"
      using set_vlan_mc_chip(1) [OF assms, of i m] by (metis snd_conv)
    then show ?thesis by simp
  qed
qed

lemma get_vlan_4k_chip:
  assumes "ready s"
  shows "fst (rtl8366s_get_vlan_4k H smi vid s) =
      (if vid < 4096 then Inr (v4ks (chip_view (chip s)) vid) else Inl EINVAL)"
    "chip_view (chip (snd (rtl8366s_get_vlan_4k H smi vid s))) = chip_view (chip s)"
    "chip_modes (chip (snd (rtl8366s_get_vlan_4k H smi vid s))) = chip_modes (chip s)"
    "ready (snd (rtl8366s_get_vlan_4k H smi vid s))"
proof -
  let ?v = "ucast (vid AND 0xFFF) :: u16"
  have v: "vid < 4096 \<Longrightarrow> ?v = ucast vid"
    by (simp add: num_masks take_bit_eq_mask [symmetric] take_bit_small word_less_nat_alt)
  have f: "\<not> vid < 4096 \<Longrightarrow> rtl8366s_get_vlan_4k H smi vid s = (Inl EINVAL, s)"
    by (simp add: rtl8366s_get_vlan_4k_def failE_def not_less)
  note run = rtl8366s_get_vlan_4k_def fst_bindE snd_bindE bus_simps chip_laws v
  show "fst (rtl8366s_get_vlan_4k H smi vid s) =
      (if vid < 4096 then Inr (v4ks (chip_view (chip s)) vid) else Inl EINVAL)"
    using assms f
    by (cases "vid < 4096")
      (simp_all add: run chip_view_def rtl8366s_4k_of_def ucast_drop_and ucast_drop_and_u8 ucast_and_u16)
  show "chip_view (chip (snd (rtl8366s_get_vlan_4k H smi vid s))) = chip_view (chip s)"
    using assms f
    by (cases "vid < 4096")
      (simp_all add: run chip_view_def cong: if_cong)
  show "chip_modes (chip (snd (rtl8366s_get_vlan_4k H smi vid s))) = chip_modes (chip s)"
    using assms f by (cases "vid < 4096") (simp_all add: run chip_modes_def)
  show "ready (snd (rtl8366s_get_vlan_4k H smi vid s))"
    using assms f by (cases "vid < 4096") (simp_all add: run)
qed

lemma set_vlan_4k_chip:
  assumes "ready s"
  shows "fst (rtl8366s_set_vlan_4k H smi e s) = (if v4k_fits 0x3F 7 e then Inr () else Inl EINVAL)"
    "chip_view (chip (snd (rtl8366s_set_vlan_4k H smi e s))) =
      (if v4k_fits 0x3F 7 e
       then (chip_view (chip s))\<lparr>v4ks := (v4ks (chip_view (chip s)))(ucast (v4k_vid e) := e)\<rparr>
       else chip_view (chip s))"
    "chip_modes (chip (snd (rtl8366s_set_vlan_4k H smi e s))) = chip_modes (chip s)"
    "ready (snd (rtl8366s_set_vlan_4k H smi e s))"
proof -
  have fits: "\<not> v4k_fits 0x3F 7 e \<longleftrightarrow> ucast (v4k_vid e) \<ge> (4096 :: u32) \<or>
      ucast (v4k_member e) > (0x3F :: u32) \<or> ucast (v4k_untag e) > (0x3F :: u32) \<or>
      ucast (v4k_fid e) > (7 :: u32)"
    by (auto simp: v4k_fits_def word_le_nat_alt word_less_nat_alt)
  have f: "\<not> v4k_fits 0x3F 7 e \<Longrightarrow> rtl8366s_set_vlan_4k H smi e s = (Inl EINVAL, s)"
    by (simp only: fits rtl8366s_set_vlan_4k_def if_True failE_def)
  have run: "rtl8366s_set_vlan_4k H smi e =
      bindE (rtl8366_smi_write_reg H smi 0x185 (ucast (v4k_vid e) AND 0xFFF)) (\<lambda>_.
      bindE (rtl8366_smi_write_reg H smi (0x185 + 1)
        (rtl8366s_pack_members (v4k_member e) (v4k_untag e) (v4k_fid e))) (\<lambda>_.
      rtl8366_smi_write_reg H smi 0x180 0xF01))" if "v4k_fits 0x3F 7 e"
    using that fits by (simp only: rtl8366s_set_vlan_4k_def if_False Let_def) simp
  have v: "v4k_fits 0x3F 7 e \<Longrightarrow> (ucast ((ucast (v4k_vid e) :: u32) AND 0xFFF) :: u16) = v4k_vid e"
    by (simp add: ucast_and_u16 num_masks take_bit_eq_mask [symmetric] take_bit_small v4k_fits_def
        word_less_nat_alt)
  have v4: "v4k_fits 0x3F 7 e \<Longrightarrow> (ucast (v4k_vid e) :: u32) < 4096"
    by (simp add: v4k_fits_def word_less_nat_alt)
  have eq: "ucast w = v4k_vid e \<longleftrightarrow> w = ucast (v4k_vid e)" if "w < 4096" for w :: u32
    using less_4096_ucast [OF that] by auto
  note exec = fst_bindE snd_bindE bus_simps chip_laws
  show "fst (rtl8366s_set_vlan_4k H smi e s) = (if v4k_fits 0x3F 7 e then Inr () else Inl EINVAL)"
    using assms f by (cases "v4k_fits 0x3F 7 e") (simp_all add: run exec)
  show "ready (snd (rtl8366s_set_vlan_4k H smi e s))"
    using assms f by (cases "v4k_fits 0x3F 7 e") (simp_all add: run exec)
  show "chip_modes (chip (snd (rtl8366s_set_vlan_4k H smi e s))) = chip_modes (chip s)"
    using assms f by (cases "v4k_fits 0x3F 7 e") (simp_all add: run exec chip_modes_def)
  show "chip_view (chip (snd (rtl8366s_set_vlan_4k H smi e s))) =
      (if v4k_fits 0x3F 7 e
       then (chip_view (chip s))\<lparr>v4ks := (v4ks (chip_view (chip s)))(ucast (v4k_vid e) := e)\<rparr>
       else chip_view (chip s))"
    using assms f v4k_of_pack [of e]
    by (cases "v4k_fits 0x3F 7 e")
      (auto simp: run exec v v4 eq chip_view_def fun_eq_iff intro!: vlan_view.equality)
qed

lemma get_mc_index_chip:
  assumes "ready s"
  shows "fst (rtl8366s_get_mc_index H smi p s) =
      (if p < 6 then Inr (pidxs (chip_view (chip s)) p) else Inl EINVAL)"
    "chip (snd (rtl8366s_get_mc_index H smi p s)) = chip s"
    "ready (snd (rtl8366s_get_mc_index H smi p s))"
  using assms
  by (auto simp: rtl8366s_get_mc_index_def fst_bindE snd_bindE bus_simps idx_reg_word chip_view_def
      unat_drop_and RTL8366S_PORT_VLAN_CTRL_SHIFT_def)

lemma set_mc_index_chip:
  assumes "ready s"
  shows "fst (rtl8366s_set_mc_index H smi p i s) = (if p < 6 \<and> i < 16 then Inr () else Inl EINVAL)"
    "chip_view (chip (snd (rtl8366s_set_mc_index H smi p i s))) =
      (if p < 6 \<and> i < 16
       then (chip_view (chip s))\<lparr>pidxs := (pidxs (chip_view (chip s)))(p := i)\<rparr>
       else chip_view (chip s))"
    "chip_modes (chip (snd (rtl8366s_set_mc_index H smi p i s))) = chip_modes (chip s)"
    "ready (snd (rtl8366s_set_mc_index H smi p i s))"
proof -
  let ?old = "chip_rd (chip s) (idx_word p)"
  define new where "new = (?old AND NOT (push_bit (4 * (p mod 4)) 0xF)) OR
    push_bit (4 * (p mod 4)) (of_nat i AND 0xF)"
  have c: "p < 6 \<Longrightarrow> i < 16 \<Longrightarrow>
      chip (snd (rtl8366s_set_mc_index H smi p i s)) = chip_wr (chip s) (idx_word p) new"
    using assms
    by (simp add: rtl8366s_set_mc_index_def rmwr_simps idx_reg_word ucast_nibble
        RTL8366S_PORT_VLAN_CTRL_SHIFT_def new_def del: push_bit_and)
  have f: "\<not> (p < 6 \<and> i < 16) \<Longrightarrow> snd (rtl8366s_set_mc_index H smi p i s) = s"
    by (auto simp: rtl8366s_set_mc_index_def)
  have n: "unat (drop_bit (4 * (q mod 4)) new AND 0xF) =
      (if q mod 4 = p mod 4 then i else unat (drop_bit (4 * (q mod 4)) ?old AND 0xF))" if "i < 16" for q
  proof -
    have "(of_nat i AND 0xF :: u16) = of_nat i"
      unfolding num_masks take_bit_eq_mask [symmetric]
      using that by (intro take_bit_small) (simp add: unat_u16_of_nat)
    then show ?thesis
      using that unfolding new_def by (subst nibble_rmw) (simp_all add: unat_u16_of_nat)
  qed
  have pq: "pidxs (chip_view (chip_wr (chip s) (idx_word p) new)) q =
      (if q = p then i else pidxs (chip_view (chip s)) q)" if "p < 6" "i < 16" for q
  proof (cases "q < 6 \<and> q div 4 = p div 4")
    case True
    then have w: "idx_word q = idx_word p" and m: "q mod 4 = p mod 4 \<longleftrightarrow> q = p"
      using that by (simp add: words_distinct, metis div_mod_decomp)
    show ?thesis using True that by (simp add: chip_view_def w holds plain_words n m)
  next
    case False
    then show ?thesis using that by (auto simp: chip_view_def chip_laws)
  qed
  show "fst (rtl8366s_set_mc_index H smi p i s) = (if p < 6 \<and> i < 16 then Inr () else Inl EINVAL)"
    using assms by (auto simp: rtl8366s_set_mc_index_def rmwr_simps)
  show "chip_modes (chip (snd (rtl8366s_set_mc_index H smi p i s))) = chip_modes (chip s)"
    using assms f by (cases "p < 6 \<and> i < 16") (auto simp: c chip_modes_def chip_laws)
  show "ready (snd (rtl8366s_set_mc_index H smi p i s))"
    using assms by (simp add: rtl8366s_set_mc_index_def rmwr_simps)
  show "chip_view (chip (snd (rtl8366s_set_mc_index H smi p i s))) =
      (if p < 6 \<and> i < 16
       then (chip_view (chip s))\<lparr>pidxs := (pidxs (chip_view (chip s)))(p := i)\<rparr>
       else chip_view (chip s))"
  proof (cases "p < 6 \<and> i < 16")
    case True
    moreover have "mcs (chip_view (chip_wr (chip s) (idx_word p) new)) = mcs (chip_view (chip s))"
      "v4ks (chip_view (chip_wr (chip s) (idx_word p) new)) = v4ks (chip_view (chip s))"
      using True by (auto simp: chip_view_def chip_laws fun_eq_iff)
    ultimately show ?thesis
      by (auto simp: c pq fun_eq_iff intro!: vlan_view.equality)
  qed (use f in auto)
qed

lemma bit_en:
  "bit ((r AND NOT 0x2000) OR (if b then 0x2000 else 0) :: u16) 13 \<longleftrightarrow> b"
  "bit ((r AND NOT 1) OR (if b then 1 else 0) :: u16) 0 \<longleftrightarrow> b"
  by (simp_all add: bit_simps)

lemma enable_chip:
  assumes "ready s"
  shows "fst (rtl8366s_enable_vlan H smi b s) = Inr ()"
    "chip_view (chip (snd (rtl8366s_enable_vlan H smi b s))) = chip_view (chip s)"
    "ready (snd (rtl8366s_enable_vlan H smi b s))"
    "chip_modes (chip (snd (rtl8366s_enable_vlan H smi b s))) = (b, snd (chip_modes (chip s)))"
    "fst (rtl8366s_enable_vlan4k H smi b s) = Inr ()"
    "chip_view (chip (snd (rtl8366s_enable_vlan4k H smi b s))) = chip_view (chip s)"
    "ready (snd (rtl8366s_enable_vlan4k H smi b s))"
    "chip_modes (chip (snd (rtl8366s_enable_vlan4k H smi b s))) = (fst (chip_modes (chip s)), b)"
  using assms bit_en [of _ b]
  by (auto simp: rtl8366s_enable_vlan_def rtl8366s_enable_vlan4k_def rmwr_simps chip_view_def
      chip_modes_def chip_laws fun_eq_iff split: if_splits intro!: vlan_view.equality)

lemma table_modes_chip:
  assumes "ready s"
  shows "chip_view (chip (snd (rtl8366s_get_vlan_mc H smi i s))) = chip_view (chip s)"
    "chip_modes (chip (snd (rtl8366s_get_vlan_mc H smi i s))) = chip_modes (chip s)"
    "chip_view (chip (snd (rtl8366s_get_mc_index H smi p s))) = chip_view (chip s)"
    "chip_modes (chip (snd (rtl8366s_get_mc_index H smi p s))) = chip_modes (chip s)"
  using assms by (simp_all add: get_vlan_mc_chip get_mc_index_chip)

lemma set_vlan_mc_result:
  "ready s \<Longrightarrow> fst (rtl8366s_set_vlan_mc H smi i m s) =
    (if i < 16 \<and> mc_fits 0x3F 7 m then Inr () else Inl EINVAL)"
  using set_vlan_mc_chip(1) [of s i m] by (metis fst_conv)

lemma tables_ok_chip: "tables_ok 16 6 0x3F 7 (chip_view c)"
proof -
  have "v4k_fits 0x3F 7 (rtl8366s_4k_of vid w)" if "vid < 4096" for vid w
    using ucast_less_4096 [OF that] by (simp add: v4k_fits_def rtl8366s_4k_of_def and_mask_le)
  then show ?thesis
    by (auto simp: tables_ok_def chip_view_def mc_of_fits unat_and_nibble)
      (simp add: rtl8366s_4k_of_def)
qed

end

lemma rtl8366s_flags [silent_intros]:
  "silent flags (rtl8366s_get_vlan_mc H smi i)" "silent flags (rtl8366s_set_vlan_mc H smi i m)"
  "silent flags (rtl8366s_get_vlan_4k H smi vid)" "silent flags (rtl8366s_set_vlan_4k H smi e)"
  "silent flags (rtl8366s_get_mc_index H smi p)" "silent flags (rtl8366s_set_mc_index H smi p i)"
  "silent flags (rtl8366s_enable_vlan H smi b)" "silent flags (rtl8366s_enable_vlan4k H smi b)"
  unfolding rtl8366s_get_vlan_mc_def rtl8366s_set_vlan_mc_def rtl8366s_get_vlan_4k_def
    rtl8366s_set_vlan_4k_def rtl8366s_get_mc_index_def rtl8366s_set_mc_index_def
    rtl8366s_enable_vlan_def rtl8366s_enable_vlan4k_def Let_def
  by (intro silent_intros)+

lemma rtl8366s_valid:
  "rtl8366s_is_vlan_valid vid s \<Longrightarrow> vid \<noteq> 0 \<and> vid < 4096"
  "flags s = flags t \<Longrightarrow> rtl8366s_is_vlan_valid vid s \<longleftrightarrow> rtl8366s_is_vlan_valid vid t"
  by (auto simp: rtl8366s_is_vlan_valid_def flags_def word_le_nat_alt word_less_nat_alt split: if_splits)

sublocale rtl8366s_chip \<subseteq> sw: vlan_switch smi "rtl8366s_smi_ops H smi sd" ready
    "\<lambda>s. chip_view (chip s)" "0x3F" 7 True "\<lambda>s. chip_modes (chip s)" True
  by unfold_locales
    (simp_all add: rtl8366s_smi_ops_def ports vlan_mcs tables_ok_chip get_vlan_mc_chip(1,3)
      table_modes_chip set_vlan_mc_result set_vlan_mc_view set_vlan_mc_chip(3) get_vlan_4k_chip
      set_vlan_4k_chip get_mc_index_chip(1,3) set_mc_index_chip enable_chip rtl8366s_flags
      rtl8366s_flags [THEN silentD] flag_ready flag_chip rtl8366s_valid(1),
     metis rtl8366s_valid(2))

context rtl8366s_chip
begin

lemma sw_vlan_switch:
  "vlan_switch smi (rtl8366s_smi_ops H smi sd) ready (\<lambda>s. chip_view (chip s)) 0x3F 7 True
    (\<lambda>s. chip_modes (chip s)) True"
  by (rule sw.vlan_switch_axioms)

end

end
