(* ===== verification/Rtl8366rb_Chip.thy ===== *)
theory Rtl8366rb_Chip
  imports Rtl8366rb
begin

text \<open>
  The RTL8366RB driver meets the contracts of the VLAN core. Beside the plain registers, the
  locale \<open>rtl8366rb_chip\<close> states that the access control word \<open>0x0E01\<close> fetches and
  \<open>0x0F01\<close> stores the two words of the VLAN entry that the write buffer names.
\<close>

section \<open>Table entries as words\<close>

definition rtl8366rb_mc_of :: "u16 \<Rightarrow> u16 \<Rightarrow> u16 \<Rightarrow> rtl8366_vlan_mc" where
  "rtl8366rb_mc_of w0 w1 w2 = \<lparr>mc_vid = w0 AND 0xFFF, mc_untag = drop_bit 8 w1 AND 0xFF,
     mc_member = w1 AND 0xFF, mc_fid = ucast (w2 AND 0x7),
     mc_priority = ucast (drop_bit 12 w0 AND 0x7)\<rparr>"

definition rtl8366rb_4k_of :: "u32 \<Rightarrow> u16 \<times> u16 \<Rightarrow> rtl8366_vlan_4k" where
  "rtl8366rb_4k_of vid w = \<lparr>v4k_vid = ucast vid, v4k_untag = drop_bit 8 (fst w) AND 0xFF,
     v4k_member = fst w AND 0xFF, v4k_fid = ucast (snd w AND 0x7)\<rparr>"

lemma rb_pack_members_fields:
  "(ucast (rtl8366rb_pack_members m u) :: u16) AND 0xFF = take_bit 8 m"
  "drop_bit 8 (ucast (rtl8366rb_pack_members m u) :: u16) AND 0xFF = take_bit 8 u"
  "(ucast ((ucast (ucast (f :: u8) AND (0x7 :: u32)) :: u16) AND 0x7) :: u8) = take_bit 3 f"
  unfolding num_masks rtl8366rb_pack_members_def
  by (rule bit_word_eqI, auto simp: bit_simps)+

lemma rb_pack_vid_fields:
  "(ucast (rtl8366rb_pack_vid v p) :: u16) AND 0xFFF = take_bit 12 v"
  "ucast (drop_bit 12 (ucast (rtl8366rb_pack_vid v p) :: u16) AND 0x7) = take_bit 3 p"
  unfolding num_masks rtl8366rb_pack_vid_def by (rule bit_word_eqI, auto simp: bit_simps)+

lemma rb_mc_of_pack:
  assumes "mc_fits 0xFF 7 m"
  shows "rtl8366rb_mc_of (ucast (rtl8366rb_pack_vid (mc_vid m) (mc_priority m)))
      (ucast (rtl8366rb_pack_members (mc_member m) (mc_untag m)))
      (ucast (ucast (mc_fid m) AND (0x7 :: u32))) = m"
  using assms
  by (simp add: rtl8366rb_mc_of_def rb_pack_members_fields rb_pack_vid_fields mc_fits_def take_bit_small
      word_le_nat_alt word_less_nat_alt)

lemma rb_v4k_of_pack:
  assumes "v4k_fits 0xFF 7 e"
  shows "rtl8366rb_4k_of (ucast (v4k_vid e))
      (ucast (rtl8366rb_pack_members (v4k_member e) (v4k_untag e)),
       ucast (ucast (v4k_fid e) AND (0x7 :: u32))) = e"
  using assms
  by (simp add: rtl8366rb_4k_of_def rb_pack_members_fields v4k_fits_def take_bit_small
      word_le_nat_alt word_less_nat_alt)

lemma rb_and_mask_le: "(w AND 0xFF :: u16) \<le> 0xFF" "(w AND 0xFFF :: u16) < 4096"
  "(ucast (w AND 0x7) :: u8) \<le> 7"
proof -
  have l: "w AND 0xFFF \<le> 0xFFF" "w AND 0x7 \<le> 0x7" by (rule word_and_le1)+
  show "(w AND 0xFF :: u16) \<le> 0xFF" by (rule word_and_le1)
  show "(w AND 0xFFF :: u16) < 4096" using l(1) by (simp add: word_le_nat_alt word_less_nat_alt)
  show "(ucast (w AND 0x7) :: u8) \<le> 7"
    using l(2) by (simp add: word_le_nat_alt unsigned_ucast_eq take_bit_nat_eq_self)
qed

lemma rb_mc_of_fits: "mc_fits 0xFF 7 (rtl8366rb_mc_of w0 w1 w2)"
  by (simp add: mc_fits_def rtl8366rb_mc_of_def rb_and_mask_le)

section \<open>The registers the driver relies on\<close>

definition rtl8366rb_plain :: "u16 \<Rightarrow> bool" where
  "rtl8366rb_plain a \<longleftrightarrow> (let n = unat a in
     n \<le> 4 \<or> n = 7 \<or> (0x20 \<le> n \<and> n \<le> 0x4F) \<or> n = 0x63 \<or> n = 0x64
     \<or> n = 0x185 \<or> n = 0x186 \<or> n = 0x187 \<or> (0x200 \<le> n \<and> n \<le> 0x205)
     \<or> (0x2D1 \<le> n \<and> n \<le> 0x2D6) \<or> n = 0x2F8 \<or> n = 0x37F \<or> (0x430 \<le> n \<and> n \<le> 0x433))"

definition rb_mc_word :: "nat \<Rightarrow> nat \<Rightarrow> u16" where
  "rb_mc_word i w = of_nat (0x20 + 3 * i + w)"

definition rb_idx_word :: "nat \<Rightarrow> u16" where
  "rb_idx_word p = of_nat (0x63 + p div 4)"

lemma rb_mc_base_word:
  "ucast (RTL8366RB_VLAN_MC_BASE i) = rb_mc_word i 0" "ucast (RTL8366RB_VLAN_MC_BASE i + 1) = rb_mc_word i 1"
  "ucast (RTL8366RB_VLAN_MC_BASE i + 2) = rb_mc_word i 2"
proof -
  have b: "RTL8366RB_VLAN_MC_BASE i = of_nat (0x20 + 3 * i + 0)"
    "RTL8366RB_VLAN_MC_BASE i + 1 = of_nat (0x20 + 3 * i + 1)"
    "RTL8366RB_VLAN_MC_BASE i + 2 = of_nat (0x20 + 3 * i + 2)"
    by (simp_all add: RTL8366RB_VLAN_MC_BASE_def)
  show "ucast (RTL8366RB_VLAN_MC_BASE i) = rb_mc_word i 0" unfolding b(1) ucast_of_nat_u16 rb_mc_word_def ..
  show "ucast (RTL8366RB_VLAN_MC_BASE i + 1) = rb_mc_word i 1"
    unfolding b(2) ucast_of_nat_u16 rb_mc_word_def ..
  show "ucast (RTL8366RB_VLAN_MC_BASE i + 2) = rb_mc_word i 2"
    unfolding b(3) ucast_of_nat_u16 rb_mc_word_def ..
qed

lemma rb_idx_reg_word: "ucast (RTL8366RB_PORT_VLAN_CTRL_REG p) = rb_idx_word p"
proof -
  have "RTL8366RB_PORT_VLAN_CTRL_REG p = of_nat (0x63 + p div 4)"
    by (simp add: RTL8366RB_PORT_VLAN_CTRL_REG_def)
  then show ?thesis by (simp only: ucast_of_nat_u16 rb_idx_word_def)
qed

lemma rb_unat_mc_word: "i < 16 \<Longrightarrow> w < 3 \<Longrightarrow> unat (rb_mc_word i w) = 0x20 + 3 * i + w"
  unfolding rb_mc_word_def by (rule unat_u16_of_nat) simp

lemma rb_unat_idx_word: "p < 6 \<Longrightarrow> unat (rb_idx_word p) = 0x63 + p div 4"
  unfolding rb_idx_word_def by (rule unat_u16_of_nat) simp

lemma rb_plain_words:
  "i < 16 \<Longrightarrow> w < 3 \<Longrightarrow> rtl8366rb_plain (rb_mc_word i w)" "p < 6 \<Longrightarrow> rtl8366rb_plain (rb_idx_word p)"
  "rtl8366rb_plain 0" "rtl8366rb_plain 0x187" "rtl8366rb_plain 0x185" "rtl8366rb_plain 0x186"
  by (auto simp: rtl8366rb_plain_def rb_unat_mc_word rb_unat_idx_word Let_def)

lemma rb_words_distinct:
  "i < 16 \<Longrightarrow> j < 16 \<Longrightarrow> v < 3 \<Longrightarrow> w < 3 \<Longrightarrow> rb_mc_word i v = rb_mc_word j w \<longleftrightarrow> i = j \<and> v = w"
  "i < 16 \<Longrightarrow> w < 3 \<Longrightarrow> p < 6 \<Longrightarrow> rb_mc_word i w \<noteq> rb_idx_word p"
  "p < 6 \<Longrightarrow> q < 6 \<Longrightarrow> rb_idx_word p = rb_idx_word q \<longleftrightarrow> p div 4 = q div 4"
  "i < 16 \<Longrightarrow> w < 3 \<Longrightarrow> rb_mc_word i w \<noteq> 0" "p < 6 \<Longrightarrow> rb_idx_word p \<noteq> 0"
  "i < 16 \<Longrightarrow> w < 3 \<Longrightarrow> rb_mc_word i w \<noteq> 0x187" "p < 6 \<Longrightarrow> rb_idx_word p \<noteq> 0x187"
  "i < 16 \<Longrightarrow> w < 3 \<Longrightarrow> rb_mc_word i w \<noteq> 0x185" "p < 6 \<Longrightarrow> rb_idx_word p \<noteq> 0x185"
  "i < 16 \<Longrightarrow> w < 3 \<Longrightarrow> rb_mc_word i w \<noteq> 0x186" "p < 6 \<Longrightarrow> rb_idx_word p \<noteq> 0x186"
  by (auto simp: word_unat_eq_iff rb_unat_mc_word rb_unat_idx_word) presburger+

lemmas rb_words_neq = rb_words_distinct(2,4,5,6,7,8,9,10,11) [THEN not_sym]

section \<open>The chip\<close>

locale rtl8366rb_chip = reg_bus H smi ready chip chip_rd chip_wr
  for H :: "'h platform"
    and smi :: rtl8366_smi
    and ready :: "'h smi_state \<Rightarrow> bool"
    and chip :: "'h smi_state \<Rightarrow> 'c"
    and chip_rd :: "'c \<Rightarrow> u16 \<Rightarrow> u16"
    and chip_wr :: "'c \<Rightarrow> u16 \<Rightarrow> u16 \<Rightarrow> 'c" +
  fixes vtable :: "'c \<Rightarrow> u16 \<Rightarrow> u16 \<times> u16"
    and sd :: setup_data
  assumes ports: "num_ports smi = RTL8366RB_NUM_PORTS"
    and vlan_mcs: "num_vlan_mc smi = RTL8366RB_NUM_VLANS"
    and holds: "rtl8366rb_plain a \<Longrightarrow> rtl8366rb_plain b \<Longrightarrow>
      chip_rd (chip_wr c a v) b = (if b = a then v else chip_rd c b)"
    and holds_table: "rtl8366rb_plain a \<Longrightarrow> vtable (chip_wr c a v) = vtable c"
    and fetch: "chip_rd (chip_wr c 0x180 0xE01) 0x18D = fst (vtable c (chip_rd c 0x185))"
      "chip_rd (chip_wr c 0x180 0xE01) 0x18E = snd (vtable c (chip_rd c 0x185))"
      "rtl8366rb_plain a \<Longrightarrow> chip_rd (chip_wr c 0x180 0xE01) a = chip_rd c a"
      "vtable (chip_wr c 0x180 0xE01) = vtable c"
    and store: "rtl8366rb_plain a \<Longrightarrow> chip_rd (chip_wr c 0x180 0xF01) a = chip_rd c a"
      "vtable (chip_wr c 0x180 0xF01) = (vtable c)(chip_rd c 0x185 := (chip_rd c 0x186, chip_rd c 0x187))"
begin

definition chip_view :: "'c \<Rightarrow> vlan_view" where
  "chip_view c = \<lparr>
     mcs = (\<lambda>i. if i < 16 then rtl8366rb_mc_of (chip_rd c (rb_mc_word i 0)) (chip_rd c (rb_mc_word i 1))
                  (chip_rd c (rb_mc_word i 2))
                else zero_mc),
     v4ks = (\<lambda>vid. if vid < 4096 then rtl8366rb_4k_of vid (vtable c (ucast vid)) else zero_4k),
     pidxs = (\<lambda>p. if p < 6 then unat (drop_bit (4 * (p mod 4)) (chip_rd c (rb_idx_word p)) AND 0xF)
                 else 0)\<rparr>"

definition chip_modes :: "'c \<Rightarrow> bool \<times> bool" where
  "chip_modes c = (bit (chip_rd c 0) 13, bit (chip_rd c 0) 14)"

lemmas chip_laws = holds holds_table fetch store rb_plain_words rb_words_distinct rb_words_neq

text \<open>The effect of each operation on the chip, then on the view.\<close>

lemma get_vlan_mc_chip:
  assumes "ready s"
  shows "fst (rtl8366rb_get_vlan_mc H smi i s) =
      (if i < 16 then Inr (mcs (chip_view (chip s)) i) else Inl EINVAL)"
    "chip (snd (rtl8366rb_get_vlan_mc H smi i s)) = chip s"
    "ready (snd (rtl8366rb_get_vlan_mc H smi i s))"
  using assms
  by (auto simp: rtl8366rb_get_vlan_mc_def fst_bindE snd_bindE bus_simps rb_mc_base_word chip_view_def
      rtl8366rb_mc_of_def ucast_drop_and ucast_drop_and_u8 ucast_and_u16 ucast_and_u8)

lemma set_vlan_mc_chip:
  assumes "ready s"
  shows "rtl8366rb_set_vlan_mc H smi i m s =
      (if i < 16 \<and> mc_fits 0xFF 7 m
       then (Inr (), snd (rtl8366rb_set_vlan_mc H smi i m s)) else (Inl EINVAL, s))"
    "i < 16 \<Longrightarrow> mc_fits 0xFF 7 m \<Longrightarrow> chip (snd (rtl8366rb_set_vlan_mc H smi i m s)) =
      chip_wr (chip_wr (chip_wr (chip s)
        (rb_mc_word i 0) (ucast (rtl8366rb_pack_vid (mc_vid m) (mc_priority m))))
        (rb_mc_word i 1) (ucast (rtl8366rb_pack_members (mc_member m) (mc_untag m))))
        (rb_mc_word i 2) (ucast (ucast (mc_fid m) AND (0x7 :: u32)))"
    "ready (snd (rtl8366rb_set_vlan_mc H smi i m s))"
  using assms
  by (auto simp: rtl8366rb_set_vlan_mc_def fst_bindE snd_bindE bus_simps rb_mc_base_word mc_fits_def
      word_le_nat_alt word_less_nat_alt Let_def failE_def intro!: prod_eqI)

lemma set_vlan_mc_view:
  assumes "ready s"
  shows "chip_view (chip (snd (rtl8366rb_set_vlan_mc H smi i m s))) =
      (if i < 16 \<and> mc_fits 0xFF 7 m
       then (chip_view (chip s))\<lparr>mcs := (mcs (chip_view (chip s)))(i := m)\<rparr>
       else chip_view (chip s))"
    "chip_modes (chip (snd (rtl8366rb_set_vlan_mc H smi i m s))) = chip_modes (chip s)"
proof -
  show "chip_view (chip (snd (rtl8366rb_set_vlan_mc H smi i m s))) =
      (if i < 16 \<and> mc_fits 0xFF 7 m
       then (chip_view (chip s))\<lparr>mcs := (mcs (chip_view (chip s)))(i := m)\<rparr>
       else chip_view (chip s))"
  proof (cases "i < 16 \<and> mc_fits 0xFF 7 m")
    case True
    then show ?thesis
      using assms
      by (auto simp: set_vlan_mc_chip(2) chip_view_def chip_laws rb_mc_of_pack fun_eq_iff
          intro!: vlan_view.equality)
  next
    case False
    then have "snd (rtl8366rb_set_vlan_mc H smi i m s) = s"
      using set_vlan_mc_chip(1) [OF assms, of i m] by (metis snd_conv)
    then show ?thesis using False by auto
  qed
  show "chip_modes (chip (snd (rtl8366rb_set_vlan_mc H smi i m s))) = chip_modes (chip s)"
  proof (cases "i < 16 \<and> mc_fits 0xFF 7 m")
    case True
    then show ?thesis
      using assms
      by (auto simp: set_vlan_mc_chip(2) chip_modes_def chip_laws)
  next
    case False
    then have "snd (rtl8366rb_set_vlan_mc H smi i m s) = s"
      using set_vlan_mc_chip(1) [OF assms, of i m] by (metis snd_conv)
    then show ?thesis by simp
  qed
qed

lemma get_vlan_4k_chip:
  assumes "ready s"
  shows "fst (rtl8366rb_get_vlan_4k H smi vid s) =
      (if vid < 4096 then Inr (v4ks (chip_view (chip s)) vid) else Inl EINVAL)"
    "chip_view (chip (snd (rtl8366rb_get_vlan_4k H smi vid s))) = chip_view (chip s)"
    "chip_modes (chip (snd (rtl8366rb_get_vlan_4k H smi vid s))) = chip_modes (chip s)"
    "ready (snd (rtl8366rb_get_vlan_4k H smi vid s))"
proof -
  let ?v = "ucast (vid AND 0xFFF) :: u16"
  have v: "vid < 4096 \<Longrightarrow> ?v = ucast vid"
    by (simp add: num_masks take_bit_eq_mask [symmetric] take_bit_small word_less_nat_alt)
  have f: "\<not> vid < 4096 \<Longrightarrow> rtl8366rb_get_vlan_4k H smi vid s = (Inl EINVAL, s)"
    by (simp add: rtl8366rb_get_vlan_4k_def failE_def not_less)
  note run = rtl8366rb_get_vlan_4k_def fst_bindE snd_bindE bus_simps chip_laws v
  show "fst (rtl8366rb_get_vlan_4k H smi vid s) =
      (if vid < 4096 then Inr (v4ks (chip_view (chip s)) vid) else Inl EINVAL)"
    using assms f
    by (cases "vid < 4096")
      (simp_all add: run chip_view_def rtl8366rb_4k_of_def ucast_drop_and ucast_drop_and_u8 ucast_and_u16 ucast_and_u8)
  show "chip_view (chip (snd (rtl8366rb_get_vlan_4k H smi vid s))) = chip_view (chip s)"
    using assms f
    by (cases "vid < 4096")
      (simp_all add: run chip_view_def cong: if_cong)
  show "chip_modes (chip (snd (rtl8366rb_get_vlan_4k H smi vid s))) = chip_modes (chip s)"
    using assms f by (cases "vid < 4096") (simp_all add: run chip_modes_def)
  show "ready (snd (rtl8366rb_get_vlan_4k H smi vid s))"
    using assms f by (cases "vid < 4096") (simp_all add: run)
qed

lemma set_vlan_4k_chip:
  assumes "ready s"
  shows "fst (rtl8366rb_set_vlan_4k H smi e s) = (if v4k_fits 0xFF 7 e then Inr () else Inl EINVAL)"
    "chip_view (chip (snd (rtl8366rb_set_vlan_4k H smi e s))) =
      (if v4k_fits 0xFF 7 e
       then (chip_view (chip s))\<lparr>v4ks := (v4ks (chip_view (chip s)))(ucast (v4k_vid e) := e)\<rparr>
       else chip_view (chip s))"
    "chip_modes (chip (snd (rtl8366rb_set_vlan_4k H smi e s))) = chip_modes (chip s)"
    "ready (snd (rtl8366rb_set_vlan_4k H smi e s))"
proof -
  have fits: "\<not> v4k_fits 0xFF 7 e \<longleftrightarrow> ucast (v4k_vid e) \<ge> (4096 :: u32) \<or>
      ucast (v4k_member e) > (0xFF :: u32) \<or> ucast (v4k_untag e) > (0xFF :: u32) \<or>
      ucast (v4k_fid e) > (7 :: u32)"
    by (auto simp: v4k_fits_def word_le_nat_alt word_less_nat_alt)
  have f: "\<not> v4k_fits 0xFF 7 e \<Longrightarrow> rtl8366rb_set_vlan_4k H smi e s = (Inl EINVAL, s)"
    by (simp only: fits rtl8366rb_set_vlan_4k_def if_True failE_def)
  have run: "rtl8366rb_set_vlan_4k H smi e =
      bindE (rtl8366_smi_write_reg H smi 0x185 (ucast (v4k_vid e) AND 0xFFF)) (\<lambda>_.
      bindE (rtl8366_smi_write_reg H smi (0x185 + 1)
        (rtl8366rb_pack_members (v4k_member e) (v4k_untag e))) (\<lambda>_.
      bindE (rtl8366_smi_write_reg H smi (0x185 + 2) (ucast (v4k_fid e) AND 0x7)) (\<lambda>_.
      rtl8366_smi_write_reg H smi 0x180 0xF01)))" if "v4k_fits 0xFF 7 e"
    using that fits by (simp only: rtl8366rb_set_vlan_4k_def if_False Let_def) simp
  have v: "v4k_fits 0xFF 7 e \<Longrightarrow> (ucast ((ucast (v4k_vid e) :: u32) AND 0xFFF) :: u16) = v4k_vid e"
    by (simp add: ucast_and_u16 num_masks take_bit_eq_mask [symmetric] take_bit_small v4k_fits_def
        word_less_nat_alt)
  have v4: "v4k_fits 0xFF 7 e \<Longrightarrow> (ucast (v4k_vid e) :: u32) < 4096"
    by (simp add: v4k_fits_def word_less_nat_alt)
  have eq: "ucast w = v4k_vid e \<longleftrightarrow> w = ucast (v4k_vid e)" if "w < 4096" for w :: u32
    using less_4096_ucast [OF that] by auto
  note exec = fst_bindE snd_bindE bus_simps chip_laws
  show "fst (rtl8366rb_set_vlan_4k H smi e s) = (if v4k_fits 0xFF 7 e then Inr () else Inl EINVAL)"
    using assms f by (cases "v4k_fits 0xFF 7 e") (simp_all add: run exec)
  show "ready (snd (rtl8366rb_set_vlan_4k H smi e s))"
    using assms f by (cases "v4k_fits 0xFF 7 e") (simp_all add: run exec)
  show "chip_modes (chip (snd (rtl8366rb_set_vlan_4k H smi e s))) = chip_modes (chip s)"
    using assms f by (cases "v4k_fits 0xFF 7 e") (simp_all add: run exec chip_modes_def)
  show "chip_view (chip (snd (rtl8366rb_set_vlan_4k H smi e s))) =
      (if v4k_fits 0xFF 7 e
       then (chip_view (chip s))\<lparr>v4ks := (v4ks (chip_view (chip s)))(ucast (v4k_vid e) := e)\<rparr>
       else chip_view (chip s))"
    using assms f rb_v4k_of_pack [of e]
    by (cases "v4k_fits 0xFF 7 e")
      (auto simp: run exec v v4 eq chip_view_def fun_eq_iff intro!: vlan_view.equality)
qed

lemma get_mc_index_chip:
  assumes "ready s"
  shows "fst (rtl8366rb_get_mc_index H smi p s) =
      (if p < 6 then Inr (pidxs (chip_view (chip s)) p) else Inl EINVAL)"
    "chip (snd (rtl8366rb_get_mc_index H smi p s)) = chip s"
    "ready (snd (rtl8366rb_get_mc_index H smi p s))"
  using assms
  by (auto simp: rtl8366rb_get_mc_index_def fst_bindE snd_bindE bus_simps rb_idx_reg_word chip_view_def
      unat_drop_and RTL8366RB_PORT_VLAN_CTRL_SHIFT_def)

lemma set_mc_index_chip:
  assumes "ready s"
  shows "fst (rtl8366rb_set_mc_index H smi p i s) = (if p < 6 \<and> i < 16 then Inr () else Inl EINVAL)"
    "chip_view (chip (snd (rtl8366rb_set_mc_index H smi p i s))) =
      (if p < 6 \<and> i < 16
       then (chip_view (chip s))\<lparr>pidxs := (pidxs (chip_view (chip s)))(p := i)\<rparr>
       else chip_view (chip s))"
    "chip_modes (chip (snd (rtl8366rb_set_mc_index H smi p i s))) = chip_modes (chip s)"
    "ready (snd (rtl8366rb_set_mc_index H smi p i s))"
proof -
  let ?old = "chip_rd (chip s) (rb_idx_word p)"
  define new where "new = (?old AND NOT (push_bit (4 * (p mod 4)) 0xF)) OR
    push_bit (4 * (p mod 4)) (of_nat i AND 0xF)"
  have c: "p < 6 \<Longrightarrow> i < 16 \<Longrightarrow>
      chip (snd (rtl8366rb_set_mc_index H smi p i s)) = chip_wr (chip s) (rb_idx_word p) new"
    using assms
    by (simp add: rtl8366rb_set_mc_index_def rmwr_simps rb_idx_reg_word ucast_nibble
        RTL8366RB_PORT_VLAN_CTRL_SHIFT_def new_def del: push_bit_and)
  have f: "\<not> (p < 6 \<and> i < 16) \<Longrightarrow> snd (rtl8366rb_set_mc_index H smi p i s) = s"
    by (auto simp: rtl8366rb_set_mc_index_def)
  have n: "unat (drop_bit (4 * (q mod 4)) new AND 0xF) =
      (if q mod 4 = p mod 4 then i else unat (drop_bit (4 * (q mod 4)) ?old AND 0xF))" if "i < 16" for q
  proof -
    have "(of_nat i AND 0xF :: u16) = of_nat i"
      unfolding num_masks take_bit_eq_mask [symmetric]
      using that by (intro take_bit_small) (simp add: unat_u16_of_nat)
    then show ?thesis
      using that unfolding new_def by (subst nibble_rmw) (simp_all add: unat_u16_of_nat)
  qed
  have pq: "pidxs (chip_view (chip_wr (chip s) (rb_idx_word p) new)) q =
      (if q = p then i else pidxs (chip_view (chip s)) q)" if "p < 6" "i < 16" for q
  proof (cases "q < 6 \<and> q div 4 = p div 4")
    case True
    then have w: "rb_idx_word q = rb_idx_word p" and m: "q mod 4 = p mod 4 \<longleftrightarrow> q = p"
      using that by (simp add: rb_words_distinct, metis div_mod_decomp)
    show ?thesis using True that by (simp add: chip_view_def w holds rb_plain_words n m)
  next
    case False
    then show ?thesis using that by (auto simp: chip_view_def chip_laws)
  qed
  show "fst (rtl8366rb_set_mc_index H smi p i s) = (if p < 6 \<and> i < 16 then Inr () else Inl EINVAL)"
    using assms by (auto simp: rtl8366rb_set_mc_index_def rmwr_simps)
  show "chip_modes (chip (snd (rtl8366rb_set_mc_index H smi p i s))) = chip_modes (chip s)"
    using assms f by (cases "p < 6 \<and> i < 16") (auto simp: c chip_modes_def chip_laws)
  show "ready (snd (rtl8366rb_set_mc_index H smi p i s))"
    using assms by (simp add: rtl8366rb_set_mc_index_def rmwr_simps)
  show "chip_view (chip (snd (rtl8366rb_set_mc_index H smi p i s))) =
      (if p < 6 \<and> i < 16
       then (chip_view (chip s))\<lparr>pidxs := (pidxs (chip_view (chip s)))(p := i)\<rparr>
       else chip_view (chip s))"
  proof (cases "p < 6 \<and> i < 16")
    case True
    moreover have "mcs (chip_view (chip_wr (chip s) (rb_idx_word p) new)) = mcs (chip_view (chip s))"
      "v4ks (chip_view (chip_wr (chip s) (rb_idx_word p) new)) = v4ks (chip_view (chip s))"
      using True by (auto simp: chip_view_def chip_laws fun_eq_iff)
    ultimately show ?thesis
      by (auto simp: c pq fun_eq_iff intro!: vlan_view.equality)
  qed (use f in auto)
qed

lemma rb_bit_en:
  "bit ((r AND NOT 0x2000) OR (if b then 0x2000 else 0) :: u16) 13 \<longleftrightarrow> b"
  "bit ((r AND NOT 0x4000) OR (if b then 0x4000 else 0) :: u16) 14 \<longleftrightarrow> b"
  "bit ((r AND NOT 0x2000) OR (if b then 0x2000 else 0) :: u16) 14 \<longleftrightarrow> bit r 14"
  "bit ((r AND NOT 0x4000) OR (if b then 0x4000 else 0) :: u16) 13 \<longleftrightarrow> bit r 13"
  by (simp_all add: bit_simps)

lemma enable_chip:
  assumes "ready s"
  shows "fst (rtl8366rb_enable_vlan H smi b s) = Inr ()"
    "chip_view (chip (snd (rtl8366rb_enable_vlan H smi b s))) = chip_view (chip s)"
    "ready (snd (rtl8366rb_enable_vlan H smi b s))"
    "chip_modes (chip (snd (rtl8366rb_enable_vlan H smi b s))) = (b, snd (chip_modes (chip s)))"
    "fst (rtl8366rb_enable_vlan4k H smi b s) = Inr ()"
    "chip_view (chip (snd (rtl8366rb_enable_vlan4k H smi b s))) = chip_view (chip s)"
    "ready (snd (rtl8366rb_enable_vlan4k H smi b s))"
    "chip_modes (chip (snd (rtl8366rb_enable_vlan4k H smi b s))) = (fst (chip_modes (chip s)), b)"
  using assms rb_bit_en [of _ b]
  by (auto simp: rtl8366rb_enable_vlan_def rtl8366rb_enable_vlan4k_def rmwr_simps chip_view_def
      chip_modes_def chip_laws fun_eq_iff split: if_splits intro!: vlan_view.equality)

lemma table_modes_chip:
  assumes "ready s"
  shows "chip_view (chip (snd (rtl8366rb_get_vlan_mc H smi i s))) = chip_view (chip s)"
    "chip_modes (chip (snd (rtl8366rb_get_vlan_mc H smi i s))) = chip_modes (chip s)"
    "chip_view (chip (snd (rtl8366rb_get_mc_index H smi p s))) = chip_view (chip s)"
    "chip_modes (chip (snd (rtl8366rb_get_mc_index H smi p s))) = chip_modes (chip s)"
  using assms by (simp_all add: get_vlan_mc_chip get_mc_index_chip)

lemma set_vlan_mc_result:
  "ready s \<Longrightarrow> fst (rtl8366rb_set_vlan_mc H smi i m s) =
    (if i < 16 \<and> mc_fits 0xFF 7 m then Inr () else Inl EINVAL)"
  using set_vlan_mc_chip(1) [of s i m] by (metis fst_conv)

lemma tables_ok_chip: "tables_ok 16 6 0xFF 7 (chip_view c)"
proof -
  have "v4k_fits 0xFF 7 (rtl8366rb_4k_of vid w)" if "vid < 4096" for vid w
    using ucast_less_4096 [OF that] by (simp add: v4k_fits_def rtl8366rb_4k_of_def rb_and_mask_le)
  then show ?thesis
    by (auto simp: tables_ok_def chip_view_def rb_mc_of_fits unat_and_nibble)
      (simp add: rtl8366rb_4k_of_def)
qed

end

lemma rtl8366rb_flags [silent_intros]:
  "silent flags (rtl8366rb_get_vlan_mc H smi i)" "silent flags (rtl8366rb_set_vlan_mc H smi i m)"
  "silent flags (rtl8366rb_get_vlan_4k H smi vid)" "silent flags (rtl8366rb_set_vlan_4k H smi e)"
  "silent flags (rtl8366rb_get_mc_index H smi p)" "silent flags (rtl8366rb_set_mc_index H smi p i)"
  "silent flags (rtl8366rb_enable_vlan H smi b)" "silent flags (rtl8366rb_enable_vlan4k H smi b)"
  unfolding rtl8366rb_get_vlan_mc_def rtl8366rb_set_vlan_mc_def rtl8366rb_get_vlan_4k_def
    rtl8366rb_set_vlan_4k_def rtl8366rb_get_mc_index_def rtl8366rb_set_mc_index_def
    rtl8366rb_enable_vlan_def rtl8366rb_enable_vlan4k_def Let_def
  by (intro silent_intros)+

lemma rtl8366rb_valid:
  "rtl8366rb_is_vlan_valid vid s \<Longrightarrow> vid \<noteq> 0 \<and> vid < 4096"
  "flags s = flags t \<Longrightarrow> rtl8366rb_is_vlan_valid vid s \<longleftrightarrow> rtl8366rb_is_vlan_valid vid t"
  by (auto simp: rtl8366rb_is_vlan_valid_def flags_def word_le_nat_alt word_less_nat_alt split: if_splits)

sublocale rtl8366rb_chip \<subseteq> sw: vlan_switch smi "rtl8366rb_smi_ops H smi sd" ready
    "\<lambda>s. chip_view (chip s)" "0xFF" 7 True "\<lambda>s. chip_modes (chip s)" True
  by unfold_locales
    (simp_all add: rtl8366rb_smi_ops_def ports vlan_mcs tables_ok_chip get_vlan_mc_chip(1,3)
      table_modes_chip set_vlan_mc_result set_vlan_mc_view set_vlan_mc_chip(3) get_vlan_4k_chip
      set_vlan_4k_chip get_mc_index_chip(1,3) set_mc_index_chip enable_chip rtl8366rb_flags
      rtl8366rb_flags [THEN silentD] flag_ready flag_chip rtl8366rb_valid(1),
     metis rtl8366rb_valid(2))

context rtl8366rb_chip
begin

lemma sw_vlan_switch:
  "vlan_switch smi (rtl8366rb_smi_ops H smi sd) ready (\<lambda>s. chip_view (chip s)) 0xFF 7 True
    (\<lambda>s. chip_modes (chip s)) True"
  by (rule sw.vlan_switch_axioms)

end

end
