(* ===== verification/Bench.thy ===== *)
theory Bench
  imports Rtl8366s_Chip Rtl8366rb_Chip
begin

text \<open>
  A reference switch on an MDIO bus: a register file with a VLAN table behind the access
  control register. It meets the hardware hypotheses of the development, so that each
  property with such a hypothesis can be run on it.
\<close>

section \<open>The bus\<close>

record 'c mdio_bench =
  bench_dev :: 'c
  bench_addr :: u16
  bench_wdata :: u16
  bench_rdata :: u16

definition bench_write ::
  "('c \<Rightarrow> u16 \<Rightarrow> u16) \<Rightarrow> ('c \<Rightarrow> u16 \<Rightarrow> u16 \<Rightarrow> 'c) \<Rightarrow> u32 \<Rightarrow> u32 \<Rightarrow> u16 \<Rightarrow> 'c mdio_bench \<Rightarrow> 'c mdio_bench" where
  "bench_write rd wr phy r v h =
    (if phy \<noteq> 0 then h
     else if r = 23 then h\<lparr>bench_addr := v\<rparr>
     else if r = 24 then h\<lparr>bench_wdata := v\<rparr>
     else if r = 21 \<and> v = 1 then h\<lparr>bench_rdata := rd (bench_dev h) (bench_addr h)\<rparr>
     else if r = 21 \<and> v = 3 then h\<lparr>bench_dev := wr (bench_dev h) (bench_addr h) (bench_wdata h)\<rparr>
     else h)"

definition bench_read :: "u32 \<Rightarrow> u32 \<Rightarrow> 'c mdio_bench \<Rightarrow> u32 \<times> 'c mdio_bench" where
  "bench_read phy r h = (if phy = 0 \<and> r = 25 then ucast (bench_rdata h) else 0xFFFF, h)"

definition bench_platform ::
  "('c \<Rightarrow> u16 \<Rightarrow> u16) \<Rightarrow> ('c \<Rightarrow> u16 \<Rightarrow> u16 \<Rightarrow> 'c) \<Rightarrow> ('c mdio_bench) platform" where
  "bench_platform rd wr = \<lparr>
     gpio_direction_output = (\<lambda>_ _ h. h), gpio_direction_input = (\<lambda>_ h. h),
     gpio_set_value = (\<lambda>_ _ h. h), gpio_get_value = (\<lambda>_ h. (False, h)),
     ndelay = (\<lambda>_ h. h), udelay = (\<lambda>_ h. h), msleep = (\<lambda>_ h. h),
     mbus_read = bench_read, mbus_write = bench_write rd wr, hw_reset = (\<lambda>_ h. h)\<rparr>"

definition bench_smi :: rtl8366_smi where
  "bench_smi = \<lparr>gpio_sda = 0, gpio_sck = 0, has_hw_reset = False, clk_delay = 0, cmd_read = 0,
     cmd_write = 0, has_ext_mbus = True, cpu_port = 0, num_ports = 0, num_vlan_mc = 0,
     num_mib_counters = 0, mib_counters = []\<rparr>"

definition bench_setup :: setup_data where
  "bench_setup = \<lparr>pdata_initvals = [], of_initvals = None, of_green = False\<rparr>"

lemma bench_slave:
  assumes "has_ext_mbus smi"
  shows "mdio_slave (bench_platform rd wr) smi bench_dev bench_addr bench_wdata bench_rdata rd wr"
  using assms
  by unfold_locales (auto simp: bench_platform_def bench_write_def bench_read_def)

section \<open>An RTL8366S\<close>

record regfile =
  regs :: "u16 \<Rightarrow> u16"
  vtab :: "u16 \<Rightarrow> u16"

definition regfile_wr :: "regfile \<Rightarrow> u16 \<Rightarrow> u16 \<Rightarrow> regfile" where
  "regfile_wr c a v =
    (if a = 0x180 \<and> v = 0xE01
     then c\<lparr>regs := (regs c)(0x180 := v, 0x18B := regs c 0x185, 0x18C := vtab c (regs c 0x185))\<rparr>
     else if a = 0x180 \<and> v = 0xF01
     then c\<lparr>regs := (regs c)(0x180 := v), vtab := (vtab c)(regs c 0x185 := regs c 0x186)\<rparr>
     else c\<lparr>regs := (regs c)(a := v)\<rparr>)"

definition benchS_smi :: rtl8366_smi where
  "benchS_smi = rtl8366s_smi bench_smi"

abbreviation benchS :: "regfile mdio_bench platform" where
  "benchS \<equiv> bench_platform regs regfile_wr"

definition benchS_state :: "regfile mdio_bench smi_state" where
  "benchS_state = \<lparr>hw = \<lparr>bench_dev = \<lparr>regs = (\<lambda>_. 0), vtab = (\<lambda>_. 0)\<rparr>, bench_addr = 0,
     bench_wdata = 0, bench_rdata = 0\<rparr>, lock = False, vlan_enabled = 0, vlan4k_enabled = 0\<rparr>"

interpretation benchS_bus: mdio_slave benchS benchS_smi bench_dev bench_addr bench_wdata bench_rdata
    regs regfile_wr
  by (rule bench_slave) (simp add: benchS_smi_def rtl8366s_smi_def bench_smi_def)

lemma not_plain: "rtl8366s_plain a \<Longrightarrow> a \<noteq> 0x180 \<and> a \<noteq> 0x18B \<and> a \<noteq> 0x18C"
  by (auto simp: rtl8366s_plain_def Let_def)

interpretation benchS_chip: rtl8366s_chip benchS benchS_smi "\<lambda>_. True" "\<lambda>s. bench_dev (hw s)" regs
    regfile_wr vtab bench_setup
  by unfold_locales
    (auto simp: benchS_smi_def rtl8366s_smi_def regfile_wr_def dest: not_plain)

section \<open>An RTL8366RB\<close>

record regfile_rb =
  rb_regs :: "u16 \<Rightarrow> u16"
  rb_vtab :: "u16 \<Rightarrow> u16 \<times> u16"

definition regfile_rb_wr :: "regfile_rb \<Rightarrow> u16 \<Rightarrow> u16 \<Rightarrow> regfile_rb" where
  "regfile_rb_wr c a v =
    (if a = 0x180 \<and> v = 0xE01
     then c\<lparr>rb_regs := (rb_regs c)(0x180 := v, 0x18C := rb_regs c 0x185,
             0x18D := fst (rb_vtab c (rb_regs c 0x185)), 0x18E := snd (rb_vtab c (rb_regs c 0x185)))\<rparr>
     else if a = 0x180 \<and> v = 0xF01
     then c\<lparr>rb_regs := (rb_regs c)(0x180 := v),
             rb_vtab := (rb_vtab c)(rb_regs c 0x185 := (rb_regs c 0x186, rb_regs c 0x187))\<rparr>
     else c\<lparr>rb_regs := (rb_regs c)(a := v)\<rparr>)"

definition benchRB_smi :: rtl8366_smi where
  "benchRB_smi = rtl8366rb_smi bench_smi"

abbreviation benchRB :: "regfile_rb mdio_bench platform" where
  "benchRB \<equiv> bench_platform rb_regs regfile_rb_wr"

definition benchRB_state :: "regfile_rb mdio_bench smi_state" where
  "benchRB_state = \<lparr>hw = \<lparr>bench_dev = \<lparr>rb_regs = (\<lambda>_. 0), rb_vtab = (\<lambda>_. (0, 0))\<rparr>,
     bench_addr = 0, bench_wdata = 0, bench_rdata = 0\<rparr>, lock = False, vlan_enabled = 0,
     vlan4k_enabled = 0\<rparr>"

interpretation benchRB_bus: mdio_slave benchRB benchRB_smi bench_dev bench_addr bench_wdata
    bench_rdata rb_regs regfile_rb_wr
  by (rule bench_slave) (simp add: benchRB_smi_def rtl8366rb_smi_def bench_smi_def)

lemma rb_not_plain: "rtl8366rb_plain a \<Longrightarrow> a \<noteq> 0x180 \<and> a \<noteq> 0x18C \<and> a \<noteq> 0x18D \<and> a \<noteq> 0x18E"
  by (auto simp: rtl8366rb_plain_def Let_def)

interpretation benchRB_chip: rtl8366rb_chip benchRB benchRB_smi "\<lambda>_. True"
    "\<lambda>s. bench_dev (hw s)" rb_regs regfile_rb_wr rb_vtab bench_setup
  by unfold_locales
    (auto simp: benchRB_smi_def rtl8366rb_smi_def regfile_rb_wr_def dest: rb_not_plain)

end
