(* ===== verification/Vlan_Properties.thy ===== *)
theory Vlan_Properties
  imports Bench
begin

text \<open>
  The properties of the VLAN core and of its RTL8366 providers. A hypothesis \<open>vlan_ops\<close> or
  \<open>vlan_switch\<close> is the contract of \<open>struct rtl8366_smi_ops\<close>; the first two properties
  show that both RTL8366 drivers meet it. The witnesses run the RTL8366S driver on the
  reference switch.
\<close>

section \<open>The reference switch at rest\<close>

abbreviation benchS_ops :: "(regfile mdio_bench smi_state) rtl8366_smi_ops" where
  "benchS_ops \<equiv> rtl8366s_smi_ops benchS benchS_smi bench_setup"

abbreviation benchS_view :: "regfile mdio_bench smi_state \<Rightarrow> vlan_view" where
  "benchS_view \<equiv> \<lambda>s. benchS_chip.chip_view (bench_dev (hw s))"

lemmas benchS_vlan_ops = benchS_chip.sw.vlan_ops_axioms
lemmas benchS_vlan_switch = benchS_chip.sw.vlan_switch_axioms

lemma benchS_smi_simps [simp]:
  "num_ports benchS_smi = 6" "num_vlan_mc benchS_smi = 16" "cpu_port benchS_smi = 5"
  by (simp_all add: benchS_smi_def rtl8366s_smi_def)

lemma benchS_rest:
  "benchS_view benchS_state = \<lparr>mcs = (\<lambda>_. zero_mc),
     v4ks = (\<lambda>vid. if vid < 4096 then rtl8366s_4k_of vid 0 else zero_4k), pidxs = (\<lambda>_. 0)\<rparr>"
  by (simp add: benchS_chip.chip_view_def benchS_state_def rtl8366s_mc_of_def zero_mc_def fun_eq_iff
      cong: if_cong)

lemma find_const_16: "find (\<lambda>_. c) [0..<16] = (if c then Some 0 else None)"
  by (simp add: upt_rec)

lemma zero_mc_tests: "has_vid vid zero_mc \<longleftrightarrow> vid = 0" "is_empty_mc zero_mc"
  "mc_from_4k vid (rtl8366s_4k_of vid 0) zero_mc = zero_mc\<lparr>mc_vid := ucast vid\<rparr>"
  by (simp_all add: has_vid_def is_empty_mc_def zero_mc_def mc_from_4k_def rtl8366s_4k_of_def)

lemma benchS_pvid_spec:
  assumes "port < 6" "vid \<noteq> 0" "vid < 4096"
  shows "pvid_set_spec True 16 6 port vid (benchS_view benchS_state) =
      (Inr (), (benchS_view benchS_state)
        \<lparr>mcs := (\<lambda>_. zero_mc)(0 := zero_mc\<lparr>mc_vid := ucast vid\<rparr>)\<rparr>)"
  using assms
  by (simp add: benchS_rest pvid_set_spec_def install_spec_def zero_mc_tests find_const_16 Let_def
      fun_upd_idem)

lemma benchS_set_pvid:
  assumes "port < 6" "vid \<noteq> 0" "vid < 4096"
  shows "fst (rtl8366_set_pvid benchS_smi benchS_ops port vid benchS_state) = Inr ()"
    "benchS_view (snd (rtl8366_set_pvid benchS_smi benchS_ops port vid benchS_state)) =
      (benchS_view benchS_state)\<lparr>mcs := (\<lambda>_. zero_mc)(0 := zero_mc\<lparr>mc_vid := ucast vid\<rparr>)\<rparr>"
  using vlan_ops.set_pvid_view [OF benchS_vlan_ops TrueI, of port vid benchS_state]
    benchS_pvid_spec [OF assms]
  by simp_all

section \<open>Providers\<close>

text \<open>
  C2. The RTL8366S driver meets the contract of the VLAN core: on a chip whose
  configuration registers hold what was written and whose VLAN table answers the access
  control words, every operation of \<open>rtl8366s_smi_ops\<close> on member configurations, VLAN
  entries and MC indexes reads or changes exactly its own table entry, rejects what does not
  fit with \<open>EINVAL\<close>, and the enable operations set exactly their enable bit.
\<close>
theorem rtl8366s_meets_vlan_contract:
  assumes "rtl8366s_chip H smi ready chip chip_rd chip_wr vtable"
  shows "vlan_switch smi (rtl8366s_smi_ops H smi sd) ready
    (\<lambda>s. rtl8366s_chip.chip_view chip_rd vtable (chip s)) 0x3F 7 True
    (\<lambda>s. rtl8366s_chip.chip_modes chip_rd (chip s)) True"
  using assms by (rule rtl8366s_chip.sw_vlan_switch)

theorem rtl8366s_meets_vlan_contract_witness:
  "vlan_switch benchS_smi benchS_ops (\<lambda>_. True) benchS_view 0x3F 7 True
    (\<lambda>s. benchS_chip.chip_modes (bench_dev (hw s))) True"
  by (rule rtl8366s_meets_vlan_contract [OF benchS_chip.rtl8366s_chip_axioms])

text \<open>
  C3. The RTL8366RB driver, whose entries take three registers and whose two enable bits
  share one register, meets the same contract.
\<close>
theorem rtl8366rb_meets_vlan_contract:
  assumes "rtl8366rb_chip H smi ready chip chip_rd chip_wr vtable"
  shows "vlan_switch smi (rtl8366rb_smi_ops H smi sd) ready
    (\<lambda>s. rtl8366rb_chip.chip_view chip_rd vtable (chip s)) 0xFF 7 True
    (\<lambda>s. rtl8366rb_chip.chip_modes chip_rd (chip s)) True"
  using assms by (rule rtl8366rb_chip.sw_vlan_switch)

theorem rtl8366rb_meets_vlan_contract_witness:
  "vlan_switch benchRB_smi (rtl8366rb_smi_ops benchRB benchRB_smi bench_setup) (\<lambda>_. True)
    (\<lambda>s. benchRB_chip.chip_view (bench_dev (hw s))) 0xFF 7 True
    (\<lambda>s. benchRB_chip.chip_modes (bench_dev (hw s))) True"
  by (rule rtl8366rb_meets_vlan_contract [OF benchRB_chip.rtl8366rb_chip_axioms])

section \<open>VLANs and PVIDs\<close>

text \<open>
  C4. \<open>rtl8366_set_vlan\<close> refines its abstract operation: a VLAN number below 4096 whose
  masks fit is stored in the VLAN table and in the first member configuration that carries
  that VLAN; anything else is refused with \<open>EINVAL\<close> and changes nothing.
\<close>
theorem set_vlan_refines:
  assumes "vlan_ops smi ops ready view mmax fmax u" "ready s"
  shows "(fst (rtl8366_set_vlan smi ops vid member untag fid s),
      view (snd (rtl8366_set_vlan smi ops vid member untag fid s))) =
      vlan_set_spec u (num_vlan_mc smi) mmax fmax vid member untag fid (view s)
    \<and> ready (snd (rtl8366_set_vlan smi ops vid member untag fid s))"
  using assms by (rule vlan_ops.set_vlan_view)

theorem set_vlan_refines_witness:
  "fst (rtl8366_set_vlan benchS_smi benchS_ops 5 0x21 0x20 1 benchS_state) = Inr ()"
  using set_vlan_refines [OF benchS_vlan_ops TrueI, of 5 "0x21" "0x20" 1 benchS_state]
  by (auto simp: benchS_rest vlan_set_spec_def v4k_fits_def upd_4k_def rtl8366s_4k_of_def Let_def)

text \<open>
  C5. \<open>rtl8366_set_pvid\<close> refines its abstract operation: the first entry with that VLAN is
  taken, else the first empty one is filled from the VLAN table, else the first one no port
  uses is replaced; with none left the result is \<open>ENOSPC\<close>.
\<close>
theorem set_pvid_refines:
  assumes "vlan_ops smi ops ready view mmax fmax u" "ready s"
  shows "(fst (rtl8366_set_pvid smi ops port vid s), view (snd (rtl8366_set_pvid smi ops port vid s))) =
      pvid_set_spec u (num_vlan_mc smi) (num_ports smi) port vid (view s)
    \<and> ready (snd (rtl8366_set_pvid smi ops port vid s))"
  using assms by (rule vlan_ops.set_pvid_view)

theorem set_pvid_refines_witness:
  "fst (rtl8366_set_pvid benchS_smi benchS_ops 2 7 benchS_state) = Inr ()"
  using set_pvid_refines [OF benchS_vlan_ops TrueI, of 2 7 benchS_state]
  by (simp add: benchS_rest pvid_set_spec_def install_spec_def zero_mc_tests find_const_16 Let_def)

text \<open>
  A PVID that was set is read back: after a successful \<open>rtl8366_set_pvid\<close>,
  \<open>rtl8366_get_pvid\<close> on the same port returns the VLAN.
\<close>
theorem set_pvid_get_pvid:
  assumes "vlan_ops smi ops ready view mmax fmax u" "ready s"
    and "fst (rtl8366_set_pvid smi ops port vid s) = Inr ()"
  shows "fst (rtl8366_get_pvid ops port (snd (rtl8366_set_pvid smi ops port vid s))) = Inr vid"
proof -
  let ?s = "snd (rtl8366_set_pvid smi ops port vid s)"
  have r: "ready ?s" and v: "pvid_set_spec u (num_vlan_mc smi) (num_ports smi) port vid (view s) =
      (Inr (), view ?s)"
    using vlan_ops.set_pvid_view [OF assms(1,2), of port vid] assms(3) by simp_all
  show ?thesis
    using pvid_set_spec_sets [OF v] vlan_ops.get_pvid_view(1) [OF assms(1) r, of port]
    by (simp add: has_vid_def)
qed

theorem set_pvid_get_pvid_witness:
  "fst (rtl8366_get_pvid benchS_ops 2 (snd (rtl8366_set_pvid benchS_smi benchS_ops 2 7 benchS_state))) = Inr 7"
  by (rule set_pvid_get_pvid [OF benchS_vlan_ops TrueI benchS_set_pvid(1)]) simp_all

text \<open>
  \<open>rtl8366_set_pvid\<close> reports \<open>ENOSPC\<close> exactly when no member configuration carries
  the VLAN, none is empty and every one is some port's; whatever error it reports, the tables
  are as they were.
\<close>
theorem set_pvid_no_space:
  assumes "vlan_ops smi ops ready view mmax fmax u" "ready s" "vid < 4096" "port < num_ports smi"
  shows "(fst (rtl8366_set_pvid smi ops port vid s) = Inl ENOSPC \<longleftrightarrow>
      (\<forall>i < num_vlan_mc smi. \<not> has_vid vid (mcs (view s) i) \<and> \<not> is_empty_mc (mcs (view s) i)
        \<and> (\<exists>p < num_ports smi. pidxs (view s) p = i)))
    \<and> (\<forall>e. fst (rtl8366_set_pvid smi ops port vid s) = Inl e \<longrightarrow>
        view (snd (rtl8366_set_pvid smi ops port vid s)) = view s)"
proof -
  let ?spec = "pvid_set_spec u (num_vlan_mc smi) (num_ports smi) port vid (view s)"
  have run: "fst (rtl8366_set_pvid smi ops port vid s) = fst ?spec"
    "view (snd (rtl8366_set_pvid smi ops port vid s)) = snd ?spec"
    using vlan_ops.set_pvid_view [OF assms(1,2), of port vid] by (simp_all add: prod_eq_iff)
  show ?thesis
    unfolding run pvid_set_spec_full [OF assms(3,4)]
    using pvid_set_spec_error [of u "num_vlan_mc smi" "num_ports smi" port vid "view s"] assms(4)
    by (auto simp: unused_mc_def Bex_def atLeast0LessThan lessThan_iff)
qed

theorem set_pvid_no_space_witness:
  "fst (rtl8366_set_pvid benchS_smi benchS_ops 2 7 benchS_state) \<noteq> Inl ENOSPC"
  using set_pvid_no_space [OF benchS_vlan_ops TrueI, of 7 2 benchS_state]
  by (auto simp: benchS_rest zero_mc_tests dest: spec [of _ 0])

text \<open>
  Setting one port's PVID leaves every other port's PVID as it was, as long as that port
  does not sit on an empty member configuration (whatever the outcome of the call).
\<close>
theorem set_pvid_other_ports:
  assumes "vlan_ops smi ops ready view mmax fmax u" "ready s" "p < num_ports smi" "p \<noteq> port"
    and "\<not> is_empty_mc (mcs (view s) (pidxs (view s) p))"
  shows "fst (rtl8366_get_pvid ops p (snd (rtl8366_set_pvid smi ops port vid s))) =
    fst (rtl8366_get_pvid ops p s)"
proof -
  let ?s = "snd (rtl8366_set_pvid smi ops port vid s)"
  have r: "ready ?s" and v: "pvid_set_spec u (num_vlan_mc smi) (num_ports smi) port vid (view s) =
      (fst (rtl8366_set_pvid smi ops port vid s), view ?s)"
    using vlan_ops.set_pvid_view [OF assms(1,2), of port vid] by simp_all
  show ?thesis
    using pvid_set_spec_others [OF v assms(3-)] vlan_ops.get_pvid_view(1) [OF assms(1) r, of p]
      vlan_ops.get_pvid_view(1) [OF assms(1,2), of p]
    by auto
qed

theorem set_pvid_other_ports_witness:
  "let s = snd (rtl8366_set_pvid benchS_smi benchS_ops 2 7 benchS_state)
   in fst (rtl8366_get_pvid benchS_ops 2 (snd (rtl8366_set_pvid benchS_smi benchS_ops 3 9 s))) =
      fst (rtl8366_get_pvid benchS_ops 2 s)"
  unfolding Let_def
  by (rule set_pvid_other_ports [OF benchS_vlan_ops TrueI])
    (simp_all add: benchS_set_pvid, simp add: benchS_rest is_empty_mc_def zero_mc_def)

lemma in_step_rest: "in_step True 16 (benchS_view benchS_state)"
  by (simp add: in_step_def benchS_rest zero_mc_def)

text \<open>
  C12. The two tables stay in step: if every member configuration agrees with the table entry
  of its VLAN and no VLAN has two, this still holds after setting a VLAN and after setting a
  PVID, successful or not.
\<close>
theorem tables_stay_in_step:
  assumes "vlan_ops smi ops ready view mmax fmax u" "ready s" "in_step u (num_vlan_mc smi) (view s)"
  shows "in_step u (num_vlan_mc smi) (view (snd (rtl8366_set_vlan smi ops vid member untag fid s)))
    \<and> in_step u (num_vlan_mc smi) (view (snd (rtl8366_set_pvid smi ops port vid s)))"
  using vlan_ops.set_vlan_view [OF assms(1,2), of vid member untag fid]
    vlan_ops.set_pvid_view [OF assms(1,2), of port vid]
    in_step_vlan_set [OF assms(3), of mmax fmax vid member untag fid]
    in_step_pvid_set [OF assms(3), of "num_ports smi" port vid]
  by (simp add: prod_eq_iff)

theorem tables_stay_in_step_witness:
  "in_step True 16 (benchS_view (snd (rtl8366_set_pvid benchS_smi benchS_ops 2 7 benchS_state)))"
  using tables_stay_in_step [OF benchS_vlan_ops TrueI, of benchS_state 7 0 0 0 2] in_step_rest
  by simp

section \<open>Enable flags, reset and initial set-up\<close>

text \<open>
  The driver's flags \<open>vlan_enabled\<close> and \<open>vlan4k_enabled\<close> mirror the enable bits of the
  chip, and the 4K table is enabled only together with VLANs: every operation of the core keeps
  this, and a reset of the VLANs establishes it.
\<close>
theorem flags_mirror_chip:
  assumes "vlan_switch smi ops ready view mmax fmax u modes k4" "ready s" "flags_mirror k4 modes s"
  shows "flags_mirror k4 modes (snd (rtl8366_smi_enable_vlan ops e s))
    \<and> flags_mirror k4 modes (snd (rtl8366_smi_enable_vlan4k ops e s))
    \<and> flags_mirror k4 modes (snd (rtl8366_set_vlan smi ops vid member untag fid s))
    \<and> flags_mirror k4 modes (snd (rtl8366_set_pvid smi ops port vid s))
    \<and> (\<forall>t. ready t \<longrightarrow> flags_mirror k4 modes (snd (rtl8366_smi_reset_vlan smi ops t)))"
  using assms(2,3) vlan_switch.enable_vlan_steady [OF assms(1), of s e]
    vlan_switch.enable_vlan4k_steady [OF assms(1), of s e]
    keepsD [OF vlan_switch.keeps_steady_set_vlan [OF assms(1)], of s vid member untag fid]
    keepsD [OF vlan_switch.keeps_steady_set_pvid [OF assms(1)], of s port vid]
    vlan_switch.reset_vlan_steady(1) [OF assms(1)]
  by (simp add: vlan_switch.steady_def [OF assms(1)])

theorem flags_mirror_chip_witness:
  "flags_mirror True (\<lambda>s. benchS_chip.chip_modes (bench_dev (hw s)))
     (snd (rtl8366_smi_enable_vlan benchS_ops 1 benchS_state))"
  using flags_mirror_chip [OF benchS_vlan_switch TrueI, of benchS_state 1]
  by (simp add: flags_mirror_def benchS_chip.chip_modes_def benchS_state_def)

text \<open>
  \<open>rtl8366_init_vlan\<close> succeeds and gives every port a VLAN of its own, numbered from
  1, whose members are the port and the CPU port (all ports for the CPU port), untagged,
  through the member configuration of the port's own number; the other configurations are
  cleared, VLANs are enabled, and the driver's flags mirror the chip.
\<close>
theorem init_vlan_ports:
  assumes "vlan_switch smi ops ready view mmax fmax u modes k4" "ready s"
    and "num_ports smi \<le> num_vlan_mc smi" "num_ports smi \<le> 4095"
    and "\<forall>p < num_ports smi. ucast (init_vlan_mask smi p) \<le> mmax"
  shows "fst (rtl8366_init_vlan smi ops s) = Inr ()
    \<and> port_vlans u (num_vlan_mc smi) smi (num_ports smi) (view (snd (rtl8366_init_vlan smi ops s)))
    \<and> vlan_enabled (snd (rtl8366_init_vlan smi ops s)) = 1
    \<and> flags_mirror k4 modes (snd (rtl8366_init_vlan smi ops s))"
  using vlan_switch.init_vlan_run [OF assms] by (simp add: vlan_switch.steady_def [OF assms(1)])

lemma less_6: "(p :: nat) < 6 \<Longrightarrow> p = 0 \<or> p = 1 \<or> p = 2 \<or> p = 3 \<or> p = 4 \<or> p = 5"
  by presburger

lemma all_ports: "(\<forall>p < (6 :: nat). P p) \<longleftrightarrow> P 0 \<and> P 1 \<and> P 2 \<and> P 3 \<and> P 4 \<and> P 5"
  by (fastforce dest: less_6)

lemma benchS_masks: "\<forall>p < num_ports benchS_smi. (ucast (init_vlan_mask benchS_smi p) :: u16) \<le> 0x3F"
  by (simp add: all_ports init_vlan_mask_def)

theorem init_vlan_ports_witness:
  "fst (rtl8366_init_vlan benchS_smi benchS_ops benchS_state) = Inr ()"
  using init_vlan_ports [OF benchS_vlan_switch TrueI _ _ benchS_masks, of benchS_state] by simp

section \<open>Port lists and filtering databases\<close>

lemma ports_read_back:
  assumes sw: "vlan_switch smi ops ready view mmax fmax u modes k4" and rd: "ready s"
    and np: "num_ports smi \<le> 16"
    and vd: "is_vlan_valid ops (port_vlan v) s" and w: "port_vlan w = port_vlan v"
    and ok: "fst (rtl8366_sw_set_vlan_ports smi ops v s) = Inr ()"
  defines "s' \<equiv> snd (rtl8366_sw_set_vlan_ports smi ops v s)"
    and "ps \<equiv> take (val_len v) (val_ports v)"
  shows "fst (rtl8366_sw_get_vlan_ports smi ops w s') =
      Inr (w\<lparr>val_ports := canonical_ports (num_ports smi) ps,
             val_len := length (canonical_ports (num_ports smi) ps)\<rparr>)
    \<and> (\<forall>p \<in> set ps. pvid_of (view s') (unat (port_id p)) \<noteq> 0)
    \<and> (\<forall>vid. vid \<noteq> port_vlan v \<longrightarrow> v4ks (view s') vid = v4ks (view s) vid)"
proof -
  have vo: "vlan_ops smi ops ready view mmax fmax u" using sw by (rule vlan_switch.axioms(1))
  have r: "ready s'" and
    spec: "vlan_ports_spec u (num_vlan_mc smi) (num_ports smi) mmax fmax (port_vlan v) ps (view s) =
      (Inr (), view s')"
    using vlan_ops.set_vlan_ports_view [OF vo rd vd] ok by (simp_all add: s'_def ps_def)
  have "flags s' = flags s"
    unfolding s'_def by (rule silentD [OF vlan_switch.silent_flags_set_vlan_ports [OF sw]])
  then have vd': "is_vlan_valid ops (port_vlan w) s'"
    using vd vlan_switch.valid_flags [OF sw, of s' s "port_vlan v"] w by simp
  have range: "port_vlan v \<noteq> 0 \<and> port_vlan v < 4096" by (rule vlan_switch.valid_range [OF sw vd])
  show ?thesis
    using vlan_ports_spec_sets [OF spec np] vlan_ops.get_vlan_ports_view [OF vo r vd'] range
    by (simp add: w Let_def)
qed

text \<open>
  A port list that \<open>rtl8366_sw_set_vlan_ports\<close> accepted for a VLAN is what
  \<open>rtl8366_sw_get_vlan_ports\<close> returns for it, in ascending order and without duplicates,
  tagged exactly where no untagged entry named the port; every listed port has a PVID then,
  and no other VLAN's table entry has changed.
\<close>
theorem vlan_ports_round_trip:
  assumes sw: "vlan_switch smi ops ready view mmax fmax u modes k4" and rd: "ready s"
    and np: "num_ports smi \<le> 16"
    and vd: "is_vlan_valid ops (port_vlan v) s" and w: "port_vlan w = port_vlan v"
    and ok: "fst (rtl8366_sw_set_vlan_ports smi ops v s) = Inr ()"
  defines "s' \<equiv> snd (rtl8366_sw_set_vlan_ports smi ops v s)"
    and "ps \<equiv> take (val_len v) (val_ports v)"
  shows "fst (rtl8366_sw_get_vlan_ports smi ops w s') =
      Inr (w\<lparr>val_ports := canonical_ports (num_ports smi) ps,
             val_len := length (canonical_ports (num_ports smi) ps)\<rparr>)
    \<and> (\<forall>p \<in> set ps. pvid_of (view s') (unat (port_id p)) \<noteq> 0)
    \<and> (\<forall>vid. vid \<noteq> port_vlan v \<longrightarrow> v4ks (view s') vid = v4ks (view s) vid)"
  using ports_read_back [OF assms(1-6)] by (simp add: s'_def ps_def)

definition benchS_val :: switch_val where
  "benchS_val = \<lparr>port_vlan = 3, val_len = 2, val_s = '''', val_i = 0,
     val_ports = [\<lparr>port_id = 5, port_flags = 4\<rparr>, \<lparr>port_id = 1, port_flags = 0\<rparr>],
     val_link = \<lparr>link = False, duplex = False, aneg = False, tx_flow = False, rx_flow = False,
       speed = 0, eee = 0\<rparr>\<rparr>"

lemma benchS_valid: "is_vlan_valid benchS_ops (port_vlan benchS_val) benchS_state"
  by (simp add: rtl8366s_smi_ops_def rtl8366s_is_vlan_valid_def benchS_val_def benchS_state_def)

lemma benchS_set_ports: "fst (rtl8366_sw_set_vlan_ports benchS_smi benchS_ops benchS_val benchS_state) = Inr ()"
proof -
  let ?V = "benchS_view benchS_state"
  let ?W = "?V\<lparr>mcs := (\<lambda>_. zero_mc)(0 := zero_mc\<lparr>mc_vid := 3\<rparr>)\<rparr>"
  have "pvid_of ?V 5 = 0" "pvid_of ?W 1 \<noteq> 0"
    by (simp_all add: benchS_rest pvid_of_def zero_mc_def)
  then have p: "ports_pvid_spec True 16 6 3 (val_ports benchS_val) ?V = (Inr (), ?W)"
    using benchS_pvid_spec [of 5 3] by (simp add: benchS_val_def Let_def)
  have "fst (vlan_set_spec True 16 0x3F 7 3 0x22 2 0 ?W) = Inr ()"
    by (simp add: vlan_set_spec_def benchS_rest v4k_fits_def upd_4k_def rtl8366s_4k_of_def Let_def)
  moreover have "port_masks (val_ports benchS_val) (0, 0) = (0x22, 2)"
    by (simp add: benchS_val_def tagged_def BIT_def)
  ultimately have "fst (vlan_ports_spec True 16 6 0x3F 7 3 (val_ports benchS_val) ?V) = Inr ()"
    using p by (simp add: vlan_ports_spec_def)
  then show ?thesis
    using vlan_ops.set_vlan_ports_view [OF benchS_vlan_ops TrueI benchS_valid]
    by (simp add: benchS_val_def prod_eq_iff)
qed

theorem vlan_ports_round_trip_witness:
  "fst (rtl8366_sw_get_vlan_ports benchS_smi benchS_ops benchS_val
      (snd (rtl8366_sw_set_vlan_ports benchS_smi benchS_ops benchS_val benchS_state))) =
    Inr (benchS_val\<lparr>val_ports := [\<lparr>port_id = 1, port_flags = 0\<rparr>, \<lparr>port_id = 5, port_flags = 4\<rparr>]\<rparr>)"
  using vlan_ports_round_trip [OF benchS_vlan_switch TrueI _ benchS_valid refl benchS_set_ports]
  by (simp add: canonical_ports_def benchS_val_def lists_port_def lists_untagged_def tagged_def BIT_def
      upt_rec)

text \<open>
  Setting the filtering database of a VLAN keeps its members and untagged ports, and
  the value is read back; a value above the attribute's maximum is refused without a change.
\<close>
theorem vlan_fid_round_trip:
  assumes sw: "vlan_switch smi ops ready view mmax fmax u modes k4" and rd: "ready s"
    and vd: "is_vlan_valid ops (port_vlan v) s" and w: "port_vlan w = port_vlan v"
    and mx: "0 \<le> attr_max attr" "attr_max attr \<le> 255" "of_int (attr_max attr) \<le> (ucast fmax :: u32)"
  defines "s' \<equiv> snd (rtl8366_sw_set_vlan_fid smi ops attr v s)"
  shows "if val_i v \<le> of_int (attr_max attr)
    then fst (rtl8366_sw_set_vlan_fid smi ops attr v s) = Inr ()
      \<and> fst (rtl8366_sw_get_vlan_fid ops attr w s') = Inr (w\<lparr>val_i := val_i v\<rparr>)
      \<and> v4k_member (v4ks (view s') (port_vlan v)) = v4k_member (v4ks (view s) (port_vlan v))
      \<and> v4k_untag (v4ks (view s') (port_vlan v)) = v4k_untag (v4ks (view s) (port_vlan v))
    else rtl8366_sw_set_vlan_fid smi ops attr v s = (Inl EINVAL, s)"
proof (cases "val_i v \<le> of_int (attr_max attr)")
  case False
  then show ?thesis using vd by (simp add: rtl8366_sw_set_vlan_fid_def not_le)
next
  case True
  let ?vid = "port_vlan v"
  let ?e = "v4ks (view s) ?vid"
  have vo: "vlan_ops smi ops ready view mmax fmax u" using sw by (rule vlan_switch.axioms(1))
  have vid: "?vid < 4096" using vlan_switch.valid_range [OF sw vd] by blast
  have "val_i v \<le> ucast fmax" using True mx(3) by (rule order_trans)
  moreover have small: "unat (val_i v) < 256"
    using calculation unat_u8_less [of fmax] by (simp add: word_le_nat_alt)
  ultimately have fid: "(ucast (val_i v) :: u8) \<le> fmax" and same: "ucast (ucast (val_i v) :: u8) = val_i v"
    by (simp_all add: word_le_nat_alt word_unat_eq_iff unsigned_ucast_eq take_bit_nat_eq_self take_bit_small)
  have fit: "v4k_fits mmax fmax (upd_4k (ucast (v4k_member ?e)) (ucast (v4k_untag ?e)) (val_i v) ?e)"
    using vlan_ops.v4k_fits_view [OF vo rd vid] fid by (simp add: v4k_fits_def upd_4k_def)
  note view = vlan_switch.set_vlan_fid_view [OF sw rd vd True, folded s'_def]
  have ok: "fst (rtl8366_sw_set_vlan_fid smi ops attr v s) = Inr ()" and r: "ready s'"
    and v': "v4ks (view s') ?vid = upd_4k (ucast (v4k_member ?e)) (ucast (v4k_untag ?e)) (val_i v) ?e"
    using view fit vid by (auto simp: vlan_set_spec_def Let_def)
  have "flags s' = flags s"
    unfolding s'_def by (rule silentD [OF vlan_switch.silent_flags_set_vlan_fid [OF sw]])
  then have "is_vlan_valid ops ?vid s'" using vd vlan_switch.valid_flags [OF sw, of s' s ?vid] by simp
  then have "fst (rtl8366_sw_get_vlan_fid ops attr w s') = Inr (w\<lparr>val_i := val_i v\<rparr>)"
    using vlan_ops.get_4k(1) [OF vo r, of ?vid] vid v' same
    by (simp add: rtl8366_sw_get_vlan_fid_def w fst_bindE upd_4k_def)
  then show ?thesis using True ok v' by (simp add: upd_4k_def)
qed

definition fid_attr :: switch_attr_info where
  "fid_attr = attr_info (rtl8366s_vlan benchS benchS_smi bench_setup ! 1)"

lemma fid_attr_max: "attr_max fid_attr = 7"
  by (simp add: fid_attr_def rtl8366s_vlan_def mk_attr_def)

theorem vlan_fid_round_trip_witness:
  "fst (rtl8366_sw_get_vlan_fid benchS_ops fid_attr benchS_val
      (snd (rtl8366_sw_set_vlan_fid benchS_smi benchS_ops fid_attr (benchS_val\<lparr>val_i := 6\<rparr>) benchS_state))) =
    Inr (benchS_val\<lparr>val_i := 6\<rparr>)"
proof -
  have "is_vlan_valid benchS_ops (port_vlan (benchS_val\<lparr>val_i := 6\<rparr>)) benchS_state"
    by (simp add: rtl8366s_smi_ops_def rtl8366s_is_vlan_valid_def benchS_val_def benchS_state_def)
  from vlan_fid_round_trip [OF benchS_vlan_switch TrueI this, of benchS_val fid_attr]
  show ?thesis by (simp add: fid_attr_max)
qed

end
