(* ===== verification/Report_Properties.thy ===== *)
theory Report_Properties
  imports Vlan_Properties
begin

text \<open>
  The text reports of the driver, written with \<open>snprintf\<close> into the 4096 bytes of
  \<open>smi->buf\<close>: the text is complete, its length is the length returned, and no call
  gets a size that has wrapped around.
\<close>

section \<open>VLAN information\<close>

definition vlan_ports_text :: "rtl8366_vlan_4k \<Rightarrow> nat list \<Rightarrow> string" where
  "vlan_ports_text e is =
    concat (map (vlan_port_text e) (filter (\<lambda>i. ucast (v4k_member e) AND BIT i \<noteq> 0) is))"

definition vlan_info_text :: "nat \<Rightarrow> rtl8366_vlan_4k \<Rightarrow> string" where
  "vlan_info_text np e = vlan_info_head e @ vlan_ports_text e [0..<np] @ vlan_info_tail e"

lemma length_dec: "n < 10 ^ k \<Longrightarrow> 0 < k \<Longrightarrow> length (dec n) \<le> k"
  unfolding dec_def by (rule length_num_text) simp_all

lemma length_hex04: "n < 65536 \<Longrightarrow> length (hex04 n) = 4"
proof -
  assume "n < 65536"
  then have "length (num_text 16 n) \<le> 4" by (intro length_num_text) simp_all
  then show ?thesis by (simp add: hex04_def Let_def)
qed

lemma vlan_info_loop_text:
  assumes "length pre + 4 * length is < 4096" "\<forall>i \<in> set is. i < 1000"
  shows "vlan_info_loop e is (Some (pre, length pre)) =
      Some (pre @ vlan_ports_text e is, length (pre @ vlan_ports_text e is))
    \<and> length (vlan_ports_text e is) \<le> 4 * length is"
  using assms
proof (induction "is" arbitrary: pre)
  case Nil
  then show ?case by (simp add: vlan_ports_text_def)
next
  case (Cons i "is")
  have len: "length (vlan_port_text e i) \<le> 4"
    using length_dec [of i 3] Cons.prems(2) by (simp add: vlan_port_text_def)
  have "buf_printf 4096 (vlan_port_text e i) (Some (pre, length pre)) =
      Some (pre @ vlan_port_text e i, length (pre @ vlan_port_text e i))"
    using Cons.prems(1) len by (intro buf_printf_fits) simp
  then show ?case
    using Cons.IH [of pre] Cons.IH [of "pre @ vlan_port_text e i"] Cons.prems len
    by (simp add: vlan_ports_text_def)
qed

text \<open>
  \<open>rtl8366_sw_get_vlan_info\<close> returns, for a valid VLAN, the complete line with its
  number, ports (a \<open>t\<close> after each tagged one), masks and filtering database: the buffer
  is never exceeded and the returned length is the length of the text.
\<close>
theorem vlan_info_complete:
  assumes "vlan_switch smi ops ready view mmax fmax u modes k4" "ready s"
    and "is_vlan_valid ops (port_vlan v) s" "num_ports smi \<le> 1000"
  defines "t \<equiv> vlan_info_text (num_ports smi) (v4ks (view s) (port_vlan v))"
  shows "fst (rtl8366_sw_get_vlan_info smi ops v s) = Inr (v\<lparr>val_s := t, val_len := length t\<rparr>)
    \<and> length t < 4096"
proof -
  let ?e = "v4ks (view s) (port_vlan v)"
  let ?m = "vlan_ports_text ?e [0..<num_ports smi]"
  have vid: "port_vlan v < 4096" using vlan_switch.valid_range [OF assms(1,3)] by blast
  have la: "length (vlan_info_head ?e) \<le> 20"
    using length_dec [of "unat (v4k_vid ?e)" 5] unat_u16_less [of "v4k_vid ?e"]
    by (simp add: vlan_info_head_def)
  have lz: "length (vlan_info_tail ?e) \<le> 40"
    using length_dec [of "unat (v4k_fid ?e)" 3] unat_u8_less [of "v4k_fid ?e"]
    by (simp add: vlan_info_tail_def length_hex04 unat_u16_less)
  have p1: "buf_printf 4096 (vlan_info_head ?e) (Some ([], 0)) =
      Some (vlan_info_head ?e, length (vlan_info_head ?e))"
    using buf_printf_fits [of "[]" "vlan_info_head ?e" 4096] la by simp
  have p2: "vlan_info_loop ?e [0..<num_ports smi] (Some (vlan_info_head ?e, length (vlan_info_head ?e))) =
      Some (vlan_info_head ?e @ ?m, length (vlan_info_head ?e @ ?m))" and lm: "length ?m \<le> 4000"
    using vlan_info_loop_text [of "vlan_info_head ?e" "[0..<num_ports smi]" ?e] la assms(4) by simp_all
  have p3: "buf_printf 4096 (vlan_info_tail ?e) (Some (vlan_info_head ?e @ ?m,
      length (vlan_info_head ?e @ ?m))) = Some (t, length t)"
    using buf_printf_fits [of "vlan_info_head ?e @ ?m" "vlan_info_tail ?e" 4096] la lm lz
    by (simp add: t_def vlan_info_text_def)
  have "fst (get_vlan_4k ops (port_vlan v) s) = Inr ?e"
    using vlan_ops.get_4k(1) [OF vlan_switch.axioms(1) [OF assms(1)] assms(2), of "port_vlan v"] vid
    by simp
  moreover have "length t < 4096" using la lm lz by (simp add: t_def vlan_info_text_def)
  ultimately show ?thesis
    using assms(3) p1 p2 p3 by (simp add: rtl8366_sw_get_vlan_info_def fst_bindE)
qed

theorem vlan_info_complete_witness:
  "length (vlan_info_text 6 (v4ks (benchS_view benchS_state) 3)) < 4096
   \<and> fst (rtl8366_sw_get_vlan_info benchS_smi benchS_ops benchS_val benchS_state) =
      Inr (benchS_val\<lparr>val_s := vlan_info_text 6 (v4ks (benchS_view benchS_state) 3),
        val_len := length (vlan_info_text 6 (v4ks (benchS_view benchS_state) 3))\<rparr>)"
  using vlan_info_complete [OF benchS_vlan_switch TrueI benchS_valid] by (simp add: benchS_val_def)

section \<open>MIB counters\<close>

definition mib_line :: "rtl8366_smi \<Rightarrow> nat \<times> (errno + u64) \<Rightarrow> string" where
  "mib_line smi ir = mib_name_text (mib_name (mib_counters smi ! fst ir)) @
     (case snd ir of Inr counter \<Rightarrow> dec (unat counter) | Inl e \<Rightarrow> ''error'') @ line_feed"

lemma length_mib_name: "length name \<le> 36 \<Longrightarrow> length (mib_name_text name) = 38"
  by (simp add: mib_name_text_def pad_right_def)

lemma length_mib_value:
  "length (case r of Inr counter \<Rightarrow> dec (unat (counter :: u64)) | Inl e \<Rightarrow> ''error'') \<le> 20"
proof (cases r)
  case (Inr counter)
  have "unat counter < 2 ^ LENGTH(64)" by (rule unsigned_less)
  then have "unat counter < 10 ^ 20" by simp
  then show ?thesis using Inr length_dec [of "unat counter" 20] by simp
qed simp

lemma mib_line_printf:
  assumes "length pre + 59 < 4096" "length (mib_name (mib_counters smi ! i)) \<le> 36"
  shows "buf_printf 4096
      ((case r of Inr counter \<Rightarrow> dec (unat (counter :: u64)) | Inl e \<Rightarrow> ''error'') @ line_feed)
      (buf_printf 4096 (mib_name_text (mib_name (mib_counters smi ! i))) (Some (pre, length pre))) =
    Some (pre @ mib_line smi (i, r), length (pre @ mib_line smi (i, r)))"
    "length (mib_line smi (i, r)) \<le> 59"
proof -
  let ?n = "mib_name_text (mib_name (mib_counters smi ! i))"
  let ?v = "(case r of Inr counter \<Rightarrow> dec (unat counter) | Inl e \<Rightarrow> ''error'') @ line_feed"
  have n: "length ?n = 38" using assms(2) by (rule length_mib_name)
  have v: "length ?v \<le> 21" using length_mib_value [of r] by (simp add: line_feed_def)
  have "buf_printf 4096 ?n (Some (pre, length pre)) = Some (pre @ ?n, length (pre @ ?n))"
    using assms(1) n by (intro buf_printf_fits) simp
  moreover have "buf_printf 4096 ?v (Some (pre @ ?n, length (pre @ ?n))) =
      Some ((pre @ ?n) @ ?v, length ((pre @ ?n) @ ?v))"
    using assms(1) n v by (intro buf_printf_fits) simp
  ultimately show "buf_printf 4096 ?v (buf_printf 4096 ?n (Some (pre, length pre))) =
      Some (pre @ mib_line smi (i, r), length (pre @ mib_line smi (i, r)))"
    by (simp only: mib_line_def fst_conv snd_conv append_assoc)
  show "length (mib_line smi (i, r)) \<le> 59" using n v by (simp add: mib_line_def)
qed

lemma port_mib_loop_text:
  assumes "length pre + 59 * length is < 4096"
    and "\<forall>i \<in> set is. length (mib_name (mib_counters smi ! i)) \<le> 36"
  shows "\<exists>rs. length rs = length is \<and>
    length (concat (map (mib_line smi) (zip is rs))) \<le> 59 * length is \<and>
    fst (port_mib_loop smi ops port is (Some (pre, length pre)) s) =
      Inr (Some (pre @ concat (map (mib_line smi) (zip is rs)),
                 length (pre @ concat (map (mib_line smi) (zip is rs)))))"
  using assms
proof (induction "is" arbitrary: pre s)
  case Nil
  then show ?case by simp
next
  case (Cons i "is")
  obtain r s' where run: "get_mib_counter ops i port s = (r, s')" by (cases "get_mib_counter ops i port s")
  note line = mib_line_printf [of pre smi i r]
  let ?pre = "pre @ mib_line smi (i, r)"
  have pre: "length pre + 59 < 4096" "length (mib_name (mib_counters smi ! i)) \<le> 36"
    using Cons.prems by simp_all
  have fits: "length ?pre + 59 * length is < 4096"
    using Cons.prems(1) line(2) [OF pre] by simp
  obtain rs where rs: "length rs = length is"
    "length (concat (map (mib_line smi) (zip is rs))) \<le> 59 * length is"
    "fst (port_mib_loop smi ops port is (Some (?pre, length ?pre)) s') =
      Inr (Some (?pre @ concat (map (mib_line smi) (zip is rs)),
                 length (?pre @ concat (map (mib_line smi) (zip is rs)))))"
    using Cons.IH [OF fits, of s'] Cons.prems(2) by auto
  have "port_mib_loop smi ops port (i # is) (Some (pre, length pre)) s =
      port_mib_loop smi ops port is (Some (?pre, length ?pre)) s'"
    using line(1) [OF pre] run by (cases r) (simp_all add: Let_def)
  then show ?case using rs line(2) [OF pre] by (intro exI [of _ "r # rs"]) simp
qed

text \<open>
  \<open>rtl8366_sw_get_port_mib\<close> lists every counter of the port, one line each with the
  value or the word \<open>error\<close>: with the counter names and the number of counters that the
  four chips have, the text always fits the buffer.
\<close>
theorem port_mib_report_fits:
  assumes "unat (port_vlan v) < num_ports smi" "num_ports smi \<le> 10"
    and "num_mib_counters smi \<le> 68"
    and "\<forall>i < num_mib_counters smi. length (mib_name (mib_counters smi ! i)) \<le> 36"
  shows "\<exists>rs. length rs = num_mib_counters smi \<and>
    (let t = mib_head_text (unat (port_vlan v)) @
        concat (map (mib_line smi) (zip [0..<num_mib_counters smi] rs))
     in length t < 4096 \<and>
        fst (rtl8366_sw_get_port_mib smi ops v s) = Inr (v\<lparr>val_s := t, val_len := length t\<rparr>))"
proof -
  let ?port = "unat (port_vlan v)" and ?is = "[0..<num_mib_counters smi]"
  let ?h = "mib_head_text ?port"
  have h: "length ?h \<le> 20"
    using length_dec [of ?port 1] assms(1,2) by (simp add: mib_head_text_def line_feed_def)
  have p1: "buf_printf 4096 ?h (Some ([], 0)) = Some (?h, length ?h)"
    using buf_printf_fits [of "[]" ?h 4096] h by simp
  obtain rs where rs: "length rs = length ?is"
    "length (concat (map (mib_line smi) (zip ?is rs))) \<le> 59 * length ?is"
    "fst (port_mib_loop smi ops ?port ?is (Some (?h, length ?h)) s) =
      Inr (Some (?h @ concat (map (mib_line smi) (zip ?is rs)),
                 length (?h @ concat (map (mib_line smi) (zip ?is rs)))))"
    using port_mib_loop_text [of ?h ?is smi ops ?port s] h assms(3,4) by auto
  show ?thesis
  proof (intro exI [of _ rs] conjI)
    show "length rs = num_mib_counters smi" using rs(1) by simp
    show "let t = ?h @ concat (map (mib_line smi) (zip ?is rs)) in length t < 4096 \<and>
        fst (rtl8366_sw_get_port_mib smi ops v s) = Inr (v\<lparr>val_s := t, val_len := length t\<rparr>)"
      using rs(2,3) h p1 assms(1,3)
      by (simp add: rtl8366_sw_get_port_mib_def fst_bindE Let_def)
  qed
qed

theorem port_mib_report_fits_witness:
  "\<exists>t. length t < 4096 \<and> fst (rtl8366_sw_get_port_mib benchS_smi benchS_ops benchS_val benchS_state) =
     Inr (benchS_val\<lparr>val_s := t, val_len := length t\<rparr>)"
proof -
  have n: "num_mib_counters benchS_smi = 33" "mib_counters benchS_smi = rtl8366s_mib_counters"
    by (simp_all add: benchS_smi_def rtl8366s_smi_def rtl8366s_mib_counters_def)
  have "list_all (\<lambda>c. length (mib_name c) \<le> 36) rtl8366s_mib_counters" "length rtl8366s_mib_counters = 33"
    by (simp_all add: rtl8366s_mib_counters_def)
  then have "\<forall>i < 33. length (mib_name (rtl8366s_mib_counters ! i)) \<le> 36"
    by (simp add: list_all_length)
  then show ?thesis
    using port_mib_report_fits [of benchS_val benchS_smi benchS_ops benchS_state] n
    by (auto simp: Let_def benchS_val_def)
qed

end
