(* ===== verification/Swconfig.thy ===== *)
theory Swconfig
  imports Switch_Types
begin

text \<open>
  The configuration layer \<open>swconfig.c\<close>: default attributes, attribute lookup, the set
  requests, and the registry of switches. A request is the parsed netlink message; the operations
  of all drivers act on one world state \<open>'s\<close>. Mutexes are not modelled; the kernel's memory
  services that can fail are parameters. LED triggers, which can be configured out, are added in
  \<open>Swconfig_Leds\<close>. The get, list and
  dump requests, which write messages, are in \<open>Swconfig_Reply\<close>.
\<close>

section \<open>Switches and requests\<close>

record 's switch_dev =
  dev_ops :: "'s switch_dev_ops"
  devname :: string
  dev_name :: string
  dev_alias :: string
  dev_ports :: u32
  dev_vlans :: u32
  dev_cpu_port :: u32
  dev_id :: u32
  def_global :: u32
  def_port :: u32
  def_vlan :: u32
  portmap :: "(string \<times> u32) option list"

datatype switch_cmd =
    SWITCH_CMD_UNSPEC | SWITCH_CMD_GET_SWITCH | SWITCH_CMD_NEW_ATTR
  | SWITCH_CMD_LIST_GLOBAL | SWITCH_CMD_GET_GLOBAL | SWITCH_CMD_SET_GLOBAL
  | SWITCH_CMD_LIST_PORT | SWITCH_CMD_GET_PORT | SWITCH_CMD_SET_PORT
  | SWITCH_CMD_LIST_VLAN | SWITCH_CMD_GET_VLAN | SWITCH_CMD_SET_VLAN

text \<open>
  \<open>nla_ports\<close>: the entries of the nested port list, \<open>None\<close> for one that the
  netlink parser rejects, else the port number, if present, and the tagged flag.
  \<open>nla_link\<close>: the duplex and autonegotiation flags and the speed, if present.
\<close>

record genl_info =
  info_cmd :: switch_cmd
  attr_ID :: "u32 option"
  attr_OP_ID :: "u32 option"
  attr_OP_PORT :: "u32 option"
  attr_OP_VLAN :: "u32 option"
  attr_OP_VALUE_INT :: "u32 option"
  attr_OP_VALUE_STR :: "string option"
  attr_OP_VALUE_PORTS :: "(u32 option \<times> bool) option list option"
  attr_OP_VALUE_LINK :: "(bool \<times> bool \<times> u32 option) option option"

section \<open>Defaults\<close>

definition zero_link :: switch_port_link where
  "zero_link = \<lparr>link = False, duplex = False, aneg = False, tx_flow = False, rx_flow = False,
     speed = 0, eee = 0\<rparr>"

definition zero_val :: switch_val where
  "zero_val = \<lparr>port_vlan = 0, val_len = 0, val_s = [], val_i = 0, val_ports = [],
     val_link = zero_link\<rparr>"

definition swconfig_get_vlan_ports ::
  "'s switch_dev \<Rightarrow> switch_attr_info \<Rightarrow> switch_val \<Rightarrow> ('s, switch_val) io" where
  "swconfig_get_vlan_ports dev attr v =
    (if port_vlan v \<ge> dev_vlans dev then failE EINVAL
     else case get_vlan_ports (dev_ops dev) of None \<Rightarrow> failE EOPNOTSUPP | Some f \<Rightarrow> f v)"

primrec set_untagged_pvids ::
  "'s switch_dev \<Rightarrow> u32 \<Rightarrow> switch_port list \<Rightarrow> ('s, unit) io" where
  "set_untagged_pvids dev vid [] = retE ()"
| "set_untagged_pvids dev vid (p # ps) =
    (if port_id p \<ge> dev_ports dev then failE EINVAL
     else bindE (case set_port_pvid (dev_ops dev) of None \<Rightarrow> retE ()
                 | Some f \<Rightarrow> if port_flags p AND BIT SWITCH_PORT_FLAG_TAGGED = 0
                            then ignoreE (f (unat (port_id p)) vid) else retE ()) (\<lambda>_.
          set_untagged_pvids dev vid ps))"

definition swconfig_set_vlan_ports ::
  "'s switch_dev \<Rightarrow> switch_attr_info \<Rightarrow> switch_val \<Rightarrow> ('s, unit) io" where
  "swconfig_set_vlan_ports dev attr v =
    (if port_vlan v \<ge> dev_vlans dev then failE EINVAL
     else if val_len v > unat (dev_ports dev) then failE EINVAL
     else case set_vlan_ports (dev_ops dev) of None \<Rightarrow> failE EOPNOTSUPP
     | Some f \<Rightarrow> bindE (set_untagged_pvids dev (port_vlan v) (take (val_len v) (val_ports v))) (\<lambda>_.
                 f v))"

definition swconfig_set_pvid ::
  "'s switch_dev \<Rightarrow> switch_attr_info \<Rightarrow> switch_val \<Rightarrow> ('s, unit) io" where
  "swconfig_set_pvid dev attr v =
    (if port_vlan v \<ge> dev_ports dev then failE EINVAL
     else case set_port_pvid (dev_ops dev) of None \<Rightarrow> failE EOPNOTSUPP
     | Some f \<Rightarrow> f (unat (port_vlan v)) (val_i v))"

definition swconfig_get_pvid ::
  "'s switch_dev \<Rightarrow> switch_attr_info \<Rightarrow> switch_val \<Rightarrow> ('s, switch_val) io" where
  "swconfig_get_pvid dev attr v =
    (if port_vlan v \<ge> dev_ports dev then failE EINVAL
     else case get_port_pvid (dev_ops dev) of None \<Rightarrow> failE EOPNOTSUPP
     | Some f \<Rightarrow> bindE (f (unat (port_vlan v))) (\<lambda>i. retE (v\<lparr>val_i := i\<rparr>)))"

definition swconfig_set_link ::
  "'s switch_dev \<Rightarrow> switch_attr_info \<Rightarrow> switch_val \<Rightarrow> ('s, unit) io" where
  "swconfig_set_link dev attr v =
    (case set_port_link (dev_ops dev) of None \<Rightarrow> failE EOPNOTSUPP
     | Some f \<Rightarrow> f (unat (port_vlan v)) (val_link v))"

definition swconfig_get_link ::
  "'s switch_dev \<Rightarrow> switch_attr_info \<Rightarrow> switch_val \<Rightarrow> ('s, switch_val) io" where
  "swconfig_get_link dev attr v =
    (if port_vlan v \<ge> dev_ports dev then failE EINVAL
     else case get_port_link (dev_ops dev) of None \<Rightarrow> failE EOPNOTSUPP
     | Some f \<Rightarrow> bindE (f (unat (port_vlan v)) zero_link) (\<lambda>l. retE (v\<lparr>val_link := l\<rparr>)))"

definition swconfig_apply_config ::
  "'s switch_dev \<Rightarrow> switch_attr_info \<Rightarrow> switch_val \<Rightarrow> ('s, unit) io" where
  "swconfig_apply_config dev attr v =
    (case apply_config (dev_ops dev) of None \<Rightarrow> retE () | Some f \<Rightarrow> f)"

definition swconfig_reset_switch ::
  "'s switch_dev \<Rightarrow> switch_attr_info \<Rightarrow> switch_val \<Rightarrow> ('s, unit) io" where
  "swconfig_reset_switch dev attr v =
    (case reset_switch (dev_ops dev) of None \<Rightarrow> retE () | Some f \<Rightarrow> f)"

abbreviation (input) GLOBAL_APPLY :: nat where "GLOBAL_APPLY \<equiv> 0"
abbreviation (input) GLOBAL_RESET :: nat where "GLOBAL_RESET \<equiv> 1"
abbreviation (input) VLAN_PORTS :: nat where "VLAN_PORTS \<equiv> 0"
abbreviation (input) PORT_PVID :: nat where "PORT_PVID \<equiv> 0"
abbreviation (input) PORT_LINK :: nat where "PORT_LINK \<equiv> 1"

definition default_global :: "'s switch_dev \<Rightarrow> 's switch_attr list" where
  "default_global dev = [
    mk_attr SWITCH_TYPE_NOVAL ''apply'' ''Activate changes in the hardware'' 0 0
      (Some (swconfig_apply_config dev)) None,
    mk_attr SWITCH_TYPE_NOVAL ''reset'' ''Reset the switch'' 0 0
      (Some (swconfig_reset_switch dev)) None]"

definition default_port :: "'s switch_dev \<Rightarrow> 's switch_attr list" where
  "default_port dev = [
    mk_attr SWITCH_TYPE_INT ''pvid'' ''Primary VLAN ID'' 0 0
      (Some (swconfig_set_pvid dev)) (Some (swconfig_get_pvid dev)),
    mk_attr SWITCH_TYPE_LINK ''link'' ''Get port link information'' 0 0
      (Some (swconfig_set_link dev)) (Some (swconfig_get_link dev))]"

definition default_vlan :: "'s switch_dev \<Rightarrow> 's switch_attr list" where
  "default_vlan dev = [
    mk_attr SWITCH_TYPE_PORTS ''ports'' ''VLAN port mapping'' 0 0
      (Some (swconfig_set_vlan_ports dev)) (Some (swconfig_get_vlan_ports dev))]"

primrec swconfig_find_attr_by_name :: "'s switch_attr list \<Rightarrow> string \<Rightarrow> 's switch_attr option" where
  "swconfig_find_attr_by_name [] name = None"
| "swconfig_find_attr_by_name (a # as) name =
    (if name = attr_name (attr_info a) then Some a else swconfig_find_attr_by_name as name)"

definition swconfig_defaults_init :: "'s switch_dev \<Rightarrow> 's switch_dev" where
  "swconfig_defaults_init dev =
    (let ops = dev_ops dev;
         v = (if get_vlan_ports ops \<noteq> None \<or> set_vlan_ports ops \<noteq> None then BIT VLAN_PORTS else 0);
         p = (if get_port_pvid ops \<noteq> None \<or> set_port_pvid ops \<noteq> None then BIT PORT_PVID else 0);
         p = (if get_port_link ops \<noteq> None \<and> swconfig_find_attr_by_name (attr_port ops) ''link'' = None
              then p OR BIT PORT_LINK else p)
     in dev\<lparr>def_global := BIT GLOBAL_APPLY OR BIT GLOBAL_RESET, def_vlan := v, def_port := p\<rparr>)"

section \<open>Lookup\<close>

definition swconfig_get_dev :: "'s switch_dev list \<Rightarrow> genl_info \<Rightarrow> 's switch_dev option" where
  "swconfig_get_dev swdevs info =
    (case attr_ID info of None \<Rightarrow> None | Some n \<Rightarrow> find (\<lambda>p. n = dev_id p) swdevs)"

abbreviation (input) SWITCH_ATTR_DEFAULTS_OFFSET :: nat where "SWITCH_ATTR_DEFAULTS_OFFSET \<equiv> 0x1000"

definition pick_attr ::
  "'s switch_attr list \<Rightarrow> 's switch_attr list \<Rightarrow> u32 \<Rightarrow> nat \<Rightarrow> 's switch_attr option" where
  "pick_attr alist def_list def_active op_id =
    (let a = (if op_id \<ge> SWITCH_ATTR_DEFAULTS_OFFSET
              then let i = op_id - SWITCH_ATTR_DEFAULTS_OFFSET
                   in if i \<ge> length def_list then None
                      else if \<not> bit def_active i then None
                      else Some (def_list ! i)
              else if op_id \<ge> length alist then None
              else Some (alist ! op_id))
     in case a of None \<Rightarrow> None | Some a \<Rightarrow> if attr_disabled (attr_info a) then None else Some a)"

definition swconfig_lookup_attr ::
  "'s switch_dev \<Rightarrow> genl_info \<Rightarrow> switch_val \<Rightarrow> 's switch_attr option \<times> switch_val" where
  "swconfig_lookup_attr dev info v =
    (case attr_OP_ID info of None \<Rightarrow> (None, v)
     | Some op_id \<Rightarrow>
       if info_cmd info = SWITCH_CMD_SET_GLOBAL \<or> info_cmd info = SWITCH_CMD_GET_GLOBAL then
         (pick_attr (attr_global (dev_ops dev)) (default_global dev) (def_global dev) (unat op_id), v)
       else if info_cmd info = SWITCH_CMD_SET_VLAN \<or> info_cmd info = SWITCH_CMD_GET_VLAN then
         (case attr_OP_VLAN info of None \<Rightarrow> (None, v)
          | Some n \<Rightarrow> let v = v\<lparr>port_vlan := n\<rparr>
              in if n \<ge> dev_vlans dev then (None, v)
                 else (pick_attr (attr_vlan (dev_ops dev)) (default_vlan dev) (def_vlan dev) (unat op_id), v))
       else if info_cmd info = SWITCH_CMD_SET_PORT \<or> info_cmd info = SWITCH_CMD_GET_PORT then
         (case attr_OP_PORT info of None \<Rightarrow> (None, v)
          | Some n \<Rightarrow> let v = v\<lparr>port_vlan := n\<rparr>
              in if n \<ge> dev_ports dev then (None, v)
                 else (pick_attr (attr_port (dev_ops dev)) (default_port dev) (def_port dev) (unat op_id), v))
       else (None, v))"

section \<open>Set requests\<close>

fun parse_ports_loop ::
  "nat \<Rightarrow> (u32 option \<times> bool) option list \<Rightarrow> switch_port list \<Rightarrow> errno + switch_port list" where
  "parse_ports_loop mx [] ps = Inr ps"
| "parse_ports_loop mx (nla # rest) ps =
    (if length ps \<ge> mx then Inl EINVAL
     else case nla of None \<Rightarrow> Inl EINVAL
     | Some (None, tag) \<Rightarrow> Inl EINVAL
     | Some (Some n, tag) \<Rightarrow>
         parse_ports_loop mx rest
           (ps @ [\<lparr>port_id = n, port_flags = (if tag then BIT SWITCH_PORT_FLAG_TAGGED else 0)\<rparr>]))"

definition swconfig_parse_ports ::
  "(u32 option \<times> bool) option list \<Rightarrow> switch_val \<Rightarrow> nat \<Rightarrow> errno + switch_val" where
  "swconfig_parse_ports head v mx =
    (case parse_ports_loop mx head [] of Inl e \<Rightarrow> Inl e
     | Inr ps \<Rightarrow> Inr (v\<lparr>val_ports := ps, val_len := length ps\<rparr>))"

definition swconfig_parse_link ::
  "(bool \<times> bool \<times> u32 option) option \<Rightarrow> switch_port_link \<Rightarrow> errno + switch_port_link" where
  "swconfig_parse_link nla lnk =
    (case nla of None \<Rightarrow> Inl EINVAL
     | Some (dup, an, sp) \<Rightarrow>
         (case sp of None \<Rightarrow> Inl NULL_DEREF
          | Some n \<Rightarrow> Inr (lnk\<lparr>duplex := dup, aneg := an, speed := n\<rparr>)))"

definition set_attr_value ::
  "'s switch_dev \<Rightarrow> genl_info \<Rightarrow> switch_val_type \<Rightarrow> switch_val \<Rightarrow> errno + switch_val" where
  "set_attr_value dev info ty v =
    (case ty of
       SWITCH_TYPE_NOVAL \<Rightarrow> Inr v
     | SWITCH_TYPE_INT \<Rightarrow> (case attr_OP_VALUE_INT info of None \<Rightarrow> Inl EINVAL | Some i \<Rightarrow> Inr (v\<lparr>val_i := i\<rparr>))
     | SWITCH_TYPE_STRING \<Rightarrow> (case attr_OP_VALUE_STR info of None \<Rightarrow> Inl EINVAL | Some t \<Rightarrow> Inr (v\<lparr>val_s := t\<rparr>))
     | SWITCH_TYPE_PORTS \<Rightarrow>
         (case attr_OP_VALUE_PORTS info of
            None \<Rightarrow> Inr (v\<lparr>val_ports := [], val_len := 0\<rparr>)
          | Some head \<Rightarrow> swconfig_parse_ports head v (unat (dev_ports dev)))
     | SWITCH_TYPE_LINK \<Rightarrow>
         (case attr_OP_VALUE_LINK info of
            None \<Rightarrow> Inr (v\<lparr>val_link := zero_link, val_len := 0\<rparr>)
          | Some nla \<Rightarrow> (case swconfig_parse_link nla zero_link of Inl e \<Rightarrow> Inl e
                          | Inr l \<Rightarrow> Inr (v\<lparr>val_link := l\<rparr>)))
     | SWITCH_TYPE_UNSPEC \<Rightarrow> Inl EINVAL)"

definition swconfig_set_attr ::
  "'s switch_dev list \<Rightarrow> bool \<Rightarrow> genl_info \<Rightarrow> ('s, unit) io" where
  "swconfig_set_attr swdevs cap_net_admin info =
    (if \<not> cap_net_admin then failE EPERM
     else case swconfig_get_dev swdevs info of None \<Rightarrow> failE EINVAL
     | Some dev \<Rightarrow>
        (case swconfig_lookup_attr dev info zero_val of
           (None, v) \<Rightarrow> failE EINVAL
         | (Some attr, v) \<Rightarrow>
             (case attr_set attr of None \<Rightarrow> failE EINVAL
              | Some f \<Rightarrow> (case set_attr_value dev info (attr_type (attr_info attr)) v of
                  Inl e \<Rightarrow> failE e | Inr v \<Rightarrow> f (attr_info attr) v))))"

section \<open>The registry\<close>

record 's registry =
  swdev_id :: nat
  swdevs :: "'s switch_dev list"
  sw_mem :: nat

abbreviation (input) INT_MAX :: nat where "INT_MAX \<equiv> 0x7FFFFFFF"

text \<open>
  A child node of the device tree: \<open>of_segment\<close> when it is compatible with
  \<open>swconfig,port\<close> and has a segment, \<open>of_portmap\<close> the cells of its port map with
  their size in bytes.
\<close>

record of_port =
  of_segment :: "string option"
  of_portmap :: "(nat \<times> u32 \<times> u32) option"

primrec of_switch_load_portmap ::
  "u32 \<Rightarrow> of_port list \<Rightarrow> (string \<times> u32) option list \<Rightarrow> (string \<times> u32) option list" where
  "of_switch_load_portmap ports [] pm = pm"
| "of_switch_load_portmap ports (node # nodes) pm =
    of_switch_load_portmap ports nodes
      (case (of_segment node, of_portmap node) of
         (Some segment, Some (nbytes, phys, virt)) \<Rightarrow>
           if nbytes \<noteq> 8 then pm
           else if sint phys < 0 \<or> phys \<ge> ports then pm
           else pm[unat phys := Some (segment, virt)]
       | _ \<Rightarrow> pm)"

fun scan_digits :: "string \<Rightarrow> nat \<Rightarrow> nat" where
  "scan_digits [] n = n"
| "scan_digits (c # cs) n =
    (let d = of_char c in if 48 \<le> d \<and> d \<le> (57 :: nat) then scan_digits cs (10 * n + (d - 48)) else n)"

text \<open>\<open>sscanf(name, "switch%d", &i)\<close> on names without a sign.\<close>

definition scan_devname :: "string \<Rightarrow> nat option" where
  "scan_devname name =
    (if take 6 name \<noteq> ''switch'' then None
     else case drop 6 name of [] \<Rightarrow> None
       | c # cs \<Rightarrow> let d = of_char c in if 48 \<le> d \<and> d \<le> (57 :: nat)
                   then Some (scan_digits (c # cs) 0) else None)"

definition used_numbers :: "nat \<Rightarrow> 's switch_dev list \<Rightarrow> nat list" where
  "used_numbers max_switches devs =
    filter (\<lambda>i. i \<le> max_switches) (List.map_filter (\<lambda>d. scan_devname (devname d)) devs)"

definition find_first_zero_bit :: "nat list \<Rightarrow> nat \<Rightarrow> nat" where
  "find_first_zero_bit used n = (case find (\<lambda>i. i \<notin> set used) [0..<n] of None \<Rightarrow> n | Some i \<Rightarrow> i)"

definition switch_name :: "nat \<Rightarrow> string" where
  "switch_name i = ''switch'' @ dec i"

text \<open>
  The arrays \<open>portbuf\<close> and \<open>portmap\<close> that a registration takes from the heap; \<open>sw_mem\<close> counts
  those that are not freed.
\<close>

definition port_arrays :: "'s switch_dev \<Rightarrow> nat" where
  "port_arrays dev = (if dev_ports dev > 0 then 2 else 0)"

text \<open>
  Registration up to the end of the locked part: \<open>max_switches\<close> is the number of bits of an
  \<open>unsigned long\<close>, \<open>alloc1\<close> and \<open>alloc2\<close> whether the two allocations succeed. On \<open>ENFILE\<close>
  both arrays stay allocated.
\<close>

definition list_switch ::
  "nat \<Rightarrow> bool \<Rightarrow> bool \<Rightarrow> of_port list \<Rightarrow> 's switch_dev \<Rightarrow> ('s registry, 's switch_dev) io" where
  "list_switch max_switches alloc1 alloc2 nodes dev r =
    (if swdev_id r = INT_MAX then (Inl ENOMEM, r)
     else if dev_ports dev > 0 \<and> \<not> (alloc1 \<and> alloc2) then (Inl ENOMEM, r)
     else let r = r\<lparr>sw_mem := sw_mem r + port_arrays dev\<rparr>;
              dev = swconfig_defaults_init (dev\<lparr>portmap := replicate (unat (dev_ports dev)) None\<rparr>);
              r = r\<lparr>swdev_id := swdev_id r + 1\<rparr>;
              dev = dev\<lparr>dev_id := of_nat (swdev_id r)\<rparr>;
              used = used_numbers max_switches (swdevs r);
              i = find_first_zero_bit used max_switches
          in if max_switches \<in> set used then (Inl BUF_OVERRUN, r)
             else if i = max_switches then (Inl ENFILE, r)
             else let dev = (if dev_ports dev > 0
                        then dev\<lparr>portmap := of_switch_load_portmap (dev_ports dev) nodes (portmap dev)\<rparr>
                        else dev);
                      dev = dev\<lparr>devname := switch_name i\<rparr>
                  in (Inr dev, r\<lparr>swdevs := swdevs r @ [dev]\<rparr>))"

text \<open>
  The LED trigger is created after the switch has been put on the list; a driver without
  \<open>get_port_link\<close> gets none. \<open>led\<close> is the error of its allocation or its registration, \<open>None\<close>
  when both succeed or when the kernel is built without LED triggers. On an error the switch stays
  on the list and the arrays stay allocated.
\<close>

definition led_trigger_outcome :: "errno option \<Rightarrow> 's switch_dev \<Rightarrow> errno option" where
  "led_trigger_outcome led dev = (if get_port_link (dev_ops dev) = None then None else led)"

definition register_switch ::
  "nat \<Rightarrow> bool \<Rightarrow> bool \<Rightarrow> errno option \<Rightarrow> of_port list \<Rightarrow> 's switch_dev \<Rightarrow> ('s registry, 's switch_dev) io" where
  "register_switch max_switches alloc1 alloc2 led nodes dev =
    bindE (list_switch max_switches alloc1 alloc2 nodes dev) (\<lambda>dev.
    case led_trigger_outcome led dev of Some err \<Rightarrow> failE err | None \<Rightarrow> retE dev)"

lemmas register_switch_run = register_switch_def list_switch_def bindE_def retE_def failE_def

text \<open>
  Removal destroys the LED trigger, which is no part of the registry (\<open>swconfig_destroy_led_trigger\<close> is
  modelled beside the triggers), frees \<open>portbuf\<close> and takes the switch off the list; \<open>portmap\<close>
  stays allocated.
\<close>

definition unregister_switch :: "u32 \<Rightarrow> 's registry \<Rightarrow> 's registry" where
  "unregister_switch n r =
    r\<lparr>sw_mem := sw_mem r - length (filter (\<lambda>d. dev_id d = n \<and> dev_ports d > 0) (swdevs r)),
      swdevs := filter (\<lambda>d. dev_id d \<noteq> n) (swdevs r)\<rparr>"

section \<open>Generic link settings\<close>

abbreviation (input) MII_BMCR :: u8 where "MII_BMCR \<equiv> 0"
abbreviation (input) BMCR_ANENABLE :: u16 where "BMCR_ANENABLE \<equiv> 0x1000"
abbreviation (input) BMCR_ANRESTART :: u16 where "BMCR_ANRESTART \<equiv> 0x0200"
abbreviation (input) BMCR_FULLDPLX :: u16 where "BMCR_FULLDPLX \<equiv> 0x0100"
abbreviation (input) BMCR_SPEED100 :: u16 where "BMCR_SPEED100 \<equiv> 0x2000"
abbreviation (input) BMCR_SPEED1000 :: u16 where "BMCR_SPEED1000 \<equiv> 0x0040"

definition switch_generic_set_link ::
  "'s switch_dev \<Rightarrow> nat \<Rightarrow> switch_port_link \<Rightarrow> ('s, unit) io" where
  "switch_generic_set_link dev port lnk =
    (case phy_write16 (dev_ops dev) of None \<Rightarrow> failE ENOTSUPP
     | Some wr \<Rightarrow>
       if aneg lnk
       then bindE (ignoreE (wr port MII_BMCR 0x0000)) (\<lambda>_.
            ignoreE (wr port MII_BMCR (BMCR_ANENABLE OR BMCR_ANRESTART)))
       else let bmcr = (if duplex lnk then BMCR_FULLDPLX else 0)
            in if speed lnk = SWITCH_PORT_SPEED_10 then ignoreE (wr port MII_BMCR bmcr)
               else if speed lnk = SWITCH_PORT_SPEED_100
               then ignoreE (wr port MII_BMCR (bmcr OR BMCR_SPEED100))
               else if speed lnk = SWITCH_PORT_SPEED_1000
               then ignoreE (wr port MII_BMCR (bmcr OR BMCR_SPEED1000))
               else failE ENOTSUPP)"

end
