(* ===== verification/Rtl8367_Common.thy ===== *)
theory Rtl8367_Common
  imports Rtl8366_Common
begin

text \<open>
  What the RTL8367 and RTL8367B drivers share: the settings of the external interfaces from
  \<open>linux/rtl8367.h\<close>, the wait for the PHY access unit, and the order in which the words of a
  MIB counter are fetched.
\<close>

section \<open>External interfaces\<close>

record rtl8367_port_ability =
  force_mode :: u32
  nway :: u32
  txpause :: u32
  rxpause :: u32
  pa_link :: u32
  pa_duplex :: u32
  pa_speed :: u32

record rtl8367_extif_config =
  txdelay :: u32
  rxdelay :: u32
  extif_mode :: u32
  ability :: rtl8367_port_ability

abbreviation (input) RTL8367_EXTIF_MODE_DISABLED :: u32 where "RTL8367_EXTIF_MODE_DISABLED \<equiv> 0"
abbreviation (input) RTL8367_EXTIF_MODE_RGMII :: u32 where "RTL8367_EXTIF_MODE_RGMII \<equiv> 1"
abbreviation (input) RTL8367_EXTIF_MODE_MII_MAC :: u32 where "RTL8367_EXTIF_MODE_MII_MAC \<equiv> 2"
abbreviation (input) RTL8367_EXTIF_MODE_MII_PHY :: u32 where "RTL8367_EXTIF_MODE_MII_PHY \<equiv> 3"
abbreviation (input) RTL8367_EXTIF_MODE_TMII_MAC :: u32 where "RTL8367_EXTIF_MODE_TMII_MAC \<equiv> 4"
abbreviation (input) RTL8367_EXTIF_MODE_TMII_PHY :: u32 where "RTL8367_EXTIF_MODE_TMII_PHY \<equiv> 5"
abbreviation (input) RTL8367_EXTIF_MODE_GMII :: u32 where "RTL8367_EXTIF_MODE_GMII \<equiv> 6"
abbreviation (input) RTL8367_EXTIF_MODE_RGMII_33V :: u32 where "RTL8367_EXTIF_MODE_RGMII_33V \<equiv> 7"

text \<open>
  What the device supplies: whether it has a device tree node; the property of each external
  interface with its length in bytes, its cells in the byte order of the CPU; whether the
  allocation of the parsed settings succeeds; and the settings in the platform data, if any.
\<close>

record setup67_data =
  has_of_node :: bool
  extif_prop :: "nat \<Rightarrow> (nat \<times> u32 list) option"
  cfg_alloc_ok :: bool
  pdata_extifs :: "(rtl8367_extif_config option \<times> rtl8367_extif_config option) option"

definition of_extif_config :: "u32 list \<Rightarrow> rtl8367_extif_config" where
  "of_extif_config cells = \<lparr>txdelay = cells ! 0, rxdelay = cells ! 1, extif_mode = cells ! 2,
     ability = \<lparr>force_mode = cells ! 3, nway = 0, txpause = cells ! 4, rxpause = cells ! 5,
       pa_link = cells ! 6, pa_duplex = cells ! 7, pa_speed = cells ! 8\<rparr>\<rparr>"

definition extif_force_val :: "rtl8367_port_ability \<Rightarrow> u32" where
  "extif_force_val pa =
    pa_speed pa OR
    ((if force_mode pa \<noteq> 0 then BIT 12 else 0) OR
    ((if nway pa \<noteq> 0 then BIT 7 else 0) OR
    ((if txpause pa \<noteq> 0 then BIT 6 else 0) OR
    ((if rxpause pa \<noteq> 0 then BIT 5 else 0) OR
    ((if pa_link pa \<noteq> 0 then BIT 4 else 0) OR
     (if pa_duplex pa \<noteq> 0 then BIT 2 else 0))))))"

section \<open>Waiting for the PHY access unit\<close>

text \<open>
  The loop as it is written: \<open>timeout\<close> counts down, and the test is on its value before
  the decrement.
\<close>

abbreviation (input) RTL8367_IA_STATUS_REG :: u32 where "RTL8367_IA_STATUS_REG \<equiv> 0x1f01"
abbreviation (input) RTL8367_IA_STATUS_PHY_BUSY :: u32 where "RTL8367_IA_STATUS_PHY_BUSY \<equiv> 0x4"

function rtl8367_phy_poll :: "'h platform \<Rightarrow> rtl8366_smi \<Rightarrow> int \<Rightarrow> ('h smi_state, unit) io" where
  "rtl8367_phy_poll H smi timeout =
    bindE (rtl8366_smi_read_reg H smi RTL8367_IA_STATUS_REG) (\<lambda>data.
    if data AND RTL8367_IA_STATUS_PHY_BUSY = 0 then retE ()
    else if timeout \<noteq> 0 then failE ETIMEDOUT
    else (\<lambda>s. rtl8367_phy_poll H smi (timeout - 1) (on_hw (udelay H 1) s)))"
  by pat_completeness auto
termination
  by (relation "measure (\<lambda>(H, smi, timeout). if timeout = 0 then 1 else 0)") auto

declare rtl8367_phy_poll.simps [simp del]

section \<open>MIB counters\<close>

text \<open>\<open>offset\<close> and the words below it, from the register block at \<open>base\<close>.\<close>

primrec read_mib_down ::
  "'h platform \<Rightarrow> rtl8366_smi \<Rightarrow> u32 \<Rightarrow> nat \<Rightarrow> nat \<Rightarrow> u64 \<Rightarrow> ('h smi_state, u64) io" where
  "read_mib_down H smi base offset 0 mibvalue = retE mibvalue"
| "read_mib_down H smi base offset (Suc len) mibvalue =
    bindE (rtl8366_smi_read_reg H smi (base + of_nat offset)) (\<lambda>data.
    read_mib_down H smi base (offset - 1) len (push_bit 16 mibvalue OR ucast (data AND 0xFFFF)))"

definition mib_word_offset :: "rtl8366_mib_counter \<Rightarrow> nat" where
  "mib_word_offset mib = (if mib_length mib = 4 then 3 else unat ((mib_offset mib + 1) mod 4))"

section \<open>Link status\<close>

definition rtl8367_link_status :: "u32 \<Rightarrow> switch_port_link \<Rightarrow> switch_port_link" where
  "rtl8367_link_status data lnk =
    (if data AND BIT 4 = 0 then lnk\<lparr>link := False\<rparr>
     else let sp = data AND 3
       in lnk\<lparr>link := True, duplex := data AND BIT 2 \<noteq> 0, rx_flow := data AND BIT 5 \<noteq> 0,
         tx_flow := data AND BIT 6 \<noteq> 0, aneg := data AND BIT 7 \<noteq> 0,
         speed := (if sp = 0 then SWITCH_PORT_SPEED_10 else if sp = 1 then SWITCH_PORT_SPEED_100
           else if sp = 2 then SWITCH_PORT_SPEED_1000 else SWITCH_PORT_SPEED_UNKNOWN)\<rparr>)"

end
