(* ===== verification/Rtl8367_Initvals.thy ===== *)
theory Rtl8367_Initvals
  imports Rtl8367_Common
begin

text \<open>
  The register values that the RTL8367 and RTL8367B drivers write at start-up, per revision of the
  chip and mode of its package.
\<close>

definition rtl8367_initvals_0_0 :: "(u16 \<times> u16) list" where
  "rtl8367_initvals_0_0 = [
    (0x133f, 0x0030), (0x133e, 0x000e), (0x221f, 0x0000), (0x2215, 0x1006), (0x221f, 0x0005),
    (0x2200, 0x00c6), (0x221f, 0x0007), (0x221e, 0x0048), (0x2215, 0x6412), (0x2216, 0x6412),
    (0x2217, 0x6412), (0x2218, 0x6412), (0x2219, 0x6412), (0x221A, 0x6412), (0x221f, 0x0001),
    (0x220c, 0xdbf0), (0x2209, 0x2576), (0x2207, 0x287E), (0x220A, 0x68E5), (0x221D, 0x3DA4),
    (0x221C, 0xE7F7), (0x2214, 0x7F52), (0x2218, 0x7FCE), (0x2208, 0x04B7), (0x2206, 0x4072),
    (0x2210, 0xF05E), (0x221B, 0xB414), (0x221F, 0x0003), (0x221A, 0x06A6), (0x2210, 0xF05E),
    (0x2213, 0x06EB), (0x2212, 0xF4D2), (0x220E, 0xE120), (0x2200, 0x7C00), (0x2202, 0x5FD0),
    (0x220D, 0x0207), (0x221f, 0x0002), (0x2205, 0x0978), (0x2202, 0x8C01), (0x2207, 0x3620),
    (0x221C, 0x0001), (0x2203, 0x0420), (0x2204, 0x80C8), (0x133e, 0x0ede), (0x221f, 0x0002),
    (0x220c, 0x0073), (0x220d, 0xEB65), (0x220e, 0x51d1), (0x220f, 0x5dcb), (0x2210, 0x3044),
    (0x2211, 0x1800), (0x2212, 0x7E00), (0x2213, 0x0000), (0x133f, 0x0010), (0x133e, 0x0ffe),
    (0x207f, 0x0002), (0x2074, 0x3D22), (0x2075, 0x2000), (0x2076, 0x6040), (0x2077, 0x0000),
    (0x2078, 0x0f0a), (0x2079, 0x50AB), (0x207a, 0x0000), (0x207b, 0x0f0f), (0x205f, 0x0002),
    (0x2054, 0xFF00), (0x2055, 0x000A), (0x2056, 0x000A), (0x2057, 0x0005), (0x2058, 0x0005),
    (0x2059, 0x0000), (0x205A, 0x0005), (0x205B, 0x0005), (0x205C, 0x0005), (0x209f, 0x0002),
    (0x2094, 0x00AA), (0x2095, 0x00AA), (0x2096, 0x00AA), (0x2097, 0x00AA), (0x2098, 0x0055),
    (0x2099, 0x00AA), (0x209A, 0x00AA), (0x209B, 0x00AA), (0x1363, 0x8354), (0x1270, 0x3333),
    (0x1271, 0x3333), (0x1272, 0x3333), (0x1330, 0x00DB), (0x1203, 0xff00), (0x1200, 0x7fc4),
    (0x121d, 0x1006), (0x121e, 0x03e8), (0x121f, 0x02b3), (0x1220, 0x028f), (0x1221, 0x029b),
    (0x1222, 0x0277), (0x1223, 0x02b3), (0x1224, 0x028f), (0x1225, 0x029b), (0x1226, 0x0277),
    (0x1227, 0x00c0), (0x1228, 0x00b4), (0x122f, 0x00c0), (0x1230, 0x00b4), (0x1229, 0x0020),
    (0x122a, 0x000c), (0x1231, 0x0030), (0x1232, 0x0024), (0x0219, 0x0032), (0x0200, 0x03e8),
    (0x0201, 0x03e8), (0x0202, 0x03e8), (0x0203, 0x03e8), (0x0204, 0x03e8), (0x0205, 0x03e8),
    (0x0206, 0x03e8), (0x0207, 0x03e8), (0x0218, 0x0032), (0x0208, 0x029b), (0x0209, 0x029b),
    (0x020a, 0x029b), (0x020b, 0x029b), (0x020c, 0x029b), (0x020d, 0x029b), (0x020e, 0x029b),
    (0x020f, 0x029b), (0x0210, 0x029b), (0x0211, 0x029b), (0x0212, 0x029b), (0x0213, 0x029b),
    (0x0214, 0x029b), (0x0215, 0x029b), (0x0216, 0x029b), (0x0217, 0x029b), (0x0900, 0x0000),
    (0x0901, 0x0000), (0x0902, 0x0000), (0x0903, 0x0000), (0x0865, 0x3210), (0x087b, 0x0000),
    (0x087c, 0xff00), (0x087d, 0x0000), (0x087e, 0x0000), (0x0801, 0x0100), (0x0802, 0x0100),
    (0x1700, 0x014C), (0x0301, 0x00FF), (0x12AA, 0x0096), (0x133f, 0x0030), (0x133e, 0x000e),
    (0x221f, 0x0005), (0x2200, 0x00C4), (0x221f, 0x0000), (0x2210, 0x05EF), (0x2204, 0x05E1),
    (0x2200, 0x1340), (0x133f, 0x0010), (0x20A0, 0x1940), (0x20C0, 0x1940), (0x20E0, 0x1940)]"

definition rtl8367_initvals_0_1 :: "(u16 \<times> u16) list" where
  "rtl8367_initvals_0_1 = [
    (0x133f, 0x0030), (0x133e, 0x000e), (0x221f, 0x0000), (0x2215, 0x1006), (0x221f, 0x0005),
    (0x2200, 0x00c6), (0x221f, 0x0007), (0x221e, 0x0048), (0x2215, 0x6412), (0x2216, 0x6412),
    (0x2217, 0x6412), (0x2218, 0x6412), (0x2219, 0x6412), (0x221A, 0x6412), (0x221f, 0x0001),
    (0x220c, 0xdbf0), (0x2209, 0x2576), (0x2207, 0x287E), (0x220A, 0x68E5), (0x221D, 0x3DA4),
    (0x221C, 0xE7F7), (0x2214, 0x7F52), (0x2218, 0x7FCE), (0x2208, 0x04B7), (0x2206, 0x4072),
    (0x2210, 0xF05E), (0x221B, 0xB414), (0x221F, 0x0003), (0x221A, 0x06A6), (0x2210, 0xF05E),
    (0x2213, 0x06EB), (0x2212, 0xF4D2), (0x220E, 0xE120), (0x2200, 0x7C00), (0x2202, 0x5FD0),
    (0x220D, 0x0207), (0x221f, 0x0002), (0x2205, 0x0978), (0x2202, 0x8C01), (0x2207, 0x3620),
    (0x221C, 0x0001), (0x2203, 0x0420), (0x2204, 0x80C8), (0x133e, 0x0ede), (0x221f, 0x0002),
    (0x220c, 0x0073), (0x220d, 0xEB65), (0x220e, 0x51d1), (0x220f, 0x5dcb), (0x2210, 0x3044),
    (0x2211, 0x1800), (0x2212, 0x7E00), (0x2213, 0x0000), (0x133f, 0x0010), (0x133e, 0x0ffe),
    (0x207f, 0x0002), (0x2074, 0x3D22), (0x2075, 0x2000), (0x2076, 0x6040), (0x2077, 0x0000),
    (0x2078, 0x0f0a), (0x2079, 0x50AB), (0x207a, 0x0000), (0x207b, 0x0f0f), (0x205f, 0x0002),
    (0x2054, 0xFF00), (0x2055, 0x000A), (0x2056, 0x000A), (0x2057, 0x0005), (0x2058, 0x0005),
    (0x2059, 0x0000), (0x205A, 0x0005), (0x205B, 0x0005), (0x205C, 0x0005), (0x209f, 0x0002),
    (0x2094, 0x00AA), (0x2095, 0x00AA), (0x2096, 0x00AA), (0x2097, 0x00AA), (0x2098, 0x0055),
    (0x2099, 0x00AA), (0x209A, 0x00AA), (0x209B, 0x00AA), (0x1363, 0x8354), (0x1270, 0x3333),
    (0x1271, 0x3333), (0x1272, 0x3333), (0x1330, 0x00DB), (0x1203, 0xff00), (0x1200, 0x7fc4),
    (0x121d, 0x1b06), (0x121e, 0x07f0), (0x121f, 0x0438), (0x1220, 0x040f), (0x1221, 0x040f),
    (0x1222, 0x03eb), (0x1223, 0x0438), (0x1224, 0x040f), (0x1225, 0x040f), (0x1226, 0x03eb),
    (0x1227, 0x0144), (0x1228, 0x0138), (0x122f, 0x0144), (0x1230, 0x0138), (0x1229, 0x0020),
    (0x122a, 0x000c), (0x1231, 0x0030), (0x1232, 0x0024), (0x0219, 0x0032), (0x0200, 0x07d0),
    (0x0201, 0x07d0), (0x0202, 0x07d0), (0x0203, 0x07d0), (0x0204, 0x07d0), (0x0205, 0x07d0),
    (0x0206, 0x07d0), (0x0207, 0x07d0), (0x0218, 0x0032), (0x0208, 0x0190), (0x0209, 0x0190),
    (0x020a, 0x0190), (0x020b, 0x0190), (0x020c, 0x0190), (0x020d, 0x0190), (0x020e, 0x0190),
    (0x020f, 0x0190), (0x0210, 0x0190), (0x0211, 0x0190), (0x0212, 0x0190), (0x0213, 0x0190),
    (0x0214, 0x0190), (0x0215, 0x0190), (0x0216, 0x0190), (0x0217, 0x0190), (0x0900, 0x0000),
    (0x0901, 0x0000), (0x0902, 0x0000), (0x0903, 0x0000), (0x0865, 0x3210), (0x087b, 0x0000),
    (0x087c, 0xff00), (0x087d, 0x0000), (0x087e, 0x0000), (0x0801, 0x0100), (0x0802, 0x0100),
    (0x1700, 0x0125), (0x0301, 0x00FF), (0x12AA, 0x0096), (0x133f, 0x0030), (0x133e, 0x000e),
    (0x221f, 0x0005), (0x2200, 0x00C4), (0x221f, 0x0000), (0x2210, 0x05EF), (0x2204, 0x05E1),
    (0x2200, 0x1340), (0x133f, 0x0010)]"

definition rtl8367_initvals_1_0 :: "(u16 \<times> u16) list" where
  "rtl8367_initvals_1_0 = [
    (0x1B24, 0x0000), (0x1B25, 0x0000), (0x1B26, 0x0000), (0x1B27, 0x0000), (0x207F, 0x0002),
    (0x2079, 0x0200), (0x207F, 0x0000), (0x133F, 0x0030), (0x133E, 0x000E), (0x221F, 0x0005),
    (0x2201, 0x0700), (0x2205, 0x8B82), (0x2206, 0x05CB), (0x221F, 0x0002), (0x2204, 0x80C2),
    (0x2205, 0x0938), (0x221F, 0x0003), (0x2212, 0xC4D2), (0x220D, 0x0207), (0x221F, 0x0001),
    (0x2207, 0x267E), (0x221C, 0xE5F7), (0x221B, 0x0424), (0x221F, 0x0007), (0x221E, 0x0040),
    (0x2218, 0x0000), (0x221F, 0x0007), (0x221E, 0x002C), (0x2218, 0x008B), (0x221F, 0x0005),
    (0x2205, 0xFFF6), (0x2206, 0x0080), (0x2205, 0x8000), (0x2206, 0xF8E0), (0x2206, 0xE000),
    (0x2206, 0xE1E0), (0x2206, 0x01AC), (0x2206, 0x2408), (0x2206, 0xE08B), (0x2206, 0x84F7),
    (0x2206, 0x20E4), (0x2206, 0x8B84), (0x2206, 0xFC05), (0x2206, 0xF8FA), (0x2206, 0xEF69),
    (0x2206, 0xE08B), (0x2206, 0x86AC), (0x2206, 0x201A), (0x2206, 0xBF80), (0x2206, 0x59D0),
    (0x2206, 0x2402), (0x2206, 0x803D), (0x2206, 0xE0E0), (0x2206, 0xE4E1), (0x2206, 0xE0E5),
    (0x2206, 0x5806), (0x2206, 0x68C0), (0x2206, 0xD1D2), (0x2206, 0xE4E0), (0x2206, 0xE4E5),
    (0x2206, 0xE0E5), (0x2206, 0xEF96), (0x2206, 0xFEFC), (0x2206, 0x05FB), (0x2206, 0x0BFB),
    (0x2206, 0x58FF), (0x2206, 0x9E11), (0x2206, 0x06F0), (0x2206, 0x0C81), (0x2206, 0x8AE0),
    (0x2206, 0x0019), (0x2206, 0x1B89), (0x2206, 0xCFEB), (0x2206, 0x19EB), (0x2206, 0x19B0),
    (0x2206, 0xEFFF), (0x2206, 0x0BFF), (0x2206, 0x0425), (0x2206, 0x0807), (0x2206, 0x2640),
    (0x2206, 0x7227), (0x2206, 0x267E), (0x2206, 0x2804), (0x2206, 0xB729), (0x2206, 0x2576),
    (0x2206, 0x2A68), (0x2206, 0xE52B), (0x2206, 0xAD00), (0x2206, 0x2CDB), (0x2206, 0xF02D),
    (0x2206, 0x67BB), (0x2206, 0x2E7B), (0x2206, 0x0F2F), (0x2206, 0x7365), (0x2206, 0x31AC),
    (0x2206, 0xCC32), (0x2206, 0x2300), (0x2206, 0x332D), (0x2206, 0x1734), (0x2206, 0x7F52),
    (0x2206, 0x3510), (0x2206, 0x0036), (0x2206, 0x0600), (0x2206, 0x370C), (0x2206, 0xC038),
    (0x2206, 0x7FCE), (0x2206, 0x3CE5), (0x2206, 0xF73D), (0x2206, 0x3DA4), (0x2206, 0x6530),
    (0x2206, 0x3E67), (0x2206, 0x0053), (0x2206, 0x69D2), (0x2206, 0x0F6A), (0x2206, 0x012C),
    (0x2206, 0x6C2B), (0x2206, 0x136E), (0x2206, 0xE100), (0x2206, 0x6F12), (0x2206, 0xF771),
    (0x2206, 0x006B), (0x2206, 0x7306), (0x2206, 0xEB74), (0x2206, 0x94C7), (0x2206, 0x7698),
    (0x2206, 0x0A77), (0x2206, 0x5000), (0x2206, 0x788A), (0x2206, 0x1579), (0x2206, 0x7F6F),
    (0x2206, 0x7A06), (0x2206, 0xA600), (0x2205, 0x8B90), (0x2206, 0x8000), (0x2205, 0x8B92),
    (0x2206, 0x8000), (0x2205, 0x8B94), (0x2206, 0x8014), (0x2208, 0xFFFA), (0x2202, 0x3C65),
    (0x2205, 0xFFF6), (0x2206, 0x00F7), (0x221F, 0x0000), (0x221F, 0x0007), (0x221E, 0x0042),
    (0x2218, 0x0000), (0x221E, 0x002D), (0x2218, 0xF010), (0x221E, 0x0020), (0x2215, 0x0000),
    (0x221E, 0x0023), (0x2216, 0x8000), (0x221F, 0x0000), (0x133F, 0x0010), (0x133E, 0x0FFE),
    (0x1362, 0x0115), (0x1363, 0x0002), (0x1363, 0x0000), (0x1306, 0x000C), (0x1307, 0x000C),
    (0x1303, 0x0067), (0x1304, 0x4444), (0x1203, 0xFF00), (0x1200, 0x7FC4), (0x121D, 0x7D16),
    (0x121E, 0x03E8), (0x121F, 0x024E), (0x1220, 0x0230), (0x1221, 0x0244), (0x1222, 0x0226),
    (0x1223, 0x024E), (0x1224, 0x0230), (0x1225, 0x0244), (0x1226, 0x0226), (0x1227, 0x00C0),
    (0x1228, 0x00B4), (0x122F, 0x00C0), (0x1230, 0x00B4), (0x0208, 0x03E8), (0x0209, 0x03E8),
    (0x020A, 0x03E8), (0x020B, 0x03E8), (0x020C, 0x03E8), (0x020D, 0x03E8), (0x020E, 0x03E8),
    (0x020F, 0x03E8), (0x0210, 0x03E8), (0x0211, 0x03E8), (0x0212, 0x03E8), (0x0213, 0x03E8),
    (0x0214, 0x03E8), (0x0215, 0x03E8), (0x0216, 0x03E8), (0x0217, 0x03E8), (0x0900, 0x0000),
    (0x0901, 0x0000), (0x0902, 0x0000), (0x0903, 0x0000), (0x0865, 0x3210), (0x087B, 0x0000),
    (0x087C, 0xFF00), (0x087D, 0x0000), (0x087E, 0x0000), (0x0801, 0x0100), (0x0802, 0x0100),
    (0x0A20, 0x2040), (0x0A21, 0x2040), (0x0A22, 0x2040), (0x0A23, 0x2040), (0x0A24, 0x2040),
    (0x0A28, 0x2040), (0x0A29, 0x2040), (0x133F, 0x0030), (0x133E, 0x000E), (0x221F, 0x0000),
    (0x2200, 0x1340), (0x221F, 0x0000), (0x133F, 0x0010), (0x133E, 0x0FFE), (0x20A0, 0x1940),
    (0x20C0, 0x1940), (0x20E0, 0x1940), (0x130c, 0x0050)]"

definition rtl8367_initvals_1_1 :: "(u16 \<times> u16) list" where
  "rtl8367_initvals_1_1 = [
    (0x1B24, 0x0000), (0x1B25, 0x0000), (0x1B26, 0x0000), (0x1B27, 0x0000), (0x207F, 0x0002),
    (0x2079, 0x0200), (0x207F, 0x0000), (0x133F, 0x0030), (0x133E, 0x000E), (0x221F, 0x0005),
    (0x2201, 0x0700), (0x2205, 0x8B82), (0x2206, 0x05CB), (0x221F, 0x0002), (0x2204, 0x80C2),
    (0x2205, 0x0938), (0x221F, 0x0003), (0x2212, 0xC4D2), (0x220D, 0x0207), (0x221F, 0x0001),
    (0x2207, 0x267E), (0x221C, 0xE5F7), (0x221B, 0x0424), (0x221F, 0x0007), (0x221E, 0x0040),
    (0x2218, 0x0000), (0x221F, 0x0007), (0x221E, 0x002C), (0x2218, 0x008B), (0x221F, 0x0005),
    (0x2205, 0xFFF6), (0x2206, 0x0080), (0x2205, 0x8000), (0x2206, 0xF8E0), (0x2206, 0xE000),
    (0x2206, 0xE1E0), (0x2206, 0x01AC), (0x2206, 0x2408), (0x2206, 0xE08B), (0x2206, 0x84F7),
    (0x2206, 0x20E4), (0x2206, 0x8B84), (0x2206, 0xFC05), (0x2206, 0xF8FA), (0x2206, 0xEF69),
    (0x2206, 0xE08B), (0x2206, 0x86AC), (0x2206, 0x201A), (0x2206, 0xBF80), (0x2206, 0x59D0),
    (0x2206, 0x2402), (0x2206, 0x803D), (0x2206, 0xE0E0), (0x2206, 0xE4E1), (0x2206, 0xE0E5),
    (0x2206, 0x5806), (0x2206, 0x68C0), (0x2206, 0xD1D2), (0x2206, 0xE4E0), (0x2206, 0xE4E5),
    (0x2206, 0xE0E5), (0x2206, 0xEF96), (0x2206, 0xFEFC), (0x2206, 0x05FB), (0x2206, 0x0BFB),
    (0x2206, 0x58FF), (0x2206, 0x9E11), (0x2206, 0x06F0), (0x2206, 0x0C81), (0x2206, 0x8AE0),
    (0x2206, 0x0019), (0x2206, 0x1B89), (0x2206, 0xCFEB), (0x2206, 0x19EB), (0x2206, 0x19B0),
    (0x2206, 0xEFFF), (0x2206, 0x0BFF), (0x2206, 0x0425), (0x2206, 0x0807), (0x2206, 0x2640),
    (0x2206, 0x7227), (0x2206, 0x267E), (0x2206, 0x2804), (0x2206, 0xB729), (0x2206, 0x2576),
    (0x2206, 0x2A68), (0x2206, 0xE52B), (0x2206, 0xAD00), (0x2206, 0x2CDB), (0x2206, 0xF02D),
    (0x2206, 0x67BB), (0x2206, 0x2E7B), (0x2206, 0x0F2F), (0x2206, 0x7365), (0x2206, 0x31AC),
    (0x2206, 0xCC32), (0x2206, 0x2300), (0x2206, 0x332D), (0x2206, 0x1734), (0x2206, 0x7F52),
    (0x2206, 0x3510), (0x2206, 0x0036), (0x2206, 0x0600), (0x2206, 0x370C), (0x2206, 0xC038),
    (0x2206, 0x7FCE), (0x2206, 0x3CE5), (0x2206, 0xF73D), (0x2206, 0x3DA4), (0x2206, 0x6530),
    (0x2206, 0x3E67), (0x2206, 0x0053), (0x2206, 0x69D2), (0x2206, 0x0F6A), (0x2206, 0x012C),
    (0x2206, 0x6C2B), (0x2206, 0x136E), (0x2206, 0xE100), (0x2206, 0x6F12), (0x2206, 0xF771),
    (0x2206, 0x006B), (0x2206, 0x7306), (0x2206, 0xEB74), (0x2206, 0x94C7), (0x2206, 0x7698),
    (0x2206, 0x0A77), (0x2206, 0x5000), (0x2206, 0x788A), (0x2206, 0x1579), (0x2206, 0x7F6F),
    (0x2206, 0x7A06), (0x2206, 0xA600), (0x2205, 0x8B90), (0x2206, 0x8000), (0x2205, 0x8B92),
    (0x2206, 0x8000), (0x2205, 0x8B94), (0x2206, 0x8014), (0x2208, 0xFFFA), (0x2202, 0x3C65),
    (0x2205, 0xFFF6), (0x2206, 0x00F7), (0x221F, 0x0000), (0x221F, 0x0007), (0x221E, 0x0042),
    (0x2218, 0x0000), (0x221E, 0x002D), (0x2218, 0xF010), (0x221E, 0x0020), (0x2215, 0x0000),
    (0x221E, 0x0023), (0x2216, 0x8000), (0x221F, 0x0000), (0x133F, 0x0010), (0x133E, 0x0FFE),
    (0x1362, 0x0115), (0x1363, 0x0002), (0x1363, 0x0000), (0x1306, 0x000C), (0x1307, 0x000C),
    (0x1303, 0x0067), (0x1304, 0x4444), (0x1203, 0xFF00), (0x1200, 0x7FC4), (0x0900, 0x0000),
    (0x0901, 0x0000), (0x0902, 0x0000), (0x0903, 0x0000), (0x0865, 0x3210), (0x087B, 0x0000),
    (0x087C, 0xFF00), (0x087D, 0x0000), (0x087E, 0x0000), (0x0801, 0x0100), (0x0802, 0x0100),
    (0x0A20, 0x2040), (0x0A21, 0x2040), (0x0A22, 0x2040), (0x0A23, 0x2040), (0x0A24, 0x2040),
    (0x0A25, 0x2040), (0x0A26, 0x2040), (0x0A27, 0x2040), (0x0A28, 0x2040), (0x0A29, 0x2040),
    (0x133F, 0x0030), (0x133E, 0x000E), (0x221F, 0x0000), (0x2200, 0x1340), (0x221F, 0x0000),
    (0x133F, 0x0010), (0x133E, 0x0FFE), (0x1B03, 0x0876)]"

definition rtl8367_initvals_2_0 :: "(u16 \<times> u16) list" where
  "rtl8367_initvals_2_0 = [
    (0x1b24, 0x0000), (0x1b25, 0x0000), (0x1b26, 0x0000), (0x1b27, 0x0000), (0x133f, 0x0030),
    (0x133e, 0x000e), (0x221f, 0x0007), (0x221e, 0x0048), (0x2219, 0x4012), (0x221f, 0x0003),
    (0x2201, 0x3554), (0x2202, 0x63e8), (0x2203, 0x99c2), (0x2204, 0x0113), (0x2205, 0x303e),
    (0x220d, 0x0207), (0x220e, 0xe100), (0x221f, 0x0007), (0x221e, 0x0040), (0x2218, 0x0000),
    (0x221f, 0x0007), (0x221e, 0x002c), (0x2218, 0x008b), (0x221f, 0x0005), (0x2205, 0xfff6),
    (0x2206, 0x0080), (0x221f, 0x0005), (0x2205, 0x8000), (0x2206, 0x0280), (0x2206, 0x2bf7),
    (0x2206, 0x00e0), (0x2206, 0xfff7), (0x2206, 0xa080), (0x2206, 0x02ae), (0x2206, 0xf602),
    (0x2206, 0x804e), (0x2206, 0x0201), (0x2206, 0x5002), (0x2206, 0x0163), (0x2206, 0x0201),
    (0x2206, 0x79e0), (0x2206, 0x8b8c), (0x2206, 0xe18b), (0x2206, 0x8d1e), (0x2206, 0x01e1),
    (0x2206, 0x8b8e), (0x2206, 0x1e01), (0x2206, 0xa000), (0x2206, 0xe4ae), (0x2206, 0xd8bf),
    (0x2206, 0x8b88), (0x2206, 0xec00), (0x2206, 0x19a9), (0x2206, 0x8b90), (0x2206, 0xf9ee),
    (0x2206, 0xfff6), (0x2206, 0x00ee), (0x2206, 0xfff7), (0x2206, 0xfce0), (0x2206, 0xe140),
    (0x2206, 0xe1e1), (0x2206, 0x41f7), (0x2206, 0x2ff6), (0x2206, 0x28e4), (0x2206, 0xe140),
    (0x2206, 0xe5e1), (0x2206, 0x4104), (0x2206, 0xf8fa), (0x2206, 0xef69), (0x2206, 0xe08b),
    (0x2206, 0x86ac), (0x2206, 0x201a), (0x2206, 0xbf80), (0x2206, 0x77d0), (0x2206, 0x6c02),
    (0x2206, 0x2978), (0x2206, 0xe0e0), (0x2206, 0xe4e1), (0x2206, 0xe0e5), (0x2206, 0x5806),
    (0x2206, 0x68c0), (0x2206, 0xd1d2), (0x2206, 0xe4e0), (0x2206, 0xe4e5), (0x2206, 0xe0e5),
    (0x2206, 0xef96), (0x2206, 0xfefc), (0x2206, 0x0425), (0x2206, 0x0807), (0x2206, 0x2640),
    (0x2206, 0x7227), (0x2206, 0x267e), (0x2206, 0x2804), (0x2206, 0xb729), (0x2206, 0x2576),
    (0x2206, 0x2a68), (0x2206, 0xe52b), (0x2206, 0xad00), (0x2206, 0x2cdb), (0x2206, 0xf02d),
    (0x2206, 0x67bb), (0x2206, 0x2e7b), (0x2206, 0x0f2f), (0x2206, 0x7365), (0x2206, 0x31ac),
    (0x2206, 0xcc32), (0x2206, 0x2300), (0x2206, 0x332d), (0x2206, 0x1734), (0x2206, 0x7f52),
    (0x2206, 0x3510), (0x2206, 0x0036), (0x2206, 0x0600), (0x2206, 0x370c), (0x2206, 0xc038),
    (0x2206, 0x7fce), (0x2206, 0x3ce5), (0x2206, 0xf73d), (0x2206, 0x3da4), (0x2206, 0x6530),
    (0x2206, 0x3e67), (0x2206, 0x0053), (0x2206, 0x69d2), (0x2206, 0x0f6a), (0x2206, 0x012c),
    (0x2206, 0x6c2b), (0x2206, 0x136e), (0x2206, 0xe100), (0x2206, 0x6f12), (0x2206, 0xf771),
    (0x2206, 0x006b), (0x2206, 0x7306), (0x2206, 0xeb74), (0x2206, 0x94c7), (0x2206, 0x7698),
    (0x2206, 0x0a77), (0x2206, 0x5000), (0x2206, 0x788a), (0x2206, 0x1579), (0x2206, 0x7f6f),
    (0x2206, 0x7a06), (0x2206, 0xa600), (0x2201, 0x0701), (0x2200, 0x0405), (0x221f, 0x0000),
    (0x2200, 0x1340), (0x221f, 0x0000), (0x133f, 0x0010), (0x133e, 0x0ffe), (0x1203, 0xff00),
    (0x1200, 0x7fc4), (0x121d, 0x7D16), (0x121e, 0x03e8), (0x121f, 0x024e), (0x1220, 0x0230),
    (0x1221, 0x0244), (0x1222, 0x0226), (0x1223, 0x024e), (0x1224, 0x0230), (0x1225, 0x0244),
    (0x1226, 0x0226), (0x1227, 0x00c0), (0x1228, 0x00b4), (0x122f, 0x00c0), (0x1230, 0x00b4),
    (0x0208, 0x03e8), (0x0209, 0x03e8), (0x020a, 0x03e8), (0x020b, 0x03e8), (0x020c, 0x03e8),
    (0x020d, 0x03e8), (0x020e, 0x03e8), (0x020f, 0x03e8), (0x0210, 0x03e8), (0x0211, 0x03e8),
    (0x0212, 0x03e8), (0x0213, 0x03e8), (0x0214, 0x03e8), (0x0215, 0x03e8), (0x0216, 0x03e8),
    (0x0217, 0x03e8), (0x0900, 0x0000), (0x0901, 0x0000), (0x0902, 0x0000), (0x0903, 0x0000),
    (0x0865, 0x3210), (0x087b, 0x0000), (0x087c, 0xff00), (0x087d, 0x0000), (0x087e, 0x0000),
    (0x0801, 0x0100), (0x0802, 0x0100), (0x0A20, 0x2040), (0x0A21, 0x2040), (0x0A22, 0x2040),
    (0x0A23, 0x2040), (0x0A24, 0x2040), (0x0A28, 0x2040), (0x0A29, 0x2040), (0x20A0, 0x1940),
    (0x20C0, 0x1940), (0x20E0, 0x1940), (0x130c, 0x0050)]"

definition rtl8367_initvals_2_1 :: "(u16 \<times> u16) list" where
  "rtl8367_initvals_2_1 = [
    (0x1b24, 0x0000), (0x1b25, 0x0000), (0x1b26, 0x0000), (0x1b27, 0x0000), (0x133f, 0x0030),
    (0x133e, 0x000e), (0x221f, 0x0007), (0x221e, 0x0048), (0x2219, 0x4012), (0x221f, 0x0003),
    (0x2201, 0x3554), (0x2202, 0x63e8), (0x2203, 0x99c2), (0x2204, 0x0113), (0x2205, 0x303e),
    (0x220d, 0x0207), (0x220e, 0xe100), (0x221f, 0x0007), (0x221e, 0x0040), (0x2218, 0x0000),
    (0x221f, 0x0007), (0x221e, 0x002c), (0x2218, 0x008b), (0x221f, 0x0005), (0x2205, 0xfff6),
    (0x2206, 0x0080), (0x221f, 0x0005), (0x2205, 0x8000), (0x2206, 0x0280), (0x2206, 0x2bf7),
    (0x2206, 0x00e0), (0x2206, 0xfff7), (0x2206, 0xa080), (0x2206, 0x02ae), (0x2206, 0xf602),
    (0x2206, 0x804e), (0x2206, 0x0201), (0x2206, 0x5002), (0x2206, 0x0163), (0x2206, 0x0201),
    (0x2206, 0x79e0), (0x2206, 0x8b8c), (0x2206, 0xe18b), (0x2206, 0x8d1e), (0x2206, 0x01e1),
    (0x2206, 0x8b8e), (0x2206, 0x1e01), (0x2206, 0xa000), (0x2206, 0xe4ae), (0x2206, 0xd8bf),
    (0x2206, 0x8b88), (0x2206, 0xec00), (0x2206, 0x19a9), (0x2206, 0x8b90), (0x2206, 0xf9ee),
    (0x2206, 0xfff6), (0x2206, 0x00ee), (0x2206, 0xfff7), (0x2206, 0xfce0), (0x2206, 0xe140),
    (0x2206, 0xe1e1), (0x2206, 0x41f7), (0x2206, 0x2ff6), (0x2206, 0x28e4), (0x2206, 0xe140),
    (0x2206, 0xe5e1), (0x2206, 0x4104), (0x2206, 0xf8fa), (0x2206, 0xef69), (0x2206, 0xe08b),
    (0x2206, 0x86ac), (0x2206, 0x201a), (0x2206, 0xbf80), (0x2206, 0x77d0), (0x2206, 0x6c02),
    (0x2206, 0x2978), (0x2206, 0xe0e0), (0x2206, 0xe4e1), (0x2206, 0xe0e5), (0x2206, 0x5806),
    (0x2206, 0x68c0), (0x2206, 0xd1d2), (0x2206, 0xe4e0), (0x2206, 0xe4e5), (0x2206, 0xe0e5),
    (0x2206, 0xef96), (0x2206, 0xfefc), (0x2206, 0x0425), (0x2206, 0x0807), (0x2206, 0x2640),
    (0x2206, 0x7227), (0x2206, 0x267e), (0x2206, 0x2804), (0x2206, 0xb729), (0x2206, 0x2576),
    (0x2206, 0x2a68), (0x2206, 0xe52b), (0x2206, 0xad00), (0x2206, 0x2cdb), (0x2206, 0xf02d),
    (0x2206, 0x67bb), (0x2206, 0x2e7b), (0x2206, 0x0f2f), (0x2206, 0x7365), (0x2206, 0x31ac),
    (0x2206, 0xcc32), (0x2206, 0x2300), (0x2206, 0x332d), (0x2206, 0x1734), (0x2206, 0x7f52),
    (0x2206, 0x3510), (0x2206, 0x0036), (0x2206, 0x0600), (0x2206, 0x370c), (0x2206, 0xc038),
    (0x2206, 0x7fce), (0x2206, 0x3ce5), (0x2206, 0xf73d), (0x2206, 0x3da4), (0x2206, 0x6530),
    (0x2206, 0x3e67), (0x2206, 0x0053), (0x2206, 0x69d2), (0x2206, 0x0f6a), (0x2206, 0x012c),
    (0x2206, 0x6c2b), (0x2206, 0x136e), (0x2206, 0xe100), (0x2206, 0x6f12), (0x2206, 0xf771),
    (0x2206, 0x006b), (0x2206, 0x7306), (0x2206, 0xeb74), (0x2206, 0x94c7), (0x2206, 0x7698),
    (0x2206, 0x0a77), (0x2206, 0x5000), (0x2206, 0x788a), (0x2206, 0x1579), (0x2206, 0x7f6f),
    (0x2206, 0x7a06), (0x2206, 0xa600), (0x2201, 0x0701), (0x2200, 0x0405), (0x221f, 0x0000),
    (0x2200, 0x1340), (0x221f, 0x0000), (0x133f, 0x0010), (0x133e, 0x0ffe), (0x1203, 0xff00),
    (0x1200, 0x7fc4), (0x0900, 0x0000), (0x0901, 0x0000), (0x0902, 0x0000), (0x0903, 0x0000),
    (0x0865, 0x3210), (0x087b, 0x0000), (0x087c, 0xff00), (0x087d, 0x0000), (0x087e, 0x0000),
    (0x0801, 0x0100), (0x0802, 0x0100), (0x0A20, 0x2040), (0x0A21, 0x2040), (0x0A22, 0x2040),
    (0x0A23, 0x2040), (0x0A24, 0x2040), (0x0A25, 0x2040), (0x0A26, 0x2040), (0x0A27, 0x2040),
    (0x0A28, 0x2040), (0x0A29, 0x2040), (0x130c, 0x0050)]"

definition rtl8367r_vb_initvals_0 :: "(u16 \<times> u16) list" where
  "rtl8367r_vb_initvals_0 = [
    (0x1B03, 0x0876), (0x1200, 0x7FC4), (0x0301, 0x0026), (0x1722, 0x0E14), (0x205F, 0x0002),
    (0x2059, 0x1A00), (0x205F, 0x0000), (0x207F, 0x0002), (0x2077, 0x0000), (0x2078, 0x0000),
    (0x2079, 0x0000), (0x207A, 0x0000), (0x207B, 0x0000), (0x207F, 0x0000), (0x205F, 0x0002),
    (0x2053, 0x0000), (0x2054, 0x0000), (0x2055, 0x0000), (0x2056, 0x0000), (0x2057, 0x0000),
    (0x205F, 0x0000), (0x12A4, 0x110A), (0x12A6, 0x150A), (0x13F1, 0x0013), (0x13F4, 0x0010),
    (0x13F5, 0x0000), (0x0018, 0x0F00), (0x0038, 0x0F00), (0x0058, 0x0F00), (0x0078, 0x0F00),
    (0x0098, 0x0F00), (0x12B6, 0x0C02), (0x12B7, 0x030F), (0x12B8, 0x11FF), (0x12BC, 0x0004),
    (0x1362, 0x0115), (0x1363, 0x0002), (0x1363, 0x0000), (0x133F, 0x0030), (0x133E, 0x000E),
    (0x221F, 0x0007), (0x221E, 0x002D), (0x2218, 0xF030), (0x221F, 0x0007), (0x221E, 0x0023),
    (0x2216, 0x0005), (0x2215, 0x00B9), (0x2219, 0x0044), (0x2215, 0x00BA), (0x2219, 0x0020),
    (0x2215, 0x00BB), (0x2219, 0x00C1), (0x2215, 0x0148), (0x2219, 0x0096), (0x2215, 0x016E),
    (0x2219, 0x0026), (0x2216, 0x0000), (0x2216, 0x0000), (0x221E, 0x002D), (0x2218, 0xF010),
    (0x221F, 0x0007), (0x221E, 0x0020), (0x2215, 0x0D00), (0x221F, 0x0000), (0x221F, 0x0000),
    (0x2217, 0x2160), (0x221F, 0x0001), (0x2210, 0xF25E), (0x221F, 0x0007), (0x221E, 0x0042),
    (0x2215, 0x0F00), (0x2215, 0x0F00), (0x2216, 0x7408), (0x2215, 0x0E00), (0x2215, 0x0F00),
    (0x2215, 0x0F01), (0x2216, 0x4000), (0x2215, 0x0E01), (0x2215, 0x0F01), (0x2215, 0x0F02),
    (0x2216, 0x9400), (0x2215, 0x0E02), (0x2215, 0x0F02), (0x2215, 0x0F03), (0x2216, 0x7408),
    (0x2215, 0x0E03), (0x2215, 0x0F03), (0x2215, 0x0F04), (0x2216, 0x4008), (0x2215, 0x0E04),
    (0x2215, 0x0F04), (0x2215, 0x0F05), (0x2216, 0x9400), (0x2215, 0x0E05), (0x2215, 0x0F05),
    (0x2215, 0x0F06), (0x2216, 0x0803), (0x2215, 0x0E06), (0x2215, 0x0F06), (0x2215, 0x0D00),
    (0x2215, 0x0100), (0x221F, 0x0001), (0x2210, 0xF05E), (0x221F, 0x0000), (0x2217, 0x2100),
    (0x221F, 0x0000), (0x220D, 0x0003), (0x220E, 0x0015), (0x220D, 0x4003), (0x220E, 0x0006),
    (0x221F, 0x0000), (0x2200, 0x1340), (0x133F, 0x0010), (0x12A0, 0x0058), (0x12A1, 0x0058),
    (0x133E, 0x000E), (0x133F, 0x0030), (0x221F, 0x0000), (0x2210, 0x0166), (0x221F, 0x0000),
    (0x133E, 0x000E), (0x133F, 0x0010), (0x133F, 0x0030), (0x133E, 0x000E), (0x221F, 0x0005),
    (0x2205, 0xFFF6), (0x2206, 0x0080), (0x2205, 0x8B6E), (0x2206, 0x0000), (0x220F, 0x0100),
    (0x2205, 0x8000), (0x2206, 0x0280), (0x2206, 0x28F7), (0x2206, 0x00E0), (0x2206, 0xFFF7),
    (0x2206, 0xA080), (0x2206, 0x02AE), (0x2206, 0xF602), (0x2206, 0x0153), (0x2206, 0x0201),
    (0x2206, 0x6602), (0x2206, 0x80B9), (0x2206, 0xE08B), (0x2206, 0x8CE1), (0x2206, 0x8B8D),
    (0x2206, 0x1E01), (0x2206, 0xE18B), (0x2206, 0x8E1E), (0x2206, 0x01A0), (0x2206, 0x00E7),
    (0x2206, 0xAEDB), (0x2206, 0xEEE0), (0x2206, 0x120E), (0x2206, 0xEEE0), (0x2206, 0x1300),
    (0x2206, 0xEEE0), (0x2206, 0x2001), (0x2206, 0xEEE0), (0x2206, 0x2166), (0x2206, 0xEEE0),
    (0x2206, 0xC463), (0x2206, 0xEEE0), (0x2206, 0xC5E8), (0x2206, 0xEEE0), (0x2206, 0xC699),
    (0x2206, 0xEEE0), (0x2206, 0xC7C2), (0x2206, 0xEEE0), (0x2206, 0xC801), (0x2206, 0xEEE0),
    (0x2206, 0xC913), (0x2206, 0xEEE0), (0x2206, 0xCA30), (0x2206, 0xEEE0), (0x2206, 0xCB3E),
    (0x2206, 0xEEE0), (0x2206, 0xDCE1), (0x2206, 0xEEE0), (0x2206, 0xDD00), (0x2206, 0xEEE2),
    (0x2206, 0x0001), (0x2206, 0xEEE2), (0x2206, 0x0100), (0x2206, 0xEEE4), (0x2206, 0x8860),
    (0x2206, 0xEEE4), (0x2206, 0x8902), (0x2206, 0xEEE4), (0x2206, 0x8C00), (0x2206, 0xEEE4),
    (0x2206, 0x8D30), (0x2206, 0xEEEA), (0x2206, 0x1480), (0x2206, 0xEEEA), (0x2206, 0x1503),
    (0x2206, 0xEEEA), (0x2206, 0xC600), (0x2206, 0xEEEA), (0x2206, 0xC706), (0x2206, 0xEE85),
    (0x2206, 0xEE00), (0x2206, 0xEE85), (0x2206, 0xEF00), (0x2206, 0xEE8B), (0x2206, 0x6750),
    (0x2206, 0xEE8B), (0x2206, 0x6632), (0x2206, 0xEE8A), (0x2206, 0xD448), (0x2206, 0xEE8A),
    (0x2206, 0xD548), (0x2206, 0xEE8A), (0x2206, 0xD649), (0x2206, 0xEE8A), (0x2206, 0xD7F8),
    (0x2206, 0xEE8B), (0x2206, 0x85E2), (0x2206, 0xEE8B), (0x2206, 0x8700), (0x2206, 0xEEFF),
    (0x2206, 0xF600), (0x2206, 0xEEFF), (0x2206, 0xF7FC), (0x2206, 0x04F8), (0x2206, 0xE08B),
    (0x2206, 0x8EAD), (0x2206, 0x2023), (0x2206, 0xF620), (0x2206, 0xE48B), (0x2206, 0x8E02),
    (0x2206, 0x2877), (0x2206, 0x0225), (0x2206, 0xC702), (0x2206, 0x26A1), (0x2206, 0x0281),
    (0x2206, 0xB302), (0x2206, 0x8496), (0x2206, 0x0202), (0x2206, 0xA102), (0x2206, 0x27F1),
    (0x2206, 0x0228), (0x2206, 0xF902), (0x2206, 0x2AA0), (0x2206, 0x0282), (0x2206, 0xB8E0),
    (0x2206, 0x8B8E), (0x2206, 0xAD21), (0x2206, 0x08F6), (0x2206, 0x21E4), (0x2206, 0x8B8E),
    (0x2206, 0x0202), (0x2206, 0x80E0), (0x2206, 0x8B8E), (0x2206, 0xAD22), (0x2206, 0x05F6),
    (0x2206, 0x22E4), (0x2206, 0x8B8E), (0x2206, 0xE08B), (0x2206, 0x8EAD), (0x2206, 0x2305),
    (0x2206, 0xF623), (0x2206, 0xE48B), (0x2206, 0x8EE0), (0x2206, 0x8B8E), (0x2206, 0xAD24),
    (0x2206, 0x08F6), (0x2206, 0x24E4), (0x2206, 0x8B8E), (0x2206, 0x0227), (0x2206, 0x6AE0),
    (0x2206, 0x8B8E), (0x2206, 0xAD25), (0x2206, 0x05F6), (0x2206, 0x25E4), (0x2206, 0x8B8E),
    (0x2206, 0xE08B), (0x2206, 0x8EAD), (0x2206, 0x260B), (0x2206, 0xF626), (0x2206, 0xE48B),
    (0x2206, 0x8E02), (0x2206, 0x830D), (0x2206, 0x021D), (0x2206, 0x6BE0), (0x2206, 0x8B8E),
    (0x2206, 0xAD27), (0x2206, 0x05F6), (0x2206, 0x27E4), (0x2206, 0x8B8E), (0x2206, 0x0281),
    (0x2206, 0x4402), (0x2206, 0x045C), (0x2206, 0xFC04), (0x2206, 0xF8E0), (0x2206, 0x8B83),
    (0x2206, 0xAD23), (0x2206, 0x30E0), (0x2206, 0xE022), (0x2206, 0xE1E0), (0x2206, 0x2359),
    (0x2206, 0x02E0), (0x2206, 0x85EF), (0x2206, 0xE585), (0x2206, 0xEFAC), (0x2206, 0x2907),
    (0x2206, 0x1F01), (0x2206, 0x9E51), (0x2206, 0xAD29), (0x2206, 0x20E0), (0x2206, 0x8B83),
    (0x2206, 0xAD21), (0x2206, 0x06E1), (0x2206, 0x8B84), (0x2206, 0xAD28), (0x2206, 0x42E0),
    (0x2206, 0x8B85), (0x2206, 0xAD21), (0x2206, 0x06E1), (0x2206, 0x8B84), (0x2206, 0xAD29),
    (0x2206, 0x36BF), (0x2206, 0x34BF), (0x2206, 0x022C), (0x2206, 0x31AE), (0x2206, 0x2EE0),
    (0x2206, 0x8B83), (0x2206, 0xAD21), (0x2206, 0x10E0), (0x2206, 0x8B84), (0x2206, 0xF620),
    (0x2206, 0xE48B), (0x2206, 0x84EE), (0x2206, 0x8ADA), (0x2206, 0x00EE), (0x2206, 0x8ADB),
    (0x2206, 0x00E0), (0x2206, 0x8B85), (0x2206, 0xAD21), (0x2206, 0x0CE0), (0x2206, 0x8B84),
    (0x2206, 0xF621), (0x2206, 0xE48B), (0x2206, 0x84EE), (0x2206, 0x8B72), (0x2206, 0xFFBF),
    (0x2206, 0x34C2), (0x2206, 0x022C), (0x2206, 0x31FC), (0x2206, 0x04F8), (0x2206, 0xFAEF),
    (0x2206, 0x69E0), (0x2206, 0x8B85), (0x2206, 0xAD21), (0x2206, 0x42E0), (0x2206, 0xE022),
    (0x2206, 0xE1E0), (0x2206, 0x2358), (0x2206, 0xC059), (0x2206, 0x021E), (0x2206, 0x01E1),
    (0x2206, 0x8B72), (0x2206, 0x1F10), (0x2206, 0x9E2F), (0x2206, 0xE48B), (0x2206, 0x72AD),
    (0x2206, 0x2123), (0x2206, 0xE18B), (0x2206, 0x84F7), (0x2206, 0x29E5), (0x2206, 0x8B84),
    (0x2206, 0xAC27), (0x2206, 0x10AC), (0x2206, 0x2605), (0x2206, 0x0205), (0x2206, 0x23AE),
    (0x2206, 0x1602), (0x2206, 0x0535), (0x2206, 0x0282), (0x2206, 0x30AE), (0x2206, 0x0E02),
    (0x2206, 0x056A), (0x2206, 0x0282), (0x2206, 0x75AE), (0x2206, 0x0602), (0x2206, 0x04DC),
    (0x2206, 0x0282), (0x2206, 0x04EF), (0x2206, 0x96FE), (0x2206, 0xFC04), (0x2206, 0xF8F9),
    (0x2206, 0xE08B), (0x2206, 0x87AD), (0x2206, 0x2321), (0x2206, 0xE0EA), (0x2206, 0x14E1),
    (0x2206, 0xEA15), (0x2206, 0xAD26), (0x2206, 0x18F6), (0x2206, 0x27E4), (0x2206, 0xEA14),
    (0x2206, 0xE5EA), (0x2206, 0x15F6), (0x2206, 0x26E4), (0x2206, 0xEA14), (0x2206, 0xE5EA),
    (0x2206, 0x15F7), (0x2206, 0x27E4), (0x2206, 0xEA14), (0x2206, 0xE5EA), (0x2206, 0x15FD),
    (0x2206, 0xFC04), (0x2206, 0xF8F9), (0x2206, 0xE08B), (0x2206, 0x87AD), (0x2206, 0x233A),
    (0x2206, 0xAD22), (0x2206, 0x37E0), (0x2206, 0xE020), (0x2206, 0xE1E0), (0x2206, 0x21AC),
    (0x2206, 0x212E), (0x2206, 0xE0EA), (0x2206, 0x14E1), (0x2206, 0xEA15), (0x2206, 0xF627),
    (0x2206, 0xE4EA), (0x2206, 0x14E5), (0x2206, 0xEA15), (0x2206, 0xE2EA), (0x2206, 0x12E3),
    (0x2206, 0xEA13), (0x2206, 0x5A8F), (0x2206, 0x6A20), (0x2206, 0xE6EA), (0x2206, 0x12E7),
    (0x2206, 0xEA13), (0x2206, 0xF726), (0x2206, 0xE4EA), (0x2206, 0x14E5), (0x2206, 0xEA15),
    (0x2206, 0xF727), (0x2206, 0xE4EA), (0x2206, 0x14E5), (0x2206, 0xEA15), (0x2206, 0xFDFC),
    (0x2206, 0x04F8), (0x2206, 0xF9E0), (0x2206, 0x8B87), (0x2206, 0xAD23), (0x2206, 0x38AD),
    (0x2206, 0x2135), (0x2206, 0xE0E0), (0x2206, 0x20E1), (0x2206, 0xE021), (0x2206, 0xAC21),
    (0x2206, 0x2CE0), (0x2206, 0xEA14), (0x2206, 0xE1EA), (0x2206, 0x15F6), (0x2206, 0x27E4),
    (0x2206, 0xEA14), (0x2206, 0xE5EA), (0x2206, 0x15E2), (0x2206, 0xEA12), (0x2206, 0xE3EA),
    (0x2206, 0x135A), (0x2206, 0x8FE6), (0x2206, 0xEA12), (0x2206, 0xE7EA), (0x2206, 0x13F7),
    (0x2206, 0x26E4), (0x2206, 0xEA14), (0x2206, 0xE5EA), (0x2206, 0x15F7), (0x2206, 0x27E4),
    (0x2206, 0xEA14), (0x2206, 0xE5EA), (0x2206, 0x15FD), (0x2206, 0xFC04), (0x2206, 0xF8FA),
    (0x2206, 0xEF69), (0x2206, 0xE08B), (0x2206, 0x86AD), (0x2206, 0x2146), (0x2206, 0xE0E0),
    (0x2206, 0x22E1), (0x2206, 0xE023), (0x2206, 0x58C0), (0x2206, 0x5902), (0x2206, 0x1E01),
    (0x2206, 0xE18B), (0x2206, 0x651F), (0x2206, 0x109E), (0x2206, 0x33E4), (0x2206, 0x8B65),
    (0x2206, 0xAD21), (0x2206, 0x22AD), (0x2206, 0x272A), (0x2206, 0xD400), (0x2206, 0x01BF),
    (0x2206, 0x34F2), (0x2206, 0x022C), (0x2206, 0xA2BF), (0x2206, 0x34F5), (0x2206, 0x022C),
    (0x2206, 0xE0E0), (0x2206, 0x8B67), (0x2206, 0x1B10), (0x2206, 0xAA14), (0x2206, 0xE18B),
    (0x2206, 0x660D), (0x2206, 0x1459), (0x2206, 0x0FAE), (0x2206, 0x05E1), (0x2206, 0x8B66),
    (0x2206, 0x590F), (0x2206, 0xBF85), (0x2206, 0x6102), (0x2206, 0x2CA2), (0x2206, 0xEF96),
    (0x2206, 0xFEFC), (0x2206, 0x04F8), (0x2206, 0xF9FA), (0x2206, 0xFBEF), (0x2206, 0x79E2),
    (0x2206, 0x8AD2), (0x2206, 0xAC19), (0x2206, 0x2DE0), (0x2206, 0xE036), (0x2206, 0xE1E0),
    (0x2206, 0x37EF), (0x2206, 0x311F), (0x2206, 0x325B), (0x2206, 0x019E), (0x2206, 0x1F7A),
    (0x2206, 0x0159), (0x2206, 0x019F), (0x2206, 0x0ABF), (0x2206, 0x348E), (0x2206, 0x022C),
    (0x2206, 0x31F6), (0x2206, 0x06AE), (0x2206, 0x0FF6), (0x2206, 0x0302), (0x2206, 0x0470),
    (0x2206, 0xF703), (0x2206, 0xF706), (0x2206, 0xBF34), (0x2206, 0x9302), (0x2206, 0x2C31),
    (0x2206, 0xAC1A), (0x2206, 0x25E0), (0x2206, 0xE022), (0x2206, 0xE1E0), (0x2206, 0x23EF),
    (0x2206, 0x300D), (0x2206, 0x311F), (0x2206, 0x325B), (0x2206, 0x029E), (0x2206, 0x157A),
    (0x2206, 0x0258), (0x2206, 0xC4A0), (0x2206, 0x0408), (0x2206, 0xBF34), (0x2206, 0x9E02),
    (0x2206, 0x2C31), (0x2206, 0xAE06), (0x2206, 0xBF34), (0x2206, 0x9C02), (0x2206, 0x2C31),
    (0x2206, 0xAC1B), (0x2206, 0x4AE0), (0x2206, 0xE012), (0x2206, 0xE1E0), (0x2206, 0x13EF),
    (0x2206, 0x300D), (0x2206, 0x331F), (0x2206, 0x325B), (0x2206, 0x1C9E), (0x2206, 0x3AEF),
    (0x2206, 0x325B), (0x2206, 0x1C9F), (0x2206, 0x09BF), (0x2206, 0x3498), (0x2206, 0x022C),
    (0x2206, 0x3102), (0x2206, 0x83C5), (0x2206, 0x5A03), (0x2206, 0x0D03), (0x2206, 0x581C),
    (0x2206, 0x1E20), (0x2206, 0x0207), (0x2206, 0xA0A0), (0x2206, 0x000E), (0x2206, 0x0284),
    (0x2206, 0x17AD), (0x2206, 0x1817), (0x2206, 0xBF34), (0x2206, 0x9A02), (0x2206, 0x2C31),
    (0x2206, 0xAE0F), (0x2206, 0xBF34), (0x2206, 0xC802), (0x2206, 0x2C31), (0x2206, 0xBF34),
    (0x2206, 0xC502), (0x2206, 0x2C31), (0x2206, 0x0284), (0x2206, 0x52E6), (0x2206, 0x8AD2),
    (0x2206, 0xEF97), (0x2206, 0xFFFE), (0x2206, 0xFDFC), (0x2206, 0x04F8), (0x2206, 0xBF34),
    (0x2206, 0xDA02), (0x2206, 0x2CE0), (0x2206, 0xE58A), (0x2206, 0xD3BF), (0x2206, 0x34D4),
    (0x2206, 0x022C), (0x2206, 0xE00C), (0x2206, 0x1159), (0x2206, 0x02E0), (0x2206, 0x8AD3),
    (0x2206, 0x1E01), (0x2206, 0xE48A), (0x2206, 0xD3D1), (0x2206, 0x00BF), (0x2206, 0x34DA),
    (0x2206, 0x022C), (0x2206, 0xA2D1), (0x2206, 0x01BF), (0x2206, 0x34D4), (0x2206, 0x022C),
    (0x2206, 0xA2BF), (0x2206, 0x34CB), (0x2206, 0x022C), (0x2206, 0xE0E5), (0x2206, 0x8ACE),
    (0x2206, 0xBF85), (0x2206, 0x6702), (0x2206, 0x2CE0), (0x2206, 0xE58A), (0x2206, 0xCFBF),
    (0x2206, 0x8564), (0x2206, 0x022C), (0x2206, 0xE0E5), (0x2206, 0x8AD0), (0x2206, 0xBF85),
    (0x2206, 0x6A02), (0x2206, 0x2CE0), (0x2206, 0xE58A), (0x2206, 0xD1FC), (0x2206, 0x04F8),
    (0x2206, 0xE18A), (0x2206, 0xD1BF), (0x2206, 0x856A), (0x2206, 0x022C), (0x2206, 0xA2E1),
    (0x2206, 0x8AD0), (0x2206, 0xBF85), (0x2206, 0x6402), (0x2206, 0x2CA2), (0x2206, 0xE18A),
    (0x2206, 0xCFBF), (0x2206, 0x8567), (0x2206, 0x022C), (0x2206, 0xA2E1), (0x2206, 0x8ACE),
    (0x2206, 0xBF34), (0x2206, 0xCB02), (0x2206, 0x2CA2), (0x2206, 0xE18A), (0x2206, 0xD3BF),
    (0x2206, 0x34DA), (0x2206, 0x022C), (0x2206, 0xA2E1), (0x2206, 0x8AD3), (0x2206, 0x0D11),
    (0x2206, 0xBF34), (0x2206, 0xD402), (0x2206, 0x2CA2), (0x2206, 0xFC04), (0x2206, 0xF9A0),
    (0x2206, 0x0405), (0x2206, 0xE38A), (0x2206, 0xD4AE), (0x2206, 0x13A0), (0x2206, 0x0805),
    (0x2206, 0xE38A), (0x2206, 0xD5AE), (0x2206, 0x0BA0), (0x2206, 0x0C05), (0x2206, 0xE38A),
    (0x2206, 0xD6AE), (0x2206, 0x03E3), (0x2206, 0x8AD7), (0x2206, 0xEF13), (0x2206, 0xBF34),
    (0x2206, 0xCB02), (0x2206, 0x2CA2), (0x2206, 0xEF13), (0x2206, 0x0D11), (0x2206, 0xBF85),
    (0x2206, 0x6702), (0x2206, 0x2CA2), (0x2206, 0xEF13), (0x2206, 0x0D14), (0x2206, 0xBF85),
    (0x2206, 0x6402), (0x2206, 0x2CA2), (0x2206, 0xEF13), (0x2206, 0x0D17), (0x2206, 0xBF85),
    (0x2206, 0x6A02), (0x2206, 0x2CA2), (0x2206, 0xFD04), (0x2206, 0xF8E0), (0x2206, 0x8B85),
    (0x2206, 0xAD27), (0x2206, 0x2DE0), (0x2206, 0xE036), (0x2206, 0xE1E0), (0x2206, 0x37E1),
    (0x2206, 0x8B73), (0x2206, 0x1F10), (0x2206, 0x9E20), (0x2206, 0xE48B), (0x2206, 0x73AC),
    (0x2206, 0x200B), (0x2206, 0xAC21), (0x2206, 0x0DAC), (0x2206, 0x250F), (0x2206, 0xAC27),
    (0x2206, 0x0EAE), (0x2206, 0x0F02), (0x2206, 0x84CC), (0x2206, 0xAE0A), (0x2206, 0x0284),
    (0x2206, 0xD1AE), (0x2206, 0x05AE), (0x2206, 0x0302), (0x2206, 0x84D8), (0x2206, 0xFC04),
    (0x2206, 0xEE8B), (0x2206, 0x6800), (0x2206, 0x0402), (0x2206, 0x84E5), (0x2206, 0x0285),
    (0x2206, 0x2804), (0x2206, 0x0285), (0x2206, 0x4904), (0x2206, 0xEE8B), (0x2206, 0x6800),
    (0x2206, 0xEE8B), (0x2206, 0x6902), (0x2206, 0x04F8), (0x2206, 0xF9E0), (0x2206, 0x8B85),
    (0x2206, 0xAD26), (0x2206, 0x38D0), (0x2206, 0x0B02), (0x2206, 0x2B4D), (0x2206, 0x5882),
    (0x2206, 0x7882), (0x2206, 0x9F2D), (0x2206, 0xE08B), (0x2206, 0x68E1), (0x2206, 0x8B69),
    (0x2206, 0x1F10), (0x2206, 0x9EC8), (0x2206, 0x10E4), (0x2206, 0x8B68), (0x2206, 0xE0E0),
    (0x2206, 0x00E1), (0x2206, 0xE001), (0x2206, 0xF727), (0x2206, 0xE4E0), (0x2206, 0x00E5),
    (0x2206, 0xE001), (0x2206, 0xE2E0), (0x2206, 0x20E3), (0x2206, 0xE021), (0x2206, 0xAD30),
    (0x2206, 0xF7F6), (0x2206, 0x27E4), (0x2206, 0xE000), (0x2206, 0xE5E0), (0x2206, 0x01FD),
    (0x2206, 0xFC04), (0x2206, 0xF8FA), (0x2206, 0xEF69), (0x2206, 0xE08B), (0x2206, 0x86AD),
    (0x2206, 0x2212), (0x2206, 0xE0E0), (0x2206, 0x14E1), (0x2206, 0xE015), (0x2206, 0xAD26),
    (0x2206, 0x9CE1), (0x2206, 0x85E0), (0x2206, 0xBF85), (0x2206, 0x6D02), (0x2206, 0x2CA2),
    (0x2206, 0xEF96), (0x2206, 0xFEFC), (0x2206, 0x04F8), (0x2206, 0xFAEF), (0x2206, 0x69E0),
    (0x2206, 0x8B86), (0x2206, 0xAD22), (0x2206, 0x09E1), (0x2206, 0x85E1), (0x2206, 0xBF85),
    (0x2206, 0x6D02), (0x2206, 0x2CA2), (0x2206, 0xEF96), (0x2206, 0xFEFC), (0x2206, 0x0464),
    (0x2206, 0xE48C), (0x2206, 0xFDE4), (0x2206, 0x80CA), (0x2206, 0xE480), (0x2206, 0x66E0),
    (0x2206, 0x8E70), (0x2206, 0xE076), (0x2205, 0xE142), (0x2206, 0x0701), (0x2205, 0xE140),
    (0x2206, 0x0405), (0x220F, 0x0000), (0x221F, 0x0000), (0x2200, 0x1340), (0x133E, 0x000E),
    (0x133F, 0x0010), (0x13EB, 0x11BB)]"

definition rtl8367r_vb_initvals_1 :: "(u16 \<times> u16) list" where
  "rtl8367r_vb_initvals_1 = [
    (0x1B03, 0x0876), (0x1200, 0x7FC4), (0x1305, 0xC000), (0x121E, 0x03CA), (0x1233, 0x0352),
    (0x1234, 0x0064), (0x1237, 0x0096), (0x1238, 0x0078), (0x1239, 0x0084), (0x123A, 0x0030),
    (0x205F, 0x0002), (0x2059, 0x1A00), (0x205F, 0x0000), (0x207F, 0x0002), (0x2077, 0x0000),
    (0x2078, 0x0000), (0x2079, 0x0000), (0x207A, 0x0000), (0x207B, 0x0000), (0x207F, 0x0000),
    (0x205F, 0x0002), (0x2053, 0x0000), (0x2054, 0x0000), (0x2055, 0x0000), (0x2056, 0x0000),
    (0x2057, 0x0000), (0x205F, 0x0000), (0x133F, 0x0030), (0x133E, 0x000E), (0x221F, 0x0005),
    (0x2205, 0x8B86), (0x2206, 0x800E), (0x221F, 0x0000), (0x133F, 0x0010), (0x12A3, 0x2200),
    (0x6107, 0xE58B), (0x6103, 0xA970), (0x0018, 0x0F00), (0x0038, 0x0F00), (0x0058, 0x0F00),
    (0x0078, 0x0F00), (0x0098, 0x0F00), (0x133F, 0x0030), (0x133E, 0x000E), (0x221F, 0x0005),
    (0x2205, 0x8B6E), (0x2206, 0x0000), (0x220F, 0x0100), (0x2205, 0xFFF6), (0x2206, 0x0080),
    (0x2205, 0x8000), (0x2206, 0x0280), (0x2206, 0x2BF7), (0x2206, 0x00E0), (0x2206, 0xFFF7),
    (0x2206, 0xA080), (0x2206, 0x02AE), (0x2206, 0xF602), (0x2206, 0x0153), (0x2206, 0x0201),
    (0x2206, 0x6602), (0x2206, 0x8044), (0x2206, 0x0201), (0x2206, 0x7CE0), (0x2206, 0x8B8C),
    (0x2206, 0xE18B), (0x2206, 0x8D1E), (0x2206, 0x01E1), (0x2206, 0x8B8E), (0x2206, 0x1E01),
    (0x2206, 0xA000), (0x2206, 0xE4AE), (0x2206, 0xD8EE), (0x2206, 0x85C0), (0x2206, 0x00EE),
    (0x2206, 0x85C1), (0x2206, 0x00EE), (0x2206, 0x8AFC), (0x2206, 0x07EE), (0x2206, 0x8AFD),
    (0x2206, 0x73EE), (0x2206, 0xFFF6), (0x2206, 0x00EE), (0x2206, 0xFFF7), (0x2206, 0xFC04),
    (0x2206, 0xF8E0), (0x2206, 0x8B8E), (0x2206, 0xAD20), (0x2206, 0x0302), (0x2206, 0x8050),
    (0x2206, 0xFC04), (0x2206, 0xF8F9), (0x2206, 0xE08B), (0x2206, 0x85AD), (0x2206, 0x2548),
    (0x2206, 0xE08A), (0x2206, 0xE4E1), (0x2206, 0x8AE5), (0x2206, 0x7C00), (0x2206, 0x009E),
    (0x2206, 0x35EE), (0x2206, 0x8AE4), (0x2206, 0x00EE), (0x2206, 0x8AE5), (0x2206, 0x00E0),
    (0x2206, 0x8AFC), (0x2206, 0xE18A), (0x2206, 0xFDE2), (0x2206, 0x85C0), (0x2206, 0xE385),
    (0x2206, 0xC102), (0x2206, 0x2DAC), (0x2206, 0xAD20), (0x2206, 0x12EE), (0x2206, 0x8AE4),
    (0x2206, 0x03EE), (0x2206, 0x8AE5), (0x2206, 0xB7EE), (0x2206, 0x85C0), (0x2206, 0x00EE),
    (0x2206, 0x85C1), (0x2206, 0x00AE), (0x2206, 0x1115), (0x2206, 0xE685), (0x2206, 0xC0E7),
    (0x2206, 0x85C1), (0x2206, 0xAE08), (0x2206, 0xEE85), (0x2206, 0xC000), (0x2206, 0xEE85),
    (0x2206, 0xC100), (0x2206, 0xFDFC), (0x2206, 0x0400), (0x2205, 0xE142), (0x2206, 0x0701),
    (0x2205, 0xE140), (0x2206, 0x0405), (0x220F, 0x0000), (0x221F, 0x0000), (0x133E, 0x000E),
    (0x133F, 0x0010), (0x13EB, 0x11BB), (0x207F, 0x0002), (0x2073, 0x1D22), (0x207F, 0x0000),
    (0x133F, 0x0030), (0x133E, 0x000E), (0x2200, 0x1340), (0x133E, 0x000E), (0x133F, 0x0010)]"

end
