(* ===== verification/Rtl8367.thy ===== *)
theory Rtl8367
  imports Rtl8367_Initvals
begin

text \<open>
  The RTL8367R/M driver, \<open>rtl8367.c\<close>: chip set-up per silicon revision, the external interfaces,
  the LEDs, the VLAN tables, the counters, the PHY bus and the attribute handlers.
\<close>

section \<open>Registers and tables\<close>

abbreviation (input) RTL8367_RESET_DELAY :: nat where "RTL8367_RESET_DELAY \<equiv> 1000"
abbreviation (input) RTL8367_PHY_ADDR_MAX :: u32 where "RTL8367_PHY_ADDR_MAX \<equiv> 8"
abbreviation (input) RTL8367_PHY_REG_MAX :: u32 where "RTL8367_PHY_REG_MAX \<equiv> 0x1F"
abbreviation (input) RTL8367_UNTAG_MASK :: u32 where "RTL8367_UNTAG_MASK \<equiv> 0xFFFF"
abbreviation (input) RTL8367_PORT_CFG_EGRESS_MODE_SHIFT :: nat where "RTL8367_PORT_CFG_EGRESS_MODE_SHIFT \<equiv> 4"
abbreviation (input) RTL8367_PORT_CFG_EGRESS_MODE_MASK :: u32 where "RTL8367_PORT_CFG_EGRESS_MODE_MASK \<equiv> 3"
abbreviation (input) RTL8367_PORT_CFG_EGRESS_MODE_ORIGINAL :: u32 where "RTL8367_PORT_CFG_EGRESS_MODE_ORIGINAL \<equiv> 0"
abbreviation (input) RTL8367_BYPASS_LINE_RATE_REG :: u32 where "RTL8367_BYPASS_LINE_RATE_REG \<equiv> 0x3F7"
abbreviation (input) RTL8367_TA_CTRL_REG :: u32 where "RTL8367_TA_CTRL_REG \<equiv> 0x500"
abbreviation (input) RTL8367_TA_CTRL_CMD_SHIFT :: nat where "RTL8367_TA_CTRL_CMD_SHIFT \<equiv> 4"
abbreviation (input) RTL8367_TA_CTRL_CMD_READ :: u32 where "RTL8367_TA_CTRL_CMD_READ \<equiv> 0"
abbreviation (input) RTL8367_TA_CTRL_CMD_WRITE :: u32 where "RTL8367_TA_CTRL_CMD_WRITE \<equiv> 1"
abbreviation (input) RTL8367_TA_CTRL_TABLE_CVLAN :: u32 where "RTL8367_TA_CTRL_TABLE_CVLAN \<equiv> 3"
abbreviation (input) RTL8367_TA_ADDR_REG :: u32 where "RTL8367_TA_ADDR_REG \<equiv> 0x501"
abbreviation (input) RTL8367_TA_VLAN_VID_MASK :: u32 where "RTL8367_TA_VLAN_VID_MASK \<equiv> 0xFFFF"
abbreviation (input) RTL8367_TA_VLAN_MEMBER_SHIFT :: nat where "RTL8367_TA_VLAN_MEMBER_SHIFT \<equiv> 0"
abbreviation (input) RTL8367_TA_VLAN_MEMBER_MASK :: u32 where "RTL8367_TA_VLAN_MEMBER_MASK \<equiv> 0xFFFF"
abbreviation (input) RTL8367_TA_VLAN_FID_SHIFT :: nat where "RTL8367_TA_VLAN_FID_SHIFT \<equiv> 0"
abbreviation (input) RTL8367_TA_VLAN_FID_MASK :: u32 where "RTL8367_TA_VLAN_FID_MASK \<equiv> 0xFFF"
abbreviation (input) RTL8367_TA_VLAN_UNTAG1_SHIFT :: nat where "RTL8367_TA_VLAN_UNTAG1_SHIFT \<equiv> 14"
abbreviation (input) RTL8367_TA_VLAN_UNTAG1_MASK :: u32 where "RTL8367_TA_VLAN_UNTAG1_MASK \<equiv> 3"
abbreviation (input) RTL8367_TA_VLAN_UNTAG2_SHIFT :: nat where "RTL8367_TA_VLAN_UNTAG2_SHIFT \<equiv> 0"
abbreviation (input) RTL8367_TA_VLAN_UNTAG2_MASK :: u32 where "RTL8367_TA_VLAN_UNTAG2_MASK \<equiv> 0x3FFF"
abbreviation (input) RTL8367_VLAN_PVID_CTRL_MASK :: u32 where "RTL8367_VLAN_PVID_CTRL_MASK \<equiv> 0x1F"
abbreviation (input) RTL8367_VLAN_MC_MEMBER_SHIFT :: nat where "RTL8367_VLAN_MC_MEMBER_SHIFT \<equiv> 0"
abbreviation (input) RTL8367_VLAN_MC_MEMBER_MASK :: u32 where "RTL8367_VLAN_MC_MEMBER_MASK \<equiv> 0xFFFF"
abbreviation (input) RTL8367_VLAN_MC_FID_SHIFT :: nat where "RTL8367_VLAN_MC_FID_SHIFT \<equiv> 0"
abbreviation (input) RTL8367_VLAN_MC_FID_MASK :: u32 where "RTL8367_VLAN_MC_FID_MASK \<equiv> 0xFFF"
abbreviation (input) RTL8367_VLAN_MC_EVID_SHIFT :: nat where "RTL8367_VLAN_MC_EVID_SHIFT \<equiv> 0"
abbreviation (input) RTL8367_VLAN_MC_EVID_MASK :: u32 where "RTL8367_VLAN_MC_EVID_MASK \<equiv> 0xFFFF"
abbreviation (input) RTL8367_VLAN_CTRL_REG :: u32 where "RTL8367_VLAN_CTRL_REG \<equiv> 0x7A8"
abbreviation (input) RTL8367_VLAN_CTRL_ENABLE :: u32 where "RTL8367_VLAN_CTRL_ENABLE \<equiv> 1"
abbreviation (input) RTL8367_VLAN_INGRESS_REG :: u32 where "RTL8367_VLAN_INGRESS_REG \<equiv> 0x7A9"
abbreviation (input) RTL8367_MIB_ADDRESS_REG :: u32 where "RTL8367_MIB_ADDRESS_REG \<equiv> 0x1004"
abbreviation (input) RTL8367_MIB_CTRL_GLOBAL_RESET_MASK :: u32 where "RTL8367_MIB_CTRL_GLOBAL_RESET_MASK \<equiv> 0x800"
abbreviation (input) RTL8367_MIB_CTRL_RESET_MASK :: u32 where "RTL8367_MIB_CTRL_RESET_MASK \<equiv> 2"
abbreviation (input) RTL8367_MIB_CTRL_BUSY_MASK :: u32 where "RTL8367_MIB_CTRL_BUSY_MASK \<equiv> 1"
abbreviation (input) RTL8367_MIB_COUNT :: nat where "RTL8367_MIB_COUNT \<equiv> 36"
abbreviation (input) RTL8367_MIB_COUNTER_PORT_OFFSET :: u32 where "RTL8367_MIB_COUNTER_PORT_OFFSET \<equiv> 0x50"
abbreviation (input) RTL8367_SWC0_REG :: u32 where "RTL8367_SWC0_REG \<equiv> 0x1200"
abbreviation (input) RTL8367_SWC0_MAX_LENGTH_SHIFT :: nat where "RTL8367_SWC0_MAX_LENGTH_SHIFT \<equiv> 13"
abbreviation (input) RTL8367_CHIP_VER_REG :: u32 where "RTL8367_CHIP_VER_REG \<equiv> 0x1301"
abbreviation (input) RTL8367_CHIP_VER_RLVID_SHIFT :: nat where "RTL8367_CHIP_VER_RLVID_SHIFT \<equiv> 12"
abbreviation (input) RTL8367_CHIP_VER_RLVID_MASK :: u32 where "RTL8367_CHIP_VER_RLVID_MASK \<equiv> 0xF"
abbreviation (input) RTL8367_CHIP_MODE_REG :: u32 where "RTL8367_CHIP_MODE_REG \<equiv> 0x1302"
abbreviation (input) RTL8367_CHIP_MODE_MASK :: u32 where "RTL8367_CHIP_MODE_MASK \<equiv> 7"
abbreviation (input) RTL8367_CHIP_DEBUG0_REG :: u32 where "RTL8367_CHIP_DEBUG0_REG \<equiv> 0x1303"
abbreviation (input) RTL8367_CHIP_DEBUG1_REG :: u32 where "RTL8367_CHIP_DEBUG1_REG \<equiv> 0x1304"
abbreviation (input) RTL8367_DIS_REG :: u32 where "RTL8367_DIS_REG \<equiv> 0x1305"
abbreviation (input) RTL8367_DIS_RGMII_MASK :: u32 where "RTL8367_DIS_RGMII_MASK \<equiv> 7"
abbreviation (input) RTL8367_EXT_RGMXF_TXDELAY_SHIFT :: nat where "RTL8367_EXT_RGMXF_TXDELAY_SHIFT \<equiv> 3"
abbreviation (input) RTL8367_EXT_RGMXF_TXDELAY_MASK :: u32 where "RTL8367_EXT_RGMXF_TXDELAY_MASK \<equiv> 1"
abbreviation (input) RTL8367_EXT_RGMXF_RXDELAY_MASK :: u32 where "RTL8367_EXT_RGMXF_RXDELAY_MASK \<equiv> 7"
abbreviation (input) RTL8367_DI_FORCE_MODE :: u32 where "RTL8367_DI_FORCE_MODE \<equiv> 0x1000"
abbreviation (input) RTL8367_DI_FORCE_NWAY :: u32 where "RTL8367_DI_FORCE_NWAY \<equiv> 0x80"
abbreviation (input) RTL8367_DI_FORCE_TXPAUSE :: u32 where "RTL8367_DI_FORCE_TXPAUSE \<equiv> 0x40"
abbreviation (input) RTL8367_DI_FORCE_RXPAUSE :: u32 where "RTL8367_DI_FORCE_RXPAUSE \<equiv> 0x20"
abbreviation (input) RTL8367_DI_FORCE_LINK :: u32 where "RTL8367_DI_FORCE_LINK \<equiv> 0x10"
abbreviation (input) RTL8367_DI_FORCE_DUPLEX :: u32 where "RTL8367_DI_FORCE_DUPLEX \<equiv> 4"
abbreviation (input) RTL8367_DI_FORCE_SPEED_MASK :: u32 where "RTL8367_DI_FORCE_SPEED_MASK \<equiv> 3"
abbreviation (input) RTL8367_CHIP_RESET_REG :: u32 where "RTL8367_CHIP_RESET_REG \<equiv> 0x1322"
abbreviation (input) RTL8367_CHIP_RESET_HW :: u32 where "RTL8367_CHIP_RESET_HW \<equiv> 1"
abbreviation (input) RTL8367_RTL_NO_REG :: u32 where "RTL8367_RTL_NO_REG \<equiv> 0x13C0"
abbreviation (input) RTL8367_RTL_NO_8367R :: u32 where "RTL8367_RTL_NO_8367R \<equiv> 0x3670"
abbreviation (input) RTL8367_RTL_NO_8367M :: u32 where "RTL8367_RTL_NO_8367M \<equiv> 0x3671"
abbreviation (input) RTL8367_RTL_VER_REG :: u32 where "RTL8367_RTL_VER_REG \<equiv> 0x13C1"
abbreviation (input) RTL8367_RTL_MAGIC_ID_REG :: u32 where "RTL8367_RTL_MAGIC_ID_REG \<equiv> 0x13C2"
abbreviation (input) RTL8367_RTL_MAGIC_ID_VAL :: u32 where "RTL8367_RTL_MAGIC_ID_VAL \<equiv> 0x249"
abbreviation (input) RTL8367_LED_SYS_CONFIG_REG :: u32 where "RTL8367_LED_SYS_CONFIG_REG \<equiv> 0x1B00"
abbreviation (input) RTL8367_LED_MODE_REG :: u32 where "RTL8367_LED_MODE_REG \<equiv> 0x1B02"
abbreviation (input) RTL8367_LED_MODE_RATE_M :: u32 where "RTL8367_LED_MODE_RATE_M \<equiv> 7"
abbreviation (input) RTL8367_LED_MODE_RATE_S :: nat where "RTL8367_LED_MODE_RATE_S \<equiv> 1"
abbreviation (input) RTL8367_LED_CONFIG_REG :: u32 where "RTL8367_LED_CONFIG_REG \<equiv> 0x1B03"
abbreviation (input) RTL8367_LED_CONFIG_DATA_S :: nat where "RTL8367_LED_CONFIG_DATA_S \<equiv> 12"
abbreviation (input) RTL8367_LED_CONFIG_DATA_M :: u32 where "RTL8367_LED_CONFIG_DATA_M \<equiv> 3"
abbreviation (input) RTL8367_LED_CONFIG_SEL :: u32 where "RTL8367_LED_CONFIG_SEL \<equiv> 0x4000"
abbreviation (input) RTL8367_LED_CONFIG_LED_CFG_M :: u32 where "RTL8367_LED_CONFIG_LED_CFG_M \<equiv> 0xF"
abbreviation (input) RTL8367_PARA_LED_IO_EN1_REG :: u32 where "RTL8367_PARA_LED_IO_EN1_REG \<equiv> 0x1B24"
abbreviation (input) RTL8367_PARA_LED_IO_EN_PMASK :: u32 where "RTL8367_PARA_LED_IO_EN_PMASK \<equiv> 0xFF"
abbreviation (input) RTL8367_IA_CTRL_REG :: u32 where "RTL8367_IA_CTRL_REG \<equiv> 0x1F00"
abbreviation (input) RTL8367_IA_CTRL_CMD_MASK :: u32 where "RTL8367_IA_CTRL_CMD_MASK \<equiv> 1"
abbreviation (input) RTL8367_IA_ADDRESS_REG :: u32 where "RTL8367_IA_ADDRESS_REG \<equiv> 0x1F02"
abbreviation (input) RTL8367_IA_WRITE_DATA_REG :: u32 where "RTL8367_IA_WRITE_DATA_REG \<equiv> 0x1F03"
abbreviation (input) RTL8367_IA_READ_DATA_REG :: u32 where "RTL8367_IA_READ_DATA_REG \<equiv> 0x1F04"
abbreviation (input) RTL8367_CPU_PORT_NUM :: nat where "RTL8367_CPU_PORT_NUM \<equiv> 9"
abbreviation (input) RTL8367_NUM_PORTS :: nat where "RTL8367_NUM_PORTS \<equiv> 10"
abbreviation (input) RTL8367_NUM_VLANS :: nat where "RTL8367_NUM_VLANS \<equiv> 32"
abbreviation (input) RTL8367_NUM_VIDS :: u32 where "RTL8367_NUM_VIDS \<equiv> 0x1000"
abbreviation (input) RTL8367_PRIORITYMAX :: u32 where "RTL8367_PRIORITYMAX \<equiv> 7"
abbreviation (input) RTL8367_FIDMAX :: u32 where "RTL8367_FIDMAX \<equiv> 7"
abbreviation (input) RTL8367_MIB_RXB_ID :: nat where "RTL8367_MIB_RXB_ID \<equiv> 0"
abbreviation (input) RTL8367_MIB_TXB_ID :: nat where "RTL8367_MIB_TXB_ID \<equiv> 20"

definition RTL8367_TA_CTRL_CVLAN_READ :: u32 where
  "RTL8367_TA_CTRL_CVLAN_READ =
    (push_bit RTL8367_TA_CTRL_CMD_SHIFT RTL8367_TA_CTRL_CMD_READ OR RTL8367_TA_CTRL_TABLE_CVLAN)"

definition RTL8367_TA_CTRL_CVLAN_WRITE :: u32 where
  "RTL8367_TA_CTRL_CVLAN_WRITE =
    (push_bit RTL8367_TA_CTRL_CMD_SHIFT RTL8367_TA_CTRL_CMD_WRITE OR RTL8367_TA_CTRL_TABLE_CVLAN)"

definition RTL8367_VLAN_PVID_CTRL_REG :: "nat \<Rightarrow> u32" where
  "RTL8367_VLAN_PVID_CTRL_REG p = 0x0700 + of_nat (p div 2)"

definition RTL8367_VLAN_PVID_CTRL_SHIFT :: "nat \<Rightarrow> nat" where
  "RTL8367_VLAN_PVID_CTRL_SHIFT p = 8 * (p mod 2)"

definition RTL8367_VLAN_MC_BASE :: "nat \<Rightarrow> u32" where
  "RTL8367_VLAN_MC_BASE x = 0x0728 + of_nat x * 4"

definition RTL8367_PORT_ISOLATION_REG :: "nat \<Rightarrow> u32" where
  "RTL8367_PORT_ISOLATION_REG p = 0x08a2 + of_nat p"

definition RTL8367_SWC0_MAX_LENGTH :: "u32 \<Rightarrow> u32" where
  "RTL8367_SWC0_MAX_LENGTH x = push_bit 13 x"

definition RTL8367_PORT_STATUS_REG :: "nat \<Rightarrow> u32" where
  "RTL8367_PORT_STATUS_REG p = 0x1352 + of_nat p"

definition RTL8367_INTERNAL_PHY_REG :: "u32 \<Rightarrow> u32 \<Rightarrow> u32" where
  "RTL8367_INTERNAL_PHY_REG a r = 0x2000 + 32 * a + r"

definition RTL8367_PORTS_ALL :: u32 where
  "RTL8367_PORTS_ALL =
    BIT 0 OR BIT 1 OR BIT 2 OR BIT 3 OR BIT 4 OR BIT 5 OR BIT 6 OR BIT 7 OR BIT 8 OR BIT 9"

definition RTL8367_PORT_CFG_REG :: "nat \<Rightarrow> u32" where
  "RTL8367_PORT_CFG_REG p = 0x000e + 0x20 * of_nat p"

definition RTL8367_TA_DATA_REG :: "nat \<Rightarrow> u32" where
  "RTL8367_TA_DATA_REG x = 0x0503 + of_nat x"

definition RTL8367_EXT_RGMXF_REG :: "nat \<Rightarrow> u32" where
  "RTL8367_EXT_RGMXF_REG x = 0x1306 + of_nat x"

definition RTL8367_DI_FORCE_REG :: "nat \<Rightarrow> u32" where
  "RTL8367_DI_FORCE_REG x = 0x1310 + of_nat x"

definition rtl8367_mib_counters :: "rtl8366_mib_counter list" where
  "rtl8367_mib_counters = [
    \<lparr>mib_base = 0, mib_offset = 0, mib_length = 4, mib_name = ''IfInOctets''\<rparr>,
    \<lparr>mib_base = 0, mib_offset = 4, mib_length = 2, mib_name = ''Dot3StatsFCSErrors''\<rparr>,
    \<lparr>mib_base = 0, mib_offset = 6, mib_length = 2, mib_name = ''Dot3StatsSymbolErrors''\<rparr>,
    \<lparr>mib_base = 0, mib_offset = 8, mib_length = 2, mib_name = ''Dot3InPauseFrames''\<rparr>,
    \<lparr>mib_base = 0, mib_offset = 10, mib_length = 2, mib_name = ''Dot3ControlInUnknownOpcodes''\<rparr>,
    \<lparr>mib_base = 0, mib_offset = 12, mib_length = 2, mib_name = ''EtherStatsFragments''\<rparr>,
    \<lparr>mib_base = 0, mib_offset = 14, mib_length = 2, mib_name = ''EtherStatsJabbers''\<rparr>,
    \<lparr>mib_base = 0, mib_offset = 16, mib_length = 2, mib_name = ''IfInUcastPkts''\<rparr>,
    \<lparr>mib_base = 0, mib_offset = 18, mib_length = 2, mib_name = ''EtherStatsDropEvents''\<rparr>,
    \<lparr>mib_base = 0, mib_offset = 20, mib_length = 4, mib_name = ''EtherStatsOctets''\<rparr>,
    \<lparr>mib_base = 0, mib_offset = 24, mib_length = 2, mib_name = ''EtherStatsUnderSizePkts''\<rparr>,
    \<lparr>mib_base = 0, mib_offset = 26, mib_length = 2, mib_name = ''EtherOversizeStats''\<rparr>,
    \<lparr>mib_base = 0, mib_offset = 28, mib_length = 2, mib_name = ''EtherStatsPkts64Octets''\<rparr>,
    \<lparr>mib_base = 0, mib_offset = 30, mib_length = 2, mib_name = ''EtherStatsPkts65to127Octets''\<rparr>,
    \<lparr>mib_base = 0, mib_offset = 32, mib_length = 2, mib_name = ''EtherStatsPkts128to255Octets''\<rparr>,
    \<lparr>mib_base = 0, mib_offset = 34, mib_length = 2, mib_name = ''EtherStatsPkts256to511Octets''\<rparr>,
    \<lparr>mib_base = 0, mib_offset = 36, mib_length = 2, mib_name = ''EtherStatsPkts512to1023Octets''\<rparr>,
    \<lparr>mib_base = 0, mib_offset = 38, mib_length = 2, mib_name = ''EtherStatsPkts1024to1518Octets''\<rparr>,
    \<lparr>mib_base = 0, mib_offset = 40, mib_length = 2, mib_name = ''EtherStatsMulticastPkts''\<rparr>,
    \<lparr>mib_base = 0, mib_offset = 42, mib_length = 2, mib_name = ''EtherStatsBroadcastPkts''\<rparr>,
    \<lparr>mib_base = 0, mib_offset = 44, mib_length = 4, mib_name = ''IfOutOctets''\<rparr>,
    \<lparr>mib_base = 0, mib_offset = 48, mib_length = 2, mib_name = ''Dot3StatsSingleCollisionFrames''\<rparr>,
    \<lparr>mib_base = 0, mib_offset = 50, mib_length = 2, mib_name = ''Dot3StatMultipleCollisionFrames''\<rparr>,
    \<lparr>mib_base = 0, mib_offset = 52, mib_length = 2, mib_name = ''Dot3sDeferredTransmissions''\<rparr>,
    \<lparr>mib_base = 0, mib_offset = 54, mib_length = 2, mib_name = ''Dot3StatsLateCollisions''\<rparr>,
    \<lparr>mib_base = 0, mib_offset = 56, mib_length = 2, mib_name = ''EtherStatsCollisions''\<rparr>,
    \<lparr>mib_base = 0, mib_offset = 58, mib_length = 2, mib_name = ''Dot3StatsExcessiveCollisions''\<rparr>,
    \<lparr>mib_base = 0, mib_offset = 60, mib_length = 2, mib_name = ''Dot3OutPauseFrames''\<rparr>,
    \<lparr>mib_base = 0, mib_offset = 62, mib_length = 2, mib_name = ''Dot1dBasePortDelayExceededDiscards''\<rparr>,
    \<lparr>mib_base = 0, mib_offset = 64, mib_length = 2, mib_name = ''Dot1dTpPortInDiscards''\<rparr>,
    \<lparr>mib_base = 0, mib_offset = 66, mib_length = 2, mib_name = ''IfOutUcastPkts''\<rparr>,
    \<lparr>mib_base = 0, mib_offset = 68, mib_length = 2, mib_name = ''IfOutMulticastPkts''\<rparr>,
    \<lparr>mib_base = 0, mib_offset = 70, mib_length = 2, mib_name = ''IfOutBroadcastPkts''\<rparr>,
    \<lparr>mib_base = 0, mib_offset = 72, mib_length = 2, mib_name = ''OutOampduPkts''\<rparr>,
    \<lparr>mib_base = 0, mib_offset = 74, mib_length = 2, mib_name = ''InOampduPkts''\<rparr>,
    \<lparr>mib_base = 0, mib_offset = 76, mib_length = 2, mib_name = ''PktgenPkts''\<rparr>]"

section \<open>Chip reset and PHY access\<close>

definition rtl8367_write_initvals ::
  "'h platform \<Rightarrow> rtl8366_smi \<Rightarrow> (u16 \<times> u16) list \<Rightarrow> ('h smi_state, unit) io" where
  "rtl8367_write_initvals H smi initvals =
    write_initvals H smi (map (\<lambda>iv. (ucast (fst iv), ucast (snd iv))) initvals)"

definition rtl8367_read_phy_reg ::
  "'h platform \<Rightarrow> rtl8366_smi \<Rightarrow> u32 \<Rightarrow> u32 \<Rightarrow> ('h smi_state, u32) io" where
  "rtl8367_read_phy_reg H smi phy_addr phy_reg =
    (if phy_addr > RTL8367_PHY_ADDR_MAX then failE EINVAL
     else if phy_reg > RTL8367_PHY_REG_MAX then failE EINVAL
     else bindE (rtl8366_smi_read_reg H smi RTL8367_IA_STATUS_REG) (\<lambda>data.
          if data AND RTL8367_IA_STATUS_PHY_BUSY \<noteq> 0 then failE ETIMEDOUT
          else bindE (rtl8366_smi_write_reg H smi RTL8367_IA_ADDRESS_REG
                        (RTL8367_INTERNAL_PHY_REG phy_addr phy_reg)) (\<lambda>_.
               bindE (rtl8366_smi_write_reg H smi RTL8367_IA_CTRL_REG
                        (RTL8367_IA_CTRL_CMD_MASK OR push_bit 1 0)) (\<lambda>_.
               bindE (rtl8367_phy_poll H smi 5) (\<lambda>_.
               rtl8366_smi_read_reg H smi RTL8367_IA_READ_DATA_REG)))))"

definition rtl8367_write_phy_reg ::
  "'h platform \<Rightarrow> rtl8366_smi \<Rightarrow> u32 \<Rightarrow> u32 \<Rightarrow> u32 \<Rightarrow> ('h smi_state, unit) io" where
  "rtl8367_write_phy_reg H smi phy_addr phy_reg v =
    (if phy_addr > RTL8367_PHY_ADDR_MAX then failE EINVAL
     else if phy_reg > RTL8367_PHY_REG_MAX then failE EINVAL
     else bindE (rtl8366_smi_read_reg H smi RTL8367_IA_STATUS_REG) (\<lambda>data.
          if data AND RTL8367_IA_STATUS_PHY_BUSY \<noteq> 0 then failE ETIMEDOUT
          else bindE (rtl8366_smi_write_reg H smi RTL8367_IA_WRITE_DATA_REG v) (\<lambda>_.
               bindE (rtl8366_smi_write_reg H smi RTL8367_IA_ADDRESS_REG
                        (RTL8367_INTERNAL_PHY_REG phy_addr phy_reg)) (\<lambda>_.
               bindE (rtl8366_smi_write_reg H smi RTL8367_IA_CTRL_REG
                        (RTL8367_IA_CTRL_CMD_MASK OR push_bit 1 1)) (\<lambda>_.
               rtl8367_phy_poll H smi 5)))))"

definition rtl8367_init_regs0 :: "'h platform \<Rightarrow> rtl8366_smi \<Rightarrow> u32 \<Rightarrow> ('h smi_state, unit) io" where
  "rtl8367_init_regs0 H smi mode =
    (if mode = 0 then rtl8367_write_initvals H smi rtl8367_initvals_0_0
     else if mode = 1 \<or> mode = 2 then rtl8367_write_initvals H smi rtl8367_initvals_0_1
     else failE ENODEV)"

definition rtl8367_init_regs1 :: "'h platform \<Rightarrow> rtl8366_smi \<Rightarrow> u32 \<Rightarrow> ('h smi_state, unit) io" where
  "rtl8367_init_regs1 H smi mode =
    (if mode = 0 then rtl8367_write_initvals H smi rtl8367_initvals_1_0
     else if mode = 1 \<or> mode = 2 then rtl8367_write_initvals H smi rtl8367_initvals_1_1
     else failE ENODEV)"

definition rtl8367_init_regs2 :: "'h platform \<Rightarrow> rtl8366_smi \<Rightarrow> u32 \<Rightarrow> ('h smi_state, unit) io" where
  "rtl8367_init_regs2 H smi mode =
    (if mode = 0 then rtl8367_write_initvals H smi rtl8367_initvals_2_0
     else if mode = 1 \<or> mode = 2 then rtl8367_write_initvals H smi rtl8367_initvals_2_1
     else failE ENODEV)"

definition rtl8367_init_regs :: "'h platform \<Rightarrow> rtl8366_smi \<Rightarrow> ('h smi_state, unit) io" where
  "rtl8367_init_regs H smi =
    bindE (rtl8366_smi_write_reg H smi RTL8367_RTL_MAGIC_ID_REG RTL8367_RTL_MAGIC_ID_VAL) (\<lambda>_.
    bindE (rtl8366_smi_read_reg H smi RTL8367_CHIP_VER_REG) (\<lambda>ver.
    bindE (rtl8366_smi_read_reg H smi RTL8367_CHIP_MODE_REG) (\<lambda>data.
    let rlvid = drop_bit RTL8367_CHIP_VER_RLVID_SHIFT ver AND RTL8367_CHIP_VER_RLVID_MASK;
        mode = data AND RTL8367_CHIP_MODE_MASK
    in if rlvid = 0 then rtl8367_init_regs0 H smi mode
       else if rlvid = 1
       then bindE (rtl8367_write_phy_reg H smi 0 31 5) (\<lambda>_.
            bindE (rtl8367_write_phy_reg H smi 0 5 0x3ffe) (\<lambda>_.
            bindE (rtl8367_read_phy_reg H smi 0 6) (\<lambda>phy.
            if phy = 0x94eb then rtl8367_init_regs1 H smi mode
            else if phy = 0x2104 then rtl8367_init_regs2 H smi mode
            else failE ENODEV)))
       else failE ENODEV)))"

text \<open>The polling loop, on the number of rounds left.\<close>

primrec rtl8367_reset_poll :: "'h platform \<Rightarrow> rtl8366_smi \<Rightarrow> nat \<Rightarrow> ('h smi_state, unit) io" where
  "rtl8367_reset_poll H smi 0 = failE ETIMEDOUT"
| "rtl8367_reset_poll H smi (Suc timeout) =
    bindE (rtl8366_smi_read_reg H smi RTL8367_CHIP_RESET_REG) (\<lambda>data.
    if data AND RTL8367_CHIP_RESET_HW = 0 then retE ()
    else (\<lambda>s. rtl8367_reset_poll H smi timeout (on_hw (msleep H 1) s)))"

definition rtl8367_reset_chip :: "'h platform \<Rightarrow> rtl8366_smi \<Rightarrow> ('h smi_state, unit) io" where
  "rtl8367_reset_chip H smi =
    bindE (rtl8366_smi_write_reg H smi RTL8367_CHIP_RESET_REG RTL8367_CHIP_RESET_HW) (\<lambda>_ s.
    rtl8367_reset_poll H smi 10 (on_hw (msleep H RTL8367_RESET_DELAY) s))"

section \<open>External interfaces\<close>

definition rtl8367_extif_set_mode ::
  "'h platform \<Rightarrow> rtl8366_smi \<Rightarrow> nat \<Rightarrow> u32 \<Rightarrow> ('h smi_state, unit) io" where
  "rtl8367_extif_set_mode H smi n mode =
    bindE
     (if mode = RTL8367_EXTIF_MODE_RGMII \<or> mode = RTL8367_EXTIF_MODE_RGMII_33V
      then bindE (rtl8366_smi_write_reg H smi RTL8367_CHIP_DEBUG0_REG 0x0367) (\<lambda>_.
           rtl8366_smi_write_reg H smi RTL8367_CHIP_DEBUG1_REG 0x7777)
      else if mode = RTL8367_EXTIF_MODE_TMII_MAC \<or> mode = RTL8367_EXTIF_MODE_TMII_PHY
      then rtl8366_smi_rmwr H smi RTL8367_BYPASS_LINE_RATE_REG
             (BIT ((n + 1) mod 2)) (BIT ((n + 1) mod 2))
      else if mode = RTL8367_EXTIF_MODE_GMII
      then bindE (rtl8366_smi_rmwr H smi RTL8367_CHIP_DEBUG0_REG (BIT (8 + n)) (BIT (8 + n))) (\<lambda>_.
           rtl8366_smi_rmwr H smi (RTL8367_EXT_RGMXF_REG n) (BIT 6) (BIT 6))
      else if mode = RTL8367_EXTIF_MODE_MII_MAC \<or> mode = RTL8367_EXTIF_MODE_MII_PHY \<or>
              mode = RTL8367_EXTIF_MODE_DISABLED
      then bindE (rtl8366_smi_rmwr H smi RTL8367_BYPASS_LINE_RATE_REG (BIT ((n + 1) mod 2)) 0) (\<lambda>_.
           rtl8366_smi_rmwr H smi (RTL8367_EXT_RGMXF_REG n) (BIT 6) 0)
      else failE EINVAL) (\<lambda>_.
    rtl8366_smi_rmwr H smi RTL8367_DIS_REG
      (push_bit (4 * n) RTL8367_DIS_RGMII_MASK) (push_bit (4 * n) mode))"

definition rtl8367_extif_set_force ::
  "'h platform \<Rightarrow> rtl8366_smi \<Rightarrow> nat \<Rightarrow> rtl8367_port_ability \<Rightarrow> ('h smi_state, unit) io" where
  "rtl8367_extif_set_force H smi n pa =
    rtl8366_smi_rmwr H smi (RTL8367_DI_FORCE_REG n)
      (RTL8367_DI_FORCE_MODE OR (RTL8367_DI_FORCE_NWAY OR (RTL8367_DI_FORCE_TXPAUSE OR
       (RTL8367_DI_FORCE_RXPAUSE OR (RTL8367_DI_FORCE_LINK OR (RTL8367_DI_FORCE_DUPLEX OR
        RTL8367_DI_FORCE_SPEED_MASK))))))
      (extif_force_val pa)"

definition rtl8367_extif_set_rgmii_delay ::
  "'h platform \<Rightarrow> rtl8366_smi \<Rightarrow> nat \<Rightarrow> u32 \<Rightarrow> u32 \<Rightarrow> ('h smi_state, unit) io" where
  "rtl8367_extif_set_rgmii_delay H smi n txd rxd =
    rtl8366_smi_rmwr H smi (RTL8367_EXT_RGMXF_REG n)
      (RTL8367_EXT_RGMXF_RXDELAY_MASK OR
       push_bit RTL8367_EXT_RGMXF_TXDELAY_SHIFT RTL8367_EXT_RGMXF_TXDELAY_MASK)
      (rxd OR push_bit RTL8367_EXT_RGMXF_TXDELAY_SHIFT txd)"

definition rtl8367_extif_init ::
  "'h platform \<Rightarrow> rtl8366_smi \<Rightarrow> nat \<Rightarrow> rtl8367_extif_config option \<Rightarrow> ('h smi_state, unit) io" where
  "rtl8367_extif_init H smi n cfg =
    (let mode = (case cfg of None \<Rightarrow> RTL8367_EXTIF_MODE_DISABLED | Some c \<Rightarrow> extif_mode c)
     in bindE (rtl8367_extif_set_mode H smi n mode) (\<lambda>_.
        if mode \<noteq> RTL8367_EXTIF_MODE_DISABLED
        then (case cfg of None \<Rightarrow> retE ()
              | Some c \<Rightarrow> bindE (rtl8367_extif_set_force H smi n (ability c)) (\<lambda>_.
                          rtl8367_extif_set_rgmii_delay H smi n (txdelay c) (rxdelay c)))
        else retE ()))"

definition rtl8367_extif_init_of ::
  "'h platform \<Rightarrow> rtl8366_smi \<Rightarrow> setup67_data \<Rightarrow> nat \<Rightarrow> ('h smi_state, unit) io" where
  "rtl8367_extif_init_of H smi sd n =
    (case extif_prop sd n of None \<Rightarrow> rtl8367_extif_init H smi n None
     | Some (len, cells) \<Rightarrow>
         if len \<noteq> 9 * 4 then failE EINVAL
         else if \<not> cfg_alloc_ok sd then failE ENOMEM
         else rtl8367_extif_init H smi n (Some (of_extif_config cells)))"

section \<open>LEDs\<close>

definition rtl8367_led_group_set_ports ::
  "'h platform \<Rightarrow> rtl8366_smi \<Rightarrow> nat \<Rightarrow> u16 \<Rightarrow> ('h smi_state, unit) io" where
  "rtl8367_led_group_set_ports H smi grp port_mask =
    (let s = grp mod 2 * 8
     in rtl8366_smi_rmwr H smi (RTL8367_PARA_LED_IO_EN1_REG + of_nat (grp div 2))
          (push_bit s RTL8367_PARA_LED_IO_EN_PMASK)
          (push_bit s (ucast port_mask AND RTL8367_PARA_LED_IO_EN_PMASK)))"

definition rtl8367_led_group_set_mode ::
  "'h platform \<Rightarrow> rtl8366_smi \<Rightarrow> u32 \<Rightarrow> ('h smi_state, unit) io" where
  "rtl8367_led_group_set_mode H smi mode =
    rtl8366_smi_rmwr H smi RTL8367_LED_CONFIG_REG
      (push_bit RTL8367_LED_CONFIG_DATA_S RTL8367_LED_CONFIG_DATA_M OR RTL8367_LED_CONFIG_SEL)
      (push_bit RTL8367_LED_CONFIG_DATA_S (mode AND RTL8367_LED_CONFIG_DATA_M) OR
       RTL8367_LED_CONFIG_SEL)"

text \<open>Both words pass through a \<open>u16\<close>.\<close>

definition rtl8367_led_group_set_config ::
  "'h platform \<Rightarrow> rtl8366_smi \<Rightarrow> nat \<Rightarrow> u32 \<Rightarrow> ('h smi_state, unit) io" where
  "rtl8367_led_group_set_config H smi led cfg =
    (let mask = ucast (push_bit (led * 4) RTL8367_LED_CONFIG_LED_CFG_M OR RTL8367_LED_CONFIG_SEL) :: u16;
         set = ucast (push_bit (led * 4) (cfg AND RTL8367_LED_CONFIG_LED_CFG_M)) :: u16
     in rtl8366_smi_rmwr H smi RTL8367_LED_CONFIG_REG (ucast mask) (ucast set))"

definition rtl8367_led_op_select_parallel ::
  "'h platform \<Rightarrow> rtl8366_smi \<Rightarrow> ('h smi_state, unit) io" where
  "rtl8367_led_op_select_parallel H smi =
    rtl8366_smi_write_reg H smi RTL8367_LED_SYS_CONFIG_REG 0x1472"

definition rtl8367_led_blinkrate_set ::
  "'h platform \<Rightarrow> rtl8366_smi \<Rightarrow> u32 \<Rightarrow> ('h smi_state, unit) io" where
  "rtl8367_led_blinkrate_set H smi rate =
    rtl8366_smi_rmwr H smi RTL8367_LED_MODE_REG
      (push_bit RTL8367_LED_MODE_RATE_S RTL8367_LED_MODE_RATE_M)
      (push_bit RTL8367_LED_MODE_RATE_S (rate AND RTL8367_LED_MODE_RATE_M))"
section \<open>Set-up\<close>

definition rtl8367_setup_extifs ::
  "'h platform \<Rightarrow> rtl8366_smi \<Rightarrow> setup67_data \<Rightarrow> ('h smi_state, unit) io" where
  "rtl8367_setup_extifs H smi sd =
    (if has_of_node sd
     then bindE (rtl8367_extif_init_of H smi sd 0) (\<lambda>_. rtl8367_extif_init_of H smi sd 1)
     else case pdata_extifs sd of None \<Rightarrow> failE NULL_DEREF
     | Some (extif0_cfg, extif1_cfg) \<Rightarrow>
         bindE (rtl8367_extif_init H smi 0 extif0_cfg) (\<lambda>_.
         rtl8367_extif_init H smi 1 extif1_cfg))"

definition rtl8367_setup ::
  "'h platform \<Rightarrow> rtl8366_smi \<Rightarrow> setup67_data \<Rightarrow> ('h smi_state, unit) io" where
  "rtl8367_setup H smi sd =
    bindE (rtl8367_init_regs H smi) (\<lambda>_.
    bindE (rtl8367_setup_extifs H smi sd) (\<lambda>_.
    bindE (rtl8366_smi_rmwr H smi RTL8367_SWC0_REG
             (RTL8367_SWC0_MAX_LENGTH 3) (RTL8367_SWC0_MAX_LENGTH 1)) (\<lambda>_.
    bindE (rtl8366_smi_write_reg H smi RTL8367_VLAN_INGRESS_REG RTL8367_PORTS_ALL) (\<lambda>_.
    bindE (forE [0..<RTL8367_NUM_PORTS] (\<lambda>i.
             rtl8366_smi_rmwr H smi (RTL8367_PORT_CFG_REG i)
               (push_bit RTL8367_PORT_CFG_EGRESS_MODE_SHIFT RTL8367_PORT_CFG_EGRESS_MODE_MASK)
               (push_bit RTL8367_PORT_CFG_EGRESS_MODE_SHIFT RTL8367_PORT_CFG_EGRESS_MODE_ORIGINAL))) (\<lambda>_.
    bindE (rtl8367_led_group_set_ports H smi 0 (ucast RTL8367_PORTS_ALL)) (\<lambda>_.
    bindE (rtl8367_led_group_set_mode H smi 0) (\<lambda>_.
    bindE (rtl8367_led_op_select_parallel H smi) (\<lambda>_.
    bindE (rtl8367_led_blinkrate_set H smi 1) (\<lambda>_.
    rtl8367_led_group_set_config H smi 0 2)))))))))"

section \<open>MIB counters\<close>

definition rtl8367_get_mib_counter ::
  "'h platform \<Rightarrow> rtl8366_smi \<Rightarrow> nat \<Rightarrow> nat \<Rightarrow> ('h smi_state, u64) io" where
  "rtl8367_get_mib_counter H smi counter port =
    (if port > RTL8367_NUM_PORTS \<or> counter \<ge> RTL8367_MIB_COUNT then failE EINVAL
     else let mib = rtl8367_mib_counters ! counter;
              addr = RTL8367_MIB_COUNTER_PORT_OFFSET * of_nat port + mib_offset mib
          in bindE (rtl8366_smi_write_reg H smi RTL8367_MIB_ADDRESS_REG (drop_bit 2 addr)) (\<lambda>_.
             bindE (rtl8366_smi_read_reg H smi 0x1005) (\<lambda>data.
             if data AND RTL8367_MIB_CTRL_BUSY_MASK \<noteq> 0 then failE EBUSY
             else if data AND RTL8367_MIB_CTRL_RESET_MASK \<noteq> 0 then failE EIO
             else read_mib_down H smi 0x1000 (mib_word_offset mib) (mib_length mib) 0)))"

section \<open>VLAN tables\<close>

definition rtl8367_get_vlan_4k ::
  "'h platform \<Rightarrow> rtl8366_smi \<Rightarrow> u32 \<Rightarrow> ('h smi_state, rtl8366_vlan_4k) io" where
  "rtl8367_get_vlan_4k H smi vid =
    (if vid \<ge> RTL8367_NUM_VIDS then failE EINVAL
     else bindE (rtl8366_smi_write_reg H smi RTL8367_TA_ADDR_REG vid) (\<lambda>_.
          bindE (rtl8366_smi_write_reg H smi RTL8367_TA_CTRL_REG RTL8367_TA_CTRL_CVLAN_READ) (\<lambda>_.
          bindE (rtl8366_smi_read_reg H smi (RTL8367_TA_DATA_REG 0)) (\<lambda>data0.
          bindE (rtl8366_smi_read_reg H smi (RTL8367_TA_DATA_REG 1)) (\<lambda>data1.
          bindE (rtl8366_smi_read_reg H smi (RTL8367_TA_DATA_REG 2)) (\<lambda>data2.
          bindE (rtl8366_smi_read_reg H smi (RTL8367_TA_DATA_REG 3)) (\<lambda>data3.
          retE \<lparr>v4k_vid = ucast vid,
                v4k_untag = ucast (drop_bit RTL8367_TA_VLAN_UNTAG1_SHIFT data2 AND
                                  RTL8367_TA_VLAN_UNTAG1_MASK) OR
                           ucast (push_bit 2 (drop_bit RTL8367_TA_VLAN_UNTAG2_SHIFT data3 AND
                                              RTL8367_TA_VLAN_UNTAG2_MASK)),
                v4k_member = ucast (drop_bit RTL8367_TA_VLAN_MEMBER_SHIFT data0 AND
                                   RTL8367_TA_VLAN_MEMBER_MASK),
                v4k_fid = ucast (drop_bit RTL8367_TA_VLAN_FID_SHIFT data1 AND
                                RTL8367_TA_VLAN_FID_MASK)\<rparr>)))))))"

definition rtl8367_set_vlan_4k ::
  "'h platform \<Rightarrow> rtl8366_smi \<Rightarrow> rtl8366_vlan_4k \<Rightarrow> ('h smi_state, unit) io" where
  "rtl8367_set_vlan_4k H smi vlan4k =
    (if ucast (v4k_vid vlan4k) \<ge> RTL8367_NUM_VIDS \<or>
        ucast (v4k_member vlan4k) > RTL8367_TA_VLAN_MEMBER_MASK \<or>
        ucast (v4k_untag vlan4k) > RTL8367_UNTAG_MASK \<or>
        ucast (v4k_fid vlan4k) > RTL8367_FIDMAX
     then failE EINVAL
     else bindE (rtl8366_smi_write_reg H smi (RTL8367_TA_DATA_REG 0)
                   (push_bit RTL8367_TA_VLAN_MEMBER_SHIFT
                      (ucast (v4k_member vlan4k) AND RTL8367_TA_VLAN_MEMBER_MASK))) (\<lambda>_.
          bindE (rtl8366_smi_write_reg H smi (RTL8367_TA_DATA_REG 1)
                   (push_bit RTL8367_TA_VLAN_FID_SHIFT
                      (ucast (v4k_fid vlan4k) AND RTL8367_TA_VLAN_FID_MASK))) (\<lambda>_.
          bindE (rtl8366_smi_write_reg H smi (RTL8367_TA_DATA_REG 2)
                   (push_bit RTL8367_TA_VLAN_UNTAG1_SHIFT
                      (ucast (v4k_untag vlan4k) AND RTL8367_TA_VLAN_UNTAG1_MASK))) (\<lambda>_.
          bindE (rtl8366_smi_write_reg H smi (RTL8367_TA_DATA_REG 3)
                   (push_bit RTL8367_TA_VLAN_UNTAG2_SHIFT
                      (drop_bit 2 (ucast (v4k_untag vlan4k)) AND RTL8367_TA_VLAN_UNTAG2_MASK))) (\<lambda>_.
          bindE (rtl8366_smi_write_reg H smi RTL8367_TA_ADDR_REG
                   (ucast (v4k_vid vlan4k) AND RTL8367_TA_VLAN_VID_MASK)) (\<lambda>_.
          rtl8366_smi_write_reg H smi RTL8367_TA_CTRL_REG RTL8367_TA_CTRL_CVLAN_WRITE))))))"

definition rtl8367_get_vlan_mc ::
  "'h platform \<Rightarrow> rtl8366_smi \<Rightarrow> nat \<Rightarrow> ('h smi_state, rtl8366_vlan_mc) io" where
  "rtl8367_get_vlan_mc H smi index =
    (if index \<ge> RTL8367_NUM_VLANS then failE EINVAL
     else bindE (rtl8366_smi_read_reg H smi (RTL8367_VLAN_MC_BASE index)) (\<lambda>data0.
          bindE (rtl8366_smi_read_reg H smi (RTL8367_VLAN_MC_BASE index + 1)) (\<lambda>data1.
          bindE (rtl8366_smi_read_reg H smi (RTL8367_VLAN_MC_BASE index + 2)) (\<lambda>data2.
          bindE (rtl8366_smi_read_reg H smi (RTL8367_VLAN_MC_BASE index + 3)) (\<lambda>data3.
          retE \<lparr>mc_vid = ucast (drop_bit RTL8367_VLAN_MC_EVID_SHIFT data3 AND RTL8367_VLAN_MC_EVID_MASK), mc_untag = 0,
                mc_member = ucast (drop_bit RTL8367_VLAN_MC_MEMBER_SHIFT data0 AND RTL8367_VLAN_MC_MEMBER_MASK),
                mc_fid = ucast (drop_bit RTL8367_VLAN_MC_FID_SHIFT data1 AND RTL8367_VLAN_MC_FID_MASK), mc_priority = 0\<rparr>)))))"

definition rtl8367_set_vlan_mc ::
  "'h platform \<Rightarrow> rtl8366_smi \<Rightarrow> nat \<Rightarrow> rtl8366_vlan_mc \<Rightarrow> ('h smi_state, unit) io" where
  "rtl8367_set_vlan_mc H smi index vlanmc =
    (if index \<ge> RTL8367_NUM_VLANS \<or>
        ucast (mc_vid vlanmc) \<ge> RTL8367_NUM_VIDS \<or>
        ucast (mc_priority vlanmc) > RTL8367_PRIORITYMAX \<or>
        ucast (mc_member vlanmc) > RTL8367_VLAN_MC_MEMBER_MASK \<or>
        ucast (mc_untag vlanmc) > RTL8367_UNTAG_MASK \<or>
        ucast (mc_fid vlanmc) > RTL8367_FIDMAX
     then failE EINVAL
     else bindE (rtl8366_smi_write_reg H smi (RTL8367_VLAN_MC_BASE index)
                   (push_bit RTL8367_VLAN_MC_MEMBER_SHIFT (ucast (mc_member vlanmc) AND RTL8367_VLAN_MC_MEMBER_MASK))) (\<lambda>_.
          bindE (rtl8366_smi_write_reg H smi (RTL8367_VLAN_MC_BASE index + 1)
                   (push_bit RTL8367_VLAN_MC_FID_SHIFT (ucast (mc_fid vlanmc) AND RTL8367_VLAN_MC_FID_MASK))) (\<lambda>_.
          bindE (rtl8366_smi_write_reg H smi (RTL8367_VLAN_MC_BASE index + 2) 0) (\<lambda>_.
          rtl8366_smi_write_reg H smi (RTL8367_VLAN_MC_BASE index + 3)
            (push_bit RTL8367_VLAN_MC_EVID_SHIFT (ucast (mc_vid vlanmc) AND RTL8367_VLAN_MC_EVID_MASK))))))"

definition rtl8367_get_mc_index :: "'h platform \<Rightarrow> rtl8366_smi \<Rightarrow> nat \<Rightarrow> ('h smi_state, nat) io" where
  "rtl8367_get_mc_index H smi port =
    (if port \<ge> RTL8367_NUM_PORTS then failE EINVAL
     else bindE (rtl8366_smi_read_reg H smi (RTL8367_VLAN_PVID_CTRL_REG port)) (\<lambda>data.
          retE (unat (drop_bit (RTL8367_VLAN_PVID_CTRL_SHIFT port) data AND RTL8367_VLAN_PVID_CTRL_MASK))))"

definition rtl8367_set_mc_index ::
  "'h platform \<Rightarrow> rtl8366_smi \<Rightarrow> nat \<Rightarrow> nat \<Rightarrow> ('h smi_state, unit) io" where
  "rtl8367_set_mc_index H smi port index =
    (if port \<ge> RTL8367_NUM_PORTS \<or> index \<ge> RTL8367_NUM_VLANS then failE EINVAL
     else rtl8366_smi_rmwr H smi (RTL8367_VLAN_PVID_CTRL_REG port)
            (push_bit (RTL8367_VLAN_PVID_CTRL_SHIFT port) RTL8367_VLAN_PVID_CTRL_MASK)
            (push_bit (RTL8367_VLAN_PVID_CTRL_SHIFT port) (of_nat index AND RTL8367_VLAN_PVID_CTRL_MASK)))"

definition rtl8367_enable_vlan :: "'h platform \<Rightarrow> rtl8366_smi \<Rightarrow> bool \<Rightarrow> ('h smi_state, unit) io" where
  "rtl8367_enable_vlan H smi enable =
    rtl8366_smi_rmwr H smi RTL8367_VLAN_CTRL_REG RTL8367_VLAN_CTRL_ENABLE
      (if enable then RTL8367_VLAN_CTRL_ENABLE else 0)"

definition rtl8367_enable_vlan4k :: "'h platform \<Rightarrow> rtl8366_smi \<Rightarrow> bool \<Rightarrow> ('h smi_state, unit) io" where
  "rtl8367_enable_vlan4k H smi enable = retE ()"

definition rtl8367_is_vlan_valid :: "u32 \<Rightarrow> 'h smi_state \<Rightarrow> bool" where
  "rtl8367_is_vlan_valid vlan s =
    (let mx = (if vlan4k_enabled s \<noteq> 0 then RTL8367_NUM_VIDS - 1 else of_nat RTL8367_NUM_VLANS)
     in \<not> (vlan = 0 \<or> vlan \<ge> mx))"

definition rtl8367_enable_port :: "'h platform \<Rightarrow> rtl8366_smi \<Rightarrow> nat \<Rightarrow> bool \<Rightarrow> ('h smi_state, unit) io" where
  "rtl8367_enable_port H smi port enable =
    rtl8366_smi_write_reg H smi (RTL8367_PORT_ISOLATION_REG port) (if enable then RTL8367_PORTS_ALL else 0)"

section \<open>Attribute handlers\<close>

definition rtl8367_sw_reset_mibs ::
  "'h platform \<Rightarrow> rtl8366_smi \<Rightarrow> switch_attr_info \<Rightarrow> switch_val \<Rightarrow> ('h smi_state, unit) io" where
  "rtl8367_sw_reset_mibs H smi attr v = rtl8366_smi_rmwr H smi 0x1005 0 RTL8367_MIB_CTRL_GLOBAL_RESET_MASK"

definition rtl8367_sw_get_port_link ::
  "'h platform \<Rightarrow> rtl8366_smi \<Rightarrow> nat \<Rightarrow> switch_port_link \<Rightarrow> ('h smi_state, switch_port_link) io" where
  "rtl8367_sw_get_port_link H smi port lnk =
    (if port \<ge> RTL8367_NUM_PORTS then failE EINVAL
     else bindE (catchE (rtl8366_smi_read_reg H smi (RTL8367_PORT_STATUS_REG port)) 0) (\<lambda>data.
          retE (rtl8367_link_status data lnk)))"

definition rtl8367_sw_get_max_length ::
  "'h platform \<Rightarrow> rtl8366_smi \<Rightarrow> u32 \<Rightarrow> switch_attr_info \<Rightarrow> switch_val \<Rightarrow> ('h smi_state, switch_val) io" where
  "rtl8367_sw_get_max_length H smi uninit attr v =
    bindE (catchE (rtl8366_smi_read_reg H smi RTL8367_SWC0_REG) uninit) (\<lambda>data.
    retE (v\<lparr>val_i := drop_bit RTL8367_SWC0_MAX_LENGTH_SHIFT (data AND RTL8367_SWC0_MAX_LENGTH 3)\<rparr>))"

definition rtl8367_sw_set_max_length ::
  "'h platform \<Rightarrow> rtl8366_smi \<Rightarrow> switch_attr_info \<Rightarrow> switch_val \<Rightarrow> ('h smi_state, unit) io" where
  "rtl8367_sw_set_max_length H smi attr v =
    (if val_i v \<in> {0, 1, 2, 3}
     then rtl8366_smi_rmwr H smi RTL8367_SWC0_REG (RTL8367_SWC0_MAX_LENGTH 3) (RTL8367_SWC0_MAX_LENGTH (val_i v))
     else failE EINVAL)"

definition rtl8367_sw_reset_port_mibs ::
  "'h platform \<Rightarrow> rtl8366_smi \<Rightarrow> switch_attr_info \<Rightarrow> switch_val \<Rightarrow> ('h smi_state, unit) io" where
  "rtl8367_sw_reset_port_mibs H smi attr v =
    (let port = unat (port_vlan v)
     in if port \<ge> RTL8367_NUM_PORTS then failE EINVAL
        else rtl8366_smi_rmwr H smi (0x1005 + of_nat (port div 8)) 0 (BIT (2 + port mod 8)))"

section \<open>PHY bus, detection, the operations of the chip\<close>

definition rtl8367_mii_read ::
  "'h platform \<Rightarrow> rtl8366_smi \<Rightarrow> u32 \<Rightarrow> u32 \<Rightarrow> 'h smi_state \<Rightarrow> u32 \<times> 'h smi_state" where
  "rtl8367_mii_read H smi addr reg s =
    (case rtl8367_read_phy_reg H smi addr reg s of
       (Inl e, s') \<Rightarrow> (0xFFFF, s') | (Inr v, s') \<Rightarrow> (v, s'))"

definition rtl8367_mii_write ::
  "'h platform \<Rightarrow> rtl8366_smi \<Rightarrow> u32 \<Rightarrow> u32 \<Rightarrow> u16 \<Rightarrow> ('h smi_state, unit) io" where
  "rtl8367_mii_write H smi addr reg v =
    bindE (rtl8367_write_phy_reg H smi addr reg (ucast v)) (\<lambda>_.
    ignoreE (rtl8367_read_phy_reg H smi addr reg))"

definition rtl8367_detect :: "'h platform \<Rightarrow> rtl8366_smi \<Rightarrow> ('h smi_state, unit) io" where
  "rtl8367_detect H smi =
    bindE (rtl8366_smi_read_reg H smi RTL8367_RTL_NO_REG) (\<lambda>rtl_no.
    if rtl_no = RTL8367_RTL_NO_8367R \<or> rtl_no = RTL8367_RTL_NO_8367M
    then bindE (rtl8366_smi_read_reg H smi RTL8367_RTL_VER_REG) (\<lambda>rtl_ver. retE ())
    else failE ENODEV)"

definition rtl8367_smi_ops ::
  "'h platform \<Rightarrow> rtl8366_smi \<Rightarrow> setup67_data \<Rightarrow> ('h smi_state) rtl8366_smi_ops" where
  "rtl8367_smi_ops H smi sd = \<lparr>
    detect = rtl8367_detect H smi,
    reset_chip = rtl8367_reset_chip H smi,
    chip_setup = rtl8367_setup H smi sd,
    mii_read = rtl8367_mii_read H smi,
    mii_write = rtl8367_mii_write H smi,
    get_vlan_mc = rtl8367_get_vlan_mc H smi,
    set_vlan_mc = rtl8367_set_vlan_mc H smi,
    get_vlan_4k = rtl8367_get_vlan_4k H smi,
    set_vlan_4k = rtl8367_set_vlan_4k H smi,
    get_mc_index = rtl8367_get_mc_index H smi,
    set_mc_index = rtl8367_set_mc_index H smi,
    get_mib_counter = rtl8367_get_mib_counter H smi,
    is_vlan_valid = rtl8367_is_vlan_valid,
    enable_vlan = rtl8367_enable_vlan H smi,
    enable_vlan4k = rtl8367_enable_vlan4k H smi,
    enable_port = rtl8367_enable_port H smi\<rparr>"

definition rtl8367_sw_get_port_stats ::
  "'h platform \<Rightarrow> rtl8366_smi \<Rightarrow> setup67_data \<Rightarrow> nat \<Rightarrow> ('h smi_state, switch_port_stats) io" where
  "rtl8367_sw_get_port_stats H smi sd port =
    rtl8366_sw_get_port_stats smi (rtl8367_smi_ops H smi sd) port RTL8367_MIB_TXB_ID RTL8367_MIB_RXB_ID"

section \<open>Attribute tables\<close>

definition rtl8367_globals ::
  "'h platform \<Rightarrow> rtl8366_smi \<Rightarrow> setup67_data \<Rightarrow> u32 \<Rightarrow> ('h smi_state) switch_attr list" where
  "rtl8367_globals H smi sd uninit = [
    mk_attr SWITCH_TYPE_INT ''enable_vlan'' ''Enable VLAN mode'' 1 1
      (Some (rtl8366_sw_set_vlan_enable (rtl8367_smi_ops H smi sd))) (Some rtl8366_sw_get_vlan_enable),
    mk_attr SWITCH_TYPE_INT ''enable_vlan4k'' ''Enable VLAN 4K mode'' 1 2
      (Some (rtl8366_sw_set_vlan_enable (rtl8367_smi_ops H smi sd))) (Some rtl8366_sw_get_vlan_enable),
    mk_attr SWITCH_TYPE_NOVAL ''reset_mibs'' ''Reset all MIB counters'' 0 0
      (Some (rtl8367_sw_reset_mibs H smi)) None,
    mk_attr SWITCH_TYPE_INT ''max_length''
      (''Get/Set the maximum length of valid packets'' @ ''(0:1522, 1:1536, 2:1552, 3:16000)'') 3 0
      (Some (rtl8367_sw_set_max_length H smi)) (Some (rtl8367_sw_get_max_length H smi uninit))]"

definition rtl8367_port ::
  "'h platform \<Rightarrow> rtl8366_smi \<Rightarrow> setup67_data \<Rightarrow> ('h smi_state) switch_attr list" where
  "rtl8367_port H smi sd = [
    mk_attr SWITCH_TYPE_NOVAL ''reset_mib'' ''Reset single port MIB counters'' 0 0
      (Some (rtl8367_sw_reset_port_mibs H smi)) None,
    mk_attr SWITCH_TYPE_STRING ''mib'' ''Get MIB counters for port'' 33 0
      None (Some (\<lambda>_. rtl8366_sw_get_port_mib smi (rtl8367_smi_ops H smi sd)))]"

definition rtl8367_vlan ::
  "'h platform \<Rightarrow> rtl8366_smi \<Rightarrow> setup67_data \<Rightarrow> ('h smi_state) switch_attr list" where
  "rtl8367_vlan H smi sd = [
    mk_attr SWITCH_TYPE_STRING ''info'' ''Get vlan information'' 1 0
      None (Some (\<lambda>_. rtl8366_sw_get_vlan_info smi (rtl8367_smi_ops H smi sd))),
    mk_attr SWITCH_TYPE_INT ''fid'' ''Get/Set vlan FID'' 7 0
      (Some (rtl8366_sw_set_vlan_fid smi (rtl8367_smi_ops H smi sd)))
      (Some (rtl8366_sw_get_vlan_fid (rtl8367_smi_ops H smi sd)))]"

definition rtl8367_sw_ops ::
  "'h platform \<Rightarrow> rtl8366_smi \<Rightarrow> setup67_data \<Rightarrow> u32 \<Rightarrow> ('h smi_state) switch_dev_ops" where
  "rtl8367_sw_ops H smi sd uninit = (let ops = rtl8367_smi_ops H smi sd in \<lparr>
    attr_global = rtl8367_globals H smi sd uninit,
    attr_port = rtl8367_port H smi sd,
    attr_vlan = rtl8367_vlan H smi sd,
    get_vlan_ports = Some (rtl8366_sw_get_vlan_ports smi ops),
    set_vlan_ports = Some (rtl8366_sw_set_vlan_ports smi ops),
    get_port_pvid = Some (rtl8366_sw_get_port_pvid ops),
    set_port_pvid = Some (rtl8366_sw_set_port_pvid smi ops),
    apply_config = None,
    reset_switch = Some (rtl8366_sw_reset_switch H smi ops),
    get_port_link = Some (rtl8367_sw_get_port_link H smi),
    set_port_link = None,
    get_port_stats = Some (rtl8367_sw_get_port_stats H smi sd),
    phy_read16 = None,
    phy_write16 = None\<rparr>)"

text \<open>The fields of \<open>struct rtl8366_smi\<close> that the probe function sets.\<close>

definition rtl8367_smi :: "rtl8366_smi \<Rightarrow> rtl8366_smi" where
  "rtl8367_smi smi = smi\<lparr>clk_delay := 1500, cmd_read := 0xB9, cmd_write := 0xB8,
     cpu_port := RTL8367_CPU_PORT_NUM, num_ports := RTL8367_NUM_PORTS,
     num_vlan_mc := RTL8367_NUM_VLANS, mib_counters := rtl8367_mib_counters,
     num_mib_counters := length rtl8367_mib_counters\<rparr>"

end
