(* ===== verification/Smi_Probe.thy ===== *)
theory Smi_Probe
  imports Swconfig Rtl8366s Rtl8366rb Rtl8367 Rtl8367b
begin

text \<open>
  Life cycle of the switch drivers: probing, chip detection, start-up, registration with
  \<open>swconfig\<close>, removal. The world of a driver is its own state with the chip, the
  kernel objects it holds, and the registry of switches. The kernel services that can fail
  are the fields of \<open>services\<close>; the device tree node and the platform data of a device
  are given as their parsed contents. The debugfs directory, whose
  creation cannot make start-up fail, is in \<open>Smi_Debugfs\<close>.
\<close>

section \<open>The world of a driver\<close>

record resources =
  gpios_held :: "nat list"
  mii_allocated :: nat
  mii_registered :: nat
  smi_allocated :: nat

record 'h world =
  board :: "'h smi_state"
  held :: resources
  switches :: "('h smi_state) registry"
  drvdata :: "rtl8366_smi option"
  sw_dev_id :: u32

record services =
  gpio_request_err :: "nat \<Rightarrow> nat list \<Rightarrow> errno option"
  gpio_is_valid :: "int \<Rightarrow> bool"
  kzalloc_ok :: bool
  mdiobus_alloc_ok :: bool
  mdiobus_register_err :: "errno option"
  of_mdiobus_register_err :: "errno option"
  portbuf_ok :: bool
  portmap_ok :: bool
  led_trigger_err :: "errno option"
  bits_per_long :: nat

record device_node =
  named_gpio_sck :: int
  named_gpio_sda :: int
  mii_bus_phandle :: bool
  mii_bus_found :: bool
  reset_control :: bool
  mdio_bus_child :: bool

record rtl8366_platform_data =
  pdata_gpio_sda :: nat
  pdata_gpio_sck :: nat
  pdata_hw_reset :: bool

record platform_device =
  of_node :: "device_node option"
  platform_data :: "rtl8366_platform_data option"

definition on_board :: "('h smi_state, 'a) io \<Rightarrow> ('h world, 'a) io" where
  "on_board m w = (case m (board w) of (r, b) \<Rightarrow> (r, w\<lparr>board := b\<rparr>))"

definition unwindE :: "('s, 'a) io \<Rightarrow> ('s \<Rightarrow> 's) \<Rightarrow> ('s, 'a) io" where
  "unwindE m cleanup s = (case m s of (Inl e, s') \<Rightarrow> (Inl e, cleanup s') | (Inr x, s') \<Rightarrow> (Inr x, s'))"

definition gpio_request :: "services \<Rightarrow> nat \<Rightarrow> ('h world, unit) io" where
  "gpio_request K n w =
    (case gpio_request_err K n (gpios_held (held w)) of
       Some e \<Rightarrow> (Inl e, w)
     | None \<Rightarrow> (Inr (), w\<lparr>held := (held w)\<lparr>gpios_held := n # gpios_held (held w)\<rparr>\<rparr>))"

definition gpio_free :: "nat \<Rightarrow> 'h world \<Rightarrow> 'h world" where
  "gpio_free n w = w\<lparr>held := (held w)\<lparr>gpios_held := remove1 n (gpios_held (held w))\<rparr>\<rparr>"

definition mdiobus_alloc :: "services \<Rightarrow> ('h world, unit) io" where
  "mdiobus_alloc K w =
    (if mdiobus_alloc_ok K
     then (Inr (), w\<lparr>held := (held w)\<lparr>mii_allocated := mii_allocated (held w) + 1\<rparr>\<rparr>)
     else (Inl ENOMEM, w))"

definition mdiobus_free :: "'h world \<Rightarrow> 'h world" where
  "mdiobus_free w = w\<lparr>held := (held w)\<lparr>mii_allocated := mii_allocated (held w) - 1\<rparr>\<rparr>"

definition mdiobus_register :: "errno option \<Rightarrow> ('h world, unit) io" where
  "mdiobus_register err w =
    (case err of Some e \<Rightarrow> (Inl e, w)
     | None \<Rightarrow> (Inr (), w\<lparr>held := (held w)\<lparr>mii_registered := mii_registered (held w) + 1\<rparr>\<rparr>))"

definition mdiobus_unregister :: "'h world \<Rightarrow> 'h world" where
  "mdiobus_unregister w = w\<lparr>held := (held w)\<lparr>mii_registered := mii_registered (held w) - 1\<rparr>\<rparr>"

definition kfree_smi :: "'h world \<Rightarrow> 'h world" where
  "kfree_smi w = w\<lparr>held := (held w)\<lparr>smi_allocated := smi_allocated (held w) - 1\<rparr>\<rparr>"

section \<open>The bus\<close>

definition zero_smi :: rtl8366_smi where
  "zero_smi = \<lparr>gpio_sda = 0, gpio_sck = 0, has_hw_reset = False, clk_delay = 0, cmd_read = 0,
     cmd_write = 0, has_ext_mbus = False, cpu_port = 0, num_ports = 0, num_vlan_mc = 0,
     num_mib_counters = 0, mib_counters = []\<rparr>"

definition smi_start_switch :: "'h platform \<Rightarrow> rtl8366_smi \<Rightarrow> ('h world, unit) io" where
  "smi_start_switch H smi w =
    (let w = w\<lparr>board := (board w)\<lparr>lock := False\<rparr>\<rparr>
     in (Inr (), if has_hw_reset smi
                 then w\<lparr>board := on_hw (\<lambda>h. msleep H RTL8366_SMI_HW_START_DELAY (hw_reset H False h)) (board w)\<rparr>
                 else w))"

definition rtl8366_smi_init0 :: "services \<Rightarrow> 'h platform \<Rightarrow> rtl8366_smi \<Rightarrow> ('h world, unit) io" where
  "rtl8366_smi_init0 K H smi =
    bindE (if has_ext_mbus smi then retE ()
           else bindE (gpio_request K (gpio_sda smi)) (\<lambda>_.
                unwindE (gpio_request K (gpio_sck smi)) (gpio_free (gpio_sda smi)))) (\<lambda>_.
    smi_start_switch H smi)"

definition rtl8366_smi_cleanup0 :: "'h platform \<Rightarrow> rtl8366_smi \<Rightarrow> 'h world \<Rightarrow> 'h world" where
  "rtl8366_smi_cleanup0 H smi w =
    (let w = (if has_hw_reset smi then w\<lparr>board := on_hw (hw_reset H True) (board w)\<rparr> else w)
     in if has_ext_mbus smi then w else gpio_free (gpio_sda smi) (gpio_free (gpio_sck smi) w))"

datatype rtl8366_type = RTL8366_TYPE_UNKNOWN | RTL8366_TYPE_S | RTL8366_TYPE_RB

definition detect_smi :: "rtl8366_platform_data \<Rightarrow> rtl8366_smi" where
  "detect_smi pdata = zero_smi\<lparr>gpio_sda := pdata_gpio_sda pdata, gpio_sck := pdata_gpio_sck pdata,
     clk_delay := 10, cmd_read := 0xA9, cmd_write := 0xA8\<rparr>"

definition rtl8366_smi_detect ::
  "services \<Rightarrow> 'h platform \<Rightarrow> rtl8366_platform_data \<Rightarrow> 'h world \<Rightarrow> rtl8366_type \<times> 'h world" where
  "rtl8366_smi_detect K H pdata w =
    (let smi = detect_smi pdata
     in case rtl8366_smi_init0 K H smi w of
          (Inl e, w) \<Rightarrow> (RTL8366_TYPE_UNKNOWN, w)
        | (Inr _, w) \<Rightarrow>
            (case on_board (rtl8366_smi_read_reg H smi 0x5C) w of
               (Inl e, w) \<Rightarrow> (RTL8366_TYPE_UNKNOWN, rtl8366_smi_cleanup0 H smi w)
             | (Inr reg, w) \<Rightarrow>
                 (if reg = 0x6027 then RTL8366_TYPE_S
                  else if reg = 0x5937 then RTL8366_TYPE_RB else RTL8366_TYPE_UNKNOWN,
                  rtl8366_smi_cleanup0 H smi w)))"

definition rtl8366_smi_mii_init :: "services \<Rightarrow> platform_device \<Rightarrow> ('h world, unit) io" where
  "rtl8366_smi_mii_init K pdev =
    (let np = (case of_node pdev of None \<Rightarrow> False | Some n \<Rightarrow> mdio_bus_child n)
     in bindE (mdiobus_alloc K) (\<lambda>_.
        unwindE (mdiobus_register (if np then of_mdiobus_register_err K else mdiobus_register_err K))
          mdiobus_free))"

definition rtl8366_smi_mii_cleanup :: "'h world \<Rightarrow> 'h world" where
  "rtl8366_smi_mii_cleanup w = mdiobus_free (mdiobus_unregister w)"

definition rtl8366_smi_init ::
  "services \<Rightarrow> 'h platform \<Rightarrow> platform_device \<Rightarrow> rtl8366_smi \<Rightarrow> ('h smi_state) rtl8366_smi_ops option
    \<Rightarrow> ('h world, unit) io" where
  "rtl8366_smi_init K H pdev smi ops =
    (case ops of None \<Rightarrow> failE EINVAL
     | Some ops \<Rightarrow>
        bindE (rtl8366_smi_init0 K H smi) (\<lambda>_.
        unwindE
          (bindE (on_board (detect ops)) (\<lambda>_.
           bindE (on_board (rtl8366_reset H smi (reset_chip ops))) (\<lambda>_.
           bindE (on_board (chip_setup ops)) (\<lambda>_.
           bindE (on_board (rtl8366_init_vlan smi ops)) (\<lambda>_.
           bindE (on_board (rtl8366_smi_enable_all_ports smi ops True)) (\<lambda>_.
           rtl8366_smi_mii_init K pdev))))))
          (rtl8366_smi_cleanup0 H smi)))"

definition rtl8366_smi_cleanup :: "'h platform \<Rightarrow> rtl8366_smi \<Rightarrow> 'h world \<Rightarrow> 'h world" where
  "rtl8366_smi_cleanup H smi w = rtl8366_smi_cleanup0 H smi (rtl8366_smi_mii_cleanup w)"

section \<open>Probing\<close>

definition rtl8366_smi_alloc :: "services \<Rightarrow> 'h world \<Rightarrow> rtl8366_smi option \<times> 'h world" where
  "rtl8366_smi_alloc K w =
    (if kzalloc_ok K
     then (Some zero_smi, w\<lparr>board := (board w)\<lparr>lock := False, vlan_enabled := 0, vlan4k_enabled := 0\<rparr>,
             held := (held w)\<lparr>smi_allocated := smi_allocated (held w) + 1\<rparr>\<rparr>)
     else (None, w))"

definition rtl8366_smi_probe_of :: "services \<Rightarrow> device_node \<Rightarrow> rtl8366_smi \<Rightarrow> errno + rtl8366_smi" where
  "rtl8366_smi_probe_of K np smi =
    (let sck = named_gpio_sck np; sda = named_gpio_sda np
     in if mii_bus_phandle np \<and> mii_bus_found np then Inr (smi\<lparr>has_ext_mbus := True\<rparr>)
        else if \<not> gpio_is_valid K sck \<or> \<not> gpio_is_valid K sda
        then (if \<not> mii_bus_phandle np then Inl EINVAL else Inl EPROBE_DEFER)
        else Inr (smi\<lparr>gpio_sda := nat sda, gpio_sck := nat sck,
               has_hw_reset := reset_control np\<rparr>))"

definition rtl8366_smi_probe_plat :: "platform_device \<Rightarrow> rtl8366_smi \<Rightarrow> errno + rtl8366_smi" where
  "rtl8366_smi_probe_plat pdev smi =
    (case platform_data pdev of None \<Rightarrow> Inl EINVAL
     | Some pdata \<Rightarrow> Inr (smi\<lparr>gpio_sda := pdata_gpio_sda pdata, gpio_sck := pdata_gpio_sck pdata,
         has_hw_reset := pdata_hw_reset pdata\<rparr>))"

text \<open>The result \<open>None\<close> is a null pointer, which is not an error pointer.\<close>

definition rtl8366_smi_probe :: "services \<Rightarrow> platform_device \<Rightarrow> ('h world, rtl8366_smi option) io" where
  "rtl8366_smi_probe K pdev w =
    (case rtl8366_smi_alloc K w of
       (None, w) \<Rightarrow> (Inr None, w)
     | (Some smi, w) \<Rightarrow>
         (case (case of_node pdev of Some np \<Rightarrow> rtl8366_smi_probe_of K np smi
                | None \<Rightarrow> rtl8366_smi_probe_plat pdev smi) of
            Inl e \<Rightarrow> (Inl e, kfree_smi w)
          | Inr smi \<Rightarrow> (Inr (Some smi), w)))"

definition on_switches ::
  "(('h smi_state) registry, ('h smi_state) switch_dev) io \<Rightarrow> ('h world, unit) io" where
  "on_switches m w =
    (case m (switches w) of
       (Inl e, r) \<Rightarrow> (Inl e, w\<lparr>switches := r\<rparr>)
     | (Inr dev, r) \<Rightarrow> (Inr (), w\<lparr>switches := r, sw_dev_id := dev_id dev\<rparr>))"

definition set_drvdata :: "rtl8366_smi option \<Rightarrow> 'h world \<Rightarrow> 'h world" where
  "set_drvdata d w = w\<lparr>drvdata := d\<rparr>"

text \<open>The switch device inside \<open>struct rtl8366_smi\<close>, with the fields a driver fills in.\<close>

definition sw_dev_of ::
  "string \<Rightarrow> string \<Rightarrow> nat \<Rightarrow> nat \<Rightarrow> u32 \<Rightarrow> 's switch_dev_ops \<Rightarrow> 's switch_dev" where
  "sw_dev_of name parent cpu ports vlans ops = \<lparr>dev_ops = ops, devname = [], dev_name = name,
     dev_alias = parent, dev_ports = of_nat ports, dev_vlans = vlans, dev_cpu_port = of_nat cpu,
     dev_id = 0, def_global = 0, def_port = 0, def_vlan = 0, portmap = []\<rparr>"

definition rtl8366s_sw_dev ::
  "'h platform \<Rightarrow> rtl8366_smi \<Rightarrow> setup_data \<Rightarrow> u32 \<Rightarrow> string \<Rightarrow> ('h smi_state) switch_dev" where
  "rtl8366s_sw_dev H smi sd uninit parent =
    sw_dev_of ''RTL8366S'' parent RTL8366S_PORT_NUM_CPU RTL8366S_NUM_PORTS RTL8366S_NUM_VIDS
      (rtl8366s_ops H smi sd uninit)"

definition rtl8366s_switch_init ::
  "services \<Rightarrow> 'h platform \<Rightarrow> rtl8366_smi \<Rightarrow> setup_data \<Rightarrow> u32 \<Rightarrow> string \<Rightarrow> ('h world, unit) io" where
  "rtl8366s_switch_init K H smi sd uninit parent =
    on_switches (register_switch (bits_per_long K) (portbuf_ok K) (portmap_ok K) (led_trigger_err K) []
      (rtl8366s_sw_dev H smi sd uninit parent))"

definition rtl8366s_switch_cleanup :: "'h world \<Rightarrow> 'h world" where
  "rtl8366s_switch_cleanup w = w\<lparr>switches := unregister_switch (sw_dev_id w) (switches w)\<rparr>"

definition rtl8366s_probe ::
  "services \<Rightarrow> 'h platform \<Rightarrow> setup_data \<Rightarrow> u32 \<Rightarrow> string \<Rightarrow> platform_device \<Rightarrow> ('h world, unit) io" where
  "rtl8366s_probe K H sd uninit parent pdev =
    bindE (rtl8366_smi_probe K pdev) (\<lambda>p.
    case p of None \<Rightarrow> failE NULL_DEREF
    | Some smi0 \<Rightarrow>
       (let smi = rtl8366s_smi smi0
        in unwindE
             (bindE (rtl8366_smi_init K H pdev smi (Some (rtl8366s_smi_ops H smi sd))) (\<lambda>_.
              bindE (\<lambda>w. (Inr (), set_drvdata (Some smi) w)) (\<lambda>_.
              unwindE (rtl8366s_switch_init K H smi sd uninit parent)
                (\<lambda>w. rtl8366_smi_cleanup H smi (set_drvdata None w)))))
             kfree_smi))"

definition rtl8366s_remove :: "'h platform \<Rightarrow> 'h world \<Rightarrow> 'h world" where
  "rtl8366s_remove H w =
    (case drvdata w of None \<Rightarrow> w
     | Some smi \<Rightarrow> kfree_smi (rtl8366_smi_cleanup H smi (set_drvdata None (rtl8366s_switch_cleanup w))))"

definition rtl8366rb_sw_dev ::
  "'h platform \<Rightarrow> rtl8366_smi \<Rightarrow> setup_data \<Rightarrow> u32 \<Rightarrow> string \<Rightarrow> ('h smi_state) switch_dev" where
  "rtl8366rb_sw_dev H smi sd uninit parent =
    sw_dev_of ''RTL8366RB'' parent RTL8366RB_PORT_NUM_CPU RTL8366RB_NUM_PORTS RTL8366RB_NUM_VIDS
      (rtl8366rb_ops H smi sd uninit)"

definition rtl8366rb_switch_init ::
  "services \<Rightarrow> 'h platform \<Rightarrow> rtl8366_smi \<Rightarrow> setup_data \<Rightarrow> u32 \<Rightarrow> string \<Rightarrow> ('h world, unit) io" where
  "rtl8366rb_switch_init K H smi sd uninit parent =
    on_switches (register_switch (bits_per_long K) (portbuf_ok K) (portmap_ok K) (led_trigger_err K) []
      (rtl8366rb_sw_dev H smi sd uninit parent))"

definition rtl8366rb_switch_cleanup :: "'h world \<Rightarrow> 'h world" where
  "rtl8366rb_switch_cleanup w = w\<lparr>switches := unregister_switch (sw_dev_id w) (switches w)\<rparr>"

definition rtl8366rb_probe ::
  "services \<Rightarrow> 'h platform \<Rightarrow> setup_data \<Rightarrow> u32 \<Rightarrow> string \<Rightarrow> platform_device \<Rightarrow> ('h world, unit) io" where
  "rtl8366rb_probe K H sd uninit parent pdev =
    bindE (rtl8366_smi_probe K pdev) (\<lambda>p.
    case p of None \<Rightarrow> failE NULL_DEREF
    | Some smi0 \<Rightarrow>
       (let smi = rtl8366rb_smi smi0
        in unwindE
             (bindE (rtl8366_smi_init K H pdev smi (Some (rtl8366rb_smi_ops H smi sd))) (\<lambda>_.
              bindE (\<lambda>w. (Inr (), set_drvdata (Some smi) w)) (\<lambda>_.
              unwindE (rtl8366rb_switch_init K H smi sd uninit parent)
                (\<lambda>w. rtl8366_smi_cleanup H smi (set_drvdata None w)))))
             kfree_smi))"

definition rtl8366rb_remove :: "'h platform \<Rightarrow> 'h world \<Rightarrow> 'h world" where
  "rtl8366rb_remove H w =
    (case drvdata w of None \<Rightarrow> w
     | Some smi \<Rightarrow> kfree_smi (rtl8366_smi_cleanup H smi (set_drvdata None (rtl8366rb_switch_cleanup w))))"

definition rtl8367_sw_dev ::
  "'h platform \<Rightarrow> rtl8366_smi \<Rightarrow> setup67_data \<Rightarrow> u32 \<Rightarrow> string \<Rightarrow> ('h smi_state) switch_dev" where
  "rtl8367_sw_dev H smi sd uninit parent =
    sw_dev_of ''RTL8367'' parent RTL8367_CPU_PORT_NUM RTL8367_NUM_PORTS RTL8367_NUM_VIDS
      (rtl8367_sw_ops H smi sd uninit)"

definition rtl8367_switch_init ::
  "services \<Rightarrow> 'h platform \<Rightarrow> rtl8366_smi \<Rightarrow> setup67_data \<Rightarrow> u32 \<Rightarrow> string \<Rightarrow> ('h world, unit) io" where
  "rtl8367_switch_init K H smi sd uninit parent =
    on_switches (register_switch (bits_per_long K) (portbuf_ok K) (portmap_ok K) (led_trigger_err K) []
      (rtl8367_sw_dev H smi sd uninit parent))"

definition rtl8367_switch_cleanup :: "'h world \<Rightarrow> 'h world" where
  "rtl8367_switch_cleanup w = w\<lparr>switches := unregister_switch (sw_dev_id w) (switches w)\<rparr>"

definition rtl8367_probe ::
  "services \<Rightarrow> 'h platform \<Rightarrow> setup67_data \<Rightarrow> u32 \<Rightarrow> string \<Rightarrow> platform_device \<Rightarrow> ('h world, unit) io" where
  "rtl8367_probe K H sd uninit parent pdev =
    bindE (rtl8366_smi_probe K pdev) (\<lambda>p.
    case p of None \<Rightarrow> failE NULL_DEREF
    | Some smi0 \<Rightarrow>
       (let smi = rtl8367_smi smi0
        in unwindE
             (bindE (rtl8366_smi_init K H pdev smi (Some (rtl8367_smi_ops H smi sd))) (\<lambda>_.
              bindE (\<lambda>w. (Inr (), set_drvdata (Some smi) w)) (\<lambda>_.
              unwindE (rtl8367_switch_init K H smi sd uninit parent)
                (\<lambda>w. rtl8366_smi_cleanup H smi (set_drvdata None w)))))
             kfree_smi))"

definition rtl8367_remove :: "'h platform \<Rightarrow> 'h world \<Rightarrow> 'h world" where
  "rtl8367_remove H w =
    (case drvdata w of None \<Rightarrow> w
     | Some smi \<Rightarrow> kfree_smi (rtl8366_smi_cleanup H smi (set_drvdata None (rtl8367_switch_cleanup w))))"

definition rtl8367_shutdown :: "'h platform \<Rightarrow> 'h world \<Rightarrow> 'h world" where
  "rtl8367_shutdown H w =
    (case drvdata w of None \<Rightarrow> w | Some smi \<Rightarrow> snd (on_board (rtl8367_reset_chip H smi) w))"

text \<open>\<open>of_cpu_port\<close> is the property of that name of the device tree node.\<close>

definition rtl8367b_sw_dev ::
  "'h platform \<Rightarrow> rtl8366_smi \<Rightarrow> setup67_data \<Rightarrow> u32 \<Rightarrow> string \<Rightarrow> ('h smi_state) switch_dev" where
  "rtl8367b_sw_dev H smi sd uninit parent =
    sw_dev_of ''RTL8367B'' parent (cpu_port smi) RTL8367B_NUM_PORTS RTL8367B_NUM_VIDS
      (rtl8367b_sw_ops H smi sd uninit)"

definition rtl8367b_switch_init ::
  "services \<Rightarrow> 'h platform \<Rightarrow> rtl8366_smi \<Rightarrow> setup67_data \<Rightarrow> u32 \<Rightarrow> string \<Rightarrow> ('h world, unit) io" where
  "rtl8367b_switch_init K H smi sd uninit parent =
    on_switches (register_switch (bits_per_long K) (portbuf_ok K) (portmap_ok K) (led_trigger_err K) []
      (rtl8367b_sw_dev H smi sd uninit parent))"

definition rtl8367b_switch_cleanup :: "'h world \<Rightarrow> 'h world" where
  "rtl8367b_switch_cleanup w = w\<lparr>switches := unregister_switch (sw_dev_id w) (switches w)\<rparr>"

definition rtl8367b_probe ::
  "services \<Rightarrow> 'h platform \<Rightarrow> setup67_data \<Rightarrow> u32 option \<Rightarrow> u32 \<Rightarrow> string \<Rightarrow> platform_device \<Rightarrow> ('h world, unit) io" where
  "rtl8367b_probe K H sd of_cpu_port uninit parent pdev =
    bindE (rtl8366_smi_probe K pdev) (\<lambda>p.
    case p of None \<Rightarrow> failE NULL_DEREF
    | Some smi0 \<Rightarrow>
       (let smi = rtl8367b_smi of_cpu_port smi0
        in unwindE
             (bindE (rtl8366_smi_init K H pdev smi (Some (rtl8367b_smi_ops H smi sd))) (\<lambda>_.
              bindE (\<lambda>w. (Inr (), set_drvdata (Some smi) w)) (\<lambda>_.
              unwindE (rtl8367b_switch_init K H smi sd uninit parent)
                (\<lambda>w. rtl8366_smi_cleanup H smi (set_drvdata None w)))))
             kfree_smi))"

definition rtl8367b_remove :: "'h platform \<Rightarrow> 'h world \<Rightarrow> 'h world" where
  "rtl8367b_remove H w =
    (case drvdata w of None \<Rightarrow> w
     | Some smi \<Rightarrow> kfree_smi (rtl8366_smi_cleanup H smi (set_drvdata None (rtl8367b_switch_cleanup w))))"

definition rtl8367b_shutdown :: "'h platform \<Rightarrow> 'h world \<Rightarrow> 'h world" where
  "rtl8367b_shutdown H w =
    (case drvdata w of None \<Rightarrow> w | Some smi \<Rightarrow> snd (on_board (rtl8367b_reset_chip H smi) w))"

end
