(* ===== verification/Swconfig_Reply.thy ===== *)
theory Swconfig_Reply
  imports Swconfig
begin

text \<open>
  The messages that \<open>swconfig.c\<close> writes: replies to get requests, lists of attributes spread
  over several messages, and the dump of all switches. The kernel's netlink library is a
  parameter, the record \<open>netlink\<close>, one field for each function that the code calls.
\<close>

section \<open>The netlink library\<close>

text \<open>
  \<open>'m\<close> is a message, \<open>'p\<close> the position in a message where a header or a nested attribute
  starts; \<open>None\<close> is a null pointer. An operation that does not find enough room answers with an error.
  \<open>nlmsg_new\<close> gets the number of messages that the request has sent before, \<open>genlmsg_put\<close> the
  multipart flag, \<open>nl_reply\<close> is the error of sending a message, if any.
\<close>

record ('m, 'p) netlink =
  nlmsg_new :: "nat \<Rightarrow> 'm option"
  genlmsg_put :: "bool \<Rightarrow> switch_cmd \<Rightarrow> 'm \<Rightarrow> 'p option \<times> 'm"
  genlmsg_end :: "'p \<Rightarrow> 'm \<Rightarrow> 'm"
  genlmsg_cancel :: "'p \<Rightarrow> 'm \<Rightarrow> 'm"
  nla_put_u32 :: "nat \<Rightarrow> u32 \<Rightarrow> ('m, unit) io"
  nla_put_string :: "nat \<Rightarrow> string \<Rightarrow> ('m, unit) io"
  nla_put_flag :: "nat \<Rightarrow> ('m, unit) io"
  nla_nest_start :: "nat \<Rightarrow> 'm \<Rightarrow> 'p option \<times> 'm"
  nla_nest_end :: "'p \<Rightarrow> 'm \<Rightarrow> 'm"
  nla_nest_cancel :: "'p \<Rightarrow> 'm \<Rightarrow> 'm"
  nl_reply :: "'m \<Rightarrow> errno option"

abbreviation (input) SWITCH_ATTR_ID :: nat where "SWITCH_ATTR_ID \<equiv> 2"
abbreviation (input) SWITCH_ATTR_DEV_NAME :: nat where "SWITCH_ATTR_DEV_NAME \<equiv> 3"
abbreviation (input) SWITCH_ATTR_ALIAS :: nat where "SWITCH_ATTR_ALIAS \<equiv> 4"
abbreviation (input) SWITCH_ATTR_NAME :: nat where "SWITCH_ATTR_NAME \<equiv> 5"
abbreviation (input) SWITCH_ATTR_VLANS :: nat where "SWITCH_ATTR_VLANS \<equiv> 6"
abbreviation (input) SWITCH_ATTR_PORTS :: nat where "SWITCH_ATTR_PORTS \<equiv> 7"
abbreviation (input) SWITCH_ATTR_PORTMAP :: nat where "SWITCH_ATTR_PORTMAP \<equiv> 8"
abbreviation (input) SWITCH_ATTR_CPU_PORT :: nat where "SWITCH_ATTR_CPU_PORT \<equiv> 9"
abbreviation (input) SWITCH_ATTR_OP_ID :: nat where "SWITCH_ATTR_OP_ID \<equiv> 10"
abbreviation (input) SWITCH_ATTR_OP_TYPE :: nat where "SWITCH_ATTR_OP_TYPE \<equiv> 11"
abbreviation (input) SWITCH_ATTR_OP_NAME :: nat where "SWITCH_ATTR_OP_NAME \<equiv> 12"
abbreviation (input) SWITCH_ATTR_OP_VALUE_INT :: nat where "SWITCH_ATTR_OP_VALUE_INT \<equiv> 15"
abbreviation (input) SWITCH_ATTR_OP_VALUE_STR :: nat where "SWITCH_ATTR_OP_VALUE_STR \<equiv> 16"
abbreviation (input) SWITCH_ATTR_OP_VALUE_PORTS :: nat where "SWITCH_ATTR_OP_VALUE_PORTS \<equiv> 17"
abbreviation (input) SWITCH_ATTR_OP_VALUE_LINK :: nat where "SWITCH_ATTR_OP_VALUE_LINK \<equiv> 18"
abbreviation (input) SWITCH_ATTR_OP_DESCRIPTION :: nat where "SWITCH_ATTR_OP_DESCRIPTION \<equiv> 19"
abbreviation (input) SWITCH_ATTR_PORT :: nat where "SWITCH_ATTR_PORT \<equiv> 20"
abbreviation (input) SWITCH_PORTMAP_SEGMENT :: nat where "SWITCH_PORTMAP_SEGMENT \<equiv> 1"
abbreviation (input) SWITCH_PORTMAP_VIRT :: nat where "SWITCH_PORTMAP_VIRT \<equiv> 2"
abbreviation (input) SWITCH_PORT_ID :: nat where "SWITCH_PORT_ID \<equiv> 1"
abbreviation (input) SWITCH_LINK_FLAG_LINK :: nat where "SWITCH_LINK_FLAG_LINK \<equiv> 1"
abbreviation (input) SWITCH_LINK_FLAG_DUPLEX :: nat where "SWITCH_LINK_FLAG_DUPLEX \<equiv> 2"
abbreviation (input) SWITCH_LINK_FLAG_ANEG :: nat where "SWITCH_LINK_FLAG_ANEG \<equiv> 3"
abbreviation (input) SWITCH_LINK_FLAG_TX_FLOW :: nat where "SWITCH_LINK_FLAG_TX_FLOW \<equiv> 4"
abbreviation (input) SWITCH_LINK_FLAG_RX_FLOW :: nat where "SWITCH_LINK_FLAG_RX_FLOW \<equiv> 5"
abbreviation (input) SWITCH_LINK_SPEED :: nat where "SWITCH_LINK_SPEED \<equiv> 6"
abbreviation (input) SWITCH_LINK_FLAG_EEE_100BASET :: nat where "SWITCH_LINK_FLAG_EEE_100BASET \<equiv> 7"
abbreviation (input) SWITCH_LINK_FLAG_EEE_1000BASET :: nat where "SWITCH_LINK_FLAG_EEE_1000BASET \<equiv> 8"
abbreviation (input) ADVERTISED_100baseT_Full :: u32 where "ADVERTISED_100baseT_Full \<equiv> 0x8"
abbreviation (input) ADVERTISED_1000baseT_Full :: u32 where "ADVERTISED_1000baseT_Full \<equiv> 0x20"

primrec switch_val_type_code :: "switch_val_type \<Rightarrow> u32" where
  "switch_val_type_code SWITCH_TYPE_UNSPEC = 0"
| "switch_val_type_code SWITCH_TYPE_INT = 1"
| "switch_val_type_code SWITCH_TYPE_STRING = 2"
| "switch_val_type_code SWITCH_TYPE_PORTS = 3"
| "switch_val_type_code SWITCH_TYPE_LINK = 4"
| "switch_val_type_code SWITCH_TYPE_NOVAL = 5"

text \<open>
  The code tests the header with \<open>IS_ERR\<close>, which is false for the null pointer that
  \<open>genlmsg_put\<close> returns when the message is full, so that it always writes on.
  \<open>genlmsg_cancel\<close> accepts a null pointer, \<open>genlmsg_end\<close> writes through it. The message is closed
  or, after an error, cut back to the header.
\<close>

definition with_header ::
  "('m, 'p) netlink \<Rightarrow> bool \<Rightarrow> switch_cmd \<Rightarrow> ('m, unit) io \<Rightarrow> ('m, unit) io" where
  "with_header N multi cmd body m =
    (case genlmsg_put N multi cmd m of (hdr, m) \<Rightarrow>
     case body m of
       (Inl e, m) \<Rightarrow> (Inl EMSGSIZE, case hdr of None \<Rightarrow> m | Some p \<Rightarrow> genlmsg_cancel N p m)
     | (Inr _, m) \<Rightarrow> (case hdr of None \<Rightarrow> (Inl NULL_DEREF, m) | Some p \<Rightarrow> (Inr (), genlmsg_end N p m)))"

definition put_if :: "bool \<Rightarrow> ('s, unit) io \<Rightarrow> ('s, unit) io" where
  "put_if b f = (if b then f else retE ())"

section \<open>Messages that continue\<close>

text \<open>
  \<open>cb_msg\<close> is the message being filled (\<open>None\<close> a null pointer), \<open>cb_freed\<close> whether its buffer has
  been freed, \<open>cb_nest\<close> the start of the open list and the number of the message it points into,
  \<open>cb_args\<close> the first argument, \<open>nl_sent\<close> what has been sent. A pointer into a message that has been sent is
  \<open>USE_AFTER_FREE\<close> when it is used; \<open>DOUBLE_FREE\<close> marks a run that frees a buffer twice.
\<close>

record ('m, 'p) swconfig_callback =
  cb_msg :: "'m option"
  cb_cmd :: nat
  cb_nest :: "(nat \<times> 'p) option"
  cb_args :: nat
  cb_freed :: bool
  nl_sent :: "'m list"

definition on_msg :: "('m, 'a) io \<Rightarrow> (('m, 'p) swconfig_callback, 'a) io" where
  "on_msg f cb = (case cb_msg cb of None \<Rightarrow> (Inl NULL_DEREF, cb)
     | Some m \<Rightarrow> (case f m of (r, m) \<Rightarrow> (r, cb\<lparr>cb_msg := Some m\<rparr>)))"

definition nlmsg_free :: "('m, 'p) swconfig_callback \<Rightarrow> ('m, 'p) swconfig_callback" where
  "nlmsg_free cb = (case cb_msg cb of None \<Rightarrow> cb | Some m \<Rightarrow> cb\<lparr>cb_freed := True\<rparr>)"

definition genlmsg_reply :: "('m, 'p) netlink \<Rightarrow> 'm \<Rightarrow> (('m, 'p) swconfig_callback, unit) io" where
  "genlmsg_reply N m cb =
    (case nl_reply N m of Some e \<Rightarrow> (Inl e, cb) | None \<Rightarrow> (Inr (), cb\<lparr>nl_sent := nl_sent cb @ [m]\<rparr>))"

definition new_msg :: "('m, 'p) netlink \<Rightarrow> ('m, 'p) swconfig_callback \<Rightarrow> ('m, 'p) swconfig_callback" where
  "new_msg N cb = (case cb_msg cb of Some m \<Rightarrow> cb
     | None \<Rightarrow> cb\<lparr>cb_msg := nlmsg_new N (length (nl_sent cb))\<rparr>)"

function multipart_loop ::
  "('m, 'p) netlink \<Rightarrow> (('m, 'p) swconfig_callback, unit) io \<Rightarrow> (('m, 'p) swconfig_callback, unit) io
    \<Rightarrow> bool \<Rightarrow> (('m, 'p) swconfig_callback, unit) io" where
  "multipart_loop N fill close restart cb =
    (let cb = new_msg N cb in
     if cb_msg cb = None then (Inl EPERM, cb)
     else case fill cb of
       (Inr _, cb) \<Rightarrow> (Inr (), cb)
     | (Inl USE_AFTER_FREE, cb) \<Rightarrow> (Inl USE_AFTER_FREE, cb)
     | (Inl NULL_DEREF, cb) \<Rightarrow> (Inl NULL_DEREF, cb)
     | (Inl _, cb) \<Rightarrow>
       if restart then (Inl EPERM, nlmsg_free cb)
       else case close cb of
         (Inl USE_AFTER_FREE, cb) \<Rightarrow> (Inl USE_AFTER_FREE, cb)
       | (Inl _, cb) \<Rightarrow> (Inl EPERM, nlmsg_free cb)
       | (Inr _, cb) \<Rightarrow>
         (case cb_msg cb of None \<Rightarrow> (Inl NULL_DEREF, cb)
          | Some m \<Rightarrow> (case genlmsg_reply N m cb of
              (Inl e, cb) \<Rightarrow> (Inl EPERM, cb\<lparr>cb_msg := None\<rparr>)
            | (Inr _, cb) \<Rightarrow> multipart_loop N fill close True (cb\<lparr>cb_msg := None\<rparr>))))"
  by pat_completeness auto
termination
  by (relation "measure (\<lambda>(N, fill, close, restart, cb). if restart then 0 else 1)") auto

declare multipart_loop.simps [simp del]

text \<open>A callback without a close function has \<open>retE ()\<close> here.\<close>

definition swconfig_send_multipart ::
  "('m, 'p) netlink \<Rightarrow> (('m, 'p) swconfig_callback, unit) io \<Rightarrow> (('m, 'p) swconfig_callback, unit) io
    \<Rightarrow> (('m, 'p) swconfig_callback, unit) io" where
  "swconfig_send_multipart N fill close = multipart_loop N fill close False"

section \<open>Listing attributes\<close>

text \<open>Every attribute of the modelled tables has a description.\<close>

definition dump_attr_body :: "('m, 'p) netlink \<Rightarrow> nat \<Rightarrow> switch_attr_info \<Rightarrow> ('m, unit) io" where
  "dump_attr_body N i op =
    bindE (nla_put_u32 N SWITCH_ATTR_OP_ID (of_nat i)) (\<lambda>_.
    bindE (nla_put_u32 N SWITCH_ATTR_OP_TYPE (switch_val_type_code (attr_type op))) (\<lambda>_.
    bindE (nla_put_string N SWITCH_ATTR_OP_NAME (attr_name op)) (\<lambda>_.
    nla_put_string N SWITCH_ATTR_OP_DESCRIPTION (attr_description op))))"

definition swconfig_dump_attr ::
  "('m, 'p) netlink \<Rightarrow> switch_attr_info \<Rightarrow> (('m, 'p) swconfig_callback, unit) io" where
  "swconfig_dump_attr N op cb =
    on_msg (with_header N True SWITCH_CMD_NEW_ATTR (dump_attr_body N (cb_args cb) op)) cb"

text \<open>
  The entries that a list request reports: the driver's attributes by their position, then
  the active defaults above \<open>SWITCH_ATTR_DEFAULTS_OFFSET\<close>.
\<close>

definition dump_list :: "'s switch_attr list \<Rightarrow> 's switch_attr list \<Rightarrow> u32 \<Rightarrow> (nat \<times> switch_attr_info) list" where
  "dump_list alist def_list def_active =
    map (\<lambda>i. (i, attr_info (alist ! i)))
      (filter (\<lambda>i. \<not> attr_disabled (attr_info (alist ! i))) [0..<length alist]) @
    map (\<lambda>i. (SWITCH_ATTR_DEFAULTS_OFFSET + i, attr_info (def_list ! i)))
      (filter (\<lambda>i. bit def_active i) [0..<length def_list])"

primrec send_all ::
  "('m, 'p) netlink \<Rightarrow> (nat \<times> switch_attr_info) list \<Rightarrow> (('m, 'p) swconfig_callback, unit) io" where
  "send_all N [] = retE ()"
| "send_all N (e # es) = (\<lambda>cb.
    bindE (swconfig_send_multipart N (swconfig_dump_attr N (snd e)) (retE ())) (\<lambda>_. send_all N es)
      (cb\<lparr>cb_args := fst e\<rparr>))"

definition empty_callback :: "nat \<Rightarrow> 'm option \<Rightarrow> ('m, 'p) swconfig_callback" where
  "empty_callback cmd m = \<lparr>cb_msg = m, cb_cmd = cmd, cb_nest = None, cb_args = 0, cb_freed = False, nl_sent = []\<rparr>"

definition list_attrs_reply ::
  "('m, 'p) netlink \<Rightarrow> (nat \<times> switch_attr_info) list \<Rightarrow> (errno + unit) \<times> 'm list" where
  "list_attrs_reply N es =
    (case send_all N es (empty_callback 0 None) of
       (Inl e, cb) \<Rightarrow>
         (case cb_msg cb of None \<Rightarrow> (Inl e, nl_sent cb)
          | Some m \<Rightarrow> (Inl (if cb_freed cb then DOUBLE_FREE else e), nl_sent cb))
     | (Inr _, cb) \<Rightarrow>
         (case cb_msg cb of None \<Rightarrow> (Inr (), nl_sent cb)
          | Some m \<Rightarrow> (case genlmsg_reply N m cb of (r, cb) \<Rightarrow> (r, nl_sent cb))))"

definition swconfig_list_attrs ::
  "('m, 'p) netlink \<Rightarrow> 's switch_dev list \<Rightarrow> genl_info \<Rightarrow> (errno + unit) \<times> 'm list" where
  "swconfig_list_attrs N devs info =
    (case swconfig_get_dev devs info of None \<Rightarrow> (Inl EINVAL, [])
     | Some dev \<Rightarrow>
       if info_cmd info = SWITCH_CMD_LIST_GLOBAL then
         list_attrs_reply N (dump_list (attr_global (dev_ops dev)) (default_global dev) (def_global dev))
       else if info_cmd info = SWITCH_CMD_LIST_VLAN then
         list_attrs_reply N (dump_list (attr_vlan (dev_ops dev)) (default_vlan dev) (def_vlan dev))
       else if info_cmd info = SWITCH_CMD_LIST_PORT then
         list_attrs_reply N (dump_list (attr_port (dev_ops dev)) (default_port dev) (def_port dev))
       else (Inl EINVAL, []))"

section \<open>Replies to get requests\<close>

text \<open>A pointer of the callback into its current message.\<close>

definition with_nest ::
  "('p \<Rightarrow> 'm \<Rightarrow> 'm) \<Rightarrow> (('m, 'p) swconfig_callback, unit) io" where
  "with_nest f cb = (case cb_nest cb of None \<Rightarrow> (Inr (), cb)
     | Some (n, p) \<Rightarrow> if n \<noteq> length (nl_sent cb) then (Inl USE_AFTER_FREE, cb)
                     else on_msg (\<lambda>m. (Inr (), f p m)) cb)"

definition swconfig_close_portlist :: "('m, 'p) netlink \<Rightarrow> (('m, 'p) swconfig_callback, unit) io" where
  "swconfig_close_portlist N = with_nest (nla_nest_end N)"

definition open_portlist :: "('m, 'p) netlink \<Rightarrow> (('m, 'p) swconfig_callback, unit) io" where
  "open_portlist N cb = (case cb_msg cb of None \<Rightarrow> (Inl NULL_DEREF, cb)
     | Some m \<Rightarrow> (case nla_nest_start N (cb_cmd cb) m of
         (None, m) \<Rightarrow> (Inl EPERM, cb\<lparr>cb_msg := Some m\<rparr>)
       | (Some p, m) \<Rightarrow> (Inr (), cb\<lparr>cb_msg := Some m, cb_nest := Some (length (nl_sent cb), p)\<rparr>)))"

text \<open>One port, with the nest cancelled when its attributes do not fit.\<close>

definition put_port :: "('m, 'p) netlink \<Rightarrow> switch_port \<Rightarrow> ('m, unit) io" where
  "put_port N port m =
    (case nla_nest_start N SWITCH_ATTR_PORT m of
       (None, m) \<Rightarrow> (Inl EPERM, m)
     | (Some p, m) \<Rightarrow>
       (case bindE (nla_put_u32 N SWITCH_PORT_ID (port_id port)) (\<lambda>_.
             put_if (port_flags port AND BIT SWITCH_PORT_FLAG_TAGGED \<noteq> 0)
               (nla_put_flag N SWITCH_PORT_FLAG_TAGGED)) m of
          (Inl e, m) \<Rightarrow> (Inl EPERM, nla_nest_cancel N p m)
        | (Inr _, m) \<Rightarrow> (Inr (), nla_nest_end N p m)))"

definition swconfig_send_port ::
  "('m, 'p) netlink \<Rightarrow> switch_port \<Rightarrow> (('m, 'p) swconfig_callback, unit) io" where
  "swconfig_send_port N port =
    bindE (\<lambda>cb. if cb_nest cb = None then open_portlist N cb else (Inr (), cb)) (\<lambda>_ cb.
      case on_msg (put_port N port) cb of
        (Inl NULL_DEREF, cb) \<Rightarrow> (Inl NULL_DEREF, cb)
      | (Inl e, cb) \<Rightarrow> bindE (with_nest (nla_nest_cancel N)) (\<lambda>_. failE EPERM) cb
      | (Inr _, cb) \<Rightarrow> (Inr (), cb))"

primrec send_ports_loop ::
  "('m, 'p) netlink \<Rightarrow> switch_port list \<Rightarrow> (('m, 'p) swconfig_callback, unit) io" where
  "send_ports_loop N [] = retE ()"
| "send_ports_loop N (p # ps) =
    bindE (swconfig_send_multipart N (swconfig_send_port N p) (swconfig_close_portlist N)) (\<lambda>_.
    send_ports_loop N ps)"

text \<open>
  After an error the caller frees the message it passed; it has then been sent or freed
  already unless it is still the current one.
\<close>

definition swconfig_send_ports ::
  "('m, 'p) netlink \<Rightarrow> nat \<Rightarrow> switch_val \<Rightarrow> 'm \<Rightarrow> (errno + unit) \<times> ('m, 'p) swconfig_callback" where
  "swconfig_send_ports N attr v m =
    (let cb = snd (open_portlist N (empty_callback attr (Some m)))
     in bindE (send_ports_loop N (take (val_len v) (val_ports v))) (\<lambda>_. swconfig_close_portlist N) cb)"

definition put_link :: "('m, 'p) netlink \<Rightarrow> switch_port_link \<Rightarrow> ('m, unit) io" where
  "put_link N lnk =
    bindE (put_if (link lnk) (nla_put_flag N SWITCH_LINK_FLAG_LINK)) (\<lambda>_.
    bindE (put_if (duplex lnk) (nla_put_flag N SWITCH_LINK_FLAG_DUPLEX)) (\<lambda>_.
    bindE (put_if (aneg lnk) (nla_put_flag N SWITCH_LINK_FLAG_ANEG)) (\<lambda>_.
    bindE (put_if (tx_flow lnk) (nla_put_flag N SWITCH_LINK_FLAG_TX_FLOW)) (\<lambda>_.
    bindE (put_if (rx_flow lnk) (nla_put_flag N SWITCH_LINK_FLAG_RX_FLOW)) (\<lambda>_.
    bindE (nla_put_u32 N SWITCH_LINK_SPEED (speed lnk)) (\<lambda>_.
    bindE (put_if (eee lnk AND ADVERTISED_100baseT_Full \<noteq> 0) (nla_put_flag N SWITCH_LINK_FLAG_EEE_100BASET)) (\<lambda>_.
    put_if (eee lnk AND ADVERTISED_1000baseT_Full \<noteq> 0) (nla_put_flag N SWITCH_LINK_FLAG_EEE_1000BASET))))))))"

definition swconfig_send_link :: "('m, 'p) netlink \<Rightarrow> nat \<Rightarrow> switch_port_link \<Rightarrow> ('m, unit) io" where
  "swconfig_send_link N attr lnk m =
    (case nla_nest_start N attr m of (p, m) \<Rightarrow>
     case put_link N lnk m of
       (Inl e, m) \<Rightarrow> (Inl EPERM, case p of None \<Rightarrow> m | Some p \<Rightarrow> nla_nest_cancel N p m)
     | (Inr _, m) \<Rightarrow> (case p of None \<Rightarrow> (Inl NULL_DEREF, m) | Some p \<Rightarrow> (Inr (), nla_nest_end N p m)))"

text \<open>
  The value in the message: the result has the message to finish and the messages already sent.
  \<open>portbuf\<close> is allocated for a switch that has ports.
\<close>

definition put_value ::
  "('m, 'p) netlink \<Rightarrow> u32 \<Rightarrow> switch_val_type \<Rightarrow> switch_val \<Rightarrow> 'm \<Rightarrow> (errno + 'm) \<times> 'm list" where
  "put_value N ports ty v m =
    (case ty of
       SWITCH_TYPE_INT \<Rightarrow> (case nla_put_u32 N SWITCH_ATTR_OP_VALUE_INT (val_i v) m of
           (Inl e, m) \<Rightarrow> (Inl ENOMEM, []) | (Inr _, m) \<Rightarrow> (Inr m, []))
     | SWITCH_TYPE_STRING \<Rightarrow> (case nla_put_string N SWITCH_ATTR_OP_VALUE_STR (val_s v) m of
           (Inl e, m) \<Rightarrow> (Inl ENOMEM, []) | (Inr _, m) \<Rightarrow> (Inr m, []))
     | SWITCH_TYPE_PORTS \<Rightarrow>
         if ports = 0 then (Inl EINVAL, [])
         else (case swconfig_send_ports N SWITCH_ATTR_OP_VALUE_PORTS v m of
             (Inl e, cb) \<Rightarrow> (Inl (if e = NULL_DEREF \<or> e = USE_AFTER_FREE then e
                 else if cb_msg cb = None \<or> cb_freed cb \<or> nl_sent cb \<noteq> [] then DOUBLE_FREE else e), nl_sent cb)
           | (Inr _, cb) \<Rightarrow> (case cb_msg cb of None \<Rightarrow> (Inl NULL_DEREF, nl_sent cb)
               | Some m \<Rightarrow> (if nl_sent cb = [] then Inr m else Inl USE_AFTER_FREE, nl_sent cb)))
     | SWITCH_TYPE_LINK \<Rightarrow> (case swconfig_send_link N SWITCH_ATTR_OP_VALUE_LINK (val_link v) m of
           (Inl e, m) \<Rightarrow> (Inl e, []) | (Inr _, m) \<Rightarrow> (Inr m, []))
     | _ \<Rightarrow> (Inl EINVAL, []))"

definition get_attr_reply ::
  "('m, 'p) netlink \<Rightarrow> u32 \<Rightarrow> switch_cmd \<Rightarrow> switch_val_type \<Rightarrow> switch_val \<Rightarrow> (errno + unit) \<times> 'm list" where
  "get_attr_reply N ports cmd ty v =
    (case nlmsg_new N 0 of None \<Rightarrow> (Inl ENOMEM, [])
     | Some m \<Rightarrow>
       (case genlmsg_put N False cmd m of (hdr, m) \<Rightarrow>
        case put_value N ports ty v m of
          (Inl e, sent) \<Rightarrow> (Inl e, sent)
        | (Inr m, sent) \<Rightarrow>
            (case hdr of None \<Rightarrow> (Inl NULL_DEREF, sent)
             | Some p \<Rightarrow> let m = genlmsg_end N p m
                 in case nl_reply N m of Some e \<Rightarrow> (Inl e, sent) | None \<Rightarrow> (Inr (), sent @ [m]))))"

definition swconfig_get_attr ::
  "('m, 'p) netlink \<Rightarrow> 's switch_dev list \<Rightarrow> genl_info \<Rightarrow> 's \<Rightarrow> ((errno + unit) \<times> 'm list) \<times> 's" where
  "swconfig_get_attr N devs info s =
    (case swconfig_get_dev devs info of None \<Rightarrow> ((Inl EINVAL, []), s)
     | Some dev \<Rightarrow>
        (case swconfig_lookup_attr dev info zero_val of
           (None, v) \<Rightarrow> ((Inl EINVAL, []), s)
         | (Some attr, v) \<Rightarrow>
             (case attr_get attr of None \<Rightarrow> ((Inl EINVAL, []), s)
              | Some f \<Rightarrow>
                 (case f (attr_info attr) v s of
                    (Inl e, s) \<Rightarrow> ((Inl e, []), s)
                  | (Inr v, s) \<Rightarrow>
                     (get_attr_reply N (dev_ports dev) (info_cmd info) (attr_type (attr_info attr)) v, s)))))"

section \<open>The dump of all switches\<close>

text \<open>A registered switch has a port map with one entry for each port.\<close>

primrec portmap_loop :: "('m, 'p) netlink \<Rightarrow> (string \<times> u32) option list \<Rightarrow> ('m, unit) io" where
  "portmap_loop N [] = retE ()"
| "portmap_loop N (e # es) = (\<lambda>m.
    case nla_nest_start N SWITCH_ATTR_PORTS m of
      (None, m) \<Rightarrow> portmap_loop N es m
    | (Some p, m) \<Rightarrow>
        bindE (case e of None \<Rightarrow> retE ()
               | Some (segment, virt) \<Rightarrow> bindE (nla_put_string N SWITCH_PORTMAP_SEGMENT segment) (\<lambda>_.
                   nla_put_u32 N SWITCH_PORTMAP_VIRT virt))
          (\<lambda>_ m. portmap_loop N es (nla_nest_end N p m)) m)"

definition send_switch_head :: "('m, 'p) netlink \<Rightarrow> 's switch_dev \<Rightarrow> ('m, unit) io" where
  "send_switch_head N dev =
    bindE (nla_put_u32 N SWITCH_ATTR_ID (dev_id dev)) (\<lambda>_.
    bindE (nla_put_string N SWITCH_ATTR_DEV_NAME (devname dev)) (\<lambda>_.
    bindE (nla_put_string N SWITCH_ATTR_ALIAS (dev_alias dev)) (\<lambda>_.
    bindE (nla_put_string N SWITCH_ATTR_NAME (dev_name dev)) (\<lambda>_.
    bindE (nla_put_u32 N SWITCH_ATTR_VLANS (dev_vlans dev)) (\<lambda>_.
    bindE (nla_put_u32 N SWITCH_ATTR_PORTS (dev_ports dev)) (\<lambda>_.
    nla_put_u32 N SWITCH_ATTR_CPU_PORT (dev_cpu_port dev)))))))"

definition send_switch_body :: "('m, 'p) netlink \<Rightarrow> 's switch_dev \<Rightarrow> ('m, unit) io" where
  "send_switch_body N dev =
    bindE (send_switch_head N dev) (\<lambda>_ m.
    case nla_nest_start N SWITCH_ATTR_PORTMAP m of
      (None, m) \<Rightarrow> (Inl EMSGSIZE, m)
    | (Some p, m) \<Rightarrow> bindE (portmap_loop N (portmap dev)) (\<lambda>_ m. (Inr (), nla_nest_end N p m)) m)"

definition swconfig_send_switch :: "('m, 'p) netlink \<Rightarrow> bool \<Rightarrow> 's switch_dev \<Rightarrow> ('m, unit) io" where
  "swconfig_send_switch N multi dev = with_header N multi SWITCH_CMD_NEW_ATTR (send_switch_body N dev)"

text \<open>The result is the message and the position from which the next round starts.\<close>

primrec dump_switches_loop ::
  "('m, 'p) netlink \<Rightarrow> nat \<Rightarrow> nat \<Rightarrow> 's switch_dev list \<Rightarrow> 'm \<Rightarrow> 'm \<times> nat" where
  "dump_switches_loop N start idx [] m = (m, idx)"
| "dump_switches_loop N start idx (dev # devs) m =
    (if idx + 1 \<le> start then dump_switches_loop N start (idx + 1) devs m
     else case swconfig_send_switch N True dev m of
       (Inl e, m) \<Rightarrow> (m, idx + 1)
     | (Inr _, m) \<Rightarrow> dump_switches_loop N start (idx + 1) devs m)"

definition swconfig_dump_switches ::
  "('m, 'p) netlink \<Rightarrow> nat \<Rightarrow> 's switch_dev list \<Rightarrow> 'm \<Rightarrow> 'm \<times> nat" where
  "swconfig_dump_switches N start devs m = dump_switches_loop N start 0 devs m"

section \<open>Commands\<close>

datatype handler = List_attrs | Get_attr | Set_attr | Dump_switches

text \<open>Each command with its handler and whether the netlink layer asks for the administrator capability.\<close>

definition swconfig_ops :: "(switch_cmd \<times> bool \<times> handler) list" where
  "swconfig_ops = [
    (SWITCH_CMD_LIST_GLOBAL, False, List_attrs),
    (SWITCH_CMD_LIST_VLAN, False, List_attrs),
    (SWITCH_CMD_LIST_PORT, False, List_attrs),
    (SWITCH_CMD_GET_GLOBAL, False, Get_attr),
    (SWITCH_CMD_GET_VLAN, False, Get_attr),
    (SWITCH_CMD_GET_PORT, False, Get_attr),
    (SWITCH_CMD_SET_GLOBAL, True, Set_attr),
    (SWITCH_CMD_SET_VLAN, True, Set_attr),
    (SWITCH_CMD_SET_PORT, True, Set_attr),
    (SWITCH_CMD_GET_SWITCH, False, Dump_switches)]"

end
