(* ===== verification/Swconfig_Messages.thy ===== *)
theory Swconfig_Messages
  imports Swconfig_Reply
begin

text \<open>
  What the netlink library promises, and from it the contents of the messages that
  \<open>swconfig.c\<close> writes. The contents are a list of tokens; an operation writes its token when there is
  room for it and leaves the message alone otherwise.
\<close>

section \<open>Contents of a message\<close>

datatype tok =
    THdr bool switch_cmd | TEnd | TU32 nat u32 | TStr nat string | TFlag nat | TOpen nat | TClose

text \<open>
  Sizes in bytes: a netlink and a generic netlink header, attribute headers of four bytes,
  payloads padded to four bytes, strings with their final zero.
\<close>

primrec tok_size :: "tok \<Rightarrow> nat" where
  "tok_size (THdr multi cmd) = 20"
| "tok_size TEnd = 0"
| "tok_size (TU32 a v) = 8"
| "tok_size (TStr a s) = 4 + 4 * ((length s + 4) div 4)"
| "tok_size (TFlag a) = 4"
| "tok_size (TOpen a) = 4"
| "tok_size TClose = 0"

definition msg_size :: "tok list \<Rightarrow> nat" where
  "msg_size ts = sum_list (map tok_size ts)"

lemma msg_size_simps [simp]:
  "msg_size [] = 0" "msg_size (t # ts) = tok_size t + msg_size ts" "msg_size (us @ vs) = msg_size us + msg_size vs"
  by (simp_all add: msg_size_def)

primrec is_header :: "tok \<Rightarrow> bool" where
  "is_header (THdr multi cmd) = True"
| "is_header TEnd = False"
| "is_header (TU32 a v) = False"
| "is_header (TStr a s) = False"
| "is_header (TFlag a) = False"
| "is_header (TOpen a) = False"
| "is_header TClose = False"

definition no_header :: "tok list \<Rightarrow> bool" where
  "no_header ts \<longleftrightarrow> \<not> list_ex is_header ts"

lemma no_header_simps [simp]:
  "no_header []" "no_header (t # ts) \<longleftrightarrow> \<not> is_header t \<and> no_header ts" "no_header (us @ vs) \<longleftrightarrow> no_header us \<and> no_header vs"
  by (simp_all add: no_header_def)

section \<open>The laws of the library\<close>

text \<open>
  \<open>toks\<close>: the contents of a message, \<open>cap\<close>: the bytes it can hold, \<open>mark\<close>: how many tokens precede a position.
\<close>

definition law_put :: "('m \<Rightarrow> tok list) \<Rightarrow> ('m \<Rightarrow> nat) \<Rightarrow> ('m, unit) io \<Rightarrow> tok \<Rightarrow> bool" where
  "law_put toks cap f t \<longleftrightarrow> (\<forall>m.
     if msg_size (toks m) + tok_size t \<le> cap m
     then fst (f m) = Inr () \<and> toks (snd (f m)) = toks m @ [t] \<and> cap (snd (f m)) = cap m
     else fst (f m) \<noteq> Inr () \<and> snd (f m) = m)"

definition law_start ::
  "('m \<Rightarrow> tok list) \<Rightarrow> ('p \<Rightarrow> nat) \<Rightarrow> ('m \<Rightarrow> nat) \<Rightarrow> ('m \<Rightarrow> 'p option \<times> 'm) \<Rightarrow> tok \<Rightarrow> bool" where
  "law_start toks mark cap f t \<longleftrightarrow> (\<forall>m.
     if msg_size (toks m) + tok_size t \<le> cap m
     then \<exists>p. fst (f m) = Some p \<and> mark p = length (toks m) \<and> toks (snd (f m)) = toks m @ [t] \<and> cap (snd (f m)) = cap m
     else f m = (None, m))"

lemma law_startE:
  assumes "law_start toks mark cap f t" "msg_size (toks m) + tok_size t \<le> cap m"
  obtains p m1 where "f m = (Some p, m1)" "mark p = length (toks m)" "toks m1 = toks m @ [t]" "cap m1 = cap m"
proof -
  obtain p where "fst (f m) = Some p" "mark p = length (toks m)" "toks (snd (f m)) = toks m @ [t]" "cap (snd (f m)) = cap m"
    using assms unfolding law_start_def by metis
  then show ?thesis using that [of p "snd (f m)"] by (simp add: prod_eq_iff)
qed

lemma law_start_full:
  "law_start toks mark cap f t \<Longrightarrow> \<not> msg_size (toks m) + tok_size t \<le> cap m \<Longrightarrow> f m = (None, m)"
  unfolding law_start_def by metis

definition law_end ::
  "('m \<Rightarrow> tok list) \<Rightarrow> ('p \<Rightarrow> nat) \<Rightarrow> ('m \<Rightarrow> nat) \<Rightarrow> ('p \<Rightarrow> 'm \<Rightarrow> 'm) \<Rightarrow> tok \<Rightarrow> bool" where
  "law_end toks mark cap f t \<longleftrightarrow> (\<forall>p m. cap (f p m) = cap m \<and>
     (mark p < length (toks m) \<longrightarrow> toks (f p m) = toks m @ [t]))"

definition law_cancel ::
  "('m \<Rightarrow> tok list) \<Rightarrow> ('p \<Rightarrow> nat) \<Rightarrow> ('m \<Rightarrow> nat) \<Rightarrow> ('p \<Rightarrow> 'm \<Rightarrow> 'm) \<Rightarrow> bool" where
  "law_cancel toks mark cap f \<longleftrightarrow> (\<forall>p m. cap (f p m) = cap m \<and> toks (f p m) = take (mark p) (toks m))"

definition netlink_laws ::
  "('m, 'p) netlink \<Rightarrow> ('m \<Rightarrow> tok list) \<Rightarrow> ('p \<Rightarrow> nat) \<Rightarrow> ('m \<Rightarrow> nat) \<Rightarrow> bool" where
  "netlink_laws N toks mark cap \<longleftrightarrow>
     (\<forall>k m. nlmsg_new N k = Some m \<longrightarrow> toks m = [])
     \<and> (\<forall>multi cmd. law_start toks mark cap (genlmsg_put N multi cmd) (THdr multi cmd))
     \<and> law_end toks mark cap (genlmsg_end N) TEnd
     \<and> law_cancel toks mark cap (genlmsg_cancel N)
     \<and> (\<forall>a v. law_put toks cap (nla_put_u32 N a v) (TU32 a v))
     \<and> (\<forall>a s. law_put toks cap (nla_put_string N a s) (TStr a s))
     \<and> (\<forall>a. law_put toks cap (nla_put_flag N a) (TFlag a))
     \<and> (\<forall>a. law_start toks mark cap (nla_nest_start N a) (TOpen a))
     \<and> law_end toks mark cap (nla_nest_end N) TClose
     \<and> law_cancel toks mark cap (nla_nest_cancel N)"

lemma law_starts:
  assumes "netlink_laws N toks mark cap"
  shows "law_start toks mark cap (genlmsg_put N multi cmd) (THdr multi cmd)"
    "law_start toks mark cap (nla_nest_start N a) (TOpen a)"
  using assms by (simp_all add: netlink_laws_def)

section \<open>Sequences of attributes\<close>

text \<open>
  \<open>f\<close> writes exactly \<open>ts\<close>: all of them when they fit, else it fails behind a proper part of them.
\<close>

definition exact :: "('m \<Rightarrow> tok list) \<Rightarrow> ('m \<Rightarrow> nat) \<Rightarrow> ('m, unit) io \<Rightarrow> tok list \<Rightarrow> bool" where
  "exact toks cap f ts \<longleftrightarrow> (\<forall>m. msg_size (toks m) \<le> cap m \<longrightarrow>
     cap (snd (f m)) = cap m \<and>
     (if msg_size (toks m) + msg_size ts \<le> cap m
      then fst (f m) = Inr () \<and> toks (snd (f m)) = toks m @ ts
      else fst (f m) \<noteq> Inr () \<and>
        (\<exists>us. toks (snd (f m)) = toks m @ us \<and> msg_size (toks m @ us) \<le> cap m \<and> set us \<subseteq> set ts)))"

named_theorems exact_intros "which tokens an operation writes"

lemma exact_fits:
  assumes "exact toks cap f ts" "msg_size (toks m) + msg_size ts \<le> cap m"
  shows "fst (f m) = Inr ()" "toks (snd (f m)) = toks m @ ts" "cap (snd (f m)) = cap m"
  using assms by (simp_all add: exact_def)

lemma exact_full:
  assumes "exact toks cap f ts" "msg_size (toks m) \<le> cap m" "\<not> msg_size (toks m) + msg_size ts \<le> cap m"
  obtains e us where "fst (f m) = Inl e" "toks (snd (f m)) = toks m @ us" "cap (snd (f m)) = cap m"
    "msg_size (toks m @ us) \<le> cap m" "set us \<subseteq> set ts"
proof -
  have *: "cap (snd (f m)) = cap m \<and> fst (f m) \<noteq> Inr () \<and>
      (\<exists>us. toks (snd (f m)) = toks m @ us \<and> msg_size (toks m @ us) \<le> cap m \<and> set us \<subseteq> set ts)"
    using assms by (auto simp: exact_def)
  then obtain e where "fst (f m) = Inl e" by (cases "fst (f m)") auto
  with * that show ?thesis by blast
qed

lemma exact_put: "law_put toks cap f t \<Longrightarrow> exact toks cap f [t]"
  unfolding exact_def law_put_def
proof (intro allI impI)
  fix m
  assume "\<forall>m. if msg_size (toks m) + tok_size t \<le> cap m
     then fst (f m) = Inr () \<and> toks (snd (f m)) = toks m @ [t] \<and> cap (snd (f m)) = cap m
     else fst (f m) \<noteq> Inr () \<and> snd (f m) = m" and m: "msg_size (toks m) \<le> cap m"
  then have "if msg_size (toks m) + tok_size t \<le> cap m
     then fst (f m) = Inr () \<and> toks (snd (f m)) = toks m @ [t] \<and> cap (snd (f m)) = cap m
     else fst (f m) \<noteq> Inr () \<and> snd (f m) = m" by blast
  then show "cap (snd (f m)) = cap m \<and>
     (if msg_size (toks m) + msg_size [t] \<le> cap m
      then fst (f m) = Inr () \<and> toks (snd (f m)) = toks m @ [t]
      else fst (f m) \<noteq> Inr () \<and>
        (\<exists>us. toks (snd (f m)) = toks m @ us \<and> msg_size (toks m @ us) \<le> cap m \<and> set us \<subseteq> set [t]))"
    using m by (simp split: if_splits)
qed

lemma exact_put_fields [exact_intros]:
  assumes "netlink_laws N toks mark cap"
  shows "exact toks cap (nla_put_u32 N a v) [TU32 a v]" "exact toks cap (nla_put_string N a s) [TStr a s]"
    "exact toks cap (nla_put_flag N a) [TFlag a]"
  using assms by (simp_all add: exact_put netlink_laws_def)

lemma exact_bind [exact_intros]:
  assumes f: "exact toks cap f us" and g: "exact toks cap g vs"
  shows "exact toks cap (bindE f (\<lambda>_. g)) (us @ vs)"
  unfolding exact_def
proof (intro allI impI)
  fix m assume m: "msg_size (toks m) \<le> cap m"
  let ?P = "\<lambda>ts. msg_size (toks m) + msg_size ts \<le> cap m"
  let ?r = "bindE f (\<lambda>_. g) m"
  show "cap (snd ?r) = cap m \<and>
    (if ?P (us @ vs) then fst ?r = Inr () \<and> toks (snd ?r) = toks m @ us @ vs
     else fst ?r \<noteq> Inr () \<and>
       (\<exists>ws. toks (snd ?r) = toks m @ ws \<and> msg_size (toks m @ ws) \<le> cap m \<and> set ws \<subseteq> set (us @ vs)))"
  proof (cases "?P us")
    case fits: True
    note f = exact_fits [OF f fits]
    have run: "?r = g (snd (f m))" using f(1) by (simp add: bindE_def split_def)
    show ?thesis
    proof (cases "?P (us @ vs)")
      case True
      then show ?thesis using f exact_fits [OF g, of "snd (f m)"] unfolding run by simp
    next
      case False
      then have n: "msg_size (toks (snd (f m))) \<le> cap (snd (f m))"
        "\<not> msg_size (toks (snd (f m))) + msg_size vs \<le> cap (snd (f m))" using f fits by simp_all
      obtain e ws where "fst (g (snd (f m))) = Inl e" "toks (snd (g (snd (f m)))) = toks (snd (f m)) @ ws"
        "cap (snd (g (snd (f m)))) = cap (snd (f m))" "msg_size (toks (snd (f m)) @ ws) \<le> cap (snd (f m))" "set ws \<subseteq> set vs"
        using exact_full [OF g n] .
      then show ?thesis using f False unfolding run by (auto intro!: exI [of _ "us @ ws"])
    qed
  next
    case False
    obtain e ws where "fst (f m) = Inl e" "toks (snd (f m)) = toks m @ ws" "cap (snd (f m)) = cap m"
      "msg_size (toks m @ ws) \<le> cap m" "set ws \<subseteq> set us"
      using exact_full [OF f m False] .
    then show ?thesis using False by (auto simp: fst_bindE snd_bindE)
  qed
qed

lemma exact_ret [exact_intros]: "exact toks cap (retE ()) []"
  by (simp add: exact_def)

lemma exact_put_if [exact_intros]: "exact toks cap f ts \<Longrightarrow> exact toks cap (put_if b f) (if b then ts else [])"
  using exact_ret by (auto simp: put_if_def)

section \<open>Messages with a header\<close>

text \<open>What the body may leave behind: tokens that satisfy \<open>R\<close> after success, any but a header after an error.\<close>

definition grows :: "('m \<Rightarrow> tok list) \<Rightarrow> ('m \<Rightarrow> nat) \<Rightarrow> ('m, unit) io \<Rightarrow> (tok list \<Rightarrow> bool) \<Rightarrow> bool" where
  "grows toks cap f R \<longleftrightarrow> (\<forall>m. msg_size (toks m) \<le> cap m \<longrightarrow>
     (\<exists>us. cap (snd (f m)) = cap m \<and> toks (snd (f m)) = toks m @ us \<and> msg_size (toks m @ us) \<le> cap m \<and> no_header us
        \<and> (fst (f m) = Inr () \<longrightarrow> R us)))"

lemma no_header_subset: "set us \<subseteq> set ts \<Longrightarrow> no_header ts \<Longrightarrow> no_header us"
  by (auto simp: no_header_def list_ex_iff)

lemma exact_grows: "exact toks cap f ts \<Longrightarrow> no_header ts \<Longrightarrow> grows toks cap f (\<lambda>us. us = ts)"
  unfolding exact_def grows_def by (metis msg_size_simps(3) no_header_subset)

lemma with_header_room:
  assumes "netlink_laws N toks mark cap" "msg_size (toks m) + 20 \<le> cap m"
  obtains p m1 where "mark p = length (toks m)" "toks m1 = toks m @ [THdr multi cmd]" "cap m1 = cap m"
    "with_header N multi cmd body m =
      (case body m1 of (Inl e, m2) \<Rightarrow> (Inl EMSGSIZE, genlmsg_cancel N p m2) | (Inr _, m2) \<Rightarrow> (Inr (), genlmsg_end N p m2))"
proof -
  obtain p m1 where "genlmsg_put N multi cmd m = (Some p, m1)" "mark p = length (toks m)"
    "toks m1 = toks m @ [THdr multi cmd]" "cap m1 = cap m"
    using law_startE [OF law_starts(1) [OF assms(1)], of m multi cmd] assms(2) by auto
  then show ?thesis using that [of p m1] by (simp add: with_header_def split: prod.splits sum.splits)
qed

lemma with_header_full:
  assumes "netlink_laws N toks mark cap" "\<not> msg_size (toks m) + 20 \<le> cap m"
  shows "with_header N multi cmd body m =
    (case body m of (Inl e, m2) \<Rightarrow> (Inl EMSGSIZE, m2) | (Inr _, m2) \<Rightarrow> (Inl NULL_DEREF, m2))"
proof -
  have "genlmsg_put N multi cmd m = (None, m)"
    using law_start_full [OF law_starts(1) [OF assms(1)], of m multi cmd] assms(2) by simp
  then show ?thesis by (simp add: with_header_def split: prod.splits sum.splits)
qed

lemma end_cancel:
  assumes "netlink_laws N toks mark cap"
  shows "cap (genlmsg_end N p m) = cap m" "cap (genlmsg_cancel N p m) = cap m"
    "cap (nla_nest_end N p m) = cap m" "cap (nla_nest_cancel N p m) = cap m"
    "toks (genlmsg_cancel N p m) = take (mark p) (toks m)" "toks (nla_nest_cancel N p m) = take (mark p) (toks m)"
    "mark p < length (toks m) \<Longrightarrow> toks (genlmsg_end N p m) = toks m @ [TEnd]"
    "mark p < length (toks m) \<Longrightarrow> toks (nla_nest_end N p m) = toks m @ [TClose]"
  using assms by (simp_all add: netlink_laws_def law_end_def law_cancel_def)

lemma with_header_exact:
  assumes L: "netlink_laws N toks mark cap" and B: "exact toks cap body ts"
    and "msg_size (toks m) + 20 + msg_size ts \<le> cap m"
  shows "fst (with_header N multi cmd body m) = Inr ()"
    "toks (snd (with_header N multi cmd body m)) = toks m @ THdr multi cmd # ts @ [TEnd]"
    "cap (snd (with_header N multi cmd body m)) = cap m"
proof -
  have "msg_size (toks m) + 20 \<le> cap m" using assms(3) by simp
  from with_header_room [OF L this, of multi cmd body] obtain p m1 where
    m1: "mark p = length (toks m)" "toks m1 = toks m @ [THdr multi cmd]" "cap m1 = cap m"
    and run: "with_header N multi cmd body m =
      (case body m1 of (Inl e, m2) \<Rightarrow> (Inl EMSGSIZE, genlmsg_cancel N p m2) | (Inr _, m2) \<Rightarrow> (Inr (), genlmsg_end N p m2))" .
  obtain m2 where b: "body m1 = (Inr (), m2)" "toks m2 = toks m1 @ ts" "cap m2 = cap m1"
    using exact_fits [OF B, of m1] m1 assms(3) by (cases "body m1") simp
  show "fst (with_header N multi cmd body m) = Inr ()"
    "toks (snd (with_header N multi cmd body m)) = toks m @ THdr multi cmd # ts @ [TEnd]"
    "cap (snd (with_header N multi cmd body m)) = cap m"
    using run b m1 end_cancel [OF L] by simp_all
qed

text \<open>
  A message that does not fit leaves nothing but attributes without a header: the header is
  missing exactly when it did not fit itself.
\<close>

lemma with_header_grows:
  fixes multi :: bool and cmd :: switch_cmd
  assumes L: "netlink_laws N toks mark cap" and B: "grows toks cap body R" and R: "\<And>us. R us \<Longrightarrow> 20 \<le> msg_size us"
    and m: "msg_size (toks m) \<le> cap m"
  defines "r \<equiv> with_header N multi cmd body m"
  shows "cap (snd r) = cap m \<and>
    (if fst r = Inr () then \<exists>us. R us \<and> toks (snd r) = toks m @ THdr multi cmd # us @ [TEnd] \<and> msg_size (toks (snd r)) \<le> cap m
     else fst r = Inl EMSGSIZE \<and> (\<exists>us. no_header us \<and> toks (snd r) = toks m @ us \<and> msg_size (toks (snd r)) \<le> cap m))"
proof (cases "msg_size (toks m) + 20 \<le> cap m")
  case True
  from with_header_room [OF L this, of multi cmd body] obtain p m1 where
    m1: "mark p = length (toks m)" "toks m1 = toks m @ [THdr multi cmd]" "cap m1 = cap m"
    and run: "r = (case body m1 of (Inl e, m2) \<Rightarrow> (Inl EMSGSIZE, genlmsg_cancel N p m2) | (Inr _, m2) \<Rightarrow> (Inr (), genlmsg_end N p m2))"
    unfolding r_def .
  obtain x m2 where b: "body m1 = (x, m2)" by (cases "body m1")
  have "msg_size (toks m1) \<le> cap m1" using True m1 by simp
  then obtain us where us: "cap m2 = cap m1" "toks m2 = toks m1 @ us" "msg_size (toks m1 @ us) \<le> cap m1" "x = Inr () \<longrightarrow> R us"
    using B b unfolding grows_def by fastforce
  show ?thesis
  proof (cases x)
    case (Inl e)
    then show ?thesis using run b us m1 m end_cancel [OF L] by (auto intro!: exI [of _ "[]"])
  next
    case (Inr y)
    then show ?thesis using run b us m1 end_cancel [OF L] by (auto intro!: exI [of _ us])
  qed
next
  case False
  note run = with_header_full [OF L False, of multi cmd body]
  obtain x m2 where b: "body m = (x, m2)" by (cases "body m")
  then obtain us where us: "cap m2 = cap m" "toks m2 = toks m @ us" "msg_size (toks m @ us) \<le> cap m" "no_header us" "x = Inr () \<longrightarrow> R us"
    using B m unfolding grows_def by fastforce
  then have "x \<noteq> Inr ()" using R [of us] False by auto
  then obtain e where "x = Inl e" by (cases x) auto
  then show ?thesis using run b us by (auto simp: r_def)
qed

section \<open>Lists of attributes\<close>

definition attr_body_toks :: "nat \<times> switch_attr_info \<Rightarrow> tok list" where
  "attr_body_toks e = [TU32 SWITCH_ATTR_OP_ID (of_nat (fst e)),
     TU32 SWITCH_ATTR_OP_TYPE (switch_val_type_code (attr_type (snd e))),
     TStr SWITCH_ATTR_OP_NAME (attr_name (snd e)), TStr SWITCH_ATTR_OP_DESCRIPTION (attr_description (snd e))]"

definition attr_toks :: "nat \<times> switch_attr_info \<Rightarrow> tok list" where
  "attr_toks e = THdr True SWITCH_CMD_NEW_ATTR # attr_body_toks e @ [TEnd]"

lemma attr_body_size: "20 \<le> msg_size (attr_body_toks e)" "no_header (attr_body_toks e)"
  by (simp_all add: attr_body_toks_def)

lemma exact_dump_attr_body:
  assumes "netlink_laws N toks mark cap"
  shows "exact toks cap (dump_attr_body N i op) (attr_body_toks (i, op))"
proof -
  have "exact toks cap (dump_attr_body N i op) ([TU32 SWITCH_ATTR_OP_ID (of_nat i)] @
      [TU32 SWITCH_ATTR_OP_TYPE (switch_val_type_code (attr_type op))] @
      [TStr SWITCH_ATTR_OP_NAME (attr_name op)] @ [TStr SWITCH_ATTR_OP_DESCRIPTION (attr_description op)])"
    unfolding dump_attr_body_def by (intro exact_bind exact_put_fields [OF assms])
  then show ?thesis by (simp add: attr_body_toks_def)
qed

lemma dump_attr_fits:
  assumes L: "netlink_laws N toks mark cap" and "cb_msg cb = Some m"
    and "msg_size (toks m) + msg_size (attr_toks (cb_args cb, op)) \<le> cap m"
  obtains m' where "swconfig_dump_attr N op cb = (Inr (), cb\<lparr>cb_msg := Some m'\<rparr>)"
    "toks m' = toks m @ attr_toks (cb_args cb, op)" "cap m' = cap m"
proof -
  let ?r = "with_header N True SWITCH_CMD_NEW_ATTR (dump_attr_body N (cb_args cb) op) m"
  have "fst ?r = Inr ()" "toks (snd ?r) = toks m @ attr_toks (cb_args cb, op)" "cap (snd ?r) = cap m"
    using with_header_exact [OF L exact_dump_attr_body [OF L]] assms(3) by (simp_all add: attr_toks_def)
  then show ?thesis
    using that [of "snd ?r"] assms(2) by (simp add: swconfig_dump_attr_def on_msg_def split_def)
qed

lemma dump_attr_full:
  assumes L: "netlink_laws N toks mark cap" and "cb_msg cb = Some m" "msg_size (toks m) \<le> cap m"
    and "\<not> msg_size (toks m) + msg_size (attr_toks (cb_args cb, op)) \<le> cap m"
  obtains m' us where "swconfig_dump_attr N op cb = (Inl EMSGSIZE, cb\<lparr>cb_msg := Some m'\<rparr>)"
    "toks m' = toks m @ us" "no_header us"
proof -
  let ?r = "with_header N True SWITCH_CMD_NEW_ATTR (dump_attr_body N (cb_args cb) op) m"
  have B: "grows toks cap (dump_attr_body N (cb_args cb) op) (\<lambda>us. us = attr_body_toks (cb_args cb, op))"
    by (rule exact_grows [OF exact_dump_attr_body [OF L] attr_body_size(2)])
  have "fst ?r \<noteq> Inr ()"
    using with_header_grows [OF L B _ assms(3), of True SWITCH_CMD_NEW_ATTR] attr_body_size(1) [of "(cb_args cb, op)"] assms(4)
    by (auto simp: attr_toks_def split: if_splits)
  then obtain us where "fst ?r = Inl EMSGSIZE" "no_header us" "toks (snd ?r) = toks m @ us"
    using with_header_grows [OF L B _ assms(3), of True SWITCH_CMD_NEW_ATTR] attr_body_size(1) [of "(cb_args cb, op)"]
    by (auto split: if_splits)
  then show ?thesis
    using that [of "snd ?r" us] assms(2) by (simp add: swconfig_dump_attr_def on_msg_def split_def)
qed

text \<open>A netlink layer in which every single entry fits a new message and every message is delivered.\<close>

definition netlink_ok ::
  "('m, 'p) netlink \<Rightarrow> ('m \<Rightarrow> nat) \<Rightarrow> (nat \<times> switch_attr_info) list \<Rightarrow> bool" where
  "netlink_ok N cap es \<longleftrightarrow>
     (\<forall>k. \<exists>m. nlmsg_new N k = Some m \<and> (\<forall>e \<in> set es. msg_size (attr_toks e) \<le> cap m))
     \<and> (\<forall>m. nl_reply N m = None)"

text \<open>A message holds complete entries, and behind them at most attributes without a header.\<close>

definition part_toks :: "(nat \<times> switch_attr_info) list \<times> tok list \<Rightarrow> tok list" where
  "part_toks p = concat (map attr_toks (fst p)) @ snd p"

definition list_parts ::
  "('m \<Rightarrow> tok list) \<Rightarrow> 'm list \<Rightarrow> (nat \<times> switch_attr_info) list \<Rightarrow> bool" where
  "list_parts toks msgs es \<longleftrightarrow> (\<exists>parts. concat (map fst parts) = es \<and> map toks msgs = map part_toks parts
     \<and> (\<forall>p \<in> set parts. no_header (snd p)))"

lemma list_parts_Nil: "list_parts toks [] []"
  by (simp add: list_parts_def)

lemma list_parts_snoc:
  assumes "list_parts toks msgs es" "toks m = concat (map attr_toks cur) @ us" "no_header us"
  shows "list_parts toks (msgs @ [m]) (es @ cur)"
proof -
  obtain parts where "concat (map fst parts) = es" "map toks msgs = map part_toks parts" "\<forall>p \<in> set parts. no_header (snd p)"
    using assms(1) by (auto simp: list_parts_def)
  then show ?thesis
    using assms(2,3) unfolding list_parts_def by (intro exI [of _ "parts @ [(cur, us)]"]) (auto simp: part_toks_def)
qed

definition list_state ::
  "('m \<Rightarrow> tok list) \<Rightarrow> ('m \<Rightarrow> nat) \<Rightarrow> ('m, 'p) swconfig_callback \<Rightarrow> (nat \<times> switch_attr_info) list \<Rightarrow> bool" where
  "list_state toks cap cb es \<longleftrightarrow> (case cb_msg cb of
     None \<Rightarrow> list_parts toks (nl_sent cb) es
   | Some m \<Rightarrow> \<exists>prev cur. es = prev @ cur \<and> list_parts toks (nl_sent cb) prev
       \<and> toks m = concat (map attr_toks cur) \<and> msg_size (toks m) \<le> cap m)"

lemma list_stateI:
  assumes "list_parts toks (nl_sent cb) prev" "cb_msg cb = Some m" "toks m = concat (map attr_toks cur)"
    "msg_size (toks m) \<le> cap m"
  shows "list_state toks cap cb (prev @ cur)"
  using assms by (auto simp: list_state_def)

lemma multipart_fresh:
  assumes L: "netlink_laws N toks mark cap" and N: "netlink_ok N cap [(cb_args cb, op)]"
    and S: "cb_msg cb = None" "list_parts toks (nl_sent cb) es"
  shows "fst (multipart_loop N (swconfig_dump_attr N op) close restart cb) = Inr ()
    \<and> list_state toks cap (snd (multipart_loop N (swconfig_dump_attr N op) close restart cb)) (es @ [(cb_args cb, op)])"
proof -
  obtain m where m: "nlmsg_new N (length (nl_sent cb)) = Some m" "msg_size (attr_toks (cb_args cb, op)) \<le> cap m"
    using N by (auto simp: netlink_ok_def)
  let ?cb = "cb\<lparr>cb_msg := Some m\<rparr>"
  have "toks m = []" using L m(1) by (auto simp: netlink_laws_def)
  then obtain m' where "swconfig_dump_attr N op ?cb = (Inr (), ?cb\<lparr>cb_msg := Some m'\<rparr>)"
    "toks m' = attr_toks (cb_args cb, op)" "cap m' = cap m"
    using dump_attr_fits [OF L, of ?cb m op] m(2) by auto
  then show ?thesis
    using S m list_stateI [of toks "cb\<lparr>cb_msg := Some m'\<rparr>" es m' "[(cb_args cb, op)]" cap]
    by (subst (1 2) multipart_loop.simps) (simp add: new_msg_def)
qed

lemma send_multipart_attr:
  assumes L: "netlink_laws N toks mark cap" and N: "netlink_ok N cap [(cb_args cb, op)]" and S: "list_state toks cap cb es"
  defines "r \<equiv> swconfig_send_multipart N (swconfig_dump_attr N op) (retE ()) cb"
  shows "fst r = Inr () \<and> list_state toks cap (snd r) (es @ [(cb_args cb, op)])"
proof (cases "cb_msg cb")
  case None
  then show ?thesis
    using multipart_fresh [OF L N None] S by (simp add: r_def swconfig_send_multipart_def list_state_def)
next
  case (Some m)
  then obtain prev cur where st: "es = prev @ cur" "list_parts toks (nl_sent cb) prev"
    "toks m = concat (map attr_toks cur)" "msg_size (toks m) \<le> cap m"
    using S by (auto simp: list_state_def)
  show ?thesis
  proof (cases "msg_size (toks m) + msg_size (attr_toks (cb_args cb, op)) \<le> cap m")
    case True
    obtain m' where "swconfig_dump_attr N op cb = (Inr (), cb\<lparr>cb_msg := Some m'\<rparr>)"
      "toks m' = toks m @ attr_toks (cb_args cb, op)" "cap m' = cap m"
      using dump_attr_fits [OF L Some True] .
    then show ?thesis
      using st Some True list_stateI [of toks "cb\<lparr>cb_msg := Some m'\<rparr>" prev m' "cur @ [(cb_args cb, op)]" cap]
      unfolding r_def swconfig_send_multipart_def
      by (subst (1 2) multipart_loop.simps) (simp add: new_msg_def)
  next
    case False
    obtain m' us where f: "swconfig_dump_attr N op cb = (Inl EMSGSIZE, cb\<lparr>cb_msg := Some m'\<rparr>)"
      "toks m' = toks m @ us" "no_header us"
      using dump_attr_full [OF L Some st(4) False] .
    let ?cb = "cb\<lparr>nl_sent := nl_sent cb @ [m'], cb_msg := None\<rparr>"
    have parts: "list_parts toks (nl_sent ?cb) es"
      using list_parts_snoc [OF st(2), of m' cur us] f st(1,3) by simp
    have "r = multipart_loop N (swconfig_dump_attr N op) (retE ()) True ?cb"
      unfolding r_def swconfig_send_multipart_def using f Some N
      by (subst multipart_loop.simps) (simp add: new_msg_def retE_def genlmsg_reply_def netlink_ok_def)
    then show ?thesis using multipart_fresh [OF L, of ?cb op] N parts by simp
  qed
qed

lemma send_all_ok:
  assumes L: "netlink_laws N toks mark cap" and "netlink_ok N cap es" "list_state toks cap cb prev"
  shows "fst (send_all N es cb) = Inr () \<and> list_state toks cap (snd (send_all N es cb)) (prev @ es)"
  using assms(2,3)
proof (induction es arbitrary: cb prev)
  case (Cons e es)
  let ?cb = "cb\<lparr>cb_args := fst e\<rparr>"
  let ?r = "swconfig_send_multipart N (swconfig_dump_attr N (snd e)) (retE ()) ?cb"
  have "netlink_ok N cap [(cb_args ?cb, snd e)]" "netlink_ok N cap es"
    using Cons.prems(1) by (auto simp: netlink_ok_def)
  moreover have "list_state toks cap ?cb prev" using Cons.prems(2) by (simp add: list_state_def split: option.splits)
  ultimately have "fst ?r = Inr ()" "list_state toks cap (snd ?r) (prev @ [e])"
    using send_multipart_attr [OF L, of ?cb "snd e"] by simp_all
  then show ?case
    using Cons.IH [of "snd ?r" "prev @ [e]"] \<open>netlink_ok N cap es\<close> by (simp add: fst_bindE snd_bindE)
qed simp

lemma list_attrs_reply_ok:
  assumes L: "netlink_laws N toks mark cap" and N: "netlink_ok N cap es"
  shows "fst (list_attrs_reply N es) = Inr () \<and> list_parts toks (snd (list_attrs_reply N es)) es"
proof -
  have "list_state toks cap (empty_callback 0 None) []"
    by (simp add: list_state_def empty_callback_def list_parts_Nil)
  from send_all_ok [OF L N this] obtain cb where
    cb: "send_all N es (empty_callback 0 None) = (Inr (), cb)" "list_state toks cap cb es"
    by (cases "send_all N es (empty_callback 0 None)") simp
  show ?thesis
  proof (cases "cb_msg cb")
    case None
    then show ?thesis using cb by (simp add: list_attrs_reply_def list_state_def)
  next
    case (Some m)
    then obtain prev cur where "es = prev @ cur" "list_parts toks (nl_sent cb) prev" "toks m = concat (map attr_toks cur)"
      using cb(2) by (auto simp: list_state_def)
    then show ?thesis
      using cb(1) Some N list_parts_snoc [of toks "nl_sent cb" prev m cur "[]"]
      by (simp add: list_attrs_reply_def genlmsg_reply_def netlink_ok_def)
  qed
qed

section \<open>Values in a reply\<close>

lemma exact_nest:
  assumes L: "netlink_laws N toks mark cap" and B: "exact toks cap body ts"
  shows "exact toks cap (\<lambda>m. case nla_nest_start N a m of
      (None, m) \<Rightarrow> (Inl e1, m)
    | (Some p, m) \<Rightarrow> (case body m of (Inl e, m) \<Rightarrow> (Inl e2, nla_nest_cancel N p m)
                      | (Inr _, m) \<Rightarrow> (Inr (), nla_nest_end N p m))) (TOpen a # ts @ [TClose])"
    (is "exact toks cap ?f ?ts")
  unfolding exact_def
proof (intro allI impI)
  fix m assume m: "msg_size (toks m) \<le> cap m"
  let ?ok = "msg_size (toks m) + msg_size ?ts \<le> cap m"
  have "if ?ok then fst (?f m) = Inr () \<and> toks (snd (?f m)) = toks m @ ?ts \<and> cap (snd (?f m)) = cap m
    else fst (?f m) \<noteq> Inr () \<and> toks (snd (?f m)) = toks m \<and> cap (snd (?f m)) = cap m"
  proof (cases "msg_size (toks m) + 4 \<le> cap m")
    case True
    obtain p m1 where p: "nla_nest_start N a m = (Some p, m1)" "mark p = length (toks m)"
      "toks m1 = toks m @ [TOpen a]" "cap m1 = cap m"
      using law_startE [OF law_starts(2) [OF L], of m a] True by auto
    show ?thesis
    proof (cases ?ok)
      case True
      then obtain m2 where "body m1 = (Inr (), m2)" "toks m2 = toks m1 @ ts" "cap m2 = cap m1"
        using exact_fits [OF B, of m1] p by (cases "body m1") simp
      then show ?thesis using True p end_cancel [OF L] by simp
    next
      case False
      then have "msg_size (toks m1) \<le> cap m1" "\<not> msg_size (toks m1) + msg_size ts \<le> cap m1"
        using p \<open>msg_size (toks m) + 4 \<le> cap m\<close> by simp_all
      from exact_full [OF B this] obtain e us m2 where "body m1 = (Inl e, m2)" "toks m2 = toks m1 @ us" "cap m2 = cap m1"
        by (metis prod.collapse)
      then show ?thesis using False p end_cancel [OF L] by simp
    qed
  next
    case False
    then have "nla_nest_start N a m = (None, m)"
      using law_start_full [OF law_starts(2) [OF L], of m a] by simp
    then show ?thesis using False by simp
  qed
  then show "cap (snd (?f m)) = cap m \<and>
     (if ?ok then fst (?f m) = Inr () \<and> toks (snd (?f m)) = toks m @ ?ts
      else fst (?f m) \<noteq> Inr () \<and>
        (\<exists>us. toks (snd (?f m)) = toks m @ us \<and> msg_size (toks m @ us) \<le> cap m \<and> set us \<subseteq> set ?ts))"
    using m by (auto simp del: append_Cons split: if_splits)
qed

definition port_entry :: "switch_port \<Rightarrow> u32 \<times> bool" where
  "port_entry p = (port_id p, port_flags p AND BIT SWITCH_PORT_FLAG_TAGGED \<noteq> 0)"

definition port_toks :: "u32 \<times> bool \<Rightarrow> tok list" where
  "port_toks e = TOpen SWITCH_ATTR_PORT #
     ([TU32 SWITCH_PORT_ID (fst e)] @ (if snd e then [TFlag SWITCH_PORT_FLAG_TAGGED] else [])) @ [TClose]"

lemma port_toks_size: "msg_size (port_toks e) \<le> 16"
  by (simp add: port_toks_def)

lemma exact_put_port:
  assumes "netlink_laws N toks mark cap"
  shows "exact toks cap (put_port N port) (port_toks (port_entry port))"
proof -
  have "exact toks cap (bindE (nla_put_u32 N SWITCH_PORT_ID (port_id port)) (\<lambda>_.
        put_if (port_flags port AND BIT SWITCH_PORT_FLAG_TAGGED \<noteq> 0) (nla_put_flag N SWITCH_PORT_FLAG_TAGGED)))
      ([TU32 SWITCH_PORT_ID (port_id port)] @
        (if port_flags port AND BIT SWITCH_PORT_FLAG_TAGGED \<noteq> 0 then [TFlag SWITCH_PORT_FLAG_TAGGED] else []))"
    by (intro exact_bind exact_put_if exact_put_fields [OF assms])
  from exact_nest [OF assms this, where a = SWITCH_ATTR_PORT and ?e1.0 = EPERM and ?e2.0 = EPERM] show ?thesis
    unfolding put_port_def port_toks_def port_entry_def fst_conv snd_conv .
qed

lemma send_port_fits:
  assumes L: "netlink_laws N toks mark cap" and cb: "cb_msg cb = Some m" "cb_nest cb \<noteq> None"
    and "msg_size (toks m) + msg_size (port_toks (port_entry port)) \<le> cap m"
  obtains m' where "swconfig_send_multipart N (swconfig_send_port N port) close cb = (Inr (), cb\<lparr>cb_msg := Some m'\<rparr>)"
    "toks m' = toks m @ port_toks (port_entry port)" "cap m' = cap m"
proof -
  obtain m' where m': "put_port N port m = (Inr (), m')" "toks m' = toks m @ port_toks (port_entry port)" "cap m' = cap m"
    using exact_fits [OF exact_put_port [OF L] assms(4)] by (cases "put_port N port m") simp
  have "swconfig_send_port N port cb = (Inr (), cb\<lparr>cb_msg := Some m'\<rparr>)"
    using cb m'(1) by (auto simp: swconfig_send_port_def bindE_def on_msg_def)
  then have "multipart_loop N (swconfig_send_port N port) close False cb = (Inr (), cb\<lparr>cb_msg := Some m'\<rparr>)"
    using cb(1) by (subst multipart_loop.simps) (simp add: new_msg_def)
  then show ?thesis using that [of m'] m'(2,3) by (simp add: swconfig_send_multipart_def)
qed

lemma send_ports_loop_fits:
  assumes L: "netlink_laws N toks mark cap" and "cb_msg cb = Some m" "cb_nest cb \<noteq> None"
    and "msg_size (toks m) + msg_size (concat (map (\<lambda>p. port_toks (port_entry p)) ps)) \<le> cap m"
  shows "\<exists>m'. send_ports_loop N ps cb = (Inr (), cb\<lparr>cb_msg := Some m'\<rparr>) \<and>
    toks m' = toks m @ concat (map (\<lambda>p. port_toks (port_entry p)) ps) \<and> cap m' = cap m"
  using assms(2-4)
proof (induction ps arbitrary: cb m)
  case Nil
  then show ?case by (auto simp: retE_def intro!: exI [of _ m])
next
  case (Cons p ps)
  obtain m1 where m1: "swconfig_send_multipart N (swconfig_send_port N p) (swconfig_close_portlist N) cb =
      (Inr (), cb\<lparr>cb_msg := Some m1\<rparr>)" "toks m1 = toks m @ port_toks (port_entry p)" "cap m1 = cap m"
    using send_port_fits [OF L Cons.prems(1,2), of p "swconfig_close_portlist N"] Cons.prems(3) by auto
  obtain m' where "send_ports_loop N ps (cb\<lparr>cb_msg := Some m1\<rparr>) = (Inr (), cb\<lparr>cb_msg := Some m'\<rparr>)"
    "toks m' = toks m1 @ concat (map (\<lambda>p. port_toks (port_entry p)) ps)" "cap m' = cap m1"
    using Cons.IH [of "cb\<lparr>cb_msg := Some m1\<rparr>" m1] Cons.prems m1 by auto
  then show ?case using m1 by (auto simp: bindE_def)
qed

definition ports_toks :: "nat \<Rightarrow> (u32 \<times> bool) list \<Rightarrow> tok list" where
  "ports_toks a es = TOpen a # concat (map port_toks es) @ [TClose]"

lemma ports_toks_size: "msg_size (ports_toks a es) \<le> 4 + 16 * length es"
proof (induction es)
  case (Cons e es)
  then show ?case using port_toks_size [of e] by (simp add: ports_toks_def)
qed (simp add: ports_toks_def)

lemma send_ports_fits:
  assumes L: "netlink_laws N toks mark cap"
    and fits: "msg_size (toks m) + msg_size (ports_toks a (map port_entry (take (val_len v) (val_ports v)))) \<le> cap m"
  obtains cb m' where "swconfig_send_ports N a v m = (Inr (), cb)" "cb_msg cb = Some m'" "nl_sent cb = []"
    "toks m' = toks m @ ports_toks a (map port_entry (take (val_len v) (val_ports v)))" "cap m' = cap m"
proof -
  let ?ps = "take (val_len v) (val_ports v)"
  have "msg_size (toks m) + tok_size (TOpen a) \<le> cap m" using fits by (simp add: ports_toks_def)
  then obtain p m1 where p: "nla_nest_start N a m = (Some p, m1)" "mark p = length (toks m)"
    "toks m1 = toks m @ [TOpen a]" "cap m1 = cap m"
    using law_startE [OF law_starts(2) [OF L]] by blast
  let ?cb = "(empty_callback a (Some m))\<lparr>cb_msg := Some m1, cb_nest := Some (0, p)\<rparr>"
  have opened: "open_portlist N (empty_callback a (Some m)) = (Inr (), ?cb)"
    using p(1) by (simp add: open_portlist_def empty_callback_def)
  obtain m2 where m2: "send_ports_loop N ?ps ?cb = (Inr (), ?cb\<lparr>cb_msg := Some m2\<rparr>)"
    "toks m2 = toks m1 @ concat (map (\<lambda>p. port_toks (port_entry p)) ?ps)" "cap m2 = cap m1"
    using send_ports_loop_fits [OF L, of ?cb m1 ?ps] p fits by (auto simp: ports_toks_def comp_def)
  have "swconfig_send_ports N a v m = (Inr (), ?cb\<lparr>cb_msg := Some (nla_nest_end N p m2)\<rparr>)"
    using opened m2(1)
    by (simp add: swconfig_send_ports_def bindE_def swconfig_close_portlist_def with_nest_def on_msg_def empty_callback_def)
  then show ?thesis
    using that m2 p end_cancel [OF L] by (simp add: ports_toks_def empty_callback_def comp_def)
qed

definition link_toks :: "switch_port_link \<Rightarrow> tok list" where
  "link_toks l = (if link l then [TFlag SWITCH_LINK_FLAG_LINK] else []) @
     (if duplex l then [TFlag SWITCH_LINK_FLAG_DUPLEX] else []) @
     (if aneg l then [TFlag SWITCH_LINK_FLAG_ANEG] else []) @
     (if tx_flow l then [TFlag SWITCH_LINK_FLAG_TX_FLOW] else []) @
     (if rx_flow l then [TFlag SWITCH_LINK_FLAG_RX_FLOW] else []) @
     [TU32 SWITCH_LINK_SPEED (speed l)] @
     (if eee l AND ADVERTISED_100baseT_Full \<noteq> 0 then [TFlag SWITCH_LINK_FLAG_EEE_100BASET] else []) @
     (if eee l AND ADVERTISED_1000baseT_Full \<noteq> 0 then [TFlag SWITCH_LINK_FLAG_EEE_1000BASET] else [])"

lemma exact_put_link:
  assumes "netlink_laws N toks mark cap"
  shows "exact toks cap (put_link N l) (link_toks l)"
  unfolding put_link_def link_toks_def by (intro exact_bind exact_put_if exact_put_fields [OF assms])

lemma send_link_fits:
  assumes L: "netlink_laws N toks mark cap" and fits: "msg_size (toks m) + 4 + msg_size (link_toks l) \<le> cap m"
  obtains m' where "swconfig_send_link N a l m = (Inr (), m')" "toks m' = toks m @ TOpen a # link_toks l @ [TClose]"
    "cap m' = cap m"
proof -
  have "msg_size (toks m) + tok_size (TOpen a) \<le> cap m" using fits by simp
  then obtain p m1 where p: "nla_nest_start N a m = (Some p, m1)" "mark p = length (toks m)"
    "toks m1 = toks m @ [TOpen a]" "cap m1 = cap m"
    using law_startE [OF law_starts(2) [OF L]] by blast
  obtain m2 where "put_link N l m1 = (Inr (), m2)" "toks m2 = toks m1 @ link_toks l" "cap m2 = cap m1"
    using exact_fits [OF exact_put_link [OF L], of m1 l] p fits by (cases "put_link N l m1") simp
  then show ?thesis using that p end_cancel [OF L] by (simp add: swconfig_send_link_def)
qed

text \<open>The attribute that carries a value of a type, if the type has one.\<close>

definition value_toks :: "switch_val_type \<Rightarrow> switch_val \<Rightarrow> tok list option" where
  "value_toks ty v = (case ty of
     SWITCH_TYPE_INT \<Rightarrow> Some [TU32 SWITCH_ATTR_OP_VALUE_INT (val_i v)]
   | SWITCH_TYPE_STRING \<Rightarrow> Some [TStr SWITCH_ATTR_OP_VALUE_STR (val_s v)]
   | SWITCH_TYPE_PORTS \<Rightarrow> Some (ports_toks SWITCH_ATTR_OP_VALUE_PORTS (map port_entry (take (val_len v) (val_ports v))))
   | SWITCH_TYPE_LINK \<Rightarrow> Some (TOpen SWITCH_ATTR_OP_VALUE_LINK # link_toks (val_link v) @ [TClose])
   | _ \<Rightarrow> None)"

lemma put_value_fits:
  assumes L: "netlink_laws N toks mark cap" and ts: "value_toks ty v = Some ts" "ports \<noteq> 0"
    and fits: "msg_size (toks m) + msg_size ts \<le> cap m"
  obtains m' where "put_value N ports ty v m = (Inr m', [])" "toks m' = toks m @ ts" "cap m' = cap m"
proof (cases ty)
  case SWITCH_TYPE_INT
  obtain m' where "nla_put_u32 N SWITCH_ATTR_OP_VALUE_INT (val_i v) m = (Inr (), m')" "toks m' = toks m @ ts" "cap m' = cap m"
    using exact_fits [OF exact_put_fields(1) [OF L], of m SWITCH_ATTR_OP_VALUE_INT "val_i v"] ts fits SWITCH_TYPE_INT
    by (cases "nla_put_u32 N SWITCH_ATTR_OP_VALUE_INT (val_i v) m") (auto simp: value_toks_def)
  then show ?thesis using that SWITCH_TYPE_INT by (simp add: put_value_def)
next
  case SWITCH_TYPE_STRING
  obtain m' where "nla_put_string N SWITCH_ATTR_OP_VALUE_STR (val_s v) m = (Inr (), m')" "toks m' = toks m @ ts" "cap m' = cap m"
    using exact_fits [OF exact_put_fields(2) [OF L], of m SWITCH_ATTR_OP_VALUE_STR "val_s v"] ts fits SWITCH_TYPE_STRING
    by (cases "nla_put_string N SWITCH_ATTR_OP_VALUE_STR (val_s v) m") (auto simp: value_toks_def)
  then show ?thesis using that SWITCH_TYPE_STRING by (simp add: put_value_def)
next
  case SWITCH_TYPE_PORTS
  then have v: "ts = ports_toks SWITCH_ATTR_OP_VALUE_PORTS (map port_entry (take (val_len v) (val_ports v)))"
    using ts(1) by (simp add: value_toks_def)
  obtain cb m' where "swconfig_send_ports N SWITCH_ATTR_OP_VALUE_PORTS v m = (Inr (), cb)" "cb_msg cb = Some m'" "nl_sent cb = []"
    "toks m' = toks m @ ts" "cap m' = cap m"
    using send_ports_fits [OF L fits [unfolded v]] unfolding v .
  then show ?thesis using that [of m'] ts(2) SWITCH_TYPE_PORTS by (simp add: put_value_def)
next
  case SWITCH_TYPE_LINK
  then have v: "ts = TOpen SWITCH_ATTR_OP_VALUE_LINK # link_toks (val_link v) @ [TClose]"
    using ts(1) by (simp add: value_toks_def)
  then have "msg_size (toks m) + 4 + msg_size (link_toks (val_link v)) \<le> cap m" using fits by simp
  from send_link_fits [OF L this, of SWITCH_ATTR_OP_VALUE_LINK] obtain m' where
    "swconfig_send_link N SWITCH_ATTR_OP_VALUE_LINK (val_link v) m = (Inr (), m')" "toks m' = toks m @ ts" "cap m' = cap m"
    unfolding v .
  then show ?thesis using that SWITCH_TYPE_LINK by (simp add: put_value_def)
qed (use ts(1) in \<open>simp_all add: value_toks_def\<close>)

lemma get_attr_reply_fits:
  assumes L: "netlink_laws N toks mark cap" and m: "nlmsg_new N 0 = Some m" "\<forall>m. nl_reply N m = None"
    and ts: "value_toks ty v = Some ts" "ports \<noteq> 0" and fits: "20 + msg_size ts \<le> cap m"
  shows "\<exists>m'. get_attr_reply N ports cmd ty v = (Inr (), [m']) \<and> toks m' = THdr False cmd # ts @ [TEnd]"
proof -
  have empty: "toks m = []" using L m(1) by (auto simp: netlink_laws_def)
  have "msg_size (toks m) + tok_size (THdr False cmd) \<le> cap m" using fits empty by simp
  from law_startE [OF law_starts(1) [OF L] this] obtain p m1 where p: "genlmsg_put N False cmd m = (Some p, m1)"
    "mark p = length (toks m)" "toks m1 = toks m @ [THdr False cmd]" "cap m1 = cap m" .
  obtain m2 where "put_value N ports ty v m1 = (Inr m2, [])" "toks m2 = toks m1 @ ts" "cap m2 = cap m1"
    using put_value_fits [OF L ts, of m1] p fits empty by auto
  then show ?thesis using m p empty end_cancel [OF L] by (simp add: get_attr_reply_def)
qed

section \<open>The dump of all switches\<close>

definition map_entry_toks :: "(string \<times> u32) option \<Rightarrow> tok list" where
  "map_entry_toks e = TOpen SWITCH_ATTR_PORTS # (case e of None \<Rightarrow> []
     | Some (segment, virt) \<Rightarrow> [TStr SWITCH_PORTMAP_SEGMENT segment, TU32 SWITCH_PORTMAP_VIRT virt]) @ [TClose]"

definition switch_head_toks :: "'s switch_dev \<Rightarrow> tok list" where
  "switch_head_toks dev = [TU32 SWITCH_ATTR_ID (dev_id dev)] @ [TStr SWITCH_ATTR_DEV_NAME (devname dev)] @
     [TStr SWITCH_ATTR_ALIAS (dev_alias dev)] @ [TStr SWITCH_ATTR_NAME (dev_name dev)] @
     [TU32 SWITCH_ATTR_VLANS (dev_vlans dev)] @ [TU32 SWITCH_ATTR_PORTS (dev_ports dev)] @
     [TU32 SWITCH_ATTR_CPU_PORT (dev_cpu_port dev)]"

text \<open>A switch with the first \<open>k\<close> entries of its port map.\<close>

definition switch_body_toks :: "'s switch_dev \<Rightarrow> nat \<Rightarrow> tok list" where
  "switch_body_toks dev k = switch_head_toks dev @ TOpen SWITCH_ATTR_PORTMAP #
     concat (map map_entry_toks (take k (portmap dev))) @ [TClose]"

definition switch_toks :: "'s switch_dev \<Rightarrow> nat \<Rightarrow> tok list" where
  "switch_toks dev k = THdr True SWITCH_CMD_NEW_ATTR # switch_body_toks dev k @ [TEnd]"

lemma no_header_map_entries: "no_header (concat (map map_entry_toks es))"
  by (induction es) (simp_all add: map_entry_toks_def split: option.splits prod.splits)

lemma switch_body_size: "20 \<le> msg_size (switch_body_toks dev k)"
  by (simp add: switch_body_toks_def switch_head_toks_def)

lemma portmap_loop_full:
  assumes "netlink_laws N toks mark cap" "\<not> msg_size (toks m) + 4 \<le> cap m"
  shows "portmap_loop N es m = (Inr (), m)"
proof -
  have "nla_nest_start N SWITCH_ATTR_PORTS m = (None, m)"
    using law_start_full [OF law_starts(2) [OF assms(1)], of m SWITCH_ATTR_PORTS] assms(2) by simp
  then show ?thesis by (induction es) (simp_all add: retE_def)
qed

lemma map_entry_exact:
  assumes "netlink_laws N toks mark cap"
  shows "exact toks cap (case e of None \<Rightarrow> retE ()
       | Some (segment, virt) \<Rightarrow> bindE (nla_put_string N SWITCH_PORTMAP_SEGMENT segment) (\<lambda>_. nla_put_u32 N SWITCH_PORTMAP_VIRT virt))
     (case e of None \<Rightarrow> [] | Some (segment, virt) \<Rightarrow> [TStr SWITCH_PORTMAP_SEGMENT segment, TU32 SWITCH_PORTMAP_VIRT virt])"
proof (cases e)
  case None
  then show ?thesis by (simp add: exact_ret)
next
  case (Some sv)
  obtain segment virt where sv: "sv = (segment, virt)" by (cases sv)
  show ?thesis
    using exact_bind [OF exact_put_fields(2) [OF assms, of SWITCH_PORTMAP_SEGMENT segment]
        exact_put_fields(1) [OF assms, of SWITCH_PORTMAP_VIRT virt]]
    by (simp add: Some sv)
qed

text \<open>
  The loop over the port map either fails or writes a beginning of the map, which is the
  whole map when that fits.
\<close>

lemma portmap_loop_run:
  assumes L: "netlink_laws N toks mark cap"
  shows "msg_size (toks m) \<le> cap m \<Longrightarrow>
    \<exists>us. cap (snd (portmap_loop N es m)) = cap m \<and> toks (snd (portmap_loop N es m)) = toks m @ us
      \<and> msg_size (toks m @ us) \<le> cap m \<and> no_header us
      \<and> (fst (portmap_loop N es m) = Inr () \<longrightarrow> (\<exists>k. us = concat (map map_entry_toks (take k es))))
      \<and> (msg_size (toks m) + msg_size (concat (map map_entry_toks es)) \<le> cap m \<longrightarrow>
          fst (portmap_loop N es m) = Inr () \<and> us = concat (map map_entry_toks es))"
proof (induction es arbitrary: m)
  case Nil
  then show ?case by (simp add: retE_def)
next
  case (Cons e es)
  show ?case
  proof (cases "msg_size (toks m) + 4 \<le> cap m")
    case False
    then have "portmap_loop N (e # es) m = (Inr (), m)" by (rule portmap_loop_full [OF L])
    moreover have "\<not> msg_size (toks m) + msg_size (concat (map map_entry_toks (e # es))) \<le> cap m"
      using False by (simp add: map_entry_toks_def)
    ultimately show ?thesis using Cons.prems by (intro exI [of _ "[]"]) (auto intro!: exI [of _ 0])
  next
    case True
    then have "msg_size (toks m) + tok_size (TOpen SWITCH_ATTR_PORTS) \<le> cap m" by simp
    from law_startE [OF law_starts(2) [OF L] this] obtain p m1 where
      p: "nla_nest_start N SWITCH_ATTR_PORTS m = (Some p, m1)" "mark p = length (toks m)"
        "toks m1 = toks m @ [TOpen SWITCH_ATTR_PORTS]" "cap m1 = cap m" .
    let ?f = "case e of None \<Rightarrow> retE ()
       | Some (segment, virt) \<Rightarrow> bindE (nla_put_string N SWITCH_PORTMAP_SEGMENT segment) (\<lambda>_. nla_put_u32 N SWITCH_PORTMAP_VIRT virt)"
    let ?ts = "case e of None \<Rightarrow> [] | Some (segment, virt) \<Rightarrow> [TStr SWITCH_PORTMAP_SEGMENT segment, TU32 SWITCH_PORTMAP_VIRT virt]"
    note B = map_entry_exact [OF L, of e]
    have run: "portmap_loop N (e # es) m = bindE ?f (\<lambda>_ m. portmap_loop N es (nla_nest_end N p m)) m1"
      using p(1) by simp
    have ok: "msg_size (toks m1) \<le> cap m1" using p True by simp
    show ?thesis
    proof (cases "msg_size (toks m1) + msg_size ?ts \<le> cap m1")
      case fits: True
      obtain m2 where m2: "?f m1 = (Inr (), m2)" "toks m2 = toks m1 @ ?ts" "cap m2 = cap m1"
        using exact_fits [OF B fits] by (cases "?f m1") simp
      let ?m = "nla_nest_end N p m2"
      have m3: "toks ?m = toks m @ map_entry_toks e" "cap ?m = cap m"
        using m2 p end_cancel [OF L] by (simp_all add: map_entry_toks_def)
      then have "msg_size (toks ?m) \<le> cap ?m" using fits p m2 by (simp add: map_entry_toks_def)
      from Cons.IH [OF this] obtain us where us:
        "cap (snd (portmap_loop N es ?m)) = cap m" "toks (snd (portmap_loop N es ?m)) = toks ?m @ us"
        "msg_size (toks ?m @ us) \<le> cap m" "no_header us"
        "fst (portmap_loop N es ?m) = Inr () \<longrightarrow> (\<exists>k. us = concat (map map_entry_toks (take k es)))"
        "msg_size (toks ?m) + msg_size (concat (map map_entry_toks es)) \<le> cap m \<longrightarrow>
          fst (portmap_loop N es ?m) = Inr () \<and> us = concat (map map_entry_toks es)"
        unfolding m3(2) by blast
      have "portmap_loop N (e # es) m = portmap_loop N es ?m" using run m2(1) by (simp add: bindE_def)
      moreover have "no_header (map_entry_toks e)" using no_header_map_entries [of "[e]"] by simp
      moreover have "(\<exists>k. us = concat (map map_entry_toks (take k es))) \<Longrightarrow>
          \<exists>k. map_entry_toks e @ us = concat (map map_entry_toks (take k (e # es)))"
        by (metis concat.simps(2) list.simps(9) take_Suc_Cons)
      ultimately show ?thesis
        using us m3 by (intro exI [of _ "map_entry_toks e @ us"]) auto
    next
      case full: False
      from exact_full [OF B ok full] obtain x us m2 where
        m2: "?f m1 = (Inl x, m2)" "toks m2 = toks m1 @ us" "cap m2 = cap m1" "msg_size (toks m1 @ us) \<le> cap m1" "set us \<subseteq> set ?ts"
        by (metis prod.collapse)
      have "portmap_loop N (e # es) m = (Inl x, m2)" using run m2(1) by (simp add: bindE_def)
      moreover have "no_header us" using m2(5) by (rule no_header_subset) (simp split: option.splits prod.splits)
      moreover have "\<not> msg_size (toks m) + msg_size (concat (map map_entry_toks (e # es))) \<le> cap m"
        using full p by (simp add: map_entry_toks_def)
      ultimately show ?thesis using m2 p by (intro exI [of _ "TOpen SWITCH_ATTR_PORTS # us"]) auto
    qed
  qed
qed

lemma exact_switch_head:
  assumes "netlink_laws N toks mark cap"
  shows "exact toks cap (send_switch_head N dev) (switch_head_toks dev)"
  unfolding send_switch_head_def switch_head_toks_def by (intro exact_bind exact_put_fields [OF assms])

lemma no_header_switch_head: "no_header (switch_head_toks dev)"
  by (simp add: switch_head_toks_def)

definition portmap_part :: "('m, 'p) netlink \<Rightarrow> 's switch_dev \<Rightarrow> ('m, unit) io" where
  "portmap_part N dev m = (case nla_nest_start N SWITCH_ATTR_PORTMAP m of
      (None, m) \<Rightarrow> (Inl EMSGSIZE, m)
    | (Some p, m) \<Rightarrow> bindE (portmap_loop N (portmap dev)) (\<lambda>_ m. (Inr (), nla_nest_end N p m)) m)"

lemma portmap_part_run:
  fixes dev :: "'s switch_dev"
  assumes L: "netlink_laws N toks mark cap" and m: "msg_size (toks m) \<le> cap m"
  defines "all \<equiv> TOpen SWITCH_ATTR_PORTMAP # concat (map map_entry_toks (portmap dev)) @ [TClose]"
  shows "\<exists>us. cap (snd (portmap_part N dev m)) = cap m \<and> toks (snd (portmap_part N dev m)) = toks m @ us
    \<and> msg_size (toks m @ us) \<le> cap m \<and> no_header us
    \<and> (fst (portmap_part N dev m) = Inr () \<longrightarrow>
        (\<exists>k. us = TOpen SWITCH_ATTR_PORTMAP # concat (map map_entry_toks (take k (portmap dev))) @ [TClose]))
    \<and> (msg_size (toks m) + msg_size all \<le> cap m \<longrightarrow> fst (portmap_part N dev m) = Inr () \<and> us = all)"
proof (cases "msg_size (toks m) + 4 \<le> cap m")
  case False
  then have "portmap_part N dev m = (Inl EMSGSIZE, m)"
    using law_start_full [OF law_starts(2) [OF L], of m SWITCH_ATTR_PORTMAP] by (simp add: portmap_part_def)
  then show ?thesis using False m by (intro exI [of _ "[]"]) (simp add: all_def)
next
  case True
  then have "msg_size (toks m) + tok_size (TOpen SWITCH_ATTR_PORTMAP) \<le> cap m" by simp
  from law_startE [OF law_starts(2) [OF L] this] obtain p m1 where
    p: "nla_nest_start N SWITCH_ATTR_PORTMAP m = (Some p, m1)" "mark p = length (toks m)"
      "toks m1 = toks m @ [TOpen SWITCH_ATTR_PORTMAP]" "cap m1 = cap m" .
  obtain x m2 where x: "portmap_loop N (portmap dev) m1 = (x, m2)" by (cases "portmap_loop N (portmap dev) m1")
  have "msg_size (toks m1) \<le> cap m1" using p True by simp
  from portmap_loop_run [OF L this, of "portmap dev"] obtain us where us: "cap m2 = cap m1" "toks m2 = toks m1 @ us"
    "msg_size (toks m1 @ us) \<le> cap m1" "no_header us"
    "x = Inr () \<longrightarrow> (\<exists>k. us = concat (map map_entry_toks (take k (portmap dev))))"
    "msg_size (toks m1) + msg_size (concat (map map_entry_toks (portmap dev))) \<le> cap m1 \<longrightarrow>
      x = Inr () \<and> us = concat (map map_entry_toks (portmap dev))"
    unfolding x by auto
  show ?thesis
  proof (cases x)
    case (Inl e)
    then have "portmap_part N dev m = (Inl e, m2)" using p x by (simp add: portmap_part_def bindE_def)
    then show ?thesis
      using us p Inl by (intro exI [of _ "TOpen SWITCH_ATTR_PORTMAP # us"]) (auto simp: all_def)
  next
    case (Inr y)
    then have run: "portmap_part N dev m = (Inr (), nla_nest_end N p m2)" using p x by (simp add: portmap_part_def bindE_def)
    show ?thesis
      using us p Inr end_cancel [OF L] unfolding run
      by (intro exI [of _ "TOpen SWITCH_ATTR_PORTMAP # us @ [TClose]"]) (auto simp: all_def)
  qed
qed

text \<open>
  A switch is sent completely when it fits; a switch that is reported as sent has at least
  everything in front of the port map and a beginning of that.
\<close>

lemma send_switch_body_run:
  fixes dev :: "'s switch_dev"
  assumes L: "netlink_laws N toks mark cap" and m: "msg_size (toks m) \<le> cap m"
  shows "\<exists>us. cap (snd (send_switch_body N dev m)) = cap m \<and> toks (snd (send_switch_body N dev m)) = toks m @ us
    \<and> msg_size (toks m @ us) \<le> cap m \<and> no_header us
    \<and> (fst (send_switch_body N dev m) = Inr () \<longrightarrow> (\<exists>k. us = switch_body_toks dev k))
    \<and> (msg_size (toks m) + msg_size (switch_body_toks dev (length (portmap dev))) \<le> cap m \<longrightarrow>
        fst (send_switch_body N dev m) = Inr () \<and> us = switch_body_toks dev (length (portmap dev)))"
proof -
  have run: "send_switch_body N dev = bindE (send_switch_head N dev) (\<lambda>_. portmap_part N dev)"
    by (simp add: send_switch_body_def portmap_part_def [abs_def])
  note H = exact_switch_head [OF L, of dev]
  show ?thesis
  proof (cases "msg_size (toks m) + msg_size (switch_head_toks dev) \<le> cap m")
    case True
    obtain m1 where m1: "send_switch_head N dev m = (Inr (), m1)" "toks m1 = toks m @ switch_head_toks dev" "cap m1 = cap m"
      using exact_fits [OF H True] by (cases "send_switch_head N dev m") simp
    have "msg_size (toks m1) \<le> cap m1" using m1 True by simp
    from portmap_part_run [OF L this, of dev] obtain us where us: "cap (snd (portmap_part N dev m1)) = cap m"
      "toks (snd (portmap_part N dev m1)) = toks m1 @ us" "msg_size (toks m1 @ us) \<le> cap m" "no_header us"
      "fst (portmap_part N dev m1) = Inr () \<longrightarrow>
        (\<exists>k. us = TOpen SWITCH_ATTR_PORTMAP # concat (map map_entry_toks (take k (portmap dev))) @ [TClose])"
      "msg_size (toks m1) + msg_size (TOpen SWITCH_ATTR_PORTMAP # concat (map map_entry_toks (portmap dev)) @ [TClose]) \<le> cap m
        \<longrightarrow> fst (portmap_part N dev m1) = Inr () \<and> us = TOpen SWITCH_ATTR_PORTMAP # concat (map map_entry_toks (portmap dev)) @ [TClose]"
      unfolding m1(3) by blast
    have "send_switch_body N dev m = portmap_part N dev m1" using m1(1) by (simp add: run bindE_def)
    then show ?thesis
      using us m1 no_header_switch_head [of dev]
      by (intro exI [of _ "switch_head_toks dev @ us"]) (auto simp: switch_body_toks_def)
  next
    case False
    from exact_full [OF H m False] obtain e us m1 where m1: "send_switch_head N dev m = (Inl e, m1)"
      "toks m1 = toks m @ us" "cap m1 = cap m" "msg_size (toks m @ us) \<le> cap m" "set us \<subseteq> set (switch_head_toks dev)"
      by (metis prod.collapse)
    have "send_switch_body N dev m = (Inl e, m1)" using m1(1) by (simp add: run bindE_def)
    then show ?thesis
      using m1 no_header_subset [OF m1(5) no_header_switch_head] False
      by (intro exI [of _ us]) (simp add: switch_body_toks_def)
  qed
qed

lemma send_switch_run:
  assumes L: "netlink_laws N toks mark cap" and m: "msg_size (toks m) \<le> cap m"
  shows "cap (snd (swconfig_send_switch N True dev m)) = cap m \<and> msg_size (toks (snd (swconfig_send_switch N True dev m))) \<le> cap m \<and>
    (case fst (swconfig_send_switch N True dev m) of
       Inr _ \<Rightarrow> \<exists>k. toks (snd (swconfig_send_switch N True dev m)) = toks m @ switch_toks dev k
     | Inl e \<Rightarrow> e = EMSGSIZE \<and> (\<exists>us. no_header us \<and> toks (snd (swconfig_send_switch N True dev m)) = toks m @ us))"
proof -
  have "grows toks cap (send_switch_body N dev) (\<lambda>us. \<exists>k. us = switch_body_toks dev k)"
    unfolding grows_def using send_switch_body_run [OF L, of _ dev] by blast
  moreover have "\<exists>k. us = switch_body_toks dev k \<Longrightarrow> 20 \<le> msg_size us" for us using switch_body_size by blast
  ultimately show ?thesis
    using with_header_grows [OF L _ _ m, of "send_switch_body N dev" "\<lambda>us. \<exists>k. us = switch_body_toks dev k" True SWITCH_CMD_NEW_ATTR]
    by (auto simp: swconfig_send_switch_def switch_toks_def split: if_splits sum.splits)
qed

abbreviation full_switch :: "'s switch_dev \<Rightarrow> tok list" where
  "full_switch dev \<equiv> switch_toks dev (length (portmap dev))"

lemma send_switch_fits:
  assumes L: "netlink_laws N toks mark cap" and fits: "msg_size (toks m) + msg_size (full_switch dev) \<le> cap m"
  obtains m' where "swconfig_send_switch N True dev m = (Inr (), m')" "toks m' = toks m @ full_switch dev" "cap m' = cap m"
proof -
  have "msg_size (toks m) + 20 \<le> cap m" using fits by (simp add: switch_toks_def)
  from with_header_room [OF L this, of True SWITCH_CMD_NEW_ATTR "send_switch_body N dev"] obtain p m1 where
    m1: "mark p = length (toks m)" "toks m1 = toks m @ [THdr True SWITCH_CMD_NEW_ATTR]" "cap m1 = cap m"
    and run: "swconfig_send_switch N True dev m = (case send_switch_body N dev m1 of
      (Inl e, m2) \<Rightarrow> (Inl EMSGSIZE, genlmsg_cancel N p m2) | (Inr _, m2) \<Rightarrow> (Inr (), genlmsg_end N p m2))"
    unfolding swconfig_send_switch_def .
  have "msg_size (toks m1) \<le> cap m1" "msg_size (toks m1) + msg_size (switch_body_toks dev (length (portmap dev))) \<le> cap m1"
    using m1 fits by (simp_all add: switch_toks_def)
  then obtain m2 where "send_switch_body N dev m1 = (Inr (), m2)" "cap m2 = cap m1"
    "toks m2 = toks m1 @ switch_body_toks dev (length (portmap dev))"
    using send_switch_body_run [OF L, of m1 dev] by (cases "send_switch_body N dev m1") auto
  then show ?thesis using that run m1 end_cancel [OF L] by (simp add: switch_toks_def)
qed

lemma dump_loop_run:
  fixes devs :: "'s switch_dev list"
  assumes L: "netlink_laws N toks mark cap"
  shows "msg_size (toks m) \<le> cap m \<Longrightarrow>
    \<exists>ks us. length ks \<le> length (drop (start - idx) devs) \<and> no_header us
      \<and> toks (fst (dump_switches_loop N start idx devs m)) =
          toks m @ concat (map2 switch_toks (drop (start - idx) devs) ks) @ us
      \<and> snd (dump_switches_loop N start idx devs m) =
          (if length ks = length (drop (start - idx) devs) then idx + length devs else max start idx + length ks + 1)"
proof (induction devs arbitrary: idx m)
  case Nil
  then show ?case by simp
next
  case (Cons d devs)
  show ?case
  proof (cases "idx + 1 \<le> start")
    case True
    then have eqs: "dump_switches_loop N start idx (d # devs) m = dump_switches_loop N start (idx + 1) devs m"
      "drop (start - idx) (d # devs) = drop (start - (idx + 1)) devs" "idx + length (d # devs) = idx + 1 + length devs"
      "max start idx = max start (idx + 1)"
      by (simp_all add: drop_Cons' max_def)
    show ?thesis unfolding eqs by (rule Cons.IH [OF Cons.prems])
  next
    case False
    obtain x m1 where x: "swconfig_send_switch N True d m = (x, m1)" by (cases "swconfig_send_switch N True d m")
    note run = send_switch_run [OF L Cons.prems, of d, unfolded x fst_conv snd_conv]
    show ?thesis
    proof (cases x)
      case (Inl e)
      then obtain us where "no_header us" "toks m1 = toks m @ us" using run by auto
      then show ?thesis using False x Inl by (intro exI [of _ "[]"] exI [of _ us]) simp
    next
      case (Inr y)
      then obtain k where k: "toks m1 = toks m @ switch_toks d k" "msg_size (toks m1) \<le> cap m1" using run by auto
      from Cons.IH [OF k(2), of "idx + 1"] False obtain ks us where ks: "length ks \<le> length devs" "no_header us"
        "toks (fst (dump_switches_loop N start (idx + 1) devs m1)) = toks m1 @ concat (map2 switch_toks devs ks) @ us"
        "snd (dump_switches_loop N start (idx + 1) devs m1) =
          (if length ks = length devs then idx + 1 + length devs else max start (idx + 1) + length ks + 1)"
        by auto
      then show ?thesis
        using False x Inr k by (intro exI [of _ "k # ks"] exI [of _ us]) auto
    qed
  qed
qed

lemma dump_loop_fits:
  fixes devs :: "'s switch_dev list"
  assumes L: "netlink_laws N toks mark cap"
  shows "msg_size (toks m) + msg_size (concat (map full_switch (drop (start - idx) devs))) \<le> cap m \<Longrightarrow>
    toks (fst (dump_switches_loop N start idx devs m)) = toks m @ concat (map full_switch (drop (start - idx) devs))
    \<and> snd (dump_switches_loop N start idx devs m) = idx + length devs"
proof (induction devs arbitrary: idx m)
  case (Cons d devs)
  show ?case
  proof (cases "idx + 1 \<le> start")
    case True
    then have "start - idx = Suc (start - (idx + 1))" by simp
    then show ?thesis using Cons.IH [of m "idx + 1"] Cons.prems True by simp
  next
    case False
    obtain m1 where "swconfig_send_switch N True d m = (Inr (), m1)" "toks m1 = toks m @ full_switch d" "cap m1 = cap m"
      using send_switch_fits [OF L, of m d] Cons.prems False by auto
    then show ?thesis using Cons.IH [of m1 "idx + 1"] Cons.prems False by simp
  qed
qed simp

section \<open>A reference library\<close>

text \<open>A library that keeps the laws, with messages of \<open>n\<close> bytes.\<close>

definition ref_put :: "nat \<Rightarrow> tok \<Rightarrow> (tok list, unit) io" where
  "ref_put n t m = (if msg_size m + tok_size t \<le> n then (Inr (), m @ [t]) else (Inl EMSGSIZE, m))"

definition ref_start :: "nat \<Rightarrow> tok \<Rightarrow> tok list \<Rightarrow> nat option \<times> tok list" where
  "ref_start n t m = (if msg_size m + tok_size t \<le> n then (Some (length m), m @ [t]) else (None, m))"

definition ref_netlink :: "nat \<Rightarrow> (tok list, nat) netlink" where
  "ref_netlink n = \<lparr>nlmsg_new = (\<lambda>_. Some []),
     genlmsg_put = (\<lambda>multi cmd. ref_start n (THdr multi cmd)),
     genlmsg_end = (\<lambda>p m. if p < length m then m @ [TEnd] else m), genlmsg_cancel = take,
     nla_put_u32 = (\<lambda>a v. ref_put n (TU32 a v)), nla_put_string = (\<lambda>a s. ref_put n (TStr a s)),
     nla_put_flag = (\<lambda>a. ref_put n (TFlag a)), nla_nest_start = (\<lambda>a. ref_start n (TOpen a)),
     nla_nest_end = (\<lambda>p m. if p < length m then m @ [TClose] else m), nla_nest_cancel = take, nl_reply = (\<lambda>_. None)\<rparr>"

lemma ref_netlink_laws: "netlink_laws (ref_netlink n) (\<lambda>m. m) (\<lambda>p. p) (\<lambda>_. n)"
  by (simp add: netlink_laws_def ref_netlink_def law_start_def law_put_def law_end_def law_cancel_def
      ref_start_def ref_put_def)

section \<open>Messages that are too small\<close>

text \<open>
  An entry that does not fit a new message: the second attempt frees the message and
  \<open>swconfig_list_attrs\<close> frees it again.
\<close>

theorem list_attrs_double_free:
  assumes L: "netlink_laws N toks mark cap" and "\<forall>k. \<exists>m. nlmsg_new N k = Some m \<and> cap m < msg_size (attr_toks e)"
    and R: "\<forall>m. nl_reply N m = None"
  shows "fst (list_attrs_reply N (e # es)) = Inl DOUBLE_FREE"
proof -
  let ?f = "swconfig_dump_attr N (snd e)"
  let ?cb = "\<lambda>sent. \<lparr>cb_msg = None, cb_cmd = 0, cb_nest = None, cb_args = fst e, cb_freed = False, nl_sent = sent\<rparr>"
  have fill: "\<exists>m m'. new_msg N (?cb sent) = (?cb sent)\<lparr>cb_msg := Some m\<rparr> \<and>
      ?f ((?cb sent)\<lparr>cb_msg := Some m\<rparr>) = (Inl EMSGSIZE, (?cb sent)\<lparr>cb_msg := Some m'\<rparr>)" for sent
  proof -
    obtain m where m: "nlmsg_new N (length sent) = Some m" "cap m < msg_size (attr_toks e)" using assms(2) by blast
    have "toks m = []" using L m(1) by (auto simp: netlink_laws_def)
    then obtain m' where "?f ((?cb sent)\<lparr>cb_msg := Some m\<rparr>) = (Inl EMSGSIZE, (?cb sent)\<lparr>cb_msg := Some m'\<rparr>)"
      using dump_attr_full [OF L, of "(?cb sent)\<lparr>cb_msg := Some m\<rparr>" m "snd e"] m(2) by auto
    then show ?thesis using m(1) by (auto simp: new_msg_def)
  qed
  have second: "\<exists>m. multipart_loop N ?f (retE ()) True (?cb sent) = (Inl EPERM, (?cb sent)\<lparr>cb_msg := Some m, cb_freed := True\<rparr>)"
    for sent
    using fill [of sent] by (subst multipart_loop.simps) (auto simp: nlmsg_free_def)
  obtain m m' where m: "new_msg N (?cb []) = (?cb [])\<lparr>cb_msg := Some m\<rparr>"
    "?f ((?cb [])\<lparr>cb_msg := Some m\<rparr>) = (Inl EMSGSIZE, (?cb [])\<lparr>cb_msg := Some m'\<rparr>)"
    using fill [of "[]"] by auto
  have "multipart_loop N ?f (retE ()) False (?cb []) = multipart_loop N ?f (retE ()) True (?cb [m'])"
    using m R by (subst multipart_loop.simps) (simp add: retE_def genlmsg_reply_def)
  then show ?thesis
    using second [of "[m']"]
    by (auto simp: list_attrs_reply_def empty_callback_def bindE_def swconfig_send_multipart_def)
qed

text \<open>
  A port list that does not fit one message: the list is never continued correctly. On a
  message of 64 bytes, which takes two ports, the third one makes the code use the start of the
  list in the message it has already sent, while the ports of that message were cut off with it.
\<close>

theorem long_port_list_fails:
  "get_attr_reply (ref_netlink 64) 8 SWITCH_CMD_GET_VLAN SWITCH_TYPE_PORTS
     (zero_val\<lparr>val_ports := map (\<lambda>i. \<lparr>port_id = of_nat i, port_flags = 4\<rparr>) [0..<3], val_len := 3\<rparr>) =
   (Inl USE_AFTER_FREE, [[THdr False SWITCH_CMD_GET_VLAN]])"
  by code_simp

end
