(* ===== verification/Swconfig_Properties.thy ===== *)
theory Swconfig_Properties
  imports Swconfig_Messages
begin

text \<open>
  The configuration layer on its own: numbering and naming in the registry, agreement of
  the list requests with attribute lookup, port lists in requests and replies, and which
  requests reach a driver.
\<close>

section \<open>Device names\<close>

lemma digit_char_code: "d < 10 \<Longrightarrow> of_char (digit_char d) = (48 + d :: nat)"
  by (simp add: digit_char_def)

lemma scan_num_text:
  "scan_digits (num_text 10 n @ cs) m = scan_digits cs (m * 10 ^ length (num_text 10 n) + n)"
proof (induction n arbitrary: m cs rule: less_induct)
  case (less n)
  show ?case
  proof (cases "n < 10")
    case True
    then show ?thesis by (subst (1 2) num_text.simps) (simp add: digit_char_code Let_def mult.commute)
  next
    case False
    then have n: "num_text 10 n = num_text 10 (n div 10) @ [digit_char (n mod 10)]"
      by (subst num_text.simps) simp
    have "scan_digits (num_text 10 n @ cs) m =
        scan_digits (digit_char (n mod 10) # cs) (m * 10 ^ length (num_text 10 (n div 10)) + n div 10)"
      unfolding n using less [of "n div 10"] False by simp
    also have "\<dots> = scan_digits cs (10 * (m * 10 ^ length (num_text 10 (n div 10)) + n div 10) + n mod 10)"
      using digit_char_code [of "n mod 10"] less_eq_Suc_le [of "n mod 10" 10] by simp
    also have "10 * (m * 10 ^ length (num_text 10 (n div 10)) + n div 10) + n mod 10
        = m * 10 ^ length (num_text 10 n) + n"
      using n by simp
    finally show ?thesis .
  qed
qed

lemma num_text_head: "\<exists>d cs. num_text 10 n = digit_char d # cs \<and> d < 10"
proof (induction n rule: less_induct)
  case (less n)
  show ?case
  proof (cases "n < 10")
    case True
    then show ?thesis by (subst num_text.simps) auto
  next
    case False
    then obtain d cs where "num_text 10 (n div 10) = digit_char d # cs" "d < 10"
      using less [of "n div 10"] by auto
    then show ?thesis using False by (subst num_text.simps) auto
  qed
qed

lemma scan_switch_name: "scan_devname (switch_name i) = Some i"
proof -
  obtain d cs where d: "num_text 10 i = digit_char d # cs" "d < 10" using num_text_head by blast
  have "scan_digits (num_text 10 i) 0 = i" using scan_num_text [of i "[]" 0] by simp
  then show ?thesis using d by (simp add: scan_devname_def switch_name_def dec_def digit_char_code Let_def)
qed

lemma switch_name_inj: "inj switch_name"
  by (rule injI) (metis option.inject scan_switch_name)

section \<open>The registry\<close>

definition registry_ok :: "nat \<Rightarrow> 's registry \<Rightarrow> bool" where
  "registry_ok mx r \<longleftrightarrow>
     (\<exists>is. map devname (swdevs r) = map switch_name is \<and> distinct is \<and> (\<forall>i \<in> set is. i < mx))
     \<and> distinct (map dev_id (swdevs r))
     \<and> (\<forall>d \<in> set (swdevs r). unat (dev_id d) \<le> swdev_id r)
     \<and> swdev_id r \<le> INT_MAX"

definition dev_numbers :: "'s registry \<Rightarrow> nat list" where
  "dev_numbers r = List.map_filter (\<lambda>d. scan_devname (devname d)) (swdevs r)"

lemma dev_numbers_names:
  assumes "map devname (swdevs r) = map switch_name is"
  shows "dev_numbers r = is"
proof -
  have "dev_numbers r = List.map_filter scan_devname (map devname (swdevs r))"
    by (simp add: dev_numbers_def map_filter_def comp_def filter_map)
  also have "\<dots> = List.map_filter (\<lambda>i. Some i) is"
    unfolding assms by (simp add: map_filter_def comp_def filter_map scan_switch_name)
  finally show ?thesis by (simp add: map_filter_def)
qed

lemma find_first_zero_bit_less:
  assumes "find_first_zero_bit used n \<noteq> n"
  shows "find_first_zero_bit used n < n \<and> find_first_zero_bit used n \<notin> set used
    \<and> (\<forall>j < find_first_zero_bit used n. j \<in> set used)"
  using assms by (auto simp: find_first_zero_bit_def split: option.splits dest!: find_upt_Some)

lemma find_first_zero_bit_full:
  "find_first_zero_bit used n = n \<longleftrightarrow> (\<forall>i < n. i \<in> set used)"
  using find_upt_None [of "\<lambda>i. i \<notin> set used" n]
  by (auto simp: find_first_zero_bit_def split: option.splits dest!: find_upt_Some)

lemma used_numbers_names:
  fixes r :: "'s registry"
  assumes "map devname (swdevs r) = map switch_name is" "\<forall>i \<in> set is. i < mx"
  shows "used_numbers mx (swdevs r) = is"
  using dev_numbers_names [OF assms(1)] assms(2)
  by (auto simp: used_numbers_def dev_numbers_def filter_id_conv less_imp_le)

text \<open>The states of the registry: registrations and removals in any order.\<close>

inductive registry_reachable :: "nat \<Rightarrow> 's registry \<Rightarrow> bool" for mx where
  boot: "registry_reachable mx \<lparr>swdev_id = 0, swdevs = [], sw_mem = 0\<rparr>"
| register: "registry_reachable mx r \<Longrightarrow>
    registry_reachable mx (snd (register_switch mx alloc1 alloc2 led nodes dev r))"
| unregister: "registry_reachable mx r \<Longrightarrow> registry_reachable mx (unregister_switch n r)"

lemma list_switch_ok:
  assumes ok: "registry_ok mx r" and room: "swdev_id r < INT_MAX"
    and alloc: "dev_ports dev > 0 \<longrightarrow> alloc1 \<and> alloc2"
  obtains (full) "\<forall>i < mx. switch_name i \<in> devname ` set (swdevs r)"
    "list_switch mx alloc1 alloc2 nodes dev r =
       (Inl ENFILE, r\<lparr>swdev_id := swdev_id r + 1, sw_mem := sw_mem r + port_arrays dev\<rparr>)"
  | (free) i dev' where "i < mx" "switch_name i \<notin> devname ` set (swdevs r)"
    "\<forall>j < i. switch_name j \<in> devname ` set (swdevs r)"
    "devname dev' = switch_name i" "dev_id dev' = of_nat (swdev_id r + 1)"
    "dev_ops dev' = dev_ops dev" "dev_ports dev' = dev_ports dev"
    "list_switch mx alloc1 alloc2 nodes dev r =
       (Inr dev', r\<lparr>swdev_id := swdev_id r + 1, swdevs := swdevs r @ [dev'], sw_mem := sw_mem r + port_arrays dev\<rparr>)"
proof -
  obtain "is" where names: "map devname (swdevs r) = map switch_name is" and bound: "\<forall>i \<in> set is. i < mx"
    using ok by (auto simp: registry_ok_def)
  have used: "used_numbers mx (swdevs r) = is" using names bound by (rule used_numbers_names)
  have sn: "switch_name i = switch_name j \<longleftrightarrow> i = j" for i j
    using switch_name_inj by (auto dest: injD)
  have mem: "switch_name i \<in> devname ` set (swdevs r) \<longleftrightarrow> i \<in> set is" for i
    using names sn by (metis (no_types, lifting) imageE image_eqI list.set_map)
  have mx: "mx \<notin> set is" using bound by blast
  have live: "swdev_id r \<noteq> INT_MAX" using room by simp
  show thesis
  proof (cases "find_first_zero_bit is mx = mx")
    case True
    then have "\<forall>i < mx. i \<in> set is" by (simp add: find_first_zero_bit_full)
    then show thesis using alloc True mx live
      by (intro full) (auto simp: mem list_switch_def used Let_def)
  next
    case False
    note ff = find_first_zero_bit_less [OF False]
    let ?i = "find_first_zero_bit is mx"
    define d0 where "d0 = (swconfig_defaults_init (dev\<lparr>portmap := replicate (unat (dev_ports dev)) None\<rparr>))\<lparr>dev_id := of_nat (swdev_id r + 1)\<rparr>"
    define d where "d = (if dev_ports d0 > 0 then d0\<lparr>portmap := of_switch_load_portmap (dev_ports d0) nodes (portmap d0)\<rparr>
      else d0)\<lparr>devname := switch_name ?i\<rparr>"
    have "list_switch mx alloc1 alloc2 nodes dev r =
       (Inr d, r\<lparr>swdev_id := swdev_id r + 1, swdevs := swdevs r @ [d], sw_mem := sw_mem r + port_arrays dev\<rparr>)"
      using alloc False mx live unfolding list_switch_def Let_def d_def d0_def by (simp add: used)
    moreover have "dev_ops d = dev_ops dev" "dev_ports d = dev_ports dev" "dev_id d = of_nat (swdev_id r + 1)"
      "devname d = switch_name ?i"
      by (simp_all add: d_def d0_def swconfig_defaults_init_def Let_def)
    ultimately show thesis using ff by (intro free [of ?i d]) (simp_all add: mem)
  qed
qed

lemma register_switch_registry:
  "snd (register_switch mx alloc1 alloc2 led nodes dev r) = snd (list_switch mx alloc1 alloc2 nodes dev r)"
  by (auto simp: register_switch_def snd_bindE retE_def failE_def split: sum.split option.split)

lemma register_switch_listed:
  "list_switch mx alloc1 alloc2 nodes dev r = (Inr d, r') \<Longrightarrow>
    register_switch mx alloc1 alloc2 led nodes dev r =
      (case led_trigger_outcome led d of Some e \<Rightarrow> (Inl e, r') | None \<Rightarrow> (Inr d, r'))"
  "list_switch mx alloc1 alloc2 nodes dev r = (Inl e, r') \<Longrightarrow>
    register_switch mx alloc1 alloc2 led nodes dev r = (Inl e, r')"
  by (simp_all add: register_switch_def bindE_def retE_def failE_def split: option.split)

lemma register_switch_lists:
  "register_switch mx alloc1 alloc2 led nodes dev r = (Inr d, r') \<Longrightarrow>
    list_switch mx alloc1 alloc2 nodes dev r = (Inr d, r')"
  by (auto simp: register_switch_def bindE_def retE_def failE_def split: prod.splits sum.splits option.splits)

text \<open>
  A registration that fails leaves list and memory as they were, or it keeps both arrays, because
  all numbers are taken, or because the LED trigger cannot be created; in the last case the
  switch is on the list.
\<close>

lemma register_switch_failed:
  assumes ok: "registry_ok mx r" and run: "register_switch mx a1 a2 led nodes dev r = (Inl e, r')"
  obtains (memory) "e = ENOMEM" "r' = r"
  | (full) "e = ENFILE" "\<forall>i < mx. switch_name i \<in> devname ` set (swdevs r)" "swdevs r' = swdevs r"
      "sw_mem r' = sw_mem r + port_arrays dev"
  | (led) d where "led = Some e" "get_port_link (dev_ops dev) \<noteq> None" "swdevs r' = swdevs r @ [d]"
      "dev_ops d = dev_ops dev" "sw_mem r' = sw_mem r + port_arrays dev"
proof (cases "swdev_id r < INT_MAX \<and> (dev_ports dev > 0 \<longrightarrow> a1 \<and> a2)")
  case False
  then have "list_switch mx a1 a2 nodes dev r = (Inl ENOMEM, r)"
    using ok by (auto simp: list_switch_def registry_ok_def)
  from register_switch_listed(2) [OF this, of led] show thesis using run memory by simp
next
  case True
  then have pre: "swdev_id r < INT_MAX" "dev_ports dev > 0 \<longrightarrow> a1 \<and> a2" by auto
  from ok pre show thesis
  proof (cases rule: list_switch_ok [where nodes = nodes])
    case full
    from register_switch_listed(2) [OF this(2), of led] show thesis
      using run by (intro that(2)) (use full in auto)
  next
    case (free i dev')
    from register_switch_listed(1) [OF this(8), of led] show thesis
      using run by (intro that(3) [of dev']) (auto simp: led_trigger_outcome_def free(6) split: if_splits option.splits)
  qed
qed

lemma register_switch_done:
  assumes ok: "registry_ok mx r" and run: "register_switch mx a1 a2 led nodes dev r = (Inr d, r')"
  shows "swdev_id r < INT_MAX" "unat (dev_id d) = swdev_id r + 1" "dev_ports d = dev_ports dev"
    "r' = r\<lparr>swdev_id := swdev_id r + 1, swdevs := swdevs r @ [d], sw_mem := sw_mem r + port_arrays dev\<rparr>"
    "\<forall>x \<in> set (swdevs r). dev_id x \<noteq> dev_id d"
proof -
  note list = register_switch_lists [OF run]
  show room: "swdev_id r < INT_MAX"
    using list ok by (auto simp: list_switch_def registry_ok_def split: if_splits)
  have alloc: "dev_ports dev > 0 \<longrightarrow> a1 \<and> a2"
    using list by (auto simp: list_switch_def split: if_splits)
  from ok room alloc
  have "dev_id d = of_nat (swdev_id r + 1) \<and> dev_ports d = dev_ports dev
    \<and> r' = r\<lparr>swdev_id := swdev_id r + 1, swdevs := swdevs r @ [d], sw_mem := sw_mem r + port_arrays dev\<rparr>"
    by (cases rule: list_switch_ok [where nodes = nodes]) (use list in auto)
  moreover from this show id: "unat (dev_id d) = swdev_id r + 1"
    using room by (simp add: unat_of_nat take_bit_nat_eq_self_iff del: of_nat_Suc of_nat_add)
  ultimately show "dev_ports d = dev_ports dev"
    "r' = r\<lparr>swdev_id := swdev_id r + 1, swdevs := swdevs r @ [d], sw_mem := sw_mem r + port_arrays dev\<rparr>" by simp_all
  show "\<forall>x \<in> set (swdevs r). dev_id x \<noteq> dev_id d"
    using ok id by (auto simp: registry_ok_def)
qed

lemma register_first:
  assumes "0 < mx"
  shows "\<exists>d r'. register_switch mx True True None nodes dev \<lparr>swdev_id = 0, swdevs = [], sw_mem = 0\<rparr> = (Inr d, r')"
proof -
  have "registry_ok mx \<lparr>swdev_id = 0, swdevs = [], sw_mem = 0\<rparr>" by (simp add: registry_ok_def)
  then show ?thesis
    by (rule list_switch_ok [where dev = dev and nodes = nodes and ?alloc1.0 = True and ?alloc2.0 = True])
      (use assms in \<open>auto simp: register_switch_listed led_trigger_outcome_def dest: spec [of _ 0]\<close>)
qed

lemma registry_ok_register:
  assumes ok: "registry_ok mx r"
  shows "registry_ok mx (snd (register_switch mx alloc1 alloc2 led nodes dev r))"
proof (cases "swdev_id r < INT_MAX \<and> (dev_ports dev > 0 \<longrightarrow> alloc1 \<and> alloc2)")
  case False
  then have "snd (list_switch mx alloc1 alloc2 nodes dev r) = r"
    using ok by (auto simp: list_switch_def registry_ok_def)
  then show ?thesis using ok by (simp add: register_switch_registry)
next
  case True
  then have "swdev_id r < INT_MAX" "dev_ports dev > 0 \<longrightarrow> alloc1 \<and> alloc2" by auto
  with ok show ?thesis
  proof (cases rule: list_switch_ok [where nodes = nodes])
    case full
    then show ?thesis using ok True by (auto simp: registry_ok_def register_switch_registry)
  next
    case (free i dev')
    obtain "is" where names: "map devname (swdevs r) = map switch_name is" and d: "distinct is"
      and bound: "\<forall>i \<in> set is. i < mx" using ok by (auto simp: registry_ok_def)
    have fresh: "i \<notin> set is"
      using free(2) names by (metis imageI list.set_map)
    have new: "unat (dev_id dev') = swdev_id r + 1"
      unfolding free(5) using True by (simp add: unat_of_nat take_bit_nat_eq_self_iff del: of_nat_Suc of_nat_add)
    then have old: "\<forall>d \<in> set (swdevs r). dev_id d \<noteq> dev_id dev'"
      using ok by (auto simp: registry_ok_def)
    have "\<exists>js. map devname (swdevs r @ [dev']) = map switch_name js \<and> distinct js \<and> (\<forall>j \<in> set js. j < mx)"
      by (rule exI [of _ "is @ [i]"]) (use names d bound free fresh in auto)
    moreover have "distinct (map dev_id (swdevs r @ [dev']))"
      "\<forall>d \<in> set (swdevs r @ [dev']). unat (dev_id d) \<le> swdev_id r + 1"
      using ok new old by (auto simp: registry_ok_def intro: le_SucI)
    ultimately show ?thesis using True unfolding registry_ok_def register_switch_registry free(8) by simp
  qed
qed

text \<open>Removal gives back what the registration took, apart from one array, \<open>portmap\<close>.\<close>

lemma unregister_undoes_register:
  assumes ok: "registry_ok mx r" and run: "register_switch mx a1 a2 led nodes dev r = (Inr d, r')"
  shows "swdevs (unregister_switch (dev_id d) r') = swdevs r"
    "sw_mem (unregister_switch (dev_id d) r') = sw_mem r + (if dev_ports dev > 0 then 1 else 0)"
proof -
  note fin = register_switch_done [OF ok run]
  then have "filter (\<lambda>x. dev_id x \<noteq> dev_id d) (swdevs r) = swdevs r"
    "filter (\<lambda>x. dev_id x = dev_id d \<and> dev_ports x > 0) (swdevs r) = []"
    by (auto simp: filter_id_conv filter_empty_conv)
  then show "swdevs (unregister_switch (dev_id d) r') = swdevs r"
    "sw_mem (unregister_switch (dev_id d) r') = sw_mem r + (if dev_ports dev > 0 then 1 else 0)"
    by (simp_all add: unregister_switch_def fin(4) fin(3) port_arrays_def)
qed

lemma registry_ok_unregister:
  fixes r :: "'s registry"
  assumes ok: "registry_ok mx r"
  shows "registry_ok mx (unregister_switch n r)"
proof -
  obtain "is" where names: "map devname (swdevs r) = map switch_name is" and d: "distinct is"
    and bound: "\<forall>i \<in> set is. i < mx" using ok by (auto simp: registry_ok_def)
  define number :: "'s switch_dev \<Rightarrow> nat" where "number = the \<circ> scan_devname \<circ> devname"
  have num: "map number (swdevs r) = is"
  proof -
    have "map number (swdevs r) = map (the \<circ> scan_devname) (map devname (swdevs r))"
      by (simp add: number_def)
    also have "\<dots> = map (the \<circ> scan_devname \<circ> switch_name) is" unfolding names by simp
    finally show ?thesis by (simp add: comp_def scan_switch_name)
  qed
  have nth: "devname d = switch_name (number d)" if "d \<in> set (swdevs r)" for d
  proof -
    have "devname d \<in> set (map switch_name is)" using that names by (metis image_eqI list.set_map)
    then show ?thesis by (auto simp: number_def scan_switch_name)
  qed
  let ?kept = "filter (\<lambda>d. dev_id d \<noteq> n) (swdevs r)"
  have "map devname ?kept = map switch_name (map number ?kept)" using nth by simp
  moreover have "distinct (map number ?kept)" using d num by (simp add: distinct_map_filter)
  moreover have "\<forall>i \<in> set (map number ?kept). i < mx" using bound num by auto
  ultimately show ?thesis using ok unfolding registry_ok_def
    by (auto simp: unregister_switch_def distinct_map_filter simp del: map_map intro!: exI [of _ "map number ?kept"])
qed

lemma reachable_registry_ok: "registry_reachable mx r \<Longrightarrow> registry_ok mx r"
proof (induction rule: registry_reachable.induct)
  case boot
  show ?case by (simp add: registry_ok_def)
qed (simp_all add: registry_ok_register registry_ok_unregister)

section \<open>List requests\<close>

lemma dump_list_pick:
  assumes "length alist \<le> 0x1000" "\<forall>a \<in> set def_list. \<not> attr_disabled (attr_info a)"
  shows "(n, i) \<in> set (dump_list alist def_list act) \<longleftrightarrow>
    (\<exists>a. pick_attr alist def_list act n = Some a \<and> attr_info a = i)"
proof (cases "n < 0x1000")
  case True
  then show ?thesis
    by (auto simp: dump_list_def pick_attr_def Let_def)
next
  case False
  then obtain k where k: "n = 0x1000 + k" using le_Suc_ex not_less by blast
  have "\<not> attr_disabled (attr_info (def_list ! k))" if "k < length def_list"
    using assms(2) that by simp
  then show ?thesis
    using assms(1) by (auto simp: dump_list_def pick_attr_def Let_def k)
qed

lemma defaults_enabled:
  "\<forall>a \<in> set (default_global dev). \<not> attr_disabled (attr_info a)"
  "\<forall>a \<in> set (default_port dev). \<not> attr_disabled (attr_info a)"
  "\<forall>a \<in> set (default_vlan dev). \<not> attr_disabled (attr_info a)"
  by (simp_all add: default_global_def default_port_def default_vlan_def mk_attr_def)

section \<open>Port lists in requests\<close>

definition port_of :: "u32 \<times> bool \<Rightarrow> switch_port" where
  "port_of e = \<lparr>port_id = fst e, port_flags = (if snd e then BIT SWITCH_PORT_FLAG_TAGGED else 0)\<rparr>"

definition wire_entry :: "u32 \<times> bool \<Rightarrow> (u32 option \<times> bool) option" where
  "wire_entry e = Some (Some (fst e), snd e)"

lemma parse_ports_loop_ok:
  "length ps + length es \<le> mx \<Longrightarrow> parse_ports_loop mx (map wire_entry es) ps = Inr (ps @ map port_of es)"
  by (induction es arbitrary: ps) (simp_all add: wire_entry_def port_of_def)

lemma parse_ports_loop_Inr:
  "parse_ports_loop mx heads ps = Inr qs \<Longrightarrow> length ps \<le> mx \<Longrightarrow>
    \<exists>es. heads = map wire_entry es \<and> length ps + length es \<le> mx \<and> qs = ps @ map port_of es"
proof (induction heads arbitrary: ps)
  case (Cons nla rest)
  obtain n t where nla: "nla = Some (Some n, t)" "length ps < mx"
    using Cons.prems by (auto split: if_splits option.splits prod.splits)
  then have run: "parse_ports_loop mx rest (ps @ [port_of (n, t)]) = Inr qs"
    using Cons.prems by (simp add: port_of_def)
  obtain es where "rest = map wire_entry es" "length (ps @ [port_of (n, t)]) + length es \<le> mx"
    "qs = (ps @ [port_of (n, t)]) @ map port_of es"
    using Cons.IH [OF run] nla(2) by auto
  then show ?case using nla by (intro exI [of _ "(n, t) # es"]) (simp add: wire_entry_def)
qed simp

lemma parse_ports_loop_Inl: "parse_ports_loop mx heads ps = Inl e \<Longrightarrow> e = EINVAL"
  by (induction mx heads ps rule: parse_ports_loop.induct) (auto split: if_splits option.splits prod.splits)

lemma port_entry_of: "port_entry (port_of e) = e"
  by (cases e) (simp add: port_entry_def port_of_def BIT_def)

lemma ports_value_of:
  "value_toks SWITCH_TYPE_PORTS (v\<lparr>val_ports := map port_of es, val_len := length es\<rparr>) =
    Some (ports_toks SWITCH_ATTR_OP_VALUE_PORTS es)"
  by (simp add: value_toks_def port_entry_of comp_def)

end
