(* ===== verification/Probe_Properties.thy ===== *)
theory Probe_Properties
  imports Smi_Probe Swconfig_Properties
begin

text \<open>
  What the drivers hold of the kernel: a failed start releases everything it took, a removal
  everything a successful start took.
\<close>

section \<open>Acquiring and unwinding\<close>

text \<open>
  \<open>acquires f m\<close>: when \<open>m\<close> succeeds it changes what the driver holds by \<open>f\<close>, and
  when it fails it leaves it as it was. \<open>releases u c\<close>: the cleanup \<open>c\<close> changes it by
  \<open>u\<close>.
\<close>

definition acquires :: "(resources \<Rightarrow> resources) \<Rightarrow> ('h world, 'a) io \<Rightarrow> bool" where
  "acquires f m \<longleftrightarrow> (\<forall>w. held (snd (m w)) = (case fst (m w) of Inl e \<Rightarrow> held w | Inr x \<Rightarrow> f (held w)))"

definition releases :: "(resources \<Rightarrow> resources) \<Rightarrow> ('h world \<Rightarrow> 'h world) \<Rightarrow> bool" where
  "releases u c \<longleftrightarrow> (\<forall>w. held (c w) = u (held w))"

lemma acquires_on_board: "acquires (\<lambda>r. r) (on_board m)"
  by (auto simp: acquires_def on_board_def split: prod.splits sum.splits)

lemma acquires_then: "acquires (\<lambda>r. r) m \<Longrightarrow> (\<And>x. acquires f (k x)) \<Longrightarrow> acquires f (bindE m k)"
  by (auto simp: acquires_def fst_bindE snd_bindE split: sum.splits)

lemma fst_unwindE: "fst (unwindE m c s) = fst (m s)"
  by (auto simp: unwindE_def split: prod.splits sum.splits)

lemma snd_unwindE: "snd (unwindE m c s) = (case fst (m s) of Inl e \<Rightarrow> c (snd (m s)) | Inr x \<Rightarrow> snd (m s))"
  by (auto simp: unwindE_def split: prod.splits sum.splits)

lemma acquires_unwind:
  assumes "acquires f m" "\<And>x. acquires g (k x)" "releases u c" "\<And>r. u (f r) = r"
  shows "acquires (\<lambda>r. g (f r)) (bindE m (\<lambda>x. unwindE (k x) c))"
  using assms
  by (auto simp: acquires_def releases_def fst_bindE snd_bindE fst_unwindE snd_unwindE split: sum.splits)

definition take_gpio :: "nat \<Rightarrow> resources \<Rightarrow> resources" where
  "take_gpio n r = r\<lparr>gpios_held := n # gpios_held r\<rparr>"

definition take_mii :: "resources \<Rightarrow> resources" where
  "take_mii r = r\<lparr>mii_allocated := mii_allocated r + 1, mii_registered := mii_registered r + 1\<rparr>"

definition take_bus :: "rtl8366_smi \<Rightarrow> resources \<Rightarrow> resources" where
  "take_bus smi r = (if has_ext_mbus smi then r else take_gpio (gpio_sck smi) (take_gpio (gpio_sda smi) r))"

definition drop_bus :: "rtl8366_smi \<Rightarrow> resources \<Rightarrow> resources" where
  "drop_bus smi r = (if has_ext_mbus smi then r
     else r\<lparr>gpios_held := remove1 (gpio_sda smi) (remove1 (gpio_sck smi) (gpios_held r))\<rparr>)"

lemma drop_take_bus [simp]: "drop_bus smi (take_bus smi r) = r"
  by (simp add: drop_bus_def take_bus_def take_gpio_def)

lemma acquires_gpio: "acquires (take_gpio n) (gpio_request K n)"
  by (auto simp: acquires_def gpio_request_def take_gpio_def split: option.splits)

lemma acquires_init0: "acquires (take_bus smi) (rtl8366_smi_init0 K H smi)"
proof -
  have free: "releases (\<lambda>r. r\<lparr>gpios_held := remove1 n (gpios_held r)\<rparr>) (gpio_free n)" for n
    by (simp add: releases_def gpio_free_def)
  have start: "acquires (\<lambda>r. r) (smi_start_switch H smi)"
    by (auto simp: acquires_def smi_start_switch_def Let_def)
  have lines: "acquires (\<lambda>r. take_gpio (gpio_sck smi) (take_gpio (gpio_sda smi) r))
      (bindE (gpio_request K (gpio_sda smi)) (\<lambda>_.
         unwindE (gpio_request K (gpio_sck smi)) (gpio_free (gpio_sda smi))))"
    by (rule acquires_unwind [OF acquires_gpio acquires_gpio free]) (simp add: take_gpio_def)
  have "acquires f m \<Longrightarrow> acquires f (bindE m (\<lambda>_. smi_start_switch H smi))" for f and m :: "('a world, unit) io"
    using start by (auto simp: acquires_def fst_bindE snd_bindE smi_start_switch_def Let_def split: sum.splits)
  then show ?thesis
    using lines start by (auto simp: rtl8366_smi_init0_def take_bus_def [abs_def])
qed

lemma releases_cleanup0: "releases (drop_bus smi) (rtl8366_smi_cleanup0 H smi)"
  by (auto simp: releases_def rtl8366_smi_cleanup0_def drop_bus_def gpio_free_def Let_def)

lemma acquires_mii_init: "acquires take_mii (rtl8366_smi_mii_init K pdev)"
  by (auto simp: acquires_def rtl8366_smi_mii_init_def Let_def fst_bindE snd_bindE fst_unwindE
      snd_unwindE mdiobus_alloc_def mdiobus_register_def mdiobus_free_def take_mii_def
      split: sum.splits option.splits)

lemma acquires_smi_init:
  "acquires (\<lambda>r. take_mii (take_bus smi r)) (rtl8366_smi_init K H pdev smi (Some ops))"
  unfolding rtl8366_smi_init_def option.case
  by (rule acquires_unwind [OF acquires_init0 _ releases_cleanup0 drop_take_bus])
    (intro acquires_then acquires_on_board acquires_mii_init)

lemma cleanup_undoes_init: "held (rtl8366_smi_cleanup H smi w) = r" if "held w = take_mii (take_bus smi r)"
  using that releases_cleanup0 [of smi H]
  by (simp add: rtl8366_smi_cleanup_def releases_def rtl8366_smi_mii_cleanup_def mdiobus_free_def
      mdiobus_unregister_def take_mii_def)

lemma silent_unwindE:
  "silent v m \<Longrightarrow> (\<And>w. v (c w) = v w) \<Longrightarrow> silent v (unwindE m c)"
  by (auto simp: silent_def snd_unwindE split: sum.splits)

lemma silent_world:
  assumes v: "\<And>w b. v (w\<lparr>board := b\<rparr>) = v w" "\<And>w r. v (w\<lparr>held := r\<rparr>) = v w"
  shows "silent v (on_board m)" "silent v (gpio_request K n)" "silent v (smi_start_switch H smi)"
    "silent v (mdiobus_alloc K)" "silent v (mdiobus_register err)"
    "v (gpio_free n w) = v w" "v (mdiobus_free w) = v w" "v (rtl8366_smi_cleanup0 H smi w) = v w"
    "v (rtl8366_smi_cleanup H smi w) = v w"
  by (auto simp: silent_def on_board_def gpio_request_def gpio_free_def smi_start_switch_def
      rtl8366_smi_cleanup0_def rtl8366_smi_cleanup_def rtl8366_smi_mii_cleanup_def mdiobus_alloc_def
      mdiobus_register_def mdiobus_unregister_def mdiobus_free_def Let_def v
      split: option.splits prod.splits)

lemma silent_smi_init:
  assumes v: "\<And>w b. v (w\<lparr>board := b\<rparr>) = v w" "\<And>w r. v (w\<lparr>held := r\<rparr>) = v w"
  shows "silent v (rtl8366_smi_init K H pdev smi ops)"
  unfolding rtl8366_smi_init_def rtl8366_smi_init0_def rtl8366_smi_mii_init_def Let_def
  by (intro silent_intros silent_unwindE silent_world v)

lemma smi_init_held:
  "held (snd (rtl8366_smi_init K H pdev smi (Some ops) w)) =
    (case fst (rtl8366_smi_init K H pdev smi (Some ops) w) of
       Inl e \<Rightarrow> held w | Inr x \<Rightarrow> take_mii (take_bus smi (held w)))"
  using acquires_smi_init [of smi K H pdev ops] unfolding acquires_def by blast

lemma smi_init_rest:
  "switches (snd (rtl8366_smi_init K H pdev smi ops w)) = switches w"
  "drvdata (snd (rtl8366_smi_init K H pdev smi ops w)) = drvdata w"
  by (rule silentD [OF silent_smi_init], simp_all)+

section \<open>Starting and removing a driver\<close>

definition driver_start ::
  "services \<Rightarrow> 'h platform \<Rightarrow> platform_device \<Rightarrow> rtl8366_smi \<Rightarrow> ('h smi_state) rtl8366_smi_ops
    \<Rightarrow> ('h smi_state) switch_dev \<Rightarrow> ('h world, unit) io" where
  "driver_start K H pdev smi ops dev =
    bindE (rtl8366_smi_init K H pdev smi (Some ops)) (\<lambda>_.
    bindE (\<lambda>w. (Inr (), set_drvdata (Some smi) w)) (\<lambda>_.
    unwindE (on_switches (register_switch (bits_per_long K) (portbuf_ok K) (portmap_ok K) (led_trigger_err K) [] dev))
      (\<lambda>w. rtl8366_smi_cleanup H smi (set_drvdata None w))))"

text \<open>
  What a failed probe may leave in the registry: nothing new; or both arrays of a switch for which
  there was no number; or a switch on the list, with both arrays, whose LED trigger could not be
  created.
\<close>

definition registry_leftover :: "services \<Rightarrow> errno \<Rightarrow> 's registry \<Rightarrow> 's registry \<Rightarrow> bool" where
  "registry_leftover K e r r' \<longleftrightarrow>
     swdevs r' = swdevs r \<and> sw_mem r' = sw_mem r
   \<or> e = ENFILE \<and> (\<forall>i < bits_per_long K. switch_name i \<in> devname ` set (swdevs r))
       \<and> swdevs r' = swdevs r \<and> sw_mem r' = sw_mem r + 2
   \<or> led_trigger_err K = Some e \<and> (\<exists>d. swdevs r' = swdevs r @ [d]) \<and> sw_mem r' = sw_mem r + 2"

lemma registry_leftover_refl [simp]: "registry_leftover K e r r"
  by (simp add: registry_leftover_def)

lemma register_leftover:
  assumes "registry_ok (bits_per_long K) r" "0 < dev_ports dev"
    "register_switch (bits_per_long K) a1 a2 (led_trigger_err K) nodes dev r = (Inl e, r')"
  shows "registry_leftover K e r r'"
  by (rule register_switch_failed [OF assms(1,3)]) (use assms(2) in \<open>auto simp: registry_leftover_def port_arrays_def\<close>)

lemma driver_start_failed:
  assumes "fst (driver_start K H pdev smi ops dev w) = Inl e" "drvdata w = None"
    and reg: "registry_ok (bits_per_long K) (switches w)" "0 < dev_ports dev"
  defines "w' \<equiv> snd (driver_start K H pdev smi ops dev w)"
  shows "held w' = held w \<and> drvdata w' = None \<and> registry_leftover K e (switches w) (switches w')"
proof -
  have undo: "held (rtl8366_smi_cleanup H smi v) = held w" if "held v = take_mii (take_bus smi (held w))" for v
    using that by (rule cleanup_undoes_init)
  have clean: "drvdata (rtl8366_smi_cleanup H smi v) = drvdata v"
    "switches (rtl8366_smi_cleanup H smi v) = switches v" for v
    by (simp_all add: silent_world)
  note left = register_leftover [OF reg]
  show ?thesis
    using assms(1,2) smi_init_held [of K H pdev smi ops w] unfolding w'_def driver_start_def
    by (auto simp: fst_bindE snd_bindE fst_unwindE snd_unwindE set_drvdata_def on_switches_def clean smi_init_rest
        undo intro: left split: sum.splits prod.splits if_splits)
qed

lemma driver_start_done:
  assumes "fst (driver_start K H pdev smi ops dev w) = Inr ()"
  defines "w' \<equiv> snd (driver_start K H pdev smi ops dev w)"
  obtains d where "held w' = take_mii (take_bus smi (held w))" "drvdata w' = Some smi"
    "register_switch (bits_per_long K) (portbuf_ok K) (portmap_ok K) (led_trigger_err K) [] dev (switches w) =
       (Inr d, switches w')" "sw_dev_id w' = dev_id d"
proof -
  let ?i = "rtl8366_smi_init K H pdev smi (Some ops) w"
  let ?r = "register_switch (bits_per_long K) (portbuf_ok K) (portmap_ok K) (led_trigger_err K) [] dev (switches w)"
  obtain w1 where i: "?i = (Inr (), w1)"
    using assms(1) by (cases ?i) (auto simp: driver_start_def fst_bindE split: sum.splits)
  have w1: "held w1 = take_mii (take_bus smi (held w))" "switches w1 = switches w"
    using smi_init_held [of K H pdev smi ops w] smi_init_rest(1) [of K H pdev smi "Some ops" w] i by simp_all
  have run: "driver_start K H pdev smi ops dev w =
      unwindE (on_switches (register_switch (bits_per_long K) (portbuf_ok K) (portmap_ok K) (led_trigger_err K) [] dev))
        (\<lambda>w. rtl8366_smi_cleanup H smi (set_drvdata None w)) (set_drvdata (Some smi) w1)"
    by (simp add: driver_start_def bindE_def i)
  obtain d r where r: "?r = (Inr d, r)"
    using assms(1) w1(2) unfolding run
    by (cases "fst ?r") (auto simp: fst_unwindE on_switches_def set_drvdata_def split: prod.splits)
  have "snd (driver_start K H pdev smi ops dev w) = w1\<lparr>drvdata := Some smi, switches := r, sw_dev_id := dev_id d\<rparr>"
    unfolding run by (simp add: snd_unwindE on_switches_def set_drvdata_def w1 r)
  then show thesis using that [of d] w1 r by (simp add: w'_def)
qed

section \<open>Probe and remove\<close>

definition driver_probe ::
  "services \<Rightarrow> 'h platform \<Rightarrow> platform_device \<Rightarrow> (rtl8366_smi \<Rightarrow> rtl8366_smi)
    \<Rightarrow> (rtl8366_smi \<Rightarrow> ('h smi_state) rtl8366_smi_ops) \<Rightarrow> (rtl8366_smi \<Rightarrow> ('h smi_state) switch_dev)
    \<Rightarrow> ('h world, unit) io" where
  "driver_probe K H pdev fill ops dev =
    bindE (rtl8366_smi_probe K pdev) (\<lambda>p.
    case p of None \<Rightarrow> failE NULL_DEREF
    | Some smi0 \<Rightarrow> unwindE (driver_start K H pdev (fill smi0) (ops (fill smi0)) (dev (fill smi0))) kfree_smi)"

lemma probe_as_driver:
  "rtl8366s_probe K H sd u parent pdev =
    driver_probe K H pdev rtl8366s_smi (\<lambda>smi. rtl8366s_smi_ops H smi sd) (\<lambda>smi. rtl8366s_sw_dev H smi sd u parent)"
  "rtl8366rb_probe K H sd u parent pdev =
    driver_probe K H pdev rtl8366rb_smi (\<lambda>smi. rtl8366rb_smi_ops H smi sd) (\<lambda>smi. rtl8366rb_sw_dev H smi sd u parent)"
  "rtl8367_probe K H sd67 u parent pdev =
    driver_probe K H pdev rtl8367_smi (\<lambda>smi. rtl8367_smi_ops H smi sd67) (\<lambda>smi. rtl8367_sw_dev H smi sd67 u parent)"
  "rtl8367b_probe K H sd67 cpu u parent pdev =
    driver_probe K H pdev (rtl8367b_smi cpu) (\<lambda>smi. rtl8367b_smi_ops H smi sd67)
      (\<lambda>smi. rtl8367b_sw_dev H smi sd67 u parent)"
  unfolding rtl8366s_probe_def rtl8366rb_probe_def rtl8367_probe_def rtl8367b_probe_def driver_probe_def
    driver_start_def rtl8366s_switch_init_def rtl8366rb_switch_init_def rtl8367_switch_init_def
    rtl8367b_switch_init_def Let_def
  by (rule refl)+

lemma driver_ports:
  "0 < dev_ports (rtl8366s_sw_dev H smi sd u parent)" "0 < dev_ports (rtl8366rb_sw_dev H smi sd u parent)"
  "0 < dev_ports (rtl8367_sw_dev H smi sd67 u parent)" "0 < dev_ports (rtl8367b_sw_dev H smi sd67 u parent)"
  by (simp_all add: rtl8366s_sw_dev_def rtl8366rb_sw_dev_def rtl8367_sw_dev_def rtl8367b_sw_dev_def sw_dev_of_def)

lemma remove_same: "rtl8366rb_remove H = rtl8366s_remove H" "rtl8367_remove H = rtl8366s_remove H"
    "rtl8367b_remove H = rtl8366s_remove H"
  by (rule ext, simp add: rtl8366s_remove_def rtl8366rb_remove_def rtl8367_remove_def rtl8367b_remove_def
      rtl8366s_switch_cleanup_def rtl8366rb_switch_cleanup_def rtl8367_switch_cleanup_def
      rtl8367b_switch_cleanup_def split: option.splits)+

text \<open>
  \<open>fails_clean K m w\<close>: if the probe function \<open>m\<close> fails in \<open>w\<close>, lines, bus, driver memory and driver
  data are as before and the registry has at most the leftover above.
  \<open>removal_clean m rm w\<close>: if it succeeds, the removal \<open>rm\<close> afterwards restores them and the list of
  switches; one array of the switch, its port map, stays allocated.
\<close>

definition fails_clean :: "services \<Rightarrow> ('h world, unit) io \<Rightarrow> 'h world \<Rightarrow> bool" where
  "fails_clean K m w \<longleftrightarrow> (case m w of (Inr _, _) \<Rightarrow> True
    | (Inl e, w') \<Rightarrow> held w' = held w \<and> drvdata w' = None \<and> registry_leftover K e (switches w) (switches w'))"

definition removal_clean :: "('h world, unit) io \<Rightarrow> ('h world \<Rightarrow> 'h world) \<Rightarrow> 'h world \<Rightarrow> bool" where
  "removal_clean m rm w \<longleftrightarrow> (case m w of (Inl _, _) \<Rightarrow> True
    | (Inr _, w') \<Rightarrow> held (rm w') = held w \<and> drvdata (rm w') = None
        \<and> swdevs (switches (rm w')) = swdevs (switches w)
        \<and> sw_mem (switches (rm w')) = sw_mem (switches w) + 1)"

definition take_smi :: "resources \<Rightarrow> resources" where
  "take_smi r = r\<lparr>smi_allocated := smi_allocated r + 1\<rparr>"

lemma smi_probe_effect:
  fixes w :: "'h world" and K :: services and pdev :: platform_device
  defines "m \<equiv> rtl8366_smi_probe K pdev w"
  shows "switches (snd m) = switches w" "drvdata (snd m) = drvdata w"
    "fst m = Inl e \<Longrightarrow> held (snd m) = held w" "fst m = Inr None \<Longrightarrow> snd m = w"
    "fst m = Inr (Some smi) \<Longrightarrow> held (snd m) = take_smi (held w)"
  by (auto simp: m_def rtl8366_smi_probe_def rtl8366_smi_alloc_def kfree_smi_def take_smi_def
      split: sum.splits option.splits if_splits)

lemma kfree_effect:
  "switches (kfree_smi w) = switches w" "drvdata (kfree_smi w) = drvdata w"
  "held w = take_smi r \<Longrightarrow> held (kfree_smi w) = r"
  by (simp_all add: kfree_smi_def take_smi_def)

lemma driver_probe_failed:
  assumes fail: "fst (driver_probe K H pdev fill ops dev w) = Inl e" and new: "drvdata w = None"
    and reg: "registry_ok (bits_per_long K) (switches w)" "\<And>smi. 0 < dev_ports (dev smi)"
  defines "w' \<equiv> snd (driver_probe K H pdev fill ops dev w)"
  shows "held w' = held w \<and> drvdata w' = None \<and> registry_leftover K e (switches w) (switches w')"
proof -
  obtain p w1 where p: "rtl8366_smi_probe K pdev w = (p, w1)" by fastforce
  note eff = smi_probe_effect [of K pdev w, unfolded p, simplified]
  consider (err) e where "p = Inl e" | (null) "p = Inr None" | (smi) smi0 where "p = Inr (Some smi0)"
    by (metis option.exhaust sum.exhaust)
  then show ?thesis
  proof cases
    case (smi smi0)
    let ?m = "driver_start K H pdev (fill smi0) (ops (fill smi0)) (dev (fill smi0))"
    have "fst (?m w1) = Inl e" using fail p smi by (simp add: driver_probe_def fst_bindE fst_unwindE)
    moreover from this have "w' = kfree_smi (snd (?m w1))"
      using p smi by (simp add: w'_def driver_probe_def snd_bindE snd_unwindE)
    ultimately show ?thesis
      using driver_start_failed [of K H pdev "fill smi0" "ops (fill smi0)" "dev (fill smi0)" w1 e]
        eff new smi reg by (simp add: kfree_effect)
  qed (use eff new p in \<open>auto simp: w'_def driver_probe_def snd_bindE\<close>)
qed

lemma driver_probe_done:
  assumes fin: "fst (driver_probe K H pdev fill ops dev w) = Inr ()"
  defines "w' \<equiv> snd (driver_probe K H pdev fill ops dev w)"
  obtains smi0 d where "held w' = take_mii (take_bus (fill smi0) (take_smi (held w)))"
    "drvdata w' = Some (fill smi0)"
    "register_switch (bits_per_long K) (portbuf_ok K) (portmap_ok K) (led_trigger_err K) [] (dev (fill smi0)) (switches w) =
       (Inr d, switches w')" "sw_dev_id w' = dev_id d"
proof -
  obtain p w1 where p: "rtl8366_smi_probe K pdev w = (p, w1)" by fastforce
  note eff = smi_probe_effect [of K pdev w, unfolded p, simplified]
  obtain smi0 where smi: "p = Inr (Some smi0)"
    using fin p by (auto simp: driver_probe_def fst_bindE split: sum.splits option.splits)
  let ?m = "driver_start K H pdev (fill smi0) (ops (fill smi0)) (dev (fill smi0))"
  have ok: "fst (?m w1) = Inr ()" using fin p smi by (simp add: driver_probe_def fst_bindE fst_unwindE)
  then have w': "w' = snd (?m w1)"
    using p smi by (simp add: w'_def driver_probe_def snd_bindE snd_unwindE)
  show thesis
    by (rule driver_start_done [OF ok]) (rule that, use eff smi in \<open>auto simp: w'\<close>)
qed

lemma take_bus_smi: "take_bus smi (take_smi r) = take_smi (take_bus smi r)"
  "take_mii (take_smi r) = take_smi (take_mii r)"
  by (simp_all add: take_bus_def take_smi_def take_mii_def take_gpio_def)

lemma remove_gives_back:
  assumes "held w = take_mii (take_bus smi (take_smi r))" "drvdata w = Some smi"
  shows "held (rtl8366s_remove H w) = r" "drvdata (rtl8366s_remove H w) = None"
    "switches (rtl8366s_remove H w) = unregister_switch (sw_dev_id w) (switches w)"
proof -
  have "held (rtl8366_smi_cleanup H smi (set_drvdata None (rtl8366s_switch_cleanup w))) = take_smi r"
    using assms(1) by (intro cleanup_undoes_init) (simp add: set_drvdata_def rtl8366s_switch_cleanup_def)
  then show "held (rtl8366s_remove H w) = r"
    by (simp add: rtl8366s_remove_def assms(2) kfree_effect)
  show "drvdata (rtl8366s_remove H w) = None"
    "switches (rtl8366s_remove H w) = unregister_switch (sw_dev_id w) (switches w)"
    by (simp_all add: rtl8366s_remove_def assms(2) kfree_effect silent_world set_drvdata_def
        rtl8366s_switch_cleanup_def)
qed

end
