(* ===== verification/Startup.thy ===== *)
theory Startup
  imports Probe_Properties Rtl8366s_Chip Rtl8366rb_Chip
begin

text \<open>
  Starting a chip that answers: detection, reset, set-up, the VLANs of the ports, port
  enabling. The sequence of \<open>rtl8366_smi_init\<close> is run once in the VLAN contract and then
  for each chip.
\<close>

section \<open>The sequence on the driver's state\<close>

definition start_up :: "'h platform \<Rightarrow> rtl8366_smi \<Rightarrow> ('h smi_state) rtl8366_smi_ops \<Rightarrow> ('h smi_state, unit) io" where
  "start_up H smi ops =
    bindE (detect ops) (\<lambda>_.
    bindE (rtl8366_reset H smi (reset_chip ops)) (\<lambda>_.
    bindE (chip_setup ops) (\<lambda>_.
    bindE (rtl8366_init_vlan smi ops) (\<lambda>_.
    rtl8366_smi_enable_all_ports smi ops True))))"

lemma on_board_bindE: "bindE (on_board m) (\<lambda>x. bindE (on_board (k x)) l) = bindE (on_board (bindE m k)) l"
  by (rule ext) (auto simp: bindE_def on_board_def split: prod.splits sum.splits)

lemma smi_init_start_up:
  "rtl8366_smi_init K H pdev smi (Some ops) =
    bindE (rtl8366_smi_init0 K H smi) (\<lambda>_.
    unwindE (bindE (on_board (start_up H smi ops)) (\<lambda>_. rtl8366_smi_mii_init K pdev))
      (rtl8366_smi_cleanup0 H smi))"
  by (simp add: rtl8366_smi_init_def start_up_def on_board_bindE)

lemma board_mii_init: "board (snd (rtl8366_smi_mii_init K pdev w)) = board w"
  by (auto simp: rtl8366_smi_mii_init_def snd_bindE snd_unwindE mdiobus_alloc_def mdiobus_register_def
      mdiobus_free_def Let_def split: sum.splits option.splits)

lemma smi_init_runs:
  assumes "fst (rtl8366_smi_init0 K H smi w) = Inr ()"
    and "fst (start_up H smi ops (board (snd (rtl8366_smi_init0 K H smi w)))) = Inr ()"
    and "mdiobus_alloc_ok K" "mdiobus_register_err K = None" "of_mdiobus_register_err K = None"
  shows "fst (rtl8366_smi_init K H pdev smi (Some ops) w) = Inr ()
    \<and> board (snd (rtl8366_smi_init K H pdev smi (Some ops) w)) =
      snd (start_up H smi ops (board (snd (rtl8366_smi_init0 K H smi w))))"
proof -
  have mii: "fst (rtl8366_smi_mii_init K pdev v) = Inr ()" for v :: "'a world"
    using assms(3-) by (simp add: rtl8366_smi_mii_init_def fst_bindE fst_unwindE mdiobus_alloc_def
        mdiobus_register_def Let_def)
  show ?thesis
    using assms(1,2) mii
    by (auto simp: smi_init_start_up fst_bindE snd_bindE fst_unwindE snd_unwindE board_mii_init
        on_board_def split: prod.splits sum.splits)
qed

context vlan_switch
begin

lemma start_up_run:
  assumes "fst (detect ops s) = Inr ()"
    and reset: "fst (rtl8366_reset H smi (reset_chip ops) (snd (detect ops s))) = Inr ()"
      "ready (snd (rtl8366_reset H smi (reset_chip ops) (snd (detect ops s))))"
    and chip_setup: "succeeds ready (chip_setup ops)"
    and ports: "num_ports smi \<le> num_vlan_mc smi" "num_ports smi \<le> 4095"
      "\<forall>p < num_ports smi. ucast (init_vlan_mask smi p) \<le> mmax"
    and enable: "\<And>t. ready t \<Longrightarrow> let t' = snd (rtl8366_smi_enable_all_ports smi ops True t)
      in fst (rtl8366_smi_enable_all_ports smi ops True t) = Inr () \<and> view t' = view t
         \<and> modes t' = modes t \<and> flags t' = flags t \<and> on t'"
  defines "s' \<equiv> snd (start_up H smi ops s)"
  shows "fst (start_up H smi ops s) = Inr () \<and> port_vlans u (num_vlan_mc smi) smi (num_ports smi) (view s')
    \<and> vlan_enabled s' = 1 \<and> flags_mirror k4 modes s' \<and> on s'"
proof -
  let ?s1 = "snd (rtl8366_reset H smi (reset_chip ops) (snd (detect ops s)))"
  let ?s2 = "snd (chip_setup ops ?s1)"
  let ?s3 = "snd (rtl8366_init_vlan smi ops ?s2)"
  have s2: "fst (chip_setup ops ?s1) = Inr ()" "ready ?s2"
    using succeeds_unit [OF chip_setup reset(2)] by simp_all
  note s3 = init_vlan_run [OF s2(2) ports]
  have r3: "ready ?s3" using s3(3) by (simp add: steady_def)
  have run: "start_up H smi ops s = rtl8366_smi_enable_all_ports smi ops True ?s3"
    using assms(1) reset(1) s2(1) s3(1)
    by (simp add: start_up_def bindE_def split_def)
  have "vlan_enabled s' = vlan_enabled ?s3" "vlan4k_enabled s' = vlan4k_enabled ?s3"
    using enable [OF r3] flags_cong [of s' ?s3] by (simp_all add: s'_def run Let_def)
  then show ?thesis
    using enable [OF r3] s3 by (simp add: s'_def run Let_def steady_def flags_mirror_def)
qed

end

section \<open>The chips\<close>

definition setup_ok :: "setup_data \<Rightarrow> bool" where
  "setup_ok sd \<longleftrightarrow> (case of_initvals sd of None \<Rightarrow> True | Some (len, cells) \<Rightarrow> 8 \<le> len)"

context reg_bus
begin

lemma initvals_succeed [succeeds_intros]: "succeeds ready (write_initvals H smi rvs)"
  by (induction rvs) (auto intro: succeeds_intros)

end

context rtl8366s_chip
begin

lemma setup_succeeds: "setup_ok sd' \<Longrightarrow> succeeds ready (rtl8366s_setup H smi sd')"
  unfolding rtl8366s_setup_def rtl8366s_set_green_def rtl8366s_set_green_port_def
    rtl8366s_read_phy_reg_def rtl8366s_write_phy_reg_def setup_ok_def
  by (intro succeeds_intros) (auto split: option.splits prod.splits simp: word_less_nat_alt
      word_le_nat_alt unat_of_nat intro!: succeeds_intros)

lemma enable_all_ports_chip:
  assumes "ready t"
  defines "m \<equiv> rtl8366_smi_enable_all_ports smi (rtl8366s_smi_ops H smi sd) True"
  shows "let t' = snd (m t) in fst (m t) = Inr () \<and> chip_view (chip t') = chip_view (chip t)
    \<and> chip_modes (chip t') = chip_modes (chip t) \<and> flags t' = flags t
    \<and> (\<forall>i < 6. \<not> bit (chip_rd (chip t') 1) i)"
proof -
  have p: "rtl8366s_plain 1" by (simp add: rtl8366s_plain_def)
  have n: "i < 16 \<Longrightarrow> w < 2 \<Longrightarrow> mc_word i w \<noteq> 1" "q < 6 \<Longrightarrow> idx_word q \<noteq> 1" for i w q
    by (auto dest!: arg_cong [of _ _ unat] simp: unat_mc_word unat_idx_word)
  have "chip_rd (chip_wr c 1 v) 1 = v"
    "(chip_view (chip_wr c 1 v), chip_modes (chip_wr c 1 v)) = (chip_view c, chip_modes c)" for c v
    by (auto simp: chip_view_def chip_modes_def chip_laws p n fun_eq_iff intro!: vlan_view.equality)
  with clear_bits_loop [of 1 "\<lambda>c. (chip_view c, chip_modes c)" t 6] assms(1)
  show ?thesis
    by (simp add: m_def rtl8366_smi_enable_all_ports_def ports rtl8366s_smi_ops_def rtl8366s_enable_port_def Let_def)
qed

end

context rtl8366rb_chip
begin

lemma setup_succeeds: "setup_ok sd' \<Longrightarrow> succeeds ready (rtl8366rb_setup H smi sd')"
  unfolding rtl8366rb_setup_def setup_ok_def
  by (intro succeeds_intros) (auto split: option.splits prod.splits intro!: succeeds_intros)

lemma enable_all_ports_chip:
  assumes "ready t"
  defines "m \<equiv> rtl8366_smi_enable_all_ports smi (rtl8366rb_smi_ops H smi sd) True"
  shows "let t' = snd (m t) in fst (m t) = Inr () \<and> chip_view (chip t') = chip_view (chip t)
    \<and> chip_modes (chip t') = chip_modes (chip t) \<and> flags t' = flags t
    \<and> (\<forall>i < 6. \<not> bit (chip_rd (chip t') 1) i)"
proof -
  have p: "rtl8366rb_plain 1" by (simp add: rtl8366rb_plain_def)
  have n: "i < 16 \<Longrightarrow> w < 3 \<Longrightarrow> rb_mc_word i w \<noteq> 1" "q < 6 \<Longrightarrow> rb_idx_word q \<noteq> 1" for i w q
    by (auto dest!: arg_cong [of _ _ unat] simp: rb_unat_mc_word rb_unat_idx_word)
  have "chip_rd (chip_wr c 1 v) 1 = v"
    "(chip_view (chip_wr c 1 v), chip_modes (chip_wr c 1 v)) = (chip_view c, chip_modes c)" for c v
    by (auto simp: chip_view_def chip_modes_def chip_laws p n fun_eq_iff intro!: vlan_view.equality)
  with clear_bits_loop [of 1 "\<lambda>c. (chip_view c, chip_modes c)" t 6] assms(1)
  show ?thesis
    by (simp add: m_def rtl8366_smi_enable_all_ports_def ports rtl8366rb_smi_ops_def rtl8366rb_enable_port_def Let_def)
qed

end

lemma port_masks_fit:
  "(p :: nat) < 6 \<Longrightarrow> ucast (init_vlan_mask (rtl8366s_smi smi0) p) \<le> (0x3F :: u16)"
  "p < 6 \<Longrightarrow> ucast (init_vlan_mask (rtl8366rb_smi smi0) p) \<le> (0xFF :: u16)"
proof -
  have "p < 6 \<Longrightarrow> p = 0 \<or> p = 1 \<or> p = 2 \<or> p = 3 \<or> p = 4 \<or> p = 5" by presburger
  then show "p < 6 \<Longrightarrow> ucast (init_vlan_mask (rtl8366s_smi smi0) p) \<le> (0x3F :: u16)"
    "p < 6 \<Longrightarrow> ucast (init_vlan_mask (rtl8366rb_smi smi0) p) \<le> (0xFF :: u16)"
    by (auto simp: init_vlan_mask_def rtl8366s_smi_def rtl8366rb_smi_def)
qed

lemma smi_geometry:
  "num_ports (rtl8366s_smi smi0) = 6" "num_vlan_mc (rtl8366s_smi smi0) = 16"
  "num_ports (rtl8366rb_smi smi0) = 6" "num_vlan_mc (rtl8366rb_smi smi0) = 16"
  by (simp_all add: rtl8366s_smi_def rtl8366rb_smi_def)

lemma rtl8366s_start_up:
  assumes "rtl8366s_chip H smi ready chip chip_rd chip_wr vtable" "smi = rtl8366s_smi smi0"
    and "setup_ok sd" "ready b" "chip_rd (chip b) 0x105 = 0x8366"
  defines "b1 \<equiv> snd (rtl8366s_detect H smi b)"
  assumes "fst (rtl8366_reset H smi (rtl8366s_reset_chip H smi) b1) = Inr ()"
    and "ready (snd (rtl8366_reset H smi (rtl8366s_reset_chip H smi) b1))"
  defines "b' \<equiv> snd (start_up H smi (rtl8366s_smi_ops H smi sd) b)"
  shows "fst (start_up H smi (rtl8366s_smi_ops H smi sd) b) = Inr ()
    \<and> port_vlans True 16 smi 6 (rtl8366s_chip.chip_view chip_rd vtable (chip b')) \<and> vlan_enabled b' = 1
    \<and> flags_mirror True (\<lambda>s. rtl8366s_chip.chip_modes chip_rd (chip s)) b'
    \<and> (\<forall>i < 6. \<not> bit (chip_rd (chip b') 1) i)"
proof -
  have bus: "reg_bus H smi ready chip chip_rd chip_wr"
    using assms(1) by (rule rtl8366s_chip.axioms(1))
  have det: "fst (rtl8366s_detect H smi b) = Inr ()"
    using assms(4,5) by (simp add: rtl8366s_detect_def fst_bindE reg_bus.bus_simps [OF bus])
  show ?thesis
    using vlan_switch.start_up_run [OF rtl8366s_chip.sw_vlan_switch [OF assms(1)], where s = b and H = H
        and sd1 = sd and on = "\<lambda>s. \<forall>i < 6. \<not> bit (chip_rd (chip s) 1) i"]
      rtl8366s_chip.enable_all_ports_chip [OF assms(1), of _ sd]
      rtl8366s_chip.setup_succeeds [OF assms(1,3)] port_masks_fit(1) [of _ smi0] det assms(2,7,8)
    by (simp add: rtl8366s_smi_ops_def smi_geometry b'_def b1_def)
qed

lemma rtl8366rb_start_up:
  assumes "rtl8366rb_chip H smi ready chip chip_rd chip_wr vtable" "smi = rtl8366rb_smi smi0"
    and "setup_ok sd" "ready b" "chip_rd (chip b) 0x509 = 0x5937"
  defines "b1 \<equiv> snd (rtl8366rb_detect H smi b)"
  assumes "fst (rtl8366_reset H smi (rtl8366rb_reset_chip H smi) b1) = Inr ()"
    and "ready (snd (rtl8366_reset H smi (rtl8366rb_reset_chip H smi) b1))"
  defines "b' \<equiv> snd (start_up H smi (rtl8366rb_smi_ops H smi sd) b)"
  shows "fst (start_up H smi (rtl8366rb_smi_ops H smi sd) b) = Inr ()
    \<and> port_vlans True 16 smi 6 (rtl8366rb_chip.chip_view chip_rd vtable (chip b')) \<and> vlan_enabled b' = 1
    \<and> flags_mirror True (\<lambda>s. rtl8366rb_chip.chip_modes chip_rd (chip s)) b'
    \<and> (\<forall>i < 6. \<not> bit (chip_rd (chip b') 1) i)"
proof -
  have bus: "reg_bus H smi ready chip chip_rd chip_wr"
    using assms(1) by (rule rtl8366rb_chip.axioms(1))
  have det: "fst (rtl8366rb_detect H smi b) = Inr ()"
    using assms(4,5) by (simp add: rtl8366rb_detect_def fst_bindE reg_bus.bus_simps [OF bus])
  show ?thesis
    using vlan_switch.start_up_run [OF rtl8366rb_chip.sw_vlan_switch [OF assms(1)], where s = b and H = H
        and sd1 = sd and on = "\<lambda>s. \<forall>i < 6. \<not> bit (chip_rd (chip s) 1) i"]
      rtl8366rb_chip.enable_all_ports_chip [OF assms(1), of _ sd]
      rtl8366rb_chip.setup_succeeds [OF assms(1,3)] port_masks_fit(2) [of _ smi0] det assms(2,7,8)
    by (simp add: rtl8366rb_smi_ops_def smi_geometry b'_def b1_def)
qed

end
