(* ===== verification/Lifecycle_Properties.thy ===== *)
theory Lifecycle_Properties
  imports Startup Vlan_Properties
begin

text \<open>
  The life cycle of the drivers: what a successful start has configured, what a failed one
  leaves behind, what removal gives back, and the numbering of switches.
\<close>

section \<open>A reference world\<close>

definition bench_services :: services where
  "bench_services = \<lparr>gpio_request_err = (\<lambda>n gs. if n \<in> set gs then Some EBUSY else None),
     gpio_is_valid = (\<lambda>n. 0 \<le> n \<and> n < 512), kzalloc_ok = True, mdiobus_alloc_ok = True,
     mdiobus_register_err = None, of_mdiobus_register_err = None, portbuf_ok = True,
     portmap_ok = True, led_trigger_err = None, bits_per_long = 64\<rparr>"

definition bench_pdev :: platform_device where
  "bench_pdev = \<lparr>of_node = Some \<lparr>named_gpio_sck = 2, named_gpio_sda = 1, mii_bus_phandle = True,
     mii_bus_found = True, reset_control = False, mdio_bus_child = False\<rparr>, platform_data = None\<rparr>"

definition world_of :: "'h smi_state \<Rightarrow> 'h world" where
  "world_of s = \<lparr>board = s, held = \<lparr>gpios_held = [], mii_allocated = 0, mii_registered = 0,
     smi_allocated = 0\<rparr>, switches = \<lparr>swdev_id = 0, swdevs = [], sw_mem = 0\<rparr>, drvdata = None, sw_dev_id = 0\<rparr>"

definition benchS_fresh :: "regfile mdio_bench smi_state" where
  "benchS_fresh = benchS_state\<lparr>hw := (hw benchS_state)\<lparr>bench_dev :=
     \<lparr>regs = (\<lambda>_. 0)(0x105 := 0x8366), vtab = (\<lambda>_. 0)\<rparr>\<rparr>\<rparr>"

lemma bench_write_bits: "rtl8366_smi_write_bits (bench_platform rd wr) smi data n h = h"
  by (induction n) (simp_all add: bench_platform_def rtl8366_smi_clk_delay_def Let_def)

lemma bench_write_byte: "rtl8366_smi_write_byte (bench_platform rd wr) smi b h = (Inr (), h)"
proof -
  have "rtl8366_smi_read_bits (bench_platform rd wr) smi 1 h = (0, h)"
    by (simp add: rtl8366_smi_read_bits_def bench_platform_def rtl8366_smi_clk_delay_def Let_def)
  then show ?thesis
    by (simp add: rtl8366_smi_write_byte_def bench_write_bits rtl8366_smi_wait_for_ack_def
        wait_ack_loop.simps)
qed

lemma bench_noack:
  "hw (snd (rtl8366_smi_write_reg_noack (bench_platform rd wr) smi a v s)) = hw s"
proof -
  have "smi_write_frame (bench_platform rd wr) smi a v False h = (Inr (), h)" for h
    by (simp add: smi_write_frame_def bindE_def bench_write_byte rtl8366_smi_write_byte_noack_def
        bench_write_bits)
  moreover have "rtl8366_smi_start (bench_platform rd wr) smi h = h"
    "rtl8366_smi_stop (bench_platform rd wr) smi h = h" for h
    by (simp_all add: rtl8366_smi_start_def rtl8366_smi_stop_def rtl8366_smi_clk_delay_def
        bench_platform_def Let_def)
  ultimately show ?thesis
    by (simp add: rtl8366_smi_write_reg_noack_def rtl8366_smi_write_reg_gpio_def smi_transaction_def
        spin_lock_irqsave_def spin_unlock_irqrestore_def on_hw_def split_def Let_def)
qed

lemma benchS_smi_start:
  "rtl8366_smi_init0 K H benchS_smi w = (Inr (), w\<lparr>board := (board w)\<lparr>lock := False\<rparr>\<rparr>)"
  by (simp add: rtl8366_smi_init0_def smi_start_switch_def benchS_smi_def rtl8366s_smi_def bench_smi_def Let_def)

lemma benchS_reset:
  assumes "regs (bench_dev (hw s)) 0x100 AND 1 = 0"
  shows "fst (rtl8366_reset benchS benchS_smi (rtl8366s_reset_chip benchS benchS_smi) s) = Inr ()"
proof -
  let ?s1 = "snd (rtl8366_smi_write_reg_noack benchS benchS_smi 0x100 1 s)"
  have sleep: "on_hw (msleep benchS 1) ?s1 = ?s1" by (simp add: on_hw_def bench_platform_def)
  have rd: "fst (rtl8366_smi_read_reg benchS benchS_smi 0x100 ?s1) = Inr (ucast (regs (bench_dev (hw s)) 0x100))"
    by (simp add: benchS_bus.read_ok bench_noack)
  have "(ucast (regs (bench_dev (hw s)) 0x100) AND 1 :: u32) = ucast (regs (bench_dev (hw s)) 0x100 AND 1)"
    by (rule bit_word_eqI) (auto simp: bit_simps)
  then have "fst (rtl8366s_reset_poll benchS benchS_smi (Suc 9) ?s1) = Inr ()"
    using rd assms unfolding rtl8366s_reset_poll.simps(2) sleep
    by (cases "rtl8366_smi_read_reg benchS benchS_smi 0x100 ?s1") simp
  then show ?thesis
    by (simp add: rtl8366_reset_def rtl8366s_reset_chip_def fst_bindE benchS_smi_def rtl8366s_smi_def
        bench_smi_def)
qed

section \<open>A successful start\<close>


lemma benchS_chip_loc: "rtl8366s_chip benchS benchS_smi (\<lambda>_. True) (\<lambda>s. bench_dev (hw s)) regs regfile_wr vtab"
  by (rule benchS_chip.rtl8366s_chip_axioms)

lemma bench_services_ok:
  "mdiobus_alloc_ok bench_services" "mdiobus_register_err bench_services = None"
  "of_mdiobus_register_err bench_services = None"
  by (simp_all add: bench_services_def)

lemma bench_services_simps:
  "portbuf_ok bench_services" "portmap_ok bench_services" "led_trigger_err bench_services = None" "bits_per_long bench_services = 64"
  by (simp_all add: bench_services_def)

lemma benchS_answers:
  assumes "w = world_of benchS_fresh"
  shows "regs (bench_dev (hw (board (snd (rtl8366_smi_init0 K benchS benchS_smi w))))) 0x105 = 0x8366"
    "fst (rtl8366_reset benchS benchS_smi (rtl8366s_reset_chip benchS benchS_smi)
       (snd (rtl8366s_detect benchS benchS_smi (board (snd (rtl8366_smi_init0 K benchS benchS_smi w)))))) = Inr ()"
proof -
  have w: "board (snd (rtl8366_smi_init0 K benchS benchS_smi w)) = benchS_fresh"
    by (simp add: assms benchS_smi_start world_of_def benchS_fresh_def benchS_state_def)
  show "regs (bench_dev (hw (board (snd (rtl8366_smi_init0 K benchS benchS_smi w))))) 0x105 = 0x8366"
    unfolding w by (simp add: benchS_fresh_def benchS_state_def)
  have "regs (bench_dev (hw (snd (rtl8366s_detect benchS benchS_smi benchS_fresh)))) 0x100 = 0"
    by (simp add: rtl8366s_detect_def snd_bindE benchS_bus.bus_simps benchS_fresh_def benchS_state_def)
  then show "fst (rtl8366_reset benchS benchS_smi (rtl8366s_reset_chip benchS benchS_smi)
       (snd (rtl8366s_detect benchS benchS_smi (board (snd (rtl8366_smi_init0 K benchS benchS_smi w)))))) = Inr ()"
    unfolding w by (intro benchS_reset) simp
qed









section \<open>Failure and removal\<close>

text \<open>
  C10. A probe that fails, at whatever step, gives back the GPIO lines, the MII bus and the driver's
  memory, and the device has no driver data, for all four drivers. In the registry of switches it
  leaves the list and the memory as they were, with two exceptions, in which the registration keeps
  the arrays \<open>portbuf\<close> and \<open>portmap\<close> allocated: when all numbers are taken (\<open>ENFILE\<close>), and when
  the LED trigger cannot be created; then the switch also stays on the list, although the structure
  that holds it has been freed.
\<close>
theorem probe_failure_releases:
  assumes "drvdata w = None" "registry_reachable (bits_per_long K) (switches w)"
  shows "fails_clean K (rtl8366s_probe K H sd u parent pdev) w
    \<and> fails_clean K (rtl8366rb_probe K H sd u parent pdev) w
    \<and> fails_clean K (rtl8367_probe K H sd67 u parent pdev) w
    \<and> fails_clean K (rtl8367b_probe K H sd67 cpu u parent pdev) w"
proof -
  have "fails_clean K (driver_probe K H pdev fill ops dev) w" if "\<And>smi. 0 < dev_ports (dev smi)" for fill ops dev
    using driver_probe_failed [OF _ assms(1) reachable_registry_ok [OF assms(2)], of H pdev fill ops dev] that
    by (auto simp: fails_clean_def split: prod.splits sum.splits)
  then show ?thesis unfolding probe_as_driver by (simp add: driver_ports)
qed

theorem probe_failure_releases_witness:
  "case rtl8366s_probe (bench_services\<lparr>mdiobus_alloc_ok := False\<rparr>) benchS bench_setup 0 ''switch''
      bench_pdev (world_of benchS_fresh) of (Inr _, _) \<Rightarrow> True
   | (Inl e, w') \<Rightarrow> smi_allocated (held w') = 0 \<and> swdevs (switches w') = [] \<and> sw_mem (switches w') = 0"
proof -
  have "registry_reachable (bits_per_long (bench_services\<lparr>mdiobus_alloc_ok := False\<rparr>)) (switches (world_of benchS_fresh))"
    by (simp add: world_of_def registry_reachable.boot)
  moreover have "drvdata (world_of benchS_fresh) = None" by (simp add: world_of_def)
  ultimately have "fails_clean (bench_services\<lparr>mdiobus_alloc_ok := False\<rparr>)
      (rtl8366s_probe (bench_services\<lparr>mdiobus_alloc_ok := False\<rparr>) benchS bench_setup 0 ''switch'' bench_pdev)
      (world_of benchS_fresh)"
    using probe_failure_releases by blast
  then show ?thesis
    by (auto simp: fails_clean_def registry_leftover_def world_of_def bench_services_def dest: spec [of _ 0]
        split: prod.splits sum.splits)
qed

text \<open>
  C11. Removing a device after a successful probe gives back the GPIO lines, the MII bus, the
  driver's memory and the driver data and takes the switch off the list, for all four drivers. Of
  the two arrays of the registration one stays allocated: \<open>unregister_switch\<close> frees \<open>portbuf\<close> but
  never \<open>portmap\<close>.
\<close>
theorem remove_undoes_probe:
  assumes "registry_reachable (bits_per_long K) (switches w)"
  shows "removal_clean (rtl8366s_probe K H sd u parent pdev) (rtl8366s_remove H) w
    \<and> removal_clean (rtl8366rb_probe K H sd u parent pdev) (rtl8366rb_remove H) w
    \<and> removal_clean (rtl8367_probe K H sd67 u parent pdev) (rtl8367_remove H) w
    \<and> removal_clean (rtl8367b_probe K H sd67 cpu u parent pdev) (rtl8367b_remove H) w"
proof -
  have "held (rtl8366s_remove H w') = held w \<and> drvdata (rtl8366s_remove H w') = None
      \<and> swdevs (switches (rtl8366s_remove H w')) = swdevs (switches w)
      \<and> sw_mem (switches (rtl8366s_remove H w')) = sw_mem (switches w) + 1"
    if ports: "\<And>smi. 0 < dev_ports (dev smi)" and run: "driver_probe K H pdev fill ops dev w = (Inr (), w')" for fill ops dev w'
  proof -
    have ok: "fst (driver_probe K H pdev fill ops dev w) = Inr ()" and s: "snd (driver_probe K H pdev fill ops dev w) = w'"
      using run by simp_all
    obtain smi0 d where d: "held w' = take_mii (take_bus (fill smi0) (take_smi (held w)))" "drvdata w' = Some (fill smi0)"
      "register_switch (bits_per_long K) (portbuf_ok K) (portmap_ok K) (led_trigger_err K) [] (dev (fill smi0)) (switches w) =
         (Inr d, switches w')" "sw_dev_id w' = dev_id d"
      using driver_probe_done [OF ok, unfolded s] by metis
    show ?thesis
      using unregister_undoes_register [OF reachable_registry_ok [OF assms] d(3)] ports
      by (simp add: remove_gives_back [OF d(1,2)] d(4))
  qed
  then have "removal_clean (driver_probe K H pdev fill ops dev) (rtl8366s_remove H) w"
    if "\<And>smi. 0 < dev_ports (dev smi)" for fill ops dev
    using that by (auto simp: removal_clean_def split: prod.splits sum.splits)
  then show ?thesis unfolding probe_as_driver remove_same by (simp add: driver_ports)
qed

lemma benchS_probe:
  "fst (rtl8366s_probe bench_services benchS bench_setup 0 ''switch'' bench_pdev (world_of benchS_fresh)) = Inr ()"
proof -
  let ?w = "world_of benchS_fresh"
  have sd: "setup_ok bench_setup" by (simp add: setup_ok_def bench_setup_def)
  have smi: "rtl8366s_smi (zero_smi\<lparr>has_ext_mbus := True\<rparr>) = benchS_smi"
    by (simp add: benchS_smi_def bench_smi_def zero_smi_def)
  obtain w1 where w1: "rtl8366_smi_probe bench_services bench_pdev ?w = (Inr (Some (zero_smi\<lparr>has_ext_mbus := True\<rparr>)), w1)"
    "board w1 = benchS_fresh" "switches w1 = switches ?w"
    by (simp add: rtl8366_smi_probe_def rtl8366_smi_alloc_def rtl8366_smi_probe_of_def bench_pdev_def
        bench_services_def world_of_def benchS_fresh_def benchS_state_def)
  let ?b = "board (snd (rtl8366_smi_init0 bench_services benchS benchS_smi ?w))"
  have "fst (start_up benchS benchS_smi benchS_ops ?b) = Inr ()"
    using rtl8366s_start_up [OF benchS_chip_loc benchS_smi_def sd TrueI benchS_answers [OF refl] TrueI]
    by simp
  then have i: "fst (rtl8366_smi_init bench_services benchS bench_pdev benchS_smi (Some benchS_ops) w1) = Inr ()"
    using smi_init_runs [of bench_services benchS benchS_smi w1 benchS_ops bench_pdev]
    by (simp add: bench_services_ok benchS_smi_start w1(2) world_of_def)
  have r: "\<exists>d r. register_switch 64 True True None [] dev (switches ?w) = (Inr d, r)" for dev :: "regfile mdio_bench smi_state switch_dev"
    by (simp add: world_of_def register_first)
  show ?thesis
    unfolding probe_as_driver driver_probe_def driver_start_def
    using i r [of "rtl8366s_sw_dev benchS benchS_smi bench_setup 0 ''switch''"] w1(3)
    by (auto simp: fst_bindE fst_unwindE w1(1) smi smi_init_rest set_drvdata_def on_switches_def
        bench_services_simps split: sum.splits prod.splits)
qed

theorem remove_undoes_probe_witness:
  "case rtl8366s_probe bench_services benchS bench_setup 0 ''switch'' bench_pdev (world_of benchS_fresh) of
     (Inl _, _) \<Rightarrow> False
   | (Inr _, w') \<Rightarrow> swdevs (switches (rtl8366s_remove benchS w')) = [] \<and> sw_mem (switches (rtl8366s_remove benchS w')) = 1"
proof -
  have "registry_reachable (bits_per_long bench_services) (switches (world_of benchS_fresh))"
    by (simp add: world_of_def registry_reachable.boot)
  from remove_undoes_probe [OF this, of benchS bench_setup 0 "''switch''" bench_pdev] benchS_probe
  show ?thesis by (auto simp: removal_clean_def world_of_def split: prod.splits sum.splits)
qed

section \<open>Numbering\<close>

text \<open>
  In every state that registrations and removals can reach, the switches have distinct
  names and distinct ids, an id finds its own switch, and registering does not write outside
  the bit map of used numbers.
\<close>
theorem registry_ids_unique:
  assumes "registry_reachable mx r"
  shows "distinct (map devname (swdevs r)) \<and> distinct (map dev_id (swdevs r))
    \<and> (\<forall>d \<in> set (swdevs r). \<forall>info. attr_ID info = Some (dev_id d) \<longrightarrow> swconfig_get_dev (swdevs r) info = Some d)
    \<and> fst (list_switch mx a1 a2 nodes dev r) \<noteq> Inl BUF_OVERRUN"
proof -
  note ok = reachable_registry_ok [OF assms]
  have "distinct (map devname (swdevs r))"
  proof -
    obtain "is" where "map devname (swdevs r) = map switch_name is" "distinct is"
      using ok by (auto simp: registry_ok_def)
    then show ?thesis using switch_name_inj by (simp add: distinct_map inj_on_subset [OF _ subset_UNIV])
  qed
  moreover have ids: "distinct (map dev_id (swdevs r))" using ok by (simp add: registry_ok_def)
  moreover have "find (\<lambda>p. dev_id d = dev_id p) (swdevs r) = Some d" if "d \<in> set (swdevs r)" for d
    using ids that by (rule find_by_key)
  moreover have "mx \<notin> set (used_numbers mx (swdevs r))"
    using ok used_numbers_names [of r _ mx] by (auto simp: registry_ok_def)
  ultimately show ?thesis
    by (auto simp: swconfig_get_dev_def list_switch_def Let_def split: if_splits)
qed

definition bench_registry :: "(regfile mdio_bench smi_state) registry" where
  "bench_registry = snd (register_switch 64 True True None [] (rtl8366s_sw_dev benchS benchS_smi bench_setup 0 ''switch'')
     \<lparr>swdev_id = 0, swdevs = [], sw_mem = 0\<rparr>)"

lemma bench_registry_reachable: "registry_reachable 64 bench_registry"
  unfolding bench_registry_def by (intro registry_reachable.register registry_reachable.boot)

lemma first_names: "switch_name 0 = ''switch0''" "switch_name 1 = ''switch1''"
  by code_simp+

lemma bench_registry_devs: "map devname (swdevs bench_registry) = [''switch0'']" "map dev_id (swdevs bench_registry) = [1]"
    "swdev_id bench_registry = 1" "sw_mem bench_registry = 2"
  by (simp_all add: bench_registry_def register_switch_registry list_switch_def port_arrays_def driver_ports used_numbers_def find_first_zero_bit_def upt_rec
      first_names Let_def map_filter_def swconfig_defaults_init_def)

theorem registry_ids_unique_witness:
  "fst (list_switch 64 True True [] (rtl8366s_sw_dev benchS benchS_smi bench_setup 0 ''switch'') bench_registry)
     \<noteq> Inl BUF_OVERRUN"
  using registry_ids_unique [OF bench_registry_reachable] by blast

text \<open>
  Registering a switch gives it the least number that no registered switch has, and the
  next id; it fails with \<open>ENFILE\<close> when every number is taken, and with the error of the LED trigger
  when that cannot be created, after the switch has been listed. Both arrays stay allocated then.
\<close>
theorem register_least_free:
  assumes "registry_reachable mx r" "swdev_id r < INT_MAX" "dev_ports dev > 0 \<longrightarrow> a1 \<and> a2"
  shows "if \<forall>i < mx. switch_name i \<in> devname ` set (swdevs r)
    then register_switch mx a1 a2 led nodes dev r =
      (Inl ENFILE, r\<lparr>swdev_id := swdev_id r + 1, sw_mem := sw_mem r + port_arrays dev\<rparr>)
    else \<exists>i dev'. i < mx \<and> switch_name i \<notin> devname ` set (swdevs r)
      \<and> (\<forall>j < i. switch_name j \<in> devname ` set (swdevs r))
      \<and> devname dev' = switch_name i \<and> dev_id dev' = of_nat (swdev_id r + 1)
      \<and> register_switch mx a1 a2 led nodes dev r =
          (case led_trigger_outcome led dev of Some e \<Rightarrow> Inl e | None \<Rightarrow> Inr dev',
           r\<lparr>swdev_id := swdev_id r + 1, swdevs := swdevs r @ [dev'], sw_mem := sw_mem r + port_arrays dev\<rparr>)"
proof (rule list_switch_ok [OF reachable_registry_ok [OF assms(1)] assms(2,3), of nodes], goal_cases)
  case 1
  then show ?case using register_switch_listed(2) [OF 1(2), of led] by simp
next
  case (2 i dev')
  have "led_trigger_outcome led dev' = led_trigger_outcome led dev" using 2 by (simp add: led_trigger_outcome_def)
  then have "register_switch mx a1 a2 led nodes dev r =
      (case led_trigger_outcome led dev of Some e \<Rightarrow> Inl e | None \<Rightarrow> Inr dev',
       r\<lparr>swdev_id := swdev_id r + 1, swdevs := swdevs r @ [dev'], sw_mem := sw_mem r + port_arrays dev\<rparr>)"
    using register_switch_listed(1) [OF 2(8), of led] by (simp split: option.split)
  then show ?case using 2 by auto
qed

theorem register_least_free_witness:
  "\<exists>dev'. register_switch 64 True True None [] (rtl8366s_sw_dev benchS benchS_smi bench_setup 0 ''switch'') bench_registry =
     (Inr dev', bench_registry\<lparr>swdev_id := 2, swdevs := swdevs bench_registry @ [dev'], sw_mem := 4\<rparr>)
   \<and> devname dev' = ''switch1''"
proof -
  have names: "devname ` set (swdevs bench_registry) = {''switch0''}"
    using bench_registry_devs(1) by (metis list.simps(15) list.set_map set_empty)
  note n = first_names
  have i: "i = 1" if "switch_name i \<noteq> ''switch0''" "\<forall>j < i. switch_name j = ''switch0''" for i
  proof -
    have "i \<noteq> 0" using that(1) n(1) by (cases i) simp_all
    moreover have "\<not> 1 < i"
    proof
      assume "1 < i"
      then have "switch_name 1 = ''switch0''" using that(2) by simp
      then show False unfolding n(2) by simp
    qed
    ultimately show ?thesis by simp
  qed
  let ?dev = "rtl8366s_sw_dev benchS benchS_smi bench_setup 0 ''switch''"
  have free: "\<not> (\<forall>i < 64. switch_name i \<in> devname ` set (swdevs bench_registry))"
    unfolding names using n(2) by (intro notI) (drule spec [of _ 1], simp)
  obtain j dev' where "switch_name j \<noteq> ''switch0''" "\<forall>k < j. switch_name k = ''switch0''"
    "devname dev' = switch_name j" "register_switch 64 True True None [] ?dev bench_registry =
      (Inr dev', bench_registry\<lparr>swdev_id := 2, swdevs := swdevs bench_registry @ [dev'], sw_mem := 4\<rparr>)"
    using register_least_free [OF bench_registry_reachable, of ?dev True True None "[]"]
    unfolding if_not_P [OF free]
    by (auto simp: names bench_registry_devs(3,4) led_trigger_outcome_def port_arrays_def driver_ports split: option.splits)
  then show ?thesis using i [of j] n(2) by auto
qed

end
