(* ===== verification/Request_Properties.thy ===== *)
theory Request_Properties
  imports Swconfig_Properties Lifecycle_Properties
begin

text \<open>
  Requests of the configuration layer, on their own and down to the chip: which requests
  reach a driver, what is listed, and port lists from the netlink message to the VLAN table
  and back.
\<close>

section \<open>Reaching a driver\<close>

text \<open>
  C13. A set request changes a switch only if the sender has the capability, the switch id
  and the attribute exist, and the port or VLAN number is in the range of the switch. Without
  the capability the answer is \<open>EPERM\<close>; an unknown switch gives \<open>EINVAL\<close>.
\<close>
theorem set_request_guarded:
  "(\<not> cap \<longrightarrow> swconfig_set_attr devs cap info s = (Inl EPERM, s))
  \<and> (cap \<and> swconfig_get_dev devs info = None \<longrightarrow> swconfig_set_attr devs cap info s = (Inl EINVAL, s))
  \<and> (snd (swconfig_set_attr devs cap info s) \<noteq> s \<longrightarrow>
      cap \<and> (\<exists>dev attr v f. swconfig_get_dev devs info = Some dev
        \<and> swconfig_lookup_attr dev info zero_val = (Some attr, v) \<and> attr_set attr = Some f
        \<and> (info_cmd info = SWITCH_CMD_SET_VLAN \<longrightarrow> attr_OP_VLAN info = Some (port_vlan v) \<and> port_vlan v < dev_vlans dev)
        \<and> (info_cmd info = SWITCH_CMD_SET_PORT \<longrightarrow> attr_OP_PORT info = Some (port_vlan v) \<and> port_vlan v < dev_ports dev)))"
proof -
  have look: "info_cmd info = SWITCH_CMD_SET_VLAN \<Longrightarrow> attr_OP_VLAN info = Some (port_vlan v) \<and> port_vlan v < dev_vlans dev"
    "info_cmd info = SWITCH_CMD_SET_PORT \<Longrightarrow> attr_OP_PORT info = Some (port_vlan v) \<and> port_vlan v < dev_ports dev"
    if "swconfig_lookup_attr dev info zero_val = (Some attr, v)" for attr v and dev :: "'a switch_dev"
    using that by (auto simp: swconfig_lookup_attr_def Let_def split: option.splits if_splits)
  have "cap \<and> (\<exists>dev attr v f. swconfig_get_dev devs info = Some dev
      \<and> swconfig_lookup_attr dev info zero_val = (Some attr, v) \<and> attr_set attr = Some f)"
    if "snd (swconfig_set_attr devs cap info s) \<noteq> s"
    using that by (auto simp: swconfig_set_attr_def split: if_splits option.splits prod.splits sum.splits)
  then show ?thesis using look
    by (auto simp: swconfig_set_attr_def failE_def)
qed

definition request :: "switch_cmd \<Rightarrow> u32 \<Rightarrow> u32 \<Rightarrow> genl_info" where
  "request cmd dev op = \<lparr>info_cmd = cmd, attr_ID = Some dev, attr_OP_ID = Some op, attr_OP_PORT = None,
     attr_OP_VLAN = None, attr_OP_VALUE_INT = None, attr_OP_VALUE_STR = None, attr_OP_VALUE_PORTS = None,
     attr_OP_VALUE_LINK = None\<rparr>"

theorem set_request_guarded_witness:
  "swconfig_set_attr (swdevs bench_registry) False (request SWITCH_CMD_SET_GLOBAL 1 0x1001) benchS_state =
     (Inl EPERM, benchS_state)"
  using set_request_guarded [of False "swdevs bench_registry" "request SWITCH_CMD_SET_GLOBAL 1 0x1001" benchS_state]
  by simp

section \<open>Lists\<close>

text \<open>
  A list request on a known switch reports, over as many messages as it takes, exactly
  the attributes that a get request with the same number finds: each message holds complete
  entries, and behind them at most attributes that belong to no header.
\<close>
theorem list_matches_lookup:
  fixes dev :: "'s switch_dev"
  assumes dev: "swconfig_get_dev devs info = Some dev"
    and cmds: "(lcmd, gcmd, alist, defs, act) \<in> {
      (SWITCH_CMD_LIST_GLOBAL, SWITCH_CMD_GET_GLOBAL, attr_global (dev_ops dev), default_global dev, def_global dev),
      (SWITCH_CMD_LIST_PORT, SWITCH_CMD_GET_PORT, attr_port (dev_ops dev), default_port dev, def_port dev),
      (SWITCH_CMD_LIST_VLAN, SWITCH_CMD_GET_VLAN, attr_vlan (dev_ops dev), default_vlan dev, def_vlan dev)}"
    and len: "length alist \<le> 0x1000" 
    and net: "netlink_laws N toks mark cap" "netlink_ok N cap (dump_list alist defs act)"
    and range: "attr_OP_PORT info = Some p" "p < dev_ports dev" "attr_OP_VLAN info = Some vid" "vid < dev_vlans dev"
  shows "\<exists>msgs es. swconfig_list_attrs N devs (info\<lparr>info_cmd := lcmd\<rparr>) = (Inr (), msgs)
    \<and> list_parts toks msgs es
    \<and> (\<forall>n i. (unat n, i) \<in> set es \<longleftrightarrow>
        (\<exists>attr. fst (swconfig_lookup_attr dev (info\<lparr>info_cmd := gcmd, attr_OP_ID := Some n\<rparr>) zero_val) = Some attr
          \<and> attr_info attr = i))"
proof -
  have run: "swconfig_list_attrs N devs (info\<lparr>info_cmd := lcmd\<rparr>) = list_attrs_reply N (dump_list alist defs act)"
    using dev cmds by (auto simp: swconfig_list_attrs_def swconfig_get_dev_def)
  have look: "fst (swconfig_lookup_attr dev (info\<lparr>info_cmd := gcmd, attr_OP_ID := Some n\<rparr>) zero_val) =
      pick_attr alist defs act (unat n)" for n
    using cmds range by (auto simp: swconfig_lookup_attr_def Let_def)
  have enabled: "\<forall>a \<in> set defs. \<not> attr_disabled (attr_info a)"
    using cmds defaults_enabled [of dev] by auto
  show ?thesis
    unfolding run look using list_attrs_reply_ok [OF net] dump_list_pick [OF len enabled, of _ _ act]
    by (intro exI [of _ "snd (list_attrs_reply N (dump_list alist defs act))"] exI [of _ "dump_list alist defs act"])
      (simp add: prod_eq_iff)
qed

definition bench_sw :: "(regfile mdio_bench smi_state) switch_dev" where
  "bench_sw = hd (swdevs bench_registry)"

lemma bench_sw_fields:
  "swdevs bench_registry = [bench_sw]" "dev_id bench_sw = 1"
  "dev_ops bench_sw = rtl8366s_ops benchS benchS_smi bench_setup 0"
  "dev_ports bench_sw = 6" "dev_vlans bench_sw = 4096" "def_vlan bench_sw = 1" "def_global bench_sw = 3"
proof -
  obtain d where d: "swdevs bench_registry = [d]" using bench_registry_devs(1) by auto
  then show "swdevs bench_registry = [bench_sw]" by (simp add: bench_sw_def)
  then show "dev_id bench_sw = 1" using bench_registry_devs(2) by simp
  show "dev_ops bench_sw = rtl8366s_ops benchS benchS_smi bench_setup 0"
    "dev_ports bench_sw = 6" "dev_vlans bench_sw = 4096" "def_vlan bench_sw = 1" "def_global bench_sw = 3"
    by (simp_all add: bench_sw_def bench_registry_def register_switch_registry list_switch_def used_numbers_def
        find_first_zero_bit_def upt_rec Let_def map_filter_def swconfig_defaults_init_def
        rtl8366s_sw_dev_def sw_dev_of_def rtl8366s_ops_def BIT_def)
qed

abbreviation bench_netlink :: "(tok list, nat) netlink" where
  "bench_netlink \<equiv> ref_netlink 400"

lemma bench_netlink_ok:
  "netlink_ok bench_netlink (\<lambda>_. 400)
     (dump_list (attr_vlan (dev_ops bench_sw)) (default_vlan bench_sw) (def_vlan bench_sw))"
  by (simp add: netlink_ok_def ref_netlink_def dump_list_def bench_sw_fields rtl8366s_ops_def rtl8366s_vlan_def
      default_vlan_def mk_attr_def attr_toks_def attr_body_toks_def Let_def upt_rec)

theorem list_matches_lookup_witness:
  "\<exists>msgs es. swconfig_list_attrs bench_netlink (swdevs bench_registry)
      ((request SWITCH_CMD_LIST_VLAN 1 0)\<lparr>attr_OP_PORT := Some 0, attr_OP_VLAN := Some 1\<rparr>) = (Inr (), msgs)
    \<and> list_parts (\<lambda>m. m) msgs es
    \<and> (unat (0x1000 :: u32), attr_info (hd (default_vlan bench_sw))) \<in> set es"
proof -
  let ?info = "(request SWITCH_CMD_LIST_VLAN 1 0)\<lparr>attr_OP_PORT := Some 0, attr_OP_VLAN := Some 1\<rparr>"
  have dev: "swconfig_get_dev (swdevs bench_registry) ?info = Some bench_sw"
    by (simp add: swconfig_get_dev_def bench_sw_fields request_def)
  have "length (attr_vlan (dev_ops bench_sw)) \<le> 0x1000"
    by (simp add: bench_sw_fields rtl8366s_ops_def rtl8366s_vlan_def Let_def)
  then obtain msgs es where
    m: "swconfig_list_attrs bench_netlink (swdevs bench_registry) (?info\<lparr>info_cmd := SWITCH_CMD_LIST_VLAN\<rparr>) = (Inr (), msgs)"
    "list_parts (\<lambda>m. m) msgs es"
    "\<And>n i. (unat n, i) \<in> set es \<longleftrightarrow>
        (\<exists>attr. fst (swconfig_lookup_attr bench_sw (?info\<lparr>info_cmd := SWITCH_CMD_GET_VLAN, attr_OP_ID := Some n\<rparr>)
           zero_val) = Some attr \<and> attr_info attr = i)"
    using list_matches_lookup [OF dev, of SWITCH_CMD_LIST_VLAN SWITCH_CMD_GET_VLAN "attr_vlan (dev_ops bench_sw)"
        "default_vlan bench_sw" "def_vlan bench_sw", OF _ _ ref_netlink_laws bench_netlink_ok, of 0 1]
    by (auto simp: bench_sw_fields(4,5))
  have "pick_attr al (default_vlan bench_sw) (def_vlan bench_sw) 0x1000 = Some (hd (default_vlan bench_sw))" for al
    by (simp add: pick_attr_def default_vlan_def bench_sw_fields(6) mk_attr_def)
  then have "fst (swconfig_lookup_attr bench_sw (?info\<lparr>info_cmd := SWITCH_CMD_GET_VLAN, attr_OP_ID := Some 0x1000\<rparr>)
      zero_val) = Some (hd (default_vlan bench_sw))"
    by (simp add: swconfig_lookup_attr_def request_def bench_sw_fields(5) Let_def word_le_nat_alt)
  then have "(unat (0x1000 :: u32), attr_info (hd (default_vlan bench_sw))) \<in> set es"
    unfolding m(3) by blast
  then show ?thesis using m(1,2) by (auto simp: request_def)
qed

text \<open>
  C15. One round of a dump of all switches: the message gets the next switches in order, each
  with its port map or a beginning of it, and the position for the next round. When everything
  fits, all switches are sent completely. When a switch did not fit, the next round starts behind
  it, so that switch is never sent.
\<close>
theorem dump_switches_round:
  assumes L: "netlink_laws N toks mark cap" and m: "msg_size (toks m) \<le> cap m" and start: "start \<le> length devs"
  shows "(\<exists>ks us. start + length ks \<le> length devs \<and> no_header us
      \<and> toks (fst (swconfig_dump_switches N start devs m)) =
          toks m @ concat (map2 switch_toks (drop start devs) ks) @ us
      \<and> snd (swconfig_dump_switches N start devs m) =
          (if start + length ks = length devs then length devs else start + length ks + 1))
    \<and> (msg_size (toks m) + msg_size (concat (map full_switch (drop start devs))) \<le> cap m \<longrightarrow>
        toks (fst (swconfig_dump_switches N start devs m)) = toks m @ concat (map full_switch (drop start devs))
        \<and> snd (swconfig_dump_switches N start devs m) = length devs)"
proof -
  obtain ks us where "length ks \<le> length devs - start" "no_header us"
    "toks (fst (swconfig_dump_switches N start devs m)) = toks m @ concat (map2 switch_toks (drop start devs) ks) @ us"
    "snd (swconfig_dump_switches N start devs m) =
      (if length ks = length devs - start then length devs else start + length ks + 1)"
    using dump_loop_run [OF L m, of start 0 devs] by (auto simp: swconfig_dump_switches_def)
  then have "\<exists>ks us. start + length ks \<le> length devs \<and> no_header us
      \<and> toks (fst (swconfig_dump_switches N start devs m)) = toks m @ concat (map2 switch_toks (drop start devs) ks) @ us
      \<and> snd (swconfig_dump_switches N start devs m) =
          (if start + length ks = length devs then length devs else start + length ks + 1)"
    using start by (intro exI [of _ ks] exI [of _ us]) auto
  then show ?thesis
    using dump_loop_fits [OF L, of m start 0 devs] by (simp add: swconfig_dump_switches_def)
qed

lemma bench_sw_names:
  "portmap bench_sw = replicate 6 None" "devname bench_sw = switch_name 0" "dev_name bench_sw = ''RTL8366S''"
  "length (dev_alias bench_sw) \<le> 40"
  by (simp_all add: bench_sw_def bench_registry_def register_switch_registry list_switch_def used_numbers_def
      find_first_zero_bit_def upt_rec Let_def map_filter_def swconfig_defaults_init_def rtl8366s_sw_dev_def sw_dev_of_def)

lemma bench_sw_size: "msg_size (full_switch bench_sw) \<le> 400"
proof -
  have "length (switch_name 0) = 7" by (simp add: switch_name_def dec_def) (subst num_text.simps, simp)
  moreover have "msg_size (concat (map map_entry_toks (replicate n None))) = 4 * n" for n
    by (induction n) (simp_all add: map_entry_toks_def)
  moreover have "4 * ((length (dev_alias bench_sw) + 4) div 4) \<le> 44" using bench_sw_names(4) by simp
  ultimately show ?thesis
    by (simp add: switch_toks_def switch_body_toks_def switch_head_toks_def bench_sw_names)
qed

theorem dump_switches_round_witness:
  "swconfig_dump_switches bench_netlink 0 [bench_sw] [] = (full_switch bench_sw, 1)"
  using dump_switches_round [OF ref_netlink_laws, of "[]" 400 0 "[bench_sw]"] bench_sw_size
  by (simp add: prod_eq_iff)

section \<open>Port lists\<close>

text \<open>
  C14. The parser of port lists accepts exactly the lists of well-formed entries that are no
  longer than the switch has ports, and answers \<open>EINVAL\<close> to all others. The reply to a get
  request for the value it builds is one message with exactly these entries, if a message
  has room for as many entries as the switch has ports.
\<close>
theorem port_list_codec:
  assumes info: "attr_OP_VALUE_PORTS info = Some heads"
    and net: "netlink_laws N toks mark cap" "nlmsg_new N 0 = Some m" "\<forall>m. nl_reply N m = None"
    and size: "dev_ports dev \<noteq> 0" "24 + 16 * unat (dev_ports dev) \<le> cap m"
  shows "case set_attr_value dev info SWITCH_TYPE_PORTS v of
      Inl e \<Rightarrow> e = EINVAL \<and> \<not> (\<exists>es. heads = map wire_entry es \<and> length es \<le> unat (dev_ports dev))
    | Inr w \<Rightarrow> \<exists>es m'. heads = map wire_entry es \<and> length es \<le> unat (dev_ports dev)
        \<and> get_attr_reply N (dev_ports dev) cmd SWITCH_TYPE_PORTS w = (Inr (), [m'])
        \<and> toks m' = THdr False cmd # ports_toks SWITCH_ATTR_OP_VALUE_PORTS es @ [TEnd]"
proof (cases "parse_ports_loop (unat (dev_ports dev)) heads []")
  case (Inl e)
  then show ?thesis
    using info parse_ports_loop_Inl [OF Inl] parse_ports_loop_ok [of "[]" _ "unat (dev_ports dev)"]
    by (auto simp: set_attr_value_def swconfig_parse_ports_def)
next
  case (Inr qs)
  then obtain es where es: "heads = map wire_entry es" "length es \<le> unat (dev_ports dev)" "qs = map port_of es"
    using parse_ports_loop_Inr [OF Inr] by auto
  then have "20 + msg_size (ports_toks SWITCH_ATTR_OP_VALUE_PORTS es) \<le> cap m"
    using ports_toks_size [of SWITCH_ATTR_OP_VALUE_PORTS es] size(2) by simp
  from get_attr_reply_fits [OF net ports_value_of size(1) this, of cmd v] show ?thesis
    using info Inr es by (auto simp: set_attr_value_def swconfig_parse_ports_def)
qed

theorem port_list_codec_witness:
  "case set_attr_value bench_sw ((request SWITCH_CMD_SET_VLAN 1 0x1000)\<lparr>attr_OP_VALUE_PORTS := Some [None]\<rparr>)
      SWITCH_TYPE_PORTS zero_val of Inl e \<Rightarrow> e = EINVAL | Inr w \<Rightarrow> False"
  using port_list_codec [of "(request SWITCH_CMD_SET_VLAN 1 0x1000)\<lparr>attr_OP_VALUE_PORTS := Some [None]\<rparr>"
      "[None]" bench_netlink "\<lambda>m. m" "\<lambda>p. p" "\<lambda>_. 400" "[]" bench_sw SWITCH_CMD_GET_VLAN zero_val] ref_netlink_laws [of 400]
  by (auto simp: wire_entry_def bench_sw_fields ref_netlink_def split: sum.splits)

section \<open>From the request to the chip\<close>

context vlan_switch
begin

lemma untagged_pvids_steady:
  assumes "ready s" "\<forall>p \<in> set ps. port_id p < dev_ports dev"
    and "set_port_pvid (dev_ops dev) = Some (rtl8366_sw_set_port_pvid smi ops)"
  shows "fst (set_untagged_pvids dev vid ps s) = Inr () \<and> ready (snd (set_untagged_pvids dev vid ps s))
    \<and> flags (snd (set_untagged_pvids dev vid ps s)) = flags s"
  using assms(1,2)
proof (induction ps arbitrary: s)
  case (Cons p ps)
  let ?s = "snd (rtl8366_set_pvid smi ops (unat (port_id p)) vid s)"
  have "ready ?s" "flags ?s = flags s"
    using Cons.prems(1) set_pvid_view [of s "unat (port_id p)" vid] silentD [OF silent_flags_set_pvid]
    by simp_all
  then show ?case
    using Cons.prems Cons.IH [of s] Cons.IH [of ?s] assms(3)
    by (auto simp: fst_bindE snd_bindE rtl8366_sw_set_port_pvid_def not_le)
qed simp

end

lemma untagged_pvids_range:
  "fst (set_untagged_pvids dev vid ps s) = Inr () \<Longrightarrow> p \<in> set ps \<Longrightarrow> port_id p < dev_ports dev"
  by (induction ps arbitrary: s) (auto simp: fst_bindE not_le split: if_splits sum.splits)

lemma tagged_port_of: "tagged (port_of e) \<longleftrightarrow> snd e"
  by (simp add: tagged_def port_of_def BIT_def)

lemma lists_port_of:
  "lists_port (map port_of es) i \<longleftrightarrow> (\<exists>e \<in> set es. unat (fst e) = i)"
  "lists_untagged (map port_of es) i \<longleftrightarrow> (\<exists>e \<in> set es. unat (fst e) = i \<and> \<not> snd e)"
  unfolding lists_port_def lists_untagged_def set_map bex_simps tagged_port_of
  by (simp_all add: port_of_def)

definition canonical_entries :: "nat \<Rightarrow> (u32 \<times> bool) list \<Rightarrow> (u32 \<times> bool) list" where
  "canonical_entries np es = map (\<lambda>i. (of_nat i, \<forall>e \<in> set es. unat (fst e) = i \<longrightarrow> snd e))
     (filter (\<lambda>i. \<exists>e \<in> set es. unat (fst e) = i) [0..<np])"

lemma canonical_entries_of:
  "map port_entry (canonical_ports np (map port_of es)) = canonical_entries np es"
proof -
  have "lists_port (map port_of es) = (\<lambda>i. \<exists>e \<in> set es. unat (fst e) = i)"
    by (rule ext) (rule lists_port_of)
  moreover have "(if b then 0 else BIT 2) AND BIT 2 \<noteq> 0 \<longleftrightarrow> \<not> b" for b by (simp add: BIT_def)
  ultimately show ?thesis
    by (auto simp: port_entry_def canonical_ports_def canonical_entries_def lists_port_of)
qed

lemma canonical_value:
  "value_toks SWITCH_TYPE_PORTS (w\<lparr>val_ports := canonical_ports np (map port_of es),
      val_len := length (canonical_ports np (map port_of es))\<rparr>) =
    Some (ports_toks SWITCH_ATTR_OP_VALUE_PORTS (canonical_entries np es))"
  by (simp add: value_toks_def canonical_entries_of)

lemma canonical_entries_length: "length (canonical_entries np es) \<le> np"
  using length_filter_le [of _ "[0..<np]"] by (simp add: canonical_entries_def)

lemma ports_attr:
  assumes "bit (def_vlan dev) 0" "attr_OP_ID info = Some 0x1000" "attr_OP_VLAN info = Some vid"
    and "vid < dev_vlans dev" "info_cmd info = SWITCH_CMD_SET_VLAN \<or> info_cmd info = SWITCH_CMD_GET_VLAN"
  shows "swconfig_lookup_attr dev info v = (Some (hd (default_vlan dev)), v\<lparr>port_vlan := vid\<rparr>)"
  using assms
  by (auto simp: swconfig_lookup_attr_def pick_attr_def default_vlan_def mk_attr_def Let_def)

lemma ports_handlers:
  "attr_set (hd (default_vlan dev)) = Some (swconfig_set_vlan_ports dev)"
  "attr_get (hd (default_vlan dev)) = Some (swconfig_get_vlan_ports dev)"
  "attr_type (attr_info (hd (default_vlan dev))) = SWITCH_TYPE_PORTS"
  by (simp_all add: default_vlan_def mk_attr_def)

text \<open>The driver's table for VLAN port lists, as both chip drivers fill it in.\<close>

definition smi_ports_table :: "rtl8366_smi \<Rightarrow> ('h smi_state) rtl8366_smi_ops \<Rightarrow> ('h smi_state) switch_dev \<Rightarrow> bool" where
  "smi_ports_table smi ops dev \<longleftrightarrow>
     get_vlan_ports (dev_ops dev) = Some (rtl8366_sw_get_vlan_ports smi ops)
     \<and> set_vlan_ports (dev_ops dev) = Some (rtl8366_sw_set_vlan_ports smi ops)
     \<and> set_port_pvid (dev_ops dev) = Some (rtl8366_sw_set_port_pvid smi ops)
     \<and> dev_ports dev = of_nat (num_ports smi) \<and> bit (def_vlan dev) 0"

lemma set_ports_request:
  assumes table: "smi_ports_table smi ops dev"
    and req: "swconfig_get_dev devs info = Some dev" "info_cmd info = SWITCH_CMD_SET_VLAN"
      "attr_OP_ID info = Some 0x1000" "attr_OP_VLAN info = Some vid" "vid < dev_vlans dev"
      "attr_OP_VALUE_PORTS info = Some (map wire_entry es)"
    and ok: "fst (swconfig_set_attr devs True info s) = Inr ()"
  defines "v \<equiv> zero_val\<lparr>port_vlan := vid, val_ports := map port_of es, val_len := length es\<rparr>"
  defines "s1 \<equiv> snd (set_untagged_pvids dev vid (map port_of es) s)"
  shows "\<forall>p \<in> set (map port_of es). port_id p < dev_ports dev"
    "swconfig_set_attr devs True info s = rtl8366_sw_set_vlan_ports smi ops v s1"
proof -
  have look: "swconfig_lookup_attr dev info zero_val = (Some (hd (default_vlan dev)), zero_val\<lparr>port_vlan := vid\<rparr>)"
    using table req by (intro ports_attr) (simp_all add: smi_ports_table_def)
  have run: "swconfig_set_attr devs True info s =
      (case set_attr_value dev info SWITCH_TYPE_PORTS (zero_val\<lparr>port_vlan := vid\<rparr>) of
         Inl e \<Rightarrow> failE e | Inr v \<Rightarrow> swconfig_set_vlan_ports dev (attr_info (hd (default_vlan dev))) v) s"
    by (simp add: swconfig_set_attr_def req(1) look ports_handlers)
  obtain qs where qs: "parse_ports_loop (unat (dev_ports dev)) (map wire_entry es) [] = Inr qs"
    using ok unfolding run
    by (cases "parse_ports_loop (unat (dev_ports dev)) (map wire_entry es) []")
      (simp_all add: set_attr_value_def req(6) swconfig_parse_ports_def)
  obtain es' where es': "map wire_entry es = map wire_entry es'" "qs = map port_of es'"
    using parse_ports_loop_Inr [OF qs] by auto
  have "inj wire_entry" by (auto simp: inj_def wire_entry_def)
  then have "es' = es" using es'(1) by (metis map_injective)
  then have val: "set_attr_value dev info SWITCH_TYPE_PORTS (zero_val\<lparr>port_vlan := vid\<rparr>) = Inr v"
    using qs es'(2) by (simp add: set_attr_value_def req(6) swconfig_parse_ports_def v_def)
  let ?m = "bindE (set_untagged_pvids dev vid (map port_of es)) (\<lambda>_. rtl8366_sw_set_vlan_ports smi ops v)"
  have m: "swconfig_set_attr devs True info s = ?m s"
    using ok table req(5) unfolding run val
    by (auto simp: swconfig_set_vlan_ports_def v_def smi_ports_table_def split: if_splits)
  have fin: "fst (set_untagged_pvids dev vid (map port_of es) s) = Inr ()"
    using ok unfolding m by (auto simp: fst_bindE split: sum.splits)
  then show "\<forall>p \<in> set (map port_of es). port_id p < dev_ports dev"
    by (intro ballI) (rule untagged_pvids_range)
  show "swconfig_set_attr devs True info s = rtl8366_sw_set_vlan_ports smi ops v s1"
    unfolding m using fin by (simp add: bindE_def s1_def split_def)
qed

text \<open>
  C1. From the configuration request to the chip and back: after a successful request that
  sets the ports of a VLAN, the matching get request answers with the requested ports in
  ascending order, without duplicates, each marked tagged exactly when the request marked
  every entry of it tagged. This holds for every driver that meets the VLAN contract.
\<close>
theorem ports_request_round_trip:
  assumes sw: "vlan_switch smi ops ready view mmax fmax u modes k4" and rd: "ready s"
    and table: "smi_ports_table smi ops dev" "num_ports smi \<le> 16"
    and req: "swconfig_get_dev devs info = Some dev" "info_cmd info = SWITCH_CMD_SET_VLAN"
      "attr_OP_ID info = Some 0x1000" "attr_OP_VLAN info = Some vid" "vid < dev_vlans dev"
      "attr_OP_VALUE_PORTS info = Some (map wire_entry es)" "is_vlan_valid ops vid s"
    and ok: "fst (swconfig_set_attr devs True info s) = Inr ()" and np: "0 < num_ports smi"
    and net: "netlink_laws N toks mark cap" "nlmsg_new N 0 = Some m" "\<forall>m. nl_reply N m = None" "280 \<le> cap m"
  shows "\<exists>m'. fst (swconfig_get_attr N devs (info\<lparr>info_cmd := SWITCH_CMD_GET_VLAN\<rparr>)
      (snd (swconfig_set_attr devs True info s))) = (Inr (), [m'])
    \<and> toks m' = THdr False SWITCH_CMD_GET_VLAN #
        ports_toks SWITCH_ATTR_OP_VALUE_PORTS (canonical_entries (num_ports smi) es) @ [TEnd]"
proof -
  let ?info = "info\<lparr>info_cmd := SWITCH_CMD_GET_VLAN\<rparr>"
  let ?v = "zero_val\<lparr>port_vlan := vid, val_ports := map port_of es, val_len := length es\<rparr>"
  let ?w = "zero_val\<lparr>port_vlan := vid\<rparr>"
  let ?s1 = "snd (set_untagged_pvids dev vid (map port_of es) s)"
  note set = set_ports_request [OF table(1) req(1-6) ok]
  have s1: "ready ?s1" "flags ?s1 = flags s"
    using vlan_switch.untagged_pvids_steady [OF sw rd set(1)] table(1) by (simp_all add: smi_ports_table_def)
  have valid: "is_vlan_valid ops (port_vlan ?v) ?s1"
    using req(7) vlan_switch.valid_flags [OF sw s1(2), of vid] by simp
  have got: "fst (rtl8366_sw_get_vlan_ports smi ops ?w (snd (rtl8366_sw_set_vlan_ports smi ops ?v ?s1))) =
      Inr (?w\<lparr>val_ports := canonical_ports (num_ports smi) (map port_of es),
        val_len := length (canonical_ports (num_ports smi) (map port_of es))\<rparr>)"
    using ports_read_back [OF sw s1(1) table(2) valid, of ?w] ok unfolding set(2) by simp
  have look: "swconfig_get_dev devs ?info = Some dev"
    "swconfig_lookup_attr dev ?info zero_val = (Some (hd (default_vlan dev)), ?w)"
    using table(1) req by (simp_all add: swconfig_get_dev_def smi_ports_table_def ports_attr)
  let ?x = "?w\<lparr>val_ports := canonical_ports (num_ports smi) (map port_of es),
        val_len := length (canonical_ports (num_ports smi) (map port_of es))\<rparr>"
  have run: "fst (swconfig_get_attr N devs ?info (snd (swconfig_set_attr devs True info s))) =
      get_attr_reply N (dev_ports dev) SWITCH_CMD_GET_VLAN SWITCH_TYPE_PORTS ?x"
    using got table(1) req(5) unfolding set(2) swconfig_get_attr_def
    by (cases "rtl8366_sw_get_vlan_ports smi ops ?w (snd (rtl8366_sw_set_vlan_ports smi ops ?v ?s1))")
      (simp add: look ports_handlers swconfig_get_vlan_ports_def smi_ports_table_def linorder_not_le [symmetric])
  have ports: "dev_ports dev \<noteq> 0" 
    using table np nat_dvd_not_less [of "num_ports smi" "2 ^ 32"] by (simp add: smi_ports_table_def word_of_nat_eq_0_iff)
  have "20 + msg_size (ports_toks SWITCH_ATTR_OP_VALUE_PORTS (canonical_entries (num_ports smi) es)) \<le> cap m"
    using ports_toks_size [of SWITCH_ATTR_OP_VALUE_PORTS "canonical_entries (num_ports smi) es"]
      canonical_entries_length [of "num_ports smi" es] table(2) net(4) by simp
  from get_attr_reply_fits [OF net(1-3) canonical_value ports this] show ?thesis unfolding run .
qed

definition bench_ports_request :: genl_info where
  "bench_ports_request = (request SWITCH_CMD_SET_VLAN 1 0x1000)\<lparr>attr_OP_VLAN := Some 3,
     attr_OP_VALUE_PORTS := Some (map wire_entry [(5, True), (1, True)])\<rparr>"

definition bench_ports_val :: switch_val where
  "bench_ports_val = zero_val\<lparr>port_vlan := 3, val_ports := map port_of [(5, True), (1, True)], val_len := 2\<rparr>"

lemma bench_table: "smi_ports_table benchS_smi benchS_ops bench_sw"
  by (simp add: smi_ports_table_def bench_sw_fields rtl8366s_ops_def Let_def)

lemma bench_ports_run:
  "swconfig_set_attr [bench_sw] True bench_ports_request benchS_state =
    rtl8366_sw_set_vlan_ports benchS_smi benchS_ops bench_ports_val benchS_state"
proof -
  have look: "swconfig_lookup_attr bench_sw bench_ports_request zero_val =
      (Some (hd (default_vlan bench_sw)), zero_val\<lparr>port_vlan := 3\<rparr>)"
    by (rule ports_attr) (simp_all add: bench_sw_fields bench_ports_request_def request_def)
  have dev: "swconfig_get_dev [bench_sw] bench_ports_request = Some bench_sw"
    by (simp add: swconfig_get_dev_def bench_sw_fields bench_ports_request_def request_def)
  have val: "set_attr_value bench_sw bench_ports_request SWITCH_TYPE_PORTS (zero_val\<lparr>port_vlan := 3\<rparr>) = Inr bench_ports_val"
    by (simp add: set_attr_value_def swconfig_parse_ports_def bench_ports_request_def request_def
        bench_sw_fields wire_entry_def bench_ports_val_def port_of_def)
  have ports: "set_untagged_pvids bench_sw 3 (map port_of [(5, True), (1, True)]) = retE ()"
    using bench_table by (simp add: smi_ports_table_def port_of_def bench_sw_fields BIT_def fun_eq_iff bindE_def retE_def word_le_nat_alt)
  show ?thesis
    using ports bench_table
    by (simp add: swconfig_set_attr_def dev look ports_handlers val swconfig_set_vlan_ports_def
        bench_ports_val_def bench_sw_fields smi_ports_table_def word_le_nat_alt)
qed

lemma bench_ports_ok: "fst (rtl8366_sw_set_vlan_ports benchS_smi benchS_ops bench_ports_val benchS_state) = Inr ()"
proof -
  let ?V = "benchS_view benchS_state"
  let ?W = "?V\<lparr>mcs := (\<lambda>_. zero_mc)(0 := zero_mc\<lparr>mc_vid := 3\<rparr>)\<rparr>"
  have "pvid_of ?V 5 = 0" "pvid_of ?W 1 \<noteq> 0"
    by (simp_all add: benchS_rest pvid_of_def zero_mc_def)
  then have p: "ports_pvid_spec True 16 6 3 (val_ports bench_ports_val) ?V = (Inr (), ?W)"
    using benchS_pvid_spec [of 5 3] by (simp add: bench_ports_val_def port_of_def Let_def)
  have "fst (vlan_set_spec True 16 0x3F 7 3 0x22 0 0 ?W) = Inr ()"
    by (simp add: vlan_set_spec_def benchS_rest v4k_fits_def upd_4k_def rtl8366s_4k_of_def Let_def)
  moreover have "port_masks (val_ports bench_ports_val) (0, 0) = (0x22, 0)"
    by (simp add: bench_ports_val_def tagged_def port_of_def BIT_def)
  ultimately have "fst (vlan_ports_spec True 16 6 0x3F 7 3 (val_ports bench_ports_val) ?V) = Inr ()"
    using p by (simp add: vlan_ports_spec_def)
  moreover have "is_vlan_valid benchS_ops (port_vlan bench_ports_val) benchS_state"
    by (simp add: rtl8366s_smi_ops_def rtl8366s_is_vlan_valid_def bench_ports_val_def benchS_state_def)
  ultimately show ?thesis
    using vlan_ops.set_vlan_ports_view [OF benchS_vlan_ops TrueI, of bench_ports_val benchS_state]
    by (simp add: bench_ports_val_def prod_eq_iff)
qed

theorem ports_request_round_trip_witness:
  "fst (swconfig_get_attr bench_netlink [bench_sw] (bench_ports_request\<lparr>info_cmd := SWITCH_CMD_GET_VLAN\<rparr>)
     (snd (swconfig_set_attr [bench_sw] True bench_ports_request benchS_state))) =
   (Inr (), [THdr False SWITCH_CMD_GET_VLAN # ports_toks SWITCH_ATTR_OP_VALUE_PORTS [(1, True), (5, True)] @ [TEnd]])"
proof -
  have valid: "is_vlan_valid benchS_ops 3 benchS_state"
    by (simp add: rtl8366s_smi_ops_def rtl8366s_is_vlan_valid_def benchS_state_def)
  have ok: "fst (swconfig_set_attr [bench_sw] True bench_ports_request benchS_state) = Inr ()"
    unfolding bench_ports_run by (rule bench_ports_ok)
  have "canonical_entries 6 [(5, True), (1, True)] = [(1, True), (5, True)]"
    by (simp add: canonical_entries_def upt_rec)
  then show ?thesis
    using ports_request_round_trip [OF benchS_vlan_switch TrueI bench_table _ _ _ _ _ _ _ valid ok _ ref_netlink_laws,
        of "[(5, True), (1, True)]" 400 "[]"]
    by (simp add: bench_ports_request_def request_def swconfig_get_dev_def bench_sw_fields ref_netlink_def)
qed

end
