(* ===== verification/Chip_Properties.thy ===== *)
theory Chip_Properties
  imports Bench Swconfig
begin

text \<open>
  Settings of the two chips beyond VLANs: rate limits, LEDs, port mirroring, MIB counters and
  PHY registers.
\<close>

section \<open>Fields of a register that a handler writes\<close>

text \<open>The field of width \<open>n\<close> at position \<open>k\<close> of a 16-bit register.\<close>

definition set_field :: "nat \<Rightarrow> nat \<Rightarrow> u32 \<Rightarrow> u16 \<Rightarrow> u16" where
  "set_field k n x r = (r AND NOT (ucast (push_bit k (mask n) :: u32))) OR ucast (push_bit k x)"

definition get_field :: "nat \<Rightarrow> nat \<Rightarrow> u16 \<Rightarrow> u32" where
  "get_field k n r = drop_bit k (ucast r) AND mask n"

lemma bit_set_field:
  assumes "unat x < 2 ^ n" "k + n \<le> 16"
  shows "bit (set_field k n x r) i \<longleftrightarrow> (if k \<le> i \<and> i < k + n then bit x (i - k) else bit r i)"
proof -
  have x: "bit x j \<Longrightarrow> j < n" for j
    using assms(1) by (metis bit_take_bit_iff take_bit_small)
  show ?thesis
  proof (cases "i < 16")
    case True
    then show ?thesis using assms(2) x [of "i - k"] by (auto simp: set_field_def bit_simps)
  next
    case False
    then have "\<not> bit r i" "\<not> bit (set_field k n x r) i"
      using bit_imp_le_length [of r i] bit_imp_le_length [of "set_field k n x r" i] by auto
    then show ?thesis using False assms(2) by auto
  qed
qed

lemma bit_get_field: "bit (get_field k n r) i \<longleftrightarrow> i < n \<and> k + i < 16 \<and> bit r (k + i)"
  by (auto simp: get_field_def bit_simps dest: bit_imp_le_length)

lemma get_set_field:
  assumes "unat x < 2 ^ n" "k + n \<le> 16"
  shows "get_field k n (set_field k n x r) = x"
proof (rule bit_word_eqI)
  fix i assume "i < LENGTH(32)"
  have "bit x i \<Longrightarrow> i < n"
    using assms(1) by (metis bit_take_bit_iff take_bit_small)
  then show "bit (get_field k n (set_field k n x r)) i = bit x i"
    using assms(2) by (auto simp: bit_get_field bit_set_field [OF assms])
qed

lemma get_other_field:
  assumes "unat x < 2 ^ n" "k + n \<le> 16" "k + n \<le> j \<or> j + m \<le> k"
  shows "get_field j m (set_field k n x r) = get_field j m r"
  by (rule bit_word_eqI) (use assms(3) in \<open>auto simp: bit_get_field bit_set_field [OF assms(1,2)]\<close>)

section \<open>Rate limits of the RTL8366RB\<close>

definition rate_limit :: "u32 \<Rightarrow> nat" where
  "rate_limit i = (if 0 < i \<and> i < 1048512 then 64 * ((unat i + 63) div 64) else 1048512)"

lemma bdth_code_small:
  assumes "0 < i" "i < 1048512"
  shows "unat (rtl8366rb_bdth_code i) = (unat i - 1) div 64" "unat (rtl8366rb_bdth_code i) < 16383"
proof -
  have "unat (i - 1) = unat i - 1" using assms by (simp add: unat_minus_one word_gt_0)
  then show c: "unat (rtl8366rb_bdth_code i) = (unat i - 1) div 64"
    using assms by (simp add: rtl8366rb_bdth_code_def unat_div)
  show "unat (rtl8366rb_bdth_code i) < 16383"
    unfolding c using assms(2) by (simp add: word_less_nat_alt)
qed

lemma bdth_code_bound: "unat (rtl8366rb_bdth_code i) < 2 ^ 14"
proof (cases "0 < i \<and> i < 1048512")
  case True
  then show ?thesis using bdth_code_small(2) [of i] by simp
qed (auto simp: rtl8366rb_bdth_code_def)

lemma bdth_round_trip: "unat (rtl8366rb_bdth_value 0x3FFF (rtl8366rb_bdth_code i)) = rate_limit i"
proof -
  let ?c = "rtl8366rb_bdth_code i"
  have m: "(0x3FFF :: u32) = mask 14" by (simp add: mask_eq_exp_minus_1)
  have and_c: "?c AND 0x3FFF = ?c"
    unfolding m take_bit_eq_mask [symmetric] by (rule take_bit_small) (rule bdth_code_bound)
  show ?thesis
  proof (cases "0 < i \<and> i < 1048512")
    case True
    then have c: "unat ?c = (unat i - 1) div 64" "unat ?c < 16383" and i: "0 < unat i"
      using bdth_code_small [of i] by (simp_all add: word_less_nat_alt)
    have "unat (?c + 1) = unat ?c + 1" using c(2) by (simp add: unat_word_ariths)
    then have "unat ((?c + 1) * 64) = (unat ?c + 1) * 64"
      using c(2) by (simp add: unat_word_ariths)
    moreover have "(unat i + 63) div 64 = (unat i - 1) div 64 + 1"
    proof -
      obtain k where "unat i = Suc k" using i by (cases "unat i") simp_all
      then show ?thesis by simp
    qed
    ultimately show ?thesis
      using True c(2) by (simp add: rtl8366rb_bdth_value_def and_c rate_limit_def c(1) word_less_nat_alt)
  next
    case False
    then show ?thesis by (auto simp: rtl8366rb_bdth_value_def rtl8366rb_bdth_code_def rate_limit_def)
  qed
qed

section \<open>Registers that hold what is written\<close>

text \<open>
  The part of the chip contracts that settings need: the registers \<open>plain\<close> keep their value
  until they are written. Both chips provide it.
\<close>

locale plain_regs = reg_bus H smi ready chip chip_rd chip_wr
  for H :: "'h platform"
    and smi :: rtl8366_smi
    and ready :: "'h smi_state \<Rightarrow> bool"
    and chip :: "'h smi_state \<Rightarrow> 'c"
    and chip_rd :: "'c \<Rightarrow> u16 \<Rightarrow> u16"
    and chip_wr :: "'c \<Rightarrow> u16 \<Rightarrow> u16 \<Rightarrow> 'c" +
  fixes plain :: "u16 \<Rightarrow> bool"
  assumes plain_holds: "plain a \<Longrightarrow> plain b \<Longrightarrow>
      chip_rd (chip_wr c a v) b = (if b = a then v else chip_rd c b)"
begin

lemma rmwr_field:
  assumes "ready s" "ucast m = (ucast (push_bit k (mask n) :: u32) :: u16)" "ucast x = (ucast (push_bit k y :: u32) :: u16)"
  shows "fst (rtl8366_smi_rmwr H smi a m x s) = Inr ()"
    "chip (snd (rtl8366_smi_rmwr H smi a m x s)) =
      chip_wr (chip s) (ucast a) (set_field k n y (chip_rd (chip s) (ucast a)))"
    "ready (snd (rtl8366_smi_rmwr H smi a m x s))"
  using assms by (simp_all add: rmwr_simps set_field_def)

text \<open>One field of a register is written, any field of the same register is read.\<close>

lemma field_then_field:
  assumes "ready s" "plain (ucast a)" "unat y < 2 ^ n" "k + n \<le> 16"
    and "(k, n) = (j, m) \<or> k + n \<le> j \<or> j + m \<le> k"
  shows "get_field j m (chip_rd (chip (snd (rtl8366_smi_rmwr H smi a (push_bit k (mask n)) (push_bit k y) s))) (ucast a)) =
    (if (k, n) = (j, m) then y else get_field j m (chip_rd (chip s) (ucast a)))"
proof (cases "(k, n) = (j, m)")
  case True
  then show ?thesis
    using rmwr_field(2) [OF assms(1) refl refl] get_set_field [OF assms(3,4)] plain_holds [OF assms(2,2)] by simp
next
  case False
  then have apart: "k + n \<le> j \<or> j + m \<le> k" using assms(5) by blast
  show ?thesis
    using False rmwr_field(2) [OF assms(1) refl refl] get_other_field [OF assms(3,4) apart] plain_holds [OF assms(2,2)]
    by auto
qed

end

sublocale rtl8366s_chip \<subseteq> plain: plain_regs H smi ready chip chip_rd chip_wr rtl8366s_plain
  by unfold_locales (rule holds)

sublocale rtl8366rb_chip \<subseteq> plain: plain_regs H smi ready chip chip_rd chip_wr rtl8366rb_plain
  by unfold_locales (rule holds)

section \<open>Rate limits on the chip\<close>

context rtl8366rb_chip
begin

lemma ib_word:
  "p < 6 \<Longrightarrow> unat (ucast (RTL8366RB_IB_REG p) :: u16) = 0x200 + unat p"
  "p < 6 \<Longrightarrow> unat (ucast (RTL8366RB_EB_REG p) :: u16) = 0x2D1 + unat p"
  by (simp_all add: RTL8366RB_IB_REG_def RTL8366RB_EB_REG_def unsigned_ucast_eq unat_word_ariths
      word_less_nat_alt take_bit_nat_eq_self unsigned_take_bit_eq)

lemma rate_words:
  assumes "p < 6"
  shows "rtl8366rb_plain (ucast (RTL8366RB_IB_REG p))" "rtl8366rb_plain (ucast (RTL8366RB_EB_REG p))"
    "rtl8366rb_plain 0x2F8" "ucast (RTL8366RB_EB_REG p) \<noteq> (0x2F8 :: u16)"
    "q < 6 \<Longrightarrow> (ucast (RTL8366RB_IB_REG p) :: u16) = ucast (RTL8366RB_IB_REG q) \<longleftrightarrow> p = q"
    "q < 6 \<Longrightarrow> (ucast (RTL8366RB_EB_REG p) :: u16) = ucast (RTL8366RB_EB_REG q) \<longleftrightarrow> p = q"
  using assms ib_word [OF assms] ib_word [of q]
  by (auto simp: rtl8366rb_plain_def Let_def word_unat_eq_iff word_less_nat_alt)

end

lemma bdth_value_field: "rtl8366rb_bdth_value 0x3FFF (ucast (r :: u16)) = rtl8366rb_bdth_value 0x3FFF (get_field 0 14 r)"
proof -
  have m: "(0x3FFF :: u32) = mask 14" by (simp add: mask_eq_exp_minus_1)
  show ?thesis by (simp add: rtl8366rb_bdth_value_def get_field_def m and.assoc)
qed

lemma preifg_field:
  assumes "unat c < 2 ^ 14"
  shows "get_field 0 14 (set_field 0 15 (c OR 0x4000) r) = c"
proof -
  have b: "(0x4000 :: u32) = BIT 14" by (simp add: BIT_def)
  have c: "bit c j \<Longrightarrow> j < 14" for j
    using assms by (metis bit_take_bit_iff take_bit_small)
  show ?thesis
    unfolding b by (rule bit_word_eqI) (auto simp: bit_get_field set_field_def bit_simps bit_BIT dest: c)
qed

context rtl8366rb_chip
begin

lemma rate_in_chip:
  fixes attr :: switch_attr_info
  assumes "ready s" "port_vlan v < 6" "port_vlan w < 6"
  defines "s' \<equiv> snd (rtl8366rb_sw_set_port_rate_in H smi attr v s)"
  shows "fst (rtl8366rb_sw_set_port_rate_in H smi attr v s) = Inr ()"
    "fst (rtl8366rb_sw_get_port_rate_in H smi u attr w s') =
      (if port_vlan w = port_vlan v then Inr (w\<lparr>val_i := of_nat (rate_limit (val_i v))\<rparr>)
       else fst (rtl8366rb_sw_get_port_rate_in H smi u attr w s))"
proof -
  let ?a = "RTL8366RB_IB_REG (port_vlan v)" and ?b = "RTL8366RB_IB_REG (port_vlan w)"
  let ?c = "rtl8366rb_bdth_code (val_i v)"
  have m: "ucast (0x3FFF OR 0x4000 :: u32) = (ucast (push_bit 0 (mask 15) :: u32) :: u16)"
    by (simp add: mask_eq_exp_minus_1)
  have range: "\<not> 6 \<le> port_vlan v" "\<not> 6 \<le> port_vlan w" using assms(2,3) by (simp_all add: not_le)
  have run: "rtl8366rb_sw_set_port_rate_in H smi attr v s =
      rtl8366_smi_rmwr H smi ?a (0x3FFF OR 0x4000) (?c OR 0x4000) s"
    using range(1) by (simp add: rtl8366rb_sw_set_port_rate_in_def)
  note eff = plain.rmwr_field [OF assms(1) m, of "?c OR 0x4000" "?c OR 0x4000" ?a, simplified push_bit_0_id id_apply, OF refl, folded run]
  show "fst (rtl8366rb_sw_set_port_rate_in H smi attr v s) = Inr ()" by (rule eff(1))
  have val: "rtl8366rb_bdth_value 0x3FFF ?c = of_nat (rate_limit (val_i v))"
    unfolding bdth_round_trip [symmetric] by simp
  show "fst (rtl8366rb_sw_get_port_rate_in H smi u attr w s') =
      (if port_vlan w = port_vlan v then Inr (w\<lparr>val_i := of_nat (rate_limit (val_i v))\<rparr>)
       else fst (rtl8366rb_sw_get_port_rate_in H smi u attr w s))"
    using assms(1) range(2) eff rate_words(1) [OF assms(2)] rate_words(1) [OF assms(3)]
      rate_words(5) [OF assms(3,2)]
    by (simp add: rtl8366rb_sw_get_port_rate_in_def fst_bindE fst_catchE bus_simps s'_def holds
        bdth_value_field preifg_field [OF bdth_code_bound] val)
qed

lemma rate_out_chip:
  fixes attr :: switch_attr_info
  assumes "ready s" "port_vlan v < 6" "port_vlan w < 6"
  defines "s' \<equiv> snd (rtl8366rb_sw_set_port_rate_out H smi attr v s)"
  shows "fst (rtl8366rb_sw_set_port_rate_out H smi attr v s) = Inr ()"
    "fst (rtl8366rb_sw_get_port_rate_out H smi u attr w s') =
      (if port_vlan w = port_vlan v then Inr (w\<lparr>val_i := of_nat (rate_limit (val_i v))\<rparr>)
       else fst (rtl8366rb_sw_get_port_rate_out H smi u attr w s))"
proof -
  let ?a = "RTL8366RB_EB_REG (port_vlan v)"
  let ?c = "rtl8366rb_bdth_code (val_i v)"
  let ?s1 = "snd (rtl8366_smi_rmwr H smi 0x2F8 0x200 (push_bit 9 1) s)"
  have m: "ucast (0x3FFF :: u32) = (ucast (push_bit 0 (mask 14) :: u32) :: u16)"
    by (simp add: mask_eq_exp_minus_1)
  have range: "\<not> 6 \<le> port_vlan v" "\<not> 6 \<le> port_vlan w" using assms(2,3) by (simp_all add: not_le)
  have s1: "ready ?s1" using assms(1) by (simp add: rmwr_simps)
  have old: "chip_rd (chip ?s1) (ucast (RTL8366RB_EB_REG p)) = chip_rd (chip s) (ucast (RTL8366RB_EB_REG p))"
    if "p < 6" for p
    using assms(1) rate_words(2,4) [OF that] rate_words(3) [OF that] by (simp add: rmwr_simps holds)
  have run: "rtl8366rb_sw_set_port_rate_out H smi attr v s = rtl8366_smi_rmwr H smi ?a 0x3FFF ?c ?s1"
    using range(1) by (simp add: rtl8366rb_sw_set_port_rate_out_def bindE_def ignoreE_def)
  note eff = plain.rmwr_field [OF s1 m, of ?c ?c ?a, simplified push_bit_0_id id_apply, OF refl, folded run]
  show "fst (rtl8366rb_sw_set_port_rate_out H smi attr v s) = Inr ()" by (rule eff(1))
  have val: "rtl8366rb_bdth_value 0x3FFF ?c = of_nat (rate_limit (val_i v))"
    unfolding bdth_round_trip [symmetric] by simp
  have back_in: "get_field 0 14 (set_field 0 14 ?c r) = ?c" for r
    by (rule get_set_field) (simp_all add: bdth_code_bound [simplified])
  show "fst (rtl8366rb_sw_get_port_rate_out H smi u attr w s') =
      (if port_vlan w = port_vlan v then Inr (w\<lparr>val_i := of_nat (rate_limit (val_i v))\<rparr>)
       else fst (rtl8366rb_sw_get_port_rate_out H smi u attr w s))"
    using assms(1) range(2) eff rate_words(2) [OF assms(2)] rate_words(2) [OF assms(3)]
      rate_words(6) [OF assms(3,2)] old [OF assms(3)]
    by (simp add: rtl8366rb_sw_get_port_rate_out_def fst_bindE fst_catchE bus_simps s'_def holds
        bdth_value_field back_in val)
qed

end

section \<open>Mirroring on the RTL8366RB\<close>

text \<open>The six settings of the port mirror control register, with their field widths.\<close>

definition mirror_settings ::
  "'h platform \<Rightarrow> rtl8366_smi \<Rightarrow> u32 \<Rightarrow> switch_attr_info \<Rightarrow>
    ((switch_val \<Rightarrow> ('h smi_state, unit) io) \<times> (switch_val \<Rightarrow> ('h smi_state, switch_val) io)) list" where
  "mirror_settings H smi uninit attr =
    [(rtl8366rb_sw_set_mirror_source_port H smi attr, rtl8366rb_sw_get_mirror_source_port H smi uninit attr),
     (rtl8366rb_sw_set_mirror_monitor_port H smi attr, rtl8366rb_sw_get_mirror_monitor_port H smi uninit attr),
     (rtl8366rb_sw_set_mirror_rx_enable H smi attr, rtl8366rb_sw_get_mirror_rx_enable H smi uninit attr),
     (rtl8366rb_sw_set_mirror_tx_enable H smi attr, rtl8366rb_sw_get_mirror_tx_enable H smi uninit attr),
     (rtl8366rb_sw_set_mirror_pause_frames_enable H smi attr,
      rtl8366rb_sw_get_mirror_pause_frames_enable H smi uninit attr),
     (rtl8366rb_sw_set_monitor_isolation_enable H smi attr,
      rtl8366rb_sw_get_monitor_isolation_enable H smi uninit attr)]"

definition mirror_field :: "nat \<Rightarrow> nat \<times> nat" where
  "mirror_field i = [(0, 4), (4, 4), (8, 1), (9, 1), (10, 1), (11, 1)] ! i"

definition mirror_value :: "nat \<Rightarrow> u32 \<Rightarrow> u32" where
  "mirror_value i x = (if i < 2 then x else if x \<noteq> 0 then 1 else 0)"

lemma six_cases: "(i :: nat) < 6 \<Longrightarrow> i = 0 \<or> i = 1 \<or> i = 2 \<or> i = 3 \<or> i = 4 \<or> i = 5"
  by presburger

lemma mirror_setter:
  assumes "i < 6" "(k, n) = mirror_field i"
  shows "fst (mirror_settings H smi u attr ! i) v =
    rtl8366_smi_rmwr H smi 7 (push_bit k (mask n)) (push_bit k (mirror_value i (val_i v)))"
  using six_cases [OF assms(1)] assms(2)
  by (elim disjE) (simp_all add: mirror_settings_def mirror_field_def mirror_value_def mask_eq_exp_minus_1
      rtl8366rb_sw_set_mirror_source_port_def rtl8366rb_sw_set_mirror_monitor_port_def
      rtl8366rb_sw_set_mirror_rx_enable_def rtl8366rb_sw_set_mirror_tx_enable_def
      rtl8366rb_sw_set_mirror_pause_frames_enable_def rtl8366rb_sw_set_monitor_isolation_enable_def)

lemma flag_field:
  "k < 16 \<Longrightarrow> (if ucast (r :: u16) AND push_bit k 1 \<noteq> (0 :: u32) then 1 else 0) = get_field k 1 r"
proof -
  assume k: "k < 16"
  have "(ucast r AND push_bit k 1 \<noteq> (0 :: u32)) = bit r k"
    using k by (simp add: push_bit_of_1 and_exp_eq_0_iff_not_bit bit_simps)
  moreover have "get_field k 1 r = of_bool (bit r k)"
    using k by (intro bit_word_eqI) (auto simp: bit_get_field bit_simps)
  ultimately show ?thesis by simp
qed

lemma mask_field: "drop_bit k (ucast (r :: u16) AND push_bit k (mask n)) = get_field k n r"
  unfolding get_field_def by (rule bit_word_eqI) (auto simp: bit_simps)

text \<open>A getter returns its field of the register.\<close>

lemma flag_8_11:
  "(if ucast (r :: u16) AND 0x100 \<noteq> (0 :: u32) then 1 else 0) = get_field 8 1 r"
  "(if ucast r AND 0x200 \<noteq> (0 :: u32) then 1 else 0) = get_field 9 1 r"
  "(if ucast r AND 0x400 \<noteq> (0 :: u32) then 1 else 0) = get_field 10 1 r"
  "(if ucast r AND 0x800 \<noteq> (0 :: u32) then 1 else 0) = get_field 11 1 r"
  using flag_field [of 8 r] flag_field [of 9 r] flag_field [of 10 r] flag_field [of 11 r] by simp_all

lemma port_fields:
  "ucast (r :: u16) AND 0xF = get_field 0 4 r" "drop_bit k (ucast (r :: u16)) AND 0xF = get_field k 4 r"
  by (simp_all add: get_field_def mask_eq_exp_minus_1)

context rtl8366rb_chip
begin

lemma mirror_getter:
  assumes "j < 6" "(k, n) = mirror_field j" "ready s"
  shows "fst (snd (mirror_settings H smi u attr ! j) w s) =
    Inr (w\<lparr>val_i := get_field k n (chip_rd (chip s) 7)\<rparr>)"
  using six_cases [OF assms(1)] assms(2,3)
  by (elim disjE) (simp_all add: mirror_settings_def mirror_field_def fst_bindE fst_catchE bus_simps
      rtl8366rb_sw_get_mirror_source_port_def rtl8366rb_sw_get_mirror_monitor_port_def
      rtl8366rb_sw_get_mirror_rx_enable_def rtl8366rb_sw_get_mirror_tx_enable_def
      rtl8366rb_sw_get_mirror_pause_frames_enable_def rtl8366rb_sw_get_monitor_isolation_enable_def
      flag_8_11 port_fields)

lemma mirror_chip:
  fixes attr :: switch_attr_info and u :: u32
  assumes "ready s" "i < 6" "j < 6" "i < 2 \<longrightarrow> val_i v < 16"
  defines "s' \<equiv> snd (fst (mirror_settings H smi u attr ! i) v s)"
  shows "fst (fst (mirror_settings H smi u attr ! i) v s) = Inr ()"
    "fst (snd (mirror_settings H smi u attr ! j) w s') =
      (if j = i then Inr (w\<lparr>val_i := mirror_value i (val_i v)\<rparr>)
       else fst (snd (mirror_settings H smi u attr ! j) w s))"
proof -
  obtain k n where kn: "(k, n) = mirror_field i" by (metis surj_pair)
  obtain l m where lm: "(l, m) = mirror_field j" by (metis surj_pair)
  have fits: "unat (mirror_value i (val_i v)) < 2 ^ n" "k + n \<le> 16"
    using six_cases [OF assms(2)] kn assms(4)
    by (elim disjE; simp add: mirror_field_def mirror_value_def word_less_nat_alt)+
  have apart: "(k, n) = (l, m) \<or> k + n \<le> l \<or> l + m \<le> k" "(k, n) = (l, m) \<longleftrightarrow> j = i"
    using six_cases [OF assms(2)] six_cases [OF assms(3)] kn lm
    by (elim disjE; simp add: mirror_field_def)+
  note run = mirror_setter [OF assms(2) kn, of H smi u attr v]
  have s': "ready s'" "s' = snd (rtl8366_smi_rmwr H smi 7 (push_bit k (mask n)) (push_bit k (mirror_value i (val_i v))) s)"
    using assms(1) by (simp_all add: s'_def run rmwr_simps)
  show "fst (fst (mirror_settings H smi u attr ! i) v s) = Inr ()"
    using assms(1) by (simp add: run rmwr_simps)
  have plain: "rtl8366rb_plain (ucast (7 :: u32))" by (simp add: rtl8366rb_plain_def)
  note field = plain.field_then_field [OF assms(1) plain fits apart(1)]
  show "fst (snd (mirror_settings H smi u attr ! j) w s') =
      (if j = i then Inr (w\<lparr>val_i := mirror_value i (val_i v)\<rparr>)
       else fst (snd (mirror_settings H smi u attr ! j) w s))"
    using field [folded s'(2)] apart(2)
    by (simp add: mirror_getter [OF assms(3) lm s'(1)] mirror_getter [OF assms(3) lm assms(1)])
qed

end

section \<open>LEDs of both chips\<close>

text \<open>The LED group of a port is the nibble of the port in the LED control register.\<close>

context plain_regs
begin

lemma nibble_regs:
  assumes "ready s" "plain (ucast a)" "p < 4" "q < 4" "val_i v < 16"
  defines "s' \<equiv> snd (rtl8366_smi_rmwr H smi a (push_bit (p * 4) 0xF) (push_bit (p * 4) (val_i v)) s)"
  shows "fst (rtl8366_smi_rmwr H smi a (push_bit (p * 4) 0xF) (push_bit (p * 4) (val_i v)) s) = Inr ()"
    "ready s'"
    "drop_bit (q * 4) (ucast (chip_rd (chip s') (ucast a))) AND (0xF :: u32) =
      (if q = p then val_i v else drop_bit (q * 4) (ucast (chip_rd (chip s) (ucast a))) AND 0xF)"
proof -
  have m: "(0xF :: u32) = mask 4" by (simp add: mask_eq_exp_minus_1)
  show "fst (rtl8366_smi_rmwr H smi a (push_bit (p * 4) 0xF) (push_bit (p * 4) (val_i v)) s) = Inr ()"
    "ready s'" using assms(1) by (simp_all add: rmwr_simps s'_def)
  have "unat (val_i v) < 2 ^ 4" "p * 4 + 4 \<le> 16"
    "(p * 4, 4) = (q * 4, 4 :: nat) \<or> p * 4 + 4 \<le> q * 4 \<or> q * 4 + 4 \<le> p * 4"
    using assms(3,5) by (auto simp: word_less_nat_alt)
  note field_then_field [OF assms(1,2) this]
  then show "drop_bit (q * 4) (ucast (chip_rd (chip s') (ucast a))) AND (0xF :: u32) =
      (if q = p then val_i v else drop_bit (q * 4) (ucast (chip_rd (chip s) (ucast a))) AND 0xF)"
    by (simp add: s'_def m get_field_def eq_commute [of q])
qed

end

lemma led_ports: "p < 4 \<Longrightarrow> (push_bit p 1 :: u32) \<noteq> 0x10"
proof -
  assume "p < 4"
  then have "p = 0 \<or> p = 1 \<or> p = 2 \<or> p = 3" by presburger
  then show ?thesis by (elim disjE) simp_all
qed

context rtl8366s_chip
begin

lemma led_chip:
  assumes "ready s" "port_vlan v < 4" "port_vlan w < 4" "val_i v < 16"
  shows "fst (rtl8366s_sw_set_port_led H smi attr v s) = Inr ()"
    "fst (rtl8366s_sw_get_port_led H smi attr w (snd (rtl8366s_sw_set_port_led H smi attr v s))) =
      (if port_vlan w = port_vlan v then Inr (w\<lparr>val_i := val_i v\<rparr>)
       else fst (rtl8366s_sw_get_port_led H smi attr w s))"
proof -
  let ?p = "unat (port_vlan v)" and ?q = "unat (port_vlan w)"
  have p: "?p < 4" "?q < 4" using assms(2,3) by (simp_all add: word_less_nat_alt)
  have a: "rtl8366s_plain (ucast (0x421 :: u32))" by (simp add: rtl8366s_plain_def)
  have run: "rtl8366s_sw_set_port_led H smi attr v s =
      rtl8366_smi_rmwr H smi 0x421 (push_bit (?p * 4) 0xF) (push_bit (?p * 4) (val_i v)) s"
    using p(1) led_ports [OF p(1)] by (simp add: rtl8366s_sw_set_port_led_def Let_def)
  note eff = plain.nibble_regs [OF assms(1) a p assms(4), folded run]
  show "fst (rtl8366s_sw_set_port_led H smi attr v s) = Inr ()" by (rule eff(1))
  show "fst (rtl8366s_sw_get_port_led H smi attr w (snd (rtl8366s_sw_set_port_led H smi attr v s))) =
      (if port_vlan w = port_vlan v then Inr (w\<lparr>val_i := val_i v\<rparr>)
       else fst (rtl8366s_sw_get_port_led H smi attr w s))"
    using p(2) assms(1) eff(2,3)
    by (simp add: rtl8366s_sw_get_port_led_def Let_def fst_bindE fst_catchE bus_simps word_unat_eq_iff [of "port_vlan w"])
qed

end

context rtl8366rb_chip
begin

lemma led_chip:
  assumes "ready s" "port_vlan v < 4" "port_vlan w < 4" "val_i v < 16"
  shows "fst (rtl8366rb_sw_set_port_led H smi attr v s) = Inr ()"
    "fst (rtl8366rb_sw_get_port_led H smi attr w (snd (rtl8366rb_sw_set_port_led H smi attr v s))) =
      (if port_vlan w = port_vlan v then Inr (w\<lparr>val_i := val_i v\<rparr>)
       else fst (rtl8366rb_sw_get_port_led H smi attr w s))"
proof -
  let ?p = "unat (port_vlan v)" and ?q = "unat (port_vlan w)"
  have p: "?p < 4" "?q < 4" using assms(2,3) by (simp_all add: word_less_nat_alt)
  have a: "rtl8366rb_plain (ucast (0x431 :: u32))" by (simp add: rtl8366rb_plain_def)
  have run: "rtl8366rb_sw_set_port_led H smi attr v s =
      rtl8366_smi_rmwr H smi 0x431 (push_bit (?p * 4) 0xF) (push_bit (?p * 4) (val_i v)) s"
    using p(1) by (simp add: rtl8366rb_sw_set_port_led_def Let_def)
  note eff = plain.nibble_regs [OF assms(1) a p assms(4), folded run]
  show "fst (rtl8366rb_sw_set_port_led H smi attr v s) = Inr ()" by (rule eff(1))
  show "fst (rtl8366rb_sw_get_port_led H smi attr w (snd (rtl8366rb_sw_set_port_led H smi attr v s))) =
      (if port_vlan w = port_vlan v then Inr (w\<lparr>val_i := val_i v\<rparr>)
       else fst (rtl8366rb_sw_get_port_led H smi attr w s))"
    using p(2) assms(1) eff(2,3)
    by (simp add: rtl8366rb_sw_get_port_led_def Let_def fst_bindE fst_catchE bus_simps word_unat_eq_iff [of "port_vlan w"])
qed

end

section \<open>The properties\<close>

abbreviation bench_attr :: switch_attr_info where
  "bench_attr \<equiv> \<lparr>attr_type = SWITCH_TYPE_INT, attr_name = [], attr_description = [], attr_disabled = False,
     attr_id = 0, attr_ofs = 0, attr_max = 0\<rparr>"

text \<open>
  LED control, both chips: setting the LED mode of one of the four LED groups to a value of
  four bits succeeds, the new mode is read back, and the modes of the other groups are the old
  ones.
\<close>

theorem led_round_trip:
  assumes "rtl8366s_chip H smi ready chip chip_rd chip_wr vtable" "ready s"
    and "rtl8366rb_chip H' smi' ready' chip' chip_rd' chip_wr' vtable'" "ready' t"
    and "port_vlan v < 4" "port_vlan w < 4" "val_i v < 16"
  shows "fst (rtl8366s_sw_set_port_led H smi attr v s) = Inr () \<and>
    fst (rtl8366s_sw_get_port_led H smi attr w (snd (rtl8366s_sw_set_port_led H smi attr v s))) =
      (if port_vlan w = port_vlan v then Inr (w\<lparr>val_i := val_i v\<rparr>)
       else fst (rtl8366s_sw_get_port_led H smi attr w s)) \<and>
    fst (rtl8366rb_sw_set_port_led H' smi' attr v t) = Inr () \<and>
    fst (rtl8366rb_sw_get_port_led H' smi' attr w (snd (rtl8366rb_sw_set_port_led H' smi' attr v t))) =
      (if port_vlan w = port_vlan v then Inr (w\<lparr>val_i := val_i v\<rparr>)
       else fst (rtl8366rb_sw_get_port_led H' smi' attr w t))"
  using rtl8366s_chip.led_chip [OF assms(1,2,5,6,7)] rtl8366rb_chip.led_chip [OF assms(3,4,5,6,7)] by blast

theorem led_round_trip_witness:
  "let v = zero_val\<lparr>port_vlan := 2, val_i := 9\<rparr>; a = bench_attr in
    fst (rtl8366s_sw_get_port_led benchS benchS_smi a v
      (snd (rtl8366s_sw_set_port_led benchS benchS_smi a v benchS_state))) = Inr v \<and>
    fst (rtl8366rb_sw_get_port_led benchRB benchRB_smi a v
      (snd (rtl8366rb_sw_set_port_led benchRB benchRB_smi a v benchRB_state))) = Inr v"
  using led_round_trip [OF benchS_chip.rtl8366s_chip_axioms TrueI benchRB_chip.rtl8366rb_chip_axioms TrueI,
      of "zero_val\<lparr>port_vlan := 2, val_i := 9\<rparr>" "zero_val\<lparr>port_vlan := 2, val_i := 9\<rparr>"]
  by (simp add: Let_def)

text \<open>
  Rate limits of the RTL8366RB: a limit set for a port is read back rounded up to a multiple of
  64 kbit/s, zero and values from 1048512 on stand for the maximum, and the limits of the other
  ports stay, for both directions.
\<close>

theorem rate_limit_round_trip:
  assumes "rtl8366rb_chip H smi ready chip chip_rd chip_wr vtable" "ready s"
    and "port_vlan v < 6" "port_vlan w < 6"
  shows "fst (rtl8366rb_sw_set_port_rate_in H smi attr v s) = Inr () \<and>
    fst (rtl8366rb_sw_get_port_rate_in H smi u attr w (snd (rtl8366rb_sw_set_port_rate_in H smi attr v s))) =
      (if port_vlan w = port_vlan v then Inr (w\<lparr>val_i := of_nat (rate_limit (val_i v))\<rparr>)
       else fst (rtl8366rb_sw_get_port_rate_in H smi u attr w s)) \<and>
    fst (rtl8366rb_sw_set_port_rate_out H smi attr v s) = Inr () \<and>
    fst (rtl8366rb_sw_get_port_rate_out H smi u attr w (snd (rtl8366rb_sw_set_port_rate_out H smi attr v s))) =
      (if port_vlan w = port_vlan v then Inr (w\<lparr>val_i := of_nat (rate_limit (val_i v))\<rparr>)
       else fst (rtl8366rb_sw_get_port_rate_out H smi u attr w s))"
  using rtl8366rb_chip.rate_in_chip [OF assms] rtl8366rb_chip.rate_out_chip [OF assms] by blast

theorem rate_limit_round_trip_witness:
  "let v = zero_val\<lparr>port_vlan := 1, val_i := 100\<rparr>; a = bench_attr in
    fst (rtl8366rb_sw_get_port_rate_in benchRB benchRB_smi 0 a v
      (snd (rtl8366rb_sw_set_port_rate_in benchRB benchRB_smi a v benchRB_state))) = Inr (v\<lparr>val_i := 128\<rparr>)"
  using rate_limit_round_trip [OF benchRB_chip.rtl8366rb_chip_axioms TrueI,
      of "zero_val\<lparr>port_vlan := 1, val_i := 100\<rparr>" "zero_val\<lparr>port_vlan := 1, val_i := 100\<rparr>"]
  by (simp add: Let_def rate_limit_def)

text \<open>
  Port mirroring of the RTL8366RB: the six mirror settings share one register and are independent.
  Setting one of them succeeds, its getter returns the value (a flag as zero or one), and the
  getters of the other five return what they returned before.
\<close>

theorem mirror_settings_independent:
  assumes "rtl8366rb_chip H smi ready chip chip_rd chip_wr vtable" "ready s"
    and "i < 6" "j < 6" "i < 2 \<longrightarrow> val_i v < 16"
  shows "fst (fst (mirror_settings H smi u attr ! i) v s) = Inr () \<and>
    fst (snd (mirror_settings H smi u attr ! j) w (snd (fst (mirror_settings H smi u attr ! i) v s))) =
      (if j = i then Inr (w\<lparr>val_i := mirror_value i (val_i v)\<rparr>)
       else fst (snd (mirror_settings H smi u attr ! j) w s))"
  using rtl8366rb_chip.mirror_chip [OF assms] by blast

theorem mirror_settings_independent_witness:
  "let v = zero_val\<lparr>val_i := 3\<rparr>; ms = mirror_settings benchRB benchRB_smi 0 bench_attr;
       s = snd (fst (ms ! 1) v benchRB_state) in
    fst (snd (ms ! 1) v s) = Inr v \<and> fst (snd (ms ! 2) v s) = fst (snd (ms ! 2) v benchRB_state)"
  using mirror_settings_independent [OF benchRB_chip.rtl8366rb_chip_axioms TrueI, of 1 1 "zero_val\<lparr>val_i := 3\<rparr>"]
    mirror_settings_independent [OF benchRB_chip.rtl8366rb_chip_axioms TrueI, of 1 2 "zero_val\<lparr>val_i := 3\<rparr>"]
  by (simp add: Let_def mirror_value_def)

end
