(* ===== verification/Counter_Properties.thy ===== *)
theory Counter_Properties
  imports Bench
begin

text \<open>
  The counters and the PHY registers of the two chips: the value and the address range of a MIB
  counter, and the addresses under which PHY registers are reached.
\<close>

section \<open>The value of a counter\<close>

definition mib_value :: "(u16 \<Rightarrow> u16) \<Rightarrow> u32 \<Rightarrow> nat \<Rightarrow> u64" where
  "mib_value rd addr n = (\<Sum>i<n. push_bit (16 * i) (ucast (rd (ucast (addr + of_nat i)))))"

lemma shift_in_word: "push_bit 16 x OR ucast ((ucast (w :: u16) :: u32) AND 0xFFFF) = push_bit 16 (x :: u64) + ucast w"
proof -
  have m: "(0xFFFF :: u32) = mask 16" by (simp add: mask_eq_exp_minus_1)
  have w: "ucast ((ucast w :: u32) AND 0xFFFF) = (ucast w :: u64)"
    unfolding m by (rule bit_word_eqI) (auto simp: bit_simps dest: bit_imp_le_length)
  show ?thesis unfolding w
    by (rule disjunctive_add [symmetric]) (auto simp: bit_simps dest: bit_imp_le_length)
qed

context reg_bus
begin

lemma read_mib_words_run:
  "ready s \<Longrightarrow> fst (read_mib_words H smi a n acc s) =
      Inr (push_bit (16 * n) acc + mib_value (chip_rd (chip s)) a n)
    \<and> chip (snd (read_mib_words H smi a n acc s)) = chip s \<and> ready (snd (read_mib_words H smi a n acc s))"
proof (induction n arbitrary: acc s)
  case 0
  then show ?case by (simp add: mib_value_def)
next
  case (Suc n)
  let ?s = "snd (rtl8366_smi_read_reg H smi (a + of_nat n) s)"
  have "ready ?s" using Suc.prems by (simp add: bus_simps)
  note ih = Suc.IH [OF this]
  have "push_bit (16 * n) (push_bit 16 acc + (w :: u64)) = push_bit (16 * Suc n) acc + push_bit (16 * n) w" for w
    by (simp add: push_bit_add push_bit_push_bit add.commute)
  then show ?case
    using Suc.prems ih by (simp add: fst_bindE snd_bindE bus_simps shift_in_word mib_value_def)
qed

end

section \<open>The counter tables\<close>

text \<open>Where the counters of one port lie, relative to the bases: inside the window of the port
  and one after the other.\<close>

definition counter_before :: "rtl8366_mib_counter \<Rightarrow> rtl8366_mib_counter \<Rightarrow> bool" where
  "counter_before c d \<longleftrightarrow> mib_base c < mib_base d
    \<or> mib_base c = mib_base d \<and> unat (mib_offset c) + mib_length c \<le> unat (mib_offset d)"

definition counters_packed :: "(nat \<Rightarrow> nat) \<Rightarrow> rtl8366_mib_counter list \<Rightarrow> bool" where
  "counters_packed window cs \<longleftrightarrow>
    list_all (\<lambda>c. mib_base c < 2 \<and> unat (mib_offset c) + mib_length c \<le> window (mib_base c)) cs
    \<and> successively counter_before cs"

lemma transp_counter_before: "transp counter_before"
  by (rule transpI) (auto simp: counter_before_def)

lemma rtl8366s_counters_packed: "counters_packed (\<lambda>b. if b = 0 then 64 else 8) rtl8366s_mib_counters"
  by (simp add: counters_packed_def rtl8366s_mib_counters_def counter_before_def)

lemma rtl8366rb_counters_packed: "counters_packed (\<lambda>b. 80) rtl8366rb_mib_counters"
  by (simp add: counters_packed_def rtl8366rb_mib_counters_def counter_before_def)

lemma packed_nth:
  assumes "counters_packed window cs" "n < length cs"
  shows "mib_base (cs ! n) < 2" "unat (mib_offset (cs ! n)) + mib_length (cs ! n) \<le> window (mib_base (cs ! n))"
  using assms by (auto simp: counters_packed_def list_all_length)

lemma packed_apart:
  assumes "counters_packed window cs" "m < length cs" "n < length cs" "m \<noteq> n"
    "mib_base (cs ! m) = mib_base (cs ! n)"
  shows "unat (mib_offset (cs ! m)) + mib_length (cs ! m) \<le> unat (mib_offset (cs ! n))
    \<or> unat (mib_offset (cs ! n)) + mib_length (cs ! n) \<le> unat (mib_offset (cs ! m))"
proof -
  have "sorted_wrt counter_before cs"
    using assms(1) by (simp add: counters_packed_def successively_conv_sorted_wrt transp_counter_before)
  then have "m < n \<Longrightarrow> counter_before (cs ! m) (cs ! n)" "n < m \<Longrightarrow> counter_before (cs ! n) (cs ! m)"
    using assms(2,3) by (simp_all add: sorted_wrt_iff_nth_less)
  then show ?thesis using assms(4,5) by (auto simp: counter_before_def linorder_neq_iff)
qed

lemma counter_lengths: "length rtl8366s_mib_counters = 33" "length rtl8366rb_mib_counters = 33"
  by (simp_all add: rtl8366s_mib_counters_def rtl8366rb_mib_counters_def)

lemma rb_bases: "n < 33 \<Longrightarrow> mib_base (rtl8366rb_mib_counters ! n) = 0"
proof -
  have "list_all (\<lambda>c. mib_base c = 0) rtl8366rb_mib_counters" by (simp add: rtl8366rb_mib_counters_def)
  then show "n < 33 \<Longrightarrow> ?thesis" by (simp add: list_all_length counter_lengths)
qed

text \<open>The first register of a counter.\<close>

definition rtl8366s_mib_start :: "nat \<Rightarrow> nat \<Rightarrow> nat" where
  "rtl8366s_mib_start n p = (let c = rtl8366s_mib_counters ! n
     in (if mib_base c = 0 then 0x1000 + 64 * p else 0x1180 + 8 * p) + unat (mib_offset c))"

definition rtl8366rb_mib_start :: "nat \<Rightarrow> nat \<Rightarrow> nat" where
  "rtl8366rb_mib_start n p = 0x1000 + 80 * p + unat (mib_offset (rtl8366rb_mib_counters ! n))"

lemma mib_addr_start:
  assumes "n < 33" "p \<le> 6"
  shows "rtl8366s_mib_addr n p = Some (of_nat (rtl8366s_mib_start n p))"
    "rtl8366rb_mib_addr n p = of_nat (rtl8366rb_mib_start n p)"
  using assms packed_nth(1) [OF rtl8366s_counters_packed, of n]
  by (auto simp: rtl8366s_mib_addr_def rtl8366s_mib_start_def rtl8366rb_mib_addr_def rtl8366rb_mib_start_def
      Let_def counter_lengths)

lemma window_apart:
  assumes "p < q" "o1 + l1 \<le> w"
  shows "b + w * p + o1 + l1 \<le> b + w * q + (o2 :: nat)"
proof -
  have "w * p + w \<le> w * q" using mult_le_mono2 [of "Suc p" q w] assms(1) by simp
  then show ?thesis using assms(2) by simp
qed

lemma rtl8366s_counters_apart:
  assumes "m < 33" "n < 33" "p < 6" "q < 6" "(m, p) \<noteq> (n, q)"
  defines "len \<equiv> \<lambda>n. mib_length (rtl8366s_mib_counters ! n)"
  shows "rtl8366s_mib_start m p + len m \<le> rtl8366s_mib_start n q
    \<or> rtl8366s_mib_start n q + len n \<le> rtl8366s_mib_start m p"
proof -
  let ?c = "rtl8366s_mib_counters ! m" and ?d = "rtl8366s_mib_counters ! n"
  note in_c = packed_nth [OF rtl8366s_counters_packed, of m, unfolded counter_lengths, OF assms(1)]
  note in_d = packed_nth [OF rtl8366s_counters_packed, of n, unfolded counter_lengths, OF assms(2)]
  show ?thesis
  proof (cases "mib_base ?c = mib_base ?d")
    case same: True
    let ?w = "if mib_base ?c = 0 then 64 else 8 :: nat" and ?b = "if mib_base ?c = 0 then 0x1000 else 0x1180 :: nat"
    have "p = q \<Longrightarrow> ?thesis"
      using packed_apart [OF rtl8366s_counters_packed, of m n, unfolded counter_lengths, OF assms(1,2)] assms(5) same
      by (auto simp: rtl8366s_mib_start_def len_def Let_def)
    moreover have "p < q \<Longrightarrow> ?thesis"
      using window_apart [of p q "unat (mib_offset ?c)" "mib_length ?c" ?w ?b "unat (mib_offset ?d)"] in_c(2) same
      by (auto simp: rtl8366s_mib_start_def len_def Let_def split: if_splits)
    moreover have "q < p \<Longrightarrow> ?thesis"
      using window_apart [of q p "unat (mib_offset ?d)" "mib_length ?d" ?w ?b "unat (mib_offset ?c)"] in_d(2) same
      by (auto simp: rtl8366s_mib_start_def len_def Let_def split: if_splits)
    ultimately show ?thesis by linarith
  next
    case False
    then show ?thesis
      using in_c in_d assms(3,4) by (auto simp: rtl8366s_mib_start_def len_def Let_def split: if_splits)
  qed
qed

lemma rtl8366rb_counters_apart:
  assumes "m < 33" "n < 33" "(m, p) \<noteq> (n, q)"
  defines "len \<equiv> \<lambda>n. mib_length (rtl8366rb_mib_counters ! n)"
  shows "rtl8366rb_mib_start m p + len m \<le> rtl8366rb_mib_start n q
    \<or> rtl8366rb_mib_start n q + len n \<le> rtl8366rb_mib_start m p"
proof -
  let ?c = "rtl8366rb_mib_counters ! m" and ?d = "rtl8366rb_mib_counters ! n"
  note in_c = packed_nth(2) [OF rtl8366rb_counters_packed, of m, unfolded counter_lengths, OF assms(1)]
  note in_d = packed_nth(2) [OF rtl8366rb_counters_packed, of n, unfolded counter_lengths, OF assms(2)]
  have "p = q \<Longrightarrow> ?thesis"
    using packed_apart [OF rtl8366rb_counters_packed, of m n, unfolded counter_lengths, OF assms(1,2)] assms(3)
      rb_bases [OF assms(1)] rb_bases [OF assms(2)]
    by (auto simp: rtl8366rb_mib_start_def len_def)
  moreover have "p < q \<Longrightarrow> ?thesis"
    using window_apart [of p q "unat (mib_offset ?c)" "mib_length ?c" 80 "0x1000" "unat (mib_offset ?d)"] in_c
    by (simp add: rtl8366rb_mib_start_def len_def)
  moreover have "q < p \<Longrightarrow> ?thesis"
    using window_apart [of q p "unat (mib_offset ?d)" "mib_length ?d" 80 "0x1000" "unat (mib_offset ?c)"] in_d
    by (simp add: rtl8366rb_mib_start_def len_def)
  ultimately show ?thesis by linarith
qed

lemma counters_below_control:
  assumes "n < 33" "p < 6"
  shows "rtl8366s_mib_start n p + mib_length (rtl8366s_mib_counters ! n) \<le> 0x11F0"
    "rtl8366rb_mib_start n p + mib_length (rtl8366rb_mib_counters ! n) \<le> 0x13F0"
  using packed_nth [OF rtl8366s_counters_packed, of n, unfolded counter_lengths, OF assms(1)]
    packed_nth [OF rtl8366rb_counters_packed, of n, unfolded counter_lengths, OF assms(1)] assms(2)
  by (auto simp: rtl8366s_mib_start_def rtl8366rb_mib_start_def Let_def)

section \<open>PHY registers\<close>

definition phy_in_range :: "u32 \<Rightarrow> u32 \<Rightarrow> u32 \<Rightarrow> bool" where
  "phy_in_range phy_no page addr \<longleftrightarrow> phy_no \<le> 4 \<and> page \<le> 7 \<and> addr \<le> 31"

lemma low_bits: "(x :: u32) \<le> 31 \<Longrightarrow> bit x i \<Longrightarrow> i < 5" "(x :: u32) \<le> 7 \<Longrightarrow> bit x i \<Longrightarrow> i < 3"
proof -
  have small: "unat x < 2 ^ k \<Longrightarrow> bit x i \<Longrightarrow> i < k" for k
    by (metis bit_take_bit_iff take_bit_small)
  show "x \<le> 31 \<Longrightarrow> bit x i \<Longrightarrow> i < 5" "x \<le> 7 \<Longrightarrow> bit x i \<Longrightarrow> i < 3"
    using small [of 5] small [of 3] by (simp_all add: word_le_nat_alt)
qed

text \<open>The fields of a PHY address, the same for both chips.\<close>

lemma bit_phy_reg:
  assumes "phy_in_range phy page addr"
  shows "bit (rtl8366s_phy_reg phy page addr) i \<longleftrightarrow>
      i = 15 \<or> i = unat phy + 9 \<or> (5 \<le> i \<and> i < 8 \<and> bit page (i - 5)) \<or> (i < 5 \<and> bit addr i)"
    "rtl8366rb_phy_reg phy page addr = rtl8366s_phy_reg phy page addr"
proof -
  have m: "(0xE0 :: u32) = push_bit 5 (mask 3)" "(0x1F :: u32) = mask 5" "(0x1E0 :: u32) = push_bit 5 (mask 4)"
    "(0x8000 :: u32) = BIT 15" by (simp_all add: mask_eq_exp_minus_1 BIT_def)
  have phy: "unat phy \<le> 4" using assms by (simp add: phy_in_range_def word_le_nat_alt)
  have bounds: "page \<le> 7" "addr \<le> 31" using assms by (simp_all add: phy_in_range_def)
  have s: "bit (rtl8366s_phy_reg phy page addr) i \<longleftrightarrow>
      i = 15 \<or> i = unat phy + 9 \<or> (5 \<le> i \<and> i < 8 \<and> bit page (i - 5)) \<or> (i < 5 \<and> bit addr i)" for i
    unfolding rtl8366s_phy_reg_def m using phy by (auto simp: bit_simps bit_BIT)
  show "bit (rtl8366s_phy_reg phy page addr) i \<longleftrightarrow>
      i = 15 \<or> i = unat phy + 9 \<or> (5 \<le> i \<and> i < 8 \<and> bit page (i - 5)) \<or> (i < 5 \<and> bit addr i)"
    by (rule s)
  have low: "bit page j \<Longrightarrow> j < 3 \<and> j < 4" for j using low_bits(2) [OF bounds(1), of j] by auto
  show "rtl8366rb_phy_reg phy page addr = rtl8366s_phy_reg phy page addr"
    unfolding rtl8366rb_phy_reg_def rtl8366s_phy_reg_def m
    by (rule bit_word_eqI) (use low in \<open>auto simp: bit_simps bit_BIT\<close>)
qed

lemma phy_reg_inj:
  assumes "phy_in_range p1 g1 a1" "phy_in_range p2 g2 a2"
    and eq: "rtl8366s_phy_reg p1 g1 a1 = rtl8366s_phy_reg p2 g2 a2"
  shows "p1 = p2 \<and> g1 = g2 \<and> a1 = a2"
proof -
  have bits: "i = 15 \<or> i = unat p1 + 9 \<or> (5 \<le> i \<and> i < 8 \<and> bit g1 (i - 5)) \<or> (i < 5 \<and> bit a1 i) \<longleftrightarrow>
      i = 15 \<or> i = unat p2 + 9 \<or> (5 \<le> i \<and> i < 8 \<and> bit g2 (i - 5)) \<or> (i < 5 \<and> bit a2 i)" for i
    using bit_phy_reg(1) [OF assms(1), of i] bit_phy_reg(1) [OF assms(2), of i] by (simp add: eq)
  have small: "unat p1 \<le> 4" "unat p2 \<le> 4" and g: "g1 \<le> 7" "g2 \<le> 7" and a: "a1 \<le> 31" "a2 \<le> 31"
    using assms(1,2) by (simp_all add: phy_in_range_def word_le_nat_alt)
  have "unat p1 = unat p2" using bits [of "unat p1 + 9"] small by simp
  moreover have "g1 = g2"
  proof (rule bit_word_eqI)
    fix i show "bit g1 i = bit g2 i"
      using bits [of "i + 5"] low_bits(2) [OF g(1), of i] low_bits(2) [OF g(2), of i] small by auto
  qed
  moreover have "a1 = a2"
  proof (rule bit_word_eqI)
    fix i show "bit a1 i = bit a2 i"
      using bits [of i] low_bits(1) [OF a(1), of i] low_bits(1) [OF a(2), of i] small by auto
  qed
  ultimately show ?thesis by (simp add: word_unat_eq_iff)
qed

section \<open>Running the operations\<close>

lemma ctl_bits: "ucast (r :: u16) AND 1 = (0 :: u32) \<longleftrightarrow> \<not> bit r 0" "ucast (r :: u16) AND 2 = (0 :: u32) \<longleftrightarrow> \<not> bit r 1"
proof -
  have "ucast r AND 2 ^ k = (0 :: u32) \<longleftrightarrow> \<not> bit r k" if "k < 16" for k
    using that by (simp add: and_exp_eq_0_iff_not_bit bit_simps)
  from this [of 0] this [of 1] show "ucast r AND 1 = (0 :: u32) \<longleftrightarrow> \<not> bit r 0" "ucast r AND 2 = (0 :: u32) \<longleftrightarrow> \<not> bit r 1"
    by simp_all
qed

context reg_bus
begin

lemma mib_counter_run:
  assumes "ready s"
  defines "read \<equiv> \<lambda>a ctl n. bindE (rtl8366_smi_write_reg H smi a 0) (\<lambda>_.
      bindE (rtl8366_smi_read_reg H smi ctl) (\<lambda>data.
      if data AND 1 \<noteq> 0 then failE EBUSY else if data AND 2 \<noteq> 0 then failE EIO
      else read_mib_words H smi a n 0))"
  shows "fst (read a ctl n s) =
    (let c = chip_wr (chip s) (ucast a) 0; r = chip_rd c (ucast ctl)
     in if bit r 0 then Inl EBUSY else if bit r 1 then Inl EIO else Inr (mib_value (chip_rd c) a n))"
  using assms(1) by (simp add: read_def fst_bindE snd_bindE bus_simps ctl_bits read_mib_words_run Let_def)

end

lemma phy_refused:
  assumes "\<not> phy_in_range phy page addr"
  shows "rtl8366s_read_phy_reg H smi phy page addr s = (Inl EINVAL, s)"
    "rtl8366s_write_phy_reg H smi phy page addr d s = (Inl EINVAL, s)"
    "rtl8366rb_read_phy_reg H smi phy page addr s = (Inl EINVAL, s)"
    "rtl8366rb_write_phy_reg H smi phy page addr d s = (Inl EINVAL, s)"
  using assms
  by (auto simp: phy_in_range_def rtl8366s_read_phy_reg_def rtl8366s_write_phy_reg_def
      rtl8366rb_read_phy_reg_def rtl8366rb_write_phy_reg_def failE_def not_le)

lemma phy_refused_mii:
  assumes "\<not> phy_in_range phy 0 addr"
  shows "rtl8366s_mii_read H smi phy addr s = (0xFFFF, s)" "rtl8366rb_mii_read H smi phy addr s = (0xFFFF, s)"
  by (simp_all add: rtl8366s_mii_read_def rtl8366rb_mii_read_def phy_refused [OF assms])

lemma bit_phy_word:
  assumes "phy_in_range phy page addr"
  shows "bit (ucast (rtl8366s_phy_reg phy page addr) :: u16) i = bit (rtl8366s_phy_reg phy page addr) i"
proof -
  have "unat phy \<le> 4" using assms by (simp add: phy_in_range_def word_le_nat_alt)
  then have "bit (rtl8366s_phy_reg phy page addr) i \<Longrightarrow> i < 16"
    using bit_phy_reg(1) [OF assms, of i] by auto
  then show ?thesis by (auto simp: bit_simps)
qed

lemma phy_word_inj:
  assumes "phy_in_range p1 g1 a1" "phy_in_range p2 g2 a2"
    and "(ucast (rtl8366s_phy_reg p1 g1 a1) :: u16) = ucast (rtl8366s_phy_reg p2 g2 a2)"
  shows "p1 = p2 \<and> g1 = g2 \<and> a1 = a2"
proof (rule phy_reg_inj [OF assms(1,2)], rule bit_word_eqI)
  fix i show "bit (rtl8366s_phy_reg p1 g1 a1) i = bit (rtl8366s_phy_reg p2 g2 a2) i"
    using bit_phy_word [OF assms(1), of i] bit_phy_word [OF assms(2), of i] assms(3) by simp
qed

lemma phy_word_special:
  assumes "phy_in_range phy page addr"
  shows "(ucast (rtl8366s_phy_reg phy page addr) :: u16) \<notin> {0x8000, 0x8002, 0x8028, 0x8029}"
proof -
  have "unat phy \<le> 4" using assms by (simp add: phy_in_range_def word_le_nat_alt)
  then have "unat phy = 0 \<or> unat phy = 1 \<or> unat phy = 2 \<or> unat phy = 3 \<or> unat phy = 4" by presburger
  moreover have "bit (ucast (rtl8366s_phy_reg phy page addr) :: u16) (unat phy + 9)"
    using bit_phy_word [OF assms] bit_phy_reg(1) [OF assms] by simp
  ultimately show ?thesis by (elim disjE) auto
qed

context reg_bus
begin

lemma phy_run:
  assumes "ready s" "phy_in_range phy page addr"
  defines "a \<equiv> ucast (rtl8366s_phy_reg phy page addr)"
  shows "fst (rtl8366s_read_phy_reg H smi phy page addr s) =
      Inr (ucast (chip_rd (chip_wr (chip_wr (chip s) 0x8028 1) a 0) 0x8029))"
    "fst (rtl8366s_write_phy_reg H smi phy page addr d s) = Inr ()"
    "chip (snd (rtl8366s_write_phy_reg H smi phy page addr d s)) = chip_wr (chip_wr (chip s) 0x8028 0) a (ucast d)"
    "fst (rtl8366rb_read_phy_reg H smi phy page addr s) =
      Inr (ucast (chip_rd (chip_wr (chip_wr (chip s) 0x8000 1) a 0) 0x8002))"
    "fst (rtl8366rb_write_phy_reg H smi phy page addr d s) = Inr ()"
    "chip (snd (rtl8366rb_write_phy_reg H smi phy page addr d s)) = chip_wr (chip_wr (chip s) 0x8000 0) a (ucast d)"
  using assms(1) bit_phy_reg(2) [OF assms(2)] assms(2) [unfolded phy_in_range_def not_less [symmetric]]
  by (simp_all add: rtl8366s_read_phy_reg_def rtl8366s_write_phy_reg_def
      rtl8366rb_read_phy_reg_def rtl8366rb_write_phy_reg_def fst_bindE snd_bindE bus_simps a_def)

end

section \<open>The properties\<close>

text \<open>
  MIB counters, both chips: the 16-bit registers of different counters, of the same or of different
  ports, never overlap, and all lie below the MIB control register.
\<close>

theorem mib_counters_disjoint:
  assumes "m < 33" "n < 33" "p < 6" "q < 6" "(m, p) \<noteq> (n, q)"
  shows "(\<exists>a b. rtl8366s_mib_addr m p = Some a \<and> rtl8366s_mib_addr n q = Some b
      \<and> unat a + mib_length (rtl8366s_mib_counters ! m) \<le> 0x11F0
      \<and> (unat a + mib_length (rtl8366s_mib_counters ! m) \<le> unat b
         \<or> unat b + mib_length (rtl8366s_mib_counters ! n) \<le> unat a))
    \<and> unat (rtl8366rb_mib_addr m p) + mib_length (rtl8366rb_mib_counters ! m) \<le> 0x13F0
    \<and> (unat (rtl8366rb_mib_addr m p) + mib_length (rtl8366rb_mib_counters ! m) \<le> unat (rtl8366rb_mib_addr n q)
       \<or> unat (rtl8366rb_mib_addr n q) + mib_length (rtl8366rb_mib_counters ! n) \<le> unat (rtl8366rb_mib_addr m p))"
proof -
  have small: "rtl8366s_mib_start m p < 2 ^ 32" "rtl8366s_mib_start n q < 2 ^ 32"
    "rtl8366rb_mib_start m p < 2 ^ 32" "rtl8366rb_mib_start n q < 2 ^ 32"
    using counters_below_control [OF assms(1,3)] counters_below_control [OF assms(2,4)] by simp_all
  then have nats: "unat (of_nat (rtl8366s_mib_start m p) :: u32) = rtl8366s_mib_start m p"
    "unat (of_nat (rtl8366s_mib_start n q) :: u32) = rtl8366s_mib_start n q"
    "unat (of_nat (rtl8366rb_mib_start m p) :: u32) = rtl8366rb_mib_start m p"
    "unat (of_nat (rtl8366rb_mib_start n q) :: u32) = rtl8366rb_mib_start n q"
    by (simp_all add: unat_of_nat)
  show ?thesis
    using rtl8366s_counters_apart [OF assms] rtl8366rb_counters_apart [OF assms(1,2,5)]
      counters_below_control [OF assms(1,3)] assms
    by (simp add: mib_addr_start nats)
qed

theorem mib_counters_disjoint_witness:
  "unat (rtl8366rb_mib_addr 0 0) + 4 \<le> unat (rtl8366rb_mib_addr 1 0)
    \<or> unat (rtl8366rb_mib_addr 1 0) + 4 \<le> unat (rtl8366rb_mib_addr 0 0)"
  using mib_counters_disjoint [of 0 1 0 0] by (simp add: rtl8366rb_mib_counters_def)

text \<open>
  Reading a MIB counter, both chips: a counter or port number out of range is refused; otherwise
  the counter is latched by a write to its address, a busy or resetting counter block gives the
  errors EBUSY and EIO, and else the result has the words of the counter, the least significant
  first. On port number 6, which the range test lets through, the RTL8366S reads the
  registers of a counter of port 0.
\<close>

theorem mib_counter_reads:
  assumes "reg_bus H smi ready chip chip_rd chip_wr" "ready s"
  shows "fst (rtl8366s_get_mib_counter H smi n p s) =
      (if 6 < p \<or> 33 \<le> n then Inl EINVAL
       else let a = the (rtl8366s_mib_addr n p); c = chip_wr (chip s) (ucast a) 0; ctl = chip_rd c 0x11F0
         in if bit ctl 0 then Inl EBUSY else if bit ctl 1 then Inl EIO
            else Inr (mib_value (chip_rd c) a (mib_length (rtl8366s_mib_counters ! n)))) \<and>
    fst (rtl8366rb_get_mib_counter H smi n p s) =
      (if 6 < p \<or> 33 \<le> n then Inl EINVAL
       else let a = rtl8366rb_mib_addr n p; c = chip_wr (chip s) (ucast a) 0; ctl = chip_rd c 0x13F0
         in if bit ctl 0 then Inl EBUSY else if bit ctl 1 then Inl EIO
            else Inr (mib_value (chip_rd c) a (mib_length (rtl8366rb_mib_counters ! n)))) \<and>
    rtl8366s_mib_addr 0 6 = rtl8366s_mib_addr 29 0"
proof -
  note run = reg_bus.mib_counter_run [OF assms]
  have "fst (rtl8366s_get_mib_counter H smi n p s) =
      (if 6 < p \<or> 33 \<le> n then Inl EINVAL
       else let a = the (rtl8366s_mib_addr n p); c = chip_wr (chip s) (ucast a) 0; ctl = chip_rd c 0x11F0
         in if bit ctl 0 then Inl EBUSY else if bit ctl 1 then Inl EIO
            else Inr (mib_value (chip_rd c) a (mib_length (rtl8366s_mib_counters ! n))))"
  proof (cases "6 < p \<or> 33 \<le> n")
    case False
    then obtain a where "rtl8366s_mib_addr n p = Some a" using mib_addr_start(1) [of n p] by auto
    then show ?thesis
      using False run [of a "0x11F0"] by (simp add: rtl8366s_get_mib_counter_def Let_def)
  qed (auto simp: rtl8366s_get_mib_counter_def)
  moreover have "rtl8366s_mib_addr 0 6 = rtl8366s_mib_addr 29 0"
    by (simp add: rtl8366s_mib_addr_def rtl8366s_mib_counters_def)
  ultimately show ?thesis
    using run [of "rtl8366rb_mib_addr n p" "0x13F0"] by (auto simp: rtl8366rb_get_mib_counter_def Let_def)
qed

definition bench_counter :: "regfile mdio_bench smi_state" where
  "bench_counter = benchS_state\<lparr>hw := (hw benchS_state)
     \<lparr>bench_dev := \<lparr>regs = (\<lambda>_. 0)(0x1001 := 3, 0x1002 := 1), vtab = (\<lambda>_. 0)\<rparr>\<rparr>\<rparr>"

theorem mib_counter_reads_witness:
  "fst (rtl8366s_get_mib_counter benchS benchS_smi 0 0 bench_counter) = Inr (3 * 2 ^ 16 + 2 ^ 32)"
  using mib_counter_reads [OF benchS_bus.reg_bus_axioms TrueI, of 0 0 bench_counter]
  by (simp add: bench_counter_def benchS_state_def regfile_wr_def mib_value_def rtl8366s_mib_addr_def
      rtl8366s_mib_counters_def lessThan_nat_numeral lessThan_Suc Let_def)

text \<open>
  PHY registers, both chips: an access with a PHY, page or register number out of range is refused
  without touching the chip, and the MII bus reads such a register as 0xFFFF. An access in range
  selects the direction, addresses the register and, to read, fetches the data register.
  Different registers have different addresses, none of which is an access register.
\<close>

theorem phy_access:
  assumes "reg_bus H smi ready chip chip_rd chip_wr" "ready s"
  shows "(\<not> phy_in_range phy page addr \<longrightarrow>
      rtl8366s_read_phy_reg H smi phy page addr s = (Inl EINVAL, s)
      \<and> rtl8366s_write_phy_reg H smi phy page addr d s = (Inl EINVAL, s)
      \<and> rtl8366rb_read_phy_reg H smi phy page addr s = (Inl EINVAL, s)
      \<and> rtl8366rb_write_phy_reg H smi phy page addr d s = (Inl EINVAL, s))
    \<and> (\<not> phy_in_range phy 0 addr \<longrightarrow>
      rtl8366s_mii_read H smi phy addr s = (0xFFFF, s) \<and> rtl8366rb_mii_read H smi phy addr s = (0xFFFF, s))
    \<and> (phy_in_range phy page addr \<longrightarrow> (let a = ucast (rtl8366s_phy_reg phy page addr) in
      fst (rtl8366s_read_phy_reg H smi phy page addr s) =
        Inr (ucast (chip_rd (chip_wr (chip_wr (chip s) 0x8028 1) a 0) 0x8029))
      \<and> fst (rtl8366s_write_phy_reg H smi phy page addr d s) = Inr ()
      \<and> chip (snd (rtl8366s_write_phy_reg H smi phy page addr d s)) = chip_wr (chip_wr (chip s) 0x8028 0) a (ucast d)
      \<and> fst (rtl8366rb_read_phy_reg H smi phy page addr s) =
        Inr (ucast (chip_rd (chip_wr (chip_wr (chip s) 0x8000 1) a 0) 0x8002))
      \<and> fst (rtl8366rb_write_phy_reg H smi phy page addr d s) = Inr ()
      \<and> chip (snd (rtl8366rb_write_phy_reg H smi phy page addr d s)) = chip_wr (chip_wr (chip s) 0x8000 0) a (ucast d)
      \<and> a \<notin> {0x8000, 0x8002, 0x8028, 0x8029}
      \<and> (phy_in_range phy' page' addr' \<longrightarrow> a = ucast (rtl8366s_phy_reg phy' page' addr')
          \<longrightarrow> (phy, page, addr) = (phy', page', addr'))))"
  using reg_bus.phy_run [OF assms, of phy page addr] phy_word_inj [of phy page addr phy' page' addr']
    phy_word_special [of phy page addr]
  by (simp add: Let_def phy_refused phy_refused_mii)

theorem phy_access_witness:
  "rtl8366s_read_phy_reg benchS benchS_smi 5 0 0 benchS_state = (Inl EINVAL, benchS_state)
    \<and> fst (rtl8366s_write_phy_reg benchS benchS_smi 4 0 12 0x1000 benchS_state) = Inr ()"
  using phy_access [OF benchS_bus.reg_bus_axioms TrueI, where phy = 5 and page = 0 and addr = 0 and s = benchS_state]
    phy_access [OF benchS_bus.reg_bus_axioms TrueI, where phy = 4 and page = 0 and addr = 12 and s = benchS_state]
  by (simp add: phy_in_range_def Let_def)

end
