(* ===== verification/Rtl8367_Tables.thy ===== *)
theory Rtl8367_Tables
  imports Rtl8367_Common Vlan_Init
begin

text \<open>
  The VLAN tables that the RTL8367 and RTL8367B share: 32 member configurations of four registers
  each from \<open>0x728\<close>, the ports' indexes two to a register from \<open>0x700\<close>, and the enable bit. The
  drivers differ in the width of the fields, which are the parameters \<open>mb\<close>, \<open>fb\<close> and \<open>vb\<close>
  here, and in the layout of the 4096 entry table, which each chip's theory adds. The registers have
  room for values that the drivers never store (a filtering database number above 7, a VLAN number
  above 4095), so that the well-formed tables are an invariant here, not a fact of the layout.
\<close>

section \<open>The common accesses\<close>

definition mc67_base :: "nat \<Rightarrow> u32" where
  "mc67_base i = 0x728 + of_nat i * 4"

definition get_mc67 :: "nat \<Rightarrow> nat \<Rightarrow> nat \<Rightarrow> 'h platform \<Rightarrow> rtl8366_smi \<Rightarrow> nat \<Rightarrow>
    ('h smi_state, rtl8366_vlan_mc) io" where
  "get_mc67 mb fb vb H smi i =
    (if i \<ge> 32 then failE EINVAL
     else bindE (rtl8366_smi_read_reg H smi (mc67_base i)) (\<lambda>data0.
          bindE (rtl8366_smi_read_reg H smi (mc67_base i + 1)) (\<lambda>data1.
          bindE (rtl8366_smi_read_reg H smi (mc67_base i + 2)) (\<lambda>data2.
          bindE (rtl8366_smi_read_reg H smi (mc67_base i + 3)) (\<lambda>data3.
          retE \<lparr>mc_vid = ucast (data3 AND mask vb), mc_untag = 0, mc_member = ucast (data0 AND mask mb),
                mc_fid = ucast (data1 AND mask fb), mc_priority = 0\<rparr>)))))"

definition set_mc67 :: "nat \<Rightarrow> nat \<Rightarrow> nat \<Rightarrow> 'h platform \<Rightarrow> rtl8366_smi \<Rightarrow> nat \<Rightarrow> rtl8366_vlan_mc \<Rightarrow>
    ('h smi_state, unit) io" where
  "set_mc67 mb fb vb H smi i m =
    (if i \<ge> 32 \<or> ucast (mc_vid m) \<ge> (0x1000 :: u32) \<or> ucast (mc_priority m) > (7 :: u32) \<or>
        ucast (mc_member m) > (mask mb :: u32) \<or> ucast (mc_untag m) > (mask mb :: u32) \<or>
        ucast (mc_fid m) > (7 :: u32)
     then failE EINVAL
     else bindE (rtl8366_smi_write_reg H smi (mc67_base i) (ucast (mc_member m) AND mask mb)) (\<lambda>_.
          bindE (rtl8366_smi_write_reg H smi (mc67_base i + 1) (ucast (mc_fid m) AND mask fb)) (\<lambda>_.
          bindE (rtl8366_smi_write_reg H smi (mc67_base i + 2) 0) (\<lambda>_.
          rtl8366_smi_write_reg H smi (mc67_base i + 3) (ucast (mc_vid m) AND mask vb)))))"

definition get_idx67 :: "nat \<Rightarrow> 'h platform \<Rightarrow> rtl8366_smi \<Rightarrow> nat \<Rightarrow> ('h smi_state, nat) io" where
  "get_idx67 np H smi p =
    (if p \<ge> np then failE EINVAL
     else bindE (rtl8366_smi_read_reg H smi (0x700 + of_nat (p div 2))) (\<lambda>data.
          retE (unat (drop_bit (8 * (p mod 2)) data AND 0x1F))))"

definition set_idx67 :: "nat \<Rightarrow> 'h platform \<Rightarrow> rtl8366_smi \<Rightarrow> nat \<Rightarrow> nat \<Rightarrow> ('h smi_state, unit) io" where
  "set_idx67 np H smi p i =
    (if p \<ge> np \<or> i \<ge> 32 then failE EINVAL
     else rtl8366_smi_rmwr H smi (0x700 + of_nat (p div 2)) (push_bit (8 * (p mod 2)) 0x1F)
            (push_bit (8 * (p mod 2)) (of_nat i AND 0x1F)))"

definition enable67 :: "'h platform \<Rightarrow> rtl8366_smi \<Rightarrow> bool \<Rightarrow> ('h smi_state, unit) io" where
  "enable67 H smi b = rtl8366_smi_rmwr H smi 0x7A8 1 (if b then 1 else 0)"

definition valid67 :: "u32 \<Rightarrow> 'h smi_state \<Rightarrow> bool" where
  "valid67 vlan s \<longleftrightarrow>
    \<not> (vlan = 0 \<or> vlan \<ge> (if vlan4k_enabled s \<noteq> 0 then 0x1000 - 1 else of_nat 32))"

lemma access67_flags [silent_intros]:
  "silent flags (get_mc67 mb fb vb H smi i)" "silent flags (set_mc67 mb fb vb H smi i m)"
  "silent flags (get_idx67 np H smi p)" "silent flags (set_idx67 np H smi p i)"
  "silent flags (enable67 H smi b)"
  unfolding get_mc67_def set_mc67_def get_idx67_def set_idx67_def enable67_def
  by (intro silent_intros)+

lemma valid67_range:
  "valid67 vid s \<Longrightarrow> vid \<noteq> 0 \<and> vid < 4096" "flags s = flags t \<Longrightarrow> valid67 vid s \<longleftrightarrow> valid67 vid t"
  by (auto simp: valid67_def flags_def word_le_nat_alt word_less_nat_alt split: if_splits)

section \<open>The registers\<close>

definition mc67_of :: "nat \<Rightarrow> nat \<Rightarrow> nat \<Rightarrow> u16 \<Rightarrow> u16 \<Rightarrow> u16 \<Rightarrow> rtl8366_vlan_mc" where
  "mc67_of mb fb vb w0 w1 w3 = \<lparr>mc_vid = take_bit vb w3, mc_untag = 0, mc_member = take_bit mb w0,
     mc_fid = ucast (take_bit fb w1), mc_priority = 0\<rparr>"

definition plain67 :: "u16 \<Rightarrow> bool" where
  "plain67 a \<longleftrightarrow> (let n = unat a in (0x700 \<le> n \<and> n \<le> 0x704) \<or> (0x728 \<le> n \<and> n \<le> 0x7A8))"

definition mc67_word :: "nat \<Rightarrow> nat \<Rightarrow> u16" where
  "mc67_word i w = of_nat (0x728 + 4 * i + w)"

definition idx67_word :: "nat \<Rightarrow> u16" where
  "idx67_word p = of_nat (0x700 + p div 2)"

lemma mc67_base_word:
  "ucast (mc67_base i) = mc67_word i 0" "ucast (mc67_base i + 1) = mc67_word i 1"
  "ucast (mc67_base i + 2) = mc67_word i 2" "ucast (mc67_base i + 3) = mc67_word i 3"
proof -
  have b: "mc67_base i = of_nat (0x728 + 4 * i + 0)" "mc67_base i + 1 = of_nat (0x728 + 4 * i + 1)"
    "mc67_base i + 2 = of_nat (0x728 + 4 * i + 2)" "mc67_base i + 3 = of_nat (0x728 + 4 * i + 3)"
    by (simp_all add: mc67_base_def)
  show "ucast (mc67_base i) = mc67_word i 0" unfolding b(1) ucast_of_nat_u16 mc67_word_def ..
  show "ucast (mc67_base i + 1) = mc67_word i 1" unfolding b(2) ucast_of_nat_u16 mc67_word_def ..
  show "ucast (mc67_base i + 2) = mc67_word i 2" unfolding b(3) ucast_of_nat_u16 mc67_word_def ..
  show "ucast (mc67_base i + 3) = mc67_word i 3" unfolding b(4) ucast_of_nat_u16 mc67_word_def ..
qed

lemma idx67_reg_word: "ucast (0x700 + of_nat (p div 2) :: u32) = idx67_word p"
proof -
  have "(0x700 + of_nat (p div 2) :: u32) = of_nat (0x700 + p div 2)" by simp
  then show ?thesis by (simp only: ucast_of_nat_u16 idx67_word_def)
qed

lemma unat_mc67_word: "i < 32 \<Longrightarrow> w < 4 \<Longrightarrow> unat (mc67_word i w) = 0x728 + 4 * i + w"
  unfolding mc67_word_def by (rule unat_u16_of_nat) simp

lemma unat_idx67_word: "p < 10 \<Longrightarrow> unat (idx67_word p) = 0x700 + p div 2"
  unfolding idx67_word_def by (rule unat_u16_of_nat) simp

lemma plain67_words:
  "i < 32 \<Longrightarrow> w < 4 \<Longrightarrow> plain67 (mc67_word i w)" "p < 10 \<Longrightarrow> plain67 (idx67_word p)" "plain67 0x7A8"
  by (auto simp: plain67_def unat_mc67_word unat_idx67_word Let_def)

lemma plain67_neq: "plain67 a \<Longrightarrow> a \<noteq> 0x501 \<and> a \<noteq> 0x503 \<and> a \<noteq> 0x504 \<and> a \<noteq> 0x505 \<and> a \<noteq> 0x506
    \<and> a \<noteq> 0x500 \<and> a \<noteq> 0x510 \<and> a \<noteq> 0x511 \<and> a \<noteq> 0x520 \<and> a \<noteq> 0x521"
  by (auto simp: plain67_def Let_def)

lemma words67_distinct:
  "i < 32 \<Longrightarrow> j < 32 \<Longrightarrow> v < 4 \<Longrightarrow> w < 4 \<Longrightarrow> mc67_word i v = mc67_word j w \<longleftrightarrow> i = j \<and> v = w"
  "i < 32 \<Longrightarrow> w < 4 \<Longrightarrow> p < 10 \<Longrightarrow> mc67_word i w \<noteq> idx67_word p"
  "p < 10 \<Longrightarrow> q < 10 \<Longrightarrow> idx67_word p = idx67_word q \<longleftrightarrow> p div 2 = q div 2"
  "i < 32 \<Longrightarrow> w < 4 \<Longrightarrow> mc67_word i w \<noteq> 0x7A8" "p < 10 \<Longrightarrow> idx67_word p \<noteq> 0x7A8"
  by (auto simp: word_unat_eq_iff unat_mc67_word unat_idx67_word) presburger+

lemmas words67_neq = words67_distinct(2,4,5) [THEN not_sym]

text \<open>The index fields: five bits at the start of each byte.\<close>

lemma masks67:
  "(0x3 :: 'a::len word) = mask 2" "(0x3FFF :: 'a word) = mask 14"
  by (simp_all add: mask_eq_exp_minus_1)

lemma mask5: "(0x1F :: 'a::len word) = mask 5"
  by (simp add: mask_eq_exp_minus_1)

lemma index_rmw:
  assumes "k < 2" "j < 2"
  shows "drop_bit (8 * j) ((r AND NOT (push_bit (8 * k) 0x1F)) OR push_bit (8 * k) (v AND 0x1F)) AND 0x1F =
    (if j = k then v AND 0x1F else drop_bit (8 * j) r AND (0x1F :: u16))"
  unfolding mask5 using assms by (intro bit_word_eqI) (auto simp: bit_simps)

lemma ucast_index:
  assumes "k < 2"
  shows "(ucast (push_bit (8 * k) (0x1F :: u32)) :: u16) = push_bit (8 * k) 0x1F"
    "(ucast (push_bit (8 * k) (of_nat n AND 0x1F :: u32)) :: u16) = push_bit (8 * k) (of_nat n AND 0x1F)"
  unfolding mask5 by (rule bit_word_eqI, auto simp: bit_simps)+

lemma unat_drop_index:
  "unat (drop_bit k (ucast (w :: u16) :: u32) AND 0x1F) = unat (drop_bit k w AND 0x1F)"
proof -
  have "drop_bit k (ucast w :: u32) AND 0x1F = ucast (drop_bit k w AND 0x1F)"
    unfolding mask5 by (rule bit_word_eqI) (auto simp: bit_simps dest: bit_imp_le_length)
  then show ?thesis by simp
qed

lemma unat_and_index: "unat (w AND (0x1F :: u16)) < 32"
proof -
  have "w AND 0x1F \<le> 0x1F" by (rule word_and_le1)
  then show ?thesis by (simp add: word_le_nat_alt)
qed

lemma take_bit_le_mask: "(w :: 'a::len word) \<le> mask k \<Longrightarrow> take_bit k w = w"
proof -
  assume w: "w \<le> mask k"
  have "uint (mask k :: 'a word) = 2 ^ min LENGTH('a) k - 1"
    by (simp only: uint_mask_eq) (rule mask_eq_exp_minus_1)
  moreover have "uint w \<le> uint (mask k :: 'a word)" using w by (simp only: word_le_def)
  moreover have "(2 :: int) ^ min LENGTH('a) k \<le> 2 ^ k" by (rule power_increasing) simp_all
  ultimately have "uint w < 2 ^ k" by linarith
  then show ?thesis by (simp add: word_uint_eq_iff unsigned_take_bit_eq take_bit_int_eq_self)
qed

section \<open>What the two drivers promise the VLAN core\<close>

text \<open>
  \<open>v4k_at c vid\<close> is the entry that the chip \<open>c\<close> holds for \<open>vid\<close>. The operations on
  member configurations and indexes are the common ones; the operations on the table read and
  change exactly one entry and leave the other registers alone.
\<close>

locale tables67 = reg_bus H smi ready chip chip_rd chip_wr
  for H :: "'h platform"
    and smi :: rtl8366_smi
    and ready :: "'h smi_state \<Rightarrow> bool"
    and chip :: "'h smi_state \<Rightarrow> 'c"
    and chip_rd :: "'c \<Rightarrow> u16 \<Rightarrow> u16"
    and chip_wr :: "'c \<Rightarrow> u16 \<Rightarrow> u16 \<Rightarrow> 'c" +
  fixes ops :: "('h smi_state) rtl8366_smi_ops"
    and v4k_at :: "'c \<Rightarrow> u32 \<Rightarrow> rtl8366_vlan_4k"
    and mb fb vb :: nat
  assumes ports: "num_ports smi \<le> 10"
    and vlan_mcs: "num_vlan_mc smi = 32"
    and widths: "mb \<le> 16" "3 \<le> fb" "12 \<le> vb"
    and holds: "plain67 a \<Longrightarrow> plain67 b \<Longrightarrow> chip_rd (chip_wr c a v) b = (if b = a then v else chip_rd c b)"
    and holds_table: "plain67 a \<Longrightarrow> v4k_at (chip_wr c a v) = v4k_at c"
    and common_ops: "get_vlan_mc ops = get_mc67 mb fb vb H smi" "set_vlan_mc ops = set_mc67 mb fb vb H smi"
      "get_mc_index ops = get_idx67 (num_ports smi) H smi"
      "set_mc_index ops = set_idx67 (num_ports smi) H smi"
      "enable_vlan ops = enable67 H smi" "enable_vlan4k ops = (\<lambda>b. retE ())" "is_vlan_valid ops = valid67"
    and get_4k: "ready s \<Longrightarrow> fst (get_vlan_4k ops vid s) =
        (if vid < 4096 then Inr (v4k_at (chip s) vid) else Inl EINVAL)"
      "ready s \<Longrightarrow> plain67 a \<Longrightarrow> chip_rd (chip (snd (get_vlan_4k ops vid s))) a = chip_rd (chip s) a"
      "ready s \<Longrightarrow> v4k_at (chip (snd (get_vlan_4k ops vid s))) = v4k_at (chip s)"
      "ready s \<Longrightarrow> ready (snd (get_vlan_4k ops vid s))"
      "silent flags (get_vlan_4k ops vid)"
    and set_4k: "ready s \<Longrightarrow> fst (set_vlan_4k ops e s) =
        (if v4k_fits (mask mb) 7 e then Inr () else Inl EINVAL)"
      "ready s \<Longrightarrow> plain67 a \<Longrightarrow> chip_rd (chip (snd (set_vlan_4k ops e s))) a = chip_rd (chip s) a"
      "ready s \<Longrightarrow> vid < 4096 \<Longrightarrow> v4k_at (chip (snd (set_vlan_4k ops e s))) vid =
        (if v4k_fits (mask mb) 7 e \<and> vid = ucast (v4k_vid e) then e else v4k_at (chip s) vid)"
      "ready s \<Longrightarrow> ready (snd (set_vlan_4k ops e s))"
      "silent flags (set_vlan_4k ops e)"
begin

definition chip_view :: "'c \<Rightarrow> vlan_view" where
  "chip_view c = \<lparr>
     mcs = (\<lambda>i. if i < 32 then mc67_of mb fb vb (chip_rd c (mc67_word i 0)) (chip_rd c (mc67_word i 1))
                  (chip_rd c (mc67_word i 3))
                else zero_mc),
     v4ks = (\<lambda>vid. if vid < 4096 then v4k_at c vid else zero_4k),
     pidxs = (\<lambda>p. if p < num_ports smi
                then unat (drop_bit (8 * (p mod 2)) (chip_rd c (idx67_word p)) AND 0x1F) else 0)\<rparr>"

definition chip_modes :: "'c \<Rightarrow> bool \<times> bool" where
  "chip_modes c = (bit (chip_rd c 0x7A8) 0, False)"

text \<open>The invariant: the bus works and the tables are well formed.\<close>

definition sound :: "'h smi_state \<Rightarrow> bool" where
  "sound s \<longleftrightarrow> ready s \<and> tables_ok 32 (num_ports smi) (mask mb) 7 (chip_view (chip s))"

lemmas chip_laws = holds holds_table plain67_words words67_distinct words67_neq

lemma port10: "p < num_ports smi \<Longrightarrow> p < 10"
  using ports by simp

lemma soundD: "sound s \<Longrightarrow> ready s"
  by (simp add: sound_def)

lemma sound_same:
  assumes "sound s" "ready s'" "chip_view (chip s') = chip_view (chip s)"
  shows "sound s'"
  using assms by (simp add: sound_def)

lemma ucast_take_mask:
  "(ucast (ucast w AND mask k :: u32) :: u16) = take_bit k (w :: u16)"
  "(ucast (ucast w AND mask k :: u32) :: u8) = ucast (take_bit k (w :: u16))"
  "(ucast (ucast (b :: u8) AND mask k :: u32) :: u16) = ucast (take_bit k b)"
  by (rule bit_word_eqI, auto simp: bit_simps dest: bit_imp_le_length)+

lemma get_mc67_chip:
  assumes "ready s"
  shows "fst (get_mc67 mb fb vb H smi i s) = (if i < 32 then Inr (mcs (chip_view (chip s)) i) else Inl EINVAL)"
    "chip (snd (get_mc67 mb fb vb H smi i s)) = chip s"
    "ready (snd (get_mc67 mb fb vb H smi i s))"
  using assms
  by (auto simp: get_mc67_def fst_bindE snd_bindE bus_simps mc67_base_word chip_view_def mc67_of_def
      ucast_take_mask)

lemma set_mc67_refused:
  "(i \<ge> (32 :: nat) \<or> ucast (mc_vid m) \<ge> (0x1000 :: u32) \<or> ucast (mc_priority m) > (7 :: u32) \<or>
    ucast (mc_member m) > (mask mb :: u32) \<or> ucast (mc_untag m) > (mask mb :: u32) \<or>
    ucast (mc_fid m) > (7 :: u32)) \<longleftrightarrow> \<not> (i < 32 \<and> mc_fits (mask mb) 7 m)"
proof -
  have "(mask mb :: u32) = ucast (mask mb :: u16)"
    using widths(1) by (simp add: ucast_mask_eq min_absorb2)
  then have "unat (mask mb :: u32) = unat (mask mb :: u16)" by simp
  then show ?thesis
    by (auto simp: mc_fits_def word_le_nat_alt word_less_nat_alt)
qed

lemma set_mc67_chip:
  assumes "ready s"
  shows "fst (set_mc67 mb fb vb H smi i m s) = (if i < 32 \<and> mc_fits (mask mb) 7 m then Inr () else Inl EINVAL)"
    "\<not> (i < 32 \<and> mc_fits (mask mb) 7 m) \<Longrightarrow> snd (set_mc67 mb fb vb H smi i m s) = s"
    "i < 32 \<Longrightarrow> mc_fits (mask mb) 7 m \<Longrightarrow> chip (snd (set_mc67 mb fb vb H smi i m s)) =
      chip_wr (chip_wr (chip_wr (chip_wr (chip s)
        (mc67_word i 0) (take_bit mb (mc_member m)))
        (mc67_word i 1) (ucast (take_bit fb (mc_fid m))))
        (mc67_word i 2) 0)
        (mc67_word i 3) (take_bit vb (mc_vid m))"
    "ready (snd (set_mc67 mb fb vb H smi i m s))"
  unfolding set_mc67_def set_mc67_refused using assms
  by (auto simp: fst_bindE snd_bindE bus_simps mc67_base_word ucast_take_mask)

lemma mc67_of_stored:
  assumes "mc_fits (mask mb) 7 m"
  shows "mc67_of mb fb vb (take_bit mb (mc_member m)) (ucast (take_bit fb (mc_fid m)))
    (take_bit vb (mc_vid m)) = stored False m"
proof -
  have m: "take_bit mb (mc_member m) = mc_member m"
    using assms by (intro take_bit_le_mask) (simp add: mc_fits_def)
  have "(2 :: nat) ^ 3 \<le> 2 ^ fb" "(2 :: nat) ^ 12 \<le> 2 ^ vb"
    using widths(2,3) by (intro power_increasing; simp)+
  then have f: "take_bit fb (mc_fid m) = mc_fid m" and v: "take_bit vb (mc_vid m) = mc_vid m"
    using assms by (auto simp: mc_fits_def word_le_nat_alt word_less_nat_alt intro!: take_bit_small)
  have "(ucast (take_bit fb (ucast (mc_fid m) :: u16)) :: u8) = take_bit fb (mc_fid m)"
    by (rule bit_word_eqI) (auto simp: bit_simps dest: bit_imp_le_length)
  then show ?thesis
    by (simp add: mc67_of_def stored_def m f v)
qed

lemma set_mc67_view:
  assumes "ready s"
  shows "chip_view (chip (snd (set_mc67 mb fb vb H smi i m s))) =
      (if i < 32 \<and> mc_fits (mask mb) 7 m
       then (chip_view (chip s))\<lparr>mcs := (mcs (chip_view (chip s)))(i := stored False m)\<rparr>
       else chip_view (chip s))"
    "chip_modes (chip (snd (set_mc67 mb fb vb H smi i m s))) = chip_modes (chip s)"
proof -
  show "chip_view (chip (snd (set_mc67 mb fb vb H smi i m s))) =
      (if i < 32 \<and> mc_fits (mask mb) 7 m
       then (chip_view (chip s))\<lparr>mcs := (mcs (chip_view (chip s)))(i := stored False m)\<rparr>
       else chip_view (chip s))"
    using assms
    by (cases "i < 32 \<and> mc_fits (mask mb) 7 m")
      (auto simp: set_mc67_chip(2,3) chip_view_def chip_laws port10 mc67_of_stored fun_eq_iff
        intro!: vlan_view.equality)
  show "chip_modes (chip (snd (set_mc67 mb fb vb H smi i m s))) = chip_modes (chip s)"
    using assms
    by (cases "i < 32 \<and> mc_fits (mask mb) 7 m") (auto simp: set_mc67_chip(2,3) chip_modes_def chip_laws)
qed

lemma get_idx67_chip:
  assumes "ready s"
  shows "fst (get_idx67 (num_ports smi) H smi p s) =
      (if p < num_ports smi then Inr (pidxs (chip_view (chip s)) p) else Inl EINVAL)"
    "chip (snd (get_idx67 (num_ports smi) H smi p s)) = chip s"
    "ready (snd (get_idx67 (num_ports smi) H smi p s))"
  using assms
  by (auto simp: get_idx67_def fst_bindE snd_bindE bus_simps idx67_reg_word chip_view_def unat_drop_index)

lemma set_idx67_chip:
  assumes "ready s"
  shows "fst (set_idx67 (num_ports smi) H smi p i s) =
      (if p < num_ports smi \<and> i < 32 then Inr () else Inl EINVAL)"
    "chip_view (chip (snd (set_idx67 (num_ports smi) H smi p i s))) =
      (if p < num_ports smi \<and> i < 32
       then (chip_view (chip s))\<lparr>pidxs := (pidxs (chip_view (chip s)))(p := i)\<rparr>
       else chip_view (chip s))"
    "chip_modes (chip (snd (set_idx67 (num_ports smi) H smi p i s))) = chip_modes (chip s)"
    "ready (snd (set_idx67 (num_ports smi) H smi p i s))"
proof -
  let ?old = "chip_rd (chip s) (idx67_word p)" and ?np = "num_ports smi"
  define new where "new = (?old AND NOT (push_bit (8 * (p mod 2)) 0x1F)) OR
    push_bit (8 * (p mod 2)) (of_nat i AND 0x1F)"
  have c: "p < ?np \<Longrightarrow> i < 32 \<Longrightarrow>
      chip (snd (set_idx67 ?np H smi p i s)) = chip_wr (chip s) (idx67_word p) new"
    using assms
    by (simp add: set_idx67_def rmwr_simps idx67_reg_word ucast_index new_def del: push_bit_and)
  have f: "\<not> (p < ?np \<and> i < 32) \<Longrightarrow> snd (set_idx67 ?np H smi p i s) = s"
    by (auto simp: set_idx67_def)
  have n: "unat (drop_bit (8 * (q mod 2)) new AND 0x1F) =
      (if q mod 2 = p mod 2 then i else unat (drop_bit (8 * (q mod 2)) ?old AND 0x1F))" if "i < 32" for q
  proof -
    have "(of_nat i AND 0x1F :: u16) = of_nat i"
      unfolding mask5 take_bit_eq_mask [symmetric]
      using that by (intro take_bit_small) (simp add: unat_u16_of_nat)
    then show ?thesis
      using that unfolding new_def by (subst index_rmw) (simp_all add: unat_u16_of_nat)
  qed
  have pq: "pidxs (chip_view (chip_wr (chip s) (idx67_word p) new)) q =
      (if q = p then i else pidxs (chip_view (chip s)) q)" if "p < ?np" "i < 32" for q
  proof (cases "q < ?np \<and> q div 2 = p div 2")
    case True
    then have w: "idx67_word q = idx67_word p" and m: "q mod 2 = p mod 2 \<longleftrightarrow> q = p"
      using that by (simp add: words67_distinct port10, metis div_mod_decomp)
    show ?thesis using True that by (simp add: chip_view_def w holds plain67_words port10 n m)
  next
    case False
    then show ?thesis using that by (auto simp: chip_view_def chip_laws port10)
  qed
  show "fst (set_idx67 ?np H smi p i s) = (if p < ?np \<and> i < 32 then Inr () else Inl EINVAL)"
    using assms by (auto simp: set_idx67_def rmwr_simps)
  show "chip_modes (chip (snd (set_idx67 ?np H smi p i s))) = chip_modes (chip s)"
    using assms f by (cases "p < ?np \<and> i < 32") (auto simp: c chip_modes_def chip_laws port10)
  show "ready (snd (set_idx67 ?np H smi p i s))"
    using assms by (simp add: set_idx67_def rmwr_simps)
  show "chip_view (chip (snd (set_idx67 ?np H smi p i s))) =
      (if p < ?np \<and> i < 32
       then (chip_view (chip s))\<lparr>pidxs := (pidxs (chip_view (chip s)))(p := i)\<rparr>
       else chip_view (chip s))"
  proof (cases "p < ?np \<and> i < 32")
    case True
    moreover have "mcs (chip_view (chip_wr (chip s) (idx67_word p) new)) = mcs (chip_view (chip s))"
      "v4ks (chip_view (chip_wr (chip s) (idx67_word p) new)) = v4ks (chip_view (chip s))"
      using True by (auto simp: chip_view_def chip_laws port10 fun_eq_iff)
    ultimately show ?thesis
      by (auto simp: c pq fun_eq_iff intro!: vlan_view.equality)
  qed (use f in auto)
qed

lemma enable67_chip:
  assumes "ready s"
  shows "fst (enable67 H smi b s) = Inr ()" "ready (snd (enable67 H smi b s))"
    "chip_view (chip (snd (enable67 H smi b s))) = chip_view (chip s)"
    "chip_modes (chip (snd (enable67 H smi b s))) = (b, snd (chip_modes (chip s)))"
proof -
  have "bit ((r AND NOT 1) OR (if b then 1 else 0) :: u16) 0 \<longleftrightarrow> b" for r
    by (simp add: bit_simps)
  then show "fst (enable67 H smi b s) = Inr ()" "ready (snd (enable67 H smi b s))"
    "chip_view (chip (snd (enable67 H smi b s))) = chip_view (chip s)"
    "chip_modes (chip (snd (enable67 H smi b s))) = (b, snd (chip_modes (chip s)))"
    using assms
    by (auto simp: enable67_def rmwr_simps chip_view_def chip_modes_def chip_laws port10 fun_eq_iff
        split: if_splits intro!: vlan_view.equality)
qed

lemma k4_view:
  assumes "ready s"
  shows "chip_view (chip (snd (get_vlan_4k ops vid s))) = chip_view (chip s)"
    "chip_modes (chip (snd (get_vlan_4k ops vid s))) = chip_modes (chip s)"
    "chip_modes (chip (snd (set_vlan_4k ops e s))) = chip_modes (chip s)"
    "chip_view (chip (snd (set_vlan_4k ops e s))) =
      (if v4k_fits (mask mb) 7 e
       then (chip_view (chip s))\<lparr>v4ks := (v4ks (chip_view (chip s)))(ucast (v4k_vid e) := e)\<rparr>
       else chip_view (chip s))"
proof -
  show "chip_view (chip (snd (get_vlan_4k ops vid s))) = chip_view (chip s)"
    "chip_modes (chip (snd (get_vlan_4k ops vid s))) = chip_modes (chip s)"
    "chip_modes (chip (snd (set_vlan_4k ops e s))) = chip_modes (chip s)"
    using assms
    by (auto simp: chip_view_def chip_modes_def get_4k set_4k plain67_words port10 fun_eq_iff
        intro!: vlan_view.equality)
  have "v4k_fits (mask mb) 7 e \<Longrightarrow> (ucast (v4k_vid e) :: u32) < 4096"
    by (simp add: v4k_fits_def word_less_nat_alt)
  then show "chip_view (chip (snd (set_vlan_4k ops e s))) =
      (if v4k_fits (mask mb) 7 e
       then (chip_view (chip s))\<lparr>v4ks := (v4ks (chip_view (chip s)))(ucast (v4k_vid e) := e)\<rparr>
       else chip_view (chip s))"
    using assms
    by (auto simp: chip_view_def set_4k plain67_words port10 fun_eq_iff intro!: vlan_view.equality)
qed

lemma tables_ok_upd:
  assumes "tables_ok 32 np mm 7 V"
  shows "mc_fits mm 7 m \<Longrightarrow> tables_ok 32 np mm 7 (V\<lparr>mcs := (mcs V)(i := stored False m)\<rparr>)"
    "v4k_fits mm 7 e \<Longrightarrow> tables_ok 32 np mm 7 (V\<lparr>v4ks := (v4ks V)(ucast (v4k_vid e) := e)\<rparr>)"
    "i < 32 \<Longrightarrow> tables_ok 32 np mm 7 (V\<lparr>pidxs := (pidxs V)(p := i)\<rparr>)"
  using assms by (auto simp: tables_ok_def mc_fits_def stored_def)

text \<open>Every operation keeps the invariant.\<close>

lemma sound_kept:
  assumes "sound s"
  shows "sound (snd (get_mc67 mb fb vb H smi i s))" "sound (snd (set_mc67 mb fb vb H smi i m s))"
    "sound (snd (get_vlan_4k ops vid s))" "sound (snd (set_vlan_4k ops e s))"
    "sound (snd (get_idx67 (num_ports smi) H smi p s))" "sound (snd (set_idx67 (num_ports smi) H smi p i s))"
    "sound (snd (enable67 H smi b s))"
  using assms
  by (simp_all add: sound_def get_mc67_chip set_mc67_chip(4) set_mc67_view get_4k set_4k k4_view
      get_idx67_chip set_idx67_chip enable67_chip tables_ok_upd)

lemma stored_view: "i < 32 \<Longrightarrow> stored False (mcs (chip_view c) i) = mcs (chip_view c) i"
  by (simp add: chip_view_def mc67_of_def stored_def)

lemma snd_modes: "snd (chip_modes c) = False"
  by (simp add: chip_modes_def)

lemma v4ks_view: "vid < 4096 \<Longrightarrow> v4k_at c vid = v4ks (chip_view c) vid"
  by (simp add: chip_view_def)

lemma sound_flags: "sound (s\<lparr>vlan_enabled := f\<rparr>) = sound s" "sound (s\<lparr>vlan4k_enabled := f\<rparr>) = sound s"
  by (simp_all add: sound_def flag_ready flag_chip)

lemma sound_tables: "sound s \<Longrightarrow> tables_ok 32 (num_ports smi) (mask mb) 7 (chip_view (chip s))"
  by (simp add: sound_def)

end

sublocale tables67 \<subseteq> sw: vlan_switch smi ops sound "\<lambda>s. chip_view (chip s)" "mask mb" 7 False
    "\<lambda>s. chip_modes (chip s)" False
  by unfold_locales
    (auto simp: common_ops vlan_mcs sound_tables stored_view sound_kept sound_flags flag_chip soundD
      get_mc67_chip(1,2) set_mc67_chip(1) set_mc67_view get_4k(1,5) set_4k(1,5) k4_view
      get_idx67_chip(1,2) set_idx67_chip(1,2,3) enable67_chip access67_flags
      access67_flags [THEN silentD] snd_modes v4ks_view
      intro: prod_eqI dest: valid67_range(1) valid67_range(2))

context tables67
begin

lemma sw_vlan_switch:
  "vlan_switch smi ops sound (\<lambda>s. chip_view (chip s)) (mask mb) 7 False (\<lambda>s. chip_modes (chip s)) False"
  by (rule sw.vlan_switch_axioms)

end

end
