(* ===== verification/Rtl8367_Chip.thy ===== *)
theory Rtl8367_Chip
  imports Rtl8367 Rtl8367_Tables
begin

text \<open>
  The RTL8367 driver meets the contracts of the VLAN core. The locale \<open>rtl8367_chip\<close> states that the
  plain registers hold what was written, and that the access control words \<open>0x03\<close> and \<open>0x13\<close> fetch
  and store the four words of the VLAN entry whose number is in the address register.
\<close>

section \<open>Table entries as words\<close>

type_synonym entry67 = "u16 \<times> u16 \<times> u16 \<times> u16"

fun rtl8367_4k_of :: "u32 \<Rightarrow> entry67 \<Rightarrow> rtl8366_vlan_4k" where
  "rtl8367_4k_of vid (w0, w1, w2, w3) = \<lparr>v4k_vid = ucast vid,
     v4k_untag = drop_bit 14 w2 OR push_bit 2 (take_bit 14 w3), v4k_member = w0,
     v4k_fid = ucast (take_bit 12 w1)\<rparr>"

lemma up_down_two: "2 \<le> n \<Longrightarrow> Suc (Suc (n - 2)) = n" "\<not> n < 2 \<Longrightarrow> Suc (Suc (n - 2)) = n"
  by arith+

lemma untag_words:
  "(ucast (drop_bit 14 (ucast w2 :: u32) AND 0x3) :: u16) OR
     ucast (push_bit 2 (ucast w3 AND (0x3FFF :: u32))) = drop_bit 14 w2 OR push_bit 2 (take_bit 14 (w3 :: u16))"
  "drop_bit 14 (ucast (push_bit 14 (ucast u AND (0x3 :: u32))) :: u16) OR
     push_bit 2 (take_bit 14 (ucast (drop_bit 2 (ucast u) AND (0x3FFF :: u32)))) = (u :: u16)"
  unfolding masks67
  by (rule bit_word_eqI, auto simp: bit_simps up_down_two dest: bit_imp_le_length)+

lemma member_fid_words:
  "(ucast (ucast (w :: u16) AND (0xFFFF :: u32)) :: u16) = w"
  "(ucast (ucast (w :: u16) AND (0xFFF :: u32)) :: u8) = ucast (take_bit 12 w)"
  "(ucast (take_bit 12 (ucast ((ucast (f :: u8) :: u32) AND 0xFFF) :: u16)) :: u8) = f"
  unfolding num_masks
  by (rule bit_word_eqI, auto simp: bit_simps dest: bit_imp_le_length)+

section \<open>The common accesses\<close>

lemma rtl8367_common:
  "rtl8367_get_vlan_mc H smi = get_mc67 16 12 16 H smi" "rtl8367_set_vlan_mc H smi = set_mc67 16 12 16 H smi"
  "rtl8367_get_mc_index H smi = get_idx67 10 H smi" "rtl8367_set_mc_index H smi = set_idx67 10 H smi"
  "rtl8367_enable_vlan H smi = enable67 H smi" "rtl8367_enable_vlan4k H smi = (\<lambda>b. retE ())"
  "rtl8367_is_vlan_valid = valid67"
  by (simp_all add: fun_eq_iff rtl8367_get_vlan_mc_def get_mc67_def rtl8367_set_vlan_mc_def set_mc67_def
      rtl8367_get_mc_index_def get_idx67_def rtl8367_set_mc_index_def set_idx67_def rtl8367_enable_vlan_def
      enable67_def rtl8367_enable_vlan4k_def rtl8367_is_vlan_valid_def valid67_def RTL8367_VLAN_MC_BASE_def
      mc67_base_def RTL8367_VLAN_PVID_CTRL_REG_def RTL8367_VLAN_PVID_CTRL_SHIFT_def num_masks Let_def)

section \<open>The chip\<close>

definition rtl8367_plain :: "u16 \<Rightarrow> bool" where
  "rtl8367_plain a \<longleftrightarrow> plain67 a \<or> a = 0x501 \<or> a = 0x503 \<or> a = 0x504 \<or> a = 0x505 \<or> a = 0x506"

locale rtl8367_chip = reg_bus H smi ready chip chip_rd chip_wr
  for H :: "'h platform"
    and smi :: rtl8366_smi
    and ready :: "'h smi_state \<Rightarrow> bool"
    and chip :: "'h smi_state \<Rightarrow> 'c"
    and chip_rd :: "'c \<Rightarrow> u16 \<Rightarrow> u16"
    and chip_wr :: "'c \<Rightarrow> u16 \<Rightarrow> u16 \<Rightarrow> 'c" +
  fixes vtable :: "'c \<Rightarrow> u16 \<Rightarrow> entry67"
    and sd :: setup67_data
  assumes ports: "num_ports smi = RTL8367_NUM_PORTS"
    and vlan_mcs: "num_vlan_mc smi = RTL8367_NUM_VLANS"
    and holds: "rtl8367_plain a \<Longrightarrow> rtl8367_plain b \<Longrightarrow>
      chip_rd (chip_wr c a v) b = (if b = a then v else chip_rd c b)"
    and holds_table: "rtl8367_plain a \<Longrightarrow> vtable (chip_wr c a v) = vtable c"
    and fetch: "(chip_rd (chip_wr c 0x500 0x3) 0x503, chip_rd (chip_wr c 0x500 0x3) 0x504,
        chip_rd (chip_wr c 0x500 0x3) 0x505, chip_rd (chip_wr c 0x500 0x3) 0x506) = vtable c (chip_rd c 0x501)"
      "plain67 a \<Longrightarrow> chip_rd (chip_wr c 0x500 0x3) a = chip_rd c a"
      "vtable (chip_wr c 0x500 0x3) = vtable c"
    and store: "plain67 a \<Longrightarrow> chip_rd (chip_wr c 0x500 0x13) a = chip_rd c a"
      "vtable (chip_wr c 0x500 0x13) = (vtable c)(chip_rd c 0x501 :=
         (chip_rd c 0x503, chip_rd c 0x504, chip_rd c 0x505, chip_rd c 0x506))"
begin

lemmas table_laws = holds holds_table fetch(2,3) store rtl8367_plain_def plain67_neq

lemmas table_regs = RTL8367_TA_DATA_REG_def RTL8367_TA_CTRL_CVLAN_READ_def RTL8367_TA_CTRL_CVLAN_WRITE_def

lemma get_vlan_4k_chip:
  assumes "ready s"
  shows "fst (rtl8367_get_vlan_4k H smi vid s) =
      (if vid < 4096 then Inr (rtl8367_4k_of vid (vtable (chip s) (ucast vid))) else Inl EINVAL)"
    "plain67 a \<Longrightarrow> chip_rd (chip (snd (rtl8367_get_vlan_4k H smi vid s))) a = chip_rd (chip s) a"
    "vtable (chip (snd (rtl8367_get_vlan_4k H smi vid s))) = vtable (chip s)"
    "ready (snd (rtl8367_get_vlan_4k H smi vid s))"
proof -
  let ?c = "chip_wr (chip s) 0x501 (ucast vid)"
  have w: "vtable (chip s) (ucast vid) = (chip_rd (chip_wr ?c 0x500 3) 0x503, chip_rd (chip_wr ?c 0x500 3) 0x504,
      chip_rd (chip_wr ?c 0x500 3) 0x505, chip_rd (chip_wr ?c 0x500 3) 0x506)"
    by (simp add: fetch(1) table_laws)
  note run = rtl8367_get_vlan_4k_def fst_bindE snd_bindE bus_simps table_regs
  show "fst (rtl8367_get_vlan_4k H smi vid s) =
      (if vid < 4096 then Inr (rtl8367_4k_of vid (vtable (chip s) (ucast vid))) else Inl EINVAL)"
    using assms unfolding w by (simp add: run untag_words member_fid_words not_less del: push_bit_and)
  show "plain67 a \<Longrightarrow> chip_rd (chip (snd (rtl8367_get_vlan_4k H smi vid s))) a = chip_rd (chip s) a"
    "vtable (chip (snd (rtl8367_get_vlan_4k H smi vid s))) = vtable (chip s)"
    "ready (snd (rtl8367_get_vlan_4k H smi vid s))"
    using assms by (auto simp: run table_laws)
qed

lemma set_vlan_4k_chip:
  assumes "ready s"
  shows "fst (rtl8367_set_vlan_4k H smi e s) = (if v4k_fits 0xFFFF 7 e then Inr () else Inl EINVAL)"
    "plain67 a \<Longrightarrow> chip_rd (chip (snd (rtl8367_set_vlan_4k H smi e s))) a = chip_rd (chip s) a"
    "vid < 4096 \<Longrightarrow> rtl8367_4k_of vid (vtable (chip (snd (rtl8367_set_vlan_4k H smi e s))) (ucast vid)) =
      (if v4k_fits 0xFFFF 7 e \<and> vid = ucast (v4k_vid e) then e
       else rtl8367_4k_of vid (vtable (chip s) (ucast vid)))"
    "ready (snd (rtl8367_set_vlan_4k H smi e s))"
proof -
  have fits: "(ucast (v4k_vid e) \<ge> (0x1000 :: u32) \<or> ucast (v4k_member e) > (0xFFFF :: u32) \<or>
      ucast (v4k_untag e) > (0xFFFF :: u32) \<or> ucast (v4k_fid e) > (7 :: u32)) \<longleftrightarrow> \<not> v4k_fits 0xFFFF 7 e"
    by (auto simp: v4k_fits_def word_le_nat_alt word_less_nat_alt)
  note run = rtl8367_set_vlan_4k_def fits fst_bindE snd_bindE bus_simps table_regs
  show "fst (rtl8367_set_vlan_4k H smi e s) = (if v4k_fits 0xFFFF 7 e then Inr () else Inl EINVAL)"
    "plain67 a \<Longrightarrow> chip_rd (chip (snd (rtl8367_set_vlan_4k H smi e s))) a = chip_rd (chip s) a"
    "ready (snd (rtl8367_set_vlan_4k H smi e s))"
    using assms by (auto simp: run table_laws)
  have eq: "ucast w = v4k_vid e \<longleftrightarrow> w = ucast (v4k_vid e)" if "w < 4096" for w :: u32
    using less_4096_ucast [OF that] by auto
  show "vid < 4096 \<Longrightarrow> rtl8367_4k_of vid (vtable (chip (snd (rtl8367_set_vlan_4k H smi e s))) (ucast vid)) =
      (if v4k_fits 0xFFFF 7 e \<and> vid = ucast (v4k_vid e) then e
       else rtl8367_4k_of vid (vtable (chip s) (ucast vid)))"
    using assms by (auto simp: run table_laws eq untag_words member_fid_words simp del: push_bit_and)
qed

end

lemma rtl8367_4k_flags [silent_intros]:
  "silent flags (rtl8367_get_vlan_4k H smi vid)" "silent flags (rtl8367_set_vlan_4k H smi e)"
  unfolding rtl8367_get_vlan_4k_def rtl8367_set_vlan_4k_def by (intro silent_intros)+

sublocale rtl8367_chip \<subseteq> t: tables67 H smi ready chip chip_rd chip_wr "rtl8367_smi_ops H smi sd"
    "\<lambda>c vid. rtl8367_4k_of vid (vtable c (ucast vid))" 16 12 16
  by unfold_locales
    (simp_all add: rtl8367_smi_ops_def rtl8367_common ports vlan_mcs get_vlan_4k_chip set_vlan_4k_chip
      rtl8367_4k_flags holds holds_table rtl8367_plain_def num_masks [symmetric])

context rtl8367_chip
begin

lemma meets_contract:
  "vlan_switch smi (rtl8367_smi_ops H smi sd)
    (\<lambda>s. ready s \<and> tables_ok 32 (num_ports smi) (mask 16) 7 (t.chip_view (chip s)))
    (\<lambda>s. t.chip_view (chip s)) (mask 16) 7 False (\<lambda>s. t.chip_modes (chip s)) False"
  using t.sw.vlan_switch_axioms unfolding t.sound_def [abs_def] .

end

end
