(* ===== verification/Rtl8367b_Chip.thy ===== *)
theory Rtl8367b_Chip
  imports Rtl8367b Rtl8367_Tables
begin

text \<open>
  The RTL8367B driver meets the contracts of the VLAN core. The locale \<open>rtl8367b_chip\<close> states that the
  plain registers hold what was written, and that the access control words \<open>0x03\<close> and \<open>0x0B\<close> fetch
  and store the two words of the VLAN entry whose number is in the address register, through separate
  registers for reading and writing.
\<close>

section \<open>Table entries as words\<close>

definition rtl8367b_4k_of :: "u32 \<Rightarrow> u16 \<times> u16 \<Rightarrow> rtl8366_vlan_4k" where
  "rtl8367b_4k_of vid w = \<lparr>v4k_vid = ucast vid, v4k_untag = drop_bit 8 (fst w),
     v4k_member = take_bit 8 (fst w), v4k_fid = ucast (take_bit 4 (snd w))\<rparr>"

lemma fetched_words:
  "(ucast (drop_bit 8 (ucast (w :: u16)) AND (0xFF :: u32)) :: u16) = drop_bit 8 w"
  "(ucast (ucast (w :: u16) AND (0xFF :: u32)) :: u16) = take_bit 8 w"
  "(ucast (ucast (w :: u16) AND (0xF :: u32)) :: u8) = ucast (take_bit 4 w)"
  unfolding num_masks
  by (rule bit_word_eqI, auto simp: bit_simps dest: bit_imp_le_length)+

lemma stored_words:
  "drop_bit 8 (ucast (ucast m AND (0xFF :: u32) OR push_bit 8 (ucast u AND (0xFF :: u32))) :: u16) =
     take_bit 8 (u :: u16)"
  "take_bit 8 (ucast (ucast m AND (0xFF :: u32) OR push_bit 8 (ucast u AND (0xFF :: u32))) :: u16) =
     take_bit 8 (m :: u16)"
  "(ucast (take_bit 4 (ucast ((ucast (f :: u8) :: u32) AND 0xF) :: u16)) :: u8) = take_bit 4 f"
  unfolding num_masks
  by (rule bit_word_eqI, auto simp: bit_simps dest: bit_imp_le_length)+

lemma v4k_of_stored:
  assumes "v4k_fits 0xFF 7 e"
  shows "rtl8367b_4k_of (ucast (v4k_vid e))
    (ucast (ucast (v4k_member e) AND (0xFF :: u32) OR push_bit 8 (ucast (v4k_untag e) AND (0xFF :: u32))),
     ucast (ucast (v4k_fid e) AND (0xF :: u32))) = e"
  using assms
  by (simp add: rtl8367b_4k_of_def stored_words v4k_fits_def take_bit_small word_le_nat_alt del: push_bit_and)

lemma vid_word: "v < 4096 \<Longrightarrow> (ucast (ucast (v :: u16) AND (0x3FFF :: u32)) :: u16) = v"
proof -
  assume "v < 4096"
  moreover have "(ucast (ucast v AND (0x3FFF :: u32)) :: u16) = take_bit 14 v"
    unfolding masks67 by (rule bit_word_eqI) (auto simp: bit_simps)
  ultimately show ?thesis by (simp add: take_bit_small word_less_nat_alt)
qed

section \<open>The common accesses\<close>

lemma rtl8367b_common:
  "rtl8367b_get_vlan_mc H smi = get_mc67 8 4 14 H smi" "rtl8367b_set_vlan_mc H smi = set_mc67 8 4 14 H smi"
  "rtl8367b_get_mc_index H smi = get_idx67 8 H smi" "rtl8367b_set_mc_index H smi = set_idx67 8 H smi"
  "rtl8367b_enable_vlan H smi = enable67 H smi" "rtl8367b_enable_vlan4k H smi = (\<lambda>b. retE ())"
  "rtl8367b_is_vlan_valid = valid67"
  by (simp_all add: fun_eq_iff rtl8367b_get_vlan_mc_def get_mc67_def rtl8367b_set_vlan_mc_def set_mc67_def
      rtl8367b_get_mc_index_def get_idx67_def rtl8367b_set_mc_index_def set_idx67_def rtl8367b_enable_vlan_def
      enable67_def rtl8367b_enable_vlan4k_def rtl8367b_is_vlan_valid_def valid67_def RTL8367B_VLAN_MC_BASE_def
      mc67_base_def RTL8367B_VLAN_PVID_CTRL_REG_def RTL8367B_VLAN_PVID_CTRL_SHIFT_def num_masks masks67 Let_def)

section \<open>The chip\<close>

definition rtl8367b_plain :: "u16 \<Rightarrow> bool" where
  "rtl8367b_plain a \<longleftrightarrow> plain67 a \<or> a = 0x501 \<or> a = 0x510 \<or> a = 0x511"

locale rtl8367b_chip = reg_bus H smi ready chip chip_rd chip_wr
  for H :: "'h platform"
    and smi :: rtl8366_smi
    and ready :: "'h smi_state \<Rightarrow> bool"
    and chip :: "'h smi_state \<Rightarrow> 'c"
    and chip_rd :: "'c \<Rightarrow> u16 \<Rightarrow> u16"
    and chip_wr :: "'c \<Rightarrow> u16 \<Rightarrow> u16 \<Rightarrow> 'c" +
  fixes vtable :: "'c \<Rightarrow> u16 \<Rightarrow> u16 \<times> u16"
    and sd :: setup67_data
  assumes ports: "num_ports smi = RTL8367B_NUM_PORTS"
    and vlan_mcs: "num_vlan_mc smi = RTL8367B_NUM_VLANS"
    and holds: "rtl8367b_plain a \<Longrightarrow> rtl8367b_plain b \<Longrightarrow>
      chip_rd (chip_wr c a v) b = (if b = a then v else chip_rd c b)"
    and holds_table: "rtl8367b_plain a \<Longrightarrow> vtable (chip_wr c a v) = vtable c"
    and fetch: "(chip_rd (chip_wr c 0x500 0x3) 0x520, chip_rd (chip_wr c 0x500 0x3) 0x521) = vtable c (chip_rd c 0x501)"
      "plain67 a \<Longrightarrow> chip_rd (chip_wr c 0x500 0x3) a = chip_rd c a"
      "vtable (chip_wr c 0x500 0x3) = vtable c"
    and store: "plain67 a \<Longrightarrow> chip_rd (chip_wr c 0x500 0xB) a = chip_rd c a"
      "vtable (chip_wr c 0x500 0xB) = (vtable c)(chip_rd c 0x501 :=
         (chip_rd c 0x510, chip_rd c 0x511))"
begin

lemmas table_laws = holds holds_table fetch(2,3) store rtl8367b_plain_def plain67_neq

lemmas table_regs = RTL8367B_TA_WRDATA_REG_def RTL8367B_TA_RDDATA_REG_def RTL8367B_TA_CTRL_CVLAN_READ_def RTL8367B_TA_CTRL_CVLAN_WRITE_def

lemma get_vlan_4k_chip:
  assumes "ready s"
  shows "fst (rtl8367b_get_vlan_4k H smi vid s) =
      (if vid < 4096 then Inr (rtl8367b_4k_of vid (vtable (chip s) (ucast vid))) else Inl EINVAL)"
    "plain67 a \<Longrightarrow> chip_rd (chip (snd (rtl8367b_get_vlan_4k H smi vid s))) a = chip_rd (chip s) a"
    "vtable (chip (snd (rtl8367b_get_vlan_4k H smi vid s))) = vtable (chip s)"
    "ready (snd (rtl8367b_get_vlan_4k H smi vid s))"
proof -
  let ?c = "chip_wr (chip s) 0x501 (ucast vid)"
  have w: "vtable (chip s) (ucast vid) = (chip_rd (chip_wr ?c 0x500 3) 0x520, chip_rd (chip_wr ?c 0x500 3) 0x521)"
    by (simp add: fetch(1) table_laws)
  note run = rtl8367b_get_vlan_4k_def fst_bindE snd_bindE bus_simps table_regs
  show "fst (rtl8367b_get_vlan_4k H smi vid s) =
      (if vid < 4096 then Inr (rtl8367b_4k_of vid (vtable (chip s) (ucast vid))) else Inl EINVAL)"
    using assms unfolding w by (simp add: run rtl8367b_4k_of_def fetched_words not_less)
  show "plain67 a \<Longrightarrow> chip_rd (chip (snd (rtl8367b_get_vlan_4k H smi vid s))) a = chip_rd (chip s) a"
    "vtable (chip (snd (rtl8367b_get_vlan_4k H smi vid s))) = vtable (chip s)"
    "ready (snd (rtl8367b_get_vlan_4k H smi vid s))"
    using assms by (auto simp: run table_laws)
qed

lemma set_vlan_4k_chip:
  assumes "ready s"
  shows "fst (rtl8367b_set_vlan_4k H smi e s) = (if v4k_fits 0xFF 7 e then Inr () else Inl EINVAL)"
    "plain67 a \<Longrightarrow> chip_rd (chip (snd (rtl8367b_set_vlan_4k H smi e s))) a = chip_rd (chip s) a"
    "vid < 4096 \<Longrightarrow> rtl8367b_4k_of vid (vtable (chip (snd (rtl8367b_set_vlan_4k H smi e s))) (ucast vid)) =
      (if v4k_fits 0xFF 7 e \<and> vid = ucast (v4k_vid e) then e
       else rtl8367b_4k_of vid (vtable (chip s) (ucast vid)))"
    "ready (snd (rtl8367b_set_vlan_4k H smi e s))"
proof -
  have fits: "(ucast (v4k_vid e) \<ge> (0x1000 :: u32) \<or> ucast (v4k_member e) > (0xFF :: u32) \<or>
      ucast (v4k_untag e) > (0xFF :: u32) \<or> ucast (v4k_fid e) > (7 :: u32)) \<longleftrightarrow> \<not> v4k_fits 0xFF 7 e"
    by (auto simp: v4k_fits_def word_le_nat_alt word_less_nat_alt)
  note run = rtl8367b_set_vlan_4k_def fits fst_bindE snd_bindE bus_simps table_regs
  show "fst (rtl8367b_set_vlan_4k H smi e s) = (if v4k_fits 0xFF 7 e then Inr () else Inl EINVAL)"
    "plain67 a \<Longrightarrow> chip_rd (chip (snd (rtl8367b_set_vlan_4k H smi e s))) a = chip_rd (chip s) a"
    "ready (snd (rtl8367b_set_vlan_4k H smi e s))"
    using assms by (auto simp: run table_laws)
  have eq: "ucast w = v4k_vid e \<longleftrightarrow> w = ucast (v4k_vid e)" if "w < 4096" for w :: u32
    using less_4096_ucast [OF that] by auto
  have fits_vid: "v4k_fits 0xFF 7 e \<Longrightarrow> v4k_vid e < 4096" by (simp add: v4k_fits_def)
  show "vid < 4096 \<Longrightarrow> rtl8367b_4k_of vid (vtable (chip (snd (rtl8367b_set_vlan_4k H smi e s))) (ucast vid)) =
      (if v4k_fits 0xFF 7 e \<and> vid = ucast (v4k_vid e) then e
       else rtl8367b_4k_of vid (vtable (chip s) (ucast vid)))"
    using assms
    by (cases "v4k_fits 0xFF 7 e")
      (auto simp: run table_laws eq vid_word fits_vid v4k_of_stored simp del: push_bit_and)
qed

end

lemma rtl8367b_4k_flags [silent_intros]:
  "silent flags (rtl8367b_get_vlan_4k H smi vid)" "silent flags (rtl8367b_set_vlan_4k H smi e)"
  unfolding rtl8367b_get_vlan_4k_def rtl8367b_set_vlan_4k_def by (intro silent_intros)+

sublocale rtl8367b_chip \<subseteq> t: tables67 H smi ready chip chip_rd chip_wr "rtl8367b_smi_ops H smi sd"
    "\<lambda>c vid. rtl8367b_4k_of vid (vtable c (ucast vid))" 8 4 14
  by unfold_locales
    (simp_all add: rtl8367b_smi_ops_def rtl8367b_common ports vlan_mcs get_vlan_4k_chip set_vlan_4k_chip
      rtl8367b_4k_flags holds holds_table rtl8367b_plain_def num_masks [symmetric])

context rtl8367b_chip
begin

lemma meets_contract:
  "vlan_switch smi (rtl8367b_smi_ops H smi sd)
    (\<lambda>s. ready s \<and> tables_ok 32 (num_ports smi) (mask 8) 7 (t.chip_view (chip s)))
    (\<lambda>s. t.chip_view (chip s)) (mask 8) 7 False (\<lambda>s. t.chip_modes (chip s)) False"
  using t.sw.vlan_switch_axioms unfolding t.sound_def [abs_def] .

end

end
