(* ===== verification/Bench67.thy ===== *)
theory Bench67
  imports Bench Rtl8367_Chip Rtl8367b_Chip
begin

text \<open>
  Reference RTL8367 and RTL8367B switches on the MDIO bus: register files with a VLAN table behind the
  access control register. They meet the hardware hypotheses of the two drivers.
\<close>

definition bench67_setup :: setup67_data where
  "bench67_setup = \<lparr>has_of_node = True, extif_prop = (\<lambda>_. None), cfg_alloc_ok = True,
     pdata_extifs = None\<rparr>"

section \<open>An RTL8367\<close>

record regfile67 =
  regs67 :: "u16 \<Rightarrow> u16"
  vtab67 :: "u16 \<Rightarrow> entry67"

definition regfile67_wr :: "regfile67 \<Rightarrow> u16 \<Rightarrow> u16 \<Rightarrow> regfile67" where
  "regfile67_wr c a v =
    (if a = 0x500 \<and> v = 3
     then (case vtab67 c (regs67 c 0x501) of (w0, w1, w2, w3) \<Rightarrow>
            c\<lparr>regs67 := (regs67 c)(0x500 := v, 0x503 := w0, 0x504 := w1, 0x505 := w2, 0x506 := w3)\<rparr>)
     else if a = 0x500 \<and> v = 0x13
     then c\<lparr>regs67 := (regs67 c)(0x500 := v),
             vtab67 := (vtab67 c)(regs67 c 0x501 :=
               (regs67 c 0x503, regs67 c 0x504, regs67 c 0x505, regs67 c 0x506))\<rparr>
     else c\<lparr>regs67 := (regs67 c)(a := v)\<rparr>)"

definition bench67_smi :: rtl8366_smi where
  "bench67_smi = rtl8367_smi bench_smi"

abbreviation bench67 :: "regfile67 mdio_bench platform" where
  "bench67 \<equiv> bench_platform regs67 regfile67_wr"

definition bench67_state :: "regfile67 mdio_bench smi_state" where
  "bench67_state = \<lparr>hw = \<lparr>bench_dev = \<lparr>regs67 = (\<lambda>_. 0), vtab67 = (\<lambda>_. (0, 0, 0, 0))\<rparr>,
     bench_addr = 0, bench_wdata = 0, bench_rdata = 0\<rparr>, lock = False, vlan_enabled = 0,
     vlan4k_enabled = 0\<rparr>"

interpretation bench67_bus: mdio_slave bench67 bench67_smi bench_dev bench_addr bench_wdata
    bench_rdata regs67 regfile67_wr
  by (rule bench_slave) (simp add: bench67_smi_def rtl8367_smi_def bench_smi_def)

lemma plain8367_neq: "rtl8367_plain a \<Longrightarrow> a \<noteq> 0x500"
  by (auto simp: rtl8367_plain_def dest: plain67_neq)

interpretation bench67_chip: rtl8367_chip bench67 bench67_smi "\<lambda>_. True"
    "\<lambda>s. bench_dev (hw s)" regs67 regfile67_wr vtab67 bench67_setup
  by unfold_locales
    (auto simp: bench67_smi_def rtl8367_smi_def regfile67_wr_def plain8367_neq
      dest: plain67_neq split: prod.splits)

section \<open>An RTL8367B\<close>

record regfile67b =
  regs67b :: "u16 \<Rightarrow> u16"
  vtab67b :: "u16 \<Rightarrow> u16 \<times> u16"

definition regfile67b_wr :: "regfile67b \<Rightarrow> u16 \<Rightarrow> u16 \<Rightarrow> regfile67b" where
  "regfile67b_wr c a v =
    (if a = 0x500 \<and> v = 3
     then c\<lparr>regs67b := (regs67b c)(0x500 := v, 0x520 := fst (vtab67b c (regs67b c 0x501)),
             0x521 := snd (vtab67b c (regs67b c 0x501)))\<rparr>
     else if a = 0x500 \<and> v = 0xB
     then c\<lparr>regs67b := (regs67b c)(0x500 := v),
             vtab67b := (vtab67b c)(regs67b c 0x501 := (regs67b c 0x510, regs67b c 0x511))\<rparr>
     else c\<lparr>regs67b := (regs67b c)(a := v)\<rparr>)"

definition bench67b_smi :: rtl8366_smi where
  "bench67b_smi = rtl8367b_smi None bench_smi"

abbreviation bench67b :: "regfile67b mdio_bench platform" where
  "bench67b \<equiv> bench_platform regs67b regfile67b_wr"

definition bench67b_state :: "regfile67b mdio_bench smi_state" where
  "bench67b_state = \<lparr>hw = \<lparr>bench_dev = \<lparr>regs67b = (\<lambda>_. 0), vtab67b = (\<lambda>_. (0, 0))\<rparr>,
     bench_addr = 0, bench_wdata = 0, bench_rdata = 0\<rparr>, lock = False, vlan_enabled = 0,
     vlan4k_enabled = 0\<rparr>"

interpretation bench67b_bus: mdio_slave bench67b bench67b_smi bench_dev bench_addr bench_wdata
    bench_rdata regs67b regfile67b_wr
  by (rule bench_slave) (simp add: bench67b_smi_def rtl8367b_smi_def bench_smi_def)

lemma plain8367b_neq: "rtl8367b_plain a \<Longrightarrow> a \<noteq> 0x500"
  by (auto simp: rtl8367b_plain_def dest: plain67_neq)

interpretation bench67b_chip: rtl8367b_chip bench67b bench67b_smi "\<lambda>_. True"
    "\<lambda>s. bench_dev (hw s)" regs67b regfile67b_wr vtab67b bench67_setup
  by unfold_locales
    (auto simp: bench67b_smi_def rtl8367b_smi_def regfile67b_wr_def plain8367b_neq dest: plain67_neq)

end
