(* ===== verification/Rtl8367_Properties.thy ===== *)
theory Rtl8367_Properties
  imports Bench67 Chip_Properties Counter_Properties
begin

text \<open>
  The properties of the RTL8367 and RTL8367B drivers: they meet the contract of the VLAN core, a MIB
  counter is fetched from the block that holds it, a PHY access is decided by one look at the status,
  and the mode of an external interface is set in its own field.
\<close>

section \<open>The tables\<close>

abbreviation rtl8367_view :: "rtl8366_smi \<Rightarrow> ('c \<Rightarrow> u16 \<Rightarrow> u16) \<Rightarrow> ('c \<Rightarrow> u16 \<Rightarrow> entry67) \<Rightarrow> 'c \<Rightarrow> vlan_view" where
  "rtl8367_view smi rd vtable \<equiv>
    tables67.chip_view smi rd (\<lambda>c vid. rtl8367_4k_of vid (vtable c (ucast vid))) 16 12 16"

abbreviation rtl8367b_view ::
  "rtl8366_smi \<Rightarrow> ('c \<Rightarrow> u16 \<Rightarrow> u16) \<Rightarrow> ('c \<Rightarrow> u16 \<Rightarrow> u16 \<times> u16) \<Rightarrow> 'c \<Rightarrow> vlan_view" where
  "rtl8367b_view smi rd vtable \<equiv>
    tables67.chip_view smi rd (\<lambda>c vid. rtl8367b_4k_of vid (vtable c (ucast vid))) 8 4 14"

section \<open>Counters in blocks\<close>

text \<open>
  Writing a block number to \<open>0x1004\<close> makes the chip present the four words of that block of its
  counter memory at \<open>0x1000\<close> to \<open>0x1003\<close>.
\<close>

locale mib_blocks = reg_bus H smi ready chip chip_rd chip_wr
  for H :: "'h platform"
    and smi :: rtl8366_smi
    and ready :: "'h smi_state \<Rightarrow> bool"
    and chip :: "'h smi_state \<Rightarrow> 'c"
    and chip_rd :: "'c \<Rightarrow> u16 \<Rightarrow> u16"
    and chip_wr :: "'c \<Rightarrow> u16 \<Rightarrow> u16 \<Rightarrow> 'c" +
  fixes words :: "'c \<Rightarrow> nat \<Rightarrow> u16"
  assumes block: "i < 4 \<Longrightarrow> chip_rd (chip_wr c 0x1004 k) (0x1000 + of_nat i) = words c (4 * unat k + i)"

definition words_value :: "(nat \<Rightarrow> u16) \<Rightarrow> nat \<Rightarrow> nat \<Rightarrow> u64" where
  "words_value w a n = (\<Sum>i<n. push_bit (16 * i) (ucast (w (a + i))))"

text \<open>A counter of four words fills a block, one of two words the lower or upper half of one.\<close>

definition in_block :: "rtl8366_mib_counter \<Rightarrow> bool" where
  "in_block c \<longleftrightarrow> mib_offset c < 128 \<and> (mib_length c = 4 \<and> mib_offset c mod 4 = 0
     \<or> mib_length c = 2 \<and> mib_offset c mod 2 = 0)"

lemma counters67_in_block:
  "n < 36 \<Longrightarrow> in_block (rtl8367_mib_counters ! n)" "n < 58 \<Longrightarrow> in_block (rtl8367b_mib_counters ! n)"
proof -
  have "list_all in_block rtl8367_mib_counters" "length rtl8367_mib_counters = 36"
    "list_all in_block rtl8367b_mib_counters" "length rtl8367b_mib_counters = 58"
    by (simp_all add: rtl8367_mib_counters_def rtl8367b_mib_counters_def in_block_def)
  then show "n < 36 \<Longrightarrow> in_block (rtl8367_mib_counters ! n)" "n < 58 \<Longrightarrow> in_block (rtl8367b_mib_counters ! n)"
    by (simp_all add: list_all_length)
qed

lemma block_position:
  assumes "in_block c" "w mod 4 = 0"
  defines "a \<equiv> w + unat (mib_offset c)"
  shows "mib_length c \<le> mib_word_offset c + 1" "mib_word_offset c < 4"
    "4 * (a div 4) + (mib_word_offset c + 1 - mib_length c) = a"
proof -
  define off where "off = unat (mib_offset c)"
  have m: "unat ((mib_offset c + 1) mod 4) = (off + 1) mod 4" "unat (mib_offset c mod k) = off mod unat k" for k
    using assms(1) by (simp_all add: in_block_def off_def unat_mod unat_word_ariths word_less_nat_alt)
  have "mib_length c = 4 \<and> off mod 4 = 0 \<or> mib_length c = 2 \<and> off mod 2 = 0"
    using assms(1) m(2) [of 4] m(2) [of 2] by (auto simp: in_block_def word_unat_eq_iff)
  then show "mib_length c \<le> mib_word_offset c + 1" "mib_word_offset c < 4"
    "4 * (a div 4) + (mib_word_offset c + 1 - mib_length c) = a"
    unfolding a_def off_def [symmetric] mib_word_offset_def m(1) using assms(2) by (auto; presburger)+
qed

context mib_blocks
begin

lemma read_mib_down_run:
  "ready s \<Longrightarrow> len \<le> k + 1 \<Longrightarrow> fst (read_mib_down H smi b k len acc s) =
      Inr (push_bit (16 * len) acc + mib_value (chip_rd (chip s)) (b + of_nat (k + 1 - len)) len)"
proof (induction len arbitrary: acc s k)
  case 0
  then show ?case by (simp add: mib_value_def)
next
  case (Suc len)
  let ?s = "snd (rtl8366_smi_read_reg H smi (b + of_nat k) s)"
  have r: "ready ?s" and c: "chip ?s = chip s" using Suc.prems by (simp_all add: bus_simps)
  have ih: "fst (read_mib_down H smi b (k - 1) len acc' ?s) =
      Inr (push_bit (16 * len) acc' + mib_value (chip_rd (chip s)) (b + of_nat (k - len)) len)" for acc'
  proof (cases "len = 0")
    case False
    then have "k - 1 + 1 - len = k - len" using Suc.prems by arith
    then show ?thesis using Suc.IH [OF r, of "k - 1" acc'] Suc.prems False by (simp add: c)
  qed (simp add: mib_value_def)
  have top: "(b + of_nat (k - len) + of_nat len :: u32) = b + of_nat k"
    using Suc.prems by (simp add: add.assoc flip: of_nat_add)
  have "push_bit (16 * len) (push_bit 16 acc + (w :: u64)) = push_bit (16 * Suc len) acc + push_bit (16 * len) w" for w
    by (simp add: push_bit_add push_bit_push_bit add.commute)
  then show ?case
    using Suc.prems ih top by (simp add: fst_bindE bus_simps shift_in_word mib_value_def)
qed

lemma block_value:
  assumes "lo + n \<le> 4"
  shows "mib_value (chip_rd (chip_wr c 0x1004 k)) (0x1000 + of_nat lo) n = words_value (words c) (4 * unat k + lo) n"
proof -
  have "chip_rd (chip_wr c 0x1004 k) (ucast (0x1000 + of_nat lo + of_nat i :: u32)) =
      words c (4 * unat k + lo + i)" if "i < n" for i
  proof -
    have "(0x1000 + of_nat lo + of_nat i :: u32) = of_nat (0x1000 + (lo + i))" by simp
    then have "ucast (0x1000 + of_nat lo + of_nat i :: u32) = (0x1000 + of_nat (lo + i) :: u16)"
      by (simp only: ucast_of_nat_u16) simp
    then show ?thesis using block [of "lo + i" c k] that assms by (simp add: add.assoc)
  qed
  then show ?thesis by (simp add: mib_value_def words_value_def)
qed

text \<open>The common part of the two drivers.\<close>

lemma mib67_run:
  assumes "ready s" "in_block c" "w mod 4 = 0" "w < 2000"
  defines "a \<equiv> w + unat (mib_offset c)"
  shows "fst (bindE (rtl8366_smi_write_reg H smi 0x1004 (drop_bit 2 (of_nat w + mib_offset c))) (\<lambda>_.
      bindE (rtl8366_smi_read_reg H smi 0x1005) (\<lambda>data.
      if data AND 1 \<noteq> 0 then failE EBUSY else if data AND 2 \<noteq> 0 then failE EIO
      else read_mib_down H smi 0x1000 (mib_word_offset c) (mib_length c) 0)) s) =
    (let ctl = chip_rd (chip_wr (chip s) 0x1004 (of_nat (a div 4))) 0x1005
     in if bit ctl 0 then Inl EBUSY else if bit ctl 1 then Inl EIO
        else Inr (words_value (words (chip s)) a (mib_length c)))"
proof -
  note pos = block_position [OF assms(2,3), folded a_def]
  have "unat (mib_offset c) < 128" using assms(2) by (simp add: in_block_def word_less_nat_alt)
  then have a: "a < 2128" using assms(4) by (simp add: a_def)
  have "of_nat w + mib_offset c = of_nat a" by (simp add: a_def)
  moreover have "drop_bit 2 (of_nat a :: u32) = of_nat (a div 4)"
    using a by (simp add: word_unat_eq_iff unat_div drop_bit_eq_div unat_of_nat take_bit_nat_eq_self)
  ultimately have k: "ucast (drop_bit 2 (of_nat w + mib_offset c)) = (of_nat (a div 4) :: u16)"
    by (simp only: ucast_of_nat_u16)
  have u: "unat (of_nat (a div 4) :: u16) = a div 4" using a by (intro unat_u16_of_nat) simp
  have "mib_value (chip_rd (chip_wr (chip s) 0x1004 (of_nat (a div 4))))
      (0x1000 + of_nat (mib_word_offset c + 1 - mib_length c)) (mib_length c) =
      words_value (words (chip s)) a (mib_length c)"
    using block_value [of "mib_word_offset c + 1 - mib_length c" "mib_length c" "chip s" "of_nat (a div 4)"] pos
    unfolding u by simp
  then show ?thesis
    using assms(1) pos(1) by (simp add: fst_bindE snd_bindE bus_simps k ctl_bits read_mib_down_run Let_def)
qed

end

section \<open>PHY access\<close>

lemma busy_bit: "ucast (r :: u16) AND 4 = (0 :: u32) \<longleftrightarrow> \<not> bit r 2"
proof -
  have "ucast r AND 2 ^ 2 = (0 :: u32) \<longleftrightarrow> \<not> bit r 2"
    by (subst and_exp_eq_0_iff_not_bit) (simp add: bit_simps)
  then show ?thesis by simp
qed

lemma phy67_same:
  "rtl8367b_read_phy_reg H smi = rtl8367_read_phy_reg H smi"
  "rtl8367b_write_phy_reg H smi = rtl8367_write_phy_reg H smi"
  unfolding fun_eq_iff rtl8367b_read_phy_reg_def rtl8367_read_phy_reg_def rtl8367b_write_phy_reg_def
    rtl8367_write_phy_reg_def RTL8367B_INTERNAL_PHY_REG_def RTL8367_INTERNAL_PHY_REG_def
  by simp_all

context reg_bus
begin

lemma phy_poll_run:
  assumes "ready s"
  shows "fst (rtl8367_phy_poll H smi 5 s) = (if bit (chip_rd (chip s) 0x1F01) 2 then Inl ETIMEDOUT else Inr ())"
    "chip (snd (rtl8367_phy_poll H smi 5 s)) = chip s" "ready (snd (rtl8367_phy_poll H smi 5 s))"
  using assms
  by (simp_all add: rtl8367_phy_poll.simps [of H smi 5] fst_bindE snd_bindE bus_simps busy_bit)

lemma phy67_run:
  assumes "ready s" "phy \<le> 8" "reg \<le> 31"
  defines "a \<equiv> ucast (RTL8367_INTERNAL_PHY_REG phy reg)"
  shows "fst (rtl8367_read_phy_reg H smi phy reg s) =
      (if bit (chip_rd (chip s) 0x1F01) 2 then Inl ETIMEDOUT
       else let c = chip_wr (chip_wr (chip s) 0x1F02 a) 0x1F00 1
         in if bit (chip_rd c 0x1F01) 2 then Inl ETIMEDOUT else Inr (ucast (chip_rd c 0x1F04)))"
    "fst (rtl8367_write_phy_reg H smi phy reg d s) =
      (if bit (chip_rd (chip s) 0x1F01) 2 then Inl ETIMEDOUT
       else let c = chip_wr (chip_wr (chip_wr (chip s) 0x1F03 (ucast d)) 0x1F02 a) 0x1F00 3
         in if bit (chip_rd c 0x1F01) 2 then Inl ETIMEDOUT else Inr ())"
  using assms(1-3)
  by (simp_all add: rtl8367_read_phy_reg_def rtl8367_write_phy_reg_def fst_bindE snd_bindE bus_simps busy_bit
      phy_poll_run a_def Let_def not_less [symmetric])

end

section \<open>External interfaces\<close>

definition extif_reg :: "u16 \<Rightarrow> bool" where
  "extif_reg a \<longleftrightarrow> a \<in> {0x3F7, 0x1303, 0x1304, 0x1305, 0x1306, 0x1307, 0x13C3, 0x13C5, 0x13E2}"

text \<open>The mode of interface \<open>j\<close>, in the registers \<open>DIS\<close> and \<open>DIS2\<close>.\<close>

definition mode_at :: "(u16 \<Rightarrow> u16) \<Rightarrow> nat \<Rightarrow> u32" where
  "mode_at rd j = (if j \<le> 1 then get_field (4 * j) 3 (rd 0x1305) else get_field 0 4 (rd 0x13C3))"

lemma extif_cases:
  "(mode :: u32) \<le> 7 \<longleftrightarrow> mode = 0 \<or> mode = 1 \<or> mode = 2 \<or> mode = 3 \<or> mode = 4 \<or> mode = 5 \<or> mode = 6 \<or> mode = 7"
proof -
  have "unat mode \<le> 7 \<longleftrightarrow> unat mode = 0 \<or> unat mode = 1 \<or> unat mode = 2 \<or> unat mode = 3 \<or> unat mode = 4
      \<or> unat mode = 5 \<or> unat mode = 6 \<or> unat mode = 7" by presburger
  then show ?thesis by (simp add: word_le_nat_alt word_unat_eq_iff)
qed

context plain_regs
begin

text \<open>The last step: the field of the interface, on a state where the other settings are done.\<close>

lemma mode_field:
  assumes "ready s" "\<And>a. extif_reg a \<Longrightarrow> plain a" "n \<le> 1" "unat mode < 8"
  defines "s' \<equiv> snd (rtl8366_smi_rmwr H smi 0x1305 (push_bit (4 * n) 7) (push_bit (4 * n) mode) s)"
  shows "mode_at (chip_rd (chip s')) j = (if j = n then mode else mode_at (chip_rd (chip s)) j)"
proof -
  have m: "(7 :: u32) = mask 3" by (simp add: mask_eq_exp_minus_1)
  have p: "plain (ucast (0x1305 :: u32))" "plain 0x1305" "plain 0x13C3" using assms(2) by (simp_all add: extif_reg_def)
  have "unat mode < 2 ^ 3" "4 * n + 3 \<le> 16" using assms(3,4) by simp_all
  note f = field_then_field [OF assms(1) p(1) this, of "4 * j" 3]
  show ?thesis
  proof (cases "j \<le> 1")
    case True
    moreover have "(4 * n, 3) = (4 * j, 3 :: nat) \<or> 4 * n + 3 \<le> 4 * j \<or> 4 * j + 3 \<le> 4 * n" by auto
    ultimately show ?thesis using f by (simp add: mode_at_def s'_def m eq_commute [of j])
  next
    case False
    then show ?thesis using assms(1,3) p(2,3) by (auto simp: mode_at_def s'_def rmwr_simps plain_holds)
  qed
qed

lemma mode_field2:
  assumes "ready s" "\<And>a. extif_reg a \<Longrightarrow> plain a" "unat mode < 16"
  defines "s' \<equiv> snd (rtl8366_smi_rmwr H smi 0x13C3 0xF mode s)"
  shows "mode_at (chip_rd (chip s')) j = (if 2 \<le> j then mode else mode_at (chip_rd (chip s)) j)"
proof -
  have m: "(0xF :: u32) = push_bit 0 (mask 4)" by (simp add: mask_eq_exp_minus_1)
  have p: "plain (ucast (0x13C3 :: u32))" "plain 0x1305" "plain 0x13C3" using assms(2) by (simp_all add: extif_reg_def)
  have "unat mode < 2 ^ 4" "0 + 4 \<le> (16 :: nat)" using assms(3) by simp_all
  note f = field_then_field [OF assms(1) p(1) this, of 0 4]
  then show ?thesis
    using assms(1) p(2,3) by (auto simp: mode_at_def s'_def m rmwr_simps plain_holds)
qed

end

context plain_regs
begin

text \<open>The settings before the last step leave the modes alone.\<close>

lemma keeps_modes:
  assumes "ready s" "\<And>a. extif_reg a \<Longrightarrow> plain a" "extif_reg (ucast a)" "ucast a \<notin> {0x1305, 0x13C3 :: u16}"
  shows "mode_at (chip_rd (chip (snd (rtl8366_smi_rmwr H smi a m v s)))) = mode_at (chip_rd (chip s))"
    "mode_at (chip_rd (chip (snd (rtl8366_smi_write_reg H smi a v s)))) = mode_at (chip_rd (chip s))"
proof -
  have "plain (ucast a)" "plain 0x1305" "plain 0x13C3" using assms(2,3) by (simp_all add: extif_reg_def)
  then show "mode_at (chip_rd (chip (snd (rtl8366_smi_rmwr H smi a m v s)))) = mode_at (chip_rd (chip s))"
    "mode_at (chip_rd (chip (snd (rtl8366_smi_write_reg H smi a v s)))) = mode_at (chip_rd (chip s))"
    using assms(1,4) by (auto simp: mode_at_def rmwr_simps bus_simps plain_holds fun_eq_iff)
qed

lemma extif_words:
  "n < 2 \<Longrightarrow> extif_reg (ucast (RTL8367_EXT_RGMXF_REG n))"
  "n < 2 \<Longrightarrow> (ucast (RTL8367_EXT_RGMXF_REG n) :: u16) \<notin> {0x1305, 0x13C3}"
  "n \<le> 2 \<Longrightarrow> extif_reg (ucast (RTL8367B_EXT_RGMXF_REG n))"
  "n \<le> 2 \<Longrightarrow> (ucast (RTL8367B_EXT_RGMXF_REG n) :: u16) \<notin> {0x1305, 0x13C3}"
proof -
  have "n < 2 \<Longrightarrow> n = 0 \<or> n = 1" "n \<le> 2 \<Longrightarrow> n = 0 \<or> n = 1 \<or> n = 2" by arith+
  then show "n < 2 \<Longrightarrow> extif_reg (ucast (RTL8367_EXT_RGMXF_REG n))"
    "n < 2 \<Longrightarrow> (ucast (RTL8367_EXT_RGMXF_REG n) :: u16) \<notin> {0x1305, 0x13C3}"
    "n \<le> 2 \<Longrightarrow> extif_reg (ucast (RTL8367B_EXT_RGMXF_REG n))"
    "n \<le> 2 \<Longrightarrow> (ucast (RTL8367B_EXT_RGMXF_REG n) :: u16) \<notin> {0x1305, 0x13C3}"
    by (auto simp: RTL8367_EXT_RGMXF_REG_def RTL8367B_EXT_RGMXF_REG_def extif_reg_def)
qed

lemma extif_plain_words:
  "extif_reg (ucast (0x3F7 :: u32))" "extif_reg (ucast (0x1303 :: u32))" "extif_reg (ucast (0x1304 :: u32))"
  "extif_reg (ucast (0x13E2 :: u32))"
  by (simp_all add: extif_reg_def)

definition neutral :: "('h smi_state, unit) io \<Rightarrow> bool" where
  "neutral m \<longleftrightarrow> (\<forall>s. ready s \<longrightarrow> fst (m s) = Inr () \<and> ready (snd (m s))
     \<and> mode_at (chip_rd (chip (snd (m s)))) = mode_at (chip_rd (chip s)))"

lemma neutral_bind: "neutral m \<Longrightarrow> (\<And>x. neutral (k x)) \<Longrightarrow> neutral (bindE m k)"
  by (simp add: neutral_def fst_bindE snd_bindE)

lemma neutral_reg:
  assumes "\<And>a. extif_reg a \<Longrightarrow> plain a" "extif_reg (ucast a)" "ucast a \<notin> {0x1305, 0x13C3 :: u16}"
  shows "neutral (rtl8366_smi_rmwr H smi a m v)" "neutral (rtl8366_smi_write_reg H smi a v)"
  using keeps_modes [OF _ assms] by (simp_all add: neutral_def rmwr_simps bus_simps)

lemma neutral_words:
  assumes "\<And>a. extif_reg a \<Longrightarrow> plain a"
  shows "neutral (rtl8366_smi_rmwr H smi 0x3F7 m v)" "neutral (rtl8366_smi_rmwr H smi 0x1303 m v)"
    "neutral (rtl8366_smi_rmwr H smi 0x1304 m v)" "neutral (rtl8366_smi_rmwr H smi 0x13E2 m v)"
    "neutral (rtl8366_smi_write_reg H smi 0x1303 v)" "neutral (rtl8366_smi_write_reg H smi 0x1304 v)"
    "n < 2 \<Longrightarrow> neutral (rtl8366_smi_rmwr H smi (RTL8367_EXT_RGMXF_REG n) m v)"
    "n \<le> 2 \<Longrightarrow> neutral (rtl8366_smi_rmwr H smi (RTL8367B_EXT_RGMXF_REG n) m v)"
  by (intro neutral_reg assms extif_plain_words extif_words; simp)+

lemma neutral_then_field:
  assumes "neutral m" "ready s" "\<And>a. extif_reg a \<Longrightarrow> plain a" "n \<le> 1" "mode \<le> 7"
  defines "r \<equiv> bindE m (\<lambda>_. rtl8366_smi_rmwr H smi 0x1305 (push_bit (4 * n) 7) (push_bit (4 * n) mode)) s"
  shows "fst r = Inr () \<and> (\<forall>j. mode_at (chip_rd (chip (snd r))) j =
    (if j = n then mode else mode_at (chip_rd (chip s)) j))"
proof -
  have "unat mode < 8" using assms(5) by (simp add: word_le_nat_alt)
  note mode_field [OF _ assms(3,4) this]
  then show ?thesis
    using assms(1,2) unfolding r_def neutral_def by (simp add: fst_bindE snd_bindE rmwr_simps(1))
qed

lemma neutral_then_field2:
  assumes "neutral m" "ready s" "\<And>a. extif_reg a \<Longrightarrow> plain a" "mode \<le> 7"
  defines "r \<equiv> bindE m (\<lambda>_. rtl8366_smi_rmwr H smi 0x13C3 0xF mode) s"
  shows "fst r = Inr () \<and> (\<forall>j \<le> 2. mode_at (chip_rd (chip (snd r))) j =
    (if j = 2 then mode else mode_at (chip_rd (chip s)) j))"
proof -
  have "unat mode < 16" using assms(4) by (simp add: word_le_nat_alt)
  note mode_field2 [OF _ assms(3) this]
  then show ?thesis
    using assms(1,2) unfolding r_def neutral_def by (simp add: fst_bindE snd_bindE rmwr_simps(1))
qed

lemma rtl8367_set_mode_run:
  assumes "ready s" "\<And>a. extif_reg a \<Longrightarrow> plain a" "n < 2" "mode \<le> 7"
  defines "r \<equiv> rtl8367_extif_set_mode H smi n mode s"
  shows "fst r = Inr () \<and> (\<forall>j. mode_at (chip_rd (chip (snd r))) j =
    (if j = n then mode else mode_at (chip_rd (chip s)) j))"
  unfolding r_def rtl8367_extif_set_mode_def
  by (rule neutral_then_field [OF _ assms(1,2) _ assms(4)])
    (use assms(3) assms(4) [unfolded extif_cases] in \<open>auto intro!: neutral_bind neutral_words assms(2)\<close>)

lemma rtl8367b_set_mode_run:
  assumes "ready s" "\<And>a. extif_reg a \<Longrightarrow> plain a" "n \<le> 2" "mode \<le> 6"
  defines "r \<equiv> rtl8367b_extif_set_mode H smi n mode s"
  shows "fst r = Inr () \<and> (\<forall>j \<le> 2. mode_at (chip_rd (chip (snd r))) j =
    (if j = n then mode else mode_at (chip_rd (chip s)) j))"
proof -
  have m: "mode \<le> 7" "mode \<noteq> 7" using assms(4) by (auto simp: word_le_nat_alt)
  note stages = m(1) [unfolded extif_cases] m(2) assms(3)
  show ?thesis
  proof (cases "n \<le> 1")
    case True
    have "fst r = Inr () \<and> (\<forall>j. mode_at (chip_rd (chip (snd r))) j =
        (if j = n then mode else mode_at (chip_rd (chip s)) j))"
      unfolding r_def rtl8367b_extif_set_mode_def if_P [OF True]
      by (rule neutral_then_field [OF _ assms(1,2) True m(1)])
        (use stages in \<open>auto simp: rtl8367b_extif_set_rgmii_def intro!: neutral_bind neutral_words assms(2)\<close>)
    then show ?thesis by simp
  next
    case False
    then have n: "n = 2" and two: "\<not> (2 :: nat) \<le> 1" using assms(3) by simp_all
    show ?thesis
      unfolding r_def rtl8367b_extif_set_mode_def n if_not_P [OF two] push_bit_0_id id_apply
      by (rule neutral_then_field2 [OF _ assms(1,2) m(1)])
        (use stages in \<open>auto simp: rtl8367b_extif_set_rgmii_def intro!: neutral_bind neutral_words assms(2)\<close>)
  qed
qed

end

lemma extif_mode_refused:
  "mode > 7 \<Longrightarrow> rtl8367_extif_set_mode H smi n mode s = (Inl EINVAL, s)"
  "mode > 6 \<Longrightarrow> rtl8367b_extif_set_mode H smi n mode s = (Inl EINVAL, s)"
  by (auto simp: rtl8367_extif_set_mode_def rtl8367b_extif_set_mode_def bindE_def failE_def)

section \<open>The properties\<close>

text \<open>
  C17. The RTL8367 driver meets the contract of the VLAN core, as a chip whose member configurations have
  no untag mask and no priority and which has no enable bit for the 4096 entry table. Its
  registers have room for more than the driver stores, so that well-formed tables are part of the
  invariant that every operation keeps.
\<close>
theorem rtl8367_meets_vlan_contract:
  assumes "rtl8367_chip H smi ready chip chip_rd chip_wr vtable"
  shows "vlan_switch smi (rtl8367_smi_ops H smi sd)
    (\<lambda>s. ready s \<and> tables_ok 32 (num_ports smi) (mask 16) 7 (rtl8367_view smi chip_rd vtable (chip s)))
    (\<lambda>s. rtl8367_view smi chip_rd vtable (chip s)) (mask 16) 7 False
    (\<lambda>s. tables67.chip_modes chip_rd (chip s)) False"
  using assms by (rule rtl8367_chip.meets_contract)

theorem rtl8367_meets_vlan_contract_witness:
  "vlan_switch bench67_smi (rtl8367_smi_ops bench67 bench67_smi bench67_setup)
    (\<lambda>s. True \<and> tables_ok 32 (num_ports bench67_smi) (mask 16) 7
       (rtl8367_view bench67_smi regs67 vtab67 (bench_dev (hw s))))
    (\<lambda>s. rtl8367_view bench67_smi regs67 vtab67 (bench_dev (hw s))) (mask 16) 7 False
    (\<lambda>s. tables67.chip_modes regs67 (bench_dev (hw s))) False
   \<and> tables_ok 32 10 (mask 16) 7 (rtl8367_view bench67_smi regs67 vtab67 (bench_dev (hw bench67_state)))"
proof
  show "tables_ok 32 10 (mask 16) 7 (rtl8367_view bench67_smi regs67 vtab67 (bench_dev (hw bench67_state)))"
    unfolding bench67_chip.t.chip_view_def
    by (auto simp: tables_ok_def bench67_state_def mc67_of_def mc_fits_def v4k_fits_def ucast_less_4096)
qed (rule rtl8367_meets_vlan_contract [OF bench67_chip.rtl8367_chip_axioms])

text \<open>
  C20. Every VLAN operation of the RTL8367B driver, with eight ports and another layout of the VLAN
  table, implements the table contract of the core and keeps the tables well formed.
\<close>
theorem rtl8367b_meets_vlan_contract:
  assumes "rtl8367b_chip H smi ready chip chip_rd chip_wr vtable"
  shows "vlan_switch smi (rtl8367b_smi_ops H smi sd)
    (\<lambda>s. ready s \<and> tables_ok 32 (num_ports smi) (mask 8) 7 (rtl8367b_view smi chip_rd vtable (chip s)))
    (\<lambda>s. rtl8367b_view smi chip_rd vtable (chip s)) (mask 8) 7 False
    (\<lambda>s. tables67.chip_modes chip_rd (chip s)) False"
  using assms by (rule rtl8367b_chip.meets_contract)

theorem rtl8367b_meets_vlan_contract_witness:
  "vlan_switch bench67b_smi (rtl8367b_smi_ops bench67b bench67b_smi bench67_setup)
    (\<lambda>s. True \<and> tables_ok 32 (num_ports bench67b_smi) (mask 8) 7
       (rtl8367b_view bench67b_smi regs67b vtab67b (bench_dev (hw s))))
    (\<lambda>s. rtl8367b_view bench67b_smi regs67b vtab67b (bench_dev (hw s))) (mask 8) 7 False
    (\<lambda>s. tables67.chip_modes regs67b (bench_dev (hw s))) False
   \<and> tables_ok 32 8 (mask 8) 7 (rtl8367b_view bench67b_smi regs67b vtab67b (bench_dev (hw bench67b_state)))"
proof
  show "tables_ok 32 8 (mask 8) 7 (rtl8367b_view bench67b_smi regs67b vtab67b (bench_dev (hw bench67b_state)))"
    unfolding bench67b_chip.t.chip_view_def
    by (auto simp: tables_ok_def bench67b_state_def mc67_of_def mc_fits_def v4k_fits_def
        rtl8367b_4k_of_def ucast_less_4096)
qed (rule rtl8367b_meets_vlan_contract [OF bench67b_chip.rtl8367b_chip_axioms])

text \<open>
  C18. Reading a MIB counter, RTL8367 and RTL8367B: a counter or port number out of range is refused (with
  one port number more let through than there are ports); otherwise the block that holds the
  counter is selected, a busy or resetting counter block gives the errors EBUSY and EIO, and else the
  result is exactly the counter's words in the chip's counter memory, the least significant first, whether
  the counter fills the block or half of it.
\<close>
theorem mib67_counter_reads:
  assumes "mib_blocks H smi ready chip chip_rd chip_wr words" "ready s"
  shows "fst (rtl8367_get_mib_counter H smi n p s) =
      (if 10 < p \<or> 36 \<le> n then Inl EINVAL
       else let c = rtl8367_mib_counters ! n; a = 80 * p + unat (mib_offset c);
                ctl = chip_rd (chip_wr (chip s) 0x1004 (of_nat (a div 4))) 0x1005
         in if bit ctl 0 then Inl EBUSY else if bit ctl 1 then Inl EIO
            else Inr (words_value (words (chip s)) a (mib_length c)))
    \<and> fst (rtl8367b_get_mib_counter H smi n p s) =
      (if 8 < p \<or> 58 \<le> n then Inl EINVAL
       else let c = rtl8367b_mib_counters ! n; a = 124 * p + unat (mib_offset c);
                ctl = chip_rd (chip_wr (chip s) 0x1004 (of_nat (a div 4))) 0x1005
         in if bit ctl 0 then Inl EBUSY else if bit ctl 1 then Inl EIO
            else Inr (words_value (words (chip s)) a (mib_length c)))"
proof -
  note run = mib_blocks.mib67_run [OF assms]
  show ?thesis
    using run [OF counters67_in_block(1) [of n], of "80 * p"]
      run [OF counters67_in_block(2) [of n], of "124 * p"]
    by (auto simp: rtl8367_get_mib_counter_def rtl8367b_get_mib_counter_def Let_def mod_mult_left_eq)
qed

record mib_chip =
  mregs :: "u16 \<Rightarrow> u16"
  mmem :: "nat \<Rightarrow> u16"

definition mib_chip_wr :: "mib_chip \<Rightarrow> u16 \<Rightarrow> u16 \<Rightarrow> mib_chip" where
  "mib_chip_wr c a v =
    (if a = 0x1004
     then c\<lparr>mregs := (mregs c)(0x1004 := v, 0x1000 := mmem c (4 * unat v), 0x1001 := mmem c (4 * unat v + 1),
            0x1002 := mmem c (4 * unat v + 2), 0x1003 := mmem c (4 * unat v + 3))\<rparr>
     else c\<lparr>mregs := (mregs c)(a := v)\<rparr>)"

interpretation bench_mib: mdio_slave "bench_platform mregs mib_chip_wr" bench67_smi bench_dev bench_addr
    bench_wdata bench_rdata mregs mib_chip_wr
  by (rule bench_slave) (simp add: bench67_smi_def rtl8367_smi_def bench_smi_def)

interpretation bench_mib: mib_blocks "bench_platform mregs mib_chip_wr" bench67_smi "\<lambda>_. True"
    "\<lambda>s. bench_dev (hw s)" mregs mib_chip_wr mmem
proof
  fix i :: nat and c k
  assume "i < 4"
  then have "i = 0 \<or> i = 1 \<or> i = 2 \<or> i = 3" by arith
  then show "mregs (mib_chip_wr c 0x1004 k) (0x1000 + of_nat i) = mmem c (4 * unat k + i)"
    by (auto simp: mib_chip_wr_def)
qed

definition bench_mib_state :: "mib_chip mdio_bench smi_state" where
  "bench_mib_state = \<lparr>hw = \<lparr>bench_dev = \<lparr>mregs = (\<lambda>_. 0), mmem = (\<lambda>_. 0)(90 := 5, 91 := 1)\<rparr>,
     bench_addr = 0, bench_wdata = 0, bench_rdata = 0\<rparr>, lock = False, vlan_enabled = 0,
     vlan4k_enabled = 0\<rparr>"

theorem mib67_counter_reads_witness:
  "fst (rtl8367_get_mib_counter (bench_platform mregs mib_chip_wr) bench67_smi 4 1 bench_mib_state) =
    Inr (5 + 2 ^ 16)"
  using mib67_counter_reads [OF bench_mib.mib_blocks_axioms TrueI, of 4 1 bench_mib_state]
  by (simp add: bench_mib_state_def mib_chip_wr_def words_value_def rtl8367_mib_counters_def
      lessThan_nat_numeral lessThan_Suc Let_def)

text \<open>
  PHY registers, RTL8367 and RTL8367B: an access out of range is refused without touching the chip.
  In range, the access fails with ETIMEDOUT if the unit is busy before the command; the command
  is sent; and the first status after it decides: busy is ETIMEDOUT at once, whatever the
  chip would answer later (the loop's test of its counter is inverted), idle ends the access, with the
  data register for a read.
\<close>
theorem phy67_access:
  assumes "reg_bus H smi ready chip chip_rd chip_wr" "ready s"
  shows "(phy > 8 \<or> reg > 31 \<longrightarrow> rtl8367_read_phy_reg H smi phy reg s = (Inl EINVAL, s)
      \<and> rtl8367_write_phy_reg H smi phy reg d s = (Inl EINVAL, s))
    \<and> (phy \<le> 8 \<longrightarrow> reg \<le> 31 \<longrightarrow> (let a = ucast (RTL8367_INTERNAL_PHY_REG phy reg); busy = (\<lambda>c. bit (chip_rd c 0x1F01) 2) in
      fst (rtl8367_read_phy_reg H smi phy reg s) =
        (let c = chip_wr (chip_wr (chip s) 0x1F02 a) 0x1F00 1
         in if busy (chip s) \<or> busy c then Inl ETIMEDOUT else Inr (ucast (chip_rd c 0x1F04)))
      \<and> fst (rtl8367_write_phy_reg H smi phy reg d s) =
        (let c = chip_wr (chip_wr (chip_wr (chip s) 0x1F03 (ucast d)) 0x1F02 a) 0x1F00 3
         in if busy (chip s) \<or> busy c then Inl ETIMEDOUT else Inr ())))
    \<and> rtl8367b_read_phy_reg H smi phy reg s = rtl8367_read_phy_reg H smi phy reg s
    \<and> rtl8367b_write_phy_reg H smi phy reg d s = rtl8367_write_phy_reg H smi phy reg d s"
  using reg_bus.phy67_run [OF assms, of phy reg]
  by (auto simp: phy67_same rtl8367_read_phy_reg_def [of H smi phy reg] rtl8367_write_phy_reg_def [of H smi phy reg]
      failE_def Let_def)

theorem phy67_access_witness:
  "fst (rtl8367_write_phy_reg bench67 bench67_smi 1 0 0x1000 bench67_state) = Inr ()
    \<and> rtl8367b_read_phy_reg bench67 bench67_smi 9 0 bench67_state = (Inl EINVAL, bench67_state)"
  using phy67_access [OF bench67_bus.reg_bus_axioms TrueI, of 1 0 bench67_state "0x1000"]
    phy67_access [OF bench67_bus.reg_bus_axioms TrueI, of 9 0 bench67_state 0]
  by (simp add: Let_def bench67_state_def regfile67_wr_def RTL8367_INTERNAL_PHY_REG_def)

text \<open>
  External interfaces: setting the mode of one interface to a mode the driver knows succeeds and
  changes the mode field of that interface only, for the two interfaces of the RTL8367 and the three
  of the RTL8367B, the last of which has a register of its own; any other mode is refused without
  touching the chip.
\<close>
theorem extif_mode_fields:
  assumes "plain_regs H smi ready chip chip_rd chip_wr extif_reg" "ready s"
  shows "(n < 2 \<longrightarrow> mode \<le> 7 \<longrightarrow> (case rtl8367_extif_set_mode H smi n mode s of (r, s') \<Rightarrow>
        r = Inr () \<and> (\<forall>j < 2. mode_at (chip_rd (chip s')) j = (if j = n then mode else mode_at (chip_rd (chip s)) j))))
    \<and> (mode > 7 \<longrightarrow> rtl8367_extif_set_mode H smi n mode s = (Inl EINVAL, s))
    \<and> (n \<le> 2 \<longrightarrow> mode \<le> 6 \<longrightarrow> (case rtl8367b_extif_set_mode H smi n mode s of (r, s') \<Rightarrow>
        r = Inr () \<and> (\<forall>j \<le> 2. mode_at (chip_rd (chip s')) j = (if j = n then mode else mode_at (chip_rd (chip s)) j))))
    \<and> (mode > 6 \<longrightarrow> rtl8367b_extif_set_mode H smi n mode s = (Inl EINVAL, s))"
  using plain_regs.rtl8367_set_mode_run [OF assms, of n mode] plain_regs.rtl8367b_set_mode_run [OF assms, of n mode]
    extif_mode_refused [of mode H smi n s]
  by (simp add: split_def)

interpretation bench67_extif: plain_regs bench67 bench67_smi "\<lambda>_. True" "\<lambda>s. bench_dev (hw s)" regs67
    regfile67_wr extif_reg
  by unfold_locales (auto simp: regfile67_wr_def extif_reg_def)

theorem extif_mode_fields_witness:
  "let s' = snd (rtl8367b_extif_set_mode bench67 bench67_smi 1 1 bench67_state)
   in mode_at (regs67 (bench_dev (hw s'))) 1 = 1 \<and> mode_at (regs67 (bench_dev (hw s'))) 2 = 0"
  using extif_mode_fields [OF bench67_extif.plain_regs_axioms TrueI, of 1 1 bench67_state]
  by (auto simp: Let_def split_def mode_at_def get_field_def bench67_state_def dest: spec [of _ 1] spec [of _ 2])

end
