(* ===== verification/Smi_Debugfs.thy ===== *)
theory Smi_Debugfs
  imports Smi_Switch
begin

text \<open>
  The debugfs files of \<open>rtl8366_smi.c\<close>, which exist when \<open>CONFIG_RTL8366_SMI_DEBUG_FS\<close> is
  set. A read function ends in \<open>simple_read_from_buffer\<close>; its result here is the text in
  \<open>smi->buf\<close> and the length handed to that function, \<open>None\<close> when a call of
  \<open>snprintf\<close> got a wrapped size. A chip driver clears the structure it is to fill before it fails,
  so that the entry printed after an error is zero.
\<close>

section \<open>State\<close>

record debugfs =
  dbg_reg :: u16
  dbg_vlan_4k_page :: u8
  debugfs_root :: "string list option"

section \<open>Tables\<close>

definition vlan_mc_head :: string where
  "vlan_mc_head = pad_left 2 ''id'' @ '' '' @ pad_left 6 ''vid'' @ '' '' @ pad_left 4 ''prio'' @ '' '' @
     pad_left 6 ''member'' @ '' '' @ pad_left 6 ''untag'' @ '' '' @ pad_left 3 ''fid'' @ line_feed"

definition vlan_mc_line :: "nat \<Rightarrow> rtl8366_vlan_mc \<Rightarrow> string" where
  "vlan_mc_line i m = pad_left 2 (dec i) @ '' '' @ pad_left 6 (dec (unat (mc_vid m))) @ '' '' @
     pad_left 4 (dec (unat (mc_priority m))) @ '' 0x'' @ hex04 (unat (mc_member m)) @ '' 0x'' @
     hex04 (unat (mc_untag m)) @ '' '' @ pad_left 3 (dec (unat (mc_fid m))) @ line_feed"

primrec vlan_mc_loop ::
  "'s rtl8366_smi_ops \<Rightarrow> nat list \<Rightarrow> (string \<times> nat) option \<Rightarrow> ('s, (string \<times> nat) option) io" where
  "vlan_mc_loop ops [] b = retE b"
| "vlan_mc_loop ops (i # is) b =
    bindE (catchE (get_vlan_mc ops i) zero_mc) (\<lambda>vlanmc.
    vlan_mc_loop ops is (buf_printf smi_buf_size (vlan_mc_line i vlanmc) b))"

definition rtl8366_read_debugfs_vlan_mc ::
  "rtl8366_smi \<Rightarrow> 's rtl8366_smi_ops \<Rightarrow> ('s, (string \<times> nat) option) io" where
  "rtl8366_read_debugfs_vlan_mc smi ops =
    vlan_mc_loop ops [0..<num_vlan_mc smi] (buf_printf smi_buf_size vlan_mc_head (Some ([], 0)))"

abbreviation (input) RTL8366_VLAN4K_PAGE_SIZE :: nat where "RTL8366_VLAN4K_PAGE_SIZE \<equiv> 64"
abbreviation (input) RTL8366_VLAN4K_NUM_PAGES :: nat where "RTL8366_VLAN4K_NUM_PAGES \<equiv> 64"

definition vlan_4k_head :: string where
  "vlan_4k_head = pad_left 4 ''vid'' @ '' '' @ pad_left 6 ''member'' @ '' '' @ pad_left 6 ''untag'' @ '' '' @
     pad_left 3 ''fid'' @ line_feed"

definition vlan_4k_line :: "rtl8366_vlan_4k \<Rightarrow> string" where
  "vlan_4k_line e = pad_left 4 (dec (unat (v4k_vid e))) @ '' 0x'' @ hex04 (unat (v4k_member e)) @ '' 0x'' @
     hex04 (unat (v4k_untag e)) @ '' '' @ pad_left 3 (dec (unat (v4k_fid e))) @ line_feed"

primrec vlan_4k_loop ::
  "'s rtl8366_smi_ops \<Rightarrow> nat list \<Rightarrow> (string \<times> nat) option \<Rightarrow> ('s, (string \<times> nat) option) io" where
  "vlan_4k_loop ops [] b = retE b"
| "vlan_4k_loop ops (vid # vids) b =
    bindE (catchE (get_vlan_4k ops (of_nat vid)) zero_4k) (\<lambda>vlan4k.
    vlan_4k_loop ops vids (buf_printf smi_buf_size (vlan_4k_line vlan4k) b))"

definition rtl8366_read_debugfs_vlan_4k ::
  "'s rtl8366_smi_ops \<Rightarrow> debugfs \<Rightarrow> ('s, (string \<times> nat) option) io" where
  "rtl8366_read_debugfs_vlan_4k ops d =
    (if unat (dbg_vlan_4k_page d) \<ge> RTL8366_VLAN4K_NUM_PAGES
     then retE (buf_printf smi_buf_size
            (''invalid page: '' @ dec (unat (dbg_vlan_4k_page d)) @ line_feed) (Some ([], 0)))
     else let offset = RTL8366_VLAN4K_PAGE_SIZE * unat (dbg_vlan_4k_page d)
          in vlan_4k_loop ops [offset..<offset + RTL8366_VLAN4K_PAGE_SIZE]
               (buf_printf smi_buf_size vlan_4k_head (Some ([], 0))))"

primrec pvid_loop ::
  "'s rtl8366_smi_ops \<Rightarrow> nat list \<Rightarrow> (string \<times> nat) option \<Rightarrow> ('s, (string \<times> nat) option) io" where
  "pvid_loop ops [] b = retE b"
| "pvid_loop ops (i # is) b =
    (\<lambda>s. case rtl8366_get_pvid ops i s of
       (Inl e, s') \<Rightarrow> pvid_loop ops is
         (buf_printf smi_buf_size (pad_left 4 (dec i) @ '' error'' @ line_feed) b) s'
     | (Inr pvid, s') \<Rightarrow> pvid_loop ops is
         (buf_printf smi_buf_size
            (pad_left 4 (dec i) @ '' '' @ pad_left 4 (dec (unat pvid)) @ line_feed) b) s')"

definition rtl8366_read_debugfs_pvid ::
  "rtl8366_smi \<Rightarrow> 's rtl8366_smi_ops \<Rightarrow> ('s, (string \<times> nat) option) io" where
  "rtl8366_read_debugfs_pvid smi ops =
    pvid_loop ops [0..<num_ports smi]
      (buf_printf smi_buf_size (pad_left 4 ''port'' @ '' '' @ pad_left 4 ''pvid'' @ line_feed) (Some ([], 0)))"

section \<open>Registers\<close>

definition rtl8366_read_debugfs_reg ::
  "'h platform \<Rightarrow> rtl8366_smi \<Rightarrow> debugfs \<Rightarrow> ('h smi_state, (string \<times> nat) option) io" where
  "rtl8366_read_debugfs_reg H smi d = (\<lambda>s.
    case rtl8366_smi_read_reg H smi (ucast (dbg_reg d)) s of
      (Inl e, s') \<Rightarrow> (Inr (buf_printf smi_buf_size
         (''Read failed (reg: 0x'' @ hex04 (unat (dbg_reg d)) @ '')'' @ line_feed) (Some ([], 0))), s')
    | (Inr t, s') \<Rightarrow> (Inr (buf_printf smi_buf_size
         (''reg = 0x'' @ hex04 (unat (dbg_reg d)) @ '', val = 0x'' @ hex04 (unat t) @ line_feed)
         (Some ([], 0))), s'))"

text \<open>
  \<open>copied\<close>: whether \<open>copy_from_user\<close> succeeds. \<open>kstrtoul16\<close> is \<open>kstrtoul\<close> with base 16,
  on the characters before the first zero. The result is the number of bytes taken.
\<close>

definition debugfs_input :: "string \<Rightarrow> string" where
  "debugfs_input user_buf =
    (let buf = take (smi_buf_size - 1) user_buf;
         buf = (if buf \<noteq> [] \<and> last buf = CHR 0x0A then butlast buf else buf)
     in takeWhile (\<lambda>c. c \<noteq> CHR 0x00) buf)"

definition rtl8366_write_debugfs_reg ::
  "'h platform \<Rightarrow> rtl8366_smi \<Rightarrow> bool \<Rightarrow> (string \<Rightarrow> u64 option) \<Rightarrow> debugfs \<Rightarrow> string \<Rightarrow> ('h smi_state, nat) io" where
  "rtl8366_write_debugfs_reg H smi copied kstrtoul16 d user_buf =
    (if \<not> copied then failE EFAULT
     else bindE (case kstrtoul16 (debugfs_input user_buf) of None \<Rightarrow> retE ()
                 | Some data \<Rightarrow> ignoreE (rtl8366_smi_write_reg H smi (ucast (dbg_reg d)) (ucast data))) (\<lambda>_.
          retE (length user_buf)))"

section \<open>Counters\<close>

primrec mibs_head_loop :: "nat list \<Rightarrow> (string \<times> nat) option \<Rightarrow> (string \<times> nat) option" where
  "mibs_head_loop [] b = b"
| "mibs_head_loop (i # is) b =
    mibs_head_loop is (buf_printf smi_buf_size ('' '' @ pad_left 12 (take 9 (''Port '' @ dec i))) b)"

primrec mibs_row_loop ::
  "'s rtl8366_smi_ops \<Rightarrow> nat \<Rightarrow> nat list \<Rightarrow> (string \<times> nat) option \<Rightarrow> ('s, (string \<times> nat) option) io" where
  "mibs_row_loop ops i [] b = retE b"
| "mibs_row_loop ops i (j # js) b =
    (\<lambda>s. case get_mib_counter ops i j s of
       (Inr counter, s') \<Rightarrow> mibs_row_loop ops i js
         (buf_printf smi_buf_size (pad_left 12 (dec (unat counter)) @ '' '') b) s'
     | (Inl e, s') \<Rightarrow> mibs_row_loop ops i js
         (buf_printf smi_buf_size (pad_left 12 ''error'' @ '' '') b) s')"

primrec mibs_loop ::
  "rtl8366_smi \<Rightarrow> 's rtl8366_smi_ops \<Rightarrow> nat list \<Rightarrow> (string \<times> nat) option \<Rightarrow> ('s, (string \<times> nat) option) io" where
  "mibs_loop smi ops [] b = retE b"
| "mibs_loop smi ops (i # is) b =
    bindE (mibs_row_loop ops i [0..<num_ports smi]
             (buf_printf smi_buf_size (pad_right 36 (mib_name (mib_counters smi ! i)) @ '' '') b)) (\<lambda>b.
    mibs_loop smi ops is (buf_printf smi_buf_size line_feed b))"

definition rtl8366_read_debugfs_mibs ::
  "rtl8366_smi \<Rightarrow> 's rtl8366_smi_ops \<Rightarrow> ('s, (string \<times> nat) option) io" where
  "rtl8366_read_debugfs_mibs smi ops =
    (let b = buf_printf smi_buf_size (pad_right 36 ''Counter'') (Some ([], 0));
         b = mibs_head_loop [0..<num_ports smi] b
     in mibs_loop smi ops [0..<num_mib_counters smi] (buf_printf smi_buf_size line_feed b))"

section \<open>The directory\<close>

text \<open>
  \<open>mkdir_ok\<close> and \<open>create_ok\<close> say which creations succeed; \<open>debugfs_root\<close> is the list of the
  files of the directory, if it exists.
\<close>

primrec create_files :: "(string \<Rightarrow> bool) \<Rightarrow> string list \<Rightarrow> string list \<Rightarrow> string list" where
  "create_files create_ok [] fs = fs"
| "create_files create_ok (n # ns) fs =
    (if create_ok n then create_files create_ok ns (fs @ [n]) else fs)"

definition rtl8366_debugfs_init :: "bool \<Rightarrow> (string \<Rightarrow> bool) \<Rightarrow> debugfs \<Rightarrow> debugfs" where
  "rtl8366_debugfs_init mkdir_ok create_ok d =
    (case (case debugfs_root d of None \<Rightarrow> if mkdir_ok then Some [] else None | Some fs \<Rightarrow> Some fs) of
       None \<Rightarrow> d
     | Some fs \<Rightarrow> d\<lparr>debugfs_root := Some (create_files create_ok
         [''reg'', ''val'', ''vlan_mc'', ''vlan_4k_page'', ''vlan_4k'', ''pvid'', ''mibs''] fs)\<rparr>)"

definition rtl8366_debugfs_remove :: "debugfs \<Rightarrow> debugfs" where
  "rtl8366_debugfs_remove d =
    (case debugfs_root d of None \<Rightarrow> d | Some fs \<Rightarrow> d\<lparr>debugfs_root := None\<rparr>)"

end
