(* ===== verification/Debugfs_Properties.thy ===== *)
theory Debugfs_Properties
  imports Report_Properties Counter_Properties Smi_Debugfs Rtl8367 Rtl8367b
begin

text \<open>
  The counter table of the debugfs file \<open>mibs\<close>: one row per counter, one column per port, in the
  4096 bytes of \<open>smi->buf\<close>.
\<close>

section \<open>The text of the table\<close>

definition mibs_cell :: "errno + u64 \<Rightarrow> string" where
  "mibs_cell r = pad_left 12 (case r of Inr counter \<Rightarrow> dec (unat counter) | Inl e \<Rightarrow> ''error'') @ '' ''"

definition mibs_row :: "rtl8366_smi \<Rightarrow> nat \<Rightarrow> (errno + u64) list \<Rightarrow> string" where
  "mibs_row smi i rs = pad_right 36 (mib_name (mib_counters smi ! i)) @ '' '' @ concat (map mibs_cell rs) @ line_feed"

definition mibs_head :: "nat \<Rightarrow> string" where
  "mibs_head np = pad_right 36 ''Counter'' @
     concat (map (\<lambda>i. '' '' @ pad_left 12 (take 9 (''Port '' @ dec i))) [0..<np]) @ line_feed"

definition mibs_text :: "rtl8366_smi \<Rightarrow> (errno + u64) list list \<Rightarrow> string" where
  "mibs_text smi table = mibs_head (num_ports smi) @
     concat (map (\<lambda>(i, rs). mibs_row smi i rs) (zip [0..<num_mib_counters smi] table))"

lemma length_pad: "length (pad_left w t) = max w (length t)" "length (pad_right w t) = max w (length t)"
  by (simp_all add: pad_left_def pad_right_def)

lemma length_concat_le: "(\<And>x. x \<in> set xs \<Longrightarrow> length x \<le> w) \<Longrightarrow> length (concat xs) \<le> w * length xs"
proof (induction xs)
  case (Cons x xs)
  then show ?case using Cons.prems [of x] by (simp add: add_mono)
qed simp

lemma length_mibs_cell: "13 \<le> length (mibs_cell r)" "length (mibs_cell r) \<le> 21"
  using length_mib_value [of r] by (simp_all add: mibs_cell_def length_pad)

lemma mibs_row_loop_step:
  "mibs_row_loop ops i (j # js) b s = mibs_row_loop ops i js
     (buf_printf smi_buf_size (mibs_cell (fst (get_mib_counter ops i j s))) b) (snd (get_mib_counter ops i j s))"
  by (simp add: mibs_cell_def split: prod.splits sum.splits)

lemma bindE_Inr: "fst (m s) = Inr x \<Longrightarrow> bindE m f s = f x (snd (m s))"
  by (cases "m s") (simp add: bindE_def)

section \<open>The table fits\<close>

text \<open>\<open>width i\<close> bounds the cells of counter \<open>i\<close>.\<close>

definition cells_within :: "'s rtl8366_smi_ops \<Rightarrow> (nat \<Rightarrow> nat) \<Rightarrow> bool" where
  "cells_within ops width \<longleftrightarrow> (\<forall>i j s. length (mibs_cell (fst (get_mib_counter ops i j s))) \<le> width i)"

lemma mibs_head_loop_fits:
  assumes "length pre + 13 * length is < 4096"
  shows "mibs_head_loop is (Some (pre, length pre)) =
    (let t = pre @ concat (map (\<lambda>i. '' '' @ pad_left 12 (take 9 (''Port '' @ dec i))) is) in Some (t, length t))"
  using assms
proof (induction "is" arbitrary: pre)
  case (Cons i "is")
  let ?t = "'' '' @ pad_left 12 (take 9 (''Port '' @ dec i))"
  have len: "length ?t = 13" by (simp add: length_pad)
  have "buf_printf 4096 ?t (Some (pre, length pre)) = Some (pre @ ?t, length (pre @ ?t))"
    using Cons.prems len by (intro buf_printf_fits) simp
  then show ?case using Cons.IH [of "pre @ ?t"] Cons.prems len by (simp add: Let_def)
qed simp

lemma mibs_row_loop_fits:
  assumes "cells_within ops width" "length pre + width i * length js < 4096"
  shows "\<exists>rs. length rs = length js \<and> length (concat (map mibs_cell rs)) \<le> width i * length js \<and>
    fst (mibs_row_loop ops i js (Some (pre, length pre)) s) =
      Inr (Some (pre @ concat (map mibs_cell rs), length (pre @ concat (map mibs_cell rs))))"
  using assms(2)
proof (induction js arbitrary: pre s)
  case Nil
  then show ?case by simp
next
  case (Cons j js)
  let ?r = "fst (get_mib_counter ops i j s)" and ?s = "snd (get_mib_counter ops i j s)"
  let ?pre = "pre @ mibs_cell ?r"
  have w: "length (mibs_cell ?r) \<le> width i" using assms(1) by (simp add: cells_within_def)
  have p: "buf_printf 4096 (mibs_cell ?r) (Some (pre, length pre)) = Some (?pre, length ?pre)"
    using Cons.prems w by (intro buf_printf_fits) simp
  obtain rs where rs: "length rs = length js" "length (concat (map mibs_cell rs)) \<le> width i * length js"
    "fst (mibs_row_loop ops i js (Some (?pre, length ?pre)) ?s) =
      Inr (Some (?pre @ concat (map mibs_cell rs), length (?pre @ concat (map mibs_cell rs))))"
    using Cons.IH [of ?pre ?s] Cons.prems w by auto
  show ?case
    using rs w p by (intro exI [of _ "?r # rs"]) (simp add: mibs_row_loop_step del: mibs_row_loop.simps)
qed

lemma mibs_row_fits:
  assumes "cells_within ops width" "length (mib_name (mib_counters smi ! i)) \<le> 36"
    "length pre + 38 + width i * num_ports smi < 4096"
  shows "\<exists>rs. length rs = num_ports smi \<and> length (mibs_row smi i rs) \<le> 38 + width i * num_ports smi \<and>
    (let t = pre @ mibs_row smi i rs in
     mibs_loop smi ops (i # is) (Some (pre, length pre)) s =
       mibs_loop smi ops is (Some (t, length t))
         (snd (mibs_row_loop ops i [0..<num_ports smi]
           (buf_printf smi_buf_size (pad_right 36 (mib_name (mib_counters smi ! i)) @ '' '') (Some (pre, length pre))) s)))"
proof -
  let ?n = "pad_right 36 (mib_name (mib_counters smi ! i)) @ '' ''"
  have n: "length ?n = 37" using assms(2) by (simp add: length_pad)
  have p: "buf_printf 4096 ?n (Some (pre, length pre)) = Some (pre @ ?n, length (pre @ ?n))"
    using assms(3) n by (intro buf_printf_fits) simp
  obtain rs where rs: "length rs = num_ports smi" "length (concat (map mibs_cell rs)) \<le> width i * num_ports smi"
    "fst (mibs_row_loop ops i [0..<num_ports smi] (Some (pre @ ?n, length (pre @ ?n))) s) =
      Inr (Some ((pre @ ?n) @ concat (map mibs_cell rs), length ((pre @ ?n) @ concat (map mibs_cell rs))))"
    using mibs_row_loop_fits [OF assms(1), of "pre @ ?n" i "[0..<num_ports smi]" s] assms(3) n by auto
  let ?c = "(pre @ ?n) @ concat (map mibs_cell rs)"
  have "length ?c + length line_feed < 4096" using rs(2) n assms(3) by (simp add: line_feed_def)
  then have q: "buf_printf 4096 line_feed (Some (?c, length ?c)) = Some (?c @ line_feed, length (?c @ line_feed))"
    by (rule buf_printf_fits)
  have "length (mibs_row smi i rs) \<le> 38 + width i * num_ports smi"
    using rs(2) n by (simp add: mibs_row_def line_feed_def)
  moreover have "?c @ line_feed = pre @ mibs_row smi i rs" by (simp add: mibs_row_def)
  moreover have "mibs_loop smi ops (i # is) (Some (pre, length pre)) s =
      mibs_loop smi ops is (Some (?c @ line_feed, length (?c @ line_feed)))
        (snd (mibs_row_loop ops i [0..<num_ports smi] (buf_printf 4096 ?n (Some (pre, length pre))) s))"
    by (simp only: mibs_loop.simps p q
      bindE_Inr [of "mibs_row_loop ops i [0..<num_ports smi] (Some (pre @ ?n, length (pre @ ?n)))" s, OF rs(3)])
  ultimately show ?thesis using rs(1) by (intro exI [of _ rs]) (simp only: Let_def simp_thms)
qed

lemma mibs_loop_fits:
  assumes "cells_within ops width" "\<forall>i \<in> set is. length (mib_name (mib_counters smi ! i)) \<le> 36"
    "length pre + sum_list (map (\<lambda>i. 38 + width i * num_ports smi) is) < 4096"
  shows "\<exists>table. length table = length is \<and> list_all (\<lambda>rs. length rs = num_ports smi) table \<and>
    (let t = pre @ concat (map (\<lambda>(i, rs). mibs_row smi i rs) (zip is table)) in
     length t < 4096 \<and> fst (mibs_loop smi ops is (Some (pre, length pre)) s) = Inr (Some (t, length t)))"
  using assms(2,3)
proof (induction "is" arbitrary: pre s)
  case Nil
  then show ?case by (intro exI [of _ "[]"]) (simp add: Let_def)
next
  case (Cons i "is")
  obtain rs s' where rs: "length rs = num_ports smi" "length (mibs_row smi i rs) \<le> 38 + width i * num_ports smi"
    "mibs_loop smi ops (i # is) (Some (pre, length pre)) s =
       mibs_loop smi ops is (Some (pre @ mibs_row smi i rs, length (pre @ mibs_row smi i rs))) s'"
    using mibs_row_fits [OF assms(1), of smi i pre "is" s] Cons.prems by (auto simp: Let_def)
  let ?pre = "pre @ mibs_row smi i rs"
  have "length ?pre + sum_list (map (\<lambda>i. 38 + width i * num_ports smi) is) < 4096"
    using Cons.prems(2) rs(2) by simp
  then obtain table where "length table = length is" "list_all (\<lambda>rs. length rs = num_ports smi) table"
    "let t = ?pre @ concat (map (\<lambda>(i, rs). mibs_row smi i rs) (zip is table)) in
     length t < 4096 \<and> fst (mibs_loop smi ops is (Some (?pre, length ?pre)) s') = Inr (Some (t, length t))"
    using Cons.IH [of ?pre s'] Cons.prems(1) by auto
  then show ?case
    using rs(1) unfolding rs(3) by (intro exI [of _ "rs # table"]) (simp add: Let_def)
qed

lemma length_mibs_head: "length (mibs_head np) = 37 + 13 * np"
  by (induction np) (simp_all add: mibs_head_def line_feed_def length_pad)

lemma mibs_report_fits:
  assumes "cells_within ops width" "\<forall>i < num_mib_counters smi. length (mib_name (mib_counters smi ! i)) \<le> 36"
    "37 + 13 * num_ports smi + sum_list (map (\<lambda>i. 38 + width i * num_ports smi) [0..<num_mib_counters smi]) < 4096"
  shows "\<exists>table. length table = num_mib_counters smi \<and> list_all (\<lambda>rs. length rs = num_ports smi) table \<and>
    length (mibs_text smi table) < 4096 \<and>
    fst (rtl8366_read_debugfs_mibs smi ops s) = Inr (Some (mibs_text smi table, length (mibs_text smi table)))"
proof -
  let ?c = "pad_right 36 ''Counter''"
  let ?h = "?c @ concat (map (\<lambda>i. '' '' @ pad_left 12 (take 9 (''Port '' @ dec i))) [0..<num_ports smi])"
  have c: "length ?c = 36" by (simp add: length_pad)
  have "buf_printf 4096 ?c (Some ([], 0)) = Some (?c, length ?c)"
    using buf_printf_fits [of "[]" ?c 4096] c by simp
  moreover have "mibs_head_loop [0..<num_ports smi] (Some (?c, length ?c)) = Some (?h, length ?h)"
    using mibs_head_loop_fits [of ?c "[0..<num_ports smi]"] c assms(3) by (simp add: Let_def)
  moreover have h: "?h @ line_feed = mibs_head (num_ports smi)" by (simp add: mibs_head_def)
  then have "length ?h + length line_feed < 4096"
    using length_mibs_head [of "num_ports smi"] assms(3) by (metis add_lessD1 length_append)
  then have "buf_printf 4096 line_feed (Some (?h, length ?h)) = Some (?h @ line_feed, length (?h @ line_feed))"
    by (rule buf_printf_fits)
  ultimately show ?thesis
    using mibs_loop_fits [OF assms(1), of "[0..<num_mib_counters smi]" smi "mibs_head (num_ports smi)" s] assms(2,3)
    unfolding h by (simp add: rtl8366_read_debugfs_mibs_def Let_def mibs_text_def length_mibs_head)
qed

section \<open>The counters of the RTL8366 drivers\<close>

lemma read_mib_words_bits:
  "fst (read_mib_words H smi a n acc s) = Inr v \<Longrightarrow> take_bit k acc = acc \<Longrightarrow> take_bit (k + 16 * n) v = v"
proof (induction n arbitrary: acc s k)
  case 0
  then show ?case by (simp add: retE_def)
next
  case (Suc n)
  have "take_bit (k + 16) (push_bit 16 acc OR ucast ((d :: u32) AND 0xFFFF)) = push_bit 16 acc OR ucast (d AND 0xFFFF)" for d
  proof -
    have m: "(0xFFFF :: u32) = mask 16" by (simp add: mask_eq_exp_minus_1)
    have "take_bit (k + 16) (ucast (d AND 0xFFFF) :: u64) = ucast (d AND 0xFFFF)"
      unfolding m by (rule bit_word_eqI) (auto simp: bit_simps)
    then show ?thesis using Suc.prems(2) by (simp add: take_bit_or take_bit_push_bit)
  qed
  then show ?case
    using Suc.IH [of _ _ "k + 16"] Suc.prems(1) by (auto simp: fst_bindE add.assoc split: sum.splits)
qed

lemma mib_words_cell:
  assumes "n \<le> 2 \<or> w = 21" "13 \<le> w"
  shows "length (mibs_cell (fst (read_mib_words H smi a n 0 s))) \<le> w"
proof (cases "fst (read_mib_words H smi a n 0 s)")
  case (Inl e)
  then show ?thesis using assms(2) by (simp add: mibs_cell_def length_pad)
next
  case (Inr v)
  have "n \<le> 2 \<Longrightarrow> length (dec (unat v)) \<le> 12"
  proof -
    assume n: "n \<le> 2"
    have "take_bit (16 * n) v = v" using read_mib_words_bits [OF Inr, of 0] by simp
    then have "unat v = take_bit (16 * n) (unat v)" by (metis unsigned_take_bit_eq)
    then have "unat v < 2 ^ (16 * n)" by (metis take_bit_nat_less_exp)
    also have "(2::nat) ^ (16 * n) \<le> 2 ^ 32" using n by (intro power_increasing) simp_all
    finally show ?thesis using length_dec [of "unat v" 12] by simp
  qed
  then show ?thesis using assms length_mibs_cell(2) [of "Inr v"] Inr by (auto simp: mibs_cell_def length_pad)
qed

definition rtl8366_cell_width :: "rtl8366_mib_counter list \<Rightarrow> nat \<Rightarrow> nat" where
  "rtl8366_cell_width cs i = (if i < length cs \<and> mib_length (cs ! i) \<le> 2 then 13 else 21)"

lemma cell_error: "length (mibs_cell (Inl e)) = 13"
  by (simp add: mibs_cell_def length_pad)

lemma width_at_least: "13 \<le> rtl8366_cell_width cs i"
  by (simp add: rtl8366_cell_width_def)

lemma counter_cell:
  "length (mibs_cell (fst (bindE m (\<lambda>_. bindE m' (\<lambda>data. if f data then failE e else if g data then failE e'
      else read_mib_words H smi a n 0)) s))) \<le> w"
  if "n \<le> 2 \<or> w = 21" "13 \<le> w"
  using that(2) by (simp add: mib_words_cell [OF that] fst_bindE cell_error failE_def split: sum.splits)

lemma rtl8366_cells_within:
  "cells_within (rtl8366s_smi_ops H smi sd) (rtl8366_cell_width rtl8366s_mib_counters)"
  "cells_within (rtl8366rb_smi_ops H smi sd) (rtl8366_cell_width rtl8366rb_mib_counters)"
proof -
  have n: "i < length cs \<Longrightarrow> mib_length (cs ! i) \<le> 2 \<or> rtl8366_cell_width cs i = 21" for i cs
    by (simp add: rtl8366_cell_width_def)
  show "cells_within (rtl8366s_smi_ops H smi sd) (rtl8366_cell_width rtl8366s_mib_counters)"
    unfolding cells_within_def rtl8366s_smi_ops_def
    by (auto intro!: counter_cell n simp: width_at_least rtl8366s_get_mib_counter_def cell_error failE_def counter_lengths split: option.splits)
  show "cells_within (rtl8366rb_smi_ops H smi sd) (rtl8366_cell_width rtl8366rb_mib_counters)"
    unfolding cells_within_def rtl8366rb_smi_ops_def
    by (auto intro!: counter_cell n simp: width_at_least rtl8366rb_get_mib_counter_def cell_error failE_def counter_lengths Let_def)
qed

section \<open>The table does not fit\<close>

text \<open>At least \<open>n\<close> characters have been counted, or the size has already wrapped around.\<close>

definition counted :: "nat \<Rightarrow> (string \<times> nat) option \<Rightarrow> bool" where
  "counted n b \<longleftrightarrow> (case b of None \<Rightarrow> True | Some (t, len) \<Rightarrow> n \<le> len)"

lemma counted_printf: "counted n b \<Longrightarrow> m \<le> length t \<Longrightarrow> counted (n + m) (buf_printf cap t b)"
  by (auto simp: counted_def buf_printf_def split: option.splits)

lemma counted_row:
  "counted n b \<Longrightarrow> \<exists>b'. fst (mibs_row_loop ops i js b s) = Inr b' \<and> counted (n + 13 * length js) b'"
proof (induction js arbitrary: n b s)
  case (Cons j js)
  from counted_printf [OF Cons.prems length_mibs_cell(1)] show ?case
    using Cons.IH by (fastforce simp: mibs_row_loop_step add.assoc simp del: mibs_row_loop.simps)
qed (simp add: retE_def)

lemma counted_rows:
  "counted n b \<Longrightarrow> \<exists>b'. fst (mibs_loop smi ops is b s) = Inr b' \<and> counted (n + (38 + 13 * num_ports smi) * length is) b'
     \<and> (is \<noteq> [] \<longrightarrow> (\<exists>c. b' = buf_printf 4096 line_feed c))"
proof (induction "is" arbitrary: n b s)
  case (Cons i "is")
  let ?n = "pad_right 36 (mib_name (mib_counters smi ! i)) @ '' ''"
  have "counted (n + 37) (buf_printf 4096 ?n b)" using Cons.prems by (rule counted_printf) (simp add: length_pad)
  from counted_row [OF this, of ops i "[0..<num_ports smi]" s] obtain c where
    c: "fst (mibs_row_loop ops i [0..<num_ports smi] (buf_printf 4096 ?n b) s) = Inr c" "counted (n + 37 + 13 * num_ports smi) c"
    by auto
  let ?c = "buf_printf 4096 line_feed c"
  have "counted (n + 37 + 13 * num_ports smi + 1) ?c" using c(2) by (rule counted_printf) (simp add: line_feed_def)
  from Cons.IH [OF this, of "snd (mibs_row_loop ops i [0..<num_ports smi] (buf_printf 4096 ?n b) s)"] show ?case
    using c(1) by (cases "is") (auto simp: fst_bindE retE_def add_ac)
qed (simp add: retE_def)

lemma mibs_report_overflows:
  assumes "0 < num_mib_counters smi" "4097 < (38 + 13 * num_ports smi) * num_mib_counters smi"
  shows "fst (rtl8366_read_debugfs_mibs smi ops s) = Inr None"
proof -
  let ?b = "buf_printf 4096 line_feed (mibs_head_loop [0..<num_ports smi] (buf_printf 4096 (pad_right 36 ''Counter'') (Some ([], 0))))"
  have "counted 0 ?b" by (simp add: counted_def split: option.splits)
  from counted_rows [OF this, of smi ops "[0..<num_mib_counters smi]" s] assms
  obtain b' c where b': "fst (mibs_loop smi ops [0..<num_mib_counters smi] ?b s) = Inr b'" "counted ((38 + 13 * num_ports smi) * num_mib_counters smi) b'" "b' = buf_printf 4096 line_feed c"
    by auto
  then have "b' = None"
    using assms(2) by (auto simp: counted_def buf_printf_def line_feed_def split: option.splits if_splits)
  then show ?thesis using b'(1) by (simp add: rtl8366_read_debugfs_mibs_def Let_def)
qed

section \<open>The four drivers\<close>

text \<open>
  C19. Reading the debugfs file \<open>mibs\<close>: with the counters and ports of the RTL8366S and the
  RTL8366RB the table is complete and fits the 4096 bytes of the buffer, whatever the counters
  hold; with those of the RTL8367 and the RTL8367B it never fits, whatever the chip answers, and the
  size argument of \<open>snprintf\<close> wraps around.
\<close>
theorem debugfs_mibs_report:
  "(\<exists>table. length table = 33 \<and> list_all (\<lambda>rs. length rs = 6) table \<and>
      length (mibs_text (rtl8366s_smi smi) table) < 4096 \<and>
      fst (rtl8366_read_debugfs_mibs (rtl8366s_smi smi) (rtl8366s_smi_ops H (rtl8366s_smi smi) sd) s) =
        Inr (Some (mibs_text (rtl8366s_smi smi) table, length (mibs_text (rtl8366s_smi smi) table))))
   \<and> (\<exists>table. length table = 33 \<and> list_all (\<lambda>rs. length rs = 6) table \<and>
      length (mibs_text (rtl8366rb_smi smi) table) < 4096 \<and>
      fst (rtl8366_read_debugfs_mibs (rtl8366rb_smi smi) (rtl8366rb_smi_ops H (rtl8366rb_smi smi) sd) s) =
        Inr (Some (mibs_text (rtl8366rb_smi smi) table, length (mibs_text (rtl8366rb_smi smi) table))))
   \<and> fst (rtl8366_read_debugfs_mibs (rtl8367_smi smi) (rtl8367_smi_ops H (rtl8367_smi smi) sd7) s) = Inr None
   \<and> fst (rtl8366_read_debugfs_mibs (rtl8367b_smi cpu smi) (rtl8367b_smi_ops H (rtl8367b_smi cpu smi) sd7) s) = Inr None"
proof -
  have names: "list_all (\<lambda>c. length (mib_name c) \<le> 36) rtl8366s_mib_counters"
    "list_all (\<lambda>c. length (mib_name c) \<le> 36) rtl8366rb_mib_counters"
    by (simp_all add: rtl8366s_mib_counters_def rtl8366rb_mib_counters_def)
  have sums: "sum_list (map (\<lambda>i. 38 + rtl8366_cell_width rtl8366s_mib_counters i * 6) [0..<33]) < 3981"
    "sum_list (map (\<lambda>i. 38 + rtl8366_cell_width rtl8366rb_mib_counters i * 6) [0..<33]) < 3981"
    by (simp_all add: rtl8366_cell_width_def rtl8366s_mib_counters_def rtl8366rb_mib_counters_def upt_rec)
  note fits = mibs_report_fits [OF rtl8366_cells_within(1), of "rtl8366s_smi smi" H "rtl8366s_smi smi" sd s]
    mibs_report_fits [OF rtl8366_cells_within(2), of "rtl8366rb_smi smi" H "rtl8366rb_smi smi" sd s]
  show ?thesis
    using fits names sums
    by (intro conjI mibs_report_overflows)
      (simp_all add: rtl8366s_smi_def rtl8366rb_smi_def rtl8367_smi_def rtl8367b_smi_def list_all_length counter_lengths
        rtl8367_mib_counters_def rtl8367b_mib_counters_def)
qed

end
