(* ===== verification/Attribute_Properties.thy ===== *)
theory Attribute_Properties
  imports Request_Properties Rtl8367 Rtl8367b
begin

text \<open>
  The attribute tables of the four drivers and of the configuration layer against what the
  layer can encode and decode.
\<close>

text \<open>
  An attribute that can be read has a type that a reply can carry, one that can be set a type that a
  request can carry, and it has a name and a description that fit a list message of 200 bytes.
\<close>

definition attr_typed :: "'s switch_attr \<Rightarrow> bool" where
  "attr_typed a \<longleftrightarrow>
     (attr_get a \<noteq> None \<longrightarrow> value_toks (attr_type (attr_info a)) zero_val \<noteq> None)
     \<and> (attr_set a \<noteq> None \<longrightarrow> attr_type (attr_info a) \<noteq> SWITCH_TYPE_UNSPEC)
     \<and> (attr_get a \<noteq> None \<or> attr_set a \<noteq> None)
     \<and> attr_name (attr_info a) \<noteq> [] \<and> attr_description (attr_info a) \<noteq> []
     \<and> msg_size (attr_toks (0, attr_info a)) \<le> 200"

definition table_typed :: "'s switch_attr list \<Rightarrow> bool" where
  "table_typed as \<longleftrightarrow> list_all attr_typed as \<and> distinct (map (attr_name \<circ> attr_info) as) \<and> length as \<le> 0x1000"

definition ops_typed :: "'s switch_dev_ops \<Rightarrow> bool" where
  "ops_typed ops \<longleftrightarrow> table_typed (attr_global ops) \<and> table_typed (attr_port ops) \<and> table_typed (attr_vlan ops)"

lemmas typed_defs = ops_typed_def table_typed_def attr_typed_def value_toks_def attr_toks_def attr_body_toks_def mk_attr_def

lemma rtl8366s_typed: "ops_typed (rtl8366s_ops H smi sd uninit)"
  by (simp add: typed_defs rtl8366s_ops_def rtl8366s_globals_def rtl8366s_port_def rtl8366s_vlan_def Let_def)

lemma rtl8366rb_typed: "ops_typed (rtl8366rb_ops H smi sd uninit)"
  by (simp add: typed_defs rtl8366rb_ops_def rtl8366rb_globals_def rtl8366rb_port_def rtl8366rb_vlan_def Let_def)

lemma rtl8367_typed: "ops_typed (rtl8367_sw_ops H smi sd uninit)"
  by (simp add: typed_defs rtl8367_sw_ops_def rtl8367_globals_def rtl8367_port_def rtl8367_vlan_def Let_def)

lemma rtl8367b_typed: "ops_typed (rtl8367b_sw_ops H smi sd uninit)"
  by (simp add: typed_defs rtl8367b_sw_ops_def rtl8367b_globals_def rtl8367b_port_def rtl8367b_vlan_def Let_def)

lemma defaults_typed: "table_typed (default_global dev)" "table_typed (default_port dev)" "table_typed (default_vlan dev)"
  by (simp_all add: typed_defs default_global_def default_port_def default_vlan_def)

text \<open>
  The attribute tables of the four drivers and the default attributes are well typed:
  what can be read has a type that a reply carries, what can be set has a type that a request
  carries, every attribute can be read or set, names and descriptions are present, a table has no name
  twice, no table reaches the numbers of the defaults, and every entry of a list fits a message of 200 bytes.
\<close>
theorem attribute_tables_typed:
  "ops_typed (rtl8366s_ops H smi sd uninit) \<and> ops_typed (rtl8366rb_ops H smi sd uninit)
   \<and> ops_typed (rtl8367_sw_ops H smi sd7 uninit) \<and> ops_typed (rtl8367b_sw_ops H smi sd7 uninit)
   \<and> table_typed (default_global dev) \<and> table_typed (default_port dev) \<and> table_typed (default_vlan dev)"
  by (intro conjI rtl8366s_typed rtl8366rb_typed rtl8367_typed rtl8367b_typed defaults_typed)

text \<open>So a list request on these tables always succeeds over a library that delivers messages of 200 bytes.\<close>

lemma typed_entry_size:
  assumes "table_typed as" "i < length as"
  shows "msg_size (attr_toks (n, attr_info (as ! i))) \<le> 200"
proof -
  have "msg_size (attr_toks (n, a)) = msg_size (attr_toks (0, a))" for a by (simp add: attr_toks_def attr_body_toks_def)
  then show ?thesis using assms by (simp add: table_typed_def attr_typed_def list_all_length)
qed

lemma typed_list_sent:
  assumes "table_typed alist" "table_typed defs" "netlink_laws N toks mark cap"
    and "\<forall>k. \<exists>m. nlmsg_new N k = Some m \<and> 200 \<le> cap m" "\<forall>m. nl_reply N m = None"
  shows "fst (list_attrs_reply N (dump_list alist defs act)) = Inr ()
    \<and> list_parts toks (snd (list_attrs_reply N (dump_list alist defs act))) (dump_list alist defs act)"
proof (rule list_attrs_reply_ok [OF assms(3)])
  have "msg_size (attr_toks e) \<le> 200" if "e \<in> set (dump_list alist defs act)" for e
    using that typed_entry_size [OF assms(1)] typed_entry_size [OF assms(2)] by (auto simp: dump_list_def)
  then show "netlink_ok N cap (dump_list alist defs act)"
    using assms(4,5) unfolding netlink_ok_def by (meson order_trans)
qed

section \<open>Commands\<close>

text \<open>
  Each command has one handler, which knows it: the default branches of \<open>swconfig_list_attrs\<close>
  and \<open>swconfig_lookup_attr\<close> are never reached, and exactly the set requests need the capability.
\<close>

lemma commands_dispatched:
  assumes "(cmd, admin, h) \<in> set swconfig_ops" "swconfig_get_dev devs info = Some dev" "info_cmd info = cmd"
    "attr_OP_ID info = Some n" "attr_OP_PORT info = Some p" "p < dev_ports dev" "attr_OP_VLAN info = Some vid" "vid < dev_vlans dev"
  shows "admin \<longleftrightarrow> h = Set_attr"
    "h = List_attrs \<Longrightarrow> \<exists>alist defs act. (alist, defs, act) \<in> {(attr_global (dev_ops dev), default_global dev, def_global dev),
       (attr_port (dev_ops dev), default_port dev, def_port dev), (attr_vlan (dev_ops dev), default_vlan dev, def_vlan dev)}
       \<and> swconfig_list_attrs N devs info = list_attrs_reply N (dump_list alist defs act)"
    "h = Get_attr \<or> h = Set_attr \<Longrightarrow> \<exists>alist defs act.
       (alist, defs, act) \<in> {(attr_global (dev_ops dev), default_global dev, def_global dev),
         (attr_port (dev_ops dev), default_port dev, def_port dev), (attr_vlan (dev_ops dev), default_vlan dev, def_vlan dev)}
       \<and> fst (swconfig_lookup_attr dev info v) = pick_attr alist defs act (unat n)"
  using assms by (auto simp: swconfig_ops_def swconfig_list_attrs_def swconfig_lookup_attr_def Let_def)

lemma commands_unique: "distinct (map fst swconfig_ops)"
  by (simp add: swconfig_ops_def)

end
