(* ===== verification/Mii_Bus.thy ===== *)
theory Mii_Bus
  imports Switch_Types
begin

text \<open>
  The MII bus that the drivers of PHY-attached switches use: \<open>bus->read\<close> and \<open>bus->write\<close> with a
  PHY address and a register number. The bus is a parameter; \<open>mii_registers\<close> is the behaviour that
  claims about a chip rely on.
\<close>

record 'h mii_bus =
  bus_read :: "nat \<Rightarrow> nat \<Rightarrow> 'h \<Rightarrow> u16 \<times> 'h"
  bus_write :: "nat \<Rightarrow> nat \<Rightarrow> u16 \<Rightarrow> 'h \<Rightarrow> 'h"

text \<open>Every register holds what was written last, and reading changes nothing.\<close>

definition mii_registers :: "'h mii_bus \<Rightarrow> ('h \<Rightarrow> nat \<times> nat \<Rightarrow> u16) \<Rightarrow> bool" where
  "mii_registers B regs \<longleftrightarrow>
     (\<forall>phy reg h. fst (bus_read B phy reg h) = regs h (phy, reg) \<and> regs (snd (bus_read B phy reg h)) = regs h)
     \<and> (\<forall>phy reg v h. regs (bus_write B phy reg v h) = (regs h)((phy, reg) := v))"

lemma mii_registersD:
  assumes "mii_registers B regs"
  shows "fst (bus_read B phy reg h) = regs h (phy, reg)" "regs (snd (bus_read B phy reg h)) = regs h"
    "regs (bus_write B phy reg v h) = (regs h)((phy, reg) := v)"
  using assms by (simp_all add: mii_registers_def)

text \<open>A bus of registers, for the concrete instances.\<close>

definition ref_mii_bus :: "(nat \<times> nat \<Rightarrow> u16) mii_bus" where
  "ref_mii_bus = \<lparr>bus_read = (\<lambda>phy reg h. (h (phy, reg), h)), bus_write = (\<lambda>phy reg v h. h((phy, reg) := v))\<rparr>"

lemma ref_mii_registers: "mii_registers ref_mii_bus (\<lambda>h. h)"
  by (simp add: mii_registers_def ref_mii_bus_def)

end
