(* ===== verification/Psb6970.thy ===== *)
theory Psb6970
  imports Mii_Bus Swconfig
begin

text \<open>
  The driver \<open>psb6970.c\<close>. The driver keeps the VLAN configuration in tables and writes them to the
  chip when a configuration is applied. Indices that the code does not check are checked here: an
  access outside a table is \<open>BUF_OVERRUN\<close>. The register mutex only serialises the two functions
  that take it.
\<close>

section \<open>Registers\<close>

abbreviation (input) PSB6970_MAX_VLANS :: nat where "PSB6970_MAX_VLANS \<equiv> 16"
abbreviation (input) PSB6970_NUM_PORTS :: nat where "PSB6970_NUM_PORTS \<equiv> 7"
abbreviation (input) PSB6970_DEFAULT_PORT_CPU :: nat where "PSB6970_DEFAULT_PORT_CPU \<equiv> 6"
definition PSB6970_IS_CPU_PORT :: "nat \<Rightarrow> bool" where "PSB6970_IS_CPU_PORT x \<longleftrightarrow> x > 4"

abbreviation (input) PSB6970_CI0 :: nat where "PSB6970_CI0 \<equiv> 0x0100"
abbreviation (input) PSB6970_CI0_MASK :: u16 where "PSB6970_CI0_MASK \<equiv> 0x000F"
abbreviation (input) PSB6970_CI1 :: nat where "PSB6970_CI1 \<equiv> 0x0101"
abbreviation (input) PSB6970_CI1_VAL :: u16 where "PSB6970_CI1_VAL \<equiv> 0x2599"
abbreviation (input) PSB6970_CI1_MASK :: u16 where "PSB6970_CI1_MASK \<equiv> 0xFFFF"

definition PSB6970_VFxL :: "nat \<Rightarrow> nat" where "PSB6970_VFxL i = i * 2 + 0x10"
abbreviation (input) PSB6970_VFxL_VV :: u16 where "PSB6970_VFxL_VV \<equiv> 0x8000"
definition PSB6970_VFxH :: "nat \<Rightarrow> nat" where "PSB6970_VFxH i = i * 2 + 0x11"
abbreviation (input) PSB6970_VFxH_TM_SHIFT :: nat where "PSB6970_VFxH_TM_SHIFT \<equiv> 7"
definition PSB6970_EC :: "nat \<Rightarrow> nat" where "PSB6970_EC p = p * 0x20 + 2"
abbreviation (input) PSB6970_EC_IFNTE :: u16 where "PSB6970_EC_IFNTE \<equiv> 0x2"
definition PSB6970_PBVM :: "nat \<Rightarrow> nat" where "PSB6970_PBVM p = p * 0x20 + 3"
abbreviation (input) PSB6970_PBVM_VMCE :: u16 where "PSB6970_PBVM_VMCE \<equiv> 0x100"
abbreviation (input) PSB6970_PBVM_AOVTP :: u16 where "PSB6970_PBVM_AOVTP \<equiv> 0x200"
abbreviation (input) PSB6970_PBVM_VSD :: u16 where "PSB6970_PBVM_VSD \<equiv> 0x400"
abbreviation (input) PSB6970_PBVM_VC :: u16 where "PSB6970_PBVM_VC \<equiv> 0x800"
abbreviation (input) PSB6970_PBVM_TBVE :: u16 where "PSB6970_PBVM_TBVE \<equiv> 0x2000"
definition PSB6970_DVID :: "nat \<Rightarrow> nat" where "PSB6970_DVID p = p * 0x20 + 4"

definition PHYADDR :: "nat \<Rightarrow> nat \<times> nat" where
  "PHYADDR reg = ((reg div 32) mod 256, reg mod 32)"

section \<open>State\<close>

record 'h psb6970_priv =
  psb_vlan :: bool
  psb_vlan_id :: "u16 list"
  psb_vlan_table :: "u8 list"
  psb_vlan_tagged :: u8
  psb_pvid :: "u16 list"
  psb_hw :: 'h

definition psb6970_mii_read :: "'h mii_bus \<Rightarrow> nat \<Rightarrow> 'h \<Rightarrow> u16 \<times> 'h" where
  "psb6970_mii_read B reg = bus_read B (fst (PHYADDR reg)) (snd (PHYADDR reg))"

definition psb6970_mii_write :: "'h mii_bus \<Rightarrow> nat \<Rightarrow> u16 \<Rightarrow> 'h \<Rightarrow> 'h" where
  "psb6970_mii_write B reg val = bus_write B (fst (PHYADDR reg)) (snd (PHYADDR reg)) val"

definition psb_write :: "'h mii_bus \<Rightarrow> nat \<Rightarrow> u16 \<Rightarrow> ('h psb6970_priv, unit) io" where
  "psb_write B reg val s = (Inr (), s\<lparr>psb_hw := psb6970_mii_write B reg val (psb_hw s)\<rparr>)"

definition bit8 :: "nat \<Rightarrow> u8" where
  "bit8 i = push_bit i 1"

section \<open>Attributes\<close>

definition psb6970_set_vlan :: "switch_attr_info \<Rightarrow> switch_val \<Rightarrow> ('h psb6970_priv, unit) io" where
  "psb6970_set_vlan attr v s = (Inr (), s\<lparr>psb_vlan := val_i v \<noteq> 0\<rparr>)"

definition psb6970_get_vlan :: "switch_attr_info \<Rightarrow> switch_val \<Rightarrow> ('h psb6970_priv, switch_val) io" where
  "psb6970_get_vlan attr v s = (Inr (v\<lparr>val_i := (if psb_vlan s then 1 else 0)\<rparr>), s)"

definition psb6970_set_pvid :: "nat \<Rightarrow> u32 \<Rightarrow> ('h psb6970_priv, unit) io" where
  "psb6970_set_pvid port vlan s =
    (if unat vlan \<ge> PSB6970_MAX_VLANS then (Inl EINVAL, s)
     else if port \<ge> PSB6970_NUM_PORTS then (Inl BUF_OVERRUN, s)
     else (Inr (), s\<lparr>psb_pvid := (psb_pvid s)[port := ucast vlan]\<rparr>))"

definition psb6970_get_pvid :: "nat \<Rightarrow> ('h psb6970_priv, u32) io" where
  "psb6970_get_pvid port s =
    (if port \<ge> PSB6970_NUM_PORTS then (Inl BUF_OVERRUN, s) else (Inr (ucast (psb_pvid s ! port)), s))"

definition psb6970_set_vid :: "switch_attr_info \<Rightarrow> switch_val \<Rightarrow> ('h psb6970_priv, unit) io" where
  "psb6970_set_vid attr v s =
    (if unat (port_vlan v) \<ge> PSB6970_MAX_VLANS then (Inl BUF_OVERRUN, s)
     else (Inr (), s\<lparr>psb_vlan_id := (psb_vlan_id s)[unat (port_vlan v) := ucast (val_i v)]\<rparr>))"

definition psb6970_get_vid :: "switch_attr_info \<Rightarrow> switch_val \<Rightarrow> ('h psb6970_priv, switch_val) io" where
  "psb6970_get_vid attr v s =
    (if unat (port_vlan v) \<ge> PSB6970_MAX_VLANS then (Inl BUF_OVERRUN, s)
     else (Inr (v\<lparr>val_i := ucast (psb_vlan_id s ! unat (port_vlan v))\<rparr>), s))"

definition psb6970_globals :: "('h psb6970_priv) switch_attr list" where
  "psb6970_globals = [
    mk_attr SWITCH_TYPE_INT ''enable_vlan'' ''Enable VLAN mode'' 1 0
      (Some psb6970_set_vlan) (Some psb6970_get_vlan)]"

definition psb6970_port :: "('h psb6970_priv) switch_attr list" where
  "psb6970_port = []"

definition psb6970_vlan :: "('h psb6970_priv) switch_attr list" where
  "psb6970_vlan = [
    mk_attr SWITCH_TYPE_INT ''vid'' ''VLAN ID (0-4094)'' 4094 0
      (Some psb6970_set_vid) (Some psb6970_get_vid)]"

section \<open>Ports of a VLAN\<close>

primrec get_ports_loop :: "u8 \<Rightarrow> u8 \<Rightarrow> nat list \<Rightarrow> switch_port list" where
  "get_ports_loop ports tagged [] = []"
| "get_ports_loop ports tagged (i # is) =
    (if ports AND bit8 i = 0 then get_ports_loop ports tagged is
     else \<lparr>port_id = of_nat i,
            port_flags = (if tagged AND bit8 i \<noteq> 0 then BIT SWITCH_PORT_FLAG_TAGGED else 0)\<rparr>
          # get_ports_loop ports tagged is)"

definition psb6970_get_ports :: "switch_val \<Rightarrow> ('h psb6970_priv, switch_val) io" where
  "psb6970_get_ports v s =
    (if unat (port_vlan v) \<ge> PSB6970_MAX_VLANS then (Inl BUF_OVERRUN, s)
     else let ps = get_ports_loop (psb_vlan_table s ! unat (port_vlan v)) (psb_vlan_tagged s) [0..<PSB6970_NUM_PORTS]
          in (Inr (v\<lparr>val_ports := ps, val_len := length ps\<rparr>), s))"

text \<open>
  One entry of the list: flags, PVID and membership. The port number is not checked: an untagged
  entry writes the PVID of the port, a tagged one only shifts by the number, which is undefined
  from 32 on.
\<close>

definition set_port_entry :: "nat \<Rightarrow> switch_port \<Rightarrow> ('h psb6970_priv, unit) io" where
  "set_port_entry vlan p s =
    (let i = unat (port_id p);
         tag = port_flags p AND BIT SWITCH_PORT_FLAG_TAGGED \<noteq> 0
     in if i \<ge> (if tag then 32 else PSB6970_NUM_PORTS) then (Inl BUF_OVERRUN, s)
        else let s = (if tag then s\<lparr>psb_vlan_tagged := psb_vlan_tagged s OR bit8 i\<rparr>
                      else s\<lparr>psb_vlan_tagged := psb_vlan_tagged s AND NOT (bit8 i),
                             psb_pvid := (psb_pvid s)[i := of_nat vlan],
                             psb_vlan_table := map (\<lambda>j. if j = vlan then psb_vlan_table s ! j
                               else psb_vlan_table s ! j AND NOT (bit8 i)) [0..<PSB6970_MAX_VLANS]\<rparr>)
             in (Inr (), s\<lparr>psb_vlan_table := (psb_vlan_table s)[vlan := psb_vlan_table s ! vlan OR bit8 i]\<rparr>))"

primrec set_ports_loop :: "nat \<Rightarrow> switch_port list \<Rightarrow> ('h psb6970_priv, unit) io" where
  "set_ports_loop vlan [] = retE ()"
| "set_ports_loop vlan (p # ps) = bindE (set_port_entry vlan p) (\<lambda>_. set_ports_loop vlan ps)"

definition psb6970_set_ports :: "switch_val \<Rightarrow> ('h psb6970_priv, unit) io" where
  "psb6970_set_ports v s =
    (let vlan = unat (port_vlan v) in
     if vlan \<ge> PSB6970_MAX_VLANS then (Inl BUF_OVERRUN, s)
     else set_ports_loop vlan (take (val_len v) (val_ports v))
            (s\<lparr>psb_vlan_table := (psb_vlan_table s)[vlan := 0]\<rparr>))"

section \<open>Applying the tables\<close>

definition apply_vlan :: "'h mii_bus \<Rightarrow> nat \<Rightarrow> ('h psb6970_priv, unit) io" where
  "apply_vlan B j s =
    (let vp = psb_vlan_table s ! j in
     if vp \<noteq> 0 then
       bindE (psb_write B (PSB6970_VFxL j) (PSB6970_VFxL_VV OR psb_vlan_id s ! j)) (\<lambda>_.
       psb_write B (PSB6970_VFxH j)
         (push_bit PSB6970_VFxH_TM_SHIFT (ucast (vp AND psb_vlan_tagged s)) OR ucast vp)) s
     else psb_write B (PSB6970_VFxL j) 0 s)"

definition port_pbvm :: "bool \<Rightarrow> u8 \<Rightarrow> nat \<Rightarrow> u16" where
  "port_pbvm vlan tagged i =
    (if vlan then
       let pbvm = 0x7F OR PSB6970_PBVM_VSD OR (PSB6970_PBVM_TBVE OR PSB6970_PBVM_VMCE)
       in if of_nat (2 * i) AND tagged \<noteq> 0 then pbvm OR (PSB6970_PBVM_AOVTP OR PSB6970_PBVM_VC) else pbvm
     else 0x7F OR PSB6970_PBVM_VSD)"

definition apply_port :: "'h mii_bus \<Rightarrow> nat \<Rightarrow> ('h psb6970_priv, unit) io" where
  "apply_port B i s =
    (let ec = (if psb_vlan s then PSB6970_EC_IFNTE else 0);
         pv = unat (psb_pvid s ! i);
         dvid = (if psb_vlan s then psb_vlan_id s ! pv else 1)
     in if psb_vlan s \<and> pv \<ge> PSB6970_MAX_VLANS then (Inl BUF_OVERRUN, s)
        else bindE (psb_write B (PSB6970_PBVM i) (port_pbvm (psb_vlan s) (psb_vlan_tagged s) i)) (\<lambda>_.
             if PSB6970_IS_CPU_PORT i then retE ()
             else bindE (psb_write B (PSB6970_EC i) ec) (\<lambda>_. psb_write B (PSB6970_DVID i) dvid)) s)"

definition psb6970_hw_apply :: "'h mii_bus \<Rightarrow> ('h psb6970_priv, unit) io" where
  "psb6970_hw_apply B =
    bindE (\<lambda>s. if psb_vlan s then forE [0..<PSB6970_MAX_VLANS] (apply_vlan B) s else (Inr (), s)) (\<lambda>_.
    forE [0..<PSB6970_NUM_PORTS] (apply_port B))"

definition psb6970_reset_switch :: "'h mii_bus \<Rightarrow> ('h psb6970_priv, unit) io" where
  "psb6970_reset_switch B s =
    psb6970_hw_apply B (s\<lparr>psb_vlan := False, psb_vlan_id := map of_nat [0..<PSB6970_MAX_VLANS],
      psb_vlan_table := replicate PSB6970_MAX_VLANS 0, psb_vlan_tagged := 0,
      psb_pvid := replicate PSB6970_NUM_PORTS 0\<rparr>)"

definition psb6970_ops :: "'h mii_bus \<Rightarrow> ('h psb6970_priv) switch_dev_ops" where
  "psb6970_ops B = \<lparr>attr_global = psb6970_globals, attr_port = psb6970_port, attr_vlan = psb6970_vlan,
     get_vlan_ports = Some psb6970_get_ports, set_vlan_ports = Some psb6970_set_ports,
     get_port_pvid = Some psb6970_get_pvid, set_port_pvid = Some psb6970_set_pvid,
     apply_config = Some (psb6970_hw_apply B), reset_switch = Some (psb6970_reset_switch B),
     get_port_link = None, set_port_link = None, get_port_stats = None,
     phy_read16 = None, phy_write16 = None\<rparr>"

section \<open>Life cycle\<close>

text \<open>
  The PHY device that the switch is attached to, with the kernel state that its functions change:
  the private data behind \<open>pdev->priv\<close> with the id of its switch, the registered switches, the
  number of allocated blocks. \<open>phy_hw\<close> is the chip while no private data holds it. The mutex, the printed line and \<open>phydev->adjust_link\<close> of the attached network device are
  left out.
\<close>

datatype 'h priv_ptr = NoPriv | LivePriv "'h psb6970_priv" u32 | FreedPriv u32

record 'h phy_world =
  phy_addr :: nat
  phy_ident :: u32
  phy_priv :: "'h priv_ptr"
  phy_supported :: "string list"
  phy_advertising :: "string list"
  phy_speed :: nat
  phy_full_duplex :: bool
  phy_link :: bool
  phy_running :: bool
  phy_blocks :: nat
  phy_switches :: "('h psb6970_priv) registry"
  phy_hw :: 'h

definition psb6970_zero_priv :: "'h \<Rightarrow> 'h psb6970_priv" where
  "psb6970_zero_priv h = \<lparr>psb_vlan = False, psb_vlan_id = replicate PSB6970_MAX_VLANS 0,
     psb_vlan_table = replicate PSB6970_MAX_VLANS 0, psb_vlan_tagged = 0,
     psb_pvid = replicate PSB6970_NUM_PORTS 0, psb_hw = h\<rparr>"

definition psb6970_sw_dev :: "'h mii_bus \<Rightarrow> string \<Rightarrow> ('h psb6970_priv) switch_dev" where
  "psb6970_sw_dev B parent = \<lparr>dev_ops = psb6970_ops B, devname = [], dev_name = ''Lantiq PSB6970'',
     dev_alias = parent, dev_ports = of_nat PSB6970_NUM_PORTS, dev_vlans = of_nat PSB6970_MAX_VLANS,
     dev_cpu_port = of_nat PSB6970_DEFAULT_PORT_CPU, dev_id = 0, def_global = 0, def_port = 0,
     def_vlan = 0, portmap = []\<rparr>"

text \<open>
  \<open>kz\<close>, \<open>a1\<close> and \<open>a2\<close> tell whether the allocation of the private data and those
  of \<open>register_switch\<close> succeed.
\<close>

definition psb6970_config_init ::
  "'h mii_bus \<Rightarrow> nat \<Rightarrow> bool \<Rightarrow> bool \<Rightarrow> bool \<Rightarrow> errno option \<Rightarrow> of_port list \<Rightarrow> string \<Rightarrow> ('h phy_world, unit) io" where
  "psb6970_config_init B mx kz a1 a2 led nodes parent w =
    (if \<not> kz then (Inl ENOMEM, w)
     else if phy_addr w \<noteq> 0 then (Inr (), w)
     else let w = w\<lparr>phy_blocks := phy_blocks w + 1, phy_supported := [''100baseT_Full''],
                     phy_advertising := [''100baseT_Full'']\<rparr>
          in case register_switch mx a1 a2 led nodes (psb6970_sw_dev B parent) (phy_switches w) of
               (Inl e, r) \<Rightarrow> (Inl e, w\<lparr>phy_priv := FreedPriv 0, phy_blocks := phy_blocks w - 1, phy_switches := r\<rparr>)
             | (Inr dev, r) \<Rightarrow>
                 (case psb6970_reset_switch B (psb6970_zero_priv (phy_hw w)) of
                    (Inl e, s) \<Rightarrow> (Inl e, w\<lparr>phy_priv := FreedPriv (dev_id dev), phy_blocks := phy_blocks w - 1,
                                         phy_switches := r, phy_hw := psb_hw s\<rparr>)
                  | (Inr _, s) \<Rightarrow> (Inr (), w\<lparr>phy_priv := LivePriv s (dev_id dev), phy_switches := r, phy_hw := psb_hw s\<rparr>)))"

definition psb6970_read_status :: "('h phy_world, unit) io" where
  "psb6970_read_status w = (Inr (), w\<lparr>phy_speed := 100, phy_full_duplex := True, phy_link := True, phy_running := True\<rparr>)"

definition psb6970_config_aneg :: "('h phy_world, unit) io" where
  "psb6970_config_aneg = retE ()"

definition psb6970_probe :: "('h phy_world, unit) io" where
  "psb6970_probe = retE ()"

definition psb6970_remove :: "('h phy_world, unit) io" where
  "psb6970_remove w =
    (case phy_priv w of
       NoPriv \<Rightarrow> (Inr (), w)
     | FreedPriv n \<Rightarrow> (Inl (if phy_addr w = 0 then USE_AFTER_FREE else DOUBLE_FREE), w)
     | LivePriv s n \<Rightarrow>
         (let w = (if phy_addr w = 0 then w\<lparr>phy_switches := unregister_switch n (phy_switches w)\<rparr> else w)
          in (Inr (), w\<lparr>phy_priv := FreedPriv n, phy_blocks := phy_blocks w - 1, phy_hw := psb_hw s\<rparr>)))"

definition psb6970_fixup :: "'h mii_bus \<Rightarrow> ('h phy_world, unit) io" where
  "psb6970_fixup B w =
    (let (v, h) = psb6970_mii_read B PSB6970_CI1 (phy_hw w);
         reg = v AND PSB6970_CI1_MASK
     in if reg \<noteq> PSB6970_CI1_VAL then (Inr (), w\<lparr>phy_hw := h\<rparr>)
        else let (v0, h) = psb6970_mii_read B PSB6970_CI0 h
             in (Inr (), w\<lparr>phy_ident := push_bit 16 (ucast reg) OR ucast (v0 AND PSB6970_CI0_MASK), phy_hw := h\<rparr>))"

text \<open>The identifier that the table \<open>psb6970_driver\<close> announces to the PHY layer.\<close>

definition psb6970_phy_id :: u32 where "psb6970_phy_id = push_bit 16 (ucast PSB6970_CI1_VAL)"
definition psb6970_phy_id_mask :: u32 where "psb6970_phy_id_mask = 0xFFFF0000"

end
