(* ===== verification/Switch_Client.thy ===== *)
theory Switch_Client
  imports Swconfig_Properties
begin

text \<open>
  What the configuration layer guarantees to a driver, as an interface: the handlers of a driver
  are reached only with the attribute they belong to and with port and VLAN numbers in the range of
  the switch (0 for a global attribute). A driver that keeps an
  invariant and stays inside its tables under these conditions does so under every sequence of
  requests.
\<close>

text \<open>The results of an access outside a table and of a failed \<open>BUG_ON\<close>.\<close>

definition crashed :: "errno + 'a \<Rightarrow> bool" where
  "crashed r \<longleftrightarrow> r = Inl BUF_OVERRUN \<or> r = Inl KERNEL_BUG"

lemma crashed_simps [simp]:
  "\<not> crashed (Inr x)" "crashed (Inl e) \<longleftrightarrow> e = BUF_OVERRUN \<or> e = KERNEL_BUG"
  by (simp_all add: crashed_def)

definition safe :: "('s \<Rightarrow> bool) \<Rightarrow> ('s, 'a) io \<Rightarrow> bool" where
  "safe I m \<longleftrightarrow> (\<forall>s. I s \<longrightarrow> I (snd (m s)) \<and> \<not> crashed (fst (m s)))"

named_theorems safe_intros "safety rules for the combinators and operations"

lemma safeD: "safe I m \<Longrightarrow> I s \<Longrightarrow> I (snd (m s)) \<and> \<not> crashed (fst (m s))"
  by (simp add: safe_def)

lemma safeI: "(\<And>s. I s \<Longrightarrow> I (snd (m s)) \<and> \<not> crashed (fst (m s))) \<Longrightarrow> safe I m"
  by (simp add: safe_def)

lemma safe_retE [safe_intros]: "safe I (retE x)"
  by (simp add: safe_def)

lemma safe_failE [safe_intros]: "e \<noteq> BUF_OVERRUN \<Longrightarrow> e \<noteq> KERNEL_BUG \<Longrightarrow> safe I (failE e)"
  by (simp add: safe_def)

lemma safe_bindE [safe_intros]: "safe I m \<Longrightarrow> (\<And>x. safe I (f x)) \<Longrightarrow> safe I (bindE m f)"
  by (auto simp: safe_def fst_bindE snd_bindE split: sum.splits)

lemma safe_ignoreE [safe_intros]: "safe I m \<Longrightarrow> safe I (ignoreE m)"
  by (simp add: safe_def)

lemma safe_forE [safe_intros]: "(\<And>i. i \<in> set is \<Longrightarrow> safe I (f i)) \<Longrightarrow> safe I (forE is f)"
  by (induction "is") (auto intro: safe_intros)

lemma set_attr_value_no_overrun:
  "set_attr_value dev info ty v \<noteq> Inl BUF_OVERRUN" "set_attr_value dev info ty v \<noteq> Inl KERNEL_BUG"
proof -
  have "parse_ports_loop mx nlas ps \<noteq> Inl BUF_OVERRUN \<and> parse_ports_loop mx nlas ps \<noteq> Inl KERNEL_BUG" for mx nlas ps
    by (induction nlas arbitrary: ps) (auto split: option.split)
  then show "set_attr_value dev info ty v \<noteq> Inl BUF_OVERRUN" "set_attr_value dev info ty v \<noteq> Inl KERNEL_BUG"
    by (auto simp: set_attr_value_def swconfig_parse_ports_def swconfig_parse_link_def
        split: switch_val_type.splits option.splits sum.splits)
qed

lemma set_attr_value_port_vlan:
  "set_attr_value dev info ty v = Inr v' \<Longrightarrow> port_vlan v' = port_vlan v"
  by (auto simp: set_attr_value_def swconfig_parse_ports_def swconfig_parse_link_def
      split: switch_val_type.splits option.splits sum.splits)

text \<open>The attributes that \<open>pick_attr\<close> finds are entries of one of the two tables.\<close>

lemma pick_attr_mem:
  "pick_attr alist def_list act op = Some a \<Longrightarrow> a \<in> set alist \<or> a \<in> set def_list"
  by (auto simp: pick_attr_def Let_def split: if_splits option.splits)

section \<open>Sequences of requests\<close>

inductive request_reachable :: "'s switch_dev list \<Rightarrow> 's \<Rightarrow> 's \<Rightarrow> bool" for devs s0 where
  start: "request_reachable devs s0 s0"
| request: "request_reachable devs s0 s \<Longrightarrow>
    request_reachable devs s0 (snd (swconfig_set_attr devs cap info s))"

section \<open>The interface\<close>

locale guarded_driver =
  fixes dev :: "'s switch_dev" and I :: "'s \<Rightarrow> bool"
  assumes global_safe: "a \<in> set (attr_global (dev_ops dev)) \<Longrightarrow> attr_set a = Some f \<Longrightarrow>
      port_vlan v = 0 \<Longrightarrow> safe I (f (attr_info a) v)"
    and port_safe: "a \<in> set (attr_port (dev_ops dev)) \<Longrightarrow> attr_set a = Some f \<Longrightarrow>
      port_vlan v < dev_ports dev \<Longrightarrow> safe I (f (attr_info a) v)"
    and vlan_safe: "a \<in> set (attr_vlan (dev_ops dev)) \<Longrightarrow> attr_set a = Some f \<Longrightarrow>
      port_vlan v < dev_vlans dev \<Longrightarrow> safe I (f (attr_info a) v)"
    and ports_safe: "set_vlan_ports (dev_ops dev) = Some g \<Longrightarrow> port_vlan v < dev_vlans dev \<Longrightarrow>
      val_len v \<le> unat (dev_ports dev) \<Longrightarrow>
      (\<forall>p \<in> set (take (val_len v) (val_ports v)). port_id p < dev_ports dev) \<Longrightarrow> safe I (g v)"
    and pvid_safe: "set_port_pvid (dev_ops dev) = Some h \<Longrightarrow> p < unat (dev_ports dev) \<Longrightarrow> safe I (h p vid)"
    and link_safe: "set_port_link (dev_ops dev) = Some k \<Longrightarrow> p < unat (dev_ports dev) \<Longrightarrow> safe I (k p l)"
    and apply_safe: "apply_config (dev_ops dev) = Some m \<Longrightarrow> safe I m"
    and reset_safe: "reset_switch (dev_ops dev) = Some m \<Longrightarrow> safe I m"
begin

lemma set_untagged_pvids_safe: "safe I (set_untagged_pvids dev vid ps)"
proof (induction ps)
  case (Cons p ps)
  have "safe I (h (unat (port_id p)) vid)"
    if "set_port_pvid (dev_ops dev) = Some h" "\<not> port_id p \<ge> dev_ports dev" for h
    using pvid_safe [OF that(1), of "unat (port_id p)" vid] that(2)
    by (simp add: word_less_nat_alt [symmetric] not_le)
  then show ?case by (auto intro!: safe_intros Cons split: option.split)
qed (simp add: safe_retE)

lemma set_untagged_pvids_range:
  "fst (set_untagged_pvids dev vid ps s) = Inr u \<Longrightarrow> p \<in> set ps \<Longrightarrow> port_id p < dev_ports dev"
  by (induction ps arbitrary: s) (auto simp: fst_bindE split: if_splits sum.splits)

lemma set_vlan_ports_safe: "safe I (swconfig_set_vlan_ports dev i v)"
proof (rule safeI)
  fix s assume s: "I s"
  show "I (snd (swconfig_set_vlan_ports dev i v s))
    \<and> \<not> crashed (fst (swconfig_set_vlan_ports dev i v s))"
  proof (cases "port_vlan v \<ge> dev_vlans dev \<or> val_len v > unat (dev_ports dev)
      \<or> set_vlan_ports (dev_ops dev) = None")
    case True
    then show ?thesis using s by (auto simp: swconfig_set_vlan_ports_def)
  next
    case False
    then obtain g where g: "set_vlan_ports (dev_ops dev) = Some g" by auto
    let ?ps = "take (val_len v) (val_ports v)" and ?pre = "set_untagged_pvids dev (port_vlan v)"
    have run: "swconfig_set_vlan_ports dev i v = bindE (?pre ?ps) (\<lambda>_. g v)"
      using False g by (simp add: swconfig_set_vlan_ports_def)
    have pre: "I (snd (?pre ?ps s)) \<and> \<not> crashed (fst (?pre ?ps s))"
      using safeD [OF set_untagged_pvids_safe s] .
    have "safe I (g v)" if "fst (?pre ?ps s) = Inr u" for u
      using ports_safe [OF g] False set_untagged_pvids_range [OF that] by auto
    then show ?thesis
      using pre unfolding run by (auto simp: fst_bindE snd_bindE split: sum.splits dest: safeD)
  qed
qed

lemma default_safe:
  assumes "attr_set a = Some f"
  shows "a \<in> set (default_global dev) \<Longrightarrow> safe I (f i v)"
    and "a \<in> set (default_vlan dev) \<Longrightarrow> safe I (f i v)"
    and "a \<in> set (default_port dev) \<Longrightarrow> port_vlan v < dev_ports dev \<Longrightarrow> safe I (f i v)"
proof -
  have "safe I (swconfig_apply_config dev i v)" "safe I (swconfig_reset_switch dev i v)"
    by (auto simp: swconfig_apply_config_def swconfig_reset_switch_def safe_retE apply_safe reset_safe split: option.split)
  then show "a \<in> set (default_global dev) \<Longrightarrow> safe I (f i v)"
    using assms by (auto simp: default_global_def mk_attr_def)
  show "a \<in> set (default_vlan dev) \<Longrightarrow> safe I (f i v)"
    using assms set_vlan_ports_safe by (auto simp: default_vlan_def mk_attr_def)
  have "safe I (swconfig_set_pvid dev i v)" "safe I (swconfig_set_link dev i v)" if "port_vlan v < dev_ports dev"
    using that by (auto simp: swconfig_set_pvid_def swconfig_set_link_def word_less_nat_alt safe_failE pvid_safe link_safe
        split: option.split)
  then show "a \<in> set (default_port dev) \<Longrightarrow> port_vlan v < dev_ports dev \<Longrightarrow> safe I (f i v)"
    using assms by (auto simp: default_port_def mk_attr_def)
qed

text \<open>A set request, whatever it holds, is safe.\<close>

theorem set_attr_safe:
  assumes only: "\<And>d. swconfig_get_dev devs info = Some d \<Longrightarrow> d = dev"
  shows "safe I (swconfig_set_attr devs cap info)"
proof -
  have "safe I (f (attr_info a) v')"
    if look: "swconfig_lookup_attr dev info zero_val = (Some a, v)" and f: "attr_set a = Some f"
      and v': "set_attr_value dev info (attr_type (attr_info a)) v = Inr v'" for a v v' f
    using look set_attr_value_port_vlan [OF v'] f
    by (auto simp: swconfig_lookup_attr_def zero_val_def Let_def not_le split: option.splits if_splits
        dest!: pick_attr_mem intro: global_safe port_safe vlan_safe default_safe)
  then show ?thesis
    using only
    by (auto simp: swconfig_set_attr_def set_attr_value_no_overrun intro!: safe_intros
        split: option.split prod.split sum.split)
qed

text \<open>So are all requests of a sequence.\<close>

lemma requests_safe:
  assumes "request_reachable devs s0 s" "I s0"
    and only: "\<And>d. d \<in> set devs \<Longrightarrow> d = dev"
  shows "I s \<and> \<not> crashed (fst (swconfig_set_attr devs cap info s))"
proof -
  have safe: "safe I (swconfig_set_attr devs cap info)" for cap info
    using only by (intro set_attr_safe) (auto simp: swconfig_get_dev_def find_Some_iff split: option.splits)
  have "I s"
    using assms(1,2) by induction (auto dest: safeD [OF safe])
  then show ?thesis using safeD [OF safe] by blast
qed

end

end
