(* ===== verification/Psb6970_Tables.thy ===== *)
theory Psb6970_Tables
  imports Psb6970 Switch_Client Smi_Switch
begin

text \<open>
  The tables of the PSB6970 driver: membership, tagging and PVIDs port by port, the invariant of
  the tables, and the contents of the chip after they have been applied.
\<close>

section \<open>The tables port by port\<close>

definition psb_member :: "'h psb6970_priv \<Rightarrow> nat \<Rightarrow> nat \<Rightarrow> bool" where
  "psb_member s j i \<longleftrightarrow> bit (psb_vlan_table s ! j) i"

definition psb_sized :: "'h psb6970_priv \<Rightarrow> bool" where
  "psb_sized s \<longleftrightarrow> length (psb_vlan_id s) = PSB6970_MAX_VLANS \<and> length (psb_vlan_table s) = PSB6970_MAX_VLANS
     \<and> length (psb_pvid s) = PSB6970_NUM_PORTS"

definition psb_ok :: "'h psb6970_priv \<Rightarrow> bool" where
  "psb_ok s \<longleftrightarrow> psb_sized s
     \<and> (\<forall>i < PSB6970_NUM_PORTS. unat (psb_pvid s ! i) < PSB6970_MAX_VLANS)
     \<and> (\<forall>i j k. j < PSB6970_MAX_VLANS \<longrightarrow> k < PSB6970_MAX_VLANS \<longrightarrow> psb_member s j i \<longrightarrow> psb_member s k i \<longrightarrow>
          \<not> bit (psb_vlan_tagged s) i \<longrightarrow> j = k)
     \<and> (\<forall>j < PSB6970_MAX_VLANS. \<not> psb_member s j 7)"

lemma bit_bit8: "bit (bit8 i) j \<longleftrightarrow> i = j \<and> i < 8"
  by (auto simp: bit8_def bit_simps)

lemma and_bit8_eq_0: "i < 8 \<Longrightarrow> w AND bit8 i = 0 \<longleftrightarrow> \<not> bit w i"
  unfolding bit_eq_iff by (auto simp: bit_and_iff bit_bit8)

text \<open>The tag that the last entry for a port gives it.\<close>

primrec last_tag :: "switch_port list \<Rightarrow> nat \<Rightarrow> bool \<Rightarrow> bool" where
  "last_tag [] i d = d"
| "last_tag (p # ps) i d = last_tag ps i (if unat (port_id p) = i then tagged p else d)"

lemma lists_port_Cons: "lists_port (p # ps) i \<longleftrightarrow> unat (port_id p) = i \<or> lists_port ps i"
  by (auto simp: lists_port_def)

lemma lists_untagged_Cons: "lists_untagged (p # ps) i \<longleftrightarrow> unat (port_id p) = i \<and> \<not> tagged p \<or> lists_untagged ps i"
  by (auto simp: lists_untagged_def)

lemma last_tag_unlisted: "\<not> lists_port ps i \<Longrightarrow> last_tag ps i d = d"
  by (induction ps arbitrary: d) (auto simp: lists_port_Cons)

lemma last_tag_listed: "lists_port ps i \<Longrightarrow> last_tag ps i d = last_tag ps i e"
proof (induction ps arbitrary: d e)
  case (Cons p ps)
  then show ?case by (cases "lists_port ps i") (auto simp: lists_port_Cons)
qed (simp add: lists_port_def)

text \<open>A port whose last entry is untagged is listed untagged.\<close>

lemma last_tag_False: "lists_port ps i \<Longrightarrow> \<not> last_tag ps i d \<Longrightarrow> lists_untagged ps i"
proof (induction ps arbitrary: d)
  case (Cons p ps)
  then show ?case
    by (cases "lists_port ps i") (auto simp: lists_port_Cons lists_untagged_Cons last_tag_unlisted split: if_splits)
qed (simp add: lists_port_def)

text \<open>
  The effect of list entries for one VLAN: \<open>L\<close> the listed ports, \<open>U\<close> those listed
  untagged, \<open>T\<close> what becomes of the tag of a port.
\<close>

definition ports_effect ::
  "nat \<Rightarrow> (nat \<Rightarrow> bool) \<Rightarrow> (nat \<Rightarrow> bool) \<Rightarrow> (nat \<Rightarrow> bool \<Rightarrow> bool) \<Rightarrow> 'h psb6970_priv \<Rightarrow> 'h psb6970_priv \<Rightarrow> bool" where
  "ports_effect vlan L U T s s' \<longleftrightarrow> psb_sized s'
     \<and> (\<forall>j < PSB6970_MAX_VLANS. \<forall>i. psb_member s' j i \<longleftrightarrow>
          (if j = vlan then psb_member s j i \<or> L i else psb_member s j i \<and> \<not> U i))
     \<and> (\<forall>i. bit (psb_vlan_tagged s') i \<longleftrightarrow> T i (bit (psb_vlan_tagged s) i))
     \<and> (\<forall>i < PSB6970_NUM_PORTS. psb_pvid s' ! i = (if U i then of_nat vlan else psb_pvid s ! i))
     \<and> psb_vlan s' = psb_vlan s \<and> psb_vlan_id s' = psb_vlan_id s \<and> psb_hw s' = psb_hw s"

lemma ports_effect_trans:
  assumes "ports_effect vlan L U T s t" "ports_effect vlan L' U' T' t s'"
  shows "ports_effect vlan (\<lambda>i. L i \<or> L' i) (\<lambda>i. U i \<or> U' i) (\<lambda>i d. T' i (T i d)) s s'"
  using assms unfolding ports_effect_def by simp

lemma set_port_entry_run:
  assumes "psb_sized s" "vlan < PSB6970_MAX_VLANS" "unat (port_id p) < PSB6970_NUM_PORTS"
  shows "fst (set_port_entry vlan p s) = Inr ()"
    "ports_effect vlan (\<lambda>i. unat (port_id p) = i) (\<lambda>i. unat (port_id p) = i \<and> \<not> tagged p)
       (\<lambda>i d. if unat (port_id p) = i then tagged p else d) s (snd (set_port_entry vlan p s))"
proof -
  let ?s = "snd (set_port_entry vlan p s)" and ?i = "unat (port_id p)"
  note def = set_port_entry_def Let_def tagged_def [symmetric] psb_sized_def psb_member_def nth_list_update
    bit_or_iff bit_and_iff bit_not_iff bit_bit8
  show "fst (set_port_entry vlan p s) = Inr ()" using assms by (simp add: def)
  have "psb_sized ?s" using assms by (simp add: def)
  moreover have "psb_member ?s j i \<longleftrightarrow> (if j = vlan then psb_member s j i \<or> ?i = i
        else psb_member s j i \<and> \<not> (?i = i \<and> \<not> tagged p))" if "j < PSB6970_MAX_VLANS" for j i
    using assms that by (auto simp: def dest: bit_imp_le_length)
  moreover have "bit (psb_vlan_tagged ?s) i \<longleftrightarrow> (if ?i = i then tagged p else bit (psb_vlan_tagged s) i)" for i
    using assms by (auto simp: def dest: bit_imp_le_length)
  moreover have "psb_pvid ?s ! i = (if ?i = i \<and> \<not> tagged p then of_nat vlan else psb_pvid s ! i)"
    if "i < PSB6970_NUM_PORTS" for i
    using assms that by (auto simp: def)
  moreover have "psb_vlan ?s = psb_vlan s \<and> psb_vlan_id ?s = psb_vlan_id s \<and> psb_hw ?s = psb_hw s"
    by (simp add: set_port_entry_def Let_def)
  ultimately show "ports_effect vlan (\<lambda>i. ?i = i) (\<lambda>i. ?i = i \<and> \<not> tagged p)
       (\<lambda>i d. if ?i = i then tagged p else d) s ?s"
    unfolding ports_effect_def by blast
qed

text \<open>The whole list.\<close>

lemma set_ports_loop_run:
  assumes "psb_sized s" "vlan < PSB6970_MAX_VLANS" "\<forall>p \<in> set ps. unat (port_id p) < PSB6970_NUM_PORTS"
  shows "fst (set_ports_loop vlan ps s) = Inr ()
    \<and> ports_effect vlan (lists_port ps) (lists_untagged ps) (last_tag ps) s (snd (set_ports_loop vlan ps s))"
  using assms
proof (induction ps arbitrary: s)
  case Nil
  then show ?case by (simp add: ports_effect_def lists_port_def lists_untagged_def)
next
  case (Cons p ps)
  let ?t = "snd (set_port_entry vlan p s)"
  have p: "fst (set_port_entry vlan p s) = Inr ()"
    "ports_effect vlan (\<lambda>i. unat (port_id p) = i) (\<lambda>i. unat (port_id p) = i \<and> \<not> tagged p)
       (\<lambda>i d. if unat (port_id p) = i then tagged p else d) s ?t"
    using set_port_entry_run [of s vlan p] Cons.prems by auto
  then have "psb_sized ?t" by (simp add: ports_effect_def)
  then have "fst (set_ports_loop vlan ps ?t) = Inr ()"
    "ports_effect vlan (lists_port ps) (lists_untagged ps) (last_tag ps) ?t (snd (set_ports_loop vlan ps ?t))"
    using Cons by auto
  then show ?case
    using ports_effect_trans [OF p(2)] p(1)
    by (simp add: fst_bindE snd_bindE lists_port_Cons [abs_def] lists_untagged_Cons [abs_def])
qed

lemma set_ports_run:
  fixes s :: "'h psb6970_priv"
  assumes "psb_sized s" "unat (port_vlan v) < PSB6970_MAX_VLANS"
    "\<forall>p \<in> set (take (val_len v) (val_ports v)). unat (port_id p) < PSB6970_NUM_PORTS"
  defines "vlan \<equiv> unat (port_vlan v)" and "ps \<equiv> take (val_len v) (val_ports v)"
  defines "s' \<equiv> snd (psb6970_set_ports v s)"
  shows "fst (psb6970_set_ports v s) = Inr ()" "psb_sized s'"
    "\<And>j i. j < PSB6970_MAX_VLANS \<Longrightarrow> psb_member s' j i \<longleftrightarrow>
       (if j = vlan then lists_port ps i else psb_member s j i \<and> \<not> lists_untagged ps i)"
    "\<And>i. bit (psb_vlan_tagged s') i \<longleftrightarrow> last_tag ps i (bit (psb_vlan_tagged s) i)"
    "\<And>i. i < PSB6970_NUM_PORTS \<Longrightarrow> psb_pvid s' ! i = (if lists_untagged ps i then of_nat vlan else psb_pvid s ! i)"
    "psb_vlan s' = psb_vlan s" "psb_vlan_id s' = psb_vlan_id s" "psb_hw s' = psb_hw s"
proof -
  let ?t = "s\<lparr>psb_vlan_table := (psb_vlan_table s)[vlan := 0]\<rparr>"
  have t: "psb_sized ?t" "\<And>j i. j < PSB6970_MAX_VLANS \<Longrightarrow> psb_member ?t j i \<longleftrightarrow> j \<noteq> vlan \<and> psb_member s j i"
    using assms(1,2) by (auto simp: psb_sized_def psb_member_def nth_list_update vlan_def)
  have run: "psb6970_set_ports v s = set_ports_loop vlan ps ?t"
    using assms(2) by (simp add: psb6970_set_ports_def vlan_def ps_def Let_def)
  have "fst (set_ports_loop vlan ps ?t) = Inr ()
    \<and> ports_effect vlan (lists_port ps) (lists_untagged ps) (last_tag ps) ?t (snd (set_ports_loop vlan ps ?t))"
    using set_ports_loop_run [OF t(1)] assms(2,3) by (simp add: vlan_def ps_def)
  then have e: "fst (psb6970_set_ports v s) = Inr ()"
    "ports_effect vlan (lists_port ps) (lists_untagged ps) (last_tag ps) ?t s'"
    unfolding s'_def run by auto
  show "fst (psb6970_set_ports v s) = Inr ()" by (rule e)
  show "psb_sized s'"
    "psb_vlan s' = psb_vlan s" "psb_vlan_id s' = psb_vlan_id s" "psb_hw s' = psb_hw s"
    "bit (psb_vlan_tagged s') i \<longleftrightarrow> last_tag ps i (bit (psb_vlan_tagged s) i)" for i
    using e(2) by (auto simp: ports_effect_def)
  show "psb_member s' j i \<longleftrightarrow> (if j = vlan then lists_port ps i else psb_member s j i \<and> \<not> lists_untagged ps i)"
    if "j < PSB6970_MAX_VLANS" for j i
    using e(2) t(2) that by (auto simp: ports_effect_def)
  show "psb_pvid s' ! i = (if lists_untagged ps i then of_nat vlan else psb_pvid s ! i)" if "i < PSB6970_NUM_PORTS" for i
    using e(2) that by (simp add: ports_effect_def)
qed

lemma get_ports_loop_filter:
  assumes "\<forall>i \<in> set is. i < 8"
  shows "get_ports_loop ports tg is =
    map (\<lambda>i. \<lparr>port_id = of_nat i, port_flags = (if bit tg i then BIT SWITCH_PORT_FLAG_TAGGED else 0)\<rparr>)
      (filter (bit ports) is)"
  using assms by (induction "is") (auto simp: and_bit8_eq_0)

section \<open>The invariant\<close>

lemma set_ports_ok:
  assumes ok: "psb_ok s" and vlan: "unat (port_vlan v) < PSB6970_MAX_VLANS"
    and ps: "\<forall>p \<in> set (take (val_len v) (val_ports v)). unat (port_id p) < PSB6970_NUM_PORTS"
  shows "psb_ok (snd (psb6970_set_ports v s))"
proof -
  let ?ps = "take (val_len v) (val_ports v)" and ?s = "snd (psb6970_set_ports v s)"
  from ok have sized: "psb_sized s" by (simp add: psb_ok_def)
  note run = set_ports_run [OF sized vlan ps]
  have "unat (of_nat (unat (port_vlan v)) :: u16) < PSB6970_MAX_VLANS"
    unfolding unat_of_nat using vlan by simp
  then have "unat (psb_pvid ?s ! i) < PSB6970_MAX_VLANS" if "i < PSB6970_NUM_PORTS" for i
    using ok that by (simp add: run(5) psb_ok_def)
  moreover have "j = k"
    if "j < PSB6970_MAX_VLANS" "k < PSB6970_MAX_VLANS" "psb_member ?s j i" "psb_member ?s k i" "\<not> bit (psb_vlan_tagged ?s) i"
    for i j k
  proof (cases "lists_port ?ps i")
    case True
    then have "lists_untagged ?ps i" using that(5) by (auto simp: run(4) intro: last_tag_False)
    then show ?thesis using that by (auto simp: run(3) split: if_splits)
  next
    case False
    then show ?thesis
      using that ok by (auto simp: run(3,4) last_tag_unlisted psb_ok_def split: if_splits)
  qed
  moreover have "\<not> psb_member ?s j 7" if "j < PSB6970_MAX_VLANS" for j
    using that ok ps by (auto simp: run(3) psb_ok_def lists_port_def)
  ultimately show ?thesis using run(2) unfolding psb_ok_def by blast
qed

section \<open>The chip after the tables have been applied\<close>

definition psb_chip :: "('h \<Rightarrow> nat \<times> nat \<Rightarrow> u16) \<Rightarrow> 'h \<Rightarrow> nat \<Rightarrow> u16" where
  "psb_chip regs h r = regs h (PHYADDR r)"

definition vfl_value :: "'h psb6970_priv \<Rightarrow> nat \<Rightarrow> u16" where
  "vfl_value s j = (if psb_vlan_table s ! j = 0 then 0 else PSB6970_VFxL_VV OR psb_vlan_id s ! j)"

definition vfh_value :: "'h psb6970_priv \<Rightarrow> nat \<Rightarrow> u16" where
  "vfh_value s j = push_bit PSB6970_VFxH_TM_SHIFT (ucast (psb_vlan_table s ! j AND psb_vlan_tagged s))
     OR ucast (psb_vlan_table s ! j)"

definition ec_value :: "'h psb6970_priv \<Rightarrow> u16" where
  "ec_value s = (if psb_vlan s then PSB6970_EC_IFNTE else 0)"

definition dvid_value :: "'h psb6970_priv \<Rightarrow> nat \<Rightarrow> u16" where
  "dvid_value s i = (if psb_vlan s then psb_vlan_id s ! unat (psb_pvid s ! i) else 1)"

text \<open>Register \<open>r\<close> after the first \<open>n\<close> VLANs, after the first \<open>n\<close> ports; \<open>c\<close> what it held before.\<close>

definition vlan_regs :: "'h psb6970_priv \<Rightarrow> nat \<Rightarrow> nat \<Rightarrow> u16 \<Rightarrow> u16" where
  "vlan_regs s n r c =
    (if r < 0x10 \<or> 0x10 + 2 * n \<le> r then c
     else let j = (r - 0x10) div 2
          in if even r then vfl_value s j else if psb_vlan_table s ! j = 0 then c else vfh_value s j)"

definition port_regs :: "'h psb6970_priv \<Rightarrow> nat \<Rightarrow> nat \<Rightarrow> u16 \<Rightarrow> u16" where
  "port_regs s n r c =
    (let i = r div 32 in
     if n \<le> i then c
     else if r mod 32 = 3 then port_pbvm (psb_vlan s) (psb_vlan_tagged s) i
     else if PSB6970_IS_CPU_PORT i then c
     else if r mod 32 = 2 then ec_value s
     else if r mod 32 = 4 then dvid_value s i
     else c)"

lemma PHYADDR_eq: "r < 8192 \<Longrightarrow> q < 8192 \<Longrightarrow> PHYADDR r = PHYADDR q \<longleftrightarrow> r = q"
proof -
  assume "r < 8192" "q < 8192"
  then have "r div 32 mod 256 = r div 32" "q div 32 mod 256 = q div 32" by auto
  then show ?thesis unfolding PHYADDR_def by (metis div_mult_mod_eq fst_conv snd_conv)
qed

lemma psb_chip_write:
  assumes "mii_registers B regs" "r < 8192" "q < 8192"
  shows "psb_chip regs (psb6970_mii_write B q v h) r = (if r = q then v else psb_chip regs h r)"
  using assms by (simp add: psb_chip_def psb6970_mii_write_def mii_registersD PHYADDR_eq)

lemma forE_hw:
  assumes "\<And>i h. i \<in> set is \<Longrightarrow> f i (s\<lparr>psb_hw := h\<rparr>) = (Inr (), s\<lparr>psb_hw := g i h\<rparr>)"
  shows "forE is f (s\<lparr>psb_hw := h\<rparr>) = (Inr (), s\<lparr>psb_hw := fold g is h\<rparr>)"
  using assms by (induction "is" arbitrary: h) (simp_all add: retE_def bindE_def)

definition vlan_hw :: "'h mii_bus \<Rightarrow> 'h psb6970_priv \<Rightarrow> nat \<Rightarrow> 'h \<Rightarrow> 'h" where
  "vlan_hw B s j h =
    (let h = psb6970_mii_write B (PSB6970_VFxL j) (vfl_value s j) h
     in if psb_vlan_table s ! j = 0 then h else psb6970_mii_write B (PSB6970_VFxH j) (vfh_value s j) h)"

definition port_hw :: "'h mii_bus \<Rightarrow> 'h psb6970_priv \<Rightarrow> nat \<Rightarrow> 'h \<Rightarrow> 'h" where
  "port_hw B s i h =
    (let h = psb6970_mii_write B (PSB6970_PBVM i) (port_pbvm (psb_vlan s) (psb_vlan_tagged s) i) h
     in if PSB6970_IS_CPU_PORT i then h
        else psb6970_mii_write B (PSB6970_DVID i) (dvid_value s i) (psb6970_mii_write B (PSB6970_EC i) (ec_value s) h))"

lemma apply_vlan_hw: "apply_vlan B j (s\<lparr>psb_hw := h\<rparr>) = (Inr (), s\<lparr>psb_hw := vlan_hw B s j h\<rparr>)"
  by (simp add: apply_vlan_def vlan_hw_def Let_def psb_write_def bindE_def vfl_value_def vfh_value_def)

lemma apply_port_hw:
  assumes "psb_ok s" "i < PSB6970_NUM_PORTS"
  shows "apply_port B i (s\<lparr>psb_hw := h\<rparr>) = (Inr (), s\<lparr>psb_hw := port_hw B s i h\<rparr>)"
  using assms by (auto simp: apply_port_def port_hw_def Let_def psb_write_def bindE_def retE_def ec_value_def dvid_value_def
      psb_ok_def)

lemma vlan_hw_chip:
  assumes "mii_registers B regs" "r < 8192" "j < PSB6970_MAX_VLANS"
  shows "psb_chip regs (vlan_hw B s j h) r =
    (if r = PSB6970_VFxL j then vfl_value s j
     else if r = PSB6970_VFxH j \<and> psb_vlan_table s ! j \<noteq> 0 then vfh_value s j else psb_chip regs h r)"
  using assms by (auto simp: vlan_hw_def Let_def psb_chip_write PSB6970_VFxL_def PSB6970_VFxH_def)

lemma port_hw_chip:
  assumes "mii_registers B regs" "r < 8192" "i < PSB6970_NUM_PORTS"
  shows "psb_chip regs (port_hw B s i h) r =
    (if r = PSB6970_PBVM i then port_pbvm (psb_vlan s) (psb_vlan_tagged s) i
     else if r = PSB6970_EC i \<and> \<not> PSB6970_IS_CPU_PORT i then ec_value s
     else if r = PSB6970_DVID i \<and> \<not> PSB6970_IS_CPU_PORT i then dvid_value s i else psb_chip regs h r)"
  using assms by (auto simp: port_hw_def Let_def psb_chip_write PSB6970_PBVM_def PSB6970_EC_def PSB6970_DVID_def)

lemma vlan_loop_chip:
  assumes B: "mii_registers B regs" "r < 8192"
  shows "n \<le> PSB6970_MAX_VLANS \<Longrightarrow> psb_chip regs (fold (vlan_hw B s) [0..<n] h) r = vlan_regs s n r (psb_chip regs h r)"
proof (induction n)
  case 0
  then show ?case by (auto simp: vlan_regs_def)
next
  case (Suc n)
  then have n: "n < PSB6970_MAX_VLANS" by simp
  have step: "psb_chip regs (fold (vlan_hw B s) [0..<Suc n] h) r =
    (if r = 16 + 2 * n then vfl_value s n
     else if r = 17 + 2 * n \<and> psb_vlan_table s ! n \<noteq> 0 then vfh_value s n else vlan_regs s n r (psb_chip regs h r))"
    using Suc by (simp add: vlan_hw_chip [OF B n] PSB6970_VFxL_def PSB6970_VFxH_def)
  consider "r = 16 + 2 * n" | "r = 17 + 2 * n" | "r < 16 + 2 * n" | "18 + 2 * n \<le> r" by linarith
  then show ?case
    unfolding step by cases (auto simp: vlan_regs_def Let_def)
qed

lemma port_loop_chip:
  assumes B: "mii_registers B regs" "r < 8192"
  shows "n \<le> PSB6970_NUM_PORTS \<Longrightarrow> psb_chip regs (fold (port_hw B s) [0..<n] h) r = port_regs s n r (psb_chip regs h r)"
proof (induction n)
  case 0
  then show ?case by (simp add: port_regs_def)
next
  case (Suc n)
  then have n: "n < PSB6970_NUM_PORTS" by simp
  have addr: "r = n * 32 + k \<longleftrightarrow> r div 32 = n \<and> r mod 32 = k" if "k < 32" for k
    using that div_mult_mod_eq [of r 32] by auto
  have step: "psb_chip regs (fold (port_hw B s) [0..<Suc n] h) r =
    (if r div 32 = n \<and> r mod 32 = 3 then port_pbvm (psb_vlan s) (psb_vlan_tagged s) n
     else if r div 32 = n \<and> r mod 32 = 2 \<and> \<not> PSB6970_IS_CPU_PORT n then ec_value s
     else if r div 32 = n \<and> r mod 32 = 4 \<and> \<not> PSB6970_IS_CPU_PORT n then dvid_value s n
     else port_regs s n r (psb_chip regs h r))"
    using Suc by (simp add: port_hw_chip [OF B n] PSB6970_PBVM_def PSB6970_EC_def PSB6970_DVID_def
        addr [of 2, simplified] addr [of 3, simplified] addr [of 4, simplified])
  show ?case unfolding step port_regs_def Let_def by (auto simp: less_Suc_eq_le not_le)
qed

text \<open>Every register of the chip after an application.\<close>

lemma hw_apply_run:
  assumes ok: "psb_ok s"
  obtains h where "psb6970_hw_apply B s = (Inr (), s\<lparr>psb_hw := h\<rparr>)"
    "\<And>regs r. mii_registers B regs \<Longrightarrow> r < 8192 \<Longrightarrow> psb_chip regs h r =
       port_regs s PSB6970_NUM_PORTS r
         (if psb_vlan s then vlan_regs s PSB6970_MAX_VLANS r (psb_chip regs (psb_hw s) r) else psb_chip regs (psb_hw s) r)"
proof
  let ?v = "if psb_vlan s then fold (vlan_hw B s) [0..<PSB6970_MAX_VLANS] (psb_hw s) else psb_hw s"
  let ?h = "fold (port_hw B s) [0..<PSB6970_NUM_PORTS] ?v"
  have v: "(if psb_vlan s then forE [0..<PSB6970_MAX_VLANS] (apply_vlan B) s else (Inr (), s)) = (Inr (), s\<lparr>psb_hw := ?v\<rparr>)"
    using forE_hw [of "[0..<PSB6970_MAX_VLANS]" "apply_vlan B" s "vlan_hw B s" "psb_hw s"] by (simp add: apply_vlan_hw)
  have p: "forE [0..<PSB6970_NUM_PORTS] (apply_port B) (s\<lparr>psb_hw := ?v\<rparr>) = (Inr (), s\<lparr>psb_hw := ?h\<rparr>)"
    by (rule forE_hw) (simp add: apply_port_hw [OF ok])
  show "psb6970_hw_apply B s = (Inr (), s\<lparr>psb_hw := ?h\<rparr>)"
    unfolding psb6970_hw_apply_def bindE_def v using p by simp
  show "psb_chip regs ?h r = port_regs s PSB6970_NUM_PORTS r
         (if psb_vlan s then vlan_regs s PSB6970_MAX_VLANS r (psb_chip regs (psb_hw s) r) else psb_chip regs (psb_hw s) r)"
    if "mii_registers B regs" "r < 8192" for regs r
    using that by (simp only: port_loop_chip vlan_loop_chip order_refl if_distrib [of "\<lambda>h. psb_chip regs h r"])
qed

text \<open>Registers at none of the addresses keep their contents.\<close>

lemma untouched_regs:
  assumes v: "\<forall>j < PSB6970_MAX_VLANS. r \<noteq> PSB6970_VFxL j \<and> r \<noteq> PSB6970_VFxH j"
    and p: "\<forall>i < PSB6970_NUM_PORTS. r \<noteq> PSB6970_PBVM i \<and> r \<noteq> PSB6970_EC i \<and> r \<noteq> PSB6970_DVID i"
  shows "port_regs s PSB6970_NUM_PORTS r (vlan_regs s PSB6970_MAX_VLANS r c) = c"
proof -
  have "r < 16 \<or> 48 \<le> r"
  proof (rule ccontr)
    assume "\<not> (r < 16 \<or> 48 \<le> r)"
    then have j: "(r - 16) div 2 < 16" "r = (r - 16) div 2 * 2 + 16 \<or> r = (r - 16) div 2 * 2 + 17" by presburger+
    then show False using v by (auto simp: PSB6970_VFxL_def PSB6970_VFxH_def)
  qed
  then have "vlan_regs s PSB6970_MAX_VLANS r c = c" by (auto simp: vlan_regs_def)
  moreover have "r mod 32 \<noteq> 2 \<and> r mod 32 \<noteq> 3 \<and> r mod 32 \<noteq> 4" if "r div 32 < PSB6970_NUM_PORTS"
    using p that div_mult_mod_eq [of r 32] unfolding PSB6970_PBVM_def PSB6970_EC_def PSB6970_DVID_def by metis
  ultimately show ?thesis by (auto simp: port_regs_def Let_def)
qed

end
