(* ===== verification/Psb6970_Properties.thy ===== *)
theory Psb6970_Properties
  imports Psb6970_Tables
begin

text \<open>
  Correctness of the PSB6970 driver: its tables under every sequence of requests, port lists, the
  registers of the chip after an application, and attaching and removing the device.
\<close>

section \<open>The driver behind the configuration layer\<close>

text \<open>The switch as \<open>register_switch\<close> leaves it, with id \<open>n\<close> and number \<open>i\<close>.\<close>

definition psb6970_registered ::
  "'h mii_bus \<Rightarrow> string \<Rightarrow> of_port list \<Rightarrow> u32 \<Rightarrow> nat \<Rightarrow> ('h psb6970_priv) switch_dev" where
  "psb6970_registered B parent nodes n i =
    (swconfig_defaults_init (psb6970_sw_dev B parent))\<lparr>dev_id := n, devname := switch_name i,
       portmap := of_switch_load_portmap 7 nodes (replicate 7 None)\<rparr>"

lemma psb6970_registered_fields [simp]:
  "dev_ops (psb6970_registered B parent nodes n i) = psb6970_ops B"
  "dev_ports (psb6970_registered B parent nodes n i) = 7" "dev_vlans (psb6970_registered B parent nodes n i) = 16"
  "dev_id (psb6970_registered B parent nodes n i) = n" "devname (psb6970_registered B parent nodes n i) = switch_name i"
  by (simp_all add: psb6970_registered_def swconfig_defaults_init_def psb6970_sw_dev_def Let_def)

lemma psb6970_register_dev:
  assumes "register_switch mx a1 a2 led nodes (psb6970_sw_dev B parent) r = (Inr d, r')"
  obtains n i where "d = psb6970_registered B parent nodes n i" "swdevs r' = swdevs r @ [d]"
  using register_switch_lists [OF assms]
  by (auto simp: list_switch_def Let_def psb6970_registered_def swconfig_defaults_init_def psb6970_sw_dev_def
      split: if_splits)

lemma reset_tables_ok:
  "psb_ok (s\<lparr>psb_vlan := b, psb_vlan_id := map of_nat [0..<PSB6970_MAX_VLANS],
     psb_vlan_table := replicate PSB6970_MAX_VLANS 0, psb_vlan_tagged := t, psb_pvid := replicate PSB6970_NUM_PORTS 0\<rparr>)"
  by (simp add: psb_ok_def psb_sized_def psb_member_def)

lemma psb_ok_hw [simp]: "psb_ok (s\<lparr>psb_hw := h\<rparr>) = psb_ok s"
  by (simp add: psb_ok_def psb_sized_def psb_member_def)

lemma psb_ok_sized: "psb_ok s \<Longrightarrow> psb_sized s"
  by (simp add: psb_ok_def)

lemma hw_apply_ok:
  assumes "psb_ok s"
  shows "psb_ok (snd (psb6970_hw_apply B s))" "fst (psb6970_hw_apply B s) = Inr ()"
  using hw_apply_run [OF assms, of B] assms by (metis fst_conv snd_conv psb_ok_hw)+

lemma reset_switch_ok:
  "psb_ok (snd (psb6970_reset_switch B s))" "fst (psb6970_reset_switch B s) = Inr ()"
  unfolding psb6970_reset_switch_def by (rule hw_apply_ok [OF reset_tables_ok])+

lemma set_pvid_ok:
  assumes "psb_ok s" "p < PSB6970_NUM_PORTS"
  shows "psb_ok (snd (psb6970_set_pvid p vid s))"
proof -
  have "unat (ucast vid :: u16) < PSB6970_MAX_VLANS" if "unat vid < PSB6970_MAX_VLANS"
    using that unat_of_nat [of "unat vid", where 'a = 16] by simp
  then show ?thesis
    using assms by (auto simp: psb6970_set_pvid_def psb_ok_def psb_sized_def psb_member_def nth_list_update)
qed

interpretation psb: guarded_driver "psb6970_registered B parent nodes n i" psb_ok
  for B :: "'h mii_bus" and parent nodes n i
proof
  let ?dev = "psb6970_registered B parent nodes n i"
  fix a :: "('h psb6970_priv) switch_attr" and f and v :: switch_val
  assume f: "attr_set a = Some f"
  show "safe psb_ok (f (attr_info a) v)" if "a \<in> set (attr_global (dev_ops ?dev))"
    using that f by (auto simp: psb6970_ops_def psb6970_globals_def mk_attr_def psb6970_set_vlan_def safe_def
        psb_ok_def psb_sized_def psb_member_def)
  show "safe psb_ok (f (attr_info a) v)" if "a \<in> set (attr_port (dev_ops ?dev))"
    using that by (simp add: psb6970_ops_def psb6970_port_def)
  show "safe psb_ok (f (attr_info a) v)" if "a \<in> set (attr_vlan (dev_ops ?dev))" "port_vlan v < dev_vlans ?dev"
    using that f by (auto simp: psb6970_ops_def psb6970_vlan_def mk_attr_def psb6970_set_vid_def safe_def
        psb_ok_def psb_sized_def psb_member_def word_less_nat_alt)
next
  let ?dev = "psb6970_registered B parent nodes n i"
  fix g and v :: switch_val
  assume "set_vlan_ports (dev_ops ?dev) = Some g" "port_vlan v < dev_vlans ?dev" "val_len v \<le> unat (dev_ports ?dev)"
    "\<forall>p \<in> set (take (val_len v) (val_ports v)). port_id p < dev_ports ?dev"
  then have g: "g = psb6970_set_ports" and v: "unat (port_vlan v) < PSB6970_MAX_VLANS"
    and ps: "\<forall>p \<in> set (take (val_len v) (val_ports v)). unat (port_id p) < PSB6970_NUM_PORTS"
    by (auto simp: psb6970_ops_def word_less_nat_alt)
  show "safe psb_ok (g v)"
    unfolding g by (rule safeI) (simp add: set_ports_ok [OF _ v ps] set_ports_run(1) [OF psb_ok_sized v ps])
next
  let ?dev = "psb6970_registered B parent nodes n i"
  fix h p vid
  assume "set_port_pvid (dev_ops ?dev) = Some h" "p < unat (dev_ports ?dev)"
  then have h: "h = psb6970_set_pvid" and p: "p < PSB6970_NUM_PORTS" by (auto simp: psb6970_ops_def)
  show "safe psb_ok (h p vid)"
    unfolding h using p by (intro safeI) (simp add: set_pvid_ok, simp add: psb6970_set_pvid_def)
qed (auto simp: psb6970_ops_def safe_def hw_apply_ok reset_switch_ok)

section \<open>Attaching the device\<close>

lemma config_init_run:
  assumes addr: "phy_addr w = 0"
    and reg: "register_switch mx a1 a2 led nodes (psb6970_sw_dev B parent) (phy_switches w) = (Inr d, r)"
  obtains s w' where "psb6970_config_init B mx True a1 a2 led nodes parent w = (Inr (), w')"
    "phy_priv w' = LivePriv s (dev_id d)" "phy_switches w' = r" "psb_ok s"
    "phy_blocks w' = phy_blocks w + 1" "phy_addr w' = 0"
proof -
  obtain s where s: "psb6970_reset_switch B (psb6970_zero_priv (phy_hw w)) = (Inr (), s)"
    using reset_switch_ok(2) [of B] by (metis prod.collapse)
  then have ok: "psb_ok s" using reset_switch_ok(1) by (metis snd_conv)
  have run: "psb6970_config_init B mx True a1 a2 led nodes parent w =
      (Inr (), w\<lparr>phy_blocks := phy_blocks w + 1, phy_supported := [''100baseT_Full''],
         phy_advertising := [''100baseT_Full''], phy_priv := LivePriv s (dev_id d), phy_switches := r, phy_hw := psb_hw s\<rparr>)"
    using addr reg s by (simp add: psb6970_config_init_def Let_def)
  show thesis by (rule that [of _ s, OF run]) (simp_all add: addr ok)
qed

text \<open>
  C21. After the PSB6970 has been attached as the only switch, no sequence of set requests, whatever
  the messages hold, makes the driver leave its tables: PVIDs stay below 16, a port that is not
  tagged is in at most one VLAN, and the next request does not access memory outside a table either.
\<close>
theorem psb6970_requests_safe:
  assumes init: "psb6970_config_init B mx kz a1 a2 led nodes parent w = (Inr (), w')"
    and w: "phy_addr w = 0" "swdevs (phy_switches w) = []"
    and priv: "phy_priv w' = LivePriv s0 n"
    and reach: "request_reachable (swdevs (phy_switches w')) s0 s"
  shows "psb_ok s \<and> fst (swconfig_set_attr (swdevs (phy_switches w')) cap info s) \<noteq> Inl BUF_OVERRUN"
proof -
  obtain d r where reg: "register_switch mx a1 a2 led nodes (psb6970_sw_dev B parent) (phy_switches w) = (Inr d, r)"
    using init w(1) by (auto simp: psb6970_config_init_def Let_def split: if_splits prod.splits sum.splits)
  have kz: kz using init by (auto simp: psb6970_config_init_def split: if_splits)
  obtain m i where d: "d = psb6970_registered B parent nodes m i" "swdevs r = swdevs (phy_switches w) @ [d]"
    using psb6970_register_dev [OF reg] by blast
  obtain t where "psb_ok t" "phy_priv w' = LivePriv t (dev_id d)" "phy_switches w' = r"
  proof (rule config_init_run [OF w(1) reg])
    fix s v assume "psb6970_config_init B mx True a1 a2 led nodes parent w = (Inr (), v)"
      "phy_priv v = LivePriv s (dev_id d)" "phy_switches v = r" "psb_ok s"
    then show thesis using that init kz by simp
  qed
  then show ?thesis
    using psb.requests_safe [OF reach, of B parent nodes m i cap info] priv w(2) d by (auto simp: crashed_def)
qed

definition bench_phy :: "(nat \<times> nat \<Rightarrow> u16) phy_world" where
  "bench_phy = \<lparr>phy_addr = 0, phy_ident = 0, phy_priv = NoPriv, phy_supported = [], phy_advertising = [],
     phy_speed = 0, phy_full_duplex = False, phy_link = False, phy_running = False, phy_blocks = 0,
     phy_switches = \<lparr>swdev_id = 0, swdevs = [], sw_mem = 0\<rparr>, phy_hw = (\<lambda>_. 0)\<rparr>"

lemma bench_register:
  "\<exists>d r. register_switch 64 True True None [] (psb6970_sw_dev ref_mii_bus ''eth0'') (phy_switches bench_phy) = (Inr d, r)"
  by (simp add: bench_phy_def register_first)

theorem psb6970_requests_safe_witness:
  "\<exists>w' s0 n. psb6970_config_init ref_mii_bus 64 True True True None [] ''eth0'' bench_phy = (Inr (), w')
     \<and> phy_priv w' = LivePriv s0 n \<and> psb_ok s0"
proof -
  obtain d r where reg: "register_switch 64 True True None [] (psb6970_sw_dev ref_mii_bus ''eth0'') (phy_switches bench_phy) = (Inr d, r)"
    using bench_register by blast
  have addr: "phy_addr bench_phy = 0" "swdevs (phy_switches bench_phy) = []" by (simp_all add: bench_phy_def)
  obtain s w' where i: "psb6970_config_init ref_mii_bus 64 True True True None [] ''eth0'' bench_phy = (Inr (), w')"
    "phy_priv w' = LivePriv s (dev_id d)"
    by (rule config_init_run [OF addr(1) reg])
  then have "psb_ok s"
    using psb6970_requests_safe [OF i(1) addr i(2) request_reachable.start] by blast
  then show ?thesis using i by blast
qed

section \<open>Port lists\<close>

text \<open>
  A port list with port numbers in range is accepted and is what reading the VLAN returns: in
  ascending order, without duplicates, a port tagged when its last entry was. A port listed
  untagged leaves all other VLANs and gets the VLAN as PVID; everything else stays.
\<close>
theorem psb6970_ports_round_trip:
  assumes ok: "psb_ok s" and vlan: "unat (port_vlan v) < 16" "port_vlan u = port_vlan v"
    and ps: "ps = take (val_len v) (val_ports v)" "\<forall>p \<in> set ps. unat (port_id p) < 7"
  shows "\<exists>s'. psb6970_set_ports v s = (Inr (), s')
    \<and> (let l = map (\<lambda>i. \<lparr>port_id = of_nat i, port_flags = (if last_tag ps i False then BIT SWITCH_PORT_FLAG_TAGGED else 0)\<rparr>)
                 (filter (lists_port ps) [0..<7])
       in psb6970_get_ports u s' = (Inr (u\<lparr>val_ports := l, val_len := length l\<rparr>), s'))
    \<and> (\<forall>j < 16. \<forall>i. j \<noteq> unat (port_vlan v) \<longrightarrow> (psb_member s' j i \<longleftrightarrow> psb_member s j i \<and> \<not> lists_untagged ps i))
    \<and> (\<forall>i < 7. psb6970_get_pvid i s' =
         (if lists_untagged ps i then (Inr (port_vlan v), s') else (fst (psb6970_get_pvid i s), s')))
    \<and> psb_vlan s' = psb_vlan s \<and> psb_vlan_id s' = psb_vlan_id s \<and> psb_hw s' = psb_hw s"
proof -
  let ?s = "snd (psb6970_set_ports v s)"
  have range: "\<forall>p \<in> set (take (val_len v) (val_ports v)). unat (port_id p) < PSB6970_NUM_PORTS" using ps by simp
  note run = set_ports_run [OF psb_ok_sized [OF ok] vlan(1) range, folded ps(1)]
  have mem: "bit (psb_vlan_table ?s ! unat (port_vlan v)) i \<longleftrightarrow> lists_port ps i" for i
    using run(3) [of "unat (port_vlan v)" i] vlan(1) by (simp add: psb_member_def)
  have tags: "map (\<lambda>i. \<lparr>port_id = of_nat i, port_flags = (if bit (psb_vlan_tagged ?s) i then BIT SWITCH_PORT_FLAG_TAGGED else 0)\<rparr>)
        (filter (lists_port ps) [0..<7]) =
      map (\<lambda>i. \<lparr>port_id = of_nat i, port_flags = (if last_tag ps i False then BIT SWITCH_PORT_FLAG_TAGGED else 0)\<rparr>)
        (filter (lists_port ps) [0..<7])"
    by (intro map_cong refl) (auto simp: run(4) dest: last_tag_listed [where e = False])
  have pvid: "ucast (ucast (port_vlan v) :: u16) = port_vlan v"
    using vlan(1) by (intro ucast_ucast_small) simp
  show ?thesis
  proof (intro exI [of _ ?s] conjI allI impI)
    show "psb6970_set_ports v s = (Inr (), ?s)" using run(1) by (simp add: prod_eq_iff)
    show "let l = map (\<lambda>i. \<lparr>port_id = of_nat i, port_flags = (if last_tag ps i False then BIT SWITCH_PORT_FLAG_TAGGED else 0)\<rparr>)
                 (filter (lists_port ps) [0..<7])
       in psb6970_get_ports u ?s = (Inr (u\<lparr>val_ports := l, val_len := length l\<rparr>), ?s)"
      using vlan by (simp add: psb6970_get_ports_def Let_def get_ports_loop_filter mem [abs_def] tags del: upt_conv_Cons)
    show "psb6970_get_pvid i ?s =
         (if lists_untagged ps i then (Inr (port_vlan v), ?s) else (fst (psb6970_get_pvid i s), ?s))" if "i < 7" for i
      using that run(5) [of i] by (simp add: psb6970_get_pvid_def pvid)
  qed (use run in auto)
qed

definition bench_psb :: "(nat \<times> nat \<Rightarrow> u16) psb6970_priv" where
  "bench_psb = psb6970_zero_priv (\<lambda>_. 0)"

lemma bench_psb_ok: "psb_ok bench_psb"
  by (simp add: bench_psb_def psb6970_zero_priv_def psb_ok_def psb_sized_def psb_member_def)

definition bench_ports :: switch_val where
  "bench_ports = zero_val\<lparr>port_vlan := 3, val_len := 3,
     val_ports := [\<lparr>port_id = 6, port_flags = 4\<rparr>, \<lparr>port_id = 2, port_flags = 4\<rparr>, \<lparr>port_id = 2, port_flags = 0\<rparr>]\<rparr>"

theorem psb6970_ports_round_trip_witness:
  "\<exists>s'. psb6970_set_ports bench_ports bench_psb = (Inr (), s')
    \<and> psb6970_get_ports (zero_val\<lparr>port_vlan := 3\<rparr>) s' =
      (Inr (zero_val\<lparr>port_vlan := 3, val_len := 2,
         val_ports := [\<lparr>port_id = 2, port_flags = 0\<rparr>, \<lparr>port_id = 6, port_flags = 4\<rparr>]\<rparr>), s')"
proof -
  have v: "unat (port_vlan bench_ports) < 16" "port_vlan (zero_val\<lparr>port_vlan := 3\<rparr>) = port_vlan bench_ports"
    "\<forall>p \<in> set (take (val_len bench_ports) (val_ports bench_ports)). unat (port_id p) < 7"
    by (simp_all add: bench_ports_def)
  have up: "[0..<7] = [0, 1, 2, 3, 4, 5, 6 :: nat]" by (simp add: upt_rec)
  show ?thesis
    using psb6970_ports_round_trip [OF bench_psb_ok v(1,2) refl v(3)]
    by (auto simp: up bench_ports_def Let_def zero_val_def lists_port_def tagged_def BIT_def)
qed

section \<open>The chip\<close>

lemma vf_addresses:
  "\<forall>j < 16. j \<noteq> 9 \<and> j \<noteq> 10 \<longrightarrow> PSB6970_VFxL j mod 32 \<notin> {2, 3, 4} \<and> PSB6970_VFxH j mod 32 \<notin> {2, 3, 4}"
  by code_simp

lemma port_addresses:
  "PSB6970_PBVM i div 32 = i" "PSB6970_PBVM i mod 32 = 3" "PSB6970_EC i div 32 = i" "PSB6970_EC i mod 32 = 2"
  "PSB6970_DVID i div 32 = i" "PSB6970_DVID i mod 32 = 4"
  "i < 7 \<Longrightarrow> PSB6970_PBVM i < 8192" "i < 7 \<Longrightarrow> PSB6970_EC i < 8192" "i < 7 \<Longrightarrow> PSB6970_DVID i < 8192"
proof -
  have a: "(i * 32 + k) div 32 = i" "(i * 32 + k) mod 32 = k" if "k < 32" for k using that by auto
  show "PSB6970_PBVM i div 32 = i" "PSB6970_PBVM i mod 32 = 3" "PSB6970_EC i div 32 = i" "PSB6970_EC i mod 32 = 2"
    "PSB6970_DVID i div 32 = i" "PSB6970_DVID i mod 32 = 4"
    unfolding PSB6970_PBVM_def PSB6970_EC_def PSB6970_DVID_def by (rule a, simp)+
qed (simp_all add: PSB6970_PBVM_def PSB6970_EC_def PSB6970_DVID_def)

text \<open>The tagged ports that make port \<open>i\<close> a tagged one in the test \<open>(i << 1) & vlan_tagged\<close>.\<close>

lemma tag_test:
  fixes t :: u8
  assumes "i < 7"
  shows "of_nat (2 * i) AND t \<noteq> 0 \<longleftrightarrow>
    i \<in> {1, 3, 5} \<and> bit t 1 \<or> i \<in> {2, 3, 6} \<and> bit t 2 \<or> i \<in> {4, 5, 6} \<and> bit t 3"
proof -
  have some: "m AND t \<noteq> 0 \<longleftrightarrow> (\<exists>k < 8. bit m k \<and> bit t k)" for m :: u8
    by (auto simp: bit_eq_iff bit_and_iff)
  have "i \<in> {0, 1, 2, 3, 4, 5, 6}" using assms by auto
  moreover have "[0..<8] = [0, 1, 2, 3, 4, 5, 6, 7 :: nat]" by (simp add: upt_rec)
  then have "(\<exists>k < 8. P k) \<longleftrightarrow> (\<exists>k \<in> set [0, 1, 2, 3, 4, 5, 6, 7]. P k)" for P :: "nat \<Rightarrow> bool"
    by (metis atLeastLessThan_iff set_upt zero_le)
  ultimately show ?thesis unfolding some by (elim insertE emptyE) (simp_all add: bit_0)
qed

text \<open>
  C22. Applying the tables succeeds and leaves them alone. With VLANs enabled, the filter entry of
  every VLAN but 9 and 10 holds what the tables say (a valid entry with id, members and tagged
  members, or an invalid one). The entries 9 and 10 share addresses
  with the registers of port 1, which are written later: entry 9 ends up invalid whatever the tables
  say, entry 10 holds the default VLAN id of port 1. Every port other than the CPU port has the id of
  its PVID's VLAN. The tag settings of a port do not follow its own bit of \<open>vlan_tagged\<close>, because
  the code tests \<open>(i << 1) & vlan_tagged\<close> instead of \<open>(1 << i)\<close>: port 0 never has them, ports 1 and
  2 have them as their bit says, port 3 when port 1 or 2 is tagged, port 4 when port 3 is, port 5 when
  port 1 or 3 is, port 6 when port 2 or 3 is. No other register changes.
\<close>
theorem psb6970_apply_programs_chip:
  assumes B: "mii_registers B regs" and ok: "psb_ok s" and on: "psb_vlan s"
  shows "\<exists>h. psb6970_hw_apply B s = (Inr (), s\<lparr>psb_hw := h\<rparr>)
    \<and> (\<forall>j < 16. j \<noteq> 9 \<and> j \<noteq> 10 \<longrightarrow>
         psb_chip regs h (PSB6970_VFxL j) = (if psb_vlan_table s ! j = 0 then 0 else 0x8000 OR psb_vlan_id s ! j)
         \<and> (psb_vlan_table s ! j \<noteq> 0 \<longrightarrow> psb_chip regs h (PSB6970_VFxH j) =
              push_bit 7 (ucast (psb_vlan_table s ! j AND psb_vlan_tagged s)) OR ucast (psb_vlan_table s ! j)))
    \<and> psb_chip regs h (PSB6970_VFxL 9) = PSB6970_EC_IFNTE
    \<and> psb_chip regs h (PSB6970_VFxL 10) = psb_vlan_id s ! unat (psb_pvid s ! 1)
    \<and> (\<forall>i < 7. psb_chip regs h (PSB6970_PBVM i) =
           0x7F OR PSB6970_PBVM_VSD OR PSB6970_PBVM_TBVE OR PSB6970_PBVM_VMCE
           OR (if i \<in> {1, 3, 5} \<and> bit (psb_vlan_tagged s) 1 \<or> i \<in> {2, 3, 6} \<and> bit (psb_vlan_tagged s) 2
                 \<or> i \<in> {4, 5, 6} \<and> bit (psb_vlan_tagged s) 3
               then PSB6970_PBVM_AOVTP OR PSB6970_PBVM_VC else 0)
         \<and> (\<not> PSB6970_IS_CPU_PORT i \<longrightarrow> psb_chip regs h (PSB6970_EC i) = PSB6970_EC_IFNTE
              \<and> psb_chip regs h (PSB6970_DVID i) = psb_vlan_id s ! unat (psb_pvid s ! i)))
    \<and> (\<forall>r < 8192. (\<forall>j < 16. r \<noteq> PSB6970_VFxL j \<and> r \<noteq> PSB6970_VFxH j)
         \<and> (\<forall>i < 7. r \<noteq> PSB6970_PBVM i \<and> r \<noteq> PSB6970_EC i \<and> r \<noteq> PSB6970_DVID i) \<longrightarrow>
         psb_chip regs h r = psb_chip regs (psb_hw s) r)"
proof -
  obtain h where h: "psb6970_hw_apply B s = (Inr (), s\<lparr>psb_hw := h\<rparr>)"
    "\<And>r. r < 8192 \<Longrightarrow> psb_chip regs h r =
       port_regs s PSB6970_NUM_PORTS r (vlan_regs s PSB6970_MAX_VLANS r (psb_chip regs (psb_hw s) r))"
    by (rule hw_apply_run [OF ok, of B]) (use B on in simp)
  have low: "psb_chip regs h r = vlan_regs s PSB6970_MAX_VLANS r (psb_chip regs (psb_hw s) r)"
    if "r < 8192" "r mod 32 \<notin> {2, 3, 4}" for r
    using that by (auto simp: h(2) port_regs_def Let_def)
  have vlan: "psb_chip regs h (PSB6970_VFxL j) = vfl_value s j
      \<and> (psb_vlan_table s ! j \<noteq> 0 \<longrightarrow> psb_chip regs h (PSB6970_VFxH j) = vfh_value s j)"
    if j: "j < 16" "j \<noteq> 9" "j \<noteq> 10" for j
  proof -
    have a: "PSB6970_VFxL j mod 32 \<notin> {2, 3, 4}" "PSB6970_VFxH j mod 32 \<notin> {2, 3, 4}"
      using vf_addresses j by blast+
    have b: "PSB6970_VFxL j < 8192" "PSB6970_VFxH j < 8192" using j by (simp_all add: PSB6970_VFxL_def PSB6970_VFxH_def)
    show ?thesis
      using j low [OF b(1) a(1)] low [OF b(2) a(2)] by (simp add: vlan_regs_def PSB6970_VFxL_def PSB6970_VFxH_def Let_def)
  qed
  have pbvm: "port_pbvm True (psb_vlan_tagged s) i =
      0x7F OR PSB6970_PBVM_VSD OR PSB6970_PBVM_TBVE OR PSB6970_PBVM_VMCE
      OR (if i \<in> {1, 3, 5} \<and> bit (psb_vlan_tagged s) 1 \<or> i \<in> {2, 3, 6} \<and> bit (psb_vlan_tagged s) 2
            \<or> i \<in> {4, 5, 6} \<and> bit (psb_vlan_tagged s) 3
          then PSB6970_PBVM_AOVTP OR PSB6970_PBVM_VC else 0)" if "i < 7" for i
    unfolding port_pbvm_def Let_def if_True tag_test [OF that] by (simp only: split: if_split) simp
  have port: "psb_chip regs h (PSB6970_PBVM i) = port_pbvm True (psb_vlan_tagged s) i
      \<and> (\<not> PSB6970_IS_CPU_PORT i \<longrightarrow> psb_chip regs h (PSB6970_EC i) = PSB6970_EC_IFNTE
           \<and> psb_chip regs h (PSB6970_DVID i) = psb_vlan_id s ! unat (psb_pvid s ! i))" if "i < 7" for i
    using that on by (simp add: h(2) port_regs_def port_addresses Let_def ec_value_def dvid_value_def)
  have "PSB6970_VFxL 9 = PSB6970_EC 1" "PSB6970_VFxL 10 = PSB6970_DVID 1" "\<not> PSB6970_IS_CPU_PORT 1"
    by (simp_all add: PSB6970_VFxL_def PSB6970_EC_def PSB6970_DVID_def PSB6970_IS_CPU_PORT_def)
  moreover have "psb_chip regs h r = psb_chip regs (psb_hw s) r"
    if r: "r < 8192" "\<forall>j < 16. r \<noteq> PSB6970_VFxL j \<and> r \<noteq> PSB6970_VFxH j"
      "\<forall>i < 7. r \<noteq> PSB6970_PBVM i \<and> r \<noteq> PSB6970_EC i \<and> r \<noteq> PSB6970_DVID i" for r
    using untouched_regs [OF r(2,3)] by (simp add: h(2) [OF r(1)])
  ultimately show ?thesis
    using h(1) vlan port port [of 1] pbvm unfolding vfl_value_def vfh_value_def by (intro exI [of _ h] conjI) simp_all
qed

definition bench_vlans :: "(nat \<times> nat \<Rightarrow> u16) psb6970_priv" where
  "bench_vlans = bench_psb\<lparr>psb_vlan := True, psb_vlan_id := (psb_vlan_id bench_psb)[9 := 9],
     psb_vlan_table := (psb_vlan_table bench_psb)[9 := 0x43], psb_vlan_tagged := 0x40\<rparr>"

theorem psb6970_apply_programs_chip_witness:
  "\<exists>h. psb6970_hw_apply ref_mii_bus bench_vlans = (Inr (), bench_vlans\<lparr>psb_hw := h\<rparr>)
    \<and> psb_vlan_table bench_vlans ! 9 = 0x43 \<and> psb_vlan_id bench_vlans ! 9 = 9
    \<and> psb_chip (\<lambda>h. h) h (PSB6970_VFxL 9) = 2"
proof -
  have tab: "psb_vlan_table bench_vlans ! j = (if j = 9 then 0x43 else 0)" if "j < 16" for j
    using that by (simp add: bench_vlans_def bench_psb_def psb6970_zero_priv_def nth_list_update)
  have no7: "\<not> bit (0x43 :: u8) 7" by simp
  have "psb_ok bench_vlans"
    by (auto simp: psb_ok_def psb_member_def tab no7 split: if_splits)
      (simp_all add: psb_sized_def bench_vlans_def bench_psb_def psb6970_zero_priv_def)
  moreover have "psb_vlan bench_vlans" by (simp add: bench_vlans_def)
  ultimately obtain h where "psb6970_hw_apply ref_mii_bus bench_vlans = (Inr (), bench_vlans\<lparr>psb_hw := h\<rparr>)"
    "psb_chip (\<lambda>h. h) h (PSB6970_VFxL 9) = 2"
    using psb6970_apply_programs_chip [OF ref_mii_registers] by blast
  moreover have "psb_vlan_id bench_vlans ! 9 = 9"
    by (simp add: bench_vlans_def bench_psb_def psb6970_zero_priv_def)
  ultimately show ?thesis using tab by auto
qed

section \<open>Removing the device\<close>

text \<open>
  C23. Attaching succeeds exactly when the switch can be registered, and removing the device then
  takes the switch off the list and frees the private data. When the registration fails the
  private data is freed but \<open>pdev->priv\<close> still points to it, so that removing the device uses it.
  A PHY at another address than 0 is left alone.
\<close>
theorem psb6970_attach_remove:
  assumes reach: "registry_reachable mx (phy_switches w)"
  shows "(phy_addr w \<noteq> 0 \<longrightarrow> psb6970_config_init B mx True a1 a2 led nodes parent w = (Inr (), w))
    \<and> (phy_addr w = 0 \<longrightarrow> (\<forall>d r. register_switch mx a1 a2 led nodes (psb6970_sw_dev B parent) (phy_switches w) = (Inr d, r) \<longrightarrow>
         (\<exists>w' w''. psb6970_config_init B mx True a1 a2 led nodes parent w = (Inr (), w')
           \<and> swdevs (phy_switches w') = swdevs (phy_switches w) @ [d]
           \<and> psb6970_remove w' = (Inr (), w'')
           \<and> swdevs (phy_switches w'') = swdevs (phy_switches w) \<and> phy_blocks w'' = phy_blocks w)))
    \<and> (phy_addr w = 0 \<longrightarrow> (\<forall>e r. register_switch mx a1 a2 led nodes (psb6970_sw_dev B parent) (phy_switches w) = (Inl e, r) \<longrightarrow>
         (\<exists>w'. psb6970_config_init B mx True a1 a2 led nodes parent w = (Inl e, w')
           \<and> swdevs (phy_switches w') = swdevs (phy_switches w) \<and> phy_blocks w' = phy_blocks w
           \<and> psb6970_remove w' = (Inl USE_AFTER_FREE, w'))))"
proof (intro conjI impI allI)
  fix d r
  assume w: "phy_addr w = 0"
    and reg: "register_switch mx a1 a2 led nodes (psb6970_sw_dev B parent) (phy_switches w) = (Inr d, r)"
  obtain s w' where i: "psb6970_config_init B mx True a1 a2 led nodes parent w = (Inr (), w')"
    "phy_priv w' = LivePriv s (dev_id d)" "phy_switches w' = r" "phy_blocks w' = phy_blocks w + 1" "phy_addr w' = 0"
    by (rule config_init_run [OF w reg])
  have "swdevs (unregister_switch (dev_id d) r) = swdevs (phy_switches w)"
    by (rule unregister_undoes_register [OF reachable_registry_ok [OF reach] reg])
  moreover have "swdevs r = swdevs (phy_switches w) @ [d]"
    using psb6970_register_dev [OF reg] by blast
  ultimately show "\<exists>w' w''. psb6970_config_init B mx True a1 a2 led nodes parent w = (Inr (), w')
      \<and> swdevs (phy_switches w') = swdevs (phy_switches w) @ [d] \<and> psb6970_remove w' = (Inr (), w'')
      \<and> swdevs (phy_switches w'') = swdevs (phy_switches w) \<and> phy_blocks w'' = phy_blocks w"
    using i by (simp add: psb6970_remove_def Let_def)
next
  fix e r
  assume w: "phy_addr w = 0"
    and reg: "register_switch mx a1 a2 led nodes (psb6970_sw_dev B parent) (phy_switches w) = (Inl e, r)"
  have "swdevs r = swdevs (phy_switches w)"
    by (rule register_switch_failed [OF reachable_registry_ok [OF reach] reg]) (simp_all add: psb6970_sw_dev_def psb6970_ops_def)
  then show "\<exists>w'. psb6970_config_init B mx True a1 a2 led nodes parent w = (Inl e, w')
      \<and> swdevs (phy_switches w') = swdevs (phy_switches w) \<and> phy_blocks w' = phy_blocks w
      \<and> psb6970_remove w' = (Inl USE_AFTER_FREE, w')"
    using w reg by (simp add: psb6970_config_init_def psb6970_remove_def Let_def)
qed (simp add: psb6970_config_init_def)

theorem psb6970_attach_remove_witness:
  "\<exists>w'. psb6970_config_init ref_mii_bus 64 True False True None [] ''eth0'' bench_phy = (Inl ENOMEM, w')
     \<and> psb6970_remove w' = (Inl USE_AFTER_FREE, w')"
proof -
  have "registry_reachable 64 (phy_switches bench_phy)"
    unfolding bench_phy_def phy_world.simps by (rule registry_reachable.boot)
  moreover have "phy_addr bench_phy = 0" by (simp add: bench_phy_def)
  moreover have "\<exists>r. register_switch 64 False True None [] (psb6970_sw_dev ref_mii_bus ''eth0'') (phy_switches bench_phy) = (Inl ENOMEM, r)"
    by (simp add: register_switch_run bench_phy_def psb6970_sw_dev_def)
  ultimately show ?thesis using psb6970_attach_remove [of 64 bench_phy ref_mii_bus False True None "[]" "''eth0''"] by blast
qed

text \<open>The identifier that \<open>psb6970_fixup\<close> gives a device is one that the driver announces.\<close>

lemma psb6970_fixup_matches:
  assumes "mii_registers B regs" "psb_chip regs (phy_hw w) PSB6970_CI1 = PSB6970_CI1_VAL"
  shows "fst (psb6970_fixup B w) = Inr ()
    \<and> phy_ident (snd (psb6970_fixup B w)) AND psb6970_phy_id_mask = psb6970_phy_id"
proof -
  obtain v h where r: "psb6970_mii_read B PSB6970_CI1 (phy_hw w) = (v, h)" by fastforce
  then have "v = PSB6970_CI1_VAL"
    using assms by (metis fst_conv psb6970_mii_read_def psb_chip_def mii_registersD(1) prod.collapse)
  moreover have "(push_bit 16 (ucast (PSB6970_CI1_VAL :: u16)) OR ucast (x AND PSB6970_CI0_MASK)) AND psb6970_phy_id_mask = psb6970_phy_id"
    for x :: u16
  proof -
    have low: "x AND PSB6970_CI0_MASK = take_bit 4 x" by (simp add: take_bit_eq_mask mask_eq_exp_minus_1)
    have "bit psb6970_phy_id_mask n \<longleftrightarrow> 16 \<le> n" if "n < 32" for n
      using that bit_push_bit_iff [of 16 "0xFFFF :: u32" n] bit_mask_iff [of 16 "n - 16", where 'a = u32]
      by (auto simp: psb6970_phy_id_mask_def mask_eq_exp_minus_1)
    then have "ucast (x AND PSB6970_CI0_MASK) AND psb6970_phy_id_mask = 0"
      unfolding low by (intro bit_word_eqI) (auto simp: bit_and_iff bit_ucast_iff bit_take_bit_iff)
    moreover have "push_bit 16 (ucast (PSB6970_CI1_VAL :: u16)) AND psb6970_phy_id_mask = psb6970_phy_id"
      by (simp add: psb6970_phy_id_def psb6970_phy_id_mask_def)
    ultimately show ?thesis by (simp only: bit.conj_disj_distrib2 or.right_neutral)
  qed
  ultimately show ?thesis by (simp add: psb6970_fixup_def r split: prod.split)
qed

end
