(* ===== verification/Rtl8306.thy ===== *)
theory Rtl8306
  imports Mii_Bus Swconfig
begin

text \<open>
  The driver \<open>rtl8306.c\<close>. The settings of the chip are fields of registers that are spread over
  four pages; a table gives page, PHY, register, width, position and polarity of each field, and all
  accesses go through \<open>rtl_get\<close> and \<open>rtl_set\<close>. The debugging attributes, which are not compiled,
  are left out.
\<close>

section \<open>The table of fields\<close>

abbreviation (input) RTL8306_REG_PAGE :: nat where "RTL8306_REG_PAGE \<equiv> 16"
abbreviation (input) RTL8306_REG_PAGE_LO :: u16 where "RTL8306_REG_PAGE_LO \<equiv> 0x8000"
abbreviation (input) RTL8306_REG_PAGE_HI :: u16 where "RTL8306_REG_PAGE_HI \<equiv> 0x0002"
abbreviation (input) RTL8306_NUM_VLANS :: nat where "RTL8306_NUM_VLANS \<equiv> 16"
abbreviation (input) RTL8306_NUM_PORTS :: nat where "RTL8306_NUM_PORTS \<equiv> 6"
abbreviation (input) RTL8306_PORT_CPU :: nat where "RTL8306_PORT_CPU \<equiv> 5"
abbreviation (input) RTL8306_NUM_PAGES :: nat where "RTL8306_NUM_PAGES \<equiv> 4"
abbreviation (input) RTL8306_MAGIC :: u32 where "RTL8306_MAGIC \<equiv> 0x8306"

record rtl_reg =
  rr_page :: nat
  rr_phy :: nat
  rr_reg :: nat
  rr_bits :: nat
  rr_shift :: nat
  rr_inverted :: bool

text \<open>The values of \<open>enum rtl_regidx\<close>.\<close>

abbreviation (input) RTL_REG_CHIPID :: nat where "RTL_REG_CHIPID \<equiv> 0"
abbreviation (input) RTL_REG_CHIPVER :: nat where "RTL_REG_CHIPVER \<equiv> 1"
abbreviation (input) RTL_REG_CHIPTYPE :: nat where "RTL_REG_CHIPTYPE \<equiv> 2"
abbreviation (input) RTL_REG_CPUPORT :: nat where "RTL_REG_CPUPORT \<equiv> 3"
abbreviation (input) RTL_REG_EN_CPUPORT :: nat where "RTL_REG_EN_CPUPORT \<equiv> 4"
abbreviation (input) RTL_REG_EN_TAG_OUT :: nat where "RTL_REG_EN_TAG_OUT \<equiv> 5"
abbreviation (input) RTL_REG_EN_TAG_CLR :: nat where "RTL_REG_EN_TAG_CLR \<equiv> 6"
abbreviation (input) RTL_REG_EN_TAG_IN :: nat where "RTL_REG_EN_TAG_IN \<equiv> 7"
abbreviation (input) RTL_REG_TRAP_CPU :: nat where "RTL_REG_TRAP_CPU \<equiv> 8"
abbreviation (input) RTL_REG_CPU_LINKUP :: nat where "RTL_REG_CPU_LINKUP \<equiv> 9"
abbreviation (input) RTL_REG_TRUNK_PORTSEL :: nat where "RTL_REG_TRUNK_PORTSEL \<equiv> 10"
abbreviation (input) RTL_REG_EN_TRUNK :: nat where "RTL_REG_EN_TRUNK \<equiv> 11"
abbreviation (input) RTL_REG_RESET :: nat where "RTL_REG_RESET \<equiv> 12"
abbreviation (input) RTL_REG_VLAN_ENABLE :: nat where "RTL_REG_VLAN_ENABLE \<equiv> 13"
abbreviation (input) RTL_REG_VLAN_FILTER :: nat where "RTL_REG_VLAN_FILTER \<equiv> 14"
abbreviation (input) RTL_REG_VLAN_TAG_ONLY :: nat where "RTL_REG_VLAN_TAG_ONLY \<equiv> 15"
abbreviation (input) RTL_REG_VLAN_TAG_AWARE :: nat where "RTL_REG_VLAN_TAG_AWARE \<equiv> 16"

text \<open>\<open>RTL_VLAN_REG(id, VID)\<close> and the like: the fields of a VLAN and of a port follow each other.\<close>

datatype rtl_vlan_field = VID | PORTMASK
datatype rtl_port_field =
    PVID | NULL_VID_REPLACE | NON_PVID_DISCARD | VID_INSERT | TAG_INSERT | LINK | SPEED | NWAY | NRESTART
  | DUPLEX | RXEN | TXEN

definition vlan_field_nr :: "rtl_vlan_field \<Rightarrow> nat" where
  "vlan_field_nr f = (case f of VID \<Rightarrow> 0 | PORTMASK \<Rightarrow> 1)"

definition port_field_nr :: "rtl_port_field \<Rightarrow> nat" where
  "port_field_nr f = (case f of PVID \<Rightarrow> 0 | NULL_VID_REPLACE \<Rightarrow> 1 | NON_PVID_DISCARD \<Rightarrow> 2 | VID_INSERT \<Rightarrow> 3
     | TAG_INSERT \<Rightarrow> 4 | LINK \<Rightarrow> 5 | SPEED \<Rightarrow> 6 | NWAY \<Rightarrow> 7 | NRESTART \<Rightarrow> 8 | DUPLEX \<Rightarrow> 9 | RXEN \<Rightarrow> 10 | TXEN \<Rightarrow> 11)"

definition RTL_VLAN_REG :: "nat \<Rightarrow> rtl_vlan_field \<Rightarrow> nat" where
  "RTL_VLAN_REG n f = 17 + vlan_field_nr f + n * 2"

definition RTL_PORT_REG :: "nat \<Rightarrow> rtl_port_field \<Rightarrow> nat" where
  "RTL_PORT_REG n f = 49 + port_field_nr f + n * 12"

definition rr :: "nat \<Rightarrow> nat \<Rightarrow> nat \<Rightarrow> nat \<Rightarrow> nat \<Rightarrow> bool \<Rightarrow> rtl_reg" where
  "rr page phy reg bits shift inverted =
    \<lparr>rr_page = page, rr_phy = phy, rr_reg = reg, rr_bits = bits, rr_shift = shift, rr_inverted = inverted\<rparr>"

definition rtl_global_regs :: "rtl_reg list" where
  "rtl_global_regs = [
    rr 0 4 30 16  0 False, rr 0 4 31  8  0 False, rr 0 4 31  2  8 False,
    rr 2 4 21  3  0 False, rr 3 2 21  1 15 True,  rr 3 2 21  1 12 False,
    rr 3 2 21  1 11 False, rr 0 4 21  1  7 False,
    rr 3 2 22  1  6 False, rr 0 6 22  1 15 False,
    rr 0 0 16  1  6 True,  rr 0 0 19  1 11 True,  rr 0 0 16  1 12 False,
    rr 0 0 18  1  8 True,  rr 0 0 16  1  9 True,
    rr 0 0 16  1  8 True,  rr 0 0 16  1 10 True]"

definition RTL_VLAN_REGS :: "nat \<Rightarrow> nat \<Rightarrow> nat \<Rightarrow> rtl_reg list" where
  "RTL_VLAN_REGS phy page regofs = [rr page phy (25 + regofs) 12 0 False, rr page phy (24 + regofs) 6 0 False]"

definition REG_PORT_PVID :: "nat \<Rightarrow> nat \<Rightarrow> nat \<Rightarrow> rtl_reg" where
  "REG_PORT_PVID phy page regofs = rr page phy (24 + regofs) 4 12 False"

text \<open>The fields of a port in the order of the enumeration.\<close>

definition REG_PORT_SETTING :: "rtl_reg \<Rightarrow> nat \<Rightarrow> rtl_reg list" where
  "REG_PORT_SETTING pvid phy = [pvid,
    rr 0 phy 22 1 12 False, rr 0 phy 22 1 11 False, rr 0 phy 22 2 9 False, rr 0 phy 22 2 0 False,
    rr 0 phy 1 1 2 False,
    rr 0 phy 0 1 13 False, rr 0 phy 0 1 12 False, rr 0 phy 0 1 9 False, rr 0 phy 0 1 8 False,
    rr 0 phy 24 1 10 False, rr 0 phy 24 1 11 False]"

definition rtl_regs :: "rtl_reg list" where
  "rtl_regs = rtl_global_regs
    @ RTL_VLAN_REGS 0 0 0 @ RTL_VLAN_REGS 1 0 0 @ RTL_VLAN_REGS 2 0 0 @ RTL_VLAN_REGS 3 0 0 @ RTL_VLAN_REGS 4 0 0
    @ RTL_VLAN_REGS 0 1 2 @ RTL_VLAN_REGS 1 1 2 @ RTL_VLAN_REGS 2 1 2 @ RTL_VLAN_REGS 3 1 2 @ RTL_VLAN_REGS 4 1 2
    @ RTL_VLAN_REGS 0 1 4 @ RTL_VLAN_REGS 1 1 4 @ RTL_VLAN_REGS 2 1 4 @ RTL_VLAN_REGS 3 1 4 @ RTL_VLAN_REGS 4 1 4
    @ RTL_VLAN_REGS 0 1 6
    @ REG_PORT_SETTING (REG_PORT_PVID 0 0 0) 0 @ REG_PORT_SETTING (REG_PORT_PVID 1 0 0) 1
    @ REG_PORT_SETTING (REG_PORT_PVID 2 0 0) 2 @ REG_PORT_SETTING (REG_PORT_PVID 3 0 0) 3
    @ REG_PORT_SETTING (REG_PORT_PVID 4 0 0) 4 @ REG_PORT_SETTING (REG_PORT_PVID 0 1 2) 6"

section \<open>State and register access\<close>

text \<open>\<open>rp_page\<close> is \<open>priv->page\<close>, \<open>None\<close> for -1; no function changes it after start-up.\<close>

record 'h rtl_priv =
  rp_page :: "nat option"
  rp_fixup :: bool
  rp_do_cpu :: bool
  rp_cpu_port :: nat
  rp_hw :: 'h

definition bus_rd :: "'h mii_bus \<Rightarrow> nat \<Rightarrow> nat \<Rightarrow> ('h rtl_priv, u16) io" where
  "bus_rd B phy reg s = (let (v, h) = bus_read B phy reg (rp_hw s) in (Inr v, s\<lparr>rp_hw := h\<rparr>))"

definition bus_wr :: "'h mii_bus \<Rightarrow> nat \<Rightarrow> nat \<Rightarrow> u16 \<Rightarrow> ('h rtl_priv, unit) io" where
  "bus_wr B phy reg v s = (Inr (), s\<lparr>rp_hw := bus_write B phy reg v (rp_hw s)\<rparr>)"

definition page_select :: "nat \<Rightarrow> u16 \<Rightarrow> u16" where
  "page_select page pgsel =
    (let pgsel = pgsel AND NOT (RTL8306_REG_PAGE_LO OR RTL8306_REG_PAGE_HI);
         pgsel = (if bit page 0 then pgsel OR RTL8306_REG_PAGE_LO else pgsel)
     in if \<not> bit page 1 then pgsel OR RTL8306_REG_PAGE_HI else pgsel)"

definition rtl_set_page :: "'h mii_bus \<Rightarrow> nat \<Rightarrow> ('h rtl_priv, unit) io" where
  "rtl_set_page B page s =
    (if rp_fixup s then (Inr (), s)
     else if rp_page s = Some page then (Inr (), s)
     else if page > RTL8306_NUM_PAGES then (Inl KERNEL_BUG, s)
     else bindE (bus_rd B 0 RTL8306_REG_PAGE) (\<lambda>pgsel. bus_wr B 0 RTL8306_REG_PAGE (page_select page pgsel)) s)"

definition rtl_r16 :: "'h mii_bus \<Rightarrow> nat \<Rightarrow> nat \<Rightarrow> nat \<Rightarrow> ('h rtl_priv, u16) io" where
  "rtl_r16 B page phy reg = bindE (rtl_set_page B page) (\<lambda>_. bus_rd B phy reg)"

definition rtl_w16 :: "'h mii_bus \<Rightarrow> nat \<Rightarrow> nat \<Rightarrow> nat \<Rightarrow> u16 \<Rightarrow> ('h rtl_priv, unit) io" where
  "rtl_w16 B page phy reg val =
    bindE (rtl_set_page B page) (\<lambda>_. bindE (bus_wr B phy reg val) (\<lambda>_. ignoreE (bus_rd B phy reg)))"

definition rtl_rmw :: "'h mii_bus \<Rightarrow> nat \<Rightarrow> nat \<Rightarrow> nat \<Rightarrow> u16 \<Rightarrow> u16 \<Rightarrow> ('h rtl_priv, u16) io" where
  "rtl_rmw B page phy reg msk val =
    bindE (rtl_set_page B page) (\<lambda>_.
    bindE (bus_rd B phy reg) (\<lambda>r.
    bindE (bus_wr B phy reg ((r AND NOT msk) OR val)) (\<lambda>_. bus_rd B phy reg)))"

text \<open>\<open>BUG_ON(s >= ARRAY_SIZE(rtl_regs))\<close> is the first test.\<close>

definition field_get :: "rtl_reg \<Rightarrow> u16 \<Rightarrow> u16" where
  "field_get r v =
    (let v = drop_bit (rr_shift r) v;
         v = (if rr_inverted r then NOT v else v)
     in v AND mask (rr_bits r))"

definition rtl_get :: "'h mii_bus \<Rightarrow> nat \<Rightarrow> ('h rtl_priv, u16) io" where
  "rtl_get B s =
    (if s \<ge> length rtl_regs then failE KERNEL_BUG
     else let r = rtl_regs ! s
          in if rr_bits r = 0 then retE 0
             else bindE (rtl_r16 B (rr_page r) (rr_phy r) (rr_reg r)) (\<lambda>v. retE (field_get r v)))"

definition field_mask :: "rtl_reg \<Rightarrow> u16" where
  "field_mask r = (if rr_bits r \<noteq> 16 then push_bit (rr_shift r) (mask (rr_bits r)) else 0xFFFF)"

definition field_put :: "rtl_reg \<Rightarrow> u32 \<Rightarrow> u16" where
  "field_put r v =
    (let v = push_bit (rr_shift r) v;
         v = (if rr_inverted r then NOT v else v)
     in ucast (v AND ucast (field_mask r)))"

definition rtl_set :: "'h mii_bus \<Rightarrow> nat \<Rightarrow> u32 \<Rightarrow> ('h rtl_priv, unit) io" where
  "rtl_set B s val =
    (if s \<ge> length rtl_regs then failE KERNEL_BUG
     else let r = rtl_regs ! s
          in if rr_bits r = 0 then retE ()
             else bindE (rtl_rmw B (rr_page r) (rr_phy r) (rr_reg r) (field_mask r) (field_put r val)) (\<lambda>_. retE ()))"

record rtl_phyregs =
  sv_nway :: u16
  sv_speed :: u16
  sv_duplex :: u16

definition rtl_phy_save :: "'h mii_bus \<Rightarrow> nat \<Rightarrow> ('h rtl_priv, rtl_phyregs) io" where
  "rtl_phy_save B port =
    bindE (rtl_get B (RTL_PORT_REG port NWAY)) (\<lambda>n.
    bindE (rtl_get B (RTL_PORT_REG port SPEED)) (\<lambda>sp.
    bindE (rtl_get B (RTL_PORT_REG port DUPLEX)) (\<lambda>d.
    retE \<lparr>sv_nway = n, sv_speed = sp, sv_duplex = d\<rparr>)))"

definition rtl_phy_restore :: "'h mii_bus \<Rightarrow> nat \<Rightarrow> rtl_phyregs \<Rightarrow> ('h rtl_priv, unit) io" where
  "rtl_phy_restore B port regs =
    bindE (rtl_set B (RTL_PORT_REG port NWAY) (ucast (sv_nway regs))) (\<lambda>_.
    bindE (rtl_set B (RTL_PORT_REG port SPEED) (ucast (sv_speed regs))) (\<lambda>_.
    rtl_set B (RTL_PORT_REG port DUPLEX) (ucast (sv_duplex regs))))"

definition rtl_port_set_enable :: "'h mii_bus \<Rightarrow> nat \<Rightarrow> u32 \<Rightarrow> ('h rtl_priv, unit) io" where
  "rtl_port_set_enable B port enabled =
    bindE (rtl_set B (RTL_PORT_REG port RXEN) enabled) (\<lambda>_.
    bindE (rtl_set B (RTL_PORT_REG port TXEN) enabled) (\<lambda>_.
    if port \<ge> 5 \<or> enabled = 0 then retE ()
    else rtl_set B (RTL_PORT_REG port NRESTART) 1))"

section \<open>Applying and initialising\<close>

text \<open>The loop that waits for the end of the reset.\<close>

primrec reset_wait :: "'h mii_bus \<Rightarrow> nat \<Rightarrow> ('h rtl_priv, unit) io" where
  "reset_wait B 0 = retE ()"
| "reset_wait B (Suc n) = bindE (rtl_get B RTL_REG_RESET) (\<lambda>v. if v = 0 then retE () else reset_wait B n)"

definition rtl_hw_apply :: "'h mii_bus \<Rightarrow> ('h rtl_priv, unit) io" where
  "rtl_hw_apply B =
    bindE (rtl_phy_save B 5) (\<lambda>port5.
    bindE (forE [0..<RTL8306_NUM_PORTS - 1] (\<lambda>i. rtl_port_set_enable B i 0)) (\<lambda>_.
    bindE (rtl_get B RTL_REG_EN_TRUNK) (\<lambda>trunk_en.
    bindE (rtl_get B RTL_REG_TRUNK_PORTSEL) (\<lambda>trunk_psel.
    bindE (rtl_set B RTL_REG_EN_TRUNK 1) (\<lambda>_.
    bindE (rtl_set B RTL_REG_TRUNK_PORTSEL 1) (\<lambda>_.
    bindE (rtl_set B RTL_REG_RESET 1) (\<lambda>_.
    bindE (reset_wait B 10) (\<lambda>_.
    bindE (forE [0..<RTL8306_NUM_PORTS - 1] (\<lambda>i. rtl_port_set_enable B i 1)) (\<lambda>_.
    bindE (rtl_set B RTL_REG_EN_TRUNK (ucast trunk_en)) (\<lambda>_.
    bindE (rtl_set B RTL_REG_TRUNK_PORTSEL (ucast trunk_psel)) (\<lambda>_.
    bindE (rtl_phy_restore B 5 port5) (\<lambda>_.
    rtl_set B RTL_REG_CPU_LINKUP 1))))))))))))"

definition isolation_mask :: "nat \<Rightarrow> nat \<Rightarrow> u32" where
  "isolation_mask cpu i =
    (if BIT i = BIT cpu then mask RTL8306_NUM_PORTS AND NOT (BIT cpu) else BIT cpu OR BIT i)"

definition hw_init_vlan :: "'h mii_bus \<Rightarrow> nat \<Rightarrow> ('h rtl_priv, unit) io" where
  "hw_init_vlan B i =
    bindE (rtl_set B (RTL_VLAN_REG i VID) (of_nat i)) (\<lambda>_. rtl_set B (RTL_VLAN_REG i PORTMASK) 0)"

definition hw_init_port :: "'h mii_bus \<Rightarrow> nat \<Rightarrow> nat \<Rightarrow> ('h rtl_priv, unit) io" where
  "hw_init_port B cpu i =
    bindE (rtl_set B (RTL_VLAN_REG i PORTMASK) (isolation_mask cpu i)) (\<lambda>_.
    bindE (rtl_set B (RTL_PORT_REG i PVID) (of_nat i)) (\<lambda>_.
    bindE (rtl_set B (RTL_PORT_REG i NULL_VID_REPLACE) 1) (\<lambda>_.
    bindE (rtl_set B (RTL_PORT_REG i VID_INSERT) 1) (\<lambda>_.
    rtl_set B (RTL_PORT_REG i TAG_INSERT) 3))))"

definition hw_init_cpu :: "'h mii_bus \<Rightarrow> ('h rtl_priv, unit) io" where
  "hw_init_cpu B s =
    (if rp_do_cpu s
     then bindE (rtl_set B RTL_REG_CPUPORT (of_nat (rp_cpu_port s))) (\<lambda>_. rtl_set B RTL_REG_EN_CPUPORT 1) s
     else bindE (rtl_set B RTL_REG_CPUPORT 7) (\<lambda>_. rtl_set B RTL_REG_EN_CPUPORT 0) s)"

definition rtl_hw_init :: "'h mii_bus \<Rightarrow> ('h rtl_priv, unit) io" where
  "rtl_hw_init B s =
    (let cpu = rp_cpu_port s in
     bindE (rtl_set B RTL_REG_VLAN_ENABLE 0) (\<lambda>_.
     bindE (rtl_set B RTL_REG_VLAN_FILTER 0) (\<lambda>_.
     bindE (rtl_set B RTL_REG_EN_TRUNK 0) (\<lambda>_.
     bindE (rtl_set B RTL_REG_TRUNK_PORTSEL 0) (\<lambda>_.
     bindE (hw_init_cpu B) (\<lambda>_.
     bindE (rtl_set B RTL_REG_EN_TAG_OUT 0) (\<lambda>_.
     bindE (rtl_set B RTL_REG_EN_TAG_IN 0) (\<lambda>_.
     bindE (rtl_set B RTL_REG_EN_TAG_CLR 0) (\<lambda>_.
     bindE (forE [0..<RTL8306_NUM_VLANS] (hw_init_vlan B)) (\<lambda>_.
     bindE (forE [0..<RTL8306_NUM_PORTS] (hw_init_port B cpu)) (\<lambda>_.
     rtl_hw_apply B)))))))))) s)"

definition rtl_reset :: "'h mii_bus \<Rightarrow> ('h rtl_priv, unit) io" where
  "rtl_reset B = rtl_hw_init B"

section \<open>Attributes\<close>

text \<open>The index is computed in \<open>int\<close>; the code reads the table entry before any test of the index.\<close>

definition rtl_attr_set_int :: "'h mii_bus \<Rightarrow> switch_attr_info \<Rightarrow> switch_val \<Rightarrow> ('h rtl_priv, unit) io" where
  "rtl_attr_set_int B attr v =
    (let idx = nat (attr_id attr) + unat (port_vlan v) * nat (attr_ofs attr);
         port = unat (port_vlan v)
     in if nat (attr_id attr) \<ge> length rtl_regs then failE EINVAL
        else if attr_max attr > 0 \<and> uint (val_i v) > attr_max attr then failE EINVAL
        else if port > 3 \<and> idx \<ge> length rtl_regs then failE BUF_OVERRUN
        else if port > 3 \<and> rr_reg (rtl_regs ! idx) = 22 \<and> rr_page (rtl_regs ! idx) = 0
        then bindE (rtl_phy_save B port) (\<lambda>p.
             bindE (rtl_set B idx (val_i v)) (\<lambda>_. rtl_phy_restore B port p))
        else rtl_set B idx (val_i v))"

definition rtl_attr_get_int :: "'h mii_bus \<Rightarrow> switch_attr_info \<Rightarrow> switch_val \<Rightarrow> ('h rtl_priv, switch_val) io" where
  "rtl_attr_get_int B attr v =
    (let idx = nat (attr_id attr) + unat (port_vlan v) * nat (attr_ofs attr)
     in if idx \<ge> length rtl_regs then failE EINVAL
        else bindE (rtl_get B idx) (\<lambda>x. retE (v\<lparr>val_i := ucast x\<rparr>)))"

definition rtl_attr_set_port_int :: "'h mii_bus \<Rightarrow> switch_attr_info \<Rightarrow> switch_val \<Rightarrow> ('h rtl_priv, unit) io" where
  "rtl_attr_set_port_int B attr v =
    (if unat (port_vlan v) \<ge> RTL8306_NUM_PORTS then failE EINVAL else rtl_attr_set_int B attr v)"

definition rtl_attr_get_port_int :: "'h mii_bus \<Rightarrow> switch_attr_info \<Rightarrow> switch_val \<Rightarrow> ('h rtl_priv, switch_val) io" where
  "rtl_attr_get_port_int B attr v =
    (if unat (port_vlan v) \<ge> RTL8306_NUM_PORTS then failE EINVAL else rtl_attr_get_int B attr v)"

definition rtl_attr_set_vlan_int :: "'h mii_bus \<Rightarrow> switch_attr_info \<Rightarrow> switch_val \<Rightarrow> ('h rtl_priv, unit) io" where
  "rtl_attr_set_vlan_int B attr v =
    (if unat (port_vlan v) \<ge> RTL8306_NUM_VLANS then failE EINVAL else rtl_attr_set_int B attr v)"

definition rtl_attr_get_vlan_int :: "'h mii_bus \<Rightarrow> switch_attr_info \<Rightarrow> switch_val \<Rightarrow> ('h rtl_priv, switch_val) io" where
  "rtl_attr_get_vlan_int B attr v =
    (if unat (port_vlan v) \<ge> RTL8306_NUM_VLANS then failE EINVAL else rtl_attr_get_int B attr v)"

definition rtl_get_port_link :: "'h mii_bus \<Rightarrow> nat \<Rightarrow> switch_port_link \<Rightarrow> ('h rtl_priv, switch_port_link) io" where
  "rtl_get_port_link B port l =
    (if port \<ge> RTL8306_NUM_PORTS then failE EINVAL
     else bindE (rtl_get B (RTL_PORT_REG port LINK)) (\<lambda>l1.
          bindE (if l1 \<noteq> 0 then retE l1 else rtl_get B (RTL_PORT_REG port LINK)) (\<lambda>l2.
          if l2 = 0 then retE (l\<lparr>link := False\<rparr>)
          else bindE (rtl_get B (RTL_PORT_REG port DUPLEX)) (\<lambda>d.
               bindE (rtl_get B (RTL_PORT_REG port NWAY)) (\<lambda>n.
               bindE (rtl_get B (RTL_PORT_REG port SPEED)) (\<lambda>sp.
               retE (l\<lparr>link := True, duplex := d \<noteq> 0, aneg := n \<noteq> 0,
                 speed := (if sp \<noteq> 0 then SWITCH_PORT_SPEED_100 else SWITCH_PORT_SPEED_10)\<rparr>)))))))"

section \<open>VLANs\<close>

text \<open>
  The next free entry of the port buffer: its flags are only set for a tagged port. Entries that the
  buffer does not hold yet are zero.
\<close>

definition put_port_entry :: "nat \<Rightarrow> bool \<Rightarrow> switch_val \<Rightarrow> switch_val" where
  "put_port_entry i tag v =
    (let old = (if val_len v < length (val_ports v) then port_flags (val_ports v ! val_len v) else 0);
         p = \<lparr>port_id = of_nat i, port_flags = (if tag then BIT SWITCH_PORT_FLAG_TAGGED else old)\<rparr>
     in v\<lparr>val_ports := take (val_len v) (val_ports v) @ [p] @ drop (Suc (val_len v)) (val_ports v),
          val_len := Suc (val_len v)\<rparr>)"

primrec rtl_get_ports_loop :: "'h mii_bus \<Rightarrow> u16 \<Rightarrow> nat list \<Rightarrow> switch_val \<Rightarrow> ('h rtl_priv, switch_val) io" where
  "rtl_get_ports_loop B m [] v = retE v"
| "rtl_get_ports_loop B m (i # is) v =
    (if ucast m AND BIT i = 0 then rtl_get_ports_loop B m is v
     else bindE (rtl_get B (RTL_PORT_REG i TAG_INSERT)) (\<lambda>t s.
          rtl_get_ports_loop B m is (put_port_entry i (t = 2 \<or> i = rp_cpu_port s) v) s))"

definition rtl_get_ports :: "'h mii_bus \<Rightarrow> switch_val \<Rightarrow> ('h rtl_priv, switch_val) io" where
  "rtl_get_ports B v =
    bindE (rtl_get B (RTL_VLAN_REG (unat (port_vlan v)) PORTMASK)) (\<lambda>m.
    rtl_get_ports_loop B m [0..<RTL8306_NUM_PORTS] v)"

text \<open>The PHY settings saved are those of port \<open>val->port_vlan\<close>, not of port \<open>i\<close>.\<close>

definition set_vlan_port :: "'h mii_bus \<Rightarrow> bool \<Rightarrow> nat \<Rightarrow> nat \<Rightarrow> ('h rtl_priv, unit) io" where
  "set_vlan_port B en pv i s =
    (let cpu = rp_cpu_port s;
         body = bindE (rtl_set B (RTL_PORT_REG i NULL_VID_REPLACE) 1) (\<lambda>_.
                bindE (rtl_set B (RTL_PORT_REG i VID_INSERT) (if en then (if i = cpu then 0 else 1) else 1)) (\<lambda>_.
                rtl_set B (RTL_PORT_REG i TAG_INSERT) (if en then (if i = cpu then 2 else 1) else 3)))
     in if i > 3
        then bindE (rtl_phy_save B pv) (\<lambda>p. bindE body (\<lambda>_. rtl_phy_restore B pv p)) s
        else body s)"

definition rtl_set_vlan :: "'h mii_bus \<Rightarrow> switch_attr_info \<Rightarrow> switch_val \<Rightarrow> ('h rtl_priv, unit) io" where
  "rtl_set_vlan B attr v s =
    (let en = val_i v \<noteq> 0;
         cpu = (if en \<and> rp_do_cpu s then 1 else 0)
     in bindE (rtl_set B RTL_REG_EN_TAG_OUT cpu) (\<lambda>_.
        bindE (rtl_set B RTL_REG_EN_TAG_IN cpu) (\<lambda>_.
        bindE (rtl_set B RTL_REG_EN_TAG_CLR cpu) (\<lambda>_.
        bindE (rtl_set B RTL_REG_VLAN_TAG_AWARE (val_i v)) (\<lambda>_.
        bindE (if en then rtl_set B RTL_REG_VLAN_FILTER (val_i v) else retE ()) (\<lambda>_.
        bindE (forE [0..<RTL8306_NUM_PORTS] (set_vlan_port B en (unat (port_vlan v)))) (\<lambda>_.
        rtl_set B RTL_REG_VLAN_ENABLE (val_i v))))))) s)"

definition rtl_get_vlan :: "'h mii_bus \<Rightarrow> switch_attr_info \<Rightarrow> switch_val \<Rightarrow> ('h rtl_priv, switch_val) io" where
  "rtl_get_vlan B attr v = bindE (rtl_get B RTL_REG_VLAN_ENABLE) (\<lambda>x. retE (v\<lparr>val_i := ucast x\<rparr>))"

text \<open>
  The entries of the list with their positions: the position is compared with the number of the CPU
  port. A shift by 32 or more is undefined.
\<close>

definition set_port_member :: "'h mii_bus \<Rightarrow> nat \<Rightarrow> nat \<Rightarrow> switch_port \<Rightarrow> u32 \<Rightarrow> ('h rtl_priv, u32) io" where
  "set_port_member B vlan i p m s =
    (let n = unat (port_id p);
         tg = i = rp_cpu_port s \<or> port_flags p AND BIT SWITCH_PORT_FLAG_TAGGED \<noteq> 0
     in if n \<ge> 32 then (Inl BUF_OVERRUN, s)
        else if n = rp_cpu_port s then (Inr (m OR BIT n), s)
        else bindE (if tg then retE () else rtl_set B (RTL_PORT_REG n PVID) (of_nat vlan)) (\<lambda>_.
             bindE (rtl_set B (RTL_PORT_REG n NON_PVID_DISCARD) (if tg then 0 else 1)) (\<lambda>_.
             bindE (rtl_set B (RTL_PORT_REG n VID_INSERT) (if tg then 0 else 1)) (\<lambda>_.
             bindE (rtl_set B (RTL_PORT_REG n TAG_INSERT) (if tg then 2 else 1)) (\<lambda>_.
             retE (m OR BIT n))))) s)"

primrec set_members_loop :: "'h mii_bus \<Rightarrow> nat \<Rightarrow> nat \<Rightarrow> switch_port list \<Rightarrow> u32 \<Rightarrow> ('h rtl_priv, u32) io" where
  "set_members_loop B vlan i [] m = retE m"
| "set_members_loop B vlan i (p # ps) m =
    bindE (set_port_member B vlan i p m) (\<lambda>m. set_members_loop B vlan (Suc i) ps m)"

definition fix_removed_port :: "'h mii_bus \<Rightarrow> nat \<Rightarrow> u32 \<Rightarrow> nat \<Rightarrow> ('h rtl_priv, unit) io" where
  "fix_removed_port B vlan oldmask i s =
    (if oldmask AND BIT i = 0 then (Inr (), s)
     else if i = rp_cpu_port s then (Inr (), s)
     else bindE (rtl_get B (RTL_PORT_REG i PVID)) (\<lambda>pv.
          if unat pv = vlan then rtl_set B (RTL_PORT_REG i PVID) (of_nat (RTL8306_NUM_VLANS - 1)) else retE ()) s)"

definition rtl_set_ports :: "'h mii_bus \<Rightarrow> switch_val \<Rightarrow> ('h rtl_priv, unit) io" where
  "rtl_set_ports B v =
    (let vlan = unat (port_vlan v)
     in bindE (set_members_loop B vlan 0 (take (val_len v) (val_ports v)) 0) (\<lambda>m.
        bindE (rtl_get B (RTL_VLAN_REG vlan PORTMASK)) (\<lambda>oldmask.
        bindE (rtl_set B (RTL_VLAN_REG vlan PORTMASK) m) (\<lambda>_.
        forE [0..<RTL8306_NUM_PORTS] (fix_removed_port B vlan (ucast oldmask AND NOT m))))))"

section \<open>Tables\<close>

definition with_reg :: "nat \<Rightarrow> 's switch_attr \<Rightarrow> 's switch_attr" where
  "with_reg n a = a\<lparr>attr_info := (attr_info a)\<lparr>attr_id := int n\<rparr>\<rparr>"

definition rtl_globals :: "'h mii_bus \<Rightarrow> ('h rtl_priv) switch_attr list" where
  "rtl_globals B = [
    mk_attr SWITCH_TYPE_INT ''enable_vlan'' ''Enable VLAN mode'' 1 0 (Some (rtl_set_vlan B)) (Some (rtl_get_vlan B)),
    with_reg RTL_REG_EN_TRUNK (mk_attr SWITCH_TYPE_INT ''trunk'' ''Enable port trunking'' 1 0
      (Some (rtl_attr_set_int B)) (Some (rtl_attr_get_int B))),
    with_reg RTL_REG_TRUNK_PORTSEL (mk_attr SWITCH_TYPE_INT ''trunk_sel''
      ''Select ports for trunking (0: 0,1 - 1: 3,4)'' 1 0
      (Some (rtl_attr_set_int B)) (Some (rtl_attr_get_int B)))]"

definition rtl_port :: "'h mii_bus \<Rightarrow> ('h rtl_priv) switch_attr list" where
  "rtl_port B = [
    with_reg (RTL_PORT_REG 0 PVID) (mk_attr SWITCH_TYPE_INT ''pvid'' ''Port VLAN ID'' (int RTL8306_NUM_VLANS - 1) 12
      (Some (rtl_attr_set_port_int B)) (Some (rtl_attr_get_port_int B)))]"

definition rtl_vlan :: "'h mii_bus \<Rightarrow> ('h rtl_priv) switch_attr list" where
  "rtl_vlan B = [
    with_reg (RTL_VLAN_REG 0 VID) (mk_attr SWITCH_TYPE_INT ''vid'' ''VLAN ID (1-4095)'' 4095 2
      (Some (rtl_attr_set_vlan_int B)) (Some (rtl_attr_get_vlan_int B)))]"

definition rtl8306_ops :: "'h mii_bus \<Rightarrow> ('h rtl_priv) switch_dev_ops" where
  "rtl8306_ops B = \<lparr>attr_global = rtl_globals B, attr_port = rtl_port B, attr_vlan = rtl_vlan B,
     get_vlan_ports = Some (rtl_get_ports B), set_vlan_ports = Some (rtl_set_ports B),
     get_port_pvid = None, set_port_pvid = None,
     apply_config = Some (rtl_hw_apply B), reset_switch = Some (rtl_reset B),
     get_port_link = Some (rtl_get_port_link B), set_port_link = None, get_port_stats = None,
     phy_read16 = None, phy_write16 = None\<rparr>"

section \<open>Life cycle\<close>

text \<open>
  The private data behind \<open>pdev->priv\<close>, with the id of its switch once it is registered, and one PHY
  device with the kernel state that the driver changes. \<open>rw_hw\<close> is the chip, which the PHY devices
  of the bus share.
\<close>

datatype 'h rtl_ptr = RtlNone | RtlLive "'h rtl_priv" "u32 option" | RtlFreed

datatype rtl_chip_type = RTL_TYPE_S | RTL_TYPE_SD | RTL_TYPE_SDM

record 'h rtl_world =
  rw_addr :: nat
  rw_ident :: u32
  rw_priv :: "'h rtl_ptr"
  rw_type :: rtl_chip_type
  rw_speed :: nat
  rw_full_duplex :: bool
  rw_link :: bool
  rw_running :: bool
  rw_blocks :: nat
  rw_switches :: "('h rtl_priv) registry"
  rw_hw :: 'h

text \<open>An operation of the driver on the private data of the device.\<close>

definition on_priv :: "('h rtl_priv, 'a) io \<Rightarrow> ('h rtl_world, 'a) io" where
  "on_priv m w =
    (case rw_priv w of
       RtlNone \<Rightarrow> (Inl NULL_DEREF, w)
     | RtlFreed \<Rightarrow> (Inl USE_AFTER_FREE, w)
     | RtlLive p n \<Rightarrow>
         (let (r, p) = m (p\<lparr>rp_hw := rw_hw w\<rparr>) in (r, w\<lparr>rw_priv := RtlLive p n, rw_hw := rp_hw p\<rparr>)))"

text \<open>The field of the chip type has two bits, so that the \<open>default\<close> branch is never taken.\<close>

definition chip_type :: "u16 \<Rightarrow> rtl_chip_type" where
  "chip_type n = (if n = 1 then RTL_TYPE_SD else if n = 3 then RTL_TYPE_SDM else RTL_TYPE_S)"

definition chip_name :: "rtl_chip_type \<Rightarrow> string" where
  "chip_name t = (case t of RTL_TYPE_S \<Rightarrow> ''RTL8306S'' | RTL_TYPE_SD \<Rightarrow> ''RTL8306SD'' | RTL_TYPE_SDM \<Rightarrow> ''RTL8306SDM'')"

definition rtl8306_sw_dev :: "'h mii_bus \<Rightarrow> rtl_chip_type \<Rightarrow> string \<Rightarrow> ('h rtl_priv) switch_dev" where
  "rtl8306_sw_dev B t parent = \<lparr>dev_ops = rtl8306_ops B, devname = [], dev_name = chip_name t,
     dev_alias = parent, dev_ports = of_nat RTL8306_NUM_PORTS, dev_vlans = of_nat RTL8306_NUM_VLANS,
     dev_cpu_port = of_nat RTL8306_PORT_CPU, dev_id = 0, def_global = 0, def_port = 0, def_vlan = 0, portmap = []\<rparr>"

text \<open>
  The list \<open>phydevs\<close> is searched for an instance on the same bus, but no function adds to it:
  every device gets an instance of its own. The fresh instance is zero.
\<close>

definition rtl8306_probe :: "bool \<Rightarrow> ('h rtl_world, unit) io" where
  "rtl8306_probe kz w =
    (if \<not> kz then (Inl ENOMEM, w)
     else (Inr (), w\<lparr>rw_blocks := rw_blocks w + 1,
       rw_priv := RtlLive \<lparr>rp_page = Some 0, rp_fixup = False, rp_do_cpu = False, rp_cpu_port = 0, rp_hw = rw_hw w\<rparr> None\<rparr>))"

definition init_priv :: "('h rtl_priv, unit) io" where
  "init_priv p = (Inr (), p\<lparr>rp_cpu_port := RTL8306_PORT_CPU, rp_do_cpu := False, rp_page := None\<rparr>)"

definition init_chip :: "'h mii_bus \<Rightarrow> ('h rtl_priv, rtl_chip_type) io" where
  "init_chip B =
    bindE (rtl_get B RTL_REG_CHIPID) (\<lambda>chipid.
    bindE (rtl_get B RTL_REG_CHIPVER) (\<lambda>chipver.
    bindE (rtl_get B RTL_REG_CHIPTYPE) (\<lambda>chiptype.
    bindE (rtl_hw_init B) (\<lambda>_. retE (chip_type chiptype)))))"

definition rtl8306_config_init ::
  "'h mii_bus \<Rightarrow> nat \<Rightarrow> bool \<Rightarrow> bool \<Rightarrow> errno option \<Rightarrow> of_port list \<Rightarrow> string \<Rightarrow> ('h rtl_world, unit) io" where
  "rtl8306_config_init B mx a1 a2 led nodes parent w =
    (if rw_addr w \<noteq> 0 then (Inr (), w)
     else bindE (on_priv (bindE init_priv (\<lambda>_. init_chip B))) (\<lambda>t w.
          case register_switch mx a1 a2 led nodes (rtl8306_sw_dev B t parent) (rw_switches w) of
            (Inl e, r) \<Rightarrow> (Inl e, w\<lparr>rw_type := t, rw_switches := r, rw_priv := RtlFreed, rw_blocks := rw_blocks w - 1\<rparr>)
          | (Inr dev, r) \<Rightarrow>
              (Inr (), w\<lparr>rw_type := t, rw_switches := r,
                 rw_priv := (case rw_priv w of RtlLive p n \<Rightarrow> RtlLive p (Some (dev_id dev)) | q \<Rightarrow> q)\<rparr>)) w)"

text \<open>The instance of the fixup never selects a page.\<close>

definition rtl8306_fixup :: "'h mii_bus \<Rightarrow> ('h rtl_world, unit) io" where
  "rtl8306_fixup B w =
    (if rw_addr w \<noteq> 0 \<and> rw_addr w \<noteq> 4 then (Inr (), w)
     else case rtl_get B RTL_REG_CHIPID
            \<lparr>rp_page = None, rp_fixup = True, rp_do_cpu = False, rp_cpu_port = 0, rp_hw = rw_hw w\<rparr> of
            (Inl e, p) \<Rightarrow> (Inl e, w\<lparr>rw_hw := rp_hw p\<rparr>)
          | (Inr chipid, p) \<Rightarrow>
              (Inr (), w\<lparr>rw_hw := rp_hw p, rw_ident := (if chipid = 0x5988 then RTL8306_MAGIC else rw_ident w)\<rparr>))"

text \<open>Taking a switch off the list that was never put on it follows null pointers.\<close>

definition rtl8306_remove :: "('h rtl_world, unit) io" where
  "rtl8306_remove w =
    (case rw_priv w of
       RtlNone \<Rightarrow> (Inl NULL_DEREF, w)
     | RtlFreed \<Rightarrow> (Inl USE_AFTER_FREE, w)
     | RtlLive p None \<Rightarrow> (Inl NULL_DEREF, w)
     | RtlLive p (Some n) \<Rightarrow>
         (Inr (), w\<lparr>rw_switches := unregister_switch n (rw_switches w), rw_priv := RtlFreed, rw_blocks := rw_blocks w - 1\<rparr>))"

definition rtl8306_config_aneg :: "'h mii_bus \<Rightarrow> ('h rtl_world, unit) io" where
  "rtl8306_config_aneg B w =
    (if rw_addr w = 0 then (Inr (), w)
     else on_priv (bindE (rtl_set B (RTL_PORT_REG 4 NWAY) 1) (\<lambda>_. rtl_set B (RTL_PORT_REG 4 NRESTART) 1)) w)"

definition rtl8306_read_status :: "'h mii_bus \<Rightarrow> ('h rtl_world, unit) io" where
  "rtl8306_read_status B w =
    bindE (if rw_addr w = 4
           then bindE (on_priv (rtl_get B (RTL_PORT_REG 4 SPEED))) (\<lambda>sp.
                bindE (on_priv (rtl_get B (RTL_PORT_REG 4 DUPLEX))) (\<lambda>du.
                bindE (on_priv (rtl_get B (RTL_PORT_REG 4 LINK))) (\<lambda>l w.
                (Inr (), w\<lparr>rw_speed := (if sp \<noteq> 0 then 100 else 10), rw_full_duplex := (du \<noteq> 0), rw_link := (l \<noteq> 0)\<rparr>))))
           else (\<lambda>w. (Inr (), w\<lparr>rw_speed := 100, rw_full_duplex := True, rw_link := True\<rparr>)))
      (\<lambda>_ w. (Inr (), w\<lparr>rw_running := rw_link w\<rparr>)) w"

end
