(* ===== verification/Rtl8306_Fields.thy ===== *)
theory Rtl8306_Fields
  imports Rtl8306
begin

text \<open>
  The fields of the RTL8306 as independent variables. The hypothesis on the chip is that its registers
  hold what was written last, in four pages that the page register selects, apart from a set of
  volatile registers that any access may change: the control and status registers of the PHYs change with
  the link, and a comment of the driver says that accesses to register 22 of ports 4 and 5 disturb the PHY
  status of the port. The table of fields
  is such that no two fields share a bit and no field touches the bits of the page selection.
\<close>

section \<open>Pages\<close>

definition page_of :: "u16 \<Rightarrow> nat" where
  "page_of w = (if bit w 15 then 1 else 0) + (if bit w 1 then 0 else 2)"

text \<open>\<open>regs h p (phy, reg)\<close>: a register of page \<open>p\<close>. The page register is the same in all pages.\<close>

definition paged_registers :: "'h mii_bus \<Rightarrow> ('h \<Rightarrow> nat \<Rightarrow> nat \<times> nat \<Rightarrow> u16) \<Rightarrow> bool" where
  "paged_registers B regs \<longleftrightarrow>
     (\<forall>h p. regs h p (0, RTL8306_REG_PAGE) = regs h 0 (0, RTL8306_REG_PAGE))
     \<and> (\<forall>h phy reg. fst (bus_read B phy reg h) = regs h (page_of (regs h 0 (0, RTL8306_REG_PAGE))) (phy, reg)
          \<and> regs (snd (bus_read B phy reg h)) = regs h)
     \<and> (\<forall>h phy reg v p a. regs (bus_write B phy reg v h) p a =
          (if a = (phy, reg) \<and> (a = (0, RTL8306_REG_PAGE) \<or> p = page_of (regs h 0 (0, RTL8306_REG_PAGE)))
           then v else regs h p a))"

text \<open>The same with volatile registers \<open>V\<close>, of which nothing is said after an access.\<close>

definition steady_registers :: "'h mii_bus \<Rightarrow> ('h \<Rightarrow> nat \<Rightarrow> nat \<times> nat \<Rightarrow> u16) \<Rightarrow> (nat \<times> nat) set \<Rightarrow> bool" where
  "steady_registers B regs V \<longleftrightarrow> (0, RTL8306_REG_PAGE) \<notin> V
     \<and> (\<forall>h p. regs h p (0, RTL8306_REG_PAGE) = regs h 0 (0, RTL8306_REG_PAGE))
     \<and> (\<forall>h phy reg. fst (bus_read B phy reg h) = regs h (page_of (regs h 0 (0, RTL8306_REG_PAGE))) (phy, reg)
          \<and> (\<forall>p a. a \<notin> V \<longrightarrow> regs (snd (bus_read B phy reg h)) p a = regs h p a))
     \<and> (\<forall>h phy reg v p a. a \<notin> V \<longrightarrow> regs (bus_write B phy reg v h) p a =
          (if a = (phy, reg) \<and> (a = (0, RTL8306_REG_PAGE) \<or> p = page_of (regs h 0 (0, RTL8306_REG_PAGE)))
           then v else regs h p a))"

lemma paged_steady: "paged_registers B regs \<Longrightarrow> steady_registers B regs {}"
  by (simp add: paged_registers_def steady_registers_def)

section \<open>The table\<close>

definition reg_ok :: "rtl_reg \<Rightarrow> bool" where
  "reg_ok r \<longleftrightarrow> 0 < rr_bits r \<and> rr_shift r + rr_bits r \<le> 16 \<and> rr_page r < 4
     \<and> (rr_bits r = 16 \<longrightarrow> rr_shift r = 0)
     \<and> (rr_phy r = 0 \<and> rr_reg r = RTL8306_REG_PAGE \<longrightarrow> rr_page r = 0 \<and> 1 < rr_shift r \<and> rr_shift r + rr_bits r \<le> 15)"

definition apart :: "rtl_reg \<Rightarrow> rtl_reg \<Rightarrow> bool" where
  "apart r q \<longleftrightarrow> rr_reg r \<noteq> rr_reg q \<or> rr_phy r \<noteq> rr_phy q \<or> rr_page r \<noteq> rr_page q
     \<or> rr_shift r + rr_bits r \<le> rr_shift q \<or> rr_shift q + rr_bits q \<le> rr_shift r"

primrec all_apart :: "rtl_reg list \<Rightarrow> bool" where
  "all_apart [] \<longleftrightarrow> True"
| "all_apart (r # rs) \<longleftrightarrow> list_all (apart r) rs \<and> all_apart rs"

lemma length_rtl_regs [simp]: "length rtl_regs = 121"
  by code_simp

lemma rtl_regs_ok: "list_all reg_ok rtl_regs"
  by code_simp

lemma rtl_regs_apart: "all_apart rtl_regs"
  by code_simp

lemma all_apart_nth:
  "all_apart rs \<Longrightarrow> i < j \<Longrightarrow> j < length rs \<Longrightarrow> apart (rs ! i) (rs ! j)"
proof (induction rs arbitrary: i j)
  case (Cons r rs)
  then show ?case by (cases i; cases j) (auto simp: list_all_iff)
qed simp

lemma apart_sym: "apart r q \<longleftrightarrow> apart q r"
  by (auto simp: apart_def)

lemma fields_apart: "i < 121 \<Longrightarrow> j < 121 \<Longrightarrow> i \<noteq> j \<Longrightarrow> apart (rtl_regs ! i) (rtl_regs ! j)"
  using all_apart_nth [OF rtl_regs_apart, of i j] all_apart_nth [OF rtl_regs_apart, of j i]
  by (cases "i < j") (auto simp: apart_sym)

lemma field_ok: "i < 121 \<Longrightarrow> reg_ok (rtl_regs ! i)"
  using rtl_regs_ok by (simp add: list_all_length)

section \<open>One word\<close>

lemma bit_field_mask:
  "reg_ok r \<Longrightarrow> bit (field_mask r) k \<longleftrightarrow> rr_shift r \<le> k \<and> k < rr_shift r + rr_bits r"
proof -
  assume r: "reg_ok r"
  have full: "(0xFFFF :: u16) = mask 16" by (simp add: mask_eq_exp_minus_1)
  show ?thesis
    using r by (auto simp: field_mask_def full reg_ok_def bit_push_bit_iff bit_mask_iff)
qed

lemma bit_field_put:
  "reg_ok r \<Longrightarrow> bit (field_put r v) k \<longleftrightarrow>
     rr_shift r \<le> k \<and> k < rr_shift r + rr_bits r \<and> bit v (k - rr_shift r) \<noteq> rr_inverted r"
  by (auto simp: field_put_def Let_def bit_and_iff bit_ucast_iff bit_field_mask bit_push_bit_iff bit_not_iff reg_ok_def)

lemma bit_field_get:
  "reg_ok r \<Longrightarrow> bit (field_get r w) k \<longleftrightarrow> k < rr_bits r \<and> bit w (rr_shift r + k) \<noteq> rr_inverted r"
  by (auto simp: field_get_def Let_def bit_and_iff bit_drop_bit_eq bit_not_iff bit_mask_iff reg_ok_def)

definition field_write :: "rtl_reg \<Rightarrow> u32 \<Rightarrow> u16 \<Rightarrow> u16" where
  "field_write r v w = (w AND NOT (field_mask r)) OR field_put r v"

lemma bit_field_write:
  assumes "reg_ok r" "k < 16"
  shows "bit (field_write r v w) k \<longleftrightarrow>
    (if rr_shift r \<le> k \<and> k < rr_shift r + rr_bits r then bit v (k - rr_shift r) \<noteq> rr_inverted r else bit w k)"
  using assms by (auto simp: field_write_def bit_or_iff bit_and_iff bit_not_iff bit_field_mask bit_field_put)

lemma field_get_write:
  assumes "reg_ok r"
  shows "field_get r (field_write r v w) = ucast (take_bit (rr_bits r) v)"
proof (rule bit_word_eqI)
  fix k assume "k < LENGTH(16)"
  then show "bit (field_get r (field_write r v w)) k = bit (ucast (take_bit (rr_bits r) v) :: u16) k"
    using assms by (auto simp: bit_field_get bit_field_write bit_ucast_iff bit_take_bit_iff reg_ok_def)
qed

lemma field_get_write_other:
  assumes "reg_ok r" "reg_ok q"
    "rr_shift r + rr_bits r \<le> rr_shift q \<or> rr_shift q + rr_bits q \<le> rr_shift r"
  shows "field_get q (field_write r v w) = field_get q w"
proof (rule bit_word_eqI)
  fix k assume "k < LENGTH(16)"
  show "bit (field_get q (field_write r v w)) k = bit (field_get q w) k"
  proof (cases "k < rr_bits q")
    case True
    then have "rr_shift q + k < 16" using assms(2) by (simp add: reg_ok_def)
    then show ?thesis using assms True by (auto simp: bit_field_get bit_field_write)
  qed (simp add: bit_field_get assms(2))
qed

lemma page_of_write:
  assumes "reg_ok r" "rr_phy r = 0" "rr_reg r = RTL8306_REG_PAGE"
  shows "page_of (field_write r v w) = page_of w"
  using assms by (simp add: page_of_def bit_field_write reg_ok_def)

lemma bit_page_select:
  assumes "k < 16"
  shows "bit (page_select p w) k \<longleftrightarrow> (if k = 15 then bit p 0 else if k = 1 then \<not> bit p 1 else bit w k)"
proof -
  have one: "bit (push_bit n 1 :: u16) k \<longleftrightarrow> k = n" for n
    using assms unfolding bit_push_bit_iff bit_1_iff by auto
  define L H :: u16 where "L = 0x8000" and "H = 2"
  have lo: "bit L k \<longleftrightarrow> k = 15" and hi: "bit H k \<longleftrightarrow> k = 1"
    using one [of 15] one [of 1] by (simp_all add: L_def H_def)
  show ?thesis
    unfolding page_select_def Let_def L_def [symmetric] H_def [symmetric]
    using assms lo hi by (auto simp: bit_or_iff bit_and_iff bit_not_iff)
qed

lemma page_of_select: "p < 4 \<Longrightarrow> page_of (page_select p w) = p"
proof -
  assume "p < 4"
  then consider "p = 0" | "p = 1" | "p = 2" | "p = 3" by linarith
  then show ?thesis by cases (simp_all add: page_of_def bit_page_select bit_0)
qed

lemma field_get_select:
  assumes "reg_ok q" "rr_phy q = 0" "rr_reg q = RTL8306_REG_PAGE"
  shows "field_get q (page_select p w) = field_get q w"
proof (rule bit_word_eqI)
  fix k assume "k < LENGTH(16)"
  then show "bit (field_get q (page_select p w)) k = bit (field_get q w) k"
    using assms by (auto simp: bit_field_get bit_page_select reg_ok_def)
qed

section \<open>Fields as variables\<close>

definition field :: "('h \<Rightarrow> nat \<Rightarrow> nat \<times> nat \<Rightarrow> u16) \<Rightarrow> 'h \<Rightarrow> nat \<Rightarrow> u16" where
  "field regs h i = (let r = rtl_regs ! i in field_get r (regs h (rr_page r) (rr_phy r, rr_reg r)))"

text \<open>A driver instance that selects the page at every access.\<close>

definition selects :: "'h rtl_priv \<Rightarrow> bool" where
  "selects s \<longleftrightarrow> \<not> rp_fixup s \<and> rp_page s = None"

text \<open>The value that setting a field leaves in it.\<close>

definition trim :: "nat \<Rightarrow> u32 \<Rightarrow> u16" where
  "trim i v = ucast (take_bit (rr_bits (rtl_regs ! i)) v)"

text \<open>The fields outside the volatile registers.\<close>

definition kept :: "(nat \<times> nat) set \<Rightarrow> nat \<Rightarrow> bool" where
  "kept V i \<longleftrightarrow> (rr_phy (rtl_regs ! i), rr_reg (rtl_regs ! i)) \<notin> V"

lemma kept_empty [simp]: "kept {} i"
  by (simp add: kept_def)

locale rtl_chip =
  fixes B :: "'h mii_bus" and regs :: "'h \<Rightarrow> nat \<Rightarrow> nat \<times> nat \<Rightarrow> u16" and V :: "(nat \<times> nat) set"
  assumes steady: "steady_registers B regs V"
begin

definition cur_page :: "'h \<Rightarrow> nat" where
  "cur_page h = page_of (regs h 0 (0, RTL8306_REG_PAGE))"

lemma page_steady [simp]: "(0, RTL8306_REG_PAGE) \<notin> V"
  using steady unfolding steady_registers_def by blast

lemma regs_page: "regs h p (0, RTL8306_REG_PAGE) = regs h 0 (0, RTL8306_REG_PAGE)"
  using steady unfolding steady_registers_def by blast

lemma regs_read:
  "fst (bus_read B phy reg h) = regs h (cur_page h) (phy, reg)"
  "a \<notin> V \<Longrightarrow> regs (snd (bus_read B phy reg h)) p a = regs h p a"
  using steady unfolding steady_registers_def cur_page_def by blast+

lemma regs_write:
  "a \<notin> V \<Longrightarrow> regs (bus_write B phy reg v h) p a =
    (if a = (phy, reg) \<and> (a = (0, RTL8306_REG_PAGE) \<or> p = cur_page h) then v else regs h p a)"
  using steady unfolding steady_registers_def cur_page_def by blast

lemma set_page_run:
  assumes "selects s" "p < 4"
  obtains h where "rtl_set_page B p s = (Inr (), s\<lparr>rp_hw := h\<rparr>)" "cur_page h = p"
    "\<And>q a. a \<noteq> (0, RTL8306_REG_PAGE) \<Longrightarrow> a \<notin> V \<Longrightarrow> regs h q a = regs (rp_hw s) q a"
    "\<And>q. regs h q (0, RTL8306_REG_PAGE) = page_select p (regs (rp_hw s) 0 (0, RTL8306_REG_PAGE))"
proof -
  obtain v h1 where r: "bus_read B 0 RTL8306_REG_PAGE (rp_hw s) = (v, h1)" by fastforce
  have v: "v = regs (rp_hw s) 0 (0, RTL8306_REG_PAGE)" "\<And>q a. a \<notin> V \<Longrightarrow> regs h1 q a = regs (rp_hw s) q a"
    using regs_read(1) [of 0 RTL8306_REG_PAGE "rp_hw s"] regs_read(2) [of _ 0 RTL8306_REG_PAGE "rp_hw s"] r regs_page by auto
  let ?h = "bus_write B 0 RTL8306_REG_PAGE (page_select p v) h1"
  have run: "rtl_set_page B p s = (Inr (), s\<lparr>rp_hw := ?h\<rparr>)"
    using assms r by (simp add: rtl_set_page_def selects_def bindE_def bus_rd_def bus_wr_def)
  show thesis
    by (rule that [OF run]) (use assms in \<open>auto simp: cur_page_def regs_write v page_of_select\<close>)
qed

text \<open>Reading and writing one field, on the fields.\<close>

lemma field_page_select:
  assumes "\<And>q a. a \<noteq> (0, RTL8306_REG_PAGE) \<Longrightarrow> a \<notin> V \<Longrightarrow> regs h q a = regs h0 q a"
    "\<And>q. regs h q (0, RTL8306_REG_PAGE) = page_select p (regs h0 0 (0, RTL8306_REG_PAGE))" "i < 121" "kept V i"
  shows "field regs h i = field regs h0 i"
proof (cases "(rr_phy (rtl_regs ! i), rr_reg (rtl_regs ! i)) = (0, RTL8306_REG_PAGE)")
  case True
  then have a: "rr_phy (rtl_regs ! i) = 0" "rr_reg (rtl_regs ! i) = RTL8306_REG_PAGE" by auto
  have "field regs h0 i = field_get (rtl_regs ! i) (regs h0 0 (0, RTL8306_REG_PAGE))"
    using regs_page [of h0 "rr_page (rtl_regs ! i)"] by (simp add: field_def Let_def a)
  moreover have "field regs h i = field_get (rtl_regs ! i) (page_select p (regs h0 0 (0, RTL8306_REG_PAGE)))"
    by (simp add: field_def Let_def a assms(2))
  ultimately show ?thesis using field_get_select [OF field_ok [OF assms(3)] a] by simp
next
  case False
  then show ?thesis using assms(4) by (simp add: field_def Let_def assms(1) kept_def)
qed

lemma get_run:
  assumes "selects s" "i < 121"
  obtains x h where "rtl_get B i s = (Inr x, s\<lparr>rp_hw := h\<rparr>)" "kept V i \<Longrightarrow> x = field regs (rp_hw s) i"
    "\<And>j. j < 121 \<Longrightarrow> kept V j \<Longrightarrow> field regs h j = field regs (rp_hw s) j"
proof -
  let ?r = "rtl_regs ! i"
  have ok: "reg_ok ?r" by (rule field_ok [OF assms(2)])
  then have "rr_page ?r < 4" by (simp add: reg_ok_def)
  then obtain h1 where 1: "rtl_set_page B (rr_page ?r) s = (Inr (), s\<lparr>rp_hw := h1\<rparr>)" "cur_page h1 = rr_page ?r"
    "\<And>q a. a \<noteq> (0, RTL8306_REG_PAGE) \<Longrightarrow> a \<notin> V \<Longrightarrow> regs h1 q a = regs (rp_hw s) q a"
    "\<And>q. regs h1 q (0, RTL8306_REG_PAGE) = page_select (rr_page ?r) (regs (rp_hw s) 0 (0, RTL8306_REG_PAGE))"
    using set_page_run [OF assms(1)] by metis
  have f: "field regs h1 j = field regs (rp_hw s) j" if "j < 121" "kept V j" for j
    by (rule field_page_select [OF 1(3,4) that])
  obtain v h2 where 2: "bus_read B (rr_phy ?r) (rr_reg ?r) h1 = (v, h2)" by fastforce
  then have v: "v = regs h1 (rr_page ?r) (rr_phy ?r, rr_reg ?r)" "\<And>q a. a \<notin> V \<Longrightarrow> regs h2 q a = regs h1 q a"
    using regs_read(1) [of "rr_phy ?r" "rr_reg ?r" h1] regs_read(2) [of _ "rr_phy ?r" "rr_reg ?r" h1] 1(2) by auto
  have "rtl_get B i s = (Inr (field_get ?r v), s\<lparr>rp_hw := h2\<rparr>)"
    using assms ok by (simp add: rtl_get_def Let_def reg_ok_def rtl_r16_def bindE_def 1(1) bus_rd_def 2 retE_def)
  moreover have "field_get ?r v = field regs (rp_hw s) i" if "kept V i"
    using f [OF assms(2) that] by (simp add: field_def Let_def v(1))
  moreover have "field regs h2 j = field regs (rp_hw s) j" if "j < 121" "kept V j" for j
    using f [OF that] that(2) by (simp add: field_def Let_def v(2) kept_def)
  ultimately show thesis using that by blast
qed

lemma set_run:
  assumes "selects s" "i < 121"
  obtains h where "rtl_set B i v s = (Inr (), s\<lparr>rp_hw := h\<rparr>)"
    "\<And>j. j < 121 \<Longrightarrow> kept V j \<Longrightarrow> field regs h j = (if j = i then trim i v else field regs (rp_hw s) j)"
proof -
  let ?r = "rtl_regs ! i"
  have ok: "reg_ok ?r" by (rule field_ok [OF assms(2)])
  then have "rr_page ?r < 4" by (simp add: reg_ok_def)
  then obtain h1 where 1: "rtl_set_page B (rr_page ?r) s = (Inr (), s\<lparr>rp_hw := h1\<rparr>)" "cur_page h1 = rr_page ?r"
    "\<And>q a. a \<noteq> (0, RTL8306_REG_PAGE) \<Longrightarrow> a \<notin> V \<Longrightarrow> regs h1 q a = regs (rp_hw s) q a"
    "\<And>q. regs h1 q (0, RTL8306_REG_PAGE) = page_select (rr_page ?r) (regs (rp_hw s) 0 (0, RTL8306_REG_PAGE))"
    using set_page_run [OF assms(1)] by metis
  have f: "field regs h1 j = field regs (rp_hw s) j" if "j < 121" "kept V j" for j
    by (rule field_page_select [OF 1(3,4) that])
  obtain w h2 where 2: "bus_read B (rr_phy ?r) (rr_reg ?r) h1 = (w, h2)" by fastforce
  then have w: "w = regs h1 (rr_page ?r) (rr_phy ?r, rr_reg ?r)" "\<And>q a. a \<notin> V \<Longrightarrow> regs h2 q a = regs h1 q a"
    using regs_read(1) [of "rr_phy ?r" "rr_reg ?r" h1] regs_read(2) [of _ "rr_phy ?r" "rr_reg ?r" h1] 1(2) by auto
  let ?h3 = "bus_write B (rr_phy ?r) (rr_reg ?r) (field_write ?r v w) h2"
  obtain x h4 where 4: "bus_read B (rr_phy ?r) (rr_reg ?r) ?h3 = (x, h4)" by fastforce
  then have h4: "regs h4 q a = regs ?h3 q a" if "a \<notin> V" for q a
    using regs_read(2) [OF that, of "rr_phy ?r" "rr_reg ?r" ?h3] by simp
  have run: "rtl_set B i v s = (Inr (), s\<lparr>rp_hw := h4\<rparr>)"
    using assms ok 4 by (simp add: rtl_set_def Let_def reg_ok_def rtl_rmw_def bindE_def 1(1) bus_rd_def bus_wr_def 2 retE_def
        field_write_def)
  have cur: "cur_page h2 = rr_page ?r" using 1(2) by (simp add: cur_page_def w(2))
  have "field regs h4 j = (if j = i then trim i v else field regs (rp_hw s) j)" if j: "j < 121" "kept V j" for j
  proof (cases "j = i")
    case True
    have "regs h4 (rr_page ?r) (rr_phy ?r, rr_reg ?r) = field_write ?r v w"
      using j(2) True by (simp add: h4 regs_write cur kept_def)
    then show ?thesis by (simp add: True field_def Let_def field_get_write [OF ok] trim_def)
  next
    case False
    let ?q = "rtl_regs ! j"
    have q: "reg_ok ?q" and kq: "(rr_phy ?q, rr_reg ?q) \<notin> V" using field_ok [OF j(1)] j(2) by (simp_all add: kept_def)
    have "apart ?r ?q" using fields_apart [OF assms(2) j(1)] False by simp
    then have "field_get ?q (regs h4 (rr_page ?q) (rr_phy ?q, rr_reg ?q)) =
        field_get ?q (regs h1 (rr_page ?q) (rr_phy ?q, rr_reg ?q))"
      using ok q kq by (auto simp: h4 regs_write cur w apart_def reg_ok_def field_get_write_other [OF ok q])
    then show ?thesis using f [OF j] False by (simp add: field_def Let_def)
  qed
  then show thesis by (rule that [OF run])
qed

end

end
