(* ===== verification/Rtl8306_Spec.thy ===== *)
theory Rtl8306_Spec
  imports Rtl8306_Fields
begin

text \<open>
  The operations of the RTL8306 driver as functions on the fields, by weakest preconditions:
  \<open>wp m F Q\<close> says that \<open>m\<close>, started with fields \<open>F\<close>, succeeds and ends with a result and
  fields that satisfy \<open>Q\<close>. The fields in the volatile registers \<open>V\<close> of the chip are left
  out of the correspondence. The rules follow the structure of the code.
\<close>

type_synonym fields = "nat \<Rightarrow> u16"

definition sim :: "('h \<Rightarrow> nat \<Rightarrow> nat \<times> nat \<Rightarrow> u16) \<Rightarrow> (nat \<times> nat) set \<Rightarrow> nat \<Rightarrow> bool \<Rightarrow> fields \<Rightarrow> 'h rtl_priv \<Rightarrow> bool" where
  "sim regs V cpu d F s \<longleftrightarrow> selects s \<and> rp_cpu_port s = cpu \<and> rp_do_cpu s = d
     \<and> (\<forall>j < 121. kept V j \<longrightarrow> field regs (rp_hw s) j = F j)"

definition wp :: "('h \<Rightarrow> nat \<Rightarrow> nat \<times> nat \<Rightarrow> u16) \<Rightarrow> (nat \<times> nat) set \<Rightarrow> nat \<Rightarrow> bool \<Rightarrow> ('h rtl_priv, 'a) io
    \<Rightarrow> fields \<Rightarrow> ('a \<Rightarrow> fields \<Rightarrow> bool) \<Rightarrow> bool" where
  "wp regs V cpu d m F Q \<longleftrightarrow>
    (\<forall>s. sim regs V cpu d F s \<longrightarrow> (\<exists>x s' F'. m s = (Inr x, s') \<and> sim regs V cpu d F' s' \<and> Q x F'))"

named_theorems wp_rules "weakest preconditions"

lemma wpD:
  assumes "wp regs V cpu d m F Q" "sim regs V cpu d F s"
  obtains x s' F' where "m s = (Inr x, s')" "sim regs V cpu d F' s'" "Q x F'"
  using assms unfolding wp_def by blast

lemma wp_retE [wp_rules]: "Q x F \<Longrightarrow> wp regs V cpu d (retE x) F Q"
  by (auto simp: wp_def retE_def)

lemma wp_bindE [wp_rules]:
  assumes "wp regs V cpu d m F (\<lambda>x F'. wp regs V cpu d (k x) F' Q)"
  shows "wp regs V cpu d (bindE m k) F Q"
proof (unfold wp_def, intro allI impI)
  fix s assume "sim regs V cpu d F s"
  then obtain x s1 F1 where 1: "m s = (Inr x, s1)" "sim regs V cpu d F1 s1" "wp regs V cpu d (k x) F1 Q"
    by (rule wpD [OF assms])
  then obtain y s2 F2 where "k x s1 = (Inr y, s2)" "sim regs V cpu d F2 s2" "Q y F2"
    using wpD by meson
  then show "\<exists>y s' F'. bindE m k s = (Inr y, s') \<and> sim regs V cpu d F' s' \<and> Q y F'"
    using 1 by (auto simp: bindE_def)
qed

lemma wp_mono: "wp regs V cpu d m F Q \<Longrightarrow> (\<And>x F'. Q x F' \<Longrightarrow> R x F') \<Longrightarrow> wp regs V cpu d m F R"
  unfolding wp_def by meson

lemma wp_if [wp_rules]:
  "(c \<Longrightarrow> wp regs V cpu d m F Q) \<Longrightarrow> (\<not> c \<Longrightarrow> wp regs V cpu d m' F Q) \<Longrightarrow> wp regs V cpu d (if c then m else m') F Q"
  by simp

lemma wp_forE:
  assumes "\<And>i F. i < n \<Longrightarrow> I i F \<Longrightarrow> wp regs V cpu d (m i) F (\<lambda>_. I (Suc i))" "I 0 F" "\<And>F. I n F \<Longrightarrow> Q () F"
  shows "wp regs V cpu d (forE [0..<n] m) F Q"
proof -
  have "wp regs V cpu d (forE [0..<k] m) F (\<lambda>_. I k)" if "k \<le> n" for k
    using that
  proof (induction k)
    case (Suc k)
    then have "wp regs V cpu d (forE [0..<k] m) F (\<lambda>_ F. wp regs V cpu d (m k) F (\<lambda>_. I (Suc k)))"
      using assms(1) by (intro wp_mono [OF Suc.IH]) auto
    then show ?case by (simp add: forE_snoc wp_bindE)
  qed (use assms(2) in \<open>simp add: wp_retE\<close>)
  then show ?thesis by (rule wp_mono) (use assms(3) in auto)
qed

text \<open>Operations that read the constant part of the state.\<close>

lemma wp_state:
  assumes "\<And>s. rp_cpu_port s = cpu \<Longrightarrow> rp_do_cpu s = d \<Longrightarrow> m s = m' s" "wp regs V cpu d m' F Q"
  shows "wp regs V cpu d m F Q"
  using assms unfolding wp_def sim_def by metis

lemma field_fits: "i < 121 \<Longrightarrow> trim i (ucast (field regs h i)) = field regs h i"
  unfolding trim_def
proof (rule bit_word_eqI)
  fix k assume "i < 121" "k < LENGTH(16)"
  then show "bit (ucast (take_bit (rr_bits (rtl_regs ! i)) (ucast (field regs h i) :: u32)) :: u16) k = bit (field regs h i) k"
    by (auto simp: field_def Let_def bit_field_get [OF field_ok] bit_ucast_iff bit_take_bit_iff)
qed

lemma sim_fits: "sim regs V cpu d F s \<Longrightarrow> i < 121 \<Longrightarrow> kept V i \<Longrightarrow> trim i (ucast (F i)) = F i"
  using field_fits by (metis sim_def)

lemma wp_fits:
  assumes "(\<And>i. i < 121 \<Longrightarrow> kept V i \<Longrightarrow> trim i (ucast (F i)) = F i) \<Longrightarrow> wp regs V cpu d m F Q"
  shows "wp regs V cpu d m F Q"
  using assms sim_fits unfolding wp_def by blast

context rtl_chip begin

lemma wp_get_any:
  assumes i: "i < 121" and Q: "\<And>x. (kept V i \<Longrightarrow> x = F i) \<Longrightarrow> Q x F"
  shows "wp regs V cpu d (rtl_get B i) F Q"
proof (unfold wp_def, intro allI impI)
  fix s assume sim: "sim regs V cpu d F s"
  then have sel: "selects s" and F: "\<And>j. j < 121 \<Longrightarrow> kept V j \<Longrightarrow> field regs (rp_hw s) j = F j" by (auto simp: sim_def)
  obtain x h where run: "rtl_get B i s = (Inr x, s\<lparr>rp_hw := h\<rparr>)" "kept V i \<Longrightarrow> x = field regs (rp_hw s) i"
    "\<And>j. j < 121 \<Longrightarrow> kept V j \<Longrightarrow> field regs h j = field regs (rp_hw s) j"
    using get_run [OF sel i] by metis
  have "Q x F" by (rule Q) (use run(2) F [OF i] in simp)
  then show "\<exists>x s' F'. rtl_get B i s = (Inr x, s') \<and> sim regs V cpu d F' s' \<and> Q x F'"
    using run(1,3) sim by (intro exI [of _ x] exI [of _ "s\<lparr>rp_hw := h\<rparr>"] exI [of _ F]) (simp add: sim_def selects_def)
qed

lemma wp_get [wp_rules]: "i < 121 \<Longrightarrow> kept V i \<Longrightarrow> Q (F i) F \<Longrightarrow> wp regs V cpu d (rtl_get B i) F Q"
  by (rule wp_get_any) auto

lemma wp_set [wp_rules]: "i < 121 \<Longrightarrow> Q () (F(i := trim i v)) \<Longrightarrow> wp regs V cpu d (rtl_set B i v) F Q"
proof (unfold wp_def, intro allI impI)
  fix s assume i: "i < 121" and Q: "Q () (F(i := trim i v))" and sim: "sim regs V cpu d F s"
  then have sel: "selects s" by (auto simp: sim_def)
  obtain h where "rtl_set B i v s = (Inr (), s\<lparr>rp_hw := h\<rparr>)"
    "\<And>j. j < 121 \<Longrightarrow> kept V j \<Longrightarrow> field regs h j = (if j = i then trim i v else field regs (rp_hw s) j)"
    using set_run [OF sel i] by metis
  then show "\<exists>x s' F'. rtl_set B i v s = (Inr x, s') \<and> sim regs V cpu d F' s' \<and> Q x F'"
    using sim Q by (intro exI [of _ "()"] exI [of _ "s\<lparr>rp_hw := h\<rparr>"] exI [of _ "F(i := trim i v)"])
      (simp add: sim_def selects_def)
qed

text \<open>A volatile field is not tracked.\<close>

lemma wp_set_volatile: "i < 121 \<Longrightarrow> \<not> kept V i \<Longrightarrow> Q () F \<Longrightarrow> wp regs V cpu d (rtl_set B i v) F Q"
proof (unfold wp_def, intro allI impI)
  fix s assume i: "i < 121" "\<not> kept V i" and Q: "Q () F" and sim: "sim regs V cpu d F s"
  then have sel: "selects s" by (auto simp: sim_def)
  obtain h where "rtl_set B i v s = (Inr (), s\<lparr>rp_hw := h\<rparr>)"
    "\<And>j. j < 121 \<Longrightarrow> kept V j \<Longrightarrow> field regs h j = (if j = i then trim i v else field regs (rp_hw s) j)"
    using set_run [OF sel i(1)] by metis
  then show "\<exists>x s' F'. rtl_set B i v s = (Inr x, s') \<and> sim regs V cpu d F' s' \<and> Q x F'"
    using sim Q i(2) by (intro exI [of _ "()"] exI [of _ "s\<lparr>rp_hw := h\<rparr>"] exI [of _ F]) (auto simp: sim_def selects_def)
qed

end

section \<open>Indices\<close>

lemma port_reg_less: "i < 6 \<Longrightarrow> RTL_PORT_REG i f < 121"
  by (cases f) (simp_all add: RTL_PORT_REG_def port_field_nr_def)

lemma vlan_reg_less: "i < 16 \<Longrightarrow> RTL_VLAN_REG i f < 121"
  by (cases f) (simp_all add: RTL_VLAN_REG_def vlan_field_nr_def)

lemma vlan_reg_range: "i < 16 \<Longrightarrow> 17 \<le> RTL_VLAN_REG i f \<and> RTL_VLAN_REG i f < 49"
  by (cases f) (simp_all add: RTL_VLAN_REG_def vlan_field_nr_def)

lemma port_reg_range: "49 \<le> RTL_PORT_REG i f"
  by (simp add: RTL_PORT_REG_def)

lemma port_reg_eq [simp]: "RTL_PORT_REG i f = RTL_PORT_REG j g \<longleftrightarrow> i = j \<and> f = g"
proof -
  have n: "port_field_nr f < 12" "port_field_nr g < 12" by (cases f, simp_all add: port_field_nr_def) (cases g, simp_all add: port_field_nr_def)
  have inj: "port_field_nr f = port_field_nr g \<Longrightarrow> f = g" by (cases f; cases g) (simp_all add: port_field_nr_def)
  have "port_field_nr f + i * 12 = port_field_nr g + j * 12 \<Longrightarrow> i = j \<and> port_field_nr f = port_field_nr g"
    using n by presburger
  then show ?thesis using inj by (auto simp: RTL_PORT_REG_def)
qed

lemma vlan_reg_eq [simp]: "RTL_VLAN_REG i f = RTL_VLAN_REG j g \<longleftrightarrow> i = j \<and> f = g"
proof -
  have n: "vlan_field_nr f < 2" "vlan_field_nr g < 2" by (cases f, simp_all add: vlan_field_nr_def) (cases g, simp_all add: vlan_field_nr_def)
  have inj: "vlan_field_nr f = vlan_field_nr g \<Longrightarrow> f = g" by (cases f; cases g) (simp_all add: vlan_field_nr_def)
  have "vlan_field_nr f + i * 2 = vlan_field_nr g + j * 2 \<Longrightarrow> i = j \<and> vlan_field_nr f = vlan_field_nr g"
    using n by presburger
  then show ?thesis using inj by (auto simp: RTL_VLAN_REG_def)
qed

lemma vlan_port_reg [simp]: "i < 16 \<Longrightarrow> RTL_VLAN_REG i f \<noteq> RTL_PORT_REG j g" "i < 16 \<Longrightarrow> RTL_PORT_REG j g \<noteq> RTL_VLAN_REG i f"
  using vlan_reg_range [of i f] port_reg_range [of j g] by auto

lemma global_reg [simp]:
  "n < 17 \<Longrightarrow> n \<noteq> RTL_PORT_REG j g" "n < 17 \<Longrightarrow> RTL_PORT_REG j g \<noteq> n"
  "n < 17 \<Longrightarrow> n \<noteq> RTL_VLAN_REG i f" "n < 17 \<Longrightarrow> RTL_VLAN_REG i f \<noteq> n"
  by (auto simp: RTL_PORT_REG_def RTL_VLAN_REG_def)

text \<open>The width of a field.\<close>

definition port_bits :: "rtl_port_field \<Rightarrow> nat" where
  "port_bits f = (case f of PVID \<Rightarrow> 4 | VID_INSERT \<Rightarrow> 2 | TAG_INSERT \<Rightarrow> 2 | _ \<Rightarrow> 1)"

definition vlan_bits :: "rtl_vlan_field \<Rightarrow> nat" where
  "vlan_bits f = (case f of VID \<Rightarrow> 12 | PORTMASK \<Rightarrow> 6)"

lemma field_widths:
  "list_all (\<lambda>i. list_all (\<lambda>f. rr_bits (rtl_regs ! RTL_PORT_REG i f) = port_bits f)
     [PVID, NULL_VID_REPLACE, NON_PVID_DISCARD, VID_INSERT, TAG_INSERT, LINK, SPEED, NWAY, NRESTART, DUPLEX, RXEN, TXEN]) [0..<6]"
  "list_all (\<lambda>i. list_all (\<lambda>f. rr_bits (rtl_regs ! RTL_VLAN_REG i f) = vlan_bits f) [VID, PORTMASK]) [0..<16]"
  "list_all (\<lambda>i. rr_bits (rtl_regs ! i) = 1) [4..<17]"
  by code_simp+

lemma port_reg_bits: "i < 6 \<Longrightarrow> rr_bits (rtl_regs ! RTL_PORT_REG i f) = port_bits f"
  using field_widths(1) by (cases f) (auto simp: list_all_iff)

lemma vlan_reg_bits: "i < 16 \<Longrightarrow> rr_bits (rtl_regs ! RTL_VLAN_REG i f) = vlan_bits f"
  using field_widths(2) by (cases f) (auto simp: list_all_iff)

lemma trim_port: "i < 6 \<Longrightarrow> trim (RTL_PORT_REG i f) v = ucast (take_bit (port_bits f) v)"
  by (simp add: trim_def port_reg_bits)

lemma trim_vlan: "i < 16 \<Longrightarrow> trim (RTL_VLAN_REG i f) v = ucast (take_bit (vlan_bits f) v)"
  by (simp add: trim_def vlan_reg_bits)

lemma trim_flag: "4 \<le> i \<Longrightarrow> i < 17 \<Longrightarrow> trim i v = ucast (take_bit 1 v)"
  using field_widths(3) [unfolded list_all_iff set_upt] by (simp add: trim_def)

text \<open>
  The control and status registers of the PHYs, 0 and 1: the fields outside them are kept by a chip
  that has no other volatile registers. The settings of a port are all in its register 0.
\<close>

definition phy_status :: "(nat \<times> nat) set" where
  "phy_status = {(phy, reg). reg \<le> 1}"

lemma field_registers:
  "list_all (\<lambda>i. 1 < rr_reg (rtl_regs ! i)) [0..<49]"
  "list_all (\<lambda>i. list_all (\<lambda>f. 1 < rr_reg (rtl_regs ! RTL_PORT_REG i f))
     [PVID, NULL_VID_REPLACE, NON_PVID_DISCARD, VID_INSERT, TAG_INSERT, RXEN, TXEN]) [0..<6]"
  "list_all (\<lambda>i. list_all (\<lambda>f. rr_phy (rtl_regs ! RTL_PORT_REG i f) = rr_phy (rtl_regs ! RTL_PORT_REG i NWAY)
     \<and> rr_reg (rtl_regs ! RTL_PORT_REG i f) = 0) [NWAY, SPEED, DUPLEX]) [0..<6]"
  by code_simp+

lemma kept_low: "V \<subseteq> phy_status \<Longrightarrow> i < 49 \<Longrightarrow> kept V i"
  using field_registers(1) [unfolded list_all_iff set_upt] by (force simp: kept_def phy_status_def)

lemma kept_vlan: "V \<subseteq> phy_status \<Longrightarrow> i < 16 \<Longrightarrow> kept V (RTL_VLAN_REG i f)"
  using vlan_reg_range [of i f] by (simp add: kept_low)

lemma kept_port:
  assumes "V \<subseteq> phy_status" "i < 6" "f \<in> {PVID, NULL_VID_REPLACE, NON_PVID_DISCARD, VID_INSERT, TAG_INSERT, RXEN, TXEN}"
  shows "kept V (RTL_PORT_REG i f)"
proof -
  have "1 < rr_reg (rtl_regs ! RTL_PORT_REG i f)" using field_registers(2) assms(2,3) by (auto simp: list_all_iff)
  then show ?thesis using assms(1) by (auto simp: kept_def phy_status_def)
qed

lemma kept_settings:
  assumes "i < 6"
  shows "kept V (RTL_PORT_REG i SPEED) = kept V (RTL_PORT_REG i NWAY)" "kept V (RTL_PORT_REG i DUPLEX) = kept V (RTL_PORT_REG i NWAY)"
  using field_registers(3) assms by (auto simp: list_all_iff kept_def)

section \<open>Applying and initialising\<close>

lemma trim_0 [simp]: "trim i 0 = 0"
  by (simp add: trim_def)

text \<open>Ports 0 to \<open>n - 1\<close> receive and transmit (or not); a port that is enabled negotiates again.\<close>

definition ports_enabled :: "nat \<Rightarrow> u16 \<Rightarrow> fields \<Rightarrow> fields \<Rightarrow> bool" where
  "ports_enabled n e F F' \<longleftrightarrow>
    (\<forall>i < n. F' (RTL_PORT_REG i RXEN) = e \<and> F' (RTL_PORT_REG i TXEN) = e)
    \<and> (\<forall>j < 121. (\<forall>i < n. j \<notin> RTL_PORT_REG i ` {RXEN, TXEN, NRESTART}) \<longrightarrow> F' j = F j)"

text \<open>
  The fields after an application: ports 0 to 4 enabled, the CPU port up; the negotiation and the reset
  are commands to the chip. Everything else is as before.
\<close>

definition applied :: "fields \<Rightarrow> fields \<Rightarrow> bool" where
  "applied F F' \<longleftrightarrow>
    (\<forall>i < 5. F' (RTL_PORT_REG i RXEN) = 1 \<and> F' (RTL_PORT_REG i TXEN) = 1) \<and> F' RTL_REG_CPU_LINKUP = 1
    \<and> (\<forall>j < 121. j \<noteq> RTL_REG_CPU_LINKUP \<and> j \<noteq> RTL_REG_RESET \<and> (\<forall>i < 5. j \<notin> RTL_PORT_REG i ` {RXEN, TXEN, NRESTART}) \<longrightarrow>
         F' j = F j)"

context rtl_chip begin

lemma wp_enable:
  assumes e: "e = 0 \<or> e = 1" and i: "i < 5" and I: "ports_enabled i (ucast e) F0 F"
  shows "wp regs V cpu d (rtl_port_set_enable B i e) F (\<lambda>_. ports_enabled (Suc i) (ucast e) F0)"
proof -
  have t: "trim (RTL_PORT_REG i f) e = ucast e" if "f = RXEN \<or> f = TXEN" for f
    using i e that by (auto simp: trim_port port_bits_def)
  show ?thesis
    unfolding rtl_port_set_enable_def
    by (intro wp_rules) (use i I in \<open>auto simp: ports_enabled_def less_Suc_eq t port_reg_less\<close>)
qed

lemma wp_enable_ports:
  assumes "e = 0 \<or> e = 1" "\<And>F'. ports_enabled 5 (ucast e) F F' \<Longrightarrow> Q () F'"
  shows "wp regs V cpu d (forE [0..<RTL8306_NUM_PORTS - 1] (\<lambda>i. rtl_port_set_enable B i e)) F Q"
  using wp_forE [of 5 "\<lambda>i. ports_enabled i (ucast e) F" regs V cpu d "\<lambda>i. rtl_port_set_enable B i e" F Q] assms
  by (auto simp: wp_enable ports_enabled_def)

lemma wp_reset_wait: "kept V RTL_REG_RESET \<Longrightarrow> Q () F \<Longrightarrow> wp regs V cpu d (reset_wait B n) F Q"
  by (induction n) (auto intro!: wp_rules)

text \<open>What is saved of a port: its settings, if the chip keeps them.\<close>

definition saved :: "nat \<Rightarrow> fields \<Rightarrow> rtl_phyregs \<Rightarrow> bool" where
  "saved i F r \<longleftrightarrow> (kept V (RTL_PORT_REG i NWAY) \<longrightarrow> sv_nway r = F (RTL_PORT_REG i NWAY)
     \<and> sv_speed r = F (RTL_PORT_REG i SPEED) \<and> sv_duplex r = F (RTL_PORT_REG i DUPLEX))"

lemma wp_phy_save:
  assumes "i < 6" "\<And>r. saved i F r \<Longrightarrow> Q r F"
  shows "wp regs V cpu d (rtl_phy_save B i) F Q"
  unfolding rtl_phy_save_def
  by (intro wp_bindE wp_get_any wp_retE assms(2)) (use assms(1) in \<open>auto simp: port_reg_less saved_def kept_settings\<close>)

lemma wp_phy_restore:
  assumes "i < 6" "saved i F r" "Q () F"
  shows "wp regs V cpu d (rtl_phy_restore B i r) F Q"
proof (cases "kept V (RTL_PORT_REG i NWAY)")
  case False
  then show ?thesis
    unfolding rtl_phy_restore_def using assms by (intro wp_bindE wp_set_volatile) (simp_all add: kept_settings port_reg_less)
next
  case True
  show ?thesis
  proof (rule wp_fits)
    assume fits: "\<And>i. i < 121 \<Longrightarrow> kept V i \<Longrightarrow> trim i (ucast (F i)) = F i"
    have "F(RTL_PORT_REG i NWAY := trim (RTL_PORT_REG i NWAY) (ucast (sv_nway r)),
          RTL_PORT_REG i SPEED := trim (RTL_PORT_REG i SPEED) (ucast (sv_speed r)),
          RTL_PORT_REG i DUPLEX := trim (RTL_PORT_REG i DUPLEX) (ucast (sv_duplex r))) = F"
      using assms(1,2) True fits [OF port_reg_less [OF assms(1)]] by (simp add: fun_eq_iff saved_def kept_settings)
    then show "wp regs V cpu d (rtl_phy_restore B i r) F Q"
      unfolding rtl_phy_restore_def using assms(3) by (intro wp_rules) (simp_all add: assms(1) port_reg_less)
  qed
qed

lemma wp_hw_apply:
  assumes V: "V \<subseteq> phy_status" and "\<And>F'. applied F F' \<Longrightarrow> Q () F'"
  shows "wp regs V cpu d (rtl_hw_apply B) F Q"
proof (rule wp_fits)
  assume fits: "\<And>i. i < 121 \<Longrightarrow> kept V i \<Longrightarrow> trim i (ucast (F i)) = F i"
  have last: "wp regs V cpu d (rtl_phy_restore B 5 r)
      (F2(RTL_REG_EN_TRUNK := trim RTL_REG_EN_TRUNK (ucast (F1 RTL_REG_EN_TRUNK)),
          RTL_REG_TRUNK_PORTSEL := trim RTL_REG_TRUNK_PORTSEL (ucast (F1 RTL_REG_TRUNK_PORTSEL))))
      (\<lambda>x F'. wp regs V cpu d (rtl_set B RTL_REG_CPU_LINKUP 1) F' Q)"
    if r: "saved 5 F r" and 1: "ports_enabled 5 0 F F1"
      and 2: "ports_enabled 5 1 (F1(RTL_REG_EN_TRUNK := trim RTL_REG_EN_TRUNK 1,
        RTL_REG_TRUNK_PORTSEL := trim RTL_REG_TRUNK_PORTSEL 1, RTL_REG_RESET := trim RTL_REG_RESET 1)) F2" for r F1 F2
  proof -
    have F1: "F1 j = F j" if "j < 121" "\<forall>i < 5. j \<notin> RTL_PORT_REG i ` {RXEN, TXEN, NRESTART}" for j
      using 1 that by (simp add: ports_enabled_def)
    have F2: "F2 j = F j" if "j < 121" "\<forall>i < 5. j \<notin> RTL_PORT_REG i ` {RXEN, TXEN, NRESTART}"
      "j \<noteq> RTL_REG_EN_TRUNK" "j \<noteq> RTL_REG_TRUNK_PORTSEL" "j \<noteq> RTL_REG_RESET" for j
      using 2 that F1 by (simp add: ports_enabled_def)
    have trunk: "trim RTL_REG_EN_TRUNK (ucast (F1 RTL_REG_EN_TRUNK)) = F RTL_REG_EN_TRUNK"
      "trim RTL_REG_TRUNK_PORTSEL (ucast (F1 RTL_REG_TRUNK_PORTSEL)) = F RTL_REG_TRUNK_PORTSEL"
      using F1 fits kept_low [OF V] by simp_all
    have on: "\<forall>i < 5. F2 (RTL_PORT_REG i RXEN) = 1 \<and> F2 (RTL_PORT_REG i TXEN) = 1" using 2 by (simp add: ports_enabled_def)
    have "applied F (F2(RTL_REG_EN_TRUNK := F RTL_REG_EN_TRUNK, RTL_REG_TRUNK_PORTSEL := F RTL_REG_TRUNK_PORTSEL,
        RTL_REG_CPU_LINKUP := 1))"
      using on F2 unfolding applied_def by simp
    then show ?thesis
      using assms(2) r unfolding trunk
      by (intro wp_phy_restore wp_set) (simp_all add: saved_def F2 port_reg_less trim_flag)
  qed
  show "wp regs V cpu d (rtl_hw_apply B) F Q"
    unfolding rtl_hw_apply_def
    by (intro wp_bindE wp_phy_save wp_enable_ports wp_get wp_set wp_reset_wait) (simp_all add: last kept_low [OF V])
qed

end

text \<open>The fields after the start-up loops.\<close>

definition vlans_cleared :: "nat \<Rightarrow> fields \<Rightarrow> fields \<Rightarrow> bool" where
  "vlans_cleared n F F' \<longleftrightarrow>
    (\<forall>i < n. F' (RTL_VLAN_REG i VID) = of_nat i \<and> F' (RTL_VLAN_REG i PORTMASK) = 0)
    \<and> (\<forall>j < 121. (\<forall>i < n. j \<notin> RTL_VLAN_REG i ` {VID, PORTMASK}) \<longrightarrow> F' j = F j)"

definition isolation_bits :: "nat \<Rightarrow> nat \<Rightarrow> u16 \<Rightarrow> bool" where
  "isolation_bits cpu i m \<longleftrightarrow> (\<forall>k. bit m k \<longleftrightarrow> k < 6 \<and> (if i = cpu then k \<noteq> cpu else k = i \<or> k = cpu))"

definition ports_isolated :: "nat \<Rightarrow> nat \<Rightarrow> fields \<Rightarrow> fields \<Rightarrow> bool" where
  "ports_isolated cpu n F F' \<longleftrightarrow>
    (\<forall>i < n. isolation_bits cpu i (F' (RTL_VLAN_REG i PORTMASK)) \<and> F' (RTL_PORT_REG i PVID) = of_nat i
       \<and> F' (RTL_PORT_REG i NULL_VID_REPLACE) = 1 \<and> F' (RTL_PORT_REG i VID_INSERT) = 1 \<and> F' (RTL_PORT_REG i TAG_INSERT) = 3)
    \<and> (\<forall>j < 121. (\<forall>i < n. j \<noteq> RTL_VLAN_REG i PORTMASK \<and> j \<notin> RTL_PORT_REG i ` {PVID, NULL_VID_REPLACE, VID_INSERT, TAG_INSERT}) \<longrightarrow>
         F' j = F j)"

lemma take_bit_of_small: "i < 2 ^ n \<Longrightarrow> n \<le> 16 \<Longrightarrow> ucast (take_bit n (of_nat i :: u32)) = (of_nat i :: u16)"
proof -
  assume "i < 2 ^ n" "n \<le> 16"
  then have "take_bit n (of_nat i :: u32) = of_nat i" by (simp add: take_bit_of_nat take_bit_nat_eq_self)
  then show ?thesis by (simp only: bit_eq_iff) (auto simp: bit_simps)
qed

lemma isolation_bits_mask:
  assumes "cpu < 6" "i < 6"
  shows "isolation_bits cpu i (ucast (take_bit 6 (isolation_mask cpu i)))"
proof -
  have b: "BIT i = BIT cpu \<longleftrightarrow> i = cpu" using assms bit_BIT [of i i] bit_BIT [of cpu i] by auto
  show ?thesis
    using assms by (auto simp: isolation_bits_def isolation_mask_def b bit_ucast_iff bit_take_bit_iff bit_or_iff bit_and_iff
        bit_not_iff bit_BIT bit_mask_iff)
qed

context rtl_chip begin

lemma wp_clear_vlans:
  assumes "\<And>F'. vlans_cleared 16 F F' \<Longrightarrow> Q () F'"
  shows "wp regs V cpu d (forE [0..<RTL8306_NUM_VLANS] (hw_init_vlan B)) F Q"
proof (rule wp_forE [where I = "\<lambda>n. vlans_cleared n F"])
  fix i F1 assume i: "i < RTL8306_NUM_VLANS" and I: "vlans_cleared i F F1"
  have t: "trim (RTL_VLAN_REG i VID) (of_nat i) = of_nat i"
    using i take_bit_of_small [of i 12] by (simp add: trim_vlan vlan_bits_def)
  show "wp regs V cpu d (hw_init_vlan B i) F1 (\<lambda>_. vlans_cleared (Suc i) F)"
    unfolding hw_init_vlan_def
    by (intro wp_rules) (use i I in \<open>auto simp: vlans_cleared_def less_Suc_eq t vlan_reg_less\<close>)
qed (use assms in \<open>auto simp: vlans_cleared_def\<close>)

lemma wp_isolate_ports:
  assumes cpu: "cpu < 6" and Q: "\<And>F'. ports_isolated cpu 6 F F' \<Longrightarrow> Q () F'"
  shows "wp regs V cpu d (forE [0..<RTL8306_NUM_PORTS] (hw_init_port B cpu)) F Q"
proof (rule wp_forE [where I = "\<lambda>n. ports_isolated cpu n F"])
  fix i F1 assume i: "i < RTL8306_NUM_PORTS" and I: "ports_isolated cpu i F F1"
  have t: "trim (RTL_PORT_REG i PVID) (of_nat i) = of_nat i" "trim (RTL_PORT_REG i NULL_VID_REPLACE) 1 = 1"
    "trim (RTL_PORT_REG i VID_INSERT) 1 = 1" "trim (RTL_PORT_REG i TAG_INSERT) 3 = 3"
    "isolation_bits cpu i (trim (RTL_VLAN_REG i PORTMASK) (isolation_mask cpu i))"
    using i cpu take_bit_of_small [of i 4] isolation_bits_mask [OF cpu, of i]
    by (simp_all add: trim_port port_bits_def trim_vlan vlan_bits_def)
  show "wp regs V cpu d (hw_init_port B cpu i) F1 (\<lambda>_. ports_isolated cpu (Suc i) F)"
    unfolding hw_init_port_def
    by (intro wp_rules) (use i I in \<open>auto simp: ports_isolated_def less_Suc_eq t vlan_reg_less port_reg_less\<close>)
qed (use Q in \<open>auto simp: ports_isolated_def\<close>)

end

text \<open>The whole start-up.\<close>

definition initialised :: "nat \<Rightarrow> fields \<Rightarrow> bool" where
  "initialised cpu F \<longleftrightarrow>
    F RTL_REG_VLAN_ENABLE = 0 \<and> F RTL_REG_VLAN_FILTER = 0 \<and> F RTL_REG_EN_TRUNK = 0 \<and> F RTL_REG_TRUNK_PORTSEL = 0
    \<and> F RTL_REG_EN_TAG_OUT = 0 \<and> F RTL_REG_EN_TAG_IN = 0 \<and> F RTL_REG_EN_TAG_CLR = 0
    \<and> (\<forall>i < 16. F (RTL_VLAN_REG i VID) = of_nat i)
    \<and> (\<forall>i < 6. isolation_bits cpu i (F (RTL_VLAN_REG i PORTMASK)) \<and> F (RTL_PORT_REG i PVID) = of_nat i
         \<and> F (RTL_PORT_REG i VID_INSERT) = 1 \<and> F (RTL_PORT_REG i TAG_INSERT) = 3)
    \<and> (\<forall>i. 6 \<le> i \<and> i < 16 \<longrightarrow> F (RTL_VLAN_REG i PORTMASK) = 0)
    \<and> (\<forall>i < 5. F (RTL_PORT_REG i RXEN) = 1 \<and> F (RTL_PORT_REG i TXEN) = 1) \<and> F RTL_REG_CPU_LINKUP = 1"

lemma initialisedI:
  assumes c: "vlans_cleared 16 F F1" and p: "ports_isolated cpu 6 F1 F2" and a: "applied F2 F3"
    and g: "\<forall>j \<in> {RTL_REG_VLAN_ENABLE, RTL_REG_VLAN_FILTER, RTL_REG_EN_TRUNK, RTL_REG_TRUNK_PORTSEL,
      RTL_REG_EN_TAG_OUT, RTL_REG_EN_TAG_IN, RTL_REG_EN_TAG_CLR}. F j = 0"
  shows "initialised cpu F3"
proof -
  have F3: "F3 j = F2 j" if "j < 121" "j \<noteq> RTL_REG_CPU_LINKUP" "j \<noteq> RTL_REG_RESET"
    "\<forall>i < 5. j \<notin> RTL_PORT_REG i ` {RXEN, TXEN, NRESTART}" for j
    using a that by (simp add: applied_def)
  have F2: "F2 j = F1 j" if "j < 121" "\<forall>i < 6. j \<noteq> RTL_VLAN_REG i PORTMASK \<and> j \<notin> RTL_PORT_REG i ` {PVID, NULL_VID_REPLACE, VID_INSERT, TAG_INSERT}" for j
    using p that by (simp add: ports_isolated_def)
  have F1: "F1 j = F j" if "j < 121" "\<forall>i < 16. j \<notin> RTL_VLAN_REG i ` {VID, PORTMASK}" for j
    using c that by (simp add: vlans_cleared_def)
  have "F3 j = 0" if "j \<in> {RTL_REG_VLAN_ENABLE, RTL_REG_VLAN_FILTER, RTL_REG_EN_TRUNK, RTL_REG_TRUNK_PORTSEL,
      RTL_REG_EN_TAG_OUT, RTL_REG_EN_TAG_IN, RTL_REG_EN_TAG_CLR}" for j
  proof -
    have j: "j < 17" "j \<noteq> RTL_REG_CPU_LINKUP" "j \<noteq> RTL_REG_RESET" "F j = 0" using that g by auto
    then show ?thesis by (simp add: F3 F2 F1)
  qed
  moreover have "F3 (RTL_VLAN_REG i VID) = of_nat i" if "i < 16" for i
    using that c by (simp add: F3 F2 vlan_reg_less vlans_cleared_def)
  moreover have "F3 (RTL_VLAN_REG i PORTMASK) = 0" if "6 \<le> i" "i < 16" for i
    using that c by (simp add: F3 F2 vlan_reg_less vlans_cleared_def)
  moreover have "isolation_bits cpu i (F3 (RTL_VLAN_REG i PORTMASK)) \<and> F3 (RTL_PORT_REG i PVID) = of_nat i
      \<and> F3 (RTL_PORT_REG i VID_INSERT) = 1 \<and> F3 (RTL_PORT_REG i TAG_INSERT) = 3" if "i < 6" for i
    using that p by (simp add: F3 vlan_reg_less port_reg_less ports_isolated_def)
  ultimately show ?thesis
    using a unfolding initialised_def applied_def by simp
qed

context rtl_chip begin

lemma wp_hw_init:
  assumes V: "V \<subseteq> phy_status" and cpu: "cpu < 6" and Q: "\<And>F'. initialised cpu F' \<Longrightarrow> Q () F'"
  shows "wp regs V cpu d (rtl_hw_init B) F Q"
proof -
  let ?m = "bindE (rtl_set B RTL_REG_VLAN_ENABLE 0) (\<lambda>_. bindE (rtl_set B RTL_REG_VLAN_FILTER 0) (\<lambda>_.
     bindE (rtl_set B RTL_REG_EN_TRUNK 0) (\<lambda>_. bindE (rtl_set B RTL_REG_TRUNK_PORTSEL 0) (\<lambda>_.
     bindE (hw_init_cpu B) (\<lambda>_. bindE (rtl_set B RTL_REG_EN_TAG_OUT 0) (\<lambda>_.
     bindE (rtl_set B RTL_REG_EN_TAG_IN 0) (\<lambda>_. bindE (rtl_set B RTL_REG_EN_TAG_CLR 0) (\<lambda>_.
     bindE (forE [0..<RTL8306_NUM_VLANS] (hw_init_vlan B)) (\<lambda>_.
     bindE (forE [0..<RTL8306_NUM_PORTS] (hw_init_port B cpu)) (\<lambda>_. rtl_hw_apply B))))))))))"
  have cpu_step: "wp regs V cpu d (hw_init_cpu B) F Q'" if "\<And>a b. Q' () (F(RTL_REG_CPUPORT := a, RTL_REG_EN_CPUPORT := b))" for F Q'
    by (rule wp_state [where m' = "if d then bindE (rtl_set B RTL_REG_CPUPORT (of_nat cpu)) (\<lambda>_. rtl_set B RTL_REG_EN_CPUPORT 1)
        else bindE (rtl_set B RTL_REG_CPUPORT 7) (\<lambda>_. rtl_set B RTL_REG_EN_CPUPORT 0)"])
      (auto simp: hw_init_cpu_def intro!: wp_rules that)
  have "wp regs V cpu d ?m F Q"
    by (intro wp_bindE wp_set cpu_step wp_clear_vlans wp_isolate_ports wp_hw_apply V cpu Q)
      (erule (2) initialisedI | simp)+
  then show ?thesis by (rule wp_state [rotated]) (simp add: rtl_hw_init_def Let_def)
qed

end

end
