(* ===== verification/Rtl8306_Ports.thy ===== *)
theory Rtl8306_Ports
  imports Rtl8306_Spec Smi_Switch
begin

text \<open>
  VLAN mode and port lists of the RTL8306 driver on the fields: what \<open>rtl_set_vlan\<close> switches, what \<open>rtl_set_ports\<close> makes of a list and what
  \<open>rtl_get_ports\<close> returns.
\<close>

section \<open>Entries\<close>

text \<open>
  The entry at position \<open>i\<close> of the list makes its port a tagged one. The code compares the position with
  the number of the CPU port.
\<close>

definition entry_tag :: "nat \<Rightarrow> nat \<Rightarrow> switch_port \<Rightarrow> bool" where
  "entry_tag cpu i p \<longleftrightarrow> i = cpu \<or> tagged p"

primrec last_entry :: "nat \<Rightarrow> nat \<Rightarrow> switch_port list \<Rightarrow> nat \<Rightarrow> bool option" where
  "last_entry cpu i [] n = None"
| "last_entry cpu i (p # ps) n = (case last_entry cpu (Suc i) ps n of Some t \<Rightarrow> Some t
     | None \<Rightarrow> if unat (port_id p) = n then Some (entry_tag cpu i p) else None)"

primrec untag_entry :: "nat \<Rightarrow> nat \<Rightarrow> switch_port list \<Rightarrow> nat \<Rightarrow> bool" where
  "untag_entry cpu i [] n \<longleftrightarrow> False"
| "untag_entry cpu i (p # ps) n \<longleftrightarrow> unat (port_id p) = n \<and> \<not> entry_tag cpu i p \<or> untag_entry cpu (Suc i) ps n"

lemma last_entry_None: "last_entry cpu i ps n = None \<longleftrightarrow> \<not> lists_port ps n"
proof (induction ps arbitrary: i)
  case (Cons p ps)
  show ?case using Cons.IH [of "Suc i"] by (auto simp: lists_port_def split: option.splits)
qed (simp add: lists_port_def)

text \<open>
  The list as the code reads it: the entry at the position that equals the number of the CPU port has
  the flag of a tagged one, whatever port it names.
\<close>

definition flag_position :: "nat \<Rightarrow> nat \<Rightarrow> switch_port list \<Rightarrow> switch_port list" where
  "flag_position cpu i ps =
    map (\<lambda>(k, p). if k = cpu then p\<lparr>port_flags := port_flags p OR BIT SWITCH_PORT_FLAG_TAGGED\<rparr> else p) (enumerate i ps)"

text \<open>What the last entry of a port says.\<close>

definition last_tag :: "switch_port list \<Rightarrow> nat \<Rightarrow> bool option" where
  "last_tag es = map_of (rev (map (\<lambda>p. (unat (port_id p), tagged p)) es))"

lemma tagged_flag [simp]: "tagged (p\<lparr>port_flags := port_flags p OR BIT SWITCH_PORT_FLAG_TAGGED\<rparr>)"
proof -
  have "bit ((port_flags p OR BIT SWITCH_PORT_FLAG_TAGGED) AND BIT SWITCH_PORT_FLAG_TAGGED) SWITCH_PORT_FLAG_TAGGED"
    by (simp add: bit_and_iff bit_or_iff bit_BIT)
  then show ?thesis by (auto simp: tagged_def)
qed

lemma flag_position_Cons:
  "flag_position cpu i (p # ps) =
    (if i = cpu then p\<lparr>port_flags := port_flags p OR BIT SWITCH_PORT_FLAG_TAGGED\<rparr> else p) # flag_position cpu (Suc i) ps"
  by (simp add: flag_position_def)

lemma last_entry_flagged: "last_entry cpu i ps = last_tag (flag_position cpu i ps)"
proof (rule ext)
  show "last_entry cpu i ps n = last_tag (flag_position cpu i ps) n" for n
  proof (induction ps arbitrary: i)
    case (Cons p ps)
    show ?case using Cons.IH [of "Suc i"]
      by (auto simp: flag_position_Cons last_tag_def entry_tag_def map_add_def split: option.splits)
  qed (simp add: flag_position_def last_tag_def)
qed

lemma untag_entry_flagged: "untag_entry cpu i ps n = lists_untagged (flag_position cpu i ps) n"
proof (induction ps arbitrary: i)
  case (Cons p ps)
  show ?case using Cons.IH [of "Suc i"] by (auto simp: flag_position_Cons lists_untagged_def entry_tag_def)
qed (simp add: flag_position_def lists_untagged_def)

lemma lists_port_flagged: "lists_port (flag_position cpu i ps) = lists_port ps"
proof (rule ext)
  show "lists_port (flag_position cpu i ps) n = lists_port ps n" for n
  proof (induction ps arbitrary: i)
    case (Cons p ps)
    show ?case using Cons.IH [of "Suc i"] by (auto simp: flag_position_Cons lists_port_def)
  qed (simp add: flag_position_def lists_port_def)
qed

text \<open>
  The three fields of a port in register 22 after an entry (\<open>Some t\<close>: tagged or not), and with no
  entry (\<open>None\<close>).
\<close>

definition egress_set :: "bool option \<Rightarrow> nat \<Rightarrow> fields \<Rightarrow> fields \<Rightarrow> bool" where
  "egress_set e n F F' \<longleftrightarrow>
     F' (RTL_PORT_REG n TAG_INSERT) = (case e of None \<Rightarrow> F (RTL_PORT_REG n TAG_INSERT) | Some t \<Rightarrow> if t then 2 else 1)
   \<and> F' (RTL_PORT_REG n VID_INSERT) = (case e of None \<Rightarrow> F (RTL_PORT_REG n VID_INSERT) | Some t \<Rightarrow> if t then 0 else 1)
   \<and> F' (RTL_PORT_REG n NON_PVID_DISCARD) = (case e of None \<Rightarrow> F (RTL_PORT_REG n NON_PVID_DISCARD) | Some t \<Rightarrow> if t then 0 else 1)"

lemma egress_set_step:
  "egress_set e1 n F F1 \<Longrightarrow> egress_set e2 n F1 F2 \<Longrightarrow> egress_set (case e2 of Some t \<Rightarrow> Some t | None \<Rightarrow> e1) n F F2"
  by (auto simp: egress_set_def split: option.split)

text \<open>The effect of the entries on the fields of the ports other than the CPU port.\<close>

definition members_set :: "nat \<Rightarrow> nat \<Rightarrow> nat \<Rightarrow> switch_port list \<Rightarrow> fields \<Rightarrow> fields \<Rightarrow> bool" where
  "members_set cpu vlan i ps F F' \<longleftrightarrow>
    (\<forall>n < 6. n \<noteq> cpu \<longrightarrow>
       F' (RTL_PORT_REG n PVID) = (if untag_entry cpu i ps n then of_nat vlan else F (RTL_PORT_REG n PVID))
       \<and> egress_set (last_entry cpu i ps n) n F F')
    \<and> (\<forall>j < 121. (\<forall>n < 6. n \<noteq> cpu \<longrightarrow> j \<notin> RTL_PORT_REG n ` {PVID, NON_PVID_DISCARD, VID_INSERT, TAG_INSERT}) \<longrightarrow> F' j = F j)"

lemma members_set_Cons:
  assumes 1: "members_set cpu vlan i [p] F F1" and 2: "members_set cpu vlan (Suc i) ps F1 F2"
  shows "members_set cpu vlan i (p # ps) F F2"
proof -
  have "F2 (RTL_PORT_REG n PVID) = (if untag_entry cpu i (p # ps) n then of_nat vlan else F (RTL_PORT_REG n PVID))"
    if "n < 6" "n \<noteq> cpu" for n
    using 1 2 that by (simp add: members_set_def)
  moreover have "egress_set (last_entry cpu i (p # ps) n) n F F2" if "n < 6" "n \<noteq> cpu" for n
  proof -
    have "last_entry cpu i (p # ps) n = (case last_entry cpu (Suc i) ps n of Some t \<Rightarrow> Some t | None \<Rightarrow> last_entry cpu i [p] n)"
      by (auto split: option.split)
    moreover have "egress_set (last_entry cpu i [p] n) n F F1" using 1 that unfolding members_set_def by blast
    moreover have "egress_set (last_entry cpu (Suc i) ps n) n F1 F2" using 2 that by (simp add: members_set_def)
    ultimately show ?thesis using egress_set_step by metis
  qed
  moreover have "F2 j = F j" if "j < 121"
    "\<forall>n < 6. n \<noteq> cpu \<longrightarrow> j \<notin> RTL_PORT_REG n ` {PVID, NON_PVID_DISCARD, VID_INSERT, TAG_INSERT}" for j
    using 1 2 that by (simp add: members_set_def)
  ultimately show ?thesis unfolding members_set_def by blast
qed

context rtl_chip begin

lemma wp_member:
  assumes n: "unat (port_id p) < 6" and vlan: "vlan < 16"
    and Q: "\<And>F'. members_set cpu vlan i [p] F F' \<Longrightarrow> Q (m OR BIT (unat (port_id p))) F'"
  shows "wp regs V cpu d (set_port_member B vlan i p m) F Q"
proof -
  let ?n = "unat (port_id p)" and ?t = "entry_tag cpu i p"
  let ?m = "if ?n = cpu then retE (m OR BIT ?n)
    else bindE (if ?t then retE () else rtl_set B (RTL_PORT_REG ?n PVID) (of_nat vlan)) (\<lambda>_.
         bindE (rtl_set B (RTL_PORT_REG ?n NON_PVID_DISCARD) (if ?t then 0 else 1)) (\<lambda>_.
         bindE (rtl_set B (RTL_PORT_REG ?n VID_INSERT) (if ?t then 0 else 1)) (\<lambda>_.
         bindE (rtl_set B (RTL_PORT_REG ?n TAG_INSERT) (if ?t then 2 else 1)) (\<lambda>_.
         retE (m OR BIT ?n)))))"
  have t: "trim (RTL_PORT_REG ?n PVID) (of_nat vlan) = of_nat vlan" "trim (RTL_PORT_REG ?n TAG_INSERT) 2 = 2"
    "trim (RTL_PORT_REG ?n TAG_INSERT) 1 = 1" "trim (RTL_PORT_REG ?n VID_INSERT) 1 = 1"
    "trim (RTL_PORT_REG ?n NON_PVID_DISCARD) 1 = 1"
    using n take_bit_of_small [of vlan 4] vlan by (simp_all add: trim_port port_bits_def)
  have "wp regs V cpu d ?m F Q"
    by (intro wp_rules Q) (use n in \<open>auto simp: members_set_def egress_set_def t port_reg_less\<close>)
  then show ?thesis
    by (rule wp_state [rotated]) (use n in \<open>auto simp: set_port_member_def Let_def entry_tag_def tagged_def retE_def\<close>)
qed

lemma wp_members:
  assumes "\<forall>p \<in> set ps. unat (port_id p) < 6" "vlan < 16"
    "\<And>F' m'. members_set cpu vlan i ps F F' \<Longrightarrow> (\<And>k. bit m' k \<longleftrightarrow> bit m k \<or> lists_port ps k) \<Longrightarrow> Q m' F'"
  shows "wp regs V cpu d (set_members_loop B vlan i ps m) F Q"
  using assms(1,3)
proof (induction ps arbitrary: i m F Q)
  case Nil
  then show ?case by (auto intro!: wp_rules Nil(2) simp: members_set_def egress_set_def lists_port_def)
next
  case (Cons p ps)
  have "wp regs V cpu d (set_members_loop B vlan (Suc i) ps (m OR BIT (unat (port_id p)))) F1 Q"
    if 1: "members_set cpu vlan i [p] F F1" for F1
  proof (rule Cons.IH)
    show "\<forall>p \<in> set ps. unat (port_id p) < 6" using Cons.prems(1) by simp
    fix F2 and m' :: u32 assume "members_set cpu vlan (Suc i) ps F1 F2"
      and m': "\<And>k. bit m' k \<longleftrightarrow> bit (m OR BIT (unat (port_id p))) k \<or> lists_port ps k"
    then have "members_set cpu vlan i (p # ps) F F2" using members_set_Cons [OF 1] by blast
    moreover have "bit m' k \<longleftrightarrow> bit m k \<or> lists_port (p # ps) k" for k
      using m' [of k] Cons.prems(1) by (auto simp: bit_or_iff bit_BIT lists_port_def)
    ultimately show "Q m' F2" by (rule Cons.prems(2))
  qed
  then show ?case using Cons.prems(1) assms(2) by (auto intro!: wp_bindE wp_member)
qed

end

section \<open>Setting a list\<close>

text \<open>
  The fields after the list \<open>es\<close> has been given to a VLAN: its port mask, tags and PVIDs; a port that
  left the VLAN and had it as PVID gets the last VLAN. All other fields outside the registers \<open>V\<close> are as before.
\<close>

definition ports_set :: "(nat \<times> nat) set \<Rightarrow> nat \<Rightarrow> nat \<Rightarrow> switch_port list \<Rightarrow> fields \<Rightarrow> fields \<Rightarrow> bool" where
  "ports_set V cpu vlan es F F' \<longleftrightarrow>
    (\<forall>k. bit (F' (RTL_VLAN_REG vlan PORTMASK)) k \<longleftrightarrow> lists_port es k)
    \<and> (\<forall>n < 6. n \<noteq> cpu \<longrightarrow>
         F' (RTL_PORT_REG n PVID) =
           (if lists_untagged es n then of_nat vlan
            else if bit (F (RTL_VLAN_REG vlan PORTMASK)) n \<and> \<not> lists_port es n \<and> F (RTL_PORT_REG n PVID) = of_nat vlan
            then 15 else F (RTL_PORT_REG n PVID))
         \<and> egress_set (last_tag es n) n F F')
    \<and> (\<forall>j < 121. kept V j \<and> j \<noteq> RTL_VLAN_REG vlan PORTMASK
         \<and> (\<forall>n < 6. n \<noteq> cpu \<longrightarrow> j \<notin> RTL_PORT_REG n ` {PVID, NON_PVID_DISCARD, VID_INSERT, TAG_INSERT}) \<longrightarrow> F' j = F j)"

lemma untag_entry_lists: "untag_entry cpu i ps n \<Longrightarrow> lists_port ps n"
  by (induction ps arbitrary: i) (auto simp: lists_port_def)

text \<open>The loop over the removed ports.\<close>

definition removed_fixed :: "nat \<Rightarrow> nat \<Rightarrow> u32 \<Rightarrow> nat \<Rightarrow> fields \<Rightarrow> fields \<Rightarrow> bool" where
  "removed_fixed cpu vlan m k F F' \<longleftrightarrow>
    (\<forall>n < 6. n \<noteq> cpu \<longrightarrow> F' (RTL_PORT_REG n PVID) =
       (if n < k \<and> bit m n \<and> unat (F (RTL_PORT_REG n PVID)) = vlan then 15 else F (RTL_PORT_REG n PVID)))
    \<and> (\<forall>j < 121. (\<forall>n < 6. n \<noteq> cpu \<longrightarrow> j \<noteq> RTL_PORT_REG n PVID) \<longrightarrow> F' j = F j)"

context rtl_chip begin

lemma wp_fix_removed:
  assumes V: "V \<subseteq> phy_status" and Q: "\<And>F'. removed_fixed cpu vlan m 6 F F' \<Longrightarrow> Q () F'"
  shows "wp regs V cpu d (forE [0..<RTL8306_NUM_PORTS] (fix_removed_port B vlan m)) F Q"
proof (rule wp_forE [where I = "\<lambda>k. removed_fixed cpu vlan m k F"])
  fix i F1 assume i: "i < RTL8306_NUM_PORTS" and I: "removed_fixed cpu vlan m i F F1"
  let ?m = "if m AND BIT i = 0 then retE () else if i = cpu then retE ()
     else bindE (rtl_get B (RTL_PORT_REG i PVID)) (\<lambda>pv.
          if unat pv = vlan then rtl_set B (RTL_PORT_REG i PVID) (of_nat (RTL8306_NUM_VLANS - 1)) else retE ())"
  have b: "m AND BIT i = 0 \<longleftrightarrow> \<not> bit m i" using i by (simp add: and_BIT_eq_0)
  have t: "trim (RTL_PORT_REG i PVID) 15 = 15" using i by (simp add: trim_port port_bits_def)
  have "wp regs V cpu d ?m F1 (\<lambda>_. removed_fixed cpu vlan m (Suc i) F)"
    unfolding b by (intro wp_rules) (use i I in \<open>auto simp: removed_fixed_def less_Suc_eq t port_reg_less kept_port [OF V]\<close>)
  then show "wp regs V cpu d (fix_removed_port B vlan m i) F1 (\<lambda>_. removed_fixed cpu vlan m (Suc i) F)"
    by (rule wp_state [rotated]) (auto simp: fix_removed_port_def retE_def)
qed (use Q in \<open>auto simp: removed_fixed_def\<close>)

end

lemma ports_setI:
  assumes 1: "members_set cpu vlan 0 ps F F1"
    and m: "\<And>k. bit m k \<longleftrightarrow> lists_port ps k" and ps: "\<forall>p \<in> set ps. unat (port_id p) < 6"
    and vlan: "vlan < 16"
    and 2: "removed_fixed cpu vlan (ucast (F1 (RTL_VLAN_REG vlan PORTMASK)) AND NOT m) 6
      (F1(RTL_VLAN_REG vlan PORTMASK := trim (RTL_VLAN_REG vlan PORTMASK) m)) F2"
  shows "ports_set V cpu vlan (flag_position cpu 0 ps) F F2"
proof -
  let ?v = "RTL_VLAN_REG vlan PORTMASK"
  have k: "k < 6" if "lists_port ps k" for k using ps that by (auto simp: lists_port_def)
  have F1: "F1 j = F j" if "j < 121" "\<forall>n < 6. n \<noteq> cpu \<longrightarrow> j \<notin> RTL_PORT_REG n ` {PVID, NON_PVID_DISCARD, VID_INSERT, TAG_INSERT}" for j
    using 1 that by (simp add: members_set_def)
  have F2: "F2 j = (if j = ?v then trim ?v m else F1 j)" if "j < 121" "\<forall>n < 6. n \<noteq> cpu \<longrightarrow> j \<noteq> RTL_PORT_REG n PVID" for j
    using 2 that by (simp add: removed_fixed_def)
  have old: "F1 ?v = F ?v" using vlan by (simp add: F1 vlan_reg_less)
  have "F2 ?v = trim ?v m" using vlan by (simp add: F2 vlan_reg_less)
  then have mask: "bit (F2 ?v) k \<longleftrightarrow> lists_port ps k" for k
    using vlan k [of k] m [of k] by (auto simp: trim_vlan vlan_bits_def bit_ucast_iff bit_take_bit_iff)
  have num: "unat w = vlan \<longleftrightarrow> w = of_nat vlan" for w :: u16
    using vlan by (auto simp: word_unat_eq_iff unat_of_nat)
  have pvid: "F2 (RTL_PORT_REG n PVID) =
      (if untag_entry cpu 0 ps n then of_nat vlan
       else if bit (F ?v) n \<and> \<not> lists_port ps n \<and> F (RTL_PORT_REG n PVID) = of_nat vlan then 15 else F (RTL_PORT_REG n PVID))"
    if n: "n < 6" "n \<noteq> cpu" for n
  proof -
    have "F1 (RTL_PORT_REG n PVID) = (if untag_entry cpu 0 ps n then of_nat vlan else F (RTL_PORT_REG n PVID))"
      using 1 n by (simp add: members_set_def)
    moreover have "F2 (RTL_PORT_REG n PVID) =
        (if bit (F ?v) n \<and> \<not> lists_port ps n \<and> F1 (RTL_PORT_REG n PVID) = of_nat vlan then 15 else F1 (RTL_PORT_REG n PVID))"
      using 2 n vlan m [of n] by (simp add: removed_fixed_def old bit_and_iff bit_not_iff bit_ucast_iff num)
    ultimately show ?thesis using untag_entry_lists [of cpu 0 ps n] by auto
  qed
  have tag: "egress_set (last_entry cpu 0 ps n) n F F2" if n: "n < 6" "n \<noteq> cpu" for n
    using 1 n vlan by (simp add: F2 port_reg_less members_set_def egress_set_def)
  have rest: "F2 j = F j" if "j < 121" "j \<noteq> ?v" "\<forall>n < 6. n \<noteq> cpu \<longrightarrow> j \<notin> RTL_PORT_REG n ` {PVID, NON_PVID_DISCARD, VID_INSERT, TAG_INSERT}" for j
    using that by (simp add: F2 F1)
  show ?thesis
    unfolding ports_set_def lists_port_flagged untag_entry_flagged [symmetric] last_entry_flagged [symmetric]
    using mask pvid tag rest by blast
qed

context rtl_chip begin

lemma wp_set_ports:
  assumes V: "V \<subseteq> phy_status" and vlan: "unat (port_vlan v) < 16" and ps: "ps = take (val_len v) (val_ports v)" "\<forall>p \<in> set ps. unat (port_id p) < 6"
    and Q: "\<And>F'. ports_set V cpu (unat (port_vlan v)) (flag_position cpu 0 ps) F F' \<Longrightarrow> Q () F'"
  shows "wp regs V cpu d (rtl_set_ports B v) F Q"
  unfolding rtl_set_ports_def Let_def ps(1) [symmetric]
  by (intro wp_bindE wp_members wp_get wp_set wp_fix_removed V Q ports_setI)
    (use vlan ps in \<open>auto simp: vlan_reg_less kept_vlan [OF V]\<close>)

end

section \<open>Reading a list\<close>

text \<open>The list of a VLAN as the fields give it.\<close>

definition listed :: "nat \<Rightarrow> fields \<Rightarrow> u16 \<Rightarrow> nat list \<Rightarrow> switch_port list" where
  "listed cpu F m is = map (\<lambda>i. \<lparr>port_id = of_nat i,
     port_flags = (if F (RTL_PORT_REG i TAG_INSERT) = 2 \<or> i = cpu then BIT SWITCH_PORT_FLAG_TAGGED else 0)\<rparr>) (filter (bit m) is)"

lemma put_port_entry_append:
  "val_len v = length (val_ports v) \<Longrightarrow> put_port_entry i t v =
    v\<lparr>val_ports := val_ports v @ [\<lparr>port_id = of_nat i, port_flags = (if t then BIT SWITCH_PORT_FLAG_TAGGED else 0)\<rparr>],
      val_len := Suc (val_len v)\<rparr>"
  by (simp add: put_port_entry_def Let_def)

context rtl_chip begin

lemma wp_get_ports_loop:
  assumes V: "V \<subseteq> phy_status" and "\<forall>i \<in> set is. i < 6" "val_len v = length (val_ports v)"
    "Q (v\<lparr>val_ports := val_ports v @ listed cpu F m is, val_len := val_len v + length (listed cpu F m is)\<rparr>) F"
  shows "wp regs V cpu d (rtl_get_ports_loop B m is v) F Q"
  using assms(2-)
proof (induction "is" arbitrary: v)
  case Nil
  then show ?case by (cases v) (auto intro!: wp_rules simp: listed_def)
next
  case (Cons i "is")
  have b: "ucast m AND BIT i = 0 \<longleftrightarrow> \<not> bit m i" using Cons.prems(1) by (simp add: and_BIT_eq_0 bit_ucast_iff)
  show ?case
  proof (cases "bit m i")
    case False
    then show ?thesis using Cons by (simp add: b listed_def)
  next
    case True
    let ?t = "F (RTL_PORT_REG i TAG_INSERT) = 2 \<or> i = cpu"
    have "wp regs V cpu d (rtl_get_ports_loop B m is (put_port_entry i ?t v)) F Q"
      using Cons True by (intro Cons.IH) (simp_all add: put_port_entry_append listed_def)
    then have "wp regs V cpu d (\<lambda>s. rtl_get_ports_loop B m is
        (put_port_entry i (F (RTL_PORT_REG i TAG_INSERT) = 2 \<or> i = rp_cpu_port s) v) s) F Q"
      by (rule wp_state [rotated]) simp
    then show ?thesis using True Cons.prems(1) by (simp add: b) (intro wp_bindE wp_get; simp add: port_reg_less kept_port [OF V])
  qed
qed

lemma wp_get_ports:
  assumes V: "V \<subseteq> phy_status" and "unat (port_vlan v) < 16" "val_ports v = []" "val_len v = 0"
    "let l = listed cpu F (F (RTL_VLAN_REG (unat (port_vlan v)) PORTMASK)) [0..<6]
     in Q (v\<lparr>val_ports := l, val_len := length l\<rparr>) F"
  shows "wp regs V cpu d (rtl_get_ports B v) F Q"
  unfolding rtl_get_ports_def
  using assms(2-) by (intro wp_bindE wp_get wp_get_ports_loop V) (simp_all add: vlan_reg_less kept_vlan [OF V] Let_def del: upt_conv_Cons)

end

section \<open>VLAN mode\<close>

text \<open>
  The settings of the first \<open>n\<close> ports in VLAN mode (\<open>en\<close>): frames leave untagged except on the CPU port.
  Otherwise tags are left alone.
\<close>

definition ports_mode :: "nat \<Rightarrow> bool \<Rightarrow> nat \<Rightarrow> fields \<Rightarrow> fields \<Rightarrow> bool" where
  "ports_mode cpu en n F F' \<longleftrightarrow>
    (\<forall>i < n. F' (RTL_PORT_REG i NULL_VID_REPLACE) = 1
       \<and> F' (RTL_PORT_REG i VID_INSERT) = (if en \<and> i = cpu then 0 else 1)
       \<and> F' (RTL_PORT_REG i TAG_INSERT) = (if \<not> en then 3 else if i = cpu then 2 else 1))
    \<and> (\<forall>j < 121. (\<forall>i < n. j \<notin> RTL_PORT_REG i ` {NULL_VID_REPLACE, VID_INSERT, TAG_INSERT}) \<longrightarrow> F' j = F j)"

text \<open>
  The fields after \<open>rtl_set_vlan\<close> with value \<open>x\<close>: the flags hold its lowest bit, the ports are set for
  VLAN mode when it is not 0.
\<close>

definition vlan_mode :: "(nat \<times> nat) set \<Rightarrow> nat \<Rightarrow> bool \<Rightarrow> u32 \<Rightarrow> fields \<Rightarrow> fields \<Rightarrow> bool" where
  "vlan_mode V cpu d x F F' \<longleftrightarrow>
    F' RTL_REG_VLAN_ENABLE = ucast (take_bit 1 x) \<and> F' RTL_REG_VLAN_TAG_AWARE = ucast (take_bit 1 x)
    \<and> F' RTL_REG_VLAN_FILTER = (if x = 0 then F RTL_REG_VLAN_FILTER else ucast (take_bit 1 x))
    \<and> (\<forall>j \<in> {RTL_REG_EN_TAG_OUT, RTL_REG_EN_TAG_IN, RTL_REG_EN_TAG_CLR}. F' j = (if x \<noteq> 0 \<and> d then 1 else 0))
    \<and> (\<forall>i < 6. F' (RTL_PORT_REG i NULL_VID_REPLACE) = 1
         \<and> F' (RTL_PORT_REG i VID_INSERT) = (if x \<noteq> 0 \<and> i = cpu then 0 else 1)
         \<and> F' (RTL_PORT_REG i TAG_INSERT) = (if x = 0 then 3 else if i = cpu then 2 else 1))
    \<and> (\<forall>j < 121. kept V j \<and> j \<notin> {RTL_REG_VLAN_ENABLE, RTL_REG_VLAN_TAG_AWARE, RTL_REG_VLAN_FILTER,
         RTL_REG_EN_TAG_OUT, RTL_REG_EN_TAG_IN, RTL_REG_EN_TAG_CLR}
         \<and> (\<forall>i < 6. j \<notin> RTL_PORT_REG i ` {NULL_VID_REPLACE, VID_INSERT, TAG_INSERT}) \<longrightarrow> F' j = F j)"

context rtl_chip begin

lemma wp_vlan_ports:
  assumes pv: "pv < 6" and Q: "\<And>F'. ports_mode cpu en 6 F F' \<Longrightarrow> Q () F'"
  shows "wp regs V cpu d (forE [0..<RTL8306_NUM_PORTS] (set_vlan_port B en pv)) F Q"
proof (rule wp_forE [where I = "\<lambda>n. ports_mode cpu en n F"])
  fix i F1 assume i: "i < RTL8306_NUM_PORTS" and I: "ports_mode cpu en i F F1"
  let ?body = "bindE (rtl_set B (RTL_PORT_REG i NULL_VID_REPLACE) 1) (\<lambda>_.
      bindE (rtl_set B (RTL_PORT_REG i VID_INSERT) (if en then (if i = cpu then 0 else 1) else 1)) (\<lambda>_.
      rtl_set B (RTL_PORT_REG i TAG_INSERT) (if en then (if i = cpu then 2 else 1) else 3)))"
  have t: "trim (RTL_PORT_REG i NULL_VID_REPLACE) 1 = 1" "trim (RTL_PORT_REG i VID_INSERT) 1 = 1"
    "trim (RTL_PORT_REG i TAG_INSERT) 1 = 1" "trim (RTL_PORT_REG i TAG_INSERT) 2 = 2" "trim (RTL_PORT_REG i TAG_INSERT) 3 = 3"
    using i by (simp_all add: trim_port port_bits_def)
  let ?F = "F1(RTL_PORT_REG i NULL_VID_REPLACE := 1, RTL_PORT_REG i VID_INSERT := (if en \<and> i = cpu then 0 else 1),
      RTL_PORT_REG i TAG_INSERT := (if \<not> en then 3 else if i = cpu then 2 else 1))"
  have mode: "ports_mode cpu en (Suc i) F ?F"
    using i I by (auto simp: ports_mode_def less_Suc_eq)
  have vals: "trim (RTL_PORT_REG i VID_INSERT) (if en then (if i = cpu then 0 else 1) else 1) = (if en \<and> i = cpu then 0 else 1)"
    "trim (RTL_PORT_REG i TAG_INSERT) (if en then (if i = cpu then 2 else 1) else 3) = (if \<not> en then 3 else if i = cpu then 2 else 1)"
    using t by (cases "i = cpu"; cases en; simp only: if_True if_False trim_0 simp_thms)+
  have body: "wp regs V cpu d ?body F1 R" if "R () ?F" for R
    using i that by (intro wp_bindE wp_set) (simp_all only: port_reg_less t(1) vals)
  have long: "wp regs V cpu d (bindE (rtl_phy_save B pv) (\<lambda>p. bindE ?body (\<lambda>_. rtl_phy_restore B pv p)))
      F1 (\<lambda>_. ports_mode cpu en (Suc i) F)"
    by (rule wp_bindE, rule wp_phy_save [OF pv], rule wp_bindE, rule body, rule wp_phy_restore [OF pv])
      (use mode in \<open>simp_all add: saved_def\<close>)
  have "wp regs V cpu d (if i > 3 then bindE (rtl_phy_save B pv) (\<lambda>p. bindE ?body (\<lambda>_. rtl_phy_restore B pv p)) else ?body)
      F1 (\<lambda>_. ports_mode cpu en (Suc i) F)"
    by (rule wp_if) (rule long, rule body, rule mode)
  then show "wp regs V cpu d (set_vlan_port B en pv i) F1 (\<lambda>_. ports_mode cpu en (Suc i) F)"
    by (rule wp_state [rotated]) (simp add: set_vlan_port_def Let_def)
qed (use Q in \<open>auto simp: ports_mode_def\<close>)

lemma wp_set_vlan:
  assumes pv: "unat (port_vlan v) < 6" and Q: "\<And>F'. vlan_mode V cpu d (val_i v) F F' \<Longrightarrow> Q () F'"
  shows "wp regs V cpu d (rtl_set_vlan B attr v) F Q"
proof -
  let ?en = "val_i v \<noteq> 0" and ?cpu = "if val_i v \<noteq> 0 \<and> d then 1 else 0"
  let ?m = "bindE (rtl_set B RTL_REG_EN_TAG_OUT ?cpu) (\<lambda>_. bindE (rtl_set B RTL_REG_EN_TAG_IN ?cpu) (\<lambda>_.
      bindE (rtl_set B RTL_REG_EN_TAG_CLR ?cpu) (\<lambda>_. bindE (rtl_set B RTL_REG_VLAN_TAG_AWARE (val_i v)) (\<lambda>_.
      bindE (if ?en then rtl_set B RTL_REG_VLAN_FILTER (val_i v) else retE ()) (\<lambda>_.
      bindE (forE [0..<RTL8306_NUM_PORTS] (set_vlan_port B ?en (unat (port_vlan v)))) (\<lambda>_.
      rtl_set B RTL_REG_VLAN_ENABLE (val_i v)))))))"
  have "wp regs V cpu d ?m F Q"
    by (intro wp_bindE wp_set wp_if wp_retE wp_vlan_ports Q pv) (auto simp: vlan_mode_def ports_mode_def trim_flag)
  then show ?thesis by (rule wp_state [rotated]) (simp add: rtl_set_vlan_def Let_def)
qed

lemma wp_get_vlan: "V \<subseteq> phy_status \<Longrightarrow> Q (v\<lparr>val_i := ucast (F RTL_REG_VLAN_ENABLE)\<rparr>) F \<Longrightarrow> wp regs V cpu d (rtl_get_vlan B attr v) F Q"
  unfolding rtl_get_vlan_def by (intro wp_rules) (simp_all add: kept_low)

end

end
