(* ===== verification/Rtl8306_Properties.thy ===== *)
theory Rtl8306_Properties
  imports Rtl8306_Ports Switch_Client
begin

text \<open>
  Correctness of the RTL8306 driver: its fields on every chip with paged registers, start-up, VLANs and
  port lists also on those with volatile PHY registers, its handlers under every sequence of requests on every bus, and the two PHY devices
  that share a chip.
\<close>

section \<open>A reference chip\<close>

definition ref_paged_regs :: "(nat \<Rightarrow> nat \<times> nat \<Rightarrow> u16) \<Rightarrow> nat \<Rightarrow> nat \<times> nat \<Rightarrow> u16" where
  "ref_paged_regs h p a = h (if a = (0, RTL8306_REG_PAGE) then 0 else p) a"

definition ref_page :: "(nat \<Rightarrow> nat \<times> nat \<Rightarrow> u16) \<Rightarrow> nat \<times> nat \<Rightarrow> nat" where
  "ref_page h a = (if a = (0, RTL8306_REG_PAGE) then 0 else page_of (h 0 (0, RTL8306_REG_PAGE)))"

definition ref_paged_bus :: "(nat \<Rightarrow> nat \<times> nat \<Rightarrow> u16) mii_bus" where
  "ref_paged_bus = \<lparr>bus_read = (\<lambda>phy reg h. (h (ref_page h (phy, reg)) (phy, reg), h)),
     bus_write = (\<lambda>phy reg v h. let q = ref_page h (phy, reg) in h(q := (h q)((phy, reg) := v)))\<rparr>"

lemma ref_paged_registers: "paged_registers ref_paged_bus ref_paged_regs"
  by (auto simp: paged_registers_def ref_paged_bus_def ref_paged_regs_def ref_page_def Let_def)

lemma ref_steady: "steady_registers ref_paged_bus ref_paged_regs {}" "{} \<subseteq> phy_status"
  by (simp_all add: paged_steady [OF ref_paged_registers])

interpretation ref_chip: rtl_chip ref_paged_bus ref_paged_regs "{}"
  by unfold_locales (rule ref_steady)

text \<open>A chip on which every access to register 22 of a PHY disturbs its control register.\<close>

definition disturb :: "nat \<Rightarrow> nat \<Rightarrow> (nat \<Rightarrow> nat \<times> nat \<Rightarrow> u16) \<Rightarrow> nat \<Rightarrow> nat \<times> nat \<Rightarrow> u16" where
  "disturb phy reg h = (if reg = 22 then (\<lambda>p. (h p)((phy, 0) := NOT (h p (phy, 0)))) else h)"

definition disturbed_bus :: "(nat \<Rightarrow> nat \<times> nat \<Rightarrow> u16) mii_bus" where
  "disturbed_bus = \<lparr>bus_read = (\<lambda>phy reg h. map_prod id (disturb phy reg) (bus_read ref_paged_bus phy reg h)),
     bus_write = (\<lambda>phy reg v h. disturb phy reg (bus_write ref_paged_bus phy reg v h))\<rparr>"

lemma disturbed_steady: "steady_registers disturbed_bus ref_paged_regs phy_status"
  by (auto simp: steady_registers_def disturbed_bus_def disturb_def ref_paged_bus_def ref_paged_regs_def ref_page_def
      phy_status_def Let_def)

section \<open>Fields\<close>


definition bench_rtl :: "(nat \<Rightarrow> nat \<times> nat \<Rightarrow> u16) rtl_priv" where
  "bench_rtl = \<lparr>rp_page = None, rp_fixup = False, rp_do_cpu = False, rp_cpu_port = 5, rp_hw = (\<lambda>_ _. 0)\<rparr>"

lemma bench_rtl_selects: "selects bench_rtl"
  by (simp add: bench_rtl_def selects_def)


section \<open>From the fields to the chip\<close>

lemma wp_run:
  assumes "wp regs V (rp_cpu_port s) (rp_do_cpu s) m (field regs (rp_hw s)) Q" "selects s"
  obtains x s' F' where "m s = (Inr x, s')" "selects s'" "rp_cpu_port s' = rp_cpu_port s" "rp_do_cpu s' = rp_do_cpu s"
    "\<And>j. j < 121 \<Longrightarrow> kept V j \<Longrightarrow> field regs (rp_hw s') j = F' j" "Q x F'"
proof -
  have "sim regs V (rp_cpu_port s) (rp_do_cpu s) (field regs (rp_hw s)) s" using assms(2) by (simp add: sim_def)
  then show thesis by (rule wpD [OF assms(1)]) (use that in \<open>auto simp: sim_def\<close>)
qed

lemma initialised_cong:
  assumes "\<And>j. j < 121 \<Longrightarrow> kept V j \<Longrightarrow> G j = F j" "initialised cpu F" "V \<subseteq> phy_status"
  shows "initialised cpu G"
  using assms(2)
  by (simp add: initialised_def assms(1) vlan_reg_less port_reg_less kept_low [OF assms(3)] kept_vlan [OF assms(3)] kept_port [OF assms(3)])

lemma ports_set_cong:
  assumes "\<And>j. j < 121 \<Longrightarrow> kept V j \<Longrightarrow> G j = F' j" "ports_set V cpu vlan ps F F'" "vlan < 16" "V \<subseteq> phy_status"
  shows "ports_set V cpu vlan ps F G"
  using assms(2,3)
  by (simp add: ports_set_def egress_set_def assms(1) vlan_reg_less port_reg_less kept_vlan [OF assms(4)] kept_port [OF assms(4)])

lemma vlan_mode_cong:
  assumes "\<And>j. j < 121 \<Longrightarrow> kept V j \<Longrightarrow> G j = F' j" "vlan_mode V cpu d x F F'" "V \<subseteq> phy_status"
  shows "vlan_mode V cpu d x F G"
  using assms(2) by (simp add: vlan_mode_def assms(1) port_reg_less kept_low [OF assms(3)] kept_port [OF assms(3)])

section \<open>VLAN mode and port lists\<close>

text \<open>
  Setting \<open>enable_vlan\<close> to any value succeeds and switches the whole chip: VLAN flags, egress
  tagging of every port (tagged on the CPU port, untagged elsewhere); reading it back
  gives the lowest bit of the value. The other fields that the chip keeps keep their values; nothing is
  said of control and status registers of the PHYs that accesses disturb, such as those of ports 4 and 5
  by accesses to register 22, and the driver saves and restores the settings of another port around them.
\<close>
theorem rtl8306_vlan_mode:
  assumes B: "steady_registers B regs V" "V \<subseteq> phy_status" and s: "selects s" and v: "unat (port_vlan v) < 6"
  shows "\<exists>s1 s2. rtl_set_vlan B a v s = (Inr (), s1)
    \<and> vlan_mode V (rp_cpu_port s) (rp_do_cpu s) (val_i v) (field regs (rp_hw s)) (field regs (rp_hw s1))
    \<and> rtl_get_vlan B a' u s1 = (Inr (u\<lparr>val_i := take_bit 1 (val_i v)\<rparr>), s2)"
proof -
  note chip = rtl_chip.intro [OF B(1)]
  obtain s1 F1 where 1: "rtl_set_vlan B a v s = (Inr (), s1)" "selects s1"
    "\<And>j. j < 121 \<Longrightarrow> kept V j \<Longrightarrow> field regs (rp_hw s1) j = F1 j"
    "vlan_mode V (rp_cpu_port s) (rp_do_cpu s) (val_i v) (field regs (rp_hw s)) F1"
    by (rule wp_run [OF rtl_chip.wp_set_vlan [OF chip v, where Q = "\<lambda>_. vlan_mode V (rp_cpu_port s) (rp_do_cpu s) (val_i v) (field regs (rp_hw s))"] s]) auto
  have m: "vlan_mode V (rp_cpu_port s) (rp_do_cpu s) (val_i v) (field regs (rp_hw s)) (field regs (rp_hw s1))"
    by (rule vlan_mode_cong [OF 1(3,4) B(2)])
  obtain x s2 where 2: "rtl_get_vlan B a' u s1 = (Inr x, s2)" "x = u\<lparr>val_i := ucast (field regs (rp_hw s1) RTL_REG_VLAN_ENABLE)\<rparr>"
    by (rule wp_run [OF rtl_chip.wp_get_vlan [OF chip B(2), where Q = "\<lambda>x _. x = u\<lparr>val_i := ucast (field regs (rp_hw s1) RTL_REG_VLAN_ENABLE)\<rparr>"] 1(2)]) auto
  have "ucast (ucast (take_bit 1 w :: u32) :: u16) = take_bit 1 w" for w :: u32
    by (rule bit_word_eqI) (auto simp: bit_ucast_iff bit_take_bit_iff)
  then have "x = u\<lparr>val_i := take_bit 1 (val_i v)\<rparr>" using m 2(2) by (simp add: vlan_mode_def)
  then show ?thesis using 1(1) 2(1) m by blast
qed

theorem rtl8306_vlan_mode_witness:
  "let a = attr_info (hd (rtl_globals ref_paged_bus)) in \<exists>s1 s2. rtl_set_vlan ref_paged_bus a (zero_val\<lparr>val_i := 2\<rparr>) bench_rtl = (Inr (), s1)
    \<and> rtl_get_vlan ref_paged_bus a zero_val s1 = (Inr zero_val, s2)
    \<and> field ref_paged_regs (rp_hw s1) (RTL_PORT_REG 0 TAG_INSERT) = 1"
proof -
  have v: "unat (port_vlan (zero_val\<lparr>val_i := 2\<rparr>)) < 6" by (simp add: zero_val_def)
  have t: "take_bit 1 (2 :: u32) = 0" by simp
  have z: "zero_val\<lparr>val_i := 0\<rparr> = zero_val" by (simp add: zero_val_def)
  have c: "rp_cpu_port bench_rtl = 5" by (simp add: bench_rtl_def)
  show ?thesis
    using rtl8306_vlan_mode [OF ref_steady bench_rtl_selects v, of "attr_info (hd (rtl_globals ref_paged_bus))"
      "attr_info (hd (rtl_globals ref_paged_bus))" zero_val]
    unfolding Let_def by (auto simp: t z c vlan_mode_def)
qed

text \<open>
  C28. A port list with port numbers in range is accepted for any VLAN, on a chip whose registers hold
  what was written apart from control and status registers \<open>V\<close> of the PHYs, which any access may change.
  The driver reads the entry at the position that equals the number of the CPU port, the sixth, as a
  tagged one whatever it says (it compares the loop index with the number of the CPU port); \<open>es\<close> is the
  list with that flag added. Reading the VLAN then returns the listed ports in ascending order and
  without duplicates, the CPU port as a tagged one and any other port tagged as its last entry in \<open>es\<close>
  says. A port with an untagged entry in \<open>es\<close> gets the VLAN as PVID, a port that leaves its PVID's VLAN
  gets the last VLAN, the egress fields of a listed port follow its last entry in \<open>es\<close>, and no other
  field of the table outside \<open>V\<close> changes.
\<close>
theorem rtl8306_ports_round_trip:
  assumes B: "steady_registers B regs V" "V \<subseteq> phy_status" and s: "selects s" and vlan: "unat (port_vlan v) < 16"
    and ps: "ps = take (val_len v) (val_ports v)" "\<forall>p \<in> set ps. unat (port_id p) < 6"
    and es: "es = map (\<lambda>(k, p). if k = rp_cpu_port s then p\<lparr>port_flags := port_flags p OR BIT SWITCH_PORT_FLAG_TAGGED\<rparr> else p)
      (enumerate 0 ps)"
    and u: "port_vlan u = port_vlan v" "val_ports u = []" "val_len u = 0"
  shows "\<exists>s1 s2. rtl_set_ports B v s = (Inr (), s1)
    \<and> ports_set V (rp_cpu_port s) (unat (port_vlan v)) es (field regs (rp_hw s)) (field regs (rp_hw s1))
    \<and> (let l = map (\<lambda>i. \<lparr>port_id = of_nat i, port_flags =
            (if i = rp_cpu_port s \<or> last_tag es i = Some True then BIT SWITCH_PORT_FLAG_TAGGED else 0)\<rparr>)
          (filter (lists_port ps) [0..<6])
       in rtl_get_ports B u s1 = (Inr (u\<lparr>val_ports := l, val_len := length l\<rparr>), s2))"
proof -
  note chip = rtl_chip.intro [OF B(1)]
  let ?c = "rp_cpu_port s" and ?n = "unat (port_vlan v)"
  have es': "es = flag_position ?c 0 ps" by (simp add: es flag_position_def)
  obtain s1 F1 where 1: "rtl_set_ports B v s = (Inr (), s1)" "selects s1" "rp_cpu_port s1 = ?c"
    "\<And>j. j < 121 \<Longrightarrow> kept V j \<Longrightarrow> field regs (rp_hw s1) j = F1 j" "ports_set V ?c ?n es (field regs (rp_hw s)) F1"
    by (rule wp_run [OF rtl_chip.wp_set_ports [OF chip B(2) vlan ps, where Q = "\<lambda>_. ports_set V ?c ?n es (field regs (rp_hw s))"] s])
      (auto simp: es')
  let ?F = "field regs (rp_hw s1)"
  have set: "ports_set V ?c ?n es (field regs (rp_hw s)) ?F" by (rule ports_set_cong [OF 1(4,5) vlan B(2)])
  let ?l = "listed ?c ?F (?F (RTL_VLAN_REG ?n PORTMASK)) [0..<6]"
  have un: "unat (port_vlan u) < 16" using vlan u(1) by simp
  obtain x s2 where 2: "rtl_get_ports B u s1 = (Inr x, s2)" "x = u\<lparr>val_ports := ?l, val_len := length ?l\<rparr>"
    by (rule wp_run [OF rtl_chip.wp_get_ports [OF chip B(2) un u(2,3), where Q = "\<lambda>x _. x = u\<lparr>val_ports := ?l, val_len := length ?l\<rparr>"] 1(2)])
      (simp_all add: u(1) 1(3) Let_def del: upt_conv_Cons)
  have mem: "bit (?F (RTL_VLAN_REG ?n PORTMASK)) = lists_port ps"
    using set by (auto simp: ports_set_def es' lists_port_flagged)
  have "?F (RTL_PORT_REG i TAG_INSERT) = 2 \<longleftrightarrow> last_tag es i = Some True"
    if "i < 6" "i \<noteq> ?c" "lists_port ps i" for i
    using set that last_entry_None [of ?c 0 ps i]
    by (auto simp: ports_set_def egress_set_def es' last_entry_flagged split: option.splits)
  then have "?l = map (\<lambda>i. \<lparr>port_id = of_nat i, port_flags =
        (if i = ?c \<or> last_tag es i = Some True then BIT SWITCH_PORT_FLAG_TAGGED else 0)\<rparr>) (filter (lists_port ps) [0..<6])"
    unfolding listed_def mem by (intro map_cong) auto
  then show ?thesis using 1(1) set 2 unfolding Let_def by metis
qed

definition bench_list :: switch_val where
  "bench_list = zero_val\<lparr>port_vlan := 7, val_len := 3,
     val_ports := [\<lparr>port_id = 5, port_flags = 0\<rparr>, \<lparr>port_id = 3, port_flags = 4\<rparr>, \<lparr>port_id = 1, port_flags = 0\<rparr>]\<rparr>"

theorem rtl8306_ports_round_trip_witness:
  "\<exists>s1 s2. rtl_set_ports disturbed_bus bench_list bench_rtl = (Inr (), s1)
    \<and> rtl_get_ports disturbed_bus (zero_val\<lparr>port_vlan := 7\<rparr>) s1 =
      (Inr (zero_val\<lparr>port_vlan := 7, val_len := 3,
         val_ports := [\<lparr>port_id = 1, port_flags = 0\<rparr>, \<lparr>port_id = 3, port_flags = 4\<rparr>, \<lparr>port_id = 5, port_flags = 4\<rparr>]\<rparr>), s2)"
proof -
  have v: "unat (port_vlan bench_list) < 16" "\<forall>p \<in> set (take (val_len bench_list) (val_ports bench_list)). unat (port_id p) < 6"
    "port_vlan (zero_val\<lparr>port_vlan := 7\<rparr>) = port_vlan bench_list"
    "val_ports (zero_val\<lparr>port_vlan := 7\<rparr>) = []" "val_len (zero_val\<lparr>port_vlan := 7\<rparr>) = 0"
    by (simp_all add: bench_list_def zero_val_def)
  have up: "[0..<6] = [0, 1, 2, 3, 4, 5 :: nat]" by (simp add: upt_rec)
  show ?thesis
    using rtl8306_ports_round_trip [OF disturbed_steady order_refl bench_rtl_selects v(1) refl v(2) refl v(3-5)]
    by (auto simp: up bench_list_def bench_rtl_def Let_def zero_val_def lists_port_def last_tag_def tagged_def BIT_def)
qed

section \<open>The driver behind the configuration layer\<close>

text \<open>What start-up establishes and every handler keeps.\<close>

definition rtl_inv :: "'h rtl_priv \<Rightarrow> bool" where
  "rtl_inv s \<longleftrightarrow> selects s \<and> rp_cpu_port s = RTL8306_PORT_CPU \<and> \<not> rp_do_cpu s"

lemma safe_bus [safe_intros]: "safe rtl_inv (bus_rd B phy reg)" "safe rtl_inv (bus_wr B phy reg v)"
  by (auto simp: safe_def rtl_inv_def selects_def bus_rd_def bus_wr_def split: prod.split)

text \<open>A handler that reads the driver state is safe if it is with what start-up sets there.\<close>

lemma safe_state:
  assumes "\<And>s. rtl_inv s \<Longrightarrow> m s = m' s" "safe rtl_inv m'"
  shows "safe rtl_inv m"
  using assms by (simp add: safe_def)

lemma safe_set_page [safe_intros]: "p < 4 \<Longrightarrow> safe rtl_inv (rtl_set_page B p)"
  by (rule safe_state [where m' = "bindE (bus_rd B 0 RTL8306_REG_PAGE) (\<lambda>g. bus_wr B 0 RTL8306_REG_PAGE (page_select p g))"])
    (auto simp: rtl_set_page_def rtl_inv_def selects_def intro!: safe_intros)

lemma safe_get [safe_intros]: "i < 121 \<Longrightarrow> safe rtl_inv (rtl_get B i)"
  using field_ok [of i] by (auto simp: rtl_get_def rtl_r16_def Let_def reg_ok_def intro!: safe_intros)

lemma safe_set [safe_intros]: "i < 121 \<Longrightarrow> safe rtl_inv (rtl_set B i v)"
  using field_ok [of i] by (auto simp: rtl_set_def rtl_rmw_def Let_def reg_ok_def intro!: safe_intros)

lemma safe_if [safe_intros]: "(c \<Longrightarrow> safe I m) \<Longrightarrow> (\<not> c \<Longrightarrow> safe I m') \<Longrightarrow> safe I (if c then m else m')"
  by simp

lemma safe_phy [safe_intros]:
  "port < 6 \<Longrightarrow> safe rtl_inv (rtl_phy_save B port)" "port < 6 \<Longrightarrow> safe rtl_inv (rtl_phy_restore B port r)"
  "port < 6 \<Longrightarrow> safe rtl_inv (rtl_port_set_enable B port e)"
  unfolding rtl_phy_save_def rtl_phy_restore_def rtl_port_set_enable_def
  by (intro safe_intros; simp add: port_reg_less)+

lemma safe_reset_wait [safe_intros]: "safe rtl_inv (reset_wait B n)"
  by (induction n) (auto intro!: safe_intros)

lemma safe_hw_apply [safe_intros]: "safe rtl_inv (rtl_hw_apply B)"
  unfolding rtl_hw_apply_def by (intro safe_intros) simp_all

lemma safe_hw_init [safe_intros]: "safe rtl_inv (rtl_hw_init B)"
proof (rule safe_state)
  let ?m = "bindE (rtl_set B RTL_REG_VLAN_ENABLE 0) (\<lambda>_. bindE (rtl_set B RTL_REG_VLAN_FILTER 0) (\<lambda>_.
     bindE (rtl_set B RTL_REG_EN_TRUNK 0) (\<lambda>_. bindE (rtl_set B RTL_REG_TRUNK_PORTSEL 0) (\<lambda>_.
     bindE (hw_init_cpu B) (\<lambda>_. bindE (rtl_set B RTL_REG_EN_TAG_OUT 0) (\<lambda>_.
     bindE (rtl_set B RTL_REG_EN_TAG_IN 0) (\<lambda>_. bindE (rtl_set B RTL_REG_EN_TAG_CLR 0) (\<lambda>_.
     bindE (forE [0..<RTL8306_NUM_VLANS] (hw_init_vlan B)) (\<lambda>_.
     bindE (forE [0..<RTL8306_NUM_PORTS] (hw_init_port B RTL8306_PORT_CPU)) (\<lambda>_. rtl_hw_apply B))))))))))"
  show "rtl_hw_init B s = ?m s" if "rtl_inv s" for s
    using that by (simp add: rtl_hw_init_def rtl_inv_def Let_def)
  have "safe rtl_inv (hw_init_cpu B)"
    by (rule safe_state [where m' = "bindE (rtl_set B RTL_REG_CPUPORT 7) (\<lambda>_. rtl_set B RTL_REG_EN_CPUPORT 0)"])
      (auto simp: hw_init_cpu_def rtl_inv_def intro!: safe_intros)
  then show "safe rtl_inv ?m"
    unfolding hw_init_vlan_def hw_init_port_def by (intro safe_intros) (auto simp: vlan_reg_less port_reg_less)
qed

lemma safe_set_vlan: "port_vlan v = 0 \<Longrightarrow> safe rtl_inv (rtl_set_vlan B a v)"
proof (rule safe_state)
  assume v: "port_vlan v = 0"
  let ?m = "bindE (rtl_set B RTL_REG_EN_TAG_OUT 0) (\<lambda>_. bindE (rtl_set B RTL_REG_EN_TAG_IN 0) (\<lambda>_.
      bindE (rtl_set B RTL_REG_EN_TAG_CLR 0) (\<lambda>_. bindE (rtl_set B RTL_REG_VLAN_TAG_AWARE (val_i v)) (\<lambda>_.
      bindE (if val_i v \<noteq> 0 then rtl_set B RTL_REG_VLAN_FILTER (val_i v) else retE ()) (\<lambda>_.
      bindE (forE [0..<RTL8306_NUM_PORTS] (set_vlan_port B (val_i v \<noteq> 0) 0)) (\<lambda>_.
      rtl_set B RTL_REG_VLAN_ENABLE (val_i v)))))))"
  show "rtl_set_vlan B a v s = ?m s" if "rtl_inv s" for s
    using that v by (simp add: rtl_set_vlan_def rtl_inv_def Let_def)
  have port: "safe rtl_inv (set_vlan_port B en 0 i)" if i: "i < 6" for en i
  proof (rule safe_state)
    let ?body = "bindE (rtl_set B (RTL_PORT_REG i NULL_VID_REPLACE) 1) (\<lambda>_.
      bindE (rtl_set B (RTL_PORT_REG i VID_INSERT) (if en then (if i = RTL8306_PORT_CPU then 0 else 1) else 1)) (\<lambda>_.
      rtl_set B (RTL_PORT_REG i TAG_INSERT) (if en then (if i = RTL8306_PORT_CPU then 2 else 1) else 3)))"
    let ?p = "if i > 3 then bindE (rtl_phy_save B 0) (\<lambda>p. bindE ?body (\<lambda>_. rtl_phy_restore B 0 p)) else ?body"
    show "set_vlan_port B en 0 i s = ?p s" if "rtl_inv s" for s
      using that by (simp add: set_vlan_port_def rtl_inv_def Let_def)
    show "safe rtl_inv ?p" by (intro safe_intros) (simp_all add: i port_reg_less)
  qed
  show "safe rtl_inv ?m" by (intro safe_intros port) simp_all
qed

lemma safe_set_ports:
  assumes vlan: "unat (port_vlan v) < 16" and ps: "\<forall>p \<in> set (take (val_len v) (val_ports v)). unat (port_id p) < 6"
  shows "safe rtl_inv (rtl_set_ports B v)"
proof -
  have member: "safe rtl_inv (set_port_member B n i p m)" if p: "unat (port_id p) < 6" for n i p m
  proof (rule safe_state)
    let ?n = "unat (port_id p)" and ?t = "entry_tag RTL8306_PORT_CPU i p"
    let ?m = "if ?n = RTL8306_PORT_CPU then retE (m OR BIT ?n)
      else bindE (if ?t then retE () else rtl_set B (RTL_PORT_REG ?n PVID) (of_nat n)) (\<lambda>_.
           bindE (rtl_set B (RTL_PORT_REG ?n NON_PVID_DISCARD) (if ?t then 0 else 1)) (\<lambda>_.
           bindE (rtl_set B (RTL_PORT_REG ?n VID_INSERT) (if ?t then 0 else 1)) (\<lambda>_.
           bindE (rtl_set B (RTL_PORT_REG ?n TAG_INSERT) (if ?t then 2 else 1)) (\<lambda>_. retE (m OR BIT ?n)))))"
    show "set_port_member B n i p m s = ?m s" if "rtl_inv s" for s
      using that p by (auto simp: set_port_member_def rtl_inv_def Let_def entry_tag_def tagged_def retE_def)
    show "safe rtl_inv ?m" by (intro safe_intros) (simp_all add: p port_reg_less)
  qed
  have loop: "safe rtl_inv (set_members_loop B n i ps m)" if "\<forall>p \<in> set ps. unat (port_id p) < 6" for n i ps m
    using that by (induction ps arbitrary: i m) (auto intro!: safe_intros member)
  have removed: "safe rtl_inv (fix_removed_port B n m i)" if "i < 6" for n m i
    by (rule safe_state [where m' = "if m AND BIT i = 0 then retE () else if i = RTL8306_PORT_CPU then retE ()
        else bindE (rtl_get B (RTL_PORT_REG i PVID)) (\<lambda>pv.
          if unat pv = n then rtl_set B (RTL_PORT_REG i PVID) (of_nat (RTL8306_NUM_VLANS - 1)) else retE ())"])
      (use that in \<open>auto simp: fix_removed_port_def rtl_inv_def retE_def port_reg_less intro!: safe_intros\<close>)
  show ?thesis
    unfolding rtl_set_ports_def Let_def by (intro safe_intros loop removed) (use vlan ps in \<open>auto simp: vlan_reg_less\<close>)
qed

lemma safe_attr_set:
  assumes "nat (attr_id a) + unat (port_vlan v) * nat (attr_ofs a) < 121"
    "unat (port_vlan v) < 6 \<or> rr_reg (rtl_regs ! (nat (attr_id a) + unat (port_vlan v) * nat (attr_ofs a))) \<noteq> 22"
  shows "safe rtl_inv (rtl_attr_set_int B a v)"
  unfolding rtl_attr_set_int_def Let_def by (intro safe_intros) (use assms in auto)

text \<open>The switch as \<open>register_switch\<close> leaves it, with id \<open>n\<close> and number \<open>i\<close>.\<close>

definition rtl8306_registered ::
  "'h mii_bus \<Rightarrow> rtl_chip_type \<Rightarrow> string \<Rightarrow> of_port list \<Rightarrow> u32 \<Rightarrow> nat \<Rightarrow> ('h rtl_priv) switch_dev" where
  "rtl8306_registered B t parent nodes n i =
    (swconfig_defaults_init (rtl8306_sw_dev B t parent))\<lparr>dev_id := n, devname := switch_name i,
       portmap := of_switch_load_portmap 6 nodes (replicate 6 None)\<rparr>"

lemma rtl8306_registered_fields [simp]:
  "dev_ops (rtl8306_registered B t parent nodes n i) = rtl8306_ops B"
  "dev_ports (rtl8306_registered B t parent nodes n i) = 6" "dev_vlans (rtl8306_registered B t parent nodes n i) = 16"
  "dev_id (rtl8306_registered B t parent nodes n i) = n"
  by (simp_all add: rtl8306_registered_def swconfig_defaults_init_def rtl8306_sw_dev_def Let_def)

lemma rtl8306_register_dev:
  assumes "register_switch mx a1 a2 led nodes (rtl8306_sw_dev B t parent) r = (Inr d, r')"
  obtains n i where "d = rtl8306_registered B t parent nodes n i" "swdevs r' = swdevs r @ [d]"
  using register_switch_lists [OF assms]
  by (auto simp: list_switch_def Let_def rtl8306_registered_def swconfig_defaults_init_def rtl8306_sw_dev_def
      split: if_splits)

lemma vid_fields: "list_all (\<lambda>i. rr_reg (rtl_regs ! RTL_VLAN_REG i VID) \<noteq> 22) [0..<16]"
  by code_simp

interpretation rtl06: guarded_driver "rtl8306_registered B t parent nodes n i" rtl_inv
  for B :: "'h mii_bus" and t parent nodes n i
proof
  let ?dev = "rtl8306_registered B t parent nodes n i"
  fix a :: "('h rtl_priv) switch_attr" and f and v :: switch_val
  assume f: "attr_set a = Some f"
  show "safe rtl_inv (f (attr_info a) v)" if "a \<in> set (attr_global (dev_ops ?dev))" "port_vlan v = 0"
    using that f by (auto simp: rtl8306_ops_def rtl_globals_def mk_attr_def with_reg_def intro!: safe_set_vlan safe_attr_set)
  show "safe rtl_inv (f (attr_info a) v)" if "a \<in> set (attr_port (dev_ops ?dev))" "port_vlan v < dev_ports ?dev"
    using that f by (auto simp: rtl8306_ops_def rtl_port_def mk_attr_def with_reg_def rtl_attr_set_port_int_def
        RTL_PORT_REG_def port_field_nr_def word_less_nat_alt intro!: safe_intros safe_attr_set)
  show "safe rtl_inv (f (attr_info a) v)" if "a \<in> set (attr_vlan (dev_ops ?dev))" "port_vlan v < dev_vlans ?dev"
  proof -
    have v: "unat (port_vlan v) < 16" using that(2) by (simp add: word_less_nat_alt)
    then have "rr_reg (rtl_regs ! (17 + unat (port_vlan v) * 2)) \<noteq> 22"
      using vid_fields by (simp add: list_all_iff RTL_VLAN_REG_def vlan_field_nr_def del: upt_conv_Cons)
    then show ?thesis
      using that f v by (auto simp: rtl8306_ops_def rtl_vlan_def mk_attr_def with_reg_def rtl_attr_set_vlan_int_def
          RTL_VLAN_REG_def vlan_field_nr_def intro!: safe_intros safe_attr_set)
  qed
next
  let ?dev = "rtl8306_registered B t parent nodes n i"
  fix g and v :: switch_val
  assume "set_vlan_ports (dev_ops ?dev) = Some g" "port_vlan v < dev_vlans ?dev" "val_len v \<le> unat (dev_ports ?dev)"
    "\<forall>p \<in> set (take (val_len v) (val_ports v)). port_id p < dev_ports ?dev"
  then show "safe rtl_inv (g v)"
    by (auto simp: rtl8306_ops_def word_less_nat_alt intro!: safe_set_ports)
qed (auto simp: rtl8306_ops_def rtl_reset_def intro!: safe_intros)

section \<open>Attaching the device\<close>

lemma safe_init_chip [safe_intros]: "safe rtl_inv (init_chip B)"
  unfolding init_chip_def by (intro safe_intros) simp_all

text \<open>The private data as the start-up code sets it.\<close>

definition started :: "'h \<Rightarrow> 'h rtl_priv \<Rightarrow> 'h rtl_priv" where
  "started h p = p\<lparr>rp_hw := h, rp_cpu_port := RTL8306_PORT_CPU, rp_do_cpu := False, rp_page := None\<rparr>"

lemma on_priv_init:
  assumes "rw_priv w = RtlLive p q" "init_chip B (started (rw_hw w) p) = (r, s)"
  shows "on_priv (bindE init_priv (\<lambda>_. init_chip B)) w = (r, w\<lparr>rw_priv := RtlLive s q, rw_hw := rp_hw s\<rparr>)"
  using assms by (simp add: on_priv_def bindE_def [of init_priv] init_priv_def started_def)

lemma config_init_inv:
  assumes init: "rtl8306_config_init B mx a1 a2 led nodes parent w = (Inr (), w')" and w: "rw_addr w = 0"
    and p: "rw_priv w = RtlLive p q" "\<not> rp_fixup p"
  obtains t d s where "register_switch mx a1 a2 led nodes (rtl8306_sw_dev B t parent) (rw_switches w) = (Inr d, rw_switches w')"
    "rw_priv w' = RtlLive s (Some (dev_id d))" "rtl_inv s"
proof -
  obtain r s where m: "init_chip B (started (rw_hw w) p) = (r, s)" by fastforce
  have "rtl_inv (started (rw_hw w) p)" using p(2) by (simp add: rtl_inv_def selects_def started_def)
  then have s: "rtl_inv s" using safeD [OF safe_init_chip, of _ B] m by (metis snd_conv)
  note on = on_priv_init [OF p(1) m]
  show thesis
  proof (cases r)
    case (Inl e)
    then show ?thesis using init w on by (simp add: rtl8306_config_init_def bindE_def [of "on_priv x" for x])
  next
    case (Inr t)
    then show ?thesis
      using init w on that [of t _ s] s
      by (auto simp: rtl8306_config_init_def bindE_def [of "on_priv x" for x] split: prod.splits sum.splits)
  qed
qed

context rtl_chip begin

lemma wp_init_chip:
  assumes V: "V \<subseteq> phy_status" and "cpu < 6" "\<And>F'. initialised cpu F' \<Longrightarrow> Q (chip_type (F RTL_REG_CHIPTYPE)) F'"
  shows "wp regs V cpu d (init_chip B) F Q"
  unfolding init_chip_def by (intro wp_bindE wp_get wp_hw_init wp_retE) (use assms kept_low [OF V] in auto)

end

lemma probe_run:
  "rtl8306_probe True w = (Inr (), w1) \<longleftrightarrow>
    w1 = w\<lparr>rw_blocks := rw_blocks w + 1,
      rw_priv := RtlLive \<lparr>rp_page = Some 0, rp_fixup = False, rp_do_cpu = False, rp_cpu_port = 0, rp_hw = rw_hw w\<rparr> None\<rparr>"
  by (auto simp: rtl8306_probe_def)

lemma rtl06_start_up_run:
  assumes B: "steady_registers B regs V" "V \<subseteq> phy_status" and w: "rw_addr w0 = 0" "rtl8306_probe True w0 = (Inr (), w)"
    and t: "t = chip_type (field regs (rw_hw w0) RTL_REG_CHIPTYPE)"
    and reg: "register_switch mx a1 a2 led nodes (rtl8306_sw_dev B t parent) (rw_switches w0) = (Inr d, r)"
  obtains w' s where "rtl8306_config_init B mx a1 a2 led nodes parent w = (Inr (), w')"
    "rw_priv w' = RtlLive s (Some (dev_id d))" "rtl_inv s" "rp_hw s = rw_hw w'"
    "initialised RTL8306_PORT_CPU (field regs (rw_hw w'))" "rw_switches w' = r" "rw_blocks w' = rw_blocks w0 + 1"
proof -
  note chip = rtl_chip.intro [OF B(1)]
  obtain p where p: "rw_priv w = RtlLive p None" "\<not> rp_fixup p" and w1: "rw_addr w = 0" "rw_hw w = rw_hw w0"
    "rw_switches w = rw_switches w0" "rw_blocks w = rw_blocks w0 + 1"
    using w by (auto simp: probe_run)
  let ?p = "started (rw_hw w) p"
  have sel: "selects ?p" "rp_cpu_port ?p = RTL8306_PORT_CPU" "\<not> rp_do_cpu ?p" "rp_hw ?p = rw_hw w0"
    using p(2) w1 by (simp_all add: started_def selects_def)
  have cpu: "rp_cpu_port ?p < 6" using sel(2) by simp
  obtain x s F' where run: "init_chip B ?p = (Inr x, s)" "selects s" "rp_cpu_port s = RTL8306_PORT_CPU" "\<not> rp_do_cpu s"
    "\<And>j. j < 121 \<Longrightarrow> kept V j \<Longrightarrow> field regs (rp_hw s) j = F' j" "x = t" "initialised RTL8306_PORT_CPU F'"
    by (rule wp_run [OF rtl_chip.wp_init_chip [OF chip B(2) cpu,
            where Q = "\<lambda>x F. x = t \<and> initialised RTL8306_PORT_CPU F"] sel(1)]) (use sel t in auto)
  have ini: "initialised RTL8306_PORT_CPU (field regs (rp_hw s))" by (rule initialised_cong [OF run(5,7) B(2)])
  let ?w = "w\<lparr>rw_priv := RtlLive s (Some (dev_id d)), rw_hw := rp_hw s, rw_type := t, rw_switches := r\<rparr>"
  have c: "rtl8306_config_init B mx a1 a2 led nodes parent w = (Inr (), ?w)"
    using on_priv_init [OF p(1) run(1)] run(6) w1 reg
    by (simp add: rtl8306_config_init_def bindE_def [of "on_priv x" for x])
  have "rtl_inv s" using run by (simp add: rtl_inv_def)
  then show thesis by (rule that [OF c, rotated]) (use ini w1 in simp_all)
qed


definition bench_rtl_world :: "nat \<Rightarrow> (nat \<Rightarrow> nat \<times> nat \<Rightarrow> u16) rtl_world" where
  "bench_rtl_world addr = \<lparr>rw_addr = addr, rw_ident = RTL8306_MAGIC, rw_priv = RtlNone, rw_type = RTL_TYPE_S, rw_speed = 0,
     rw_full_duplex = False, rw_link = False, rw_running = False, rw_blocks = 0,
     rw_switches = \<lparr>swdev_id = 0, swdevs = [], sw_mem = 0\<rparr>, rw_hw = (\<lambda>p a. if p = 1 \<and> a = (4, 1) then 4 else if a = (0, 16) then 0x8002 else 0)\<rparr>"

lemma bench_rtl_register:
  "\<exists>d r. register_switch 64 True True None [] (rtl8306_sw_dev ref_paged_bus t ''eth0'') (rw_switches (bench_rtl_world n)) = (Inr d, r)"
  by (simp add: bench_rtl_world_def register_first)

lemma bench_rtl_probe: "\<exists>w. rtl8306_probe True (bench_rtl_world n) = (Inr (), w)"
  by (simp add: rtl8306_probe_def)



text \<open>
  C29. After start-up on any bus, whatever its registers return, no sequence of set requests makes a
  handler leave the table of fields, shift out of range or run into a \<open>BUG_ON\<close>; the driver instance
  stays as start-up left it apart from the chip.
\<close>
theorem rtl8306_requests_safe:
  assumes w: "rtl8306_probe True w0 = (Inr (), w)" "rw_addr w0 = 0" "swdevs (rw_switches w0) = []"
    and init: "rtl8306_config_init B mx a1 a2 led nodes parent w = (Inr (), w')"
    and priv: "rw_priv w' = RtlLive s0 n"
    and reach: "request_reachable (swdevs (rw_switches w')) s0 s"
  shows "rtl_inv s \<and> \<not> crashed (fst (swconfig_set_attr (swdevs (rw_switches w')) cap info s))"
proof -
  obtain p where p: "rw_priv w = RtlLive p None" "\<not> rp_fixup p" and w1: "rw_addr w = 0" "rw_switches w = rw_switches w0"
    using w by (auto simp: probe_run)
  obtain t d s1 where d: "register_switch mx a1 a2 led nodes (rtl8306_sw_dev B t parent) (rw_switches w) = (Inr d, rw_switches w')"
    "rw_priv w' = RtlLive s1 (Some (dev_id d))" "rtl_inv s1"
    by (rule config_init_inv [OF init w1(1) p])
  obtain m i where "d = rtl8306_registered B t parent nodes m i" "swdevs (rw_switches w') = swdevs (rw_switches w) @ [d]"
    using rtl8306_register_dev [OF d(1)] by blast
  then show ?thesis
    using rtl06.requests_safe [OF reach, of B t parent nodes m i cap info] d(2,3) priv w(3) w1(2) by simp
qed

theorem rtl8306_requests_safe_witness:
  "\<exists>w w' s0 n. rtl8306_probe True (bench_rtl_world 0) = (Inr (), w)
     \<and> rtl8306_config_init ref_paged_bus 64 True True None [] ''eth0'' w = (Inr (), w') \<and> rw_priv w' = RtlLive s0 n \<and> rtl_inv s0"
proof -
  let ?w0 = "bench_rtl_world 0" and ?t = "chip_type (field ref_paged_regs (rw_hw (bench_rtl_world 0)) RTL_REG_CHIPTYPE)"
  obtain w where w: "rtl8306_probe True ?w0 = (Inr (), w)" using bench_rtl_probe by blast
  have a: "rw_addr ?w0 = 0" "swdevs (rw_switches ?w0) = []" by (simp_all add: bench_rtl_world_def)
  obtain d r where reg: "register_switch 64 True True None [] (rtl8306_sw_dev ref_paged_bus ?t ''eth0'') (rw_switches ?w0) = (Inr d, r)"
    using bench_rtl_register by blast
  obtain w' s where i: "rtl8306_config_init ref_paged_bus 64 True True None [] ''eth0'' w = (Inr (), w')" "rw_priv w' = RtlLive s (Some (dev_id d))"
    by (rule rtl06_start_up_run [OF ref_steady a(1) w refl reg])
  have "rtl_inv s" using rtl8306_requests_safe [OF w a i request_reachable.start] by blast
  then show ?thesis using w i by blast
qed

text \<open>
  C31. The second PHY of the chip, at address 4, gets a driver instance of its own, which believes page 0
  selected. It is not initialised, its link state is read from whatever page the switch driver selected
  last, and removing it unregisters a switch that was never registered.
\<close>
theorem rtl8306_second_phy:
  assumes B: "paged_registers B regs" and w: "rtl8306_probe True w = (Inr (), w1)" "rw_addr w = 4"
    and r: "r = regs (rw_hw w) (page_of (regs (rw_hw w) 0 (0, RTL8306_REG_PAGE)))"
  shows "rtl8306_config_init B mx a1 a2 led nodes parent w1 = (Inr (), w1)
    \<and> (\<exists>w2. rtl8306_read_status B w1 = (Inr (), w2) \<and> rw_speed w2 = (if bit (r (4, 0)) 13 then 100 else 10)
         \<and> rw_full_duplex w2 = bit (r (4, 0)) 8 \<and> rw_link w2 = bit (r (4, 1)) 2 \<and> rw_running w2 = bit (r (4, 1)) 2)
    \<and> rtl8306_remove w1 = (Inl NULL_DEREF, w1)"
proof -
  have fields: "rtl_regs ! RTL_PORT_REG 4 SPEED = rr 0 4 0 1 13 False" "rtl_regs ! RTL_PORT_REG 4 DUPLEX = rr 0 4 0 1 8 False"
    "rtl_regs ! RTL_PORT_REG 4 LINK = rr 0 4 1 1 2 False" "RTL_PORT_REG 4 SPEED < 121" "RTL_PORT_REG 4 DUPLEX < 121"
    "RTL_PORT_REG 4 LINK < 121"
    by code_simp+
  have bit: "field_get (rr 0 4 n 1 k False) x = 0 \<longleftrightarrow> \<not> bit x k" if "k < 16" for n k x
  proof -
    have "reg_ok (rr 0 4 n 1 k False)" using that by (simp add: reg_ok_def rr_def)
    note b = bit_field_get [OF this, of x]
    have "bit (field_get (rr 0 4 n 1 k False) x) 0 = bit x k" using b [of 0] by (simp add: rr_def)
    moreover have "\<not> bit (field_get (rr 0 4 n 1 k False) x) m" if "m \<noteq> 0" for m using that b [of m] by (simp add: rr_def)
    ultimately show ?thesis by (metis bit_0_eq bot_apply bot_bool_def bit_eq_iff)
  qed
  have rd: "fst (bus_read B phy reg h) = regs h (page_of (regs h 0 (0, RTL8306_REG_PAGE))) (phy, reg)"
    "regs (snd (bus_read B phy reg h)) = regs h" for phy reg h
    using B by (simp_all add: paged_registers_def)
  have get: "on_priv (rtl_get B i) v = (Inr (field_get (rtl_regs ! i) (fst (bus_read B (rr_phy (rtl_regs ! i)) (rr_reg (rtl_regs ! i)) (rw_hw v)))),
        v\<lparr>rw_priv := RtlLive (p\<lparr>rp_hw := snd (bus_read B (rr_phy (rtl_regs ! i)) (rr_reg (rtl_regs ! i)) (rw_hw v))\<rparr>) q,
          rw_hw := snd (bus_read B (rr_phy (rtl_regs ! i)) (rr_reg (rtl_regs ! i)) (rw_hw v))\<rparr>)"
    if "rw_priv v = RtlLive p q" "rp_page p = Some 0" "\<not> rp_fixup p" "i < 121" "rr_page (rtl_regs ! i) = 0" for i v p q
    using that field_ok [OF that(4)]
    by (auto simp: on_priv_def rtl_get_def rtl_r16_def rtl_set_page_def bus_rd_def bindE_def retE_def reg_ok_def Let_def
        split: prod.splits)
  have sel: "rr_page (rr a b c d e f) = a" "rr_phy (rr a b c d e f) = b" "rr_reg (rr a b c d e f) = c" for a b c d e f
    by (simp_all add: rr_def)
  show ?thesis
    using w r
    by (simp add: probe_run rtl8306_config_init_def rtl8306_remove_def rtl8306_read_status_def bindE_def get fields sel rd bit
        del: One_nat_def)
qed

theorem rtl8306_second_phy_witness:
  "\<exists>w1 w2. rtl8306_probe True (bench_rtl_world 4) = (Inr (), w1) \<and> rtl8306_read_status ref_paged_bus w1 = (Inr (), w2)
    \<and> \<not> bit (ref_paged_regs (rw_hw (bench_rtl_world 4)) 0 (4, 1)) 2 \<and> rw_link w2
    \<and> rtl8306_remove w1 = (Inl NULL_DEREF, w1)"
proof -
  obtain w1 where w1: "rtl8306_probe True (bench_rtl_world 4) = (Inr (), w1)" using bench_rtl_probe by blast
  let ?h = "rw_hw (bench_rtl_world 4)"
  have "page_of 0x8002 = 1" by code_simp
  then have pg: "page_of (ref_paged_regs ?h 0 (0, RTL8306_REG_PAGE)) = 1"
    by (simp add: bench_rtl_world_def ref_paged_regs_def)
  have link: "bit (ref_paged_regs ?h 1 (4, 1)) 2" "\<not> bit (ref_paged_regs ?h 0 (4, 1)) 2"
    by (simp_all add: bench_rtl_world_def ref_paged_regs_def)
  have a: "rw_addr (bench_rtl_world 4) = 4" by (simp add: bench_rtl_world_def)
  show ?thesis
    using rtl8306_second_phy [OF ref_paged_registers w1 a refl] w1 link unfolding pg by metis
qed

end
