(* ===== verification/Swconfig_Leds.thy ===== *)
theory Swconfig_Leds
  imports Swconfig
begin

text \<open>
  The LED triggers of the configuration layer, \<open>swconfig_leds.c\<close>: LEDs that show the link and
  the traffic of a set of ports. A periodic work item asks the driver for link and counters of the
  watched ports and updates all LEDs of the trigger. Parsing numbers, creating files and
  allocating memory are services of the kernel; their results are arguments. The locks only
  serialise the accesses and are left out. A driver operation that fails has not touched its result.
\<close>

section \<open>State\<close>

abbreviation (input) SWCONFIG_LED_NUM_PORTS :: nat where "SWCONFIG_LED_NUM_PORTS \<equiv> 32"

abbreviation (input) SWCONFIG_LED_PORT_SPEED_NA :: u8 where "SWCONFIG_LED_PORT_SPEED_NA \<equiv> 0x01"
abbreviation (input) SWCONFIG_LED_PORT_SPEED_10 :: u8 where "SWCONFIG_LED_PORT_SPEED_10 \<equiv> 0x02"
abbreviation (input) SWCONFIG_LED_PORT_SPEED_100 :: u8 where "SWCONFIG_LED_PORT_SPEED_100 \<equiv> 0x04"
abbreviation (input) SWCONFIG_LED_PORT_SPEED_1000 :: u8 where "SWCONFIG_LED_PORT_SPEED_1000 \<equiv> 0x08"
abbreviation (input) SWCONFIG_LED_PORT_SPEED_ALL :: u8 where "SWCONFIG_LED_PORT_SPEED_ALL \<equiv> 0x0F"

abbreviation (input) SWCONFIG_LED_MODE_LINK :: u8 where "SWCONFIG_LED_MODE_LINK \<equiv> 0x01"
abbreviation (input) SWCONFIG_LED_MODE_TX :: u8 where "SWCONFIG_LED_MODE_TX \<equiv> 0x02"
abbreviation (input) SWCONFIG_LED_MODE_RX :: u8 where "SWCONFIG_LED_MODE_RX \<equiv> 0x04"
abbreviation (input) SWCONFIG_LED_MODE_ALL :: u8 where "SWCONFIG_LED_MODE_ALL \<equiv> 0x07"

datatype led_brightness = LED_OFF | LED_FULL

text \<open>\<open>td_prev_traffic\<close> is an \<open>unsigned long\<close> of \<open>bpl\<close> bits.\<close>

record swconfig_trig_data =
  td_port_mask :: u32
  td_prev_link :: bool
  td_prev_traffic :: nat
  td_prev_brightness :: led_brightness
  td_mode :: u8
  td_speed_mask :: u8

record led_classdev =
  led_bright :: led_brightness
  led_trigger_data :: "swconfig_trig_data option"
  led_files :: "string list"

record switch_led_trigger =
  trig_name :: string
  trig_leds :: "led_classdev list"
  trig_work :: bool
  trig_port_mask :: u32
  trig_port_link :: u32
  trig_tx_traffic :: "u64 list"
  trig_rx_traffic :: "u64 list"
  trig_link_speed :: "u8 list"

definition swconfig_trig_set_brightness :: "led_brightness \<Rightarrow> led_classdev \<Rightarrow> led_classdev" where
  "swconfig_trig_set_brightness b led = led\<lparr>led_bright := b,
     led_trigger_data := map_option (\<lambda>d. d\<lparr>td_prev_brightness := b\<rparr>) (led_trigger_data led)\<rparr>"

definition led_mask :: "led_classdev \<Rightarrow> u32" where
  "led_mask led = (case led_trigger_data led of None \<Rightarrow> 0 | Some d \<Rightarrow> td_port_mask d)"

definition swconfig_trig_update_port_mask :: "switch_led_trigger \<Rightarrow> switch_led_trigger" where
  "swconfig_trig_update_port_mask t =
    (let m = foldl (\<lambda>m led. m OR led_mask led) 0 (trig_leds t)
     in t\<lparr>trig_port_mask := m, trig_work := (m \<noteq> 0)\<rparr>)"

section \<open>Files\<close>

text \<open>The files belong to the LED with number \<open>k\<close> in the list of the trigger.\<close>

definition led_data :: "nat \<Rightarrow> switch_led_trigger \<Rightarrow> errno + swconfig_trig_data" where
  "led_data k t = (case led_trigger_data (trig_leds t ! k) of None \<Rightarrow> Inl NULL_DEREF | Some d \<Rightarrow> Inr d)"

definition put_led :: "nat \<Rightarrow> led_classdev \<Rightarrow> switch_led_trigger \<Rightarrow> switch_led_trigger" where
  "put_led k led t = t\<lparr>trig_leds := (trig_leds t)[k := led]\<rparr>"

definition put_led_data :: "nat \<Rightarrow> swconfig_trig_data \<Rightarrow> switch_led_trigger \<Rightarrow> switch_led_trigger" where
  "put_led_data k d t = put_led k ((trig_leds t ! k)\<lparr>led_trigger_data := Some d\<rparr>) t"

definition swconfig_trig_port_mask_store ::
  "nat \<Rightarrow> errno + nat \<Rightarrow> (switch_led_trigger, unit) io" where
  "swconfig_trig_port_mask_store k parsed t =
    (case parsed of Inl e \<Rightarrow> (Inl e, t)
     | Inr port_mask \<Rightarrow>
       (case led_data k t of Inl e \<Rightarrow> (Inl e, t)
        | Inr d \<Rightarrow>
          (let changed = unat (td_port_mask d) \<noteq> port_mask;
               t = put_led_data k (d\<lparr>td_port_mask := of_nat port_mask\<rparr>) t
           in if changed
              then (let t = (if port_mask = 0
                       then put_led k (swconfig_trig_set_brightness LED_OFF (trig_leds t ! k)) t else t)
                    in (Inr (), swconfig_trig_update_port_mask t))
              else (Inr (), t))))"

text \<open>\<open>sprintf(buf, "%#x\n", n)\<close>; the result counts the terminating zero.\<close>

definition alt_hex_text :: "nat \<Rightarrow> string" where
  "alt_hex_text n = (if n = 0 then ''0'' else ''0x'' @ num_text 16 n) @ line_feed"

definition swconfig_trig_port_mask_show :: "nat \<Rightarrow> switch_led_trigger \<Rightarrow> errno + string \<times> nat" where
  "swconfig_trig_port_mask_show k t =
    (case led_data k t of Inl e \<Rightarrow> Inl e
     | Inr d \<Rightarrow> let txt = alt_hex_text (unat (td_port_mask d)) in Inr (txt, length txt + 1))"

definition swconfig_trig_speed_mask_show :: "nat \<Rightarrow> switch_led_trigger \<Rightarrow> errno + string \<times> nat" where
  "swconfig_trig_speed_mask_show k t =
    (case led_data k t of Inl e \<Rightarrow> Inl e
     | Inr d \<Rightarrow> let txt = alt_hex_text (unat (td_speed_mask d)) in Inr (txt, length txt + 1))"

definition swconfig_trig_speed_mask_store :: "nat \<Rightarrow> errno + u8 \<Rightarrow> (switch_led_trigger, unit) io" where
  "swconfig_trig_speed_mask_store k parsed t =
    (case parsed of Inl e \<Rightarrow> (Inl e, t)
     | Inr speed_mask \<Rightarrow>
       (case led_data k t of Inl e \<Rightarrow> (Inl e, t)
        | Inr d \<Rightarrow> (Inr (), put_led_data k (d\<lparr>td_speed_mask := speed_mask AND SWCONFIG_LED_PORT_SPEED_ALL\<rparr>) t)))"

text \<open>\<open>buf0\<close> is the text that the buffer holds at the call: the words are appended to it.\<close>

definition mode_text :: "u8 \<Rightarrow> string" where
  "mode_text m = (if m AND SWCONFIG_LED_MODE_LINK \<noteq> 0 then ''link '' else [])
     @ (if m AND SWCONFIG_LED_MODE_TX \<noteq> 0 then ''tx '' else [])
     @ (if m AND SWCONFIG_LED_MODE_RX \<noteq> 0 then ''rx '' else []) @ line_feed"

definition swconfig_trig_mode_show :: "string \<Rightarrow> nat \<Rightarrow> switch_led_trigger \<Rightarrow> errno + string \<times> nat" where
  "swconfig_trig_mode_show buf0 k t =
    (case led_data k t of Inl e \<Rightarrow> Inl e
     | Inr d \<Rightarrow> let txt = (if td_mode d = 0 then ''none'' @ line_feed else buf0 @ mode_text (td_mode d))
              in Inr (txt, length txt + 1))"

definition is_delim :: "char \<Rightarrow> bool" where
  "is_delim c \<longleftrightarrow> c = CHR '' '' \<or> c = CHR 0x09 \<or> c = CHR 0x0A"

text \<open>The tokens that repeated calls of \<open>strsep\<close> cut off, empty ones included.\<close>

fun strsep_tokens :: "string \<Rightarrow> string \<Rightarrow> string list" where
  "strsep_tokens tok [] = [tok]"
| "strsep_tokens tok (c # cs) = (if is_delim c then tok # strsep_tokens [] cs else strsep_tokens (tok @ [c]) cs)"

text \<open>\<open>None\<close> is the value -1 of \<open>new_mode\<close>.\<close>

fun mode_store_loop :: "string list \<Rightarrow> u8 option \<Rightarrow> errno + u8 option" where
  "mode_store_loop [] new_mode = Inr new_mode"
| "mode_store_loop (token # rest) new_mode =
    (if token = [] then mode_store_loop rest new_mode
     else let m = (case new_mode of None \<Rightarrow> 0 | Some m \<Rightarrow> m)
          in if token = ''none'' then mode_store_loop rest (Some 0)
             else if token = ''tx'' then mode_store_loop rest (Some (m OR SWCONFIG_LED_MODE_TX))
             else if token = ''rx'' then mode_store_loop rest (Some (m OR SWCONFIG_LED_MODE_RX))
             else if token = ''link'' then mode_store_loop rest (Some (m OR SWCONFIG_LED_MODE_LINK))
             else Inl EINVAL)"

definition parse_mode :: "string \<Rightarrow> errno + u8" where
  "parse_mode buf =
    (case mode_store_loop (strsep_tokens [] (take 127 buf)) None of
       Inl e \<Rightarrow> Inl e | Inr None \<Rightarrow> Inl EINVAL | Inr (Some m) \<Rightarrow> Inr m)"

definition swconfig_trig_mode_store :: "nat \<Rightarrow> string \<Rightarrow> (switch_led_trigger, unit) io" where
  "swconfig_trig_mode_store k buf t =
    (case parse_mode buf of Inl e \<Rightarrow> (Inl e, t)
     | Inr m \<Rightarrow> (case led_data k t of Inl e \<Rightarrow> (Inl e, t)
                | Inr d \<Rightarrow> (Inr (), put_led_data k (d\<lparr>td_mode := m\<rparr>) t)))"

section \<open>Activation\<close>

definition led_file :: "errno option \<Rightarrow> string \<Rightarrow> (led_classdev, unit) io" where
  "led_file err name led = (case err of Some e \<Rightarrow> (Inl e, led) | None \<Rightarrow> (Inr (), led\<lparr>led_files := name # led_files led\<rparr>))"

definition remove_file :: "string \<Rightarrow> led_classdev \<Rightarrow> led_classdev" where
  "remove_file name led = led\<lparr>led_files := remove1 name (led_files led)\<rparr>"

text \<open>\<open>kz\<close>: the allocation succeeds; \<open>f1\<close>, \<open>f2\<close>, \<open>f3\<close>: what creating the files returns.\<close>

definition swconfig_trig_activate ::
  "bool \<Rightarrow> errno option \<Rightarrow> errno option \<Rightarrow> errno option \<Rightarrow> (led_classdev, unit) io" where
  "swconfig_trig_activate kz f1 f2 f3 led =
    (if \<not> kz then (Inl ENOMEM, led)
     else let led = led\<lparr>led_trigger_data := Some \<lparr>td_port_mask = 0, td_prev_link = False, td_prev_traffic = 0,
                td_prev_brightness = LED_OFF, td_mode = SWCONFIG_LED_MODE_ALL, td_speed_mask = SWCONFIG_LED_PORT_SPEED_ALL\<rparr>\<rparr>
          in case led_file f1 ''port_mask'' led of
               (Inl e, led) \<Rightarrow> (Inl e, led\<lparr>led_trigger_data := None\<rparr>)
             | (Inr _, led) \<Rightarrow>
               (case led_file f2 ''speed_mask'' led of
                  (Inl e, led) \<Rightarrow> (Inl e, (remove_file ''port_mask'' led)\<lparr>led_trigger_data := None\<rparr>)
                | (Inr _, led) \<Rightarrow>
                  (case led_file f3 ''mode'' led of
                     (Inl e, led) \<Rightarrow>
                       (Inl e, (remove_file ''port_mask'' (remove_file ''speed_mask'' led))\<lparr>led_trigger_data := None\<rparr>)
                   | (Inr _, led) \<Rightarrow> (Inr (), led))))"

text \<open>The pointer to the freed data stays in the LED; the LED core clears it after the call.\<close>

definition swconfig_trig_deactivate :: "led_classdev \<Rightarrow> switch_led_trigger \<Rightarrow> led_classdev \<times> switch_led_trigger" where
  "swconfig_trig_deactivate led t =
    (case led_trigger_data led of
       None \<Rightarrow> led
     | Some d \<Rightarrow> (remove_file ''mode'' (remove_file ''speed_mask'' (remove_file ''port_mask'' led)))\<lparr>led_trigger_data := None\<rparr>,
     swconfig_trig_update_port_mask t)"

section \<open>The work item\<close>

definition port_traffic :: "u8 \<Rightarrow> switch_led_trigger \<Rightarrow> nat \<Rightarrow> u64" where
  "port_traffic mode t i =
    (if mode AND SWCONFIG_LED_MODE_TX \<noteq> 0 then trig_tx_traffic t ! i else 0)
    + (if mode AND SWCONFIG_LED_MODE_RX \<noteq> 0 then trig_rx_traffic t ! i else 0)"

primrec led_traffic_loop ::
  "nat \<Rightarrow> switch_led_trigger \<Rightarrow> swconfig_trig_data \<Rightarrow> nat list \<Rightarrow> nat \<times> bool \<Rightarrow> nat \<times> bool" where
  "led_traffic_loop bpl t d [] acc = acc"
| "led_traffic_loop bpl t d (i # is) acc =
    led_traffic_loop bpl t d is
      (if bit (td_port_mask d) i \<and> trig_link_speed t ! i AND td_speed_mask d \<noteq> 0
       then ((fst acc + unat (port_traffic (td_mode d) t i)) mod 2 ^ bpl, True) else acc)"

definition swconfig_trig_led_event :: "nat \<Rightarrow> switch_led_trigger \<Rightarrow> led_classdev \<Rightarrow> led_classdev" where
  "swconfig_trig_led_event bpl t led =
    (case led_trigger_data led of None \<Rightarrow> led
     | Some d \<Rightarrow>
       (let lnk = trig_port_link t AND td_port_mask d \<noteq> 0;
            led = (if \<not> lnk
              then (if td_prev_brightness d \<noteq> LED_OFF then swconfig_trig_set_brightness LED_OFF led else led)
              else (let (traffic, speedok) = led_traffic_loop bpl t d [0..<SWCONFIG_LED_NUM_PORTS] (0, False);
                        led_base = (if td_mode d AND SWCONFIG_LED_MODE_LINK = 0 then LED_OFF else LED_FULL);
                        led_blink = (if td_mode d AND SWCONFIG_LED_MODE_LINK = 0 then LED_FULL else LED_OFF);
                        led = (if speedok
                          then (if td_prev_brightness d \<noteq> led_base then swconfig_trig_set_brightness led_base led
                                else if traffic \<noteq> td_prev_traffic d then swconfig_trig_set_brightness led_blink led
                                else led)
                          else if td_prev_brightness d \<noteq> LED_OFF then swconfig_trig_set_brightness LED_OFF led
                          else led)
                    in led\<lparr>led_trigger_data := map_option (\<lambda>d. d\<lparr>td_prev_traffic := traffic\<rparr>) (led_trigger_data led)\<rparr>))
        in led\<lparr>led_trigger_data := map_option (\<lambda>d. d\<lparr>td_prev_link := lnk\<rparr>) (led_trigger_data led)\<rparr>))"

definition swconfig_trig_update_leds :: "nat \<Rightarrow> switch_led_trigger \<Rightarrow> switch_led_trigger" where
  "swconfig_trig_update_leds bpl t = t\<lparr>trig_leds := map (swconfig_trig_led_event bpl t) (trig_leds t)\<rparr>"

definition speed_flag :: "u32 \<Rightarrow> u8" where
  "speed_flag sp =
    (if sp = SWITCH_PORT_SPEED_UNKNOWN then SWCONFIG_LED_PORT_SPEED_NA
     else if sp = SWITCH_PORT_SPEED_10 then SWCONFIG_LED_PORT_SPEED_10
     else if sp = SWITCH_PORT_SPEED_100 then SWCONFIG_LED_PORT_SPEED_100
     else if sp = SWITCH_PORT_SPEED_1000 then SWCONFIG_LED_PORT_SPEED_1000 else 0)"

definition led_port_link :: "'s switch_dev_ops \<Rightarrow> nat \<Rightarrow> switch_led_trigger \<times> u32 \<times> 's \<Rightarrow> switch_led_trigger \<times> u32 \<times> 's" where
  "led_port_link ops i = (\<lambda>(t, lnk, s).
    case get_port_link ops of None \<Rightarrow> (t, lnk, s)
    | Some f \<Rightarrow>
      (let (r, s) = f i zero_link s;
           l = (case r of Inl e \<Rightarrow> zero_link | Inr l \<Rightarrow> l)
       in if link l
          then (t\<lparr>trig_link_speed := (trig_link_speed t)[i := speed_flag (speed l)]\<rparr>, lnk OR BIT i, s)
          else (t, lnk, s)))"

definition led_port_stats :: "'s switch_dev_ops \<Rightarrow> nat \<Rightarrow> switch_led_trigger \<times> u32 \<times> 's \<Rightarrow> switch_led_trigger \<times> u32 \<times> 's" where
  "led_port_stats ops i = (\<lambda>(t, lnk, s).
    case get_port_stats ops of None \<Rightarrow> (t, lnk, s)
    | Some f \<Rightarrow>
      (let (r, s) = f i s;
           p = (case r of Inl e \<Rightarrow> \<lparr>tx_bytes = 0, rx_bytes = 0\<rparr> | Inr p \<Rightarrow> p)
       in (t\<lparr>trig_tx_traffic := (trig_tx_traffic t)[i := tx_bytes p],
             trig_rx_traffic := (trig_rx_traffic t)[i := rx_bytes p]\<rparr>, lnk, s)))"

primrec led_ports_loop ::
  "'s switch_dev_ops \<Rightarrow> u32 \<Rightarrow> nat list \<Rightarrow> switch_led_trigger \<times> u32 \<times> 's \<Rightarrow> switch_led_trigger \<times> u32 \<times> 's" where
  "led_ports_loop ops port_mask [] w = w"
| "led_ports_loop ops port_mask (i # is) w =
    led_ports_loop ops port_mask is
      (let (t, lnk, s) = w;
           w = (t\<lparr>trig_link_speed := (trig_link_speed t)[i := 0]\<rparr>, lnk, s)
       in if port_mask AND BIT i = 0 then w else led_port_stats ops i (led_port_link ops i w))"

definition swconfig_led_work_func ::
  "nat \<Rightarrow> 's switch_dev_ops \<Rightarrow> switch_led_trigger \<times> 's \<Rightarrow> switch_led_trigger \<times> 's" where
  "swconfig_led_work_func bpl ops = (\<lambda>(t, s).
    let (t, lnk, s) = led_ports_loop ops (trig_port_mask t) [0..<SWCONFIG_LED_NUM_PORTS] (t, 0, s);
        t = swconfig_trig_update_leds bpl (t\<lparr>trig_port_link := lnk\<rparr>)
    in (t\<lparr>trig_work := True\<rparr>, s))"

section \<open>The trigger of a switch\<close>

definition new_trigger :: "string \<Rightarrow> switch_led_trigger" where
  "new_trigger name = \<lparr>trig_name = name, trig_leds = [], trig_work = False, trig_port_mask = 0, trig_port_link = 0,
     trig_tx_traffic = replicate SWCONFIG_LED_NUM_PORTS 0, trig_rx_traffic = replicate SWCONFIG_LED_NUM_PORTS 0,
     trig_link_speed = replicate SWCONFIG_LED_NUM_PORTS 0\<rparr>"

text \<open>\<open>reg\<close> is what \<open>led_trigger_register\<close> returns. The result is the trigger of the switch, if it gets one.\<close>

definition swconfig_create_led_trigger ::
  "bool \<Rightarrow> errno option \<Rightarrow> 's switch_dev \<Rightarrow> errno + switch_led_trigger option" where
  "swconfig_create_led_trigger kz reg swdev =
    (if get_port_link (dev_ops swdev) = None then Inr None
     else if \<not> kz then Inl ENOMEM
     else case reg of Some e \<Rightarrow> Inl e | None \<Rightarrow> Inr (Some (new_trigger (devname swdev))))"

text \<open>
  \<open>led_trigger_unregister\<close> is an argument; the structure is freed afterwards, so that work that
  is still pending would use freed memory.
\<close>

definition swconfig_destroy_led_trigger ::
  "(switch_led_trigger \<Rightarrow> switch_led_trigger) \<Rightarrow> switch_led_trigger option \<Rightarrow> errno + unit" where
  "swconfig_destroy_led_trigger unregister trig =
    (case trig of None \<Rightarrow> Inr ()
     | Some t \<Rightarrow> if trig_work (unregister (t\<lparr>trig_work := False\<rparr>)) then Inl USE_AFTER_FREE else Inr ())"

text \<open>Registration with LED triggers: the switch is on the list when its trigger is created.\<close>

definition register_switch_leds ::
  "nat \<Rightarrow> bool \<Rightarrow> bool \<Rightarrow> of_port list \<Rightarrow> bool \<Rightarrow> errno option \<Rightarrow> 's switch_dev
    \<Rightarrow> ('s registry, 's switch_dev \<times> switch_led_trigger option) io" where
  "register_switch_leds mx a1 a2 nodes kz reg dev =
    bindE (list_switch mx a1 a2 nodes dev) (\<lambda>dev.
    case swconfig_create_led_trigger kz reg dev of Inl e \<Rightarrow> failE e | Inr t \<Rightarrow> retE (dev, t))"

end
