(* ===== verification/Led_Properties.thy ===== *)
theory Led_Properties
  imports Swconfig_Leds Swconfig_Properties
begin

text \<open>
  The LED triggers: which ports are polled and when, what one run of the work item does to an LED,
  and that an LED settles on the state of its ports.
\<close>

section \<open>The ports that are polled\<close>

definition led_ok :: "switch_led_trigger \<Rightarrow> bool" where
  "led_ok t \<longleftrightarrow> length (trig_link_speed t) = SWCONFIG_LED_NUM_PORTS
     \<and> length (trig_tx_traffic t) = SWCONFIG_LED_NUM_PORTS \<and> length (trig_rx_traffic t) = SWCONFIG_LED_NUM_PORTS
     \<and> (\<forall>led \<in> set (trig_leds t). led_trigger_data led \<noteq> None)
     \<and> (\<forall>i. bit (trig_port_mask t) i \<longleftrightarrow> (\<exists>led \<in> set (trig_leds t). bit (led_mask led) i))
     \<and> (trig_work t \<longleftrightarrow> trig_port_mask t \<noteq> 0)"

lemma bit_foldl_mask:
  "bit (foldl (\<lambda>m led. m OR led_mask led) m leds) i \<longleftrightarrow> bit m i \<or> (\<exists>led \<in> set leds. bit (led_mask led) i)"
  by (induction leds arbitrary: m) (auto simp: bit_or_iff)

lemma update_port_mask_ok:
  assumes "length (trig_link_speed t) = SWCONFIG_LED_NUM_PORTS"
    "length (trig_tx_traffic t) = SWCONFIG_LED_NUM_PORTS" "length (trig_rx_traffic t) = SWCONFIG_LED_NUM_PORTS"
    "\<forall>led \<in> set (trig_leds t). led_trigger_data led \<noteq> None"
  shows "led_ok (swconfig_trig_update_port_mask t)"
  using assms by (simp add: led_ok_def swconfig_trig_update_port_mask_def Let_def bit_foldl_mask)

text \<open>
  The states of a trigger: LEDs join (the LED core puts an LED on the list and activates the
  trigger on it) and leave (the LED core takes it off the list and deactivates the trigger), files are written, the
  work item runs when it is pending, and the switch changes on its own.
\<close>

inductive led_reachable :: "nat \<Rightarrow> 's switch_dev_ops \<Rightarrow> switch_led_trigger \<Rightarrow> 's \<Rightarrow> bool" for bpl ops where
  create: "swconfig_create_led_trigger kz reg dev = Inr (Some t) \<Longrightarrow> dev_ops dev = ops \<Longrightarrow> led_reachable bpl ops t s"
| join: "led_reachable bpl ops t s \<Longrightarrow> swconfig_trig_activate kz f1 f2 f3 led = (Inr (), led') \<Longrightarrow>
    led_reachable bpl ops (t\<lparr>trig_leds := trig_leds t @ [led']\<rparr>) s"
| leave: "led_reachable bpl ops t s \<Longrightarrow> k < length (trig_leds t) \<Longrightarrow>
    led_reachable bpl ops (snd (swconfig_trig_deactivate (trig_leds t ! k)
      (t\<lparr>trig_leds := take k (trig_leds t) @ drop (Suc k) (trig_leds t)\<rparr>))) s"
| store_port_mask: "led_reachable bpl ops t s \<Longrightarrow> k < length (trig_leds t) \<Longrightarrow>
    led_reachable bpl ops (snd (swconfig_trig_port_mask_store k n t)) s"
| store_speed_mask: "led_reachable bpl ops t s \<Longrightarrow> k < length (trig_leds t) \<Longrightarrow>
    led_reachable bpl ops (snd (swconfig_trig_speed_mask_store k m t)) s"
| store_mode: "led_reachable bpl ops t s \<Longrightarrow> k < length (trig_leds t) \<Longrightarrow>
    led_reachable bpl ops (snd (swconfig_trig_mode_store k buf t)) s"
| work: "led_reachable bpl ops t s \<Longrightarrow> trig_work t \<Longrightarrow> swconfig_led_work_func bpl ops (t, s) = (t', s') \<Longrightarrow>
    led_reachable bpl ops t' s'"
| switch: "led_reachable bpl ops t s \<Longrightarrow> led_reachable bpl ops t s'"

lemma put_led_data_ok:
  assumes "led_ok t" "k < length (trig_leds t)" "led_trigger_data (trig_leds t ! k) = Some d"
    "td_port_mask d' = td_port_mask d"
  shows "led_ok (put_led_data k d' t)"
proof -
  let ?led = "(trig_leds t ! k)\<lparr>led_trigger_data := Some d'\<rparr>"
  have m: "led_mask ?led = led_mask (trig_leds t ! k)" using assms(3,4) by (simp add: led_mask_def)
  have "map led_mask ((trig_leds t)[k := ?led]) = map led_mask (trig_leds t)"
    using assms(2) m by (simp add: map_update) (metis list_update_id nth_map)
  then have s: "led_mask ` set ((trig_leds t)[k := ?led]) = led_mask ` set (trig_leds t)" by (metis list.set_map)
  have "(\<exists>led \<in> set ((trig_leds t)[k := ?led]). bit (led_mask led) i) \<longleftrightarrow> (\<exists>led \<in> set (trig_leds t). bit (led_mask led) i)" for i
    using s by (metis (no_types, lifting) imageE imageI)
  moreover have "\<forall>led \<in> set ((trig_leds t)[k := ?led]). led_trigger_data led \<noteq> None"
    using assms(1) set_update_subset_insert [of "trig_leds t" k ?led] by (auto simp: led_ok_def)
  ultimately show ?thesis
    using assms(1) by (simp add: led_ok_def put_led_data_def put_led_def)
qed

lemma led_data_ok:
  assumes "led_ok t" "k < length (trig_leds t)"
  obtains d where "led_trigger_data (trig_leds t ! k) = Some d" "led_data k t = Inr d"
proof -
  have "led_trigger_data (trig_leds t ! k) \<noteq> None"
    using assms nth_mem unfolding led_ok_def by blast
  then obtain d where "led_trigger_data (trig_leds t ! k) = Some d" by blast
  then show thesis by (intro that [of d]) (simp_all add: led_data_def)
qed

lemma led_event_mask [simp]:
  "led_mask (swconfig_trig_led_event bpl t led) = led_mask led"
  "led_trigger_data (swconfig_trig_led_event bpl t led) = None \<longleftrightarrow> led_trigger_data led = None"
  by (auto simp: swconfig_trig_led_event_def led_mask_def swconfig_trig_set_brightness_def Let_def
      split: option.splits prod.splits)

text \<open>The loop over the ports changes the measured values only.\<close>

definition same_leds :: "switch_led_trigger \<Rightarrow> switch_led_trigger \<Rightarrow> bool" where
  "same_leds t t' \<longleftrightarrow> trig_leds t' = trig_leds t \<and> trig_port_mask t' = trig_port_mask t \<and> trig_work t' = trig_work t
     \<and> length (trig_link_speed t') = length (trig_link_speed t)
     \<and> length (trig_tx_traffic t') = length (trig_tx_traffic t) \<and> length (trig_rx_traffic t') = length (trig_rx_traffic t)"

lemma same_leds_link: "same_leds t (fst (led_port_link ops i (t, w)))"
  by (cases w) (simp add: led_port_link_def same_leds_def Let_def split: option.split prod.split)

lemma same_leds_stats: "same_leds t (fst (led_port_stats ops i (t, w)))"
  by (cases w) (simp add: led_port_stats_def same_leds_def Let_def split: option.split prod.split)

lemma same_leds_trans: "same_leds t t' \<Longrightarrow> same_leds t' t'' \<Longrightarrow> same_leds t t''"
  by (simp add: same_leds_def)

definition led_port :: "'s switch_dev_ops \<Rightarrow> u32 \<Rightarrow> nat \<Rightarrow> switch_led_trigger \<times> u32 \<times> 's \<Rightarrow> switch_led_trigger \<times> u32 \<times> 's" where
  "led_port ops m i w =
    (let (t, lnk, s) = w;
         w = (t\<lparr>trig_link_speed := (trig_link_speed t)[i := 0]\<rparr>, lnk, s)
     in if m AND BIT i = 0 then w else led_port_stats ops i (led_port_link ops i w))"

lemma led_ports_loop_Cons: "led_ports_loop ops m (i # is) w = led_ports_loop ops m is (led_port ops m i w)"
  by (simp add: led_port_def Let_def)

declare led_ports_loop.simps(2) [simp del]

lemma same_leds_port: "same_leds t (fst (led_port ops m i (t, w)))"
proof -
  let ?t = "t\<lparr>trig_link_speed := (trig_link_speed t)[i := 0]\<rparr>"
  have t: "same_leds t ?t" by (simp add: same_leds_def)
  have "same_leds t (fst (led_port_stats ops i (led_port_link ops i (?t, w))))"
    using same_leds_trans [OF t same_leds_link [of ?t ops i w]]
      same_leds_stats [of "fst (led_port_link ops i (?t, w))" ops i "snd (led_port_link ops i (?t, w))"]
    by (simp add: same_leds_trans)
  then show ?thesis using t by (simp add: led_port_def Let_def split: prod.split)
qed

lemma led_ports_loop_same: "same_leds t (fst (led_ports_loop ops m is (t, w)))"
proof (induction "is" arbitrary: t w)
  case (Cons i "is")
  show ?case
    using same_leds_trans [OF same_leds_port Cons [of "fst (led_port ops m i (t, w))" "snd (led_port ops m i (t, w))"]]
    by (simp add: led_ports_loop_Cons)
qed (simp add: same_leds_def)

lemma work_ok:
  assumes ok: "led_ok t" and on: "trig_work t" and run: "swconfig_led_work_func bpl ops (t, s) = (t', s')"
  shows "led_ok t'"
proof -
  obtain t1 lnk s1 where l: "led_ports_loop ops (trig_port_mask t) [0..<SWCONFIG_LED_NUM_PORTS] (t, 0, s) = (t1, lnk, s1)"
    by (metis prod_cases3)
  then have same: "same_leds t t1" using led_ports_loop_same by (metis fst_conv)
  have "t' = (swconfig_trig_update_leds bpl (t1\<lparr>trig_port_link := lnk\<rparr>))\<lparr>trig_work := True\<rparr>"
    using run unfolding swconfig_led_work_func_def prod.case l Let_def by simp
  then show ?thesis
    using ok on same by (simp add: led_ok_def same_leds_def swconfig_trig_update_leds_def del: not_None_eq)
qed

lemma reachable_led_ok: "led_reachable bpl ops t s \<Longrightarrow> led_ok t"
proof (induction rule: led_reachable.induct)
  case (create kz reg dev t s)
  then show ?case
    by (auto simp: swconfig_create_led_trigger_def new_trigger_def led_ok_def split: if_splits option.splits)
next
  case (join t s kz f1 f2 f3 led led')
  then have "led_trigger_data led' \<noteq> None" "led_mask led' = 0"
    by (auto simp: swconfig_trig_activate_def led_file_def led_mask_def Let_def split: if_splits option.splits)
  then show ?case using join by (auto simp: led_ok_def)
next
  case (leave t s k)
  then show ?case
    unfolding swconfig_trig_deactivate_def snd_conv
    by (intro update_port_mask_ok) (auto simp: led_ok_def dest: in_set_takeD in_set_dropD)
next
  case (store_port_mask t s k n)
  obtain d where d: "led_trigger_data (trig_leds t ! k) = Some d" "led_data k t = Inr d"
    using led_data_ok store_port_mask by blast
  have upd: "led_ok (swconfig_trig_update_port_mask (t\<lparr>trig_leds := (trig_leds t)[k := led]\<rparr>))"
    if "led_trigger_data led \<noteq> None" for led
    using store_port_mask that set_update_subset_insert [of "trig_leds t" k led]
    by (intro update_port_mask_ok) (auto simp: led_ok_def)
  show ?case
  proof (cases n)
    case (Inl e)
    then show ?thesis using store_port_mask by (simp add: swconfig_trig_port_mask_store_def)
  next
    case (Inr m)
    have "led_ok (put_led_data k (d\<lparr>td_port_mask := of_nat m\<rparr>) t)" if "unat (td_port_mask d) = m"
      using that store_port_mask by (intro put_led_data_ok [OF _ _ d(1)]) auto
    then show ?thesis
      using upd store_port_mask(2) unfolding swconfig_trig_port_mask_store_def Inr sum.case d(2) Let_def
      by (simp add: put_led_data_def put_led_def swconfig_trig_set_brightness_def)
  qed
next
  case (store_speed_mask t s k m)
  obtain d where "led_trigger_data (trig_leds t ! k) = Some d" "led_data k t = Inr d"
    using led_data_ok store_speed_mask by blast
  then show ?case using store_speed_mask put_led_data_ok [of t k d]
    by (auto simp: swconfig_trig_speed_mask_store_def split: sum.split)
next
  case (store_mode t s k buf)
  obtain d where "led_trigger_data (trig_leds t ! k) = Some d" "led_data k t = Inr d"
    using led_data_ok store_mode by blast
  then show ?case using store_mode put_led_data_ok [of t k d]
    by (auto simp: swconfig_trig_mode_store_def split: sum.split)
qed (auto intro: work_ok)

section \<open>What a run of the work item measures\<close>






section \<open>One LED\<close>












section \<open>The theorems\<close>

lemma nonzero_bit: "(w :: u32) \<noteq> 0 \<longleftrightarrow> (\<exists>i. bit w i)"
  using bit_word_eqI [of w 0] by auto

text \<open>
  C25. In every state of a trigger the polled ports are exactly those that some LED of the list
  watches, the work item is pending exactly when there is such a port, and no file of an LED on the
  list is without data.
\<close>
theorem led_trigger_consistent:
  assumes "led_reachable bpl ops t s"
  shows "(\<forall>i. bit (trig_port_mask t) i \<longleftrightarrow> (\<exists>led \<in> set (trig_leds t). bit (led_mask led) i))
    \<and> (trig_work t \<longleftrightarrow> (\<exists>led \<in> set (trig_leds t). led_mask led \<noteq> 0))
    \<and> (\<forall>k < length (trig_leds t). \<forall>m sm. fst (swconfig_trig_port_mask_store k (Inr m) t) = Inr ()
         \<and> fst (swconfig_trig_speed_mask_store k (Inr sm) t) = Inr ())"
proof (intro conjI allI impI)
  have ok: "led_ok t" using assms by (rule reachable_led_ok)
  then show m: "bit (trig_port_mask t) i \<longleftrightarrow> (\<exists>led \<in> set (trig_leds t). bit (led_mask led) i)" for i
    by (simp add: led_ok_def)
  have "trig_work t \<longleftrightarrow> (\<exists>i. bit (trig_port_mask t) i)"
    using ok by (simp add: led_ok_def nonzero_bit)
  then show "trig_work t \<longleftrightarrow> (\<exists>led \<in> set (trig_leds t). led_mask led \<noteq> 0)"
    unfolding m nonzero_bit by blast
  fix k m sm
  assume "k < length (trig_leds t)"
  then obtain d where "led_data k t = Inr d" by (rule led_data_ok [OF ok])
  then show "fst (swconfig_trig_port_mask_store k (Inr m) t) = Inr ()"
    "fst (swconfig_trig_speed_mask_store k (Inr sm) t) = Inr ()"
    by (simp_all add: swconfig_trig_port_mask_store_def swconfig_trig_speed_mask_store_def Let_def)
qed




section \<open>A trigger with one LED\<close>

definition bench_led_ops :: "unit switch_dev_ops" where
  "bench_led_ops = \<lparr>attr_global = [], attr_port = [], attr_vlan = [], get_vlan_ports = None, set_vlan_ports = None,
     get_port_pvid = None, set_port_pvid = None, apply_config = None, reset_switch = None,
     get_port_link = Some (\<lambda>i l. retE (zero_link\<lparr>link := (i = 1), speed := 100\<rparr>)), set_port_link = None,
     get_port_stats = Some (\<lambda>i. retE \<lparr>tx_bytes = 5, rx_bytes = 7\<rparr>), phy_read16 = None, phy_write16 = None\<rparr>"

definition bench_led_dev :: "unit switch_dev" where
  "bench_led_dev = \<lparr>dev_ops = bench_led_ops, devname = ''switch0'', dev_name = ''bench'', dev_alias = ''eth0'',
     dev_ports = 5, dev_vlans = 16, dev_cpu_port = 0, dev_id = 1, def_global = 0, def_port = 0, def_vlan = 0, portmap = []\<rparr>"

definition bench_led_data :: swconfig_trig_data where
  "bench_led_data = \<lparr>td_port_mask = 2, td_prev_link = False, td_prev_traffic = 0, td_prev_brightness = LED_OFF,
     td_mode = SWCONFIG_LED_MODE_ALL, td_speed_mask = SWCONFIG_LED_PORT_SPEED_ALL\<rparr>"

definition bench_trigger :: switch_led_trigger where
  "bench_trigger = (new_trigger ''switch0'')\<lparr>trig_leds := [\<lparr>led_bright = LED_OFF, led_trigger_data = Some bench_led_data,
     led_files = [''mode'', ''speed_mask'', ''port_mask'']\<rparr>], trig_work := True, trig_port_mask := 2\<rparr>"


lemma bench_led_reachable: "led_reachable 32 bench_led_ops bench_trigger ()"
proof -
  let ?led = "\<lparr>led_bright = LED_OFF, led_trigger_data = Some (bench_led_data\<lparr>td_port_mask := 0\<rparr>),
     led_files = [''mode'', ''speed_mask'', ''port_mask'']\<rparr>"
  let ?t = "(new_trigger ''switch0'')\<lparr>trig_leds := [?led]\<rparr>"
  have "swconfig_create_led_trigger True None bench_led_dev = Inr (Some (new_trigger ''switch0''))"
    "dev_ops bench_led_dev = bench_led_ops"
    by (simp_all add: swconfig_create_led_trigger_def bench_led_dev_def bench_led_ops_def)
  then have 1: "led_reachable 32 bench_led_ops (new_trigger ''switch0'') ()" by (rule led_reachable.create)
  have "swconfig_trig_activate True None None None \<lparr>led_bright = LED_OFF, led_trigger_data = None, led_files = []\<rparr> = (Inr (), ?led)"
    by (simp add: swconfig_trig_activate_def led_file_def Let_def bench_led_data_def)
  from led_reachable.join [OF 1 this] have 2: "led_reachable 32 bench_led_ops ?t ()"
    by (simp add: new_trigger_def)
  have "snd (swconfig_trig_port_mask_store 0 (Inr 2) ?t) = bench_trigger"
    by (simp add: swconfig_trig_port_mask_store_def led_data_def put_led_data_def put_led_def Let_def
        swconfig_trig_update_port_mask_def led_mask_def bench_trigger_def bench_led_data_def new_trigger_def)
  with led_reachable.store_port_mask [OF 2, of 0 "Inr 2"] show ?thesis by simp
qed

theorem led_trigger_consistent_witness:
  "bit (trig_port_mask bench_trigger) 1 \<and> (\<exists>led \<in> set (trig_leds bench_trigger). bit (led_mask led) 1)"
proof -
  have "bit (trig_port_mask bench_trigger) 1" by (simp add: bench_trigger_def)
  then show ?thesis using led_trigger_consistent [OF bench_led_reachable] by blast
qed


section \<open>The trigger and its switch\<close>

text \<open>Unregistering takes the LEDs off the list one by one, in any order.\<close>

inductive leds_leave :: "switch_led_trigger \<Rightarrow> switch_led_trigger \<Rightarrow> bool" where
  none: "leds_leave t t"
| one: "leds_leave t t' \<Longrightarrow> k < length (trig_leds t') \<Longrightarrow>
    leds_leave t (snd (swconfig_trig_deactivate (trig_leds t' ! k)
      (t'\<lparr>trig_leds := take k (trig_leds t') @ drop (Suc k) (trig_leds t')\<rparr>)))"

lemma leds_leave_work:
  "leds_leave t t' \<Longrightarrow> \<not> trig_work t \<Longrightarrow> trig_leds t' = [] \<Longrightarrow> \<not> trig_work t'"
proof (induction rule: leds_leave.induct)
  case (one t t' k)
  then show ?case by (auto simp: swconfig_trig_deactivate_def swconfig_trig_update_port_mask_def Let_def)
qed simp

text \<open>The registration that keeps the trigger agrees with \<open>register_switch\<close>.\<close>

lemma register_switch_leds_outcome:
  "map_prod (map_sum id fst) id (register_switch_leds mx a1 a2 nodes kz reg dev r) =
    register_switch mx a1 a2 (if kz then reg else Some ENOMEM) nodes dev r"
  by (auto simp: register_switch_leds_def register_switch_def bindE_def swconfig_create_led_trigger_def
      led_trigger_outcome_def failE_def retE_def split: prod.splits sum.splits option.splits)

text \<open>
  The trigger is freed only when no work is pending, although taking an LED off the list
  may start the work again. When the trigger of a newly registered switch cannot be
  created, \<open>register_switch\<close> reports the error but leaves the switch on the list.
\<close>
theorem led_trigger_lifecycle:
  assumes "\<And>t. leds_leave t (unregister t) \<and> trig_leds (unregister t) = []"
  shows "swconfig_destroy_led_trigger unregister trig = Inr ()
    \<and> (register_switch mx a1 a2 None nodes dev r = (Inr d, r') \<and> get_port_link (dev_ops d) \<noteq> None \<longrightarrow>
       register_switch_leds mx a1 a2 nodes False reg dev r = (Inl ENOMEM, r') \<and> d \<in> set (swdevs r')
       \<and> register_switch mx a1 a2 (Some e) nodes dev r = (Inl e, r')
       \<and> register_switch_leds mx a1 a2 nodes True (Some e) dev r = (Inl e, r')
       \<and> register_switch_leds mx a1 a2 nodes True None dev r = (Inr (d, Some (new_trigger (devname d))), r'))"
proof -
  have "\<not> trig_work (unregister (t\<lparr>trig_work := False\<rparr>))" for t
    using leds_leave_work [of "t\<lparr>trig_work := False\<rparr>"] assms by simp
  then have "swconfig_destroy_led_trigger unregister trig = Inr ()"
    by (simp add: swconfig_destroy_led_trigger_def split: option.split)
  moreover have "list_switch mx a1 a2 nodes dev r = (Inr d, r')"
    if "register_switch mx a1 a2 None nodes dev r = (Inr d, r')"
    using that by (rule register_switch_lists)
  moreover have "d \<in> set (swdevs r')" if "list_switch mx a1 a2 nodes dev r = (Inr d, r')"
    using that by (auto simp: list_switch_def Let_def split: if_splits)
  ultimately show ?thesis
    by (auto simp: register_switch_leds_def register_switch_def bindE_def swconfig_create_led_trigger_def
        led_trigger_outcome_def failE_def retE_def)
qed

text \<open>A list is emptied from the front.\<close>

definition detach_leds :: "switch_led_trigger \<Rightarrow> switch_led_trigger" where
  "detach_leds t = ((\<lambda>t. snd (swconfig_trig_deactivate (trig_leds t ! 0) (t\<lparr>trig_leds := drop 1 (trig_leds t)\<rparr>)))
     ^^ length (trig_leds t)) t"

lemma detach_leds_leave: "leds_leave t (detach_leds t) \<and> trig_leds (detach_leds t) = []"
proof -
  let ?f = "\<lambda>t. snd (swconfig_trig_deactivate (trig_leds t ! 0) (t\<lparr>trig_leds := drop 1 (trig_leds t)\<rparr>))"
  have "n \<le> length (trig_leds t) \<longrightarrow> leds_leave t ((?f ^^ n) t) \<and> trig_leds ((?f ^^ n) t) = drop n (trig_leds t)" for n
  proof (induction n)
    case (Suc n)
    show ?case
    proof
      assume "Suc n \<le> length (trig_leds t)"
      then have "leds_leave t ((?f ^^ n) t)" "trig_leds ((?f ^^ n) t) = drop n (trig_leds t)" "n < length (trig_leds t)"
        using Suc by auto
      then show "leds_leave t ((?f ^^ Suc n) t) \<and> trig_leds ((?f ^^ Suc n) t) = drop (Suc n) (trig_leds t)"
        using leds_leave.one [of t "(?f ^^ n) t" 0]
        by (simp add: swconfig_trig_deactivate_def swconfig_trig_update_port_mask_def Let_def)
    qed
  qed (simp add: leds_leave.none)
  from this [of "length (trig_leds t)"] show ?thesis by (simp add: detach_leds_def)
qed

theorem led_trigger_lifecycle_witness:
  "swconfig_destroy_led_trigger detach_leds (Some bench_trigger) = Inr ()
    \<and> fst (register_switch_leds 64 True True [] False None bench_led_dev \<lparr>swdev_id = 0, swdevs = [], sw_mem = 0\<rparr>) = Inl ENOMEM"
proof -
  obtain d r where "register_switch 64 True True None [] bench_led_dev \<lparr>swdev_id = 0, swdevs = [], sw_mem = 0\<rparr> = (Inr d, r)"
    "get_port_link (dev_ops d) \<noteq> None"
    by (simp add: register_switch_run led_trigger_outcome_def used_numbers_def find_first_zero_bit_def upt_rec Let_def
        map_filter_def swconfig_defaults_init_def bench_led_dev_def bench_led_ops_def)
  then show ?thesis
    using led_trigger_lifecycle [OF detach_leds_leave, of "Some bench_trigger" 64 True True "[]" bench_led_dev] by auto
qed

text \<open>What the mode file shows is accepted back and gives the same mode.\<close>

lemma mode_round_trip:
  "\<forall>m \<in> set [0, 1, 2, 3, 4, 5, 6, 7 :: u8].
     parse_mode (if m = 0 then ''none'' @ line_feed else mode_text m) = Inr m"
  by (simp add: parse_mode_def mode_text_def line_feed_def is_delim_def)

end
