(* ===== verification/Mtk_Bmt.thy ===== *)
theory Mtk_Bmt
  imports Prelude
begin

text \<open>
  Bad block management for MediaTek NAND flash, \<open>mtk_bmt.c\<close> and \<open>mtk_bmt.h\<close>: every access to a
  block of the flash goes to the physical block that the table in use gives for it, and a block that
  fails is mapped elsewhere. The functions of the chip driver and the table (\<open>struct mtk_bmt_ops\<close>)
  are arguments. Results of C type \<open>int\<close> are integers; the left side of a result stands for undefined
  behaviour. Addresses and lengths are natural numbers: the MTD layer refuses requests beyond
  \<open>mtd->size\<close>.
\<close>

section \<open>The chip\<close>

text \<open>
  A read or write at an address gives the return code and what was transferred: \<open>retlen\<close> and
  \<open>oobretlen\<close> are the lengths of the data and of the spare bytes.
\<close>

record nand_result =
  nr_ret :: int
  nr_data :: "u8 list"
  nr_oob :: "u8 list"

record 'h nand_ops =
  nand_read_oob :: "nat \<Rightarrow> nat \<Rightarrow> nat \<Rightarrow> nat \<Rightarrow> 'h \<Rightarrow> nand_result \<times> 'h"
  nand_write_oob :: "nat \<Rightarrow> u8 list \<Rightarrow> nat \<Rightarrow> u8 list \<Rightarrow> 'h \<Rightarrow> (int \<times> nat \<times> nat) \<times> 'h"
  nand_erase :: "nat \<Rightarrow> nat \<Rightarrow> 'h \<Rightarrow> int \<times> 'h"
  nand_block_isbad :: "nat \<Rightarrow> 'h \<Rightarrow> int \<times> 'h"
  nand_block_markbad :: "nat \<Rightarrow> 'h \<Rightarrow> int \<times> 'h"

abbreviation (input) MAIN_SIGNATURE_OFFSET :: nat where "MAIN_SIGNATURE_OFFSET \<equiv> 0"
abbreviation (input) OOB_SIGNATURE_OFFSET :: nat where "OOB_SIGNATURE_OFFSET \<equiv> 1"

text \<open>Error codes of the kernel as integers.\<close>

abbreviation (input) EIO_ret :: int where "EIO_ret \<equiv> - 5"
abbreviation (input) ENOMEM_ret :: int where "ENOMEM_ret \<equiv> - 12"
abbreviation (input) ENOSPC_ret :: int where "ENOSPC_ret \<equiv> - 28"

definition mtd_is_bitflip :: "int \<Rightarrow> bool" where
  "mtd_is_bitflip ret \<longleftrightarrow> ret = - 117"

section \<open>The descriptor\<close>

text \<open>
  \<open>struct bmt_desc\<close> and the fields of \<open>mtd\<close> that the code uses. \<open>bmtd.bbt\<close> is either a null pointer or points
  to the buffer of the table, which \<open>bbt_set\<close> says. \<open>bmt_heap\<close> counts the buffers that are allocated.
\<close>

record 'h bmt_desc =
  bbt_buf :: "u8 list"
  bbt_set :: bool
  bbt_alloc :: bool
  data_buf :: "u8 list"
  data_alloc :: bool
  table_size :: nat
  pg_size :: nat
  blk_size :: nat
  pg_shift :: nat
  blk_shift :: nat
  pool_lba :: u16
  pool_pba :: u16
  bb_max :: u16
  total_blks :: u16
  bmt_blk_idx :: u16
  bmt_pgs :: nat
  remap_range :: "(u32 \<times> u32) list option"
  oob_offset :: nat
  mtd_size :: nat
  mtd_erasesize :: nat
  mtd_writesize :: nat
  mtd_oobsize :: nat
  bitflip_threshold :: nat
  bmt_heap :: nat
  bmt_hw :: 'h

text \<open>What the device tree says.\<close>

record bmt_node =
  of_bmt_v2 :: bool
  of_nmbm :: bool
  of_bbt :: bool
  of_remap_range :: "(u32 \<times> u32) list option"
  of_pool_size :: "u32 option"
  of_oob_offset :: "u8 option"
  of_table_size :: "u32 option"

record 'h mtk_bmt_ops =
  bo_init :: "bmt_node \<Rightarrow> bool \<Rightarrow> 'h bmt_desc \<Rightarrow> ((errno + int) \<times> 'h bmt_desc) option"
  bo_remap_block :: "u16 \<Rightarrow> u16 \<Rightarrow> int \<Rightarrow> ('h bmt_desc, bool) io"
  bo_unmap_block :: "u16 \<Rightarrow> ('h bmt_desc, unit) io"
  bo_get_mapping_block :: "int \<Rightarrow> ('h bmt_desc, int) io"
  bo_debug :: "bool \<Rightarrow> nat \<Rightarrow> ('h bmt_desc, int) io"

definition on_nand :: "('h \<Rightarrow> 'a \<times> 'h) \<Rightarrow> ('h bmt_desc, 'a) io" where
  "on_nand f s = (let (x, h) = f (bmt_hw s) in (Inr x, s\<lparr>bmt_hw := h\<rparr>))"

text \<open>The address of a block.\<close>

definition blk_addr :: "nat \<Rightarrow> 'h bmt_desc \<Rightarrow> nat" where
  "blk_addr block s = push_bit (blk_shift s) block"

section \<open>Access to the chip\<close>

definition blk_pg :: "u16 \<Rightarrow> 'h bmt_desc \<Rightarrow> u32" where
  "blk_pg block s = push_bit (blk_shift s - pg_shift s) (ucast block)"

text \<open>The return code, the data and the spare bytes. The address is computed in 32 bits.\<close>

definition bbt_nand_read :: "'h nand_ops \<Rightarrow> u32 \<Rightarrow> nat \<Rightarrow> nat \<Rightarrow> ('h bmt_desc, int \<times> u8 list \<times> u8 list) io" where
  "bbt_nand_read N page dat_len fdm_len s =
    bindE (on_nand (nand_read_oob N (unat (push_bit (pg_shift s) page)) dat_len (oob_offset s) fdm_len)) (\<lambda>r.
    retE (if nr_ret r < 0 then nr_ret r else 0, take dat_len (nr_data r), take fdm_len (nr_oob r))) s"

definition bbt_nand_erase :: "'h nand_ops \<Rightarrow> u16 \<Rightarrow> ('h bmt_desc, int) io" where
  "bbt_nand_erase N block s = on_nand (nand_erase N (blk_addr (unat block) s) (blk_size s)) s"

definition write_bmt :: "'h nand_ops \<Rightarrow> u8 list \<Rightarrow> u16 \<Rightarrow> u8 list \<Rightarrow> ('h bmt_desc, int) io" where
  "write_bmt N sig block dat s =
    (let len = push_bit (pg_shift s) (bmt_pgs s)
     in if len > length dat then (Inl BUF_OVERRUN, s)
        else bindE (on_nand (nand_write_oob N (blk_addr (unat block) s) (take len dat)
               (OOB_SIGNATURE_OFFSET + oob_offset s) sig)) (\<lambda>(ret, _). retE ret) s)"

text \<open>
  The pages of a block, one by one through \<open>data_buf\<close>. The length of the spare bytes to write is
  only set after the write, so that none are written.
\<close>

definition fill_data_buf :: "u8 list \<Rightarrow> ('h bmt_desc, unit) io" where
  "fill_data_buf d s =
    (if length d > length (data_buf s) then (Inl BUF_OVERRUN, s)
     else (Inr (), s\<lparr>data_buf := d @ drop (length d) (data_buf s)\<rparr>))"

definition copy_page :: "'h nand_ops \<Rightarrow> nat \<Rightarrow> nat \<Rightarrow> nat \<Rightarrow> ('h bmt_desc, int option \<times> nat) io" where
  "copy_page N pages src dest s =
    bindE (on_nand (nand_read_oob N src (pg_size s) 0 (min (mtd_oobsize s div pages) 64))) (\<lambda>r.
    bindE (fill_data_buf (take (pg_size s) (nr_data r))) (\<lambda>_.
    if nr_ret r < 0 \<and> \<not> mtd_is_bitflip (nr_ret r) then retE (Some (nr_ret r), 0)
    else if take (pg_size s) (nr_data r) = [] then retE (Some 0, 0)
    else (\<lambda>s. bindE (on_nand (nand_write_oob N dest (take (pg_size s) (data_buf s)) 0 [])) (\<lambda>(ret, _).
         retE (if ret < 0 then Some ret else None, length (take (pg_size s) (nr_data r)))) s))) s"

primrec copy_loop :: "'h nand_ops \<Rightarrow> nat \<Rightarrow> int \<Rightarrow> nat \<Rightarrow> nat \<Rightarrow> nat \<Rightarrow> nat \<Rightarrow> ('h bmt_desc, int) io" where
  "copy_loop N pages max_offset src dest offset 0 = retE 0"
| "copy_loop N pages max_offset src dest offset (Suc n) =
    (if int offset \<ge> max_offset then retE 0
     else bindE (copy_page N pages (src + offset) (dest + offset)) (\<lambda>(ret, k).
          case ret of Some x \<Rightarrow> retE x | None \<Rightarrow> copy_loop N pages max_offset src dest (offset + k) n))"

definition bbt_nand_copy :: "'h nand_ops \<Rightarrow> u16 \<Rightarrow> u16 \<Rightarrow> int \<Rightarrow> ('h bmt_desc, int) io" where
  "bbt_nand_copy N dest_blk src_blk max_offset s =
    (let pages = drop_bit (pg_shift s) (blk_size s)
     in copy_loop N pages max_offset (blk_addr (unat src_blk) s) (blk_addr (unat dest_blk) s) 0 pages s)"

section \<open>Ranges\<close>

text \<open>Without ranges the bounds are block numbers, otherwise byte addresses as \<open>int\<close>.\<close>

primrec find_range :: "u32 \<Rightarrow> (u32 \<times> u32) list \<Rightarrow> (int \<times> int) option" where
  "find_range addr [] = None"
| "find_range addr (r # rs) =
    (if addr < fst r \<or> addr \<ge> snd r then find_range addr rs else Some (sint (fst r), sint (snd r)))"

definition mapping_block_in_range :: "int \<Rightarrow> 'h bmt_desc \<Rightarrow> (int \<times> int) option" where
  "mapping_block_in_range block s =
    (case remap_range s of
       None \<Rightarrow> Some (0, uint (total_blks s))
     | Some rs \<Rightarrow> if rs = [] then Some (0, uint (total_blks s))
                 else find_range (push_bit (blk_shift s) (word_of_int block)) rs)"

definition mtk_bmt_remap_block :: "'h mtk_bmt_ops \<Rightarrow> int \<Rightarrow> int \<Rightarrow> int \<Rightarrow> ('h bmt_desc, bool) io" where
  "mtk_bmt_remap_block Q block mapped_block copy_len s =
    (case mapping_block_in_range block s of
       None \<Rightarrow> (Inr False, s)
     | Some _ \<Rightarrow> bo_remap_block Q (word_of_int block) (word_of_int mapped_block) copy_len s)"

section \<open>Reading and writing\<close>

text \<open>
  The variables of the loops: the position, what has been transferred, the remaining spare bytes of
  \<open>cur_ops\<close>, the retries of the current block and the results. A step returns whether the loop goes on.
\<close>

record bmt_xfer =
  xf_pos :: nat
  xf_data :: "u8 list"
  xf_oob :: "u8 list"
  xf_ooblen :: nat
  xf_ooboffs :: nat
  xf_retry :: nat
  xf_ret :: int
  xf_flips :: int

text \<open>A failed access: the block is mapped elsewhere and tried again, ten times at most.\<close>

definition bmt_retry :: "'h mtk_bmt_ops \<Rightarrow> int \<Rightarrow> int \<Rightarrow> int \<Rightarrow> bmt_xfer \<Rightarrow> ('h bmt_desc, bmt_xfer \<times> bool) io" where
  "bmt_retry Q block cur_block copy_len r =
    bindE (mtk_bmt_remap_block Q block cur_block copy_len) (\<lambda>ok.
    if ok \<and> xf_retry r < 10 then retE (r\<lparr>xf_retry := xf_retry r + 1\<rparr>, True) else retE (r, False))"

text \<open>The comparison with the threshold is one of unsigned numbers.\<close>

definition over_threshold :: "int \<Rightarrow> 'h bmt_desc \<Rightarrow> bool" where
  "over_threshold ret s \<longleftrightarrow> bitflip_threshold s \<noteq> 0 \<and> unat (word_of_int ret :: u32) \<ge> bitflip_threshold s"

definition bmt_read_step ::
  "'h nand_ops \<Rightarrow> 'h mtk_bmt_ops \<Rightarrow> nat \<Rightarrow> bmt_xfer \<Rightarrow> ('h bmt_desc, bmt_xfer \<times> bool) io" where
  "bmt_read_step N Q len r s =
    (let offset = xf_pos r AND (blk_size s - 1);
         block = int (drop_bit (blk_shift s) (xf_pos r))
     in bindE (bo_get_mapping_block Q block) (\<lambda>cur_block s.
        if cur_block < 0 then (Inr (r\<lparr>xf_ret := EIO_ret\<rparr>, False), s)
        else let n = min (mtd_erasesize s - offset) (len - length (xf_data r))
             in bindE (on_nand (nand_read_oob N (blk_addr (nat cur_block) s + offset) n (xf_ooboffs r) (xf_ooblen r))) (\<lambda>x.
                let ret = nr_ret x;
                    r = (if ret < 0 then r\<lparr>xf_ret := ret\<rparr> else r\<lparr>xf_flips := max (xf_flips r) ret\<rparr>)
                in if ret < 0 \<and> \<not> mtd_is_bitflip ret
                   then bmt_retry Q block cur_block (int (mtd_erasesize s)) r
                   else bindE (\<lambda>s. if over_threshold ret s
                                   then mtk_bmt_remap_block Q block cur_block (int (mtd_erasesize s)) s
                                   else (Inr False, s)) (\<lambda>_.
                        retE (r\<lparr>xf_data := xf_data r @ take n (nr_data x), xf_oob := xf_oob r @ take (xf_ooblen r) (nr_oob x),
                          xf_ooboffs := 0, xf_ooblen := xf_ooblen r - length (take (xf_ooblen r) (nr_oob x)),
                          xf_pos := xf_pos r + (if n = 0 then mtd_erasesize s - offset else n), xf_retry := 0\<rparr>, True))) s) s)"

partial_function (option) bmt_read_loop ::
  "'h nand_ops \<Rightarrow> 'h mtk_bmt_ops \<Rightarrow> nat \<Rightarrow> nat \<Rightarrow> bmt_xfer \<Rightarrow> 'h bmt_desc \<Rightarrow> ((errno + bmt_xfer) \<times> 'h bmt_desc) option" where
  "bmt_read_loop N Q len ooblen r s =
    (if length (xf_data r) < len \<or> length (xf_oob r) < ooblen
     then (case bmt_read_step N Q len r s of
             (Inl e, s) \<Rightarrow> Some (Inl e, s)
           | (Inr (r, go), s) \<Rightarrow> if go then bmt_read_loop N Q len ooblen r s else Some (Inr r, s))
     else Some (Inr r, s))"

definition start_xfer :: "nat \<Rightarrow> nat \<Rightarrow> nat \<Rightarrow> bmt_xfer" where
  "start_xfer pos ooblen ooboffs = \<lparr>xf_pos = pos, xf_data = [], xf_oob = [], xf_ooblen = ooblen, xf_ooboffs = ooboffs,
     xf_retry = 0, xf_ret = 0, xf_flips = 0\<rparr>"

text \<open>The result is the return code with the data and the spare bytes that were read.\<close>

definition mtk_bmt_read ::
  "'h nand_ops \<Rightarrow> 'h mtk_bmt_ops \<Rightarrow> nat \<Rightarrow> nat \<Rightarrow> nat \<Rightarrow> nat \<Rightarrow> 'h bmt_desc
    \<Rightarrow> ((errno + int \<times> u8 list \<times> u8 list) \<times> 'h bmt_desc) option" where
  "mtk_bmt_read N Q from len ooboffs ooblen s =
    (case bmt_read_loop N Q len ooblen (start_xfer from ooblen ooboffs) s of
       None \<Rightarrow> None
     | Some (Inl e, s) \<Rightarrow> Some (Inl e, s)
     | Some (Inr r, s) \<Rightarrow> Some (Inr (if xf_ret r < 0 then xf_ret r else xf_flips r, xf_data r, xf_oob r), s))"

text \<open>Writing: \<open>xf_data\<close> and \<open>xf_oob\<close> are what the chip has accepted.\<close>

definition bmt_write_step ::
  "'h nand_ops \<Rightarrow> 'h mtk_bmt_ops \<Rightarrow> u8 list \<Rightarrow> u8 list \<Rightarrow> bmt_xfer \<Rightarrow> ('h bmt_desc, bmt_xfer \<times> bool) io" where
  "bmt_write_step N Q dat oob r s =
    (let offset = xf_pos r AND (blk_size s - 1);
         block = int (drop_bit (blk_shift s) (xf_pos r))
     in bindE (bo_get_mapping_block Q block) (\<lambda>cur_block s.
        if cur_block < 0 then (Inr (r\<lparr>xf_ret := EIO_ret\<rparr>, False), s)
        else let n = min (blk_size s - offset) (length dat - length (xf_data r));
                 d = take n (drop (length (xf_data r)) dat);
                 b = drop (length (xf_oob r)) oob
             in bindE (on_nand (nand_write_oob N (blk_addr (nat cur_block) s + offset) d (xf_ooboffs r) b)) (\<lambda>(ret, k, l).
                let r = r\<lparr>xf_ret := ret\<rparr>
                in if ret < 0 then bmt_retry Q block cur_block (int offset) r
                   else (\<lambda>s. (Inr (r\<lparr>xf_data := xf_data r @ take k d, xf_oob := xf_oob r @ take l b, xf_ooboffs := 0,
                          xf_pos := xf_pos r + (if n = 0 then mtd_erasesize s - offset else n), xf_retry := 0\<rparr>, True), s))) s) s)"

partial_function (option) bmt_write_loop ::
  "'h nand_ops \<Rightarrow> 'h mtk_bmt_ops \<Rightarrow> u8 list \<Rightarrow> u8 list \<Rightarrow> bmt_xfer \<Rightarrow> 'h bmt_desc \<Rightarrow> ((errno + bmt_xfer) \<times> 'h bmt_desc) option" where
  "bmt_write_loop N Q dat oob r s =
    (if length (xf_data r) < length dat \<or> length (xf_oob r) < length oob
     then (case bmt_write_step N Q dat oob r s of
             (Inl e, s) \<Rightarrow> Some (Inl e, s)
           | (Inr (r, go), s) \<Rightarrow> if go then bmt_write_loop N Q dat oob r s else Some (Inr r, s))
     else Some (Inr (r\<lparr>xf_ret := 0\<rparr>), s))"

text \<open>The return code and the number of bytes written.\<close>

definition mtk_bmt_write ::
  "'h nand_ops \<Rightarrow> 'h mtk_bmt_ops \<Rightarrow> nat \<Rightarrow> u8 list \<Rightarrow> nat \<Rightarrow> u8 list \<Rightarrow> 'h bmt_desc
    \<Rightarrow> ((errno + int \<times> nat \<times> nat) \<times> 'h bmt_desc) option" where
  "mtk_bmt_write N Q to dat ooboffs oob s =
    (case bmt_write_loop N Q dat oob (start_xfer to (length oob) ooboffs) s of
       None \<Rightarrow> None
     | Some (Inl e, s) \<Rightarrow> Some (Inl e, s)
     | Some (Inr r, s) \<Rightarrow> Some (Inr (xf_ret r, length (xf_data r), length (xf_oob r)), s))"

section \<open>Erasing and marking\<close>

text \<open>
  The return code is \<open>None\<close> when the loop does not run at all: the variable is not initialised. The
  second component is \<open>instr->fail_addr\<close>.
\<close>

definition bmt_erase_step ::
  "'h nand_ops \<Rightarrow> 'h mtk_bmt_ops \<Rightarrow> nat \<Rightarrow> ('h bmt_desc, int \<times> bool \<times> int) io" where
  "bmt_erase_step N Q start s =
    (let orig_block = of_nat (drop_bit (blk_shift s) start) :: u16
     in bindE (bo_get_mapping_block Q (uint orig_block)) (\<lambda>block s.
        if block < 0 then (Inr (EIO_ret, False, block), s)
        else bindE (on_nand (nand_erase N (blk_addr (nat block) s) (blk_size s))) (\<lambda>ret.
             if ret = 0 then retE (0, False, block)
             else bindE (mtk_bmt_remap_block Q (uint orig_block) block 0) (\<lambda>ok. retE (ret, ok, block))) s) s)"

partial_function (option) bmt_erase_loop ::
  "'h nand_ops \<Rightarrow> 'h mtk_bmt_ops \<Rightarrow> nat \<Rightarrow> nat \<Rightarrow> nat \<Rightarrow> int option \<Rightarrow> 'h bmt_desc
    \<Rightarrow> ((errno + int option \<times> nat option) \<times> 'h bmt_desc) option" where
  "bmt_erase_loop N Q stop start retry ret s =
    (if start < stop
     then (case bmt_erase_step N Q start s of
             (Inl e, s) \<Rightarrow> Some (Inl e, s)
           | (Inr (x, ok, block), s) \<Rightarrow>
               if block < 0 then Some (Inr (Some x, None), s)
               else if x = 0 then bmt_erase_loop N Q stop (start + mtd_erasesize s) 0 (Some 0) s
               else if ok \<and> retry < 10 then bmt_erase_loop N Q stop start (retry + 1) (Some x) s
               else Some (Inr (Some x, Some start), s))
     else Some (Inr (ret, None), s))"

definition mtk_bmt_mtd_erase ::
  "'h nand_ops \<Rightarrow> 'h mtk_bmt_ops \<Rightarrow> nat \<Rightarrow> nat \<Rightarrow> 'h bmt_desc
    \<Rightarrow> ((errno + int option \<times> nat option) \<times> 'h bmt_desc) option" where
  "mtk_bmt_mtd_erase N Q addr len s =
    bmt_erase_loop N Q (addr + len) (addr - (addr AND (mtd_erasesize s - 1))) 0 None s"

definition isbad_try :: "'h nand_ops \<Rightarrow> 'h mtk_bmt_ops \<Rightarrow> u16 \<Rightarrow> ('h bmt_desc, int \<times> bool) io" where
  "isbad_try N Q orig_block =
    bindE (bo_get_mapping_block Q (uint orig_block)) (\<lambda>b s.
    let block = word_of_int b :: u16
    in bindE (on_nand (nand_block_isbad N (blk_addr (unat block) s))) (\<lambda>ret.
       if ret = 0 then retE (0, False)
       else bindE (mtk_bmt_remap_block Q (uint orig_block) (uint block) (int (blk_size s))) (\<lambda>ok. retE (ret, ok))) s)"

text \<open>The argument counts the retries that are left.\<close>

primrec isbad_loop :: "'h nand_ops \<Rightarrow> 'h mtk_bmt_ops \<Rightarrow> u16 \<Rightarrow> nat \<Rightarrow> ('h bmt_desc, int) io" where
  "isbad_loop N Q orig_block 0 = bindE (isbad_try N Q orig_block) (\<lambda>(ret, ok). retE ret)"
| "isbad_loop N Q orig_block (Suc n) =
    bindE (isbad_try N Q orig_block) (\<lambda>(ret, ok). if ok then isbad_loop N Q orig_block n else retE ret)"

definition mtk_bmt_block_isbad :: "'h nand_ops \<Rightarrow> 'h mtk_bmt_ops \<Rightarrow> nat \<Rightarrow> ('h bmt_desc, int) io" where
  "mtk_bmt_block_isbad N Q ofs s = isbad_loop N Q (of_nat (drop_bit (blk_shift s) ofs)) 10 s"

definition mtk_bmt_block_markbad :: "'h nand_ops \<Rightarrow> 'h mtk_bmt_ops \<Rightarrow> nat \<Rightarrow> ('h bmt_desc, int) io" where
  "mtk_bmt_block_markbad N Q ofs s =
    (let orig_block = of_nat (drop_bit (blk_shift s) ofs) :: u16
     in bindE (bo_get_mapping_block Q (uint orig_block)) (\<lambda>block s.
        if block < 0 then (Inr EIO_ret, s)
        else bindE (mtk_bmt_remap_block Q (uint orig_block) block (int (blk_size s))) (\<lambda>_ s.
             on_nand (nand_block_markbad N (blk_addr (nat block) s)) s) s) s)"

section \<open>Debugging files\<close>

definition mtk_bmt_debug_repair :: "'h nand_ops \<Rightarrow> 'h mtk_bmt_ops \<Rightarrow> nat \<Rightarrow> ('h bmt_desc, int) io" where
  "mtk_bmt_debug_repair N Q val s =
    (let block = int (drop_bit (blk_shift s) val)
     in bindE (bo_get_mapping_block Q block) (\<lambda>prev_block.
        if prev_block < 0 then retE EIO_ret
        else bindE (bo_unmap_block Q (word_of_int block)) (\<lambda>_.
             bindE (bo_get_mapping_block Q block) (\<lambda>new_block.
             if new_block < 0 then retE EIO_ret
             else if prev_block = new_block then retE 0
             else bindE (bbt_nand_erase N (word_of_int new_block)) (\<lambda>_ s.
                  bindE (bbt_nand_copy N (word_of_int new_block) (word_of_int prev_block) (int (blk_size s))) (\<lambda>_.
                  retE 0) s)))) s)"

definition mtk_bmt_debug_mark_good :: "'h mtk_bmt_ops \<Rightarrow> nat \<Rightarrow> ('h bmt_desc, int) io" where
  "mtk_bmt_debug_mark_good Q val s =
    bindE (bo_unmap_block Q (of_nat (drop_bit (blk_shift s) val))) (\<lambda>_. retE 0) s"

definition mtk_bmt_debug_mark_bad :: "'h mtk_bmt_ops \<Rightarrow> nat \<Rightarrow> ('h bmt_desc, int) io" where
  "mtk_bmt_debug_mark_bad Q val s =
    (let block = int (drop_bit (blk_shift s) val)
     in bindE (bo_get_mapping_block Q block) (\<lambda>cur_block s.
        if cur_block < 0 then (Inr EIO_ret, s)
        else bindE (mtk_bmt_remap_block Q block cur_block (int (blk_size s))) (\<lambda>_. retE 0) s) s)"

definition mtk_bmt_debug :: "'h mtk_bmt_ops \<Rightarrow> bool \<Rightarrow> nat \<Rightarrow> ('h bmt_desc, int) io" where
  "mtk_bmt_debug Q kz val = bo_debug Q kz val"

section \<open>Attaching and detaching\<close>

text \<open>
  \<open>wb_mtd\<close> is \<open>bmtd.mtd != NULL\<close>, \<open>wb_ops\<close> the table in use, \<open>wb_replaced\<close> says that the functions of \<open>mtd\<close>
  are those of this file. There is one \<open>mtd\<close>.
\<close>

record 'h bmt_world =
  wb_mtd :: bool
  wb_replaced :: bool
  wb_debugfs :: bool
  wb_desc :: "'h bmt_desc"

definition mtk_bmt_replace_ops :: "'h bmt_world \<Rightarrow> 'h bmt_world" where
  "mtk_bmt_replace_ops w = w\<lparr>wb_replaced := True\<rparr>"

definition mtk_bmt_add_debugfs :: "bool \<Rightarrow> 'h bmt_world \<Rightarrow> 'h bmt_world" where
  "mtk_bmt_add_debugfs dir w = w\<lparr>wb_debugfs := dir\<rparr>"

text \<open>
  \<open>memset(&bmtd, 0, sizeof(bmtd))\<close> after the buffers have been freed. The size of \<open>mtd\<close> is computed from the number of
  blocks: the shift is one of type \<open>int\<close>, whose result is extended to 64 bits.
\<close>

definition clear_desc :: "'h bmt_desc \<Rightarrow> 'h bmt_desc" where
  "clear_desc s = s\<lparr>bbt_buf := [], bbt_set := False, bbt_alloc := False, data_buf := [],
     data_alloc := False, table_size := 0, pg_size := 0, blk_size := 0, pg_shift := 0, blk_shift := 0,
     pool_lba := 0, pool_pba := 0, bb_max := 0, total_blks := 0, bmt_blk_idx := 0, bmt_pgs := 0,
     remap_range := None, oob_offset := 0, mtd_size := unat (scast (push_bit (blk_shift s) (ucast (total_blks s) :: u32)) :: u64),
     bmt_heap := bmt_heap s - (if bbt_alloc s then 1 else 0) - (if data_alloc s then 1 else 0)\<rparr>"

definition mtk_bmt_detach :: "'h bmt_world \<Rightarrow> 'h bmt_world" where
  "mtk_bmt_detach w =
    (if \<not> wb_mtd w then w
     else w\<lparr>wb_debugfs := False, wb_replaced := False, wb_mtd := False, wb_desc := clear_desc (wb_desc w)\<rparr>)"

text \<open>\<open>ffs(x) - 1\<close> as an \<open>u16\<close>.\<close>

definition ffs_shift :: "nat \<Rightarrow> nat" where
  "ffs_shift x = (case find (bit x) [0..<32] of Some i \<Rightarrow> i | None \<Rightarrow> 65535)"

definition bmt_geometry :: "bmt_node \<Rightarrow> 'h bmt_desc \<Rightarrow> 'h bmt_desc" where
  "bmt_geometry np s =
    (let sh = ffs_shift (mtd_erasesize s)
     in s\<lparr>remap_range := of_remap_range np, blk_size := mtd_erasesize s, blk_shift := sh,
          pg_size := mtd_writesize s, pg_shift := ffs_shift (mtd_writesize s),
          total_blks := of_nat (drop_bit sh (mtd_size s))\<rparr>)"

text \<open>
  The three tables are arguments, with whether the allocations succeed and the debugfs directory can
  be created. A device without a node or without one of the three properties is left alone.
\<close>

definition select_ops :: "'h mtk_bmt_ops \<Rightarrow> 'h mtk_bmt_ops \<Rightarrow> 'h mtk_bmt_ops \<Rightarrow> bmt_node \<Rightarrow> 'h mtk_bmt_ops option" where
  "select_ops v2 nmbm bbt np =
    (if of_bmt_v2 np then Some v2 else if of_nmbm np then Some nmbm else if of_bbt np then Some bbt else None)"

definition mtk_bmt_attach ::
  "'h mtk_bmt_ops \<Rightarrow> 'h mtk_bmt_ops \<Rightarrow> 'h mtk_bmt_ops \<Rightarrow> bool \<Rightarrow> bool \<Rightarrow> bool \<Rightarrow> bmt_node option \<Rightarrow> 'h bmt_world
    \<Rightarrow> ((errno + int) \<times> 'h bmt_world) option" where
  "mtk_bmt_attach v2 nmbm bbt kz kz_bbt dir node w =
    (if wb_mtd w then Some (Inr ENOSPC_ret, w)
     else case node of None \<Rightarrow> Some (Inr 0, w)
     | Some np \<Rightarrow>
         (case select_ops v2 nmbm bbt np of None \<Rightarrow> Some (Inr 0, w)
          | Some Q \<Rightarrow>
              let w = mtk_bmt_replace_ops (w\<lparr>wb_mtd := True, wb_desc := bmt_geometry np (wb_desc w)\<rparr>);
                  s = wb_desc w
              in if \<not> kz then Some (Inr (- 1), mtk_bmt_detach w)
                 else case bo_init Q np kz_bbt (s\<lparr>data_buf := replicate (pg_size s + mtd_oobsize s) 0xFF,
                             data_alloc := True, bmt_heap := bmt_heap s + 1\<rparr>) of
                        None \<Rightarrow> None
                      | Some (Inl e, s) \<Rightarrow> Some (Inl e, w\<lparr>wb_desc := s\<rparr>)
                      | Some (Inr ret, s) \<Rightarrow>
                          if ret \<noteq> 0 then Some (Inr ret, mtk_bmt_detach (w\<lparr>wb_desc := s\<rparr>))
                          else Some (Inr 0, mtk_bmt_add_debugfs dir (w\<lparr>wb_desc := s\<rparr>))))"

end
