(* ===== verification/Mtk_Bmt_Bbt.thy ===== *)
theory Mtk_Bmt_Bbt
  imports Mtk_Bmt
begin

text \<open>
  The bad block table of \<open>mtk_bmt_bbt.c\<close>: two bits per block. Inside a range the good blocks are used in
  order; the bad ones come after them.
\<close>

definition bbt_sig :: "u8 list" where
  "bbt_sig = [0x6D, 0x74, 0x6B, 0x6E, 0x61, 0x6E, 0x64]"

definition bbt_bits :: "u16 \<Rightarrow> u8" where
  "bbt_bits block = push_bit ((unat block mod 4) * 2) 3"

definition bbt_block_is_bad :: "u16 \<Rightarrow> ('h bmt_desc, bool) io" where
  "bbt_block_is_bad block s =
    (let i = unat block div 4
     in if i \<ge> length (bbt_buf s) then (Inl BUF_OVERRUN, s)
        else (Inr (bbt_buf s ! i AND bbt_bits block \<noteq> 0), s))"

definition bbt_set_block_state :: "'h nand_ops \<Rightarrow> u16 \<Rightarrow> bool \<Rightarrow> ('h bmt_desc, unit) io" where
  "bbt_set_block_state N block bad s =
    (let i = unat block div 4; m = bbt_bits block
     in if i \<ge> length (bbt_buf s) then (Inl BUF_OVERRUN, s)
        else let buf = (bbt_buf s)[i := (if bad then bbt_buf s ! i OR m else bbt_buf s ! i AND NOT m)];
                 s = s\<lparr>bbt_buf := buf\<rparr>
             in bindE (bbt_nand_erase N (bmt_blk_idx s)) (\<lambda>_.
                bindE (write_bmt N bbt_sig (bmt_blk_idx s) buf) (\<lambda>_. retE ())) s)"

section \<open>The mapping\<close>

text \<open>The first loop, over the blocks of the range: the block found, what is left of \<open>ofs\<close>, and \<open>bad_blocks\<close>.\<close>

primrec skip_bad :: "int list \<Rightarrow> int \<Rightarrow> nat \<Rightarrow> ('h bmt_desc, int option \<times> int \<times> nat) io" where
  "skip_bad [] ofs bad_blocks = retE (None, ofs, bad_blocks)"
| "skip_bad (i # is) ofs bad_blocks =
    bindE (bbt_block_is_bad (word_of_int i)) (\<lambda>b.
    if b then skip_bad is ofs (bad_blocks + 1)
    else if ofs \<noteq> 0 then skip_bad is (ofs - 1) bad_blocks
    else retE (Some i, ofs, bad_blocks))"

text \<open>
  The second loop, downwards over the same blocks. It counts the bad ones again, so that the counter is 0
  before the list ends.
\<close>

primrec use_bad :: "int list \<Rightarrow> int \<Rightarrow> nat \<Rightarrow> ('h bmt_desc, int option) io" where
  "use_bad [] ofs bad_blocks = (if bad_blocks > 0 then failE BUF_OVERRUN else retE None)"
| "use_bad (i # is) ofs bad_blocks =
    (if bad_blocks = 0 then retE None
     else bindE (bbt_block_is_bad (word_of_int i)) (\<lambda>b.
          if \<not> b then use_bad is ofs bad_blocks
          else if int (bad_blocks - 1) \<le> ofs then retE (Some i)
          else use_bad is ofs (bad_blocks - 1)))"

definition get_mapping_block_index_bbt :: "int \<Rightarrow> ('h bmt_desc, int) io" where
  "get_mapping_block_index_bbt block s =
    (case mapping_block_in_range block s of
       None \<Rightarrow> (Inr block, s)
     | Some (start, stop) \<Rightarrow>
         let start = drop_bit (blk_shift s) start;
             stop = drop_bit (blk_shift s) stop
         in bindE (skip_bad [start..stop - 1] (block - start) 0) (\<lambda>(found, ofs, bad_blocks).
            case found of Some i \<Rightarrow> retE i
            | None \<Rightarrow>
                bindE (use_bad (rev [start..stop - 1]) ofs bad_blocks) (\<lambda>x.
                retE (case x of Some i \<Rightarrow> i | None \<Rightarrow> block))) s)"

definition remap_block_bbt :: "'h nand_ops \<Rightarrow> u16 \<Rightarrow> u16 \<Rightarrow> int \<Rightarrow> ('h bmt_desc, bool) io" where
  "remap_block_bbt N block mapped_blk copy_len s =
    (case mapping_block_in_range (uint block) s of
       None \<Rightarrow> (Inr False, s)
     | Some _ \<Rightarrow>
         bindE (bbt_set_block_state N mapped_blk True) (\<lambda>_.
         bindE (get_mapping_block_index_bbt (uint block)) (\<lambda>new_blk.
         bindE (bbt_nand_erase N (word_of_int new_blk)) (\<lambda>_.
         bindE (if copy_len > 0 then bbt_nand_copy N (word_of_int new_blk) mapped_blk copy_len else retE 0) (\<lambda>_.
         retE True)))) s)"

definition unmap_block_bbt :: "'h nand_ops \<Rightarrow> u16 \<Rightarrow> ('h bmt_desc, unit) io" where
  "unmap_block_bbt N block = bbt_set_block_state N block False"

section \<open>Start-up\<close>

text \<open>
  The table is in one of the last five blocks. The buffer is overwritten by every block that is tried.
  Spare bytes that the chip does not deliver are not initialised.
\<close>

definition fill_bbt_buf :: "u8 list \<Rightarrow> ('h bmt_desc, unit) io" where
  "fill_bbt_buf d s =
    (if length d > length (bbt_buf s) then (Inl BUF_OVERRUN, s)
     else (Inr (), s\<lparr>bbt_buf := d @ drop (length d) (bbt_buf s)\<rparr>))"

primrec read_bbt_loop :: "'h nand_ops \<Rightarrow> int list \<Rightarrow> ('h bmt_desc, int) io" where
  "read_bbt_loop N [] = retE EIO_ret"
| "read_bbt_loop N (i # is) = (\<lambda>s.
    bindE (bbt_nand_read N (push_bit (blk_shift s - pg_shift s) (word_of_int i)) (pg_size s) 8) (\<lambda>(ret, dat, oob).
    bindE (fill_bbt_buf dat) (\<lambda>_.
    if ret \<noteq> 0 then read_bbt_loop N is
    else if length oob < 8 then failE UNINIT
    else if oob ! 0 \<noteq> 0xFF then read_bbt_loop N is
    else if take 7 (drop 1 oob) \<noteq> bbt_sig then read_bbt_loop N is
    else (\<lambda>s. (Inr 0, s\<lparr>bmt_blk_idx := word_of_int i\<rparr>)))) s)"

definition mtk_bmt_read_bbt :: "'h nand_ops \<Rightarrow> ('h bmt_desc, int) io" where
  "mtk_bmt_read_bbt N s = read_bbt_loop N (rev [uint (total_blks s) - 5..uint (total_blks s) - 1]) s"

definition round_up :: "nat \<Rightarrow> nat \<Rightarrow> nat" where
  "round_up x y = ((x + y - 1) div y) * y"

definition mtk_bmt_init_bbt :: "'h nand_ops \<Rightarrow> bmt_node \<Rightarrow> bool \<Rightarrow> ('h bmt_desc, int) io" where
  "mtk_bmt_init_bbt N np kz s =
    (let buf_size = round_up (unat (total_blks s) div 4) (blk_size s)
     in if \<not> kz then (Inr ENOMEM_ret, s)
        else bindE (mtk_bmt_read_bbt N) (\<lambda>ret s.
             if ret \<noteq> 0 then (Inr ret, s) else (Inr 0, s\<lparr>bmt_pgs := buf_size div pg_size s\<rparr>))
             (s\<lparr>bbt_buf := replicate buf_size 0xFF, bbt_alloc := True, bmt_heap := bmt_heap s + 1,
                mtd_size := unat ((of_nat (mtd_size s) :: u64) - ucast (4 * of_nat (mtd_erasesize s) :: u32))\<rparr>))"

text \<open>Command 0 only prints.\<close>

definition mtk_bmt_debug_bbt :: "'h nand_ops \<Rightarrow> nat \<Rightarrow> ('h bmt_desc, int) io" where
  "mtk_bmt_debug_bbt N val s =
    (if val = 100
     then let s = s\<lparr>bmt_blk_idx := total_blks s - 1\<rparr>
          in bindE (bbt_nand_erase N (bmt_blk_idx s)) (\<lambda>_.
             bindE (write_bmt N bbt_sig (bmt_blk_idx s) (bbt_buf s)) (\<lambda>_. retE 0)) s
     else (Inr 0, s))"

definition mtk_bmt_bbt_ops :: "'h nand_ops \<Rightarrow> 'h mtk_bmt_ops" where
  "mtk_bmt_bbt_ops N = \<lparr>bo_init = (\<lambda>np kz s. Some (mtk_bmt_init_bbt N np kz s)), bo_remap_block = remap_block_bbt N,
     bo_unmap_block = unmap_block_bbt N, bo_get_mapping_block = get_mapping_block_index_bbt,
     bo_debug = (\<lambda>_. mtk_bmt_debug_bbt N)\<rparr>"

end
