(* ===== verification/Bbt_Mapping.thy ===== *)
theory Bbt_Mapping
  imports Mtk_Bmt_Bbt
begin

text \<open>
  The mapping of \<open>mtk_bmt_bbt.c\<close> as a list: the blocks of a range in the order in which they are used,
  the good ones and then the bad ones.
\<close>

section \<open>Marks\<close>

definition bad :: "u8 list \<Rightarrow> int \<Rightarrow> bool" where
  "bad buf i \<longleftrightarrow> buf ! (nat i div 4) AND bbt_bits (word_of_int i) \<noteq> 0"

text \<open>A block whose mark is in the buffer.\<close>

definition marked :: "u8 list \<Rightarrow> int \<Rightarrow> bool" where
  "marked buf i \<longleftrightarrow> 0 \<le> i \<and> i < 65536 \<and> i < 4 * int (length buf)"

lemma unat_block: "0 \<le> i \<Longrightarrow> i < 65536 \<Longrightarrow> unat (word_of_int i :: u16) = nat i"
  by (simp add: unat_eq_nat_uint take_bit_int_eq_self unsigned_of_int)

lemma bad_run: "marked (bbt_buf s) i \<Longrightarrow> bbt_block_is_bad (word_of_int i) s = (Inr (bad (bbt_buf s) i), s)"
proof -
  assume m: "marked (bbt_buf s) i"
  then have "nat i div 4 < length (bbt_buf s)" unfolding marked_def by linarith
  then show ?thesis
    using m by (simp add: bbt_block_is_bad_def Let_def bad_def unat_block marked_def not_le)
qed

lemma bit_bbt_bits: "n < 8 \<Longrightarrow> bit (bbt_bits b) n \<longleftrightarrow> n div 2 = unat b mod 4"
proof -
  assume n: "n < 8"
  have three: "(3 :: u8) = mask 2" by (simp add: mask_eq_exp_minus_1)
  have "bit (bbt_bits b) n \<longleftrightarrow> (unat b mod 4) * 2 \<le> n \<and> n < (unat b mod 4) * 2 + 2"
    using n by (auto simp: bbt_bits_def three bit_push_bit_iff bit_mask_iff)
  moreover have "n div 2 = q \<longleftrightarrow> q * 2 \<le> n \<and> n < q * 2 + 2" for q by presburger
  ultimately show ?thesis by blast
qed

lemma bbt_bits_and_eq_0: "w AND bbt_bits b = 0 \<longleftrightarrow> \<not> bit w (unat b mod 4 * 2) \<and> \<not> bit w (unat b mod 4 * 2 + 1)"
proof -
  let ?k = "unat b mod 4 * 2"
  have k: "?k + 1 < 8" using mod_less_divisor [of 4 "unat b"] by linarith
  have "w AND bbt_bits b = 0 \<longleftrightarrow> (\<forall>n < 8. \<not> (bit w n \<and> n div 2 = unat b mod 4))"
  proof
    assume "w AND bbt_bits b = 0"
    then have "\<not> bit (w AND bbt_bits b) n" for n by simp
    then show "\<forall>n < 8. \<not> (bit w n \<and> n div 2 = unat b mod 4)" using bit_bbt_bits by (metis bit_and_iff)
  next
    assume "\<forall>n < 8. \<not> (bit w n \<and> n div 2 = unat b mod 4)"
    then show "w AND bbt_bits b = 0" by (intro bit_word_eqI) (simp add: bit_and_iff bit_bbt_bits)
  qed
  also have "\<dots> \<longleftrightarrow> \<not> bit w ?k \<and> \<not> bit w (?k + 1)"
  proof
    assume a: "\<forall>n < 8. \<not> (bit w n \<and> n div 2 = unat b mod 4)"
    have "?k div 2 = unat b mod 4" "(?k + 1) div 2 = unat b mod 4" by simp_all
    then show "\<not> bit w ?k \<and> \<not> bit w (?k + 1)" using a k by (metis add_lessD1)
  next
    assume "\<not> bit w ?k \<and> \<not> bit w (?k + 1)"
    moreover have "n div 2 = q \<Longrightarrow> n = q * 2 \<or> n = q * 2 + 1" for n q :: nat by presburger
    ultimately show "\<forall>n < 8. \<not> (bit w n \<and> n div 2 = unat b mod 4)" by blast
  qed
  finally show ?thesis .
qed

text \<open>Setting the state of one block changes the mark of that block only.\<close>

definition with_state :: "u8 list \<Rightarrow> u16 \<Rightarrow> bool \<Rightarrow> u8 list" where
  "with_state buf b t = (let i = unat b div 4
     in buf[i := (if t then buf ! i OR bbt_bits b else buf ! i AND NOT (bbt_bits b))])"

lemma length_with_state [simp]: "length (with_state buf b t) = length buf"
  by (simp add: with_state_def Let_def)

lemma marked_with_state [simp]: "marked (with_state buf b t) i = marked buf i"
  by (simp add: marked_def)

lemma bad_with_state:
  assumes "marked buf i" "unat b div 4 < length buf"
  shows "bad (with_state buf b t) i = (if i = uint b then t else bad buf i)"
proof -
  let ?i = "word_of_int i :: u16"
  have u: "unat ?i = nat i" "uint b = int (unat b)" "0 \<le> i" using assms(1) by (simp_all add: unat_block marked_def)
  show ?thesis
  proof (cases "nat i div 4 = unat b div 4")
    case False
    then have "i \<noteq> uint b" using u by auto
    then show ?thesis using False by (simp add: bad_def with_state_def Let_def)
  next
    case same: True
    have eq: "i = uint b \<longleftrightarrow> nat i mod 4 = unat b mod 4"
      using same u by (metis div_mult_mod_eq eq_nat_nat_iff int_nat_eq nat_int of_nat_0_le_iff)
    have k: "nat i mod 4 * 2 + 1 < 8" using mod_less_divisor [of 4 "nat i"] by linarith
    have d: "(nat i mod 4 * 2) div 2 = nat i mod 4" "(nat i mod 4 * 2 + 1) div 2 = nat i mod 4" by simp_all
    have "with_state buf b t ! (nat i div 4) =
        (if t then buf ! (nat i div 4) OR bbt_bits b else buf ! (nat i div 4) AND NOT (bbt_bits b))"
      using same assms(2) by (simp add: with_state_def Let_def)
    then show ?thesis
      unfolding bad_def eq using k d
      by (auto simp: bbt_bits_and_eq_0 u(1) bit_or_iff bit_and_iff bit_not_iff bit_bbt_bits)
  qed
qed

section \<open>The two loops\<close>

lemma skip_bad_found:
  assumes "\<forall>i \<in> set is. marked (bbt_buf s) i" "0 \<le> ofs"
    "nat ofs < length (filter (\<lambda>i. \<not> bad (bbt_buf s) i) is)"
  shows "\<exists>m. skip_bad is ofs n s = (Inr (Some (filter (\<lambda>i. \<not> bad (bbt_buf s) i) is ! nat ofs), 0, m), s)"
  using assms
proof (induction "is" arbitrary: ofs n)
  case (Cons i "is")
  then have run: "bbt_block_is_bad (word_of_int i) s = (Inr (bad (bbt_buf s) i), s)" by (simp add: bad_run)
  show ?case
  proof (cases "bad (bbt_buf s) i \<or> ofs = 0")
    case True
    then show ?thesis using Cons.IH [of ofs "Suc n"] Cons.prems by (cases "bad (bbt_buf s) i") (auto simp: bindE_def run retE_def)
  next
    case False
    then have "nat ofs = Suc (nat (ofs - 1))" using Cons.prems(2) by auto
    then show ?thesis using Cons.IH [of "ofs - 1" n] Cons.prems False by (auto simp: bindE_def run)
  qed
qed simp

lemma skip_bad_none:
  assumes "\<forall>i \<in> set is. marked (bbt_buf s) i" "int (length (filter (\<lambda>i. \<not> bad (bbt_buf s) i) is)) \<le> ofs"
  shows "skip_bad is ofs n s = (Inr (None, ofs - int (length (filter (\<lambda>i. \<not> bad (bbt_buf s) i) is)),
    n + length (filter (bad (bbt_buf s)) is)), s)"
  using assms
proof (induction "is" arbitrary: ofs n)
  case (Cons i "is")
  then have run: "bbt_block_is_bad (word_of_int i) s = (Inr (bad (bbt_buf s) i), s)" by (simp add: bad_run)
  show ?case using Cons by (auto simp: bindE_def run)
qed (simp add: retE_def)

lemma use_bad_run:
  assumes "\<forall>i \<in> set is. marked (bbt_buf s) i" "0 \<le> ofs" "ofs < int (length (filter (bad (bbt_buf s)) is))"
  shows "use_bad (rev is) ofs (length (filter (bad (bbt_buf s)) is)) s =
    (Inr (Some (filter (bad (bbt_buf s)) is ! nat ofs)), s)"
  using assms
proof (induction "is" rule: rev_induct)
  case (snoc i "is")
  then have run: "bbt_block_is_bad (word_of_int i) s = (Inr (bad (bbt_buf s) i), s)" by (simp add: bad_run)
  show ?case
  proof (cases "bad (bbt_buf s) i")
    case True
    then show ?thesis
      using snoc by (auto simp: bindE_def run retE_def nth_append not_le nat_less_iff)
  next
    case False
    then have "filter (bad (bbt_buf s)) is \<noteq> []" using snoc.prems by auto
    then show ?thesis using snoc False by (simp add: bindE_def run)
  qed
qed simp

section \<open>The mapping\<close>

definition good_blocks :: "u8 list \<Rightarrow> int \<Rightarrow> int \<Rightarrow> int list" where
  "good_blocks buf start stop = filter (\<lambda>i. \<not> bad buf i) [start..stop - 1]"

definition bbt_order :: "u8 list \<Rightarrow> int \<Rightarrow> int \<Rightarrow> int list" where
  "bbt_order buf start stop = good_blocks buf start stop @ filter (bad buf) [start..stop - 1]"

lemma bbt_order_props:
  "distinct (bbt_order buf start stop)" "set (bbt_order buf start stop) = {start..<stop}"
  "length (bbt_order buf start stop) = nat (stop - start)"
proof -
  show "distinct (bbt_order buf start stop)" by (auto simp: bbt_order_def good_blocks_def)
  show "set (bbt_order buf start stop) = {start..<stop}" by (auto simp: bbt_order_def good_blocks_def)
  show "length (bbt_order buf start stop) = nat (stop - start)"
    using sum_length_filter_compl [of "bad buf" "[start..stop - 1]"] by (simp add: bbt_order_def good_blocks_def)
qed

definition bbt_map :: "u8 list \<Rightarrow> int \<Rightarrow> int \<Rightarrow> int \<Rightarrow> int" where
  "bbt_map buf start stop b = bbt_order buf start stop ! nat (b - start)"

lemma bbt_map_bij: "bij_betw (bbt_map buf start stop) {start..<stop} {start..<stop}"
proof -
  let ?l = "bbt_order buf start stop"
  have "bij_betw (\<lambda>b. nat (b - start)) {start..<stop} {..<nat (stop - start)}"
    by (rule bij_betw_byWitness [where f' = "\<lambda>k. int k + start"]) auto
  moreover have "bij_betw ((!) ?l) {..<length ?l} (set ?l)"
    by (rule bij_betw_nth) (simp_all add: bbt_order_props)
  ultimately have "bij_betw ((!) ?l \<circ> (\<lambda>b. nat (b - start))) {start..<stop} {start..<stop}"
    using bij_betw_trans by (metis bbt_order_props(2,3))
  then show ?thesis by (simp add: bbt_map_def [abs_def] comp_def)
qed

lemma bbt_map_good:
  assumes "start \<le> b" "b < stop"
  shows "bad buf (bbt_map buf start stop b) \<longleftrightarrow> int (length (good_blocks buf start stop)) \<le> b - start"
proof -
  let ?g = "good_blocks buf start stop" and ?b = "filter (bad buf) [start..stop - 1]"
  have len: "length ?g + length ?b = nat (stop - start)"
    using bbt_order_props(3) [of buf start stop] by (simp add: bbt_order_def)
  show ?thesis
  proof (cases "nat (b - start) < length ?g")
    case True
    then have "?g ! nat (b - start) \<in> set ?g" by (rule nth_mem)
    then have "\<not> bad buf (?g ! nat (b - start))" by (simp add: good_blocks_def)
    then have "\<not> bad buf (bbt_map buf start stop b)" using True by (simp add: bbt_map_def bbt_order_def nth_append)
    then show ?thesis using True assms by auto
  next
    case False
    then have "nat (b - start) - length ?g < length ?b" using len assms by linarith
    then have "?b ! (nat (b - start) - length ?g) \<in> set ?b" by (rule nth_mem)
    then have "bad buf (bbt_map buf start stop b)" using False by (simp add: bbt_map_def bbt_order_def nth_append)
    then show ?thesis using False assms by auto
  qed
qed

text \<open>The range of a block, in blocks.\<close>

definition in_range :: "'h bmt_desc \<Rightarrow> int \<Rightarrow> int \<Rightarrow> int \<Rightarrow> bool" where
  "in_range s start stop b \<longleftrightarrow> start \<le> b \<and> b < stop
    \<and> (\<exists>lo hi. mapping_block_in_range b s = Some (lo, hi) \<and> start = drop_bit (blk_shift s) lo \<and> stop = drop_bit (blk_shift s) hi)"

definition range_marked :: "u8 list \<Rightarrow> int \<Rightarrow> int \<Rightarrow> bool" where
  "range_marked buf start stop \<longleftrightarrow> 0 \<le> start \<and> stop \<le> 65536 \<and> stop \<le> 4 * int (length buf)"

lemma range_markedD: "range_marked buf start stop \<Longrightarrow> start \<le> i \<Longrightarrow> i < stop \<Longrightarrow> marked buf i"
  by (simp add: range_marked_def marked_def)

lemma get_mapping_run:
  assumes r: "in_range s start stop b" and m: "range_marked (bbt_buf s) start stop"
  shows "get_mapping_block_index_bbt b s = (Inr (bbt_map (bbt_buf s) start stop b), s)"
proof -
  let ?g = "good_blocks (bbt_buf s) start stop" and ?b = "filter (bad (bbt_buf s)) [start..stop - 1]"
  obtain lo hi where lo: "mapping_block_in_range b s = Some (lo, hi)" "drop_bit (blk_shift s) lo = start"
    "drop_bit (blk_shift s) hi = stop" and b: "start \<le> b" "b < stop"
    using r by (auto simp: in_range_def)
  have all: "\<forall>i \<in> set [start..stop - 1]. marked (bbt_buf s) i" using m range_markedD by auto
  show ?thesis
  proof (cases "nat (b - start) < length ?g")
    case True
    then obtain k where "skip_bad [start..stop - 1] (b - start) 0 s = (Inr (Some (?g ! nat (b - start)), 0, k), s)"
      using skip_bad_found [OF all, of "b - start" 0] b by (auto simp: good_blocks_def)
    then show ?thesis
      using True by (simp add: get_mapping_block_index_bbt_def lo bindE_def bbt_map_def bbt_order_def nth_append retE_def)
  next
    case False
    have len: "length ?g + length ?b = nat (stop - start)"
      using bbt_order_props(3) [of "bbt_buf s" start stop] by (simp add: bbt_order_def)
    let ?o = "b - start - int (length ?g)"
    have o: "0 \<le> ?o" "?o < int (length ?b)" using False len b by linarith+
    have "skip_bad [start..stop - 1] (b - start) 0 s = (Inr (None, ?o, length ?b), s)"
      using skip_bad_none [OF all, of "b - start" 0] False b by (simp add: good_blocks_def)
    moreover have "use_bad (rev [start..stop - 1]) ?o (length ?b) s = (Inr (Some (?b ! nat ?o)), s)"
      by (rule use_bad_run [OF all o])
    moreover have "nat ?o = nat (b - start) - length ?g" using False b by linarith
    ultimately show ?thesis
      using False by (simp add: get_mapping_block_index_bbt_def lo bindE_def bbt_map_def bbt_order_def nth_append retE_def)
  qed
qed

end
