(* ===== verification/Bmt_Client.thy ===== *)
theory Bmt_Client
  imports Mtk_Bmt
begin

text \<open>
  What \<open>mtk_bmt.c\<close> relies on in a table, as an interface: a mapping of logical to physical blocks that
  is injective and that remapping may change but keeps valid. Inside the interface: reading and
  writing on a chip that works go through the mapping, and on a chip that fails arbitrarily the
  functions still return.
\<close>

section \<open>Chips\<close>

text \<open>A chip that holds bytes: programming needs erased bytes, erasing sets all bytes of a block.\<close>

definition nand_bytes :: "'h nand_ops \<Rightarrow> ('h \<Rightarrow> nat \<Rightarrow> u8) \<Rightarrow> bool" where
  "nand_bytes N content \<longleftrightarrow>
     (\<forall>addr n h. nand_read_oob N addr n 0 0 h = (\<lparr>nr_ret = 0, nr_data = map (content h) [addr..<addr + n], nr_oob = []\<rparr>, h))
     \<and> (\<forall>addr n h. \<exists>h'. nand_erase N addr n h = (0, h')
          \<and> content h' = (\<lambda>a. if addr \<le> a \<and> a < addr + n then 0xFF else content h a))
     \<and> (\<forall>addr d h. (\<forall>a. addr \<le> a \<and> a < addr + length d \<longrightarrow> content h a = 0xFF) \<longrightarrow>
          (\<exists>h'. nand_write_oob N addr d 0 [] h = ((0, length d, 0), h')
             \<and> content h' = (\<lambda>a. if addr \<le> a \<and> a < addr + length d then d ! (a - addr) else content h a)))"

text \<open>A chip whose accesses may fail in any way, but that transfers everything when it reports success.\<close>

definition nand_complete :: "'h nand_ops \<Rightarrow> bool" where
  "nand_complete N \<longleftrightarrow>
     (\<forall>addr n ofs k h x h'. nand_read_oob N addr n ofs k h = (x, h') \<and> (nr_ret x \<ge> 0 \<or> mtd_is_bitflip (nr_ret x)) \<longrightarrow>
        length (nr_data x) = n)
     \<and> (\<forall>addr d ofs oob h ret k l h'. nand_write_oob N addr d ofs oob h = ((ret, k, l), h') \<and> ret \<ge> 0 \<longrightarrow> k = length d)"

lemma on_nand_any: "\<exists>x h. on_nand g s = (Inr x, s\<lparr>bmt_hw := h\<rparr>) \<and> g (bmt_hw s) = (x, h)"
  by (cases "g (bmt_hw s)") (simp add: on_nand_def)

section \<open>Addresses\<close>

lemma nat_and_mask: "(n :: nat) AND (2 ^ k - Suc 0) = n mod 2 ^ k"
  using take_bit_eq_mask [of k n] by (simp add: mask_eq_exp_minus_1 take_bit_eq_mod)

text \<open>The physical address of a logical one, for blocks of \<open>2 ^ k\<close> bytes mapped by \<open>f\<close>.\<close>

definition translate :: "nat \<Rightarrow> (int \<Rightarrow> int) \<Rightarrow> nat \<Rightarrow> nat" where
  "translate k f a = nat (f (int (a div 2 ^ k))) * 2 ^ k + a mod 2 ^ k"

lemma translate_inj:
  assumes "inj_on f D" "int (a div 2 ^ k) \<in> D" "int (b div 2 ^ k) \<in> D" "\<forall>x \<in> D. 0 \<le> f x"
    "translate k f a = translate k f b"
  shows "a = b"
proof -
  have r: "a mod 2 ^ k < 2 ^ k" "b mod 2 ^ k < 2 ^ k" by simp_all
  have "translate k f a div 2 ^ k = nat (f (int (a div 2 ^ k)))" "translate k f a mod 2 ^ k = a mod 2 ^ k"
    "translate k f b div 2 ^ k = nat (f (int (b div 2 ^ k)))" "translate k f b mod 2 ^ k = b mod 2 ^ k"
    using r by (simp_all add: translate_def)
  then have "nat (f (int (a div 2 ^ k))) = nat (f (int (b div 2 ^ k)))" and m: "a mod 2 ^ k = b mod 2 ^ k"
    using assms(5) by simp_all
  then have "f (int (a div 2 ^ k)) = f (int (b div 2 ^ k))" using assms(2-4) eq_nat_nat_iff by blast
  then have "int (a div 2 ^ k) = int (b div 2 ^ k)" using assms(1-3) by (meson inj_onD)
  then show ?thesis using m by (metis div_mult_mod_eq of_nat_eq_iff)
qed

text \<open>Inside one block the translation only adds a constant.\<close>

lemma translate_add:
  assumes "a mod 2 ^ k + i < 2 ^ k"
  shows "translate k f (a + i) = translate k f a + i" "(a + i) div 2 ^ k = a div 2 ^ k"
proof -
  have "(a + i) div 2 ^ k = a div 2 ^ k + (a mod 2 ^ k + i) div 2 ^ k"
    by (metis div_mult_mod_eq add.assoc div_mult_self3 power_not_zero zero_neq_numeral)
  then show d: "(a + i) div 2 ^ k = a div 2 ^ k" using assms by simp
  have "(a + i) mod 2 ^ k = a mod 2 ^ k + i" using assms by (metis mod_add_left_eq mod_less)
  then show "translate k f (a + i) = translate k f a + i" by (simp add: translate_def d)
qed

section \<open>The interface\<close>

locale bmt_table =
  fixes Q :: "'h mtk_bmt_ops" and I :: "'h bmt_desc \<Rightarrow> bool" and D :: "int set" and f :: "'h bmt_desc \<Rightarrow> int \<Rightarrow> int"
    and sh :: nat
  assumes I_hw: "I (s\<lparr>bmt_hw := h\<rparr>) = I s"
    and f_hw: "f (s\<lparr>bmt_hw := h\<rparr>) = f s"
    and geometry: "I s \<Longrightarrow> blk_shift s = sh \<and> blk_size s = 2 ^ sh \<and> mtd_erasesize s = 2 ^ sh"
    and blocks: "I s \<Longrightarrow> b \<in> D \<Longrightarrow> 0 \<le> b \<and> b < 65536"
    and get: "I s \<Longrightarrow> b \<in> D \<Longrightarrow> bo_get_mapping_block Q b s = (Inr (f s b), s)"
    and nonneg: "I s \<Longrightarrow> b \<in> D \<Longrightarrow> 0 \<le> f s b"
    and inj: "I s \<Longrightarrow> inj_on (f s) D"
    and remap: "I s \<Longrightarrow> b \<in> D \<Longrightarrow> \<exists>ok s'. bo_remap_block Q (word_of_int b) (word_of_int (f s b)) n s = (Inr ok, s') \<and> I s'"
begin

text \<open>Addresses of mapped blocks.\<close>

definition mapped :: "nat \<Rightarrow> nat \<Rightarrow> bool" where
  "mapped pos n \<longleftrightarrow> (\<forall>a. pos \<le> a \<and> a < pos + n \<longrightarrow> int (a div 2 ^ sh) \<in> D)"

lemma mapped_head: "mapped pos n \<Longrightarrow> 0 < n \<Longrightarrow> int (pos div 2 ^ sh) \<in> D"
  by (simp add: mapped_def)

lemma mapped_tail: "mapped pos n \<Longrightarrow> k \<le> n \<Longrightarrow> mapped (pos + k) (n - k)"
  by (simp add: mapped_def)

lemma remap_any:
  assumes "I s" "b \<in> D"
  shows "\<exists>ok s'. mtk_bmt_remap_block Q b (f s b) n s = (Inr ok, s') \<and> I s'"
  using remap [OF assms] assms(1) by (auto simp: mtk_bmt_remap_block_def split: option.split)

text \<open>The part of a request that fits the current block.\<close>

definition chunk :: "nat \<Rightarrow> nat \<Rightarrow> nat" where
  "chunk pos n = min (2 ^ sh - pos mod 2 ^ sh) n"

lemma chunk_pos: "0 < n \<Longrightarrow> 0 < chunk pos n \<and> chunk pos n \<le> n \<and> pos mod 2 ^ sh + chunk pos n \<le> 2 ^ sh"
proof -
  assume "0 < n"
  moreover have "pos mod 2 ^ sh < 2 ^ sh" by simp
  ultimately show ?thesis unfolding chunk_def by linarith
qed

lemma chunk_translate:
  assumes "0 < n" "i < chunk pos n"
  shows "translate sh g (pos + i) = translate sh g pos + i" "(pos + i) div 2 ^ sh = pos div 2 ^ sh"
  using translate_add(1) [of pos sh i g] translate_add(2) [of pos sh i] chunk_pos [OF assms(1), of pos] assms(2) by simp_all

section \<open>Reading\<close>

lemma read_step_bytes:
  assumes I: "I s" and c: "nand_bytes N content" and m: "mapped (xf_pos r) n" and n: "0 < n" "n = len - length (xf_data r)"
    and r: "xf_ooblen r = 0" "xf_ooboffs r = 0"
  shows "bmt_read_step N Q len r s =
    (Inr (r\<lparr>xf_flips := max (xf_flips r) 0,
       xf_data := xf_data r @ map (\<lambda>i. content (bmt_hw s) (translate sh (f s) (xf_pos r + i))) [0..<chunk (xf_pos r) n],
       xf_ooboffs := 0, xf_ooblen := 0, xf_pos := xf_pos r + chunk (xf_pos r) n, xf_retry := 0\<rparr>, True), s)"
proof -
  let ?p = "xf_pos r" and ?c = "chunk (xf_pos r) n"
  have b: "int (?p div 2 ^ sh) \<in> D" using mapped_head m n(1) by blast
  have g: "blk_shift s = sh" "blk_size s = 2 ^ sh" "mtd_erasesize s = 2 ^ sh" using geometry I by auto
  have cc: "min (2 ^ sh - ?p mod 2 ^ sh) (len - length (xf_data r)) = ?c" using n(2) by (simp add: chunk_def)
  have addr: "blk_addr (nat (f s (int (?p div 2 ^ sh)))) s + ?p mod 2 ^ sh = translate sh (f s) ?p"
    by (simp add: blk_addr_def g translate_def push_bit_eq_mult)
  have data: "map (content (bmt_hw s)) [translate sh (f s) ?p..<translate sh (f s) ?p + ?c] =
      map (\<lambda>i. content (bmt_hw s) (translate sh (f s) (?p + i))) [0..<?c]"
    by (rule nth_equalityI) (use n(1) chunk_translate in auto)
  have rd: "nand_read_oob N addr k 0 0 h = (\<lparr>nr_ret = 0, nr_data = map (content h) [addr..<addr + k], nr_oob = []\<rparr>, h)" for addr k h
    using c by (simp add: nand_bytes_def)
  have thr: "\<not> over_threshold 0 s" by (auto simp: over_threshold_def)
  have pos: "?c \<noteq> 0" using chunk_pos [OF n(1), of ?p] by simp
  have nn: "\<not> f s (int (?p div 2 ^ sh)) < 0" using nonneg [OF I b] by simp
  show ?thesis
    using pos nn
    by (simp add: bmt_read_step_def g nat_and_mask drop_bit_eq_div get [OF I b] bindE_def Let_def cc addr on_nand_def rd r
        retE_def thr data mtd_is_bitflip_def)
qed

lemma read_loop_bytes:
  assumes "I s" "nand_bytes N content" "mapped (xf_pos r) n" "len = length (xf_data r) + n"
    "xf_ooblen r = 0" "xf_ooboffs r = 0"
  shows "\<exists>r'. bmt_read_loop N Q len 0 r s = Some (Inr r', s) \<and> xf_ret r' = xf_ret r \<and> xf_oob r' = xf_oob r
    \<and> xf_flips r' = (if n = 0 then xf_flips r else max (xf_flips r) 0)
    \<and> xf_data r' = xf_data r @ map (\<lambda>i. content (bmt_hw s) (translate sh (f s) (xf_pos r + i))) [0..<n]"
  using assms
proof (induction n arbitrary: r rule: less_induct)
  case (less n)
  show ?case
  proof (cases "n = 0")
    case True
    then show ?thesis using less.prems by (simp add: bmt_read_loop.simps)
  next
    case False
    let ?c = "chunk (xf_pos r) n" and ?t = "\<lambda>i. content (bmt_hw s) (translate sh (f s) (xf_pos r + i))"
    let ?r = "r\<lparr>xf_flips := max (xf_flips r) 0, xf_data := xf_data r @ map ?t [0..<?c],
       xf_ooboffs := 0, xf_ooblen := 0, xf_pos := xf_pos r + ?c, xf_retry := 0\<rparr>"
    have c: "0 < ?c" "?c \<le> n" using chunk_pos False by auto
    have step: "bmt_read_step N Q len r s = (Inr (?r, True), s)"
      by (rule read_step_bytes) (use less.prems False in simp_all)
    obtain r' where r': "bmt_read_loop N Q len 0 ?r s = Some (Inr r', s)" "xf_ret r' = xf_ret r" "xf_oob r' = xf_oob r"
      "xf_flips r' = max (xf_flips r) 0"
      "xf_data r' = (xf_data r @ map ?t [0..<?c]) @ map (\<lambda>i. content (bmt_hw s) (translate sh (f s) (xf_pos r + ?c + i))) [0..<n - ?c]"
      using less.IH [of "n - ?c" ?r] less.prems c mapped_tail [OF less.prems(3) c(2)] by (auto split: if_splits)
    have "map ?t [0..<?c] @ map (\<lambda>i. content (bmt_hw s) (translate sh (f s) (xf_pos r + ?c + i))) [0..<n - ?c] = map ?t [0..<n]"
      using c by (intro nth_equalityI) (auto simp: nth_append)
    then show ?thesis
      using r' step False less.prems(4) by (subst bmt_read_loop.simps) simp
  qed
qed

lemma read_bytes_run:
  assumes "I s" "nand_bytes N content" "mapped from len"
  shows "mtk_bmt_read N Q from len 0 0 s =
    Some (Inr (0, map (\<lambda>i. content (bmt_hw s) (translate sh (f s) (from + i))) [0..<len], []), s)"
  using read_loop_bytes [OF assms(1,2), of "start_xfer from 0 0" len len] assms(3)
  by (auto simp: mtk_bmt_read_def start_xfer_def)

section \<open>A chip that fails\<close>

text \<open>
  A step that lets the loop go on has transferred the part of the block or used up a retry.
\<close>

definition progress :: "nat \<Rightarrow> bmt_xfer \<Rightarrow> bmt_xfer \<Rightarrow> bool" where
  "progress c r r' \<longleftrightarrow> (xf_ooblen r = 0 \<longrightarrow> xf_ooblen r' = 0)
    \<and> (xf_pos r' = xf_pos r + c \<and> length (xf_data r') = length (xf_data r) + c
      \<or> xf_pos r' = xf_pos r \<and> xf_data r' = xf_data r \<and> xf_retry r' = xf_retry r + 1 \<and> xf_retry r < 10)"

lemma bmt_retry_any:
  assumes "I s" "b \<in> D"
  shows "\<exists>r' go s'. bmt_retry Q b (f s b) n r s = (Inr (r', go), s') \<and> I s' \<and> (go \<longrightarrow> progress c r r')"
  using remap_any [OF assms, of n] by (auto simp: bmt_retry_def bindE_def retE_def progress_def)

lemma progress_cong:
  "xf_pos r0 = xf_pos r \<Longrightarrow> xf_data r0 = xf_data r \<Longrightarrow> xf_ooblen r0 = xf_ooblen r \<Longrightarrow> xf_retry r0 = xf_retry r \<Longrightarrow>
    progress c r0 r' \<Longrightarrow> progress c r r'"
  by (simp add: progress_def)

lemma read_step_any:
  assumes I: "I s" and N: "nand_complete N" and m: "mapped (xf_pos r) n" and n: "0 < n" "n = len - length (xf_data r)"
    and r: "xf_ooblen r = 0"
  shows "\<exists>r' go s'. bmt_read_step N Q len r s = (Inr (r', go), s') \<and> I s'
    \<and> (go \<longrightarrow> progress (chunk (xf_pos r) n) r r')"
proof -
  let ?p = "xf_pos r" and ?c = "chunk (xf_pos r) n" and ?b = "int (xf_pos r div 2 ^ sh)"
  have b: "?b \<in> D" using mapped_head m n(1) by blast
  have g: "blk_shift s = sh" "blk_size s = 2 ^ sh" "mtd_erasesize s = 2 ^ sh" using geometry I by auto
  have cc: "min (2 ^ sh - ?p mod 2 ^ sh) (len - length (xf_data r)) = ?c" using n(2) by (simp add: chunk_def)
  have pos: "?c \<noteq> 0" using chunk_pos [OF n(1), of ?p] by simp
  have nn: "\<not> f s ?b < 0" using nonneg [OF I b] by simp
  let ?addr = "blk_addr (nat (f s ?b)) s + ?p mod 2 ^ sh"
  obtain x h where x: "on_nand (nand_read_oob N ?addr ?c (xf_ooboffs r) 0) s = (Inr x, s\<lparr>bmt_hw := h\<rparr>)"
    "nand_read_oob N ?addr ?c (xf_ooboffs r) 0 (bmt_hw s) = (x, h)"
    using on_nand_any by metis
  have I': "I (s\<lparr>bmt_hw := h\<rparr>)" using I by (simp add: I_hw)
  let ?r = "if nr_ret x < 0 then r\<lparr>xf_ret := nr_ret x\<rparr> else r\<lparr>xf_flips := max (xf_flips r) (nr_ret x)\<rparr>"
  note step = bmt_read_step_def g nat_and_mask drop_bit_eq_div get [OF I b] bindE_def Let_def cc r
  show ?thesis
  proof (cases "nr_ret x < 0 \<and> \<not> mtd_is_bitflip (nr_ret x)")
    case True
    obtain r' go s' where "bmt_retry Q ?b (f s ?b) (int (2 ^ sh)) ?r (s\<lparr>bmt_hw := h\<rparr>) = (Inr (r', go), s')" "I s'"
      "go \<longrightarrow> progress ?c ?r r'"
      using bmt_retry_any [OF I' b, of "int (2 ^ sh)" ?r ?c] unfolding f_hw by metis
    moreover have "progress ?c ?r r' \<Longrightarrow> progress ?c r r'" for r'
      by (rule progress_cong [of ?r]) simp_all
    ultimately show ?thesis
      using True nn x by (auto simp: step)
  next
    case False
    then have len: "length (nr_data x) = ?c" using N x(2) unfolding nand_complete_def by (metis linorder_not_le)
    have "\<exists>ok s'. (if over_threshold (nr_ret x) (s\<lparr>bmt_hw := h\<rparr>)
        then mtk_bmt_remap_block Q ?b (f s ?b) (int (2 ^ sh)) (s\<lparr>bmt_hw := h\<rparr>) else (Inr False, s\<lparr>bmt_hw := h\<rparr>)) = (Inr ok, s') \<and> I s'"
      using remap_any [OF I' b, of "int (2 ^ sh)"] I' unfolding f_hw by (cases "over_threshold (nr_ret x) (s\<lparr>bmt_hw := h\<rparr>)") auto
    then obtain ok s' where "(if over_threshold (nr_ret x) (s\<lparr>bmt_hw := h\<rparr>)
        then mtk_bmt_remap_block Q ?b (f s ?b) (int (2 ^ sh)) (s\<lparr>bmt_hw := h\<rparr>) else (Inr False, s\<lparr>bmt_hw := h\<rparr>)) = (Inr ok, s')" "I s'"
      by blast
    then show ?thesis
      using False nn x pos len by (auto simp: step retE_def progress_def)
  qed
qed

text \<open>The two loops return because every step makes progress.\<close>

lemma xfer_loop_any:
  assumes loop: "\<And>r s. L r s = (if length (xf_data r) < len
       then (case step r s of (Inl e, s) \<Rightarrow> Some (Inl e, s)
             | (Inr (r, go), s) \<Rightarrow> if go then L r s else Some (Inr r, s))
       else Some (Inr (fin r), s))"
    and step: "\<And>r s n. I s \<Longrightarrow> mapped (xf_pos r) n \<Longrightarrow> 0 < n \<Longrightarrow> n = len - length (xf_data r) \<Longrightarrow> xf_ooblen r = 0 \<Longrightarrow>
       \<exists>r' go s'. step r s = (Inr (r', go), s') \<and> I s' \<and> (go \<longrightarrow> progress (chunk (xf_pos r) n) r r')"
    and start: "I s" "mapped (xf_pos r) n" "n = len - length (xf_data r)" "xf_ooblen r = 0"
  shows "\<exists>r' s'. L r s = Some (Inr r', s') \<and> I s'"
  using start
proof (induction "n * 11 + (10 - xf_retry r)" arbitrary: n r s rule: less_induct)
  case less
  show ?case
  proof (cases "n = 0")
    case True
    then show ?thesis using less.prems by (simp add: loop)
  next
    case False
    let ?c = "chunk (xf_pos r) n"
    have c: "0 < ?c" "?c \<le> n" using chunk_pos False by auto
    obtain r1 go s1 where st: "step r s = (Inr (r1, go), s1)" "I s1" "go \<longrightarrow> progress ?c r r1"
      using step [of s r n] less.prems False by auto
    have "\<exists>r' s'. L r1 s1 = Some (Inr r', s') \<and> I s'" if go
    proof -
      have pr: "progress ?c r r1" "xf_ooblen r1 = 0" using st(3) that less.prems(4) by (auto simp: progress_def)
      from pr(1) consider "xf_pos r1 = xf_pos r + ?c" "length (xf_data r1) = length (xf_data r) + ?c"
        | "xf_pos r1 = xf_pos r" "xf_data r1 = xf_data r" "xf_retry r1 = xf_retry r + 1" "xf_retry r < 10"
        by (auto simp: progress_def)
      then show ?thesis
      proof cases
        case 1
        have "mapped (xf_pos r1) (n - ?c)" using mapped_tail [OF less.prems(2) c(2)] 1(1) by simp
        moreover have "(n - ?c) * 11 + (10 - xf_retry r1) < n * 11 + (10 - xf_retry r)" using c by (auto simp: algebra_simps)
        ultimately show ?thesis using less.hyps [of "n - ?c" r1 s1] less.prems st(2) 1 pr(2) by simp
      next
        case 2
        then have "n * 11 + (10 - xf_retry r1) < n * 11 + (10 - xf_retry r)" by simp
        then show ?thesis using less.hyps [of n r1 s1] less.prems st(2) 2 pr(2) by simp
      qed
    qed
    then show ?thesis
      using st False less.prems(3) by (subst loop) auto
  qed
qed

lemma read_returns:
  assumes "I s" "nand_complete N" "mapped from len"
  shows "\<exists>x s'. mtk_bmt_read N Q from len 0 0 s = Some (Inr x, s') \<and> I s'"
proof -
  have "\<exists>r' s'. bmt_read_loop N Q len 0 (start_xfer from 0 0) s = Some (Inr r', s') \<and> I s'"
    by (rule xfer_loop_any [where step = "bmt_read_step N Q len" and fin = id and n = len and len = len])
      (use assms read_step_any in \<open>auto simp: bmt_read_loop.simps [of N Q len 0] start_xfer_def\<close>)
  then show ?thesis by (auto simp: mtk_bmt_read_def)
qed

lemma write_step_any:
  assumes I: "I s" and N: "nand_complete N" and m: "mapped (xf_pos r) n" and n: "0 < n" "n = length dat - length (xf_data r)"
  shows "\<exists>r' go s'. bmt_write_step N Q dat oob r s = (Inr (r', go), s') \<and> I s'
    \<and> (go \<longrightarrow> progress (chunk (xf_pos r) n) r r')"
proof -
  let ?p = "xf_pos r" and ?c = "chunk (xf_pos r) n" and ?b = "int (xf_pos r div 2 ^ sh)"
  let ?d = "take ?c (drop (length (xf_data r)) dat)"
  have b: "?b \<in> D" using mapped_head m n(1) by blast
  have g: "blk_shift s = sh" "blk_size s = 2 ^ sh" "mtd_erasesize s = 2 ^ sh" using geometry I by auto
  have cc: "min (2 ^ sh - ?p mod 2 ^ sh) (length dat - length (xf_data r)) = ?c" using n(2) by (simp add: chunk_def)
  have pos: "?c \<noteq> 0" "length ?d = ?c" using chunk_pos [OF n(1), of ?p] n(2) by simp_all
  have nn: "\<not> f s ?b < 0" using nonneg [OF I b] by simp
  let ?addr = "blk_addr (nat (f s ?b)) s + ?p mod 2 ^ sh" and ?oob = "drop (length (xf_oob r)) oob"
  obtain ret k l h where x: "on_nand (nand_write_oob N ?addr ?d (xf_ooboffs r) ?oob) s = (Inr (ret, k, l), s\<lparr>bmt_hw := h\<rparr>)"
    "nand_write_oob N ?addr ?d (xf_ooboffs r) ?oob (bmt_hw s) = ((ret, k, l), h)"
    using on_nand_any [of "nand_write_oob N ?addr ?d (xf_ooboffs r) ?oob" s] by auto
  have I': "I (s\<lparr>bmt_hw := h\<rparr>)" using I by (simp add: I_hw)
  note step = bmt_write_step_def g nat_and_mask drop_bit_eq_div get [OF I b] bindE_def Let_def cc
  show ?thesis
  proof (cases "ret < 0")
    case True
    let ?r = "r\<lparr>xf_ret := ret\<rparr>"
    obtain r' go s' where "bmt_retry Q ?b (f s ?b) (int (?p mod 2 ^ sh)) ?r (s\<lparr>bmt_hw := h\<rparr>) = (Inr (r', go), s')" "I s'"
      "go \<longrightarrow> progress ?c ?r r'"
      using bmt_retry_any [OF I' b, of "int (?p mod 2 ^ sh)" ?r ?c] unfolding f_hw by metis
    moreover have "progress ?c ?r r' \<Longrightarrow> progress ?c r r'" for r'
      by (rule progress_cong [of ?r]) simp_all
    ultimately show ?thesis using True nn x(1) by (auto simp: step)
  next
    case False
    then have "k = ?c" using N x(2) pos(2) unfolding nand_complete_def by (metis linorder_not_le)
    then show ?thesis
      using False nn x(1) pos I' by (auto simp: step progress_def)
  qed
qed

lemma write_returns:
  assumes "I s" "nand_complete N" "mapped to (length dat)"
  shows "\<exists>x s'. mtk_bmt_write N Q to dat 0 [] s = Some (Inr x, s') \<and> I s'"
proof -
  have "\<exists>r' s'. bmt_write_loop N Q dat [] (start_xfer to 0 0) s = Some (Inr r', s') \<and> I s'"
    by (rule xfer_loop_any [where step = "bmt_write_step N Q dat []" and fin = "\<lambda>r. r\<lparr>xf_ret := 0\<rparr>" and n = "length dat" and len = "length dat"])
      (use assms write_step_any in \<open>auto simp: bmt_write_loop.simps [of N Q dat "[]"] start_xfer_def\<close>)
  then show ?thesis by (auto simp: mtk_bmt_write_def)
qed

section \<open>Writing and erasing\<close>

text \<open>
  The contents after the bytes \<open>d\<close> have been put at the logical address \<open>pos\<close>; nothing else changes.
\<close>

definition stored :: "(nat \<Rightarrow> nat) \<Rightarrow> nat \<Rightarrow> nat \<Rightarrow> (nat \<Rightarrow> u8) \<Rightarrow> (nat \<Rightarrow> u8) \<Rightarrow> (nat \<Rightarrow> u8) \<Rightarrow> bool" where
  "stored tr pos n d c c' \<longleftrightarrow> (\<forall>i < n. c' (tr (pos + i)) = d i)
    \<and> (\<forall>p. (\<forall>i < n. p \<noteq> tr (pos + i)) \<longrightarrow> c' p = c p)"

lemma stored_append:
  assumes 1: "stored tr pos m d c0 c1" and 2: "stored tr (pos + m) k (\<lambda>i. d (m + i)) c1 c2"
    and inj: "\<And>i j. i < m + k \<Longrightarrow> j < m + k \<Longrightarrow> tr (pos + i) = tr (pos + j) \<Longrightarrow> i = j"
  shows "stored tr pos (m + k) d c0 c2"
  unfolding stored_def
proof (intro conjI allI impI)
  fix i assume i: "i < m + k"
  show "c2 (tr (pos + i)) = d i"
  proof (cases "i < m")
    case True
    have "tr (pos + i) \<noteq> tr (pos + m + j)" if "j < k" for j
      using inj [of i "m + j"] i True that by (auto simp: add.assoc)
    then have "c2 (tr (pos + i)) = c1 (tr (pos + i))" using 2 by (simp add: stored_def)
    then show ?thesis using 1 True by (simp add: stored_def)
  next
    case False
    then have "i - m < k" using i by linarith
    moreover have "pos + m + (i - m) = pos + i" "m + (i - m) = i" using False by simp_all
    ultimately show ?thesis using 2 unfolding stored_def by metis
  qed
next
  fix p assume p: "\<forall>i < m + k. p \<noteq> tr (pos + i)"
  have "\<forall>i < k. p \<noteq> tr (pos + m + i)" using p by (auto simp: add.assoc)
  then have "c2 p = c1 p" using 2 by (simp add: stored_def)
  also have "\<dots> = c0 p" using 1 p by (simp add: stored_def)
  finally show "c2 p = c0 p" .
qed

lemma tr_inj:
  assumes "I s" "mapped pos n" "i < n" "j < n" "translate sh (f s) (pos + i) = translate sh (f s) (pos + j)"
  shows "i = j"
  using translate_inj [OF inj [OF assms(1)], of "pos + i" sh "pos + j"] assms nonneg [OF assms(1)] by (simp add: mapped_def)

text \<open>The bytes of one block are next to each other.\<close>

lemma stored_chunk:
  assumes "0 < n" "c' = (\<lambda>a. if translate sh g pos \<le> a \<and> a < translate sh g pos + chunk pos n then d (a - translate sh g pos) else c a)"
  shows "stored (translate sh g) pos (chunk pos n) d c c'"
  unfolding stored_def
proof (intro conjI allI impI)
  fix i assume "i < chunk pos n"
  then show "c' (translate sh g (pos + i)) = d i" using chunk_translate(1) [OF assms(1)] assms(2) by simp
next
  fix p assume p: "\<forall>i < chunk pos n. p \<noteq> translate sh g (pos + i)"
  have "p \<noteq> translate sh g pos + i" if "i < chunk pos n" for i
    using p that chunk_translate(1) [OF assms(1) that, of g] by metis
  then have "\<not> (translate sh g pos \<le> p \<and> p < translate sh g pos + chunk pos n)"
    by (metis add_less_cancel_left le_iff_add)
  then show "c' p = c p" using assms(2) by auto
qed

definition erased :: "(nat \<Rightarrow> nat) \<Rightarrow> nat \<Rightarrow> nat \<Rightarrow> (nat \<Rightarrow> u8) \<Rightarrow> bool" where
  "erased tr pos n c \<longleftrightarrow> (\<forall>i < n. c (tr (pos + i)) = 0xFF)"

lemma write_step_bytes:
  assumes I: "I s" and c: "nand_bytes N content" and m: "mapped (xf_pos r) n" and n: "0 < n" "n = length dat - length (xf_data r)"
    and r: "xf_ooboffs r = 0" "xf_oob r = []" and e: "erased (translate sh (f s)) (xf_pos r) n (content (bmt_hw s))"
  shows "\<exists>h. bmt_write_step N Q dat [] r s =
      (Inr (r\<lparr>xf_ret := 0, xf_data := xf_data r @ take (chunk (xf_pos r) n) (drop (length (xf_data r)) dat),
         xf_ooboffs := 0, xf_pos := xf_pos r + chunk (xf_pos r) n, xf_retry := 0\<rparr>, True), s\<lparr>bmt_hw := h\<rparr>)
    \<and> stored (translate sh (f s)) (xf_pos r) (chunk (xf_pos r) n) (\<lambda>i. dat ! (length (xf_data r) + i))
        (content (bmt_hw s)) (content h)"
proof -
  let ?p = "xf_pos r" and ?c = "chunk (xf_pos r) n" and ?b = "int (xf_pos r div 2 ^ sh)"
  let ?d = "take ?c (drop (length (xf_data r)) dat)" and ?T = "translate sh (f s) (xf_pos r)"
  have b: "?b \<in> D" using mapped_head m n(1) by blast
  have g: "blk_shift s = sh" "blk_size s = 2 ^ sh" "mtd_erasesize s = 2 ^ sh" using geometry I by auto
  have cc: "min (2 ^ sh - ?p mod 2 ^ sh) (length dat - length (xf_data r)) = ?c" using n(2) by (simp add: chunk_def)
  have pos: "0 < ?c" "?c \<le> n" using chunk_pos [OF n(1), of ?p] by simp_all
  have len: "length ?d = ?c" using pos n(2) by simp
  have nn: "\<not> f s ?b < 0" using nonneg [OF I b] by simp
  have addr: "blk_addr (nat (f s ?b)) s + ?p mod 2 ^ sh = ?T"
    by (simp add: blk_addr_def g translate_def push_bit_eq_mult)
  have "content (bmt_hw s) a = 0xFF" if a: "?T \<le> a" "a < ?T + length ?d" for a
  proof -
    have i: "a - ?T < ?c" using a len by linarith
    then have "a = translate sh (f s) (?p + (a - ?T))" using chunk_translate(1) [OF n(1) i, of "f s"] a(1) by linarith
    moreover have "a - ?T < n" using i pos by linarith
    ultimately show ?thesis using e unfolding erased_def by metis
  qed
  then obtain h where h: "nand_write_oob N ?T ?d 0 [] (bmt_hw s) = ((0, length ?d, 0), h)"
    "content h = (\<lambda>a. if ?T \<le> a \<and> a < ?T + length ?d then ?d ! (a - ?T) else content (bmt_hw s) a)"
    using c [unfolded nand_bytes_def, THEN conjunct2, THEN conjunct2, rule_format, of ?T ?d "bmt_hw s"] by blast
  have d: "?d ! i = dat ! (length (xf_data r) + i)" if "i < ?c" for i using that pos n(2) by simp
  have "content h = (\<lambda>a. if ?T \<le> a \<and> a < ?T + ?c then dat ! (length (xf_data r) + (a - ?T)) else content (bmt_hw s) a)"
    unfolding h(2) len by (rule ext) (use d in auto)
  then have "stored (translate sh (f s)) ?p ?c (\<lambda>i. dat ! (length (xf_data r) + i)) (content (bmt_hw s)) (content h)"
    by (rule stored_chunk [OF n(1)])
  moreover have "bmt_write_step N Q dat [] r s =
      (Inr (r\<lparr>xf_ret := 0, xf_data := xf_data r @ ?d, xf_ooboffs := 0, xf_pos := ?p + ?c, xf_retry := 0\<rparr>, True), s\<lparr>bmt_hw := h\<rparr>)"
    using pos nn h(1) len
    by (simp add: bmt_write_step_def g nat_and_mask drop_bit_eq_div get [OF I b] bindE_def Let_def cc addr on_nand_def r)
  ultimately show ?thesis by blast
qed

lemma write_loop_bytes:
  assumes "I s" "nand_bytes N content" "mapped (xf_pos r) n" "n + length (xf_data r) = length dat"
    "xf_ooboffs r = 0" "xf_oob r = []" "erased (translate sh (f s)) (xf_pos r) n (content (bmt_hw s))"
  shows "\<exists>r' h. bmt_write_loop N Q dat [] r s = Some (Inr r', s\<lparr>bmt_hw := h\<rparr>) \<and> xf_ret r' = 0
    \<and> length (xf_data r') = length dat \<and> xf_oob r' = []
    \<and> stored (translate sh (f s)) (xf_pos r) n (\<lambda>i. dat ! (length (xf_data r) + i)) (content (bmt_hw s)) (content h)"
  using assms
proof (induction n arbitrary: r s rule: less_induct)
  case (less n)
  show ?case
  proof (cases "n = 0")
    case True
    then show ?thesis using less.prems by (simp add: bmt_write_loop.simps stored_def exI [of _ "bmt_hw s"])
  next
    case False
    let ?c = "chunk (xf_pos r) n" and ?t = "translate sh (f s)"
    let ?r = "r\<lparr>xf_ret := 0, xf_data := xf_data r @ take ?c (drop (length (xf_data r)) dat),
       xf_ooboffs := 0, xf_pos := xf_pos r + ?c, xf_retry := 0\<rparr>"
    have c: "0 < ?c" "?c \<le> n" using chunk_pos False by auto
    have n: "n = length dat - length (xf_data r)" using less.prems(4) by simp
    have len: "length (xf_data ?r) = length (xf_data r) + ?c" using c less.prems(4) by simp
    obtain h where h: "bmt_write_step N Q dat [] r s = (Inr (?r, True), s\<lparr>bmt_hw := h\<rparr>)"
      "stored ?t (xf_pos r) ?c (\<lambda>i. dat ! (length (xf_data r) + i)) (content (bmt_hw s)) (content h)"
      using write_step_bytes [OF less.prems(1-3) _ n less.prems(5-7)] False by auto
    have inj: "i = j" if "i < n" "j < n" "?t (xf_pos r + i) = ?t (xf_pos r + j)" for i j
      by (rule tr_inj [OF less.prems(1,3) that])
    have keep: "content h (?t (xf_pos r + ?c + i)) = 0xFF" if "i < n - ?c" for i
    proof -
      have "?t (xf_pos r + ?c + i) \<noteq> ?t (xf_pos r + j)" if "j < ?c" for j
      proof
        assume eq: "?t (xf_pos r + ?c + i) = ?t (xf_pos r + j)"
        have "?c + i < n" "j < n" using \<open>i < n - ?c\<close> that c by linarith+
        then have "?c + i = j" using inj eq by (simp add: add.assoc)
        then show False using that by simp
      qed
      then have "content h (?t (xf_pos r + ?c + i)) = content (bmt_hw s) (?t (xf_pos r + ?c + i))"
        using h(2) by (simp add: stored_def)
      then show ?thesis using less.prems(7) that c by (auto simp: erased_def add.assoc)
    qed
    have "\<exists>r' h'. bmt_write_loop N Q dat [] ?r (s\<lparr>bmt_hw := h\<rparr>) = Some (Inr r', s\<lparr>bmt_hw := h\<rparr>\<lparr>bmt_hw := h'\<rparr>) \<and> xf_ret r' = 0
      \<and> length (xf_data r') = length dat \<and> xf_oob r' = []
      \<and> stored (translate sh (f (s\<lparr>bmt_hw := h\<rparr>))) (xf_pos ?r) (n - ?c) (\<lambda>i. dat ! (length (xf_data ?r) + i))
          (content (bmt_hw (s\<lparr>bmt_hw := h\<rparr>))) (content h')"
      by (rule less.IH)
        (use less.prems c len mapped_tail [OF less.prems(3) c(2)] keep in \<open>simp_all add: I_hw f_hw erased_def\<close>)
    then obtain r' h' where r': "bmt_write_loop N Q dat [] ?r (s\<lparr>bmt_hw := h\<rparr>) = Some (Inr r', s\<lparr>bmt_hw := h'\<rparr>)" "xf_ret r' = 0"
      "length (xf_data r') = length dat" "xf_oob r' = []"
      "stored ?t (xf_pos r + ?c) (n - ?c) (\<lambda>i. dat ! (length (xf_data r) + (?c + i))) (content h) (content h')"
      using len by (auto simp: f_hw add.assoc)
    have "stored ?t (xf_pos r) (?c + (n - ?c)) (\<lambda>i. dat ! (length (xf_data r) + i)) (content (bmt_hw s)) (content h')"
      by (rule stored_append [OF h(2) r'(5)]) (use inj c in auto)
    moreover have "?c + (n - ?c) = n" using c by simp
    moreover have "bmt_write_loop N Q dat [] r s = Some (Inr r', s\<lparr>bmt_hw := h'\<rparr>)"
    proof -
      have "length (xf_data r) < length dat" using False less.prems(4) by simp
      then show ?thesis using r'(1) h(1) by (subst bmt_write_loop.simps) simp
    qed
    ultimately show ?thesis using r'(2-4) by metis
  qed
qed

text \<open>The number of the block at an aligned address survives the 16-bit variable.\<close>

lemma orig_block:
  assumes "I s" "int (a div 2 ^ sh) \<in> D"
  shows "uint (of_nat (drop_bit sh a) :: u16) = int (a div 2 ^ sh)"
proof -
  have "a div 2 ^ sh < 2 ^ 16" using blocks [OF assms] by simp
  then show ?thesis by (simp add: drop_bit_eq_div unsigned_of_nat take_bit_nat_eq_self)
qed

lemma erase_loop_bytes:
  assumes "I s" "nand_bytes N content" "mapped start (k * 2 ^ sh)" "start mod 2 ^ sh = 0"
  shows "\<exists>h. bmt_erase_loop N Q (start + k * 2 ^ sh) start retry ret s =
      Some (Inr (if k = 0 then ret else Some 0, None), s\<lparr>bmt_hw := h\<rparr>)
    \<and> stored (translate sh (f s)) start (k * 2 ^ sh) (\<lambda>_. 0xFF) (content (bmt_hw s)) (content h)"
  using assms
proof (induction k arbitrary: s start retry ret)
  case 0
  then show ?case by (simp add: bmt_erase_loop.simps stored_def exI [of _ "bmt_hw s"])
next
  case (Suc k)
  let ?b = "int (start div 2 ^ sh)" and ?t = "translate sh (f s)"
  have b: "?b \<in> D" using mapped_head [OF Suc.prems(3)] by simp
  have g: "blk_shift s = sh" "blk_size s = 2 ^ sh" "mtd_erasesize s = 2 ^ sh" using geometry Suc.prems(1) by auto
  have nn: "\<not> f s ?b < 0" using nonneg [OF Suc.prems(1) b] by simp
  have T: "?t start = nat (f s ?b) * 2 ^ sh" using Suc.prems(4) by (simp add: translate_def)
  have ch: "chunk start (Suc k * 2 ^ sh) = 2 ^ sh" using Suc.prems(4) by (simp add: chunk_def)
  obtain h where h: "nand_erase N (?t start) (2 ^ sh) (bmt_hw s) = (0, h)"
    "content h = (\<lambda>a. if ?t start \<le> a \<and> a < ?t start + 2 ^ sh then 0xFF else content (bmt_hw s) a)"
    using Suc.prems(2) [unfolded nand_bytes_def, THEN conjunct2, THEN conjunct1, rule_format, of "?t start" "2 ^ sh" "bmt_hw s"] by blast
  have st: "stored ?t start (2 ^ sh) (\<lambda>_. 0xFF) (content (bmt_hw s)) (content h)"
    using stored_chunk [of "Suc k * 2 ^ sh" "content h" "f s" start "\<lambda>_. 0xFF" "content (bmt_hw s)"] h(2) ch by simp
  have step: "bmt_erase_step N Q start s = (Inr (0, False, f s ?b), s\<lparr>bmt_hw := h\<rparr>)"
    using nn h(1)
    by (simp add: bmt_erase_step_def Let_def orig_block [OF Suc.prems(1) b] bindE_def get [OF Suc.prems(1) b] on_nand_def
        blk_addr_def g push_bit_eq_mult T retE_def)
  obtain h' where h': "bmt_erase_loop N Q (start + 2 ^ sh + k * 2 ^ sh) (start + 2 ^ sh) 0 (Some 0) (s\<lparr>bmt_hw := h\<rparr>) =
      Some (Inr (Some 0, None), s\<lparr>bmt_hw := h'\<rparr>)"
    "stored ?t (start + 2 ^ sh) (k * 2 ^ sh) (\<lambda>_. 0xFF) (content h) (content h')"
    using Suc.IH [of "s\<lparr>bmt_hw := h\<rparr>" "start + 2 ^ sh" 0 "Some 0"] Suc.prems mapped_tail [OF Suc.prems(3), of "2 ^ sh"]
    by (auto simp: I_hw f_hw split: if_splits)
  have "stored ?t start (2 ^ sh + k * 2 ^ sh) (\<lambda>_. 0xFF) (content (bmt_hw s)) (content h')"
    by (rule stored_append [OF st h'(2)]) (use tr_inj [OF Suc.prems(1,3)] in auto)
  moreover have "bmt_erase_loop N Q (start + Suc k * 2 ^ sh) start retry ret s = Some (Inr (Some 0, None), s\<lparr>bmt_hw := h'\<rparr>)"
    using step nn h'(1) g(3) by (subst bmt_erase_loop.simps) (simp add: add.assoc)
  ultimately show ?case by auto
qed

text \<open>Erasing returns on every chip.\<close>

lemma erase_step_any:
  assumes I: "I s" and b: "int (start div 2 ^ sh) \<in> D"
  shows "\<exists>ret ok s'. bmt_erase_step N Q start s = (Inr (ret, ok, f s (int (start div 2 ^ sh))), s') \<and> I s'"
proof -
  let ?b = "int (start div 2 ^ sh)"
  have g: "blk_shift s = sh" "blk_size s = 2 ^ sh" using geometry I by auto
  have nn: "\<not> f s ?b < 0" using nonneg [OF I b] by simp
  obtain x h where x: "on_nand (nand_erase N (blk_addr (nat (f s ?b)) s) (2 ^ sh)) s = (Inr x, s\<lparr>bmt_hw := h\<rparr>)"
    using on_nand_any by metis
  have I': "I (s\<lparr>bmt_hw := h\<rparr>)" using I by (simp add: I_hw)
  obtain ok s' where "mtk_bmt_remap_block Q ?b (f s ?b) 0 (s\<lparr>bmt_hw := h\<rparr>) = (Inr ok, s')" "I s'"
    using remap_any [OF I' b, of 0] unfolding f_hw by blast
  then show ?thesis
    using nn x I' by (auto simp: bmt_erase_step_def Let_def orig_block [OF I b] bindE_def get [OF I b] g retE_def)
qed

lemma erase_loop_any:
  assumes "I s" "mapped start (stop - start)"
  shows "\<exists>x s'. bmt_erase_loop N Q stop start retry ret s = Some (Inr x, s') \<and> I s'"
  using assms
proof (induction "(stop - start) * 11 + (10 - retry)" arbitrary: start retry ret s rule: less_induct)
  case less
  show ?case
  proof (cases "start < stop")
    case False
    then show ?thesis using less.prems by (simp add: bmt_erase_loop.simps)
  next
    case True
    let ?b = "int (start div 2 ^ sh)"
    have b: "?b \<in> D" using mapped_head [OF less.prems(2)] True by simp
    have nn: "\<not> f s ?b < 0" using nonneg [OF less.prems(1) b] by simp
    obtain x ok s1 where step: "bmt_erase_step N Q start s = (Inr (x, ok, f s ?b), s1)" "I s1"
      using erase_step_any [OF less.prems(1) b] by blast
    have g: "mtd_erasesize s1 = 2 ^ sh" using geometry [OF step(2)] by simp
    have "mapped (start + 2 ^ sh) (stop - (start + 2 ^ sh))"
      using less.prems(2) by (auto simp: mapped_def)
    moreover have "(stop - (start + 2 ^ sh)) * 11 + (10 - 0) < (stop - start) * 11 + (10 - retry)"
    proof -
      have "stop - (start + 2 ^ sh) < stop - start" using True by (intro diff_less_mono2) auto
      then show ?thesis by linarith
    qed
    ultimately have next_block: "\<exists>x s'. bmt_erase_loop N Q stop (start + 2 ^ sh) 0 (Some 0) s1 = Some (Inr x, s') \<and> I s'"
      using less.hyps step(2) by blast
    have again: "\<exists>y s'. bmt_erase_loop N Q stop start (retry + 1) (Some x) s1 = Some (Inr y, s') \<and> I s'" if "retry < 10"
      using less.hyps [of start "retry + 1" s1] that step(2) less.prems(2) by simp
    show ?thesis
      using step True nn next_block again g by (subst bmt_erase_loop.simps) auto
  qed
qed

section \<open>Erase, write, read\<close>

lemma erase_write_read:
  assumes I: "I s" and N: "nand_bytes N content" and k: "0 < k" and m: "mapped start (k * 2 ^ sh)" and a: "start mod 2 ^ sh = 0"
    and to: "start \<le> to" "to + length dat \<le> start + k * 2 ^ sh"
  shows "\<exists>s1 s2. mtk_bmt_mtd_erase N Q start (k * 2 ^ sh) s = Some (Inr (Some 0, None), s1)
    \<and> mtk_bmt_write N Q to dat 0 [] s1 = Some (Inr (0, length dat, 0), s2)
    \<and> mtk_bmt_read N Q to (length dat) 0 0 s2 = Some (Inr (0, dat, []), s2) \<and> I s2 \<and> f s2 = f s
    \<and> (\<forall>p. int (p div 2 ^ sh) \<in> D \<and> (p < start \<or> start + k * 2 ^ sh \<le> p) \<longrightarrow>
         content (bmt_hw s2) (translate sh (f s) p) = content (bmt_hw s) (translate sh (f s) p))"
proof -
  let ?t = "translate sh (f s)" and ?n = "k * 2 ^ sh"
  have g: "mtd_erasesize s = 2 ^ sh" using geometry I by simp
  obtain h1 where h1: "bmt_erase_loop N Q (start + ?n) start 0 None s = Some (Inr (Some 0, None), s\<lparr>bmt_hw := h1\<rparr>)"
    "stored ?t start ?n (\<lambda>_. 0xFF) (content (bmt_hw s)) (content h1)"
    using erase_loop_bytes [OF I N m a, of 0 None] k by auto
  have sub: "mapped to (length dat)" using m to by (auto simp: mapped_def)
  have "content h1 (?t (to + i)) = 0xFF" if i: "i < length dat" for i
  proof -
    have "to + i = start + (to - start + i)" "to - start + i < ?n" using to i by linarith+
    then show ?thesis using h1(2) unfolding stored_def by metis
  qed
  then have er: "erased ?t to (length dat) (content h1)" by (simp add: erased_def)
  let ?s1 = "s\<lparr>bmt_hw := h1\<rparr>"
  obtain r h2 where h2: "bmt_write_loop N Q dat [] (start_xfer to 0 0) ?s1 = Some (Inr r, s\<lparr>bmt_hw := h2\<rparr>)" "xf_ret r = 0"
    "length (xf_data r) = length dat" "xf_oob r = []" "stored ?t to (length dat) (\<lambda>i. dat ! i) (content h1) (content h2)"
    using write_loop_bytes [of ?s1 N content "start_xfer to 0 0" "length dat" dat] I N sub er
    by (auto simp: start_xfer_def I_hw f_hw)
  let ?s2 = "s\<lparr>bmt_hw := h2\<rparr>"
  have "map (\<lambda>i. content h2 (?t (to + i))) [0..<length dat] = dat"
    using h2(5) by (intro nth_equalityI) (auto simp: stored_def)
  then have rd: "mtk_bmt_read N Q to (length dat) 0 0 ?s2 = Some (Inr (0, dat, []), ?s2)"
    using read_bytes_run [of ?s2 N content to "length dat"] I N sub by (simp add: I_hw f_hw)
  have keep: "content h2 (?t p) = content (bmt_hw s) (?t p)"
    if p: "int (p div 2 ^ sh) \<in> D" "p < start \<or> start + ?n \<le> p" for p
  proof -
    have ne: "?t p \<noteq> ?t q" if "start \<le> q" "q < start + ?n" for q
    proof
      assume "?t p = ?t q"
      moreover have "int (q div 2 ^ sh) \<in> D" using m that by (simp add: mapped_def)
      ultimately have "p = q" using translate_inj [OF inj [OF I] p(1)] nonneg [OF I] by blast
      then show False using p(2) that by auto
    qed
    have "content h2 (?t p) = content h1 (?t p)" using h2(5) ne to by (simp add: stored_def)
    also have "\<dots> = content (bmt_hw s) (?t p)" using h1(2) ne by (simp add: stored_def)
    finally show ?thesis .
  qed
  have "mtk_bmt_mtd_erase N Q start ?n s = Some (Inr (Some 0, None), ?s1)"
    using h1(1) a by (simp add: mtk_bmt_mtd_erase_def g nat_and_mask)
  moreover have "mtk_bmt_write N Q to dat 0 [] ?s1 = Some (Inr (0, length dat, 0), ?s2)"
    using h2 by (simp add: mtk_bmt_write_def)
  ultimately show ?thesis using rd keep I by (intro exI [of _ ?s1] exI [of _ ?s2]) (simp add: I_hw f_hw)
qed

text \<open>The same with the rest seen through reads.\<close>

lemma erase_write_read_rest:
  assumes I: "I s" and N: "nand_bytes N content" and k: "0 < k" and m: "mapped (i * 2 ^ sh) (k * 2 ^ sh)"
    and to: "i * 2 ^ sh \<le> to" "to + length dat \<le> i * 2 ^ sh + k * 2 ^ sh"
  shows "\<exists>s1 s2. mtk_bmt_mtd_erase N Q (i * 2 ^ sh) (k * 2 ^ sh) s = Some (Inr (Some 0, None), s1)
    \<and> mtk_bmt_write N Q to dat 0 [] s1 = Some (Inr (0, length dat, 0), s2)
    \<and> mtk_bmt_read N Q to (length dat) 0 0 s2 = Some (Inr (0, dat, []), s2)
    \<and> (\<forall>p n. mapped p n \<and> (p + n \<le> i * 2 ^ sh \<or> i * 2 ^ sh + k * 2 ^ sh \<le> p) \<longrightarrow>
         (\<exists>d. mtk_bmt_read N Q p n 0 0 s = Some (Inr (0, d, []), s) \<and> mtk_bmt_read N Q p n 0 0 s2 = Some (Inr (0, d, []), s2)))"
proof -
  let ?e = "i * 2 ^ sh + k * 2 ^ sh"
  obtain s1 s2 where run: "mtk_bmt_mtd_erase N Q (i * 2 ^ sh) (k * 2 ^ sh) s = Some (Inr (Some 0, None), s1)"
    "mtk_bmt_write N Q to dat 0 [] s1 = Some (Inr (0, length dat, 0), s2)"
    "mtk_bmt_read N Q to (length dat) 0 0 s2 = Some (Inr (0, dat, []), s2)" "I s2" "f s2 = f s"
    and keep: "\<And>p. int (p div 2 ^ sh) \<in> D \<Longrightarrow> p < i * 2 ^ sh \<or> ?e \<le> p \<Longrightarrow>
      content (bmt_hw s2) (translate sh (f s) p) = content (bmt_hw s) (translate sh (f s) p)"
    using erase_write_read [OF I N k m _ to] by auto
  have "\<exists>d. mtk_bmt_read N Q p n 0 0 s = Some (Inr (0, d, []), s) \<and> mtk_bmt_read N Q p n 0 0 s2 = Some (Inr (0, d, []), s2)"
    if p: "mapped p n" "p + n \<le> i * 2 ^ sh \<or> ?e \<le> p" for p n
  proof -
    have "content (bmt_hw s2) (translate sh (f s) (p + j)) = content (bmt_hw s) (translate sh (f s) (p + j))" if "j < n" for j
      by (rule keep) (use p that in \<open>auto simp: mapped_def\<close>)
    then show ?thesis
      using read_bytes_run [OF I N p(1)] read_bytes_run [OF run(4) N p(1)] run(5)
      by (metis (no_types, lifting) atLeastLessThan_iff map_cong set_upt)
  qed
  then show ?thesis using run(1-3) by blast
qed

end

end
