(* ===== verification/Bbt_Remap.thy ===== *)
theory Bbt_Remap
  imports Bbt_Mapping Bmt_Client
begin

text \<open>
  Remapping with the bad block table: what marking a block does to the mapping, and that the table
  provides the interface of \<open>mtk_bmt.c\<close> for the blocks of a range.
\<close>

section \<open>Runs\<close>

text \<open>Buffers that are large enough.\<close>

definition bbt_buffers :: "'h bmt_desc \<Rightarrow> bool" where
  "bbt_buffers s \<longleftrightarrow> push_bit (pg_shift s) (bmt_pgs s) \<le> length (bbt_buf s) \<and> pg_size s \<le> length (data_buf s)"

lemma set_state_run:
  assumes "bbt_buffers s" "unat b div 4 < length (bbt_buf s)"
  shows "\<exists>h. bbt_set_block_state N b t s = (Inr (), s\<lparr>bbt_buf := with_state (bbt_buf s) b t, bmt_hw := h\<rparr>)"
proof -
  have "\<not> push_bit (pg_shift s) (bmt_pgs s) > length (bbt_buf s)" using assms(1) by (simp add: bbt_buffers_def)
  then show ?thesis
    using assms(2)
    by (auto simp: bbt_set_block_state_def Let_def bbt_nand_erase_def write_bmt_def on_nand_def bindE_def retE_def with_state_def
        split: prod.split)
qed

lemma erase_any: "\<exists>x h. bbt_nand_erase N b s = (Inr x, s\<lparr>bmt_hw := h\<rparr>)"
  unfolding bbt_nand_erase_def using on_nand_any by metis

lemma same_desc: "\<exists>d h. s = s\<lparr>data_buf := d, bmt_hw := h\<rparr> \<and> length d = length (data_buf s)"
  by (intro exI [of _ "data_buf s"] exI [of _ "bmt_hw s"]) simp

lemma fill_run:
  "length d \<le> length (data_buf s) \<Longrightarrow> \<exists>d'. fill_data_buf d s = (Inr (), s\<lparr>data_buf := d'\<rparr>) \<and> length d' = length (data_buf s)"
  by (auto simp: fill_data_buf_def)

lemma copy_page_run:
  assumes "pg_size s \<le> length (data_buf s)"
  shows "\<exists>x k d h. copy_page N pages src dest s = (Inr (x, k), s\<lparr>data_buf := d, bmt_hw := h\<rparr>) \<and> length d = length (data_buf s)"
proof -
  obtain r h where r: "on_nand (nand_read_oob N src (pg_size s) 0 (min (mtd_oobsize s div pages) 64)) s = (Inr r, s\<lparr>bmt_hw := h\<rparr>)"
    using on_nand_any by metis
  let ?s = "s\<lparr>bmt_hw := h\<rparr>"
  obtain d where d: "fill_data_buf (take (pg_size s) (nr_data r)) ?s = (Inr (), ?s\<lparr>data_buf := d\<rparr>)" "length d = length (data_buf s)"
    using fill_run [of "take (pg_size s) (nr_data r)" ?s] assms by (auto simp: min.coboundedI2)
  let ?s2 = "s\<lparr>bmt_hw := h, data_buf := d\<rparr>"
  obtain y h' where w: "on_nand (nand_write_oob N dest (take (pg_size s) d) 0 []) ?s2 = (Inr y, s\<lparr>data_buf := d, bmt_hw := h'\<rparr>)"
    using on_nand_any [of "nand_write_oob N dest (take (pg_size s) d) 0 []" ?s2] by auto
  have s2: "?s2 = s\<lparr>data_buf := d, bmt_hw := h\<rparr>" by simp
  show ?thesis
    unfolding copy_page_def bindE_def [of "on_nand x" for x] r using d w s2
    by (auto simp: bindE_def retE_def split: prod.split)
qed

lemma copy_loop_run:
  assumes "pg_size s \<le> length (data_buf s)"
  shows "\<exists>x d h. copy_loop N pages mx src dest offset n s = (Inr x, s\<lparr>data_buf := d, bmt_hw := h\<rparr>) \<and> length d = length (data_buf s)"
  using assms
proof (induction n arbitrary: offset s)
  case 0
  show ?case using same_desc [of s] by (simp add: retE_def)
next
  case (Suc n)
  show ?case
  proof (cases "int offset \<ge> mx")
    case True
    show ?thesis using True same_desc [of s] by (simp add: retE_def)
  next
    case False
    obtain x k d h where p: "copy_page N pages (src + offset) (dest + offset) s = (Inr (x, k), s\<lparr>data_buf := d, bmt_hw := h\<rparr>)"
      "length d = length (data_buf s)"
      using copy_page_run [OF Suc.prems] by blast
    obtain y d' h' where "copy_loop N pages mx src dest (offset + k) n (s\<lparr>data_buf := d, bmt_hw := h\<rparr>) =
        (Inr y, s\<lparr>data_buf := d', bmt_hw := h'\<rparr>)" "length d' = length (data_buf s)"
      using Suc.IH [of "s\<lparr>data_buf := d, bmt_hw := h\<rparr>" "offset + k"] Suc.prems p(2) by auto
    then show ?thesis using False p by (auto simp: bindE_def retE_def split: option.split)
  qed
qed

lemma copy_run:
  assumes "bbt_buffers s"
  shows "\<exists>x d h. bbt_nand_copy N dest src n s = (Inr x, s\<lparr>data_buf := d, bmt_hw := h\<rparr>) \<and> length d = length (data_buf s)"
  unfolding bbt_nand_copy_def Let_def by (rule copy_loop_run) (use assms in \<open>simp add: bbt_buffers_def\<close>)

lemma mapping_block_in_range_frame [simp]:
  "mapping_block_in_range b (s\<lparr>bbt_buf := x\<rparr>) = mapping_block_in_range b s"
  "mapping_block_in_range b (s\<lparr>data_buf := d\<rparr>) = mapping_block_in_range b s"
  "mapping_block_in_range b (s\<lparr>bmt_hw := h\<rparr>) = mapping_block_in_range b s"
  by (simp_all add: mapping_block_in_range_def split: option.split)

lemma in_range_frame [simp]:
  "in_range (s\<lparr>bbt_buf := b\<rparr>) start stop = in_range s start stop"
  "in_range (s\<lparr>data_buf := d\<rparr>) start stop = in_range s start stop"
  "in_range (s\<lparr>bmt_hw := h\<rparr>) start stop = in_range s start stop"
  by (simp_all add: fun_eq_iff in_range_def)

lemma range_marked_with_state [simp]: "range_marked (with_state buf b t) start stop = range_marked buf start stop"
  by (simp add: range_marked_def)

lemma remap_run:
  assumes buf: "bbt_buffers s" and r: "in_range s start stop (uint block)" and m: "range_marked (bbt_buf s) start stop"
    and b: "unat mb div 4 < length (bbt_buf s)"
  shows "\<exists>d h. remap_block_bbt N block mb n s =
      (Inr True, s\<lparr>bbt_buf := with_state (bbt_buf s) mb True, data_buf := d, bmt_hw := h\<rparr>) \<and> length d = length (data_buf s)"
proof -
  let ?buf = "with_state (bbt_buf s) mb True"
  obtain lo hi where lo: "mapping_block_in_range (uint block) s = Some (lo, hi)" using r by (auto simp: in_range_def)
  obtain h1 where 1: "bbt_set_block_state N mb True s = (Inr (), s\<lparr>bbt_buf := ?buf, bmt_hw := h1\<rparr>)"
    using set_state_run [OF buf b] by blast
  let ?s1 = "s\<lparr>bbt_buf := ?buf, bmt_hw := h1\<rparr>"
  have 2: "get_mapping_block_index_bbt (uint block) ?s1 = (Inr (bbt_map ?buf start stop (uint block)), ?s1)"
    using get_mapping_run [of ?s1 start stop "uint block"] r m by simp
  let ?nb = "word_of_int (bbt_map ?buf start stop (uint block)) :: u16"
  obtain x h3 where 3: "bbt_nand_erase N ?nb ?s1 = (Inr x, s\<lparr>bbt_buf := ?buf, bmt_hw := h3\<rparr>)"
    using erase_any [of N ?nb ?s1] by auto
  let ?s3 = "s\<lparr>bbt_buf := ?buf, bmt_hw := h3\<rparr>"
  have buf3: "bbt_buffers ?s3" using buf by (simp add: bbt_buffers_def)
  have "\<exists>y d h. (if n > 0 then bbt_nand_copy N ?nb mb n else retE 0) ?s3 =
      (Inr y, s\<lparr>bbt_buf := ?buf, data_buf := d, bmt_hw := h\<rparr>) \<and> length d = length (data_buf s)"
  proof (cases "n > 0")
    case True
    then show ?thesis using copy_run [OF buf3, of N ?nb mb n] by auto
  next
    case False
    then show ?thesis using same_desc [of ?s3] by (simp add: retE_def)
  qed
  then obtain y d h where 4: "(if n > 0 then bbt_nand_copy N ?nb mb n else retE 0) ?s3 =
      (Inr y, s\<lparr>bbt_buf := ?buf, data_buf := d, bmt_hw := h\<rparr>)" "length d = length (data_buf s)"
    by blast
  show ?thesis
    using 4 by (auto simp: remap_block_bbt_def lo bindE_def 1 2 3 retE_def)
qed

section \<open>The interface\<close>

definition bbt_ok :: "int \<Rightarrow> int \<Rightarrow> nat \<Rightarrow> 'h bmt_desc \<Rightarrow> bool" where
  "bbt_ok start stop sh s \<longleftrightarrow> blk_shift s = sh \<and> blk_size s = 2 ^ sh \<and> mtd_erasesize s = 2 ^ sh
    \<and> bbt_buffers s \<and> range_marked (bbt_buf s) start stop
    \<and> (\<forall>b. start \<le> b \<and> b < stop \<longrightarrow> in_range s start stop b)"

lemma bbt_ok_frame:
  "bbt_ok start stop sh s \<Longrightarrow> length buf = length (bbt_buf s) \<Longrightarrow> length d = length (data_buf s) \<Longrightarrow>
    bbt_ok start stop sh (s\<lparr>bbt_buf := buf, data_buf := d, bmt_hw := h\<rparr>)"
  by (simp add: bbt_ok_def bbt_buffers_def range_marked_def)

lemma bbt_map_range:
  assumes "start \<le> b" "b < stop"
  shows "start \<le> bbt_map buf start stop b" "bbt_map buf start stop b < stop"
  using bij_betwE [OF bbt_map_bij [of buf start stop]] assms by auto

lemma bbt_remap:
  assumes I: "bbt_ok start stop sh s" and b: "start \<le> b" "b < stop" and mb: "mb = word_of_int (bbt_map (bbt_buf s) start stop b)"
  shows "\<exists>s'. remap_block_bbt N (word_of_int b) mb n s = (Inr True, s') \<and> bbt_ok start stop sh s'
    \<and> bbt_buf s' = with_state (bbt_buf s) mb True"
proof -
  have m: "range_marked (bbt_buf s) start stop" and "in_range s start stop b" and "uint (word_of_int b :: u16) = b"
    using I b by (auto simp: bbt_ok_def range_marked_def unsigned_of_int take_bit_int_eq_self)
  then have r: "in_range s start stop (uint (word_of_int b :: u16))" "bbt_buffers s" using I by (simp_all add: bbt_ok_def)
  have f: "start \<le> bbt_map (bbt_buf s) start stop b" "bbt_map (bbt_buf s) start stop b < stop" using bbt_map_range b by auto
  have "unat mb = nat (bbt_map (bbt_buf s) start stop b)" unfolding mb using f m by (intro unat_block) (auto simp: range_marked_def)
  then have "unat mb div 4 < length (bbt_buf s)" using f m by (simp add: range_marked_def) linarith
  then obtain d h where "remap_block_bbt N (word_of_int b) mb n s =
      (Inr True, s\<lparr>bbt_buf := with_state (bbt_buf s) mb True, data_buf := d, bmt_hw := h\<rparr>)" "length d = length (data_buf s)"
    using remap_run [OF r(2,1) m] by blast
  then show ?thesis
    using bbt_ok_frame [OF I, of "with_state (bbt_buf s) mb True" d h] by auto
qed

interpretation bbt: bmt_table "mtk_bmt_bbt_ops N" "bbt_ok start stop sh" "{start..<stop}"
    "\<lambda>s. bbt_map (bbt_buf s) start stop" sh
  for N :: "'h nand_ops" and start stop sh
proof
  fix s :: "'h bmt_desc" and b n assume I: "bbt_ok start stop sh s" and b: "b \<in> {start..<stop}"
  then have m: "range_marked (bbt_buf s) start stop" and r: "in_range s start stop b" by (auto simp: bbt_ok_def)
  show "0 \<le> b \<and> b < 65536" using b m by (auto simp: range_marked_def)
  show "bo_get_mapping_block (mtk_bmt_bbt_ops N) b s = (Inr (bbt_map (bbt_buf s) start stop b), s)"
    using get_mapping_run [OF r m] by (simp add: mtk_bmt_bbt_ops_def)
  show "0 \<le> bbt_map (bbt_buf s) start stop b" using bbt_map_range [of start b stop "bbt_buf s"] b m by (simp add: range_marked_def)
  show "\<exists>ok s'. bo_remap_block (mtk_bmt_bbt_ops N) (word_of_int b) (word_of_int (bbt_map (bbt_buf s) start stop b)) n s = (Inr ok, s')
      \<and> bbt_ok start stop sh s'"
    using bbt_remap [OF I, of b _ N n] b by (auto simp: mtk_bmt_bbt_ops_def)
qed (auto simp: bbt_ok_def bbt_buffers_def bbt_map_bij [THEN bij_betw_imp_inj_on])

section \<open>What a remap does to the other blocks\<close>

lemma distinct_remove_nth:
  "distinct l \<Longrightarrow> k < length l \<Longrightarrow> filter (\<lambda>x. x \<noteq> l ! k) l = take k l @ drop (Suc k) l"
proof (induction l arbitrary: k)
  case (Cons a l)
  show ?case
  proof (cases k)
    case 0
    then show ?thesis using Cons.prems by (auto intro: filter_True)
  next
    case (Suc j)
    then have "l ! j \<noteq> a" using Cons.prems nth_mem [of j l] by auto
    then show ?thesis using Suc Cons.IH [of j] Cons.prems by auto
  qed
qed simp

lemma filter_remove_nth:
  assumes "distinct (filter P xs)" "k < length (filter P xs)"
  shows "filter (\<lambda>x. P x \<and> x \<noteq> filter P xs ! k) xs = take k (filter P xs) @ drop (Suc k) (filter P xs)"
proof -
  have "filter (\<lambda>x. P x \<and> x \<noteq> y) xs = filter (\<lambda>x. x \<noteq> y) (filter P xs)" for y by (simp add: conj_commute)
  then show ?thesis using distinct_remove_nth [OF assms] by simp
qed

text \<open>Marking the block that \<open>b\<close> is mapped to: the blocks behind \<open>b\<close> move up by one.\<close>

lemma bbt_map_shift:
  assumes m: "range_marked buf start stop" and b: "start \<le> b" "b - start < int (length (good_blocks buf start stop))"
    and mb: "mb = word_of_int (bbt_map buf start stop b)"
  shows "length (good_blocks (with_state buf mb True) start stop) = length (good_blocks buf start stop) - 1"
    "start \<le> c \<Longrightarrow> c < b \<Longrightarrow> bbt_map (with_state buf mb True) start stop c = bbt_map buf start stop c"
    "b \<le> c \<Longrightarrow> c + 1 - start < int (length (good_blocks buf start stop)) \<Longrightarrow>
      bbt_map (with_state buf mb True) start stop c = bbt_map buf start stop (c + 1)"
proof -
  let ?g = "good_blocks buf start stop" and ?k = "nat (b - start)" and ?buf = "with_state buf mb True"
  have k: "?k < length ?g" using b by linarith
  have map: "bbt_map buf start stop c = ?g ! nat (c - start)" if "c - start < int (length ?g)" "start \<le> c" for c
    using that by (simp add: bbt_map_def bbt_order_def nth_append nat_less_iff)
  have "length ?g \<le> nat (stop - start)" using bbt_order_props(3) [of buf start stop] by (simp add: bbt_order_def)
  then have "b < stop" using b by linarith
  then have r: "start \<le> bbt_map buf start stop b" "bbt_map buf start stop b < stop" using bbt_map_range b(1) by auto
  then have u: "uint mb = bbt_map buf start stop b" "unat mb = nat (bbt_map buf start stop b)"
    using m unfolding mb by (simp_all add: range_marked_def unsigned_of_int take_bit_int_eq_self unat_block)
  then have in_buf: "unat mb div 4 < length buf" using r m by (simp add: range_marked_def) linarith
  have "good_blocks ?buf start stop = filter (\<lambda>i. \<not> bad buf i \<and> i \<noteq> ?g ! ?k) [start..stop - 1]"
    unfolding good_blocks_def
    by (rule filter_cong [OF refl])
      (use m in_buf u(1) map [of b] b in \<open>auto simp: bad_with_state [OF range_markedD] good_blocks_def [symmetric]\<close>)
  also have "\<dots> = take ?k ?g @ drop (Suc ?k) ?g"
    unfolding good_blocks_def by (rule filter_remove_nth) (use k in \<open>simp_all add: good_blocks_def\<close>)
  finally have g': "good_blocks ?buf start stop = take ?k ?g @ drop (Suc ?k) ?g" .
  show len: "length (good_blocks ?buf start stop) = length ?g - 1" unfolding g' using k by simp
  have map': "bbt_map ?buf start stop c = (take ?k ?g @ drop (Suc ?k) ?g) ! nat (c - start)"
    if "c - start < int (length ?g - 1)" "start \<le> c" for c
  proof -
    have "nat (c - start) < length (good_blocks ?buf start stop)" using that len by linarith
    then have "bbt_map ?buf start stop c = good_blocks ?buf start stop ! nat (c - start)"
      by (simp add: bbt_map_def bbt_order_def nth_append)
    then show ?thesis unfolding g' .
  qed
  show "bbt_map ?buf start stop c = bbt_map buf start stop c" if "start \<le> c" "c < b"
  proof -
    have "nat (c - start) < ?k" using that by linarith
    then show ?thesis using map' [of c] map [of c] that b k by (simp add: nth_append)
  qed
  show "bbt_map ?buf start stop c = bbt_map buf start stop (c + 1)" if c: "b \<le> c" "c + 1 - start < int (length ?g)"
  proof -
    have i: "\<not> nat (c - start) < ?k" "nat (c + 1 - start) = Suc ?k + (nat (c - start) - ?k)" using c b(1) by linarith+
    have "bbt_map ?buf start stop c = drop (Suc ?k) ?g ! (nat (c - start) - ?k)"
      using map' [of c] i(1) c b k by (simp add: nth_append)
    also have "\<dots> = ?g ! nat (c + 1 - start)" unfolding i(2) using k by (intro nth_drop) simp
    also have "\<dots> = bbt_map buf start stop (c + 1)" using map [of "c + 1"] c b(1) by simp
    finally show ?thesis .
  qed
qed

end
