(* ===== verification/Bmt_Properties.thy ===== *)
theory Bmt_Properties
  imports Bbt_Remap
begin

text \<open>
  What the bad block management promises, with the table of \<open>mtk_bmt_bbt.c\<close>: the mapping, what marking a
  block does to it, and reading, writing and erasing on chips that work and on chips that fail.
\<close>

section \<open>A flash in memory\<close>

text \<open>A chip that holds its bytes, and one on which every access fails.\<close>

definition nand_mem :: "(nat \<Rightarrow> u8) nand_ops" where
  "nand_mem = \<lparr>
     nand_read_oob = (\<lambda>addr n _ _ m. (\<lparr>nr_ret = 0, nr_data = map m [addr..<addr + n], nr_oob = []\<rparr>, m)),
     nand_write_oob = (\<lambda>addr d _ _ m.
       ((0, length d, 0), \<lambda>a. if addr \<le> a \<and> a < addr + length d then m a AND d ! (a - addr) else m a)),
     nand_erase = (\<lambda>addr n m. (0, \<lambda>a. if addr \<le> a \<and> a < addr + n then 0xFF else m a)),
     nand_block_isbad = (\<lambda>_ m. (0, m)),
     nand_block_markbad = (\<lambda>_ m. (0, m))\<rparr>"

definition nand_broken :: "unit nand_ops" where
  "nand_broken = \<lparr>
     nand_read_oob = (\<lambda>_ _ _ _ m. (\<lparr>nr_ret = - 5, nr_data = [], nr_oob = []\<rparr>, m)),
     nand_write_oob = (\<lambda>_ _ _ _ m. ((- 5, 0, 0), m)),
     nand_erase = (\<lambda>_ _ m. (- 5, m)),
     nand_block_isbad = (\<lambda>_ m. (1, m)),
     nand_block_markbad = (\<lambda>_ m. (- 5, m))\<rparr>"

lemma nand_mem_bytes: "nand_bytes nand_mem (\<lambda>m. m)"
proof -
  have ones: "0xFF AND x = x" for x :: u8
  proof -
    have "(0xFF :: u8) = - 1" by simp
    then show ?thesis by (simp only: and.left_neutral)
  qed
  show ?thesis unfolding nand_bytes_def
  proof (intro conjI allI impI)
    fix addr :: nat and d :: "u8 list" and h :: "nat \<Rightarrow> u8"
    assume "\<forall>a. addr \<le> a \<and> a < addr + length d \<longrightarrow> h a = 0xFF"
    then have "(\<lambda>a. if addr \<le> a \<and> a < addr + length d then h a AND d ! (a - addr) else h a) =
        (\<lambda>a. if addr \<le> a \<and> a < addr + length d then d ! (a - addr) else h a)"
      by (auto simp: ones)
    then show "\<exists>h'. nand_write_oob nand_mem addr d 0 [] h = ((0, length d, 0), h')
        \<and> h' = (\<lambda>a. if addr \<le> a \<and> a < addr + length d then d ! (a - addr) else h a)"
      by (simp add: nand_mem_def)
  qed (simp_all add: nand_mem_def)
qed

lemma nand_broken_complete: "nand_complete nand_broken"
  by (auto simp: nand_complete_def nand_broken_def mtd_is_bitflip_def)

text \<open>Eight blocks of four bytes, of which the blocks 1 to 5 are a range; block 2 is marked.\<close>

definition small_desc :: "'h \<Rightarrow> 'h bmt_desc" where
  "small_desc h = \<lparr>bbt_buf = [0x30, 0, 0, 0], bbt_set = False, bbt_alloc = True, data_buf = [0, 0, 0],
     data_alloc = True, table_size = 0, pg_size = 2, blk_size = 4, pg_shift = 1, blk_shift = 2, pool_lba = 0, pool_pba = 0,
     bb_max = 0, total_blks = 8, bmt_blk_idx = 7, bmt_pgs = 2, remap_range = Some [(4, 24)], oob_offset = 0, mtd_size = 16,
     mtd_erasesize = 4, mtd_writesize = 2, mtd_oobsize = 1, bitflip_threshold = 1, bmt_heap = 2, bmt_hw = h\<rparr>"

lemma small_ok: "bbt_ok 1 6 2 (small_desc h)"
proof -
  have "in_range (small_desc h) 1 6 b" if "1 \<le> b" "b < 6" for b
  proof -
    have "b = 1 \<or> b = 2 \<or> b = 3 \<or> b = 4 \<or> b = 5" using that by auto
    then show ?thesis by (elim disjE) (simp_all add: in_range_def mapping_block_in_range_def small_desc_def drop_bit_eq_div)
  qed
  then show ?thesis by (simp add: bbt_ok_def bbt_buffers_def range_marked_def) (simp add: small_desc_def)
qed

section \<open>The mapping\<close>

text \<open>C32. Inside a range the mapping of the bad block table lists the good blocks in order and
  then the marked ones, so it is a permutation of the range: \<open>get_mapping_block_index_bbt\<close>, two loops
  over the marks, computes an entry of that list. In particular the mapping reaches a marked block only when
  the good ones are used up.\<close>

theorem bbt_mapping_order:
  assumes "bbt_ok start stop sh s" "start \<le> b" "b < stop"
  shows "get_mapping_block_index_bbt b s =
      (Inr ((filter (\<lambda>i. fst (bbt_block_is_bad (word_of_int i) s) = Inr False) [start..stop - 1]
           @ filter (\<lambda>i. fst (bbt_block_is_bad (word_of_int i) s) = Inr True) [start..stop - 1]) ! nat (b - start)), s)
    \<and> bij_betw (\<lambda>b. projr (fst (get_mapping_block_index_bbt b s))) {start..<stop} {start..<stop}"
proof -
  have m: "range_marked (bbt_buf s) start stop" and r: "\<And>c. start \<le> c \<Longrightarrow> c < stop \<Longrightarrow> in_range s start stop c"
    using assms(1) by (auto simp: bbt_ok_def)
  have run: "\<And>c. start \<le> c \<Longrightarrow> c < stop \<Longrightarrow> get_mapping_block_index_bbt c s = (Inr (bbt_map (bbt_buf s) start stop c), s)"
    using get_mapping_run [OF r m] by simp
  have "filter (\<lambda>i. fst (bbt_block_is_bad (word_of_int i) s) = Inr t) [start..stop - 1] =
      filter (\<lambda>i. bad (bbt_buf s) i = t) [start..stop - 1]" for t
    by (rule filter_cong) (use range_markedD [OF m] in \<open>auto simp: bad_run\<close>)
  moreover have "bij_betw (\<lambda>b. projr (fst (get_mapping_block_index_bbt b s))) {start..<stop} {start..<stop}"
    by (subst bij_betw_cong [where g = "bbt_map (bbt_buf s) start stop"]) (simp_all add: run bbt_map_bij)
  ultimately show ?thesis using run [OF assms(2,3)] by (simp add: bbt_map_def bbt_order_def good_blocks_def)
qed

theorem bbt_mapping_order_witness:
  "get_mapping_block_index_bbt 2 (small_desc ()) = (Inr 3, small_desc ())"
  using bbt_mapping_order [OF small_ok, of 2 "()"]
  by (simp add: bbt_block_is_bad_def bbt_bits_def small_desc_def Let_def upto.simps)

text \<open>C36. Marking the block that a logical block is mapped to moves every later logical block of the
  range that has a good block up by one, although only the data of one block is copied: what the
  later blocks held is lost to them, and the next block's data is erased.\<close>

theorem bbt_remap_shifts:
  assumes "bbt_ok start stop sh s" "start \<le> b"
    "b - start < int (length (filter (\<lambda>i. fst (bbt_block_is_bad (word_of_int i) s) = Inr False) [start..stop - 1]))"
  shows "\<exists>s'. remap_block_bbt N (word_of_int b) (word_of_int (projr (fst (get_mapping_block_index_bbt b s)))) n s = (Inr True, s')
    \<and> bbt_ok start stop sh s'
    \<and> (\<forall>c. start \<le> c \<and> c < b \<longrightarrow> fst (get_mapping_block_index_bbt c s') = fst (get_mapping_block_index_bbt c s))
    \<and> (\<forall>c. b \<le> c \<and> c + 1 - start < int (length (filter (\<lambda>i. fst (bbt_block_is_bad (word_of_int i) s) = Inr False) [start..stop - 1])) \<longrightarrow>
         fst (get_mapping_block_index_bbt c s') = fst (get_mapping_block_index_bbt (c + 1) s))"
proof -
  let ?buf = "bbt_buf s"
  have m: "range_marked ?buf start stop" and r: "\<And>c. start \<le> c \<Longrightarrow> c < stop \<Longrightarrow> in_range s start stop c"
    using assms(1) by (auto simp: bbt_ok_def)
  have run: "\<And>c. start \<le> c \<Longrightarrow> c < stop \<Longrightarrow> get_mapping_block_index_bbt c s = (Inr (bbt_map ?buf start stop c), s)"
    using get_mapping_run [OF r m] by simp
  have g: "filter (\<lambda>i. fst (bbt_block_is_bad (word_of_int i) s) = Inr False) [start..stop - 1] = good_blocks ?buf start stop"
    unfolding good_blocks_def by (rule filter_cong) (use range_markedD [OF m] in \<open>auto simp: bad_run\<close>)
  have len: "int (length (good_blocks ?buf start stop)) \<le> stop - start"
    using bbt_order_props(3) [of ?buf start stop] assms(2,3) unfolding g bbt_order_def by simp
  have b: "b < stop" "b - start < int (length (good_blocks ?buf start stop))" using assms(3) len unfolding g by linarith+
  let ?mb = "word_of_int (bbt_map ?buf start stop b) :: u16"
  obtain s' where s': "remap_block_bbt N (word_of_int b) ?mb n s = (Inr True, s')" "bbt_ok start stop sh s'"
    "bbt_buf s' = with_state ?buf ?mb True"
    using bbt_remap [OF assms(1,2) b(1)] by blast
  have run': "get_mapping_block_index_bbt c s' = (Inr (bbt_map (with_state ?buf ?mb True) start stop c), s')"
    if "start \<le> c" "c < stop" for c
    using get_mapping_run [of s' start stop c] s'(2,3) that by (auto simp: bbt_ok_def)
  note shift = bbt_map_shift [OF m assms(2) b(2) refl]
  show ?thesis
    unfolding g run [OF assms(2) b(1)]
    by (rule exI [of _ s']) (use s' shift b len assms(2) in \<open>auto simp: run run'\<close>)
qed

theorem bbt_remap_shifts_witness:
  "\<exists>s'. remap_block_bbt nand_mem 1 1 4 (small_desc (\<lambda>_. 0xFF)) = (Inr True, s') \<and> fst (get_mapping_block_index_bbt 2 s') = Inr 4"
proof -
  let ?s = "small_desc (\<lambda>_. 0xFF)"
  have m: "get_mapping_block_index_bbt 1 ?s = (Inr 1, ?s)" "get_mapping_block_index_bbt 3 ?s = (Inr 4, ?s)"
    by (simp_all add: get_mapping_block_index_bbt_def mapping_block_in_range_def bbt_block_is_bad_def bbt_bits_def small_desc_def
        Let_def upto.simps drop_bit_eq_div bindE_def retE_def)
  have l: "length (filter (\<lambda>i. fst (bbt_block_is_bad (word_of_int i) ?s) = Inr False) [1..6 - 1]) = 4"
    by (simp add: bbt_block_is_bad_def bbt_bits_def small_desc_def Let_def upto.simps)
  show ?thesis using bbt_remap_shifts [OF small_ok, of 1 "\<lambda>_. 0xFF" nand_mem 4] unfolding l by (force simp: m)
qed

section \<open>Access\<close>

lemma div_between:
  fixes a m :: int assumes "0 < m"
  shows "lo * m \<le> a \<Longrightarrow> lo \<le> a div m" "a < hi * m \<Longrightarrow> a div m < hi"
proof -
  show "lo * m \<le> a \<Longrightarrow> lo \<le> a div m" using zdiv_mono1 [of "lo * m" a m] assms by simp
  assume "a < hi * m"
  then have "(a div m) * m < hi * m" using assms pos_mod_sign [of m a] div_mult_mod_eq [of a m] by linarith
  then show "a div m < hi" using assms by (simp add: mult_less_cancel_right_pos)
qed

lemma bbt_mapped:
  assumes "start * 2 ^ sh \<le> int p" "int (p + n) \<le> stop * 2 ^ sh"
  shows "bmt_table.mapped {start..<stop} sh p n"
proof -
  have "start \<le> int (a div 2 ^ sh) \<and> int (a div 2 ^ sh) < stop" if "p \<le> a" "a < p + n" for a
  proof -
    have "start * 2 ^ sh \<le> int a" "int a < stop * 2 ^ sh" using assms that by linarith+
    then have "start \<le> int a div 2 ^ sh" "int a div 2 ^ sh < stop" using div_between [of "2 ^ sh"] by simp_all
    then show ?thesis by (simp add: zdiv_int)
  qed
  then show ?thesis by (simp add: bbt.mapped_def)
qed

lemma bbt_mapped_blocks:
  "start \<le> int i \<Longrightarrow> int (i + k) \<le> stop \<Longrightarrow> bmt_table.mapped {start..<stop} sh (i * 2 ^ sh) (k * 2 ^ sh)"
  by (rule bbt_mapped) (auto simp flip: distrib_right)

text \<open>C33. On a chip that works, erasing whole blocks, writing into them and reading back gives the data
  that was written, across block boundaries and around marked blocks, and reading any other part of the range
  gives what it gave before.\<close>

theorem bmt_erase_write_read:
  assumes "bbt_ok start stop sh s" "nand_bytes N content" "0 < k" "start \<le> int i" "int (i + k) \<le> stop"
    "i * 2 ^ sh \<le> to" "to + length dat \<le> i * 2 ^ sh + k * 2 ^ sh"
  shows "\<exists>s1 s2. mtk_bmt_mtd_erase N (mtk_bmt_bbt_ops N) (i * 2 ^ sh) (k * 2 ^ sh) s = Some (Inr (Some 0, None), s1)
    \<and> mtk_bmt_write N (mtk_bmt_bbt_ops N) to dat 0 [] s1 = Some (Inr (0, length dat, 0), s2)
    \<and> mtk_bmt_read N (mtk_bmt_bbt_ops N) to (length dat) 0 0 s2 = Some (Inr (0, dat, []), s2)
    \<and> (\<forall>p n. start * 2 ^ sh \<le> int p \<and> int (p + n) \<le> stop * 2 ^ sh \<and> (p + n \<le> i * 2 ^ sh \<or> i * 2 ^ sh + k * 2 ^ sh \<le> p) \<longrightarrow>
         (\<exists>d. mtk_bmt_read N (mtk_bmt_bbt_ops N) p n 0 0 s = Some (Inr (0, d, []), s)
            \<and> mtk_bmt_read N (mtk_bmt_bbt_ops N) p n 0 0 s2 = Some (Inr (0, d, []), s2)))"
  using bbt.erase_write_read_rest [OF assms(1-3) bbt_mapped_blocks [OF assms(4,5)] assms(6,7), where Na = N] bbt_mapped by blast

theorem bmt_erase_write_read_witness:
  "\<exists>s1 s2. mtk_bmt_mtd_erase nand_mem (mtk_bmt_bbt_ops nand_mem) 4 8 (small_desc (\<lambda>_. 0)) = Some (Inr (Some 0, None), s1)
    \<and> mtk_bmt_write nand_mem (mtk_bmt_bbt_ops nand_mem) 6 [1, 2, 3, 4] 0 [] s1 = Some (Inr (0, 4, 0), s2)
    \<and> mtk_bmt_read nand_mem (mtk_bmt_bbt_ops nand_mem) 6 4 0 0 s2 = Some (Inr (0, [1, 2, 3, 4], []), s2)"
  using bmt_erase_write_read [OF small_ok nand_mem_bytes, of 2 1 6 "[1, 2, 3, 4]" "\<lambda>_. 0"] by (simp add: numeral_eq_Suc) blast

text \<open>C34. Reading, writing and erasing inside the range return on every chip, however its accesses fail,
  provided that an access that is reported as successful is complete; ten retries per block end them.\<close>

theorem bmt_accesses_return:
  assumes "bbt_ok start stop sh s" "nand_complete N" "start * 2 ^ sh \<le> int p" "int (p + n) \<le> stop * 2 ^ sh"
  shows "(\<exists>x s'. mtk_bmt_read N (mtk_bmt_bbt_ops N) p n 0 0 s = Some (Inr x, s') \<and> bbt_ok start stop sh s')
    \<and> (\<forall>dat. length dat = n \<longrightarrow> (\<exists>x s'. mtk_bmt_write N (mtk_bmt_bbt_ops N) p dat 0 [] s = Some (Inr x, s') \<and> bbt_ok start stop sh s'))
    \<and> (\<exists>x s'. mtk_bmt_mtd_erase N (mtk_bmt_bbt_ops N) p n s = Some (Inr x, s') \<and> bbt_ok start stop sh s')"
proof -
  have m: "bmt_table.mapped {start..<stop} sh p n" by (rule bbt_mapped [OF assms(3,4)])
  have e: "mtd_erasesize s = 2 ^ sh" using assms(1) by (simp add: bbt_ok_def)
  let ?q = "p div 2 ^ sh * 2 ^ sh"
  have "start * 2 ^ sh \<le> int ?q"
  proof -
    have "start \<le> int p div 2 ^ sh" using assms(3) div_between(1) [of "2 ^ sh"] by simp
    then show ?thesis by (simp add: zdiv_int)
  qed
  moreover have q: "p - p mod 2 ^ sh = ?q" "?q \<le> p" by (simp_all add: minus_mod_eq_div_mult)
  ultimately have "bmt_table.mapped {start..<stop} sh ?q (p + n - ?q)" using assms(4) by (intro bbt_mapped) simp_all
  then have "\<exists>x s'. mtk_bmt_mtd_erase N (mtk_bmt_bbt_ops N) p n s = Some (Inr x, s') \<and> bbt_ok start stop sh s'"
    using bbt.erase_loop_any [OF assms(1)] q(1) by (simp add: mtk_bmt_mtd_erase_def e nat_and_mask)
  then show ?thesis using bbt.read_returns [OF assms(1,2) m] bbt.write_returns [OF assms(1,2)] m by blast
qed

theorem bmt_accesses_return_witness:
  "\<exists>x s'. mtk_bmt_read nand_broken (mtk_bmt_bbt_ops nand_broken) 5 6 0 0 (small_desc ()) = Some (Inr x, s') \<and> bbt_ok 1 6 2 s'"
  using bmt_accesses_return [OF small_ok nand_broken_complete, of 5 6 "()"] by simp

text \<open>C37. Without a range of the device tree the mapping is the identity, whatever is marked, on a flash
  with fewer blocks than a block has bytes: \<open>mapping_block_in_range\<close> gives block numbers, which are
  shifted like addresses. A block that fails is then erased and copied onto itself.\<close>

theorem bbt_without_range:
  assumes "remap_range s = None" "unat (total_blks s) < 2 ^ blk_shift s"
  shows "get_mapping_block_index_bbt b s = (Inr b, s)
    \<and> (unat block div 4 < length (bbt_buf s) \<and> bbt_buffers s \<longrightarrow>
        (\<exists>s1 s2. bbt_set_block_state N block True s = (Inr (), s1) \<and> snd (bbt_nand_erase N block s1) = s2
          \<and> remap_block_bbt N block block n s = bindE (if n > 0 then bbt_nand_copy N block block n else retE 0) (\<lambda>_. retE True) s2))"
proof -
  have "uint (total_blks s) < 2 ^ blk_shift s" using assms(2) by (metis of_nat_less_iff of_nat_numeral of_nat_power uint_nat)
  then have z: "drop_bit (blk_shift s) (uint (total_blks s)) = 0" by (simp add: drop_bit_eq_div)
  have id: "get_mapping_block_index_bbt b s' = (Inr b, s')"
    if "remap_range s' = None" "total_blks s' = total_blks s" "blk_shift s' = blk_shift s" for b and s' :: "'a bmt_desc"
    using that z by (simp add: get_mapping_block_index_bbt_def mapping_block_in_range_def Let_def bindE_def retE_def)
  show ?thesis
  proof (intro conjI impI)
    show "get_mapping_block_index_bbt b s = (Inr b, s)" by (rule id) (simp_all add: assms)
    assume *: "unat block div 4 < length (bbt_buf s) \<and> bbt_buffers s"
    then obtain h where h: "bbt_set_block_state N block True s = (Inr (), s\<lparr>bbt_buf := with_state (bbt_buf s) block True, bmt_hw := h\<rparr>)"
      using set_state_run by blast
    let ?s = "s\<lparr>bbt_buf := with_state (bbt_buf s) block True, bmt_hw := h\<rparr>"
    have g: "get_mapping_block_index_bbt (uint block) ?s = (Inr (uint block), ?s)" by (rule id) (simp_all add: assms)
    obtain x h' where e: "bbt_nand_erase N block ?s = (Inr x, ?s\<lparr>bmt_hw := h'\<rparr>)" using erase_any by metis
    show "\<exists>s1 s2. bbt_set_block_state N block True s = (Inr (), s1) \<and> snd (bbt_nand_erase N block s1) = s2
          \<and> remap_block_bbt N block block n s = bindE (if n > 0 then bbt_nand_copy N block block n else retE 0) (\<lambda>_. retE True) s2"
      using h e by (intro exI [of _ ?s] exI [of _ "?s\<lparr>bmt_hw := h'\<rparr>"])
        (simp add: remap_block_bbt_def mapping_block_in_range_def assms(1) bindE_def [of "bbt_set_block_state N block True"]
          bindE_def [of "get_mapping_block_index_bbt x" for x] bindE_def [of "bbt_nand_erase N x" for x] g)
  qed
qed

theorem bbt_without_range_witness:
  "get_mapping_block_index_bbt 2 ((small_desc ())\<lparr>remap_range := None, total_blks := 3\<rparr>) =
    (Inr 2, (small_desc ())\<lparr>remap_range := None, total_blks := 3\<rparr>)"
  using bbt_without_range [of "(small_desc ())\<lparr>remap_range := None, total_blks := 3\<rparr>" 2] by (simp add: small_desc_def)

section \<open>Attaching\<close>

lemma bbt_nand_read_any: "\<exists>ret dat oob h. bbt_nand_read N page n k s = (Inr (ret, dat, oob), s\<lparr>bmt_hw := h\<rparr>)"
proof -
  obtain x h where "on_nand (nand_read_oob N (unat (push_bit (pg_shift s) page)) n (oob_offset s) k) s = (Inr x, s\<lparr>bmt_hw := h\<rparr>)"
    using on_nand_any by metis
  then show ?thesis by (auto simp: bbt_nand_read_def bindE_def retE_def)
qed

lemma read_bbt_frame:
  "read_bbt_loop N is s = (x, s') \<Longrightarrow> \<exists>b h i. s' = s\<lparr>bbt_buf := b, bmt_hw := h, bmt_blk_idx := i\<rparr> \<and> length b = length (bbt_buf s)"
proof (induction "is" arbitrary: s)
  case Nil
  then show ?case by (auto simp: retE_def intro!: exI [of _ "bbt_buf s"] exI [of _ "bmt_hw s"] exI [of _ "bmt_blk_idx s"])
next
  case (Cons i "is")
  let ?r = "bbt_nand_read N (push_bit (blk_shift s - pg_shift s) (word_of_int i)) (pg_size s) 8 s"
  obtain ret dat oob h where r: "?r = (Inr (ret, dat, oob), s\<lparr>bmt_hw := h\<rparr>)"
    using bbt_nand_read_any by metis
  let ?b = "dat @ drop (length dat) (bbt_buf s)" and ?s = "s\<lparr>bmt_hw := h\<rparr>"
  show ?case
  proof (cases "length dat > length (bbt_buf s)")
    case True
    then show ?thesis
      using Cons.prems by (auto simp: bindE_def r fill_bbt_buf_def intro!: exI [of _ "bbt_buf s"] exI [of _ h] exI [of _ "bmt_blk_idx s"])
  next
    case False
    have again: ?thesis if "read_bbt_loop N is (?s\<lparr>bbt_buf := ?b\<rparr>) = (x, s')"
      using Cons.IH [OF that] False by auto
    have stop: "\<exists>b h' k. ?s\<lparr>bbt_buf := ?b, bmt_blk_idx := j\<rparr> = s\<lparr>bbt_buf := b, bmt_hw := h', bmt_blk_idx := k\<rparr> \<and> length b = length (bbt_buf s)"
      "\<exists>b h' k. ?s\<lparr>bbt_buf := ?b\<rparr> = s\<lparr>bbt_buf := b, bmt_hw := h', bmt_blk_idx := k\<rparr> \<and> length b = length (bbt_buf s)" for j
      by (intro exI [of _ ?b] exI [of _ h] exI [of _ j], use False in simp)
        (intro exI [of _ ?b] exI [of _ h] exI [of _ "bmt_blk_idx s"], use False in simp)
    have "read_bbt_loop N is (?s\<lparr>bbt_buf := ?b\<rparr>) = (x, s') \<or> (\<exists>j. s' = ?s\<lparr>bbt_buf := ?b, bmt_blk_idx := j\<rparr>) \<or> s' = ?s\<lparr>bbt_buf := ?b\<rparr>"
      using Cons.prems False by (auto simp: bindE_def r fill_bbt_buf_def failE_def split: if_splits)
    then show ?thesis using again stop by blast
  qed
qed

lemma ffs_shift_power: "k < 32 \<Longrightarrow> ffs_shift (2 ^ k) = k"
proof -
  assume k: "k < 32"
  have "find (bit (2 ^ k :: nat)) [0..<32] = Some k"
    unfolding find_Some_iff by (rule exI [of _ k]) (use k in \<open>simp add: bit_exp_iff\<close>)
  then show ?thesis by (simp add: ffs_shift_def)
qed

lemma find_range_one:
  assumes "uint lo = start * 2 ^ sh" "uint hi = stop * 2 ^ sh" "stop * 2 ^ sh < 2 ^ 31" "0 \<le> start" "start \<le> b" "b < stop"
  shows "find_range (push_bit sh (word_of_int b)) [(lo, hi)] = Some (start * 2 ^ sh, stop * 2 ^ sh)"
proof -
  have le: "start * 2 ^ sh \<le> b * 2 ^ sh" "b * 2 ^ sh < stop * 2 ^ sh" "0 \<le> start * 2 ^ sh" using assms by simp_all
  moreover have "(2 :: int) ^ 31 < 2 ^ 32" by simp
  ultimately have fits: "0 \<le> b * 2 ^ sh" "b * 2 ^ sh < 2 ^ 32" using assms(3) by linarith+
  have "push_bit sh (word_of_int b :: u32) = word_of_int (b * 2 ^ sh)" by (simp add: push_bit_eq_mult)
  then have "uint (push_bit sh (word_of_int b) :: u32) = b * 2 ^ sh"
    using fits by (simp add: unsigned_of_int take_bit_int_eq_self del: of_int_mult)
  moreover have "sint w = uint w" if "uint w < 2 ^ 31" for w :: u32
  proof -
    have "- (2 ^ 31) \<le> uint w" by (rule order_trans [OF _ uint_ge_0]) simp
    then show ?thesis using that by (simp add: sint_uint signed_take_bit_int_eq_self)
  qed
  moreover have "uint lo < 2 ^ 31" "uint hi < 2 ^ 31" using le assms(1-3) by linarith+
  ultimately show ?thesis using le assms(1,2) by (simp add: word_less_def word_le_def)
qed

text \<open>Sizes below 2 GiB survive the computation of type \<open>int\<close>.\<close>

lemma ucast_of_nat: "m < 2 ^ LENGTH('a) \<Longrightarrow> ucast (of_nat m :: 'a::len word) = of_nat m"
  by (simp add: unsigned_of_nat take_bit_nat_eq_self)

lemma restored_size:
  assumes "n < 65536" "n * 2 ^ sh < 2 ^ 31"
  shows "unat (scast (push_bit sh (ucast (of_nat n :: u16)) :: u32) :: u64) = n * 2 ^ sh"
proof -
  have "push_bit sh (ucast (of_nat n :: u16)) = (of_nat (n * 2 ^ sh) :: u32)"
    using assms(1) ucast_of_nat [where 'a = 16 and 'b = 32, of n] by (simp add: push_bit_eq_mult)
  moreover have "sint (of_nat (n * 2 ^ sh) :: u32) = int (n * 2 ^ sh)"
    using assms(2) by (simp add: sint_uint unsigned_of_nat take_bit_nat_eq_self signed_take_bit_int_eq_self del: of_nat_mult)
  ultimately have "scast (push_bit sh (ucast (of_nat n :: u16)) :: u32) = (of_nat (n * 2 ^ sh) :: u64)"
    by (simp only: scast_eq of_int_of_nat_eq)
  then show ?thesis using assms(2) by (simp add: unsigned_of_nat take_bit_nat_eq_self del: of_nat_mult)
qed

lemma shrunk_size:
  assumes "4 \<le> n" "n * 2 ^ sh < 2 ^ 31"
  shows "unat ((of_nat (n * 2 ^ sh) :: u64) - ucast (4 * of_nat (2 ^ sh) :: u32)) = (n - 4) * 2 ^ sh"
proof -
  have le: "4 * 2 ^ sh \<le> n * 2 ^ sh" using assms(1) by simp
  have "(4 * of_nat (2 ^ sh) :: u32) = of_nat (4 * 2 ^ sh)" by simp
  moreover have "4 * 2 ^ sh < (2 :: nat) ^ 32" using le_less_trans [OF le assms(2)] by (rule less_trans) simp
  ultimately have "ucast (4 * of_nat (2 ^ sh) :: u32) = (of_nat (4 * 2 ^ sh) :: u64)"
    using ucast_of_nat [where 'a = 32 and 'b = 64, of "4 * 2 ^ sh"] by simp
  then have "(of_nat (n * 2 ^ sh) :: u64) - ucast (4 * of_nat (2 ^ sh) :: u32) = of_nat (n * 2 ^ sh - 4 * 2 ^ sh)"
    using le by (simp only: of_nat_diff)
  moreover have "n * 2 ^ sh - 4 * 2 ^ sh < 2 ^ 64" using assms(2) by simp
  ultimately show ?thesis by (simp add: unsigned_of_nat take_bit_nat_eq_self diff_mult_distrib del: of_nat_diff of_nat_mult)
qed

lemma round_up_ge: "0 < y \<Longrightarrow> x \<le> round_up x y"
proof -
  assume y: "0 < y"
  then have "(x + y - 1) mod y < y" by simp
  moreover have "(x + y - 1) div y * y + (x + y - 1) mod y = x + y - 1" by (rule div_mult_mod_eq)
  ultimately show ?thesis using y unfolding round_up_def by linarith
qed

lemma bbt_init_run:
  assumes "mtk_bmt_init_bbt N np kz s = (Inr ret, s')"
  shows "(ret = 0 \<longrightarrow> kz) \<and> (\<exists>b h i p. s' = s\<lparr>bbt_buf := b, bmt_hw := h, bmt_blk_idx := i, bmt_pgs := p,
      bbt_alloc := kz \<or> bbt_alloc s, bmt_heap := bmt_heap s + (if kz then 1 else 0),
      mtd_size := (if kz then unat ((of_nat (mtd_size s) :: u64) - ucast (4 * of_nat (mtd_erasesize s) :: u32)) else mtd_size s)\<rparr>
    \<and> (ret = 0 \<longrightarrow> length b = round_up (unat (total_blks s) div 4) (blk_size s)
        \<and> p = round_up (unat (total_blks s) div 4) (blk_size s) div pg_size s))"
proof (cases kz)
  case False
  then have "s' = s" "ret \<noteq> 0" using assms by (simp_all add: mtk_bmt_init_bbt_def Let_def)
  then show ?thesis using False
    by (auto intro!: exI [of _ "bbt_buf s"] exI [of _ "bmt_hw s"] exI [of _ "bmt_blk_idx s"] exI [of _ "bmt_pgs s"])
next
  case True
  let ?n = "round_up (unat (total_blks s) div 4) (blk_size s)"
  let ?s = "s\<lparr>bbt_buf := replicate ?n 0xFF, bbt_alloc := True, bmt_heap := bmt_heap s + 1, mtd_size := unat ((of_nat (mtd_size s) :: u64) - ucast (4 * of_nat (mtd_erasesize s) :: u32))\<rparr>"
  obtain x s1 where r: "mtk_bmt_read_bbt N ?s = (x, s1)" by fastforce
  then obtain b h i where s1: "s1 = ?s\<lparr>bbt_buf := b, bmt_hw := h, bmt_blk_idx := i\<rparr>" and "length b = length (bbt_buf ?s)"
    using read_bbt_frame [of N _ ?s x s1] unfolding mtk_bmt_read_bbt_def by blast
  then have len: "length b = ?n" by simp
  obtain y where y: "x = Inr y" using assms True r by (cases x) (auto simp: mtk_bmt_init_bbt_def Let_def bindE_def)
  show ?thesis
  proof (cases "y = 0")
    case False
    then have "s' = s1" "ret \<noteq> 0" using assms True r y by (simp_all add: mtk_bmt_init_bbt_def Let_def bindE_def)
    then show ?thesis using True s1 len
      by (auto intro!: exI [of _ b] exI [of _ h] exI [of _ i] exI [of _ "bmt_pgs s"])
  next
    case 0: True
    then have "s' = s1\<lparr>bmt_pgs := ?n div pg_size s\<rparr>" using assms True r y s1 by (simp add: mtk_bmt_init_bbt_def Let_def bindE_def)
    then show ?thesis using True s1 len
      by (auto intro!: exI [of _ b] exI [of _ h] exI [of _ i] exI [of _ "?n div pg_size s"])
  qed
qed

text \<open>C35. Attaching to a flash of less than 2 GiB with a bad block table and a range of the device tree: when it succeeds, the
  functions of the device are replaced and the state satisfies the invariant of the other properties; when it
  fails, the functions, the size of the device and the memory are as before.\<close>

theorem bmt_attach_bbt:
  fixes w :: "'h bmt_world"
  assumes "mtk_bmt_attach v2 nmbm (mtk_bmt_bbt_ops N) kz kz_bbt dir (Some np) w = Some (Inr ret, w')"
    "\<not> wb_mtd w" "\<not> wb_replaced w" "\<not> bbt_alloc (wb_desc w)" "\<not> data_alloc (wb_desc w)"
    "\<not> of_bmt_v2 np" "\<not> of_nmbm np" "of_bbt np"
    "mtd_erasesize (wb_desc w) = 2 ^ sh" "sh < 32" "mtd_writesize (wb_desc w) = 2 ^ k" "k < 32"
    "mtd_size (wb_desc w) = n * 2 ^ sh" "4 \<le> n \<and> n < 65536 \<and> n * 2 ^ sh < 2 ^ 31"
    "of_remap_range np = Some [(lo, hi)]" "uint lo = start * 2 ^ sh" "uint hi = stop * 2 ^ sh"
    "0 \<le> start" "stop * 2 ^ sh < 2 ^ 31" "stop \<le> 4 * int (n div 4)"
  shows "if ret = 0
    then wb_mtd w' \<and> wb_replaced w' \<and> bbt_ok start stop sh (wb_desc w')
      \<and> mtd_size (wb_desc w') = (n - 4) * 2 ^ sh \<and> bmt_heap (wb_desc w') = bmt_heap (wb_desc w) + 2
    else \<not> wb_mtd w' \<and> \<not> wb_replaced w' \<and> mtd_size (wb_desc w') = mtd_size (wb_desc w)
      \<and> bmt_heap (wb_desc w') = bmt_heap (wb_desc w)"
proof -
  let ?s = "bmt_geometry np (wb_desc w)"
  let ?t = "?s\<lparr>data_buf := replicate (pg_size ?s + mtd_oobsize ?s) 0xFF, data_alloc := True, bmt_heap := bmt_heap ?s + 1\<rparr>"
  have geo: "?s = (wb_desc w)\<lparr>remap_range := Some [(lo, hi)], blk_size := 2 ^ sh, blk_shift := sh, pg_size := 2 ^ k, pg_shift := k,
      total_blks := of_nat n\<rparr>"
    using assms by (simp add: bmt_geometry_def Let_def ffs_shift_power drop_bit_eq_div)
  have u: "unat (of_nat n :: u16) = n" "unat (scast (push_bit sh (ucast (of_nat n :: u16)) :: u32) :: u64) = n * 2 ^ sh"
    "unat ((of_nat (n * 2 ^ sh) :: u64) - ucast (4 * of_nat (2 ^ sh) :: u32)) = (n - 4) * 2 ^ sh"
    using assms(14) restored_size shrunk_size by (simp_all add: unsigned_of_nat take_bit_nat_eq_self)
  show ?thesis
  proof (cases kz)
    case False
    then show ?thesis
      using assms(1-8,13) u by (auto simp: mtk_bmt_attach_def select_ops_def Let_def geo mtk_bmt_replace_ops_def mtk_bmt_detach_def
          clear_desc_def blk_addr_def push_bit_eq_mult)
  next
    case True
    obtain x s1 where init: "mtk_bmt_init_bbt N np kz_bbt ?t = (x, s1)" by fastforce
    then obtain y where y: "x = Inr y"
      using assms(1-8) True by (cases x) (auto simp: mtk_bmt_attach_def select_ops_def Let_def mtk_bmt_bbt_ops_def mtk_bmt_replace_ops_def)
    have w': "ret = y" "w' = (let w1 = w\<lparr>wb_mtd := True, wb_replaced := True, wb_desc := s1\<rparr>
        in if y \<noteq> 0 then mtk_bmt_detach w1 else mtk_bmt_add_debugfs dir w1)"
      using assms(1-8) True init y
      by (auto simp: mtk_bmt_attach_def select_ops_def Let_def mtk_bmt_bbt_ops_def mtk_bmt_replace_ops_def split: if_splits)
    let ?n = "round_up (n div 4) (2 ^ sh)"
    obtain b h i p where run: "y = 0 \<longrightarrow> kz_bbt" "s1 = ?t\<lparr>bbt_buf := b, bmt_hw := h, bmt_blk_idx := i, bmt_pgs := p,
        bbt_alloc := kz_bbt \<or> bbt_alloc ?t, bmt_heap := bmt_heap ?t + (if kz_bbt then 1 else 0),
        mtd_size := (if kz_bbt then unat ((of_nat (mtd_size ?t) :: u64) - ucast (4 * of_nat (mtd_erasesize ?t) :: u32)) else mtd_size ?t)\<rparr>"
      and len: "y = 0 \<Longrightarrow> length b = ?n \<and> p = ?n div 2 ^ k"
      using bbt_init_run [OF init [unfolded y]] by (auto simp: geo u)
    show ?thesis
    proof (cases "y = 0")
      case False
      then show ?thesis
        using assms(2-8,13) u w' run(2)
        by (simp add: Let_def geo mtk_bmt_detach_def clear_desc_def blk_addr_def push_bit_eq_mult)
    next
      case 0: True
      have "n div 4 \<le> ?n" by (rule round_up_ge) simp
      then have "stop \<le> 4 * int (length b)" using assms(20) len [OF 0] by linarith
      moreover have "stop \<le> 65536" using assms(14,20) by linarith
      ultimately have m: "range_marked (bbt_buf s1) start stop" using assms(18) run(2) by (simp add: range_marked_def)
      have "in_range s1 start stop c" if "start \<le> c" "c < stop" for c
        using find_range_one [OF assms(16,17,19,18) that] that run(2)
        by (auto simp: in_range_def mapping_block_in_range_def geo drop_bit_eq_div)
      moreover have "bbt_buffers s1" using len [OF 0] run(2) by (simp add: bbt_buffers_def geo push_bit_eq_mult)
      ultimately have "bbt_ok start stop sh s1" using m run(2) assms(9) by (simp add: bbt_ok_def geo)
      then show ?thesis
        using 0 w' run assms(9,13) u(3) by (simp add: Let_def geo mtk_bmt_add_debugfs_def diff_mult_distrib)
    qed
  qed
qed

text \<open>A chip whose last block has the signature of the table.\<close>

definition nand_signed :: "unit nand_ops" where
  "nand_signed = nand_broken\<lparr>nand_read_oob := (\<lambda>_ n _ k m. (\<lparr>nr_ret = 0, nr_data = replicate n 0, nr_oob = take k (0xFF # bbt_sig)\<rparr>, m))\<rparr>"

theorem bmt_attach_bbt_witness:
  "\<exists>w'. mtk_bmt_attach (mtk_bmt_bbt_ops nand_signed) (mtk_bmt_bbt_ops nand_signed) (mtk_bmt_bbt_ops nand_signed) True True True
      (Some \<lparr>of_bmt_v2 = False, of_nmbm = False, of_bbt = True, of_remap_range = Some [(4, 24)], of_pool_size = None,
         of_oob_offset = None, of_table_size = None\<rparr>)
      \<lparr>wb_mtd = False, wb_replaced = False, wb_debugfs = False,
        wb_desc = (small_desc ())\<lparr>bbt_alloc := False, data_alloc := False, mtd_size := 32\<rparr>\<rparr> = Some (Inr 0, w')
    \<and> bbt_ok 1 6 2 (wb_desc w')"
proof -
  let ?Q = "mtk_bmt_bbt_ops nand_signed"
  let ?np = "\<lparr>of_bmt_v2 = False, of_nmbm = False, of_bbt = True, of_remap_range = Some [(4, 24)], of_pool_size = None,
    of_oob_offset = None, of_table_size = None\<rparr>"
  let ?w = "\<lparr>wb_mtd = False, wb_replaced = False, wb_debugfs = False,
    wb_desc = (small_desc ())\<lparr>bbt_alloc := False, data_alloc := False, mtd_size := 32\<rparr>\<rparr>"
  have f: "ffs_shift 4 = 2" "ffs_shift 2 = 1" using ffs_shift_power [of 2] ffs_shift_power [of 1] by simp_all
  obtain w' where w': "mtk_bmt_attach ?Q ?Q ?Q True True True (Some ?np) ?w = Some (Inr 0, w')"
    by (simp add: mtk_bmt_attach_def select_ops_def Let_def mtk_bmt_replace_ops_def bmt_geometry_def small_desc_def f
        mtk_bmt_bbt_ops_def mtk_bmt_init_bbt_def mtk_bmt_read_bbt_def round_up_def bindE_def bbt_nand_read_def on_nand_def
        nand_signed_def nand_broken_def retE_def fill_bbt_buf_def bbt_sig_def upto.simps drop_bit_eq_div)
  then show ?thesis
    using bmt_attach_bbt [OF w', of 2 1 8 4 24 1 6] by (simp add: small_desc_def)
qed

end
