(* ===== verification/Mtk_Bmt_V2.thy ===== *)
theory Mtk_Bmt_V2
  imports Mtk_Bmt_Bbt
begin

text \<open>
  The table of \<open>mtk_bmt_v2.c\<close>: \<open>bb_tbl\<close> gives the physical block of every logical one below the pool, and
  \<open>bmt_tbl\<close> lists the good blocks of the pool with their use. Both are in one buffer, which is also what is
  stored in the flash: four bytes of signature and version, \<open>table_size\<close> entries of 16 bits, and entries of
  two 16-bit words up to the end. The byte order is that of the little-endian targets. Accesses
  outside the buffer are the left side of a result.
\<close>

section \<open>The buffer\<close>

abbreviation (input) BBMT_VERSION :: u8 where "BBMT_VERSION \<equiv> 2"
abbreviation (input) NO_MAPPED :: u16 where "NO_MAPPED \<equiv> 0"
abbreviation (input) NORMAL_MAPPED :: u16 where "NORMAL_MAPPED \<equiv> 1"
abbreviation (input) BMT_MAPPED :: u16 where "BMT_MAPPED \<equiv> 2"
abbreviation (input) BBPOOL_RATIO :: u32 where "BBPOOL_RATIO \<equiv> 2"
abbreviation (input) BMT_TBL_DEF_VAL :: u16 where "BMT_TBL_DEF_VAL \<equiv> 0"

definition bmt_sig :: "u8 list" where
  "bmt_sig = [0x62, 0x6D, 0x74]"

definition main_sig :: "u8 list" where
  "main_sig = [0x42, 0x4D, 0x54]"

definition word16 :: "u8 list \<Rightarrow> nat \<Rightarrow> u16" where
  "word16 buf i = push_bit 8 (ucast (buf ! (i + 1))) OR ucast (buf ! i)"

definition set_word16 :: "u8 list \<Rightarrow> nat \<Rightarrow> u16 \<Rightarrow> u8 list" where
  "set_word16 buf i v = buf[i := ucast v, i + 1 := ucast (drop_bit 8 v)]"

definition get16 :: "nat \<Rightarrow> ('h bmt_desc, u16) io" where
  "get16 i s = (if i + 1 \<ge> length (bbt_buf s) then (Inl BUF_OVERRUN, s) else (Inr (word16 (bbt_buf s) i), s))"

definition put16 :: "nat \<Rightarrow> u16 \<Rightarrow> ('h bmt_desc, unit) io" where
  "put16 i v s =
    (if i + 1 \<ge> length (bbt_buf s) then (Inl BUF_OVERRUN, s)
     else (Inr (), s\<lparr>bbt_buf := set_word16 (bbt_buf s) i v\<rparr>))"

text \<open>Where an entry of \<open>bb_tbl\<close> and the members of an entry of \<open>bmt_tbl\<close> are.\<close>

definition bb_pos :: "nat \<Rightarrow> nat" where
  "bb_pos i = 4 + 2 * i"

definition bmt_tbl :: "nat \<Rightarrow> nat \<Rightarrow> nat" where
  "bmt_tbl ts i = bb_pos ts + 4 * i"

definition get_bb :: "nat \<Rightarrow> ('h bmt_desc, u16) io" where
  "get_bb i = get16 (bb_pos i)"

definition put_bb :: "nat \<Rightarrow> u16 \<Rightarrow> ('h bmt_desc, unit) io" where
  "put_bb i = put16 (bb_pos i)"

definition get_block :: "nat \<Rightarrow> ('h bmt_desc, u16) io" where
  "get_block i s = get16 (bmt_tbl (table_size s) i) s"

definition put_block :: "nat \<Rightarrow> u16 \<Rightarrow> ('h bmt_desc, unit) io" where
  "put_block i v s = put16 (bmt_tbl (table_size s) i) v s"

definition get_mapped :: "nat \<Rightarrow> ('h bmt_desc, u16) io" where
  "get_mapped i s = get16 (bmt_tbl (table_size s) i + 2) s"

definition put_mapped :: "nat \<Rightarrow> u16 \<Rightarrow> ('h bmt_desc, unit) io" where
  "put_mapped i v s = put16 (bmt_tbl (table_size s) i + 2) v s"

section \<open>Scanning a new flash\<close>

text \<open>The counter is \<open>bb_max - loop\<close>.\<close>

fun find_valid_loop :: "'h nand_ops \<Rightarrow> nat \<Rightarrow> u16 \<Rightarrow> ('h bmt_desc, u16) io" where
  "find_valid_loop N left block s =
    (if block \<ge> total_blks s then (Inr 0, s)
     else bindE (bbt_nand_read N (blk_pg block s) (pg_size s) 4) (\<lambda>(ret, dat, oob).
          bindE (fill_data_buf dat) (\<lambda>_.
          if ret = 0 \<and> oob = [] then failE UNINIT
          else if ret \<noteq> 0 \<or> oob ! 0 \<noteq> 0xFF
          then (case left of 0 \<Rightarrow> retE 0 | Suc n \<Rightarrow> find_valid_loop N n (block + 1))
          else retE block)) s)"

declare find_valid_loop.simps [simp del]

definition find_valid_block :: "'h nand_ops \<Rightarrow> u16 \<Rightarrow> ('h bmt_desc, u16) io" where
  "find_valid_block N block s = find_valid_loop N (unat (bb_max s)) block s"

text \<open>The entries of \<open>bb_tbl\<close> from 1; the result is whether all blocks were found.\<close>

primrec fill_bb_tbl :: "'h nand_ops \<Rightarrow> nat list \<Rightarrow> ('h bmt_desc, bool) io" where
  "fill_bb_tbl N [] = retE True"
| "fill_bb_tbl N (i # is) =
    bindE (get_bb (i - 1)) (\<lambda>p.
    bindE (find_valid_block N (p + 1)) (\<lambda>b.
    bindE (put_bb i b) (\<lambda>_.
    if b = 0 then retE False else fill_bb_tbl N is)))"

text \<open>The good blocks of the pool; the result is their number.\<close>

partial_function (option) fill_pool ::
  "'h nand_ops \<Rightarrow> nat \<Rightarrow> u16 \<Rightarrow> 'h bmt_desc \<Rightarrow> ((errno + nat) \<times> 'h bmt_desc) option" where
  "fill_pool N i block s =
    (case find_valid_block N block s of
       (Inl e, s) \<Rightarrow> Some (Inl e, s)
     | (Inr b, s) \<Rightarrow>
         if b = 0 then Some (Inr i, s)
         else (case bindE (put_block i b) (\<lambda>_. put_mapped i NO_MAPPED) s of
                 (Inl e, s) \<Rightarrow> Some (Inl e, s)
               | (Inr _, s) \<Rightarrow> fill_pool N (i + 1) (b + 1) s))"

text \<open>The entry of the table is marked before the number of entries is checked.\<close>

definition scan_pool :: "'h nand_ops \<Rightarrow> 'h bmt_desc \<Rightarrow> ((errno + int) \<times> 'h bmt_desc) option" where
  "scan_pool N s =
    (case fill_pool N 0 (pool_pba s) s of
       None \<Rightarrow> None
     | Some (Inl e, s) \<Rightarrow> Some (Inl e, s)
     | Some (Inr i, s) \<Rightarrow>
         let idx = of_nat i - 1 :: u16
         in Some (bindE (put_mapped (unat idx) BMT_MAPPED) (\<lambda>_. retE (if i < 1 then - 1 else 0)) (s\<lparr>bmt_blk_idx := idx\<rparr>)))"

definition scan_bad_blocks :: "'h nand_ops \<Rightarrow> 'h bmt_desc \<Rightarrow> ((errno + int) \<times> 'h bmt_desc) option" where
  "scan_bad_blocks N s =
    (case bindE (put_bb 0 0) (\<lambda>_. fill_bb_tbl N [1..<unat (pool_lba s)]) s of
       (Inl e, s) \<Rightarrow> Some (Inl e, s)
     | (Inr False, s) \<Rightarrow> Some (Inr (- 1), s)
     | (Inr True, s) \<Rightarrow>
         (case get_bb (max 1 (unat (pool_lba s)) - 1) s of
            (Inl e, s) \<Rightarrow> Some (Inl e, s)
          | (Inr p, s) \<Rightarrow>
              let s = s\<lparr>pool_pba := p + 1\<rparr>
              in if uint (p + 1) \<ge> uint (total_blks s) - 2 then Some (Inr (- 1), s) else scan_pool N s))"

section \<open>The stored table\<close>

definition is_valid_bmt :: "u8 list \<Rightarrow> u8 list \<Rightarrow> bool" where
  "is_valid_bmt buf fdm \<longleftrightarrow>
     take 3 (drop MAIN_SIGNATURE_OFFSET buf) = main_sig \<and> take 3 (drop OOB_SIGNATURE_OFFSET fdm) = bmt_sig
     \<and> buf ! 3 = BBMT_VERSION"

text \<open>The list has all indices whose entries can be inside the buffer.\<close>

primrec bmt_index_loop :: "nat list \<Rightarrow> ('h bmt_desc, u16) io" where
  "bmt_index_loop [] = failE BUF_OVERRUN"
| "bmt_index_loop (i # is) =
    bindE (get_block i) (\<lambda>b.
    if b = BMT_TBL_DEF_VAL then retE 0
    else bindE (get_mapped i) (\<lambda>m. if m = BMT_MAPPED then retE (of_nat i) else bmt_index_loop is))"

definition get_bmt_index :: "('h bmt_desc, u16) io" where
  "get_bmt_index s = bmt_index_loop [0..<length (bbt_buf s)] s"

definition sign_bmt :: "('h bmt_desc, unit) io" where
  "sign_bmt s =
    (if length (bbt_buf s) < 4 then (Inl BUF_OVERRUN, s)
     else (Inr (), s\<lparr>bbt_buf := main_sig @ [BBMT_VERSION] @ drop 4 (bbt_buf s)\<rparr>))"

text \<open>The argument is \<open>n + 1\<close>. A block that cannot be erased or written gets the number 0.\<close>

primrec upload_loop :: "'h nand_ops \<Rightarrow> nat \<Rightarrow> ('h bmt_desc, u16) io" where
  "upload_loop N 0 = retE (- 1)"
| "upload_loop N (Suc n) =
    bindE (get_mapped n) (\<lambda>m.
    if m = NORMAL_MAPPED then retE (- 1)
    else bindE (get_block n) (\<lambda>block.
         bindE (bbt_nand_erase N block) (\<lambda>ret.
         if ret \<noteq> 0 then bindE (put_block n 0) (\<lambda>_. upload_loop N n)
         else bindE sign_bmt (\<lambda>_.
              bindE (\<lambda>s. write_bmt N bmt_sig block (bbt_buf s) s) (\<lambda>ret.
              if ret \<noteq> 0 then bindE (put_block n 0) (\<lambda>_. upload_loop N n)
              else retE (of_nat n))))))"

text \<open>\<open>bmtd.bmt_blk_idx = upload_bmt(bbt, bmtd.bmt_blk_idx)\<close>.\<close>

definition upload_bmt :: "'h nand_ops \<Rightarrow> ('h bmt_desc, unit) io" where
  "upload_bmt N s = bindE (upload_loop N (Suc (unat (bmt_blk_idx s)))) (\<lambda>n s. (Inr (), s\<lparr>bmt_blk_idx := n\<rparr>)) s"

section \<open>Mapping\<close>

primrec find_in_pool :: "nat list \<Rightarrow> ('h bmt_desc, u16) io" where
  "find_in_pool [] = retE 0"
| "find_in_pool (i # is) =
    bindE (get_block i) (\<lambda>b.
    if b = 0 then find_in_pool is
    else bindE (get_mapped i) (\<lambda>m.
         if m = NO_MAPPED then bindE (put_mapped i NORMAL_MAPPED) (\<lambda>_. retE b) else find_in_pool is))"

definition find_valid_block_in_pool :: "('h bmt_desc, u16) io" where
  "find_valid_block_in_pool s = find_in_pool [0..<unat (bmt_blk_idx s)] s"

definition remap_block_v2 :: "'h nand_ops \<Rightarrow> u16 \<Rightarrow> u16 \<Rightarrow> int \<Rightarrow> ('h bmt_desc, bool) io" where
  "remap_block_v2 N block mapped_block copy_len =
    bindE find_valid_block_in_pool (\<lambda>new_block.
    if new_block = 0 then retE False
    else bindE (put_bb (unat block) new_block) (\<lambda>_.
         bindE (bbt_nand_erase N new_block) (\<lambda>_.
         bindE (if copy_len > 0 then bbt_nand_copy N new_block mapped_block copy_len else retE 0) (\<lambda>_.
         bindE (upload_bmt N) (\<lambda>_. retE True)))))"

definition get_mapping_block_index_v2 :: "int \<Rightarrow> ('h bmt_desc, int) io" where
  "get_mapping_block_index_v2 block s =
    (if block \<ge> uint (pool_lba s) then (Inr block, s)
     else if mapping_block_in_range block s = None then (Inr block, s)
     else if block < 0 then (Inl BUF_OVERRUN, s)
     else bindE (get_bb (nat block)) (\<lambda>b. retE (uint b)) s)"

definition unmap_block_v2 :: "'h nand_ops \<Rightarrow> u16 \<Rightarrow> ('h bmt_desc, unit) io" where
  "unmap_block_v2 N block = bindE (put_bb (unat block) block) (\<lambda>_. upload_bmt N)"

section \<open>Debugging\<close>

text \<open>The mask of the pool blocks in use, as the list of their indices. \<open>pool_index\<close> is the inner loop.\<close>

primrec pool_index :: "u16 \<Rightarrow> nat list \<Rightarrow> ('h bmt_desc, nat list) io" where
  "pool_index b [] = retE []"
| "pool_index b (k # ks) = bindE (get_block k) (\<lambda>x. if b \<noteq> x then pool_index b ks else retE [k])"

primrec mapping_mask_loop :: "nat list \<Rightarrow> nat list \<Rightarrow> ('h bmt_desc, nat list) io" where
  "mapping_mask_loop [] used = retE used"
| "mapping_mask_loop (i # is) used =
    bindE (get_bb i) (\<lambda>b.
    if b = of_nat i \<and> i < 65536 then mapping_mask_loop is used
    else (\<lambda>s. bindE (pool_index b [0..<unat (bmt_blk_idx s)]) (\<lambda>ks. mapping_mask_loop is (ks @ used)) s))"

definition main_blocks :: "'h bmt_desc \<Rightarrow> nat" where
  "main_blocks s = drop_bit (blk_shift s) (mtd_size s)"

definition mtk_bmt_get_mapping_mask :: "('h bmt_desc, nat list) io" where
  "mtk_bmt_get_mapping_mask s = mapping_mask_loop [1..<main_blocks s] [] s"

text \<open>Command 0 reads what it prints; command 100 frees the blocks of the pool that no entry uses.\<close>

primrec free_loop :: "nat list \<Rightarrow> nat list \<Rightarrow> nat \<Rightarrow> ('h bmt_desc, nat) io" where
  "free_loop used [] n = retE n"
| "free_loop used (i # is) n =
    bindE (get_mapped i) (\<lambda>m.
    if m \<noteq> NORMAL_MAPPED \<or> i \<in> set used then free_loop used is n
    else bindE (put_mapped i NO_MAPPED) (\<lambda>_. free_loop used is (n + 1)))"

definition mtk_bmt_debug_v2 :: "'h nand_ops \<Rightarrow> bool \<Rightarrow> nat \<Rightarrow> ('h bmt_desc, int) io" where
  "mtk_bmt_debug_v2 N kz val s =
    (if \<not> kz then (Inr ENOMEM_ret, s)
     else bindE mtk_bmt_get_mapping_mask (\<lambda>used s.
          if val = 0
          then bindE (forE [1..<main_blocks s] (\<lambda>i. bindE (get_bb i) (\<lambda>_. retE ()))) (\<lambda>_.
               bindE (forE [0..<Suc (unat (bmt_blk_idx s))] (\<lambda>i.
                 bindE (get_mapped i) (\<lambda>m. if m = NO_MAPPED then retE () else bindE (get_block i) (\<lambda>_. retE ())))) (\<lambda>_.
               retE 0)) s
          else if val = 100
          then bindE (free_loop used [0..<Suc (unat (bmt_blk_idx s))] 0) (\<lambda>n.
               bindE (if n > 0 then upload_bmt N else retE ()) (\<lambda>_. retE 0)) s
          else (Inr 0, s)) s)"

section \<open>Start-up\<close>

text \<open>
  The search for a stored table, from the last block down to the pool. A table whose index is 0 ends it
  without a result. The 16-bit counter wraps below 0.
\<close>

definition try_bmt :: "'h nand_ops \<Rightarrow> nat \<Rightarrow> u16 \<Rightarrow> ('h bmt_desc, bool) io" where
  "try_bmt N bufsz block s =
    bindE (bbt_nand_read N (blk_pg block s) bufsz 4) (\<lambda>(ret, dat, oob).
    bindE (fill_bbt_buf dat) (\<lambda>_ s.
    if ret \<noteq> 0 then (Inr True, s)
    else if length oob < 4 then (Inl UNINIT, s)
    else if \<not> is_valid_bmt (bbt_buf s) oob then (Inr True, s)
    else bindE get_bmt_index (\<lambda>i s.
         if i = 0 then (Inr False, s\<lparr>bmt_blk_idx := i\<rparr>)
         else (Inr False, s\<lparr>bmt_blk_idx := i, bbt_set := True\<rparr>)) s)) s"

partial_function (option) find_bmt_loop ::
  "'h nand_ops \<Rightarrow> nat \<Rightarrow> u16 \<Rightarrow> 'h bmt_desc \<Rightarrow> ((errno + unit) \<times> 'h bmt_desc) option" where
  "find_bmt_loop N bufsz block s =
    (if block \<ge> pool_lba s
     then (case try_bmt N bufsz block s of
             (Inl e, s) \<Rightarrow> Some (Inl e, s)
           | (Inr go, s) \<Rightarrow> if go then find_bmt_loop N bufsz (block - 1) s else Some (Inr (), s))
     else Some (Inr (), s))"

text \<open>\<open>memset\<close> on \<open>bmt_tbl\<close>: the number of bytes is that of \<open>table_size\<close> entries.\<close>

definition clear_bmt_tbl :: "('h bmt_desc, unit) io" where
  "clear_bmt_tbl s =
    (let o1 = bmt_tbl (table_size s) 0; n = table_size s * 4
     in if o1 + n > length (bbt_buf s) then (Inl BUF_OVERRUN, s)
        else (Inr (), s\<lparr>bbt_buf := take o1 (bbt_buf s) @ replicate n 0 @ drop (o1 + n) (bbt_buf s)\<rparr>))"

definition new_bmt :: "'h nand_ops \<Rightarrow> 'h bmt_desc \<Rightarrow> ((errno + int) \<times> 'h bmt_desc) option" where
  "new_bmt N s =
    (if unat (total_blks s) > unat (of_nat (table_size s) + of_nat (table_size s) * BBPOOL_RATIO div 100 :: u32)
     then Some (Inr (- 1), s)
     else case clear_bmt_tbl (s\<lparr>bbt_set := True\<rparr>) of
            (Inl e, s) \<Rightarrow> Some (Inl e, s)
          | (Inr _, s) \<Rightarrow>
              (case scan_bad_blocks N s of
                 None \<Rightarrow> None
               | Some (Inl e, s) \<Rightarrow> Some (Inl e, s)
               | Some (Inr ret, s) \<Rightarrow>
                   if ret \<noteq> 0 then Some (Inr (- 1), s)
                   else Some (bindE (upload_bmt N) (\<lambda>_ s.
                          bindE (get_block (unat (bmt_blk_idx s))) (\<lambda>_. retE (if bmt_blk_idx s = - 1 then - 1 else 0)) s) s)))"

definition of_default :: "'a option \<Rightarrow> 'a \<Rightarrow> 'a" where
  "of_default x d = (case x of None \<Rightarrow> d | Some v \<Rightarrow> v)"

definition v2_geometry :: "bmt_node \<Rightarrow> 'h bmt_desc \<Rightarrow> 'h bmt_desc" where
  "v2_geometry np s =
    (let pmt_block = ucast (ucast (total_blks s) - of_default (of_pool_size np) 80 - 2 :: u32) :: u16
     in s\<lparr>oob_offset := unat (of_default (of_oob_offset np) 0),
          table_size := unat (of_default (of_table_size np) 0x2000),
          mtd_size := unat (scast (push_bit (blk_shift s) (ucast pmt_block :: u32)) :: u64),
          pool_lba := pmt_block + 2,
          bb_max := ucast (ucast (total_blks s) * BBPOOL_RATIO div 100 :: u32)\<rparr>)"

definition v2_bufsz :: "'h bmt_desc \<Rightarrow> nat" where
  "v2_bufsz s = round_up (4 + table_size s * 4) (pg_size s) mod 2 ^ 32"

definition mtk_bmt_init_v2 ::
  "'h nand_ops \<Rightarrow> bmt_node \<Rightarrow> bool \<Rightarrow> 'h bmt_desc \<Rightarrow> ((errno + int) \<times> 'h bmt_desc) option" where
  "mtk_bmt_init_v2 N np kz s =
    (let s = v2_geometry np s;
         bufsz = v2_bufsz s;
         s = s\<lparr>bmt_pgs := drop_bit (pg_shift s) bufsz\<rparr>
     in if \<not> kz then Some (Inr ENOMEM_ret, s)
        else case find_bmt_loop N bufsz (total_blks s - 1)
               (s\<lparr>bbt_buf := replicate bufsz 0xFF, bbt_alloc := True, bmt_heap := bmt_heap s + 1, bbt_set := False\<rparr>) of
               None \<Rightarrow> None
             | Some (Inl e, s) \<Rightarrow> Some (Inl e, s)
             | Some (Inr _, s) \<Rightarrow> if bbt_set s then Some (Inr 0, s) else new_bmt N s)"

definition mtk_bmt_v2_ops :: "'h nand_ops \<Rightarrow> 'h mtk_bmt_ops" where
  "mtk_bmt_v2_ops N = \<lparr>bo_init = mtk_bmt_init_v2 N, bo_remap_block = remap_block_v2 N,
     bo_unmap_block = unmap_block_v2 N, bo_get_mapping_block = get_mapping_block_index_v2,
     bo_debug = mtk_bmt_debug_v2 N\<rparr>"

end
