(* ===== verification/V2_Table.thy ===== *)
theory V2_Table
  imports Mtk_Bmt_V2 Bbt_Remap
begin

text \<open>
  The buffer of \<open>mtk_bmt_v2.c\<close> as tables: the entries are independent variables, and the operations that
  the mapping needs run inside the buffer, on every chip. A table block of the pool that cannot be
  written is given up for the entry before it.
\<close>

section \<open>Entries\<close>

lemma length_set_word16 [simp]: "length (set_word16 buf i v) = length buf"
  by (simp add: set_word16_def)

lemma bytes_of_word: "push_bit 8 (ucast (ucast (drop_bit 8 v) :: u8)) OR ucast (ucast v :: u8) = (v :: u16)"
  by (rule bit_word_eqI) (auto simp: bit_simps)

lemma word16_set_same: "i + 1 < length buf \<Longrightarrow> word16 (set_word16 buf i v) i = v"
  by (simp add: word16_def set_word16_def bytes_of_word)

lemma word16_set_other: "j + 1 < i \<or> i + 1 < j \<Longrightarrow> word16 (set_word16 buf i v) j = word16 buf j"
  by (auto simp: word16_def set_word16_def)

definition bb :: "u8 list \<Rightarrow> nat \<Rightarrow> u16" where
  "bb buf i = word16 buf (bb_pos i)"

definition pool_block :: "nat \<Rightarrow> u8 list \<Rightarrow> nat \<Rightarrow> u16" where
  "pool_block ts buf i = word16 buf (bmt_tbl ts i)"

definition pool_use :: "nat \<Rightarrow> u8 list \<Rightarrow> nat \<Rightarrow> u16" where
  "pool_use ts buf i = word16 buf (bmt_tbl ts i + 2)"

lemmas positions = bb_pos_def bmt_tbl_def

text \<open>What setting an entry does to the others.\<close>

lemma set_bb:
  assumes "i < ts" "bb_pos ts \<le> length buf"
  shows "bb (set_word16 buf (bb_pos i) v) j = (if j = i then v else bb buf j)"
    "pool_block ts (set_word16 buf (bb_pos i) v) k = pool_block ts buf k"
    "pool_use ts (set_word16 buf (bb_pos i) v) k = pool_use ts buf k"
proof -
  show "bb (set_word16 buf (bb_pos i) v) j = (if j = i then v else bb buf j)"
  proof (cases "j = i")
    case True
    then show ?thesis using assms by (simp add: bb_def) (intro word16_set_same, simp add: positions)
  next
    case False
    then have "bb_pos j + 1 < bb_pos i \<or> bb_pos i + 1 < bb_pos j" by (auto simp: positions)
    then show ?thesis using False by (simp add: bb_def word16_set_other)
  qed
  have "bb_pos i + 1 < bmt_tbl ts k" using assms(1) by (simp add: positions)
  then show "pool_block ts (set_word16 buf (bb_pos i) v) k = pool_block ts buf k"
    "pool_use ts (set_word16 buf (bb_pos i) v) k = pool_use ts buf k"
    by (auto simp: pool_block_def pool_use_def intro!: word16_set_other)
qed

lemma set_use:
  assumes "bmt_tbl ts (Suc i) \<le> length buf"
  shows "j < ts \<Longrightarrow> bb (set_word16 buf (bmt_tbl ts i + 2) v) j = bb buf j"
    "pool_block ts (set_word16 buf (bmt_tbl ts i + 2) v) k = pool_block ts buf k"
    "pool_use ts (set_word16 buf (bmt_tbl ts i + 2) v) k = (if k = i then v else pool_use ts buf k)"
proof -
  show "bb (set_word16 buf (bmt_tbl ts i + 2) v) j = bb buf j" if "j < ts"
    unfolding bb_def by (rule word16_set_other) (use that in \<open>auto simp: positions\<close>)
  have "bmt_tbl ts k + 1 < bmt_tbl ts i + 2 \<or> bmt_tbl ts i + 2 + 1 < bmt_tbl ts k" unfolding positions by presburger
  then show "pool_block ts (set_word16 buf (bmt_tbl ts i + 2) v) k = pool_block ts buf k"
    unfolding pool_block_def by (rule word16_set_other)
  show "pool_use ts (set_word16 buf (bmt_tbl ts i + 2) v) k = (if k = i then v else pool_use ts buf k)"
  proof (cases "k = i")
    case True
    then show ?thesis using assms by (simp add: pool_use_def) (intro word16_set_same, simp add: positions)
  next
    case False
    then have "bmt_tbl ts k + 2 + 1 < bmt_tbl ts i + 2 \<or> bmt_tbl ts i + 2 + 1 < bmt_tbl ts k + 2" by (auto simp: positions)
    then show ?thesis using False by (simp add: pool_use_def word16_set_other)
  qed
qed

lemma set_pool_block:
  assumes "bmt_tbl ts (Suc i) \<le> length buf"
  shows "j < ts \<Longrightarrow> bb (set_word16 buf (bmt_tbl ts i) v) j = bb buf j"
    "k \<noteq> i \<Longrightarrow> pool_block ts (set_word16 buf (bmt_tbl ts i) v) k = pool_block ts buf k"
    "pool_use ts (set_word16 buf (bmt_tbl ts i) v) k = pool_use ts buf k"
proof -
  show "bb (set_word16 buf (bmt_tbl ts i) v) j = bb buf j" if "j < ts"
    unfolding bb_def by (rule word16_set_other) (use that in \<open>auto simp: positions\<close>)
  show "pool_block ts (set_word16 buf (bmt_tbl ts i) v) k = pool_block ts buf k" if "k \<noteq> i"
    unfolding pool_block_def by (rule word16_set_other) (use that in \<open>auto simp: positions\<close>)
  have "bmt_tbl ts k + 2 + 1 < bmt_tbl ts i \<or> bmt_tbl ts i + 1 < bmt_tbl ts k + 2" unfolding positions by presburger
  then show "pool_use ts (set_word16 buf (bmt_tbl ts i) v) k = pool_use ts buf k"
    unfolding pool_use_def by (rule word16_set_other)
qed

definition with_sig :: "u8 list \<Rightarrow> u8 list" where
  "with_sig buf = main_sig @ [BBMT_VERSION] @ drop 4 buf"

lemma length_with_sig: "4 \<le> length buf \<Longrightarrow> length (with_sig buf) = length buf"
  by (simp add: with_sig_def main_sig_def)

lemma with_sig_entries:
  assumes "4 \<le> length buf"
  shows "bb (with_sig buf) i = bb buf i" "pool_block ts (with_sig buf) i = pool_block ts buf i"
    "pool_use ts (with_sig buf) i = pool_use ts buf i"
proof -
  have "word16 (with_sig buf) j = word16 buf j" if "4 \<le> j" for j
  proof -
    have "with_sig buf ! k = buf ! k" if "4 \<le> k" for k
    proof -
      have "with_sig buf = (main_sig @ [BBMT_VERSION]) @ drop 4 buf" "length (main_sig @ [BBMT_VERSION]) = 4"
        by (simp_all add: with_sig_def main_sig_def)
      then have "with_sig buf ! k = drop 4 buf ! (k - 4)" using that by (simp only: nth_append) simp
      then show ?thesis using that assms by simp
    qed
    then show ?thesis using that by (simp add: word16_def)
  qed
  then show "bb (with_sig buf) i = bb buf i" "pool_block ts (with_sig buf) i = pool_block ts buf i"
    "pool_use ts (with_sig buf) i = pool_use ts buf i"
    by (simp_all add: bb_def pool_block_def pool_use_def positions)
qed

section \<open>Runs\<close>

definition free_entry :: "nat \<Rightarrow> u8 list \<Rightarrow> nat \<Rightarrow> bool" where
  "free_entry ts buf i \<longleftrightarrow> pool_block ts buf i \<noteq> 0 \<and> pool_use ts buf i = NO_MAPPED"

lemma pool_entry_run:
  assumes "bmt_tbl (table_size s) (Suc i) \<le> length (bbt_buf s)"
  shows "get_block i s = (Inr (pool_block (table_size s) (bbt_buf s) i), s)"
    "get_mapped i s = (Inr (pool_use (table_size s) (bbt_buf s) i), s)"
    "put_mapped i v s = (Inr (), s\<lparr>bbt_buf := set_word16 (bbt_buf s) (bmt_tbl (table_size s) i + 2) v\<rparr>)"
  using assms
  by (simp_all add: get_block_def get_mapped_def put_mapped_def get16_def put16_def pool_block_def pool_use_def positions)

lemma find_in_pool_run:
  assumes "\<forall>i \<in> set is. bmt_tbl (table_size s) (Suc i) \<le> length (bbt_buf s)"
  shows "find_in_pool is s =
    (case find (free_entry (table_size s) (bbt_buf s)) is of None \<Rightarrow> (Inr 0, s)
     | Some i \<Rightarrow> (Inr (pool_block (table_size s) (bbt_buf s) i),
         s\<lparr>bbt_buf := set_word16 (bbt_buf s) (bmt_tbl (table_size s) i + 2) NORMAL_MAPPED\<rparr>))"
  using assms
proof (induction "is")
  case (Cons i "is")
  then have "bmt_tbl (table_size s) (Suc i) \<le> length (bbt_buf s)" by simp
  note run = pool_entry_run [OF this]
  show ?case using Cons by (auto simp: bindE_def run free_entry_def retE_def)
qed (simp add: retE_def)

text \<open>A chip on which a block can be erased and written with spare bytes.\<close>

definition table_chip :: "'h nand_ops \<Rightarrow> nat \<Rightarrow> nat \<Rightarrow> bool" where
  "table_chip N addr n \<longleftrightarrow> (\<forall>h. fst (nand_erase N addr n h) = 0)
    \<and> (\<forall>d ofs oob h. oob \<noteq> [] \<longrightarrow> fst (fst (nand_write_oob N addr d ofs oob h)) = 0)"

lemma upload_run:
  assumes "bmt_tbl (table_size s) (Suc (unat (bmt_blk_idx s))) \<le> length (bbt_buf s)" "bbt_buffers s"
    "pool_use (table_size s) (bbt_buf s) (unat (bmt_blk_idx s)) \<noteq> NORMAL_MAPPED"
    "table_chip N (blk_addr (unat (pool_block (table_size s) (bbt_buf s) (unat (bmt_blk_idx s)))) s) (blk_size s)"
  shows "\<exists>h. upload_bmt N s = (Inr (), s\<lparr>bbt_buf := with_sig (bbt_buf s), bmt_hw := h\<rparr>)"
proof -
  let ?n = "unat (bmt_blk_idx s)" and ?ts = "table_size s"
  let ?b = "pool_block ?ts (bbt_buf s) ?n"
  note run = pool_entry_run [OF assms(1)]
  have four: "4 \<le> length (bbt_buf s)" using assms(1) by (simp add: positions)
  obtain h where e: "nand_erase N (blk_addr (unat ?b) s) (blk_size s) (bmt_hw s) = (0, h)"
    using assms(4) unfolding table_chip_def by (metis prod.collapse)
  let ?s = "s\<lparr>bmt_hw := h, bbt_buf := with_sig (bbt_buf s)\<rparr>"
  let ?len = "push_bit (pg_shift s) (bmt_pgs s)"
  have len: "\<not> ?len > length (with_sig (bbt_buf s))" using assms(2) four by (simp add: bbt_buffers_def length_with_sig)
  have "bmt_sig \<noteq> []" by (simp add: bmt_sig_def)
  then obtain k l h' where w: "nand_write_oob N (blk_addr (unat ?b) s) (take ?len (with_sig (bbt_buf s))) (OOB_SIGNATURE_OFFSET + oob_offset s)
      bmt_sig h = ((0, k, l), h')"
    using assms(4) unfolding table_chip_def by (metis prod.collapse)
  have "write_bmt N bmt_sig ?b (bbt_buf ?s) ?s = (Inr 0, ?s\<lparr>bmt_hw := h'\<rparr>)"
    using len w by (simp add: write_bmt_def Let_def bindE_def on_nand_def blk_addr_def retE_def)
  then have "upload_loop N (Suc ?n) s = (Inr (of_nat ?n), ?s\<lparr>bmt_hw := h'\<rparr>)"
    using assms(3) e four
    by (simp add: bindE_def run bbt_nand_erase_def on_nand_def sign_bmt_def with_sig_def retE_def)
  then show ?thesis by (auto simp: upload_bmt_def bindE_def)
qed

text \<open>
  What an upload leaves of the buffer, whatever the chip does: all entries of \<open>bb_tbl\<close>, all uses, and
  the blocks of the first \<open>k\<close> entries of the pool.
\<close>

definition upload_keeps :: "nat \<Rightarrow> nat \<Rightarrow> u8 list \<Rightarrow> u8 list \<Rightarrow> bool" where
  "upload_keeps ts k buf buf' \<longleftrightarrow> length buf' = length buf \<and> (\<forall>j < ts. bb buf' j = bb buf j)
    \<and> (\<forall>i. pool_use ts buf' i = pool_use ts buf i) \<and> (\<forall>i < k. pool_block ts buf' i = pool_block ts buf i)"

lemma upload_keeps_refl: "upload_keeps ts k buf buf"
  by (simp add: upload_keeps_def)

lemma upload_keeps_sig: "4 \<le> length buf \<Longrightarrow> upload_keeps ts k buf (with_sig buf)"
  by (simp add: upload_keeps_def with_sig_entries length_with_sig)

lemma upload_keeps_block: "bmt_tbl ts (Suc i) \<le> length buf \<Longrightarrow> upload_keeps ts i buf (set_word16 buf (bmt_tbl ts i) v)"
  by (simp add: upload_keeps_def set_pool_block)

lemma upload_keeps_trans:
  "upload_keeps ts k buf buf1 \<Longrightarrow> upload_keeps ts k' buf1 buf2 \<Longrightarrow> k' \<le> k \<Longrightarrow> upload_keeps ts k' buf buf2"
  by (simp add: upload_keeps_def)

lemma write_any:
  assumes "bbt_buffers s"
  shows "\<exists>x h. write_bmt N sig block (bbt_buf s) s = (Inr x, s\<lparr>bmt_hw := h\<rparr>)"
proof -
  have "\<not> push_bit (pg_shift s) (bmt_pgs s) > length (bbt_buf s)" using assms by (simp add: bbt_buffers_def)
  moreover obtain y h where "on_nand (nand_write_oob N (blk_addr (unat block) s) (take (push_bit (pg_shift s) (bmt_pgs s)) (bbt_buf s))
      (OOB_SIGNATURE_OFFSET + oob_offset s) sig) s = (Inr y, s\<lparr>bmt_hw := h\<rparr>)"
    using on_nand_any by metis
  ultimately show ?thesis by (auto simp: write_bmt_def Let_def bindE_def retE_def split: prod.split)
qed

text \<open>
  An upload on any chip stays inside the buffer. It ends with the index of an entry below \<open>k\<close> that is
  not in use by a logical block, or with \<open>-1\<close>.
\<close>

lemma upload_loop_any:
  assumes "bmt_tbl (table_size s) k \<le> length (bbt_buf s)" "bbt_buffers s"
  shows "\<exists>r buf h k'. upload_loop N k s = (Inr r, s\<lparr>bbt_buf := buf, bmt_hw := h\<rparr>)
    \<and> upload_keeps (table_size s) k' (bbt_buf s) buf
    \<and> (r = - 1 \<or> (\<exists>n < k. k' = Suc n \<and> r = of_nat n \<and> pool_use (table_size s) (bbt_buf s) n \<noteq> NORMAL_MAPPED))"
  using assms
proof (induction k arbitrary: s)
  case 0
  show ?case
    by (rule exI [of _ "- 1"], rule exI [of _ "bbt_buf s"], rule exI [of _ "bmt_hw s"]) (auto simp: retE_def upload_keeps_refl)
next
  case (Suc n)
  let ?ts = "table_size s" and ?buf = "bbt_buf s"
  note run = pool_entry_run [OF Suc.prems(1)]
  have four: "4 \<le> length ?buf" using Suc.prems(1) by (simp add: positions)
  have retry: "\<exists>r buf h' k'. bindE (put_block n 0) (\<lambda>_. upload_loop N n) (s\<lparr>bbt_buf := x, bmt_hw := h\<rparr>) =
        (Inr r, s\<lparr>bbt_buf := buf, bmt_hw := h'\<rparr>) \<and> upload_keeps ?ts k' ?buf buf
      \<and> (r = - 1 \<or> (\<exists>m < Suc n. k' = Suc m \<and> r = of_nat m \<and> pool_use ?ts ?buf m \<noteq> NORMAL_MAPPED))"
    if x: "upload_keeps ?ts n ?buf x" for x h
  proof -
    let ?y = "set_word16 x (bmt_tbl ?ts n) 0"
    have len: "length x = length ?buf" using x by (simp add: upload_keeps_def)
    then have y: "upload_keeps ?ts n ?buf ?y"
      using upload_keeps_trans [OF x upload_keeps_block] Suc.prems(1) by simp
    have put: "put_block n 0 (s\<lparr>bbt_buf := x, bmt_hw := h\<rparr>) = (Inr (), s\<lparr>bbt_buf := ?y, bmt_hw := h\<rparr>)"
      using Suc.prems(1) len by (simp add: put_block_def put16_def positions)
    have "bmt_tbl ?ts n \<le> length ?y" "bbt_buffers (s\<lparr>bbt_buf := ?y, bmt_hw := h\<rparr>)"
      using Suc.prems len by (simp_all add: positions bbt_buffers_def)
    then obtain r buf h' k' where r: "upload_loop N n (s\<lparr>bbt_buf := ?y, bmt_hw := h\<rparr>) = (Inr r, s\<lparr>bbt_buf := buf, bmt_hw := h'\<rparr>)"
      "upload_keeps ?ts k' ?y buf" "r = - 1 \<or> (\<exists>m < n. k' = Suc m \<and> r = of_nat m \<and> pool_use ?ts ?y m \<noteq> NORMAL_MAPPED)"
      using Suc.IH [of "s\<lparr>bbt_buf := ?y, bmt_hw := h\<rparr>"] by auto
    have use: "pool_use ?ts ?y m = pool_use ?ts ?buf m" for m using y by (simp add: upload_keeps_def)
    from r(3) show ?thesis
    proof
      assume "r = - 1"
      moreover have "upload_keeps ?ts 0 ?buf buf"
        using y r(2) by (simp add: upload_keeps_def)
      ultimately show ?thesis using r(1) put by (auto simp: bindE_def)
    next
      assume "\<exists>m < n. k' = Suc m \<and> r = of_nat m \<and> pool_use ?ts ?y m \<noteq> NORMAL_MAPPED"
      then obtain m where m: "m < n" "k' = Suc m" "r = of_nat m" "pool_use ?ts ?buf m \<noteq> NORMAL_MAPPED" by (auto simp: use)
      have "upload_keeps ?ts (Suc m) ?buf buf" using upload_keeps_trans [OF y r(2)] m by simp
      then show ?thesis
        using r(1) put m by (intro exI [of _ r] exI [of _ buf] exI [of _ h'] exI [of _ "Suc m"]) (auto simp: bindE_def)
    qed
  qed
  show ?case
  proof (cases "pool_use ?ts ?buf n = NORMAL_MAPPED")
    case True
    then have "upload_loop N (Suc n) s = (Inr (- 1), s\<lparr>bbt_buf := ?buf, bmt_hw := bmt_hw s\<rparr>)"
      by (simp add: bindE_def run retE_def)
    then show ?thesis using upload_keeps_refl by blast
  next
    case False
    let ?b = "pool_block ?ts ?buf n"
    obtain e h where e: "bbt_nand_erase N ?b s = (Inr e, s\<lparr>bmt_hw := h\<rparr>)" using erase_any [of N ?b s] by blast
    let ?s = "s\<lparr>bbt_buf := with_sig ?buf, bmt_hw := h\<rparr>"
    have "bbt_buffers ?s" using Suc.prems(2) four by (simp add: bbt_buffers_def length_with_sig)
    then obtain x h' where w: "write_bmt N bmt_sig ?b (with_sig ?buf) ?s = (Inr x, s\<lparr>bbt_buf := with_sig ?buf, bmt_hw := h'\<rparr>)"
      using write_any [of ?s N bmt_sig ?b] by auto
    have sig: "sign_bmt (s\<lparr>bmt_hw := h\<rparr>) = (Inr (), ?s)" using four by (simp add: sign_bmt_def with_sig_def)
    have up: "upload_loop N (Suc n) s =
        (if e \<noteq> 0 then bindE (put_block n 0) (\<lambda>_. upload_loop N n) (s\<lparr>bbt_buf := ?buf, bmt_hw := h\<rparr>)
         else if x \<noteq> 0 then bindE (put_block n 0) (\<lambda>_. upload_loop N n) (s\<lparr>bbt_buf := with_sig ?buf, bmt_hw := h'\<rparr>)
         else (Inr (of_nat n), s\<lparr>bbt_buf := with_sig ?buf, bmt_hw := h'\<rparr>))"
      using False w by (simp add: bindE_def run e sig retE_def)
    show ?thesis
    proof (cases "e \<noteq> 0 \<or> x \<noteq> 0")
      case True
      then show ?thesis
        using retry [OF upload_keeps_refl, of h] retry [OF upload_keeps_sig [OF four], of h'] unfolding up by (auto split: if_splits)
    next
      case False
      then show ?thesis
        using \<open>pool_use ?ts ?buf n \<noteq> NORMAL_MAPPED\<close> upload_keeps_sig [OF four, of ?ts "Suc n"] unfolding up
        by (intro exI [of _ "of_nat n"] exI [of _ "with_sig ?buf"] exI [of _ h'] exI [of _ "Suc n"]) auto
    qed
  qed
qed

section \<open>The invariant\<close>

definition pool_free :: "nat \<Rightarrow> nat \<Rightarrow> u8 list \<Rightarrow> nat set" where
  "pool_free ts idx buf = {i. i < idx \<and> free_entry ts buf i}"

text \<open>No physical block is used twice: neither by two logical blocks nor by one and a free entry of the pool.\<close>

definition v2_tables :: "int set \<Rightarrow> nat \<Rightarrow> nat \<Rightarrow> u8 list \<Rightarrow> bool" where
  "v2_tables D ts idx buf \<longleftrightarrow> inj_on (\<lambda>b. bb buf (nat b)) D \<and> inj_on (pool_block ts buf) (pool_free ts idx buf)
    \<and> (\<forall>b \<in> D. \<forall>i \<in> pool_free ts idx buf. bb buf (nat b) \<noteq> pool_block ts buf i)"

text \<open>The geometry and the size of the buffers, for the logical blocks \<open>D\<close>.\<close>

definition v2_frame :: "int set \<Rightarrow> nat \<Rightarrow> 'h bmt_desc \<Rightarrow> bool" where
  "v2_frame D sh s \<longleftrightarrow> blk_shift s = sh \<and> blk_size s = 2 ^ sh \<and> mtd_erasesize s = 2 ^ sh \<and> bbt_buffers s
    \<and> D \<subseteq> {0..<uint (pool_lba s)} \<and> uint (pool_lba s) \<le> int (table_size s)
    \<and> (\<forall>b \<in> D. mapping_block_in_range b s \<noteq> None) \<and> bb_pos (table_size s) \<le> length (bbt_buf s)"

text \<open>The tables as the operations keep them; nothing is said of the chip.\<close>

definition v2_inv :: "int set \<Rightarrow> nat \<Rightarrow> 'h bmt_desc \<Rightarrow> bool" where
  "v2_inv D sh s \<longleftrightarrow> v2_frame D sh s
    \<and> bmt_tbl (table_size s) (Suc (unat (bmt_blk_idx s))) \<le> length (bbt_buf s)
    \<and> v2_tables D (table_size s) (unat (bmt_blk_idx s)) (bbt_buf s)
    \<and> pool_use (table_size s) (bbt_buf s) (unat (bmt_blk_idx s)) \<noteq> NORMAL_MAPPED"

text \<open>The same on a chip whose table block \<open>t\<close> can be erased and written.\<close>

definition v2_ok :: "'h nand_ops \<Rightarrow> int set \<Rightarrow> u16 \<Rightarrow> nat \<Rightarrow> 'h bmt_desc \<Rightarrow> bool" where
  "v2_ok N D t sh s \<longleftrightarrow> v2_inv D sh s
    \<and> pool_block (table_size s) (bbt_buf s) (unat (bmt_blk_idx s)) = t \<and> table_chip N (unat t * 2 ^ sh) (2 ^ sh)"

lemma v2_okD: "v2_ok N D t sh s \<Longrightarrow> v2_inv D sh s"
  by (simp add: v2_ok_def)

lemma v2_invD: "v2_inv D sh s \<Longrightarrow> v2_frame D sh s"
  by (simp add: v2_inv_def)

lemma v2_block:
  assumes "v2_frame D sh s" "b \<in> D"
  shows "0 \<le> b" "b < uint (pool_lba s)" "nat b < table_size s" "b < 65536"
proof -
  show b: "0 \<le> b" "b < uint (pool_lba s)" using assms by (auto simp: v2_frame_def)
  have "uint (pool_lba s) \<le> int (table_size s)" using assms(1) by (simp add: v2_frame_def)
  then show "nat b < table_size s" using b by linarith
  show "b < 65536" using b(2) uint_bounded [of "pool_lba s"] by simp
qed

lemma v2_get:
  assumes "v2_frame D sh s" "b \<in> D"
  shows "get_mapping_block_index_v2 b s = (Inr (uint (bb (bbt_buf s) (nat b))), s)"
proof -
  have "mapping_block_in_range b s \<noteq> None" "bb_pos (table_size s) \<le> length (bbt_buf s)"
    using assms by (auto simp: v2_frame_def)
  then show ?thesis
    using v2_block [OF assms] by (auto simp: get_mapping_block_index_v2_def get_bb_def get16_def bb_def bindE_def retE_def positions)
qed

text \<open>The buffer after entry \<open>i\<close> of the pool has been given to block \<open>b\<close>, and as an upload writes it.\<close>

definition given :: "nat \<Rightarrow> u8 list \<Rightarrow> nat \<Rightarrow> nat \<Rightarrow> u8 list" where
  "given ts buf i b = set_word16 (set_word16 buf (bmt_tbl ts i + 2) NORMAL_MAPPED) (bb_pos b) (pool_block ts buf i)"

definition taken :: "nat \<Rightarrow> u8 list \<Rightarrow> nat \<Rightarrow> nat \<Rightarrow> u8 list" where
  "taken ts buf i b = with_sig (given ts buf i b)"

lemma given_entries:
  assumes "bmt_tbl ts (Suc i) \<le> length buf" "b < ts"
  shows "length (given ts buf i b) = length buf"
    "c < ts \<Longrightarrow> bb (given ts buf i b) c = (if c = b then pool_block ts buf i else bb buf c)"
    "pool_block ts (given ts buf i b) k = pool_block ts buf k"
    "pool_use ts (given ts buf i b) k = (if k = i then NORMAL_MAPPED else pool_use ts buf k)"
proof -
  let ?x = "set_word16 buf (bmt_tbl ts i + 2) NORMAL_MAPPED"
  have "bb_pos ts \<le> length ?x" using assms(1) by (simp add: positions)
  then show "length (given ts buf i b) = length buf"
    "c < ts \<Longrightarrow> bb (given ts buf i b) c = (if c = b then pool_block ts buf i else bb buf c)"
    "pool_block ts (given ts buf i b) k = pool_block ts buf k"
    "pool_use ts (given ts buf i b) k = (if k = i then NORMAL_MAPPED else pool_use ts buf k)"
    using set_bb [OF assms(2)] set_use [OF assms(1)] by (simp_all add: given_def)
qed

lemma given_tables:
  assumes "v2_tables D ts idx buf" "i \<in> pool_free ts idx buf" "bmt_tbl ts (Suc i) \<le> length buf" "b \<in> D" "\<forall>c \<in> D. 0 \<le> c \<and> c < int ts"
  shows "v2_tables D ts idx (given ts buf i (nat b))"
proof -
  have b: "nat b < ts" "\<And>c. c \<in> D \<Longrightarrow> nat c < ts" using assms(4,5) by (auto simp: nat_less_iff)
  note e = given_entries [OF assms(3) b(1)]
  have f: "pool_free ts idx (given ts buf i (nat b)) = pool_free ts idx buf - {i}"
    by (auto simp: pool_free_def free_entry_def e)
  have bb': "bb (given ts buf i (nat b)) (nat c) = (if c = b then pool_block ts buf i else bb buf (nat c))" if "c \<in> D" for c
    using e(2) [OF b(2) [OF that]] assms(4,5) that by (auto simp: eq_nat_nat_iff)
  have "inj_on (\<lambda>c. bb (given ts buf i (nat b)) (nat c)) D"
  proof (rule inj_onI)
    fix c d assume c: "c \<in> D" "d \<in> D" "bb (given ts buf i (nat b)) (nat c) = bb (given ts buf i (nat b)) (nat d)"
    moreover have "bb buf (nat x) \<noteq> pool_block ts buf i" if "x \<in> D" for x using assms(1,2) that by (simp add: v2_tables_def)
    ultimately have "c = d \<or> bb buf (nat c) = bb buf (nat d)"
      unfolding bb' [OF c(1)] bb' [OF c(2)] by (metis (full_types))
    then show "c = d" using assms(1) c(1,2) by (auto simp: v2_tables_def dest: inj_onD)
  qed
  moreover have "inj_on (pool_block ts buf) (pool_free ts idx buf - {i})"
    using assms(1) by (auto simp: v2_tables_def intro: inj_on_diff)
  moreover have "bb (given ts buf i (nat b)) (nat c) \<noteq> pool_block ts buf j" if "c \<in> D" "j \<in> pool_free ts idx buf - {i}" for c j
  proof -
    have "pool_block ts buf i \<noteq> pool_block ts buf j"
      using assms(1,2) that(2) inj_onD [of "pool_block ts buf" "pool_free ts idx buf" i j] by (auto simp: v2_tables_def)
    then show ?thesis using assms(1) that by (auto simp: v2_tables_def bb')
  qed
  ultimately show ?thesis by (simp add: v2_tables_def f e(3) inj_on_def)
qed

text \<open>An upload keeps the tables for the entries before the new index.\<close>

lemma upload_tables:
  assumes "v2_tables D ts idx buf" "upload_keeps ts k buf buf'" "idx' \<le> idx" "idx' \<le> k" "\<forall>c \<in> D. 0 \<le> c \<and> c < int ts"
  shows "v2_tables D ts idx' buf'"
proof -
  have b: "bb buf' (nat c) = bb buf (nat c)" if "c \<in> D" for c
    using assms(2,5) that by (simp add: upload_keeps_def nat_less_iff)
  have p: "pool_block ts buf' i = pool_block ts buf i \<and> i \<in> pool_free ts idx buf" if "i \<in> pool_free ts idx' buf'" for i
    using assms(2-4) that by (auto simp: upload_keeps_def pool_free_def free_entry_def)
  show ?thesis
    using assms(1) b p unfolding v2_tables_def inj_on_def by metis
qed

text \<open>Remapping: without a free entry nothing happens, otherwise the first one is taken.\<close>

lemma remap_v2_none:
  assumes "v2_inv D sh s" "pool_free (table_size s) (unat (bmt_blk_idx s)) (bbt_buf s) = {}"
  shows "remap_block_v2 N b mb n s = (Inr False, s)"
proof -
  have "find_in_pool [0..<unat (bmt_blk_idx s)] s = (Inr 0, s)"
  proof -
    have "find (free_entry (table_size s) (bbt_buf s)) [0..<unat (bmt_blk_idx s)] = None"
      using assms(2) by (auto simp: find_None_iff pool_free_def)
    then show ?thesis using assms(1) by (subst find_in_pool_run) (auto simp: v2_inv_def positions)
  qed
  then show ?thesis by (simp add: remap_block_v2_def bindE_def find_valid_block_in_pool_def retE_def)
qed

lemma remap_v2_some:
  assumes ok: "v2_inv D sh s" and b: "b \<in> D" and i: "i \<in> pool_free (table_size s) (unat (bmt_blk_idx s)) (bbt_buf s)"
    "\<forall>j < i. \<not> free_entry (table_size s) (bbt_buf s) j"
  shows "\<exists>d h. remap_block_v2 N (word_of_int b) mb n s =
      bindE (upload_bmt N) (\<lambda>_. retE True) (s\<lparr>bbt_buf := given (table_size s) (bbt_buf s) i (nat b), data_buf := d, bmt_hw := h\<rparr>)
    \<and> length d = length (data_buf s)"
proof -
  let ?ts = "table_size s" and ?idx = "unat (bmt_blk_idx s)" and ?buf = "bbt_buf s"
  let ?x = "set_word16 ?buf (bmt_tbl ?ts i + 2) NORMAL_MAPPED"
  let ?y = "given ?ts ?buf i (nat b)"
  note frame = v2_invD [OF ok]
  have u: "unat (word_of_int b :: u16) = nat b" and ts: "nat b < ?ts" using v2_block [OF frame b] by (simp_all add: unat_block)
  have il: "i < ?idx" "bmt_tbl ?ts (Suc i) \<le> length ?buf" using ok i by (auto simp: v2_inv_def positions pool_free_def)
  have "find (free_entry ?ts ?buf) [0..<?idx] = Some i"
    unfolding find_Some_iff using i il by (intro exI [of _ i]) (auto simp: pool_free_def)
  then have 1: "find_in_pool [0..<?idx] s = (Inr (pool_block ?ts ?buf i), s\<lparr>bbt_buf := ?x\<rparr>)"
    using ok by (subst find_in_pool_run) (auto simp: v2_inv_def positions)
  have 2: "put_bb (nat b) (pool_block ?ts ?buf i) (s\<lparr>bbt_buf := ?x\<rparr>) = (Inr (), s\<lparr>bbt_buf := ?y\<rparr>)"
    using frame ts by (simp add: put_bb_def put16_def v2_frame_def positions given_def)
  obtain r h where 3: "bbt_nand_erase N (pool_block ?ts ?buf i) (s\<lparr>bbt_buf := ?y\<rparr>) = (Inr r, s\<lparr>bbt_buf := ?y, bmt_hw := h\<rparr>)"
    using erase_any [of N "pool_block ?ts ?buf i" "s\<lparr>bbt_buf := ?y\<rparr>"] by blast
  have buf: "bbt_buffers (s\<lparr>bbt_buf := ?y, bmt_hw := h\<rparr>)"
    using frame by (simp add: v2_frame_def bbt_buffers_def given_entries(1) [OF il(2) ts])
  have "\<exists>x d h'. (if n > 0 then bbt_nand_copy N (pool_block ?ts ?buf i) mb n else retE 0) (s\<lparr>bbt_buf := ?y, bmt_hw := h\<rparr>) =
      (Inr x, s\<lparr>bbt_buf := ?y, data_buf := d, bmt_hw := h'\<rparr>) \<and> length d = length (data_buf s)"
  proof (cases "n > 0")
    case True
    then show ?thesis using copy_run [OF buf, of N "pool_block ?ts ?buf i" mb n] by auto
  next
    case False
    then show ?thesis using same_desc [of "s\<lparr>bbt_buf := ?y, bmt_hw := h\<rparr>"] by (simp add: retE_def)
  qed
  then obtain x d h' where 4: "(if n > 0 then bbt_nand_copy N (pool_block ?ts ?buf i) mb n else retE 0) (s\<lparr>bbt_buf := ?y, bmt_hw := h\<rparr>) =
      (Inr x, s\<lparr>bbt_buf := ?y, data_buf := d, bmt_hw := h'\<rparr>)" "length d = length (data_buf s)"
    by blast
  have nz: "pool_block ?ts ?buf i \<noteq> 0" using i by (simp add: pool_free_def free_entry_def)
  have "remap_block_v2 N (word_of_int b) mb n s =
      bindE (upload_bmt N) (\<lambda>_. retE True) (s\<lparr>bbt_buf := ?y, data_buf := d, bmt_hw := h'\<rparr>)"
    using nz 4(1) unfolding remap_block_v2_def
    by (simp add: bindE_def [of find_valid_block_in_pool] bindE_def [of "put_bb x v" for x v] bindE_def [of "bbt_nand_erase N x" for x]
        bindE_def [of "if c then x else y" for c x y] find_valid_block_in_pool_def u 1 2 3 del: add_2_eq_Suc')
  then show ?thesis using 4(2) by blast
qed

lemma least_free:
  assumes "pool_free ts idx buf \<noteq> {}"
  obtains i where "i \<in> pool_free ts idx buf" "\<forall>j < i. \<not> free_entry ts buf j"
proof -
  obtain i where "i \<in> pool_free ts idx buf" "\<forall>j < i. j \<notin> pool_free ts idx buf"
    using assms exists_least_iff [of "\<lambda>i. i \<in> pool_free ts idx buf"] by blast
  then show thesis by (intro that) (auto simp: pool_free_def)
qed

lemma v2_frame_same:
  assumes "v2_frame D sh s" "length buf = length (bbt_buf s)" "length d = length (data_buf s)"
  shows "v2_frame D sh (s\<lparr>bbt_buf := buf, data_buf := d, bmt_hw := h, bmt_blk_idx := x\<rparr>)"
proof -
  have "mapping_block_in_range b (s\<lparr>bbt_buf := buf, data_buf := d, bmt_hw := h, bmt_blk_idx := x\<rparr>) = mapping_block_in_range b s" for b
    by (cases "remap_range s") (simp_all add: mapping_block_in_range_def Let_def)
  then show ?thesis using assms by (simp add: v2_frame_def bbt_buffers_def)
qed

text \<open>
  A remap on any chip, with a free entry \<open>i\<close>: the block gets the block of the first one. Unless the
  index of the table block is lost, the invariant holds again.
\<close>

lemma remap_v2_any:
  assumes ok: "v2_inv D sh s" and b: "b \<in> D" and i: "i \<in> pool_free (table_size s) (unat (bmt_blk_idx s)) (bbt_buf s)"
    "\<forall>j < i. \<not> free_entry (table_size s) (bbt_buf s) j"
  shows "\<exists>s'. remap_block_v2 N (word_of_int b) mb n s = (Inr True, s') \<and> v2_frame D sh s'
    \<and> (\<forall>c \<in> D. bb (bbt_buf s') (nat c) = (if c = b then pool_block (table_size s) (bbt_buf s) i else bb (bbt_buf s) (nat c)))
    \<and> (bmt_blk_idx s' \<noteq> - 1 \<longrightarrow> v2_inv D sh s')"
proof -
  let ?ts = "table_size s" and ?idx = "unat (bmt_blk_idx s)" and ?buf = "bbt_buf s"
  let ?y = "given ?ts ?buf i (nat b)"
  note frame = v2_invD [OF ok]
  have ts: "nat b < ?ts" using v2_block [OF frame b] by simp
  have D: "\<forall>c \<in> D. 0 \<le> c \<and> c < int ?ts" using v2_block [OF frame] by (simp add: nat_less_iff)
  have il: "i < ?idx" "bmt_tbl ?ts (Suc i) \<le> length ?buf" using ok i by (auto simp: v2_inv_def positions pool_free_def)
  note e = given_entries [OF il(2) ts]
  obtain d h where run: "remap_block_v2 N (word_of_int b) mb n s =
      bindE (upload_bmt N) (\<lambda>_. retE True) (s\<lparr>bbt_buf := ?y, data_buf := d, bmt_hw := h\<rparr>)" "length d = length (data_buf s)"
    using remap_v2_some [OF ok b i] by blast
  let ?s = "s\<lparr>bbt_buf := ?y, data_buf := d, bmt_hw := h\<rparr>"
  have "bmt_tbl (table_size ?s) (Suc ?idx) \<le> length (bbt_buf ?s)" "bbt_buffers ?s"
    using ok run(2) by (simp_all add: v2_inv_def v2_frame_def bbt_buffers_def e(1))
  then obtain r buf h' k where up: "upload_loop N (Suc ?idx) ?s = (Inr r, ?s\<lparr>bbt_buf := buf, bmt_hw := h'\<rparr>)"
    "upload_keeps ?ts k ?y buf" "r = - 1 \<or> (\<exists>m < Suc ?idx. k = Suc m \<and> r = of_nat m \<and> pool_use ?ts ?y m \<noteq> NORMAL_MAPPED)"
    using upload_loop_any [of ?s "Suc ?idx" N] by auto
  let ?s' = "s\<lparr>bbt_buf := buf, data_buf := d, bmt_hw := h', bmt_blk_idx := r\<rparr>"
  have len: "length buf = length ?buf" using up(2) by (simp add: upload_keeps_def e(1))
  have fin: "remap_block_v2 N (word_of_int b) mb n s = (Inr True, ?s')"
    using up(1) by (simp add: run(1) upload_bmt_def bindE_def retE_def)
  have bb': "bb buf (nat c) = (if c = b then pool_block ?ts ?buf i else bb ?buf (nat c))" if "c \<in> D" for c
  proof -
    have c: "nat c < ?ts" "0 \<le> c" "0 \<le> b" using v2_block [OF frame] that b by auto
    then have "bb buf (nat c) = bb ?y (nat c)" using up(2) by (simp add: upload_keeps_def)
    then show ?thesis using e(2) [OF c(1)] c(2,3) by (simp add: eq_nat_nat_iff)
  qed
  have frame': "v2_frame D sh ?s'" by (rule v2_frame_same [OF frame len run(2)])
  have inv: "v2_inv D sh ?s'" if "r \<noteq> - 1"
  proof -
    obtain m where m: "m < Suc ?idx" "k = Suc m" "r = of_nat m" "pool_use ?ts ?y m \<noteq> NORMAL_MAPPED" using up(3) \<open>r \<noteq> - 1\<close> by auto
    have "?idx < 65536" by (rule unat_u16_less)
    then have r: "unat r = m" using m(1,3) by (simp add: unat_of_nat take_bit_nat_eq_self_iff)
    have "v2_tables D ?ts ?idx ?y"
      by (rule given_tables [OF _ i(1) il(2) b D]) (use ok in \<open>simp add: v2_inv_def\<close>)
    then have "v2_tables D ?ts m buf"
      by (rule upload_tables [OF _ up(2) _ _ D]) (use m in simp_all)
    moreover have "pool_use ?ts buf m \<noteq> NORMAL_MAPPED" using up(2) m(4) by (simp add: upload_keeps_def)
    moreover have "bmt_tbl ?ts (Suc m) \<le> length buf" using ok m(1) len by (simp add: v2_inv_def positions)
    ultimately show ?thesis using frame' r by (simp add: v2_inv_def)
  qed
  show ?thesis by (rule exI [of _ ?s']) (use fin frame' bb' inv in simp)
qed

lemma remap_v2_ok:
  assumes ok: "v2_ok N D t sh s" and b: "b \<in> D"
  shows "\<exists>x s'. remap_block_v2 N (word_of_int b) mb n s = (Inr x, s') \<and> v2_ok N D t sh s'"
proof (cases "pool_free (table_size s) (unat (bmt_blk_idx s)) (bbt_buf s) = {}")
  case True
  then show ?thesis using remap_v2_none [OF v2_okD [OF ok] True] ok by auto
next
  case False
  let ?ts = "table_size s" and ?idx = "unat (bmt_blk_idx s)" and ?buf = "bbt_buf s"
  note inv = v2_okD [OF ok]
  obtain i where i: "i \<in> pool_free ?ts ?idx ?buf" "\<forall>j < i. \<not> free_entry ?ts ?buf j" using least_free [OF False] by blast
  let ?y = "given ?ts ?buf i (nat b)" and ?z = "taken ?ts ?buf i (nat b)"
  have ts: "nat b < ?ts" using v2_block [OF v2_invD [OF inv] b] by simp
  have D: "\<forall>c \<in> D. 0 \<le> c \<and> c < int ?ts" using v2_block [OF v2_invD [OF inv]] by (simp add: nat_less_iff)
  have il: "i < ?idx" "bmt_tbl ?ts (Suc i) \<le> length ?buf" using inv i by (auto simp: v2_inv_def positions pool_free_def)
  note e = given_entries [OF il(2) ts]
  have four: "4 \<le> length ?y" using il(2) e(1) by (simp add: positions)
  obtain d h where run: "remap_block_v2 N (word_of_int b) mb n s =
      bindE (upload_bmt N) (\<lambda>_. retE True) (s\<lparr>bbt_buf := ?y, data_buf := d, bmt_hw := h\<rparr>)" "length d = length (data_buf s)"
    using remap_v2_some [OF inv b i] by blast
  let ?s = "s\<lparr>bbt_buf := ?y, data_buf := d, bmt_hw := h\<rparr>"
  have "\<exists>h. upload_bmt N ?s = (Inr (), ?s\<lparr>bbt_buf := with_sig (bbt_buf ?s), bmt_hw := h\<rparr>)"
    by (rule upload_run)
      (use ok run(2) e il(1) in \<open>auto simp: v2_ok_def v2_inv_def v2_frame_def bbt_buffers_def blk_addr_def push_bit_eq_mult\<close>)
  then obtain h' where "upload_bmt N ?s = (Inr (), ?s\<lparr>bbt_buf := ?z, bmt_hw := h'\<rparr>)" by (auto simp: taken_def)
  moreover have "?s\<lparr>bbt_buf := ?z, bmt_hw := h'\<rparr> = s\<lparr>bbt_buf := ?z, data_buf := d, bmt_hw := h'\<rparr>" by simp
  ultimately have "upload_bmt N ?s = (Inr (), s\<lparr>bbt_buf := ?z, data_buf := d, bmt_hw := h'\<rparr>)" by simp
  then have fin: "remap_block_v2 N (word_of_int b) mb n s = (Inr True, s\<lparr>bbt_buf := ?z, data_buf := d, bmt_hw := h'\<rparr>)"
    by (simp add: run(1) bindE_def retE_def)
  have keeps: "upload_keeps ?ts (Suc ?idx) ?y ?z" unfolding taken_def by (rule upload_keeps_sig [OF four])
  have "v2_tables D ?ts ?idx ?y"
    by (rule given_tables [OF _ i(1) il(2) b D]) (use inv in \<open>simp add: v2_inv_def\<close>)
  then have tbl: "v2_tables D ?ts ?idx ?z" by (rule upload_tables [OF _ keeps _ _ D]) simp_all
  have len: "length ?z = length ?buf" using keeps e(1) by (simp add: upload_keeps_def)
  have "v2_frame D sh (s\<lparr>bbt_buf := ?z, data_buf := d, bmt_hw := h', bmt_blk_idx := bmt_blk_idx s\<rparr>)"
    by (rule v2_frame_same [OF v2_invD [OF inv] len run(2)])
  then have "v2_frame D sh (s\<lparr>bbt_buf := ?z, data_buf := d, bmt_hw := h'\<rparr>)" by simp
  then have "v2_ok N D t sh (s\<lparr>bbt_buf := ?z, data_buf := d, bmt_hw := h'\<rparr>)"
    using ok tbl keeps len il(1) e by (simp add: v2_ok_def v2_inv_def upload_keeps_def)
  then show ?thesis using fin by blast
qed

interpretation v2: bmt_table "mtk_bmt_v2_ops N" "v2_ok N D t sh" D "\<lambda>s b. uint (bb (bbt_buf s) (nat b))" sh
  for N :: "'h nand_ops" and D t sh
proof
  fix s :: "'h bmt_desc" and b n assume ok: "v2_ok N D t sh s" and b: "b \<in> D"
  note frame = v2_invD [OF v2_okD [OF ok]]
  show "0 \<le> b \<and> b < 65536" using v2_block [OF frame b] by simp
  show "bo_get_mapping_block (mtk_bmt_v2_ops N) b s = (Inr (uint (bb (bbt_buf s) (nat b))), s)"
    using v2_get [OF frame b] by (simp add: mtk_bmt_v2_ops_def)
  show "\<exists>x s'. bo_remap_block (mtk_bmt_v2_ops N) (word_of_int b) (word_of_int (uint (bb (bbt_buf s) (nat b)))) n s = (Inr x, s')
      \<and> v2_ok N D t sh s'"
    using remap_v2_ok [OF ok b] by (simp add: mtk_bmt_v2_ops_def)
next
  fix s :: "'h bmt_desc" assume "v2_ok N D t sh s"
  then have "inj_on (\<lambda>b. bb (bbt_buf s) (nat b)) D" by (simp add: v2_ok_def v2_inv_def v2_tables_def)
  then show "inj_on (\<lambda>b. uint (bb (bbt_buf s) (nat b))) D" by (simp add: inj_on_def word_uint_eq_iff)
qed (simp_all add: v2_ok_def v2_inv_def v2_frame_def bbt_buffers_def)

end
