(* ===== verification/V2_Properties.thy ===== *)
theory V2_Properties
  imports V2_Table Bmt_Properties
begin

text \<open>
  What the bad block management promises with the table of \<open>mtk_bmt_v2.c\<close>: remapping on every chip,
  accesses as long as the block that holds the table can be erased and written, and what start-up does
  with a flash that has no table yet.
\<close>

section \<open>A small flash\<close>

text \<open>Four logical blocks in front of a pool with one free block, 5, and the table in block 6.\<close>

definition small_v2 :: "'h \<Rightarrow> 'h bmt_desc" where
  "small_v2 h = (small_desc h)\<lparr>bbt_buf := [0x42, 0x4D, 0x54, 2, 0, 0, 1, 0, 2, 0, 3, 0, 5, 0, 0, 0, 6, 0, 2, 0], bbt_set := True,
     table_size := 4, pool_lba := 4, bmt_blk_idx := 1, bmt_pgs := 10, remap_range := None\<rparr>"

lemma small_v2_inv: "v2_inv {0..<4} 2 (small_v2 h)"
proof -
  let ?s = "small_v2 h"
  have b: "bb (bbt_buf ?s) 0 = 0" "bb (bbt_buf ?s) (Suc 0) = 1" "bb (bbt_buf ?s) 2 = 2" "bb (bbt_buf ?s) 3 = 3"
    by (simp_all add: bb_def word16_def small_v2_def positions)
  have p: "pool_block 4 (bbt_buf ?s) 0 = 5" "pool_use 4 (bbt_buf ?s) 0 = 0" "pool_block 4 (bbt_buf ?s) 1 = 6" "pool_use 4 (bbt_buf ?s) 1 = 2"
    by (simp_all add: pool_block_def pool_use_def word16_def small_v2_def positions)
  have four: "x = 0 \<or> x = 1 \<or> x = 2 \<or> x = 3" if "x \<in> {0..<4}" for x :: int using that by auto
  have "pool_free 4 1 (bbt_buf ?s) = {0}" using p by (auto simp: pool_free_def free_entry_def)
  moreover have "inj_on (\<lambda>x. bb (bbt_buf ?s) (nat x)) {0..<4}"
  proof (rule inj_onI)
    fix x y :: int assume xy: "x \<in> {0..<4}" "y \<in> {0..<4}" "bb (bbt_buf ?s) (nat x) = bb (bbt_buf ?s) (nat y)"
    show "x = y" using four [OF xy(1)] four [OF xy(2)] xy(3) by (elim disjE) (simp_all add: b)
  qed
  moreover have "bb (bbt_buf ?s) (nat x) \<noteq> 5" if "x \<in> {0..<4}" for x
    using four [OF that] by (elim disjE) (simp_all add: b)
  ultimately have t: "v2_tables {0..<4} 4 1 (bbt_buf ?s)" by (simp add: v2_tables_def p)
  have g: "blk_shift ?s = 2" "blk_size ?s = 4" "mtd_erasesize ?s = 4" "pool_lba ?s = 4" "table_size ?s = 4" "bmt_blk_idx ?s = 1"
    "remap_range ?s = None" "bbt_buffers ?s" "length (bbt_buf ?s) = 20"
    by (simp_all add: small_v2_def bbt_buffers_def) (simp_all add: small_desc_def)
  show ?thesis using t p g by (simp add: v2_inv_def v2_frame_def mapping_block_in_range_def positions)
qed

lemma small_v2_ok: "v2_ok nand_mem {0..<4} 6 2 (small_v2 h)"
proof -
  have "table_chip nand_mem (unat (6 :: u16) * 2 ^ 2) (2 ^ 2)" by (simp add: table_chip_def nand_mem_def)
  moreover have "pool_block 4 (bbt_buf (small_v2 h)) 1 = 6" by (simp add: pool_block_def word16_def small_v2_def positions)
  ultimately show ?thesis using small_v2_inv [of h] by (simp add: v2_ok_def) (simp add: small_v2_def)
qed

section \<open>Remapping\<close>

text \<open>C38. A remap with the second table, on any chip, whatever erasing, copying and writing return: it is
  refused exactly when no entry of the pool before the table's own is free, and then has no effect.
  Otherwise the block gets the physical block of the first free entry, which no logical block used, and
  every other block stays where it was. The tables then still hold no physical block twice and the
  table's own entry is not given to a logical block, unless no block of the pool could be
  written: the remap reports success then too, but the index of the table's entry is \<open>0xFFFF\<close>.\<close>

theorem v2_remap_fresh:
  assumes "v2_inv D sh s" "b \<in> D"
  defines "free \<equiv> \<lambda>i. fst (get_block i s) \<noteq> Inr 0 \<and> fst (get_mapped i s) = Inr NO_MAPPED"
  shows "\<exists>ok s'. remap_block_v2 N (word_of_int b) mb n s = (Inr ok, s')
    \<and> (ok \<longleftrightarrow> (\<exists>i < unat (bmt_blk_idx s). free i)) \<and> (\<not> ok \<longrightarrow> s' = s)
    \<and> (\<forall>c \<in> D. c \<noteq> b \<longrightarrow> fst (get_mapping_block_index_v2 c s') = fst (get_mapping_block_index_v2 c s))
    \<and> (ok \<longrightarrow> (\<exists>i < unat (bmt_blk_idx s). \<exists>x. free i \<and> (\<forall>j < i. \<not> free j) \<and> fst (get_block i s) = Inr x
          \<and> fst (get_mapping_block_index_v2 b s') = Inr (uint x))
        \<and> (\<forall>c \<in> D. fst (get_mapping_block_index_v2 b s') \<noteq> fst (get_mapping_block_index_v2 c s)))
    \<and> (bmt_blk_idx s' \<noteq> - 1 \<longrightarrow> v2_inv D sh s')"
proof -
  let ?ts = "table_size s" and ?idx = "unat (bmt_blk_idx s)" and ?buf = "bbt_buf s"
  note frame = v2_invD [OF assms(1)]
  have entry: "fst (get_block i s) = Inr (pool_block ?ts ?buf i)" "free i \<longleftrightarrow> free_entry ?ts ?buf i" if "i < ?idx" for i
  proof -
    have "bmt_tbl ?ts (Suc i) \<le> length ?buf" using assms(1) that by (simp add: v2_inv_def positions)
    then show "fst (get_block i s) = Inr (pool_block ?ts ?buf i)" "free i \<longleftrightarrow> free_entry ?ts ?buf i"
      by (simp_all add: pool_entry_run free_def free_entry_def)
  qed
  have some: "(\<exists>i < ?idx. free i) \<longleftrightarrow> pool_free ?ts ?idx ?buf \<noteq> {}" using entry(2) by (auto simp: pool_free_def)
  show ?thesis
  proof (cases "pool_free ?ts ?idx ?buf = {}")
    case True
    then show ?thesis using remap_v2_none [OF assms(1) True, of N "word_of_int b" mb n] assms(1) unfolding some by auto
  next
    case False
    obtain i where i: "i \<in> pool_free ?ts ?idx ?buf" "\<forall>j < i. \<not> free_entry ?ts ?buf j" using least_free [OF False] by blast
    obtain s' where s': "remap_block_v2 N (word_of_int b) mb n s = (Inr True, s')" "v2_frame D sh s'"
      "\<forall>c \<in> D. bb (bbt_buf s') (nat c) = (if c = b then pool_block ?ts ?buf i else bb ?buf (nat c))"
      "bmt_blk_idx s' \<noteq> - 1 \<longrightarrow> v2_inv D sh s'"
      using remap_v2_any [OF assms(1,2) i] by blast
    have idx: "i < ?idx" using i(1) by (simp add: pool_free_def)
    have new: "fst (get_mapping_block_index_v2 b s') = Inr (uint (pool_block ?ts ?buf i))"
      using s'(3) assms(2) by (simp add: v2_get [OF s'(2) assms(2)])
    have "uint (pool_block ?ts ?buf i) \<noteq> uint (bb ?buf (nat c))" if "c \<in> D" for c
    proof -
      have "bb ?buf (nat c) \<noteq> pool_block ?ts ?buf i" using assms(1) i(1) that by (simp add: v2_inv_def v2_tables_def)
      then show ?thesis by (auto simp: word_uint_eq_iff)
    qed
    then have fresh: "\<forall>c \<in> D. fst (get_mapping_block_index_v2 b s') \<noteq> fst (get_mapping_block_index_v2 c s)"
      using new by (simp add: v2_get [OF frame])
    have rest: "\<forall>c \<in> D. c \<noteq> b \<longrightarrow> fst (get_mapping_block_index_v2 c s') = fst (get_mapping_block_index_v2 c s)"
      using s'(3) by (simp add: v2_get [OF frame] v2_get [OF s'(2)])
    have first: "\<exists>i < ?idx. \<exists>x. free i \<and> (\<forall>j < i. \<not> free j) \<and> fst (get_block i s) = Inr x
        \<and> fst (get_mapping_block_index_v2 b s') = Inr (uint x)"
      using i idx entry new by (intro exI [of _ i] conjI exI [of _ "pool_block ?ts ?buf i"]) (auto simp: pool_free_def)
    show ?thesis
      by (intro exI [of _ True] exI [of _ s']) (use s'(1,4) rest fresh first some False in simp)
  qed
qed

text \<open>A chip on which nothing can be erased or written.\<close>

theorem v2_remap_fresh_witness:
  "\<exists>s'. remap_block_v2 nand_broken (word_of_int 2) 2 4 (small_v2 ()) = (Inr True, s')
     \<and> fst (get_mapping_block_index_v2 2 s') = Inr 5 \<and> bmt_blk_idx s' = - 1"
proof -
  let ?s = "small_v2 ()"
  note inv = small_v2_inv [of "()"]
  have b: "unat (bmt_blk_idx ?s) = 1" "fst (get_block 0 ?s) = Inr 5" "fst (get_mapped 0 ?s) = Inr NO_MAPPED"
    by (simp_all add: small_v2_def get_block_def get_mapped_def get16_def word16_def positions)
  obtain ok s' where r: "remap_block_v2 nand_broken (word_of_int 2) 2 4 ?s = (Inr ok, s')"
    "ok \<longleftrightarrow> (\<exists>i < unat (bmt_blk_idx ?s). fst (get_block i ?s) \<noteq> Inr 0 \<and> fst (get_mapped i ?s) = Inr NO_MAPPED)"
    "ok \<longrightarrow> (\<exists>i < unat (bmt_blk_idx ?s). \<exists>x. fst (get_block i ?s) = Inr x \<and> fst (get_mapping_block_index_v2 2 s') = Inr (uint x))"
    using v2_remap_fresh [OF inv, of 2 nand_broken 2 4] by auto
  have ok: ok unfolding r(2) b(1) using b(2,3) by (intro exI [of _ 0]) simp
  have "bmt_blk_idx (snd (remap_block_v2 nand_broken 2 2 4 ?s)) = - 1" by code_simp
  then have "bmt_blk_idx s' = - 1" using r(1) by simp
  moreover have "fst (get_mapping_block_index_v2 2 s') = Inr 5" using r(3) ok b(1,2) by auto
  ultimately show ?thesis using r(1) ok by auto
qed

section \<open>Access\<close>

lemma blocks_mapped:
  assumes "\<forall>c. i \<le> c \<and> c < i + k \<longrightarrow> int c \<in> D"
  shows "bmt_table.mapped D sh (i * 2 ^ sh) (k * 2 ^ sh)"
proof -
  have "i \<le> a div 2 ^ sh \<and> a div 2 ^ sh < i + k" if "i * 2 ^ sh \<le> a" "a < i * 2 ^ sh + k * 2 ^ sh" for a
    using that by (simp add: less_eq_div_iff_mult_less_eq div_less_iff_less_mult distrib_right)
  then show ?thesis using assms by (simp add: v2.mapped_def)
qed

text \<open>C39. On a chip that works, erasing blocks, writing into them and reading back through the second
  table gives the data that was written, and reading any other part of the mapped blocks gives what it
  gave before.\<close>

theorem v2_erase_write_read:
  assumes "v2_ok N D t sh s" "nand_bytes N content" "0 < k" "\<forall>c. i \<le> c \<and> c < i + k \<longrightarrow> int c \<in> D"
    "i * 2 ^ sh \<le> to" "to + length dat \<le> i * 2 ^ sh + k * 2 ^ sh"
  shows "\<exists>s1 s2. mtk_bmt_mtd_erase N (mtk_bmt_v2_ops N) (i * 2 ^ sh) (k * 2 ^ sh) s = Some (Inr (Some 0, None), s1)
    \<and> mtk_bmt_write N (mtk_bmt_v2_ops N) to dat 0 [] s1 = Some (Inr (0, length dat, 0), s2)
    \<and> mtk_bmt_read N (mtk_bmt_v2_ops N) to (length dat) 0 0 s2 = Some (Inr (0, dat, []), s2)
    \<and> (\<forall>p n. (\<forall>a. p \<le> a \<and> a < p + n \<longrightarrow> int (a div 2 ^ sh) \<in> D) \<and> (p + n \<le> i * 2 ^ sh \<or> i * 2 ^ sh + k * 2 ^ sh \<le> p) \<longrightarrow>
         (\<exists>d. mtk_bmt_read N (mtk_bmt_v2_ops N) p n 0 0 s = Some (Inr (0, d, []), s)
            \<and> mtk_bmt_read N (mtk_bmt_v2_ops N) p n 0 0 s2 = Some (Inr (0, d, []), s2)))"
  by (rule v2.erase_write_read_rest [OF assms(1-3) blocks_mapped [OF assms(4)] assms(5,6), unfolded v2.mapped_def])

theorem v2_erase_write_read_witness:
  "\<exists>s1 s2. mtk_bmt_mtd_erase nand_mem (mtk_bmt_v2_ops nand_mem) 4 8 (small_v2 (\<lambda>_. 0)) = Some (Inr (Some 0, None), s1)
    \<and> mtk_bmt_write nand_mem (mtk_bmt_v2_ops nand_mem) 6 [1, 2, 3, 4] 0 [] s1 = Some (Inr (0, 4, 0), s2)
    \<and> mtk_bmt_read nand_mem (mtk_bmt_v2_ops nand_mem) 6 4 0 0 s2 = Some (Inr (0, [1, 2, 3, 4], []), s2)"
proof -
  let ?Q = "mtk_bmt_v2_ops nand_mem" and ?d = "[1, 2, 3, 4] :: u8 list"
  have pre: "0 < (2 :: nat)" "\<forall>c. 1 \<le> c \<and> c < 1 + 2 \<longrightarrow> int c \<in> {0..<4}" "1 * 2 ^ 2 \<le> (6 :: nat)"
    "6 + length ?d \<le> 1 * 2 ^ 2 + 2 * 2 ^ 2"
    by auto
  obtain s1 s2 where r: "mtk_bmt_mtd_erase nand_mem ?Q (1 * 2 ^ 2) (2 * 2 ^ 2) (small_v2 (\<lambda>_. 0)) = Some (Inr (Some 0, None), s1)"
    "mtk_bmt_write nand_mem ?Q 6 ?d 0 [] s1 = Some (Inr (0, length ?d, 0), s2)"
    "mtk_bmt_read nand_mem ?Q 6 (length ?d) 0 0 s2 = Some (Inr (0, ?d, []), s2)"
    using v2_erase_write_read [OF small_v2_ok nand_mem_bytes pre, of "\<lambda>_. 0"] by (elim exE conjE)
  have "length ?d = 4" by simp
  then have "mtk_bmt_write nand_mem ?Q 6 ?d 0 [] s1 = Some (Inr (0, 4, 0), s2)"
    "mtk_bmt_read nand_mem ?Q 6 4 0 0 s2 = Some (Inr (0, ?d, []), s2)"
    using r(2,3) by metis+
  then show ?thesis using r(1) by auto
qed

text \<open>Accesses also return on a chip whose other blocks fail.\<close>

lemma v2_accesses_return:
  assumes "v2_ok N D t sh s" "nand_complete N" "\<forall>a. p \<le> a \<and> a < p + n \<longrightarrow> int (a div 2 ^ sh) \<in> D"
  shows "\<exists>x s'. mtk_bmt_read N (mtk_bmt_v2_ops N) p n 0 0 s = Some (Inr x, s') \<and> v2_ok N D t sh s'"
    "length dat = n \<Longrightarrow> \<exists>x s'. mtk_bmt_write N (mtk_bmt_v2_ops N) p dat 0 [] s = Some (Inr x, s') \<and> v2_ok N D t sh s'"
proof -
  have m: "bmt_table.mapped D sh p n" using assms(3) by (simp add: v2.mapped_def)
  show "\<exists>x s'. mtk_bmt_read N (mtk_bmt_v2_ops N) p n 0 0 s = Some (Inr x, s') \<and> v2_ok N D t sh s'"
    by (rule v2.read_returns [OF assms(1,2) m])
  show "\<exists>x s'. mtk_bmt_write N (mtk_bmt_v2_ops N) p dat 0 [] s = Some (Inr x, s') \<and> v2_ok N D t sh s'" if "length dat = n"
    using v2.write_returns [OF assms(1,2), of p dat] m that by simp
qed

section \<open>A flash without a table\<close>

text \<open>
  A flash without a table: in the states \<open>C\<close> of the chip, which reading does not leave, a read that
  succeeds delivers what was asked for, and data and spare bytes together are not a table.
\<close>

definition no_table :: "'h nand_ops \<Rightarrow> ('h \<Rightarrow> bool) \<Rightarrow> bool" where
  "no_table N C \<longleftrightarrow> (\<forall>h addr n ofs. C h \<and> 4 \<le> n \<longrightarrow>
     (let (r, h') = nand_read_oob N addr n ofs 4 h
      in C h' \<and> (nr_ret r < 0 \<or> n \<le> length (nr_data r) \<and> 4 \<le> length (nr_oob r) \<and> \<not> is_valid_bmt (nr_data r) (nr_oob r))))"

lemma is_valid_bmt_take:
  "4 \<le> n \<Longrightarrow> n \<le> length dat \<Longrightarrow> is_valid_bmt (take n dat @ rest) (take 4 oob) \<longleftrightarrow> is_valid_bmt dat oob"
  by (simp add: is_valid_bmt_def take_drop nth_append)

lemma try_no_table:
  assumes "no_table N C" "C (bmt_hw s)" "length (bbt_buf s) = bufsz" "4 \<le> bufsz"
  shows "\<exists>buf h. try_bmt N bufsz block s = (Inr True, s\<lparr>bbt_buf := buf, bmt_hw := h\<rparr>) \<and> length buf = bufsz \<and> C h"
proof -
  let ?a = "unat (push_bit (pg_shift s) (blk_pg block s))"
  obtain r h where rd: "nand_read_oob N ?a bufsz (oob_offset s) 4 (bmt_hw s) = (r, h)" by fastforce
  then have C: "C h" and r: "nr_ret r < 0 \<or> bufsz \<le> length (nr_data r) \<and> 4 \<le> length (nr_oob r) \<and> \<not> is_valid_bmt (nr_data r) (nr_oob r)"
    using assms(1) [unfolded no_table_def, rule_format, of "bmt_hw s" bufsz ?a "oob_offset s"] assms(2,4) by simp_all
  let ?d = "take bufsz (nr_data r)"
  let ?buf = "?d @ drop (length ?d) (bbt_buf s)"
  have "try_bmt N bufsz block s = (Inr True, s\<lparr>bbt_buf := ?buf, bmt_hw := h\<rparr>)"
    using rd r assms(3,4) is_valid_bmt_take [of bufsz "nr_data r" "drop (length ?d) (bbt_buf s)" "nr_oob r"]
    by (auto simp: try_bmt_def bindE_def bbt_nand_read_def on_nand_def retE_def fill_bbt_buf_def Let_def)
  moreover have "length ?buf = bufsz" using assms(3) by simp
  ultimately show ?thesis using C by blast
qed

lemma find_no_table:
  assumes "no_table N C" "4 \<le> bufsz" "pool_lba s \<noteq> 0" "C (bmt_hw s)" "length (bbt_buf s) = bufsz"
  shows "\<exists>buf h. find_bmt_loop N bufsz block s = Some (Inr (), s\<lparr>bbt_buf := buf, bmt_hw := h\<rparr>) \<and> length buf = bufsz"
  using assms(3-5)
proof (induction "unat block" arbitrary: block s)
  case 0
  then have "block = 0" by (simp add: unat_eq_0)
  then have "find_bmt_loop N bufsz block s = Some (Inr (), s\<lparr>bbt_buf := bbt_buf s, bmt_hw := bmt_hw s\<rparr>)"
    using 0 by (subst find_bmt_loop.simps) simp
  then show ?case using 0 by blast
next
  case (Suc k)
  obtain buf h where t: "try_bmt N bufsz block s = (Inr True, s\<lparr>bbt_buf := buf, bmt_hw := h\<rparr>)" "length buf = bufsz" "C h"
    using try_no_table [OF assms(1) Suc.prems(2,3) assms(2)] by blast
  show ?case
  proof (cases "block \<ge> pool_lba s")
    case True
    have "k = unat (block - 1)" using Suc.hyps(2) by (simp add: unat_minus_one unat_eq_0 [symmetric] flip: unat_eq_0)
    then obtain buf' h' where "find_bmt_loop N bufsz (block - 1) (s\<lparr>bbt_buf := buf, bmt_hw := h\<rparr>) =
        Some (Inr (), s\<lparr>bbt_buf := buf', bmt_hw := h'\<rparr>)" "length buf' = bufsz"
      using Suc.hyps(1) [of "block - 1" "s\<lparr>bbt_buf := buf, bmt_hw := h\<rparr>"] Suc.prems(1) t by auto
    moreover from this have "find_bmt_loop N bufsz block s = Some (Inr (), s\<lparr>bbt_buf := buf', bmt_hw := h'\<rparr>)"
      using True t by (subst find_bmt_loop.simps) simp
    ultimately show ?thesis by blast
  next
    case False
    then have "find_bmt_loop N bufsz block s = Some (Inr (), s\<lparr>bbt_buf := bbt_buf s, bmt_hw := bmt_hw s\<rparr>)"
      by (subst find_bmt_loop.simps) simp
    then show ?thesis using Suc.prems(3) by blast
  qed
qed

lemma round_up_less: "0 < y \<Longrightarrow> round_up x y < x + y"
proof -
  assume "0 < y"
  moreover have "(x + y - 1) div y * y \<le> x + y - 1" by (rule div_times_less_eq_dividend)
  ultimately show ?thesis unfolding round_up_def by linarith
qed

text \<open>C40. On a flash that holds no table (no read gives data and spare bytes with both signatures and the
  version), with the default table size of 8192 entries, pages of at most 16384 bytes and a pool that
  does not start at block 0, start-up of the second table never succeeds: with more than 8355 blocks it
  returns \<open>-1\<close>; with up to 8355 blocks it writes behind its buffer, because the buffer has room for as
  many entries of \<open>bmt_tbl\<close> as \<open>table_size\<close>, but \<open>bmt_tbl\<close> starts behind \<open>bb_tbl\<close>.\<close>

theorem v2_new_flash_overruns:
  assumes "no_table N C" "C (bmt_hw s)" "of_table_size np = None" "0 < pg_size s" "pg_size s \<le> 16384"
    "pool_lba (v2_geometry np s) \<noteq> 0"
  shows "\<exists>s'. mtk_bmt_init_v2 N np True s =
    Some (if unat (total_blks s) > 8355 then Inr (- 1) else Inl BUF_OVERRUN, s')"
proof -
  let ?g = "v2_geometry np s"
  have g: "table_size ?g = 8192" "pg_size ?g = pg_size s" "total_blks ?g = total_blks s" "bmt_hw ?g = bmt_hw s"
    using assms(3) by (simp_all add: v2_geometry_def Let_def of_default_def)
  have b: "32772 \<le> round_up 32772 (pg_size s)" "round_up 32772 (pg_size s) < 49156"
    using round_up_ge [OF assms(4)] round_up_less [OF assms(4), of 32772] assms(5) by auto
  then have bufsz: "v2_bufsz ?g = round_up 32772 (pg_size s)" by (simp add: v2_bufsz_def g)
  let ?s = "?g\<lparr>bmt_pgs := drop_bit (pg_shift ?g) (v2_bufsz ?g), bbt_buf := replicate (v2_bufsz ?g) 0xFF, bbt_alloc := True,
    bmt_heap := bmt_heap ?g + 1, bbt_set := False\<rparr>"
  have "\<exists>buf h. find_bmt_loop N (v2_bufsz ?g) (total_blks s - 1) ?s = Some (Inr (), ?s\<lparr>bbt_buf := buf, bmt_hw := h\<rparr>)
      \<and> length buf = v2_bufsz ?g"
    by (rule find_no_table [OF assms(1)]) (use assms(2,6) b(1) bufsz g(4) in simp_all)
  then obtain buf h where "find_bmt_loop N (v2_bufsz ?g) (total_blks s - 1) ?s = Some (Inr (), ?s\<lparr>bbt_buf := buf, bmt_hw := h\<rparr>)"
    "length buf = v2_bufsz ?g" by blast
  then have "mtk_bmt_init_v2 N np True s = new_bmt N (?s\<lparr>bbt_buf := buf, bmt_hw := h\<rparr>)" and len: "length buf = v2_bufsz ?g"
    by (simp_all add: mtk_bmt_init_v2_def Let_def g)
  moreover have "\<exists>s'. new_bmt N (?s\<lparr>bbt_buf := buf, bmt_hw := h\<rparr>) =
      Some (if unat (total_blks s) > 8355 then Inr (- 1) else Inl BUF_OVERRUN, s')"
    using b(2) by (simp add: new_bmt_def g clear_bmt_tbl_def Let_def positions bufsz len)
  ultimately show ?thesis by simp
qed

text \<open>An erased flash, of which every read gives \<open>0xFF\<close>.\<close>

definition blank_chip :: "unit nand_ops" where
  "blank_chip = nand_broken\<lparr>nand_read_oob := (\<lambda>_ n _ k h. (\<lparr>nr_ret = 0, nr_data = replicate n 0xFF, nr_oob = replicate k 0xFF\<rparr>, h))\<rparr>"

lemma blank_no_table: "no_table blank_chip (\<lambda>_. True)"
proof -
  have "\<not> is_valid_bmt (replicate n 0xFF) fdm" if "4 \<le> n" for n fdm
  proof -
    have "take 3 (replicate n (0xFF :: u8)) = replicate 3 0xFF" using that by simp
    moreover have "replicate 3 (0xFF :: u8) \<noteq> main_sig" by code_simp
    ultimately show ?thesis by (simp only: is_valid_bmt_def drop_0 simp_thms)
  qed
  then show ?thesis by (simp add: no_table_def blank_chip_def)
qed

theorem v2_new_flash_overruns_witness:
  "\<exists>s'. mtk_bmt_init_v2 blank_chip \<lparr>of_bmt_v2 = True, of_nmbm = False, of_bbt = False, of_remap_range = None, of_pool_size = None,
     of_oob_offset = None, of_table_size = None\<rparr> True ((small_desc ())\<lparr>total_blks := 1024, pg_size := 2048\<rparr>) = Some (Inl BUF_OVERRUN, s')"
  using v2_new_flash_overruns [OF blank_no_table TrueI, of "\<lparr>of_bmt_v2 = True, of_nmbm = False, of_bbt = False, of_remap_range = None,
      of_pool_size = None, of_oob_offset = None, of_table_size = None\<rparr>" "(small_desc ())\<lparr>total_blks := 1024, pg_size := 2048\<rparr>"]
  by (simp add: v2_geometry_def of_default_def Let_def)

end
