(* ===== verification/Spec2Isabelle.thy ===== *)
theory Spec2Isabelle
  imports Smi_Analyser Vlan_Properties Report_Properties Lifecycle_Properties Request_Properties
    Chip_Properties Counter_Properties Rtl8367_Properties Debugfs_Properties Attribute_Properties
    Psb6970_Properties Rtl8306_Properties Led_Properties Bmt_Properties V2_Properties
begin

text \<open>
  Verification of the Ethernet switch stack and of the bad block management of the router firmware: the switch configuration
  layer \<open>swconfig\<close> with its LED triggers, the SMI core shared by the Realtek drivers, the drivers of
  the RTL8366S, the RTL8366RB, the RTL8367 and the RTL8367B, and the drivers of the Lantiq PSB6970 and the
  Realtek RTL8306, which are attached to an MII bus. The sources are under
  \<open>src/target/linux/generic/files/drivers/net/phy\<close>, with the headers \<open>linux/switch.h\<close>,
  \<open>uapi/linux/switch.h\<close>, \<open>linux/rtl8366.h\<close> and \<open>linux/rtl8367.h\<close> under \<open>files/include\<close>
  beside them. The bad block management of MediaTek NAND flash is \<open>mtk_bmt.c\<close> with the tables of
  \<open>mtk_bmt_bbt.c\<close> and \<open>mtk_bmt_v2.c\<close>, under \<open>files/drivers/mtd/nand\<close>.

  \<^bold>\<open>How the parts interact.\<close> A user program sends a netlink request to \<open>swconfig.c\<close>. The
  layer finds the switch in its registry and the attribute in one of six tables (the driver's
  own global, port and VLAN attributes and the layer's defaults), decodes the value and calls
  the handler. The handlers of the Realtek drivers end in \<open>rtl8366_smi.c\<close>, whose VLAN core
  keeps the 4096-entry VLAN table, the 16 or 32 member configurations and the port indices of the
  chip consistent, through the operation table \<open>struct rtl8366_smi_ops\<close> of the chip driver.
  The chip driver packs table entries into registers; registers are reached by frames on two
  GPIO lines or through an external MDIO bus. The PSB6970 driver keeps its VLANs in tables of its own
  and writes them to the chip over the MII bus when a configuration is applied; the RTL8306 driver keeps
  its settings in fields of paged registers of the chip, which two PHY devices share. The LED triggers
  poll the link and counter operations of a driver for the ports that LEDs watch. The bad block management
  stands between the MTD layer and a NAND chip driver, whose functions it replaces: every access to a block goes
  to the block that the table gives for it, and a block that fails is mapped elsewhere and tried again.

  \<^bold>\<open>Theories, bottom up.\<close>
  \<^item> \<open>Prelude\<close>: integer widths, error codes, the monad of operations that return an error
    code or a value and change a state, and the collections \<open>keeps\<close>, \<open>silent\<close> and
    \<open>succeeds\<close> that carry the frame proofs.
  \<^item> \<open>Smi_Wire\<close>: \<open>rtl8366_smi_start\<close> to \<open>__rtl8366_smi_write_reg\<close> of
    \<open>rtl8366_smi.c\<close>, one definition per function, over a record \<open>platform\<close> of GPIO,
    delay and MDIO operations. \<open>Smi_Analyser\<close> instantiates it with a recorder of line events
    and a scripted slave, and proves the frames on the wire.
  \<^item> \<open>Smi_Bus\<close>: register access over GPIO or MDIO, read-modify-write, reset. The locale
    \<open>reg_bus\<close> states that a register bus reads and writes 16-bit words of a chip; the MDIO
    path is proved to provide it for an MDIO slave that latches address and data.
  \<^item> \<open>Smi_Vlan\<close>: the VLAN core, \<open>rtl8366_mc_is_used\<close> to \<open>rtl8366_init_vlan\<close>.
    \<open>Vlan_Spec\<close> has the abstract tables, the abstract updates and the locale
    \<open>vlan_ops\<close>, in which each core operation is shown to implement its abstract update;
    \<open>Vlan_Init\<close> extends the locale to \<open>vlan_switch\<close> by the enable bits.
  \<^item> \<open>Switch_Types\<close>: the interface structures of \<open>switch.h\<close>. \<open>Smi_Switch\<close>: the
    \<open>rtl8366_sw_*\<close> operations of \<open>rtl8366_smi.c\<close> behind it.
  \<^item> \<open>Smi_Debugfs\<close>: the debugfs files of \<open>rtl8366_smi.c\<close>; \<open>Debugfs_Properties\<close> shows for which
    chips the counter table fits its buffer.
  \<^item> \<open>Rtl8366_Common\<close>, \<open>Rtl8366s\<close>, \<open>Rtl8366rb\<close>: the chip drivers with all
    constants, operations, MIB and attribute tables. \<open>Rtl8366s_Chip\<close> and
    \<open>Rtl8366rb_Chip\<close> prove that their operation tables provide \<open>vlan_switch\<close>, under a
    hypothesis on the chip: plain registers hold what was written, and the table access
    control word moves one entry of the VLAN table.
  \<^item> \<open>Rtl8367_Common\<close>, \<open>Rtl8367_Initvals\<close>, \<open>Rtl8367\<close>, \<open>Rtl8367b\<close>: the drivers of the
    next generation, \<open>rtl8367.c\<close> and \<open>rtl8367b.c\<close>, with the register tables they write at
    start-up. \<open>Rtl8367_Tables\<close> has the part of the tables that the two chips share, once, in the
    locale \<open>tables67\<close>; \<open>Rtl8367_Chip\<close> and \<open>Rtl8367b_Chip\<close> add the layout of the VLAN table.
    Both provide \<open>vlan_switch\<close> in its weaker form: a member configuration has no untag mask
    and no priority, and well-formed tables are an invariant of the operations.
  \<^item> \<open>Swconfig\<close>: default attributes, lookup, set requests, the registry, port maps, generic
    link settings; registration counts the arrays it allocates and has the outcome of creating the LED trigger as a
    parameter. \<open>Swconfig_Reply\<close>: get, list and dump requests down to the calls of the netlink
    library, which is a record of operations. \<open>Swconfig_Messages\<close> states the laws of that library
    over the contents of a message and proves what the messages hold; \<open>Swconfig_Properties\<close> has the
    other lemmas of the layer, \<open>Attribute_Properties\<close> the attribute tables of all drivers.
  \<^item> \<open>Switch_Client\<close>: the locale \<open>guarded_driver\<close>, what the layer guarantees to the handlers of a driver
    and what follows for every sequence of set requests.
  \<^item> \<open>Mii_Bus\<close>, \<open>Psb6970\<close>: the driver \<open>psb6970.c\<close> over an MII bus. \<open>Psb6970_Tables\<close> has the tables port
    by port and the registers after an application; \<open>Psb6970_Properties\<close> proves that the driver
    provides \<open>guarded_driver\<close>.
  \<^item> \<open>Rtl8306\<close>: the driver \<open>rtl8306.c\<close>. \<open>Rtl8306_Fields\<close> turns the table of register fields into
    independent variables, in the locale \<open>rtl_chip\<close> of chips with paged registers, some of which may be volatile; \<open>Rtl8306_Spec\<close> has
    weakest preconditions over these variables and the start-up, \<open>Rtl8306_Ports\<close> VLAN mode and port
    lists. \<open>Rtl8306_Properties\<close> proves that the driver provides \<open>guarded_driver\<close> on every bus.
  \<^item> \<open>Swconfig_Leds\<close>: the LED triggers of \<open>swconfig_leds.c\<close>; \<open>Led_Properties\<close> has the states of a
    trigger as a step relation and what a run of the work item does to an LED.
  \<^item> \<open>Mtk_Bmt\<close>: reading, writing, erasing, marking, the debugging files, attaching and detaching of
    \<open>mtk_bmt.c\<close>, over the operations of the chip and of the table; \<open>Mtk_Bmt_Bbt\<close> is the table of
    \<open>mtk_bmt_bbt.c\<close>, \<open>Mtk_Bmt_V2\<close> that of \<open>mtk_bmt_v2.c\<close>, down to the bytes of its buffer. \<open>Bmt_Client\<close> has the locale \<open>bmt_table\<close>, what \<open>mtk_bmt.c\<close> relies on in a table, and
    what follows on chips that work and on chips that fail; \<open>Bbt_Mapping\<close> shows the mapping of the table as a
    list of blocks, \<open>Bbt_Remap\<close> that the table provides \<open>bmt_table\<close>; \<open>V2_Table\<close> shows the entries of the second table as independent variables and that it
    provides \<open>bmt_table\<close> too, while the block that holds it can be written, and what an upload keeps when it cannot. \<open>Bmt_Properties\<close> and \<open>V2_Properties\<close> have
    the claims.
  \<^item> \<open>Smi_Probe\<close>: probing, detection, start-up, the MII bus, registration and removal,
    with the kernel services that can fail as parameters. \<open>Probe_Properties\<close> has what is
    held and released, \<open>Startup\<close> the run on a chip that answers.
  \<^item> \<open>Bench\<close>, \<open>Bench67\<close>: reference chips that meet the hypotheses on the hardware, for the
    concrete instances. The theories \<open>*_Properties\<close> hold the claims.

  \<^bold>\<open>State.\<close> \<open>smi_state\<close> is the mutable part of \<open>struct rtl8366_smi\<close> (the two enable
  flags and the lock) with the hardware behind it as a type parameter; the constant part is the
  record \<open>rtl8366_smi\<close>. C functions that return an error code and a result through a pointer
  return a value of the sum type. Integers have the width of the source; \<open>int\<close> loop
  counters and indices that the code bounds are natural numbers.

  \<^bold>\<open>What the claims show.\<close> The wire: an acknowledged write puts exactly its five bytes
  between one start and one stop condition, a read returns what the slave sends, and every
  path, also a failing one, closes the transaction and returns the lock. The VLAN tables: all
  four drivers implement the table contract, the core implements its abstract updates, the two
  tables stay in step, a PVID or a port list that was accepted is read back, the error
  branches leave the tables alone. The life cycle: start-up on an answering chip succeeds and
  configures per-port VLANs, a failing probe gives back what the drivers took, removal undoes probing. The
  exceptions are those of the registration of a switch and part of the statements: its two arrays leak when there is no number left
  or the LED trigger cannot be created, the switch stays listed in the latter case, and removal never frees
  the port map.
  The configuration layer: names and ids stay unique, a request reaches a driver only when it
  is in range, listing agrees with lookup, port lists survive the round trip through the
  layer and the chip. The PSB6970: no request makes the driver leave its tables, an application
  programs the chip as the tables say except where register addresses overlap and in the tag settings of
  the ports, which follow a wrong bit test. The RTL8306: its
  fields behave as independent variables, start-up isolates the ports, a port list changes the fields it should
  and no other (with the sixth entry read as a tagged one), no request runs into a \<open>BUG_ON\<close>, and the second PHY of the chip works with an
  instance that start-up never sets. The LEDs: the right
  ports are polled, an LED settles on the state of its ports unless it was lit when the trigger was
  activated and has no link, no work outlives its trigger. The settings of the chips: rate limits, LEDs, mirroring, counters, PHY
  registers, external interfaces. The flash: the mapping of the bad block table permutes the blocks of a range,
  data written through it is read back and nothing else changes, accesses return however the chip fails,
  attaching establishes the invariant or restores the device, a remap moves all later blocks, and without
  a range nothing is remapped. On every chip the second table gives a failed block the first free block of the pool and
  moves no other one, and refuses only when there is none; on a flash without a table its start-up writes behind its
  buffer or, on a large flash, gives up.

  \<^bold>\<open>Bounds and fuel.\<close> The acknowledge loop has a counter in the source (six samples), so
  has the reset poll (ten reads); all other loops run over lists or counted ranges. The two
  non-structural recursions, \<open>multipart_loop\<close> and \<open>rtl8367_phy_poll\<close>, have termination proofs
  (at most two rounds each). The read, write and erase loops of \<open>mtk_bmt.c\<close> end only if the chip makes
  progress: they are partial functions, and that they return is a claim. So are the two loops of the start-up of
  \<open>mtk_bmt_v2.c\<close>, whose 16-bit counters can wrap. Their claims are for requests without
  spare bytes; the definitions have them.

  \<^bold>\<open>Hypotheses.\<close> GPIO, MDIO, the MII bus, the NAND chip, netlink message space, allocation, device model and LED core are
  arguments, and so are the device tree properties and platform data of a device. What a claim needs of them is a hypothesis in its statement, and a concrete
  instance is evaluated for each. The start-up and the port lists of the RTL8306 are shown
  for chips whose control and status registers of the PHYs may change at any access, since a comment of the driver says that
  accesses to register 22 of ports 4 and 5 disturb them; whether the driver restores these registers is not shown.

  \<^bold>\<open>Not modelled.\<close> The byte layout
  of netlink attributes (a message is the list of the attributes it carries, with their sizes)
  and the parser of requests, both in the kernel; kernel locking other than the spin lock of a transaction; the
  other switch families of the directory; the third bad block table, \<open>mtk_bmt_nmbm.c\<close>, which is an
  argument of \<open>mtk_bmt_attach\<close>, and the partition parsers; the rest of the firmware build system, which has
  no code in common with the modelled drivers.
\<close>

end
